(* ===== verification/Prelude.thy ===== *)
theory Prelude
  imports Main "HOL-Library.Sublist"
begin

text \<open>
  Shared vocabulary of the development: the collections of rewrite rules the component theories
  fill, and generic facts about lists and options that no single component owns.

  Optional properties of a TypeScript object (\<open>readonly flag?: boolean\<close>) are options:
  \<^const>\<open>None\<close> is \<open>undefined\<close>, so the test \<open>flag !== true\<close> of the source is
  \<open>flag \<noteq> Some True\<close> here.
\<close>

named_theorems guard_valid
  "when a transition guard accepts its context"

named_theorems preserves_intro
  "transaction bodies that keep a predicate of the database"

subsection \<open>Lists of rows\<close>

text \<open>
  A table is the list of its rows in scan order.  \<open>update_where p f\<close> is SQL's
  \<open>UPDATE ... WHERE p\<close>.
\<close>

definition update_where :: "('a \<Rightarrow> bool) \<Rightarrow> ('a \<Rightarrow> 'a) \<Rightarrow> 'a list \<Rightarrow> 'a list" where
  "update_where p f xs = map (\<lambda>x. if p x then f x else x) xs"

lemma length_update_where [simp]: "length (update_where p f xs) = length xs"
  by (simp add: update_where_def)

lemma update_where_Nil [simp]: "update_where p f [] = []"
  by (simp add: update_where_def)

lemma update_where_Cons [simp]:
  "update_where p f (x # xs) = (if p x then f x else x) # update_where p f xs"
  by (simp add: update_where_def)

lemma set_update_where:
  "y \<in> set (update_where p f xs) \<longleftrightarrow> (\<exists>x \<in> set xs. y = (if p x then f x else x))"
  by (auto simp: update_where_def)

lemma map_update_where_same:
  assumes "\<And>x. p x \<Longrightarrow> g (f x) = g x"
  shows "map g (update_where p f xs) = map g xs"
  using assms by (induction xs) auto

lemma update_where_none:
  assumes "\<And>x. x \<in> set xs \<Longrightarrow> \<not> p x"
  shows "update_where p f xs = xs"
  using assms by (induction xs) auto

lemma find_Some_iff_mem:
  "find p xs = Some x \<Longrightarrow> x \<in> set xs \<and> p x"
  by (auto simp: find_Some_iff)

lemma find_key_Some:
  assumes "distinct (map k xs)" and "x \<in> set xs"
  shows "find (\<lambda>y. k y = k x) xs = Some x"
  using assms by (induction xs) (auto simp: image_iff)

lemma find_append_Some: "find p xs = Some x \<Longrightarrow> find p (xs @ ys) = Some x"
  by (induction xs) auto

lemma find_append_None: "\<forall>x \<in> set xs. \<not> p x \<Longrightarrow> find p (xs @ ys) = find p ys"
  by (induction xs) auto

text \<open>Reading a row back by its key after an update of the rows selected by that key.\<close>

lemma find_update_where_key:
  assumes "\<And>x. k (f x) = k x"
  shows "find (\<lambda>y. k y = i) (update_where (\<lambda>y. k y = i) f xs)
       = map_option f (find (\<lambda>y. k y = i) xs)"
  using assms by (induction xs) auto

lemma find_update_where_other:
  assumes "\<And>x. k (f x) = k x" and "i \<noteq> j"
  shows "find (\<lambda>y. k y = j) (update_where (\<lambda>y. k y = i) f xs) = find (\<lambda>y. k y = j) xs"
  using assms by (induction xs) auto

subsection \<open>Numbers in messages\<close>

text \<open>Template literals print integers in decimal and a missing value as \<open>undefined\<close>.\<close>

fun string_of_nat :: "nat \<Rightarrow> string" where
  "string_of_nat n =
    (if n < 10 then [char_of (of_char (CHR ''0'') + n)]
     else string_of_nat (n div 10) @ [char_of (of_char (CHR ''0'') + n mod 10)])"

declare string_of_nat.simps [simp del]

definition string_of_int :: "int \<Rightarrow> string" where
  "string_of_int i = (if i < 0 then ''-'' @ string_of_nat (nat (- i)) else string_of_nat (nat i))"

definition string_of_int_opt :: "int option \<Rightarrow> string" where
  "string_of_int_opt x = (case x of None \<Rightarrow> ''undefined'' | Some i \<Rightarrow> string_of_int i)"

text \<open>\<open>Array.prototype.join(sep)\<close>.\<close>

fun join_strings :: "string \<Rightarrow> string list \<Rightarrow> string" where
  "join_strings sep [] = []"
| "join_strings sep [x] = x"
| "join_strings sep (x # y # xs) = x @ sep @ join_strings sep (y # xs)"

subsection \<open>Objects used as dictionaries\<close>

text \<open>
  A \<open>Record<string, T>\<close> is an association list of its own properties in insertion order.  Reading
  \<open>obj[key]\<close> and testing \<open>key in obj\<close> also see the properties inherited from
  \<open>Object.prototype\<close>, which the model keeps apart.
\<close>

definition OBJECT_PROTOTYPE_KEYS :: "string list" where
  "OBJECT_PROTOTYPE_KEYS =
    [''constructor'', ''__defineGetter__'', ''__defineSetter__'', ''hasOwnProperty'',
     ''__lookupGetter__'', ''__lookupSetter__'', ''isPrototypeOf'', ''propertyIsEnumerable'',
     ''toString'', ''valueOf'', ''__proto__'', ''toLocaleString'']"

datatype 'a js_member = Own 'a | Inherited string

definition js_get :: "(string \<times> 'a) list \<Rightarrow> string \<Rightarrow> 'a js_member option" where
  "js_get obj key = (case map_of obj key of
      Some v \<Rightarrow> Some (Own v)
    | None \<Rightarrow> if key \<in> set OBJECT_PROTOTYPE_KEYS then Some (Inherited key) else None)"

definition js_in :: "string \<Rightarrow> (string \<times> 'a) list \<Rightarrow> bool" where
  "js_in key obj = (js_get obj key \<noteq> None)"

lemma js_in_iff: "js_in key obj \<longleftrightarrow> key \<in> fst ` set obj \<or> key \<in> set OBJECT_PROTOTYPE_KEYS"
  using map_of_eq_None_iff[of obj key] by (cases "map_of obj key") (auto simp: js_in_def js_get_def)

subsection \<open>Strings\<close>

text \<open>
  Strings are lists of 8-bit code units.  \<open>js_space\<close> is the class \<open>\s\<close> of regular expressions, which
  is also what \<open>trim\<close> removes, and \<open>js_line_end\<close> the characters the regular expression \<open>.\<close> does
  not match, both restricted to 8-bit code units.
\<close>

definition js_space :: "char \<Rightarrow> bool" where
  "js_space c = ((of_char c :: nat) \<in> {9, 10, 11, 12, 13, 32, 160})"

definition js_line_end :: "char \<Rightarrow> bool" where
  "js_line_end c = ((of_char c :: nat) \<in> {10, 13})"

definition trim :: "string \<Rightarrow> string" where
  "trim s = rev (dropWhile js_space (rev (dropWhile js_space s)))"

text \<open>A value put between double quotes in a message.\<close>

definition quoted :: "string \<Rightarrow> string" where
  "quoted s = CHR 0x22 # s @ [CHR 0x22]"

text \<open>\<open>s.split(/\s+/)\<close>.\<close>

function split_space :: "string \<Rightarrow> string list" where
  "split_space s =
    (case dropWhile (\<lambda>c. \<not> js_space c) s of
       [] \<Rightarrow> [s]
     | _ # rest \<Rightarrow> takeWhile (\<lambda>c. \<not> js_space c) s # split_space (dropWhile js_space rest))"
  by pat_completeness auto
termination
proof (relation "measure length")
  fix s :: string and x rest
  assume "dropWhile (\<lambda>c. \<not> js_space c) s = x # rest"
  then have "length (x # rest) \<le> length s" by (metis length_dropWhile_le)
  then have "length (dropWhile js_space rest) < length s"
    using length_dropWhile_le[of js_space rest] by simp
  then show "(dropWhile js_space rest, s) \<in> measure length" by simp
qed simp

declare split_space.simps [simp del]

end
