(* ===== verification/Enums.thy ===== *)
theory Enums
  imports Prelude
begin

text \<open>
  The closed vocabularies of \<open>packages/domain/src/enums.ts\<close>.  Each \<open>const\<close> object of the
  source is a datatype with the source's keys as constructors and a function \<open>X_value\<close> giving
  the wire value stored in SQLite and put in messages.  The status types of the four state
  machines are instances of \<open>enum\<close>, with \<open>X_values\<close> standing for \<open>Object.values(X)\<close>.
\<close>

subsection \<open>Vocabularies and their wire values\<close>

datatype TaskStatus =
    BACKLOG
  | READY
  | BLOCKED
  | ASSIGNED
  | IN_DEVELOPMENT
  | DEV_COMPLETE
  | IN_REVIEW
  | CHANGES_REQUESTED
  | APPROVED
  | QUEUED_FOR_MERGE
  | MERGING
  | POST_MERGE_VALIDATION
  | DONE
  | FAILED
  | ESCALATED
  | CANCELLED

fun TaskStatus_value :: "TaskStatus \<Rightarrow> string" where
  "TaskStatus_value TaskStatus.BACKLOG = ''BACKLOG''"
| "TaskStatus_value TaskStatus.READY = ''READY''"
| "TaskStatus_value TaskStatus.BLOCKED = ''BLOCKED''"
| "TaskStatus_value TaskStatus.ASSIGNED = ''ASSIGNED''"
| "TaskStatus_value TaskStatus.IN_DEVELOPMENT = ''IN_DEVELOPMENT''"
| "TaskStatus_value TaskStatus.DEV_COMPLETE = ''DEV_COMPLETE''"
| "TaskStatus_value TaskStatus.IN_REVIEW = ''IN_REVIEW''"
| "TaskStatus_value TaskStatus.CHANGES_REQUESTED = ''CHANGES_REQUESTED''"
| "TaskStatus_value TaskStatus.APPROVED = ''APPROVED''"
| "TaskStatus_value TaskStatus.QUEUED_FOR_MERGE = ''QUEUED_FOR_MERGE''"
| "TaskStatus_value TaskStatus.MERGING = ''MERGING''"
| "TaskStatus_value TaskStatus.POST_MERGE_VALIDATION = ''POST_MERGE_VALIDATION''"
| "TaskStatus_value TaskStatus.DONE = ''DONE''"
| "TaskStatus_value TaskStatus.FAILED = ''FAILED''"
| "TaskStatus_value TaskStatus.ESCALATED = ''ESCALATED''"
| "TaskStatus_value TaskStatus.CANCELLED = ''CANCELLED''"

datatype TaskPriority =
    CRITICAL
  | HIGH
  | MEDIUM
  | LOW

fun TaskPriority_value :: "TaskPriority \<Rightarrow> string" where
  "TaskPriority_value TaskPriority.CRITICAL = ''critical''"
| "TaskPriority_value TaskPriority.HIGH = ''high''"
| "TaskPriority_value TaskPriority.MEDIUM = ''medium''"
| "TaskPriority_value TaskPriority.LOW = ''low''"

datatype RiskLevel =
    HIGH
  | MEDIUM
  | LOW

fun RiskLevel_value :: "RiskLevel \<Rightarrow> string" where
  "RiskLevel_value RiskLevel.HIGH = ''high''"
| "RiskLevel_value RiskLevel.MEDIUM = ''medium''"
| "RiskLevel_value RiskLevel.LOW = ''low''"

datatype WorkerLeaseStatus =
    IDLE
  | LEASED
  | STARTING
  | RUNNING
  | HEARTBEATING
  | COMPLETING
  | TIMED_OUT
  | CRASHED
  | RECLAIMED

fun WorkerLeaseStatus_value :: "WorkerLeaseStatus \<Rightarrow> string" where
  "WorkerLeaseStatus_value WorkerLeaseStatus.IDLE = ''IDLE''"
| "WorkerLeaseStatus_value WorkerLeaseStatus.LEASED = ''LEASED''"
| "WorkerLeaseStatus_value WorkerLeaseStatus.STARTING = ''STARTING''"
| "WorkerLeaseStatus_value WorkerLeaseStatus.RUNNING = ''RUNNING''"
| "WorkerLeaseStatus_value WorkerLeaseStatus.HEARTBEATING = ''HEARTBEATING''"
| "WorkerLeaseStatus_value WorkerLeaseStatus.COMPLETING = ''COMPLETING''"
| "WorkerLeaseStatus_value WorkerLeaseStatus.TIMED_OUT = ''TIMED_OUT''"
| "WorkerLeaseStatus_value WorkerLeaseStatus.CRASHED = ''CRASHED''"
| "WorkerLeaseStatus_value WorkerLeaseStatus.RECLAIMED = ''RECLAIMED''"

datatype ReviewCycleStatus =
    NOT_STARTED
  | ROUTED
  | IN_PROGRESS
  | AWAITING_REQUIRED_REVIEWS
  | CONSOLIDATING
  | APPROVED
  | REJECTED
  | ESCALATED

fun ReviewCycleStatus_value :: "ReviewCycleStatus \<Rightarrow> string" where
  "ReviewCycleStatus_value ReviewCycleStatus.NOT_STARTED = ''NOT_STARTED''"
| "ReviewCycleStatus_value ReviewCycleStatus.ROUTED = ''ROUTED''"
| "ReviewCycleStatus_value ReviewCycleStatus.IN_PROGRESS = ''IN_PROGRESS''"
| "ReviewCycleStatus_value ReviewCycleStatus.AWAITING_REQUIRED_REVIEWS = ''AWAITING_REQUIRED_REVIEWS''"
| "ReviewCycleStatus_value ReviewCycleStatus.CONSOLIDATING = ''CONSOLIDATING''"
| "ReviewCycleStatus_value ReviewCycleStatus.APPROVED = ''APPROVED''"
| "ReviewCycleStatus_value ReviewCycleStatus.REJECTED = ''REJECTED''"
| "ReviewCycleStatus_value ReviewCycleStatus.ESCALATED = ''ESCALATED''"

datatype MergeQueueItemStatus =
    ENQUEUED
  | PREPARING
  | REBASING
  | VALIDATING
  | MERGING
  | MERGED
  | REQUEUED
  | FAILED

fun MergeQueueItemStatus_value :: "MergeQueueItemStatus \<Rightarrow> string" where
  "MergeQueueItemStatus_value MergeQueueItemStatus.ENQUEUED = ''ENQUEUED''"
| "MergeQueueItemStatus_value MergeQueueItemStatus.PREPARING = ''PREPARING''"
| "MergeQueueItemStatus_value MergeQueueItemStatus.REBASING = ''REBASING''"
| "MergeQueueItemStatus_value MergeQueueItemStatus.VALIDATING = ''VALIDATING''"
| "MergeQueueItemStatus_value MergeQueueItemStatus.MERGING = ''MERGING''"
| "MergeQueueItemStatus_value MergeQueueItemStatus.MERGED = ''MERGED''"
| "MergeQueueItemStatus_value MergeQueueItemStatus.REQUEUED = ''REQUEUED''"
| "MergeQueueItemStatus_value MergeQueueItemStatus.FAILED = ''FAILED''"

datatype DependencyType =
    BLOCKS
  | RELATES_TO
  | PARENT_CHILD

fun DependencyType_value :: "DependencyType \<Rightarrow> string" where
  "DependencyType_value DependencyType.BLOCKS = ''blocks''"
| "DependencyType_value DependencyType.RELATES_TO = ''relates_to''"
| "DependencyType_value DependencyType.PARENT_CHILD = ''parent_child''"

datatype WorkerPoolType =
    DEVELOPER
  | REVIEWER
  | LEAD_REVIEWER
  | MERGE_ASSIST
  | PLANNER

fun WorkerPoolType_value :: "WorkerPoolType \<Rightarrow> string" where
  "WorkerPoolType_value WorkerPoolType.DEVELOPER = ''developer''"
| "WorkerPoolType_value WorkerPoolType.REVIEWER = ''reviewer''"
| "WorkerPoolType_value WorkerPoolType.LEAD_REVIEWER = ''lead-reviewer''"
| "WorkerPoolType_value WorkerPoolType.MERGE_ASSIST = ''merge-assist''"
| "WorkerPoolType_value WorkerPoolType.PLANNER = ''planner''"

datatype JobType =
    SCHEDULER_TICK
  | WORKER_DISPATCH
  | REVIEWER_DISPATCH
  | LEAD_REVIEW_CONSOLIDATION
  | MERGE_DISPATCH
  | VALIDATION_EXECUTION
  | RECONCILIATION_SWEEP
  | CLEANUP

fun JobType_value :: "JobType \<Rightarrow> string" where
  "JobType_value JobType.SCHEDULER_TICK = ''scheduler_tick''"
| "JobType_value JobType.WORKER_DISPATCH = ''worker_dispatch''"
| "JobType_value JobType.REVIEWER_DISPATCH = ''reviewer_dispatch''"
| "JobType_value JobType.LEAD_REVIEW_CONSOLIDATION = ''lead_review_consolidation''"
| "JobType_value JobType.MERGE_DISPATCH = ''merge_dispatch''"
| "JobType_value JobType.VALIDATION_EXECUTION = ''validation_execution''"
| "JobType_value JobType.RECONCILIATION_SWEEP = ''reconciliation_sweep''"
| "JobType_value JobType.CLEANUP = ''cleanup''"

datatype JobStatus =
    PENDING
  | CLAIMED
  | RUNNING
  | COMPLETED
  | FAILED
  | CANCELLED

fun JobStatus_value :: "JobStatus \<Rightarrow> string" where
  "JobStatus_value JobStatus.PENDING = ''pending''"
| "JobStatus_value JobStatus.CLAIMED = ''claimed''"
| "JobStatus_value JobStatus.RUNNING = ''running''"
| "JobStatus_value JobStatus.COMPLETED = ''completed''"
| "JobStatus_value JobStatus.FAILED = ''failed''"
| "JobStatus_value JobStatus.CANCELLED = ''cancelled''"

datatype ReviewVerdict =
    APPROVED
  | CHANGES_REQUESTED
  | ESCALATED

fun ReviewVerdict_value :: "ReviewVerdict \<Rightarrow> string" where
  "ReviewVerdict_value ReviewVerdict.APPROVED = ''approved''"
| "ReviewVerdict_value ReviewVerdict.CHANGES_REQUESTED = ''changes_requested''"
| "ReviewVerdict_value ReviewVerdict.ESCALATED = ''escalated''"

datatype LeadReviewDecision =
    APPROVED
  | APPROVED_WITH_FOLLOW_UP
  | CHANGES_REQUESTED
  | ESCALATED

fun LeadReviewDecision_value :: "LeadReviewDecision \<Rightarrow> string" where
  "LeadReviewDecision_value LeadReviewDecision.APPROVED = ''approved''"
| "LeadReviewDecision_value LeadReviewDecision.APPROVED_WITH_FOLLOW_UP = ''approved_with_follow_up''"
| "LeadReviewDecision_value LeadReviewDecision.CHANGES_REQUESTED = ''changes_requested''"
| "LeadReviewDecision_value LeadReviewDecision.ESCALATED = ''escalated''"

datatype FileScopeEnforcementLevel =
    STRICT
  | AUDIT
  | ADVISORY

fun FileScopeEnforcementLevel_value :: "FileScopeEnforcementLevel \<Rightarrow> string" where
  "FileScopeEnforcementLevel_value FileScopeEnforcementLevel.STRICT = ''strict''"
| "FileScopeEnforcementLevel_value FileScopeEnforcementLevel.AUDIT = ''audit''"
| "FileScopeEnforcementLevel_value FileScopeEnforcementLevel.ADVISORY = ''advisory''"

datatype EscalationAction =
    ESCALATE
  | FAIL_THEN_ESCALATE

fun EscalationAction_value :: "EscalationAction \<Rightarrow> string" where
  "EscalationAction_value EscalationAction.ESCALATE = ''escalate''"
| "EscalationAction_value EscalationAction.FAIL_THEN_ESCALATE = ''fail_then_escalate''"

subsection \<open>Object.values of the status types\<close>

definition TaskStatus_values :: "TaskStatus list" where
  "TaskStatus_values =
    [TaskStatus.BACKLOG, TaskStatus.READY, TaskStatus.BLOCKED, TaskStatus.ASSIGNED,
     TaskStatus.IN_DEVELOPMENT, TaskStatus.DEV_COMPLETE, TaskStatus.IN_REVIEW,
     TaskStatus.CHANGES_REQUESTED, TaskStatus.APPROVED, TaskStatus.QUEUED_FOR_MERGE,
     TaskStatus.MERGING, TaskStatus.POST_MERGE_VALIDATION, TaskStatus.DONE, TaskStatus.FAILED,
     TaskStatus.ESCALATED, TaskStatus.CANCELLED]"

lemma TaskStatus_values_UNIV [simp]: "x \<in> set TaskStatus_values"
  by (cases x) (simp_all add: TaskStatus_values_def)

instantiation TaskStatus :: enum
begin

definition enum_TaskStatus :: "TaskStatus list" where
  "enum_TaskStatus = TaskStatus_values"

definition enum_all_TaskStatus :: "(TaskStatus \<Rightarrow> bool) \<Rightarrow> bool" where
  "enum_all_TaskStatus P = list_all P TaskStatus_values"

definition enum_ex_TaskStatus :: "(TaskStatus \<Rightarrow> bool) \<Rightarrow> bool" where
  "enum_ex_TaskStatus P = list_ex P TaskStatus_values"

instance
  by standard
    (auto simp: enum_TaskStatus_def enum_all_TaskStatus_def enum_ex_TaskStatus_def list_all_iff list_ex_iff,
     simp add: TaskStatus_values_def)

end

definition WorkerLeaseStatus_values :: "WorkerLeaseStatus list" where
  "WorkerLeaseStatus_values =
    [WorkerLeaseStatus.IDLE, WorkerLeaseStatus.LEASED, WorkerLeaseStatus.STARTING,
     WorkerLeaseStatus.RUNNING, WorkerLeaseStatus.HEARTBEATING, WorkerLeaseStatus.COMPLETING,
     WorkerLeaseStatus.TIMED_OUT, WorkerLeaseStatus.CRASHED, WorkerLeaseStatus.RECLAIMED]"

lemma WorkerLeaseStatus_values_UNIV [simp]: "x \<in> set WorkerLeaseStatus_values"
  by (cases x) (simp_all add: WorkerLeaseStatus_values_def)

instantiation WorkerLeaseStatus :: enum
begin

definition enum_WorkerLeaseStatus :: "WorkerLeaseStatus list" where
  "enum_WorkerLeaseStatus = WorkerLeaseStatus_values"

definition enum_all_WorkerLeaseStatus :: "(WorkerLeaseStatus \<Rightarrow> bool) \<Rightarrow> bool" where
  "enum_all_WorkerLeaseStatus P = list_all P WorkerLeaseStatus_values"

definition enum_ex_WorkerLeaseStatus :: "(WorkerLeaseStatus \<Rightarrow> bool) \<Rightarrow> bool" where
  "enum_ex_WorkerLeaseStatus P = list_ex P WorkerLeaseStatus_values"

instance
  by standard
    (auto simp: enum_WorkerLeaseStatus_def enum_all_WorkerLeaseStatus_def enum_ex_WorkerLeaseStatus_def list_all_iff list_ex_iff,
     simp add: WorkerLeaseStatus_values_def)

end

definition ReviewCycleStatus_values :: "ReviewCycleStatus list" where
  "ReviewCycleStatus_values =
    [ReviewCycleStatus.NOT_STARTED, ReviewCycleStatus.ROUTED, ReviewCycleStatus.IN_PROGRESS,
     ReviewCycleStatus.AWAITING_REQUIRED_REVIEWS, ReviewCycleStatus.CONSOLIDATING,
     ReviewCycleStatus.APPROVED, ReviewCycleStatus.REJECTED, ReviewCycleStatus.ESCALATED]"

lemma ReviewCycleStatus_values_UNIV [simp]: "x \<in> set ReviewCycleStatus_values"
  by (cases x) (simp_all add: ReviewCycleStatus_values_def)

instantiation ReviewCycleStatus :: enum
begin

definition enum_ReviewCycleStatus :: "ReviewCycleStatus list" where
  "enum_ReviewCycleStatus = ReviewCycleStatus_values"

definition enum_all_ReviewCycleStatus :: "(ReviewCycleStatus \<Rightarrow> bool) \<Rightarrow> bool" where
  "enum_all_ReviewCycleStatus P = list_all P ReviewCycleStatus_values"

definition enum_ex_ReviewCycleStatus :: "(ReviewCycleStatus \<Rightarrow> bool) \<Rightarrow> bool" where
  "enum_ex_ReviewCycleStatus P = list_ex P ReviewCycleStatus_values"

instance
  by standard
    (auto simp: enum_ReviewCycleStatus_def enum_all_ReviewCycleStatus_def enum_ex_ReviewCycleStatus_def list_all_iff list_ex_iff,
     simp add: ReviewCycleStatus_values_def)

end

definition MergeQueueItemStatus_values :: "MergeQueueItemStatus list" where
  "MergeQueueItemStatus_values =
    [MergeQueueItemStatus.ENQUEUED, MergeQueueItemStatus.PREPARING, MergeQueueItemStatus.REBASING,
     MergeQueueItemStatus.VALIDATING, MergeQueueItemStatus.MERGING, MergeQueueItemStatus.MERGED,
     MergeQueueItemStatus.REQUEUED, MergeQueueItemStatus.FAILED]"

lemma MergeQueueItemStatus_values_UNIV [simp]: "x \<in> set MergeQueueItemStatus_values"
  by (cases x) (simp_all add: MergeQueueItemStatus_values_def)

instantiation MergeQueueItemStatus :: enum
begin

definition enum_MergeQueueItemStatus :: "MergeQueueItemStatus list" where
  "enum_MergeQueueItemStatus = MergeQueueItemStatus_values"

definition enum_all_MergeQueueItemStatus :: "(MergeQueueItemStatus \<Rightarrow> bool) \<Rightarrow> bool" where
  "enum_all_MergeQueueItemStatus P = list_all P MergeQueueItemStatus_values"

definition enum_ex_MergeQueueItemStatus :: "(MergeQueueItemStatus \<Rightarrow> bool) \<Rightarrow> bool" where
  "enum_ex_MergeQueueItemStatus P = list_ex P MergeQueueItemStatus_values"

instance
  by standard
    (auto simp: enum_MergeQueueItemStatus_def enum_all_MergeQueueItemStatus_def enum_ex_MergeQueueItemStatus_def list_all_iff list_ex_iff,
     simp add: MergeQueueItemStatus_values_def)

end

subsection \<open>Wire values are unambiguous\<close>

text \<open>
  The services compare wire values with \<open>===\<close>; distinct constructors have distinct wire values,
  so comparing constructors is the same test.
\<close>

lemma TaskStatus_value_inj [simp]: "TaskStatus_value x = TaskStatus_value y \<longleftrightarrow> x = y"
  by (cases x; cases y) simp_all

lemma TaskPriority_value_inj [simp]: "TaskPriority_value x = TaskPriority_value y \<longleftrightarrow> x = y"
  by (cases x; cases y) simp_all

lemma RiskLevel_value_inj [simp]: "RiskLevel_value x = RiskLevel_value y \<longleftrightarrow> x = y"
  by (cases x; cases y) simp_all

lemma WorkerLeaseStatus_value_inj [simp]: "WorkerLeaseStatus_value x = WorkerLeaseStatus_value y \<longleftrightarrow> x = y"
  by (cases x; cases y) simp_all

lemma ReviewCycleStatus_value_inj [simp]: "ReviewCycleStatus_value x = ReviewCycleStatus_value y \<longleftrightarrow> x = y"
  by (cases x; cases y) simp_all

lemma MergeQueueItemStatus_value_inj [simp]: "MergeQueueItemStatus_value x = MergeQueueItemStatus_value y \<longleftrightarrow> x = y"
  by (cases x; cases y) simp_all

lemma DependencyType_value_inj [simp]: "DependencyType_value x = DependencyType_value y \<longleftrightarrow> x = y"
  by (cases x; cases y) simp_all

lemma WorkerPoolType_value_inj [simp]: "WorkerPoolType_value x = WorkerPoolType_value y \<longleftrightarrow> x = y"
  by (cases x; cases y) simp_all

lemma JobType_value_inj [simp]: "JobType_value x = JobType_value y \<longleftrightarrow> x = y"
  by (cases x; cases y) simp_all

lemma JobStatus_value_inj [simp]: "JobStatus_value x = JobStatus_value y \<longleftrightarrow> x = y"
  by (cases x; cases y) simp_all

lemma ReviewVerdict_value_inj [simp]: "ReviewVerdict_value x = ReviewVerdict_value y \<longleftrightarrow> x = y"
  by (cases x; cases y) simp_all

lemma LeadReviewDecision_value_inj [simp]: "LeadReviewDecision_value x = LeadReviewDecision_value y \<longleftrightarrow> x = y"
  by (cases x; cases y) simp_all

lemma FileScopeEnforcementLevel_value_inj [simp]: "FileScopeEnforcementLevel_value x = FileScopeEnforcementLevel_value y \<longleftrightarrow> x = y"
  by (cases x; cases y) simp_all

lemma EscalationAction_value_inj [simp]: "EscalationAction_value x = EscalationAction_value y \<longleftrightarrow> x = y"
  by (cases x; cases y) simp_all

end
