(* ===== verification/ValidationPolicy.thy ===== *)
theory ValidationPolicy
  imports Enums
begin

text \<open>
  \<open>packages/domain/src/policies/validation-policy.ts\<close>: the built-in validation profiles, the choice of
  a profile by precedence and the detection of checks without a command.  Dictionaries are
  association lists in insertion order; \<open>selectProfile\<close> throws by returning \<open>Inl\<close>.
\<close>

datatype ValidationStage = DEVELOPMENT | MERGE

datatype ProfileSelectionSource =
    TASK_OVERRIDE
  | WORKFLOW_TEMPLATE
  | TASK_TYPE_DEFAULT
  | SYSTEM_DEFAULT

record ValidationProfile =
  required_checks :: "string list"
  optional_checks :: "string list"
  commands :: "(string \<times> string) list"
  fail_on_skipped_required_check :: bool

record ValidationPolicy =
  profiles :: "(string \<times> ValidationProfile) list"

record ProfileSelectionContext =
  taskProfileOverride :: "string option"
  workflowTemplateProfile :: "string option"
  taskTypeProfile :: "string option"
  stage :: ValidationStage

record ProfileSelectionResult =
  profile :: "ValidationProfile js_member"
  profileName :: string
  source :: ProfileSelectionSource

record MissingValidationProfileError =
  missing_profileName :: string
  missing_source :: ProfileSelectionSource
  availableProfiles :: "string list"

definition DEFAULT_DEV_PROFILE_NAME :: string where
  "DEFAULT_DEV_PROFILE_NAME = ''default-dev''"

definition MERGE_GATE_PROFILE_NAME :: string where
  "MERGE_GATE_PROFILE_NAME = ''merge-gate''"

definition DEFAULT_DEV_PROFILE :: ValidationProfile where
  "DEFAULT_DEV_PROFILE =
    \<lparr>required_checks = [''test'', ''lint''],
     optional_checks = [''build''],
     commands = [(''test'', ''pnpm test''), (''lint'', ''pnpm lint''), (''build'', ''pnpm build'')],
     fail_on_skipped_required_check = True\<rparr>"

definition MERGE_GATE_PROFILE :: ValidationProfile where
  "MERGE_GATE_PROFILE =
    \<lparr>required_checks = [''test'', ''build''],
     optional_checks = [''lint''],
     commands = [(''test'', ''pnpm test''), (''build'', ''pnpm build''), (''lint'', ''pnpm lint'')],
     fail_on_skipped_required_check = True\<rparr>"

definition createDefaultValidationPolicy :: ValidationPolicy where
  "createDefaultValidationPolicy =
    \<lparr>profiles = [(DEFAULT_DEV_PROFILE_NAME, DEFAULT_DEV_PROFILE),
                 (MERGE_GATE_PROFILE_NAME, MERGE_GATE_PROFILE)]\<rparr>"

fun getSystemDefaultProfileName :: "ValidationStage \<Rightarrow> string" where
  "getSystemDefaultProfileName DEVELOPMENT = DEFAULT_DEV_PROFILE_NAME"
| "getSystemDefaultProfileName MERGE = MERGE_GATE_PROFILE_NAME"

definition resolveProfileName ::
  "ProfileSelectionContext \<Rightarrow> string \<times> ProfileSelectionSource" where
  "resolveProfileName context =
    (if taskProfileOverride context \<noteq> None \<and> taskProfileOverride context \<noteq> Some []
     then (the (taskProfileOverride context), TASK_OVERRIDE)
     else if workflowTemplateProfile context \<noteq> None \<and> workflowTemplateProfile context \<noteq> Some []
     then (the (workflowTemplateProfile context), WORKFLOW_TEMPLATE)
     else if taskTypeProfile context \<noteq> None \<and> taskTypeProfile context \<noteq> Some []
     then (the (taskTypeProfile context), TASK_TYPE_DEFAULT)
     else (getSystemDefaultProfileName (stage context), SYSTEM_DEFAULT))"

definition selectProfile ::
  "ValidationPolicy \<Rightarrow> ProfileSelectionContext
    \<Rightarrow> MissingValidationProfileError + ProfileSelectionResult" where
  "selectProfile policy context =
    (let (name, src) = resolveProfileName context in
     case js_get (profiles policy) name of
       None \<Rightarrow> Inl \<lparr>missing_profileName = name, missing_source = src,
                    availableProfiles = map fst (profiles policy)\<rparr>
     | Some prof \<Rightarrow> Inr \<lparr>profile = prof, profileName = name, source = src\<rparr>)"

definition getAllChecks :: "ValidationProfile \<Rightarrow> string list" where
  "getAllChecks prof = required_checks prof @ optional_checks prof"

definition getMissingCommands :: "ValidationProfile \<Rightarrow> string list" where
  "getMissingCommands prof = filter (\<lambda>check. \<not> js_in check (commands prof)) (getAllChecks prof)"

subsection \<open>Properties\<close>

text \<open>The candidates of a context in order of precedence, with empty strings skipped.\<close>

definition candidates :: "ProfileSelectionContext \<Rightarrow> (string \<times> ProfileSelectionSource) list" where
  "candidates ctx =
    [(n, s). (Some n, s) \<leftarrow>
      [(taskProfileOverride ctx, TASK_OVERRIDE), (workflowTemplateProfile ctx, WORKFLOW_TEMPLATE),
       (taskTypeProfile ctx, TASK_TYPE_DEFAULT),
       (Some (getSystemDefaultProfileName (stage ctx)), SYSTEM_DEFAULT)], n \<noteq> []]"

lemma default_names [simp]: "getSystemDefaultProfileName st \<noteq> []"
  by (cases st) (simp_all add: DEFAULT_DEV_PROFILE_NAME_def MERGE_GATE_PROFILE_NAME_def)

lemma resolveProfileName_candidates: "resolveProfileName ctx = hd (candidates ctx)"
  by (auto simp: resolveProfileName_def candidates_def split: option.splits)

text \<open>
  Profile selection follows the documented precedence: the selected name and source are the
  first non-empty of task override, workflow template, task type and system default.  The selection
  fails exactly when the policy has no such profile (and the name is not one JavaScript objects
  inherit), reporting the name, its source and the available profiles; it never falls through to a
  lower level.
\<close>

lemma select_profile_precedence:
  assumes "hd (candidates ctx) = (n, s)" and "n \<notin> set OBJECT_PROTOTYPE_KEYS"
  shows "selectProfile pol ctx =
    (case map_of (profiles pol) n of
       None \<Rightarrow> Inl \<lparr>missing_profileName = n, missing_source = s,
                    availableProfiles = map fst (profiles pol)\<rparr>
     | Some v \<Rightarrow> Inr \<lparr>profile = Own v, profileName = n, source = s\<rparr>)"
  using assms
  by (simp add: selectProfile_def resolveProfileName_candidates js_get_def split: option.split)

text \<open>
  The built-in policy never fails without explicit configuration, and its profiles have a command
  for each check.
\<close>

lemma default_policy_complete:
  "selectProfile createDefaultValidationPolicy
     \<lparr>taskProfileOverride = None, workflowTemplateProfile = None, taskTypeProfile = None, stage = st\<rparr>
   = Inr \<lparr>profile = Own (case st of DEVELOPMENT \<Rightarrow> DEFAULT_DEV_PROFILE | MERGE \<Rightarrow> MERGE_GATE_PROFILE),
          profileName = getSystemDefaultProfileName st, source = SYSTEM_DEFAULT\<rparr>"
  "getMissingCommands DEFAULT_DEV_PROFILE = []" "getMissingCommands MERGE_GATE_PROFILE = []"
  by (cases st; simp add: selectProfile_def resolveProfileName_def createDefaultValidationPolicy_def
      DEFAULT_DEV_PROFILE_NAME_def MERGE_GATE_PROFILE_NAME_def js_get_def)
     (simp_all add: getMissingCommands_def getAllChecks_def js_in_def js_get_def
       DEFAULT_DEV_PROFILE_def MERGE_GATE_PROFILE_def)

lemma getMissingCommands_iff:
  "c \<in> set (getMissingCommands prof) \<longleftrightarrow>
    c \<in> set (required_checks prof) \<union> set (optional_checks prof)
    \<and> c \<notin> fst ` set (commands prof) \<and> c \<notin> set OBJECT_PROTOTYPE_KEYS"
  by (auto simp: getMissingCommands_def getAllChecks_def js_in_iff)

end
