(* ===== verification/CommandPolicy.thy ===== *)
theory CommandPolicy
  imports Prelude "HOL-Library.Sublist"
begin

text \<open>
  \<open>packages/domain/src/policies/command-policy.ts\<close> and the defaults of
  \<open>packages/config/src/defaults/command-policy.ts\<close>: parsing a command line, glob matching and the
  evaluation of a command against a policy.  The regular expressions of \<open>forbidden_arg_patterns\<close>
  are arbitrary configuration: the engine is the parameter \<open>compile\<close>, with \<open>None\<close> for a pattern
  on which \<open>new RegExp\<close> throws.
\<close>

subsection \<open>Data\<close>

datatype CommandPolicyMode = ALLOWLIST | DENYLIST

datatype CommandViolationAction = FAIL_RUN | DENY_COMMAND | AUDIT_ONLY

record AllowedCommand =
  allowed_command :: string
  arg_prefixes :: "string list"

record DeniedPattern =
  denied_pattern :: string
  denied_reason :: string

record ForbiddenArgPattern =
  forbidden_pattern :: string
  forbidden_reason :: string

record CommandPolicy =
  mode :: CommandPolicyMode
  allowed_commands :: "AllowedCommand list"
  denied_patterns :: "DeniedPattern list"
  forbidden_arg_patterns :: "ForbiddenArgPattern list"
  allow_shell_operators :: bool
  on_violation :: CommandViolationAction

record ParsedCommand =
  command :: string
  args :: "string list"
  raw :: string

datatype CommandViolationReason =
    NOT_IN_ALLOWLIST
  | ARG_PREFIX_NOT_ALLOWED
  | MATCHES_DENIED_PATTERN
  | FORBIDDEN_ARG_PATTERN
  | SHELL_OPERATORS_DENIED
  | INVALID_COMMAND

record CommandPolicyEvaluation =
  allowed :: bool
  violation :: "CommandViolationReason option"
  explanation :: string
  violation_action :: "CommandViolationAction option"
  parsed :: ParsedCommand

subsection \<open>Parsing and matching\<close>

definition SHELL_OPERATORS :: "string list" where
  "SHELL_OPERATORS = [''&&'', ''||'', ''$('', ''`'', '' | '', '';'']"

definition containsShellOperators :: "string \<Rightarrow> bool" where
  "containsShellOperators s = list_ex (\<lambda>op. sublist op s) SHELL_OPERATORS"

definition parseCommandString :: "string \<Rightarrow> ParsedCommand" where
  "parseCommandString s =
    (let trimmed = trim s;
         tokens = filter (\<lambda>t. length t > 0) (split_space trimmed)
     in case tokens of
       [] \<Rightarrow> \<lparr>command = [], args = [], raw = trimmed\<rparr>
     | t # ts \<Rightarrow> \<lparr>command = t, args = ts, raw = trimmed\<rparr>)"

text \<open>
  The regular expressions of \<open>globMatch\<close>: of the patterns of the language, those made of the anchors,
  \<open>.\<close>, characters that stand for themselves, escaped special characters, and the greedy star of one of
  these.  Any other use of a special character, and a star with nothing to repeat, is not compiled (for
  some of them the language throws, for the others it has a meaning that is not modelled).  A pattern
  without flags: the dot matches no line end, and the anchors only the two ends of the text.
\<close>

definition regex_special :: string where
  "regex_special = ''*.+?^${}()|[]'' @ [CHR 0x5C]"

datatype regex_token = Plain char | Special char

fun regex_tokens :: "string \<Rightarrow> regex_token list option" where
  "regex_tokens [] = Some []"
| "regex_tokens (c # cs) =
    (if c = CHR 0x5C then
       (case cs of
          [] \<Rightarrow> None
        | d # ds \<Rightarrow> if d \<in> set regex_special then map_option ((#) (Plain d)) (regex_tokens ds) else None)
     else map_option ((#) (if c \<in> set regex_special then Special c else Plain c)) (regex_tokens cs))"

datatype regex_atom = Lit char | Dot

datatype regex_item = At_start | At_close | One regex_atom | Many regex_atom

fun regex_atom_of :: "regex_token \<Rightarrow> regex_atom option" where
  "regex_atom_of (Plain c) = Some (Lit c)"
| "regex_atom_of (Special c) = (if c = CHR ''.'' then Some Dot else None)"

fun regex_items :: "regex_token list \<Rightarrow> regex_item list option" where
  "regex_items [] = Some []"
| "regex_items (t # ts) =
    (case regex_atom_of t of
       Some a \<Rightarrow>
         if ts \<noteq> [] \<and> hd ts = Special (CHR ''*'') then map_option ((#) (Many a)) (regex_items (tl ts))
         else map_option ((#) (One a)) (regex_items ts)
     | None \<Rightarrow>
         if t = Special (CHR ''^'') then map_option ((#) At_start) (regex_items ts)
         else if t = Special (CHR ''$'') then map_option ((#) At_close) (regex_items ts)
         else None)"

definition regex_compile :: "string \<Rightarrow> regex_item list option" where
  "regex_compile source = Option.bind (regex_tokens source) regex_items"

fun regex_char :: "regex_atom \<Rightarrow> char \<Rightarrow> bool" where
  "regex_char (Lit c) t = (c = t)"
| "regex_char Dot t = (\<not> js_line_end t)"

text \<open>
  Whether the items match somewhere at the front of the remaining text; \<open>b\<close> tells that nothing of the
  text has been consumed.  \<open>RegExp.test\<close> searches for the first position from which they do.
\<close>

fun regex_at :: "regex_item list \<Rightarrow> bool \<Rightarrow> string \<Rightarrow> bool" where
  "regex_at [] b s = True"
| "regex_at (At_start # rs) b s = (b \<and> regex_at rs b s)"
| "regex_at (At_close # rs) b s = (s = [] \<and> regex_at rs b s)"
| "regex_at (One a # rs) b [] = False"
| "regex_at (One a # rs) b (c # cs) = (regex_char a c \<and> regex_at rs False cs)"
| "regex_at (Many a # rs) b [] = regex_at rs b []"
| "regex_at (Many a # rs) b (c # cs) =
    (regex_char a c \<and> regex_at (Many a # rs) False cs \<or> regex_at rs b (c # cs))"

fun regex_search :: "regex_item list \<Rightarrow> bool \<Rightarrow> string \<Rightarrow> bool" where
  "regex_search rs b s = (regex_at rs b s \<or> (case s of [] \<Rightarrow> False | _ # cs \<Rightarrow> regex_search rs False cs))"

declare regex_search.simps [simp del]

text \<open>The two replacements of \<open>globMatch\<close>, and the source it compiles.\<close>

definition glob_escape :: "string \<Rightarrow> string" where
  "glob_escape pattern =
    concat (map (\<lambda>c. if c \<in> set (''.+?^${}()|[]'' @ [CHR 0x5C]) then [CHR 0x5C, c] else [c]) pattern)"

definition glob_stars :: "string \<Rightarrow> string" where
  "glob_stars escaped = concat (map (\<lambda>c. if c = CHR ''*'' then ''.*'' else [c]) escaped)"

definition glob_source :: "string \<Rightarrow> string" where
  "glob_source pattern = ''^'' @ glob_stars (glob_escape pattern) @ ''$''"

definition globMatch :: "string \<Rightarrow> string \<Rightarrow> bool" where
  "globMatch text pattern =
    (case regex_compile (glob_source pattern) of None \<Rightarrow> False | Some rs \<Rightarrow> regex_search rs True text)"

subsection \<open>Evaluation\<close>

text \<open>
  The two loops over \<open>forbidden_arg_patterns\<close> and the arguments: the first hit, or the pattern that
  does not compile.
\<close>

fun findForbidden ::
  "(string \<Rightarrow> (string \<Rightarrow> bool) option) \<Rightarrow> ForbiddenArgPattern list \<Rightarrow> string list
    \<Rightarrow> string + (ForbiddenArgPattern \<times> string) option" where
  "findForbidden compile [] as = Inr None"
| "findForbidden compile (p # ps) as =
    (case compile (forbidden_pattern p) of
       None \<Rightarrow> Inl (forbidden_pattern p)
     | Some test \<Rightarrow>
         (case find test as of
            Some a \<Rightarrow> Inr (Some (p, a))
          | None \<Rightarrow> findForbidden compile ps as))"

definition violationOf ::
  "CommandPolicy \<Rightarrow> ParsedCommand \<Rightarrow> CommandViolationReason \<Rightarrow> string \<Rightarrow> CommandPolicyEvaluation" where
  "violationOf policy p r e =
    \<lparr>allowed = False, violation = Some r, explanation = e,
     violation_action = Some (on_violation policy), parsed = p\<rparr>"

text \<open>The allowlist check of the evaluation: \<open>None\<close> when it passes.\<close>

definition checkAllowlist :: "CommandPolicy \<Rightarrow> ParsedCommand \<Rightarrow> CommandPolicyEvaluation option" where
  "checkAllowlist policy p =
    (case find (\<lambda>rule. allowed_command rule = command p) (allowed_commands policy) of
       None \<Rightarrow> Some (violationOf policy p NOT_IN_ALLOWLIST
                 (''Command '' @ quoted (command p) @ '' is not in the allowlist.''))
     | Some rule \<Rightarrow>
         (case args p of
            [] \<Rightarrow> None
          | firstArg # _ \<Rightarrow>
              if arg_prefixes rule \<noteq> []
                 \<and> \<not> list_ex (\<lambda>pre. prefix pre firstArg) (arg_prefixes rule)
              then Some (violationOf policy p ARG_PREFIX_NOT_ALLOWED
                     (''Argument '' @ quoted firstArg
                      @ '' does not match any allowed prefix for command '' @ quoted (command p)
                      @ ''. Allowed prefixes: '' @ join_strings '', '' (arg_prefixes rule)))
              else None))"

definition evaluateCommandPolicy ::
  "(string \<Rightarrow> (string \<Rightarrow> bool) option) \<Rightarrow> string \<Rightarrow> CommandPolicy
    \<Rightarrow> string + CommandPolicyEvaluation" where
  "evaluateCommandPolicy compile rawCommand policy =
    (let p = parseCommandString rawCommand in
     if command p = [] then
       Inr (violationOf policy p INVALID_COMMAND ''Command string is empty or contains only whitespace.'')
     else if \<not> allow_shell_operators policy \<and> containsShellOperators (raw p) then
       Inr (violationOf policy p SHELL_OPERATORS_DENIED
         (''Command contains shell compound operators which are not allowed by policy: ''
          @ quoted (raw p)))
     else case find (\<lambda>d. globMatch (raw p) (denied_pattern d)) (denied_patterns policy) of
       Some d \<Rightarrow>
         Inr (violationOf policy p MATCHES_DENIED_PATTERN
           (''Command matches denied pattern '' @ quoted (denied_pattern d) @ '': '' @ denied_reason d))
     | None \<Rightarrow>
         (case (if mode policy = ALLOWLIST then checkAllowlist policy p else None) of
            Some e \<Rightarrow> Inr e
          | None \<Rightarrow>
              (case findForbidden compile (forbidden_arg_patterns policy) (args p) of
                 Inl pat \<Rightarrow> Inl pat
               | Inr (Some (f, a)) \<Rightarrow>
                   Inr (violationOf policy p FORBIDDEN_ARG_PATTERN
                     (''Argument '' @ quoted a @ '' matches forbidden pattern ''
                      @ quoted (forbidden_pattern f) @ '': '' @ forbidden_reason f))
               | Inr None \<Rightarrow>
                   Inr \<lparr>allowed = True, violation = None,
                        explanation = ''Command '' @ quoted (raw p) @ '' is allowed by policy.'',
                        violation_action = None, parsed = p\<rparr>)))"

subsection \<open>Defaults\<close>

definition DEFAULT_ALLOWED_COMMANDS :: "AllowedCommand list" where
  "DEFAULT_ALLOWED_COMMANDS =
    [\<lparr>allowed_command = ''pnpm'', arg_prefixes = [''install'', ''test'', ''lint'', ''build'', ''format'', ''run'', ''exec'', ''--filter'']\<rparr>,
     \<lparr>allowed_command = ''npm'', arg_prefixes = [''install'', ''test'', ''run'', ''exec'', ''ci'']\<rparr>,
     \<lparr>allowed_command = ''npx'', arg_prefixes = []\<rparr>,
     \<lparr>allowed_command = ''git'', arg_prefixes = [''status'', ''diff'', ''show'', ''add'', ''commit'', ''checkout'', ''branch'', ''log'', ''rev-parse'', ''ls-files'', ''stash'', ''worktree'']\<rparr>,
     \<lparr>allowed_command = ''tsc'', arg_prefixes = []\<rparr>,
     \<lparr>allowed_command = ''node'', arg_prefixes = []\<rparr>,
     \<lparr>allowed_command = ''cat'', arg_prefixes = []\<rparr>,
     \<lparr>allowed_command = ''ls'', arg_prefixes = []\<rparr>,
     \<lparr>allowed_command = ''find'', arg_prefixes = []\<rparr>,
     \<lparr>allowed_command = ''grep'', arg_prefixes = []\<rparr>,
     \<lparr>allowed_command = ''head'', arg_prefixes = []\<rparr>,
     \<lparr>allowed_command = ''tail'', arg_prefixes = []\<rparr>,
     \<lparr>allowed_command = ''wc'', arg_prefixes = []\<rparr>,
     \<lparr>allowed_command = ''mkdir'', arg_prefixes = []\<rparr>,
     \<lparr>allowed_command = ''diff'', arg_prefixes = []\<rparr>]"

definition DEFAULT_DENIED_PATTERNS :: "DeniedPattern list" where
  "DEFAULT_DENIED_PATTERNS =
    [\<lparr>denied_pattern = ''rm -rf /'',
      denied_reason = ''Recursive deletion of filesystem root is catastrophically dangerous.''\<rparr>,
     \<lparr>denied_pattern = ''rm -rf /*'',
      denied_reason = ''Recursive deletion of all root-level directories is catastrophically dangerous.''\<rparr>,
     \<lparr>denied_pattern = ''rm -rf ~'',
      denied_reason = ''Recursive deletion of home directory is catastrophically dangerous.''\<rparr>,
     \<lparr>denied_pattern = ''rm -rf ~/*'',
      denied_reason = ''Recursive deletion of all home directory contents is catastrophically dangerous.''\<rparr>,
     \<lparr>denied_pattern = ''curl * | sh'',
      denied_reason = ''Piping remote content to a shell is a remote code execution vector.''\<rparr>,
     \<lparr>denied_pattern = ''curl * | bash'',
      denied_reason = ''Piping remote content to bash is a remote code execution vector.''\<rparr>,
     \<lparr>denied_pattern = ''wget * | sh'',
      denied_reason = ''Piping remote content to a shell is a remote code execution vector.''\<rparr>,
     \<lparr>denied_pattern = ''wget * | bash'',
      denied_reason = ''Piping remote content to bash is a remote code execution vector.''\<rparr>,
     \<lparr>denied_pattern = ''sudo *'',
      denied_reason = ''Elevated privilege execution is not permitted for workers.''\<rparr>,
     \<lparr>denied_pattern = ''ssh *'',
      denied_reason = ''SSH connections are not permitted for workers.''\<rparr>,
     \<lparr>denied_pattern = ''scp *'',
      denied_reason = ''SCP file transfers are not permitted for workers.''\<rparr>,
     \<lparr>denied_pattern = ''chmod 777 *'',
      denied_reason = ''World-writable permissions are a security risk.''\<rparr>,
     \<lparr>denied_pattern = ''eval *'',
      denied_reason = ''Dynamic code evaluation is not permitted for workers.''\<rparr>]"

definition DEFAULT_FORBIDDEN_ARG_PATTERNS :: "ForbiddenArgPattern list" where
  "DEFAULT_FORBIDDEN_ARG_PATTERNS =
    [\<lparr>forbidden_pattern = ''^'' @ concat (replicate 3 (CHR 0x5C # ''.'' @ CHR 0x5C # ''./'')),
      forbidden_reason = ''Deep path traversal (3+ levels) may escape workspace boundaries.''\<rparr>,
     \<lparr>forbidden_pattern = ''^/etc/'',
      forbidden_reason = ''Direct access to system configuration is not permitted.''\<rparr>,
     \<lparr>forbidden_pattern = ''^/proc/'',
      forbidden_reason = ''Direct access to process filesystem is not permitted.''\<rparr>,
     \<lparr>forbidden_pattern = ''^/sys/'',
      forbidden_reason = ''Direct access to system filesystem is not permitted.''\<rparr>]"

definition DEFAULT_COMMAND_POLICY :: CommandPolicy where
  "DEFAULT_COMMAND_POLICY =
    \<lparr>mode = ALLOWLIST,
     allowed_commands = DEFAULT_ALLOWED_COMMANDS,
     denied_patterns = DEFAULT_DENIED_PATTERNS,
     forbidden_arg_patterns = DEFAULT_FORBIDDEN_ARG_PATTERNS,
     allow_shell_operators = False,
     on_violation = FAIL_RUN\<rparr>"

record CommandPolicyOverride =
  o_mode :: "CommandPolicyMode option"
  o_allowed_commands :: "AllowedCommand list option"
  o_denied_patterns :: "DeniedPattern list option"
  o_forbidden_arg_patterns :: "ForbiddenArgPattern list option"
  o_allow_shell_operators :: "bool option"
  o_on_violation :: "CommandViolationAction option"

definition mergeCommandPolicies :: "CommandPolicy \<Rightarrow> CommandPolicyOverride \<Rightarrow> CommandPolicy" where
  "mergeCommandPolicies base ov =
    \<lparr>mode = case_option (mode base) id (o_mode ov),
     allowed_commands = case_option (allowed_commands base) id (o_allowed_commands ov),
     denied_patterns = case_option (denied_patterns base) id (o_denied_patterns ov),
     forbidden_arg_patterns = case_option (forbidden_arg_patterns base) id (o_forbidden_arg_patterns ov),
     allow_shell_operators = case_option (allow_shell_operators base) id (o_allow_shell_operators ov),
     on_violation = case_option (on_violation base) id (o_on_violation ov)\<rparr>"

subsection \<open>Matching\<close>

text \<open>
  The language of a glob, as its documentation gives it: a star stands for any text within a line, every
  other character for itself.
\<close>

fun glob_language :: "string \<Rightarrow> string set" where
  "glob_language [] = {[]}"
| "glob_language (c # p) =
    (if c = CHR ''*'' then {u @ v | u v. (\<forall>x \<in> set u. \<not> js_line_end x) \<and> v \<in> glob_language p}
     else {c # v | v. v \<in> glob_language p})"

text \<open>What the source compiles to.\<close>

definition glob_tokens :: "char \<Rightarrow> regex_token list" where
  "glob_tokens c = (if c = CHR ''*'' then [Special (CHR ''.''), Special (CHR ''*'')] else [Plain c])"

definition glob_item :: "char \<Rightarrow> regex_item" where
  "glob_item c = (if c = CHR ''*'' then Many Dot else One (Lit c))"

lemma regex_special_set: "set regex_special = insert (CHR ''*'') (set (''.+?^${}()|[]'' @ [CHR 0x5C]))"
  by (simp add: regex_special_def)

lemma glob_tokens_read:
  "regex_tokens (glob_stars (glob_escape p) @ rest)
    = map_option ((@) (concat (map glob_tokens p))) (regex_tokens rest)"
proof (induction p)
  case Nil
  then show ?case by (simp add: glob_stars_def glob_escape_def option.map_ident)
next
  case (Cons c p)
  let ?esc = "set (''.+?^${}()|[]'' @ [CHR 0x5C])"
  let ?rest = "glob_stars (glob_escape p) @ rest"
  have star: "CHR ''*'' \<notin> ?esc" "CHR ''.'' \<in> set regex_special" "CHR ''*'' \<in> set regex_special"
    "CHR 0x5C \<in> ?esc" by (simp_all add: regex_special_def)
  consider "c \<in> ?esc" | "c = CHR ''*''" | "c \<notin> ?esc" "c \<noteq> CHR ''*''" by blast
  then show ?case
  proof cases
    case 1
    then have ne: "c \<noteq> CHR ''*''" using star(1) by blast
    then have "glob_stars (glob_escape (c # p)) @ rest = CHR 0x5C # c # ?rest"
      using 1 by (simp add: glob_stars_def glob_escape_def del: set_append)
    moreover have "c \<in> set regex_special" using 1 unfolding regex_special_set by blast
    ultimately show ?thesis using Cons ne by (simp add: glob_tokens_def option.map_comp comp_def)
  next
    case 2
    then have "glob_stars (glob_escape (c # p)) @ rest = CHR ''.'' # CHR ''*'' # ?rest"
      using star(1) by (simp add: glob_stars_def glob_escape_def)
    then show ?thesis using Cons 2 star(2,3) by (simp add: glob_tokens_def option.map_comp comp_def)
  next
    case 3
    then have "glob_stars (glob_escape (c # p)) @ rest = c # ?rest"
      by (simp add: glob_stars_def glob_escape_def del: set_append)
    moreover have "c \<notin> set regex_special" using 3 unfolding regex_special_set by blast
    moreover have "c \<noteq> CHR 0x5C" using 3(1) star(4) by blast
    ultimately show ?thesis using Cons 3(2) by (simp add: glob_tokens_def option.map_comp comp_def)
  qed
qed

lemma glob_items_read:
  "regex_items (concat (map glob_tokens p) @ [Special (CHR ''$'')]) = Some (map glob_item p @ [At_close])"
proof (induction p)
  case (Cons c p)
  have "hd (concat (map glob_tokens p) @ [Special (CHR ''$'')]) \<noteq> Special (CHR ''*'')"
    by (cases p) (simp_all add: glob_tokens_def)
  then show ?case using Cons by (simp add: glob_tokens_def[of c] glob_item_def[of c])
qed simp

lemma glob_compiled: "regex_compile (glob_source p) = Some (At_start # map glob_item p @ [At_close])"
proof -
  have "CHR ''^'' \<in> set regex_special" "CHR ''$'' \<in> set regex_special" by (simp_all add: regex_special_def)
  then have "regex_tokens (glob_source p) = Some (Special (CHR ''^'') # concat (map glob_tokens p) @ [Special (CHR ''$'')])"
    by (simp add: glob_source_def glob_tokens_read)
  then show ?thesis by (simp add: regex_compile_def glob_items_read)
qed

lemma search_anchored: "regex_search (At_start # rs) b s \<longleftrightarrow> b \<and> regex_at rs True s"
proof -
  have "\<not> regex_search (At_start # rs) False s" for s
  proof (induction s)
    case Nil
    then show ?case by (simp add: regex_search.simps[of _ _ "[]"])
  next
    case (Cons c s)
    then show ?case by (simp add: regex_search.simps[of _ _ "c # s"])
  qed
  then show ?thesis by (cases b) (simp_all add: regex_search.simps[of "At_start # rs" True s] split: list.split)
qed

lemma star_step:
  "(\<exists>u v. t # ts = u @ v \<and> (\<forall>x \<in> set u. \<not> js_line_end x) \<and> v \<in> L) \<longleftrightarrow>
    t # ts \<in> L \<or> \<not> js_line_end t \<and> (\<exists>u v. ts = u @ v \<and> (\<forall>x \<in> set u. \<not> js_line_end x) \<and> v \<in> L)"
  (is "?L \<longleftrightarrow> ?R")
proof
  assume ?L
  then obtain u v where uv: "t # ts = u @ v" "\<forall>x \<in> set u. \<not> js_line_end x" "v \<in> L"
    by blast
  then show ?R by (cases u) auto
next
  assume ?R
  then show ?L
  proof
    assume "t # ts \<in> L"
    then show ?L by (intro exI[of _ "[]"] exI[of _ "t # ts"]) simp
  next
    assume "\<not> js_line_end t \<and> (\<exists>u v. ts = u @ v \<and> (\<forall>x \<in> set u. \<not> js_line_end x) \<and> v \<in> L)"
    then obtain u v where "\<not> js_line_end t" "ts = u @ v" "\<forall>x \<in> set u. \<not> js_line_end x"
      "v \<in> L" by blast
    then show ?L by (intro exI[of _ "t # u"] exI[of _ v]) simp
  qed
qed

lemma glob_items_language: "regex_at (map glob_item p @ [At_close]) b s \<longleftrightarrow> s \<in> glob_language p"
proof (induction p arbitrary: b s)
  case (Cons c p)
  let ?rs = "map glob_item p @ [At_close]"
  show ?case
  proof (cases "c = CHR ''*''")
    case False
    then show ?thesis using Cons by (cases s) (auto simp: glob_item_def[of c])
  next
    case True
    have "regex_at (Many Dot # ?rs) b s \<longleftrightarrow>
        (\<exists>u v. s = u @ v \<and> (\<forall>x \<in> set u. \<not> js_line_end x) \<and> v \<in> glob_language p)" for b
    proof (induction s arbitrary: b)
      case Nil
      then show ?case using Cons by simp
    next
      case (Cons t ts)
      have "(\<exists>u v. t # ts = u @ v \<and> (\<forall>x \<in> set u. \<not> js_line_end x) \<and> v \<in> glob_language p) \<longleftrightarrow>
          t # ts \<in> glob_language p
          \<or> \<not> js_line_end t \<and> (\<exists>u v. ts = u @ v \<and> (\<forall>x \<in> set u. \<not> js_line_end x) \<and> v \<in> glob_language p)"
        by (rule star_step)
      then show ?case using Cons.IH[of False] \<open>\<And>b s. regex_at ?rs b s \<longleftrightarrow> s \<in> glob_language p\<close> by auto
    qed
    moreover have "glob_item (CHR ''*'') = Many Dot" by (simp add: glob_item_def)
    ultimately show ?thesis using True by simp
  qed
qed auto

lemma globMatch_code [code]: "globMatch s pattern = regex_at (map glob_item pattern @ [At_close]) True s"
  by (simp add: globMatch_def glob_compiled search_anchored)

lemma glob_decides: "globMatch text pattern \<longleftrightarrow> text \<in> glob_language pattern"
  by (simp add: globMatch_def glob_compiled search_anchored glob_items_language)

text \<open>
  (C36) The glob matcher decides the language of the glob.  Escaping the pattern, replacing its stars and
  anchoring it always gives a regular expression that compiles, and searching a text with it
  succeeds exactly on the texts of the language: a star stands for any text without line ends, and every
  other character, those with a meaning in regular expressions included, for itself alone.
\<close>

theorem glob_match_language:
  "regex_compile (glob_source pattern) \<noteq> None \<and> (globMatch text pattern \<longleftrightarrow> text \<in> glob_language pattern)"
  by (simp add: glob_compiled glob_decides)

lemma glob_language_literal_app:
  "CHR ''*'' \<notin> set p \<Longrightarrow> glob_language (p @ q) = {p @ v | v. v \<in> glob_language q}"
  by (induction p) auto

lemma glob_language_literal: "CHR ''*'' \<notin> set p \<Longrightarrow> glob_language p = {p}"
  using glob_language_literal_app[of p "[]"] by simp

lemma glob_match_prefix_star:
  assumes "CHR ''*'' \<notin> set p"
  shows "globMatch s (p @ ''*'') \<longleftrightarrow> (\<exists>u. s = p @ u \<and> (\<forall>c \<in> set u. \<not> js_line_end c))"
  using glob_language_literal_app[OF assms, of "''*''"] by (auto simp: glob_decides)

subsection \<open>Parsing\<close>

lemma split_space_tokens:
  "t \<in> set (split_space s) \<Longrightarrow> c \<in> set t \<Longrightarrow> \<not> js_space c"
proof (induction s rule: split_space.induct)
  case (1 s)
  show ?case
  proof (cases "dropWhile (\<lambda>c. \<not> js_space c) s")
    case Nil
    then have "\<forall>x \<in> set s. \<not> js_space x" by (simp add: dropWhile_eq_Nil_conv)
    with 1(2,3) Nil show ?thesis by (subst (asm) split_space.simps) simp
  next
    case (Cons x rest)
    with 1(2) have "t = takeWhile (\<lambda>c. \<not> js_space c) s \<or> t \<in> set (split_space (dropWhile js_space rest))"
      by (subst (asm) split_space.simps) simp
    then show ?thesis using 1(1)[OF Cons] 1(3) set_takeWhileD by fastforce
  qed
qed

lemma split_space_concat:
  "concat (split_space s) = filter (\<lambda>c. \<not> js_space c) s"
proof (induction s rule: split_space.induct)
  case (1 s)
  show ?case
  proof (cases "dropWhile (\<lambda>c. \<not> js_space c) s")
    case Nil
    have "split_space s = [s]" by (subst split_space.simps) (simp only: Nil list.case)
    moreover have "\<forall>x \<in> set s. \<not> js_space x" using Nil by (simp add: dropWhile_eq_Nil_conv)
    ultimately show ?thesis by simp
  next
    case (Cons x rest)
    have sp: "js_space x" using Cons by (metis hd_dropWhile list.sel(1) list.distinct(1))
    have tw: "filter (\<lambda>c. \<not> js_space c) (takeWhile (\<lambda>c. \<not> js_space c) s) = takeWhile (\<lambda>c. \<not> js_space c) s"
      by (rule filter_True) (auto dest: set_takeWhileD)
    have dw: "filter (\<lambda>c. \<not> js_space c) (dropWhile js_space r) = filter (\<lambda>c. \<not> js_space c) r" for r
      by (induction r) auto
    have "filter (\<lambda>c. \<not> js_space c) s
        = filter (\<lambda>c. \<not> js_space c) (takeWhile (\<lambda>c. \<not> js_space c) s @ x # rest)"
      using Cons by (metis takeWhile_dropWhile_id)
    also have "\<dots> = takeWhile (\<lambda>c. \<not> js_space c) s @ filter (\<lambda>c. \<not> js_space c) (dropWhile js_space rest)"
      using sp tw dw by simp
    also have "\<dots> = concat (split_space s)"
      using 1[OF Cons] Cons by (subst split_space.simps) simp
    finally show ?thesis ..
  qed
qed

lemma concat_nonempty: "concat (filter (\<lambda>t. length t > 0) ts) = concat ts"
  by (induction ts) auto

lemma filter_trim: "filter (\<lambda>c. \<not> js_space c) (trim s) = filter (\<lambda>c. \<not> js_space c) s"
proof -
  have dw: "filter (\<lambda>c. \<not> js_space c) (dropWhile js_space r) = filter (\<lambda>c. \<not> js_space c) r" for r
    by (induction r) auto
  show ?thesis by (simp add: trim_def dw rev_filter[symmetric])
qed

text \<open>
  Parsing loses nothing but white space: the command and its arguments contain no white space,
  none of them is empty unless the whole line is blank, and put together they spell the line without
  its white space, in order.
\<close>

lemma parse_command_tokens:
  "concat (command (parseCommandString s) # args (parseCommandString s)) = filter (\<lambda>c. \<not> js_space c) s
   \<and> (\<forall>t \<in> set (command (parseCommandString s) # args (parseCommandString s)).
        list_all (\<lambda>c. \<not> js_space c) t)
   \<and> (\<forall>t \<in> set (args (parseCommandString s)). t \<noteq> [])
   \<and> (command (parseCommandString s) = [] \<longleftrightarrow> list_all js_space s)"
proof -
  let ?ts = "filter (\<lambda>t. length t > 0) (split_space (trim s))"
  have all: "concat ?ts = filter (\<lambda>c. \<not> js_space c) s"
    by (simp only: concat_nonempty split_space_concat filter_trim)
  have toks: "\<forall>t \<in> set ?ts. t \<noteq> [] \<and> list_all (\<lambda>c. \<not> js_space c) t"
    by (auto simp: list_all_iff dest: split_space_tokens)
  show ?thesis
  proof (cases ?ts)
    case Nil
    have p: "parseCommandString s = \<lparr>command = [], args = [], raw = trim s\<rparr>"
      by (simp only: parseCommandString_def Let_def Nil list.case)
    have "filter (\<lambda>c. \<not> js_space c) s = []" using all Nil by simp
    then show ?thesis unfolding p by (simp add: list_all_iff filter_empty_conv)
  next
    case (Cons t ts)
    have p: "parseCommandString s = \<lparr>command = t, args = ts, raw = trim s\<rparr>"
      by (simp only: parseCommandString_def Let_def Cons list.case)
    have f: "filter (\<lambda>c. \<not> js_space c) s = concat (t # ts)" and ok: "\<forall>u \<in> set (t # ts). u \<noteq> [] \<and> list_all (\<lambda>c. \<not> js_space c) u"
      using all toks unfolding Cons by simp_all
    from ok have "t \<noteq> []" by simp
    then have "filter (\<lambda>c. \<not> js_space c) s \<noteq> []" unfolding f by simp
    then have "\<not> list_all js_space s" by (simp add: list_all_iff filter_empty_conv)
    with f ok show ?thesis unfolding p by simp
  qed
qed

subsection \<open>Evaluation\<close>

lemma findForbidden_total:
  assumes "\<forall>p \<in> set ps. compile (forbidden_pattern p) \<noteq> None"
  obtains r where "findForbidden compile ps as = Inr r"
    "r = None \<longleftrightarrow> (\<forall>p \<in> set ps. \<forall>a \<in> set as. \<not> the (compile (forbidden_pattern p)) a)"
proof -
  have "\<exists>r. findForbidden compile ps as = Inr r
      \<and> (r = None \<longleftrightarrow> (\<forall>p \<in> set ps. \<forall>a \<in> set as. \<not> the (compile (forbidden_pattern p)) a))"
    using assms
    by (induction ps) (auto split: option.splits simp: find_None_iff dest!: find_Some_iff_mem)
  then show ?thesis using that by blast
qed

text \<open>What the policy asks of a parsed command.\<close>

definition passes_allowlist :: "CommandPolicy \<Rightarrow> ParsedCommand \<Rightarrow> bool" where
  "passes_allowlist pol p \<longleftrightarrow>
    (\<exists>rule. find (\<lambda>rule. allowed_command rule = command p) (allowed_commands pol) = Some rule
       \<and> (arg_prefixes rule = [] \<or> args p = [] \<or> (\<exists>pre \<in> set (arg_prefixes rule). prefix pre (hd (args p)))))"

lemma checkAllowlist_None: "checkAllowlist pol p = None \<longleftrightarrow> passes_allowlist pol p"
  by (cases "args p")
     (auto simp: checkAllowlist_def passes_allowlist_def list_ex_iff split: option.splits)

lemma checkAllowlist_Some:
  "checkAllowlist pol p = Some e \<Longrightarrow>
    \<not> allowed e \<and> parsed e = p \<and> violation e \<noteq> None \<and> violation_action e = Some (on_violation pol)"
  by (auto simp: checkAllowlist_def violationOf_def split: option.splits list.splits if_splits)

lemma violationOf_sel [simp]:
  "\<not> allowed (violationOf pol p r e)" "violation (violationOf pol p r e) = Some r"
  "parsed (violationOf pol p r e) = p"
  "violation_action (violationOf pol p r e) = Some (on_violation pol)"
  by (simp_all add: violationOf_def)

text \<open>
  When the forbidden patterns are valid regular expressions, evaluating a command always gives a
  verdict, and the command is allowed exactly when it passes every check: it is not blank, has no
  shell operator (unless the policy allows them), matches no denied pattern, is listed with an
  allowed first-argument prefix (in allowlist mode), and no argument matches a forbidden pattern.  A
  refusal carries a reason and the policy's violation action.
\<close>

lemma command_allowed_iff:
  assumes "\<forall>p \<in> set (forbidden_arg_patterns pol). compile (forbidden_pattern p) \<noteq> None"
  shows "case evaluateCommandPolicy compile s pol of Inl _ \<Rightarrow> False | Inr e \<Rightarrow>
    parsed e = parseCommandString s
    \<and> (allowed e \<longleftrightarrow>
         command (parseCommandString s) \<noteq> []
         \<and> (allow_shell_operators pol \<or> \<not> containsShellOperators (raw (parseCommandString s)))
         \<and> (\<forall>d \<in> set (denied_patterns pol).
               raw (parseCommandString s) \<notin> glob_language (denied_pattern d))
         \<and> (mode pol = ALLOWLIST \<longrightarrow> passes_allowlist pol (parseCommandString s))
         \<and> (\<forall>f \<in> set (forbidden_arg_patterns pol). \<forall>a \<in> set (args (parseCommandString s)).
               \<not> the (compile (forbidden_pattern f)) a))
    \<and> (allowed e \<longleftrightarrow> violation e = None)
    \<and> violation_action e = (if allowed e then None else Some (on_violation pol))"
proof -
  define p where "p = parseCommandString s"
  define denied where "denied = find (\<lambda>d. globMatch (raw p) (denied_pattern d)) (denied_patterns pol)"
  have d: "denied = None \<longleftrightarrow> (\<forall>d \<in> set (denied_patterns pol).
      raw p \<notin> glob_language (denied_pattern d))"
    by (auto simp: denied_def find_None_iff glob_decides)
  obtain r where r: "findForbidden compile (forbidden_arg_patterns pol) (args p) = Inr r"
    "r = None \<longleftrightarrow> (\<forall>f \<in> set (forbidden_arg_patterns pol). \<forall>a \<in> set (args p).
        \<not> the (compile (forbidden_pattern f)) a)"
    by (rule findForbidden_total[OF assms])
  show ?thesis
    unfolding p_def[symmetric] d[symmetric] r(2)[symmetric] checkAllowlist_None[symmetric]
      evaluateCommandPolicy_def Let_def denied_def[symmetric] r(1)
    by (cases denied; cases r; cases "checkAllowlist pol p"; cases "mode pol")
       (auto simp del: append.simps dest: checkAllowlist_Some)
qed

text \<open>An engine for the anchored literal patterns of the defaults.\<close>

definition anchored_literal :: "string \<Rightarrow> (string \<Rightarrow> bool) option" where
  "anchored_literal pat = (case pat of [] \<Rightarrow> None
     | c # cs \<Rightarrow> if c = CHR ''^'' then Some (prefix (filter (\<lambda>x. x \<noteq> CHR 0x5C) cs)) else None)"

text \<open>
  A star stops at a line end, so a denied pattern does not stop a command that continues on a second
  line: in denylist mode \<open>sudo *\<close> refuses a one-line command and lets the two-line one pass.
\<close>

lemma denied_pattern_line_end:
  "map_sum id allowed (evaluateCommandPolicy anchored_literal ''sudo reboot x''
     (DEFAULT_COMMAND_POLICY\<lparr>mode := DENYLIST\<rparr>)) = Inr False"
  "map_sum id allowed (evaluateCommandPolicy anchored_literal (''sudo reboot'' @ CHR 0x0A # ''x'')
     (DEFAULT_COMMAND_POLICY\<lparr>mode := DENYLIST\<rparr>)) = Inr True"
  by code_simp+

end
