(* ===== verification/FileScopePolicy.thy ===== *)
theory FileScopePolicy
  imports Prelude
begin

text \<open>
  \<open>packages/domain/src/policies/file-scope-policy.ts\<close> and the defaults of
  \<open>packages/config/src/defaults/file-scope-policy.ts\<close>: path normalisation, classification of a path
  against deny, write and read roots, and the read, write and post-run checks.
\<close>

subsection \<open>Data\<close>

datatype FileScopeViolationAction = FAIL_RUN | DENY_ACCESS | AUDIT_ONLY

datatype FileScopeViolationReason =
    DENIED_BY_DENY_ROOT
  | WRITE_IN_READ_ONLY_ROOT
  | OUTSIDE_ALL_ROOTS
  | WRITE_OUTSIDE_SCOPE
  | READ_OUTSIDE_SCOPE
  | INVALID_PATH

datatype FileScopeRootMatch = DENY_ROOT | WRITE_ROOT | READ_ROOT | OUTSIDE

record FileScopePolicy =
  read_roots :: "string list"
  write_roots :: "string list"
  deny_roots :: "string list"
  allow_read_outside_scope :: bool
  allow_write_outside_scope :: bool
  scope_on_violation :: FileScopeViolationAction

record FileScopeEvaluation =
  access_allowed :: bool
  access_violation :: "FileScopeViolationReason option"
  access_explanation :: string
  access_action :: "FileScopeViolationAction option"
  normalizedPath :: string
  matchedRoot :: FileScopeRootMatch
  matchedRootValue :: "string option"

record PostRunDiffValidation =
  diff_valid :: bool
  evaluations :: "FileScopeEvaluation list"
  violations :: "FileScopeEvaluation list"
  summary :: string

subsection \<open>Normalisation\<close>

text \<open>\<open>p.replace(/\/+/g, "/")\<close>.\<close>

fun collapse_slashes :: "string \<Rightarrow> string" where
  "collapse_slashes (c # d # cs) =
    (if c = CHR ''/'' \<and> d = CHR ''/'' then collapse_slashes (d # cs)
     else c # collapse_slashes (d # cs))"
| "collapse_slashes s = s"

text \<open>\<open>while (p.startsWith("./")) p = p.slice(2)\<close>.\<close>

fun strip_dot_slash :: "string \<Rightarrow> string" where
  "strip_dot_slash (c # d # cs) =
    (if c = CHR ''.'' \<and> d = CHR ''/'' then strip_dot_slash cs else c # d # cs)"
| "strip_dot_slash s = s"

definition normalizePath :: "string \<Rightarrow> string" where
  "normalizePath rawPath =
    dropWhile (\<lambda>c. c = CHR ''/'') (strip_dot_slash (collapse_slashes (trim rawPath)))"

definition normalizeRoot :: "string \<Rightarrow> string" where
  "normalizeRoot rawRoot =
    (let p = normalizePath rawRoot in
     if p = [] then []
     else if suffix ''/'' p then p else p @ ''/'')"

text \<open>The test of the three loops: a root that normalises to nothing covers no path.\<close>

definition rootCovers :: "string \<Rightarrow> string \<Rightarrow> bool" where
  "rootCovers path root =
    (let normalizedRoot = normalizeRoot root in normalizedRoot \<noteq> [] \<and> prefix normalizedRoot path)"

definition classifyPath :: "string \<Rightarrow> FileScopePolicy \<Rightarrow> FileScopeRootMatch \<times> string option" where
  "classifyPath path policy =
    (case find (rootCovers path) (deny_roots policy) of
       Some root \<Rightarrow> (DENY_ROOT, Some root)
     | None \<Rightarrow>
         (case find (rootCovers path) (write_roots policy) of
            Some root \<Rightarrow> (WRITE_ROOT, Some root)
          | None \<Rightarrow>
              (case find (rootCovers path) (read_roots policy) of
                 Some root \<Rightarrow> (READ_ROOT, Some root)
               | None \<Rightarrow> (OUTSIDE, None))))"

subsection \<open>Access checks\<close>

definition permit :: "string \<Rightarrow> FileScopeRootMatch \<Rightarrow> string option \<Rightarrow> string \<Rightarrow> FileScopeEvaluation" where
  "permit path m root e =
    \<lparr>access_allowed = True, access_violation = None, access_explanation = e, access_action = None,
     normalizedPath = path, matchedRoot = m, matchedRootValue = root\<rparr>"

definition refuse ::
  "FileScopePolicy \<Rightarrow> string \<Rightarrow> FileScopeRootMatch \<Rightarrow> string option \<Rightarrow> FileScopeViolationReason \<Rightarrow> string
    \<Rightarrow> FileScopeEvaluation" where
  "refuse policy path m root r e =
    \<lparr>access_allowed = False, access_violation = Some r, access_explanation = e,
     access_action = Some (scope_on_violation policy),
     normalizedPath = path, matchedRoot = m, matchedRootValue = root\<rparr>"

definition checkReadAccess :: "string \<Rightarrow> FileScopePolicy \<Rightarrow> FileScopeEvaluation" where
  "checkReadAccess path policy =
    (let np = normalizePath path in
     if np = [] then refuse policy np OUTSIDE None INVALID_PATH ''Path is empty or whitespace-only.''
     else let (m, root) = classifyPath np policy; rv = (case root of None \<Rightarrow> ''undefined'' | Some r \<Rightarrow> r) in
     case m of
       DENY_ROOT \<Rightarrow> refuse policy np m root DENIED_BY_DENY_ROOT
         (''Read access denied: path '' @ quoted np @ '' falls under deny root '' @ quoted rv @ ''.'')
     | WRITE_ROOT \<Rightarrow> permit np m root
         (''Read access permitted: path '' @ quoted np @ '' is within write root '' @ quoted rv
          @ '' (write roots grant read+write).'')
     | READ_ROOT \<Rightarrow> permit np m root
         (''Read access permitted: path '' @ quoted np @ '' is within read root '' @ quoted rv @ ''.'')
     | OUTSIDE \<Rightarrow>
         if allow_read_outside_scope policy then permit np m None
           (''Read access permitted: path '' @ quoted np
            @ '' is outside all roots but allow_read_outside_scope is true.'')
         else refuse policy np m None READ_OUTSIDE_SCOPE
           (''Read access denied: path '' @ quoted np
            @ '' is outside all configured roots and allow_read_outside_scope is false.''))"

definition checkWriteAccess :: "string \<Rightarrow> FileScopePolicy \<Rightarrow> FileScopeEvaluation" where
  "checkWriteAccess path policy =
    (let np = normalizePath path in
     if np = [] then refuse policy np OUTSIDE None INVALID_PATH ''Path is empty or whitespace-only.''
     else let (m, root) = classifyPath np policy; rv = (case root of None \<Rightarrow> ''undefined'' | Some r \<Rightarrow> r) in
     case m of
       DENY_ROOT \<Rightarrow> refuse policy np m root DENIED_BY_DENY_ROOT
         (''Write access denied: path '' @ quoted np @ '' falls under deny root '' @ quoted rv @ ''.'')
     | WRITE_ROOT \<Rightarrow> permit np m root
         (''Write access permitted: path '' @ quoted np @ '' is within write root '' @ quoted rv @ ''.'')
     | READ_ROOT \<Rightarrow> refuse policy np m root WRITE_IN_READ_ONLY_ROOT
         (''Write access denied: path '' @ quoted np @ '' is within read root '' @ quoted rv
          @ '' which only permits reads.'')
     | OUTSIDE \<Rightarrow>
         if allow_write_outside_scope policy then permit np m None
           (''Write access permitted: path '' @ quoted np
            @ '' is outside all roots but allow_write_outside_scope is true.'')
         else refuse policy np m None WRITE_OUTSIDE_SCOPE
           (''Write access denied: path '' @ quoted np
            @ '' is outside all configured roots and allow_write_outside_scope is false.''))"

definition validatePostRunDiff :: "string list \<Rightarrow> FileScopePolicy \<Rightarrow> PostRunDiffValidation" where
  "validatePostRunDiff modifiedFiles policy =
    (let evals = map (\<lambda>file. checkWriteAccess file policy) modifiedFiles;
         viols = filter (\<lambda>e. \<not> access_allowed e) evals
     in if length viols = 0 then
          \<lparr>diff_valid = True, evaluations = evals, violations = [],
           summary = ''Post-run diff validation passed: all '' @ string_of_nat (length evals)
             @ '' modified file(s) are within allowed write scope.''\<rparr>
        else
          let violationPaths = join_strings '', '' (map normalizedPath viols)
          in \<lparr>diff_valid = False, evaluations = evals, violations = viols,
              summary = ''Post-run diff validation failed: '' @ string_of_nat (length viols) @ '' of ''
                @ string_of_nat (length evals)
                @ '' modified file(s) violate write scope policy. Violations: '' @ violationPaths\<rparr>)"

subsection \<open>Defaults\<close>

definition DEFAULT_READ_ROOTS :: "string list" where
  "DEFAULT_READ_ROOTS = [''apps/'', ''packages/'', ''docs/'', ''eng/'']"

definition DEFAULT_WRITE_ROOTS :: "string list" where
  "DEFAULT_WRITE_ROOTS = [''apps/'', ''packages/'']"

definition DEFAULT_DENY_ROOTS :: "string list" where
  "DEFAULT_DENY_ROOTS =
    [''.github/workflows/'', ''.github/actions/'', ''secrets/'', ''infra/production/'', ''.git/'']"

definition DEFAULT_FILE_SCOPE_POLICY :: FileScopePolicy where
  "DEFAULT_FILE_SCOPE_POLICY =
    \<lparr>read_roots = DEFAULT_READ_ROOTS,
     write_roots = DEFAULT_WRITE_ROOTS,
     deny_roots = DEFAULT_DENY_ROOTS,
     allow_read_outside_scope = True,
     allow_write_outside_scope = False,
     scope_on_violation = FAIL_RUN\<rparr>"

record FileScopePolicyOverride =
  o_read_roots :: "string list option"
  o_write_roots :: "string list option"
  o_deny_roots :: "string list option"
  o_allow_read_outside_scope :: "bool option"
  o_allow_write_outside_scope :: "bool option"
  o_scope_on_violation :: "FileScopeViolationAction option"

definition mergeFileScopePolicies ::
  "FileScopePolicy \<Rightarrow> FileScopePolicyOverride \<Rightarrow> FileScopePolicy" where
  "mergeFileScopePolicies base ov =
    \<lparr>read_roots = case_option (read_roots base) id (o_read_roots ov),
     write_roots = case_option (write_roots base) id (o_write_roots ov),
     deny_roots = case_option (deny_roots base) id (o_deny_roots ov),
     allow_read_outside_scope =
       case_option (allow_read_outside_scope base) id (o_allow_read_outside_scope ov),
     allow_write_outside_scope =
       case_option (allow_write_outside_scope base) id (o_allow_write_outside_scope ov),
     scope_on_violation = case_option (scope_on_violation base) id (o_scope_on_violation ov)\<rparr>"

subsection \<open>Properties\<close>

lemma evaluation_sel [simp]:
  "access_allowed (permit p m r e)" "\<not> access_allowed (refuse pol p m r v e)"
  "access_violation (permit p m r e) = None" "access_violation (refuse pol p m r v e) = Some v"
  "access_action (permit p m r e) = None"
  "access_action (refuse pol p m r v e) = Some (scope_on_violation pol)"
  "normalizedPath (permit p m r e) = p" "normalizedPath (refuse pol p m r v e) = p"
  by (simp_all add: permit_def refuse_def)

text \<open>A root covers a path.\<close>

abbreviation covered :: "string \<Rightarrow> string list \<Rightarrow> bool" where
  "covered p roots \<equiv> \<exists>r \<in> set roots. rootCovers p r"

lemma classifyPath_cases:
  "fst (classifyPath p pol) =
    (if covered p (deny_roots pol) then DENY_ROOT
     else if covered p (write_roots pol) then WRITE_ROOT
     else if covered p (read_roots pol) then READ_ROOT else OUTSIDE)"
proof -
  have "covered p rs \<longleftrightarrow> find (rootCovers p) rs \<noteq> None" for rs
    by (auto simp: find_None_iff)
  then show ?thesis by (simp add: classifyPath_def split: option.split)
qed

lemma read_allowed_iff:
  "access_allowed (checkReadAccess f pol) \<longleftrightarrow>
    normalizePath f \<noteq> [] \<and> \<not> covered (normalizePath f) (deny_roots pol)
    \<and> (covered (normalizePath f) (write_roots pol @ read_roots pol) \<or> allow_read_outside_scope pol)"
  using classifyPath_cases[of "normalizePath f" pol]
  by (cases "classifyPath (normalizePath f) pol")
     (auto simp: checkReadAccess_def Let_def split: if_splits)

lemma write_allowed_iff:
  "access_allowed (checkWriteAccess f pol) \<longleftrightarrow>
    normalizePath f \<noteq> [] \<and> \<not> covered (normalizePath f) (deny_roots pol)
    \<and> (covered (normalizePath f) (write_roots pol)
       \<or> \<not> covered (normalizePath f) (read_roots pol) \<and> allow_write_outside_scope pol)"
  using classifyPath_cases[of "normalizePath f" pol]
  by (cases "classifyPath (normalizePath f) pol")
     (auto simp: checkWriteAccess_def Let_def split: if_splits)

text \<open>
  Access follows the roots with deny first: reading needs a non-empty path outside every deny
  root that lies in a read or write root (or the policy allows reads elsewhere); writing needs a
  write root (or a path outside all roots with writes allowed elsewhere).  No policy lets a path
  under a deny root through, and under a policy that does not allow writing more widely than reading,
  what may be written may be read.
\<close>

lemma file_scope_access:
  "(access_allowed (checkReadAccess f pol) \<longleftrightarrow>
     normalizePath f \<noteq> [] \<and> \<not> covered (normalizePath f) (deny_roots pol)
     \<and> (covered (normalizePath f) (write_roots pol @ read_roots pol) \<or> allow_read_outside_scope pol))
   \<and> (access_allowed (checkWriteAccess f pol) \<longleftrightarrow>
     normalizePath f \<noteq> [] \<and> \<not> covered (normalizePath f) (deny_roots pol)
     \<and> (covered (normalizePath f) (write_roots pol)
        \<or> \<not> covered (normalizePath f) (read_roots pol) \<and> allow_write_outside_scope pol))
   \<and> ((allow_write_outside_scope pol \<longrightarrow> allow_read_outside_scope pol) \<longrightarrow>
       access_allowed (checkWriteAccess f pol) \<longrightarrow> access_allowed (checkReadAccess f pol))"
  using read_allowed_iff[of f pol] write_allowed_iff[of f pol] by auto

text \<open>
  The post-run check accepts a diff exactly when every modified file may be written; otherwise it
  lists the evaluations of exactly the offending files, in order.
\<close>

lemma post_run_diff_valid_iff:
  "(diff_valid (validatePostRunDiff files pol) \<longleftrightarrow>
     (\<forall>f \<in> set files. access_allowed (checkWriteAccess f pol)))
   \<and> violations (validatePostRunDiff files pol) =
       map (\<lambda>f. checkWriteAccess f pol) (filter (\<lambda>f. \<not> access_allowed (checkWriteAccess f pol)) files)
   \<and> length (evaluations (validatePostRunDiff files pol)) = length files"
proof -
  have "filter (\<lambda>e. \<not> access_allowed e) (map (\<lambda>f. checkWriteAccess f pol) files)
      = map (\<lambda>f. checkWriteAccess f pol) (filter (\<lambda>f. \<not> access_allowed (checkWriteAccess f pol)) files)"
    by (simp add: filter_map o_def)
  then show ?thesis by (auto simp: validatePostRunDiff_def Let_def filter_empty_conv)
qed

text \<open>
  Normalisation leaves parent segments to the caller and strips \<open>./\<close> before the leading slash, so on
  such paths the prefix test sees another location than the file system.
\<close>

lemma parent_segment_escapes_deny_root:
  "\<not> access_allowed (checkWriteAccess ''.git/config'' DEFAULT_FILE_SCOPE_POLICY)"
  "access_allowed (checkWriteAccess ''apps/../.git/config'' DEFAULT_FILE_SCOPE_POLICY)"
  by code_simp+

lemma normalizePath_not_idempotent:
  "normalizePath ''/./secrets/key'' = ''./secrets/key''"
  "normalizePath (normalizePath ''/./secrets/key'') = ''secrets/key''"
  "\<not> access_allowed (checkReadAccess ''secrets/key'' DEFAULT_FILE_SCOPE_POLICY)"
  "access_allowed (checkReadAccess ''/./secrets/key'' DEFAULT_FILE_SCOPE_POLICY)"
  by code_simp+

end
