(* ===== verification/ReviewRouter.thy ===== *)
theory ReviewRouter
  imports Enums
begin

text \<open>
  \<open>packages/application/src/services/review-router.service.ts\<close>: which reviewers a change needs, from
  the repository's list and its routing rules; and
  \<open>packages/application/src/services/conflict-classifier.service.ts\<close>: whether a merge conflict can be
  sent back for rework.  Tracing is left out.

  Both match paths with the library \<open>picomatch\<close>, which is a parameter: \<open>picomatch pattern path\<close> is
  the verdict of \<open>picomatch(pattern, { dot: true })(path)\<close>.  A JavaScript \<open>Set\<close> is the list of its
  members in insertion order.
\<close>

type_synonym picomatch = "string \<Rightarrow> string \<Rightarrow> bool"

subsection \<open>Rules\<close>

record ReviewRoutingCondition =
  changed_path_matches :: "string list option"
  task_tag_in :: "string list option"
  task_domain_in :: "string list option"
  risk_level_in :: "string list option"

record ReviewRoutingRule =
  rule_name :: string
  rule_when :: ReviewRoutingCondition
  require_reviewers :: "string list option"
  optional_reviewers :: "string list option"

record ReviewRoutingInput =
  changedFilePaths :: "string list"
  taskTags :: "string list"
  taskDomain :: "string option"
  riskLevel :: RiskLevel
  repositoryRequiredReviewers :: "string list"
  routingConfig_rules :: "ReviewRoutingRule list"

datatype ReviewRequirement = required | optional

record RoutingRationaleEntry =
  re_reviewerType :: string
  re_requirement :: ReviewRequirement
  re_reason :: string

record RoutingDecision =
  requiredReviewers :: "string list"
  optionalReviewers :: "string list"
  routingRationale :: "RoutingRationaleEntry list"

definition GENERAL_REVIEWER_TYPE :: string where
  "GENERAL_REVIEWER_TYPE = ''general''"

text \<open>\<open>field !== undefined && field.length > 0\<close>.\<close>

definition present :: "'a list option \<Rightarrow> bool" where
  "present field = (case field of None \<Rightarrow> False | Some xs \<Rightarrow> xs \<noteq> [])"

definition evaluateCondition :: "picomatch \<Rightarrow> ReviewRoutingCondition \<Rightarrow> ReviewRoutingInput \<Rightarrow> bool" where
  "evaluateCondition picomatch condition input =
    (if present (changed_path_matches condition)
        \<and> \<not> list_ex (\<lambda>filePath. list_ex (\<lambda>pattern. picomatch pattern filePath)
              (the (changed_path_matches condition))) (changedFilePaths input)
     then False
     else if present (task_tag_in condition)
        \<and> \<not> list_ex (\<lambda>tag. tag \<in> set (the (task_tag_in condition))) (taskTags input)
     then False
     else if present (task_domain_in condition)
        \<and> \<not> (case taskDomain input of None \<Rightarrow> False | Some domain \<Rightarrow> domain \<in> set (the (task_domain_in condition)))
     then False
     else if present (risk_level_in condition)
        \<and> RiskLevel_value (riskLevel input) \<notin> set (the (risk_level_in condition))
     then False
     else present (changed_path_matches condition) \<or> present (task_tag_in condition)
        \<or> present (task_domain_in condition) \<or> present (risk_level_in condition))"

record CategorizedRules =
  pathBased :: "ReviewRoutingRule list"
  tagDomain :: "ReviewRoutingRule list"
  riskBased :: "ReviewRoutingRule list"

definition categorizeRules :: "ReviewRoutingRule list \<Rightarrow> CategorizedRules" where
  "categorizeRules rules =
    \<lparr>pathBased = filter (\<lambda>rule. present (changed_path_matches (rule_when rule))) rules,
     tagDomain = filter (\<lambda>rule. present (task_tag_in (rule_when rule)) \<or> present (task_domain_in (rule_when rule))) rules,
     riskBased = filter (\<lambda>rule. present (risk_level_in (rule_when rule))) rules\<rparr>"

subsection \<open>Routing\<close>

text \<open>The three variables of \<open>routeReview\<close> are a decision under construction.\<close>

definition addRequired :: "string \<Rightarrow> string \<Rightarrow> RoutingDecision \<Rightarrow> RoutingDecision" where
  "addRequired why reviewerType s =
    (if reviewerType \<in> set (requiredReviewers s) then s
     else s\<lparr>requiredReviewers := requiredReviewers s @ [reviewerType],
            optionalReviewers := filter (\<lambda>x. x \<noteq> reviewerType) (optionalReviewers s),
            routingRationale := routingRationale s
              @ [\<lparr>re_reviewerType = reviewerType, re_requirement = required, re_reason = why\<rparr>]\<rparr>)"

definition addOptional :: "string \<Rightarrow> string \<Rightarrow> RoutingDecision \<Rightarrow> RoutingDecision" where
  "addOptional why reviewerType s =
    (if reviewerType \<in> set (requiredReviewers s) \<or> reviewerType \<in> set (optionalReviewers s) then s
     else s\<lparr>optionalReviewers := optionalReviewers s @ [reviewerType],
            routingRationale := routingRationale s
              @ [\<lparr>re_reviewerType = reviewerType, re_requirement = optional, re_reason = why\<rparr>]\<rparr>)"

definition ruleReason :: "ReviewRoutingRule \<Rightarrow> string \<Rightarrow> string" where
  "ruleReason rule tierName = ''Rule '' @ quoted (rule_name rule) @ '' matched ('' @ tierName @ '')''"

fun evaluateRuleTier :: "picomatch \<Rightarrow> ReviewRoutingInput \<Rightarrow> string \<Rightarrow> ReviewRoutingRule list
    \<Rightarrow> RoutingDecision \<Rightarrow> RoutingDecision" where
  "evaluateRuleTier picomatch input tierName [] s = s"
| "evaluateRuleTier picomatch input tierName (rule # rest) s =
    (if \<not> evaluateCondition picomatch (rule_when rule) input then evaluateRuleTier picomatch input tierName rest s
     else
       let s1 = (case require_reviewers rule of
             None \<Rightarrow> s | Some rs \<Rightarrow> fold (addRequired (ruleReason rule tierName)) rs s);
           s2 = (case optional_reviewers rule of
             None \<Rightarrow> s1 | Some rs \<Rightarrow> fold (addOptional (ruleReason rule tierName)) rs s1)
       in evaluateRuleTier picomatch input tierName rest s2)"

text \<open>
  The first two steps add to the required reviewers while nothing is optional yet, so that they too
  are \<open>addRequired\<close>.  Character \<open>0xA7\<close> is the section sign.
\<close>

definition routeReview :: "picomatch \<Rightarrow> ReviewRoutingInput \<Rightarrow> RoutingDecision" where
  "routeReview picomatch input =
    (let s0 = addRequired (''General reviewer is always required per V1 review policy ('' @ CHR 0xA7 # ''9.9)'') GENERAL_REVIEWER_TYPE
           \<lparr>requiredReviewers = [], optionalReviewers = [], routingRationale = []\<rparr>;
         s1 = fold (addRequired ''Explicitly required by repository configuration'')
           (repositoryRequiredReviewers input) s0;
         rules = categorizeRules (routingConfig_rules input);
         s2 = evaluateRuleTier picomatch input ''path-based'' (pathBased rules) s1;
         s3 = evaluateRuleTier picomatch input ''tag/domain'' (tagDomain rules) s2
     in evaluateRuleTier picomatch input ''risk-based'' (riskBased rules) s3)"

subsection \<open>What the router decides\<close>

definition reviewers :: "'a list option \<Rightarrow> 'a set" where
  "reviewers field = (case field of None \<Rightarrow> {} | Some xs \<Rightarrow> set xs)"

definition rationale_for :: "ReviewRequirement \<Rightarrow> RoutingDecision \<Rightarrow> string set" where
  "rationale_for q s = set (map re_reviewerType (filter (\<lambda>e. re_requirement e = q) (routingRationale s)))"

text \<open>
  A decision in which \<open>R\<close> is required, the optional reviewers are those of \<open>Q\<close> that are not, both
  without repetition, and exactly the required ones have a \<open>required\<close> entry in the rationale.
\<close>

definition decides :: "string set \<Rightarrow> string set \<Rightarrow> RoutingDecision \<Rightarrow> bool" where
  "decides R Q s \<longleftrightarrow> set (requiredReviewers s) = R \<and> set (optionalReviewers s) = Q - R
     \<and> distinct (requiredReviewers s) \<and> distinct (optionalReviewers s)
     \<and> rationale_for required s = R \<and> Q - R \<subseteq> rationale_for optional s"

lemma decides_required: "decides R Q s \<Longrightarrow> decides (insert x R) Q (addRequired why x s)"
  by (cases "x \<in> R") (auto simp: decides_def addRequired_def insert_absorb rationale_for_def)

lemma decides_optional: "decides R Q s \<Longrightarrow> decides R (insert x Q) (addOptional why x s)"
  by (cases "x \<in> R \<or> x \<in> Q") (auto simp: decides_def addOptional_def rationale_for_def insert_absorb)

lemma decides_all_required: "decides R Q s \<Longrightarrow> decides (set xs \<union> R) Q (fold (addRequired why) xs s)"
proof (induction xs arbitrary: R s)
  case (Cons x xs)
  from Cons.IH[OF decides_required[OF Cons.prems, of x why]] show ?case by simp
qed simp

lemma decides_all_optional: "decides R Q s \<Longrightarrow> decides R (set xs \<union> Q) (fold (addOptional why) xs s)"
proof (induction xs arbitrary: Q s)
  case (Cons x xs)
  from Cons.IH[OF decides_optional[OF Cons.prems, of x why]] show ?case by simp
qed simp

text \<open>The reviewers that field \<open>f\<close> of the matching rules names.\<close>

definition from_rules :: "picomatch \<Rightarrow> ReviewRoutingInput \<Rightarrow> (ReviewRoutingRule \<Rightarrow> string list option)
    \<Rightarrow> ReviewRoutingRule list \<Rightarrow> string set" where
  "from_rules pm input f rules = {x. \<exists>r \<in> set rules. evaluateCondition pm (rule_when r) input \<and> x \<in> reviewers (f r)}"

lemma from_rules_simps [simp]:
  "from_rules pm input f [] = {}"
  "from_rules pm input f (r # rules) =
    (if evaluateCondition pm (rule_when r) input then reviewers (f r) else {}) \<union> from_rules pm input f rules"
  by (auto simp: from_rules_def)

lemma decides_tier:
  "decides R Q s \<Longrightarrow> decides (R \<union> from_rules pm input require_reviewers rules)
    (Q \<union> from_rules pm input optional_reviewers rules) (evaluateRuleTier pm input tier rules s)"
proof (induction rules arbitrary: R Q s)
  case (Cons r rules)
  show ?case
  proof (cases "evaluateCondition pm (rule_when r) input")
    case True
    let ?s1 = "case require_reviewers r of None \<Rightarrow> s | Some rs \<Rightarrow> fold (addRequired (ruleReason r tier)) rs s"
    let ?s2 = "case optional_reviewers r of None \<Rightarrow> ?s1 | Some rs \<Rightarrow> fold (addOptional (ruleReason r tier)) rs ?s1"
    have "decides (reviewers (require_reviewers r) \<union> R) Q ?s1"
      using Cons.prems decides_all_required by (auto simp: reviewers_def split: option.split)
    then have "decides (reviewers (require_reviewers r) \<union> R) (reviewers (optional_reviewers r) \<union> Q) ?s2"
      using decides_all_optional[of "reviewers (require_reviewers r) \<union> R" Q ?s1]
      by (auto simp: reviewers_def split: option.split)
    from Cons.IH[OF this] show ?thesis using True by (simp add: Let_def Un_ac)
  next
    case False
    then show ?thesis using Cons.IH[OF Cons.prems] by simp
  qed
qed simp

text \<open>A rule that matches has a field that puts it into a tier.\<close>

lemma matching_rule_has_tier:
  "evaluateCondition pm c input \<Longrightarrow> present (changed_path_matches c) \<or> present (task_tag_in c)
     \<or> present (task_domain_in c) \<or> present (risk_level_in c)"
  by (auto simp: evaluateCondition_def split: if_splits)

lemma from_tiers:
  "from_rules pm input f (pathBased (categorizeRules rules)) \<union> from_rules pm input f (tagDomain (categorizeRules rules))
    \<union> from_rules pm input f (riskBased (categorizeRules rules)) = from_rules pm input f rules"
  using matching_rule_has_tier[of pm _ input] by (fastforce simp: from_rules_def categorizeRules_def)

lemma decides_route:
  "decides (insert GENERAL_REVIEWER_TYPE (set (repositoryRequiredReviewers input))
      \<union> from_rules pm input require_reviewers (routingConfig_rules input))
    (from_rules pm input optional_reviewers (routingConfig_rules input)) (routeReview pm input)"
proof -
  let ?rules = "categorizeRules (routingConfig_rules input)"
  have start: "decides {} {} \<lparr>requiredReviewers = [], optionalReviewers = [], routingRationale = []\<rparr>"
    by (simp add: decides_def rationale_for_def)
  note step1 = decides_all_required[OF decides_required[OF start], of "repositoryRequiredReviewers input"]
  note tiers = decides_tier[OF decides_tier[OF decides_tier[OF step1]]]
  have R: "insert GENERAL_REVIEWER_TYPE (set (repositoryRequiredReviewers input))
      \<union> from_rules pm input require_reviewers (routingConfig_rules input)
    = set (repositoryRequiredReviewers input) \<union> {GENERAL_REVIEWER_TYPE} \<union> from_rules pm input require_reviewers (pathBased ?rules)
      \<union> from_rules pm input require_reviewers (tagDomain ?rules) \<union> from_rules pm input require_reviewers (riskBased ?rules)"
    by (subst from_tiers[symmetric]) blast
  have Q: "from_rules pm input optional_reviewers (routingConfig_rules input)
    = {} \<union> from_rules pm input optional_reviewers (pathBased ?rules)
      \<union> from_rules pm input optional_reviewers (tagDomain ?rules) \<union> from_rules pm input optional_reviewers (riskBased ?rules)"
    by (subst from_tiers[symmetric]) blast
  show ?thesis unfolding routeReview_def Let_def R Q by (rule tiers)
qed

text \<open>
  Routing is exact.  The required reviewers are the general reviewer, those the repository lists
  and those of every rule whose condition matches; the optional ones are those the matching rules
  suggest and none requires.  Neither list repeats a reviewer, and every required reviewer, and no other,
  has a \<open>required\<close> entry in the rationale.
\<close>

lemma review_routing_exact:
  "set (requiredReviewers (routeReview pm input)) = {''general''} \<union> set (repositoryRequiredReviewers input)
       \<union> from_rules pm input require_reviewers (routingConfig_rules input)
   \<and> set (optionalReviewers (routeReview pm input)) = from_rules pm input optional_reviewers (routingConfig_rules input)
       - set (requiredReviewers (routeReview pm input))
   \<and> distinct (requiredReviewers (routeReview pm input)) \<and> distinct (optionalReviewers (routeReview pm input))
   \<and> rationale_for required (routeReview pm input) = set (requiredReviewers (routeReview pm input))"
  using decides_route[of input pm] by (simp add: decides_def GENERAL_REVIEWER_TYPE_def)

text \<open>So the order of the rules does not matter for who reviews.\<close>

lemma review_routing_order:
  assumes "set rules = set rules'"
  shows "set (requiredReviewers (routeReview pm (input\<lparr>routingConfig_rules := rules\<rparr>)))
      = set (requiredReviewers (routeReview pm (input\<lparr>routingConfig_rules := rules'\<rparr>)))"
proof -
  have cond: "evaluateCondition pm c (input\<lparr>routingConfig_rules := rs\<rparr>) = evaluateCondition pm c input" for c rs
    by (simp add: evaluateCondition_def)
  have "from_rules pm (input\<lparr>routingConfig_rules := rules\<rparr>) require_reviewers rules
      = from_rules pm (input\<lparr>routingConfig_rules := rules'\<rparr>) require_reviewers rules'"
    using assms by (simp add: from_rules_def cond)
  then show ?thesis
    using decides_route[of "input\<lparr>routingConfig_rules := rules\<rparr>" pm] decides_route[of "input\<lparr>routingConfig_rules := rules'\<rparr>" pm]
    by (simp add: decides_def)
qed

subsection \<open>Conflict classification\<close>

record MergeConflictPolicy =
  maxConflictFiles :: int
  protectedPaths :: "string list"

definition DEFAULT_MERGE_CONFLICT_POLICY :: MergeConflictPolicy where
  "DEFAULT_MERGE_CONFLICT_POLICY = \<lparr>maxConflictFiles = 5, protectedPaths = [''.github/'', ''package.json'', ''pnpm-lock.yaml'']\<rparr>"

datatype ConflictClassification = reworkable | non_reworkable

record ConflictClassificationResult =
  classification :: ConflictClassification
  cc_reason :: string

definition normalizePattern :: "string \<Rightarrow> string" where
  "normalizePattern pattern = (if suffix ''/'' pattern then pattern @ ''**'' else pattern)"

definition classifyConflict :: "picomatch \<Rightarrow> string list \<Rightarrow> MergeConflictPolicy \<Rightarrow> ConflictClassificationResult" where
  "classifyConflict picomatch conflictFiles policy =
    (if int (length conflictFiles) \<ge> maxConflictFiles policy then
       \<lparr>classification = non_reworkable,
        cc_reason = ''Conflict file count ('' @ string_of_nat (length conflictFiles) @ '') meets or exceeds ''
          @ ''threshold ('' @ string_of_int (maxConflictFiles policy) @ '')''\<rparr>
     else
       case find (\<lambda>(file, pattern). picomatch (normalizePattern pattern) file)
           (List.product conflictFiles (protectedPaths policy)) of
         Some (file, pattern) \<Rightarrow>
           \<lparr>classification = non_reworkable,
            cc_reason = ''Conflict in protected path: '' @ quoted file @ '' matches pattern '' @ quoted pattern\<rparr>
       | None \<Rightarrow>
           \<lparr>classification = reworkable,
            cc_reason = (if conflictFiles = [] then ''No conflict files''
              else string_of_nat (length conflictFiles) @ '' conflict file(s), none in protected paths'')\<rparr>)"

lemma classify_conflict_iff:
  "classification (classifyConflict pm files policy) = reworkable \<longleftrightarrow>
    int (length files) < maxConflictFiles policy
    \<and> (\<forall>file \<in> set files. \<forall>pattern \<in> set (protectedPaths policy). \<not> pm (normalizePattern pattern) file)"
proof (cases "find (\<lambda>(file, pattern). pm (normalizePattern pattern) file) (List.product files (protectedPaths policy))")
  case None
  then have "\<forall>file \<in> set files. \<forall>pattern \<in> set (protectedPaths policy). \<not> pm (normalizePattern pattern) file"
    by (auto simp: find_None_iff)
  then show ?thesis using None by (simp add: classifyConflict_def)
next
  case (Some fp)
  then have "fst fp \<in> set files" "snd fp \<in> set (protectedPaths policy)" "pm (normalizePattern (snd fp)) (fst fp)"
    by (auto dest!: find_Some_iff_mem)
  then show ?thesis using Some by (auto simp: classifyConflict_def split: prod.split)
qed

end
