(* ===== verification/Store.thy ===== *)
theory Store
  imports Enums
begin

text \<open>
  The persistent state and the ways the services touch it: rows of the SQLite tables
  (\<open>apps/control-plane/src/infrastructure/database/schema.ts\<close>, the columns the modelled services
  read or write), transactions (\<open>connection.ts\<close>), the error classes of
  \<open>packages/application/src/errors.ts\<close>, audit records and domain events.

  A table is the list of its rows in scan order.  Columns of mode \<open>timestamp\<close> hold whole seconds:
  a \<open>Date\<close> (integer milliseconds) is divided by 1000, rounding down, when it is stored.  JSON
  columns hold a \<open>json\<close> value instead of its text.  What the code draws from its environment,
  the clock readings, \<open>crypto.randomUUID\<close> and the id generators, are arguments.
\<close>

subsection \<open>JSON\<close>

text \<open>\<open>JDate\<close> stands for the ISO text of a date, kept as its milliseconds.\<close>

datatype json =
    JNull
  | JBool bool
  | JNum int
  | JStr string
  | JArr "json list"
  | JObj "(string \<times> json) list"
  | JDate int

definition json_of_date_opt :: "int option \<Rightarrow> json" where
  "json_of_date_opt x = (case x of None \<Rightarrow> JNull | Some t \<Rightarrow> JDate t)"

definition json_of_string_opt :: "string option \<Rightarrow> json" where
  "json_of_string_opt x = (case x of None \<Rightarrow> JNull | Some s \<Rightarrow> JStr s)"

subsection \<open>Rows\<close>

record Task =
  t_taskId :: string
  t_repositoryId :: string
  t_priority :: TaskPriority
  t_status :: TaskStatus
  t_version :: int
  t_currentLeaseId :: "string option"
  t_currentReviewCycleId :: "string option"
  t_mergeQueueItemId :: "string option"
  t_retryCount :: int
  t_reviewRoundCount :: int
  t_requiredCapabilities :: "json option"
  t_createdAt :: int
  t_updatedAt :: int
  t_completedAt :: "int option"

record TaskLease =
  l_leaseId :: string
  l_taskId :: string
  l_workerId :: string
  l_poolId :: string
  l_leasedAt :: int
  l_expiresAt :: int
  l_heartbeatAt :: "int option"
  l_status :: WorkerLeaseStatus
  l_reclaimReason :: "string option"
  l_partialResultArtifactRefs :: "string list option"

record ReviewCycle =
  rc_reviewCycleId :: string
  rc_taskId :: string
  rc_status :: ReviewCycleStatus
  rc_requiredReviewers :: "json option"
  rc_optionalReviewers :: "json option"
  rc_startedAt :: int
  rc_completedAt :: "int option"

record ReviewPacket =
  rp_reviewPacketId :: string
  rp_taskId :: string
  rp_reviewCycleId :: string
  rp_reviewerType :: string
  rp_verdict :: string
  rp_packetJson :: json
  rp_createdAt :: int

record LeadReviewDecisionRecord =
  lr_leadReviewDecisionId :: string
  lr_reviewCycleId :: string
  lr_taskId :: string
  lr_decision :: string
  lr_summary :: string
  lr_blockingIssueCount :: int
  lr_nonBlockingIssueCount :: int
  lr_followUpTaskRefs :: json
  lr_packetJson :: json
  lr_createdAt :: int

record MergeQueueItem =
  mq_mergeQueueItemId :: string
  mq_taskId :: string
  mq_repositoryId :: string
  mq_status :: MergeQueueItemStatus
  mq_position :: int
  mq_approvedCommitSha :: "string option"
  mq_enqueuedAt :: int
  mq_startedAt :: "int option"
  mq_completedAt :: "int option"

record TaskDependency =
  d_taskDependencyId :: string
  d_taskId :: string
  d_dependsOnTaskId :: string
  d_dependencyType :: DependencyType
  d_isHardBlock :: bool
  d_createdAt :: int

record WorkerPool =
  p_workerPoolId :: string
  p_poolType :: WorkerPoolType
  p_maxConcurrency :: int
  p_defaultTimeoutSec :: "int option"
  p_capabilities :: "json option"
  p_enabled :: int

text \<open>The life of a worker process, as the supervisor writes it into its row.\<close>

datatype WorkerEntityStatus = worker_idle | worker_starting | worker_running | worker_completing | worker_completed | worker_failed | worker_cancelled | worker_timed_out

record Worker =
  w_workerId :: string
  w_poolId :: string
  w_name :: string
  w_status :: WorkerEntityStatus
  w_lastHeartbeatAt :: "int option"
  w_currentTaskId :: "string option"
  w_currentRunId :: "string option"

record Job =
  j_jobId :: string
  j_jobType :: JobType
  j_entityType :: "string option"
  j_entityId :: "string option"
  j_payloadJson :: "json option"
  j_status :: JobStatus
  j_attemptCount :: int
  j_runAfter :: "int option"
  j_leaseOwner :: "string option"
  j_parentJobId :: "string option"
  j_jobGroupId :: "string option"
  j_dependsOnJobIds :: "json option"
  j_createdAt :: int
  j_updatedAt :: int

record AuditEventRecord =
  ae_id :: string
  ae_entityType :: string
  ae_entityId :: string
  ae_eventType :: string
  ae_actorType :: string
  ae_actorId :: string
  ae_oldState :: "json option"
  ae_newState :: "json option"
  ae_metadata :: "json option"
  ae_createdAt :: int

record NewAuditEvent =
  na_entityType :: string
  na_entityId :: string
  na_eventType :: string
  na_actorType :: string
  na_actorId :: string
  na_oldState :: "json option"
  na_newState :: "json option"
  na_metadata :: "json option"

record db =
  tasks :: "Task list"
  taskLeases :: "TaskLease list"
  reviewCycles :: "ReviewCycle list"
  mergeQueueItems :: "MergeQueueItem list"
  taskDependencies :: "TaskDependency list"
  workerPools :: "WorkerPool list"
  jobs :: "Job list"
  auditEvents :: "AuditEventRecord list"
  reviewPackets :: "ReviewPacket list"
  leadReviewDecisions :: "LeadReviewDecisionRecord list"
  workers :: "Worker list"

text \<open>The primary keys and the unique index of the schema.\<close>

definition wf_db :: "db \<Rightarrow> bool" where
  "wf_db d \<longleftrightarrow>
    distinct (map t_taskId (tasks d)) \<and> distinct (map l_leaseId (taskLeases d))
    \<and> distinct (map rc_reviewCycleId (reviewCycles d))
    \<and> distinct (map mq_mergeQueueItemId (mergeQueueItems d))
    \<and> distinct (map d_taskDependencyId (taskDependencies d))
    \<and> distinct (map (\<lambda>e. (d_taskId e, d_dependsOnTaskId e)) (taskDependencies d))
    \<and> distinct (map p_workerPoolId (workerPools d)) \<and> distinct (map j_jobId (jobs d))
    \<and> distinct (map ae_id (auditEvents d)) \<and> distinct (map w_workerId (workers d))"

subsection \<open>Errors\<close>

text \<open>
  The error classes of the application, the version conflict of the task repository, the exception
  SQLite raises when a key or a reference is violated, the two HTTP exceptions of NestJS the control
  plane raises, with their messages, and the two errors of the merge queue service.
\<close>

datatype app_error =
    EntityNotFoundError string string
  | InvalidTransitionError string string string string "string option"
  | VersionConflictError string string string
  | ExclusivityViolationError string string
  | CyclicDependencyError string string "string list"
  | DuplicateDependencyError string string
  | SelfDependencyError string
  | LeaseNotActiveError string string
  | TaskNotReadyForLeaseError string string
  | LeaseNotAcceptingResultsError string string
  | GracePeriodExpiredError string int int
  | WorkerMismatchError string string string
  | LeaseNotReclaimableError string string
  | ValidationGateError string string string string string
  | is_RepositoryVersionConflict: RepositoryVersionConflictError string int
  | ConstraintError string
  | NotFoundException string
  | BadRequestException string
  | DuplicateEnqueueError string string
  | TaskNotApprovedError string string

subsection \<open>Events\<close>

record ActorInfo =
  actor_type :: string
  actor_id :: string

datatype DomainEvent =
    TaskTransitionedEvent string TaskStatus TaskStatus int ActorInfo int
  | TaskLeaseTransitionedEvent string WorkerLeaseStatus WorkerLeaseStatus ActorInfo int
  | ReviewCycleTransitionedEvent string ReviewCycleStatus ReviewCycleStatus ActorInfo int
  | MergeQueueItemTransitionedEvent string MergeQueueItemStatus MergeQueueItemStatus ActorInfo int
  | WorkerStatusChangedEvent string WorkerEntityStatus WorkerEntityStatus ActorInfo int

text \<open>The database and the events handed to the emitter so far.\<close>

record world =
  database :: db
  emitted :: "DomainEvent list"

subsection \<open>Transactions\<close>

text \<open>
  A transaction body reads and writes the database and returns or throws.  Its writes stay in the
  state it threads even when it throws; it is \<open>writeTransaction\<close>, better-sqlite3's
  \<open>transaction(fn).immediate()\<close>, that commits on return and rolls back on an exception.
\<close>

type_synonym 'a tx = "db \<Rightarrow> (app_error + 'a) \<times> db"

definition returnT :: "'a \<Rightarrow> 'a tx" where
  "returnT a = (\<lambda>d. (Inr a, d))"

definition throwT :: "app_error \<Rightarrow> 'a tx" where
  "throwT e = (\<lambda>d. (Inl e, d))"

definition bindT :: "'a tx \<Rightarrow> ('a \<Rightarrow> 'b tx) \<Rightarrow> 'b tx" where
  "bindT m f = (\<lambda>d. case m d of (Inl e, d') \<Rightarrow> (Inl e, d') | (Inr a, d') \<Rightarrow> f a d')"

definition getT :: "(db \<Rightarrow> 'a) \<Rightarrow> 'a tx" where
  "getT f = (\<lambda>d. (Inr (f d), d))"

definition writeTransaction :: "'a tx \<Rightarrow> 'a tx" where
  "writeTransaction m = (\<lambda>d. case m d of (Inl e, _) \<Rightarrow> (Inl e, d) | (Inr a, d') \<Rightarrow> (Inr a, d'))"

lemma returnT_apply [simp]: "returnT a d = (Inr a, d)"
  by (simp add: returnT_def)

lemma throwT_apply [simp]: "throwT e d = (Inl e, d)"
  by (simp add: throwT_def)

lemma getT_apply [simp]: "getT f d = (Inr (f d), d)"
  by (simp add: getT_def)

lemma bindT_apply: "bindT m f d = (case m d of (Inl e, d') \<Rightarrow> (Inl e, d') | (Inr a, d') \<Rightarrow> f a d')"
  by (simp add: bindT_def)

lemma bindT_getT [simp]: "bindT (getT g) f d = f (g d) d"
  by (simp add: bindT_apply)

lemma bindT_Inr:
  "bindT m f d = (Inr b, d'') \<longleftrightarrow> (\<exists>a d'. m d = (Inr a, d') \<and> f a d' = (Inr b, d''))"
  by (auto simp: bindT_apply split: prod.splits sum.splits)

lemma writeTransaction_Inr: "writeTransaction m d = (Inr a, d') \<longleftrightarrow> m d = (Inr a, d')"
  by (auto simp: writeTransaction_def split: prod.splits sum.splits)

lemma writeTransaction_Inl: "writeTransaction m d = (Inl e, d') \<longleftrightarrow> d' = d \<and> (\<exists>d''. m d = (Inl e, d''))"
  by (auto simp: writeTransaction_def split: prod.splits sum.splits)

text \<open>A transaction either fails and leaves the database alone or commits its whole body.\<close>

lemma writeTransaction_cases:
  obtains e where "writeTransaction m d = (Inl e, d)"
  | a d' where "writeTransaction m d = (Inr a, d')" "m d = (Inr a, d')"
proof (cases "m d")
  case (Pair r d')
  then show ?thesis using that by (cases r) (auto simp: writeTransaction_def)
qed

text \<open>
  A transaction body keeps a predicate of the database, whether it returns or throws.  The rules
  follow the structure of a body, so a frame or an invariant of a whole service is proved from those
  of the repository operations it calls.
\<close>

definition preserves :: "(db \<Rightarrow> bool) \<Rightarrow> 'a tx \<Rightarrow> bool" where
  "preserves P m \<longleftrightarrow> (\<forall>d. P d \<longrightarrow> P (snd (m d)))"

lemma preservesD: "preserves P m \<Longrightarrow> m d = (x, d') \<Longrightarrow> P d \<Longrightarrow> P d'"
  by (force simp: preserves_def)

lemma preserves_basic [preserves_intro]:
  "preserves P (returnT a)" "preserves P (throwT e)" "preserves P (getT f)"
  by (simp_all add: preserves_def)

lemma preserves_bindT [preserves_intro]:
  "preserves P m \<Longrightarrow> (\<And>a. preserves P (f a)) \<Longrightarrow> preserves P (bindT m f)"
  by (auto simp: preserves_def bindT_apply split: prod.split sum.split)

lemma preserves_branch [preserves_intro]:
  "(c \<Longrightarrow> preserves P m) \<Longrightarrow> (\<not> c \<Longrightarrow> preserves P n) \<Longrightarrow> preserves P (if c then m else n)"
  "preserves P n \<Longrightarrow> (\<And>x. preserves P (g x)) \<Longrightarrow> preserves P (case opt of None \<Rightarrow> n | Some x \<Rightarrow> g x)"
  "preserves P (h v) \<Longrightarrow> preserves P (Let v h)"
  by (auto split: option.split)

lemma preserves_writeTransaction [preserves_intro]: "preserves P m \<Longrightarrow> preserves P (writeTransaction m)"
  by (auto simp: preserves_def writeTransaction_def split: prod.split sum.split)

text \<open>
  The services run a transaction and, once it has committed, hand their events to the emitter.
\<close>

definition commit :: "'a tx \<Rightarrow> ('a \<Rightarrow> DomainEvent list) \<Rightarrow> world \<Rightarrow> (app_error + 'a) \<times> world" where
  "commit tx events w =
    (case writeTransaction tx (database w) of
       (Inl e, d) \<Rightarrow> (Inl e, w\<lparr>database := d\<rparr>)
     | (Inr a, d) \<Rightarrow> (Inr a, w\<lparr>database := d, emitted := emitted w @ events a\<rparr>))"

lemma commit_preserves:
  assumes "preserves P tx" and "P (database w)"
  shows "P (database (snd (commit tx events w)))"
  using preservesD[OF preserves_writeTransaction[OF assms(1)] _ assms(2)]
  by (auto simp: commit_def split: prod.split sum.split)

lemma commit_cases:
  obtains e where "commit tx events w = (Inl e, w)" "writeTransaction tx (database w) = (Inl e, database w)"
  | a d' where "commit tx events w = (Inr a, w\<lparr>database := d', emitted := emitted w @ events a\<rparr>)"
      "writeTransaction tx (database w) = (Inr a, d')"
proof (rule writeTransaction_cases[of tx "database w"])
  fix e
  assume "writeTransaction tx (database w) = (Inl e, database w)"
  then show thesis using that(1) by (simp add: commit_def)
next
  fix a d'
  assume "writeTransaction tx (database w) = (Inr a, d')"
  then show thesis using that(2) by (simp add: commit_def)
qed

subsection \<open>Audit events\<close>

definition auditEvent_create :: "string \<Rightarrow> int \<Rightarrow> NewAuditEvent \<Rightarrow> AuditEventRecord tx" where
  "auditEvent_create uuid now event = (\<lambda>d.
    if uuid \<in> set (map ae_id (auditEvents d)) then (Inl (ConstraintError ''audit_event''), d)
    else let row = \<lparr>ae_id = uuid, ae_entityType = na_entityType event,
               ae_entityId = na_entityId event, ae_eventType = na_eventType event,
               ae_actorType = na_actorType event, ae_actorId = na_actorId event,
               ae_oldState = na_oldState event, ae_newState = na_newState event,
               ae_metadata = na_metadata event, ae_createdAt = now div 1000\<rparr>
         in (Inr row, d\<lparr>auditEvents := auditEvents d @ [row]\<rparr>))"

definition audit_row :: "string \<Rightarrow> int \<Rightarrow> NewAuditEvent \<Rightarrow> AuditEventRecord" where
  "audit_row uuid now ev = \<lparr>ae_id = uuid, ae_entityType = na_entityType ev, ae_entityId = na_entityId ev,
     ae_eventType = na_eventType ev, ae_actorType = na_actorType ev, ae_actorId = na_actorId ev,
     ae_oldState = na_oldState ev, ae_newState = na_newState ev, ae_metadata = na_metadata ev,
     ae_createdAt = now div 1000\<rparr>"

lemma audit_row_id [simp]: "ae_id (audit_row uuid now ev) = uuid"
  by (simp add: audit_row_def)

lemma audit_fresh: "uuid \<notin> set (map ae_id (auditEvents d)) \<Longrightarrow>
    auditEvent_create uuid now ev d
      = (Inr (audit_row uuid now ev), d\<lparr>auditEvents := auditEvents d @ [audit_row uuid now ev]\<rparr>)"
  by (simp add: auditEvent_create_def audit_row_def Let_def)

subsection \<open>Task repository\<close>

definition task_findById :: "string \<Rightarrow> db \<Rightarrow> Task option" where
  "task_findById taskId d = find (\<lambda>r. t_taskId r = taskId) (tasks d)"

definition task_findByStatus :: "TaskStatus \<Rightarrow> db \<Rightarrow> Task list" where
  "task_findByStatus status d = filter (\<lambda>r. t_status r = status) (tasks d)"

text \<open>\<open>UPDATE task SET ..., version = expected + 1 WHERE task_id = id AND version = expected\<close>.\<close>

definition task_update :: "int \<Rightarrow> string \<Rightarrow> int \<Rightarrow> (Task \<Rightarrow> Task) \<Rightarrow> Task tx" where
  "task_update now taskId expectedVersion data = (\<lambda>d.
    let hit = (\<lambda>r. t_taskId r = taskId \<and> t_version r = expectedVersion);
        upd = (\<lambda>r. (data r)\<lparr>t_version := expectedVersion + 1, t_updatedAt := now div 1000\<rparr>)
    in case find hit (tasks d) of
         None \<Rightarrow> (Inl (RepositoryVersionConflictError taskId expectedVersion), d)
       | Some r \<Rightarrow> (Inr (upd r), d\<lparr>tasks := update_where hit upd (tasks d)\<rparr>))"

text \<open>The transition service's task port turns the repository's conflict into the application's.\<close>

definition task_updateStatus :: "int \<Rightarrow> string \<Rightarrow> int \<Rightarrow> TaskStatus \<Rightarrow> Task tx" where
  "task_updateStatus now taskId expectedVersion newStatus = (\<lambda>d.
    case task_update now taskId expectedVersion (\<lambda>r. r\<lparr>t_status := newStatus\<rparr>) d of
      (Inl err, d') \<Rightarrow>
        (Inl (if is_RepositoryVersionConflict err
              then VersionConflictError ''Task'' taskId (string_of_int expectedVersion)
              else err), d')
    | (Inr updated, d') \<Rightarrow> (Inr updated, d'))"

subsection \<open>Lease repository\<close>

definition TERMINAL_LEASE_STATUSES :: "string list" where
  "TERMINAL_LEASE_STATUSES = [''COMPLETED'', ''TIMED_OUT'', ''CRASHED'', ''RECLAIMED'']"

definition lease_findById :: "string \<Rightarrow> db \<Rightarrow> TaskLease option" where
  "lease_findById leaseId d = find (\<lambda>r. l_leaseId r = leaseId) (taskLeases d)"

definition lease_findActiveByTaskId :: "string \<Rightarrow> db \<Rightarrow> TaskLease option" where
  "lease_findActiveByTaskId taskId d =
    find (\<lambda>r. l_taskId r = taskId \<and> WorkerLeaseStatus_value (l_status r) \<notin> set TERMINAL_LEASE_STATUSES)
      (taskLeases d)"

text \<open>An insert checks the primary key and the references to the task and the pool.\<close>

definition lease_create :: "TaskLease \<Rightarrow> TaskLease tx" where
  "lease_create row = (\<lambda>d.
    if l_leaseId row \<in> set (map l_leaseId (taskLeases d))
       \<or> l_taskId row \<notin> set (map t_taskId (tasks d))
       \<or> l_poolId row \<notin> set (map p_workerPoolId (workerPools d))
    then (Inl (ConstraintError ''task_lease''), d)
    else (Inr row, d\<lparr>taskLeases := taskLeases d @ [row]\<rparr>))"

definition lease_update :: "string \<Rightarrow> (TaskLease \<Rightarrow> TaskLease) \<Rightarrow> TaskLease option tx" where
  "lease_update leaseId data = (\<lambda>d.
    let hit = (\<lambda>r. l_leaseId r = leaseId)
    in (Inr (map_option data (find hit (taskLeases d))),
        d\<lparr>taskLeases := update_where hit data (taskLeases d)\<rparr>))"

text \<open>
  The three adapters that update a lease (\<open>updateStatus\<close>, \<open>updateHeartbeat\<close>, \<open>updateStatusWithReason\<close>)
  check the expected status and then write; they differ in what they write.
\<close>

definition lease_checkedUpdate ::
  "string \<Rightarrow> WorkerLeaseStatus \<Rightarrow> (TaskLease \<Rightarrow> TaskLease) \<Rightarrow> TaskLease tx" where
  "lease_checkedUpdate leaseId expectedStatus data = (\<lambda>d.
    let conflict = VersionConflictError ''TaskLease'' leaseId (WorkerLeaseStatus_value expectedStatus)
    in case lease_findById leaseId d of
      None \<Rightarrow> (Inl conflict, d)
    | Some current \<Rightarrow>
        if l_status current \<noteq> expectedStatus then (Inl conflict, d)
        else bindT (lease_update leaseId data)
          (\<lambda>updated. case updated of None \<Rightarrow> throwT conflict | Some r \<Rightarrow> returnT r) d)"

definition lease_updateStatus ::
  "string \<Rightarrow> WorkerLeaseStatus \<Rightarrow> WorkerLeaseStatus \<Rightarrow> TaskLease tx" where
  "lease_updateStatus leaseId expectedStatus newStatus =
    lease_checkedUpdate leaseId expectedStatus (\<lambda>r. r\<lparr>l_status := newStatus\<rparr>)"

subsection \<open>Review cycle and merge queue item repositories\<close>

definition cycle_findById :: "string \<Rightarrow> db \<Rightarrow> ReviewCycle option" where
  "cycle_findById cycleId d = find (\<lambda>r. rc_reviewCycleId r = cycleId) (reviewCycles d)"

definition cycle_update :: "string \<Rightarrow> (ReviewCycle \<Rightarrow> ReviewCycle) \<Rightarrow> ReviewCycle option tx" where
  "cycle_update cycleId data = (\<lambda>d.
    let hit = (\<lambda>r. rc_reviewCycleId r = cycleId)
    in (Inr (map_option data (find hit (reviewCycles d))),
        d\<lparr>reviewCycles := update_where hit data (reviewCycles d)\<rparr>))"

definition cycle_updateStatus ::
  "string \<Rightarrow> ReviewCycleStatus \<Rightarrow> ReviewCycleStatus \<Rightarrow> ReviewCycle tx" where
  "cycle_updateStatus cycleId expectedStatus newStatus = (\<lambda>d.
    let conflict = VersionConflictError ''ReviewCycle'' cycleId (ReviewCycleStatus_value expectedStatus)
    in case cycle_findById cycleId d of
      None \<Rightarrow> (Inl conflict, d)
    | Some current \<Rightarrow>
        if rc_status current \<noteq> expectedStatus then (Inl conflict, d)
        else bindT (cycle_update cycleId (\<lambda>r. r\<lparr>rc_status := newStatus\<rparr>))
          (\<lambda>updated. case updated of None \<Rightarrow> throwT conflict | Some r \<Rightarrow> returnT r) d)"

definition item_findById :: "string \<Rightarrow> db \<Rightarrow> MergeQueueItem option" where
  "item_findById itemId d = find (\<lambda>r. mq_mergeQueueItemId r = itemId) (mergeQueueItems d)"

definition item_update :: "string \<Rightarrow> (MergeQueueItem \<Rightarrow> MergeQueueItem) \<Rightarrow> MergeQueueItem option tx" where
  "item_update itemId data = (\<lambda>d.
    let hit = (\<lambda>r. mq_mergeQueueItemId r = itemId)
    in (Inr (map_option data (find hit (mergeQueueItems d))),
        d\<lparr>mergeQueueItems := update_where hit data (mergeQueueItems d)\<rparr>))"

definition item_updateStatus ::
  "string \<Rightarrow> MergeQueueItemStatus \<Rightarrow> MergeQueueItemStatus \<Rightarrow> MergeQueueItem tx" where
  "item_updateStatus itemId expectedStatus newStatus = (\<lambda>d.
    let conflict = VersionConflictError ''MergeQueueItem'' itemId (MergeQueueItemStatus_value expectedStatus)
    in case item_findById itemId d of
      None \<Rightarrow> (Inl conflict, d)
    | Some current \<Rightarrow>
        if mq_status current \<noteq> expectedStatus then (Inl conflict, d)
        else bindT (item_update itemId (\<lambda>r. r\<lparr>mq_status := newStatus\<rparr>))
          (\<lambda>updated. case updated of None \<Rightarrow> throwT conflict | Some r \<Rightarrow> returnT r) d)"

end
