(* ===== verification/Ports.thy ===== *)
theory Ports
  imports Store
begin

text \<open>
  The contract the services rely on when they update a row under optimistic concurrency: the
  repository ports of \<open>packages/application/src/ports/repository.ports.ts\<close>, stated as a locale and
  discharged for the four adapters of
  \<open>apps/control-plane/src/infrastructure/unit-of-work/repository-adapters.ts\<close>.
\<close>

locale entity_port =
  fixes look :: "string \<Rightarrow> db \<Rightarrow> 'e option"
    and status :: "'e \<Rightarrow> 's"
    and key :: "'e \<Rightarrow> 'k"
    and upd :: "string \<Rightarrow> 'k \<Rightarrow> 's \<Rightarrow> 'e tx"
  assumes upd_current:
      "wf_db d \<Longrightarrow> look i d = Some e \<Longrightarrow>
        \<exists>e' d'. upd i (key e) s d = (Inr e', d') \<and> look i d' = Some e' \<and> status e' = s
          \<and> (\<forall>j. j \<noteq> i \<longrightarrow> look j d' = look j d) \<and> auditEvents d' = auditEvents d \<and> wf_db d'"
    and upd_stale: "wf_db d \<Longrightarrow> look i d = Some e \<Longrightarrow> key e \<noteq> k \<Longrightarrow> \<exists>x. upd i k s d = (Inl x, d)"
    and upd_missing: "look i d = None \<Longrightarrow> \<exists>x. upd i k s d = (Inl x, d)"
begin

text \<open>Of two writers that read the same key, the second fails once the first has changed it.\<close>

lemma second_writer_fails:
  assumes "wf_db d" and "look i d = Some e" and "upd i (key e) s d = (Inr e', d')" and "key e' \<noteq> key e"
  shows "\<exists>x. upd i (key e) s' d' = (Inl x, d')"
proof -
  from upd_current[OF assms(1,2), of s] assms(3) have "wf_db d'" "look i d' = Some e'" by auto
  then show ?thesis using upd_stale assms(4) by blast
qed

lemma upd_cases:
  assumes "wf_db d"
  obtains x where "upd i k s d = (Inl x, d)"
  | e e' d' where "look i d = Some e" "key e = k" "upd i k s d = (Inr e', d')" "look i d' = Some e'"
      "status e' = s" "\<forall>j. j \<noteq> i \<longrightarrow> look j d' = look j d" "auditEvents d' = auditEvents d" "wf_db d'"
proof (cases "look i d")
  case None
  then show ?thesis using upd_missing that(1) by blast
next
  case (Some e)
  show ?thesis
  proof (cases "key e = k")
    case True
    then show ?thesis using upd_current[OF assms Some, of s] Some that(2) by blast
  next
    case False
    then show ?thesis using upd_stale[OF assms Some] that(1) by blast
  qed
qed

end

subsection \<open>Audit events\<close>

lemma auditEvent_create_cases:
  obtains "uuid \<in> set (map ae_id (auditEvents d))"
      "auditEvent_create uuid now ev d = (Inl (ConstraintError ''audit_event''), d)"
  | row where "uuid \<notin> set (map ae_id (auditEvents d))"
      "auditEvent_create uuid now ev d = (Inr row, d\<lparr>auditEvents := auditEvents d @ [row]\<rparr>)"
      "ae_id row = uuid" "ae_entityType row = na_entityType ev" "ae_entityId row = na_entityId ev"
      "ae_eventType row = na_eventType ev" "ae_actorType row = na_actorType ev"
      "ae_actorId row = na_actorId ev" "ae_oldState row = na_oldState ev"
      "ae_newState row = na_newState ev" "ae_metadata row = na_metadata ev"
  by (cases "uuid \<in> set (map ae_id (auditEvents d))") (auto simp: auditEvent_create_def Let_def)

lemma wf_db_audit:
  assumes "wf_db d" and "ae_id row \<notin> set (map ae_id (auditEvents d))"
  shows "wf_db (d\<lparr>auditEvents := auditEvents d @ [row]\<rparr>)"
  using assms by (simp add: wf_db_def)

lemma bindT_step: "m d = (Inr a, d') \<Longrightarrow> bindT m f d = f a d'"
  by (simp add: bindT_apply)

text \<open>The audit event that ends the body of a service.\<close>

lemma audit_last_cases:
  assumes "wf_db d"
  obtains "uuid \<in> set (map ae_id (auditEvents d))"
      "bindT (auditEvent_create uuid now ev) (\<lambda>a. returnT (f a)) d = (Inl (ConstraintError ''audit_event''), d)"
  | a where "uuid \<notin> set (map ae_id (auditEvents d))"
      "bindT (auditEvent_create uuid now ev) (\<lambda>a. returnT (f a)) d
        = (Inr (f a), d\<lparr>auditEvents := auditEvents d @ [a]\<rparr>)"
      "ae_entityId a = na_entityId ev" "ae_eventType a = na_eventType ev"
      "ae_oldState a = na_oldState ev" "ae_newState a = na_newState ev"
      "wf_db (d\<lparr>auditEvents := auditEvents d @ [a]\<rparr>)"
proof (rule auditEvent_create_cases[of uuid d now ev])
  assume "uuid \<in> set (map ae_id (auditEvents d))"
    "auditEvent_create uuid now ev d = (Inl (ConstraintError ''audit_event''), d)"
  then show thesis using that(1) by (simp add: bindT_apply)
next
  fix a
  assume "uuid \<notin> set (map ae_id (auditEvents d))"
    "auditEvent_create uuid now ev d = (Inr a, d\<lparr>auditEvents := auditEvents d @ [a]\<rparr>)"
    "ae_id a = uuid" "ae_entityId a = na_entityId ev" "ae_eventType a = na_eventType ev"
    "ae_oldState a = na_oldState ev" "ae_newState a = na_newState ev"
  then show thesis using that(2) wf_db_audit[OF assms, of a] by (simp add: bindT_apply)
qed

subsection \<open>The adapters keep the contract\<close>

lemma keys_of_rest: "distinct (map k (x # xs)) \<Longrightarrow> k x = i \<Longrightarrow> \<forall>y \<in> set xs. k y \<noteq> i"
  by (auto simp: image_iff)

lemma find_both_keys:
  assumes "distinct (map k xs)" and "find (\<lambda>x. k x = i) xs = Some e"
  shows "find (\<lambda>x. k x = i \<and> v x = w) xs = (if v e = w then Some e else None)"
  using assms
proof (induction xs)
  case (Cons x xs)
  show ?case
  proof (cases "k x = i")
    case True
    with Cons.prems(1) have "\<forall>y \<in> set xs. k y \<noteq> i" by (rule keys_of_rest)
    then have "find (\<lambda>x. k x = i \<and> v x = w) xs = None" by (auto simp: find_None_iff)
    then show ?thesis using True Cons.prems(2) by auto
  next
    case False
    then show ?thesis using Cons by auto
  qed
qed simp

lemma update_where_both_keys:
  assumes "distinct (map k xs)" and "find (\<lambda>x. k x = i) xs = Some e" and "v e = w"
  shows "update_where (\<lambda>x. k x = i \<and> v x = w) f xs = update_where (\<lambda>x. k x = i) f xs"
  using assms
proof (induction xs)
  case (Cons x xs)
  show ?case
  proof (cases "k x = i")
    case True
    with Cons.prems(1) have "\<forall>y \<in> set xs. k y \<noteq> i" by (rule keys_of_rest)
    then have "update_where (\<lambda>x. k x = i \<and> v x = w) f xs = xs" "update_where (\<lambda>x. k x = i) f xs = xs"
      by (auto intro: update_where_none)
    then show ?thesis using True Cons.prems by auto
  next
    case False
    then show ?thesis using Cons by auto
  qed
qed simp

lemma task_update_current:
  fixes now :: int
  assumes "wf_db d" and "task_findById i d = Some r" and "\<And>r. t_taskId (f r) = t_taskId r"
  defines "r' \<equiv> (f r)\<lparr>t_version := t_version r + 1, t_updatedAt := now div 1000\<rparr>"
  obtains d' where "task_update now i (t_version r) f d = (Inr r', d')"
    "d' = d\<lparr>tasks := tasks d'\<rparr>" "map t_taskId (tasks d') = map t_taskId (tasks d)"
    "task_findById i d' = Some r'" "\<forall>j. j \<noteq> i \<longrightarrow> task_findById j d' = task_findById j d" "wf_db d'"
proof -
  let ?upd = "\<lambda>x. (f x)\<lparr>t_version := t_version r + 1, t_updatedAt := now div 1000\<rparr>"
  let ?ts = "update_where (\<lambda>x. t_taskId x = i) ?upd (tasks d)"
  have dist: "distinct (map t_taskId (tasks d))" using assms(1) by (simp add: wf_db_def)
  have fnd: "find (\<lambda>x. t_taskId x = i) (tasks d) = Some r" using assms(2) by (simp add: task_findById_def)
  have u: "task_update now i (t_version r) f d = (Inr r', d\<lparr>tasks := ?ts\<rparr>)"
    by (simp add: task_update_def Let_def find_both_keys[OF dist fnd]
        update_where_both_keys[OF dist fnd] r'_def)
  have ids: "map t_taskId ?ts = map t_taskId (tasks d)"
    using assms(3) by (intro map_update_where_same) simp
  have "task_findById i (d\<lparr>tasks := ?ts\<rparr>) = Some r'"
    using fnd assms(3) by (simp add: task_findById_def find_update_where_key r'_def)
  moreover have "\<forall>j. j \<noteq> i \<longrightarrow> task_findById j (d\<lparr>tasks := ?ts\<rparr>) = task_findById j d"
    using assms(3) by (simp add: task_findById_def find_update_where_other)
  moreover have "wf_db (d\<lparr>tasks := ?ts\<rparr>)" using assms(1) ids by (simp add: wf_db_def)
  ultimately show ?thesis using that[OF u] ids by simp
qed

lemma task_update_stale:
  assumes "wf_db d" and "\<And>r. task_findById i d = Some r \<Longrightarrow> t_version r \<noteq> k"
  shows "task_update now i k f d = (Inl (RepositoryVersionConflictError i k), d)"
proof -
  have dist: "distinct (map t_taskId (tasks d))" using assms(1) by (simp add: wf_db_def)
  have "find (\<lambda>x. t_taskId x = i \<and> t_version x = k) (tasks d) = None"
  proof (cases "find (\<lambda>x. t_taskId x = i) (tasks d)")
    case None
    then show ?thesis by (auto simp: find_None_iff)
  next
    case (Some r)
    then show ?thesis using find_both_keys[OF dist Some, of t_version k] assms(2)[of r]
      by (simp add: task_findById_def)
  qed
  then show ?thesis by (simp add: task_update_def Let_def)
qed

interpretation task_port: entity_port task_findById t_status t_version "task_updateStatus now" for now
proof
  fix d i e s
  assume wf: "wf_db d" and e: "task_findById i d = Some e"
  obtain d' where d': "task_update now i (t_version e) (\<lambda>r. r\<lparr>t_status := s\<rparr>) d
      = (Inr (e\<lparr>t_status := s, t_version := t_version e + 1, t_updatedAt := now div 1000\<rparr>), d')"
    "d' = d\<lparr>tasks := tasks d'\<rparr>"
    "task_findById i d' = Some (e\<lparr>t_status := s, t_version := t_version e + 1, t_updatedAt := now div 1000\<rparr>)"
    "\<forall>j. j \<noteq> i \<longrightarrow> task_findById j d' = task_findById j d" "wf_db d'"
    by (rule task_update_current[OF wf e, of "\<lambda>r. r\<lparr>t_status := s\<rparr>" now]) auto
  have "auditEvents d' = auditEvents d" by (subst d'(2)) simp
  with d' show "\<exists>e' d'. task_updateStatus now i (t_version e) s d = (Inr e', d')
      \<and> task_findById i d' = Some e' \<and> t_status e' = s
      \<and> (\<forall>j. j \<noteq> i \<longrightarrow> task_findById j d' = task_findById j d)
      \<and> auditEvents d' = auditEvents d \<and> wf_db d'"
    by (simp add: task_updateStatus_def)
next
  fix d i e k s
  assume "wf_db d" "task_findById i d = Some e" "t_version e \<noteq> k"
  then have "task_update now i k f d = (Inl (RepositoryVersionConflictError i k), d)" for f
    by (intro task_update_stale) auto
  then show "\<exists>x. task_updateStatus now i k s d = (Inl x, d)" by (simp add: task_updateStatus_def)
next
  fix i d k s
  assume "task_findById i d = None"
  then have "find (\<lambda>x. t_taskId x = i \<and> t_version x = k) (tasks d) = None"
    by (auto simp: task_findById_def find_None_iff)
  then show "\<exists>x. task_updateStatus now i k s d = (Inl x, d)"
    by (simp add: task_updateStatus_def task_update_def Let_def)
qed

lemma lease_update_lookup:
  assumes "\<And>r. l_leaseId (f r) = l_leaseId r" and "lease_update i f d = (Inr x, d')"
  shows "x = map_option f (lease_findById i d)"
    "d' = d\<lparr>taskLeases := update_where (\<lambda>r. l_leaseId r = i) f (taskLeases d)\<rparr>"
    "lease_findById i d' = map_option f (lease_findById i d)"
    "j \<noteq> i \<Longrightarrow> lease_findById j d' = lease_findById j d"
    "wf_db d \<Longrightarrow> wf_db d'"
proof -
  have ids: "map l_leaseId (update_where (\<lambda>r. l_leaseId r = i) f (taskLeases d)) = map l_leaseId (taskLeases d)"
    using assms(1) by (intro map_update_where_same) simp
  show "x = map_option f (lease_findById i d)"
    and d': "d' = d\<lparr>taskLeases := update_where (\<lambda>r. l_leaseId r = i) f (taskLeases d)\<rparr>"
    using assms(2) by (auto simp: lease_update_def lease_findById_def Let_def)
  show "lease_findById i d' = map_option f (lease_findById i d)"
    using assms(1) by (simp add: d' lease_findById_def find_update_where_key)
  show "j \<noteq> i \<Longrightarrow> lease_findById j d' = lease_findById j d"
    using assms(1) by (simp add: d' lease_findById_def find_update_where_other)
  show "wf_db d \<Longrightarrow> wf_db d'" using ids by (simp add: d' wf_db_def)
qed

lemma lease_checkedUpdate_current:
  assumes "wf_db d" and "lease_findById i d = Some l" and "\<And>r. l_leaseId (f r) = l_leaseId r"
  obtains d' where "lease_checkedUpdate i (l_status l) f d = (Inr (f l), d')"
    "d' = d\<lparr>taskLeases := update_where (\<lambda>r. l_leaseId r = i) f (taskLeases d)\<rparr>"
    "lease_findById i d' = Some (f l)" "\<forall>j. j \<noteq> i \<longrightarrow> lease_findById j d' = lease_findById j d" "wf_db d'"
proof -
  obtain x d' where u: "lease_update i f d = (Inr x, d')" by (simp add: lease_update_def Let_def)
  note look = lease_update_lookup[OF assms(3) u]
  have "lease_checkedUpdate i (l_status l) f d = (Inr (f l), d')"
    using assms(2) u look(1) by (simp add: lease_checkedUpdate_def bindT_apply)
  then show ?thesis using that look assms(1,2) by simp
qed

lemma lease_checkedUpdate_stale:
  assumes "\<And>l. lease_findById i d = Some l \<Longrightarrow> l_status l \<noteq> e"
  shows "lease_checkedUpdate i e f d
    = (Inl (VersionConflictError ''TaskLease'' i (WorkerLeaseStatus_value e)), d)"
  using assms by (auto simp: lease_checkedUpdate_def Let_def split: option.split)

lemma wf_lease_checkedUpdate:
  assumes "\<And>r. l_leaseId (f r) = l_leaseId r"
  shows "preserves wf_db (lease_checkedUpdate i e f)"
  unfolding preserves_def
proof (intro allI impI)
  fix d
  assume wf: "wf_db d"
  show "wf_db (snd (lease_checkedUpdate i e f d))"
  proof (cases "\<exists>l. lease_findById i d = Some l \<and> l_status l = e")
    case True
    then obtain l where l: "lease_findById i d = Some l" "l_status l = e" by blast
    show ?thesis by (rule lease_checkedUpdate_current[OF wf l(1) assms]) (simp add: l(2))
  next
    case False
    then show ?thesis using lease_checkedUpdate_stale[of i d e f] wf by simp
  qed
qed

interpretation lease_port: entity_port lease_findById l_status l_status lease_updateStatus
proof
  fix d i e s
  assume wf: "wf_db d" and e: "lease_findById i d = Some e"
  obtain d' where "lease_checkedUpdate i (l_status e) (\<lambda>r. r\<lparr>l_status := s\<rparr>) d = (Inr (e\<lparr>l_status := s\<rparr>), d')"
    "d' = d\<lparr>taskLeases := update_where (\<lambda>r. l_leaseId r = i) (\<lambda>r. r\<lparr>l_status := s\<rparr>) (taskLeases d)\<rparr>"
    "lease_findById i d' = Some (e\<lparr>l_status := s\<rparr>)" "\<forall>j. j \<noteq> i \<longrightarrow> lease_findById j d' = lease_findById j d"
    "wf_db d'"
    by (rule lease_checkedUpdate_current[OF wf e, of "\<lambda>r. r\<lparr>l_status := s\<rparr>"]) auto
  then show "\<exists>e' d'. lease_updateStatus i (l_status e) s d = (Inr e', d')
      \<and> lease_findById i d' = Some e' \<and> l_status e' = s
      \<and> (\<forall>j. j \<noteq> i \<longrightarrow> lease_findById j d' = lease_findById j d)
      \<and> auditEvents d' = auditEvents d \<and> wf_db d'"
    by (simp add: lease_updateStatus_def)
next
  fix d i e k s
  assume "lease_findById i d = Some e" "l_status e \<noteq> k"
  then show "\<exists>x. lease_updateStatus i k s d = (Inl x, d)"
    by (simp add: lease_updateStatus_def lease_checkedUpdate_def Let_def)
next
  fix i d k s
  assume "lease_findById i d = None"
  then show "\<exists>x. lease_updateStatus i k s d = (Inl x, d)"
    by (simp add: lease_updateStatus_def lease_checkedUpdate_def Let_def)
qed

lemma wf_db_keys:
  "map rc_reviewCycleId rs = map rc_reviewCycleId (reviewCycles d) \<Longrightarrow> wf_db d \<Longrightarrow> wf_db (d\<lparr>reviewCycles := rs\<rparr>)"
  "map mq_mergeQueueItemId ms = map mq_mergeQueueItemId (mergeQueueItems d) \<Longrightarrow> wf_db d
    \<Longrightarrow> wf_db (d\<lparr>mergeQueueItems := ms\<rparr>)"
  by (simp_all add: wf_db_def)

interpretation cycle_port: entity_port cycle_findById rc_status rc_status cycle_updateStatus
proof
  fix d i e s
  assume wf: "wf_db d" and e: "cycle_findById i d = Some e"
  let ?f = "\<lambda>r. r\<lparr>rc_status := s\<rparr>"
  let ?rs = "update_where (\<lambda>r. rc_reviewCycleId r = i) ?f (reviewCycles d)"
  have "wf_db (d\<lparr>reviewCycles := ?rs\<rparr>)"
    by (rule wf_db_keys(1)[OF map_update_where_same wf]) simp
  moreover have "\<forall>j. j \<noteq> i \<longrightarrow> cycle_findById j (d\<lparr>reviewCycles := ?rs\<rparr>) = cycle_findById j d"
    by (simp add: cycle_findById_def find_update_where_other)
  ultimately show "\<exists>e' d'. cycle_updateStatus i (rc_status e) s d = (Inr e', d')
      \<and> cycle_findById i d' = Some e' \<and> rc_status e' = s
      \<and> (\<forall>j. j \<noteq> i \<longrightarrow> cycle_findById j d' = cycle_findById j d)
      \<and> auditEvents d' = auditEvents d \<and> wf_db d'"
    using e by (simp add: cycle_updateStatus_def cycle_update_def bindT_apply Let_def
        cycle_findById_def find_update_where_key)
next
  fix d i e k s
  assume "cycle_findById i d = Some e" "rc_status e \<noteq> k"
  then show "\<exists>x. cycle_updateStatus i k s d = (Inl x, d)" by (simp add: cycle_updateStatus_def)
next
  fix i d k s
  assume "cycle_findById i d = None"
  then show "\<exists>x. cycle_updateStatus i k s d = (Inl x, d)" by (simp add: cycle_updateStatus_def)
qed

interpretation item_port: entity_port item_findById mq_status mq_status item_updateStatus
proof
  fix d i e s
  assume wf: "wf_db d" and e: "item_findById i d = Some e"
  let ?f = "\<lambda>r. r\<lparr>mq_status := s\<rparr>"
  let ?rs = "update_where (\<lambda>r. mq_mergeQueueItemId r = i) ?f (mergeQueueItems d)"
  have "wf_db (d\<lparr>mergeQueueItems := ?rs\<rparr>)"
    by (rule wf_db_keys(2)[OF map_update_where_same wf]) simp
  moreover have "\<forall>j. j \<noteq> i \<longrightarrow> item_findById j (d\<lparr>mergeQueueItems := ?rs\<rparr>) = item_findById j d"
    by (simp add: item_findById_def find_update_where_other)
  ultimately show "\<exists>e' d'. item_updateStatus i (mq_status e) s d = (Inr e', d')
      \<and> item_findById i d' = Some e' \<and> mq_status e' = s
      \<and> (\<forall>j. j \<noteq> i \<longrightarrow> item_findById j d' = item_findById j d)
      \<and> auditEvents d' = auditEvents d \<and> wf_db d'"
    using e by (simp add: item_updateStatus_def item_update_def bindT_apply Let_def
        item_findById_def find_update_where_key)
next
  fix d i e k s
  assume "item_findById i d = Some e" "mq_status e \<noteq> k"
  then show "\<exists>x. item_updateStatus i k s d = (Inl x, d)" by (simp add: item_updateStatus_def)
next
  fix i d k s
  assume "item_findById i d = None"
  then show "\<exists>x. item_updateStatus i k s d = (Inl x, d)" by (simp add: item_updateStatus_def)
qed

subsection \<open>What the repository operations keep\<close>

lemma wf_preserved [preserves_intro]:
  "preserves wf_db (auditEvent_create uuid now ev)"
  "preserves wf_db (task_updateStatus now i k s)"
  "preserves wf_db (lease_updateStatus i l s')"
  "preserves wf_db (cycle_updateStatus i c s'')"
  "preserves wf_db (item_updateStatus i q r)"
proof -
  show "preserves wf_db (auditEvent_create uuid now ev)"
    by (auto simp: preserves_def auditEvent_create_def Let_def wf_db_def)
  show "preserves wf_db (task_updateStatus now i k s)"
    unfolding preserves_def by (metis task_port.upd_cases snd_conv)
  show "preserves wf_db (lease_updateStatus i l s')"
    unfolding preserves_def by (metis lease_port.upd_cases snd_conv)
  show "preserves wf_db (cycle_updateStatus i c s'')"
    unfolding preserves_def by (metis cycle_port.upd_cases snd_conv)
  show "preserves wf_db (item_updateStatus i q r)"
    unfolding preserves_def by (metis item_port.upd_cases snd_conv)
qed

lemma tasks_preserved [preserves_intro]:
  "preserves (\<lambda>d. tasks d = T) (auditEvent_create uuid now ev)"
  "preserves (\<lambda>d. tasks d = T) (lease_updateStatus i l s')"
  "preserves (\<lambda>d. tasks d = T) (cycle_updateStatus i c s'')"
  "preserves (\<lambda>d. tasks d = T) (item_updateStatus i q r)"
  by (auto simp: preserves_def auditEvent_create_def lease_updateStatus_def lease_checkedUpdate_def lease_update_def
      cycle_updateStatus_def cycle_update_def item_updateStatus_def item_update_def bindT_apply Let_def
      split: option.split)

end
