(* ===== verification/GuardedMachine.thy ===== *)
theory GuardedMachine
  imports Prelude
begin

text \<open>
  What the four state machines of \<open>packages/domain/src/state-machines\<close> have in common.  Each
  module exports a validator from a current state, a proposed target and a guard context to a
  \<open>TransitionResult\<close>, the list of targets of a state, the list of all transitions, and a
  terminal-state predicate.  The locale \<open>guarded_machine\<close> states what these four functions promise
  about each other; the machines' own theories interpret it.  Runs are sequences of
  proposed transitions, every one of which the validator accepts.
\<close>

subsection \<open>Results\<close>

record TransitionResult =
  valid :: bool
  reason :: "string option"

definition VALID :: TransitionResult where
  "VALID = \<lparr>valid = True, reason = None\<rparr>"

definition reject :: "string \<Rightarrow> TransitionResult" where
  "reject r = \<lparr>valid = False, reason = Some r\<rparr>"

lemma valid_VALID [simp]: "valid VALID"
  by (simp add: VALID_def)

lemma valid_reject [simp]: "\<not> valid (reject r)"
  by (simp add: reject_def)

lemma reason_VALID [simp]: "reason VALID = None"
  by (simp add: VALID_def)

lemma reason_reject [simp]: "reason (reject r) = Some r"
  by (simp add: reject_def)

text \<open>
  The modules keep their guards in a map keyed by the pair of states and read the targets of a
  state off its keys.
\<close>

lemma set_explicit_targets [simp]:
  "t \<in> set (map (snd \<circ> fst) (filter (\<lambda>((from, _), _). from = s) guards)) \<longleftrightarrow>
    (\<exists>g. ((s, t), g) \<in> set guards)"
  by (induction guards) auto

lemma key_of_guards: "(s, t) \<in> set (map fst guards) \<longleftrightarrow> (\<exists>g. ((s, t), g) \<in> set guards)"
  by (induction guards) auto

subsection \<open>Runs\<close>

fun run_machine ::
  "('s \<Rightarrow> 's \<Rightarrow> 'c \<Rightarrow> TransitionResult) \<Rightarrow> 's \<Rightarrow> ('s \<times> 'c) list \<Rightarrow> 's option" where
  "run_machine validate s [] = Some s"
| "run_machine validate s ((t, c) # steps) =
    (if valid (validate s t c) then run_machine validate t steps else None)"

lemma run_machine_append:
  "run_machine v s (xs @ ys) =
    (case run_machine v s xs of None \<Rightarrow> None | Some t \<Rightarrow> run_machine v t ys)"
  by (induction xs arbitrary: s) auto

lemma run_machine_snoc:
  "run_machine v s (xs @ [(t, c)]) = Some u \<longleftrightarrow>
    u = t \<and> (\<exists>w. run_machine v s xs = Some w \<and> valid (v w t c))"
  by (auto simp: run_machine_append split: option.splits)

lemma run_machine_last_step:
  assumes "run_machine v s xs = Some t" and "s \<noteq> t"
  obtains ys u c where "xs = ys @ [(t, c)]" "run_machine v s ys = Some u" "valid (v u t c)"
proof (cases xs rule: rev_cases)
  case Nil
  with assms show ?thesis by simp
next
  case (snoc ys x)
  obtain r c where "x = (r, c)" by (cases x)
  with snoc assms(1) show ?thesis using that by (auto simp: run_machine_snoc)
qed

text \<open>
  A run that leaves a set of states has a last step that does so: the step's source is outside
  \<open>P\<close>, its target inside, and the rest of the run stays inside.
\<close>

lemma run_machine_last_entry:
  assumes "run_machine v s xs = Some t" and "\<not> P s" and "P t"
  obtains ys w c zs u where
    "xs = ys @ (w, c) # zs" "run_machine v s ys = Some u" "\<not> P u" "P w" "valid (v u w c)"
    "run_machine v w zs = Some t" "\<forall>(r, _) \<in> set zs. P r"
proof -
  have "\<exists>ys w c zs u. xs = ys @ (w, c) # zs \<and> run_machine v s ys = Some u \<and> \<not> P u \<and> P w
      \<and> valid (v u w c) \<and> run_machine v w zs = Some t \<and> (\<forall>(r, _) \<in> set zs. P r)"
    using assms
  proof (induction xs arbitrary: t rule: rev_induct)
    case Nil
    then show ?case by simp
  next
    case (snoc x xs)
    obtain r d where x: "x = (r, d)" by (cases x)
    from snoc.prems(1) x have [simp]: "r = t" and ex: "\<exists>q. run_machine v s xs = Some q \<and> valid (v q r d)"
      by (simp_all add: run_machine_snoc)
    from ex obtain q where q: "run_machine v s xs = Some q" "valid (v q r d)" by blast
    show ?case
    proof (cases "P q")
      case False
      then show ?thesis
        using q snoc.prems(3) x by (intro exI[of _ xs] exI[of _ t] exI[of _ d] exI[of _ "[]"] exI[of _ q]) simp
    next
      case True
      from snoc.IH[OF q(1) snoc.prems(2) True] obtain ys w c zs u where
        d: "xs = ys @ (w, c) # zs" "run_machine v s ys = Some u" "\<not> P u" "P w" "valid (v u w c)"
        "run_machine v w zs = Some q" "\<forall>(r, _) \<in> set zs. P r"
        by blast
      have "run_machine v w (zs @ [x]) = Some t"
        using d(6) q(2) x by (simp add: run_machine_append)
      moreover have "\<forall>(r, _) \<in> set (zs @ [x]). P r"
        using d(7) x snoc.prems(3) by auto
      ultimately show ?thesis
        using d by (intro exI[of _ ys] exI[of _ w] exI[of _ c] exI[of _ "zs @ [x]"] exI[of _ u]) simp
    qed
  qed
  then show ?thesis using that by blast
qed

subsection \<open>The contract of a machine module\<close>

locale guarded_machine =
  fixes validate :: "'s \<Rightarrow> 's \<Rightarrow> 'c \<Rightarrow> TransitionResult"
    and targets :: "'s \<Rightarrow> 's list"
    and transitions :: "('s \<times> 's) list"
    and terminal :: "'s \<Rightarrow> bool"
  assumes satisfiable_iff: "(\<exists>c. valid (validate s t c)) \<longleftrightarrow> t \<in> set (targets s)"
    and targets_iff: "t \<in> set (targets s) \<longleftrightarrow> (s, t) \<in> set transitions"
    and distinct_targets: "distinct (targets s)"
    and terminal_iff: "terminal s \<longleftrightarrow> targets s = []"
    and reason_iff: "reason (validate s t c) = None \<longleftrightarrow> valid (validate s t c)"
begin

lemma valid_transition: "valid (validate s t c) \<Longrightarrow> (s, t) \<in> set transitions"
  using satisfiable_iff targets_iff by blast

lemma terminal_rejects: "terminal s \<Longrightarrow> \<not> valid (validate s t c)"
  using satisfiable_iff terminal_iff by (metis list.set(1) empty_iff)

lemma terminal_run:
  assumes "terminal s" and "run_machine validate s xs = Some t"
  shows "xs = [] \<and> t = s"
  using assms by (cases xs) (auto simp: terminal_rejects split: if_splits)

lemma run_in_rtrancl:
  "run_machine validate s xs = Some t \<Longrightarrow> (s, t) \<in> (set transitions)\<^sup>*"
proof (induction xs arbitrary: s)
  case Nil
  then show ?case by simp
next
  case (Cons x xs)
  then show ?case
    by (cases x) (auto split: if_splits intro: converse_rtrancl_into_rtrancl[OF valid_transition])
qed

lemma rtrancl_has_run:
  assumes "(s, t) \<in> (set transitions)\<^sup>*"
  shows "\<exists>xs. run_machine validate s xs = Some t"
  using assms
proof (induction rule: converse_rtrancl_induct)
  case base
  show ?case by (rule exI[of _ "[]"]) simp
next
  case (step y z)
  then obtain c xs where "valid (validate y z c)" "run_machine validate z xs = Some t"
    using satisfiable_iff targets_iff by blast
  then show ?case by (intro exI[of _ "(z, c) # xs"]) simp
qed

text \<open>The states a run can reach are those the exported transition list connects.\<close>

lemma reachable_iff:
  "(\<exists>xs. run_machine validate s xs = Some t) \<longleftrightarrow> (s, t) \<in> (set transitions)\<^sup>*"
  using run_in_rtrancl rtrancl_has_run by blast

end

text \<open>A machine whose transitions, self-loops apart, climb a rank.\<close>

locale ranked_machine = guarded_machine +
  fixes rank :: "'s \<Rightarrow> nat"
  assumes rank_mono: "(s, t) \<in> set transitions \<Longrightarrow> s \<noteq> t \<Longrightarrow> rank s < rank t"
begin

fun changes :: "'s \<Rightarrow> ('s \<times> 'c) list \<Rightarrow> nat" where
  "changes s [] = 0"
| "changes s ((t, c) # xs) = (if s = t then 0 else 1) + changes t xs"

lemma changes_bounded:
  "run_machine validate s xs = Some t \<Longrightarrow> rank s + changes s xs \<le> rank t"
proof (induction xs arbitrary: s)
  case Nil
  then show ?case by simp
next
  case (Cons x xs)
  obtain r c where x: "x = (r, c)" by (cases x)
  from Cons.prems x have v: "valid (validate s r c)" and run: "run_machine validate r xs = Some t"
    by (auto split: if_splits)
  have "s = r \<or> rank s < rank r" using rank_mono valid_transition[OF v] by blast
  then show ?case using Cons.IH[OF run] x by auto
qed

lemma no_return:
  assumes "run_machine validate s xs = Some t" and "run_machine validate t ys = Some s"
  shows "s = t"
proof (rule ccontr)
  assume "s \<noteq> t"
  then have "0 < changes s xs" using assms(1) by (induction xs arbitrary: s) (auto split: if_splits)
  then show False using changes_bounded[OF assms(1)] changes_bounded[OF assms(2)] by simp
qed

end

end
