(* ===== verification/TaskSM.thy ===== *)
theory TaskSM
  imports Enums GuardedMachine
begin

text \<open>
  The task life cycle of \<open>packages/domain/src/state-machines/task-state-machine.ts\<close>: the guard
  context, one definition per guard, the transition map as an association list in the source's
  insertion order, and the public functions \<open>validateTransition\<close>, \<open>getValidTargets\<close>,
  \<open>isTerminalState\<close> and \<open>getAllValidTransitions\<close>.  The arrow of the source's messages is
  written \<open>->\<close>.
\<close>

subsection \<open>Context\<close>

datatype MergeConflictClass = reworkable | non_reworkable

record TransitionContext =
  allDependenciesResolved :: "bool option"
  hasPolicyBlockers :: "bool option"
  hasBlockers :: "bool option"
  leaseAcquired :: "bool option"
  hasHeartbeat :: "bool option"
  hasDevResultPacket :: "bool option"
  requiredValidationsPassed :: "bool option"
  hasReviewRoutingDecision :: "bool option"
  leadReviewDecision :: "LeadReviewDecision option"
  mergeSuccessful :: "bool option"
  mergeConflictClassification :: "MergeConflictClass option"
  postMergeValidationPassed :: "bool option"
  hasUnrecoverableFailure :: "bool option"
  leaseTimedOutNoRetry :: "bool option"
  leaseReclaimedRetryEligible :: "bool option"
  isOperator :: "bool option"
  hasEscalationTrigger :: "bool option"

text \<open>The default \<open>context = {}\<close> of the public functions.\<close>

definition emptyContext :: TransitionContext where
  "emptyContext =
    \<lparr>allDependenciesResolved = None,
     hasPolicyBlockers = None,
     hasBlockers = None,
     leaseAcquired = None,
     hasHeartbeat = None,
     hasDevResultPacket = None,
     requiredValidationsPassed = None,
     hasReviewRoutingDecision = None,
     leadReviewDecision = None,
     mergeSuccessful = None,
     mergeConflictClassification = None,
     postMergeValidationPassed = None,
     hasUnrecoverableFailure = None,
     leaseTimedOutNoRetry = None,
     leaseReclaimedRetryEligible = None,
     isOperator = None,
     hasEscalationTrigger = None\<rparr>"

subsection \<open>Guards\<close>

definition guardBacklogToReady :: "TransitionContext \<Rightarrow> TransitionResult" where
  "guardBacklogToReady ctx =
    (if allDependenciesResolved ctx \<noteq> Some True
     then reject ''Cannot transition BACKLOG -> READY: not all hard-block dependencies are resolved''
     else if hasPolicyBlockers ctx = Some True
     then reject ''Cannot transition BACKLOG -> READY: policy blockers remain''
     else VALID)"

definition guardBacklogToBlocked :: "TransitionContext \<Rightarrow> TransitionResult" where
  "guardBacklogToBlocked ctx =
    (if hasBlockers ctx \<noteq> Some True \<and> hasPolicyBlockers ctx \<noteq> Some True
     then reject ''Cannot transition BACKLOG -> BLOCKED: no hard-block dependency or policy blocker detected''
     else VALID)"

definition guardBlockedToReady :: "TransitionContext \<Rightarrow> TransitionResult" where
  "guardBlockedToReady ctx =
    (if allDependenciesResolved ctx \<noteq> Some True
     then reject ''Cannot transition BLOCKED -> READY: not all hard-block dependencies are resolved''
     else if hasPolicyBlockers ctx = Some True
     then reject ''Cannot transition BLOCKED -> READY: policy blockers remain''
     else VALID)"

definition guardReadyToAssigned :: "TransitionContext \<Rightarrow> TransitionResult" where
  "guardReadyToAssigned ctx =
    (if leaseAcquired ctx \<noteq> Some True
     then reject ''Cannot transition READY -> ASSIGNED: lease not acquired''
     else VALID)"

definition guardAssignedToInDevelopment :: "TransitionContext \<Rightarrow> TransitionResult" where
  "guardAssignedToInDevelopment ctx =
    (if hasHeartbeat ctx \<noteq> Some True
     then reject ''Cannot transition ASSIGNED -> IN_DEVELOPMENT: no worker heartbeat received''
     else VALID)"

definition guardInDevelopmentToDevComplete :: "TransitionContext \<Rightarrow> TransitionResult" where
  "guardInDevelopmentToDevComplete ctx =
    (if hasDevResultPacket ctx \<noteq> Some True
     then reject ''Cannot transition IN_DEVELOPMENT -> DEV_COMPLETE: no schema-valid DevResultPacket received''
     else if requiredValidationsPassed ctx \<noteq> Some True
     then reject ''Cannot transition IN_DEVELOPMENT -> DEV_COMPLETE: required validations have not passed''
     else VALID)"

definition guardInDevelopmentToFailed :: "TransitionContext \<Rightarrow> TransitionResult" where
  "guardInDevelopmentToFailed ctx =
    (if hasUnrecoverableFailure ctx \<noteq> Some True \<and> leaseTimedOutNoRetry ctx \<noteq> Some True
     then reject ''Cannot transition IN_DEVELOPMENT -> FAILED: no unrecoverable failure and lease has not timed out without retry''
     else VALID)"

definition guardInDevelopmentToReady :: "TransitionContext \<Rightarrow> TransitionResult" where
  "guardInDevelopmentToReady ctx =
    (if leaseReclaimedRetryEligible ctx \<noteq> Some True
     then reject ''Cannot transition IN_DEVELOPMENT -> READY: lease has not been reclaimed with retry eligibility''
     else VALID)"

definition guardAssignedToReady :: "TransitionContext \<Rightarrow> TransitionResult" where
  "guardAssignedToReady ctx =
    (if leaseReclaimedRetryEligible ctx \<noteq> Some True
     then reject ''Cannot transition ASSIGNED -> READY: lease has not been reclaimed with retry eligibility''
     else VALID)"

definition guardAssignedToFailed :: "TransitionContext \<Rightarrow> TransitionResult" where
  "guardAssignedToFailed ctx =
    (if leaseTimedOutNoRetry ctx \<noteq> Some True
     then reject ''Cannot transition ASSIGNED -> FAILED: lease has not timed out without retry''
     else VALID)"

definition guardDevCompleteToInReview :: "TransitionContext \<Rightarrow> TransitionResult" where
  "guardDevCompleteToInReview ctx =
    (if hasReviewRoutingDecision ctx \<noteq> Some True
     then reject ''Cannot transition DEV_COMPLETE -> IN_REVIEW: no review routing decision emitted''
     else VALID)"

definition guardInReviewToChangesRequested :: "TransitionContext \<Rightarrow> TransitionResult" where
  "guardInReviewToChangesRequested ctx =
    (if leadReviewDecision ctx \<noteq> Some LeadReviewDecision.CHANGES_REQUESTED \<and> leadReviewDecision ctx \<noteq> Some LeadReviewDecision.ESCALATED
     then reject (''Cannot transition IN_REVIEW -> CHANGES_REQUESTED: lead reviewer decision must be 'changes_requested' or 'escalated'' @ [CHR 0x27])
     else VALID)"

definition guardInReviewToApproved :: "TransitionContext \<Rightarrow> TransitionResult" where
  "guardInReviewToApproved ctx =
    (if leadReviewDecision ctx \<noteq> Some LeadReviewDecision.APPROVED \<and> leadReviewDecision ctx \<noteq> Some LeadReviewDecision.APPROVED_WITH_FOLLOW_UP
     then reject (''Cannot transition IN_REVIEW -> APPROVED: lead reviewer decision must be 'approved' or 'approved_with_follow_up'' @ [CHR 0x27])
     else VALID)"

definition guardChangesRequestedToAssigned :: "TransitionContext \<Rightarrow> TransitionResult" where
  "guardChangesRequestedToAssigned ctx =
    (if leaseAcquired ctx \<noteq> Some True
     then reject ''Cannot transition CHANGES_REQUESTED -> ASSIGNED: new lease not acquired for rework''
     else VALID)"

definition guardApprovedToQueuedForMerge :: "TransitionContext \<Rightarrow> TransitionResult" where
  "guardApprovedToQueuedForMerge _ = VALID"

definition guardQueuedForMergeToMerging :: "TransitionContext \<Rightarrow> TransitionResult" where
  "guardQueuedForMergeToMerging _ = VALID"

definition guardMergingToPostMergeValidation :: "TransitionContext \<Rightarrow> TransitionResult" where
  "guardMergingToPostMergeValidation ctx =
    (if mergeSuccessful ctx \<noteq> Some True
     then reject ''Cannot transition MERGING -> POST_MERGE_VALIDATION: merge did not complete successfully''
     else VALID)"

definition guardMergingToChangesRequested :: "TransitionContext \<Rightarrow> TransitionResult" where
  "guardMergingToChangesRequested ctx =
    (if mergeConflictClassification ctx \<noteq> Some reworkable
     then reject ''Cannot transition MERGING -> CHANGES_REQUESTED: merge conflict not classified as reworkable''
     else VALID)"

definition guardMergingToFailed :: "TransitionContext \<Rightarrow> TransitionResult" where
  "guardMergingToFailed ctx =
    (if mergeConflictClassification ctx \<noteq> Some non_reworkable
     then reject ''Cannot transition MERGING -> FAILED: merge conflict not classified as non-reworkable''
     else VALID)"

definition guardPostMergeValidationToDone :: "TransitionContext \<Rightarrow> TransitionResult" where
  "guardPostMergeValidationToDone ctx =
    (if postMergeValidationPassed ctx \<noteq> Some True
     then reject ''Cannot transition POST_MERGE_VALIDATION -> DONE: required post-merge checks have not passed''
     else VALID)"

definition guardPostMergeValidationToFailed :: "TransitionContext \<Rightarrow> TransitionResult" where
  "guardPostMergeValidationToFailed ctx =
    (if postMergeValidationPassed ctx \<noteq> Some False
     then reject ''Cannot transition POST_MERGE_VALIDATION -> FAILED: post-merge validation has not explicitly failed''
     else VALID)"

definition guardToEscalated :: "TransitionContext \<Rightarrow> TransitionResult" where
  "guardToEscalated ctx =
    (if isOperator ctx \<noteq> Some True \<and> hasEscalationTrigger ctx \<noteq> Some True
     then reject ''Cannot transition to ESCALATED: requires operator action or escalation trigger''
     else VALID)"

definition guardToCancelled :: "TransitionContext \<Rightarrow> TransitionResult" where
  "guardToCancelled ctx =
    (if isOperator ctx \<noteq> Some True
     then reject ''Cannot transition to CANCELLED: requires operator action''
     else VALID)"

definition guardEscalatedToAssigned :: "TransitionContext \<Rightarrow> TransitionResult" where
  "guardEscalatedToAssigned ctx =
    (if isOperator ctx \<noteq> Some True
     then reject ''Cannot transition ESCALATED -> ASSIGNED: requires operator action''
     else if leaseAcquired ctx \<noteq> Some True
     then reject ''Cannot transition ESCALATED -> ASSIGNED: new lease not acquired''
     else VALID)"

definition guardEscalatedToCancelled :: "TransitionContext \<Rightarrow> TransitionResult" where
  "guardEscalatedToCancelled ctx =
    (if isOperator ctx \<noteq> Some True
     then reject ''Cannot transition ESCALATED -> CANCELLED: requires operator action''
     else VALID)"

definition guardEscalatedToDone :: "TransitionContext \<Rightarrow> TransitionResult" where
  "guardEscalatedToDone ctx =
    (if isOperator ctx \<noteq> Some True
     then reject ''Cannot transition ESCALATED -> DONE: requires operator action''
     else VALID)"

subsection \<open>Transition map and public functions\<close>

definition TRANSITION_GUARDS ::
  "((TaskStatus \<times> TaskStatus) \<times> (TransitionContext \<Rightarrow> TransitionResult)) list" where
  "TRANSITION_GUARDS =
   [((TaskStatus.BACKLOG, TaskStatus.READY), guardBacklogToReady),
    ((TaskStatus.BACKLOG, TaskStatus.BLOCKED), guardBacklogToBlocked),
    ((TaskStatus.BLOCKED, TaskStatus.READY), guardBlockedToReady),
    ((TaskStatus.READY, TaskStatus.ASSIGNED), guardReadyToAssigned),
    ((TaskStatus.ASSIGNED, TaskStatus.IN_DEVELOPMENT), guardAssignedToInDevelopment),
    ((TaskStatus.ASSIGNED, TaskStatus.READY), guardAssignedToReady),
    ((TaskStatus.ASSIGNED, TaskStatus.FAILED), guardAssignedToFailed),
    ((TaskStatus.IN_DEVELOPMENT, TaskStatus.DEV_COMPLETE), guardInDevelopmentToDevComplete),
    ((TaskStatus.IN_DEVELOPMENT, TaskStatus.FAILED), guardInDevelopmentToFailed),
    ((TaskStatus.IN_DEVELOPMENT, TaskStatus.READY), guardInDevelopmentToReady),
    ((TaskStatus.DEV_COMPLETE, TaskStatus.IN_REVIEW), guardDevCompleteToInReview),
    ((TaskStatus.IN_REVIEW, TaskStatus.CHANGES_REQUESTED), guardInReviewToChangesRequested),
    ((TaskStatus.IN_REVIEW, TaskStatus.APPROVED), guardInReviewToApproved),
    ((TaskStatus.CHANGES_REQUESTED, TaskStatus.ASSIGNED), guardChangesRequestedToAssigned),
    ((TaskStatus.APPROVED, TaskStatus.QUEUED_FOR_MERGE), guardApprovedToQueuedForMerge),
    ((TaskStatus.QUEUED_FOR_MERGE, TaskStatus.MERGING), guardQueuedForMergeToMerging),
    ((TaskStatus.MERGING, TaskStatus.POST_MERGE_VALIDATION), guardMergingToPostMergeValidation),
    ((TaskStatus.MERGING, TaskStatus.CHANGES_REQUESTED), guardMergingToChangesRequested),
    ((TaskStatus.MERGING, TaskStatus.FAILED), guardMergingToFailed),
    ((TaskStatus.POST_MERGE_VALIDATION, TaskStatus.DONE), guardPostMergeValidationToDone),
    ((TaskStatus.POST_MERGE_VALIDATION, TaskStatus.FAILED), guardPostMergeValidationToFailed),
    ((TaskStatus.ESCALATED, TaskStatus.ASSIGNED), guardEscalatedToAssigned),
    ((TaskStatus.ESCALATED, TaskStatus.CANCELLED), guardEscalatedToCancelled),
    ((TaskStatus.ESCALATED, TaskStatus.DONE), guardEscalatedToDone)]"

definition TERMINAL_STATES :: "TaskStatus list" where
  "TERMINAL_STATES = [TaskStatus.DONE, TaskStatus.FAILED, TaskStatus.CANCELLED]"

definition WILDCARD_ESCALATION_SOURCES :: "TaskStatus list" where
  "WILDCARD_ESCALATION_SOURCES =
    filter (\<lambda>s. s \<notin> set TERMINAL_STATES \<and> s \<noteq> TaskStatus.ESCALATED) TaskStatus_values"

definition WILDCARD_CANCELLATION_SOURCES :: "TaskStatus list" where
  "WILDCARD_CANCELLATION_SOURCES = filter (\<lambda>s. s \<notin> set TERMINAL_STATES) TaskStatus_values"

definition validateTransition ::
  "TaskStatus \<Rightarrow> TaskStatus \<Rightarrow> TransitionContext \<Rightarrow> TransitionResult" where
  "validateTransition current target context =
    (if current = target
     then reject (''Cannot transition from '' @ TaskStatus_value current @ '' to itself'')
     else case map_of TRANSITION_GUARDS (current, target) of
       Some guard \<Rightarrow> guard context
     | None \<Rightarrow>
         if target = TaskStatus.ESCALATED then
           if current \<in> set WILDCARD_ESCALATION_SOURCES then guardToEscalated context
           else reject (''Cannot transition '' @ TaskStatus_value current @ '' -> ESCALATED: ''
                        @ TaskStatus_value current @ '' is a terminal state'')
         else if target = TaskStatus.CANCELLED \<and> current \<noteq> TaskStatus.ESCALATED then
           if current \<in> set WILDCARD_CANCELLATION_SOURCES then guardToCancelled context
           else reject (''Cannot transition '' @ TaskStatus_value current @ '' -> CANCELLED: ''
                        @ TaskStatus_value current @ '' is a terminal state'')
         else reject (''Invalid transition: '' @ TaskStatus_value current @ '' -> ''
                      @ TaskStatus_value target @ '' is not a valid task state transition''))"

definition getValidTargets :: "TaskStatus \<Rightarrow> TaskStatus list" where
  "getValidTargets current =
    (let targets = map (snd \<circ> fst) (filter (\<lambda>((from, _), _). from = current) TRANSITION_GUARDS);
         targets = (if current \<in> set WILDCARD_ESCALATION_SOURCES
                    then targets @ [TaskStatus.ESCALATED] else targets);
         targets = (if current \<in> set WILDCARD_CANCELLATION_SOURCES
                       \<and> TaskStatus.CANCELLED \<notin> set targets
                    then targets @ [TaskStatus.CANCELLED] else targets)
     in targets)"

definition isTerminalState :: "TaskStatus \<Rightarrow> bool" where
  "isTerminalState state = (state \<in> set TERMINAL_STATES)"

definition getAllValidTransitions :: "(TaskStatus \<times> TaskStatus) list" where
  "getAllValidTransitions =
    map fst TRANSITION_GUARDS
    @ map (\<lambda>source. (source, TaskStatus.ESCALATED)) WILDCARD_ESCALATION_SOURCES
    @ map (\<lambda>source. (source, TaskStatus.CANCELLED))
        (filter (\<lambda>source. source \<noteq> TaskStatus.ESCALATED) WILDCARD_CANCELLATION_SOURCES)"

subsection \<open>When a transition is accepted\<close>

lemmas task_guard_defs = guardBacklogToReady_def guardBacklogToBlocked_def guardBlockedToReady_def
  guardReadyToAssigned_def guardAssignedToInDevelopment_def guardInDevelopmentToDevComplete_def
  guardInDevelopmentToFailed_def guardInDevelopmentToReady_def guardAssignedToReady_def
  guardAssignedToFailed_def guardDevCompleteToInReview_def guardInReviewToChangesRequested_def
  guardInReviewToApproved_def guardChangesRequestedToAssigned_def
  guardApprovedToQueuedForMerge_def guardQueuedForMergeToMerging_def
  guardMergingToPostMergeValidation_def guardMergingToChangesRequested_def
  guardMergingToFailed_def guardPostMergeValidationToDone_def guardPostMergeValidationToFailed_def
  guardToEscalated_def guardToCancelled_def guardEscalatedToAssigned_def
  guardEscalatedToCancelled_def guardEscalatedToDone_def

lemma task_guards_valid [guard_valid]:
  "valid (guardBacklogToReady ctx) \<longleftrightarrow> allDependenciesResolved ctx = Some True \<and> hasPolicyBlockers ctx \<noteq> Some True"
  "valid (guardBacklogToBlocked ctx) \<longleftrightarrow> hasBlockers ctx = Some True \<or> hasPolicyBlockers ctx = Some True"
  "valid (guardBlockedToReady ctx) \<longleftrightarrow> allDependenciesResolved ctx = Some True \<and> hasPolicyBlockers ctx \<noteq> Some True"
  "valid (guardReadyToAssigned ctx) \<longleftrightarrow> leaseAcquired ctx = Some True"
  "valid (guardAssignedToInDevelopment ctx) \<longleftrightarrow> hasHeartbeat ctx = Some True"
  "valid (guardInDevelopmentToDevComplete ctx) \<longleftrightarrow> hasDevResultPacket ctx = Some True \<and> requiredValidationsPassed ctx = Some True"
  "valid (guardInDevelopmentToFailed ctx) \<longleftrightarrow> hasUnrecoverableFailure ctx = Some True \<or> leaseTimedOutNoRetry ctx = Some True"
  "valid (guardInDevelopmentToReady ctx) \<longleftrightarrow> leaseReclaimedRetryEligible ctx = Some True"
  "valid (guardAssignedToReady ctx) \<longleftrightarrow> leaseReclaimedRetryEligible ctx = Some True"
  "valid (guardAssignedToFailed ctx) \<longleftrightarrow> leaseTimedOutNoRetry ctx = Some True"
  "valid (guardDevCompleteToInReview ctx) \<longleftrightarrow> hasReviewRoutingDecision ctx = Some True"
  "valid (guardInReviewToChangesRequested ctx) \<longleftrightarrow> leadReviewDecision ctx = Some LeadReviewDecision.CHANGES_REQUESTED \<or> leadReviewDecision ctx = Some LeadReviewDecision.ESCALATED"
  "valid (guardInReviewToApproved ctx) \<longleftrightarrow> leadReviewDecision ctx = Some LeadReviewDecision.APPROVED \<or> leadReviewDecision ctx = Some LeadReviewDecision.APPROVED_WITH_FOLLOW_UP"
  "valid (guardChangesRequestedToAssigned ctx) \<longleftrightarrow> leaseAcquired ctx = Some True"
  "valid (guardApprovedToQueuedForMerge ctx)"
  "valid (guardQueuedForMergeToMerging ctx)"
  "valid (guardMergingToPostMergeValidation ctx) \<longleftrightarrow> mergeSuccessful ctx = Some True"
  "valid (guardMergingToChangesRequested ctx) \<longleftrightarrow> mergeConflictClassification ctx = Some reworkable"
  "valid (guardMergingToFailed ctx) \<longleftrightarrow> mergeConflictClassification ctx = Some non_reworkable"
  "valid (guardPostMergeValidationToDone ctx) \<longleftrightarrow> postMergeValidationPassed ctx = Some True"
  "valid (guardPostMergeValidationToFailed ctx) \<longleftrightarrow> postMergeValidationPassed ctx = Some False"
  "valid (guardToEscalated ctx) \<longleftrightarrow> isOperator ctx = Some True \<or> hasEscalationTrigger ctx = Some True"
  "valid (guardToCancelled ctx) \<longleftrightarrow> isOperator ctx = Some True"
  "valid (guardEscalatedToAssigned ctx) \<longleftrightarrow> isOperator ctx = Some True \<and> leaseAcquired ctx = Some True"
  "valid (guardEscalatedToCancelled ctx) \<longleftrightarrow> isOperator ctx = Some True"
  "valid (guardEscalatedToDone ctx) \<longleftrightarrow> isOperator ctx = Some True"
  by (simp_all add: task_guard_defs)

lemma TRANSITION_GUARDS_keys:
  "distinct (map fst TRANSITION_GUARDS)"
  "((s, t), g) \<in> set TRANSITION_GUARDS \<Longrightarrow> s \<noteq> t \<and> s \<notin> set TERMINAL_STATES \<and> t \<noteq> TaskStatus.ESCALATED"
  by (auto simp: TRANSITION_GUARDS_def TERMINAL_STATES_def)

lemma validateTransition_valid_iff:
  "valid (validateTransition s t c) \<longleftrightarrow>
    (\<exists>g. ((s, t), g) \<in> set TRANSITION_GUARDS \<and> valid (g c))
    \<or> t = TaskStatus.ESCALATED \<and> s \<in> set WILDCARD_ESCALATION_SOURCES \<and> valid (guardToEscalated c)
    \<or> t = TaskStatus.CANCELLED \<and> s \<noteq> TaskStatus.ESCALATED \<and> s \<in> set WILDCARD_CANCELLATION_SOURCES
      \<and> (\<nexists>g. ((s, t), g) \<in> set TRANSITION_GUARDS) \<and> valid (guardToCancelled c)"
proof (cases "map_of TRANSITION_GUARDS (s, t)")
  case (Some g)
  then have "((s, t), h) \<in> set TRANSITION_GUARDS \<longleftrightarrow> h = g" for h
    using TRANSITION_GUARDS_keys(1) by (metis map_of_eq_Some_iff option.inject)
  moreover from this have "s \<noteq> t" "t \<noteq> TaskStatus.ESCALATED" using TRANSITION_GUARDS_keys(2) by blast+
  ultimately show ?thesis using Some by (auto simp: validateTransition_def)
next
  case None
  then have "((s, t), h) \<notin> set TRANSITION_GUARDS" for h
    by (metis map_of_eq_None_iff fst_conv image_eqI)
  moreover have "TaskStatus.ESCALATED \<notin> set WILDCARD_ESCALATION_SOURCES"
    "TaskStatus.CANCELLED \<notin> set WILDCARD_CANCELLATION_SOURCES"
    by (simp_all add: WILDCARD_ESCALATION_SOURCES_def WILDCARD_CANCELLATION_SOURCES_def TERMINAL_STATES_def)
  ultimately show ?thesis using None by (auto simp: validateTransition_def)
qed

lemma wildcard_sources [simp]:
  "s \<in> set WILDCARD_ESCALATION_SOURCES \<longleftrightarrow>
    s \<notin> {TaskStatus.DONE, TaskStatus.FAILED, TaskStatus.CANCELLED, TaskStatus.ESCALATED}"
  "s \<in> set WILDCARD_CANCELLATION_SOURCES \<longleftrightarrow>
    s \<notin> {TaskStatus.DONE, TaskStatus.FAILED, TaskStatus.CANCELLED}"
  by (auto simp: WILDCARD_ESCALATION_SOURCES_def WILDCARD_CANCELLATION_SOURCES_def TERMINAL_STATES_def)

lemmas task_table = validateTransition_valid_iff TRANSITION_GUARDS_def

text \<open>The complete relation, target by target.\<close>

lemma accepted_iff:
  "\<not> valid (validateTransition s TaskStatus.BACKLOG c)"
  "valid (validateTransition s TaskStatus.READY c) \<longleftrightarrow>
    s \<in> {TaskStatus.BACKLOG, TaskStatus.BLOCKED}
      \<and> allDependenciesResolved c = Some True \<and> hasPolicyBlockers c \<noteq> Some True
    \<or> s \<in> {TaskStatus.ASSIGNED, TaskStatus.IN_DEVELOPMENT} \<and> leaseReclaimedRetryEligible c = Some True"
  "valid (validateTransition s TaskStatus.BLOCKED c) \<longleftrightarrow>
    s = TaskStatus.BACKLOG \<and> (hasBlockers c = Some True \<or> hasPolicyBlockers c = Some True)"
  "valid (validateTransition s TaskStatus.ASSIGNED c) \<longleftrightarrow>
    leaseAcquired c = Some True
    \<and> (s \<in> {TaskStatus.READY, TaskStatus.CHANGES_REQUESTED}
       \<or> s = TaskStatus.ESCALATED \<and> isOperator c = Some True)"
  "valid (validateTransition s TaskStatus.IN_DEVELOPMENT c) \<longleftrightarrow>
    s = TaskStatus.ASSIGNED \<and> hasHeartbeat c = Some True"
  "valid (validateTransition s TaskStatus.DEV_COMPLETE c) \<longleftrightarrow>
    s = TaskStatus.IN_DEVELOPMENT \<and> hasDevResultPacket c = Some True
    \<and> requiredValidationsPassed c = Some True"
  "valid (validateTransition s TaskStatus.IN_REVIEW c) \<longleftrightarrow>
    s = TaskStatus.DEV_COMPLETE \<and> hasReviewRoutingDecision c = Some True"
  "valid (validateTransition s TaskStatus.CHANGES_REQUESTED c) \<longleftrightarrow>
    s = TaskStatus.IN_REVIEW \<and> leadReviewDecision c
        \<in> {Some LeadReviewDecision.CHANGES_REQUESTED, Some LeadReviewDecision.ESCALATED}
    \<or> s = TaskStatus.MERGING \<and> mergeConflictClassification c = Some reworkable"
  "valid (validateTransition s TaskStatus.APPROVED c) \<longleftrightarrow>
    s = TaskStatus.IN_REVIEW \<and> leadReviewDecision c
        \<in> {Some LeadReviewDecision.APPROVED, Some LeadReviewDecision.APPROVED_WITH_FOLLOW_UP}"
  "valid (validateTransition s TaskStatus.QUEUED_FOR_MERGE c) \<longleftrightarrow> s = TaskStatus.APPROVED"
  "valid (validateTransition s TaskStatus.MERGING c) \<longleftrightarrow> s = TaskStatus.QUEUED_FOR_MERGE"
  "valid (validateTransition s TaskStatus.POST_MERGE_VALIDATION c) \<longleftrightarrow>
    s = TaskStatus.MERGING \<and> mergeSuccessful c = Some True"
  "valid (validateTransition s TaskStatus.DONE c) \<longleftrightarrow>
    s = TaskStatus.POST_MERGE_VALIDATION \<and> postMergeValidationPassed c = Some True
    \<or> s = TaskStatus.ESCALATED \<and> isOperator c = Some True"
  "valid (validateTransition s TaskStatus.FAILED c) \<longleftrightarrow>
    s = TaskStatus.ASSIGNED \<and> leaseTimedOutNoRetry c = Some True
    \<or> s = TaskStatus.IN_DEVELOPMENT
      \<and> (hasUnrecoverableFailure c = Some True \<or> leaseTimedOutNoRetry c = Some True)
    \<or> s = TaskStatus.MERGING \<and> mergeConflictClassification c = Some non_reworkable
    \<or> s = TaskStatus.POST_MERGE_VALIDATION \<and> postMergeValidationPassed c = Some False"
  "valid (validateTransition s TaskStatus.ESCALATED c) \<longleftrightarrow>
    s \<notin> {TaskStatus.DONE, TaskStatus.FAILED, TaskStatus.CANCELLED, TaskStatus.ESCALATED}
    \<and> (isOperator c = Some True \<or> hasEscalationTrigger c = Some True)"
  "valid (validateTransition s TaskStatus.CANCELLED c) \<longleftrightarrow>
    s \<notin> {TaskStatus.DONE, TaskStatus.FAILED, TaskStatus.CANCELLED} \<and> isOperator c = Some True"
  by (auto simp: task_table guard_valid conj_disj_distribR ex_disj_distrib)

subsection \<open>The machine contract\<close>

lemma getValidTargets_set:
  "t \<in> set (getValidTargets s) \<longleftrightarrow>
    (\<exists>g. ((s, t), g) \<in> set TRANSITION_GUARDS)
    \<or> t = TaskStatus.ESCALATED \<and> s \<in> set WILDCARD_ESCALATION_SOURCES
    \<or> t = TaskStatus.CANCELLED \<and> s \<in> set WILDCARD_CANCELLATION_SOURCES"
proof -
  let ?explicit = "map (snd \<circ> fst) (filter (\<lambda>((from, _), _). from = s) TRANSITION_GUARDS)"
  have "t \<in> set (getValidTargets s) \<longleftrightarrow>
    t \<in> set ?explicit
    \<or> t = TaskStatus.ESCALATED \<and> s \<in> set WILDCARD_ESCALATION_SOURCES
    \<or> t = TaskStatus.CANCELLED \<and> s \<in> set WILDCARD_CANCELLATION_SOURCES"
    unfolding getValidTargets_def Let_def by (simp del: set_explicit_targets set_map set_filter) blast
  then show ?thesis by (simp only: set_explicit_targets)
qed

lemma getValidTargets_table:
  "distinct (getValidTargets s)" "isTerminalState s \<longleftrightarrow> getValidTargets s = []"
  by (cases s; simp add: getValidTargets_def TRANSITION_GUARDS_def isTerminalState_def TERMINAL_STATES_def)+

lemma some_context_accepted:
  assumes "t \<in> set (getValidTargets s)"
  shows "\<exists>c. valid (validateTransition s t c)"
proof -
  let ?c = "emptyContext\<lparr>allDependenciesResolved := Some True, hasBlockers := Some True,
    leaseAcquired := Some True, hasHeartbeat := Some True, hasDevResultPacket := Some True,
    requiredValidationsPassed := Some True, hasReviewRoutingDecision := Some True,
    mergeSuccessful := Some True, leaseTimedOutNoRetry := Some True,
    leaseReclaimedRetryEligible := Some True, isOperator := Some True,
    leadReviewDecision := Some LeadReviewDecision.APPROVED,
    postMergeValidationPassed := Some True, mergeConflictClassification := Some reworkable\<rparr>"
  let ?d = "?c\<lparr>leadReviewDecision := Some LeadReviewDecision.CHANGES_REQUESTED,
    postMergeValidationPassed := Some False, mergeConflictClassification := Some non_reworkable\<rparr>"
  have "valid (validateTransition s t ?c) \<or> valid (validateTransition s t ?d)"
    using assms unfolding getValidTargets_set TRANSITION_GUARDS_def
    by (cases t rule: TaskStatus.exhaust) (auto simp: accepted_iff emptyContext_def)
  then show ?thesis by blast
qed

lemma accepted_in_targets:
  "valid (validateTransition s t c) \<Longrightarrow> t \<in> set (getValidTargets s)"
  by (auto simp: validateTransition_valid_iff getValidTargets_set)

lemma targets_in_transitions:
  "t \<in> set (getValidTargets s) \<longleftrightarrow> (s, t) \<in> set getAllValidTransitions"
proof -
  have "((TaskStatus.ESCALATED, TaskStatus.CANCELLED), guardEscalatedToCancelled) \<in> set TRANSITION_GUARDS"
    by (simp add: TRANSITION_GUARDS_def)
  then have esc: "(TaskStatus.ESCALATED, TaskStatus.CANCELLED) \<in> set (map fst TRANSITION_GUARDS)"
    unfolding key_of_guards by blast
  define K where "K = set (map fst TRANSITION_GUARDS)"
  show ?thesis
    using esc unfolding getValidTargets_set getAllValidTransitions_def key_of_guards[symmetric] set_append
      K_def[symmetric]
    by (auto simp: image_iff)
qed

lemma task_guards_reason:
  "reason (guardBacklogToReady ctx) = None \<longleftrightarrow> valid (guardBacklogToReady ctx)"
  "reason (guardBacklogToBlocked ctx) = None \<longleftrightarrow> valid (guardBacklogToBlocked ctx)"
  "reason (guardBlockedToReady ctx) = None \<longleftrightarrow> valid (guardBlockedToReady ctx)"
  "reason (guardReadyToAssigned ctx) = None \<longleftrightarrow> valid (guardReadyToAssigned ctx)"
  "reason (guardAssignedToInDevelopment ctx) = None \<longleftrightarrow> valid (guardAssignedToInDevelopment ctx)"
  "reason (guardInDevelopmentToDevComplete ctx) = None \<longleftrightarrow> valid (guardInDevelopmentToDevComplete ctx)"
  "reason (guardInDevelopmentToFailed ctx) = None \<longleftrightarrow> valid (guardInDevelopmentToFailed ctx)"
  "reason (guardInDevelopmentToReady ctx) = None \<longleftrightarrow> valid (guardInDevelopmentToReady ctx)"
  "reason (guardAssignedToReady ctx) = None \<longleftrightarrow> valid (guardAssignedToReady ctx)"
  "reason (guardAssignedToFailed ctx) = None \<longleftrightarrow> valid (guardAssignedToFailed ctx)"
  "reason (guardDevCompleteToInReview ctx) = None \<longleftrightarrow> valid (guardDevCompleteToInReview ctx)"
  "reason (guardInReviewToChangesRequested ctx) = None \<longleftrightarrow> valid (guardInReviewToChangesRequested ctx)"
  "reason (guardInReviewToApproved ctx) = None \<longleftrightarrow> valid (guardInReviewToApproved ctx)"
  "reason (guardChangesRequestedToAssigned ctx) = None \<longleftrightarrow> valid (guardChangesRequestedToAssigned ctx)"
  "reason (guardApprovedToQueuedForMerge ctx) = None \<longleftrightarrow> valid (guardApprovedToQueuedForMerge ctx)"
  "reason (guardQueuedForMergeToMerging ctx) = None \<longleftrightarrow> valid (guardQueuedForMergeToMerging ctx)"
  "reason (guardMergingToPostMergeValidation ctx) = None \<longleftrightarrow> valid (guardMergingToPostMergeValidation ctx)"
  "reason (guardMergingToChangesRequested ctx) = None \<longleftrightarrow> valid (guardMergingToChangesRequested ctx)"
  "reason (guardMergingToFailed ctx) = None \<longleftrightarrow> valid (guardMergingToFailed ctx)"
  "reason (guardPostMergeValidationToDone ctx) = None \<longleftrightarrow> valid (guardPostMergeValidationToDone ctx)"
  "reason (guardPostMergeValidationToFailed ctx) = None \<longleftrightarrow> valid (guardPostMergeValidationToFailed ctx)"
  "reason (guardToEscalated ctx) = None \<longleftrightarrow> valid (guardToEscalated ctx)"
  "reason (guardToCancelled ctx) = None \<longleftrightarrow> valid (guardToCancelled ctx)"
  "reason (guardEscalatedToAssigned ctx) = None \<longleftrightarrow> valid (guardEscalatedToAssigned ctx)"
  "reason (guardEscalatedToCancelled ctx) = None \<longleftrightarrow> valid (guardEscalatedToCancelled ctx)"
  "reason (guardEscalatedToDone ctx) = None \<longleftrightarrow> valid (guardEscalatedToDone ctx)"
  by (simp_all add: task_guard_defs)

lemma reason_guard:
  "((s, t), g) \<in> set TRANSITION_GUARDS \<Longrightarrow> reason (g c) = None \<longleftrightarrow> valid (g c)"
  by (auto simp: TRANSITION_GUARDS_def task_guards_reason)

lemma reason_validateTransition:
  "reason (validateTransition s t c) = None \<longleftrightarrow> valid (validateTransition s t c)"
proof (cases "map_of TRANSITION_GUARDS (s, t)")
  case None
  then show ?thesis by (simp add: validateTransition_def task_guards_reason)
next
  case (Some g)
  then show ?thesis using reason_guard[OF map_of_SomeD[OF Some]] by (simp add: validateTransition_def)
qed

interpretation task: guarded_machine validateTransition getValidTargets getAllValidTransitions isTerminalState
proof
  fix s t :: TaskStatus and c
  show "(\<exists>c. valid (validateTransition s t c)) \<longleftrightarrow> t \<in> set (getValidTargets s)"
    using some_context_accepted accepted_in_targets by blast
  show "t \<in> set (getValidTargets s) \<longleftrightarrow> (s, t) \<in> set getAllValidTransitions"
    by (rule targets_in_transitions)
  show "distinct (getValidTargets s)" "isTerminalState s \<longleftrightarrow> getValidTargets s = []"
    by (rule getValidTargets_table)+
  show "reason (validateTransition s t c) = None \<longleftrightarrow> valid (validateTransition s t c)"
    by (rule reason_validateTransition)
qed

subsection \<open>Properties of the task life cycle\<close>

text \<open>
  The four public functions agree: a transition can be accepted (for some context) exactly when
  the target is listed by \<open>getValidTargets\<close>, exactly when the pair is listed by
  \<open>getAllValidTransitions\<close>; targets are listed once; the terminal states are exactly those
  without targets; and a rejection always carries a reason.
\<close>

lemma task_transitions_consistent:
  "((\<exists>c. valid (validateTransition s t c)) \<longleftrightarrow> t \<in> set (getValidTargets s))
   \<and> (t \<in> set (getValidTargets s) \<longleftrightarrow> (s, t) \<in> set getAllValidTransitions)
   \<and> distinct (getValidTargets s)
   \<and> (isTerminalState s \<longleftrightarrow> getValidTargets s = [])
   \<and> (reason (validateTransition s t c) = None \<longleftrightarrow> valid (validateTransition s t c))"
  using task.satisfiable_iff task.targets_iff task.distinct_targets task.terminal_iff task.reason_iff
  by blast

text \<open>
  The nine steps a task takes from a lease to \<open>DONE\<close>: with the evidence each one needs.
\<close>

lemma in_review_history:
  assumes "run_machine validateTransition TaskStatus.BACKLOG xs = Some TaskStatus.IN_REVIEW"
  obtains ys c1 c2 c3 c4 where
    "xs = ys @ [(TaskStatus.ASSIGNED, c1), (TaskStatus.IN_DEVELOPMENT, c2),
                (TaskStatus.DEV_COMPLETE, c3), (TaskStatus.IN_REVIEW, c4)]"
    "leaseAcquired c1 = Some True" "hasHeartbeat c2 = Some True"
    "hasDevResultPacket c3 = Some True" "requiredValidationsPassed c3 = Some True"
    "hasReviewRoutingDecision c4 = Some True"
proof -
  from assms obtain x4 c4 where 4: "xs = x4 @ [(TaskStatus.IN_REVIEW, c4)]"
    "run_machine validateTransition TaskStatus.BACKLOG x4 = Some TaskStatus.DEV_COMPLETE"
    "hasReviewRoutingDecision c4 = Some True"
    by (rule run_machine_last_step) (auto simp: accepted_iff)
  from 4(2) obtain x3 c3 where 3: "x4 = x3 @ [(TaskStatus.DEV_COMPLETE, c3)]"
    "run_machine validateTransition TaskStatus.BACKLOG x3 = Some TaskStatus.IN_DEVELOPMENT"
    "hasDevResultPacket c3 = Some True" "requiredValidationsPassed c3 = Some True"
    by (rule run_machine_last_step) (auto simp: accepted_iff)
  from 3(2) obtain x2 c2 where 2: "x3 = x2 @ [(TaskStatus.IN_DEVELOPMENT, c2)]"
    "run_machine validateTransition TaskStatus.BACKLOG x2 = Some TaskStatus.ASSIGNED"
    "hasHeartbeat c2 = Some True"
    by (rule run_machine_last_step) (auto simp: accepted_iff)
  from 2(2) obtain x1 c1 where 1: "x2 = x1 @ [(TaskStatus.ASSIGNED, c1)]" "leaseAcquired c1 = Some True"
    by (rule run_machine_last_step) (auto simp: accepted_iff)
  show ?thesis using 1 2 3 4 that by simp
qed

lemma post_merge_history:
  assumes "run_machine validateTransition TaskStatus.BACKLOG xs = Some TaskStatus.POST_MERGE_VALIDATION"
  obtains ys c5 c6 c7 c8 where
    "xs = ys @ [(TaskStatus.APPROVED, c5), (TaskStatus.QUEUED_FOR_MERGE, c6),
                (TaskStatus.MERGING, c7), (TaskStatus.POST_MERGE_VALIDATION, c8)]"
    "run_machine validateTransition TaskStatus.BACKLOG ys = Some TaskStatus.IN_REVIEW"
    "leadReviewDecision c5
       \<in> {Some LeadReviewDecision.APPROVED, Some LeadReviewDecision.APPROVED_WITH_FOLLOW_UP}"
    "mergeSuccessful c8 = Some True"
proof -
  from assms obtain x8 c8 where 8: "xs = x8 @ [(TaskStatus.POST_MERGE_VALIDATION, c8)]"
    "run_machine validateTransition TaskStatus.BACKLOG x8 = Some TaskStatus.MERGING"
    "mergeSuccessful c8 = Some True"
    by (rule run_machine_last_step) (auto simp: accepted_iff)
  from 8(2) obtain x7 c7 where 7: "x8 = x7 @ [(TaskStatus.MERGING, c7)]"
    "run_machine validateTransition TaskStatus.BACKLOG x7 = Some TaskStatus.QUEUED_FOR_MERGE"
    by (rule run_machine_last_step) (auto simp: accepted_iff)
  from 7(2) obtain x6 c6 where 6: "x7 = x6 @ [(TaskStatus.QUEUED_FOR_MERGE, c6)]"
    "run_machine validateTransition TaskStatus.BACKLOG x6 = Some TaskStatus.APPROVED"
    by (rule run_machine_last_step) (auto simp: accepted_iff)
  from 6(2) obtain x5 c5 where 5: "x6 = x5 @ [(TaskStatus.APPROVED, c5)]"
    "run_machine validateTransition TaskStatus.BACKLOG x5 = Some TaskStatus.IN_REVIEW"
    "leadReviewDecision c5
       \<in> {Some LeadReviewDecision.APPROVED, Some LeadReviewDecision.APPROVED_WITH_FOLLOW_UP}"
    by (rule run_machine_last_step) (auto simp: accepted_iff)
  show ?thesis using 5 6 7 8 that by simp
qed

text \<open>
  (C3) No unreviewed or unvalidated code is reported as done.  A task that starts in \<open>BACKLOG\<close> and
  ends in \<open>DONE\<close> either was resolved by an operator out of \<open>ESCALATED\<close> in its last step, or its last
  nine accepted transitions are exactly the pipeline from \<open>ASSIGNED\<close> to \<open>DONE\<close>, with the lease,
  the heartbeat, the schema-valid result and the passed validations, the routing decision, an
  approving lead decision, a successful merge and passed post-merge validation as evidence.
\<close>

theorem task_done_evidence:
  assumes "run_machine validateTransition TaskStatus.BACKLOG xs = Some TaskStatus.DONE"
  shows
    "(\<exists>ys c. xs = ys @ [(TaskStatus.DONE, c)] \<and> isOperator c = Some True
       \<and> run_machine validateTransition TaskStatus.BACKLOG ys = Some TaskStatus.ESCALATED)
     \<or> (\<exists>ys c1 c2 c3 c4 c5 c6 c7 c8 c9.
          xs = ys @ [(TaskStatus.ASSIGNED, c1), (TaskStatus.IN_DEVELOPMENT, c2),
                     (TaskStatus.DEV_COMPLETE, c3), (TaskStatus.IN_REVIEW, c4),
                     (TaskStatus.APPROVED, c5), (TaskStatus.QUEUED_FOR_MERGE, c6),
                     (TaskStatus.MERGING, c7), (TaskStatus.POST_MERGE_VALIDATION, c8),
                     (TaskStatus.DONE, c9)]
          \<and> leaseAcquired c1 = Some True \<and> hasHeartbeat c2 = Some True
          \<and> hasDevResultPacket c3 = Some True \<and> requiredValidationsPassed c3 = Some True
          \<and> hasReviewRoutingDecision c4 = Some True
          \<and> leadReviewDecision c5
              \<in> {Some LeadReviewDecision.APPROVED, Some LeadReviewDecision.APPROVED_WITH_FOLLOW_UP}
          \<and> mergeSuccessful c8 = Some True \<and> postMergeValidationPassed c9 = Some True)"
proof -
  from assms obtain zs u c where last: "xs = zs @ [(TaskStatus.DONE, c)]"
    "run_machine validateTransition TaskStatus.BACKLOG zs = Some u"
    "valid (validateTransition u TaskStatus.DONE c)"
    by (rule run_machine_last_step) simp
  show ?thesis
  proof (cases "u = TaskStatus.ESCALATED")
    case True
    with last show ?thesis by (auto simp: accepted_iff)
  next
    case False
    with last(3) have u: "u = TaskStatus.POST_MERGE_VALIDATION" "postMergeValidationPassed c = Some True"
      by (auto simp: accepted_iff)
    from last(2) u(1) obtain ms c5 c6 c7 c8 where m:
      "zs = ms @ [(TaskStatus.APPROVED, c5), (TaskStatus.QUEUED_FOR_MERGE, c6),
                  (TaskStatus.MERGING, c7), (TaskStatus.POST_MERGE_VALIDATION, c8)]"
      "run_machine validateTransition TaskStatus.BACKLOG ms = Some TaskStatus.IN_REVIEW"
      "leadReviewDecision c5
         \<in> {Some LeadReviewDecision.APPROVED, Some LeadReviewDecision.APPROVED_WITH_FOLLOW_UP}"
      "mergeSuccessful c8 = Some True"
      using post_merge_history by blast
    from m(2) show ?thesis
      by (rule in_review_history) (use last(1) m u in auto)
  qed
qed

definition pipeline_context :: TransitionContext where
  "pipeline_context = emptyContext\<lparr>allDependenciesResolved := Some True, leaseAcquired := Some True,
    hasHeartbeat := Some True, hasDevResultPacket := Some True,
    requiredValidationsPassed := Some True, hasReviewRoutingDecision := Some True,
    leadReviewDecision := Some LeadReviewDecision.APPROVED, mergeSuccessful := Some True,
    postMergeValidationPassed := Some True\<rparr>"

definition pipeline_run :: "(TaskStatus \<times> TransitionContext) list" where
  "pipeline_run = map (\<lambda>t. (t, pipeline_context))
    [TaskStatus.READY, TaskStatus.ASSIGNED, TaskStatus.IN_DEVELOPMENT, TaskStatus.DEV_COMPLETE,
     TaskStatus.IN_REVIEW, TaskStatus.APPROVED, TaskStatus.QUEUED_FOR_MERGE, TaskStatus.MERGING,
     TaskStatus.POST_MERGE_VALIDATION, TaskStatus.DONE]"

lemma pipeline_run_accepted:
  "run_machine validateTransition TaskStatus.BACKLOG pipeline_run = Some TaskStatus.DONE"
  by (simp add: pipeline_run_def accepted_iff pipeline_context_def emptyContext_def)

theorem task_done_evidence_witness:
  "\<exists>ys c8 c9. pipeline_run = ys @ [(TaskStatus.POST_MERGE_VALIDATION, c8), (TaskStatus.DONE, c9)]
     \<and> mergeSuccessful c8 = Some True \<and> postMergeValidationPassed c9 = Some True"
  using task_done_evidence[OF pipeline_run_accepted]
  by (auto simp: pipeline_run_def pipeline_context_def emptyContext_def)

text \<open>
  Terminal states are final and everything else stays recoverable: no sequence of proposed
  transitions leaves \<open>DONE\<close>, \<open>FAILED\<close> or \<open>CANCELLED\<close>, and from every non-terminal state an operator
  can reach each of \<open>DONE\<close> (through \<open>ESCALATED\<close>) and \<open>CANCELLED\<close>.
\<close>

lemma task_terminal_final:
  "if isTerminalState s
   then run_machine validateTransition s xs = (if xs = [] then Some s else None)
   else (\<exists>ys. run_machine validateTransition s ys = Some TaskStatus.DONE)
      \<and> (\<exists>ys. run_machine validateTransition s ys = Some TaskStatus.CANCELLED)"
proof (cases "isTerminalState s")
  case True
  then show ?thesis using task.terminal_run[OF True] by (cases "run_machine validateTransition s xs") auto
next
  case False
  let ?op = "emptyContext\<lparr>isOperator := Some True\<rparr>"
  let ?esc = "if s = TaskStatus.ESCALATED then [] else [(TaskStatus.ESCALATED, ?op)]"
  have "run_machine validateTransition s (?esc @ [(TaskStatus.DONE, ?op)]) = Some TaskStatus.DONE"
    "run_machine validateTransition s [(TaskStatus.CANCELLED, ?op)] = Some TaskStatus.CANCELLED"
    using False by (auto simp: accepted_iff isTerminalState_def TERMINAL_STATES_def)
  then have "\<exists>ys. run_machine validateTransition s ys = Some TaskStatus.DONE"
    "\<exists>ys. run_machine validateTransition s ys = Some TaskStatus.CANCELLED" by blast+
  with False show ?thesis by simp
qed

end
