(* ===== verification/LeaseSM.thy ===== *)
theory LeaseSM
  imports Enums GuardedMachine
begin

text \<open>
  The worker lease life cycle of
  \<open>packages/domain/src/state-machines/worker-lease-state-machine.ts\<close>: context, guards, transition
  map and public functions.
\<close>

subsection \<open>Context\<close>

record WorkerLeaseTransitionContext =
  leaseAcquired :: "bool option"
  workerProcessSpawned :: "bool option"
  firstHeartbeatReceived :: "bool option"
  heartbeatReceived :: "bool option"
  completionSignalReceived :: "bool option"
  heartbeatTimedOut :: "bool option"
  workerCrashed :: "bool option"
  reclaimRequested :: "bool option"

type_synonym WorkerLeaseTransitionResult = TransitionResult

text \<open>The default \<open>context = {}\<close> of the public functions.\<close>

definition emptyWorkerLeaseTransitionContext :: WorkerLeaseTransitionContext where
  "emptyWorkerLeaseTransitionContext =
    \<lparr>leaseAcquired = None,
     workerProcessSpawned = None,
     firstHeartbeatReceived = None,
     heartbeatReceived = None,
     completionSignalReceived = None,
     heartbeatTimedOut = None,
     workerCrashed = None,
     reclaimRequested = None\<rparr>"

subsection \<open>Guards\<close>

definition guardIdleToLeased :: "WorkerLeaseTransitionContext \<Rightarrow> WorkerLeaseTransitionResult" where
  "guardIdleToLeased ctx =
    (if leaseAcquired ctx \<noteq> Some True
     then reject ''Cannot transition IDLE -> LEASED: lease not acquired''
     else VALID)"

definition guardLeasedToStarting :: "WorkerLeaseTransitionContext \<Rightarrow> WorkerLeaseTransitionResult" where
  "guardLeasedToStarting ctx =
    (if workerProcessSpawned ctx \<noteq> Some True
     then reject ''Cannot transition LEASED -> STARTING: worker process not spawned''
     else VALID)"

definition guardStartingToRunning :: "WorkerLeaseTransitionContext \<Rightarrow> WorkerLeaseTransitionResult" where
  "guardStartingToRunning ctx =
    (if firstHeartbeatReceived ctx \<noteq> Some True
     then reject ''Cannot transition STARTING -> RUNNING: first heartbeat not received''
     else VALID)"

definition guardRunningToHeartbeating :: "WorkerLeaseTransitionContext \<Rightarrow> WorkerLeaseTransitionResult" where
  "guardRunningToHeartbeating ctx =
    (if heartbeatReceived ctx \<noteq> Some True
     then reject ''Cannot transition RUNNING -> HEARTBEATING: heartbeat not received''
     else VALID)"

definition guardHeartbeatingToHeartbeating :: "WorkerLeaseTransitionContext \<Rightarrow> WorkerLeaseTransitionResult" where
  "guardHeartbeatingToHeartbeating ctx =
    (if heartbeatReceived ctx \<noteq> Some True
     then reject ''Cannot transition HEARTBEATING -> HEARTBEATING: heartbeat not received''
     else VALID)"

definition guardToCompleting :: "WorkerLeaseTransitionContext \<Rightarrow> WorkerLeaseTransitionResult" where
  "guardToCompleting ctx =
    (if completionSignalReceived ctx \<noteq> Some True
     then reject ''Cannot transition to COMPLETING: no completion signal received''
     else VALID)"

definition guardToTimedOut :: "WorkerLeaseTransitionContext \<Rightarrow> WorkerLeaseTransitionResult" where
  "guardToTimedOut ctx =
    (if heartbeatTimedOut ctx \<noteq> Some True
     then reject ''Cannot transition to TIMED_OUT: heartbeat timeout not expired''
     else VALID)"

definition guardToCrashed :: "WorkerLeaseTransitionContext \<Rightarrow> WorkerLeaseTransitionResult" where
  "guardToCrashed ctx =
    (if workerCrashed ctx \<noteq> Some True
     then reject ''Cannot transition to CRASHED: worker has not crashed''
     else VALID)"

definition guardToReclaimed :: "WorkerLeaseTransitionContext \<Rightarrow> WorkerLeaseTransitionResult" where
  "guardToReclaimed ctx =
    (if reclaimRequested ctx \<noteq> Some True
     then reject ''Cannot transition to RECLAIMED: reclaim not requested''
     else VALID)"

subsection \<open>Transition map and public functions\<close>

definition TRANSITION_GUARDS ::
  "((WorkerLeaseStatus \<times> WorkerLeaseStatus) \<times> (WorkerLeaseTransitionContext \<Rightarrow> WorkerLeaseTransitionResult)) list" where
  "TRANSITION_GUARDS =
   [((WorkerLeaseStatus.IDLE, WorkerLeaseStatus.LEASED), guardIdleToLeased),
    ((WorkerLeaseStatus.LEASED, WorkerLeaseStatus.STARTING), guardLeasedToStarting),
    ((WorkerLeaseStatus.STARTING, WorkerLeaseStatus.RUNNING), guardStartingToRunning),
    ((WorkerLeaseStatus.RUNNING, WorkerLeaseStatus.HEARTBEATING), guardRunningToHeartbeating),
    ((WorkerLeaseStatus.HEARTBEATING, WorkerLeaseStatus.HEARTBEATING), guardHeartbeatingToHeartbeating),
    ((WorkerLeaseStatus.RUNNING, WorkerLeaseStatus.COMPLETING), guardToCompleting),
    ((WorkerLeaseStatus.HEARTBEATING, WorkerLeaseStatus.COMPLETING), guardToCompleting),
    ((WorkerLeaseStatus.STARTING, WorkerLeaseStatus.COMPLETING), guardToCompleting),
    ((WorkerLeaseStatus.STARTING, WorkerLeaseStatus.TIMED_OUT), guardToTimedOut),
    ((WorkerLeaseStatus.RUNNING, WorkerLeaseStatus.TIMED_OUT), guardToTimedOut),
    ((WorkerLeaseStatus.HEARTBEATING, WorkerLeaseStatus.TIMED_OUT), guardToTimedOut),
    ((WorkerLeaseStatus.STARTING, WorkerLeaseStatus.CRASHED), guardToCrashed),
    ((WorkerLeaseStatus.RUNNING, WorkerLeaseStatus.CRASHED), guardToCrashed),
    ((WorkerLeaseStatus.HEARTBEATING, WorkerLeaseStatus.CRASHED), guardToCrashed),
    ((WorkerLeaseStatus.TIMED_OUT, WorkerLeaseStatus.RECLAIMED), guardToReclaimed),
    ((WorkerLeaseStatus.CRASHED, WorkerLeaseStatus.RECLAIMED), guardToReclaimed)]"

definition TERMINAL_STATES :: "WorkerLeaseStatus list" where
  "TERMINAL_STATES = [WorkerLeaseStatus.COMPLETING, WorkerLeaseStatus.RECLAIMED]"

definition validateWorkerLeaseTransition ::
  "WorkerLeaseStatus \<Rightarrow> WorkerLeaseStatus \<Rightarrow> WorkerLeaseTransitionContext \<Rightarrow> WorkerLeaseTransitionResult" where
  "validateWorkerLeaseTransition current target context =
    (if current = target \<and> current \<noteq> WorkerLeaseStatus.HEARTBEATING
     then reject (''Cannot transition from '' @ WorkerLeaseStatus_value current @ '' to itself'')
     else case map_of TRANSITION_GUARDS (current, target) of
       Some guard \<Rightarrow> guard context
     | None \<Rightarrow>
         reject (''Invalid transition: '' @ WorkerLeaseStatus_value current @ '' -> ''
                 @ WorkerLeaseStatus_value target @ '' is not a valid worker lease state transition''))"

definition getValidWorkerLeaseTargets :: "WorkerLeaseStatus \<Rightarrow> WorkerLeaseStatus list" where
  "getValidWorkerLeaseTargets current =
    map (snd \<circ> fst) (filter (\<lambda>((from, _), _). from = current) TRANSITION_GUARDS)"

definition isTerminalWorkerLeaseState :: "WorkerLeaseStatus \<Rightarrow> bool" where
  "isTerminalWorkerLeaseState state = (state \<in> set TERMINAL_STATES)"

definition getAllValidWorkerLeaseTransitions :: "(WorkerLeaseStatus \<times> WorkerLeaseStatus) list" where
  "getAllValidWorkerLeaseTransitions = map fst TRANSITION_GUARDS"

subsection \<open>When a transition is accepted\<close>

lemmas lease_guard_defs = guardIdleToLeased_def guardLeasedToStarting_def
  guardStartingToRunning_def guardRunningToHeartbeating_def guardHeartbeatingToHeartbeating_def
  guardToCompleting_def guardToTimedOut_def guardToCrashed_def guardToReclaimed_def

lemma lease_guards_valid [guard_valid]:
  "valid (guardIdleToLeased ctx) \<longleftrightarrow> leaseAcquired ctx = Some True"
  "valid (guardLeasedToStarting ctx) \<longleftrightarrow> workerProcessSpawned ctx = Some True"
  "valid (guardStartingToRunning ctx) \<longleftrightarrow> firstHeartbeatReceived ctx = Some True"
  "valid (guardRunningToHeartbeating ctx) \<longleftrightarrow> heartbeatReceived ctx = Some True"
  "valid (guardHeartbeatingToHeartbeating ctx) \<longleftrightarrow> heartbeatReceived ctx = Some True"
  "valid (guardToCompleting ctx) \<longleftrightarrow> completionSignalReceived ctx = Some True"
  "valid (guardToTimedOut ctx) \<longleftrightarrow> heartbeatTimedOut ctx = Some True"
  "valid (guardToCrashed ctx) \<longleftrightarrow> workerCrashed ctx = Some True"
  "valid (guardToReclaimed ctx) \<longleftrightarrow> reclaimRequested ctx = Some True"
  by (simp_all add: lease_guard_defs)

lemma lease_guards_reason:
  "reason (guardIdleToLeased ctx) = None \<longleftrightarrow> valid (guardIdleToLeased ctx)"
  "reason (guardLeasedToStarting ctx) = None \<longleftrightarrow> valid (guardLeasedToStarting ctx)"
  "reason (guardStartingToRunning ctx) = None \<longleftrightarrow> valid (guardStartingToRunning ctx)"
  "reason (guardRunningToHeartbeating ctx) = None \<longleftrightarrow> valid (guardRunningToHeartbeating ctx)"
  "reason (guardHeartbeatingToHeartbeating ctx) = None \<longleftrightarrow> valid (guardHeartbeatingToHeartbeating ctx)"
  "reason (guardToCompleting ctx) = None \<longleftrightarrow> valid (guardToCompleting ctx)"
  "reason (guardToTimedOut ctx) = None \<longleftrightarrow> valid (guardToTimedOut ctx)"
  "reason (guardToCrashed ctx) = None \<longleftrightarrow> valid (guardToCrashed ctx)"
  "reason (guardToReclaimed ctx) = None \<longleftrightarrow> valid (guardToReclaimed ctx)"
  by (simp_all add: lease_guard_defs)

lemma lease_TRANSITION_GUARDS:
  "distinct (map fst TRANSITION_GUARDS)"
  "((s, t), g) \<in> set TRANSITION_GUARDS \<Longrightarrow> (s = t \<longrightarrow> s = WorkerLeaseStatus.HEARTBEATING)"
  "((s, t), g) \<in> set TRANSITION_GUARDS \<Longrightarrow> reason (g c) = None \<longleftrightarrow> valid (g c)"
  by (auto simp: TRANSITION_GUARDS_def lease_guards_reason)

lemma validateWorkerLeaseTransition_valid_iff:
  "valid (validateWorkerLeaseTransition s t c) \<longleftrightarrow>
    (\<exists>g. ((s, t), g) \<in> set TRANSITION_GUARDS \<and> valid (g c))"
proof (cases "map_of TRANSITION_GUARDS (s, t)")
  case (Some g)
  then have "((s, t), h) \<in> set TRANSITION_GUARDS \<longleftrightarrow> h = g" for h
    using lease_TRANSITION_GUARDS(1) by (metis map_of_eq_Some_iff option.inject)
  moreover from this have "(s = t \<longrightarrow> s = WorkerLeaseStatus.HEARTBEATING)" using lease_TRANSITION_GUARDS(2) by blast
  ultimately show ?thesis using Some by (auto simp: validateWorkerLeaseTransition_def)
next
  case None
  then have "((s, t), h) \<notin> set TRANSITION_GUARDS" for h
    by (metis map_of_eq_None_iff fst_conv image_eqI)
  then show ?thesis using None by (auto simp: validateWorkerLeaseTransition_def)
qed

lemma reason_validateWorkerLeaseTransition:
  "reason (validateWorkerLeaseTransition s t c) = None \<longleftrightarrow> valid (validateWorkerLeaseTransition s t c)"
proof (cases "map_of TRANSITION_GUARDS (s, t)")
  case None
  then show ?thesis by (simp add: validateWorkerLeaseTransition_def)
next
  case (Some g)
  then show ?thesis using lease_TRANSITION_GUARDS(3)[OF map_of_SomeD[OF Some]]
    by (simp add: validateWorkerLeaseTransition_def)
qed

lemma lease_accepted_iff:
  "\<not> valid (validateWorkerLeaseTransition s WorkerLeaseStatus.IDLE c)"
  "valid (validateWorkerLeaseTransition s WorkerLeaseStatus.LEASED c) \<longleftrightarrow>
    s = WorkerLeaseStatus.IDLE \<and> leaseAcquired c = Some True"
  "valid (validateWorkerLeaseTransition s WorkerLeaseStatus.STARTING c) \<longleftrightarrow>
    s = WorkerLeaseStatus.LEASED \<and> workerProcessSpawned c = Some True"
  "valid (validateWorkerLeaseTransition s WorkerLeaseStatus.RUNNING c) \<longleftrightarrow>
    s = WorkerLeaseStatus.STARTING \<and> firstHeartbeatReceived c = Some True"
  "valid (validateWorkerLeaseTransition s WorkerLeaseStatus.HEARTBEATING c) \<longleftrightarrow>
    s \<in> {WorkerLeaseStatus.RUNNING, WorkerLeaseStatus.HEARTBEATING} \<and> heartbeatReceived c = Some True"
  "valid (validateWorkerLeaseTransition s WorkerLeaseStatus.COMPLETING c) \<longleftrightarrow>
    s \<in> {WorkerLeaseStatus.STARTING, WorkerLeaseStatus.RUNNING, WorkerLeaseStatus.HEARTBEATING}
    \<and> completionSignalReceived c = Some True"
  "valid (validateWorkerLeaseTransition s WorkerLeaseStatus.TIMED_OUT c) \<longleftrightarrow>
    s \<in> {WorkerLeaseStatus.STARTING, WorkerLeaseStatus.RUNNING, WorkerLeaseStatus.HEARTBEATING}
    \<and> heartbeatTimedOut c = Some True"
  "valid (validateWorkerLeaseTransition s WorkerLeaseStatus.CRASHED c) \<longleftrightarrow>
    s \<in> {WorkerLeaseStatus.STARTING, WorkerLeaseStatus.RUNNING, WorkerLeaseStatus.HEARTBEATING}
    \<and> workerCrashed c = Some True"
  "valid (validateWorkerLeaseTransition s WorkerLeaseStatus.RECLAIMED c) \<longleftrightarrow>
    s \<in> {WorkerLeaseStatus.TIMED_OUT, WorkerLeaseStatus.CRASHED} \<and> reclaimRequested c = Some True"
  by (auto simp: validateWorkerLeaseTransition_valid_iff TRANSITION_GUARDS_def guard_valid
      conj_disj_distribR ex_disj_distrib)

subsection \<open>The machine contract\<close>

lemma lease_targets_set:
  "t \<in> set (getValidWorkerLeaseTargets s) \<longleftrightarrow> (\<exists>g. ((s, t), g) \<in> set TRANSITION_GUARDS)"
  unfolding getValidWorkerLeaseTargets_def by (rule set_explicit_targets)

lemma lease_guard_satisfiable:
  "((s, t), g) \<in> set TRANSITION_GUARDS \<Longrightarrow> \<exists>c. valid (g c)"
proof -
  let ?c = "\<lparr>leaseAcquired = Some True, workerProcessSpawned = Some True,
    firstHeartbeatReceived = Some True, heartbeatReceived = Some True,
    completionSignalReceived = Some True, heartbeatTimedOut = Some True,
    workerCrashed = Some True, reclaimRequested = Some True\<rparr>"
  assume "((s, t), g) \<in> set TRANSITION_GUARDS"
  then have "valid (g ?c)" by (auto simp: TRANSITION_GUARDS_def guard_valid)
  then show ?thesis by blast
qed

interpretation lease: guarded_machine
  validateWorkerLeaseTransition getValidWorkerLeaseTargets getAllValidWorkerLeaseTransitions isTerminalWorkerLeaseState
proof
  fix s t :: WorkerLeaseStatus and c
  show "(\<exists>c. valid (validateWorkerLeaseTransition s t c)) \<longleftrightarrow> t \<in> set (getValidWorkerLeaseTargets s)"
    unfolding lease_targets_set validateWorkerLeaseTransition_valid_iff using lease_guard_satisfiable by blast
  show "t \<in> set (getValidWorkerLeaseTargets s) \<longleftrightarrow> (s, t) \<in> set getAllValidWorkerLeaseTransitions"
    unfolding lease_targets_set getAllValidWorkerLeaseTransitions_def key_of_guards ..
  show "distinct (getValidWorkerLeaseTargets s)" "isTerminalWorkerLeaseState s \<longleftrightarrow> getValidWorkerLeaseTargets s = []"
    by (cases s; simp add: getValidWorkerLeaseTargets_def TRANSITION_GUARDS_def isTerminalWorkerLeaseState_def
        TERMINAL_STATES_def)+
  show "reason (validateWorkerLeaseTransition s t c) = None \<longleftrightarrow> valid (validateWorkerLeaseTransition s t c)"
    by (rule reason_validateWorkerLeaseTransition)
qed

text \<open>
  The order of the lease life cycle; heartbeats stay at their rank, every other transition climbs.
\<close>

fun lease_rank :: "WorkerLeaseStatus \<Rightarrow> nat" where
  "lease_rank WorkerLeaseStatus.IDLE = 0"
| "lease_rank WorkerLeaseStatus.LEASED = 1"
| "lease_rank WorkerLeaseStatus.STARTING = 2"
| "lease_rank WorkerLeaseStatus.RUNNING = 3"
| "lease_rank WorkerLeaseStatus.HEARTBEATING = 4"
| "lease_rank WorkerLeaseStatus.COMPLETING = 5"
| "lease_rank WorkerLeaseStatus.TIMED_OUT = 5"
| "lease_rank WorkerLeaseStatus.CRASHED = 5"
| "lease_rank WorkerLeaseStatus.RECLAIMED = 6"

interpretation lease_order: ranked_machine
  validateWorkerLeaseTransition getValidWorkerLeaseTargets getAllValidWorkerLeaseTransitions
  isTerminalWorkerLeaseState lease_rank
  by unfold_locales (auto simp: getAllValidWorkerLeaseTransitions_def TRANSITION_GUARDS_def)

subsection \<open>Properties of the lease life cycle\<close>

text \<open>
  A reclaimed lease was first declared dead: every accepted run from \<open>IDLE\<close> to \<open>RECLAIMED\<close> ends
  with a step into \<open>TIMED_OUT\<close> (heartbeat timeout as evidence) or \<open>CRASHED\<close> (crash as evidence)
  followed by the reclaim request.  In particular a lease that is completing is never reclaimed.
\<close>

lemma lease_reclaimed_evidence:
  assumes "run_machine validateWorkerLeaseTransition WorkerLeaseStatus.IDLE xs
             = Some WorkerLeaseStatus.RECLAIMED"
  shows "\<exists>ys t d c. xs = ys @ [(t, d), (WorkerLeaseStatus.RECLAIMED, c)]
           \<and> reclaimRequested c = Some True
           \<and> (t = WorkerLeaseStatus.TIMED_OUT \<and> heartbeatTimedOut d = Some True
              \<or> t = WorkerLeaseStatus.CRASHED \<and> workerCrashed d = Some True)"
proof -
  from assms obtain zs u c where c: "xs = zs @ [(WorkerLeaseStatus.RECLAIMED, c)]"
    "run_machine validateWorkerLeaseTransition WorkerLeaseStatus.IDLE zs = Some u"
    "u \<in> {WorkerLeaseStatus.TIMED_OUT, WorkerLeaseStatus.CRASHED}" "reclaimRequested c = Some True"
    by (rule run_machine_last_step) (auto simp: lease_accepted_iff)
  have "WorkerLeaseStatus.IDLE \<noteq> u" using c(3) by auto
  with c(2) obtain ys d where "zs = ys @ [(u, d)]"
    "\<exists>w. valid (validateWorkerLeaseTransition w u d)"
    by (rule run_machine_last_step) blast
  with c show ?thesis by (auto simp: lease_accepted_iff)
qed

text \<open>
  Lease states never recur: if a lease moved from one state to another, no sequence of
  accepted transitions brings it back.
\<close>

lemma lease_states_never_recur:
  assumes "run_machine validateWorkerLeaseTransition s xs = Some t"
  shows "lease_rank s \<le> lease_rank t
    \<and> (run_machine validateWorkerLeaseTransition t ys = Some s \<longrightarrow> s = t)"
  using lease_order.changes_bounded[OF assms] lease_order.no_return[OF assms] by auto

end
