(* ===== verification/ReviewSM.thy ===== *)
theory ReviewSM
  imports Enums GuardedMachine
begin

text \<open>
  The review cycle of \<open>packages/domain/src/state-machines/review-cycle-state-machine.ts\<close>: context,
  guards, transition map and public functions.
\<close>

subsection \<open>Context\<close>

datatype CycleLeadDecision =
    APPROVED
  | APPROVED_WITH_FOLLOW_UP
  | REJECTED
  | ESCALATED

record ReviewCycleTransitionContext =
  routingDecisionEmitted :: "bool option"
  reviewStarted :: "bool option"
  awaitingRequiredReviews :: "bool option"
  allRequiredReviewsComplete :: "bool option"
  leadReviewDecision :: "CycleLeadDecision option"
  hasEscalationTrigger :: "bool option"

type_synonym ReviewCycleTransitionResult = TransitionResult

text \<open>The default \<open>context = {}\<close> of the public functions.\<close>

definition emptyReviewCycleTransitionContext :: ReviewCycleTransitionContext where
  "emptyReviewCycleTransitionContext =
    \<lparr>routingDecisionEmitted = None,
     reviewStarted = None,
     awaitingRequiredReviews = None,
     allRequiredReviewsComplete = None,
     leadReviewDecision = None,
     hasEscalationTrigger = None\<rparr>"

subsection \<open>Guards\<close>

definition guardNotStartedToRouted :: "ReviewCycleTransitionContext \<Rightarrow> ReviewCycleTransitionResult" where
  "guardNotStartedToRouted ctx =
    (if routingDecisionEmitted ctx \<noteq> Some True
     then reject ''Cannot transition NOT_STARTED -> ROUTED: routing decision not emitted''
     else VALID)"

definition guardRoutedToInProgress :: "ReviewCycleTransitionContext \<Rightarrow> ReviewCycleTransitionResult" where
  "guardRoutedToInProgress ctx =
    (if reviewStarted ctx \<noteq> Some True
     then reject ''Cannot transition ROUTED -> IN_PROGRESS: no review has started''
     else VALID)"

definition guardInProgressToAwaitingRequiredReviews :: "ReviewCycleTransitionContext \<Rightarrow> ReviewCycleTransitionResult" where
  "guardInProgressToAwaitingRequiredReviews ctx =
    (if awaitingRequiredReviews ctx \<noteq> Some True
     then reject ''Cannot transition IN_PROGRESS -> AWAITING_REQUIRED_REVIEWS: not awaiting required reviews''
     else VALID)"

definition guardInProgressToConsolidating :: "ReviewCycleTransitionContext \<Rightarrow> ReviewCycleTransitionResult" where
  "guardInProgressToConsolidating ctx =
    (if allRequiredReviewsComplete ctx \<noteq> Some True
     then reject ''Cannot transition IN_PROGRESS -> CONSOLIDATING: not all required reviews are complete''
     else VALID)"

definition guardAwaitingToConsolidating :: "ReviewCycleTransitionContext \<Rightarrow> ReviewCycleTransitionResult" where
  "guardAwaitingToConsolidating ctx =
    (if allRequiredReviewsComplete ctx \<noteq> Some True
     then reject ''Cannot transition AWAITING_REQUIRED_REVIEWS -> CONSOLIDATING: not all required reviews are complete''
     else VALID)"

definition guardConsolidatingToApproved :: "ReviewCycleTransitionContext \<Rightarrow> ReviewCycleTransitionResult" where
  "guardConsolidatingToApproved ctx =
    (if leadReviewDecision ctx \<noteq> Some CycleLeadDecision.APPROVED \<and> leadReviewDecision ctx \<noteq> Some CycleLeadDecision.APPROVED_WITH_FOLLOW_UP
     then reject (''Cannot transition CONSOLIDATING -> APPROVED: lead reviewer decision must be 'approved' or 'approved_with_follow_up'' @ [CHR 0x27])
     else VALID)"

definition guardConsolidatingToRejected :: "ReviewCycleTransitionContext \<Rightarrow> ReviewCycleTransitionResult" where
  "guardConsolidatingToRejected ctx =
    (if leadReviewDecision ctx \<noteq> Some CycleLeadDecision.REJECTED
     then reject (''Cannot transition CONSOLIDATING -> REJECTED: lead reviewer decision must be 'rejected'' @ [CHR 0x27])
     else VALID)"

definition guardConsolidatingToEscalated :: "ReviewCycleTransitionContext \<Rightarrow> ReviewCycleTransitionResult" where
  "guardConsolidatingToEscalated ctx =
    (if leadReviewDecision ctx \<noteq> Some CycleLeadDecision.ESCALATED \<and> hasEscalationTrigger ctx \<noteq> Some True
     then reject ''Cannot transition CONSOLIDATING -> ESCALATED: requires lead reviewer 'escalated' decision or escalation trigger''
     else VALID)"

definition guardInProgressToEscalated :: "ReviewCycleTransitionContext \<Rightarrow> ReviewCycleTransitionResult" where
  "guardInProgressToEscalated ctx =
    (if hasEscalationTrigger ctx \<noteq> Some True
     then reject ''Cannot transition IN_PROGRESS -> ESCALATED: no escalation trigger''
     else VALID)"

definition guardAwaitingToEscalated :: "ReviewCycleTransitionContext \<Rightarrow> ReviewCycleTransitionResult" where
  "guardAwaitingToEscalated ctx =
    (if hasEscalationTrigger ctx \<noteq> Some True
     then reject ''Cannot transition AWAITING_REQUIRED_REVIEWS -> ESCALATED: no escalation trigger''
     else VALID)"

subsection \<open>Transition map and public functions\<close>

definition TRANSITION_GUARDS ::
  "((ReviewCycleStatus \<times> ReviewCycleStatus) \<times> (ReviewCycleTransitionContext \<Rightarrow> ReviewCycleTransitionResult)) list" where
  "TRANSITION_GUARDS =
   [((ReviewCycleStatus.NOT_STARTED, ReviewCycleStatus.ROUTED), guardNotStartedToRouted),
    ((ReviewCycleStatus.ROUTED, ReviewCycleStatus.IN_PROGRESS), guardRoutedToInProgress),
    ((ReviewCycleStatus.IN_PROGRESS, ReviewCycleStatus.CONSOLIDATING), guardInProgressToConsolidating),
    ((ReviewCycleStatus.CONSOLIDATING, ReviewCycleStatus.APPROVED), guardConsolidatingToApproved),
    ((ReviewCycleStatus.IN_PROGRESS, ReviewCycleStatus.AWAITING_REQUIRED_REVIEWS), guardInProgressToAwaitingRequiredReviews),
    ((ReviewCycleStatus.AWAITING_REQUIRED_REVIEWS, ReviewCycleStatus.CONSOLIDATING), guardAwaitingToConsolidating),
    ((ReviewCycleStatus.CONSOLIDATING, ReviewCycleStatus.REJECTED), guardConsolidatingToRejected),
    ((ReviewCycleStatus.CONSOLIDATING, ReviewCycleStatus.ESCALATED), guardConsolidatingToEscalated),
    ((ReviewCycleStatus.IN_PROGRESS, ReviewCycleStatus.ESCALATED), guardInProgressToEscalated),
    ((ReviewCycleStatus.AWAITING_REQUIRED_REVIEWS, ReviewCycleStatus.ESCALATED), guardAwaitingToEscalated)]"

definition TERMINAL_STATES :: "ReviewCycleStatus list" where
  "TERMINAL_STATES = [ReviewCycleStatus.APPROVED, ReviewCycleStatus.REJECTED, ReviewCycleStatus.ESCALATED]"

definition validateReviewCycleTransition ::
  "ReviewCycleStatus \<Rightarrow> ReviewCycleStatus \<Rightarrow> ReviewCycleTransitionContext \<Rightarrow> ReviewCycleTransitionResult" where
  "validateReviewCycleTransition current target context =
    (if current = target
     then reject (''Cannot transition from '' @ ReviewCycleStatus_value current @ '' to itself'')
     else case map_of TRANSITION_GUARDS (current, target) of
       Some guard \<Rightarrow> guard context
     | None \<Rightarrow>
         reject (''Invalid transition: '' @ ReviewCycleStatus_value current @ '' -> ''
                 @ ReviewCycleStatus_value target @ '' is not a valid review cycle state transition''))"

definition getValidReviewCycleTargets :: "ReviewCycleStatus \<Rightarrow> ReviewCycleStatus list" where
  "getValidReviewCycleTargets current =
    map (snd \<circ> fst) (filter (\<lambda>((from, _), _). from = current) TRANSITION_GUARDS)"

definition isTerminalReviewCycleState :: "ReviewCycleStatus \<Rightarrow> bool" where
  "isTerminalReviewCycleState state = (state \<in> set TERMINAL_STATES)"

definition getAllValidReviewCycleTransitions :: "(ReviewCycleStatus \<times> ReviewCycleStatus) list" where
  "getAllValidReviewCycleTransitions = map fst TRANSITION_GUARDS"

subsection \<open>When a transition is accepted\<close>

lemmas review_guard_defs = guardNotStartedToRouted_def guardRoutedToInProgress_def
  guardInProgressToAwaitingRequiredReviews_def guardInProgressToConsolidating_def
  guardAwaitingToConsolidating_def guardConsolidatingToApproved_def
  guardConsolidatingToRejected_def guardConsolidatingToEscalated_def
  guardInProgressToEscalated_def guardAwaitingToEscalated_def

lemma review_guards_valid [guard_valid]:
  "valid (guardNotStartedToRouted ctx) \<longleftrightarrow> routingDecisionEmitted ctx = Some True"
  "valid (guardRoutedToInProgress ctx) \<longleftrightarrow> reviewStarted ctx = Some True"
  "valid (guardInProgressToAwaitingRequiredReviews ctx) \<longleftrightarrow> awaitingRequiredReviews ctx = Some True"
  "valid (guardInProgressToConsolidating ctx) \<longleftrightarrow> allRequiredReviewsComplete ctx = Some True"
  "valid (guardAwaitingToConsolidating ctx) \<longleftrightarrow> allRequiredReviewsComplete ctx = Some True"
  "valid (guardConsolidatingToApproved ctx) \<longleftrightarrow> leadReviewDecision ctx = Some CycleLeadDecision.APPROVED \<or> leadReviewDecision ctx = Some CycleLeadDecision.APPROVED_WITH_FOLLOW_UP"
  "valid (guardConsolidatingToRejected ctx) \<longleftrightarrow> leadReviewDecision ctx = Some CycleLeadDecision.REJECTED"
  "valid (guardConsolidatingToEscalated ctx) \<longleftrightarrow> leadReviewDecision ctx = Some CycleLeadDecision.ESCALATED \<or> hasEscalationTrigger ctx = Some True"
  "valid (guardInProgressToEscalated ctx) \<longleftrightarrow> hasEscalationTrigger ctx = Some True"
  "valid (guardAwaitingToEscalated ctx) \<longleftrightarrow> hasEscalationTrigger ctx = Some True"
  by (simp_all add: review_guard_defs)

lemma review_guards_reason:
  "reason (guardNotStartedToRouted ctx) = None \<longleftrightarrow> valid (guardNotStartedToRouted ctx)"
  "reason (guardRoutedToInProgress ctx) = None \<longleftrightarrow> valid (guardRoutedToInProgress ctx)"
  "reason (guardInProgressToAwaitingRequiredReviews ctx) = None \<longleftrightarrow> valid (guardInProgressToAwaitingRequiredReviews ctx)"
  "reason (guardInProgressToConsolidating ctx) = None \<longleftrightarrow> valid (guardInProgressToConsolidating ctx)"
  "reason (guardAwaitingToConsolidating ctx) = None \<longleftrightarrow> valid (guardAwaitingToConsolidating ctx)"
  "reason (guardConsolidatingToApproved ctx) = None \<longleftrightarrow> valid (guardConsolidatingToApproved ctx)"
  "reason (guardConsolidatingToRejected ctx) = None \<longleftrightarrow> valid (guardConsolidatingToRejected ctx)"
  "reason (guardConsolidatingToEscalated ctx) = None \<longleftrightarrow> valid (guardConsolidatingToEscalated ctx)"
  "reason (guardInProgressToEscalated ctx) = None \<longleftrightarrow> valid (guardInProgressToEscalated ctx)"
  "reason (guardAwaitingToEscalated ctx) = None \<longleftrightarrow> valid (guardAwaitingToEscalated ctx)"
  by (simp_all add: review_guard_defs)

lemma review_TRANSITION_GUARDS:
  "distinct (map fst TRANSITION_GUARDS)"
  "((s, t), g) \<in> set TRANSITION_GUARDS \<Longrightarrow> s \<noteq> t"
  "((s, t), g) \<in> set TRANSITION_GUARDS \<Longrightarrow> reason (g c) = None \<longleftrightarrow> valid (g c)"
  by (auto simp: TRANSITION_GUARDS_def review_guards_reason)

lemma validateReviewCycleTransition_valid_iff:
  "valid (validateReviewCycleTransition s t c) \<longleftrightarrow>
    (\<exists>g. ((s, t), g) \<in> set TRANSITION_GUARDS \<and> valid (g c))"
proof (cases "map_of TRANSITION_GUARDS (s, t)")
  case (Some g)
  then have "((s, t), h) \<in> set TRANSITION_GUARDS \<longleftrightarrow> h = g" for h
    using review_TRANSITION_GUARDS(1) by (metis map_of_eq_Some_iff option.inject)
  moreover from this have "s \<noteq> t" using review_TRANSITION_GUARDS(2) by blast
  ultimately show ?thesis using Some by (auto simp: validateReviewCycleTransition_def)
next
  case None
  then have "((s, t), h) \<notin> set TRANSITION_GUARDS" for h
    by (metis map_of_eq_None_iff fst_conv image_eqI)
  then show ?thesis using None by (auto simp: validateReviewCycleTransition_def)
qed

lemma reason_validateReviewCycleTransition:
  "reason (validateReviewCycleTransition s t c) = None \<longleftrightarrow> valid (validateReviewCycleTransition s t c)"
proof (cases "map_of TRANSITION_GUARDS (s, t)")
  case None
  then show ?thesis by (simp add: validateReviewCycleTransition_def)
next
  case (Some g)
  then show ?thesis using review_TRANSITION_GUARDS(3)[OF map_of_SomeD[OF Some]]
    by (simp add: validateReviewCycleTransition_def)
qed

lemma review_accepted_iff:
  "\<not> valid (validateReviewCycleTransition s ReviewCycleStatus.NOT_STARTED c)"
  "valid (validateReviewCycleTransition s ReviewCycleStatus.ROUTED c) \<longleftrightarrow>
    s = ReviewCycleStatus.NOT_STARTED \<and> routingDecisionEmitted c = Some True"
  "valid (validateReviewCycleTransition s ReviewCycleStatus.IN_PROGRESS c) \<longleftrightarrow>
    s = ReviewCycleStatus.ROUTED \<and> reviewStarted c = Some True"
  "valid (validateReviewCycleTransition s ReviewCycleStatus.AWAITING_REQUIRED_REVIEWS c) \<longleftrightarrow>
    s = ReviewCycleStatus.IN_PROGRESS \<and> awaitingRequiredReviews c = Some True"
  "valid (validateReviewCycleTransition s ReviewCycleStatus.CONSOLIDATING c) \<longleftrightarrow>
    s \<in> {ReviewCycleStatus.IN_PROGRESS, ReviewCycleStatus.AWAITING_REQUIRED_REVIEWS}
    \<and> allRequiredReviewsComplete c = Some True"
  "valid (validateReviewCycleTransition s ReviewCycleStatus.APPROVED c) \<longleftrightarrow>
    s = ReviewCycleStatus.CONSOLIDATING \<and> leadReviewDecision c
      \<in> {Some CycleLeadDecision.APPROVED, Some CycleLeadDecision.APPROVED_WITH_FOLLOW_UP}"
  "valid (validateReviewCycleTransition s ReviewCycleStatus.REJECTED c) \<longleftrightarrow>
    s = ReviewCycleStatus.CONSOLIDATING \<and> leadReviewDecision c = Some CycleLeadDecision.REJECTED"
  "valid (validateReviewCycleTransition s ReviewCycleStatus.ESCALATED c) \<longleftrightarrow>
    s \<in> {ReviewCycleStatus.CONSOLIDATING, ReviewCycleStatus.IN_PROGRESS,
         ReviewCycleStatus.AWAITING_REQUIRED_REVIEWS}
    \<and> (hasEscalationTrigger c = Some True
       \<or> s = ReviewCycleStatus.CONSOLIDATING \<and> leadReviewDecision c = Some CycleLeadDecision.ESCALATED)"
  by (auto simp: validateReviewCycleTransition_valid_iff TRANSITION_GUARDS_def guard_valid
      conj_disj_distribR ex_disj_distrib)

subsection \<open>The machine contract\<close>

lemma review_targets_set:
  "t \<in> set (getValidReviewCycleTargets s) \<longleftrightarrow> (\<exists>g. ((s, t), g) \<in> set TRANSITION_GUARDS)"
  unfolding getValidReviewCycleTargets_def by (rule set_explicit_targets)

lemma review_guard_satisfiable:
  "((s, t), g) \<in> set TRANSITION_GUARDS \<Longrightarrow> \<exists>c. valid (g c)"
proof -
  let ?c = "\<lparr>routingDecisionEmitted = Some True, reviewStarted = Some True,
    awaitingRequiredReviews = Some True, allRequiredReviewsComplete = Some True,
    leadReviewDecision = Some CycleLeadDecision.APPROVED, hasEscalationTrigger = Some True\<rparr>"
  let ?d = "?c\<lparr>leadReviewDecision := Some CycleLeadDecision.REJECTED\<rparr>"
  assume "((s, t), g) \<in> set TRANSITION_GUARDS"
  then have "valid (g ?c) \<or> valid (g ?d)" by (auto simp: TRANSITION_GUARDS_def guard_valid)
  then show ?thesis by blast
qed

interpretation review: guarded_machine
  validateReviewCycleTransition getValidReviewCycleTargets getAllValidReviewCycleTransitions isTerminalReviewCycleState
proof
  fix s t :: ReviewCycleStatus and c
  show "(\<exists>c. valid (validateReviewCycleTransition s t c)) \<longleftrightarrow> t \<in> set (getValidReviewCycleTargets s)"
    unfolding review_targets_set validateReviewCycleTransition_valid_iff using review_guard_satisfiable by blast
  show "t \<in> set (getValidReviewCycleTargets s) \<longleftrightarrow> (s, t) \<in> set getAllValidReviewCycleTransitions"
    unfolding review_targets_set getAllValidReviewCycleTransitions_def key_of_guards ..
  show "distinct (getValidReviewCycleTargets s)" "isTerminalReviewCycleState s \<longleftrightarrow> getValidReviewCycleTargets s = []"
    by (cases s; simp add: getValidReviewCycleTargets_def TRANSITION_GUARDS_def isTerminalReviewCycleState_def
        TERMINAL_STATES_def)+
  show "reason (validateReviewCycleTransition s t c) = None \<longleftrightarrow> valid (validateReviewCycleTransition s t c)"
    by (rule reason_validateReviewCycleTransition)
qed

fun review_rank :: "ReviewCycleStatus \<Rightarrow> nat" where
  "review_rank ReviewCycleStatus.NOT_STARTED = 0"
| "review_rank ReviewCycleStatus.ROUTED = 1"
| "review_rank ReviewCycleStatus.IN_PROGRESS = 2"
| "review_rank ReviewCycleStatus.AWAITING_REQUIRED_REVIEWS = 3"
| "review_rank ReviewCycleStatus.CONSOLIDATING = 4"
| "review_rank ReviewCycleStatus.APPROVED = 5"
| "review_rank ReviewCycleStatus.REJECTED = 5"
| "review_rank ReviewCycleStatus.ESCALATED = 5"

interpretation review_order: ranked_machine
  validateReviewCycleTransition getValidReviewCycleTargets getAllValidReviewCycleTransitions
  isTerminalReviewCycleState review_rank
  by unfold_locales (auto simp: getAllValidReviewCycleTransitions_def TRANSITION_GUARDS_def)

lemma review_step_ranks:
  "run_machine validateReviewCycleTransition s xs = Some t \<Longrightarrow> review_rank s + length xs \<le> review_rank t"
proof (induction xs arbitrary: s)
  case Nil
  then show ?case by simp
next
  case (Cons x xs)
  obtain r c where x: "x = (r, c)" by (cases x)
  with Cons.prems have v: "valid (validateReviewCycleTransition s r c)"
    and run: "run_machine validateReviewCycleTransition r xs = Some t" by (auto split: if_splits)
  have "s \<noteq> r" using v by (auto simp: validateReviewCycleTransition_def)
  then have "review_rank s < review_rank r"
    using review_order.rank_mono[OF review.valid_transition[OF v]] by blast
  then show ?case using Cons.IH[OF run] x by simp
qed

subsection \<open>Properties of the review cycle\<close>

text \<open>
  (C34) A review cycle always ends within five transitions, and an approved cycle went through
  \<open>CONSOLIDATING\<close> with all required reviews complete, immediately before an approving lead decision.
\<close>

theorem review_cycle_bounded_and_approved:
  assumes "run_machine validateReviewCycleTransition ReviewCycleStatus.NOT_STARTED xs = Some t"
  shows "length xs \<le> 5
    \<and> (t = ReviewCycleStatus.APPROVED \<longrightarrow>
        (\<exists>ys c d. xs = ys @ [(ReviewCycleStatus.CONSOLIDATING, c), (ReviewCycleStatus.APPROVED, d)]
          \<and> allRequiredReviewsComplete c = Some True
          \<and> leadReviewDecision d
              \<in> {Some CycleLeadDecision.APPROVED, Some CycleLeadDecision.APPROVED_WITH_FOLLOW_UP}))"
proof (intro conjI impI)
  have "review_rank t \<le> 5" by (cases t) simp_all
  then show "length xs \<le> 5" using review_step_ranks[OF assms] by simp
next
  assume t: "t = ReviewCycleStatus.APPROVED"
  from assms obtain zs d where d: "xs = zs @ [(ReviewCycleStatus.APPROVED, d)]"
    "run_machine validateReviewCycleTransition ReviewCycleStatus.NOT_STARTED zs
       = Some ReviewCycleStatus.CONSOLIDATING"
    "leadReviewDecision d
       \<in> {Some CycleLeadDecision.APPROVED, Some CycleLeadDecision.APPROVED_WITH_FOLLOW_UP}"
    unfolding t by (rule run_machine_last_step) (auto simp: review_accepted_iff)
  from d(2) obtain ys c where "zs = ys @ [(ReviewCycleStatus.CONSOLIDATING, c)]"
    "allRequiredReviewsComplete c = Some True"
    by (rule run_machine_last_step) (auto simp: review_accepted_iff)
  with d show "\<exists>ys c d. xs = ys @ [(ReviewCycleStatus.CONSOLIDATING, c), (ReviewCycleStatus.APPROVED, d)]
      \<and> allRequiredReviewsComplete c = Some True
      \<and> leadReviewDecision d
          \<in> {Some CycleLeadDecision.APPROVED, Some CycleLeadDecision.APPROVED_WITH_FOLLOW_UP}"
    by auto
qed

definition approved_cycle :: "(ReviewCycleStatus \<times> ReviewCycleTransitionContext) list" where
  "approved_cycle = map (\<lambda>t. (t, emptyReviewCycleTransitionContext\<lparr>routingDecisionEmitted := Some True,
      reviewStarted := Some True, allRequiredReviewsComplete := Some True,
      leadReviewDecision := Some CycleLeadDecision.APPROVED\<rparr>))
    [ReviewCycleStatus.ROUTED, ReviewCycleStatus.IN_PROGRESS, ReviewCycleStatus.CONSOLIDATING,
     ReviewCycleStatus.APPROVED]"

lemma approved_cycle_accepted:
  "run_machine validateReviewCycleTransition ReviewCycleStatus.NOT_STARTED approved_cycle
     = Some ReviewCycleStatus.APPROVED"
  by (simp add: approved_cycle_def review_accepted_iff emptyReviewCycleTransitionContext_def)

theorem review_cycle_bounded_and_approved_witness:
  "length approved_cycle \<le> 5 \<and> (\<exists>c. (ReviewCycleStatus.CONSOLIDATING, c) \<in> set approved_cycle
     \<and> allRequiredReviewsComplete c = Some True)"
  using review_cycle_bounded_and_approved[OF approved_cycle_accepted]
  by (auto simp: approved_cycle_def)

end
