(* ===== verification/MergeSM.thy ===== *)
theory MergeSM
  imports Enums GuardedMachine
begin

text \<open>
  The merge queue item life cycle of
  \<open>packages/domain/src/state-machines/merge-queue-item-state-machine.ts\<close>: context, guards,
  transition map and public functions.
\<close>

subsection \<open>Context\<close>

record MergeQueueItemTransitionContext =
  preparationStarted :: "bool option"
  workspaceReady :: "bool option"
  rebaseSuccessful :: "bool option"
  rebaseFailed :: "bool option"
  conflictReworkable :: "bool option"
  validationPassed :: "bool option"
  validationFailed :: "bool option"
  failureTransient :: "bool option"
  mergeSuccessful :: "bool option"
  mergeFailed :: "bool option"
  preempted :: "bool option"

type_synonym MergeQueueItemTransitionResult = TransitionResult

text \<open>The default \<open>context = {}\<close> of the public functions.\<close>

definition emptyMergeQueueItemTransitionContext :: MergeQueueItemTransitionContext where
  "emptyMergeQueueItemTransitionContext =
    \<lparr>preparationStarted = None,
     workspaceReady = None,
     rebaseSuccessful = None,
     rebaseFailed = None,
     conflictReworkable = None,
     validationPassed = None,
     validationFailed = None,
     failureTransient = None,
     mergeSuccessful = None,
     mergeFailed = None,
     preempted = None\<rparr>"

subsection \<open>Guards\<close>

definition guardEnqueuedToPreparing :: "MergeQueueItemTransitionContext \<Rightarrow> MergeQueueItemTransitionResult" where
  "guardEnqueuedToPreparing ctx =
    (if preparationStarted ctx \<noteq> Some True
     then reject ''Cannot transition ENQUEUED -> PREPARING: preparation not started''
     else VALID)"

definition guardPreparingToRebasing :: "MergeQueueItemTransitionContext \<Rightarrow> MergeQueueItemTransitionResult" where
  "guardPreparingToRebasing ctx =
    (if workspaceReady ctx \<noteq> Some True
     then reject ''Cannot transition PREPARING -> REBASING: workspace not ready''
     else VALID)"

definition guardRebasingToValidating :: "MergeQueueItemTransitionContext \<Rightarrow> MergeQueueItemTransitionResult" where
  "guardRebasingToValidating ctx =
    (if rebaseSuccessful ctx \<noteq> Some True
     then reject ''Cannot transition REBASING -> VALIDATING: rebase not successful''
     else VALID)"

definition guardRebasingToFailed :: "MergeQueueItemTransitionContext \<Rightarrow> MergeQueueItemTransitionResult" where
  "guardRebasingToFailed ctx =
    (if rebaseFailed ctx \<noteq> Some True
     then reject ''Cannot transition REBASING -> FAILED: rebase has not failed''
     else VALID)"

definition guardRebasingToRequeued :: "MergeQueueItemTransitionContext \<Rightarrow> MergeQueueItemTransitionResult" where
  "guardRebasingToRequeued ctx =
    (if rebaseFailed ctx \<noteq> Some True
     then reject ''Cannot transition REBASING -> REQUEUED: rebase has not failed''
     else if conflictReworkable ctx \<noteq> Some True
     then reject ''Cannot transition REBASING -> REQUEUED: conflict is not reworkable''
     else VALID)"

definition guardValidatingToMerging :: "MergeQueueItemTransitionContext \<Rightarrow> MergeQueueItemTransitionResult" where
  "guardValidatingToMerging ctx =
    (if validationPassed ctx \<noteq> Some True
     then reject ''Cannot transition VALIDATING -> MERGING: validation not passed''
     else VALID)"

definition guardValidatingToFailed :: "MergeQueueItemTransitionContext \<Rightarrow> MergeQueueItemTransitionResult" where
  "guardValidatingToFailed ctx =
    (if validationFailed ctx \<noteq> Some True
     then reject ''Cannot transition VALIDATING -> FAILED: validation has not failed''
     else VALID)"

definition guardValidatingToRequeued ::
  "MergeQueueItemTransitionContext \<Rightarrow> MergeQueueItemTransitionResult" where
  "guardValidatingToRequeued ctx =
    (let transientFailure = (validationFailed ctx = Some True \<and> failureTransient ctx = Some True);
         preempted' = (preempted ctx = Some True)
     in if \<not> transientFailure \<and> \<not> preempted'
     then reject ''Cannot transition VALIDATING -> REQUEUED: requires transient validation failure or preemption''
     else VALID)"

definition guardMergingToMerged :: "MergeQueueItemTransitionContext \<Rightarrow> MergeQueueItemTransitionResult" where
  "guardMergingToMerged ctx =
    (if mergeSuccessful ctx \<noteq> Some True
     then reject ''Cannot transition MERGING -> MERGED: merge not successful''
     else VALID)"

definition guardMergingToFailed :: "MergeQueueItemTransitionContext \<Rightarrow> MergeQueueItemTransitionResult" where
  "guardMergingToFailed ctx =
    (if mergeFailed ctx \<noteq> Some True
     then reject ''Cannot transition MERGING -> FAILED: merge has not failed''
     else VALID)"

definition guardMergingToRequeued :: "MergeQueueItemTransitionContext \<Rightarrow> MergeQueueItemTransitionResult" where
  "guardMergingToRequeued ctx =
    (if mergeFailed ctx \<noteq> Some True
     then reject ''Cannot transition MERGING -> REQUEUED: merge has not failed''
     else if failureTransient ctx \<noteq> Some True
     then reject ''Cannot transition MERGING -> REQUEUED: failure is not transient''
     else VALID)"

definition guardRequeuedToEnqueued :: "MergeQueueItemTransitionContext \<Rightarrow> MergeQueueItemTransitionResult" where
  "guardRequeuedToEnqueued _ = VALID"

subsection \<open>Transition map and public functions\<close>

definition TRANSITION_GUARDS ::
  "((MergeQueueItemStatus \<times> MergeQueueItemStatus) \<times> (MergeQueueItemTransitionContext \<Rightarrow> MergeQueueItemTransitionResult)) list" where
  "TRANSITION_GUARDS =
   [((MergeQueueItemStatus.ENQUEUED, MergeQueueItemStatus.PREPARING), guardEnqueuedToPreparing),
    ((MergeQueueItemStatus.PREPARING, MergeQueueItemStatus.REBASING), guardPreparingToRebasing),
    ((MergeQueueItemStatus.REBASING, MergeQueueItemStatus.VALIDATING), guardRebasingToValidating),
    ((MergeQueueItemStatus.VALIDATING, MergeQueueItemStatus.MERGING), guardValidatingToMerging),
    ((MergeQueueItemStatus.MERGING, MergeQueueItemStatus.MERGED), guardMergingToMerged),
    ((MergeQueueItemStatus.REBASING, MergeQueueItemStatus.FAILED), guardRebasingToFailed),
    ((MergeQueueItemStatus.REBASING, MergeQueueItemStatus.REQUEUED), guardRebasingToRequeued),
    ((MergeQueueItemStatus.VALIDATING, MergeQueueItemStatus.FAILED), guardValidatingToFailed),
    ((MergeQueueItemStatus.VALIDATING, MergeQueueItemStatus.REQUEUED), guardValidatingToRequeued),
    ((MergeQueueItemStatus.MERGING, MergeQueueItemStatus.FAILED), guardMergingToFailed),
    ((MergeQueueItemStatus.MERGING, MergeQueueItemStatus.REQUEUED), guardMergingToRequeued),
    ((MergeQueueItemStatus.REQUEUED, MergeQueueItemStatus.ENQUEUED), guardRequeuedToEnqueued)]"

definition TERMINAL_STATES :: "MergeQueueItemStatus list" where
  "TERMINAL_STATES = [MergeQueueItemStatus.MERGED, MergeQueueItemStatus.FAILED]"

definition validateMergeQueueItemTransition ::
  "MergeQueueItemStatus \<Rightarrow> MergeQueueItemStatus \<Rightarrow> MergeQueueItemTransitionContext \<Rightarrow> MergeQueueItemTransitionResult" where
  "validateMergeQueueItemTransition current target context =
    (if current = target
     then reject (''Cannot transition from '' @ MergeQueueItemStatus_value current @ '' to itself'')
     else case map_of TRANSITION_GUARDS (current, target) of
       Some guard \<Rightarrow> guard context
     | None \<Rightarrow>
         reject (''Invalid transition: '' @ MergeQueueItemStatus_value current @ '' -> ''
                 @ MergeQueueItemStatus_value target @ '' is not a valid merge queue item state transition''))"

definition getValidMergeQueueItemTargets :: "MergeQueueItemStatus \<Rightarrow> MergeQueueItemStatus list" where
  "getValidMergeQueueItemTargets current =
    map (snd \<circ> fst) (filter (\<lambda>((from, _), _). from = current) TRANSITION_GUARDS)"

definition isTerminalMergeQueueItemState :: "MergeQueueItemStatus \<Rightarrow> bool" where
  "isTerminalMergeQueueItemState state = (state \<in> set TERMINAL_STATES)"

definition getAllValidMergeQueueItemTransitions :: "(MergeQueueItemStatus \<times> MergeQueueItemStatus) list" where
  "getAllValidMergeQueueItemTransitions = map fst TRANSITION_GUARDS"

subsection \<open>When a transition is accepted\<close>

lemmas merge_guard_defs = guardEnqueuedToPreparing_def guardPreparingToRebasing_def
  guardRebasingToValidating_def guardRebasingToFailed_def guardRebasingToRequeued_def
  guardValidatingToMerging_def guardValidatingToFailed_def guardValidatingToRequeued_def
  guardMergingToMerged_def guardMergingToFailed_def guardMergingToRequeued_def
  guardRequeuedToEnqueued_def

lemma merge_guards_valid [guard_valid]:
  "valid (guardEnqueuedToPreparing ctx) \<longleftrightarrow> preparationStarted ctx = Some True"
  "valid (guardPreparingToRebasing ctx) \<longleftrightarrow> workspaceReady ctx = Some True"
  "valid (guardRebasingToValidating ctx) \<longleftrightarrow> rebaseSuccessful ctx = Some True"
  "valid (guardRebasingToFailed ctx) \<longleftrightarrow> rebaseFailed ctx = Some True"
  "valid (guardRebasingToRequeued ctx) \<longleftrightarrow> rebaseFailed ctx = Some True \<and> conflictReworkable ctx = Some True"
  "valid (guardValidatingToMerging ctx) \<longleftrightarrow> validationPassed ctx = Some True"
  "valid (guardValidatingToFailed ctx) \<longleftrightarrow> validationFailed ctx = Some True"
  "valid (guardValidatingToRequeued ctx) \<longleftrightarrow> validationFailed ctx = Some True \<and> failureTransient ctx = Some True \<or> preempted ctx = Some True"
  "valid (guardMergingToMerged ctx) \<longleftrightarrow> mergeSuccessful ctx = Some True"
  "valid (guardMergingToFailed ctx) \<longleftrightarrow> mergeFailed ctx = Some True"
  "valid (guardMergingToRequeued ctx) \<longleftrightarrow> mergeFailed ctx = Some True \<and> failureTransient ctx = Some True"
  "valid (guardRequeuedToEnqueued ctx)"
  by (auto simp: merge_guard_defs Let_def)

lemma merge_guards_reason:
  "reason (guardEnqueuedToPreparing ctx) = None \<longleftrightarrow> valid (guardEnqueuedToPreparing ctx)"
  "reason (guardPreparingToRebasing ctx) = None \<longleftrightarrow> valid (guardPreparingToRebasing ctx)"
  "reason (guardRebasingToValidating ctx) = None \<longleftrightarrow> valid (guardRebasingToValidating ctx)"
  "reason (guardRebasingToFailed ctx) = None \<longleftrightarrow> valid (guardRebasingToFailed ctx)"
  "reason (guardRebasingToRequeued ctx) = None \<longleftrightarrow> valid (guardRebasingToRequeued ctx)"
  "reason (guardValidatingToMerging ctx) = None \<longleftrightarrow> valid (guardValidatingToMerging ctx)"
  "reason (guardValidatingToFailed ctx) = None \<longleftrightarrow> valid (guardValidatingToFailed ctx)"
  "reason (guardValidatingToRequeued ctx) = None \<longleftrightarrow> valid (guardValidatingToRequeued ctx)"
  "reason (guardMergingToMerged ctx) = None \<longleftrightarrow> valid (guardMergingToMerged ctx)"
  "reason (guardMergingToFailed ctx) = None \<longleftrightarrow> valid (guardMergingToFailed ctx)"
  "reason (guardMergingToRequeued ctx) = None \<longleftrightarrow> valid (guardMergingToRequeued ctx)"
  "reason (guardRequeuedToEnqueued ctx) = None \<longleftrightarrow> valid (guardRequeuedToEnqueued ctx)"
  by (simp_all add: merge_guard_defs Let_def)

lemma merge_TRANSITION_GUARDS:
  "distinct (map fst TRANSITION_GUARDS)"
  "((s, t), g) \<in> set TRANSITION_GUARDS \<Longrightarrow> s \<noteq> t"
  "((s, t), g) \<in> set TRANSITION_GUARDS \<Longrightarrow> reason (g c) = None \<longleftrightarrow> valid (g c)"
  by (auto simp: TRANSITION_GUARDS_def merge_guards_reason)

lemma validateMergeQueueItemTransition_valid_iff:
  "valid (validateMergeQueueItemTransition s t c) \<longleftrightarrow>
    (\<exists>g. ((s, t), g) \<in> set TRANSITION_GUARDS \<and> valid (g c))"
proof (cases "map_of TRANSITION_GUARDS (s, t)")
  case (Some g)
  then have "((s, t), h) \<in> set TRANSITION_GUARDS \<longleftrightarrow> h = g" for h
    using merge_TRANSITION_GUARDS(1) by (metis map_of_eq_Some_iff option.inject)
  moreover from this have "s \<noteq> t" using merge_TRANSITION_GUARDS(2) by blast
  ultimately show ?thesis using Some by (auto simp: validateMergeQueueItemTransition_def)
next
  case None
  then have "((s, t), h) \<notin> set TRANSITION_GUARDS" for h
    by (metis map_of_eq_None_iff fst_conv image_eqI)
  then show ?thesis using None by (auto simp: validateMergeQueueItemTransition_def)
qed

lemma reason_validateMergeQueueItemTransition:
  "reason (validateMergeQueueItemTransition s t c) = None \<longleftrightarrow> valid (validateMergeQueueItemTransition s t c)"
proof (cases "map_of TRANSITION_GUARDS (s, t)")
  case None
  then show ?thesis by (simp add: validateMergeQueueItemTransition_def)
next
  case (Some g)
  then show ?thesis using merge_TRANSITION_GUARDS(3)[OF map_of_SomeD[OF Some]]
    by (simp add: validateMergeQueueItemTransition_def)
qed

lemma merge_accepted_iff:
  "valid (validateMergeQueueItemTransition s MergeQueueItemStatus.ENQUEUED c) \<longleftrightarrow>
    s = MergeQueueItemStatus.REQUEUED"
  "valid (validateMergeQueueItemTransition s MergeQueueItemStatus.PREPARING c) \<longleftrightarrow>
    s = MergeQueueItemStatus.ENQUEUED \<and> preparationStarted c = Some True"
  "valid (validateMergeQueueItemTransition s MergeQueueItemStatus.REBASING c) \<longleftrightarrow>
    s = MergeQueueItemStatus.PREPARING \<and> workspaceReady c = Some True"
  "valid (validateMergeQueueItemTransition s MergeQueueItemStatus.VALIDATING c) \<longleftrightarrow>
    s = MergeQueueItemStatus.REBASING \<and> rebaseSuccessful c = Some True"
  "valid (validateMergeQueueItemTransition s MergeQueueItemStatus.MERGING c) \<longleftrightarrow>
    s = MergeQueueItemStatus.VALIDATING \<and> validationPassed c = Some True"
  "valid (validateMergeQueueItemTransition s MergeQueueItemStatus.MERGED c) \<longleftrightarrow>
    s = MergeQueueItemStatus.MERGING \<and> mergeSuccessful c = Some True"
  "valid (validateMergeQueueItemTransition s MergeQueueItemStatus.REQUEUED c) \<longleftrightarrow>
    s = MergeQueueItemStatus.REBASING \<and> rebaseFailed c = Some True \<and> conflictReworkable c = Some True
    \<or> s = MergeQueueItemStatus.VALIDATING
      \<and> (validationFailed c = Some True \<and> failureTransient c = Some True \<or> preempted c = Some True)
    \<or> s = MergeQueueItemStatus.MERGING \<and> mergeFailed c = Some True \<and> failureTransient c = Some True"
  "valid (validateMergeQueueItemTransition s MergeQueueItemStatus.FAILED c) \<longleftrightarrow>
    s = MergeQueueItemStatus.REBASING \<and> rebaseFailed c = Some True
    \<or> s = MergeQueueItemStatus.VALIDATING \<and> validationFailed c = Some True
    \<or> s = MergeQueueItemStatus.MERGING \<and> mergeFailed c = Some True"
  by (auto simp: validateMergeQueueItemTransition_valid_iff TRANSITION_GUARDS_def guard_valid
      conj_disj_distribR ex_disj_distrib)

subsection \<open>The machine contract\<close>

lemma merge_targets_set:
  "t \<in> set (getValidMergeQueueItemTargets s) \<longleftrightarrow> (\<exists>g. ((s, t), g) \<in> set TRANSITION_GUARDS)"
  unfolding getValidMergeQueueItemTargets_def by (rule set_explicit_targets)

lemma merge_guard_satisfiable:
  "((s, t), g) \<in> set TRANSITION_GUARDS \<Longrightarrow> \<exists>c. valid (g c)"
proof -
  let ?c = "\<lparr>preparationStarted = Some True, workspaceReady = Some True, rebaseSuccessful = Some True,
    rebaseFailed = Some True, conflictReworkable = Some True, validationPassed = Some True,
    validationFailed = Some True, failureTransient = Some True, mergeSuccessful = Some True,
    mergeFailed = Some True, preempted = Some True\<rparr>"
  assume "((s, t), g) \<in> set TRANSITION_GUARDS"
  then have "valid (g ?c)" by (auto simp: TRANSITION_GUARDS_def guard_valid)
  then show ?thesis by blast
qed

interpretation merge: guarded_machine
  validateMergeQueueItemTransition getValidMergeQueueItemTargets getAllValidMergeQueueItemTransitions isTerminalMergeQueueItemState
proof
  fix s t :: MergeQueueItemStatus and c
  show "(\<exists>c. valid (validateMergeQueueItemTransition s t c)) \<longleftrightarrow> t \<in> set (getValidMergeQueueItemTargets s)"
    unfolding merge_targets_set validateMergeQueueItemTransition_valid_iff using merge_guard_satisfiable by blast
  show "t \<in> set (getValidMergeQueueItemTargets s) \<longleftrightarrow> (s, t) \<in> set getAllValidMergeQueueItemTransitions"
    unfolding merge_targets_set getAllValidMergeQueueItemTransitions_def key_of_guards ..
  show "distinct (getValidMergeQueueItemTargets s)" "isTerminalMergeQueueItemState s \<longleftrightarrow> getValidMergeQueueItemTargets s = []"
    by (cases s; simp add: getValidMergeQueueItemTargets_def TRANSITION_GUARDS_def isTerminalMergeQueueItemState_def
        TERMINAL_STATES_def)+
  show "reason (validateMergeQueueItemTransition s t c) = None \<longleftrightarrow> valid (validateMergeQueueItemTransition s t c)"
    by (rule reason_validateMergeQueueItemTransition)
qed

subsection \<open>Properties of the merge queue item life cycle\<close>

text \<open>
  Nothing is merged without a fresh rebase and a passed validation: the last five accepted steps
  of any run from \<open>ENQUEUED\<close> to \<open>MERGED\<close> prepare, rebase, validate, start and finish the merge, each
  with its evidence.  A requeued item therefore repeats all of them.
\<close>

lemma merged_only_after_validation:
  assumes "run_machine validateMergeQueueItemTransition MergeQueueItemStatus.ENQUEUED xs
             = Some MergeQueueItemStatus.MERGED"
  shows "\<exists>ys c1 c2 c3 c4 c5.
    xs = ys @ [(MergeQueueItemStatus.PREPARING, c1), (MergeQueueItemStatus.REBASING, c2),
               (MergeQueueItemStatus.VALIDATING, c3), (MergeQueueItemStatus.MERGING, c4),
               (MergeQueueItemStatus.MERGED, c5)]
    \<and> preparationStarted c1 = Some True \<and> workspaceReady c2 = Some True
    \<and> rebaseSuccessful c3 = Some True \<and> validationPassed c4 = Some True \<and> mergeSuccessful c5 = Some True"
proof -
  from assms obtain x5 c5 where 5: "xs = x5 @ [(MergeQueueItemStatus.MERGED, c5)]"
    "run_machine validateMergeQueueItemTransition MergeQueueItemStatus.ENQUEUED x5
       = Some MergeQueueItemStatus.MERGING"
    "mergeSuccessful c5 = Some True"
    by (rule run_machine_last_step) (auto simp: merge_accepted_iff)
  from 5(2) obtain x4 c4 where 4: "x5 = x4 @ [(MergeQueueItemStatus.MERGING, c4)]"
    "run_machine validateMergeQueueItemTransition MergeQueueItemStatus.ENQUEUED x4
       = Some MergeQueueItemStatus.VALIDATING"
    "validationPassed c4 = Some True"
    by (rule run_machine_last_step) (auto simp: merge_accepted_iff)
  from 4(2) obtain x3 c3 where 3: "x4 = x3 @ [(MergeQueueItemStatus.VALIDATING, c3)]"
    "run_machine validateMergeQueueItemTransition MergeQueueItemStatus.ENQUEUED x3
       = Some MergeQueueItemStatus.REBASING"
    "rebaseSuccessful c3 = Some True"
    by (rule run_machine_last_step) (auto simp: merge_accepted_iff)
  from 3(2) obtain x2 c2 where 2: "x3 = x2 @ [(MergeQueueItemStatus.REBASING, c2)]"
    "run_machine validateMergeQueueItemTransition MergeQueueItemStatus.ENQUEUED x2
       = Some MergeQueueItemStatus.PREPARING"
    "workspaceReady c2 = Some True"
    by (rule run_machine_last_step) (auto simp: merge_accepted_iff)
  from 2(2) obtain x1 c1 where 1: "x2 = x1 @ [(MergeQueueItemStatus.PREPARING, c1)]"
    "preparationStarted c1 = Some True"
    by (rule run_machine_last_step) (auto simp: merge_accepted_iff)
  show ?thesis using 1 2 3 4 5 by simp
qed

definition merged_after_requeue :: "(MergeQueueItemStatus \<times> MergeQueueItemTransitionContext) list" where
  "merged_after_requeue = map (\<lambda>t. (t, emptyMergeQueueItemTransitionContext\<lparr>preparationStarted := Some True,
      workspaceReady := Some True, rebaseSuccessful := Some True, validationPassed := Some True,
      mergeSuccessful := Some True, preempted := Some True\<rparr>))
    [MergeQueueItemStatus.PREPARING, MergeQueueItemStatus.REBASING, MergeQueueItemStatus.VALIDATING,
     MergeQueueItemStatus.REQUEUED, MergeQueueItemStatus.ENQUEUED, MergeQueueItemStatus.PREPARING,
     MergeQueueItemStatus.REBASING, MergeQueueItemStatus.VALIDATING, MergeQueueItemStatus.MERGING,
     MergeQueueItemStatus.MERGED]"

lemma merged_after_requeue_accepted:
  "run_machine validateMergeQueueItemTransition MergeQueueItemStatus.ENQUEUED merged_after_requeue
     = Some MergeQueueItemStatus.MERGED"
  by (simp add: merged_after_requeue_def merge_accepted_iff emptyMergeQueueItemTransitionContext_def)

end
