(* ===== verification/Transition.thy ===== *)
theory Transition
  imports Ports TaskSM LeaseSM ReviewSM MergeSM
begin

text \<open>
  \<open>packages/application/src/services/transition.service.ts\<close>: the four operations that commit a state
  transition.  Each reads the entity, asks its state machine, updates the status under optimistic
  concurrency and writes an audit event, all in one transaction; after the commit it emits a domain
  event.  Tracing spans and metrics are left out.

  \<open>txEnv\<close> is what one call draws from its environment: the clock inside the transaction, the UUID
  of the audit row and the clock when the event is emitted.
\<close>

subsection \<open>Operations\<close>

record txEnv =
  env_now :: int
  env_uuid :: string
  env_emittedAt :: int

record 'e TransitionServiceResult =
  tr_entity :: 'e
  tr_auditEvent :: AuditEventRecord

definition transitionTask ::
  "txEnv \<Rightarrow> string \<Rightarrow> TaskStatus \<Rightarrow> TransitionContext \<Rightarrow> ActorInfo \<Rightarrow> json option \<Rightarrow> world
    \<Rightarrow> (app_error + Task TransitionServiceResult) \<times> world" where
  "transitionTask env taskId targetStatus context actor metadata w =
    apfst (map_sum id (\<lambda>(updated, auditEvent, _). \<lparr>tr_entity = updated, tr_auditEvent = auditEvent\<rparr>))
      (commit
        (bindT (getT (task_findById taskId)) (\<lambda>found. case found of
           None \<Rightarrow> throwT (EntityNotFoundError ''Task'' taskId)
         | Some task \<Rightarrow>
             let validation = validateTransition (t_status task) targetStatus context in
             if \<not> valid validation then
               throwT (InvalidTransitionError ''Task'' taskId (TaskStatus_value (t_status task))
                 (TaskStatus_value targetStatus) (reason validation))
             else
               bindT (task_updateStatus (env_now env) taskId (t_version task) targetStatus) (\<lambda>updated.
               bindT (auditEvent_create (env_uuid env) (env_now env)
                 \<lparr>na_entityType = ''task'', na_entityId = taskId,
                  na_eventType = ''task.transition.'' @ TaskStatus_value (t_status task) @ ''.to.''
                    @ TaskStatus_value targetStatus,
                  na_actorType = actor_type actor, na_actorId = actor_id actor,
                  na_oldState = Some (JObj [(''status'', JStr (TaskStatus_value (t_status task))),
                                            (''version'', JNum (t_version task))]),
                  na_newState = Some (JObj [(''status'', JStr (TaskStatus_value targetStatus)),
                                            (''version'', JNum (t_version task + 1))]),
                  na_metadata = metadata\<rparr>) (\<lambda>auditEvent.
               returnT (updated, auditEvent, t_status task, t_version task)))))
        (\<lambda>(updated, auditEvent, previousStatus, previousVersion).
          [TaskTransitionedEvent taskId previousStatus targetStatus
              (previousVersion + 1) actor (env_emittedAt env)])
        w)"

definition transitionLease ::
  "txEnv \<Rightarrow> string \<Rightarrow> WorkerLeaseStatus \<Rightarrow> WorkerLeaseTransitionContext \<Rightarrow> ActorInfo \<Rightarrow> json option
    \<Rightarrow> world \<Rightarrow> (app_error + TaskLease TransitionServiceResult) \<times> world" where
  "transitionLease env leaseId targetStatus context actor metadata w =
    apfst (map_sum id (\<lambda>(updated, auditEvent, _). \<lparr>tr_entity = updated, tr_auditEvent = auditEvent\<rparr>))
      (commit
        (bindT (getT (lease_findById leaseId)) (\<lambda>found. case found of
           None \<Rightarrow> throwT (EntityNotFoundError ''TaskLease'' leaseId)
         | Some lease \<Rightarrow>
             let validation = validateWorkerLeaseTransition (l_status lease) targetStatus context in
             if \<not> valid validation then
               throwT (InvalidTransitionError ''TaskLease'' leaseId
                 (WorkerLeaseStatus_value (l_status lease))
                 (WorkerLeaseStatus_value targetStatus) (reason validation))
             else
               bindT (lease_updateStatus leaseId (l_status lease) targetStatus) (\<lambda>updated.
               bindT (auditEvent_create (env_uuid env) (env_now env)
                 \<lparr>na_entityType = ''task-lease'', na_entityId = leaseId,
                  na_eventType = ''task-lease.transition.'' @ WorkerLeaseStatus_value (l_status lease)
                    @ ''.to.'' @ WorkerLeaseStatus_value targetStatus,
                  na_actorType = actor_type actor, na_actorId = actor_id actor,
                  na_oldState = Some (JObj [(''status'', JStr (WorkerLeaseStatus_value (l_status lease)))]),
                  na_newState = Some (JObj [(''status'', JStr (WorkerLeaseStatus_value targetStatus))]),
                  na_metadata = metadata\<rparr>) (\<lambda>auditEvent.
               returnT (updated, auditEvent, l_status lease)))))
        (\<lambda>(updated, auditEvent, previousStatus).
          [TaskLeaseTransitionedEvent leaseId previousStatus targetStatus
              actor (env_emittedAt env)])
        w)"

definition transitionReviewCycle ::
  "txEnv \<Rightarrow> string \<Rightarrow> ReviewCycleStatus \<Rightarrow> ReviewCycleTransitionContext \<Rightarrow> ActorInfo \<Rightarrow> json option
    \<Rightarrow> world \<Rightarrow> (app_error + ReviewCycle TransitionServiceResult) \<times> world" where
  "transitionReviewCycle env reviewCycleId targetStatus context actor metadata w =
    apfst (map_sum id (\<lambda>(updated, auditEvent, _). \<lparr>tr_entity = updated, tr_auditEvent = auditEvent\<rparr>))
      (commit
        (bindT (getT (cycle_findById reviewCycleId)) (\<lambda>found. case found of
           None \<Rightarrow> throwT (EntityNotFoundError ''ReviewCycle'' reviewCycleId)
         | Some cycle \<Rightarrow>
             let validation = validateReviewCycleTransition (rc_status cycle) targetStatus context in
             if \<not> valid validation then
               throwT (InvalidTransitionError ''ReviewCycle'' reviewCycleId
                 (ReviewCycleStatus_value (rc_status cycle))
                 (ReviewCycleStatus_value targetStatus) (reason validation))
             else
               bindT (cycle_updateStatus reviewCycleId (rc_status cycle) targetStatus) (\<lambda>updated.
               bindT (auditEvent_create (env_uuid env) (env_now env)
                 \<lparr>na_entityType = ''review-cycle'', na_entityId = reviewCycleId,
                  na_eventType = ''review-cycle.transition.'' @ ReviewCycleStatus_value (rc_status cycle)
                    @ ''.to.'' @ ReviewCycleStatus_value targetStatus,
                  na_actorType = actor_type actor, na_actorId = actor_id actor,
                  na_oldState = Some (JObj [(''status'', JStr (ReviewCycleStatus_value (rc_status cycle)))]),
                  na_newState = Some (JObj [(''status'', JStr (ReviewCycleStatus_value targetStatus))]),
                  na_metadata = metadata\<rparr>) (\<lambda>auditEvent.
               returnT (updated, auditEvent, rc_status cycle)))))
        (\<lambda>(updated, auditEvent, previousStatus).
          [ReviewCycleTransitionedEvent reviewCycleId previousStatus
              targetStatus actor (env_emittedAt env)])
        w)"

definition transitionMergeQueueItem ::
  "txEnv \<Rightarrow> string \<Rightarrow> MergeQueueItemStatus \<Rightarrow> MergeQueueItemTransitionContext \<Rightarrow> ActorInfo
    \<Rightarrow> json option \<Rightarrow> world \<Rightarrow> (app_error + MergeQueueItem TransitionServiceResult) \<times> world" where
  "transitionMergeQueueItem env itemId targetStatus context actor metadata w =
    apfst (map_sum id (\<lambda>(updated, auditEvent, _). \<lparr>tr_entity = updated, tr_auditEvent = auditEvent\<rparr>))
      (commit
        (bindT (getT (item_findById itemId)) (\<lambda>found. case found of
           None \<Rightarrow> throwT (EntityNotFoundError ''MergeQueueItem'' itemId)
         | Some item \<Rightarrow>
             let validation = validateMergeQueueItemTransition (mq_status item) targetStatus context in
             if \<not> valid validation then
               throwT (InvalidTransitionError ''MergeQueueItem'' itemId
                 (MergeQueueItemStatus_value (mq_status item))
                 (MergeQueueItemStatus_value targetStatus) (reason validation))
             else
               bindT (item_updateStatus itemId (mq_status item) targetStatus) (\<lambda>updated.
               bindT (auditEvent_create (env_uuid env) (env_now env)
                 \<lparr>na_entityType = ''merge-queue-item'', na_entityId = itemId,
                  na_eventType = ''merge-queue-item.transition.''
                    @ MergeQueueItemStatus_value (mq_status item)
                    @ ''.to.'' @ MergeQueueItemStatus_value targetStatus,
                  na_actorType = actor_type actor, na_actorId = actor_id actor,
                  na_oldState = Some (JObj [(''status'', JStr (MergeQueueItemStatus_value (mq_status item)))]),
                  na_newState = Some (JObj [(''status'', JStr (MergeQueueItemStatus_value targetStatus))]),
                  na_metadata = metadata\<rparr>) (\<lambda>auditEvent.
               returnT (updated, auditEvent, mq_status item)))))
        (\<lambda>(updated, auditEvent, previousStatus).
          [MergeQueueItemTransitionedEvent itemId previousStatus
              targetStatus actor (env_emittedAt env)])
        w)"

subsection \<open>One transition, whatever the entity\<close>

text \<open>
  The body the four operations share, over any port that keeps the contract: \<open>nf\<close> and \<open>bad\<close> are the
  errors, \<open>ev\<close> the audit event and \<open>f\<close> the value returned.
\<close>

context entity_port
begin

lemma transition_cases:
  fixes f :: "'e \<Rightarrow> 'e \<Rightarrow> AuditEventRecord \<Rightarrow> 'r"
  assumes wf: "wf_db d"
    and res: "writeTransaction
      (bindT (getT (look i)) (\<lambda>found. case found of
           None \<Rightarrow> throwT nf
         | Some e \<Rightarrow>
             let validation = validate (status e) in
             if \<not> valid validation then throwT (bad e validation)
             else bindT (upd i (key e) s) (\<lambda>u.
                  bindT (auditEvent_create uuid now (ev e)) (\<lambda>a. returnT (f e u a))))) d = (out, d')"
  shows "(\<exists>err. out = Inl err \<and> d' = d
           \<and> (look i d = None \<and> err = nf
              \<or> (\<exists>e. look i d = Some e \<and> \<not> valid (validate (status e)) \<and> err = bad e (validate (status e)))
              \<or> (\<exists>e. look i d = Some e \<and> valid (validate (status e)) \<and> uuid \<in> set (map ae_id (auditEvents d))
                   \<and> err = ConstraintError ''audit_event'')))
    \<or> (\<exists>e u a. out = Inr (f e u a) \<and> look i d = Some e \<and> valid (validate (status e))
         \<and> uuid \<notin> set (map ae_id (auditEvents d))
         \<and> (\<exists>d1. upd i (key e) s d = (Inr u, d1) \<and> d' = d1\<lparr>auditEvents := auditEvents d @ [a]\<rparr>
              \<and> look i d1 = Some u \<and> status u = s \<and> wf_db d1 \<and> auditEvents d1 = auditEvents d
              \<and> (\<forall>j. j \<noteq> i \<longrightarrow> look j d1 = look j d))
         \<and> wf_db d' \<and> ae_id a = uuid
         \<and> ae_entityType a = na_entityType (ev e) \<and> ae_entityId a = na_entityId (ev e)
         \<and> ae_eventType a = na_eventType (ev e) \<and> ae_actorType a = na_actorType (ev e)
         \<and> ae_actorId a = na_actorId (ev e) \<and> ae_oldState a = na_oldState (ev e)
         \<and> ae_newState a = na_newState (ev e) \<and> ae_metadata a = na_metadata (ev e))"
proof (cases "look i d")
  case None
  then show ?thesis using res by (auto simp: writeTransaction_def)
next
  case (Some e)
  show ?thesis
  proof (cases "valid (validate (status e))")
    case False
    then show ?thesis using res Some by (auto simp: writeTransaction_def Let_def)
  next
    case True
    from upd_current[OF wf Some, of s] obtain u d1 where u: "upd i (key e) s d = (Inr u, d1)"
      "look i d1 = Some u" "status u = s" "\<forall>j. j \<noteq> i \<longrightarrow> look j d1 = look j d"
      "auditEvents d1 = auditEvents d" "wf_db d1" by blast
    show ?thesis
    proof (rule auditEvent_create_cases[of uuid d1 now "ev e"])
      assume "uuid \<in> set (map ae_id (auditEvents d1))"
        and "auditEvent_create uuid now (ev e) d1 = (Inl (ConstraintError ''audit_event''), d1)"
      then show ?thesis
        using res Some True u by (auto simp: writeTransaction_def Let_def bindT_apply)
    next
      fix row
      assume fresh: "uuid \<notin> set (map ae_id (auditEvents d1))"
        and c: "auditEvent_create uuid now (ev e) d1 = (Inr row, d1\<lparr>auditEvents := auditEvents d1 @ [row]\<rparr>)"
        and row: "ae_id row = uuid" "ae_entityType row = na_entityType (ev e)"
          "ae_entityId row = na_entityId (ev e)" "ae_eventType row = na_eventType (ev e)"
          "ae_actorType row = na_actorType (ev e)" "ae_actorId row = na_actorId (ev e)"
          "ae_oldState row = na_oldState (ev e)" "ae_newState row = na_newState (ev e)"
          "ae_metadata row = na_metadata (ev e)"
      have "out = Inr (f e u row)" "d' = d1\<lparr>auditEvents := auditEvents d1 @ [row]\<rparr>"
        using res Some True u c by (auto simp: writeTransaction_def Let_def bindT_apply)
      moreover have "wf_db (d1\<lparr>auditEvents := auditEvents d1 @ [row]\<rparr>)"
        using wf_db_audit[OF u(6)] fresh row(1) by simp
      ultimately show ?thesis using Some True u fresh row by auto
    qed
  qed
qed

end

subsection \<open>Task transitions\<close>

lemma task_updateStatus_current:
  assumes "wf_db d" and "task_findById i d = Some t"
  obtains d' where "task_updateStatus now i (t_version t) s d
      = (Inr (t\<lparr>t_status := s, t_version := t_version t + 1, t_updatedAt := now div 1000\<rparr>), d')"
    "d' = d\<lparr>tasks := tasks d'\<rparr>"
proof -
  obtain d' where "task_update now i (t_version t) (\<lambda>r. r\<lparr>t_status := s\<rparr>) d
      = (Inr (t\<lparr>t_status := s, t_version := t_version t + 1, t_updatedAt := now div 1000\<rparr>), d')"
    "d' = d\<lparr>tasks := tasks d'\<rparr>"
    by (rule task_update_current[OF assms, of "\<lambda>r. r\<lparr>t_status := s\<rparr>" now]) auto
  then show ?thesis using that by (simp add: task_updateStatus_def)
qed

text \<open>What a committed transition of task \<open>t\<close> leaves behind.\<close>

definition task_committed ::
  "txEnv \<Rightarrow> Task \<Rightarrow> TaskStatus \<Rightarrow> ActorInfo \<Rightarrow> json option \<Rightarrow> AuditEventRecord \<Rightarrow> world \<Rightarrow> world \<Rightarrow> bool" where
  "task_committed env t s actor meta a w w' \<longleftrightarrow>
    (let d = database w; d' = database w' in
     task_findById (t_taskId t) d'
       = Some (t\<lparr>t_status := s, t_version := t_version t + 1, t_updatedAt := env_now env div 1000\<rparr>)
     \<and> (\<forall>j. j \<noteq> t_taskId t \<longrightarrow> task_findById j d' = task_findById j d)
     \<and> d' = d\<lparr>tasks := tasks d', auditEvents := auditEvents d @ [a]\<rparr>
     \<and> ae_id a = env_uuid env \<and> ae_entityType a = ''task'' \<and> ae_entityId a = t_taskId t
     \<and> ae_actorType a = actor_type actor \<and> ae_actorId a = actor_id actor \<and> ae_metadata a = meta
     \<and> ae_oldState a = Some (JObj [(''status'', JStr (TaskStatus_value (t_status t))),
                                    (''version'', JNum (t_version t))])
     \<and> ae_newState a = Some (JObj [(''status'', JStr (TaskStatus_value s)),
                                    (''version'', JNum (t_version t + 1))])
     \<and> emitted w' = emitted w @ [TaskTransitionedEvent (t_taskId t) (t_status t) s (t_version t + 1)
                                   actor (env_emittedAt env)]
     \<and> wf_db d')"

lemma transitionTask_cases:
  assumes wf: "wf_db (database w)"
  obtains err where "transitionTask env i s ctx actor meta w = (Inl err, w)"
      "task_findById i (database w) = None \<and> err = EntityNotFoundError ''Task'' i
       \<or> (\<exists>t. task_findById i (database w) = Some t \<and> \<not> valid (validateTransition (t_status t) s ctx)
            \<and> err = InvalidTransitionError ''Task'' i (TaskStatus_value (t_status t)) (TaskStatus_value s)
                     (reason (validateTransition (t_status t) s ctx)))
       \<or> (\<exists>t. task_findById i (database w) = Some t \<and> valid (validateTransition (t_status t) s ctx)
            \<and> env_uuid env \<in> set (map ae_id (auditEvents (database w)))
            \<and> err = ConstraintError ''audit_event'')"
  | t a w' where "task_findById i (database w) = Some t" "t_taskId t = i"
      "valid (validateTransition (t_status t) s ctx)"
      "transitionTask env i s ctx actor meta w
        = (Inr \<lparr>tr_entity = t\<lparr>t_status := s, t_version := t_version t + 1,
                  t_updatedAt := env_now env div 1000\<rparr>, tr_auditEvent = a\<rparr>, w')"
      "task_committed env t s actor meta a w w'"
proof -
  let ?ev = "\<lambda>task. \<lparr>na_entityType = ''task'', na_entityId = i,
      na_eventType = ''task.transition.'' @ TaskStatus_value (t_status task) @ ''.to.'' @ TaskStatus_value s,
      na_actorType = actor_type actor, na_actorId = actor_id actor,
      na_oldState = Some (JObj [(''status'', JStr (TaskStatus_value (t_status task))),
                                (''version'', JNum (t_version task))]),
      na_newState = Some (JObj [(''status'', JStr (TaskStatus_value s)),
                                (''version'', JNum (t_version task + 1))]),
      na_metadata = meta\<rparr>"
  let ?bad = "\<lambda>task v. InvalidTransitionError ''Task'' i (TaskStatus_value (t_status task))
      (TaskStatus_value s) (reason v)"
  let ?f = "\<lambda>task updated audit. (updated, audit, t_status task, t_version task)"
  let ?tx = "bindT (getT (task_findById i)) (\<lambda>found. case found of
           None \<Rightarrow> throwT (EntityNotFoundError ''Task'' i)
         | Some e \<Rightarrow>
             let validation = (\<lambda>st. validateTransition st s ctx) (t_status e) in
             if \<not> valid validation then throwT (?bad e validation)
             else bindT (task_updateStatus (env_now env) i (t_version e) s) (\<lambda>u.
                  bindT (auditEvent_create (env_uuid env) (env_now env) (?ev e)) (\<lambda>a. returnT (?f e u a))))"
  have run: "transitionTask env i s ctx actor meta w =
      apfst (map_sum id (\<lambda>(updated, auditEvent, _). \<lparr>tr_entity = updated, tr_auditEvent = auditEvent\<rparr>))
        (commit ?tx (\<lambda>(updated, auditEvent, previousStatus, previousVersion).
          [TaskTransitionedEvent i previousStatus s (previousVersion + 1) actor (env_emittedAt env)]) w)"
    unfolding transitionTask_def Let_def by (rule refl)
  obtain out d' where res: "writeTransaction ?tx (database w) = (out, d')" by fastforce
  from task_port.transition_cases[OF wf res] show ?thesis
  proof (elim disjE exE conjE)
    fix err
    assume "out = Inl err" "d' = database w"
    with run res have "transitionTask env i s ctx actor meta w = (Inl err, w)" by (simp add: commit_def)
    moreover assume "task_findById i (database w) = None" "err = EntityNotFoundError ''Task'' i"
    ultimately show ?thesis using that(1) by blast
  next
    fix err e
    assume "out = Inl err" "d' = database w"
    with run res have "transitionTask env i s ctx actor meta w = (Inl err, w)" by (simp add: commit_def)
    moreover assume "task_findById i (database w) = Some e" "\<not> valid (validateTransition (t_status e) s ctx)"
      "err = ?bad e (validateTransition (t_status e) s ctx)"
    ultimately show ?thesis using that(1) by blast
  next
    fix err e
    assume "out = Inl err" "d' = database w"
    with run res have "transitionTask env i s ctx actor meta w = (Inl err, w)" by (simp add: commit_def)
    moreover assume "task_findById i (database w) = Some e" "valid (validateTransition (t_status e) s ctx)"
      "env_uuid env \<in> set (map ae_id (auditEvents (database w)))" "err = ConstraintError ''audit_event''"
    ultimately show ?thesis using that(1) by blast
  next
    fix t u a d1
    assume out: "out = Inr (?f t u a)" and t: "task_findById i (database w) = Some t"
      and v: "valid (validateTransition (t_status t) s ctx)"
      and upd: "task_updateStatus (env_now env) i (t_version t) s (database w) = (Inr u, d1)"
      and d': "d' = d1\<lparr>auditEvents := auditEvents (database w) @ [a]\<rparr>"
      and d1: "task_findById i d1 = Some u" "\<forall>j. j \<noteq> i \<longrightarrow> task_findById j d1 = task_findById j (database w)"
      and wf': "wf_db d'"
      and a: "ae_id a = env_uuid env" "ae_entityType a = na_entityType (?ev t)" "ae_entityId a = na_entityId (?ev t)"
        "ae_actorType a = na_actorType (?ev t)" "ae_actorId a = na_actorId (?ev t)"
        "ae_oldState a = na_oldState (?ev t)" "ae_newState a = na_newState (?ev t)"
        "ae_metadata a = na_metadata (?ev t)"
    have id: "t_taskId t = i" using t by (auto simp: task_findById_def dest: find_Some_iff_mem)
    from task_updateStatus_current[OF wf t, of "env_now env" s] upd
    have u: "u = t\<lparr>t_status := s, t_version := t_version t + 1, t_updatedAt := env_now env div 1000\<rparr>"
      and frame: "d1 = (database w)\<lparr>tasks := tasks d1\<rparr>" by auto
    let ?w' = "w\<lparr>database := d', emitted := emitted w @ [TaskTransitionedEvent i (t_status t) s
        (t_version t + 1) actor (env_emittedAt env)]\<rparr>"
    have "transitionTask env i s ctx actor meta w = (Inr \<lparr>tr_entity = u, tr_auditEvent = a\<rparr>, ?w')"
      using run res out by (simp add: commit_def)
    moreover have "d' = (database w)\<lparr>tasks := tasks d', auditEvents := auditEvents (database w) @ [a]\<rparr>"
      unfolding d' by (subst frame) simp
    moreover have "task_findById j d' = task_findById j d1" for j by (simp add: d' task_findById_def)
    ultimately show ?thesis
      using that(2)[OF t id v, of a ?w'] u d1 wf' a id unfolding task_committed_def Let_def by simp
  qed
qed

text \<open>
  (C4) Committing a task transition is atomic and exact.  On success the task existed, the state
  machine accepted the move, the task has the new status and the next version, no other task and no
  other table changed, exactly one audit event records the old and the new state and the actor, and
  exactly one domain event was emitted.  Otherwise nothing changed and nothing was emitted: the task
  is unknown, or the move was rejected (with the machine's reason), or the move is valid and the audit
  row's key was taken; each of the three has its own error.
\<close>

theorem transition_task_atomic:
  assumes "wf_db (database w)"
  shows "case transitionTask env i s ctx actor meta w of
      (Inl err, w') \<Rightarrow> w' = w
        \<and> (task_findById i (database w) = None \<and> err = EntityNotFoundError ''Task'' i
           \<or> (\<exists>t. task_findById i (database w) = Some t \<and> \<not> valid (validateTransition (t_status t) s ctx)
                \<and> err = InvalidTransitionError ''Task'' i (TaskStatus_value (t_status t)) (TaskStatus_value s)
                         (reason (validateTransition (t_status t) s ctx)))
           \<or> (\<exists>t. task_findById i (database w) = Some t \<and> valid (validateTransition (t_status t) s ctx)
                \<and> env_uuid env \<in> set (map ae_id (auditEvents (database w)))
                \<and> err = ConstraintError ''audit_event''))
    | (Inr r, w') \<Rightarrow> \<exists>t. task_findById i (database w) = Some t \<and> t_taskId t = i
        \<and> valid (validateTransition (t_status t) s ctx)
        \<and> t_version (tr_entity r) = t_version t + 1 \<and> t_status (tr_entity r) = s
        \<and> task_committed env t s actor meta (tr_auditEvent r) w w'"
  by (rule transitionTask_cases[OF assms, of env i s ctx actor meta]) auto

definition example_task :: Task where
  "example_task = \<lparr>t_taskId = ''T1'', t_repositoryId = ''R'', t_priority = TaskPriority.HIGH,
    t_status = TaskStatus.READY, t_version = 4, t_currentLeaseId = None, t_currentReviewCycleId = None,
    t_mergeQueueItemId = None, t_retryCount = 0,
    t_reviewRoundCount = 0, t_requiredCapabilities = None, t_createdAt = 0, t_updatedAt = 0,
    t_completedAt = None\<rparr>"

definition example_db :: db where
  "example_db = \<lparr>tasks = [example_task], taskLeases = [], reviewCycles = [], mergeQueueItems = [],
    taskDependencies = [], workerPools = [], jobs = [], auditEvents = [], reviewPackets = [], leadReviewDecisions = [], workers = []\<rparr>"

definition example_world :: world where
  "example_world = \<lparr>database = example_db, emitted = []\<rparr>"

definition example_env :: txEnv where
  "example_env = \<lparr>env_now = 5000, env_uuid = ''u1'', env_emittedAt = 5001\<rparr>"

definition example_actor :: ActorInfo where
  "example_actor = \<lparr>actor_type = ''operator'', actor_id = ''alice''\<rparr>"

lemma example_wf: "wf_db (database example_world)"
  by (simp add: example_world_def example_db_def wf_db_def)

theorem transition_task_atomic_witness:
  "\<exists>r w'. transitionTask example_env ''T1'' TaskStatus.CANCELLED (emptyContext\<lparr>isOperator := Some True\<rparr>)
     example_actor None example_world = (Inr r, w')
   \<and> t_version (tr_entity r) = 5
   \<and> task_committed example_env example_task TaskStatus.CANCELLED example_actor None (tr_auditEvent r)
       example_world w'"
proof -
  let ?res = "transitionTask example_env ''T1'' TaskStatus.CANCELLED
     (emptyContext\<lparr>isOperator := Some True\<rparr>) example_actor None example_world"
  have t: "task_findById ''T1'' (database example_world) = Some example_task"
    by (simp add: example_world_def example_db_def example_task_def task_findById_def)
  have "case ?res of (Inl _, _) \<Rightarrow> False | (Inr _, _) \<Rightarrow> True" by code_simp
  then obtain r w' where "?res = (Inr r, w')" by (auto split: sum.splits prod.splits)
  then show ?thesis
    using transition_task_atomic[OF example_wf, where env = example_env and i = "''T1''"
        and s = TaskStatus.CANCELLED and ctx = "emptyContext\<lparr>isOperator := Some True\<rparr>"
        and actor = example_actor and meta = None] t
    by (simp add: example_task_def)
qed

subsection \<open>Sequences of transitions\<close>

text \<open>
  Any interleaving of calls of the service, on any entities.  A call that fails leaves the world as
  it was, so only the world is threaded.
\<close>

datatype service_call =
    CallTask txEnv string TaskStatus TransitionContext ActorInfo "json option"
  | CallLease txEnv string WorkerLeaseStatus WorkerLeaseTransitionContext ActorInfo "json option"
  | CallCycle txEnv string ReviewCycleStatus ReviewCycleTransitionContext ActorInfo "json option"
  | CallItem txEnv string MergeQueueItemStatus MergeQueueItemTransitionContext ActorInfo "json option"

fun serve :: "service_call \<Rightarrow> world \<Rightarrow> world" where
  "serve (CallTask env i s c a m) w = snd (transitionTask env i s c a m w)"
| "serve (CallLease env i s' c' a m) w = snd (transitionLease env i s' c' a m w)"
| "serve (CallCycle env i s'' c'' a m) w = snd (transitionReviewCycle env i s'' c'' a m w)"
| "serve (CallItem env i q e a m) w = snd (transitionMergeQueueItem env i q e a m w)"

definition serve_all :: "service_call list \<Rightarrow> world \<Rightarrow> world" where
  "serve_all calls w = fold serve calls w"

text \<open>The accepted moves of task \<open>i\<close> in such a sequence, with the evidence they were given.\<close>

fun moves_of :: "string \<Rightarrow> service_call list \<Rightarrow> world \<Rightarrow> (TaskStatus \<times> TransitionContext) list" where
  "moves_of i [] w = []"
| "moves_of i (CallTask env j s c a m # calls) w =
    (case transitionTask env j s c a m w of
       (Inl _, w') \<Rightarrow> moves_of i calls w'
     | (Inr _, w') \<Rightarrow> (if j = i then [(s, c)] else []) @ moves_of i calls w')"
| "moves_of i (call # calls) w = moves_of i calls (serve call w)"

definition taskStatus_of :: "string \<Rightarrow> world \<Rightarrow> TaskStatus option" where
  "taskStatus_of i w = map_option t_status (task_findById i (database w))"

lemma other_entities_keep_tasks:
  assumes "wf_db (database w)"
  shows "wf_db (database (snd (transitionLease env i s' c' a m w)))"
    "tasks (database (snd (transitionLease env i s' c' a m w))) = tasks (database w)"
    "wf_db (database (snd (transitionReviewCycle env i s'' c'' a m w)))"
    "tasks (database (snd (transitionReviewCycle env i s'' c'' a m w))) = tasks (database w)"
    "wf_db (database (snd (transitionMergeQueueItem env i q e a m w)))"
    "tasks (database (snd (transitionMergeQueueItem env i q e a m w))) = tasks (database w)"
  unfolding transitionLease_def transitionReviewCycle_def transitionMergeQueueItem_def snd_apfst
  by (intro commit_preserves[where P = wf_db]
        commit_preserves[where P = "\<lambda>d. tasks d = tasks (database w)"] preserves_intro assms refl)+

lemma serve_wf:
  assumes "wf_db (database w)"
  shows "wf_db (database (serve call w))"
proof (cases call)
  case (CallTask env i s c a m)
  show ?thesis
    unfolding CallTask
    by (rule transitionTask_cases[OF assms, where env = env and i = i and s = s and ctx = c
          and actor = a and meta = m])
       (simp_all add: assms task_committed_def Let_def)
qed (simp_all add: assms other_entities_keep_tasks)

lemma serve_task_step:
  assumes "wf_db (database w)" and "taskStatus_of i w = Some s0"
  shows "\<exists>s1. taskStatus_of i (serve call w) = Some s1
    \<and> run_machine validateTransition s0 (moves_of i [call] w) = Some s1"
proof (cases call)
  case (CallTask env j s c a m)
  show ?thesis
  proof (rule transitionTask_cases[OF assms(1), where env = env and i = j and s = s and ctx = c
        and actor = a and meta = m])
    fix err
    assume "transitionTask env j s c a m w = (Inl err, w)"
    then show ?thesis using CallTask assms(2) by simp
  next
    fix t au w'
    assume t: "task_findById j (database w) = Some t" "t_taskId t = j"
      and v: "valid (validateTransition (t_status t) s c)"
      and res: "transitionTask env j s c a m w
        = (Inr \<lparr>tr_entity = t\<lparr>t_status := s, t_version := t_version t + 1,
                  t_updatedAt := env_now env div 1000\<rparr>, tr_auditEvent = au\<rparr>, w')"
      and com: "task_committed env t s a m au w w'"
    show ?thesis
    proof (cases "i = j")
      case True
      then show ?thesis using CallTask res com t v assms(2)
        by (auto simp: task_committed_def Let_def taskStatus_of_def)
    next
      case False
      then show ?thesis using CallTask res com t assms(2)
        by (auto simp: task_committed_def Let_def taskStatus_of_def)
    qed
  qed
qed (use assms in \<open>simp_all add: taskStatus_of_def task_findById_def other_entities_keep_tasks\<close>)

lemma moves_of_Cons: "moves_of i (call # calls) w = moves_of i [call] w @ moves_of i calls (serve call w)"
  by (cases call) (auto split: prod.split sum.split)

text \<open>
  (C2) The service refines the task state machine: whatever calls are made, on whatever entities and
  in whatever order, the history of a task is a run of the machine from its initial to its current
  status, made of exactly the accepted moves with the evidence presented for them.
\<close>

theorem transition_service_refines_machine:
  assumes "wf_db (database w)" and "taskStatus_of i w = Some s0"
  shows "\<exists>s1. taskStatus_of i (serve_all calls w) = Some s1
    \<and> run_machine validateTransition s0 (moves_of i calls w) = Some s1
    \<and> wf_db (database (serve_all calls w))"
  using assms
proof (induction calls arbitrary: w s0)
  case Nil
  then show ?case by (simp add: serve_all_def)
next
  case (Cons call calls)
  from serve_task_step[OF Cons.prems, of call] obtain s where
    s: "taskStatus_of i (serve call w) = Some s" "run_machine validateTransition s0 (moves_of i [call] w) = Some s"
    by blast
  from Cons.IH[OF serve_wf[OF Cons.prems(1)] s(1)] s(2) show ?case
    by (subst moves_of_Cons) (simp add: serve_all_def run_machine_append)
qed

definition example_calls :: "service_call list" where
  "example_calls =
    [CallTask example_env ''T1'' TaskStatus.DONE emptyContext example_actor None,
     CallTask example_env ''T1'' TaskStatus.ESCALATED (emptyContext\<lparr>isOperator := Some True\<rparr>)
       example_actor None]"

theorem transition_service_refines_machine_witness:
  "run_machine validateTransition TaskStatus.READY (moves_of ''T1'' example_calls example_world)
     = taskStatus_of ''T1'' (serve_all example_calls example_world)
   \<and> map fst (moves_of ''T1'' example_calls example_world) = [TaskStatus.ESCALATED]"
proof -
  have "taskStatus_of ''T1'' example_world = Some TaskStatus.READY" by code_simp
  from transition_service_refines_machine[OF example_wf this, of example_calls]
  have "run_machine validateTransition TaskStatus.READY (moves_of ''T1'' example_calls example_world)
     = taskStatus_of ''T1'' (serve_all example_calls example_world)" by auto
  moreover have "map fst (moves_of ''T1'' example_calls example_world) = [TaskStatus.ESCALATED]"
    by code_simp
  ultimately show ?thesis by blast
qed

text \<open>
  Optimistic concurrency loses no update: of any number of writers that read the same version
  of a task, the first commits and every later one fails with a version conflict and changes nothing.
\<close>

lemma optimistic_concurrency:
  assumes "wf_db d" and "task_findById i d = Some t"
  shows "\<exists>t' d'. task_updateStatus now i (t_version t) s d = (Inr t', d')
    \<and> t_version t' = t_version t + 1 \<and> t_status t' = s
    \<and> (\<forall>now' s'. \<exists>x. task_updateStatus now' i (t_version t) s' d' = (Inl x, d'))"
proof -
  obtain d' where d': "task_updateStatus now i (t_version t) s d
      = (Inr (t\<lparr>t_status := s, t_version := t_version t + 1, t_updatedAt := now div 1000\<rparr>), d')"
    by (rule task_updateStatus_current[OF assms])
  have "\<exists>x. task_updateStatus now' i (t_version t) s' d' = (Inl x, d')" for now' s'
  proof -
    have "wf_db d'" "task_findById i d'
        = Some (t\<lparr>t_status := s, t_version := t_version t + 1, t_updatedAt := now div 1000\<rparr>)"
      using task_port.upd_current[OF assms, of now s] d' by auto
    then show ?thesis using task_port.upd_stale by fastforce
  qed
  with d' show ?thesis by auto
qed

end
