(* ===== verification/ConflictPolicy.thy ===== *)
theory ConflictPolicy
  imports TaskSM
begin

text \<open>
  \<open>packages/domain/src/conflict-priority.ts\<close> (who wins a version conflict) and
  \<open>packages/domain/src/workspace-cleanup-policy.ts\<close> (when a workspace may be removed).
  Dates are integer milliseconds, as \<open>Date.getTime\<close> returns them.
\<close>

subsection \<open>Conflict priority\<close>

datatype ConflictPriority = AUTOMATED | LEASE_EXPIRY | OPERATOR

fun ConflictPriority_number :: "ConflictPriority \<Rightarrow> int" where
  "ConflictPriority_number AUTOMATED = 1"
| "ConflictPriority_number LEASE_EXPIRY = 2"
| "ConflictPriority_number OPERATOR = 3"

definition OPERATOR_ACTOR_TYPES :: "string list" where
  "OPERATOR_ACTOR_TYPES = [''operator'', ''admin'']"

definition OPERATOR_TARGET_STATUSES :: "TaskStatus list" where
  "OPERATOR_TARGET_STATUSES = [TaskStatus.ESCALATED, TaskStatus.CANCELLED]"

definition LEASE_MONITOR_ACTOR_TYPES :: "string list" where
  "LEASE_MONITOR_ACTOR_TYPES = [''lease-monitor'', ''reconciliation'']"

definition getConflictPriority :: "string \<Rightarrow> TaskStatus \<Rightarrow> ConflictPriority" where
  "getConflictPriority actorType targetStatus =
    (if actorType \<in> set OPERATOR_ACTOR_TYPES then OPERATOR
     else if targetStatus \<in> set OPERATOR_TARGET_STATUSES \<and> actorType = ''system'' then OPERATOR
     else if actorType \<in> set LEASE_MONITOR_ACTOR_TYPES \<and> targetStatus = TaskStatus.FAILED
     then LEASE_EXPIRY
     else AUTOMATED)"

definition shouldRetryOnConflict :: "string \<Rightarrow> TaskStatus \<Rightarrow> bool" where
  "shouldRetryOnConflict actorType targetStatus =
    (ConflictPriority_number (getConflictPriority actorType targetStatus)
       > ConflictPriority_number AUTOMATED)"

definition isWithinGracePeriod :: "int \<Rightarrow> int \<Rightarrow> int \<Rightarrow> bool" where
  "isWithinGracePeriod leaseExpiredAt resultReceivedAt gracePeriodSeconds =
    (if gracePeriodSeconds \<le> 0 then False
     else let elapsedMs = resultReceivedAt - leaseExpiredAt
          in elapsedMs \<ge> 0 \<and> elapsedMs \<le> gracePeriodSeconds * 1000)"

text \<open>
  A losing writer retries exactly when it is an operator or admin, the system escalating or
  cancelling, or the lease monitor failing a task; every other actor gives way.  The decision for an
  operator does not depend on the target.
\<close>

lemma retry_on_conflict_iff:
  "shouldRetryOnConflict a t \<longleftrightarrow>
    a \<in> {''operator'', ''admin''}
    \<or> a = ''system'' \<and> t \<in> {TaskStatus.ESCALATED, TaskStatus.CANCELLED}
    \<or> a \<in> {''lease-monitor'', ''reconciliation''} \<and> t = TaskStatus.FAILED"
  by (auto simp: shouldRetryOnConflict_def getConflictPriority_def OPERATOR_ACTOR_TYPES_def
      OPERATOR_TARGET_STATUSES_def LEASE_MONITOR_ACTOR_TYPES_def split: if_splits)

lemma isWithinGracePeriod_iff:
  "isWithinGracePeriod e r g \<longleftrightarrow> 0 < g \<and> e \<le> r \<and> r \<le> e + g * 1000"
  by (auto simp: isWithinGracePeriod_def Let_def)

subsection \<open>Workspace cleanup\<close>

record WorkspaceRetentionPolicy =
  workspace_retention_hours :: int
  retain_failed_workspaces :: bool
  retain_escalated_workspaces :: bool

record WorkspaceCleanupInput =
  taskStatus :: TaskStatus
  retentionPolicy :: WorkspaceRetentionPolicy
  terminalStateAt :: int
  now :: int

record WorkspaceCleanupEligibility =
  cleanup_eligible :: bool
  cleanup_reason :: string

definition MS_PER_HOUR :: int where
  "MS_PER_HOUR = 60 * 60 * 1000"

text \<open>\<open>Math.ceil(a / b)\<close> on integers, for positive \<open>b\<close>.\<close>

definition ceil_div :: "int \<Rightarrow> int \<Rightarrow> int" where
  "ceil_div a b = - ((- a) div b)"

definition isWorkspaceCleanupEligible :: "WorkspaceCleanupInput \<Rightarrow> WorkspaceCleanupEligibility" where
  "isWorkspaceCleanupEligible input =
    (if taskStatus input = TaskStatus.ESCALATED then
       \<lparr>cleanup_eligible = False,
        cleanup_reason = ''Escalated workspaces are retained until operator resolution''\<rparr>
     else if \<not> isTerminalState (taskStatus input) then
       \<lparr>cleanup_eligible = False,
        cleanup_reason = ''Task is in non-terminal state: '' @ TaskStatus_value (taskStatus input)\<rparr>
     else if taskStatus input = TaskStatus.FAILED \<and> retain_failed_workspaces (retentionPolicy input) then
       \<lparr>cleanup_eligible = False,
        cleanup_reason = ''Failed workspaces are retained per retention policy''\<rparr>
     else
       let retentionMs = workspace_retention_hours (retentionPolicy input) * MS_PER_HOUR;
           elapsedMs = now input - terminalStateAt input
       in if elapsedMs < retentionMs then
            let remainingHours = ceil_div (retentionMs - elapsedMs) MS_PER_HOUR
            in \<lparr>cleanup_eligible = False,
                cleanup_reason = ''Retention period not elapsed ('' @ string_of_int remainingHours
                  @ ''h remaining)''\<rparr>
          else
            \<lparr>cleanup_eligible = True, cleanup_reason =
               ''Workspace eligible for cleanup: terminal state and retention period elapsed''\<rparr>)"

text \<open>
  A workspace is cleaned up exactly when its task is done, cancelled, or failed without failure
  retention, and the retention period has passed since the terminal state; eligibility is never lost
  as time passes.  The policy's \<open>retain_escalated_workspaces\<close> flag has no influence: escalated
  workspaces are always kept.
\<close>

lemma workspace_cleanup_iff:
  "(cleanup_eligible (isWorkspaceCleanupEligible i) \<longleftrightarrow>
     (taskStatus i \<in> {TaskStatus.DONE, TaskStatus.CANCELLED}
      \<or> taskStatus i = TaskStatus.FAILED \<and> \<not> retain_failed_workspaces (retentionPolicy i))
     \<and> terminalStateAt i + workspace_retention_hours (retentionPolicy i) * 3600000 \<le> now i)
   \<and> isWorkspaceCleanupEligible (i\<lparr>retentionPolicy := (retentionPolicy i)\<lparr>retain_escalated_workspaces := b\<rparr>\<rparr>)
       = isWorkspaceCleanupEligible i"
  by (auto simp: isWorkspaceCleanupEligible_def isTerminalState_def TERMINAL_STATES_def Let_def
      MS_PER_HOUR_def)

end
