(* ===== verification/OptimisticRetry.thy ===== *)
theory OptimisticRetry
  imports Transition ConflictPolicy
begin

text \<open>
  \<open>packages/application/src/services/optimistic-retry.service.ts\<close>: a transition that is tried again
  after a version conflict when the actor outranks automation.

  The injected transition service is an argument: attempt \<open>n\<close> runs \<open>attempts n\<close>, which covers both
  what the call draws and what other connections commit before it.  \<open>transitionTaskWithPriority\<close>
  instantiates it with the transition service of the development.
\<close>

subsection \<open>Operations\<close>

definition DEFAULT_MAX_RETRIES :: int where
  "DEFAULT_MAX_RETRIES = 3"

record 'e PriorityTransitionResult =
  pt_result :: 'e
  retriesUsed :: nat

fun isVersionConflict :: "app_error \<Rightarrow> bool" where
  "isVersionConflict (VersionConflictError _ _ _) = True"
| "isVersionConflict _ = False"

type_synonym 'e attempt = "world \<Rightarrow> (app_error + 'e) \<times> world"

function retryLoop :: "(nat \<Rightarrow> 'e attempt) \<Rightarrow> app_error \<Rightarrow> bool \<Rightarrow> int \<Rightarrow> nat \<Rightarrow> nat \<Rightarrow> 'e PriorityTransitionResult attempt" where
  "retryLoop attempts unreachable retry maxRetries attempt used w =
    (if int attempt > maxRetries then (Inl unreachable, w)
     else case attempts attempt w of
       (Inr result, w') \<Rightarrow> (Inr \<lparr>pt_result = result, retriesUsed = used\<rparr>, w')
     | (Inl error, w') \<Rightarrow>
         if \<not> isVersionConflict error then (Inl error, w')
         else if \<not> retry then (Inl error, w')
         else if int attempt < maxRetries then
           retryLoop attempts unreachable retry maxRetries (attempt + 1) (used + 1) w'
         else (Inl error, w'))"
  by pat_completeness auto
termination
  by (relation "measure (\<lambda>(_, _, _, maxRetries, attempt, _). nat (maxRetries + 1 - int attempt))") auto

declare retryLoop.simps [simp del]

definition transitionTaskWithPriority ::
  "(nat \<Rightarrow> txEnv) \<Rightarrow> (nat \<Rightarrow> world \<Rightarrow> world) \<Rightarrow> string \<Rightarrow> TaskStatus \<Rightarrow> TransitionContext \<Rightarrow> ActorInfo \<Rightarrow> json option
    \<Rightarrow> int option \<Rightarrow> Task TransitionServiceResult PriorityTransitionResult attempt" where
  "transitionTaskWithPriority envs others taskId targetStatus context actor metadata maxRetries =
    retryLoop (\<lambda>n w. transitionTask (envs n) taskId targetStatus context actor metadata (others n w))
      (VersionConflictError ''Task'' taskId ''unknown'')
      (shouldRetryOnConflict (actor_type actor) targetStatus)
      (case maxRetries of None \<Rightarrow> DEFAULT_MAX_RETRIES | Some n \<Rightarrow> n) 0 0"

subsection \<open>How often it tries\<close>

text \<open>The world before attempt \<open>n\<close>, if the earlier ones were all made.\<close>

fun before :: "(nat \<Rightarrow> 'e attempt) \<Rightarrow> world \<Rightarrow> nat \<Rightarrow> world" where
  "before attempts w 0 = w"
| "before attempts w (Suc n) = snd (attempts n (before attempts w n))"

definition conflicts :: "(nat \<Rightarrow> 'e attempt) \<Rightarrow> world \<Rightarrow> nat \<Rightarrow> bool" where
  "conflicts attempts w n = (case fst (attempts n (before attempts w n)) of Inl e \<Rightarrow> isVersionConflict e | Inr _ \<Rightarrow> False)"

definition attempt_bound :: "bool \<Rightarrow> int \<Rightarrow> nat" where
  "attempt_bound retry maxRetries = (if retry then nat maxRetries else 0)"

definition with_retries :: "nat \<Rightarrow> (app_error + 'e) \<times> world \<Rightarrow> (app_error + 'e PriorityTransitionResult) \<times> world" where
  "with_retries n = apfst (map_sum id (\<lambda>r. \<lparr>pt_result = r, retriesUsed = n\<rparr>))"

lemma with_retries_simps [simp]:
  "with_retries n (Inl e, w) = (Inl e, w)" "with_retries n (Inr r, w) = (Inr \<lparr>pt_result = r, retriesUsed = n\<rparr>, w)"
  by (simp_all add: with_retries_def)

lemma with_retries_used: "with_retries n x = (Inr r, w) \<Longrightarrow> retriesUsed r = n"
  by (cases x; cases "fst x") auto

lemma retryLoop_from:
  assumes "k \<le> attempt_bound retry m" and "0 \<le> m"
  shows "\<exists>n. k \<le> n \<and> n \<le> attempt_bound retry m \<and> (\<forall>i. k \<le> i \<and> i < n \<longrightarrow> conflicts attempts w i)
    \<and> (conflicts attempts w n \<longrightarrow> n = attempt_bound retry m)
    \<and> retryLoop attempts u retry m k k (before attempts w k) =
        with_retries n (attempts n (before attempts w n))"
  using assms(1)
proof (induction "attempt_bound retry m - k" arbitrary: k)
  case 0
  then have k: "k = attempt_bound retry m" by simp
  have "int k \<le> m" "retry \<Longrightarrow> \<not> int k < m" using assms(2) k by (simp_all add: attempt_bound_def)
  then have "retryLoop attempts u retry m k k (before attempts w k) =
      with_retries k (attempts k (before attempts w k))"
    by (subst retryLoop.simps) (auto split: prod.split sum.split)
  then show ?case using k by (intro exI[of _ k]) auto
next
  case (Suc j)
  then have k: "k < attempt_bound retry m" "retry" "int k < m" by (auto simp: attempt_bound_def split: if_splits)
  show ?case
  proof (cases "conflicts attempts w k")
    case False
    then show ?thesis using k
      by (intro exI[of _ k]) (auto simp: retryLoop.simps[of _ _ _ _ k] conflicts_def split: prod.split sum.split)
  next
    case True
    then have next_try: "retryLoop attempts u retry m k k (before attempts w k)
        = retryLoop attempts u retry m (Suc k) (Suc k) (before attempts w (Suc k))"
      using k by (auto simp: retryLoop.simps[of _ _ _ _ k] conflicts_def split: prod.splits sum.splits)
    have "j = attempt_bound retry m - Suc k" "Suc k \<le> attempt_bound retry m" using Suc.hyps(2) k(1) by simp_all
    from Suc.hyps(1)[OF this] obtain n where n: "Suc k \<le> n" "n \<le> attempt_bound retry m" "\<forall>i. Suc k \<le> i \<and> i < n \<longrightarrow> conflicts attempts w i"
      "conflicts attempts w n \<longrightarrow> n = attempt_bound retry m"
      "retryLoop attempts u retry m (Suc k) (Suc k) (before attempts w (Suc k)) =
        with_retries n (attempts n (before attempts w n))"
      by blast
    have "\<forall>i. k \<le> i \<and> i < n \<longrightarrow> conflicts attempts w i"
      using n(3) True by (metis Suc_leI le_neq_implies_less)
    then show ?thesis using n next_try by (intro exI[of _ n]) simp
  qed
qed

text \<open>
  Retrying after a version conflict.  The call returns what its last attempt \<open>n\<close> returned, with
  \<open>n\<close> as the number of retries; every attempt before it ended in a version conflict.  It stops at the
  first attempt that does not, or after \<open>maxRetries\<close> retries (3 by default), or at once if the actor
  must give way.
\<close>

lemma retry_outcome:
  assumes "0 \<le> (case maxRetries of None \<Rightarrow> DEFAULT_MAX_RETRIES | Some n \<Rightarrow> n)"
  shows "let attempts = \<lambda>n w. transitionTask (envs n) i s ctx actor meta (others n w);
      bound = attempt_bound (shouldRetryOnConflict (actor_type actor) s)
        (case maxRetries of None \<Rightarrow> DEFAULT_MAX_RETRIES | Some n \<Rightarrow> n) in
    \<exists>n \<le> bound. (\<forall>k < n. conflicts attempts w k) \<and> (conflicts attempts w n \<longrightarrow> n = bound)
      \<and> transitionTaskWithPriority envs others i s ctx actor meta maxRetries w
          = with_retries n (attempts n (before attempts w n))"
  using retryLoop_from[of 0 "shouldRetryOnConflict (actor_type actor) s"
      "case maxRetries of None \<Rightarrow> DEFAULT_MAX_RETRIES | Some n \<Rightarrow> n"
      "\<lambda>n w. transitionTask (envs n) i s ctx actor meta (others n w)" w "VersionConflictError ''Task'' i ''unknown''"] assms
  by (auto simp: transitionTaskWithPriority_def Let_def)

text \<open>
  Since a transition reads and writes in one immediate transaction, it never ends in a version
  conflict, and the call is a single transition.
\<close>

lemma transitionTask_no_conflict:
  assumes "wf_db (database w)" and "transitionTask env i s ctx actor meta w = (Inl e, w')"
  shows "\<not> isVersionConflict e"
proof (cases "task_findById i (database w)")
  case None
  then show ?thesis using assms(2)
    by (auto simp: transitionTask_def commit_def writeTransaction_def)
next
  case (Some t)
  obtain d1 where "task_updateStatus (env_now env) i (t_version t) s (database w)
      = (Inr (t\<lparr>t_status := s, t_version := t_version t + 1, t_updatedAt := env_now env div 1000\<rparr>), d1)"
    using task_updateStatus_current[OF assms(1) Some] by blast
  then show ?thesis using assms(2) Some
    by (auto simp: transitionTask_def commit_def writeTransaction_def bindT_apply Let_def auditEvent_create_def
        split: if_splits)
qed

lemma priority_transition_single:
  assumes "wf_db (database (others 0 w))" and "0 \<le> (case maxRetries of None \<Rightarrow> DEFAULT_MAX_RETRIES | Some n \<Rightarrow> n)"
  shows "transitionTaskWithPriority envs others i s ctx actor meta maxRetries w
    = with_retries 0 (transitionTask (envs 0) i s ctx actor meta (others 0 w))"
  unfolding transitionTaskWithPriority_def
  using transitionTask_no_conflict[OF assms(1), of "envs 0" i s ctx actor meta] assms(2)
  by (subst retryLoop.simps) (auto split: prod.split sum.split)

end
