(* ===== verification/Lease.thy ===== *)
theory Lease
  imports Transition
begin

text \<open>
  \<open>packages/application/src/services/lease.service.ts\<close> over the unit of work
  \<open>createLeaseUnitOfWork\<close> of \<open>apps/control-plane/src/automation/application-adapters.ts\<close>: exclusive
  acquisition of a lease on a task, in one transaction with the move of the task to \<open>ASSIGNED\<close>.
\<close>

subsection \<open>Acquisition\<close>

definition LEASE_ELIGIBLE_STATUSES :: "TaskStatus list" where
  "LEASE_ELIGIBLE_STATUSES = [TaskStatus.READY, TaskStatus.CHANGES_REQUESTED, TaskStatus.ESCALATED]"

record AcquireLeaseParams =
  al_taskId :: string
  al_workerId :: string
  al_poolId :: string
  al_ttlSeconds :: int
  al_actor :: ActorInfo
  al_metadata :: "json option"

record LeaseAcquisitionResult =
  la_lease :: TaskLease
  la_task :: Task
  la_auditEvent :: AuditEventRecord

text \<open>
  What one acquisition draws from its environment: the clock, the generated lease id and the audit
  UUID, and the clock when each of the two events is emitted.
\<close>

record leaseEnv =
  le_now :: int
  le_leaseId :: string
  le_uuid :: string
  le_taskEventAt :: int
  le_leaseEventAt :: int

definition updateStatusAndLeaseId :: "int \<Rightarrow> string \<Rightarrow> int \<Rightarrow> TaskStatus \<Rightarrow> string \<Rightarrow> Task tx" where
  "updateStatusAndLeaseId now taskId expectedVersion newStatus leaseId =
    task_update now taskId expectedVersion
      (\<lambda>r. r\<lparr>t_status := newStatus, t_currentLeaseId := Some leaseId\<rparr>)"

definition acquireLease_tx ::
  "leaseEnv \<Rightarrow> AcquireLeaseParams \<Rightarrow> (TaskLease \<times> Task \<times> AuditEventRecord \<times> TaskStatus) tx" where
  "acquireLease_tx env params =
    (let taskId = al_taskId params; actor = al_actor params in
     bindT (getT (task_findById taskId)) (\<lambda>found. case found of
       None \<Rightarrow> throwT (EntityNotFoundError ''Task'' taskId)
     | Some task \<Rightarrow>
         if t_status task \<notin> set LEASE_ELIGIBLE_STATUSES then
           throwT (TaskNotReadyForLeaseError taskId (TaskStatus_value (t_status task)))
         else bindT (getT (lease_findActiveByTaskId taskId)) (\<lambda>activeLease. case activeLease of
           Some active \<Rightarrow> throwT (ExclusivityViolationError taskId (l_leaseId active))
         | None \<Rightarrow>
             let transitionCtx = emptyContext\<lparr>TransitionContext.leaseAcquired := Some True,
                   isOperator := Some (actor_type actor = ''operator'')\<rparr>;
                 validation = validateTransition (t_status task) TaskStatus.ASSIGNED transitionCtx in
             if \<not> valid validation then
               throwT (InvalidTransitionError ''Task'' taskId (TaskStatus_value (t_status task))
                 (TaskStatus_value TaskStatus.ASSIGNED) (reason validation))
             else
               let leaseId = le_leaseId env;
                   expiresAt = le_now env + al_ttlSeconds params * 1000 in
               bindT (lease_create \<lparr>l_leaseId = leaseId, l_taskId = taskId,
                   l_workerId = al_workerId params, l_poolId = al_poolId params,
                   l_leasedAt = le_now env div 1000, l_expiresAt = expiresAt div 1000,
                   l_heartbeatAt = None, l_status = WorkerLeaseStatus.LEASED, l_reclaimReason = None,
                   l_partialResultArtifactRefs = None\<rparr>) (\<lambda>lease.
               bindT (updateStatusAndLeaseId (le_now env) taskId (t_version task) TaskStatus.ASSIGNED leaseId)
                 (\<lambda>updatedTask.
               bindT (auditEvent_create (le_uuid env) (le_now env)
                 \<lparr>na_entityType = ''task'', na_entityId = taskId, na_eventType = ''lease.acquired'',
                  na_actorType = actor_type actor, na_actorId = actor_id actor,
                  na_oldState = Some (JObj [(''status'', JStr (TaskStatus_value (t_status task))),
                     (''version'', JNum (t_version task)),
                     (''currentLeaseId'', json_of_string_opt (t_currentLeaseId task))]),
                  na_newState = Some (JObj [(''status'', JStr (TaskStatus_value (t_status updatedTask))),
                     (''version'', JNum (t_version updatedTask)), (''currentLeaseId'', JStr leaseId)]),
                  na_metadata = al_metadata params\<rparr>) (\<lambda>auditEvent.
               returnT (lease, updatedTask, auditEvent, t_status task)))))))"

definition acquireLease ::
  "leaseEnv \<Rightarrow> AcquireLeaseParams \<Rightarrow> world \<Rightarrow> (app_error + LeaseAcquisitionResult) \<times> world" where
  "acquireLease env params w =
    apfst (map_sum id (\<lambda>(lease, task, audit, _).
        \<lparr>la_lease = lease, la_task = task, la_auditEvent = audit\<rparr>))
      (commit (acquireLease_tx env params)
        (\<lambda>(lease, task, audit, previousStatus).
          [TaskTransitionedEvent (al_taskId params) previousStatus TaskStatus.ASSIGNED (t_version task)
             (al_actor params) (le_taskEventAt env),
           TaskLeaseTransitionedEvent (l_leaseId lease) WorkerLeaseStatus.IDLE WorkerLeaseStatus.LEASED
             (al_actor params) (le_leaseEventAt env)])
        w)"

subsection \<open>Exclusivity\<close>

text \<open>A lease counts as active for the repository unless its status is in the terminal list.\<close>

definition active_lease :: "TaskLease \<Rightarrow> bool" where
  "active_lease l \<longleftrightarrow> WorkerLeaseStatus_value (l_status l) \<notin> set TERMINAL_LEASE_STATUSES"

lemma active_lease_iff:
  "active_lease l \<longleftrightarrow> l_status l \<notin> {WorkerLeaseStatus.TIMED_OUT, WorkerLeaseStatus.CRASHED, WorkerLeaseStatus.RECLAIMED}"
  by (cases "l_status l") (simp_all add: active_lease_def TERMINAL_LEASE_STATUSES_def)

definition active_leases :: "string \<Rightarrow> db \<Rightarrow> TaskLease list" where
  "active_leases i d = filter (\<lambda>l. l_taskId l = i \<and> active_lease l) (taskLeases d)"

definition exclusive :: "db \<Rightarrow> bool" where
  "exclusive d \<longleftrightarrow> (\<forall>i. length (active_leases i d) \<le> 1)"

lemma findActive_None: "lease_findActiveByTaskId i d = None \<longleftrightarrow> active_leases i d = []"
  by (auto simp: lease_findActiveByTaskId_def active_leases_def active_lease_def find_None_iff
      filter_empty_conv)

lemma exclusive_leases_only:
  "taskLeases d' = taskLeases d \<Longrightarrow> exclusive d' = exclusive d"
  by (simp add: exclusive_def active_leases_def)

text \<open>Changing rows in place cannot add an active lease unless it revives one.\<close>

lemma exclusive_update:
  assumes "exclusive d"
    and "\<And>l. l \<in> set (taskLeases d) \<Longrightarrow> p l \<Longrightarrow> l_taskId (f l) = l_taskId l \<and> (active_lease (f l) \<longrightarrow> active_lease l)"
  shows "exclusive (d\<lparr>taskLeases := update_where p f (taskLeases d)\<rparr>)"
proof -
  have "length (filter (\<lambda>l. l_taskId l = i \<and> active_lease l) (update_where p f ls))
      \<le> length (filter (\<lambda>l. l_taskId l = i \<and> active_lease l) ls)"
    if "\<And>l. l \<in> set ls \<Longrightarrow> p l \<Longrightarrow> l_taskId (f l) = l_taskId l \<and> (active_lease (f l) \<longrightarrow> active_lease l)" for i ls
    using that by (induction ls) (auto simp: le_Suc_eq)
  from this[of "taskLeases d"] assms show ?thesis
    unfolding exclusive_def active_leases_def by (auto intro: order_trans)
qed

lemma exclusive_checkedUpdate:
  assumes keeps: "\<And>r. l_leaseId (f r) = l_leaseId r \<and> l_taskId (f r) = l_taskId r"
    and revive: "\<And>r. l_status r = e \<Longrightarrow> active_lease (f r) \<Longrightarrow> active_lease r"
  shows "preserves (\<lambda>d. wf_db d \<and> exclusive d) (lease_checkedUpdate i e f)"
  unfolding preserves_def
proof (intro allI impI)
  fix d
  assume inv: "wf_db d \<and> exclusive d"
  show "wf_db (snd (lease_checkedUpdate i e f d)) \<and> exclusive (snd (lease_checkedUpdate i e f d))"
  proof (cases "\<exists>l. lease_findById i d = Some l \<and> l_status l = e")
    case False
    then show ?thesis using lease_checkedUpdate_stale[of i d e f] inv by simp
  next
    case True
    then obtain l where l: "lease_findById i d = Some l" "l_status l = e" by blast
    obtain d' where d': "lease_checkedUpdate i (l_status l) f d = (Inr (f l), d')"
      "d' = d\<lparr>taskLeases := update_where (\<lambda>r. l_leaseId r = i) f (taskLeases d)\<rparr>" "wf_db d'"
      by (rule lease_checkedUpdate_current[OF _ l(1), of f]) (use inv keeps in auto)
    have same: "r = l" if "r \<in> set (taskLeases d)" "l_leaseId r = i" for r
      using find_key_Some[of l_leaseId "taskLeases d" r] that l inv
      by (simp add: wf_db_def lease_findById_def)
    have "exclusive d'"
      unfolding d'(2) using inv keeps revive l same by (intro exclusive_update) auto
    then show ?thesis using d' l by simp
  qed
qed

subsection \<open>What an acquisition does\<close>

definition new_lease :: "leaseEnv \<Rightarrow> AcquireLeaseParams \<Rightarrow> TaskLease" where
  "new_lease env p = \<lparr>l_leaseId = le_leaseId env, l_taskId = al_taskId p,
     l_workerId = al_workerId p, l_poolId = al_poolId p, l_leasedAt = le_now env div 1000,
     l_expiresAt = (le_now env + al_ttlSeconds p * 1000) div 1000, l_heartbeatAt = None,
     l_status = WorkerLeaseStatus.LEASED, l_reclaimReason = None, l_partialResultArtifactRefs = None\<rparr>"

definition assigned_task :: "leaseEnv \<Rightarrow> Task \<Rightarrow> Task" where
  "assigned_task env t = t\<lparr>t_status := TaskStatus.ASSIGNED, t_currentLeaseId := Some (le_leaseId env),
     t_version := t_version t + 1, t_updatedAt := le_now env div 1000\<rparr>"

text \<open>When a lease can be taken: an eligible task without an active lease.\<close>

definition leasable :: "AcquireLeaseParams \<Rightarrow> Task \<Rightarrow> db \<Rightarrow> bool" where
  "leasable p t d \<longleftrightarrow> task_findById (al_taskId p) d = Some t
     \<and> (t_status t \<in> {TaskStatus.READY, TaskStatus.CHANGES_REQUESTED}
        \<or> t_status t = TaskStatus.ESCALATED \<and> actor_type (al_actor p) = ''operator'')
     \<and> active_leases (al_taskId p) d = []"

lemma acquire_context_valid:
  "t_status t \<in> set LEASE_ELIGIBLE_STATUSES \<Longrightarrow>
   valid (validateTransition (t_status t) TaskStatus.ASSIGNED
     (emptyContext\<lparr>TransitionContext.leaseAcquired := Some True, isOperator := Some b\<rparr>)) \<longleftrightarrow>
   t_status t \<noteq> TaskStatus.ESCALATED \<or> b"
  by (auto simp: accepted_iff LEASE_ELIGIBLE_STATUSES_def emptyContext_def)

lemma acquireLease_not_leasable:
  assumes "\<nexists>t. leasable p t d"
  shows "\<exists>e. acquireLease_tx env p d = (Inl e, d)"
proof (cases "task_findById (al_taskId p) d")
  case None
  then show ?thesis by (simp add: acquireLease_tx_def Let_def)
next
  case (Some t)
  show ?thesis
  proof (cases "t_status t \<in> set LEASE_ELIGIBLE_STATUSES \<and> active_leases (al_taskId p) d = []")
    case True
    with assms Some have "t_status t = TaskStatus.ESCALATED \<and> actor_type (al_actor p) \<noteq> ''operator''"
      by (auto simp: leasable_def LEASE_ELIGIBLE_STATUSES_def)
    with Some True findActive_None[of "al_taskId p" d] acquire_context_valid[of t False] show ?thesis
      by (simp add: acquireLease_tx_def Let_def)
  next
    case False
    then show ?thesis using Some findActive_None[of "al_taskId p" d]
      by (cases "lease_findActiveByTaskId (al_taskId p) d") (auto simp: acquireLease_tx_def Let_def)
  qed
qed

lemma acquireLease_leasable:
  assumes wf: "wf_db d" and ok: "leasable p t d"
  obtains e d' where "acquireLease_tx env p d = (Inl e, d')"
      "le_leaseId env \<in> set (map l_leaseId (taskLeases d))
       \<or> al_poolId p \<notin> set (map p_workerPoolId (workerPools d))
       \<or> le_uuid env \<in> set (map ae_id (auditEvents d))"
  | a d' where "acquireLease_tx env p d = (Inr (new_lease env p, assigned_task env t, a, t_status t), d')"
      "le_leaseId env \<notin> set (map l_leaseId (taskLeases d))"
      "al_poolId p \<in> set (map p_workerPoolId (workerPools d))"
      "le_uuid env \<notin> set (map ae_id (auditEvents d))"
      "taskLeases d' = taskLeases d @ [new_lease env p]" "auditEvents d' = auditEvents d @ [a]"
      "task_findById (al_taskId p) d' = Some (assigned_task env t)"
      "\<forall>j. j \<noteq> al_taskId p \<longrightarrow> task_findById j d' = task_findById j d" "wf_db d'"
      "ae_entityId a = al_taskId p" "ae_eventType a = ''lease.acquired''"
proof -
  let ?i = "al_taskId p" and ?l = "new_lease env p"
  from ok have t: "task_findById ?i d = Some t" and act: "active_leases ?i d = []"
    and st: "t_status t \<in> set LEASE_ELIGIBLE_STATUSES"
    and op: "t_status t \<noteq> TaskStatus.ESCALATED \<or> actor_type (al_actor p) = ''operator''"
    by (auto simp: leasable_def LEASE_ELIGIBLE_STATUSES_def)
  have id: "?i \<in> set (map t_taskId (tasks d))"
    using t by (auto simp: task_findById_def image_iff dest!: find_Some_iff_mem intro: bexI[of _ t])
  let ?ev = "\<lambda>u. \<lparr>na_entityType = ''task'', na_entityId = ?i, na_eventType = ''lease.acquired'',
     na_actorType = actor_type (al_actor p), na_actorId = actor_id (al_actor p),
     na_oldState = Some (JObj [(''status'', JStr (TaskStatus_value (t_status t))),
       (''version'', JNum (t_version t)), (''currentLeaseId'', json_of_string_opt (t_currentLeaseId t))]),
     na_newState = Some (JObj [(''status'', JStr (TaskStatus_value (t_status u))),
       (''version'', JNum (t_version u)), (''currentLeaseId'', JStr (le_leaseId env))]),
     na_metadata = al_metadata p\<rparr>"
  have body: "acquireLease_tx env p d =
      bindT (lease_create ?l) (\<lambda>lease.
      bindT (updateStatusAndLeaseId (le_now env) ?i (t_version t) TaskStatus.ASSIGNED (le_leaseId env)) (\<lambda>u.
      bindT (auditEvent_create (le_uuid env) (le_now env) (?ev u)) (\<lambda>a.
      returnT (lease, u, a, t_status t)))) d"
    using t st act op findActive_None[of ?i d]
      acquire_context_valid[OF st, of "actor_type (al_actor p) = ''operator''"]
    by (simp add: acquireLease_tx_def Let_def new_lease_def)
  show ?thesis
  proof (cases "le_leaseId env \<in> set (map l_leaseId (taskLeases d))
      \<or> al_poolId p \<notin> set (map p_workerPoolId (workerPools d))")
    case True
    then have "acquireLease_tx env p d = (Inl (ConstraintError ''task_lease''), d)"
      unfolding body by (auto simp: bindT_apply lease_create_def new_lease_def)
    with True show ?thesis using that(1) by blast
  next
    case False
    let ?d1 = "d\<lparr>taskLeases := taskLeases d @ [?l]\<rparr>"
    have c: "lease_create ?l d = (Inr ?l, ?d1)"
      using False id by (simp add: lease_create_def new_lease_def)
    have wf1: "wf_db ?d1" using wf False by (simp add: wf_db_def new_lease_def)
    have t1: "task_findById ?i ?d1 = Some t" using t by (simp add: task_findById_def)
    obtain d2 where u: "updateStatusAndLeaseId (le_now env) ?i (t_version t) TaskStatus.ASSIGNED
        (le_leaseId env) ?d1 = (Inr (assigned_task env t), d2)"
      and d2: "d2 = ?d1\<lparr>tasks := tasks d2\<rparr>" "task_findById ?i d2 = Some (assigned_task env t)"
        "\<forall>j. j \<noteq> ?i \<longrightarrow> task_findById j d2 = task_findById j ?d1" "wf_db d2"
      unfolding updateStatusAndLeaseId_def assigned_task_def
      by (rule task_update_current[OF wf1 t1,
          of "\<lambda>r. r\<lparr>t_status := TaskStatus.ASSIGNED, t_currentLeaseId := Some (le_leaseId env)\<rparr>" "le_now env"])
         auto
    have frame: "taskLeases d2 = taskLeases d @ [?l]" "auditEvents d2 = auditEvents d"
      by (subst d2(1), simp)+
    show ?thesis
    proof (rule auditEvent_create_cases[of "le_uuid env" d2 "le_now env" "?ev (assigned_task env t)"])
      assume "le_uuid env \<in> set (map ae_id (auditEvents d2))"
        "auditEvent_create (le_uuid env) (le_now env) (?ev (assigned_task env t)) d2
          = (Inl (ConstraintError ''audit_event''), d2)"
      then show ?thesis using that(1) frame(2) c u unfolding body by (simp add: bindT_apply)
    next
      fix a
      assume a: "le_uuid env \<notin> set (map ae_id (auditEvents d2))"
        "auditEvent_create (le_uuid env) (le_now env) (?ev (assigned_task env t)) d2
          = (Inr a, d2\<lparr>auditEvents := auditEvents d2 @ [a]\<rparr>)"
        "ae_id a = le_uuid env" "ae_entityId a = na_entityId (?ev (assigned_task env t))"
        "ae_eventType a = na_eventType (?ev (assigned_task env t))"
      let ?d3 = "d2\<lparr>auditEvents := auditEvents d2 @ [a]\<rparr>"
      have "acquireLease_tx env p d = (Inr (?l, assigned_task env t, a, t_status t), ?d3)"
        unfolding body using c u a(2) by (simp add: bindT_apply)
      moreover have "wf_db ?d3" using wf_db_audit[OF d2(4)] a(1,3) by simp
      ultimately show ?thesis
        using that(2)[of a ?d3] False a frame d2 by (simp add: task_findById_def)
    qed
  qed
qed

lemma acquire_lease_spec:
  assumes "wf_db (database w)"
  shows "case acquireLease env p w of
      (Inl e, w') \<Rightarrow> w' = w
        \<and> \<not> ((\<exists>t. leasable p t (database w))
             \<and> le_leaseId env \<notin> set (map l_leaseId (taskLeases (database w)))
             \<and> al_poolId p \<in> set (map p_workerPoolId (workerPools (database w)))
             \<and> le_uuid env \<notin> set (map ae_id (auditEvents (database w))))
    | (Inr r, w') \<Rightarrow> \<exists>t. leasable p t (database w)
        \<and> la_lease r = new_lease env p \<and> la_task r = assigned_task env t
        \<and> taskLeases (database w') = taskLeases (database w) @ [la_lease r]
        \<and> active_leases (al_taskId p) (database w') = [la_lease r]
        \<and> task_findById (al_taskId p) (database w') = Some (la_task r)
        \<and> (\<forall>j. j \<noteq> al_taskId p \<longrightarrow> task_findById j (database w') = task_findById j (database w))
        \<and> auditEvents (database w') = auditEvents (database w) @ [la_auditEvent r]
        \<and> emitted w' = emitted w @
            [TaskTransitionedEvent (al_taskId p) (t_status t) TaskStatus.ASSIGNED (t_version t + 1)
               (al_actor p) (le_taskEventAt env),
             TaskLeaseTransitionedEvent (le_leaseId env) WorkerLeaseStatus.IDLE WorkerLeaseStatus.LEASED
               (al_actor p) (le_leaseEventAt env)]
        \<and> wf_db (database w')"
proof (cases "\<exists>t. leasable p t (database w)")
  case False
  then obtain e where "acquireLease_tx env p (database w) = (Inl e, database w)"
    using acquireLease_not_leasable by blast
  with False show ?thesis by (simp add: acquireLease_def commit_def writeTransaction_def)
next
  case True
  then obtain t where t: "leasable p t (database w)" by blast
  show ?thesis
  proof (rule acquireLease_leasable[OF assms t, of env])
    fix e d'
    assume "acquireLease_tx env p (database w) = (Inl e, d')"
      "le_leaseId env \<in> set (map l_leaseId (taskLeases (database w)))
       \<or> al_poolId p \<notin> set (map p_workerPoolId (workerPools (database w)))
       \<or> le_uuid env \<in> set (map ae_id (auditEvents (database w)))"
    then show ?thesis by (auto simp: acquireLease_def commit_def writeTransaction_def)
  next
    fix a d'
    assume s: "acquireLease_tx env p (database w)
        = (Inr (new_lease env p, assigned_task env t, a, t_status t), d')"
      "taskLeases d' = taskLeases (database w) @ [new_lease env p]"
      "auditEvents d' = auditEvents (database w) @ [a]"
      "task_findById (al_taskId p) d' = Some (assigned_task env t)"
      "\<forall>j. j \<noteq> al_taskId p \<longrightarrow> task_findById j d' = task_findById j (database w)" "wf_db d'"
    have "active_leases (al_taskId p) d' = [new_lease env p]"
      using t s(2) by (simp add: leasable_def active_leases_def active_lease_iff new_lease_def)
    with s t show ?thesis
      by (auto simp: acquireLease_def commit_def writeTransaction_def assigned_task_def new_lease_def)
  qed
qed

text \<open>
  (C6) Lease acquisition.  A lease is granted exactly when the task exists and is \<open>READY\<close>,
  \<open>CHANGES_REQUESTED\<close> or (for an operator) \<open>ESCALATED\<close>, it has no active lease, the pool exists and the
  generated keys are new.  Then, in one commit, the new lease is \<open>LEASED\<close> with the requested expiry
  and is the task's only active lease, the task is \<open>ASSIGNED\<close> to it with the next version, one audit
  event is added and the two events are emitted; otherwise nothing changes.
\<close>

theorem acquire_lease_behaviour:
  assumes "wf_db (database w)"
  shows "case acquireLease env p w of
      (Inl e, w') \<Rightarrow> w' = w
        \<and> \<not> ((\<exists>t. leasable p t (database w))
             \<and> le_leaseId env \<notin> set (map l_leaseId (taskLeases (database w)))
             \<and> al_poolId p \<in> set (map p_workerPoolId (workerPools (database w)))
             \<and> le_uuid env \<notin> set (map ae_id (auditEvents (database w))))
    | (Inr r, w') \<Rightarrow> \<exists>t. leasable p t (database w)
        \<and> la_lease r = new_lease env p \<and> la_task r = assigned_task env t
        \<and> taskLeases (database w') = taskLeases (database w) @ [la_lease r]
        \<and> active_leases (al_taskId p) (database w') = [la_lease r]
        \<and> task_findById (al_taskId p) (database w') = Some (la_task r)
        \<and> (\<forall>j. j \<noteq> al_taskId p \<longrightarrow> task_findById j (database w') = task_findById j (database w))
        \<and> auditEvents (database w') = auditEvents (database w) @ [la_auditEvent r]
        \<and> emitted w' = emitted w @
            [TaskTransitionedEvent (al_taskId p) (t_status t) TaskStatus.ASSIGNED (t_version t + 1)
               (al_actor p) (le_taskEventAt env),
             TaskLeaseTransitionedEvent (le_leaseId env) WorkerLeaseStatus.IDLE WorkerLeaseStatus.LEASED
               (al_actor p) (le_leaseEventAt env)]
        \<and> wf_db (database w')"
  by (rule acquire_lease_spec[OF assms])

definition lease_db :: db where
  "lease_db = example_db\<lparr>workerPools := [\<lparr>p_workerPoolId = ''P'', p_poolType = WorkerPoolType.DEVELOPER,
     p_maxConcurrency = 2, p_defaultTimeoutSec = Some 60, p_capabilities = None, p_enabled = 1\<rparr>]\<rparr>"

definition lease_params :: AcquireLeaseParams where
  "lease_params = \<lparr>al_taskId = ''T1'', al_workerId = ''W'', al_poolId = ''P'', al_ttlSeconds = 60,
     al_actor = example_actor, al_metadata = None\<rparr>"

definition lease_env :: leaseEnv where
  "lease_env = \<lparr>le_now = 5500, le_leaseId = ''L1'', le_uuid = ''u1'', le_taskEventAt = 5501,
     le_leaseEventAt = 5502\<rparr>"

definition lease_world :: world where
  "lease_world = \<lparr>database = lease_db, emitted = []\<rparr>"

lemma lease_world_wf: "wf_db (database lease_world)"
  by (simp add: lease_world_def lease_db_def example_db_def wf_db_def)

theorem acquire_lease_behaviour_witness:
  "\<exists>r w'. acquireLease lease_env lease_params lease_world = (Inr r, w')
     \<and> active_leases ''T1'' (database w') = [la_lease r] \<and> l_expiresAt (la_lease r) = 65"
proof -
  have "case acquireLease lease_env lease_params lease_world of (Inl _, _) \<Rightarrow> False | (Inr _, _) \<Rightarrow> True"
    by code_simp
  then obtain r w' where "acquireLease lease_env lease_params lease_world = (Inr r, w')"
    by (auto split: sum.splits prod.splits)
  then show ?thesis
    using acquire_lease_behaviour[OF lease_world_wf, of lease_params lease_env]
    by (auto simp: new_lease_def lease_env_def lease_params_def)
qed

lemma acquireLease_exclusive:
  assumes "wf_db (database w)" and "exclusive (database w)"
  shows "wf_db (database (snd (acquireLease env p w))) \<and> exclusive (database (snd (acquireLease env p w)))"
proof (cases "acquireLease env p w")
  case (Pair r w')
  show ?thesis
  proof (cases r)
    case (Inl e)
    then show ?thesis using acquire_lease_spec[OF assms(1), of p env] Pair assms by simp
  next
    case (Inr x)
    then have s: "taskLeases (database w') = taskLeases (database w) @ [new_lease env p]"
      "active_leases (al_taskId p) (database w') = [new_lease env p]" "wf_db (database w')"
      using acquire_lease_spec[OF assms(1), of p env] Pair by auto
    have "active_leases j (database w') = active_leases j (database w)" if "j \<noteq> al_taskId p" for j
      using that s(1) by (simp add: active_leases_def new_lease_def)
    then have "length (active_leases j (database w')) \<le> 1" for j
      using assms(2) s(2) by (cases "j = al_taskId p") (auto simp: exclusive_def)
    then show ?thesis using Pair s(3) by (simp add: exclusive_def)
  qed
qed

end
