(* ===== verification/Heartbeat.thy ===== *)
theory Heartbeat
  imports Lease
begin

text \<open>
  \<open>packages/application/src/services/heartbeat.service.ts\<close> over \<open>createHeartbeatUnitOfWork\<close> of
  \<open>apps/control-plane/src/automation/application-adapters.ts\<close>: receiving heartbeats and finding
  stale leases.
\<close>

subsection \<open>Receiving a heartbeat\<close>

definition HEARTBEAT_RECEIVABLE_STATES :: "WorkerLeaseStatus list" where
  "HEARTBEAT_RECEIVABLE_STATES =
    [WorkerLeaseStatus.STARTING, WorkerLeaseStatus.RUNNING, WorkerLeaseStatus.HEARTBEATING]"

record ReceiveHeartbeatParams =
  hb_leaseId :: string
  hb_completing :: bool
  hb_gracePeriodSeconds :: "int option"
  hb_workerMetadata :: "json option"
  hb_actor :: ActorInfo

record ReceiveHeartbeatResult =
  hbr_lease :: TaskLease
  hbr_previousStatus :: WorkerLeaseStatus
  hbr_auditEvent :: AuditEventRecord

definition computeTargetStatus :: "WorkerLeaseStatus \<Rightarrow> bool \<Rightarrow> WorkerLeaseStatus" where
  "computeTargetStatus currentStatus completing =
    (if completing then WorkerLeaseStatus.COMPLETING
     else case currentStatus of
       WorkerLeaseStatus.STARTING \<Rightarrow> WorkerLeaseStatus.RUNNING
     | WorkerLeaseStatus.RUNNING \<Rightarrow> WorkerLeaseStatus.HEARTBEATING
     | WorkerLeaseStatus.HEARTBEATING \<Rightarrow> WorkerLeaseStatus.HEARTBEATING
     | s \<Rightarrow> s)"

definition buildTransitionContext ::
  "WorkerLeaseStatus \<Rightarrow> WorkerLeaseStatus \<Rightarrow> WorkerLeaseTransitionContext" where
  "buildTransitionContext currentStatus targetStatus =
    (if targetStatus = WorkerLeaseStatus.COMPLETING
     then emptyWorkerLeaseTransitionContext\<lparr>completionSignalReceived := Some True\<rparr>
     else if currentStatus = WorkerLeaseStatus.STARTING \<and> targetStatus = WorkerLeaseStatus.RUNNING
     then emptyWorkerLeaseTransitionContext\<lparr>firstHeartbeatReceived := Some True\<rparr>
     else emptyWorkerLeaseTransitionContext\<lparr>heartbeatReceived := Some True\<rparr>)"

definition updateHeartbeat ::
  "string \<Rightarrow> WorkerLeaseStatus \<Rightarrow> WorkerLeaseStatus \<Rightarrow> int \<Rightarrow> int option \<Rightarrow> TaskLease tx" where
  "updateHeartbeat leaseId expectedStatus newStatus heartbeatAt newExpiresAt =
    lease_checkedUpdate leaseId expectedStatus
      (\<lambda>r. r\<lparr>l_status := newStatus, l_heartbeatAt := Some (heartbeatAt div 1000),
             l_expiresAt := (case newExpiresAt of None \<Rightarrow> l_expiresAt r | Some t \<Rightarrow> t div 1000)\<rparr>)"

text \<open>A completing heartbeat may extend the lease to the end of the grace period.\<close>

definition heartbeatExpiry :: "int \<Rightarrow> ReceiveHeartbeatParams \<Rightarrow> TaskLease \<Rightarrow> int option" where
  "heartbeatExpiry now params lease =
    (case hb_gracePeriodSeconds params of
       None \<Rightarrow> None
     | Some grace \<Rightarrow>
         if hb_completing params \<and> grace > 0 then
           let graceDeadline = now + grace * 1000 in
           Some (if graceDeadline > l_expiresAt lease * 1000 then graceDeadline
                 else l_expiresAt lease * 1000)
         else None)"

definition heartbeatAudit :: "ReceiveHeartbeatParams \<Rightarrow> TaskLease \<Rightarrow> TaskLease \<Rightarrow> NewAuditEvent" where
  "heartbeatAudit params lease updatedLease =
    \<lparr>na_entityType = ''task-lease'', na_entityId = hb_leaseId params,
     na_eventType = (if hb_completing params then ''lease.completing'' else ''lease.heartbeat''),
     na_actorType = actor_type (hb_actor params), na_actorId = actor_id (hb_actor params),
     na_oldState = Some (JObj [(''status'', JStr (WorkerLeaseStatus_value (l_status lease))),
        (''heartbeatAt'', json_of_date_opt (map_option (\<lambda>t. t * 1000) (l_heartbeatAt lease))),
        (''expiresAt'', JDate (l_expiresAt lease * 1000))]),
     na_newState = Some (JObj [(''status'', JStr (WorkerLeaseStatus_value (l_status updatedLease))),
        (''heartbeatAt'', json_of_date_opt (map_option (\<lambda>t. t * 1000) (l_heartbeatAt updatedLease))),
        (''expiresAt'', JDate (l_expiresAt updatedLease * 1000))]),
     na_metadata = hb_workerMetadata params\<rparr>"

definition receiveHeartbeat_tx ::
  "txEnv \<Rightarrow> ReceiveHeartbeatParams \<Rightarrow> (TaskLease \<times> WorkerLeaseStatus \<times> AuditEventRecord) tx" where
  "receiveHeartbeat_tx env params =
    (let leaseId = hb_leaseId params in
     bindT (getT (lease_findById leaseId)) (\<lambda>found. case found of
       None \<Rightarrow> throwT (EntityNotFoundError ''TaskLease'' leaseId)
     | Some lease \<Rightarrow>
         if l_status lease \<notin> set HEARTBEAT_RECEIVABLE_STATES then
           throwT (LeaseNotActiveError leaseId (WorkerLeaseStatus_value (l_status lease)))
         else
           let targetStatus = computeTargetStatus (l_status lease) (hb_completing params);
               transitionCtx = buildTransitionContext (l_status lease) targetStatus;
               validation = validateWorkerLeaseTransition (l_status lease) targetStatus transitionCtx in
           if \<not> valid validation then
             throwT (InvalidTransitionError ''TaskLease'' leaseId
               (WorkerLeaseStatus_value (l_status lease)) (WorkerLeaseStatus_value targetStatus)
               (reason validation))
           else
             let now = env_now env; newExpiresAt = heartbeatExpiry now params lease in
             bindT (updateHeartbeat leaseId (l_status lease) targetStatus now newExpiresAt) (\<lambda>updatedLease.
             bindT (auditEvent_create (env_uuid env) now (heartbeatAudit params lease updatedLease))
               (\<lambda>auditEvent.
             returnT (updatedLease, l_status lease, auditEvent)))))"

definition receiveHeartbeat ::
  "txEnv \<Rightarrow> ReceiveHeartbeatParams \<Rightarrow> world \<Rightarrow> (app_error + ReceiveHeartbeatResult) \<times> world" where
  "receiveHeartbeat env params w =
    apfst (map_sum id (\<lambda>(lease, previousStatus, audit).
        \<lparr>hbr_lease = lease, hbr_previousStatus = previousStatus, hbr_auditEvent = audit\<rparr>))
      (commit (receiveHeartbeat_tx env params)
        (\<lambda>(lease, previousStatus, audit).
          [TaskLeaseTransitionedEvent (hb_leaseId params) previousStatus (l_status lease)
             (hb_actor params) (env_emittedAt env)])
        w)"

subsection \<open>Detecting stale leases\<close>

record StalenessPolicy =
  heartbeatIntervalSeconds :: int
  missedHeartbeatThreshold :: int
  gracePeriodSeconds :: int

datatype StalenessReason = missed_heartbeats | ttl_expired

record StaleLeaseInfo =
  sl_lease :: TaskLease
  sl_reason :: StalenessReason

text \<open>
  The union of the two queries.  \<open>UNION\<close> removes duplicate rows and leaves the order open; rows
  differ in their primary key, so the model keeps each matching row once, in scan order.
\<close>

definition findStaleLeases :: "int \<Rightarrow> int \<Rightarrow> db \<Rightarrow> TaskLease list" where
  "findStaleLeases heartbeatDeadline ttlDeadline d =
    (let heartbeatDeadlineSec = heartbeatDeadline div 1000; ttlDeadlineSec = ttlDeadline div 1000 in
     filter (\<lambda>r.
         l_status r \<in> {WorkerLeaseStatus.STARTING, WorkerLeaseStatus.RUNNING, WorkerLeaseStatus.HEARTBEATING}
           \<and> (case l_heartbeatAt r of Some t \<Rightarrow> t | None \<Rightarrow> l_leasedAt r) < heartbeatDeadlineSec
         \<or> l_status r \<in> {WorkerLeaseStatus.LEASED, WorkerLeaseStatus.STARTING, WorkerLeaseStatus.RUNNING,
                          WorkerLeaseStatus.HEARTBEATING}
           \<and> l_expiresAt r < ttlDeadlineSec)
       (taskLeases d))"

definition classifyStaleRecord :: "TaskLease \<Rightarrow> int \<Rightarrow> StaleLeaseInfo" where
  "classifyStaleRecord record now =
    \<lparr>sl_lease = record,
     sl_reason = (if l_expiresAt record * 1000 < now then ttl_expired else missed_heartbeats)\<rparr>"

definition detectStaleLeases :: "int \<Rightarrow> StalenessPolicy \<Rightarrow> db \<Rightarrow> StaleLeaseInfo list" where
  "detectStaleLeases now policy d =
    (let stalenessWindowMs =
           (heartbeatIntervalSeconds policy * missedHeartbeatThreshold policy
            + gracePeriodSeconds policy) * 1000;
         heartbeatDeadline = now - stalenessWindowMs;
         ttlDeadline = now;
         staleRecords = findStaleLeases heartbeatDeadline ttlDeadline d
     in map (\<lambda>record. classifyStaleRecord record now) staleRecords)"

subsection \<open>Properties\<close>

lemma heartbeat_transition_valid:
  "s \<in> set HEARTBEAT_RECEIVABLE_STATES \<Longrightarrow>
    valid (validateWorkerLeaseTransition s (computeTargetStatus s c)
      (buildTransitionContext s (computeTargetStatus s c)))"
  by (auto simp: HEARTBEAT_RECEIVABLE_STATES_def computeTargetStatus_def buildTransitionContext_def
      lease_accepted_iff emptyWorkerLeaseTransitionContext_def)

lemma computeTargetStatus_active:
  "s \<in> set HEARTBEAT_RECEIVABLE_STATES \<Longrightarrow>
    computeTargetStatus s c \<in> {WorkerLeaseStatus.RUNNING, WorkerLeaseStatus.HEARTBEATING, WorkerLeaseStatus.COMPLETING}"
  by (auto simp: HEARTBEAT_RECEIVABLE_STATES_def computeTargetStatus_def)

lemma receiveHeartbeat_tx_cases:
  assumes wf: "wf_db d"
  obtains e d' where "receiveHeartbeat_tx env p d = (Inl e, d')"
      "(\<nexists>l. lease_findById (hb_leaseId p) d = Some l \<and> l_status l \<in> set HEARTBEAT_RECEIVABLE_STATES)
       \<or> env_uuid env \<in> set (map ae_id (auditEvents d))"
  | l l' a d' where "lease_findById (hb_leaseId p) d = Some l" "l_status l \<in> set HEARTBEAT_RECEIVABLE_STATES"
      "env_uuid env \<notin> set (map ae_id (auditEvents d))"
      "receiveHeartbeat_tx env p d = (Inr (l', l_status l, a), d')"
      "lease_findById (hb_leaseId p) d' = Some l'"
      "\<forall>j. j \<noteq> hb_leaseId p \<longrightarrow> lease_findById j d' = lease_findById j d"
      "l_status l' = computeTargetStatus (l_status l) (hb_completing p)"
      "l_heartbeatAt l' = Some (env_now env div 1000)" "l_expiresAt l \<le> l_expiresAt l'"
      "hb_completing p \<and> (\<exists>g > 0. hb_gracePeriodSeconds p = Some g
           \<and> l_expiresAt l' = max (l_expiresAt l) ((env_now env + g * 1000) div 1000))
       \<or> l_expiresAt l' = l_expiresAt l"
      "l_taskId l' = l_taskId l" "l_workerId l' = l_workerId l" "l_poolId l' = l_poolId l"
      "auditEvents d' = auditEvents d @ [a]" "tasks d' = tasks d" "wf_db d'"
proof (cases "\<exists>l. lease_findById (hb_leaseId p) d = Some l \<and> l_status l \<in> set HEARTBEAT_RECEIVABLE_STATES")
  case False
  then have "\<exists>e. receiveHeartbeat_tx env p d = (Inl e, d)"
    by (cases "lease_findById (hb_leaseId p) d") (auto simp: receiveHeartbeat_tx_def Let_def)
  with False show ?thesis using that(1) by blast
next
  case True
  let ?i = "hb_leaseId p" and ?now = "env_now env"
  from True obtain l where l: "lease_findById ?i d = Some l" "l_status l \<in> set HEARTBEAT_RECEIVABLE_STATES"
    by blast
  let ?s = "computeTargetStatus (l_status l) (hb_completing p)"
  let ?ex = "heartbeatExpiry ?now p l"
  define f :: "TaskLease \<Rightarrow> TaskLease" where "f = (\<lambda>r. r\<lparr>l_status := ?s, l_heartbeatAt := Some (?now div 1000),
      l_expiresAt := (case ?ex of None \<Rightarrow> l_expiresAt r | Some t \<Rightarrow> t div 1000)\<rparr>)"
  have keep: "l_leaseId (f r) = l_leaseId r" for r by (simp add: f_def)
  obtain d1 where d1: "lease_checkedUpdate ?i (l_status l) f d = (Inr (f l), d1)"
    "d1 = d\<lparr>taskLeases := update_where (\<lambda>r. l_leaseId r = ?i) f (taskLeases d)\<rparr>"
    "lease_findById ?i d1 = Some (f l)" "\<forall>j. j \<noteq> ?i \<longrightarrow> lease_findById j d1 = lease_findById j d" "wf_db d1"
    by (rule lease_checkedUpdate_current[OF wf l(1) keep])
  have u: "updateHeartbeat ?i (l_status l) ?s ?now ?ex d = (Inr (f l), d1)"
    using d1(1) by (simp add: updateHeartbeat_def f_def)
  have exp: "hb_completing p \<and> (\<exists>g > 0. hb_gracePeriodSeconds p = Some g
           \<and> l_expiresAt (f l) = max (l_expiresAt l) ((?now + g * 1000) div 1000))
       \<or> l_expiresAt (f l) = l_expiresAt l"
    by (cases "hb_gracePeriodSeconds p") (auto simp: f_def heartbeatExpiry_def Let_def max_def)
  then have mono: "l_expiresAt l \<le> l_expiresAt (f l)" by auto
  let ?ev = "heartbeatAudit p l"
  have body: "receiveHeartbeat_tx env p d =
      bindT (updateHeartbeat ?i (l_status l) ?s ?now ?ex) (\<lambda>u.
      bindT (auditEvent_create (env_uuid env) ?now (?ev u)) (\<lambda>a. returnT (u, l_status l, a))) d"
    using l heartbeat_transition_valid[OF l(2), of "hb_completing p"]
    by (simp add: receiveHeartbeat_tx_def Let_def)
  show ?thesis
  proof (rule auditEvent_create_cases[of "env_uuid env" d1 ?now "?ev (f l)"])
    assume "env_uuid env \<in> set (map ae_id (auditEvents d1))"
      "auditEvent_create (env_uuid env) ?now (?ev (f l)) d1 = (Inl (ConstraintError ''audit_event''), d1)"
    then show ?thesis using that(1) body u d1(2) by (simp add: bindT_apply)
  next
    fix a
    assume a: "env_uuid env \<notin> set (map ae_id (auditEvents d1))" "ae_id a = env_uuid env"
      "auditEvent_create (env_uuid env) ?now (?ev (f l)) d1 = (Inr a, d1\<lparr>auditEvents := auditEvents d1 @ [a]\<rparr>)"
    let ?d' = "d1\<lparr>auditEvents := auditEvents d1 @ [a]\<rparr>"
    have "receiveHeartbeat_tx env p d = (Inr (f l, l_status l, a), ?d')"
      using body u a(3) by (simp add: bindT_apply)
    moreover have "wf_db ?d'" using wf_db_audit[OF d1(5)] a by simp
    moreover have "lease_findById j ?d' = lease_findById j d1" for j by (simp add: lease_findById_def)
    ultimately show ?thesis
      using that(2)[OF l, of "f l" a ?d'] a(1) d1 exp mono by (simp add: f_def)
  qed
qed

text \<open>
  A heartbeat is accepted exactly from a lease that is starting, running or heartbeating (and a
  new audit key): it advances the lease one step (\<open>STARTING\<close> to \<open>RUNNING\<close> to \<open>HEARTBEATING\<close>, or to
  \<open>COMPLETING\<close> for a terminal heartbeat), records the time, never shortens the lease, moves the expiry
  only when completing, touches no other lease and no task, and leaves one audit event and one domain
  event.  A rejected heartbeat changes nothing.
\<close>

lemma receive_heartbeat_spec:
  assumes "wf_db (database w)"
  shows "case receiveHeartbeat env p w of
      (Inl e, w') \<Rightarrow> w' = w
        \<and> ((\<nexists>l. lease_findById (hb_leaseId p) (database w) = Some l
               \<and> l_status l \<in> set HEARTBEAT_RECEIVABLE_STATES)
           \<or> env_uuid env \<in> set (map ae_id (auditEvents (database w))))
    | (Inr r, w') \<Rightarrow> \<exists>l. lease_findById (hb_leaseId p) (database w) = Some l
        \<and> l_status l \<in> set HEARTBEAT_RECEIVABLE_STATES \<and> hbr_previousStatus r = l_status l
        \<and> lease_findById (hb_leaseId p) (database w') = Some (hbr_lease r)
        \<and> (\<forall>j. j \<noteq> hb_leaseId p \<longrightarrow> lease_findById j (database w') = lease_findById j (database w))
        \<and> l_status (hbr_lease r) = computeTargetStatus (l_status l) (hb_completing p)
        \<and> l_heartbeatAt (hbr_lease r) = Some (env_now env div 1000)
        \<and> l_expiresAt l \<le> l_expiresAt (hbr_lease r)
        \<and> (\<not> hb_completing p \<longrightarrow> l_expiresAt (hbr_lease r) = l_expiresAt l)
        \<and> tasks (database w') = tasks (database w)
        \<and> auditEvents (database w') = auditEvents (database w) @ [hbr_auditEvent r]
        \<and> emitted w' = emitted w @ [TaskLeaseTransitionedEvent (hb_leaseId p) (l_status l)
             (l_status (hbr_lease r)) (hb_actor p) (env_emittedAt env)]
        \<and> wf_db (database w')"
  by (rule receiveHeartbeat_tx_cases[OF assms, of env p])
     (auto simp: receiveHeartbeat_def commit_def writeTransaction_def)

definition running_lease :: TaskLease where
  "running_lease = \<lparr>l_leaseId = ''L1'', l_taskId = ''T1'', l_workerId = ''W'', l_poolId = ''P'',
     l_leasedAt = 0, l_expiresAt = 60, l_heartbeatAt = None, l_status = WorkerLeaseStatus.RUNNING,
     l_reclaimReason = None, l_partialResultArtifactRefs = None\<rparr>"

definition running_world :: world where
  "running_world = \<lparr>database = lease_db\<lparr>tasks := [example_task\<lparr>t_status := TaskStatus.IN_DEVELOPMENT,
       t_currentLeaseId := Some ''L1''\<rparr>], taskLeases := [running_lease]\<rparr>, emitted = []\<rparr>"

definition heartbeat_params :: ReceiveHeartbeatParams where
  "heartbeat_params = \<lparr>hb_leaseId = ''L1'', hb_completing = False, hb_gracePeriodSeconds = None,
     hb_workerMetadata = None, hb_actor = example_actor\<rparr>"

lemma running_world_wf: "wf_db (database running_world)"
  by (simp add: running_world_def lease_db_def example_db_def wf_db_def)

text \<open>The window after which a silent worker is stale, in milliseconds.\<close>

definition staleness_window :: "StalenessPolicy \<Rightarrow> int" where
  "staleness_window pol = (heartbeatIntervalSeconds pol * missedHeartbeatThreshold pol
     + gracePeriodSeconds pol) * 1000"

definition last_seen :: "TaskLease \<Rightarrow> int" where
  "last_seen l = (case l_heartbeatAt l of Some t \<Rightarrow> t | None \<Rightarrow> l_leasedAt l)"

lemma sec_before: "(t :: int) < x div 1000 \<longleftrightarrow> (t + 1) * 1000 \<le> x"
proof -
  obtain q r where x: "x = 1000 * q + r" "0 \<le> r" "r < 1000" "x div 1000 = q"
    by (rule that[of "x div 1000" "x mod 1000"]) simp_all
  show ?thesis unfolding x(4) distrib_right by (rule iffI; (use x(1-3) in linarith))
qed

lemma stale_iff:
  "s \<in> set (detectStaleLeases now pol d) \<longleftrightarrow>
    sl_lease s \<in> set (taskLeases d)
    \<and> sl_reason s = (if l_expiresAt (sl_lease s) * 1000 < now then ttl_expired else missed_heartbeats)
    \<and> (l_status (sl_lease s) \<in> set HEARTBEAT_RECEIVABLE_STATES
         \<and> (last_seen (sl_lease s) + 1) * 1000 \<le> now - staleness_window pol
       \<or> l_status (sl_lease s) \<in> insert WorkerLeaseStatus.LEASED (set HEARTBEAT_RECEIVABLE_STATES)
         \<and> (l_expiresAt (sl_lease s) + 1) * 1000 \<le> now)"
proof -
  have "s \<in> set (detectStaleLeases now pol d) \<longleftrightarrow>
      (\<exists>l \<in> set (findStaleLeases (now - staleness_window pol) now d). s = classifyStaleRecord l now)"
    by (auto simp: detectStaleLeases_def staleness_window_def Let_def)
  also have "\<dots> \<longleftrightarrow> sl_lease s \<in> set (findStaleLeases (now - staleness_window pol) now d)
      \<and> sl_reason s = (if l_expiresAt (sl_lease s) * 1000 < now then ttl_expired else missed_heartbeats)"
    by (cases s) (auto simp: classifyStaleRecord_def)
  finally show ?thesis
    by (auto simp: findStaleLeases_def Let_def HEARTBEAT_RECEIVABLE_STATES_def last_seen_def sec_before)
qed

text \<open>
  Staleness detection is exact.  The report lists a lease exactly when it is being worked on and
  its last heartbeat (or its start) is more than the staleness window ago, or it is leased or being
  worked on and its time to live has passed, both to the full second; it names the expiry as the
  reason exactly when the lease has expired.
\<close>

lemma detect_stale_exact:
  "s \<in> set (detectStaleLeases now pol d) \<longleftrightarrow>
    sl_lease s \<in> set (taskLeases d)
    \<and> sl_reason s = (if l_expiresAt (sl_lease s) * 1000 < now then ttl_expired else missed_heartbeats)
    \<and> (l_status (sl_lease s) \<in> {WorkerLeaseStatus.STARTING, WorkerLeaseStatus.RUNNING, WorkerLeaseStatus.HEARTBEATING}
         \<and> (last_seen (sl_lease s) + 1) * 1000 \<le> now - staleness_window pol
       \<or> l_status (sl_lease s) \<in> {WorkerLeaseStatus.LEASED, WorkerLeaseStatus.STARTING,
           WorkerLeaseStatus.RUNNING, WorkerLeaseStatus.HEARTBEATING}
         \<and> (l_expiresAt (sl_lease s) + 1) * 1000 \<le> now)"
  unfolding stale_iff by (auto simp: HEARTBEAT_RECEIVABLE_STATES_def)

text \<open>
  A worker that reports in time is never reported stale: after an accepted heartbeat the lease is
  not in the report of any check within the staleness window, as long as its time to live has not
  passed.
\<close>

lemma heartbeat_keeps_fresh:
  assumes "wf_db (database w)" and "receiveHeartbeat env p w = (Inr r, w')"
    and "now' \<le> env_now env + staleness_window pol" and "now' div 1000 \<le> l_expiresAt (hbr_lease r)"
  shows "hbr_lease r \<notin> sl_lease ` set (detectStaleLeases now' pol (database w'))"
proof
  assume "hbr_lease r \<in> sl_lease ` set (detectStaleLeases now' pol (database w'))"
  then have "(last_seen (hbr_lease r) + 1) * 1000 \<le> now' - staleness_window pol
      \<or> (l_expiresAt (hbr_lease r) + 1) * 1000 \<le> now'"
    by (auto simp: stale_iff)
  moreover have "last_seen (hbr_lease r) = env_now env div 1000"
    using receive_heartbeat_spec[OF assms(1), of p env] assms(2) by (auto simp: last_seen_def)
  ultimately show False using assms(3,4) by (auto simp: sec_before[symmetric])
qed

end
