(* ===== verification/RetryPolicy.thy ===== *)
theory RetryPolicy
  imports Prelude
begin

text \<open>
  \<open>packages/domain/src/policies/retry-policy.ts\<close>: exponential backoff with a cap and the decision
  whether a failed attempt may be retried.  Counters and seconds are integers; the exact power of
  two of the model agrees with \<open>Math.pow\<close>, whose overflow to \<open>Infinity\<close> the cap absorbs.
\<close>

datatype BackoffStrategy = EXPONENTIAL

record RetryPolicy =
  max_attempts :: int
  backoff_strategy :: BackoffStrategy
  initial_backoff_seconds :: int
  max_backoff_seconds :: int
  reuse_same_pool :: bool
  allow_pool_change_after_failure :: bool
  require_failure_summary_packet :: bool

record RetryEvaluationContext =
  retry_count :: int
  has_failure_summary :: bool

record RetryEvaluation =
  eligible :: bool
  backoff_seconds :: int
  next_attempt :: int
  retry_reason :: "string option"

definition DEFAULT_RETRY_POLICY :: RetryPolicy where
  "DEFAULT_RETRY_POLICY =
    \<lparr>max_attempts = 2,
     backoff_strategy = EXPONENTIAL,
     initial_backoff_seconds = 60,
     max_backoff_seconds = 900,
     reuse_same_pool = True,
     allow_pool_change_after_failure = True,
     require_failure_summary_packet = True\<rparr>"

definition calculateBackoff :: "int \<Rightarrow> RetryPolicy \<Rightarrow> int" where
  "calculateBackoff attempt policy =
    (if attempt \<le> 0 then 0
     else let raw = initial_backoff_seconds policy * 2 ^ nat (attempt - 1)
          in min raw (max_backoff_seconds policy))"

definition shouldRetry :: "RetryEvaluationContext \<Rightarrow> RetryPolicy \<Rightarrow> RetryEvaluation" where
  "shouldRetry context policy =
    (let nextAttempt = retry_count context + 1 in
     if retry_count context \<ge> max_attempts policy then
       \<lparr>eligible = False, backoff_seconds = 0, next_attempt = nextAttempt,
        retry_reason = Some (''Retry count '' @ string_of_int (retry_count context)
          @ '' has reached max_attempts '' @ string_of_int (max_attempts policy))\<rparr>
     else if require_failure_summary_packet policy \<and> \<not> has_failure_summary context then
       \<lparr>eligible = False, backoff_seconds = 0, next_attempt = nextAttempt,
        retry_reason = Some ''Failure summary packet is required but not present''\<rparr>
     else
       \<lparr>eligible = True, backoff_seconds = calculateBackoff nextAttempt policy,
        next_attempt = nextAttempt, retry_reason = None\<rparr>)"

definition createDefaultRetryPolicy :: RetryPolicy where
  "createDefaultRetryPolicy = DEFAULT_RETRY_POLICY"

subsection \<open>Backoff\<close>

lemma calculateBackoff_Suc:
  assumes "0 \<le> initial_backoff_seconds p" and "0 \<le> max_backoff_seconds p" and "1 \<le> a"
  shows "calculateBackoff (a + 1) p = min (2 * calculateBackoff a p) (max_backoff_seconds p)"
proof -
  have "nat a = Suc (nat (a - 1))" using assms(3) by simp
  then show ?thesis using assms by (simp add: calculateBackoff_def Let_def min_def)
qed

lemma calculateBackoff_range:
  assumes "0 \<le> initial_backoff_seconds p" and "0 \<le> max_backoff_seconds p"
  shows "0 \<le> calculateBackoff a p \<and> calculateBackoff a p \<le> max_backoff_seconds p"
  using assms by (simp add: calculateBackoff_def Let_def)

lemma calculateBackoff_mono:
  assumes "0 \<le> initial_backoff_seconds p" and "0 \<le> max_backoff_seconds p" and "a \<le> b"
  shows "calculateBackoff a p \<le> calculateBackoff b p"
proof (cases "a \<le> 0")
  case True
  then show ?thesis using calculateBackoff_range[OF assms(1,2), of b] by (simp add: calculateBackoff_def)
next
  case False
  have "(2::int) ^ nat (a - 1) \<le> 2 ^ nat (b - 1)"
    using assms(3) by (intro power_increasing) auto
  then have "initial_backoff_seconds p * 2 ^ nat (a - 1) \<le> initial_backoff_seconds p * 2 ^ nat (b - 1)"
    using assms(1) by (rule mult_left_mono)
  with False assms(3) show ?thesis by (simp add: calculateBackoff_def Let_def min_def)
qed

text \<open>
  Backoff is capped doubling: the first attempt waits the smaller of the initial backoff and
  the cap, each further attempt waits twice as long up to the cap, delays never shrink from one
  attempt to the next, and they always lie between 0 and the cap.
\<close>

lemma backoff_capped_doubling:
  assumes "0 \<le> initial_backoff_seconds p" and "0 \<le> max_backoff_seconds p" and "1 \<le> a"
  shows "calculateBackoff 1 p = min (initial_backoff_seconds p) (max_backoff_seconds p)
    \<and> calculateBackoff (a + 1) p = min (2 * calculateBackoff a p) (max_backoff_seconds p)
    \<and> calculateBackoff a p \<le> calculateBackoff (a + 1) p
    \<and> 0 \<le> calculateBackoff a p \<and> calculateBackoff a p \<le> max_backoff_seconds p"
  using assms calculateBackoff_Suc calculateBackoff_mono[OF assms(1,2), of a "a + 1"]
    calculateBackoff_range
  by (auto simp: calculateBackoff_def)

subsection \<open>Retry decision\<close>

lemma shouldRetry_eligible:
  "eligible (shouldRetry ctx p) \<longleftrightarrow>
    retry_count ctx < max_attempts p
    \<and> (require_failure_summary_packet p \<longrightarrow> has_failure_summary ctx)"
  by (auto simp: shouldRetry_def Let_def)

lemma shouldRetry_reason: "retry_reason (shouldRetry ctx p) = None \<longleftrightarrow> eligible (shouldRetry ctx p)"
  by (simp add: shouldRetry_def Let_def)

lemma shouldRetry_backoff:
  "backoff_seconds (shouldRetry ctx p) =
    (if eligible (shouldRetry ctx p) then calculateBackoff (retry_count ctx + 1) p else 0)"
  by (simp add: shouldRetry_def Let_def)

text \<open>
  A task is retried exactly while its retry count is below the maximum and the failure summary
  the policy asks for is present; a retry never exceeds the maximum attempt number and waits at most
  the cap; a refusal carries a reason and no delay.
\<close>

lemma should_retry_decision:
  assumes "0 \<le> initial_backoff_seconds p" and "0 \<le> max_backoff_seconds p"
  shows "(eligible (shouldRetry ctx p) \<longleftrightarrow>
            retry_count ctx < max_attempts p
            \<and> (require_failure_summary_packet p \<longrightarrow> has_failure_summary ctx))
    \<and> (eligible (shouldRetry ctx p) \<longrightarrow>
         next_attempt (shouldRetry ctx p) \<le> max_attempts p \<and> retry_reason (shouldRetry ctx p) = None
         \<and> backoff_seconds (shouldRetry ctx p) \<in> {0 .. max_backoff_seconds p})
    \<and> (\<not> eligible (shouldRetry ctx p) \<longrightarrow>
         retry_reason (shouldRetry ctx p) \<noteq> None \<and> backoff_seconds (shouldRetry ctx p) = 0)"
  using calculateBackoff_range[OF assms]
  by (auto simp: shouldRetry_eligible shouldRetry_reason shouldRetry_backoff)
     (auto simp: shouldRetry_def Let_def)

end
