(* ===== verification/EscalationPolicy.thy ===== *)
theory EscalationPolicy
  imports Enums
begin

text \<open>
  \<open>packages/domain/src/policies/escalation-policy.ts\<close>: which trigger leads to an escalation and with
  what action.  \<open>OTHER\<close> stands for a trigger outside the declared union, which the \<open>default\<close>
  branch of the switch handles; \<open>CAST\<close> for an action written with a type assertion that is not a
  member of \<open>EscalationTriggerAction\<close>.
\<close>

datatype EscalationTrigger =
    MAX_RETRY_EXCEEDED
  | MAX_REVIEW_ROUNDS_EXCEEDED
  | POLICY_VIOLATION
  | MERGE_FAILURE_AFTER_RETRIES
  | HEARTBEAT_TIMEOUT
  | SCHEMA_VALIDATION_FAILURE
  | REPEATED_SCHEMA_FAILURES
  | OTHER string

datatype EscalationTriggerAction =
    Action EscalationAction
  | RETRY_OR_ESCALATE
  | DISABLE_PROFILE_AND_ESCALATE
  | CAST string

record EscalationPolicy =
  triggers :: "(EscalationTrigger \<times> EscalationTriggerAction) list"
  policy_route_to :: string
  policy_require_summary :: bool

record EscalationEvaluationContext =
  trigger :: EscalationTrigger
  esc_retry_count :: "int option"
  esc_max_attempts :: "int option"
  review_round :: "int option"
  max_review_rounds :: "int option"
  schema_failure_count :: "int option"
  schema_failure_threshold :: "int option"

record EscalationEvaluation =
  should_escalate :: bool
  action :: EscalationTriggerAction
  route_to :: string
  require_summary :: bool
  esc_reason :: string

definition DEFAULT_ESCALATION_POLICY :: EscalationPolicy where
  "DEFAULT_ESCALATION_POLICY =
    \<lparr>triggers =
       [(MAX_RETRY_EXCEEDED, Action EscalationAction.ESCALATE),
        (MAX_REVIEW_ROUNDS_EXCEEDED, Action EscalationAction.ESCALATE),
        (POLICY_VIOLATION, Action EscalationAction.ESCALATE),
        (MERGE_FAILURE_AFTER_RETRIES, Action EscalationAction.ESCALATE),
        (HEARTBEAT_TIMEOUT, RETRY_OR_ESCALATE),
        (SCHEMA_VALIDATION_FAILURE, CAST ''fail_and_escalate''),
        (REPEATED_SCHEMA_FAILURES, DISABLE_PROFILE_AND_ESCALATE)],
     policy_route_to = ''operator-queue'',
     policy_require_summary = True\<rparr>"

definition isMaxRetryExceeded :: "EscalationEvaluationContext \<Rightarrow> bool" where
  "isMaxRetryExceeded context =
    (case (esc_retry_count context, esc_max_attempts context) of
       (Some n, Some m) \<Rightarrow> n \<ge> m
     | _ \<Rightarrow> True)"

definition isMaxReviewRoundsExceeded :: "EscalationEvaluationContext \<Rightarrow> bool" where
  "isMaxReviewRoundsExceeded context =
    (case (review_round context, max_review_rounds context) of
       (Some n, Some m) \<Rightarrow> n \<ge> m
     | _ \<Rightarrow> True)"

definition isRepeatedSchemaFailure :: "EscalationEvaluationContext \<Rightarrow> bool" where
  "isRepeatedSchemaFailure context =
    (case (schema_failure_count context, schema_failure_threshold context) of
       (Some n, Some m) \<Rightarrow> n \<ge> m
     | _ \<Rightarrow> True)"

definition getTriggerAction :: "EscalationTrigger \<Rightarrow> EscalationPolicy \<Rightarrow> EscalationTriggerAction" where
  "getTriggerAction trig policy =
    (case map_of (triggers policy) trig of
       Some act \<Rightarrow> act
     | None \<Rightarrow> Action EscalationAction.ESCALATE)"

definition getConfiguredTriggers :: "EscalationPolicy \<Rightarrow> EscalationTrigger list" where
  "getConfiguredTriggers policy = map fst (triggers policy)"

definition createDefaultEscalationPolicy :: EscalationPolicy where
  "createDefaultEscalationPolicy = DEFAULT_ESCALATION_POLICY"

definition shouldEscalate ::
  "EscalationEvaluationContext \<Rightarrow> EscalationPolicy \<Rightarrow> EscalationEvaluation" where
  "shouldEscalate context policy =
    (let triggerAction = (case map_of (triggers policy) (trigger context) of
                            Some act \<Rightarrow> act
                          | None \<Rightarrow> Action EscalationAction.ESCALATE);
         evaluation = (\<lambda>esc r. \<lparr>should_escalate = esc, action = triggerAction,
             route_to = policy_route_to policy, require_summary = policy_require_summary policy,
             esc_reason = r\<rparr>)
     in case trigger context of
       MAX_RETRY_EXCEEDED \<Rightarrow>
         if \<not> isMaxRetryExceeded context
         then evaluation False (''Retry count '' @ string_of_int_opt (esc_retry_count context)
                @ '' has not reached max_attempts '' @ string_of_int_opt (esc_max_attempts context))
         else evaluation True (''Retry count '' @ string_of_int_opt (esc_retry_count context)
                @ '' reached max_attempts '' @ string_of_int_opt (esc_max_attempts context))
     | MAX_REVIEW_ROUNDS_EXCEEDED \<Rightarrow>
         if \<not> isMaxReviewRoundsExceeded context
         then evaluation False (''Review round '' @ string_of_int_opt (review_round context)
                @ '' has not reached max_review_rounds '' @ string_of_int_opt (max_review_rounds context))
         else evaluation True (''Review round '' @ string_of_int_opt (review_round context)
                @ '' reached max_review_rounds '' @ string_of_int_opt (max_review_rounds context))
     | REPEATED_SCHEMA_FAILURES \<Rightarrow>
         if \<not> isRepeatedSchemaFailure context
         then evaluation False (''Schema failure count '' @ string_of_int_opt (schema_failure_count context)
                @ '' has not reached threshold '' @ string_of_int_opt (schema_failure_threshold context))
         else evaluation True (''Schema failure count '' @ string_of_int_opt (schema_failure_count context)
                @ '' reached threshold '' @ string_of_int_opt (schema_failure_threshold context))
     | POLICY_VIOLATION \<Rightarrow> evaluation True ''Security-sensitive policy violation detected''
     | MERGE_FAILURE_AFTER_RETRIES \<Rightarrow> evaluation True ''Merge failed after exhausting retries''
     | HEARTBEAT_TIMEOUT \<Rightarrow> evaluation True ''Worker heartbeat timeout detected''
     | SCHEMA_VALIDATION_FAILURE \<Rightarrow>
         evaluation True ''Structured output packet failed schema validation''
     | OTHER s \<Rightarrow>
         (evaluation True (''Unknown escalation trigger: '' @ s))
           \<lparr>action := Action EscalationAction.ESCALATE\<rparr>)"

subsection \<open>Properties\<close>

text \<open>
  Escalation fails safe: the decision is negative only for one of the three counting triggers,
  with both its counter and its limit known and the counter below the limit.  Missing information,
  event triggers and unknown triggers always escalate, and a declared trigger reports the configured
  action, falling back to plain escalation.
\<close>

lemma should_escalate_fail_safe:
  "(should_escalate (shouldEscalate ctx p) \<longleftrightarrow>
     \<not> (trigger ctx = MAX_RETRY_EXCEEDED
          \<and> (\<exists>n m. esc_retry_count ctx = Some n \<and> esc_max_attempts ctx = Some m \<and> n < m)
        \<or> trigger ctx = MAX_REVIEW_ROUNDS_EXCEEDED
          \<and> (\<exists>n m. review_round ctx = Some n \<and> max_review_rounds ctx = Some m \<and> n < m)
        \<or> trigger ctx = REPEATED_SCHEMA_FAILURES
          \<and> (\<exists>n m. schema_failure_count ctx = Some n \<and> schema_failure_threshold ctx = Some m \<and> n < m)))
   \<and> action (shouldEscalate ctx p) =
       (case trigger ctx of OTHER _ \<Rightarrow> Action EscalationAction.ESCALATE
        | _ \<Rightarrow> getTriggerAction (trigger ctx) p)
   \<and> route_to (shouldEscalate ctx p) = policy_route_to p
   \<and> require_summary (shouldEscalate ctx p) = policy_require_summary p"
  by (cases "trigger ctx")
     (auto simp: shouldEscalate_def Let_def getTriggerAction_def isMaxRetryExceeded_def
        isMaxReviewRoundsExceeded_def isRepeatedSchemaFailure_def split: option.splits)

text \<open>
  The default policy configures every declared trigger once; one of its actions is a string that
  \<open>EscalationTriggerAction\<close> does not list.
\<close>

lemma default_policy_triggers:
  "distinct (getConfiguredTriggers createDefaultEscalationPolicy)
   \<and> (\<forall>t. (t \<in> set (getConfiguredTriggers createDefaultEscalationPolicy)) = (\<forall>s. t \<noteq> OTHER s))"
proof (intro conjI allI)
  show "distinct (getConfiguredTriggers createDefaultEscalationPolicy)"
    by (simp add: getConfiguredTriggers_def createDefaultEscalationPolicy_def DEFAULT_ESCALATION_POLICY_def)
  fix t
  show "(t \<in> set (getConfiguredTriggers createDefaultEscalationPolicy)) = (\<forall>s. t \<noteq> OTHER s)"
    by (cases t)
       (simp_all add: getConfiguredTriggers_def createDefaultEscalationPolicy_def DEFAULT_ESCALATION_POLICY_def)
qed

lemma default_schema_failure_action:
  "getTriggerAction SCHEMA_VALIDATION_FAILURE createDefaultEscalationPolicy = CAST ''fail_and_escalate''"
  by (simp add: getTriggerAction_def createDefaultEscalationPolicy_def DEFAULT_ESCALATION_POLICY_def)

end
