(* ===== verification/Reclaim.thy ===== *)
theory Reclaim
  imports Heartbeat RetryPolicy EscalationPolicy
begin

text \<open>
  \<open>packages/application/src/services/lease-reclaim.service.ts\<close> over \<open>createReclaimUnitOfWork\<close> of
  \<open>apps/control-plane/src/automation/application-adapters.ts\<close>: a stale or crashed lease is closed
  and its task goes back to \<open>READY\<close>, to \<open>FAILED\<close> or to \<open>ESCALATED\<close> as the retry and escalation
  policies decide.
\<close>

subsection \<open>Types and constants\<close>

definition RECLAIMABLE_STATES :: "WorkerLeaseStatus list" where
  "RECLAIMABLE_STATES =
    [WorkerLeaseStatus.STARTING, WorkerLeaseStatus.RUNNING, WorkerLeaseStatus.HEARTBEATING]"

definition RECLAIM_ELIGIBLE_TASK_STATES :: "TaskStatus list" where
  "RECLAIM_ELIGIBLE_TASK_STATES = [TaskStatus.ASSIGNED, TaskStatus.IN_DEVELOPMENT]"

datatype ReclaimReason = missed_heartbeats | ttl_expired | worker_crashed

fun ReclaimReason_value :: "ReclaimReason \<Rightarrow> string" where
  "ReclaimReason_value ReclaimReason.missed_heartbeats = ''missed_heartbeats''"
| "ReclaimReason_value ReclaimReason.ttl_expired = ''ttl_expired''"
| "ReclaimReason_value ReclaimReason.worker_crashed = ''worker_crashed''"

record ReclaimLeaseParams =
  rp_leaseId :: string
  rp_reason :: ReclaimReason
  rp_retryPolicy :: RetryPolicy
  rp_escalationPolicy :: EscalationPolicy
  rp_hasFailureSummary :: "bool option"
  rp_actor :: ActorInfo
  rp_metadata :: "json option"

datatype ReclaimOutcome = retried | failed | escalated

fun ReclaimOutcome_value :: "ReclaimOutcome \<Rightarrow> string" where
  "ReclaimOutcome_value retried = ''retried''"
| "ReclaimOutcome_value failed = ''failed''"
| "ReclaimOutcome_value escalated = ''escalated''"

record ReclaimLeaseResult =
  rr_lease :: TaskLease
  rr_task :: Task
  rr_outcome :: ReclaimOutcome
  rr_retryEvaluation :: RetryEvaluation
  rr_escalationEvaluation :: "EscalationEvaluation option"
  rr_auditEvent :: AuditEventRecord

text \<open>
  What one reclaim draws from its environment: the clock and the audit UUID inside the transaction,
  and the clock when each of the two events is emitted.
\<close>

record reclaimEnv =
  re_now :: int
  re_uuid :: string
  re_leaseEventAt :: int
  re_taskEventAt :: int

subsection \<open>The decision\<close>

definition determineLeaseTargetState :: "ReclaimReason \<Rightarrow> WorkerLeaseStatus" where
  "determineLeaseTargetState reason' =
    (case reason' of
       ReclaimReason.missed_heartbeats \<Rightarrow> WorkerLeaseStatus.TIMED_OUT
     | ReclaimReason.ttl_expired \<Rightarrow> WorkerLeaseStatus.TIMED_OUT
     | ReclaimReason.worker_crashed \<Rightarrow> WorkerLeaseStatus.CRASHED)"

definition buildLeaseTransitionContext :: "WorkerLeaseStatus \<Rightarrow> WorkerLeaseTransitionContext" where
  "buildLeaseTransitionContext targetState =
    (if targetState = WorkerLeaseStatus.TIMED_OUT
     then emptyWorkerLeaseTransitionContext\<lparr>heartbeatTimedOut := Some True\<rparr>
     else emptyWorkerLeaseTransitionContext\<lparr>workerCrashed := Some True\<rparr>)"

fun EscalationTriggerAction_value :: "EscalationTriggerAction \<Rightarrow> string" where
  "EscalationTriggerAction_value (Action a) = EscalationAction_value a"
| "EscalationTriggerAction_value RETRY_OR_ESCALATE = ''retry_or_escalate''"
| "EscalationTriggerAction_value DISABLE_PROFILE_AND_ESCALATE = ''disable_profile_and_escalate''"
| "EscalationTriggerAction_value (CAST s) = s"

record taskOutcome =
  to_outcome :: ReclaimOutcome
  to_targetStatus :: TaskStatus
  to_retryEvaluation :: RetryEvaluation
  to_escalationEvaluation :: "EscalationEvaluation option"
  to_newRetryCount :: int

definition evaluateTaskOutcome ::
  "Task \<Rightarrow> RetryPolicy \<Rightarrow> EscalationPolicy \<Rightarrow> bool \<Rightarrow> taskOutcome" where
  "evaluateTaskOutcome task retryPolicy escalationPolicy hasFailureSummary =
    (let retryEvaluation = shouldRetry
           \<lparr>retry_count = t_retryCount task, has_failure_summary = hasFailureSummary\<rparr> retryPolicy in
     if eligible retryEvaluation then
       \<lparr>to_outcome = retried, to_targetStatus = TaskStatus.READY,
        to_retryEvaluation = retryEvaluation, to_escalationEvaluation = None,
        to_newRetryCount = t_retryCount task + 1\<rparr>
     else
       let escalationEvaluation = shouldEscalate
             \<lparr>trigger = HEARTBEAT_TIMEOUT, esc_retry_count = Some (t_retryCount task),
              esc_max_attempts = Some (max_attempts retryPolicy), review_round = None,
              max_review_rounds = None, schema_failure_count = None,
              schema_failure_threshold = None\<rparr> escalationPolicy in
       if should_escalate escalationEvaluation then
         let act = action escalationEvaluation in
         if EscalationTriggerAction_value act = ''fail_then_escalate'' then
           \<lparr>to_outcome = failed, to_targetStatus = TaskStatus.FAILED,
            to_retryEvaluation = retryEvaluation, to_escalationEvaluation = Some escalationEvaluation,
            to_newRetryCount = t_retryCount task\<rparr>
         else
           \<lparr>to_outcome = escalated, to_targetStatus = TaskStatus.ESCALATED,
            to_retryEvaluation = retryEvaluation, to_escalationEvaluation = Some escalationEvaluation,
            to_newRetryCount = t_retryCount task\<rparr>
       else
         \<lparr>to_outcome = failed, to_targetStatus = TaskStatus.FAILED,
          to_retryEvaluation = retryEvaluation, to_escalationEvaluation = Some escalationEvaluation,
          to_newRetryCount = t_retryCount task\<rparr>)"

definition buildTaskTransitionContext :: "TaskStatus \<Rightarrow> TransitionContext" where
  "buildTaskTransitionContext targetStatus =
    (case targetStatus of
       TaskStatus.READY \<Rightarrow> emptyContext\<lparr>leaseReclaimedRetryEligible := Some True\<rparr>
     | TaskStatus.FAILED \<Rightarrow> emptyContext\<lparr>leaseTimedOutNoRetry := Some True\<rparr>
     | TaskStatus.ESCALATED \<Rightarrow> emptyContext\<lparr>TransitionContext.hasEscalationTrigger := Some True\<rparr>
     | _ \<Rightarrow> emptyContext)"

subsection \<open>The unit of work\<close>

definition updateStatusWithReason ::
  "string \<Rightarrow> WorkerLeaseStatus \<Rightarrow> WorkerLeaseStatus \<Rightarrow> string \<Rightarrow> TaskLease tx" where
  "updateStatusWithReason leaseId expectedStatus newStatus reclaimReason =
    lease_checkedUpdate leaseId expectedStatus
      (\<lambda>r. r\<lparr>l_status := newStatus, l_reclaimReason := Some reclaimReason\<rparr>)"

definition updateStatusAndRetryCount ::
  "int \<Rightarrow> string \<Rightarrow> int \<Rightarrow> TaskStatus \<Rightarrow> int \<Rightarrow> Task tx" where
  "updateStatusAndRetryCount now taskId expectedVersion newStatus retryCount = (\<lambda>d.
    let conflict = VersionConflictError ''Task'' taskId (string_of_int expectedVersion) in
    case task_findById taskId d of
      None \<Rightarrow> (Inl conflict, d)
    | Some current \<Rightarrow>
        if t_version current \<noteq> expectedVersion then (Inl conflict, d)
        else task_update now taskId expectedVersion
          (\<lambda>r. r\<lparr>t_status := newStatus, t_retryCount := retryCount, t_currentLeaseId := None\<rparr>) d)"

subsection \<open>Reclaiming\<close>

definition reclaimOldState :: "TaskLease \<Rightarrow> Task \<Rightarrow> json" where
  "reclaimOldState lease task = JObj
    [(''leaseStatus'', JStr (WorkerLeaseStatus_value (l_status lease))),
     (''taskStatus'', JStr (TaskStatus_value (t_status task))),
     (''taskVersion'', JNum (t_version task)),
     (''retryCount'', JNum (t_retryCount task))]"

definition reclaimAudit :: "ReclaimLeaseParams \<Rightarrow> TaskLease \<Rightarrow> Task \<Rightarrow> json \<Rightarrow> NewAuditEvent" where
  "reclaimAudit params lease task newState =
    \<lparr>na_entityType = ''task-lease'', na_entityId = rp_leaseId params,
     na_eventType = ''lease.reclaimed'', na_actorType = actor_type (rp_actor params),
     na_actorId = actor_id (rp_actor params), na_oldState = Some (reclaimOldState lease task),
     na_newState = Some newState, na_metadata = rp_metadata params\<rparr>"

definition noopNewState :: "ReclaimLeaseParams \<Rightarrow> TaskLease \<Rightarrow> Task \<Rightarrow> json" where
  "noopNewState params updatedLease task = JObj
    [(''leaseStatus'', JStr (WorkerLeaseStatus_value (l_status updatedLease))),
     (''taskStatus'', JStr (TaskStatus_value (t_status task))),
     (''taskVersion'', JNum (t_version task)),
     (''outcome'', JStr ''noop_task_already_transitioned''),
     (''reason'', JStr (ReclaimReason_value (rp_reason params)))]"

definition reclaimNewState :: "ReclaimLeaseParams \<Rightarrow> TaskLease \<Rightarrow> Task \<Rightarrow> taskOutcome \<Rightarrow> json" where
  "reclaimNewState params updatedLease updatedTask oc = JObj
    [(''leaseStatus'', JStr (WorkerLeaseStatus_value (l_status updatedLease))),
     (''taskStatus'', JStr (TaskStatus_value (t_status updatedTask))),
     (''taskVersion'', JNum (t_version updatedTask)),
     (''retryCount'', JNum (t_retryCount updatedTask)),
     (''outcome'', JStr (ReclaimOutcome_value (to_outcome oc))),
     (''reason'', JStr (ReclaimReason_value (rp_reason params))),
     (''retryEligible'', JBool (eligible (to_retryEvaluation oc))),
     (''escalationAction'', json_of_string_opt
        (map_option (\<lambda>e. EscalationTriggerAction_value (action e)) (to_escalationEvaluation oc)))]"

type_synonym reclaim_tx_result = "ReclaimLeaseResult \<times> WorkerLeaseStatus \<times> TaskStatus"

definition reclaimLease_tx :: "reclaimEnv \<Rightarrow> ReclaimLeaseParams \<Rightarrow> reclaim_tx_result tx" where
  "reclaimLease_tx env params =
    (let leaseId = rp_leaseId params;
         hasFailureSummary = (case rp_hasFailureSummary params of None \<Rightarrow> False | Some b \<Rightarrow> b);
         leaseTargetState = determineLeaseTargetState (rp_reason params) in
     bindT (getT (lease_findById leaseId)) (\<lambda>found. case found of
       None \<Rightarrow> throwT (EntityNotFoundError ''TaskLease'' leaseId)
     | Some lease \<Rightarrow>
         if l_status lease \<notin> set RECLAIMABLE_STATES then
           throwT (LeaseNotReclaimableError leaseId (WorkerLeaseStatus_value (l_status lease)))
         else
           let leaseValidation = validateWorkerLeaseTransition (l_status lease) leaseTargetState
                 (buildLeaseTransitionContext leaseTargetState) in
           if \<not> valid leaseValidation then
             throwT (InvalidTransitionError ''TaskLease'' leaseId
               (WorkerLeaseStatus_value (l_status lease)) (WorkerLeaseStatus_value leaseTargetState)
               (reason leaseValidation))
           else
             bindT (updateStatusWithReason leaseId (l_status lease) leaseTargetState
               (ReclaimReason_value (rp_reason params))) (\<lambda>updatedLease.
             bindT (getT (task_findById (l_taskId lease))) (\<lambda>foundTask. case foundTask of
               None \<Rightarrow> throwT (EntityNotFoundError ''Task'' (l_taskId lease))
             | Some task \<Rightarrow>
                 if t_status task \<notin> set RECLAIM_ELIGIBLE_TASK_STATES then
                   bindT (auditEvent_create (re_uuid env) (re_now env)
                     (reclaimAudit params lease task (noopNewState params updatedLease task)))
                     (\<lambda>auditEvent.
                   returnT (\<lparr>rr_lease = updatedLease, rr_task = task, rr_outcome = failed,
                       rr_retryEvaluation =
                         \<lparr>eligible = False, backoff_seconds = 0, next_attempt = t_retryCount task + 1,
                          retry_reason = Some (''Task is not in a reclaim-eligible state: ''
                            @ TaskStatus_value (t_status task))\<rparr>,
                       rr_escalationEvaluation = None, rr_auditEvent = auditEvent\<rparr>,
                     l_status lease, t_status task))
                 else
                   let oc = evaluateTaskOutcome task (rp_retryPolicy params)
                         (rp_escalationPolicy params) hasFailureSummary;
                       taskValidation = validateTransition (t_status task) (to_targetStatus oc)
                         (buildTaskTransitionContext (to_targetStatus oc)) in
                   if \<not> valid taskValidation then
                     throwT (InvalidTransitionError ''Task'' (t_taskId task)
                       (TaskStatus_value (t_status task)) (TaskStatus_value (to_targetStatus oc))
                       (reason taskValidation))
                   else
                     bindT (updateStatusAndRetryCount (re_now env) (t_taskId task) (t_version task)
                       (to_targetStatus oc) (to_newRetryCount oc)) (\<lambda>updatedTask.
                     bindT (auditEvent_create (re_uuid env) (re_now env)
                       (reclaimAudit params lease task (reclaimNewState params updatedLease updatedTask oc)))
                       (\<lambda>auditEvent.
                     returnT (\<lparr>rr_lease = updatedLease, rr_task = updatedTask,
                         rr_outcome = to_outcome oc, rr_retryEvaluation = to_retryEvaluation oc,
                         rr_escalationEvaluation = to_escalationEvaluation oc,
                         rr_auditEvent = auditEvent\<rparr>,
                       l_status lease, t_status task)))))))"

definition reclaimLease ::
  "reclaimEnv \<Rightarrow> ReclaimLeaseParams \<Rightarrow> world \<Rightarrow> (app_error + ReclaimLeaseResult) \<times> world" where
  "reclaimLease env params w =
    apfst (map_sum id fst)
      (commit (reclaimLease_tx env params)
        (\<lambda>(r, previousLeaseStatus, previousTaskStatus).
          [TaskLeaseTransitionedEvent (rp_leaseId params) previousLeaseStatus (l_status (rr_lease r))
             (rp_actor params) (re_leaseEventAt env),
           TaskTransitionedEvent (t_taskId (rr_task r)) previousTaskStatus (t_status (rr_task r))
             (t_version (rr_task r)) (rp_actor params) (re_taskEventAt env)])
        w)"

subsection \<open>What the decision can be\<close>

lemma reclaim_lease_transition_valid:
  "s \<in> set RECLAIMABLE_STATES \<Longrightarrow>
   valid (validateWorkerLeaseTransition s (determineLeaseTargetState why)
     (buildLeaseTransitionContext (determineLeaseTargetState why)))"
  by (cases why)
     (auto simp: determineLeaseTargetState_def buildLeaseTransitionContext_def lease_accepted_iff
        RECLAIMABLE_STATES_def)

lemma heartbeat_timeout_escalates:
  "trigger ctx = HEARTBEAT_TIMEOUT \<Longrightarrow> should_escalate (shouldEscalate ctx p)
     \<and> action (shouldEscalate ctx p) = getTriggerAction HEARTBEAT_TIMEOUT p"
  by (simp add: shouldEscalate_def getTriggerAction_def Let_def split: option.split)

text \<open>The whole decision, without the order in which the code takes it.\<close>

lemma evaluateTaskOutcome_cases:
  fixes t rp ep b
  defines "oc \<equiv> evaluateTaskOutcome t rp ep b"
  shows "t_retryCount t < max_attempts rp \<and> (require_failure_summary_packet rp \<longrightarrow> b)
      \<and> to_outcome oc = retried \<and> to_targetStatus oc = TaskStatus.READY
      \<and> to_newRetryCount oc = t_retryCount t + 1
    \<or> \<not> (t_retryCount t < max_attempts rp \<and> (require_failure_summary_packet rp \<longrightarrow> b))
      \<and> to_newRetryCount oc = t_retryCount t
      \<and> (if EscalationTriggerAction_value (getTriggerAction HEARTBEAT_TIMEOUT ep) = ''fail_then_escalate''
         then to_outcome oc = failed \<and> to_targetStatus oc = TaskStatus.FAILED
         else to_outcome oc = escalated \<and> to_targetStatus oc = TaskStatus.ESCALATED)"
  unfolding oc_def evaluateTaskOutcome_def
  by (simp add: Let_def shouldRetry_eligible heartbeat_timeout_escalates)

lemma reclaim_task_transition_valid:
  "s \<in> set RECLAIM_ELIGIBLE_TASK_STATES \<Longrightarrow>
   valid (validateTransition s (to_targetStatus (evaluateTaskOutcome t rp ep b))
     (buildTaskTransitionContext (to_targetStatus (evaluateTaskOutcome t rp ep b))))"
  using evaluateTaskOutcome_cases[of t rp b ep]
  by (auto simp: RECLAIM_ELIGIBLE_TASK_STATES_def buildTaskTransitionContext_def accepted_iff
      split: if_splits)

subsection \<open>What a reclaim does\<close>

definition reclaimed_lease :: "ReclaimLeaseParams \<Rightarrow> TaskLease \<Rightarrow> TaskLease" where
  "reclaimed_lease p l = l\<lparr>l_status := determineLeaseTargetState (rp_reason p),
     l_reclaimReason := Some (ReclaimReason_value (rp_reason p))\<rparr>"

definition reclaim_outcome :: "ReclaimLeaseParams \<Rightarrow> Task \<Rightarrow> taskOutcome" where
  "reclaim_outcome p t = evaluateTaskOutcome t (rp_retryPolicy p) (rp_escalationPolicy p)
     (rp_hasFailureSummary p = Some True)"

definition reclaimed_task :: "reclaimEnv \<Rightarrow> ReclaimLeaseParams \<Rightarrow> Task \<Rightarrow> Task" where
  "reclaimed_task env p t =
    (if t_status t \<in> set RECLAIM_ELIGIBLE_TASK_STATES then
       t\<lparr>t_status := to_targetStatus (reclaim_outcome p t),
         t_retryCount := to_newRetryCount (reclaim_outcome p t), t_currentLeaseId := None,
         t_version := t_version t + 1, t_updatedAt := re_now env div 1000\<rparr>
     else t)"

text \<open>When a reclaim goes through: a lease being worked on whose task exists.\<close>

definition reclaimable :: "ReclaimLeaseParams \<Rightarrow> TaskLease \<Rightarrow> Task \<Rightarrow> db \<Rightarrow> bool" where
  "reclaimable p l t d \<longleftrightarrow> lease_findById (rp_leaseId p) d = Some l
     \<and> l_status l \<in> {WorkerLeaseStatus.STARTING, WorkerLeaseStatus.RUNNING, WorkerLeaseStatus.HEARTBEATING}
     \<and> task_findById (l_taskId l) d = Some t"

lemma failure_summary_default:
  "(case x of None \<Rightarrow> False | Some b \<Rightarrow> b) = (x = Some True)"
  by (cases x) auto

lemma task_findById_id: "task_findById i d = Some t \<Longrightarrow> t_taskId t = i"
  by (auto simp: task_findById_def dest: find_Some_iff_mem)

lemma updateStatusAndRetryCount_current:
  assumes "wf_db d" and "task_findById i d = Some t"
  obtains d' where "updateStatusAndRetryCount now i (t_version t) s k d =
      (Inr (t\<lparr>t_status := s, t_retryCount := k, t_currentLeaseId := None, t_version := t_version t + 1,
        t_updatedAt := now div 1000\<rparr>), d')"
    "d' = d\<lparr>tasks := tasks d'\<rparr>"
    "task_findById i d' = Some (t\<lparr>t_status := s, t_retryCount := k, t_currentLeaseId := None,
        t_version := t_version t + 1, t_updatedAt := now div 1000\<rparr>)"
    "\<forall>j. j \<noteq> i \<longrightarrow> task_findById j d' = task_findById j d" "wf_db d'"
proof -
  let ?f = "\<lambda>r. r\<lparr>t_status := s, t_retryCount := k, t_currentLeaseId := None\<rparr>"
  obtain d' where "task_update now i (t_version t) ?f d
      = (Inr ((?f t)\<lparr>t_version := t_version t + 1, t_updatedAt := now div 1000\<rparr>), d')"
    "d' = d\<lparr>tasks := tasks d'\<rparr>"
    "task_findById i d' = Some ((?f t)\<lparr>t_version := t_version t + 1, t_updatedAt := now div 1000\<rparr>)"
    "\<forall>j. j \<noteq> i \<longrightarrow> task_findById j d' = task_findById j d" "wf_db d'"
    by (rule task_update_current[OF assms, of ?f now]) auto
  then show ?thesis using that assms(2) by (simp add: updateStatusAndRetryCount_def Let_def)
qed

lemma updateStatusWithReason_current:
  assumes "wf_db d" and "lease_findById (rp_leaseId p) d = Some l"
  obtains d' where "updateStatusWithReason (rp_leaseId p) (l_status l) (determineLeaseTargetState (rp_reason p))
        (ReclaimReason_value (rp_reason p)) d = (Inr (reclaimed_lease p l), d')"
    "d' = d\<lparr>taskLeases := update_where (\<lambda>r. l_leaseId r = rp_leaseId p) (reclaimed_lease p) (taskLeases d)\<rparr>"
    "lease_findById (rp_leaseId p) d' = Some (reclaimed_lease p l)"
    "\<forall>j. j \<noteq> rp_leaseId p \<longrightarrow> lease_findById j d' = lease_findById j d" "wf_db d'"
proof -
  have f: "(\<lambda>r. r\<lparr>l_status := determineLeaseTargetState (rp_reason p),
      l_reclaimReason := Some (ReclaimReason_value (rp_reason p))\<rparr>) = reclaimed_lease p"
    by (simp add: reclaimed_lease_def fun_eq_iff)
  show ?thesis unfolding updateStatusWithReason_def f
    by (rule lease_checkedUpdate_current[OF assms, of "reclaimed_lease p"])
       (simp add: reclaimed_lease_def, rule that, simp_all add: updateStatusWithReason_def f)
qed

lemma reclaimLease_tx_body:
  assumes "wf_db d" and "reclaimable p l t d"
  obtains d2 r ev where
    "reclaimLease_tx env p d = bindT (auditEvent_create (re_uuid env) (re_now env) ev)
       (\<lambda>a. returnT (r\<lparr>rr_auditEvent := a\<rparr>, l_status l, t_status t)) d2"
    "rr_lease r = reclaimed_lease p l" "rr_task r = reclaimed_task env p t"
    "rr_outcome r = (if t_status t \<in> set RECLAIM_ELIGIBLE_TASK_STATES
       then to_outcome (reclaim_outcome p t) else failed)"
    "na_eventType ev = ''lease.reclaimed''" "na_entityId ev = rp_leaseId p"
    "taskLeases d2 = update_where (\<lambda>r. l_leaseId r = rp_leaseId p) (reclaimed_lease p) (taskLeases d)"
    "lease_findById (rp_leaseId p) d2 = Some (reclaimed_lease p l)"
    "\<forall>j. j \<noteq> rp_leaseId p \<longrightarrow> lease_findById j d2 = lease_findById j d"
    "task_findById (l_taskId l) d2 = Some (reclaimed_task env p t)"
    "\<forall>j. j \<noteq> l_taskId l \<longrightarrow> task_findById j d2 = task_findById j d"
    "auditEvents d2 = auditEvents d" "wf_db d2"
proof -
  from assms(2) have l: "lease_findById (rp_leaseId p) d = Some l" "l_status l \<in> set RECLAIMABLE_STATES"
    and t: "task_findById (l_taskId l) d = Some t"
    by (auto simp: reclaimable_def RECLAIMABLE_STATES_def)
  obtain d1 where d1: "updateStatusWithReason (rp_leaseId p) (l_status l)
        (determineLeaseTargetState (rp_reason p)) (ReclaimReason_value (rp_reason p)) d
      = (Inr (reclaimed_lease p l), d1)"
    "d1 = d\<lparr>taskLeases := update_where (\<lambda>r. l_leaseId r = rp_leaseId p) (reclaimed_lease p) (taskLeases d)\<rparr>"
    "lease_findById (rp_leaseId p) d1 = Some (reclaimed_lease p l)"
    "\<forall>j. j \<noteq> rp_leaseId p \<longrightarrow> lease_findById j d1 = lease_findById j d" "wf_db d1"
    by (rule updateStatusWithReason_current[OF assms(1) l(1)])
  have t1: "task_findById j d1 = task_findById j d" for j by (simp add: d1(2) task_findById_def)
  have step: "bindT (updateStatusWithReason (rp_leaseId p) (l_status l)
        (determineLeaseTargetState (rp_reason p)) (ReclaimReason_value (rp_reason p))) f d
      = f (reclaimed_lease p l) d1" for f :: "TaskLease \<Rightarrow> reclaim_tx_result tx"
    using d1(1) by (rule bindT_step)
  note start = l reclaim_lease_transition_valid[OF l(2)] step t1 t failure_summary_default
  show ?thesis
  proof (cases "t_status t \<in> set RECLAIM_ELIGIBLE_TASK_STATES")
    case False
    let ?ev = "reclaimAudit p l t (noopNewState p (reclaimed_lease p l) t)"
    let ?r = "\<lambda>a. \<lparr>rr_lease = reclaimed_lease p l, rr_task = t, rr_outcome = failed,
        rr_retryEvaluation = \<lparr>eligible = False, backoff_seconds = 0, next_attempt = t_retryCount t + 1,
           retry_reason = Some (''Task is not in a reclaim-eligible state: '' @ TaskStatus_value (t_status t))\<rparr>,
        rr_escalationEvaluation = None, rr_auditEvent = a\<rparr>"
    have "reclaimLease_tx env p d = bindT (auditEvent_create (re_uuid env) (re_now env) ?ev)
       (\<lambda>a. returnT ((?r undefined)\<lparr>rr_auditEvent := a\<rparr>, l_status l, t_status t)) d1"
      using False by (simp add: reclaimLease_tx_def Let_def start)
    then show ?thesis
      by (rule that) (use False d1 t t1 in \<open>simp_all add: reclaimed_task_def reclaimAudit_def\<close>)
  next
    case True
    let ?oc = "reclaim_outcome p t"
    have id: "t_taskId t = l_taskId l" using t by (rule task_findById_id)
    from t have t': "task_findById (l_taskId l) d1 = Some t" by (simp add: t1)
    obtain d2 where d2: "updateStatusAndRetryCount (re_now env) (l_taskId l) (t_version t)
        (to_targetStatus ?oc) (to_newRetryCount ?oc) d1 = (Inr (reclaimed_task env p t), d2)"
      "d2 = d1\<lparr>tasks := tasks d2\<rparr>" "task_findById (l_taskId l) d2 = Some (reclaimed_task env p t)"
      "\<forall>j. j \<noteq> l_taskId l \<longrightarrow> task_findById j d2 = task_findById j d1" "wf_db d2"
      by (rule updateStatusAndRetryCount_current[OF d1(5) t', of "re_now env" "to_targetStatus ?oc"
            "to_newRetryCount ?oc"]) (use True in \<open>simp add: reclaimed_task_def\<close>)
    have frame: "taskLeases d2 = taskLeases d1" "auditEvents d2 = auditEvents d1"
      by (subst d2(2), simp)+
    then have leases: "lease_findById j d2 = lease_findById j d1" for j by (simp add: lease_findById_def)
    let ?ev = "reclaimAudit p l t (reclaimNewState p (reclaimed_lease p l) (reclaimed_task env p t) ?oc)"
    let ?r = "\<lambda>a. \<lparr>rr_lease = reclaimed_lease p l, rr_task = reclaimed_task env p t,
        rr_outcome = to_outcome ?oc, rr_retryEvaluation = to_retryEvaluation ?oc,
        rr_escalationEvaluation = to_escalationEvaluation ?oc, rr_auditEvent = a\<rparr>"
    have "bindT (updateStatusAndRetryCount (re_now env) (l_taskId l) (t_version t)
        (to_targetStatus ?oc) (to_newRetryCount ?oc)) f d1 = f (reclaimed_task env p t) d2"
      for f :: "Task \<Rightarrow> reclaim_tx_result tx" using d2(1) by (rule bindT_step)
    then have "reclaimLease_tx env p d = bindT (auditEvent_create (re_uuid env) (re_now env) ?ev)
       (\<lambda>a. returnT ((?r undefined)\<lparr>rr_auditEvent := a\<rparr>, l_status l, t_status t)) d2"
      using True reclaim_task_transition_valid[OF True, of t]
      by (simp add: reclaimLease_tx_def Let_def start id reclaim_outcome_def)
    then show ?thesis
      by (rule that) (use True d1 d2(3-5) t1 frame leases in \<open>simp_all add: reclaimAudit_def\<close>)
  qed
qed

lemma reclaimLease_not_reclaimable:
  assumes "wf_db d" and "\<nexists>l t. reclaimable p l t d"
  shows "\<exists>e d'. reclaimLease_tx env p d = (Inl e, d')"
proof (cases "\<exists>l. lease_findById (rp_leaseId p) d = Some l \<and> l_status l \<in> set RECLAIMABLE_STATES")
  case False
  then show ?thesis
    by (cases "lease_findById (rp_leaseId p) d") (auto simp: reclaimLease_tx_def Let_def)
next
  case True
  then obtain l where l: "lease_findById (rp_leaseId p) d = Some l" "l_status l \<in> set RECLAIMABLE_STATES"
    by blast
  with assms(2) have "task_findById (l_taskId l) d = None"
    by (cases "task_findById (l_taskId l) d") (auto simp: reclaimable_def RECLAIMABLE_STATES_def)
  moreover obtain d1 where "updateStatusWithReason (rp_leaseId p) (l_status l)
        (determineLeaseTargetState (rp_reason p)) (ReclaimReason_value (rp_reason p)) d
      = (Inr (reclaimed_lease p l), d1)"
    "d1 = d\<lparr>taskLeases := update_where (\<lambda>r. l_leaseId r = rp_leaseId p) (reclaimed_lease p) (taskLeases d)\<rparr>"
    by (rule updateStatusWithReason_current[OF assms(1) l(1)])
  ultimately show ?thesis
    using l reclaim_lease_transition_valid[OF l(2)]
    by (simp add: reclaimLease_tx_def Let_def bindT_apply task_findById_def)
qed

lemma reclaim_lease_spec:
  assumes "wf_db (database w)"
  shows "case reclaimLease env p w of
      (Inl e, w') \<Rightarrow> w' = w
        \<and> ((\<nexists>l t. reclaimable p l t (database w)) \<or> re_uuid env \<in> set (map ae_id (auditEvents (database w))))
    | (Inr r, w') \<Rightarrow> \<exists>l t. reclaimable p l t (database w)
        \<and> rr_lease r = reclaimed_lease p l \<and> rr_task r = reclaimed_task env p t
        \<and> rr_outcome r = (if t_status t \<in> set RECLAIM_ELIGIBLE_TASK_STATES
             then to_outcome (reclaim_outcome p t) else failed)
        \<and> taskLeases (database w')
            = update_where (\<lambda>r. l_leaseId r = rp_leaseId p) (reclaimed_lease p) (taskLeases (database w))
        \<and> lease_findById (rp_leaseId p) (database w') = Some (rr_lease r)
        \<and> (\<forall>j. j \<noteq> rp_leaseId p \<longrightarrow> lease_findById j (database w') = lease_findById j (database w))
        \<and> task_findById (l_taskId l) (database w') = Some (rr_task r)
        \<and> (\<forall>j. j \<noteq> l_taskId l \<longrightarrow> task_findById j (database w') = task_findById j (database w))
        \<and> auditEvents (database w') = auditEvents (database w) @ [rr_auditEvent r]
        \<and> ae_eventType (rr_auditEvent r) = ''lease.reclaimed''
        \<and> emitted w' = emitted w @
            [TaskLeaseTransitionedEvent (rp_leaseId p) (l_status l) (l_status (rr_lease r))
               (rp_actor p) (re_leaseEventAt env),
             TaskTransitionedEvent (l_taskId l) (t_status t) (t_status (rr_task r)) (t_version (rr_task r))
               (rp_actor p) (re_taskEventAt env)]
        \<and> wf_db (database w')"
proof (cases "\<exists>l t. reclaimable p l t (database w)")
  case False
  with reclaimLease_not_reclaimable[OF assms, of p env] show ?thesis
    by (auto simp: reclaimLease_def commit_def writeTransaction_def)
next
  case True
  then obtain l t where lt: "reclaimable p l t (database w)" by blast
  obtain d2 r ev where s: "reclaimLease_tx env p (database w)
      = bindT (auditEvent_create (re_uuid env) (re_now env) ev)
         (\<lambda>a. returnT (r\<lparr>rr_auditEvent := a\<rparr>, l_status l, t_status t)) d2"
    "rr_lease r = reclaimed_lease p l" "rr_task r = reclaimed_task env p t"
    "rr_outcome r = (if t_status t \<in> set RECLAIM_ELIGIBLE_TASK_STATES
       then to_outcome (reclaim_outcome p t) else failed)"
    "na_eventType ev = ''lease.reclaimed''"
    "taskLeases d2 = update_where (\<lambda>r. l_leaseId r = rp_leaseId p) (reclaimed_lease p) (taskLeases (database w))"
    "lease_findById (rp_leaseId p) d2 = Some (reclaimed_lease p l)"
    "\<forall>j. j \<noteq> rp_leaseId p \<longrightarrow> lease_findById j d2 = lease_findById j (database w)"
    "task_findById (l_taskId l) d2 = Some (reclaimed_task env p t)"
    "\<forall>j. j \<noteq> l_taskId l \<longrightarrow> task_findById j d2 = task_findById j (database w)"
    "auditEvents d2 = auditEvents (database w)" "wf_db d2"
    by (rule reclaimLease_tx_body[OF assms lt])
  have id: "t_taskId (reclaimed_task env p t) = l_taskId l"
    using lt task_findById_id by (auto simp: reclaimable_def reclaimed_task_def)
  show ?thesis
  proof (rule audit_last_cases[OF s(12), of "re_uuid env" "re_now env" ev
        "\<lambda>a. (r\<lparr>rr_auditEvent := a\<rparr>, l_status l, t_status t)"], goal_cases)
    case 1
    then show ?case using s by (simp add: reclaimLease_def commit_def writeTransaction_def)
  next
    case (2 a)
    then show ?case using s id lt
      by (auto simp: reclaimLease_def commit_def writeTransaction_def lease_findById_def task_findById_def
          intro!: exI[of _ l] exI[of _ t])
  qed
qed

text \<open>
  (C5) Lease reclaim.  A reclaim goes through exactly when the lease is starting, running or
  heartbeating and its task exists (and the audit key is new).  Then, in one commit, the lease is
  \<open>TIMED_OUT\<close> (or \<open>CRASHED\<close>) with the reason recorded; an assigned or developed task loses its
  lease and becomes \<open>READY\<close> with one more retry while the retry policy allows it, else \<open>FAILED\<close> or
  \<open>ESCALATED\<close> as the escalation policy says, with the retry count kept; a task that has moved on is
  left alone.  One audit event and two events are written.  Otherwise nothing changes.
\<close>

theorem reclaim_lease_behaviour:
  assumes "wf_db (database w)"
  shows "case reclaimLease env p w of
      (Inl e, w') \<Rightarrow> w' = w
        \<and> ((\<nexists>l t. reclaimable p l t (database w)) \<or> re_uuid env \<in> set (map ae_id (auditEvents (database w))))
    | (Inr r, w') \<Rightarrow> \<exists>l t. reclaimable p l t (database w)
        \<and> rr_lease r = l\<lparr>l_status := (if rp_reason p = worker_crashed then WorkerLeaseStatus.CRASHED
                 else WorkerLeaseStatus.TIMED_OUT), l_reclaimReason := Some (ReclaimReason_value (rp_reason p))\<rparr>
        \<and> lease_findById (rp_leaseId p) (database w') = Some (rr_lease r)
        \<and> (\<forall>j. j \<noteq> rp_leaseId p \<longrightarrow> lease_findById j (database w') = lease_findById j (database w))
        \<and> task_findById (l_taskId l) (database w') = Some (rr_task r)
        \<and> (\<forall>j. j \<noteq> l_taskId l \<longrightarrow> task_findById j (database w') = task_findById j (database w))
        \<and> (if t_status t \<notin> {TaskStatus.ASSIGNED, TaskStatus.IN_DEVELOPMENT} then rr_task r = t
           else t_currentLeaseId (rr_task r) = None \<and> t_version (rr_task r) = t_version t + 1
             \<and> (if t_retryCount t < max_attempts (rp_retryPolicy p)
                   \<and> (require_failure_summary_packet (rp_retryPolicy p) \<longrightarrow> rp_hasFailureSummary p = Some True)
                then t_status (rr_task r) = TaskStatus.READY \<and> t_retryCount (rr_task r) = t_retryCount t + 1
                else t_retryCount (rr_task r) = t_retryCount t
                  \<and> t_status (rr_task r) =
                      (if EscalationTriggerAction_value (getTriggerAction HEARTBEAT_TIMEOUT (rp_escalationPolicy p))
                          = ''fail_then_escalate''
                       then TaskStatus.FAILED else TaskStatus.ESCALATED)))
        \<and> auditEvents (database w') = auditEvents (database w) @ [rr_auditEvent r]
        \<and> wf_db (database w')"
proof -
  have lease: "reclaimed_lease p l = l\<lparr>l_status := (if rp_reason p = worker_crashed then WorkerLeaseStatus.CRASHED
      else WorkerLeaseStatus.TIMED_OUT), l_reclaimReason := Some (ReclaimReason_value (rp_reason p))\<rparr>" for l
    by (cases "rp_reason p") (simp_all add: reclaimed_lease_def determineLeaseTargetState_def)
  have task: "if t_status t \<notin> {TaskStatus.ASSIGNED, TaskStatus.IN_DEVELOPMENT} then reclaimed_task env p t = t
           else t_currentLeaseId (reclaimed_task env p t) = None
             \<and> t_version (reclaimed_task env p t) = t_version t + 1
             \<and> (if t_retryCount t < max_attempts (rp_retryPolicy p)
                   \<and> (require_failure_summary_packet (rp_retryPolicy p) \<longrightarrow> rp_hasFailureSummary p = Some True)
                then t_status (reclaimed_task env p t) = TaskStatus.READY
                  \<and> t_retryCount (reclaimed_task env p t) = t_retryCount t + 1
                else t_retryCount (reclaimed_task env p t) = t_retryCount t
                  \<and> t_status (reclaimed_task env p t) =
                      (if EscalationTriggerAction_value (getTriggerAction HEARTBEAT_TIMEOUT (rp_escalationPolicy p))
                          = ''fail_then_escalate''
                       then TaskStatus.FAILED else TaskStatus.ESCALATED))" for t
    using evaluateTaskOutcome_cases[of t "rp_retryPolicy p" "rp_hasFailureSummary p = Some True"
        "rp_escalationPolicy p"]
    by (auto simp: reclaimed_task_def reclaim_outcome_def RECLAIM_ELIGIBLE_TASK_STATES_def split: if_splits)
  show ?thesis
  proof (cases "reclaimLease env p w")
    case (Pair res w')
    show ?thesis
    proof (cases res)
      case (Inl e)
      then show ?thesis using reclaim_lease_spec[OF assms, of p env] Pair by simp
    next
      case (Inr r)
      then obtain l t where "reclaimable p l t (database w)" "rr_lease r = reclaimed_lease p l"
        "rr_task r = reclaimed_task env p t"
        "lease_findById (rp_leaseId p) (database w') = Some (rr_lease r)"
        "\<forall>j. j \<noteq> rp_leaseId p \<longrightarrow> lease_findById j (database w') = lease_findById j (database w)"
        "task_findById (l_taskId l) (database w') = Some (rr_task r)"
        "\<forall>j. j \<noteq> l_taskId l \<longrightarrow> task_findById j (database w') = task_findById j (database w)"
        "auditEvents (database w') = auditEvents (database w) @ [rr_auditEvent r]" "wf_db (database w')"
        using reclaim_lease_spec[OF assms, of p env] Pair by auto
      moreover note lease[of l] task[of t]
      ultimately show ?thesis unfolding Pair Inr prod.case sum.case
        by (intro exI[of _ l] exI[of _ t] conjI) simp_all
    qed
  qed
qed

definition reclaim_params :: ReclaimLeaseParams where
  "reclaim_params = \<lparr>rp_leaseId = ''L1'', rp_reason = ReclaimReason.missed_heartbeats,
     rp_retryPolicy = createDefaultRetryPolicy, rp_escalationPolicy = createDefaultEscalationPolicy,
     rp_hasFailureSummary = Some True, rp_actor = example_actor, rp_metadata = None\<rparr>"

definition reclaim_env :: reclaimEnv where
  "reclaim_env = \<lparr>re_now = 300000, re_uuid = ''u9'', re_leaseEventAt = 300001, re_taskEventAt = 300002\<rparr>"

theorem reclaim_lease_behaviour_witness:
  "\<exists>r w'. reclaimLease reclaim_env reclaim_params running_world = (Inr r, w')
     \<and> l_status (rr_lease r) = WorkerLeaseStatus.TIMED_OUT
     \<and> (\<exists>i. task_findById i (database w') = Some (rr_task r)) \<and> t_status (rr_task r) = TaskStatus.READY"
proof -
  have "case reclaimLease reclaim_env reclaim_params running_world of (Inl _, _) \<Rightarrow> False
      | (Inr r, _) \<Rightarrow> t_status (rr_task r) = TaskStatus.READY" by code_simp
  then obtain r w' where r: "reclaimLease reclaim_env reclaim_params running_world = (Inr r, w')"
    "t_status (rr_task r) = TaskStatus.READY" by (auto split: sum.splits prod.splits)
  then obtain l :: TaskLease where "rr_lease r = l\<lparr>l_status := WorkerLeaseStatus.TIMED_OUT,
      l_reclaimReason := Some (ReclaimReason_value (rp_reason reclaim_params))\<rparr>"
    "task_findById (l_taskId l) (database w') = Some (rr_task r)"
    using reclaim_lease_behaviour[OF running_world_wf, of reclaim_params reclaim_env]
    by (auto simp: reclaim_params_def)
  with r show ?thesis by auto
qed

lemma reclaimLease_exclusive:
  assumes "wf_db (database w)" and "exclusive (database w)"
  shows "wf_db (database (snd (reclaimLease env p w))) \<and> exclusive (database (snd (reclaimLease env p w)))"
proof (cases "reclaimLease env p w")
  case (Pair r w')
  show ?thesis
  proof (cases r)
    case (Inl e)
    then show ?thesis using reclaim_lease_spec[OF assms(1), of p env] Pair assms by simp
  next
    case (Inr x)
    then have s: "wf_db (database w')" "taskLeases (database w')
        = update_where (\<lambda>r. l_leaseId r = rp_leaseId p) (reclaimed_lease p) (taskLeases (database w))"
      using reclaim_lease_spec[OF assms(1), of p env] Pair by auto
    have "\<not> active_lease (reclaimed_lease p l)" for l
      by (cases "rp_reason p") (simp_all add: reclaimed_lease_def active_lease_iff determineLeaseTargetState_def)
    then have "exclusive (database w\<lparr>taskLeases := taskLeases (database w')\<rparr>)"
      unfolding s(2) by (intro exclusive_update[OF assms(2)]) (simp_all add: reclaimed_lease_def)
    then have "exclusive (database w')" by (simp add: exclusive_def active_leases_def)
    with s(1) Pair show ?thesis by simp
  qed
qed

subsection \<open>The defaults the control plane uses\<close>

text \<open>
  With the default retry policy and no failure summary, the parameters of both callers
  (\<open>reconciliation-sweep.service.ts\<close> and \<open>automation.service.ts\<close>), a reclaimed task is never
  retried: it is escalated at its first failure.
\<close>

lemma default_reclaim_escalates:
  "to_outcome (evaluateTaskOutcome t createDefaultRetryPolicy createDefaultEscalationPolicy False) = escalated"
  using evaluateTaskOutcome_cases[of t createDefaultRetryPolicy False createDefaultEscalationPolicy]
  by (simp add: createDefaultRetryPolicy_def DEFAULT_RETRY_POLICY_def createDefaultEscalationPolicy_def
      DEFAULT_ESCALATION_POLICY_def getTriggerAction_def)

text \<open>A lease that is still \<open>LEASED\<close> can be reported stale but not reclaimed.\<close>

lemma leased_stale_not_reclaimable:
  assumes "wf_db (database w)" and "lease_findById (rp_leaseId p) (database w) = Some l"
    and "l_status l = WorkerLeaseStatus.LEASED" and "(l_expiresAt l + 1) * 1000 \<le> now"
  shows "l \<in> sl_lease ` set (detectStaleLeases now pol (database w))
    \<and> (\<exists>e. reclaimLease env p w = (Inl e, w))"
proof
  have "l \<in> set (taskLeases (database w))"
    using assms(2) by (auto simp: lease_findById_def dest: find_Some_iff_mem)
  then have "\<lparr>sl_lease = l, sl_reason = (if l_expiresAt l * 1000 < now then StalenessReason.ttl_expired
      else StalenessReason.missed_heartbeats)\<rparr> \<in> set (detectStaleLeases now pol (database w))"
    using assms by (simp add: stale_iff)
  then show "l \<in> sl_lease ` set (detectStaleLeases now pol (database w))" by force
  have "\<nexists>l t. reclaimable p l t (database w)" using assms by (auto simp: reclaimable_def)
  then show "\<exists>e. reclaimLease env p w = (Inl e, w)"
    using reclaim_lease_spec[OF assms(1), of p env] by (auto split: prod.splits sum.splits)
qed

end
