(* ===== verification/Completion.thy ===== *)
theory Completion
  imports Reclaim
begin

text \<open>
  \<open>packages/application/src/services/graceful-completion.service.ts\<close>: accepting a worker's result
  within the grace period.  The unit of work of its port is modelled by the write transaction and
  the lease and audit repositories the other services use.
\<close>

definition RESULT_ACCEPTING_STATES :: "WorkerLeaseStatus list" where
  "RESULT_ACCEPTING_STATES = [WorkerLeaseStatus.COMPLETING, WorkerLeaseStatus.TIMED_OUT]"

record AcceptResultParams =
  ar_leaseId :: string
  ar_workerId :: string
  ar_gracePeriodSeconds :: int
  ar_actor :: ActorInfo
  ar_metadata :: "json option"

record AcceptResultResult =
  arr_lease :: TaskLease
  arr_lateAcceptance :: bool
  arr_auditEvent :: AuditEventRecord

text \<open>The deadline in milliseconds; leases hold whole seconds.\<close>

definition computeGraceDeadline :: "TaskLease \<Rightarrow> int \<Rightarrow> int" where
  "computeGraceDeadline lease graceSeconds =
    (if l_status lease = WorkerLeaseStatus.COMPLETING then l_expiresAt lease * 1000
     else l_expiresAt lease * 1000 + graceSeconds * 1000)"

definition completionOldState :: "TaskLease \<Rightarrow> json" where
  "completionOldState lease = JObj
    [(''status'', JStr (WorkerLeaseStatus_value (l_status lease))),
     (''expiresAt'', JDate (l_expiresAt lease * 1000))]"

definition rejectionAudit :: "AcceptResultParams \<Rightarrow> TaskLease \<Rightarrow> int \<Rightarrow> int \<Rightarrow> NewAuditEvent" where
  "rejectionAudit params lease graceDeadline now =
    \<lparr>na_entityType = ''task-lease'', na_entityId = ar_leaseId params,
     na_eventType = ''lease.result-rejected'', na_actorType = actor_type (ar_actor params),
     na_actorId = actor_id (ar_actor params), na_oldState = Some (completionOldState lease),
     na_newState = Some (JObj [(''graceDeadline'', JDate graceDeadline), (''receivedAt'', JDate now),
        (''reason'', JStr ''grace_period_expired'')]),
     na_metadata = ar_metadata params\<rparr>"

definition acceptanceAudit :: "AcceptResultParams \<Rightarrow> TaskLease \<Rightarrow> bool \<Rightarrow> int \<Rightarrow> int \<Rightarrow> NewAuditEvent" where
  "acceptanceAudit params lease lateAcceptance graceDeadline now =
    \<lparr>na_entityType = ''task-lease'', na_entityId = ar_leaseId params,
     na_eventType = (if lateAcceptance then ''lease.result-accepted-late'' else ''lease.result-accepted''),
     na_actorType = actor_type (ar_actor params), na_actorId = actor_id (ar_actor params),
     na_oldState = Some (completionOldState lease),
     na_newState = Some (JObj [(''accepted'', JBool True), (''lateAcceptance'', JBool lateAcceptance),
        (''graceDeadline'', JDate graceDeadline), (''receivedAt'', JDate now)]),
     na_metadata = ar_metadata params\<rparr>"

text \<open>The service's clock in the transaction, the audit row's UUID and clock, the clock of the event.\<close>

record completionEnv =
  ce_now :: int
  ce_uuid :: string
  ce_auditNow :: int
  ce_emittedAt :: int

definition acceptResult_tx :: "completionEnv \<Rightarrow> AcceptResultParams \<Rightarrow> AcceptResultResult tx" where
  "acceptResult_tx env params =
    (let leaseId = ar_leaseId params in
     bindT (getT (lease_findById leaseId)) (\<lambda>found. case found of
       None \<Rightarrow> throwT (EntityNotFoundError ''TaskLease'' leaseId)
     | Some lease \<Rightarrow>
         if l_workerId lease \<noteq> ar_workerId params then
           throwT (WorkerMismatchError leaseId (l_workerId lease) (ar_workerId params))
         else if l_status lease \<notin> set RESULT_ACCEPTING_STATES then
           throwT (LeaseNotAcceptingResultsError leaseId (WorkerLeaseStatus_value (l_status lease)))
         else
           let now = ce_now env;
               graceDeadline = computeGraceDeadline lease (ar_gracePeriodSeconds params) in
           if now > graceDeadline then
             bindT (auditEvent_create (ce_uuid env) (ce_auditNow env)
               (rejectionAudit params lease graceDeadline now)) (\<lambda>_.
             throwT (GracePeriodExpiredError leaseId graceDeadline now))
           else
             let lateAcceptance = (l_status lease = WorkerLeaseStatus.TIMED_OUT) in
             bindT (auditEvent_create (ce_uuid env) (ce_auditNow env)
               (acceptanceAudit params lease lateAcceptance graceDeadline now)) (\<lambda>auditEvent.
             returnT \<lparr>arr_lease = lease, arr_lateAcceptance = lateAcceptance,
               arr_auditEvent = auditEvent\<rparr>)))"

definition acceptResult ::
  "completionEnv \<Rightarrow> AcceptResultParams \<Rightarrow> world \<Rightarrow> (app_error + AcceptResultResult) \<times> world" where
  "acceptResult env params =
    commit (acceptResult_tx env params)
      (\<lambda>r. [TaskLeaseTransitionedEvent (ar_leaseId params) (l_status (arr_lease r))
              (l_status (arr_lease r)) (ar_actor params) (ce_emittedAt env)])"

subsection \<open>What acceptance does\<close>

definition acceptable :: "completionEnv \<Rightarrow> AcceptResultParams \<Rightarrow> TaskLease \<Rightarrow> db \<Rightarrow> bool" where
  "acceptable env p l d \<longleftrightarrow> lease_findById (ar_leaseId p) d = Some l \<and> l_workerId l = ar_workerId p
     \<and> (l_status l = WorkerLeaseStatus.COMPLETING \<and> ce_now env \<le> l_expiresAt l * 1000
        \<or> l_status l = WorkerLeaseStatus.TIMED_OUT
          \<and> ce_now env \<le> (l_expiresAt l + ar_gracePeriodSeconds p) * 1000)"

lemma accept_result_spec:
  assumes "wf_db (database w)"
  shows "case acceptResult env p w of
      (Inl e, w') \<Rightarrow> w' = w
        \<and> ((\<nexists>l. acceptable env p l (database w)) \<or> ce_uuid env \<in> set (map ae_id (auditEvents (database w))))
    | (Inr r, w') \<Rightarrow> acceptable env p (arr_lease r) (database w)
        \<and> arr_lateAcceptance r = (l_status (arr_lease r) = WorkerLeaseStatus.TIMED_OUT)
        \<and> database w' = (database w)\<lparr>auditEvents := auditEvents (database w) @ [arr_auditEvent r]\<rparr>
        \<and> ae_eventType (arr_auditEvent r) = (if arr_lateAcceptance r then ''lease.result-accepted-late''
             else ''lease.result-accepted'')
        \<and> wf_db (database w')"
proof (cases "\<exists>l. acceptable env p l (database w)")
  case False
  show ?thesis
  proof (cases "lease_findById (ar_leaseId p) (database w)")
    case None
    with False show ?thesis 
      by (simp add: acceptResult_def acceptResult_tx_def commit_def writeTransaction_def Let_def)
  next
    case (Some l)
    have late: "l_status l \<in> set RESULT_ACCEPTING_STATES \<Longrightarrow> l_workerId l = ar_workerId p \<Longrightarrow>
        computeGraceDeadline l (ar_gracePeriodSeconds p) < ce_now env"
      using False Some by (auto simp: acceptable_def computeGraceDeadline_def RESULT_ACCEPTING_STATES_def)
    then have "\<exists>e d'. acceptResult_tx env p (database w) = (Inl e, d')"
      using Some by (auto simp: acceptResult_tx_def Let_def bindT_apply split: prod.split sum.split)
    with False show ?thesis by (auto simp: acceptResult_def commit_def writeTransaction_def)
  qed
next
  case True
  then obtain l where l: "acceptable env p l (database w)" by blast
  let ?dl = "computeGraceDeadline l (ar_gracePeriodSeconds p)"
  let ?ev = "acceptanceAudit p l (l_status l = WorkerLeaseStatus.TIMED_OUT) ?dl (ce_now env)"
  let ?f = "\<lambda>a. \<lparr>arr_lease = l, arr_lateAcceptance = (l_status l = WorkerLeaseStatus.TIMED_OUT),
      arr_auditEvent = a\<rparr>"
  have "\<not> ?dl < ce_now env" using l by (auto simp: acceptable_def computeGraceDeadline_def)
  then have body: "acceptResult_tx env p (database w) =
      bindT (auditEvent_create (ce_uuid env) (ce_auditNow env) ?ev) (\<lambda>a. returnT (?f a)) (database w)"
    using l by (auto simp: acceptResult_tx_def Let_def acceptable_def RESULT_ACCEPTING_STATES_def)
  show ?thesis
  proof (rule audit_last_cases[OF assms, of "ce_uuid env" "ce_auditNow env" ?ev ?f], goal_cases)
    case 1
    then show ?case using body by (simp add: acceptResult_def commit_def writeTransaction_def)
  next
    case (2 a)
    then show ?case using body l
      by (simp add: acceptResult_def commit_def writeTransaction_def acceptanceAudit_def)
  qed
qed

text \<open>
  Graceful completion.  A result is accepted exactly from the worker that holds the lease (with
  a new audit key), and either the lease is \<open>COMPLETING\<close> and has not expired, or it \<open>TIMED_OUT\<close> and the
  result comes within the grace period after the expiry, which the result marks as late.  Acceptance
  adds one audit event and changes no lease and no task.  A refusal leaves nothing behind, not even
  the rejection event the code writes just before it throws.
\<close>

lemma accept_result_behaviour:
  assumes "wf_db (database w)"
  shows "case acceptResult env p w of
      (Inl e, w') \<Rightarrow> w' = w
        \<and> ((\<nexists>l. acceptable env p l (database w)) \<or> ce_uuid env \<in> set (map ae_id (auditEvents (database w))))
    | (Inr r, w') \<Rightarrow> acceptable env p (arr_lease r) (database w)
        \<and> arr_lateAcceptance r = (l_status (arr_lease r) = WorkerLeaseStatus.TIMED_OUT)
        \<and> database w' = (database w)\<lparr>auditEvents := auditEvents (database w) @ [arr_auditEvent r]\<rparr>
        \<and> ae_eventType (arr_auditEvent r) = (if arr_lateAcceptance r then ''lease.result-accepted-late''
             else ''lease.result-accepted'')
        \<and> wf_db (database w')"
  by (rule accept_result_spec[OF assms])

definition completed_world :: world where
  "completed_world = running_world\<lparr>database := (database running_world)\<lparr>taskLeases :=
     [running_lease\<lparr>l_status := WorkerLeaseStatus.TIMED_OUT\<rparr>]\<rparr>\<rparr>"

definition accept_params :: AcceptResultParams where
  "accept_params = \<lparr>ar_leaseId = ''L1'', ar_workerId = ''W'', ar_gracePeriodSeconds = 15,
     ar_actor = example_actor, ar_metadata = None\<rparr>"

definition accept_env :: "int \<Rightarrow> completionEnv" where
  "accept_env now = \<lparr>ce_now = now, ce_uuid = ''u7'', ce_auditNow = now, ce_emittedAt = now\<rparr>"

end
