(* ===== verification/OperatorActions.thy ===== *)
theory OperatorActions
  imports Lease
begin

text \<open>
  \<open>apps/control-plane/src/operator-actions/\<close>: the actions by which an operator pauses, resumes,
  requeues, unblocks, cancels, resolves or reopens a task, changes its priority or pool, reruns its
  review or reorders the merge queue.  \<open>operator-action-guards.ts\<close> are the checks made before an
  action, \<open>operator-actions.service.ts\<close> the actions themselves: most go through the transition
  service, two override the state machine, and the rest write metadata.

  The dash and the arrow of the source's messages are written \<open>--\<close> and \<open>->\<close>.
\<close>

subsection \<open>Guards\<close>

definition SENSITIVE_ACTIONS :: "string list" where
  "SENSITIVE_ACTIONS = [''force_unblock'', ''override_merge_order'', ''reopen'', ''resolve_escalation_mark_done'']"

definition getAuditSeverity :: "string \<Rightarrow> string" where
  "getAuditSeverity act = (if act \<in> set SENSITIVE_ACTIONS then ''elevated'' else ''normal'')"

definition IN_PROGRESS_STATES :: "TaskStatus list" where
  "IN_PROGRESS_STATES = [TaskStatus.IN_DEVELOPMENT, TaskStatus.MERGING]"

datatype EscalationResolutionType = retry | cancel_task | mark_done

definition guardForceUnblock :: "string \<Rightarrow> string \<Rightarrow> db \<Rightarrow> app_error option" where
  "guardForceUnblock taskId why d =
    (if length (trim why) = 0 then
       Some (BadRequestException (''force_unblock requires a non-empty reason explaining why the ''
         @ ''dependency is being bypassed. This is a sensitive action that ''
         @ ''will be logged with elevated audit severity.''))
     else case task_findById taskId d of
       None \<Rightarrow> None
     | Some task \<Rightarrow>
         if t_status task \<noteq> TaskStatus.BLOCKED then
           Some (BadRequestException (''Cannot force-unblock task \"'' @ taskId @ ''\" in state \"''
             @ TaskStatus_value (t_status task) @ ''\". Task must be in BLOCKED state. Current state: ''
             @ TaskStatus_value (t_status task) @ ''.''))
         else None)"

definition guardReopen :: "string \<Rightarrow> db \<Rightarrow> app_error option" where
  "guardReopen taskId d =
    (case task_findById taskId d of
       None \<Rightarrow> None
     | Some task \<Rightarrow>
         if t_status task \<notin> set [TaskStatus.DONE, TaskStatus.FAILED, TaskStatus.CANCELLED] then
           Some (BadRequestException (''Cannot reopen task \"'' @ taskId @ ''\" in state \"''
             @ TaskStatus_value (t_status task)
             @ ''\". Task must be in a terminal state (DONE, FAILED, CANCELLED).''))
         else (case lease_findActiveByTaskId taskId d of
           None \<Rightarrow> None
         | Some activeLease \<Rightarrow>
             Some (BadRequestException (''Cannot reopen task \"'' @ taskId
               @ ''\" because it has an active lease (lease ID: \"'' @ l_leaseId activeLease
               @ ''\", status: \"'' @ WorkerLeaseStatus_value (l_status activeLease)
               @ ''\"). The lease must reach a terminal state (COMPLETED, TIMED_OUT, CRASHED, ''
               @ ''or RECLAIMED) before the task can be reopened. This prevents ''
               @ ''inconsistent state where a worker holds a lease on a BACKLOG task.''))))"

definition guardCancel :: "string \<Rightarrow> bool option \<Rightarrow> db \<Rightarrow> app_error option" where
  "guardCancel taskId acknowledgeInProgressWork d =
    (case task_findById taskId d of
       None \<Rightarrow> None
     | Some task \<Rightarrow>
         if t_status task = TaskStatus.MERGING then
           Some (BadRequestException (''Cannot cancel task \"'' @ taskId @ ''\" while it is in MERGING state. ''
             @ ''A merge operation is actively in progress. Wait for the merge ''
             @ ''to complete or fail before cancelling. Cancelling during a merge ''
             @ ''could leave the repository in an inconsistent state.''))
         else if t_status task \<in> set IN_PROGRESS_STATES \<and> acknowledgeInProgressWork \<noteq> Some True then
           Some (BadRequestException (''Task \"'' @ taskId @ ''\" is in \"''
             @ TaskStatus_value (t_status task) @ ''\" state with active work in progress. ''
             @ ''Set \"acknowledgeInProgressWork: true\" in the request ''
             @ ''body to confirm you want to cancel this task and discard the in-progress work.''))
         else None)"

definition guardOverrideMergeOrder :: "string \<Rightarrow> db \<Rightarrow> app_error option" where
  "guardOverrideMergeOrder taskId d =
    (case task_findById taskId d of
       None \<Rightarrow> None
     | Some task \<Rightarrow>
         if t_status task \<noteq> TaskStatus.QUEUED_FOR_MERGE then
           Some (BadRequestException (''Cannot override merge order for task \"'' @ taskId @ ''\" in state \"''
             @ TaskStatus_value (t_status task) @ ''\". Task must be in QUEUED_FOR_MERGE state.''))
         else None)"

definition guardResolveEscalation ::
  "string \<Rightarrow> EscalationResolutionType \<Rightarrow> string option \<Rightarrow> db \<Rightarrow> app_error option" where
  "guardResolveEscalation taskId resolutionType evidence d =
    (case task_findById taskId d of
       None \<Rightarrow> None
     | Some task \<Rightarrow>
         if t_status task \<noteq> TaskStatus.ESCALATED then
           Some (BadRequestException (''Cannot resolve escalation for task \"'' @ taskId @ ''\" in state \"''
             @ TaskStatus_value (t_status task) @ ''\". Task must be in ESCALATED state.''))
         else if resolutionType = mark_done
             \<and> (case evidence of None \<Rightarrow> True | Some e \<Rightarrow> length (trim e) = 0) then
           Some (BadRequestException (''resolve_escalation with \"mark_done\" requires non-empty evidence ''
             @ ''explaining how the task was completed externally. This is a sensitive ''
             @ ''action that bypasses normal quality checks and will be logged with ''
             @ ''elevated audit severity.''))
         else None)"

subsection \<open>Actions\<close>

record auditSummary =
  as_id :: string
  as_eventType :: string
  as_actorType :: string
  as_actorId :: string
  as_createdAt :: int

record OperatorActionResult =
  oa_task :: Task
  oa_auditEvent :: auditSummary

definition summarize :: "AuditEventRecord \<Rightarrow> auditSummary" where
  "summarize a = \<lparr>as_id = ae_id a, as_eventType = ae_eventType a, as_actorType = ae_actorType a,
     as_actorId = ae_actorId a, as_createdAt = ae_createdAt a\<rparr>"

type_synonym action_result = "(app_error + OperatorActionResult) \<times> world"

definition task_not_found :: "string \<Rightarrow> app_error" where
  "task_not_found taskId = NotFoundException (''Task with ID \"'' @ taskId @ ''\" not found'')"

definition getTaskOrThrow :: "string \<Rightarrow> db \<Rightarrow> app_error + Task" where
  "getTaskOrThrow taskId d = (case task_findById taskId d of
     None \<Rightarrow> Inl (task_not_found taskId)
   | Some task \<Rightarrow> Inr task)"

definition InvalidTransitionError_message :: "string \<Rightarrow> string \<Rightarrow> string \<Rightarrow> string \<Rightarrow> string option \<Rightarrow> string" where
  "InvalidTransitionError_message entityType entityId fromStatus toStatus why =
    (let base = ''Invalid transition for '' @ entityType @ '' '' @ entityId @ '': '' @ fromStatus
           @ '' -> '' @ toStatus
     in case why of
          None \<Rightarrow> base
        | Some r \<Rightarrow> if r = [] then base else base @ '' -- '' @ r)"

definition translateError :: "string \<Rightarrow> app_error \<Rightarrow> app_error" where
  "translateError taskId err = (case err of
     EntityNotFoundError _ _ \<Rightarrow> task_not_found taskId
   | InvalidTransitionError ty i f t r \<Rightarrow> BadRequestException (InvalidTransitionError_message ty i f t r)
   | VersionConflictError _ _ _ \<Rightarrow>
       BadRequestException (''Task \"'' @ taskId @ ''\" was modified concurrently. Re-read and retry.'')
   | _ \<Rightarrow> err)"

definition executeTransitionAction ::
  "txEnv \<Rightarrow> string \<Rightarrow> TaskStatus \<Rightarrow> TransitionContext \<Rightarrow> ActorInfo \<Rightarrow> json \<Rightarrow> world \<Rightarrow> action_result" where
  "executeTransitionAction env taskId targetStatus context actor metadata w =
    (case transitionTask env taskId targetStatus context actor (Some metadata) w of
       (Inl err, w') \<Rightarrow> (Inl (translateError taskId err), w')
     | (Inr result, w') \<Rightarrow>
         (case getTaskOrThrow taskId (database w') of
            Inl err \<Rightarrow> (Inl (translateError taskId err), w')
          | Inr fullTask \<Rightarrow>
              (Inr \<lparr>oa_task = fullTask, oa_auditEvent = summarize (tr_auditEvent result)\<rparr>, w')))"

definition executeOverrideAction ::
  "txEnv \<Rightarrow> string \<Rightarrow> TaskStatus \<Rightarrow> TaskStatus list \<Rightarrow> string \<Rightarrow> string \<Rightarrow> string \<Rightarrow> world \<Rightarrow> action_result" where
  "executeOverrideAction env taskId targetStatus validSourceStates actorId act why =
    commit
      (bindT (getT (task_findById taskId)) (\<lambda>found. case found of
         None \<Rightarrow> throwT (task_not_found taskId)
       | Some task \<Rightarrow>
           if t_status task \<notin> set validSourceStates then
             throwT (BadRequestException (''Cannot perform \"'' @ act @ ''\" on task \"'' @ taskId
               @ ''\" in state \"'' @ TaskStatus_value (t_status task) @ ''\". Valid source states: ''
               @ join_strings '', '' (map TaskStatus_value validSourceStates) @ ''.''))
           else
             let resetFields = (\<lambda>r. if targetStatus = TaskStatus.BACKLOG
                   then r\<lparr>t_status := targetStatus, t_completedAt := None, t_currentLeaseId := None,
                          t_currentReviewCycleId := None, t_mergeQueueItemId := None\<rparr>
                   else r\<lparr>t_status := targetStatus\<rparr>) in
             bindT (task_update (env_now env) taskId (t_version task) resetFields) (\<lambda>updated.
             bindT (auditEvent_create (env_uuid env) (env_now env)
               \<lparr>na_entityType = ''task'', na_entityId = taskId, na_eventType = ''task.operator.'' @ act,
                na_actorType = ''operator'', na_actorId = actorId,
                na_oldState = Some (JObj [(''status'', JStr (TaskStatus_value (t_status task))),
                                          (''version'', JNum (t_version task))]),
                na_newState = Some (JObj [(''status'', JStr (TaskStatus_value targetStatus)),
                                          (''version'', JNum (t_version updated))]),
                na_metadata = Some (JObj [(''action'', JStr act), (''reason'', JStr why),
                                          (''auditSeverity'', JStr (getAuditSeverity act))])\<rparr>) (\<lambda>auditRow.
             returnT \<lparr>oa_task = updated, oa_auditEvent = summarize auditRow\<rparr>))))
      (\<lambda>_. [])"

abbreviation operator :: "string \<Rightarrow> ActorInfo" where
  "operator actorId \<equiv> \<lparr>actor_type = ''operator'', actor_id = actorId\<rparr>"

definition pause :: "txEnv \<Rightarrow> string \<Rightarrow> string \<Rightarrow> string \<Rightarrow> world \<Rightarrow> action_result" where
  "pause env taskId actorId why =
    executeTransitionAction env taskId TaskStatus.ESCALATED (emptyContext\<lparr>isOperator := Some True\<rparr>)
      (operator actorId) (JObj [(''action'', JStr ''pause''), (''reason'', JStr why)])"

definition resume :: "txEnv \<Rightarrow> string \<Rightarrow> string \<Rightarrow> string \<Rightarrow> world \<Rightarrow> action_result" where
  "resume env taskId actorId why w =
    (case task_findById taskId (database w) of
       None \<Rightarrow> (Inl (task_not_found taskId), w)
     | Some task \<Rightarrow>
         if t_status task \<noteq> TaskStatus.ESCALATED then
           (Inl (BadRequestException (''Cannot resume task \"'' @ taskId @ ''\" in state \"''
              @ TaskStatus_value (t_status task) @ ''\". Task must be in ESCALATED state.'')), w)
         else
           executeTransitionAction env taskId TaskStatus.ASSIGNED
             (emptyContext\<lparr>isOperator := Some True, TransitionContext.leaseAcquired := Some True\<rparr>)
             (operator actorId) (JObj [(''action'', JStr ''resume''), (''reason'', JStr why)]) w)"

definition requeue :: "txEnv \<Rightarrow> string \<Rightarrow> string \<Rightarrow> string \<Rightarrow> world \<Rightarrow> action_result" where
  "requeue env taskId actorId why =
    executeTransitionAction env taskId TaskStatus.READY
      (emptyContext\<lparr>leaseReclaimedRetryEligible := Some True\<rparr>)
      (operator actorId) (JObj [(''action'', JStr ''requeue''), (''reason'', JStr why)])"

definition guarded :: "app_error option \<Rightarrow> (world \<Rightarrow> action_result) \<Rightarrow> world \<Rightarrow> action_result" where
  "guarded g run w = (case g of Some e \<Rightarrow> (Inl e, w) | None \<Rightarrow> run w)"

definition forceUnblock :: "txEnv \<Rightarrow> string \<Rightarrow> string \<Rightarrow> string \<Rightarrow> world \<Rightarrow> action_result" where
  "forceUnblock env taskId actorId why w =
    guarded (guardForceUnblock taskId why (database w))
      (executeTransitionAction env taskId TaskStatus.READY
        (emptyContext\<lparr>allDependenciesResolved := Some True, hasPolicyBlockers := Some False\<rparr>)
        (operator actorId)
        (JObj [(''action'', JStr ''force_unblock''), (''reason'', JStr why),
               (''auditSeverity'', JStr (getAuditSeverity ''force_unblock''))])) w"

definition cancel :: "txEnv \<Rightarrow> string \<Rightarrow> string \<Rightarrow> string \<Rightarrow> bool option \<Rightarrow> world \<Rightarrow> action_result" where
  "cancel env taskId actorId why acknowledgeInProgressWork w =
    guarded (guardCancel taskId acknowledgeInProgressWork (database w))
      (executeTransitionAction env taskId TaskStatus.CANCELLED (emptyContext\<lparr>isOperator := Some True\<rparr>)
        (operator actorId) (JObj [(''action'', JStr ''cancel''), (''reason'', JStr why)])) w"

record ResolveEscalationDto =
  rs_actorId :: string
  rs_reason :: string
  rs_resolutionType :: EscalationResolutionType
  rs_poolId :: "string option"
  rs_evidence :: "string option"

text \<open>
  A retry with another pool writes a second audit event in a transaction of its own; \<open>env2\<close> is what
  that transaction draws.
\<close>

definition recordPool :: "txEnv \<Rightarrow> string \<Rightarrow> ResolveEscalationDto \<Rightarrow> string \<Rightarrow> unit tx" where
  "recordPool env taskId dto poolId =
    bindT (auditEvent_create (env_uuid env) (env_now env)
      \<lparr>na_entityType = ''task'', na_entityId = taskId, na_eventType = ''task.operator.reassign_pool'',
       na_actorType = ''operator'', na_actorId = rs_actorId dto, na_oldState = None,
       na_newState = Some (JObj [(''poolId'', JStr poolId)]),
       na_metadata = Some (JObj [(''action'', JStr ''resolve_escalation_reassign_pool''),
         (''poolId'', JStr poolId), (''reason'', JStr (rs_reason dto))])\<rparr>) (\<lambda>_. returnT ())"

definition resolveEscalation :: "txEnv \<Rightarrow> txEnv \<Rightarrow> string \<Rightarrow> ResolveEscalationDto \<Rightarrow> world \<Rightarrow> action_result" where
  "resolveEscalation env env2 taskId dto w =
    guarded (guardResolveEscalation taskId (rs_resolutionType dto) (rs_evidence dto) (database w)) (\<lambda>w.
      let actor = operator (rs_actorId dto) in
      case rs_resolutionType dto of
        retry \<Rightarrow>
          (let pool = (case rs_poolId dto of Some p \<Rightarrow> if p = [] then None else Some p | None \<Rightarrow> None);
               context = emptyContext\<lparr>isOperator := Some True, TransitionContext.leaseAcquired := Some True\<rparr>;
               metadata = JObj ([(''action'', JStr ''resolve_escalation''), (''resolutionType'', JStr ''retry''),
                 (''reason'', JStr (rs_reason dto))]
                 @ (case pool of Some p \<Rightarrow> [(''poolId'', JStr p)] | None \<Rightarrow> []))
           in case executeTransitionAction env taskId TaskStatus.ASSIGNED context actor metadata w of
                (Inl e, w') \<Rightarrow> (Inl e, w')
              | (Inr result, w') \<Rightarrow>
                  (case pool of
                     None \<Rightarrow> (Inr result, w')
                   | Some p \<Rightarrow>
                       (case commit (recordPool env2 taskId dto p) (\<lambda>_. []) w' of
                          (Inl e, w'') \<Rightarrow> (Inl e, w'')
                        | (Inr _, w'') \<Rightarrow> (Inr result, w''))))
      | cancel_task \<Rightarrow>
          executeTransitionAction env taskId TaskStatus.CANCELLED (emptyContext\<lparr>isOperator := Some True\<rparr>) actor
            (JObj [(''action'', JStr ''resolve_escalation''), (''resolutionType'', JStr ''cancel''),
               (''reason'', JStr (rs_reason dto))]) w
      | mark_done \<Rightarrow>
          executeTransitionAction env taskId TaskStatus.DONE (emptyContext\<lparr>isOperator := Some True\<rparr>) actor
            (JObj ([(''action'', JStr ''resolve_escalation''), (''resolutionType'', JStr ''mark_done''),
               (''reason'', JStr (rs_reason dto))]
               @ (case rs_evidence dto of Some e \<Rightarrow> [(''evidence'', JStr e)] | None \<Rightarrow> [])
               @ [(''auditSeverity'', JStr (getAuditSeverity ''resolve_escalation_mark_done''))])) w) w"

record ChangePriorityActionDto =
  cp_actorId :: string
  cp_priority :: TaskPriority
  cp_reason :: "string option"

definition changePriority :: "txEnv \<Rightarrow> string \<Rightarrow> ChangePriorityActionDto \<Rightarrow> world \<Rightarrow> action_result" where
  "changePriority env taskId dto =
    commit
      (bindT (getT (task_findById taskId)) (\<lambda>found. case found of
         None \<Rightarrow> throwT (task_not_found taskId)
       | Some task \<Rightarrow>
           bindT (task_update (env_now env) taskId (t_version task) (\<lambda>r. r\<lparr>t_priority := cp_priority dto\<rparr>)) (\<lambda>updated.
           bindT (auditEvent_create (env_uuid env) (env_now env)
             \<lparr>na_entityType = ''task'', na_entityId = taskId, na_eventType = ''task.operator.change_priority'',
              na_actorType = ''operator'', na_actorId = cp_actorId dto,
              na_oldState = Some (JObj [(''priority'', JStr (TaskPriority_value (t_priority task)))]),
              na_newState = Some (JObj [(''priority'', JStr (TaskPriority_value (cp_priority dto)))]),
              na_metadata = Some (JObj ((''action'', JStr ''change_priority'')
                # (case cp_reason dto of Some r \<Rightarrow> if r = [] then [] else [(''reason'', JStr r)] | None \<Rightarrow> [])))\<rparr>)
             (\<lambda>auditRow.
           returnT \<lparr>oa_task = updated, oa_auditEvent = summarize auditRow\<rparr>))))
      (\<lambda>_. [])"

record ReassignPoolActionDto =
  ra_actorId :: string
  ra_poolId :: string
  ra_reason :: string

definition reassignPool :: "txEnv \<Rightarrow> string \<Rightarrow> ReassignPoolActionDto \<Rightarrow> world \<Rightarrow> action_result" where
  "reassignPool env taskId dto =
    commit
      (bindT (getT (task_findById taskId)) (\<lambda>found. case found of
         None \<Rightarrow> throwT (task_not_found taskId)
       | Some task \<Rightarrow>
           if isTerminalState (t_status task) then
             throwT (BadRequestException (''Cannot reassign pool for task \"'' @ taskId
               @ ''\" in terminal state \"'' @ TaskStatus_value (t_status task) @ ''\"''))
           else
             bindT (auditEvent_create (env_uuid env) (env_now env)
               \<lparr>na_entityType = ''task'', na_entityId = taskId, na_eventType = ''task.operator.reassign_pool'',
                na_actorType = ''operator'', na_actorId = ra_actorId dto, na_oldState = None,
                na_newState = Some (JObj [(''poolId'', JStr (ra_poolId dto))]),
                na_metadata = Some (JObj [(''action'', JStr ''reassign_pool''),
                  (''poolId'', JStr (ra_poolId dto)), (''reason'', JStr (ra_reason dto))])\<rparr>) (\<lambda>auditRow.
             returnT \<lparr>oa_task = task, oa_auditEvent = summarize auditRow\<rparr>)))
      (\<lambda>_. [])"

definition rerunReview :: "txEnv \<Rightarrow> string \<Rightarrow> string \<Rightarrow> string \<Rightarrow> world \<Rightarrow> action_result" where
  "rerunReview env taskId actorId why =
    executeOverrideAction env taskId TaskStatus.DEV_COMPLETE [TaskStatus.APPROVED, TaskStatus.IN_REVIEW]
      actorId ''rerun_review'' why"

record OverrideMergeOrderActionDto =
  om_actorId :: string
  om_position :: int
  om_reason :: "string option"

definition overrideMergeOrder :: "txEnv \<Rightarrow> string \<Rightarrow> OverrideMergeOrderActionDto \<Rightarrow> world \<Rightarrow> action_result" where
  "overrideMergeOrder env taskId dto w =
    guarded (guardOverrideMergeOrder taskId (database w))
      (commit
        (bindT (getT (task_findById taskId)) (\<lambda>found. case found of
           None \<Rightarrow> throwT (task_not_found taskId)
         | Some task \<Rightarrow>
             if t_status task \<noteq> TaskStatus.QUEUED_FOR_MERGE then
               throwT (BadRequestException (''Cannot override merge order for task \"'' @ taskId
                 @ ''\" in state \"'' @ TaskStatus_value (t_status task)
                 @ ''\". Task must be in QUEUED_FOR_MERGE state.''))
             else (case (case t_mergeQueueItemId task of Some q \<Rightarrow> q | None \<Rightarrow> []) of
               [] \<Rightarrow> throwT (BadRequestException (''Task \"'' @ taskId @ ''\" has no associated merge queue item.''))
             | c # cs \<Rightarrow>
                 let itemId = c # cs in
                 bindT (getT (item_findById itemId)) (\<lambda>mqItem.
                 bindT (auditEvent_create (env_uuid env) (env_now env)
                   \<lparr>na_entityType = ''merge_queue_item'', na_entityId = itemId,
                    na_eventType = ''merge_queue_item.operator.override_order'',
                    na_actorType = ''operator'', na_actorId = om_actorId dto,
                    na_oldState = map_option (\<lambda>q. JObj [(''position'', JNum (mq_position q))]) mqItem,
                    na_newState = Some (JObj [(''position'', JNum (om_position dto))]),
                    na_metadata = Some (JObj ([(''action'', JStr ''override_merge_order''),
                      (''taskId'', JStr taskId), (''position'', JNum (om_position dto)),
                      (''auditSeverity'', JStr (getAuditSeverity ''override_merge_order''))]
                      @ (case om_reason dto of Some r \<Rightarrow> if r = [] then [] else [(''reason'', JStr r)] | None \<Rightarrow> [])))\<rparr>)
                   (\<lambda>auditRow.
                 bindT (case mqItem of
                     None \<Rightarrow> returnT None
                   | Some _ \<Rightarrow> item_update itemId (\<lambda>q. q\<lparr>mq_position := om_position dto\<rparr>)) (\<lambda>_.
                 returnT \<lparr>oa_task = task, oa_auditEvent = summarize auditRow\<rparr>))))))
        (\<lambda>_. [])) w"

definition reopen :: "txEnv \<Rightarrow> string \<Rightarrow> string \<Rightarrow> string \<Rightarrow> world \<Rightarrow> action_result" where
  "reopen env taskId actorId why w =
    guarded (guardReopen taskId (database w))
      (executeOverrideAction env taskId TaskStatus.BACKLOG
        [TaskStatus.DONE, TaskStatus.FAILED, TaskStatus.CANCELLED] actorId ''reopen'' why) w"

text \<open>The routes of \<open>operator-actions.controller.ts\<close>, each of which calls one action.\<close>

record ReasonActionDto =
  ac_actorId :: string
  ac_reason :: string

datatype operator_request =
    PauseAction ReasonActionDto
  | ResumeAction ReasonActionDto
  | RequeueAction ReasonActionDto
  | ForceUnblockAction ReasonActionDto
  | ChangePriorityAction ChangePriorityActionDto
  | ReassignPoolAction ReassignPoolActionDto
  | RerunReviewAction ReasonActionDto
  | OverrideMergeOrderAction OverrideMergeOrderActionDto
  | ReopenAction ReasonActionDto
  | CancelAction ReasonActionDto "bool option"
  | ResolveEscalationAction ResolveEscalationDto

fun handle :: "txEnv \<Rightarrow> txEnv \<Rightarrow> string \<Rightarrow> operator_request \<Rightarrow> world \<Rightarrow> action_result" where
  "handle env env2 i (PauseAction dto) = pause env i (ac_actorId dto) (ac_reason dto)"
| "handle env env2 i (ResumeAction dto) = resume env i (ac_actorId dto) (ac_reason dto)"
| "handle env env2 i (RequeueAction dto) = requeue env i (ac_actorId dto) (ac_reason dto)"
| "handle env env2 i (ForceUnblockAction dto) = forceUnblock env i (ac_actorId dto) (ac_reason dto)"
| "handle env env2 i (ChangePriorityAction dto') = changePriority env i dto'"
| "handle env env2 i (ReassignPoolAction dto'') = reassignPool env i dto''"
| "handle env env2 i (RerunReviewAction dto) = rerunReview env i (ac_actorId dto) (ac_reason dto)"
| "handle env env2 i (OverrideMergeOrderAction dto3) = overrideMergeOrder env i dto3"
| "handle env env2 i (ReopenAction dto) = reopen env i (ac_actorId dto) (ac_reason dto)"
| "handle env env2 i (CancelAction dto ack) = cancel env i (ac_actorId dto) (ac_reason dto) ack"
| "handle env env2 i (ResolveEscalationAction dto4) = resolveEscalation env env2 i dto4"

subsection \<open>What each action promises\<close>

text \<open>
  When an action is permitted on task \<open>t\<close>, what it makes of the row, who asked for it, whether it goes
  through the state machine (and so is announced), and whether it must be logged as sensitive.
\<close>

fun permitted :: "operator_request \<Rightarrow> Task \<Rightarrow> db \<Rightarrow> bool" where
  "permitted (PauseAction dto) t d \<longleftrightarrow>
    t_status t \<notin> {TaskStatus.DONE, TaskStatus.FAILED, TaskStatus.CANCELLED, TaskStatus.ESCALATED}"
| "permitted (ResumeAction dto) t d \<longleftrightarrow> t_status t = TaskStatus.ESCALATED"
| "permitted (RequeueAction dto) t d \<longleftrightarrow> t_status t \<in> {TaskStatus.ASSIGNED, TaskStatus.IN_DEVELOPMENT}"
| "permitted (ForceUnblockAction dto) t d \<longleftrightarrow> t_status t = TaskStatus.BLOCKED \<and> trim (ac_reason dto) \<noteq> []"
| "permitted (ChangePriorityAction dto') t d \<longleftrightarrow> True"
| "permitted (ReassignPoolAction dto'') t d \<longleftrightarrow>
    t_status t \<notin> {TaskStatus.DONE, TaskStatus.FAILED, TaskStatus.CANCELLED}"
| "permitted (RerunReviewAction dto) t d \<longleftrightarrow> t_status t \<in> {TaskStatus.APPROVED, TaskStatus.IN_REVIEW}"
| "permitted (OverrideMergeOrderAction dto3) t d \<longleftrightarrow>
    t_status t = TaskStatus.QUEUED_FOR_MERGE \<and> t_mergeQueueItemId t \<notin> {None, Some []}"
| "permitted (ReopenAction dto) t d \<longleftrightarrow>
    t_status t \<in> {TaskStatus.DONE, TaskStatus.FAILED, TaskStatus.CANCELLED} \<and> active_leases (t_taskId t) d = []"
| "permitted (CancelAction dto ack) t d \<longleftrightarrow>
    t_status t \<notin> {TaskStatus.DONE, TaskStatus.FAILED, TaskStatus.CANCELLED, TaskStatus.MERGING}
    \<and> (t_status t = TaskStatus.IN_DEVELOPMENT \<longrightarrow> ack = Some True)"
| "permitted (ResolveEscalationAction dto4) t d \<longleftrightarrow> t_status t = TaskStatus.ESCALATED
    \<and> (rs_resolutionType dto4 = mark_done \<longrightarrow> (\<exists>e. rs_evidence dto4 = Some e \<and> trim e \<noteq> []))"

fun target :: "operator_request \<Rightarrow> TaskStatus \<Rightarrow> TaskStatus" where
  "target (PauseAction dto) s = TaskStatus.ESCALATED"
| "target (ResumeAction dto) s = TaskStatus.ASSIGNED"
| "target (RequeueAction dto) s = TaskStatus.READY"
| "target (ForceUnblockAction dto) s = TaskStatus.READY"
| "target (RerunReviewAction dto) s = TaskStatus.DEV_COMPLETE"
| "target (ReopenAction dto) s = TaskStatus.BACKLOG"
| "target (CancelAction dto ack) s = TaskStatus.CANCELLED"
| "target (ResolveEscalationAction dto4) s = (case rs_resolutionType dto4 of
     retry \<Rightarrow> TaskStatus.ASSIGNED | cancel_task \<Rightarrow> TaskStatus.CANCELLED | mark_done \<Rightarrow> TaskStatus.DONE)"
| "target (ChangePriorityAction dto') s = s"
| "target (ReassignPoolAction dto'') s = s"
| "target (OverrideMergeOrderAction dto3) s = s"

fun effect :: "txEnv \<Rightarrow> operator_request \<Rightarrow> Task \<Rightarrow> Task" where
  "effect env (ReassignPoolAction dto'') t = t"
| "effect env (OverrideMergeOrderAction dto3) t = t"
| "effect env (ChangePriorityAction dto') t = t\<lparr>t_priority := cp_priority dto', t_version := t_version t + 1,
     t_updatedAt := env_now env div 1000\<rparr>"
| "effect env (ReopenAction dto) t = t\<lparr>t_status := TaskStatus.BACKLOG, t_completedAt := None,
     t_currentLeaseId := None, t_currentReviewCycleId := None, t_mergeQueueItemId := None,
     t_version := t_version t + 1, t_updatedAt := env_now env div 1000\<rparr>"
| "effect env req t = t\<lparr>t_status := target req (t_status t), t_version := t_version t + 1,
     t_updatedAt := env_now env div 1000\<rparr>"

fun reordered :: "operator_request \<Rightarrow> Task \<Rightarrow> MergeQueueItem list \<Rightarrow> MergeQueueItem list" where
  "reordered (OverrideMergeOrderAction dto3) t qs =
    map (\<lambda>q. if Some (mq_mergeQueueItemId q) = t_mergeQueueItemId t then q\<lparr>mq_position := om_position dto3\<rparr> else q) qs"
| "reordered req t qs = qs"

fun requester :: "operator_request \<Rightarrow> string" where
  "requester (ChangePriorityAction dto') = cp_actorId dto'"
| "requester (ReassignPoolAction dto'') = ra_actorId dto''"
| "requester (OverrideMergeOrderAction dto3) = om_actorId dto3"
| "requester (ResolveEscalationAction dto4) = rs_actorId dto4"
| "requester (PauseAction dto) = ac_actorId dto"
| "requester (ResumeAction dto) = ac_actorId dto"
| "requester (RequeueAction dto) = ac_actorId dto"
| "requester (ForceUnblockAction dto) = ac_actorId dto"
| "requester (RerunReviewAction dto) = ac_actorId dto"
| "requester (ReopenAction dto) = ac_actorId dto"
| "requester (CancelAction dto ack) = ac_actorId dto"

fun announced :: "operator_request \<Rightarrow> bool" where
  "announced (ChangePriorityAction dto') \<longleftrightarrow> False"
| "announced (ReassignPoolAction dto'') \<longleftrightarrow> False"
| "announced (OverrideMergeOrderAction dto3) \<longleftrightarrow> False"
| "announced (RerunReviewAction dto) \<longleftrightarrow> False"
| "announced (ReopenAction dto) \<longleftrightarrow> False"
| "announced req \<longleftrightarrow> True"

fun sensitive :: "operator_request \<Rightarrow> bool" where
  "sensitive (ForceUnblockAction dto) \<longleftrightarrow> True"
| "sensitive (OverrideMergeOrderAction dto3) \<longleftrightarrow> True"
| "sensitive (ReopenAction dto) \<longleftrightarrow> True"
| "sensitive (ResolveEscalationAction dto4) \<longleftrightarrow> rs_resolutionType dto4 = mark_done"
| "sensitive req \<longleftrightarrow> False"

definition elevated :: "AuditEventRecord \<Rightarrow> bool" where
  "elevated a \<longleftrightarrow> (\<exists>kvs. ae_metadata a = Some (JObj kvs)
     \<and> (''auditSeverity'', JStr ''elevated'') \<in> set kvs)"

definition carried_out ::
  "txEnv \<Rightarrow> string \<Rightarrow> operator_request \<Rightarrow> Task \<Rightarrow> world \<Rightarrow> OperatorActionResult \<Rightarrow> world \<Rightarrow> bool" where
  "carried_out env i req t w r w' \<longleftrightarrow>
    (let d = database w; d' = database w'; t' = effect env req t in
     \<exists>a rows. d' = d\<lparr>tasks := tasks d', mergeQueueItems := reordered req t (mergeQueueItems d),
            auditEvents := auditEvents d @ a # rows\<rparr>
       \<and> task_findById i d' = Some t' \<and> (\<forall>j. j \<noteq> i \<longrightarrow> task_findById j d' = task_findById j d)
       \<and> oa_task r = t' \<and> oa_auditEvent r = summarize a
       \<and> (\<forall>e \<in> set (a # rows). ae_actorType e = ''operator'' \<and> ae_actorId e = requester req)
       \<and> (sensitive req \<longrightarrow> elevated a)
       \<and> emitted w' = emitted w @ (if announced req
            then [TaskTransitionedEvent i (t_status t) (t_status t') (t_version t + 1)
                    (operator (requester req)) (env_emittedAt env)] else [])
       \<and> wf_db d')"

subsection \<open>Actions that go through the state machine\<close>

lemma transition_action:
  assumes wf: "wf_db (database w)" and t: "task_findById i (database w) = Some t"
    and fresh: "env_uuid env \<notin> set (map ae_id (auditEvents (database w)))"
  shows "if valid (validateTransition (t_status t) s ctx)
    then \<exists>a w'. executeTransitionAction env i s ctx actor m w
          = (Inr \<lparr>oa_task = t\<lparr>t_status := s, t_version := t_version t + 1, t_updatedAt := env_now env div 1000\<rparr>,
                  oa_auditEvent = summarize a\<rparr>, w')
        \<and> task_committed env t s actor (Some m) a w w' \<and> t_taskId t = i
    else \<exists>msg. executeTransitionAction env i s ctx actor m w = (Inl (BadRequestException msg), w)"
proof (rule transitionTask_cases[OF wf, of env i s ctx actor "Some m"], goal_cases)
  case (1 err)
  then show ?case using t fresh by (auto simp: executeTransitionAction_def translateError_def)
next
  case (2 u a w')
  then show ?case using t
    by (auto simp: executeTransitionAction_def getTaskOrThrow_def task_committed_def Let_def)
qed

lemma transition_action_missing:
  assumes "wf_db (database w)" and "task_findById i (database w) = None"
  shows "executeTransitionAction env i s ctx actor m w = (Inl (task_not_found i), w)"
  by (rule transitionTask_cases[OF assms(1), of env i s ctx actor "Some m"])
     (use assms(2) in \<open>auto simp: executeTransitionAction_def translateError_def\<close>)

lemma announced_effect:
  assumes "announced req"
  shows "effect env req t = t\<lparr>t_status := target req (t_status t), t_version := t_version t + 1,
      t_updatedAt := env_now env div 1000\<rparr>" "reordered req t qs = qs"
  using assms by (cases req; simp)+

lemma machine_action:
  assumes "wf_db (database w)" and "task_findById i (database w) = Some t"
    and "env_uuid env \<notin> set (map ae_id (auditEvents (database w)))" and req: "announced req"
    and m: "sensitive req \<Longrightarrow> (''auditSeverity'', JStr ''elevated'') \<in> set kvs"
  shows "if valid (validateTransition (t_status t) (target req (t_status t)) ctx)
    then \<exists>r w'. executeTransitionAction env i (target req (t_status t)) ctx (operator (requester req)) (JObj kvs) w
          = (Inr r, w') \<and> carried_out env i req t w r w'
          \<and> map ae_id (auditEvents (database w')) = map ae_id (auditEvents (database w)) @ [env_uuid env]
    else \<exists>msg. executeTransitionAction env i (target req (t_status t)) ctx (operator (requester req)) (JObj kvs) w
          = (Inl (BadRequestException msg), w)"
proof (cases "valid (validateTransition (t_status t) (target req (t_status t)) ctx)")
  case True
  with transition_action[OF assms(1-3), of "target req (t_status t)" ctx "operator (requester req)" "JObj kvs"]
  obtain a w' where
    run: "executeTransitionAction env i (target req (t_status t)) ctx (operator (requester req)) (JObj kvs) w
      = (Inr \<lparr>oa_task = effect env req t, oa_auditEvent = summarize a\<rparr>, w')"
    and c: "task_committed env t (target req (t_status t)) (operator (requester req)) (Some (JObj kvs)) a w w'"
    and i: "t_taskId t = i"
    unfolding announced_effect(1)[OF req] if_P[OF True] by blast
  have "elevated a" if "sensitive req" using c m[OF that] by (auto simp: task_committed_def Let_def elevated_def)
  moreover have d': "database w' = database w\<lparr>tasks := tasks (database w'), auditEvents := auditEvents (database w) @ [a]\<rparr>"
    and a: "ae_id a = env_uuid env" using c by (simp_all add: task_committed_def Let_def)
  moreover have ids: "map ae_id (auditEvents (database w')) = map ae_id (auditEvents (database w)) @ [env_uuid env]"
    using arg_cong[OF d', of auditEvents] a by simp
  moreover from d' have "database w' = database w\<lparr>tasks := tasks (database w'), mergeQueueItems := mergeQueueItems (database w),
      auditEvents := auditEvents (database w) @ [a]\<rparr>"
    by (cases "database w"; cases "database w'"; simp)
  ultimately have "carried_out env i req t w \<lparr>oa_task = effect env req t, oa_auditEvent = summarize a\<rparr> w'"
    using c i req announced_effect[OF req]
    by (simp add: carried_out_def Let_def task_committed_def) (intro exI[of _ a] exI[of _ "[]"], simp)
  with run True ids show ?thesis by auto
next
  case False
  with transition_action[OF assms(1-3)] show ?thesis by presburger
qed

subsection \<open>Actions that write the row themselves\<close>

lemma update_and_audit:
  fixes now :: int
  assumes wf: "wf_db d" and t: "task_findById i d = Some t" and fresh: "uuid \<notin> set (map ae_id (auditEvents d))"
    and f: "\<And>r. t_taskId (f r) = t_taskId r"
  defines "t' \<equiv> (f t)\<lparr>t_version := t_version t + 1, t_updatedAt := now div 1000\<rparr>"
  obtains a d' where
    "bindT (task_update now i (t_version t) f) (\<lambda>u. bindT (auditEvent_create uuid now (ev u))
       (\<lambda>a. returnT (g u a))) d = (Inr (g t' a), d')"
    "d' = d\<lparr>tasks := tasks d', auditEvents := auditEvents d @ [a]\<rparr>" "task_findById i d' = Some t'"
    "\<forall>j. j \<noteq> i \<longrightarrow> task_findById j d' = task_findById j d" "wf_db d'"
    "ae_actorType a = na_actorType (ev t')" "ae_actorId a = na_actorId (ev t')" "ae_metadata a = na_metadata (ev t')"
proof (rule task_update_current[OF wf t f, of now], goal_cases)
  case (1 d1)
  then have u: "task_update now i (t_version t) f d = (Inr t', d1)" "task_findById i d1 = Some t'"
    by (simp_all add: t'_def)
  have same: "auditEvents d1 = auditEvents d" using arg_cong[OF 1(3), of auditEvents] by simp
  show ?case
  proof (rule auditEvent_create_cases[of uuid d1 now "ev t'"])
    fix a
    let ?d = "d1\<lparr>auditEvents := auditEvents d1 @ [a]\<rparr>"
    assume a: "uuid \<notin> set (map ae_id (auditEvents d1))" "auditEvent_create uuid now (ev t') d1 = (Inr a, ?d)"
      "ae_id a = uuid" "ae_actorType a = na_actorType (ev t')" "ae_actorId a = na_actorId (ev t')"
      "ae_metadata a = na_metadata (ev t')"
    have "?d = d\<lparr>tasks := tasks ?d, auditEvents := auditEvents d @ [a]\<rparr>" by (subst 1(3)) (simp add: same)
    then show ?thesis
      using 1(1)[of a ?d] a u 1(6,7) wf_db_audit[of d1 a] by (simp add: bindT_apply task_findById_def)
  qed (use fresh same in simp)
qed

lemma commit_ok: "tx (database w) = (Inr r, d') \<Longrightarrow> commit tx (\<lambda>_. []) w = (Inr r, w\<lparr>database := d'\<rparr>)"
  by (simp add: commit_def writeTransaction_def)

lemma commit_thrown: "tx (database w) = (Inl e, d') \<Longrightarrow> commit tx evs w = (Inl e, w)"
  by (simp add: commit_def writeTransaction_def)

text \<open>What a request is answered on an existing task.\<close>

definition answered :: "txEnv \<Rightarrow> txEnv \<Rightarrow> string \<Rightarrow> operator_request \<Rightarrow> Task \<Rightarrow> world \<Rightarrow> bool" where
  "answered env env2 i req t w \<longleftrightarrow>
    (if permitted req t (database w)
     then \<exists>r w'. handle env env2 i req w = (Inr r, w') \<and> carried_out env i req t w r w'
     else \<exists>msg. handle env env2 i req w = (Inl (BadRequestException msg), w))"

lemma answered_machine:
  assumes "wf_db (database w)" and "task_findById i (database w) = Some t"
    and "env_uuid env \<notin> set (map ae_id (auditEvents (database w)))" and "announced req"
    and "sensitive req \<Longrightarrow> (''auditSeverity'', JStr ''elevated'') \<in> set kvs"
    and "handle env env2 i req w
      = executeTransitionAction env i (target req (t_status t)) ctx (operator (requester req)) (JObj kvs) w"
    and "valid (validateTransition (t_status t) (target req (t_status t)) ctx) \<longleftrightarrow> permitted req t (database w)"
  shows "answered env env2 i req t w"
  using machine_action[OF assms(1-5), of ctx] assms(6,7) by (auto simp: answered_def split: if_splits)

lemma answered_refused: "\<not> permitted req t (database w) \<Longrightarrow> handle env env2 i req w = (Inl (BadRequestException msg), w)
    \<Longrightarrow> answered env env2 i req t w"
  by (simp add: answered_def)

lemma answered_pause:
  assumes "wf_db (database w)" and "task_findById i (database w) = Some t"
    and "env_uuid env \<notin> set (map ae_id (auditEvents (database w)))"
  shows "answered env env2 i (PauseAction dto) t w" "answered env env2 i (RequeueAction dto) t w"
    "answered env env2 i (ResumeAction dto) t w"
proof -
  show "answered env env2 i (PauseAction dto) t w"
    by (rule answered_machine[OF assms, where ctx = "emptyContext\<lparr>isOperator := Some True\<rparr>"])
       (auto simp: pause_def accepted_iff)
  show "answered env env2 i (RequeueAction dto) t w"
    by (rule answered_machine[OF assms, where ctx = "emptyContext\<lparr>leaseReclaimedRetryEligible := Some True\<rparr>"])
       (auto simp: requeue_def accepted_iff emptyContext_def)
  show "answered env env2 i (ResumeAction dto) t w"
  proof (cases "t_status t = TaskStatus.ESCALATED")
    case True
    then show ?thesis
      by (intro answered_machine[OF assms, where ctx =
            "emptyContext\<lparr>isOperator := Some True, TransitionContext.leaseAcquired := Some True\<rparr>"])
         (auto simp: resume_def assms(2) accepted_iff)
  next
    case False
    then show ?thesis by (intro answered_refused) (auto simp: resume_def assms(2))
  qed
qed

lemma guarded_simps [simp]: "guarded (Some e) run w = (Inl e, w)" "guarded None run w = run w"
  by (simp_all add: guarded_def)

lemma sensitive_severity [simp]:
  "getAuditSeverity ''force_unblock'' = ''elevated''" "getAuditSeverity ''override_merge_order'' = ''elevated''"
  "getAuditSeverity ''reopen'' = ''elevated''" "getAuditSeverity ''resolve_escalation_mark_done'' = ''elevated''"
  by (simp_all add: getAuditSeverity_def SENSITIVE_ACTIONS_def)

lemma answered_unblock:
  assumes "wf_db (database w)" and "task_findById i (database w) = Some t"
    and "env_uuid env \<notin> set (map ae_id (auditEvents (database w)))"
  shows "answered env env2 i (ForceUnblockAction dto) t w" "answered env env2 i (CancelAction dto ack) t w"
proof -
  show "answered env env2 i (ForceUnblockAction dto) t w"
  proof (cases "guardForceUnblock i (ac_reason dto) (database w)")
    case None
    then have "t_status t = TaskStatus.BLOCKED" "trim (ac_reason dto) \<noteq> []"
      by (auto simp: guardForceUnblock_def assms(2) split: if_splits)
    with None show ?thesis
      by (intro answered_machine[OF assms, where ctx =
            "emptyContext\<lparr>allDependenciesResolved := Some True, hasPolicyBlockers := Some False\<rparr>"])
         (auto simp: forceUnblock_def accepted_iff)
  next
    case (Some e)
    then obtain msg where "e = BadRequestException msg" "\<not> permitted (ForceUnblockAction dto) t (database w)"
      by (simp add: guardForceUnblock_def assms(2) split: if_splits) auto
    then show ?thesis using Some by (intro answered_refused) (auto simp: forceUnblock_def)
  qed
  show "answered env env2 i (CancelAction dto ack) t w"
  proof (cases "guardCancel i ack (database w)")
    case None
    then have "t_status t \<noteq> TaskStatus.MERGING" "t_status t = TaskStatus.IN_DEVELOPMENT \<Longrightarrow> ack = Some True"
      by (auto simp: guardCancel_def IN_PROGRESS_STATES_def assms(2) split: if_splits)
    with None show ?thesis
      by (intro answered_machine[OF assms, where ctx = "emptyContext\<lparr>isOperator := Some True\<rparr>"])
         (auto simp: cancel_def accepted_iff)
  next
    case (Some e)
    then obtain msg where "e = BadRequestException msg" "\<not> permitted (CancelAction dto ack) t (database w)"
      by (auto simp: guardCancel_def IN_PROGRESS_STATES_def assms(2) split: if_splits)
    then show ?thesis using Some by (intro answered_refused) (auto simp: cancel_def)
  qed
qed

lemma carried_out_more:
  assumes "carried_out env i req t w r w'" and "uuid \<notin> set (map ae_id (auditEvents (database w')))"
    and "na_actorType ev = ''operator''" and "na_actorId ev = requester req"
  shows "\<exists>w''. commit (bindT (auditEvent_create uuid now ev) (\<lambda>_. returnT x)) (\<lambda>_. []) w' = (Inr x, w'')
    \<and> carried_out env i req t w r w''"
proof (rule auditEvent_create_cases[of uuid "database w'" now ev])
  fix b
  let ?d = "database w'\<lparr>auditEvents := auditEvents (database w') @ [b]\<rparr>"
  assume b: "auditEvent_create uuid now ev (database w') = (Inr b, ?d)" "ae_id b = uuid"
    "ae_actorType b = na_actorType ev" "ae_actorId b = na_actorId ev"
  from assms(1) obtain a rows where o: "database w' = database w\<lparr>tasks := tasks (database w'),
      mergeQueueItems := reordered req t (mergeQueueItems (database w)), auditEvents := auditEvents (database w) @ a # rows\<rparr>"
    "task_findById i (database w') = Some (effect env req t)"
    "\<forall>j. j \<noteq> i \<longrightarrow> task_findById j (database w') = task_findById j (database w)"
    "oa_task r = effect env req t" "oa_auditEvent r = summarize a"
    "\<forall>e \<in> set (a # rows). ae_actorType e = ''operator'' \<and> ae_actorId e = requester req"
    "sensitive req \<longrightarrow> elevated a" "wf_db (database w')"
    "emitted w' = emitted w @ (if announced req then [TaskTransitionedEvent i (t_status t)
       (t_status (effect env req t)) (t_version t + 1) (operator (requester req)) (env_emittedAt env)] else [])"
    unfolding carried_out_def Let_def by blast
  have "?d = database w\<lparr>tasks := tasks ?d, mergeQueueItems := reordered req t (mergeQueueItems (database w)),
      auditEvents := auditEvents (database w) @ a # rows @ [b]\<rparr>"
    using arg_cong[OF o(1), of auditEvents] by (subst o(1)) simp
  then have "carried_out env i req t w r (w'\<lparr>database := ?d\<rparr>)"
    unfolding carried_out_def Let_def using o wf_db_audit[OF o(8), of b] assms b(2-4)
    by (intro exI[of _ a] exI[of _ "rows @ [b]"]) (simp add: task_findById_def)
  with b(1) show ?thesis by (intro exI[of _ "w'\<lparr>database := ?d\<rparr>"]) (simp add: commit_def writeTransaction_def bindT_apply)
qed (use assms(2) in simp)

lemma answered_resolve:
  assumes "wf_db (database w)" and "task_findById i (database w) = Some t"
    and "env_uuid env \<notin> set (map ae_id (auditEvents (database w)))"
    and "env_uuid env2 \<notin> insert (env_uuid env) (set (map ae_id (auditEvents (database w))))"
  shows "answered env env2 i (ResolveEscalationAction dto) t w" (is "answered env env2 i ?req t w")
proof (cases "guardResolveEscalation i (rs_resolutionType dto) (rs_evidence dto) (database w)")
  case None
  then have esc: "t_status t = TaskStatus.ESCALATED"
    and ok: "permitted ?req t (database w)"
    by (auto simp: guardResolveEscalation_def assms(2) split: if_splits option.splits)
  show ?thesis
  proof (cases "rs_resolutionType dto")
    case retry
    let ?ctx = "emptyContext\<lparr>isOperator := Some True, TransitionContext.leaseAcquired := Some True\<rparr>"
    have v: "valid (validateTransition (t_status t) (target ?req (t_status t)) ?ctx)"
      using retry esc by (simp add: accepted_iff)
    show ?thesis
    proof (cases "\<exists>p. rs_poolId dto = Some p \<and> p \<noteq> []")
      case True
      then obtain p where p: "rs_poolId dto = Some p" "p \<noteq> []" by blast
      obtain r w' where run: "executeTransitionAction env i (target ?req (t_status t)) ?ctx (operator (requester ?req))
          (JObj ([(''action'', JStr ''resolve_escalation''), (''resolutionType'', JStr ''retry''),
                 (''reason'', JStr (rs_reason dto))] @ [(''poolId'', JStr p)])) w = (Inr r, w')"
        "carried_out env i ?req t w r w'"
        "map ae_id (auditEvents (database w')) = map ae_id (auditEvents (database w)) @ [env_uuid env]"
        using machine_action[OF assms(1-3), of ?req "[(''action'', JStr ''resolve_escalation''),
            (''resolutionType'', JStr ''retry''), (''reason'', JStr (rs_reason dto))] @ [(''poolId'', JStr p)]" ?ctx]
          v retry by (auto simp del: append.simps)
      have "env_uuid env2 \<notin> set (map ae_id (auditEvents (database w')))" unfolding run(3) using assms(4) by simp
      then have "\<exists>w''. commit (recordPool env2 i dto p) (\<lambda>_. []) w' = (Inr (), w'') \<and> carried_out env i ?req t w r w''"
        unfolding recordPool_def by (intro carried_out_more[OF run(2)]) simp_all
      then show ?thesis using run(1) p retry None ok by (auto simp: answered_def resolveEscalation_def)
    next
      case False
      then have "(case rs_poolId dto of Some p \<Rightarrow> if p = [] then None else Some p | None \<Rightarrow> None) = None"
        by (auto split: option.split)
      then show ?thesis using retry None ok v
        by (intro answered_machine[OF assms(1-3), where ctx = ?ctx and kvs = "[(''action'', JStr ''resolve_escalation''),
              (''resolutionType'', JStr ''retry''), (''reason'', JStr (rs_reason dto))]"])
           (auto simp: resolveEscalation_def Let_def split: prod.split sum.split)
    qed
  next
    case cancel_task
    then show ?thesis using None ok esc
      by (intro answered_machine[OF assms(1-3), where ctx = "emptyContext\<lparr>isOperator := Some True\<rparr>"])
         (auto simp: resolveEscalation_def accepted_iff)
  next
    case mark_done
    then show ?thesis using None ok esc
      by (intro answered_machine[OF assms(1-3), where ctx = "emptyContext\<lparr>isOperator := Some True\<rparr>" and
            kvs = "[(''action'', JStr ''resolve_escalation''), (''resolutionType'', JStr ''mark_done''),
               (''reason'', JStr (rs_reason dto))]
               @ (case rs_evidence dto of Some e \<Rightarrow> [(''evidence'', JStr e)] | None \<Rightarrow> [])
               @ [(''auditSeverity'', JStr (getAuditSeverity ''resolve_escalation_mark_done''))]"])
         (auto simp: resolveEscalation_def accepted_iff)
  qed
next
  case (Some e)
  then obtain msg where "e = BadRequestException msg" "\<not> permitted ?req t (database w)"
    by (simp add: guardResolveEscalation_def assms(2) split: if_splits option.splits) auto
  then show ?thesis using Some by (intro answered_refused) (auto simp: resolveEscalation_def)
qed

lemma written_carried_out:
  assumes "d' = database w\<lparr>tasks := tasks d', auditEvents := auditEvents (database w) @ [a]\<rparr>"
    and "task_findById i d' = Some (effect env req t)"
    and "\<forall>j. j \<noteq> i \<longrightarrow> task_findById j d' = task_findById j (database w)" and "wf_db d'"
    and "ae_actorType a = ''operator''" and "ae_actorId a = requester req" and "sensitive req \<Longrightarrow> elevated a"
    and "\<not> announced req" and "reordered req t (mergeQueueItems (database w)) = mergeQueueItems (database w)"
  shows "carried_out env i req t w \<lparr>oa_task = effect env req t, oa_auditEvent = summarize a\<rparr> (w\<lparr>database := d'\<rparr>)"
proof -
  from assms(1) have "d' = database w\<lparr>tasks := tasks d', mergeQueueItems := mergeQueueItems (database w),
      auditEvents := auditEvents (database w) @ [a]\<rparr>"
    by (cases "database w"; cases d'; simp)
  then show ?thesis
    unfolding carried_out_def Let_def using assms(2-)
    by (intro exI[of _ a] exI[of _ "[]"]) simp
qed

lemma answered_priority:
  assumes "wf_db (database w)" and "task_findById i (database w) = Some t"
    and "env_uuid env \<notin> set (map ae_id (auditEvents (database w)))"
  shows "answered env env2 i (ChangePriorityAction dto) t w"
proof (rule update_and_audit[OF assms, of "\<lambda>r. r\<lparr>t_priority := cp_priority dto\<rparr>" "env_now env"
      "\<lambda>_. \<lparr>na_entityType = ''task'', na_entityId = i, na_eventType = ''task.operator.change_priority'',
              na_actorType = ''operator'', na_actorId = cp_actorId dto,
              na_oldState = Some (JObj [(''priority'', JStr (TaskPriority_value (t_priority t)))]),
              na_newState = Some (JObj [(''priority'', JStr (TaskPriority_value (cp_priority dto)))]),
              na_metadata = Some (JObj ((''action'', JStr ''change_priority'')
                # (case cp_reason dto of Some r \<Rightarrow> if r = [] then [] else [(''reason'', JStr r)] | None \<Rightarrow> [])))\<rparr>"
      "\<lambda>u a. \<lparr>oa_task = u, oa_auditEvent = summarize a\<rparr>"], goal_cases)
  case 1
  show ?case by simp
next
  case (2 a d')
  then have "carried_out env i (ChangePriorityAction dto) t w
      \<lparr>oa_task = effect env (ChangePriorityAction dto) t, oa_auditEvent = summarize a\<rparr> (w\<lparr>database := d'\<rparr>)"
    by (intro written_carried_out) simp_all
  moreover have "handle env env2 i (ChangePriorityAction dto) w
      = (Inr \<lparr>oa_task = effect env (ChangePriorityAction dto) t, oa_auditEvent = summarize a\<rparr>, w\<lparr>database := d'\<rparr>)"
    using 2(1) assms(2) by (simp add: changePriority_def commit_ok)
  ultimately show ?case by (simp add: answered_def)
qed

lemma answered_reassign:
  assumes wf: "wf_db (database w)" and t: "task_findById i (database w) = Some t"
    and fresh: "env_uuid env \<notin> set (map ae_id (auditEvents (database w)))"
  shows "answered env env2 i (ReassignPoolAction dto) t w"
proof (cases "isTerminalState (t_status t)")
  case True
  then have "\<not> permitted (ReassignPoolAction dto) t (database w)" by (simp add: isTerminalState_def TaskSM.TERMINAL_STATES_def)
  then show ?thesis using True t
    by (simp add: answered_def reassignPool_def commit_def writeTransaction_def del: permitted.simps)
next
  case False
  then have ok: "permitted (ReassignPoolAction dto) t (database w)" by (simp add: isTerminalState_def TaskSM.TERMINAL_STATES_def)
  let ?ev = "\<lparr>na_entityType = ''task'', na_entityId = i, na_eventType = ''task.operator.reassign_pool'',
       na_actorType = ''operator'', na_actorId = ra_actorId dto, na_oldState = None,
       na_newState = Some (JObj [(''poolId'', JStr (ra_poolId dto))]),
       na_metadata = Some (JObj [(''action'', JStr ''reassign_pool''),
          (''poolId'', JStr (ra_poolId dto)), (''reason'', JStr (ra_reason dto))])\<rparr>"
  show ?thesis
  proof (rule auditEvent_create_cases[of "env_uuid env" "database w" "env_now env" ?ev])
    fix a
    let ?d = "database w\<lparr>auditEvents := auditEvents (database w) @ [a]\<rparr>"
    assume a: "auditEvent_create (env_uuid env) (env_now env) ?ev (database w) = (Inr a, ?d)" "ae_id a = env_uuid env"
      "ae_actorType a = na_actorType ?ev" "ae_actorId a = na_actorId ?ev"
    have "carried_out env i (ReassignPoolAction dto) t w
        \<lparr>oa_task = effect env (ReassignPoolAction dto) t, oa_auditEvent = summarize a\<rparr> (w\<lparr>database := ?d\<rparr>)"
      using a t fresh by (intro written_carried_out wf_db_audit[OF wf]) (simp_all add: task_findById_def)
    moreover have "handle env env2 i (ReassignPoolAction dto) w = (Inr \<lparr>oa_task = t, oa_auditEvent = summarize a\<rparr>, w\<lparr>database := ?d\<rparr>)"
      using a(1) t False by (simp add: reassignPool_def commit_ok bindT_apply)
    ultimately show ?thesis using ok by (simp add: answered_def)
  qed (use fresh in simp)
qed

lemma override_action:
  assumes wf: "wf_db (database w)" and t: "task_findById i (database w) = Some t"
    and fresh: "env_uuid env \<notin> set (map ae_id (auditEvents (database w)))"
    and src: "t_status t \<in> set srcs" and req: "requester req = who" "sensitive req \<Longrightarrow> getAuditSeverity act = ''elevated''"
      "\<not> announced req" "reordered req t (mergeQueueItems (database w)) = mergeQueueItems (database w)"
    and eff: "effect env req t = (if s = TaskStatus.BACKLOG
           then t\<lparr>t_status := s, t_completedAt := None, t_currentLeaseId := None, t_currentReviewCycleId := None,
                  t_mergeQueueItemId := None\<rparr>
           else t\<lparr>t_status := s\<rparr>)\<lparr>t_version := t_version t + 1, t_updatedAt := env_now env div 1000\<rparr>"
  shows "\<exists>r w'. executeOverrideAction env i s srcs who act why w = (Inr r, w') \<and> carried_out env i req t w r w'"
proof (rule update_and_audit[OF wf t fresh, of "\<lambda>r. if s = TaskStatus.BACKLOG
             then r\<lparr>t_status := s, t_completedAt := None, t_currentLeaseId := None,
                    t_currentReviewCycleId := None, t_mergeQueueItemId := None\<rparr>
             else r\<lparr>t_status := s\<rparr>" "env_now env"
      "\<lambda>u. \<lparr>na_entityType = ''task'', na_entityId = i, na_eventType = ''task.operator.'' @ act,
              na_actorType = ''operator'', na_actorId = who,
              na_oldState = Some (JObj [(''status'', JStr (TaskStatus_value (t_status t))),
                                        (''version'', JNum (t_version t))]),
              na_newState = Some (JObj [(''status'', JStr (TaskStatus_value s)),
                                        (''version'', JNum (t_version u))]),
              na_metadata = Some (JObj [(''action'', JStr act), (''reason'', JStr why),
                                        (''auditSeverity'', JStr (getAuditSeverity act))])\<rparr>"
      "\<lambda>u a. \<lparr>oa_task = u, oa_auditEvent = summarize a\<rparr>"], goal_cases)
  case (1 r)
  show ?case by simp
next
  case (2 a d')
  note done2 = 2[folded eff]
  have "elevated a" if "sensitive req" using 2(8) req(2)[OF that] by (auto simp: elevated_def)
  then have "carried_out env i req t w \<lparr>oa_task = effect env req t, oa_auditEvent = summarize a\<rparr> (w\<lparr>database := d'\<rparr>)"
    using done2 req by (intro written_carried_out) simp_all
  moreover have "executeOverrideAction env i s srcs who act why w
      = (Inr \<lparr>oa_task = effect env req t, oa_auditEvent = summarize a\<rparr>, w\<lparr>database := d'\<rparr>)"
    unfolding executeOverrideAction_def Let_def using done2(1) t src by (intro commit_ok) simp
  ultimately show ?case by blast
qed

lemma override_refused:
  assumes "task_findById i (database w) = Some t" and "t_status t \<notin> set srcs"
  shows "\<exists>msg. executeOverrideAction env i s srcs who act why w = (Inl (BadRequestException msg), w)"
  using assms by (simp add: executeOverrideAction_def commit_def writeTransaction_def)

lemma answered_override:
  assumes "wf_db (database w)" and "task_findById i (database w) = Some t"
    and "env_uuid env \<notin> set (map ae_id (auditEvents (database w)))"
  shows "answered env env2 i (RerunReviewAction dto) t w" "answered env env2 i (ReopenAction dto) t w"
proof -
  show "answered env env2 i (RerunReviewAction dto) t w"
  proof (cases "t_status t \<in> set [TaskStatus.APPROVED, TaskStatus.IN_REVIEW]")
    case True
    then show ?thesis using override_action[OF assms True, of "RerunReviewAction dto" "ac_actorId dto" "''rerun_review''"
        "TaskStatus.DEV_COMPLETE" "ac_reason dto"]
      by (simp add: answered_def rerunReview_def)
  next
    case False
    then show ?thesis using override_refused[OF assms(2) False] by (auto simp: answered_def rerunReview_def)
  qed
  have i: "t_taskId t = i" using assms(2) by (auto simp: task_findById_def find_Some_iff)
  show "answered env env2 i (ReopenAction dto) t w"
  proof (cases "permitted (ReopenAction dto) t (database w)")
    case True
    then have src: "t_status t \<in> set [TaskStatus.DONE, TaskStatus.FAILED, TaskStatus.CANCELLED]"
      and g: "guardReopen i (database w) = None"
      using findActive_None[of i "database w"] i by (auto simp: guardReopen_def assms(2))
    show ?thesis using True g override_action[OF assms src, of "ReopenAction dto" "ac_actorId dto" "''reopen''"
        "TaskStatus.BACKLOG" "ac_reason dto"]
      by (simp add: answered_def reopen_def)
  next
    case False
    then have "\<exists>msg. guardReopen i (database w) = Some (BadRequestException msg)"
      using findActive_None[of i "database w"] i by (auto simp: guardReopen_def assms(2) split: option.split)
    then show ?thesis using False by (auto simp: answered_def reopen_def)
  qed
qed

lemma reopen_leased:
  assumes "active_leases i (database w) \<noteq> []"
  shows "\<exists>e. reopen env i who why w = (Inl e, w)"
proof (cases "task_findById i (database w)")
  case None
  then show ?thesis
    by (simp add: reopen_def guardReopen_def executeOverrideAction_def commit_def writeTransaction_def)
next
  case (Some t)
  then have "guardReopen i (database w) \<noteq> None"
    using findActive_None[of i "database w"] assms by (auto simp: guardReopen_def split: option.split)
  then show ?thesis by (auto simp: reopen_def)
qed

lemma answered_merge_order:
  assumes wf: "wf_db (database w)" and t: "task_findById i (database w) = Some t"
    and fresh: "env_uuid env \<notin> set (map ae_id (auditEvents (database w)))"
  shows "answered env env2 i (OverrideMergeOrderAction dto) t w" (is "answered env env2 i ?req t w")
proof (cases "permitted ?req t (database w)")
  case False
  then show ?thesis using t
    by (cases "t_mergeQueueItemId t")
       (auto simp: answered_def overrideMergeOrder_def guardOverrideMergeOrder_def commit_def writeTransaction_def)
next
  case True
  then obtain c cs where q: "t_status t = TaskStatus.QUEUED_FOR_MERGE" "t_mergeQueueItemId t = Some (c # cs)"
    by (auto simp: neq_Nil_conv)
  let ?it = "item_findById (c # cs) (database w)"
  let ?ev = "\<lparr>na_entityType = ''merge_queue_item'', na_entityId = c # cs,
      na_eventType = ''merge_queue_item.operator.override_order'', na_actorType = ''operator'', na_actorId = om_actorId dto,
      na_oldState = map_option (\<lambda>q. JObj [(''position'', JNum (mq_position q))]) ?it,
      na_newState = Some (JObj [(''position'', JNum (om_position dto))]),
      na_metadata = Some (JObj ([(''action'', JStr ''override_merge_order''), (''taskId'', JStr i),
        (''position'', JNum (om_position dto)), (''auditSeverity'', JStr (getAuditSeverity ''override_merge_order''))]
        @ (case om_reason dto of Some r \<Rightarrow> if r = [] then [] else [(''reason'', JStr r)] | None \<Rightarrow> [])))\<rparr>"
  show ?thesis
  proof (rule auditEvent_create_cases[of "env_uuid env" "database w" "env_now env" ?ev])
    fix a
    let ?qs = "reordered ?req t (mergeQueueItems (database w))"
    let ?d1 = "database w\<lparr>auditEvents := auditEvents (database w) @ [a]\<rparr>"
    let ?d = "?d1\<lparr>mergeQueueItems := ?qs\<rparr>"
    let ?r = "\<lparr>oa_task = t, oa_auditEvent = summarize a\<rparr>"
    assume a: "auditEvent_create (env_uuid env) (env_now env) ?ev (database w) = (Inr a, ?d1)" "ae_id a = env_uuid env"
      "ae_actorType a = na_actorType ?ev" "ae_actorId a = na_actorId ?ev" "ae_metadata a = na_metadata ?ev"
    have none: "?qs = mergeQueueItems (database w)" if "?it = None"
      using that q(2) by (auto simp: item_findById_def find_None_iff intro!: map_idI)
    have "wf_db ?d1" using wf_db_audit[OF wf, of a] a(2) fresh by simp
    then have "wf_db ?d" by (rule wf_db_keys(2)[rotated]) (simp add: comp_def if_distrib cong: if_cong)
    moreover have "elevated a" using a(5) by (auto simp: elevated_def)
    ultimately have "carried_out env i ?req t w ?r (w\<lparr>database := ?d\<rparr>)"
      unfolding carried_out_def Let_def using a(3,4) t
      by (intro exI[of _ a] exI[of _ "[]"]) (simp add: task_findById_def)
    moreover have "handle env env2 i ?req w = (Inr ?r, w\<lparr>database := ?d\<rparr>)"
    proof (cases ?it)
      case None
      then have "handle env env2 i ?req w = (Inr ?r, w\<lparr>database := ?d1\<rparr>)" using t q a(1)
        by (simp add: overrideMergeOrder_def guardOverrideMergeOrder_def commit_def writeTransaction_def
          bindT_apply Let_def)
      moreover have "?d = ?d1" unfolding none[OF None] by simp
      ultimately show ?thesis by (simp only:)
    next
      case (Some x)
      have "item_update (c # cs) (\<lambda>q. q\<lparr>mq_position := om_position dto\<rparr>) ?d1
          = (Inr (Some (x\<lparr>mq_position := om_position dto\<rparr>)), ?d)"
        using Some q(2) by (simp add: item_update_def item_findById_def Let_def update_where_def)
      then show ?thesis using t q a(1) Some
        by (simp add: overrideMergeOrder_def guardOverrideMergeOrder_def commit_def writeTransaction_def
          bindT_apply Let_def)
    qed
    ultimately show ?thesis using True by (simp add: answered_def del: permitted.simps)
  qed (use fresh in simp)
qed

lemma answered_every:
  assumes "wf_db (database w)" and "task_findById i (database w) = Some t"
    and "env_uuid env \<notin> set (map ae_id (auditEvents (database w)))"
    and "env_uuid env2 \<notin> insert (env_uuid env) (set (map ae_id (auditEvents (database w))))"
  shows "answered env env2 i req t w"
  using answered_pause[OF assms(1-3)] answered_unblock[OF assms(1-3)] answered_priority[OF assms(1-3)]
    answered_reassign[OF assms(1-3)] answered_override[OF assms(1-3)] answered_merge_order[OF assms(1-3)]
    answered_resolve[OF assms]
  by (cases req) auto

lemma missing_task:
  assumes "wf_db (database w)" and "task_findById i (database w) = None"
  shows "\<exists>e. handle env env2 i req w = (Inl e, w)
    \<and> (e = task_not_found i \<or> (\<exists>dto. req = ForceUnblockAction dto \<and> trim (ac_reason dto) = []))"
  using assms transition_action_missing[OF assms]
  by (cases req)
     (auto simp: pause_def resume_def requeue_def forceUnblock_def guardForceUnblock_def changePriority_def
       reassignPool_def rerunReview_def executeOverrideAction_def overrideMergeOrder_def guardOverrideMergeOrder_def
       reopen_def guardReopen_def cancel_def guardCancel_def resolveEscalation_def guardResolveEscalation_def
       guarded_def commit_def writeTransaction_def Let_def split: option.split EscalationResolutionType.split)

text \<open>
  (C12) What every operator action does, exactly.  On a missing task it is refused.  On an
  existing one it goes through exactly when it is permitted there, and then the row changes as the
  action says, every other task, lease, cycle and job stays as it is, the audit log names the operator
  (with elevated severity for the sensitive actions), and the transition is announced when the
  state machine made it; otherwise it is refused as a bad request and changes nothing.  This is less than
  the documents of the repository promise: resume and the retry of an escalation claim
  \<open>leaseAcquired\<close> in the context, but acquire no lease (the user guide, the data model and the comment of
  the request type say that one is acquired), requeue and pause leave the current lease as it is, and
  the pool of a retry or a reassignment is recorded in the audit log only.
\<close>

theorem operator_action_exact:
  assumes "wf_db (database w)"
    and "env_uuid env \<notin> set (map ae_id (auditEvents (database w)))"
    and "env_uuid env2 \<notin> insert (env_uuid env) (set (map ae_id (auditEvents (database w))))"
  shows "case task_findById i (database w) of
      None \<Rightarrow> \<exists>e. handle env env2 i req w = (Inl e, w)
    | Some t \<Rightarrow>
        if permitted req t (database w)
        then \<exists>r w'. handle env env2 i req w = (Inr r, w') \<and> carried_out env i req t w r w'
        else \<exists>msg. handle env env2 i req w = (Inl (BadRequestException msg), w)"
  using missing_task[OF assms(1), of i env env2 req] answered_every[OF assms(1) _ assms(2,3), of i _ req]
  by (cases "task_findById i (database w)") (auto simp: answered_def)

definition operator_dto :: ReasonActionDto where
  "operator_dto = \<lparr>ac_actorId = ''op'', ac_reason = ''needs a look''\<rparr>"

theorem operator_action_exact_witness:
  "\<exists>r w'. handle example_env (example_env\<lparr>env_uuid := ''second''\<rparr>) ''T1'' (PauseAction operator_dto) lease_world = (Inr r, w')
     \<and> t_status (oa_task r) = TaskStatus.ESCALATED \<and> as_actorId (oa_auditEvent r) = ''op''"
proof -
  have t: "task_findById ''T1'' (database lease_world) = Some example_task"
    by (simp add: lease_world_def lease_db_def example_db_def task_findById_def example_task_def)
  have "auditEvents (database lease_world) = []" by (simp add: lease_world_def lease_db_def example_db_def)
  then show ?thesis
    using operator_action_exact[OF lease_world_wf, of example_env "example_env\<lparr>env_uuid := ''second''\<rparr>" "''T1''"
        "PauseAction operator_dto"] t
    by (auto simp: carried_out_def Let_def summarize_def example_task_def operator_dto_def example_env_def)
qed

subsection \<open>Terminal tasks\<close>

lemma transition_action_stale:
  assumes "wf_db (database w)" and "env_uuid env \<in> set (map ae_id (auditEvents (database w)))"
  shows "\<exists>e. executeTransitionAction env i s ctx actor m w = (Inl e, w)"
proof (rule transitionTask_cases[OF assms(1), of env i s ctx actor "Some m"], goal_cases)
  case (1 err)
  then show ?case by (simp add: executeTransitionAction_def)
next
  case (2 t a w')
  then have "wf_db (database w')" "ae_id a = env_uuid env"
    "database w' = database w\<lparr>tasks := tasks (database w'), auditEvents := auditEvents (database w) @ [a]\<rparr>"
    by (auto simp: task_committed_def Let_def)
  then have "distinct (map ae_id (auditEvents (database w) @ [a]))"
    by (metis db.select_convs(8) db.surjective db.update_convs(8) wf_db_def)
  then show ?case using assms(2) \<open>ae_id a = env_uuid env\<close> by auto
qed

lemma handle_stale:
  assumes "wf_db (database w)" and "env_uuid env \<in> set (map ae_id (auditEvents (database w)))"
  shows "snd (handle env env2 i req w) = w"
proof -
  have m: "snd (executeTransitionAction env i s ctx actor m w) = w" for s ctx actor m
    using transition_action_stale[OF assms, of i s ctx actor m] by auto
  have p: "\<exists>e. executeTransitionAction env i s ctx actor m w = (Inl e, w)" for s ctx actor m
    by (rule transition_action_stale[OF assms])
  have o: "snd (executeOverrideAction env i s srcs who act why w) = w" for s srcs who act why
    using assms(2) by (auto simp: executeOverrideAction_def commit_def writeTransaction_def bindT_apply task_update_def
        auditEvent_create_def Let_def split: option.split)
  show ?thesis
  proof (cases req)
    case (ResolveEscalationAction dto)
    let ?pool = "case rs_poolId dto of Some p \<Rightarrow> if p = [] then None else Some p | None \<Rightarrow> None"
    obtain e where "executeTransitionAction env i TaskStatus.ASSIGNED
        (emptyContext\<lparr>isOperator := Some True, TransitionContext.leaseAcquired := Some True\<rparr>) (operator (rs_actorId dto))
        (JObj ([(''action'', JStr ''resolve_escalation''), (''resolutionType'', JStr ''retry''),
          (''reason'', JStr (rs_reason dto))] @ (case ?pool of Some p \<Rightarrow> [(''poolId'', JStr p)] | None \<Rightarrow> []))) w = (Inl e, w)"
      using p by blast
    then show ?thesis unfolding ResolveEscalationAction handle.simps resolveEscalation_def guarded_def Let_def
      by (cases "guardResolveEscalation i (rs_resolutionType dto) (rs_evidence dto) (database w)";
          cases "rs_resolutionType dto"; simp only: option.case EscalationResolutionType.case prod.case sum.case
            snd_conv m)
  qed (use assms(2) m o in \<open>auto simp: pause_def resume_def requeue_def forceUnblock_def changePriority_def
      reassignPool_def rerunReview_def overrideMergeOrder_def reopen_def cancel_def guarded_def commit_def
      writeTransaction_def bindT_apply task_update_def auditEvent_create_def Let_def split: option.split list.split\<close>)
qed

lemma transition_action_snd:
  "snd (executeTransitionAction env i s ctx actor m w) = snd (transitionTask env i s ctx actor (Some m) w)"
  by (simp add: executeTransitionAction_def split: prod.split sum.split)

text \<open>The second transaction of a retry, for any property an audit event keeps.\<close>

lemma retry_tail:
  assumes "\<And>u n ev. preserves P (auditEvent_create u n ev)" and "P (database (snd x))"
  shows "P (database (snd (case x of
      (Inl e, w') \<Rightarrow> (Inl e, w')
    | (Inr result, w') \<Rightarrow>
        (case pool of
           None \<Rightarrow> (Inr result, w')
         | Some p \<Rightarrow>
             (case commit (recordPool env2 i dto p) (\<lambda>_. []) w' of
                (Inl e, w'') \<Rightarrow> (Inl e, w'')
              | (Inr _, w'') \<Rightarrow> (Inr result, w''))))))"
proof -
  have "P (database (snd (commit (recordPool env2 i dto p) (\<lambda>_. []) (snd x))))" for p
    unfolding recordPool_def by (intro commit_preserves[where P = P] preserves_intro assms)
  then show ?thesis using assms(2)
    by (cases x) (auto split: sum.split option.split prod.split simp: split_pairs2)
qed

lemma handle_env2: "tasks (database (snd (handle env env2 i req w))) = tasks (database (snd (handle env env2' i req w)))"
proof (cases req)
  case (ResolveEscalationAction dto)
  note tail = retry_tail[where P = "\<lambda>d. tasks d = T" for T, OF tasks_preserved(1) refl]
  show ?thesis
    unfolding ResolveEscalationAction handle.simps resolveEscalation_def guarded_def Let_def
    by (cases "guardResolveEscalation i (rs_resolutionType dto) (rs_evidence dto) (database w)";
        cases "rs_resolutionType dto"; simp only: option.case EscalationResolutionType.case tail)
qed simp_all

lemma handle_tasks:
  assumes wf: "wf_db (database w)"
  obtains "tasks (database (snd (handle env env2 i req w))) = tasks (database w)"
  | t where "task_findById i (database w) = Some t" "permitted req t (database w)"
      "task_findById i (database (snd (handle env env2 i req w))) = Some (effect env req t)"
      "\<forall>j. j \<noteq> i \<longrightarrow> task_findById j (database (snd (handle env env2 i req w))) = task_findById j (database w)"
proof (cases "env_uuid env \<in> set (map ae_id (auditEvents (database w)))")
  case True
  then show ?thesis using that(1) handle_stale[OF wf] by simp
next
  case False
  obtain u where u: "u \<notin> insert (env_uuid env) (set (map ae_id (auditEvents (database w))))"
    using ex_new_if_finite[OF infinite_UNIV_listI] by (metis List.finite_set finite.insertI)
  let ?e = "env2\<lparr>env_uuid := u\<rparr>"
  have u': "env_uuid ?e \<notin> insert (env_uuid env) (set (map ae_id (auditEvents (database w))))" using u by simp
  note same = handle_env2[of env env2 i req w ?e]
  show ?thesis
  proof (cases "task_findById i (database w)")
    case None
    then obtain e where "handle env ?e i req w = (Inl e, w)" using missing_task[OF wf] by blast
    then show ?thesis using that(1) same by simp
  next
    case (Some t)
    show ?thesis
    proof (cases "permitted req t (database w)")
      case True
      with answered_every[OF wf Some False u', of req] obtain r w' where
        "handle env ?e i req w = (Inr r, w')" "carried_out env i req t w r w'" by (auto simp: answered_def)
      then show ?thesis using that(2)[OF Some True] same by (auto simp: carried_out_def Let_def task_findById_def)
    next
      case False
      with answered_every[OF wf Some \<open>env_uuid env \<notin> _\<close> u', of req] show ?thesis
        using that(1) same by (auto simp: answered_def)
    qed
  qed
qed

lemma preserves_list_case:
  "preserves P m \<Longrightarrow> (\<And>c cs. preserves P (f c cs)) \<Longrightarrow> preserves P (case xs of [] \<Rightarrow> m | c # cs \<Rightarrow> f c cs)"
  by (cases xs) simp_all

lemma handle_preserves:
  assumes "\<And>u n ev. preserves P (auditEvent_create u n ev)" and "\<And>n i k s. preserves P (task_updateStatus n i k s)"
    and "\<And>n i k f. (\<And>r. t_taskId (f r) = t_taskId r) \<Longrightarrow> preserves P (task_update n i k f)"
    and "\<And>i f. (\<And>r. mq_mergeQueueItemId (f r) = mq_mergeQueueItemId r) \<Longrightarrow> preserves P (item_update i f)"
    and "P (database w)"
  shows "P (database (snd (handle env env2 i req w)))"
proof -
  have m: "P (database (snd (executeTransitionAction env i s ctx actor m w)))" for s ctx actor m
    unfolding transition_action_snd transitionTask_def snd_apfst
    by (intro commit_preserves[where P = P] preserves_intro assms)
  have o: "P (database (snd (executeOverrideAction env i s srcs who act why w)))" for s srcs who act why
    unfolding executeOverrideAction_def by (intro commit_preserves[where P = P] preserves_intro assms) simp
  show ?thesis
  proof (cases req)
    case (ResolveEscalationAction dto)
    show ?thesis
      unfolding ResolveEscalationAction handle.simps resolveEscalation_def guarded_def Let_def
      by (cases "guardResolveEscalation i (rs_resolutionType dto) (rs_evidence dto) (database w)";
          cases "rs_resolutionType dto";
          simp only: option.case EscalationResolutionType.case snd_conv assms(5) m retry_tail[OF assms(1) m])
  next
    case (ChangePriorityAction dto)
    show ?thesis unfolding ChangePriorityAction handle.simps changePriority_def
      by (intro commit_preserves[where P = P] preserves_intro assms) simp
  next
    case (ReassignPoolAction dto)
    show ?thesis unfolding ReassignPoolAction handle.simps reassignPool_def
      by (intro commit_preserves[where P = P] preserves_intro assms)
  next
    case (OverrideMergeOrderAction dto)
    show ?thesis unfolding OverrideMergeOrderAction handle.simps overrideMergeOrder_def guarded_def
      using assms(5)
      by (cases "guardOverrideMergeOrder i (database w)"; simp only: option.case snd_conv;
          intro commit_preserves[where P = P] preserves_intro preserves_list_case assms) simp_all
  qed (use m o assms(5) in \<open>simp_all add: pause_def resume_def requeue_def forceUnblock_def rerunReview_def
      reopen_def cancel_def guarded_def split: option.split\<close>)
qed

lemma handle_wf: "wf_db (database w) \<Longrightarrow> wf_db (database (snd (handle env env2 i req w)))"
proof (rule handle_preserves[where P = wf_db], goal_cases)
  case (3 n i k f)
  have "map t_taskId (update_where p (\<lambda>r. (f r)\<lparr>t_version := v, t_updatedAt := u\<rparr>) xs) = map t_taskId xs" for p v u xs
    using 3(2) by (intro map_update_where_same) simp
  then show ?case by (auto simp: preserves_def task_update_def Let_def wf_db_def split: option.split)
next
  case (4 i f)
  have "map mq_mergeQueueItemId (update_where p f xs) = map mq_mergeQueueItemId xs" for p xs
    using 4(2) by (intro map_update_where_same) simp
  then show ?case by (auto simp: preserves_def item_update_def Let_def wf_db_def)
qed (rule wf_preserved | assumption)+

text \<open>An operator never touches a lease.\<close>

lemma handle_leases: "taskLeases (database (snd (handle env env2 i req w))) = taskLeases (database w)"
  by (rule handle_preserves[where P = "\<lambda>d. taskLeases d = taskLeases (database w)"])
     (auto simp: preserves_def auditEvent_create_def task_updateStatus_def task_update_def item_update_def Let_def
       split: option.split)

datatype control =
    ServiceCall service_call
  | OperatorCall txEnv txEnv string operator_request

fun control_step :: "control \<Rightarrow> world \<Rightarrow> world" where
  "control_step (ServiceCall call) w = serve call w"
| "control_step (OperatorCall env env2 i req) w = snd (handle env env2 i req w)"

lemma terminal_step:
  assumes wf: "wf_db (database w)" and s: "taskStatus_of i w = Some s" and "isTerminalState s"
    and c: "\<And>env env2 dto. c \<noteq> OperatorCall env env2 i (ReopenAction dto)"
  shows "taskStatus_of i (control_step c w) = Some s"
proof (cases c)
  case (ServiceCall call)
  from serve_task_step[OF wf s, of call] obtain s1 where s1: "taskStatus_of i (serve call w) = Some s1"
    "run_machine validateTransition s (moves_of i [call] w) = Some s1" by blast
  have "\<not> valid (validateTransition s t ctx)" for t ctx
    using assms(3) accepted_in_targets[of s t ctx] getValidTargets_table(2)[of s] by auto
  then have "s1 = s" using s1(2) by (cases "moves_of i [call] w") (auto split: if_splits)
  then show ?thesis using s1 ServiceCall by simp
next
  case (OperatorCall env env2 j req)
  from s obtain t where t: "task_findById i (database w) = Some t" "t_status t = s" by (auto simp: taskStatus_of_def)
  have fin: "t_status t \<in> {TaskStatus.DONE, TaskStatus.FAILED, TaskStatus.CANCELLED}"
    using assms(3) t(2) by (simp add: isTerminalState_def TaskSM.TERMINAL_STATES_def)
  show ?thesis
  proof (rule handle_tasks[OF wf, of env env2 j req], goal_cases)
    case 1
    then show ?case using OperatorCall t by (simp add: taskStatus_of_def task_findById_def)
  next
    case (2 u)
    show ?case
    proof (cases "j = i")
      case True
      then have "t_status (effect env req u) = s"
        using 2(1,2) t fin c[of env env2] OperatorCall by (cases req) auto
      then show ?thesis using 2 True OperatorCall by (simp add: taskStatus_of_def)
    next
      case False
      then show ?thesis using 2 t OperatorCall by (simp add: taskStatus_of_def)
    qed
  qed
qed

text \<open>
  (C13) A finished task stays finished.  Whatever calls of the transition service and operator
  actions follow, in whatever order, a task that is done, failed or cancelled keeps that status
  until an operator reopens it.
\<close>

theorem terminal_until_reopened:
  assumes "wf_db (database w)" and "taskStatus_of i w = Some s" and "isTerminalState s"
    and "\<forall>env env2 dto. OperatorCall env env2 i (ReopenAction dto) \<notin> set cs"
  shows "taskStatus_of i (fold control_step cs w) = Some s"
  using assms
proof (induction cs arbitrary: w)
  case (Cons c cs)
  have "wf_db (database (control_step c w))" using Cons.prems(1) by (cases c) (simp_all add: serve_wf handle_wf)
  moreover have "taskStatus_of i (control_step c w) = Some s"
    using Cons.prems(4) by (intro terminal_step[OF Cons.prems(1-3)]) auto
  ultimately show ?case using Cons by simp
qed simp

definition done_world :: world where
  "done_world = lease_world\<lparr>database := (database lease_world)\<lparr>tasks := [example_task\<lparr>t_status := TaskStatus.DONE\<rparr>]\<rparr>\<rparr>"

theorem terminal_until_reopened_witness:
  "taskStatus_of ''T1'' (fold control_step
     [OperatorCall example_env example_env ''T1'' (RerunReviewAction operator_dto),
      OperatorCall example_env example_env ''T1'' (CancelAction operator_dto (Some True))] done_world)
   = Some TaskStatus.DONE"
  by (rule terminal_until_reopened)
     (auto simp: done_world_def lease_world_def lease_db_def example_db_def wf_db_def taskStatus_of_def
       task_findById_def example_task_def isTerminalState_def TaskSM.TERMINAL_STATES_def)

text \<open>
  A requeue does not free the task.  The lease stays active when an operator requeues a task
  that is being worked on, so the task is \<open>READY\<close> but every acquisition of it is refused as long as
  that lease lasts.
\<close>

lemma requeued_task_unleasable:
  assumes "wf_db (database w)" and "requeue env i who why w = (Inr r, w')"
    and "active_leases i (database w) \<noteq> []" and "al_taskId p = i"
  shows "taskStatus_of i w' = Some TaskStatus.READY
    \<and> (\<exists>l \<in> set (active_leases i (database w)).
         acquireLease lenv p w' = (Inl (ExclusivityViolationError i (l_leaseId l)), w'))"
proof -
  have w': "w' = snd (handle env env i (RequeueAction \<lparr>ac_actorId = who, ac_reason = why\<rparr>) w)"
    using assms(2) by simp
  have same: "active_leases i (database w') = active_leases i (database w)"
    using handle_leases[of env env i "RequeueAction \<lparr>ac_actorId = who, ac_reason = why\<rparr>" w] w'
    by (simp add: active_leases_def)
  have "\<exists>t. task_findById i (database w') = Some t \<and> t_status t = TaskStatus.READY"
  proof (rule transitionTask_cases[OF assms(1), of env i TaskStatus.READY "emptyContext\<lparr>leaseReclaimedRetryEligible := Some True\<rparr>"
        "operator who" "Some (JObj [(''action'', JStr ''requeue''), (''reason'', JStr why)])"], goal_cases)
    case (1 err)
    then show ?case using assms(2) by (simp add: requeue_def executeTransitionAction_def)
  next
    case (2 t a v)
    then show ?case using assms(2)
      by (auto simp: requeue_def executeTransitionAction_def task_committed_def Let_def split: sum.splits)
  qed
  then obtain t where t: "task_findById i (database w') = Some t" "t_status t = TaskStatus.READY" by blast
  obtain l where l: "lease_findActiveByTaskId i (database w') = Some l"
    using findActive_None[of i "database w'"] same assms(3) by (cases "lease_findActiveByTaskId i (database w')") auto
  then have "l \<in> set (active_leases i (database w'))"
    by (auto simp: lease_findActiveByTaskId_def active_leases_def active_lease_def dest: find_Some_iff_mem)
  moreover have "acquireLease lenv p w' = (Inl (ExclusivityViolationError i (l_leaseId l)), w')"
    using t l assms(4) by (simp add: acquireLease_def acquireLease_tx_def Let_def commit_def writeTransaction_def
        LEASE_ELIGIBLE_STATUSES_def)
  ultimately show ?thesis using t same by (auto simp: taskStatus_of_def)
qed

definition working_world :: world where
  "working_world = lease_world\<lparr>database := (database lease_world)\<lparr>
     tasks := [example_task\<lparr>t_status := TaskStatus.IN_DEVELOPMENT, t_currentLeaseId := Some ''L1''\<rparr>],
     taskLeases := [\<lparr>l_leaseId = ''L1'', l_taskId = ''T1'', l_workerId = ''W'', l_poolId = ''P'', l_leasedAt = 0,
       l_expiresAt = 100, l_heartbeatAt = None, l_status = WorkerLeaseStatus.RUNNING, l_reclaimReason = None,
       l_partialResultArtifactRefs = None\<rparr>]\<rparr>\<rparr>"

end
