(* ===== verification/LeaseProtocol.thy ===== *)
theory LeaseProtocol
  imports Completion OperatorActions
begin

text \<open>
  The lease protocol as a whole: acquisition, heartbeats, reclaim, result acceptance, the transition
  service and the operator's actions, interleaved in any order by any number of workers, sweepers and
  operators.  The operations are synchronous, so a run is a sequence of steps.
\<close>

inductive protocol_step :: "world \<Rightarrow> world \<Rightarrow> bool" where
  acquire: "acquireLease env p w = (r, w') \<Longrightarrow> protocol_step w w'"
| heartbeat: "receiveHeartbeat env' p' w = (r', w') \<Longrightarrow> protocol_step w w'"
| reclaim: "reclaimLease env'' p'' w = (r'', w') \<Longrightarrow> protocol_step w w'"
| accept: "acceptResult env3 p3 w = (r3, w') \<Longrightarrow> protocol_step w w'"
| transition: "serve call w = w' \<Longrightarrow> protocol_step w w'"
| operator_action: "handle env4 env5 i req w = (r4, w') \<Longrightarrow> protocol_step w w'"

inductive_cases protocol_stepE: "protocol_step w w'"

subsection \<open>Exclusivity\<close>

definition lease_inv :: "db \<Rightarrow> bool" where
  "lease_inv d \<longleftrightarrow> wf_db d \<and> exclusive d"

lemma lease_inv_same_leases:
  "wf_db d' \<Longrightarrow> taskLeases d' = taskLeases d \<Longrightarrow> lease_inv d \<Longrightarrow> lease_inv d'"
  using exclusive_leases_only[of d' d] by (simp add: lease_inv_def)

lemma lease_inv_audit [preserves_intro]: "preserves lease_inv (auditEvent_create uuid now ev)"
  by (auto simp: preserves_def auditEvent_create_def Let_def lease_inv_def wf_db_def exclusive_def
      active_leases_def)

lemma lease_inv_checkedUpdate:
  assumes "\<And>r. l_leaseId (f r) = l_leaseId r \<and> l_taskId (f r) = l_taskId r"
    and "\<And>r. l_status r = e \<Longrightarrow> active_lease (f r) \<Longrightarrow> active_lease r"
  shows "preserves lease_inv (lease_checkedUpdate i e f)"
  using exclusive_checkedUpdate[OF assms] by (simp add: lease_inv_def[abs_def])

text \<open>No accepted move revives a lease.\<close>

lemma accepted_keeps_inactive:
  "valid (validateWorkerLeaseTransition s t c) \<Longrightarrow>
   t \<notin> {WorkerLeaseStatus.TIMED_OUT, WorkerLeaseStatus.CRASHED, WorkerLeaseStatus.RECLAIMED} \<Longrightarrow>
   s \<notin> {WorkerLeaseStatus.TIMED_OUT, WorkerLeaseStatus.CRASHED, WorkerLeaseStatus.RECLAIMED}"
  by (cases t) (auto simp: lease_accepted_iff)

lemma lease_inv_transitionLease:
  "lease_inv (database w) \<Longrightarrow> lease_inv (database (snd (transitionLease env i s c a m w)))"
  unfolding transitionLease_def snd_apfst lease_updateStatus_def
  by (intro commit_preserves[where P = lease_inv] preserves_intro lease_inv_checkedUpdate)
     (auto simp: active_lease_iff dest: accepted_keeps_inactive)

lemma lease_inv_heartbeat:
  "lease_inv (database w) \<Longrightarrow> lease_inv (database (snd (receiveHeartbeat env p w)))"
  unfolding receiveHeartbeat_def receiveHeartbeat_tx_def snd_apfst updateHeartbeat_def
  by (intro commit_preserves[where P = lease_inv] preserves_intro lease_inv_checkedUpdate)
     (auto simp: active_lease_iff HEARTBEAT_RECEIVABLE_STATES_def)

text \<open>The other transitions leave the leases alone.\<close>

lemma leases_untouched [preserves_intro]:
  "preserves (\<lambda>d. taskLeases d = L) (auditEvent_create uuid now ev)"
  "preserves (\<lambda>d. taskLeases d = L) (task_updateStatus now i k s)"
  "preserves (\<lambda>d. taskLeases d = L) (cycle_updateStatus i c s'')"
  "preserves (\<lambda>d. taskLeases d = L) (item_updateStatus i q r)"
  by (auto simp: preserves_def auditEvent_create_def task_updateStatus_def task_update_def
      cycle_updateStatus_def cycle_update_def item_updateStatus_def item_update_def bindT_apply Let_def
      split: option.split)

lemma serve_leases:
  assumes "\<And>env i s' c' a m. call \<noteq> CallLease env i s' c' a m"
  shows "taskLeases (database (serve call w)) = taskLeases (database w)"
proof (cases call)
  case (CallTask env i s c a m)
  show ?thesis unfolding CallTask serve.simps transitionTask_def snd_apfst
    by (intro commit_preserves[where P = "\<lambda>d. taskLeases d = taskLeases (database w)"] preserves_intro refl)
next
  case (CallCycle env i s c a m)
  show ?thesis unfolding CallCycle serve.simps transitionReviewCycle_def snd_apfst
    by (intro commit_preserves[where P = "\<lambda>d. taskLeases d = taskLeases (database w)"] preserves_intro refl)
next
  case (CallItem env i s c a m)
  show ?thesis unfolding CallItem serve.simps transitionMergeQueueItem_def snd_apfst
    by (intro commit_preserves[where P = "\<lambda>d. taskLeases d = taskLeases (database w)"] preserves_intro refl)
qed (use assms in auto)

lemma serve_inv: "lease_inv (database w) \<Longrightarrow> lease_inv (database (serve call w))"
proof (cases "\<exists>env i s' c' a m. call = CallLease env i s' c' a m")
  case True
  then show "lease_inv (database w) \<Longrightarrow> ?thesis" by (auto simp: lease_inv_transitionLease)
next
  case False
  then show "lease_inv (database w) \<Longrightarrow> ?thesis"
    using lease_inv_same_leases[OF serve_wf] serve_leases[of call w] by (auto simp: lease_inv_def)
qed

lemma accept_inv: "lease_inv (database w) \<Longrightarrow> lease_inv (database (snd (acceptResult env p w)))"
  unfolding acceptResult_def acceptResult_tx_def
  by (intro commit_preserves[where P = lease_inv] preserves_intro)

lemma protocol_step_inv: "protocol_step w w' \<Longrightarrow> lease_inv (database w) \<Longrightarrow> lease_inv (database w')"
proof (induction rule: protocol_step.induct)
  case (acquire env p w r w')
  then show ?case using acquireLease_exclusive[of w env p] by (simp add: lease_inv_def)
next
  case (heartbeat env p w r w')
  then show ?case using lease_inv_heartbeat[of w env p] by simp
next
  case (reclaim env p w r w')
  then show ?case using reclaimLease_exclusive[of w env p] by (simp add: lease_inv_def)
next
  case (accept env p w r w')
  then show ?case using accept_inv[of w env p] by simp
next
  case (transition call w w')
  then show ?case using serve_inv[of w call] by simp
next
  case (operator_action env4 env5 i req w r4 w')
  then show ?case
    using lease_inv_same_leases[OF handle_wf handle_leases, of w env4 env5 i req] by (simp add: lease_inv_def)
qed

lemma protocol_inv: "protocol_step\<^sup>*\<^sup>* w w' \<Longrightarrow> lease_inv (database w) \<Longrightarrow> lease_inv (database w')"
  by (induction rule: rtranclp_induct) (auto intro: protocol_step_inv)

text \<open>
  (C1) One task, one worker.  Whatever sequence of acquisitions, heartbeats, reclaims, accepted
  results, transitions and operator actions is run, by however many workers, sweepers and operators and
  in whatever order, no task ever has two active leases, and the keys of the database stay unique.
\<close>

theorem lease_exclusivity:
  assumes "protocol_step\<^sup>*\<^sup>* w w'" and "wf_db (database w)" and "\<forall>i. length (active_leases i (database w)) \<le> 1"
  shows "wf_db (database w') \<and> (\<forall>i. length (active_leases i (database w')) \<le> 1)"
  using protocol_inv[OF assms(1)] assms(2,3) by (simp add: lease_inv_def exclusive_def)

theorem lease_exclusivity_witness:
  "length (active_leases ''T1'' (database (snd (acquireLease lease_env (lease_params\<lparr>al_workerId := ''V''\<rparr>)
     (snd (acquireLease lease_env lease_params lease_world)))))) \<le> 1"
proof -
  have step: "protocol_step w (snd (acquireLease lease_env p w))" for p w
    by (rule protocol_step.acquire[of lease_env p _ "fst (acquireLease lease_env p w)"]) simp
  have "protocol_step\<^sup>*\<^sup>* lease_world (snd (acquireLease lease_env (lease_params\<lparr>al_workerId := ''V''\<rparr>)
     (snd (acquireLease lease_env lease_params lease_world))))"
    by (rule rtranclp.rtrancl_into_rtrancl[OF r_into_rtranclp[of protocol_step]]) (rule step)+
  moreover have "active_leases i (database lease_world) = []" for i
    by (simp add: active_leases_def lease_world_def lease_db_def example_db_def)
  ultimately show ?thesis using lease_exclusivity[OF _ lease_world_wf] by simp
qed

subsection \<open>The life of a lease\<close>

text \<open>
  What a step may do to a lease: it keeps its task, worker and pool, and its status stays or moves as
  the worker lease machine allows.
\<close>

definition lease_move :: "TaskLease \<Rightarrow> TaskLease \<Rightarrow> bool" where
  "lease_move l l' \<longleftrightarrow> l_taskId l' = l_taskId l \<and> l_workerId l' = l_workerId l \<and> l_poolId l' = l_poolId l
     \<and> (l_status l' = l_status l \<or> (\<exists>c. valid (validateWorkerLeaseTransition (l_status l) (l_status l') c)))"

definition leases_move :: "db \<Rightarrow> db \<Rightarrow> bool" where
  "leases_move d d' \<longleftrightarrow> (\<forall>i l. lease_findById i d = Some l \<longrightarrow>
     (\<exists>l'. lease_findById i d' = Some l' \<and> lease_move l l'))"

lemma lease_move_refl: "lease_move l l"
  by (simp add: lease_move_def)

lemma leases_move_same: "taskLeases d' = taskLeases d \<Longrightarrow> leases_move d d'"
  by (simp add: leases_move_def lease_findById_def lease_move_refl)

lemma leases_move_one:
  assumes "lease_findById i d = Some l" and "lease_findById i d' = Some l'" and "lease_move l l'"
    and "\<forall>j. j \<noteq> i \<longrightarrow> lease_findById j d' = lease_findById j d"
  shows "leases_move d d'"
  unfolding leases_move_def
proof (intro allI impI)
  fix j x
  assume "lease_findById j d = Some x"
  then show "\<exists>l'. lease_findById j d' = Some l' \<and> lease_move x l'"
    using assms lease_move_refl by (cases "j = i") auto
qed

lemma acquire_moves:
  assumes "wf_db (database w)"
  shows "leases_move (database w) (database (snd (acquireLease env p w)))"
proof (cases "acquireLease env p w")
  case (Pair r w')
  show ?thesis
  proof (cases r)
    case (Inl e)
    then show ?thesis using acquire_lease_spec[OF assms, of p env] Pair leases_move_same by simp
  next
    case (Inr x)
    then have "taskLeases (database w') = taskLeases (database w) @ [la_lease x]"
      using acquire_lease_spec[OF assms, of p env] Pair by auto
    then have "lease_findById i (database w') = Some l" if "lease_findById i (database w) = Some l" for i l
      using that by (simp add: lease_findById_def find_append_Some)
    then show ?thesis using Pair by (simp add: leases_move_def lease_move_refl)
  qed
qed

lemma heartbeat_moves:
  assumes "wf_db (database w)"
  shows "leases_move (database w) (database (snd (receiveHeartbeat env p w)))"
proof (rule receiveHeartbeat_tx_cases[OF assms, of env p], goal_cases)
  case (1 e d')
  then show ?case
    by (simp add: receiveHeartbeat_def commit_def writeTransaction_def leases_move_same)
next
  case (2 l l' a d')
  have "lease_move l l'"
    using 2 heartbeat_transition_valid[OF 2(2), of "hb_completing p"] by (auto simp: lease_move_def)
  then have "leases_move (database w) d'" using 2 leases_move_one by blast
  with 2 show ?case by (simp add: receiveHeartbeat_def commit_def writeTransaction_def)
qed

lemma reclaim_moves:
  assumes "wf_db (database w)"
  shows "leases_move (database w) (database (snd (reclaimLease env p w)))"
proof (cases "reclaimLease env p w")
  case (Pair r w')
  show ?thesis
  proof (cases r)
    case (Inl e)
    then show ?thesis using reclaim_lease_spec[OF assms, of p env] Pair leases_move_same by simp
  next
    case (Inr x)
    then obtain l t where s: "reclaimable p l t (database w)" "rr_lease x = reclaimed_lease p l"
      "lease_findById (rp_leaseId p) (database w') = Some (rr_lease x)"
      "\<forall>j. j \<noteq> rp_leaseId p \<longrightarrow> lease_findById j (database w') = lease_findById j (database w)"
      using reclaim_lease_spec[OF assms, of p env] Pair by auto
    have "l_status l \<in> set RECLAIMABLE_STATES" using s(1) by (auto simp: reclaimable_def RECLAIMABLE_STATES_def)
    then have "lease_move l (rr_lease x)"
      using reclaim_lease_transition_valid[of "l_status l" "rp_reason p"] s(2)
      by (auto simp: lease_move_def reclaimed_lease_def)
    then show ?thesis using s leases_move_one Pair by (auto simp: reclaimable_def)
  qed
qed

lemma accept_moves:
  assumes "wf_db (database w)"
  shows "leases_move (database w) (database (snd (acceptResult env p w)))"
  using accept_result_spec[OF assms, of env p]
  by (auto intro!: leases_move_same split: prod.splits sum.splits)

text \<open>One transition of the lease service.\<close>

lemma transitionLease_moves:
  assumes "wf_db (database w)"
  shows "leases_move (database w) (database (snd (transitionLease env i s ctx actor meta w)))"
proof -
  let ?ev = "\<lambda>lease. \<lparr>na_entityType = ''task-lease'', na_entityId = i,
      na_eventType = ''task-lease.transition.'' @ WorkerLeaseStatus_value (l_status lease)
        @ ''.to.'' @ WorkerLeaseStatus_value s,
      na_actorType = actor_type actor, na_actorId = actor_id actor,
      na_oldState = Some (JObj [(''status'', JStr (WorkerLeaseStatus_value (l_status lease)))]),
      na_newState = Some (JObj [(''status'', JStr (WorkerLeaseStatus_value s))]), na_metadata = meta\<rparr>"
  let ?tx = "bindT (getT (lease_findById i)) (\<lambda>found. case found of
           None \<Rightarrow> throwT (EntityNotFoundError ''TaskLease'' i)
         | Some e \<Rightarrow>
             let validation = (\<lambda>st. validateWorkerLeaseTransition st s ctx) (l_status e) in
             if \<not> valid validation then throwT ((\<lambda>e v. InvalidTransitionError ''TaskLease'' i
               (WorkerLeaseStatus_value (l_status e)) (WorkerLeaseStatus_value s) (reason v)) e validation)
             else bindT (lease_updateStatus i (l_status e) s) (\<lambda>u.
                  bindT (auditEvent_create (env_uuid env) (env_now env) (?ev e))
                    (\<lambda>a. returnT ((\<lambda>e u a. (u, a, l_status e)) e u a))))"
  obtain out d' where res: "writeTransaction ?tx (database w) = (out, d')" by fastforce
  have "database (snd (transitionLease env i s ctx actor meta w)) = d'"
    unfolding transitionLease_def snd_apfst commit_def using res
    by (auto simp: Let_def split: prod.split sum.split)
  moreover from lease_port.transition_cases[OF assms res] have "leases_move (database w) d'"
  proof (elim disjE exE conjE)
    fix l u a d1
    assume l: "lease_findById i (database w) = Some l" "valid (validateWorkerLeaseTransition (l_status l) s ctx)"
      and u: "lease_updateStatus i (l_status l) s (database w) = (Inr u, d1)"
        "d' = d1\<lparr>auditEvents := auditEvents (database w) @ [a]\<rparr>" "lease_findById i d1 = Some u"
        "\<forall>j. j \<noteq> i \<longrightarrow> lease_findById j d1 = lease_findById j (database w)"
    have "u = l\<lparr>l_status := s\<rparr>"
      by (rule lease_checkedUpdate_current[OF assms l(1), of "\<lambda>r. r\<lparr>l_status := s\<rparr>"])
         (use u(1) in \<open>auto simp: lease_updateStatus_def\<close>)
    then have "lease_move l u" using l(2) by (auto simp: lease_move_def)
    moreover have "lease_findById j d' = lease_findById j d1" for j by (simp add: u(2) lease_findById_def)
    ultimately show ?thesis using leases_move_one[OF l(1), of d' u] u by simp
  qed (simp_all add: leases_move_same)
  ultimately show ?thesis by simp
qed

lemma protocol_step_moves:
  "protocol_step w w' \<Longrightarrow> wf_db (database w) \<Longrightarrow> leases_move (database w) (database w')"
proof (induction rule: protocol_step.induct)
  case (acquire env p w r w')
  then show ?case using acquire_moves[of w env p] by simp
next
  case (heartbeat env p w r w')
  then show ?case using heartbeat_moves[of w env p] by simp
next
  case (reclaim env p w r w')
  then show ?case using reclaim_moves[of w env p] by simp
next
  case (accept env p w r w')
  then show ?case using accept_moves[of w env p] by simp
next
  case (transition call w w')
  then show ?case
    using transitionLease_moves[of w] leases_move_same serve_leases[of call w] by (cases call) auto
next
  case (operator_action env4 env5 i req w r4 w')
  then show ?case using leases_move_same[OF handle_leases, of w env4 env5 i req] by simp
qed

lemma serve_step_wf: "protocol_step w w' \<Longrightarrow> wf_db (database w) \<Longrightarrow> wf_db (database w')"
proof (induction rule: protocol_step.induct)
  case (acquire env p w r w')
  then show ?case using acquire_lease_spec[of w p env] by (auto split: sum.splits)
next
  case (heartbeat env p w r w')
  then show ?case using receive_heartbeat_spec[of w p env] by (auto split: sum.splits)
next
  case (reclaim env p w r w')
  then show ?case using reclaim_lease_spec[of w p env] by (auto split: sum.splits)
next
  case (accept env p w r w')
  then show ?case using accept_result_spec[of w env p] by (auto split: sum.splits)
next
  case (transition call w w')
  then show ?case using serve_wf[of w call] by simp
next
  case (operator_action env4 env5 i req w r4 w')
  then show ?case using handle_wf[of w env4 env5 i req] by simp
qed

lemma protocol_history:
  assumes "protocol_step\<^sup>*\<^sup>* w w'" and "wf_db (database w)" and "lease_findById i (database w) = Some l"
  shows "wf_db (database w') \<and> (\<exists>l' ms. lease_findById i (database w') = Some l'
    \<and> l_taskId l' = l_taskId l \<and> l_workerId l' = l_workerId l \<and> l_poolId l' = l_poolId l
    \<and> run_machine validateWorkerLeaseTransition (l_status l) ms = Some (l_status l'))"
  using assms
proof (induction rule: rtranclp_induct)
  case base
  then show ?case by (auto intro: exI[of _ "[]"])
next
  case (step v v')
  then obtain l1 ms where l1: "lease_findById i (database v) = Some l1" "wf_db (database v)"
    "l_taskId l1 = l_taskId l" "l_workerId l1 = l_workerId l" "l_poolId l1 = l_poolId l"
    "run_machine validateWorkerLeaseTransition (l_status l) ms = Some (l_status l1)" by blast
  from protocol_step_moves[OF step(2) l1(2)] l1(1) obtain l2 where
    l2: "lease_findById i (database v') = Some l2" "lease_move l1 l2" by (auto simp: leases_move_def)
  have "\<exists>ms'. run_machine validateWorkerLeaseTransition (l_status l) ms' = Some (l_status l2)"
  proof (cases "l_status l2 = l_status l1")
    case False
    with l2(2) obtain c where "valid (validateWorkerLeaseTransition (l_status l1) (l_status l2) c)"
      by (auto simp: lease_move_def)
    then have "run_machine validateWorkerLeaseTransition (l_status l) (ms @ [(l_status l2, c)]) = Some (l_status l2)"
      using l1(6) by (simp add: run_machine_append)
    then show ?thesis by blast
  qed (use l1(6) in auto)
  moreover have "l_taskId l2 = l_taskId l" "l_workerId l2 = l_workerId l" "l_poolId l2 = l_poolId l"
    using l1 l2(2) by (auto simp: lease_move_def)
  ultimately show ?case using l2(1) serve_step_wf[OF step(2) l1(2)] by blast
qed

text \<open>
  (C32) The protocol refines the worker lease machine: in any run of the services a lease is never
  deleted, never changes its task, its worker or its pool, and the statuses it goes through form a
  run of the lease state machine.
\<close>

theorem lease_history_refines_machine:
  assumes "protocol_step\<^sup>*\<^sup>* w w'" and "wf_db (database w)" and "lease_findById i (database w) = Some l"
  shows "\<exists>l' ms. lease_findById i (database w') = Some l'
    \<and> l_taskId l' = l_taskId l \<and> l_workerId l' = l_workerId l \<and> l_poolId l' = l_poolId l
    \<and> run_machine validateWorkerLeaseTransition (l_status l) ms = Some (l_status l')"
  using protocol_history[OF assms] by blast

lemma running_lease_found: "lease_findById ''L1'' (database running_world) = Some running_lease"
  by (simp add: lease_findById_def running_world_def lease_db_def running_lease_def)

lemma reclaim_is_step: "protocol_step w (snd (reclaimLease env p w))"
  by (rule protocol_step.reclaim[of env p _ "fst (reclaimLease env p w)"]) simp

theorem lease_history_refines_machine_witness:
  "\<exists>l' ms. lease_findById ''L1'' (database (snd (reclaimLease reclaim_env reclaim_params running_world))) = Some l'
     \<and> run_machine validateWorkerLeaseTransition WorkerLeaseStatus.RUNNING ms = Some (l_status l')"
  using lease_history_refines_machine[OF r_into_rtranclp[of protocol_step, OF reclaim_is_step] running_world_wf
      running_lease_found, of reclaim_env reclaim_params]
  by (auto simp: running_lease_def)

lemma completing_run: "run_machine validateWorkerLeaseTransition WorkerLeaseStatus.COMPLETING ms = Some s
    \<Longrightarrow> s = WorkerLeaseStatus.COMPLETING"
proof (cases ms)
  case (Cons m ms')
  have "\<not> valid (validateWorkerLeaseTransition WorkerLeaseStatus.COMPLETING t c)" for t c
    by (cases t) (simp_all add: lease_accepted_iff)
  moreover assume "run_machine validateWorkerLeaseTransition WorkerLeaseStatus.COMPLETING ms = Some s"
  ultimately show ?thesis using Cons by (cases m) simp
qed simp

text \<open>
  (C33) A lease that has completed stays \<open>COMPLETING\<close> for ever and, since the repository's list of
  terminal statuses has \<open>COMPLETED\<close> in its place, stays active: after any run of the services and of
  operator actions no lease on its task is granted again, to any worker, not even when the task comes
  back with requested changes, and no operator can reopen the task.
\<close>

theorem completed_lease_blocks_task:
  assumes "protocol_step\<^sup>*\<^sup>* w w'" and "wf_db (database w)" and "lease_findById i (database w) = Some l"
    and "l_status l = WorkerLeaseStatus.COMPLETING" and "al_taskId p = l_taskId l"
  shows "(\<exists>e. acquireLease env p w' = (Inl e, w')) \<and> (\<exists>e. reopen env' (l_taskId l) who why w' = (Inl e, w'))"
proof -
  from protocol_history[OF assms(1-3)] assms(4) obtain l' where l': "wf_db (database w')"
    "lease_findById i (database w') = Some l'" "l_taskId l' = l_taskId l"
    "l_status l' = WorkerLeaseStatus.COMPLETING" by (auto dest: completing_run)
  then have "l' \<in> set (active_leases (al_taskId p) (database w'))"
    using assms(5) by (auto simp: active_leases_def active_lease_iff lease_findById_def dest: find_Some_iff_mem)
  then have act: "active_leases (al_taskId p) (database w') \<noteq> []" by auto
  then have "\<nexists>t. leasable p t (database w')" by (auto simp: leasable_def)
  then have "\<exists>e. acquireLease env p w' = (Inl e, w')"
    using acquire_lease_spec[OF l'(1), of p env] by (auto split: prod.splits sum.splits)
  moreover have "\<exists>e. reopen env' (l_taskId l) who why w' = (Inl e, w')"
    using reopen_leased[OF act] assms(5) by simp
  ultimately show ?thesis by blast
qed

definition completing_world :: world where
  "completing_world = running_world\<lparr>database := (database running_world)\<lparr>
     tasks := [example_task\<lparr>t_status := TaskStatus.CHANGES_REQUESTED\<rparr>],
     taskLeases := [running_lease\<lparr>l_status := WorkerLeaseStatus.COMPLETING\<rparr>]\<rparr>\<rparr>"

theorem completed_lease_blocks_task_witness:
  "(\<exists>e. acquireLease lease_env (lease_params\<lparr>al_taskId := ''T1''\<rparr>) completing_world = (Inl e, completing_world))
   \<and> (\<exists>e. reopen example_env ''T1'' ''op'' ''again'' completing_world = (Inl e, completing_world))"
proof -
  have wf: "wf_db (database completing_world)"
    by (simp add: completing_world_def running_world_def lease_db_def example_db_def wf_db_def)
  have l: "lease_findById ''L1'' (database completing_world)
      = Some (running_lease\<lparr>l_status := WorkerLeaseStatus.COMPLETING\<rparr>)"
    by (simp add: completing_world_def lease_findById_def running_lease_def)
  show ?thesis
    using completed_lease_blocks_task[OF rtranclp.rtrancl_refl wf l, of "lease_params\<lparr>al_taskId := ''T1''\<rparr>"
        lease_env example_env "''op''" "''again''"] by (simp add: running_lease_def)
qed

end
