(* ===== verification/Dependency.thy ===== *)
theory Dependency
  imports Ports
begin

text \<open>
  \<open>packages/application/src/services/dependency.service.ts\<close>: the task dependency graph and the
  depth-first search that keeps it acyclic.  The unit of work of its port is modelled by the write
  transaction and the task dependency repository
  (\<open>apps/control-plane/src/infrastructure/repositories/task-dependency.repository.ts\<close>).
\<close>

subsection \<open>Repository\<close>

definition dependency_findByTaskId :: "string \<Rightarrow> db \<Rightarrow> TaskDependency list" where
  "dependency_findByTaskId taskId d = filter (\<lambda>e. d_taskId e = taskId) (taskDependencies d)"

definition dependency_findByDependsOnTaskId :: "string \<Rightarrow> db \<Rightarrow> TaskDependency list" where
  "dependency_findByDependsOnTaskId dependsOnTaskId d =
    filter (\<lambda>e. d_dependsOnTaskId e = dependsOnTaskId) (taskDependencies d)"

definition dependency_findByTaskIdPair :: "string \<Rightarrow> string \<Rightarrow> db \<Rightarrow> TaskDependency option" where
  "dependency_findByTaskIdPair taskId dependsOnTaskId d =
    find (\<lambda>e. d_taskId e = taskId \<and> d_dependsOnTaskId e = dependsOnTaskId) (taskDependencies d)"

text \<open>An insert checks the primary key, the unique pair and the references to the two tasks.\<close>

definition dependency_create :: "TaskDependency \<Rightarrow> TaskDependency tx" where
  "dependency_create row = (\<lambda>d.
    if d_taskDependencyId row \<in> set (map d_taskDependencyId (taskDependencies d))
       \<or> (d_taskId row, d_dependsOnTaskId row)
           \<in> set (map (\<lambda>e. (d_taskId e, d_dependsOnTaskId e)) (taskDependencies d))
       \<or> d_taskId row \<notin> set (map t_taskId (tasks d))
       \<or> d_dependsOnTaskId row \<notin> set (map t_taskId (tasks d))
    then (Inl (ConstraintError ''task_dependency''), d)
    else (Inr row, d\<lparr>taskDependencies := taskDependencies d @ [row]\<rparr>))"

definition dependency_delete :: "string \<Rightarrow> bool tx" where
  "dependency_delete taskDependencyId = (\<lambda>d.
    (Inr (list_ex (\<lambda>e. d_taskDependencyId e = taskDependencyId) (taskDependencies d)),
     d\<lparr>taskDependencies := filter (\<lambda>e. d_taskDependencyId e \<noteq> taskDependencyId) (taskDependencies d)\<rparr>))"

subsection \<open>Cycle detection\<close>

text \<open>
  The successors of a task, in the order \<open>findByTaskId\<close> returns the edges.  \<open>dfs\<close> threads the set of
  visited tasks and the path stack that the closure mutates; \<open>dfs_edges\<close> is its loop over the edges,
  which the outer function repeats for the edges of the start task.
\<close>

definition successors :: "TaskDependency list \<Rightarrow> string \<Rightarrow> string list" where
  "successors E i = map d_dependsOnTaskId (filter (\<lambda>e. d_taskId e = i) E)"

function (sequential) dfs :: "TaskDependency list \<Rightarrow> string \<Rightarrow> string \<Rightarrow> string list \<times> string list
      \<Rightarrow> bool \<times> string list \<times> string list"
  and dfs_edges :: "TaskDependency list \<Rightarrow> string \<Rightarrow> string list \<Rightarrow> string list \<times> string list
      \<Rightarrow> bool \<times> string list \<times> string list" where
  "dfs E targetTaskId currentTaskId (visited, pathStack) =
    (if currentTaskId = targetTaskId then (True, visited, pathStack @ [targetTaskId])
     else if currentTaskId \<in> set visited then (False, visited, pathStack)
     else dfs_edges E targetTaskId (successors E currentTaskId) (currentTaskId # visited, pathStack))"
| "dfs_edges E targetTaskId [] (visited, pathStack) = (False, visited, pathStack)"
| "dfs_edges E targetTaskId (next # rest) (visited, pathStack) =
    (case dfs E targetTaskId next (visited, pathStack @ [next]) of
       (True, visited', pathStack') \<Rightarrow> (True, visited', pathStack')
     | (False, visited', pathStack') \<Rightarrow> dfs_edges E targetTaskId rest (visited', butlast pathStack'))"
  by pat_completeness auto

text \<open>The search ends: it only ever adds to the visited tasks.\<close>

lemma dfs_visited_mono:
  "dfs_dfs_edges_dom (Inl (E, t, c, s)) \<Longrightarrow> set (fst s) \<subseteq> set (fst (snd (dfs E t c s)))"
  "dfs_dfs_edges_dom (Inr (E, t, cs, s)) \<Longrightarrow> set (fst s) \<subseteq> set (fst (snd (dfs_edges E t cs s)))"
proof (induction E t c s and E t cs s rule: dfs_dfs_edges.pinduct)
  case (1 E t c visited path)
  then show ?case by (auto simp: dfs.psimps)
next
  case (2 E t visited path)
  then show ?case by (auto simp: dfs_edges.psimps)
next
  case (3 E t c cs visited path)
  obtain b v p where r: "dfs E t c (visited, path @ [c]) = (b, v, p)" by (cases "dfs E t c (visited, path @ [c])")
  have "set visited \<subseteq> set v" using 3(2) r by simp
  moreover have "\<not> b \<Longrightarrow> set v \<subseteq> set (fst (snd (dfs_edges E t cs (v, butlast p))))"
    using 3(3)[OF r[symmetric]] by auto
  ultimately show ?case using 3(1) r by (cases b) (auto simp: dfs_edges.psimps)
qed

definition dfs_measure :: "TaskDependency list \<times> string \<times> string \<times> string list \<times> string list
    + TaskDependency list \<times> string \<times> string list \<times> string list \<times> string list \<Rightarrow> nat \<times> nat" where
  "dfs_measure x = (case x of
     Inl (E, t, c, visited, path) \<Rightarrow> (card (d_taskId ` set E - set visited), 1)
   | Inr (E, t, cs, visited, path) \<Rightarrow> (card (d_taskId ` set E - set visited), 2 * length cs))"

lemma unvisited_mono: "set v \<subseteq> set v' \<Longrightarrow> card (d_taskId ` set E - set v') \<le> card (d_taskId ` set E - set v)"
  by (rule card_mono) auto

lemma unvisited_less: "c \<in> d_taskId ` set E \<Longrightarrow> c \<notin> set v
    \<Longrightarrow> card (d_taskId ` set E - insert c (set v)) < card (d_taskId ` set E - set v)"
  by (rule psubset_card_mono) auto

lemma successors_nil: "c \<notin> d_taskId ` set E \<Longrightarrow> successors E c = []"
  by (auto simp: successors_def filter_empty_conv)

termination dfs
proof (relation "inv_image (less_than <*lex*> less_than) dfs_measure", goal_cases)
  case 1
  show ?case by (intro wf_inv_image wf_lex_prod wf_less_than)
next
  case (2 E t c visited path)
  then show ?case
    by (cases "c \<in> d_taskId ` set E")
       (simp_all add: dfs_measure_def unvisited_less successors_nil del: card_Diff_insert)
next
  case (3 E t c cs visited path)
  then show ?case by (simp add: dfs_measure_def)
next
  case (4 E t c cs visited path b y v p)
  from 4(1-3) have "dfs E t c (visited, path @ [c]) = (b, v, p)" by simp
  with dfs_visited_mono(1)[OF 4(4)] have "set visited \<subseteq> set v" by simp
  from unvisited_mono[OF this, of E] show ?case by (auto simp: dfs_measure_def)
qed

definition detectCycle :: "string \<Rightarrow> string \<Rightarrow> db \<Rightarrow> string list option" where
  "detectCycle startTaskId targetTaskId d =
    (case dfs_edges (taskDependencies d) targetTaskId (successors (taskDependencies d) startTaskId)
            ([startTaskId], [startTaskId]) of
       (True, _, pathStack) \<Rightarrow> Some pathStack
     | (False, _, _) \<Rightarrow> None)"

subsection \<open>Operations\<close>

record AddDependencyParams =
  ad_taskId :: string
  ad_dependsOnTaskId :: string
  ad_dependencyType :: DependencyType
  ad_isHardBlock :: "bool option"

text \<open>\<open>now\<close> is the database clock of the column default, \<open>newId\<close> the generated key.\<close>

definition newDependency :: "int \<Rightarrow> string \<Rightarrow> AddDependencyParams \<Rightarrow> TaskDependency" where
  "newDependency now newId params =
    \<lparr>d_taskDependencyId = newId, d_taskId = ad_taskId params,
     d_dependsOnTaskId = ad_dependsOnTaskId params, d_dependencyType = ad_dependencyType params,
     d_isHardBlock = (case ad_isHardBlock params of
        Some b \<Rightarrow> b
      | None \<Rightarrow> ad_dependencyType params = DependencyType.BLOCKS),
     d_createdAt = now div 1000\<rparr>"

definition addDependency :: "int \<Rightarrow> string \<Rightarrow> AddDependencyParams \<Rightarrow> TaskDependency tx" where
  "addDependency now newId params =
    (let taskId = ad_taskId params; dependsOnTaskId = ad_dependsOnTaskId params in
     writeTransaction
       (if taskId = dependsOnTaskId then throwT (SelfDependencyError taskId)
        else bindT (getT (task_findById taskId)) (\<lambda>task. case task of
          None \<Rightarrow> throwT (EntityNotFoundError ''Task'' taskId)
        | Some _ \<Rightarrow>
        bindT (getT (task_findById dependsOnTaskId)) (\<lambda>dependsOn. case dependsOn of
          None \<Rightarrow> throwT (EntityNotFoundError ''Task'' dependsOnTaskId)
        | Some _ \<Rightarrow>
        bindT (getT (dependency_findByTaskIdPair taskId dependsOnTaskId)) (\<lambda>existing. case existing of
          Some _ \<Rightarrow> throwT (DuplicateDependencyError taskId dependsOnTaskId)
        | None \<Rightarrow>
        bindT (getT (detectCycle dependsOnTaskId taskId)) (\<lambda>cyclePath. case cyclePath of
          Some path \<Rightarrow> throwT (CyclicDependencyError taskId dependsOnTaskId path)
        | None \<Rightarrow> dependency_create (newDependency now newId params)))))))"

definition removeDependency :: "string \<Rightarrow> bool tx" where
  "removeDependency taskDependencyId = writeTransaction (dependency_delete taskDependencyId)"

definition getDependencies :: "string \<Rightarrow> TaskDependency list tx" where
  "getDependencies taskId = writeTransaction (getT (dependency_findByTaskId taskId))"

definition getDependents :: "string \<Rightarrow> TaskDependency list tx" where
  "getDependents taskId = writeTransaction (getT (dependency_findByDependsOnTaskId taskId))"

subsection \<open>Correctness of the search\<close>

definition edges :: "TaskDependency list \<Rightarrow> (string \<times> string) set" where
  "edges E = (\<lambda>e. (d_taskId e, d_dependsOnTaskId e)) ` set E"

lemma successors_edges: "j \<in> set (successors E i) \<longleftrightarrow> (i, j) \<in> edges E"
  by (auto simp: successors_def edges_def image_iff)

text \<open>A search that fails restores the path and leaves a visited set closed under its new tasks.\<close>

definition closed_from :: "TaskDependency list \<Rightarrow> string list \<Rightarrow> string list \<Rightarrow> bool" where
  "closed_from E v v' \<longleftrightarrow> set v \<subseteq> set v' \<and> edges E `` (set v' - set v) \<subseteq> set v'"

lemma dfs_fails:
  "dfs E t c (v, p) = (False, v', p') \<Longrightarrow>
     p' = p \<and> c \<in> set v' \<and> t \<notin> set v' - set v \<and> closed_from E v v'"
  "dfs_edges E t cs (v, p) = (False, v', p') \<Longrightarrow>
     p' = p \<and> set cs \<subseteq> set v' \<and> t \<notin> set v' - set v \<and> closed_from E v v'"
proof (induction E t c "(v, p)" and E t cs "(v, p)" arbitrary: v p v' p' and v p v' p' rule: dfs_dfs_edges.induct)
  case (1 E t c v p)
  show ?case
  proof (cases "c = t \<or> c \<in> set v")
    case True
    with 1(2) show ?thesis by (auto simp: closed_from_def split: if_splits)
  next
    case False
    with 1(2) have "dfs_edges E t (successors E c) (c # v, p) = (False, v', p')" by simp
    from 1(1)[OF _ _ this] False have ih: "p' = p" "set (successors E c) \<subseteq> set v'"
      "t \<notin> set v' - set (c # v)" "closed_from E (c # v) v'" by auto
    have c: "edges E `` {c} \<subseteq> set v'" using ih(2) successors_edges by blast
    have "set v' - set v \<subseteq> insert c (set v' - set (c # v))" by auto
    then have "edges E `` (set v' - set v) \<subseteq> edges E `` {c} \<union> edges E `` (set v' - set (c # v))" by blast
    also have "\<dots> \<subseteq> set v'" using c ih(4) by (simp add: closed_from_def)
    finally show ?thesis using ih(1,3,4) False by (auto simp: closed_from_def)
  qed
next
  case (2 E t v p)
  then show ?case by (simp add: closed_from_def)
next
  case (3 E t c cs v p)
  obtain v1 p1 where s: "dfs E t c (v, p @ [c]) = (False, v1, p1)"
    and l: "dfs_edges E t cs (v1, butlast p1) = (False, v', p')"
    using 3(3) by (auto split: prod.splits bool.splits)
  note i1 = 3(1)[OF s]
  from 3(2)[OF s[symmetric] refl refl _ ] l i1
  have i2: "p' = p" "set cs \<subseteq> set v'" "t \<notin> set v' - set v1" "closed_from E v1 v'" by auto
  have "edges E `` (set v' - set v) \<subseteq> edges E `` (set v' - set v1) \<union> edges E `` (set v1 - set v)" by blast
  also have "\<dots> \<subseteq> set v'" using i1 i2(4) unfolding closed_from_def by blast
  finally show ?case using i1 i2 unfolding closed_from_def by auto
qed

text \<open>
  A search that succeeds extends the path by a walk along the edges to the target, and then by the
  target once more.
\<close>

fun walk :: "(string \<times> string) set \<Rightarrow> string \<Rightarrow> string list \<Rightarrow> string \<Rightarrow> bool" where
  "walk R a [] b \<longleftrightarrow> a = b"
| "walk R a (x # xs) b \<longleftrightarrow> (a, x) \<in> R \<and> walk R x xs b"

lemma walk_rtrancl: "walk R a xs b \<Longrightarrow> (a, b) \<in> R\<^sup>*"
  by (induction xs arbitrary: a) (auto intro: converse_rtrancl_into_rtrancl)

lemma dfs_succeeds:
  "dfs E t c (v, p) = (True, v', p') \<Longrightarrow> \<exists>xs. p' = p @ xs @ [t] \<and> walk (edges E) c xs t"
  "dfs_edges E t cs (v, p) = (True, v', p') \<Longrightarrow>
     \<exists>c \<in> set cs. \<exists>xs. p' = p @ c # xs @ [t] \<and> walk (edges E) c xs t"
proof (induction E t c "(v, p)" and E t cs "(v, p)" arbitrary: v p v' p' and v p v' p' rule: dfs_dfs_edges.induct)
  case (1 E t c v p)
  show ?case
  proof (cases "c = t")
    case True
    with 1(2) show ?thesis by (intro exI[of _ "[]"]) auto
  next
    case False
    with 1(2) have v: "c \<notin> set v" and "dfs_edges E t (successors E c) (c # v, p) = (True, v', p')"
      by (auto split: if_splits)
    from 1(1)[OF False v this(2)] obtain x xs where "x \<in> set (successors E c)"
      "p' = p @ x # xs @ [t]" "walk (edges E) x xs t" by blast
    then show ?thesis by (intro exI[of _ "x # xs"]) (simp add: successors_edges)
  qed
next
  case (2 E t v p)
  then show ?case by simp
next
  case (3 E t c cs v p)
  obtain b v1 p1 where s: "dfs E t c (v, p @ [c]) = (b, v1, p1)" by (cases "dfs E t c (v, p @ [c])")
  show ?case
  proof (cases b)
    case True
    with 3(3) s have "dfs E t c (v, p @ [c]) = (True, v', p')" by simp
    from 3(1)[OF this] show ?thesis by auto
  next
    case False
    then have "dfs E t c (v, p @ [c]) = (False, v1, p1)" using s by simp
    then have "p1 = p @ [c]" using dfs_fails(1) by blast
    with False 3(3) s have "dfs_edges E t cs (v1, butlast p1) = (True, v', p')" by simp
    from 3(2)[OF s[symmetric] _ refl this] False \<open>p1 = p @ [c]\<close> show ?thesis by auto
  qed
qed

lemma closed_reach:
  assumes "(a, b) \<in> R\<^sup>*" and "a \<in> S" and "R `` S \<subseteq> S"
  shows "b \<in> S"
  using assms(1,2) by (induction rule: rtrancl_induct) (use assms(3) in auto)

lemma detectCycle_None:
  assumes "detectCycle s t d = None" and "s \<noteq> t"
  shows "(s, t) \<notin> (edges (taskDependencies d))\<^sup>*"
proof
  let ?E = "taskDependencies d"
  assume reach: "(s, t) \<in> (edges ?E)\<^sup>*"
  from assms(1) obtain v p where "dfs_edges ?E t (successors ?E s) ([s], [s]) = (False, v, p)"
    by (auto simp: detectCycle_def split: prod.splits bool.splits)
  from dfs_fails(2)[OF this] have c: "set (successors ?E s) \<subseteq> set v" "t \<notin> set v - {s}" "closed_from ?E [s] v"
    by auto
  have "edges ?E `` set v \<subseteq> edges ?E `` {s} \<union> edges ?E `` (set v - {s})" by blast
  also have "\<dots> \<subseteq> set v" using c successors_edges[of _ ?E s] by (auto simp: closed_from_def)
  finally have "t \<in> set v" using closed_reach[OF reach] c(3) by (simp add: closed_from_def)
  with c(2) assms(2) show False by simp
qed

lemma detectCycle_Some:
  assumes "detectCycle s t d = Some p"
  obtains xs where "p = s # xs @ [t]" "xs \<noteq> []" "walk (edges (taskDependencies d)) s xs t"
proof -
  let ?E = "taskDependencies d"
  from assms obtain v where "dfs_edges ?E t (successors ?E s) ([s], [s]) = (True, v, p)"
    by (auto simp: detectCycle_def split: prod.splits bool.splits)
  from dfs_succeeds(2)[OF this] obtain c xs where "c \<in> set (successors ?E s)" "p = s # c # xs @ [t]"
    "walk (edges ?E) c xs t" by auto
  then show ?thesis using that[of "c # xs"] by (simp add: successors_edges)
qed

text \<open>
  Cycle detection is exact: the search always ends, it reports a path exactly when the target can
  be reached from the start along dependency edges, and the path it reports is a walk of the graph
  from the start to the target, with the target written twice at its end.
\<close>

lemma detect_cycle_exact:
  assumes "s \<noteq> t"
  shows "(detectCycle s t d = None \<longleftrightarrow> (s, t) \<notin> (edges (taskDependencies d))\<^sup>*)
    \<and> (\<forall>p. detectCycle s t d = Some p \<longrightarrow>
         (\<exists>xs. p = s # xs @ [t] \<and> walk (edges (taskDependencies d)) s xs t))"
proof (cases "detectCycle s t d")
  case None
  then show ?thesis using detectCycle_None[OF None assms] by simp
next
  case (Some p)
  then obtain xs where "p = s # xs @ [t]" "walk (edges (taskDependencies d)) s xs t"
    by (rule detectCycle_Some)
  then show ?thesis using Some walk_rtrancl by auto
qed

definition diamond :: db where
  "diamond =
    (let t = (\<lambda>i. \<lparr>t_taskId = i, t_repositoryId = ''R'', t_priority = TaskPriority.MEDIUM,
           t_status = TaskStatus.BACKLOG, t_version = 1, t_currentLeaseId = None, t_currentReviewCycleId = None,
    t_mergeQueueItemId = None, t_retryCount = 0,
           t_reviewRoundCount = 0, t_requiredCapabilities = None, t_createdAt = 0, t_updatedAt = 0,
    t_completedAt = None\<rparr>);
         e = (\<lambda>k i j. \<lparr>d_taskDependencyId = k, d_taskId = i, d_dependsOnTaskId = j,
           d_dependencyType = DependencyType.BLOCKS, d_isHardBlock = True, d_createdAt = 0\<rparr>)
     in \<lparr>tasks = map t [''A'', ''B'', ''C'', ''D''], taskLeases = [], reviewCycles = [], mergeQueueItems = [],
         taskDependencies = [e ''1'' ''A'' ''B'', e ''2'' ''A'' ''C'', e ''3'' ''B'' ''D'', e ''4'' ''C'' ''D''],
         workerPools = [], jobs = [], auditEvents = [], reviewPackets = [], leadReviewDecisions = [], workers = []\<rparr>)"

subsection \<open>The graph stays acyclic\<close>

text \<open>When an edge can be added.\<close>

definition addable :: "string \<Rightarrow> AddDependencyParams \<Rightarrow> db \<Rightarrow> bool" where
  "addable newId p d \<longleftrightarrow>
    ad_taskId p \<noteq> ad_dependsOnTaskId p
    \<and> {ad_taskId p, ad_dependsOnTaskId p} \<subseteq> set (map t_taskId (tasks d))
    \<and> (ad_taskId p, ad_dependsOnTaskId p) \<notin> edges (taskDependencies d)
    \<and> (ad_dependsOnTaskId p, ad_taskId p) \<notin> (edges (taskDependencies d))\<^sup>*
    \<and> newId \<notin> set (map d_taskDependencyId (taskDependencies d))"

lemma task_found: "task_findById i d = None \<longleftrightarrow> i \<notin> set (map t_taskId (tasks d))"
  by (auto simp: task_findById_def find_None_iff)

lemma pair_found:
  "dependency_findByTaskIdPair i j d = None \<longleftrightarrow> (i, j) \<notin> edges (taskDependencies d)"
  by (auto simp: dependency_findByTaskIdPair_def find_None_iff edges_def)

lemma detectCycle_iff: "s \<noteq> t \<Longrightarrow> detectCycle s t d = None \<longleftrightarrow> (s, t) \<notin> (edges (taskDependencies d))\<^sup>*"
  using detectCycle_None[of s t d] detectCycle_Some[of s t d] walk_rtrancl by (metis not_None_eq)

lemma addDependency_cases:
  obtains "addable newId p d"
      "addDependency now newId p d = (Inr (newDependency now newId p),
         d\<lparr>taskDependencies := taskDependencies d @ [newDependency now newId p]\<rparr>)"
  | e where "\<not> addable newId p d" "addDependency now newId p d = (Inl e, d)"
proof (cases "addable newId p d")
  case True
  then have "addDependency now newId p d = (Inr (newDependency now newId p),
         d\<lparr>taskDependencies := taskDependencies d @ [newDependency now newId p]\<rparr>)"
    using task_found[of "ad_taskId p" d] task_found[of "ad_dependsOnTaskId p" d]
      pair_found[of "ad_taskId p" "ad_dependsOnTaskId p" d] detectCycle_iff[of "ad_dependsOnTaskId p" "ad_taskId p" d]
    by (auto simp: addable_def addDependency_def Let_def writeTransaction_def dependency_create_def
        newDependency_def edges_def)
  then show ?thesis using True that(1) by blast
next
  case False
  then have "\<exists>e. addDependency now newId p d = (Inl e, d)"
    using task_found[of "ad_taskId p" d] task_found[of "ad_dependsOnTaskId p" d]
      pair_found[of "ad_taskId p" "ad_dependsOnTaskId p" d] detectCycle_iff[of "ad_dependsOnTaskId p" "ad_taskId p" d]
    by (auto simp: addable_def addDependency_def Let_def writeTransaction_def dependency_create_def
        newDependency_def edges_def split: option.split)
  then show ?thesis using False that(2) by blast
qed

definition dag :: "db \<Rightarrow> bool" where
  "dag d \<longleftrightarrow> acyclic (edges (taskDependencies d))"

lemma edges_append: "edges (E @ [e]) = insert (d_taskId e, d_dependsOnTaskId e) (edges E)"
  by (auto simp: edges_def)

lemma addDependency_dag: "dag d \<Longrightarrow> dag (snd (addDependency now newId p d))"
  by (rule addDependency_cases[of newId p d now])
     (auto simp: dag_def edges_append addable_def newDependency_def)

lemma removeDependency_dag: "dag d \<Longrightarrow> dag (snd (removeDependency i d))"
proof -
  assume d: "dag d"
  let ?E = "filter (\<lambda>e. d_taskDependencyId e \<noteq> i) (taskDependencies d)"
  have "edges ?E \<subseteq> edges (taskDependencies d)" by (auto simp: edges_def)
  with d have "acyclic (edges ?E)" unfolding dag_def by (rule acyclic_subset)
  then show ?thesis by (simp add: dag_def removeDependency_def writeTransaction_def dependency_delete_def)
qed

inductive graph_step :: "db \<Rightarrow> db \<Rightarrow> bool" where
  add: "addDependency now newId p d = (r, d') \<Longrightarrow> graph_step d d'"
| remove: "removeDependency i d = (r', d') \<Longrightarrow> graph_step d d'"

lemma graph_steps_dag: "graph_step\<^sup>*\<^sup>* d d' \<Longrightarrow> dag d \<Longrightarrow> dag d'"
proof (induction rule: rtranclp_induct)
  case (step e e')
  from step(2) show ?case
  proof cases
    case (add now newId p r)
    then show ?thesis using addDependency_dag[of e now newId p] step by simp
  next
    case (remove i r')
    then show ?thesis using removeDependency_dag[of e i] step by simp
  qed
qed simp

text \<open>
  (C9) The dependency graph stays acyclic: whatever edges the service is asked to add and remove, the
  graph of all dependency types has no cycle.  An edge is accepted exactly when it joins two distinct
  existing tasks, is new, has a new key and closes no cycle; every other request fails and leaves
  the database unchanged.
\<close>

theorem dependency_graph_acyclic:
  assumes "graph_step\<^sup>*\<^sup>* d d'" and "acyclic (edges (taskDependencies d))"
  shows "acyclic (edges (taskDependencies d'))
    \<and> (case addDependency now newId p d' of
         (Inr e, d'') \<Rightarrow> addable newId p d' \<and> e = newDependency now newId p
           \<and> d'' = d'\<lparr>taskDependencies := taskDependencies d' @ [e]\<rparr>
       | (Inl _, d'') \<Rightarrow> \<not> addable newId p d' \<and> d'' = d')"
  by (rule addDependency_cases[of newId p d' now])
     (use graph_steps_dag[OF assms(1)] assms(2) in \<open>auto simp: dag_def\<close>)

theorem dependency_graph_acyclic_witness:
  "acyclic (edges (taskDependencies (snd (addDependency 0 ''5'' \<lparr>ad_taskId = ''D'', ad_dependsOnTaskId = ''A'',
      ad_dependencyType = DependencyType.RELATES_TO, ad_isHardBlock = None\<rparr>
      (snd (addDependency 0 ''1'' \<lparr>ad_taskId = ''A'', ad_dependsOnTaskId = ''D'',
        ad_dependencyType = DependencyType.BLOCKS, ad_isHardBlock = None\<rparr>
        (diamond\<lparr>taskDependencies := []\<rparr>)))))))"
proof -
  have step: "graph_step d (snd (addDependency 0 k p d))" for k p d
    by (rule graph_step.add[of 0 k p d "fst (addDependency 0 k p d)"]) simp
  have "graph_step\<^sup>*\<^sup>* d (snd (addDependency 0 k p (snd (addDependency 0 k' p' d))))" for k p k' p' d
    by (rule rtranclp.rtrancl_into_rtrancl[OF r_into_rtranclp[of graph_step]]) (rule step)+
  note acyclic_after = dependency_graph_acyclic[OF this, THEN conjunct1]
  show ?thesis by (rule acyclic_after) (simp add: edges_def acyclic_def)
qed

end
