(* ===== verification/Readiness.thy ===== *)
theory Readiness
  imports Dependency Transition
begin

text \<open>
  \<open>packages/application/src/services/readiness.service.ts\<close> over \<open>createReadinessUnitOfWork\<close> of
  \<open>apps/control-plane/src/automation/application-adapters.ts\<close>: whether a task's hard-block
  prerequisites, or a parent's children, are done; and
  \<open>packages/application/src/services/reverse-dependency.service.ts\<close>: unblocking the dependents of a
  task that is done.  The arrow and the dash of the error messages are written \<open>->\<close> and \<open>-\<close>.
\<close>

subsection \<open>Readiness\<close>

record BlockingReason =
  br_dependsOnTaskId :: string
  br_prerequisiteStatus :: TaskStatus
  br_dependencyType :: DependencyType
  br_taskDependencyId :: string

datatype ReadinessResult =
    ReadinessResultReady string
  | ReadinessResultBlocked string "BlockingReason list"

record ChildBlockingReason =
  cb_childTaskId :: string
  cb_childStatus :: TaskStatus
  cb_taskDependencyId :: string

datatype ParentReadinessResult =
    ParentReadinessResultComplete string
  | ParentReadinessResultIncomplete string "ChildBlockingReason list"

definition isReadinessBlockingEdge :: "TaskDependency \<Rightarrow> bool" where
  "isReadinessBlockingEdge edge \<longleftrightarrow> d_dependencyType edge = DependencyType.BLOCKS \<and> d_isHardBlock edge"

definition isParentChildEdge :: "TaskDependency \<Rightarrow> bool" where
  "isParentChildEdge edge \<longleftrightarrow> d_dependencyType edge = DependencyType.PARENT_CHILD"

text \<open>The body of the two loops: what an edge adds to the list of reasons.\<close>

definition blockingReason :: "db \<Rightarrow> TaskDependency \<Rightarrow> BlockingReason option" where
  "blockingReason d edge =
    (case task_findById (d_dependsOnTaskId edge) d of
       None \<Rightarrow> Some \<lparr>br_dependsOnTaskId = d_dependsOnTaskId edge, br_prerequisiteStatus = TaskStatus.BACKLOG,
                 br_dependencyType = d_dependencyType edge, br_taskDependencyId = d_taskDependencyId edge\<rparr>
     | Some prerequisite \<Rightarrow>
         if t_status prerequisite \<noteq> TaskStatus.DONE then
           Some \<lparr>br_dependsOnTaskId = d_dependsOnTaskId edge,
             br_prerequisiteStatus = t_status prerequisite,
             br_dependencyType = d_dependencyType edge, br_taskDependencyId = d_taskDependencyId edge\<rparr>
         else None)"

definition computeReadiness :: "string \<Rightarrow> db \<Rightarrow> app_error + ReadinessResult" where
  "computeReadiness taskId d =
    (case task_findById taskId d of
       None \<Rightarrow> Inl (EntityNotFoundError ''Task'' taskId)
     | Some _ \<Rightarrow>
         let dependencies = dependency_findByTaskId taskId d;
             hardBlockEdges = filter isReadinessBlockingEdge dependencies in
         if hardBlockEdges = [] then Inr (ReadinessResultReady taskId)
         else
           let blockingReasons = List.map_filter (blockingReason d) hardBlockEdges in
           if blockingReasons = [] then Inr (ReadinessResultReady taskId)
           else Inr (ReadinessResultBlocked taskId blockingReasons))"

definition incompleteChild :: "db \<Rightarrow> TaskDependency \<Rightarrow> ChildBlockingReason option" where
  "incompleteChild d edge =
    (case task_findById (d_dependsOnTaskId edge) d of
       None \<Rightarrow> Some \<lparr>cb_childTaskId = d_dependsOnTaskId edge, cb_childStatus = TaskStatus.BACKLOG,
                 cb_taskDependencyId = d_taskDependencyId edge\<rparr>
     | Some child \<Rightarrow>
         if t_status child \<noteq> TaskStatus.DONE \<and> t_status child \<noteq> TaskStatus.CANCELLED then
           Some \<lparr>cb_childTaskId = d_dependsOnTaskId edge, cb_childStatus = t_status child,
             cb_taskDependencyId = d_taskDependencyId edge\<rparr>
         else None)"

definition checkParentChildReadiness :: "string \<Rightarrow> db \<Rightarrow> app_error + ParentReadinessResult" where
  "checkParentChildReadiness parentTaskId d =
    (case task_findById parentTaskId d of
       None \<Rightarrow> Inl (EntityNotFoundError ''Task'' parentTaskId)
     | Some _ \<Rightarrow>
         let allDependencies = dependency_findByTaskId parentTaskId d;
             childEdges = filter isParentChildEdge allDependencies in
         if childEdges = [] then Inr (ParentReadinessResultComplete parentTaskId)
         else
           let incompleteChildren = List.map_filter (incompleteChild d) childEdges in
           if incompleteChildren = [] then Inr (ParentReadinessResultComplete parentTaskId)
           else Inr (ParentReadinessResultIncomplete parentTaskId incompleteChildren))"

subsection \<open>Unblocking dependents\<close>

record SkippedTask =
  sk_taskId :: string
  sk_reason :: string

record RecalculationResult =
  rec_completedTaskId :: string
  rec_completedTaskStatus :: TaskStatus
  rec_evaluatedCount :: nat
  rec_transitioned :: "string list"
  rec_skipped :: "SkippedTask list"

definition isHardBlockEdge :: "TaskDependency \<Rightarrow> bool" where
  "isHardBlockEdge edge \<longleftrightarrow> d_dependencyType edge = DependencyType.BLOCKS \<and> d_isHardBlock edge"

text \<open>\<open>[...new Set(xs)]\<close>: the distinct elements in the order of their first occurrence.\<close>

definition js_set :: "'a list \<Rightarrow> 'a list" where
  "js_set xs = fold (\<lambda>x acc. if x \<in> set acc then acc else acc @ [x]) xs []"

definition blockedDependentIds :: "string \<Rightarrow> db \<Rightarrow> string list" where
  "blockedDependentIds completedTaskId d =
    (let reverseEdges = dependency_findByDependsOnTaskId completedTaskId d;
         hardBlockEdges = filter isHardBlockEdge reverseEdges;
         uniqueTaskIds = js_set (map d_taskId hardBlockEdges) in
     filter (\<lambda>taskId. case task_findById taskId d of
         None \<Rightarrow> False
       | Some task \<Rightarrow> t_status task = TaskStatus.BLOCKED) uniqueTaskIds)"

text \<open>The two errors the loop recovers from, with their messages.\<close>

definition recoverable :: "app_error \<Rightarrow> string option" where
  "recoverable err = (case err of
     InvalidTransitionError entityType entityId fromStatus toStatus why \<Rightarrow>
       (let base = ''Invalid transition for '' @ entityType @ '' '' @ entityId @ '': '' @ fromStatus
              @ '' -> '' @ toStatus in
        Some (case why of None \<Rightarrow> base | Some r \<Rightarrow> if r = '''' then base else base @ '' - '' @ r))
   | VersionConflictError entityType entityId expectedVersion \<Rightarrow>
       Some (''Version conflict for '' @ entityType @ '' '' @ entityId @ '': expected version ''
         @ expectedVersion @ '' is stale'')
   | _ \<Rightarrow> None)"

text \<open>\<open>env\<close> gives what the transition of each task draws from its environment.\<close>

fun recalculateLoop ::
  "(string \<Rightarrow> txEnv) \<Rightarrow> string \<Rightarrow> ActorInfo \<Rightarrow> string list \<Rightarrow> string list \<Rightarrow> SkippedTask list \<Rightarrow> world
    \<Rightarrow> (app_error + string list \<times> SkippedTask list) \<times> world" where
  "recalculateLoop env completedTaskId actor [] transitioned skipped w = (Inr (transitioned, skipped), w)"
| "recalculateLoop env completedTaskId actor (taskId # rest) transitioned skipped w =
    (case computeReadiness taskId (database w) of
       Inl e \<Rightarrow> (Inl e, w)
     | Inr (ReadinessResultBlocked _ _) \<Rightarrow>
         recalculateLoop env completedTaskId actor rest transitioned
           (skipped @ [\<lparr>sk_taskId = taskId, sk_reason = ''still has unresolved hard-block dependencies''\<rparr>]) w
     | Inr (ReadinessResultReady _) \<Rightarrow>
         (case transitionTask (env taskId) taskId TaskStatus.READY
                 (emptyContext\<lparr>allDependenciesResolved := Some True, hasPolicyBlockers := Some False\<rparr>) actor
                 (Some (JObj [(''triggeredBy'', JStr ''reverse-dependency-recalculation''),
                              (''completedTaskId'', JStr completedTaskId)])) w of
            (Inr _, w') \<Rightarrow> recalculateLoop env completedTaskId actor rest (transitioned @ [taskId]) skipped w'
          | (Inl err, w') \<Rightarrow>
              (case recoverable err of
                 Some message \<Rightarrow> recalculateLoop env completedTaskId actor rest transitioned
                   (skipped @ [\<lparr>sk_taskId = taskId, sk_reason = ''transition failed: '' @ message\<rparr>]) w'
               | None \<Rightarrow> (Inl err, w'))))"

definition recalculateDependents ::
  "(string \<Rightarrow> txEnv) \<Rightarrow> string \<Rightarrow> ActorInfo \<Rightarrow> world \<Rightarrow> (app_error + RecalculationResult) \<times> world" where
  "recalculateDependents env completedTaskId actor w =
    (case task_findById completedTaskId (database w) of
       None \<Rightarrow> (Inl (EntityNotFoundError ''Task'' completedTaskId), w)
     | Some completedTask \<Rightarrow>
         if t_status completedTask \<noteq> TaskStatus.DONE then
           (Inr \<lparr>rec_completedTaskId = completedTaskId, rec_completedTaskStatus = t_status completedTask,
              rec_evaluatedCount = 0, rec_transitioned = [], rec_skipped = []\<rparr>, w)
         else
           let blocked = blockedDependentIds completedTaskId (database w) in
           (case recalculateLoop env completedTaskId actor blocked [] [] w of
              (Inl e, w') \<Rightarrow> (Inl e, w')
            | (Inr (transitioned, skipped), w') \<Rightarrow>
                (Inr \<lparr>rec_completedTaskId = completedTaskId, rec_completedTaskStatus = t_status completedTask,
                   rec_evaluatedCount = length blocked, rec_transitioned = transitioned,
                   rec_skipped = skipped\<rparr>, w')))"

subsection \<open>What readiness means\<close>

definition prerequisite_done :: "db \<Rightarrow> TaskDependency \<Rightarrow> bool" where
  "prerequisite_done d e \<longleftrightarrow>
    (\<exists>p. task_findById (d_dependsOnTaskId e) d = Some p \<and> t_status p = TaskStatus.DONE)"

definition hard_edges :: "string \<Rightarrow> db \<Rightarrow> TaskDependency list" where
  "hard_edges i d = filter (\<lambda>e. d_taskId e = i \<and> d_dependencyType e = DependencyType.BLOCKS \<and> d_isHardBlock e)
     (taskDependencies d)"

definition deps_done :: "string \<Rightarrow> db \<Rightarrow> bool" where
  "deps_done i d \<longleftrightarrow> (\<forall>e \<in> set (hard_edges i d). prerequisite_done d e)"

lemma hardBlockEdges_eq: "filter isReadinessBlockingEdge (dependency_findByTaskId i d) = hard_edges i d"
  unfolding hard_edges_def dependency_findByTaskId_def filter_filter
  by (rule filter_cong) (auto simp: isReadinessBlockingEdge_def)

lemma blockingReason_None: "blockingReason d e = None \<longleftrightarrow> prerequisite_done d e"
  by (auto simp: blockingReason_def prerequisite_done_def split: option.split)

lemma map_filter_blocking:
  "map br_taskDependencyId (List.map_filter (blockingReason d) es)
    = map d_taskDependencyId (filter (\<lambda>e. \<not> prerequisite_done d e) es)"
proof (induction es)
  case (Cons e es)
  then show ?case
    using blockingReason_None[of d e]
    by (cases "blockingReason d e") (auto simp: blockingReason_def split: option.splits if_splits)
qed simp

lemma computeReadiness_cases:
  assumes "task_findById i d = Some t"
  obtains "deps_done i d" "computeReadiness i d = Inr (ReadinessResultReady i)"
  | rs where "\<not> deps_done i d" "computeReadiness i d = Inr (ReadinessResultBlocked i rs)" "rs \<noteq> []"
      "map br_taskDependencyId rs = map d_taskDependencyId (filter (\<lambda>e. \<not> prerequisite_done d e) (hard_edges i d))"
proof (cases "deps_done i d")
  case True
  then have "map br_taskDependencyId (List.map_filter (blockingReason d) (hard_edges i d)) = []"
    unfolding map_filter_blocking by (simp add: deps_done_def filter_empty_conv)
  then show ?thesis using True that(1) assms
    by (simp add: computeReadiness_def Let_def hardBlockEdges_eq)
next
  case False
  let ?rs = "List.map_filter (blockingReason d) (hard_edges i d)"
  have "map br_taskDependencyId ?rs \<noteq> []"
    using False unfolding map_filter_blocking by (auto simp: deps_done_def filter_empty_conv)
  then have ne: "?rs \<noteq> []" by auto
  moreover have "hard_edges i d \<noteq> []" using False by (auto simp: deps_done_def)
  ultimately show ?thesis using False that(2)[of ?rs] assms map_filter_blocking
    by (simp add: computeReadiness_def Let_def hardBlockEdges_eq)
qed

text \<open>
  Readiness is exact: an unknown task is an error; a task is ready exactly when every prerequisite
  of a hard blocking edge exists and is done, whatever its other edges say; otherwise the answer lists
  exactly the edges that block it, one reason for each.
\<close>

lemma readiness_exact:
  "case computeReadiness i d of
     Inl e \<Rightarrow> task_findById i d = None \<and> e = EntityNotFoundError ''Task'' i
   | Inr (ReadinessResultReady j) \<Rightarrow> j = i \<and> task_findById i d \<noteq> None
       \<and> (\<forall>e \<in> set (taskDependencies d). d_taskId e = i \<and> d_dependencyType e = DependencyType.BLOCKS
            \<and> d_isHardBlock e \<longrightarrow> prerequisite_done d e)
   | Inr (ReadinessResultBlocked j rs) \<Rightarrow> j = i \<and> task_findById i d \<noteq> None \<and> rs \<noteq> []
       \<and> map br_taskDependencyId rs = map d_taskDependencyId
           (filter (\<lambda>e. \<not> prerequisite_done d e) (hard_edges i d))"
proof (cases "task_findById i d")
  case None
  then show ?thesis by (simp add: computeReadiness_def)
next
  case (Some t)
  then show ?thesis by (rule computeReadiness_cases) (use Some in \<open>auto simp: deps_done_def hard_edges_def\<close>)
qed

lemma incompleteChild_None: "incompleteChild d e = None \<longleftrightarrow>
    (\<exists>c. task_findById (d_dependsOnTaskId e) d = Some c \<and> t_status c \<in> {TaskStatus.DONE, TaskStatus.CANCELLED})"
  by (auto simp: incompleteChild_def split: option.split)

lemma map_filter_empty: "List.map_filter f xs = [] \<longleftrightarrow> (\<forall>x \<in> set xs. f x = None)"
  by (induction xs) (auto split: option.split)

text \<open>A parent is complete exactly when every child exists and is done or cancelled.\<close>

lemma parent_complete_iff:
  "checkParentChildReadiness i d = Inr (ParentReadinessResultComplete i) \<longleftrightarrow>
    task_findById i d \<noteq> None
    \<and> (\<forall>e \<in> set (taskDependencies d). d_taskId e = i \<and> d_dependencyType e = DependencyType.PARENT_CHILD \<longrightarrow>
         (\<exists>c. task_findById (d_dependsOnTaskId e) d = Some c
            \<and> t_status c \<in> {TaskStatus.DONE, TaskStatus.CANCELLED}))"
proof -
  have "filter isParentChildEdge (dependency_findByTaskId i d) = [] \<Longrightarrow>
      List.map_filter (incompleteChild d) (filter isParentChildEdge (dependency_findByTaskId i d)) = []"
    by simp
  then have "checkParentChildReadiness i d = Inr (ParentReadinessResultComplete i) \<longleftrightarrow>
    task_findById i d \<noteq> None
    \<and> List.map_filter (incompleteChild d) (filter isParentChildEdge (dependency_findByTaskId i d)) = []"
    by (auto simp: checkParentChildReadiness_def Let_def split: option.split)
  then show ?thesis
    by (auto simp: map_filter_empty incompleteChild_None isParentChildEdge_def dependency_findByTaskId_def)
qed

subsection \<open>Unblocking\<close>

lemma set_js_set: "set (js_set xs) = set xs" and distinct_js_set: "distinct (js_set xs)"
proof -
  have "set (fold (\<lambda>x acc. if x \<in> set acc then acc else acc @ [x]) xs acc) = set acc \<union> set xs
      \<and> (distinct acc \<longrightarrow> distinct (fold (\<lambda>x acc. if x \<in> set acc then acc else acc @ [x]) xs acc))" for acc
    by (induction xs arbitrary: acc) auto
  from this[of "[]"] show "set (js_set xs) = set xs" "distinct (js_set xs)" by (auto simp: js_set_def)
qed

lemma blockedDependentIds_set:
  "i \<in> set (blockedDependentIds k d) \<longleftrightarrow>
    taskStatus_of i \<lparr>database = d, emitted = []\<rparr> = Some TaskStatus.BLOCKED
    \<and> (\<exists>e \<in> set (hard_edges i d). d_dependsOnTaskId e = k)"
  by (auto simp: blockedDependentIds_def Let_def set_js_set dependency_findByDependsOnTaskId_def
      isHardBlockEdge_def hard_edges_def taskStatus_of_def split: option.splits)

lemma distinct_blockedDependentIds: "distinct (blockedDependentIds k d)"
  by (simp add: blockedDependentIds_def Let_def distinct_js_set)

lemma prerequisite_done_status:
  "prerequisite_done (database w) e \<longleftrightarrow> taskStatus_of (d_dependsOnTaskId e) w = Some TaskStatus.DONE"
  by (auto simp: prerequisite_done_def taskStatus_of_def)

text \<open>The recalculation changes no edge and makes nothing done, so it does not disturb its own answers.\<close>

definition same_done :: "world \<Rightarrow> world \<Rightarrow> bool" where
  "same_done w w' \<longleftrightarrow> taskDependencies (database w') = taskDependencies (database w)
     \<and> (\<forall>j. taskStatus_of j w' = Some TaskStatus.DONE \<longleftrightarrow> taskStatus_of j w = Some TaskStatus.DONE)"

lemma deps_done_same: "same_done w w' \<Longrightarrow> deps_done i (database w') = deps_done i (database w)"
  by (simp add: deps_done_def hard_edges_def prerequisite_done_status same_done_def)

abbreviation ready_context :: TransitionContext where
  "ready_context \<equiv> emptyContext\<lparr>allDependenciesResolved := Some True, hasPolicyBlockers := Some False\<rparr>"

lemma unblock_one:
  assumes wf: "wf_db (database w)" and b: "taskStatus_of i w = Some TaskStatus.BLOCKED"
    and fresh: "env_uuid env \<notin> set (map ae_id (auditEvents (database w)))"
  obtains r w' where "transitionTask env i TaskStatus.READY ready_context actor meta w = (Inr r, w')"
    "wf_db (database w')" "same_done w w'"
    "\<And>j. taskStatus_of j w' = (if j = i then Some TaskStatus.READY else taskStatus_of j w)"
    "map ae_id (auditEvents (database w')) = map ae_id (auditEvents (database w)) @ [env_uuid env]"
proof (rule transitionTask_cases[OF wf, of env i TaskStatus.READY ready_context actor meta], goal_cases)
  case (1 err)
  have "valid (validateTransition TaskStatus.BLOCKED TaskStatus.READY ready_context)" by (simp add: accepted_iff)
  with 1 b fresh show ?case by (auto simp: taskStatus_of_def)
next
  case (2 t a w')
  from 2(6) have c: "wf_db (database w')" "ae_id a = env_uuid env"
    "database w' = (database w)\<lparr>tasks := tasks (database w'), auditEvents := auditEvents (database w) @ [a]\<rparr>"
    by (simp_all add: task_committed_def Let_def)
  have st: "taskStatus_of j w' = (if j = i then Some TaskStatus.READY else taskStatus_of j w)" for j
    using 2(2,3,6) by (simp add: task_committed_def Let_def taskStatus_of_def)
  have "taskDependencies (database w') = taskDependencies (database w)"
    "auditEvents (database w') = auditEvents (database w) @ [a]" by (subst c(3), simp)+
  then show ?case using that[OF 2(5)] c(1,2) st b by (auto simp: same_done_def)
qed

lemma recalculateLoop_exact:
  assumes "wf_db (database w)" and "distinct is" and "\<forall>i \<in> set is. taskStatus_of i w = Some TaskStatus.BLOCKED"
    and "inj_on (env_uuid \<circ> env) (set is)"
    and "(env_uuid \<circ> env) ` set is \<inter> set (map ae_id (auditEvents (database w))) = {}"
  shows "\<exists>sk w'. recalculateLoop env k actor is tr skp w
      = (Inr (tr @ filter (\<lambda>i. deps_done i (database w)) is, skp @ sk), w')
    \<and> map sk_taskId sk = filter (\<lambda>i. \<not> deps_done i (database w)) is
    \<and> wf_db (database w')
    \<and> (\<forall>j. taskStatus_of j w' = (if j \<in> set is \<and> deps_done j (database w) then Some TaskStatus.READY
                                  else taskStatus_of j w))"
  using assms
proof (induction "is" arbitrary: w tr skp)
  case Nil
  then show ?case by simp
next
  case (Cons i "is")
  obtain t where t: "task_findById i (database w) = Some t"
    using Cons.prems(3) by (auto simp: taskStatus_of_def)
  show ?case
  proof (rule computeReadiness_cases[OF t], goal_cases)
    case 1
    obtain r w1 where s: "transitionTask (env i) i TaskStatus.READY ready_context actor
        (Some (JObj [(''triggeredBy'', JStr ''reverse-dependency-recalculation''),
                     (''completedTaskId'', JStr k)])) w = (Inr r, w1)"
      "wf_db (database w1)" "same_done w w1"
      "\<And>j. taskStatus_of j w1 = (if j = i then Some TaskStatus.READY else taskStatus_of j w)"
      "map ae_id (auditEvents (database w1)) = map ae_id (auditEvents (database w)) @ [env_uuid (env i)]"
      using unblock_one[OF Cons.prems(1), of i "env i" actor] Cons.prems(3,5) by auto
    from Cons.prems(2) have di: "distinct is" and ni: "i \<notin> set is" by auto
    have b1: "\<forall>j \<in> set is. taskStatus_of j w1 = Some TaskStatus.BLOCKED" using Cons.prems(3) ni s(4) by auto
    have i1: "inj_on (env_uuid \<circ> env) (set is)" using Cons.prems(4) by (simp add: inj_on_def)
    have "env_uuid (env i) \<notin> (env_uuid \<circ> env) ` set is"
      using Cons.prems(4) ni by (auto simp: inj_on_def)
    then have f1: "(env_uuid \<circ> env) ` set is \<inter> set (map ae_id (auditEvents (database w1))) = {}"
      using Cons.prems(5) unfolding s(5) by auto
    from Cons.IH[OF s(2) di b1 i1 f1, of "tr @ [i]" skp] obtain sk w' where
      "recalculateLoop env k actor is (tr @ [i]) skp w1
        = (Inr ((tr @ [i]) @ filter (\<lambda>i. deps_done i (database w)) is, skp @ sk), w')"
      "map sk_taskId sk = filter (\<lambda>i. \<not> deps_done i (database w)) is" "wf_db (database w')"
      "\<forall>j. taskStatus_of j w' = (if j \<in> set is \<and> deps_done j (database w) then Some TaskStatus.READY
         else taskStatus_of j w1)"
      unfolding deps_done_same[OF s(3)] by blast
    with 1 s(1,4) ni show ?thesis by (intro exI[of _ sk] exI[of _ w']) auto
  next
    case (2 rs)
    let ?sk = "\<lparr>sk_taskId = i, sk_reason = ''still has unresolved hard-block dependencies''\<rparr>"
    from Cons.IH[of w tr "skp @ [?sk]"] Cons.prems obtain sk w' where
      "recalculateLoop env k actor is tr (skp @ [?sk]) w
        = (Inr (tr @ filter (\<lambda>i. deps_done i (database w)) is, (skp @ [?sk]) @ sk), w')"
      "map sk_taskId sk = filter (\<lambda>i. \<not> deps_done i (database w)) is" "wf_db (database w')"
      "\<forall>j. taskStatus_of j w' = (if j \<in> set is \<and> deps_done j (database w) then Some TaskStatus.READY
         else taskStatus_of j w)"
      by (auto simp: inj_on_def)
    with 2 show ?thesis by (intro exI[of _ "?sk # sk"] exI[of _ w']) auto
  qed
qed

lemma taskStatus_of_db: "taskStatus_of i \<lparr>database = database w, emitted = []\<rparr> = taskStatus_of i w"
  by (simp add: taskStatus_of_def)

text \<open>
  (C10) Unblocking is exact.  When a task is done, the recalculation moves to \<open>READY\<close> exactly the
  \<open>BLOCKED\<close> tasks that have a hard blocking edge to it and whose hard prerequisites are all done,
  reports them, skips the blocked dependents that still wait, and leaves the status of every other
  task alone.  For a task that is not done it does nothing.  (The keys drawn for the audit rows are
  new and distinct.)
\<close>

theorem recalculate_dependents_exact:
  assumes "wf_db (database w)" and "taskStatus_of k w = Some s"
    and "inj (\<lambda>i. env_uuid (env i))"
    and "range (\<lambda>i. env_uuid (env i)) \<inter> set (map ae_id (auditEvents (database w))) = {}"
  shows "\<exists>r w'. recalculateDependents env k actor w = (Inr r, w')
    \<and> (s \<noteq> TaskStatus.DONE \<longrightarrow> w' = w \<and> rec_transitioned r = [])
    \<and> (s = TaskStatus.DONE \<longrightarrow>
        (\<forall>i. i \<in> set (rec_transitioned r) \<longleftrightarrow> taskStatus_of i w = Some TaskStatus.BLOCKED
           \<and> (\<exists>e \<in> set (hard_edges i (database w)). d_dependsOnTaskId e = k)
           \<and> (\<forall>e \<in> set (hard_edges i (database w)). prerequisite_done (database w) e))
        \<and> (\<forall>i. taskStatus_of i w' = (if i \<in> set (rec_transitioned r) then Some TaskStatus.READY
                                        else taskStatus_of i w)))
    \<and> rec_evaluatedCount r = length (rec_transitioned r) + length (rec_skipped r)
    \<and> wf_db (database w')"
proof -
  obtain t where t: "task_findById k (database w) = Some t" "t_status t = s"
    using assms(2) by (auto simp: taskStatus_of_def)
  show ?thesis
  proof (cases "s = TaskStatus.DONE")
    case False
    with t assms(1) show ?thesis by (auto simp: recalculateDependents_def)
  next
    case True
    let ?is = "blockedDependentIds k (database w)"
    have mem: "i \<in> set ?is \<longleftrightarrow> taskStatus_of i w = Some TaskStatus.BLOCKED
        \<and> (\<exists>e \<in> set (hard_edges i (database w)). d_dependsOnTaskId e = k)" for i
      by (simp add: blockedDependentIds_set taskStatus_of_db)
    have inj: "inj_on (env_uuid \<circ> env) (set ?is)" using assms(3) by (simp add: inj_def inj_on_def)
    have fresh: "(env_uuid \<circ> env) ` set ?is \<inter> set (map ae_id (auditEvents (database w))) = {}"
      using assms(4) by auto
    obtain sk w' where l: "recalculateLoop env k actor ?is [] [] w
        = (Inr (filter (\<lambda>i. deps_done i (database w)) ?is, sk), w')"
      "map sk_taskId sk = filter (\<lambda>i. \<not> deps_done i (database w)) ?is" "wf_db (database w')"
      "\<forall>j. taskStatus_of j w' = (if j \<in> set ?is \<and> deps_done j (database w) then Some TaskStatus.READY
         else taskStatus_of j w)"
      using recalculateLoop_exact[OF assms(1) distinct_blockedDependentIds _ inj fresh, where k = k and actor = actor and tr = "[]"
          and skp = "[]"] mem
      by auto
    have "length sk = length (filter (\<lambda>i. \<not> deps_done i (database w)) ?is)"
      using l(2) by (metis length_map)
    moreover have "length (filter (\<lambda>i. deps_done i (database w)) ?is)
        + length (filter (\<lambda>i. \<not> deps_done i (database w)) ?is) = length ?is"
      by (rule sum_length_filter_compl)
    ultimately show ?thesis using t True l mem
      by (simp add: recalculateDependents_def Let_def deps_done_def)
  qed
qed

definition unblock_world :: world where
  "unblock_world = \<lparr>database = diamond\<lparr>tasks := map (\<lambda>t.
      t\<lparr>t_status := (if t_taskId t = ''D'' then TaskStatus.DONE else TaskStatus.BLOCKED)\<rparr>) (tasks diamond)\<rparr>,
    emitted = []\<rparr>"

definition unblock_env :: "string \<Rightarrow> txEnv" where
  "unblock_env i = \<lparr>env_now = 0, env_uuid = ''u'' @ i, env_emittedAt = 0\<rparr>"

theorem recalculate_dependents_exact_witness:
  "\<exists>r w'. recalculateDependents unblock_env ''D'' example_actor unblock_world = (Inr r, w')
     \<and> taskStatus_of ''B'' w' = Some TaskStatus.READY \<and> taskStatus_of ''A'' w' = Some TaskStatus.BLOCKED"
proof -
  have "wf_db (database unblock_world)" "taskStatus_of ''D'' unblock_world = Some TaskStatus.DONE"
    "map ae_id (auditEvents (database unblock_world)) = []"
    by (simp_all add: unblock_world_def diamond_def Let_def wf_db_def taskStatus_of_def task_findById_def)
  with recalculate_dependents_exact[of unblock_world "''D''" TaskStatus.DONE unblock_env example_actor]
  obtain r w' where r: "recalculateDependents unblock_env ''D'' example_actor unblock_world = (Inr r, w')"
    "\<forall>i. i \<in> set (rec_transitioned r) \<longleftrightarrow> taskStatus_of i unblock_world = Some TaskStatus.BLOCKED
       \<and> (\<exists>e \<in> set (hard_edges i (database unblock_world)). d_dependsOnTaskId e = ''D'')
       \<and> (\<forall>e \<in> set (hard_edges i (database unblock_world)). prerequisite_done (database unblock_world) e)"
    "\<forall>i. taskStatus_of i w' = (if i \<in> set (rec_transitioned r) then Some TaskStatus.READY
                                 else taskStatus_of i unblock_world)"
    by (auto simp: inj_def unblock_env_def)
  note ev = unblock_world_def diamond_def Let_def hard_edges_def taskStatus_of_def task_findById_def
    prerequisite_done_def
  have "''B'' \<in> set (rec_transitioned r)" "''A'' \<notin> set (rec_transitioned r)" using r(2) by (simp_all add: ev)
  moreover have "taskStatus_of ''A'' unblock_world = Some TaskStatus.BLOCKED" by (simp add: ev)
  ultimately show ?thesis using r(1,3) by simp
qed

end
