(* ===== verification/JobQueue.thy ===== *)
theory JobQueue
  imports Ports
begin

text \<open>
  \<open>packages/application/src/services/job-queue.service.ts\<close> over \<open>createJobQueueUnitOfWork\<close> of
  \<open>apps/control-plane/src/automation/application-adapters.ts\<close> and the job repository: creating,
  claiming, starting, completing and failing jobs, and their dependencies.  Metrics are left out.
  The column \<open>depends_on_job_ids\<close> holds a JSON array of strings.
\<close>

subsection \<open>Repository\<close>

definition job_findById :: "string \<Rightarrow> db \<Rightarrow> Job option" where
  "job_findById jobId d = find (\<lambda>j. j_jobId j = jobId) (jobs d)"

definition job_findByStatus :: "JobStatus \<Rightarrow> db \<Rightarrow> Job list" where
  "job_findByStatus status d = filter (\<lambda>j. j_status j = status) (jobs d)"

definition job_findByJobGroupId :: "string \<Rightarrow> db \<Rightarrow> Job list" where
  "job_findByJobGroupId jobGroupId d = filter (\<lambda>j. j_jobGroupId j = Some jobGroupId) (jobs d)"

definition job_create :: "Job \<Rightarrow> Job tx" where
  "job_create row = (\<lambda>d.
    if j_jobId row \<in> set (map j_jobId (jobs d)) then (Inl (ConstraintError ''job''), d)
    else (Inr row, d\<lparr>jobs := jobs d @ [row]\<rparr>))"

text \<open>\<open>UPDATE job SET ... WHERE job_id = id AND status = 'pending'\<close>.\<close>

definition job_claimJob :: "int \<Rightarrow> string \<Rightarrow> string \<Rightarrow> Job option tx" where
  "job_claimJob now jobId leaseOwner = (\<lambda>d.
    let hit = (\<lambda>j. j_jobId j = jobId \<and> j_status j = JobStatus.PENDING);
        upd = (\<lambda>j. j\<lparr>j_status := JobStatus.CLAIMED, j_leaseOwner := Some leaseOwner,
                      j_attemptCount := j_attemptCount j + 1, j_updatedAt := now div 1000\<rparr>)
    in (Inr (map_option upd (find hit (jobs d))), d\<lparr>jobs := update_where hit upd (jobs d)\<rparr>))"

definition job_update :: "int \<Rightarrow> string \<Rightarrow> (Job \<Rightarrow> Job) \<Rightarrow> Job option tx" where
  "job_update now jobId data = (\<lambda>d.
    let hit = (\<lambda>j. j_jobId j = jobId); upd = (\<lambda>j. (data j)\<lparr>j_updatedAt := now div 1000\<rparr>)
    in (Inr (map_option upd (find hit (jobs d))), d\<lparr>jobs := update_where hit upd (jobs d)\<rparr>))"

subsection \<open>Unit of work\<close>

definition JOB_DEPENDENCY_TERMINAL_STATUSES :: "JobStatus list" where
  "JOB_DEPENDENCY_TERMINAL_STATUSES = [JobStatus.COMPLETED, JobStatus.FAILED]"

definition toStringArray :: "json option \<Rightarrow> string list" where
  "toStringArray value =
    (case value of
       Some (JArr items) \<Rightarrow> List.map_filter (\<lambda>item. case item of JStr s \<Rightarrow> Some s | _ \<Rightarrow> None) items
     | _ \<Rightarrow> [])"

definition dependenciesMet :: "Job \<Rightarrow> db \<Rightarrow> bool" where
  "dependenciesMet candidate d =
    list_all (\<lambda>dependencyId. case job_findById dependencyId d of
        None \<Rightarrow> False
      | Some dependency \<Rightarrow> j_status dependency \<in> set JOB_DEPENDENCY_TERMINAL_STATUSES)
      (toStringArray (j_dependsOnJobIds candidate))"

text \<open>The pending jobs of the type whose time has come, oldest first; JavaScript's sort is stable.\<close>

definition claimCandidates :: "JobType \<Rightarrow> int \<Rightarrow> db \<Rightarrow> Job list" where
  "claimCandidates jobType now d =
    sort_key j_createdAt
      (filter (\<lambda>job. case j_runAfter job of None \<Rightarrow> True | Some t \<Rightarrow> t * 1000 \<le> now)
        (filter (\<lambda>job. j_jobType job = jobType) (job_findByStatus JobStatus.PENDING d)))"

fun claimFirst :: "int \<Rightarrow> string \<Rightarrow> Job list \<Rightarrow> Job option tx" where
  "claimFirst writeNow leaseOwner [] = returnT None"
| "claimFirst writeNow leaseOwner (candidate # rest) = (\<lambda>d.
    if \<not> dependenciesMet candidate d then claimFirst writeNow leaseOwner rest d
    else bindT (job_claimJob writeNow (j_jobId candidate) leaseOwner) (\<lambda>claimed. case claimed of
        Some job \<Rightarrow> returnT (Some job)
      | None \<Rightarrow> claimFirst writeNow leaseOwner rest) d)"

definition claimNextByType :: "int \<Rightarrow> JobType \<Rightarrow> string \<Rightarrow> int \<Rightarrow> Job option tx" where
  "claimNextByType writeNow jobType leaseOwner now =
    (\<lambda>d. claimFirst writeNow leaseOwner (claimCandidates jobType now d) d)"

definition job_updateStatus :: "int \<Rightarrow> string \<Rightarrow> JobStatus \<Rightarrow> JobStatus \<Rightarrow> Job option tx" where
  "job_updateStatus writeNow jobId expectedStatus newStatus = (\<lambda>d.
    case job_findById jobId d of
      None \<Rightarrow> (Inr None, d)
    | Some existing \<Rightarrow>
        if j_status existing \<noteq> expectedStatus then (Inr None, d)
        else job_update writeNow jobId (\<lambda>j. j\<lparr>j_status := newStatus\<rparr>) d)"

subsection \<open>Service\<close>

definition COMPLETABLE_STATUSES :: "JobStatus list" where
  "COMPLETABLE_STATUSES = [JobStatus.CLAIMED, JobStatus.RUNNING]"

definition FAILABLE_STATUSES :: "JobStatus list" where
  "FAILABLE_STATUSES = [JobStatus.CLAIMED, JobStatus.RUNNING]"

definition RUNNABLE_STATUSES :: "JobStatus list" where
  "RUNNABLE_STATUSES = [JobStatus.CLAIMED]"

definition TERMINAL_STATUSES :: "JobStatus list" where
  "TERMINAL_STATUSES = [JobStatus.COMPLETED, JobStatus.FAILED]"

definition parseDependsOnJobIds :: "json option \<Rightarrow> string list" where
  "parseDependsOnJobIds value =
    (case value of
       Some (JArr items) \<Rightarrow> List.map_filter (\<lambda>item. case item of JStr s \<Rightarrow> Some s | _ \<Rightarrow> None) items
     | _ \<Rightarrow> [])"

record CreateJobData =
  cj_jobType :: JobType
  cj_entityType :: "string option"
  cj_entityId :: "string option"
  cj_payloadJson :: "json option"
  cj_runAfter :: "int option"
  cj_parentJobId :: "string option"
  cj_jobGroupId :: "string option"
  cj_dependsOnJobIds :: "string list option"

text \<open>\<open>now\<close> is the database clock of the column defaults.\<close>

definition createJob :: "int \<Rightarrow> string \<Rightarrow> CreateJobData \<Rightarrow> Job tx" where
  "createJob now newId data =
    writeTransaction (job_create
      \<lparr>j_jobId = newId, j_jobType = cj_jobType data, j_entityType = cj_entityType data,
       j_entityId = cj_entityId data, j_payloadJson = cj_payloadJson data,
       j_status = JobStatus.PENDING, j_attemptCount = 0,
       j_runAfter = map_option (\<lambda>t. t div 1000) (cj_runAfter data), j_leaseOwner = None,
       j_parentJobId = cj_parentJobId data, j_jobGroupId = cj_jobGroupId data,
       j_dependsOnJobIds = map_option (\<lambda>ids. JArr (map JStr ids)) (cj_dependsOnJobIds data),
       j_createdAt = now div 1000, j_updatedAt = now div 1000\<rparr>)"

definition claimJob :: "int \<Rightarrow> int \<Rightarrow> JobType \<Rightarrow> string \<Rightarrow> Job option tx" where
  "claimJob clock writeNow jobType leaseOwner =
    writeTransaction (claimNextByType writeNow jobType leaseOwner clock)"

definition startJob :: "int \<Rightarrow> string \<Rightarrow> Job tx" where
  "startJob writeNow jobId =
    writeTransaction (bindT (getT (job_findById jobId)) (\<lambda>found. case found of
      None \<Rightarrow> throwT (EntityNotFoundError ''Job'' jobId)
    | Some existing \<Rightarrow>
        if j_status existing \<notin> set RUNNABLE_STATUSES then
          throwT (InvalidTransitionError ''Job'' jobId (JobStatus_value (j_status existing))
            (JobStatus_value JobStatus.RUNNING)
            (Some (''Job must be in CLAIMED status to start running, but is ''
              @ JobStatus_value (j_status existing))))
        else bindT (job_updateStatus writeNow jobId (j_status existing) JobStatus.RUNNING) (\<lambda>updated.
          case updated of
            None \<Rightarrow> throwT (InvalidTransitionError ''Job'' jobId (JobStatus_value (j_status existing))
              (JobStatus_value JobStatus.RUNNING)
              (Some ''Concurrent status change detected during start transition''))
          | Some job \<Rightarrow> returnT job)))"

definition completeJob :: "int \<Rightarrow> string \<Rightarrow> Job tx" where
  "completeJob writeNow jobId =
    writeTransaction (bindT (getT (job_findById jobId)) (\<lambda>found. case found of
      None \<Rightarrow> throwT (EntityNotFoundError ''Job'' jobId)
    | Some existing \<Rightarrow>
        if j_status existing \<notin> set COMPLETABLE_STATUSES then
          throwT (InvalidTransitionError ''Job'' jobId (JobStatus_value (j_status existing))
            (JobStatus_value JobStatus.COMPLETED)
            (Some (''Job must be in CLAIMED or RUNNING status to complete, but is ''
              @ JobStatus_value (j_status existing))))
        else bindT (job_updateStatus writeNow jobId (j_status existing) JobStatus.COMPLETED) (\<lambda>updated.
          case updated of
            None \<Rightarrow> throwT (InvalidTransitionError ''Job'' jobId (JobStatus_value (j_status existing))
              (JobStatus_value JobStatus.COMPLETED)
              (Some ''Concurrent status change detected during complete transition''))
          | Some job \<Rightarrow> returnT job)))"

definition failJob :: "int \<Rightarrow> string \<Rightarrow> Job tx" where
  "failJob writeNow jobId =
    writeTransaction (bindT (getT (job_findById jobId)) (\<lambda>found. case found of
      None \<Rightarrow> throwT (EntityNotFoundError ''Job'' jobId)
    | Some existing \<Rightarrow>
        if j_status existing \<notin> set FAILABLE_STATUSES then
          throwT (InvalidTransitionError ''Job'' jobId (JobStatus_value (j_status existing))
            (JobStatus_value JobStatus.FAILED)
            (Some (''Job must be in CLAIMED or RUNNING status to fail, but is ''
              @ JobStatus_value (j_status existing))))
        else bindT (job_updateStatus writeNow jobId (j_status existing) JobStatus.FAILED) (\<lambda>updated.
          case updated of
            None \<Rightarrow> throwT (InvalidTransitionError ''Job'' jobId (JobStatus_value (j_status existing))
              (JobStatus_value JobStatus.FAILED)
              (Some ''Concurrent status change detected during fail transition''))
          | Some job \<Rightarrow> returnT job)))"

record AreJobDependenciesMetResult =
  met :: bool
  pendingDependencyIds :: "string list"
  missingDependencyIds :: "string list"

definition job_findByIds :: "string list \<Rightarrow> db \<Rightarrow> Job list" where
  "job_findByIds jobIds d = List.map_filter (\<lambda>jobId. job_findById jobId d) jobIds"

definition areJobDependenciesMet :: "string \<Rightarrow> db \<Rightarrow> app_error + AreJobDependenciesMetResult" where
  "areJobDependenciesMet jobId d =
    (case job_findById jobId d of
       None \<Rightarrow> Inl (EntityNotFoundError ''Job'' jobId)
     | Some job \<Rightarrow>
         let depIds = parseDependsOnJobIds (j_dependsOnJobIds job) in
         if depIds = [] then Inr \<lparr>met = True, pendingDependencyIds = [], missingDependencyIds = []\<rparr>
         else
           let depJobs = job_findByIds depIds d;
               foundIds = map j_jobId depJobs;
               missing = filter (\<lambda>depId. depId \<notin> set foundIds) depIds;
               pending = filter (\<lambda>depId. depId \<in> set foundIds
                 \<and> (case find (\<lambda>j. j_jobId j = depId) depJobs of
                      Some depJob \<Rightarrow> j_status depJob \<notin> set TERMINAL_STATUSES
                    | None \<Rightarrow> False)) depIds in
           Inr \<lparr>met = (pending = [] \<and> missing = []), pendingDependencyIds = pending,
             missingDependencyIds = missing\<rparr>)"

definition findJobsByGroup :: "string \<Rightarrow> db \<Rightarrow> Job list" where
  "findJobsByGroup groupId d = job_findByJobGroupId groupId d"

subsection \<open>Claiming\<close>

definition claimed_job :: "int \<Rightarrow> string \<Rightarrow> Job \<Rightarrow> Job" where
  "claimed_job writeNow owner j = j\<lparr>j_status := JobStatus.CLAIMED, j_leaseOwner := Some owner,
     j_attemptCount := j_attemptCount j + 1, j_updatedAt := writeNow div 1000\<rparr>"

text \<open>What makes a job claimable.\<close>

definition claimable :: "JobType \<Rightarrow> int \<Rightarrow> db \<Rightarrow> Job \<Rightarrow> bool" where
  "claimable ty now d j \<longleftrightarrow> j \<in> set (jobs d) \<and> j_status j = JobStatus.PENDING \<and> j_jobType j = ty
     \<and> (\<forall>t. j_runAfter j = Some t \<longrightarrow> t * 1000 \<le> now)
     \<and> (\<forall>i \<in> set (toStringArray (j_dependsOnJobIds j)). \<exists>k. job_findById i d = Some k
          \<and> j_status k \<in> {JobStatus.COMPLETED, JobStatus.FAILED})"

lemma dependenciesMet_iff:
  "dependenciesMet j d \<longleftrightarrow> (\<forall>i \<in> set (toStringArray (j_dependsOnJobIds j)). \<exists>k. job_findById i d = Some k
      \<and> j_status k \<in> {JobStatus.COMPLETED, JobStatus.FAILED})"
  by (auto simp: dependenciesMet_def list_all_iff JOB_DEPENDENCY_TERMINAL_STATUSES_def split: option.splits)

lemma claimCandidates_set:
  "j \<in> set (claimCandidates ty now d) \<and> dependenciesMet j d \<longleftrightarrow> claimable ty now d j"
  by (auto simp: claimCandidates_def job_findByStatus_def claimable_def dependenciesMet_iff split: option.splits)

lemma find_sorted_min:
  assumes "sorted (map f xs)" and "find P xs = Some x" and "y \<in> set xs" and "P y"
  shows "f x \<le> f y"
  using assms by (induction xs) (auto split: if_splits)

lemma job_found:
  assumes "wf_db d" and "j \<in> set (jobs d)"
  shows "job_findById (j_jobId j) d = Some j"
  using assms find_key_Some[of j_jobId "jobs d" j] by (simp add: wf_db_def job_findById_def)

lemma job_found_iff:
  assumes "wf_db d"
  shows "job_findById i d = Some j \<longleftrightarrow> j \<in> set (jobs d) \<and> j_jobId j = i"
  using job_found[OF assms] by (auto simp: job_findById_def dest: find_Some_iff_mem)

lemma wf_jobs:
  "map j_jobId js = map j_jobId (jobs d) \<Longrightarrow> wf_db d \<Longrightarrow> wf_db (d\<lparr>jobs := js\<rparr>)"
  by (simp add: wf_db_def)

lemma job_claimJob_pending:
  assumes "wf_db d" and "j \<in> set (jobs d)" and "j_status j = JobStatus.PENDING"
  shows "job_claimJob now (j_jobId j) owner d = (Inr (Some (claimed_job now owner j)),
    d\<lparr>jobs := update_where (\<lambda>x. j_jobId x = j_jobId j) (claimed_job now owner) (jobs d)\<rparr>)"
proof -
  have dist: "distinct (map j_jobId (jobs d))" using assms(1) by (simp add: wf_db_def)
  have fnd: "find (\<lambda>x. j_jobId x = j_jobId j) (jobs d) = Some j"
    using find_key_Some[OF dist assms(2)] by simp
  have f: "(\<lambda>j. j\<lparr>j_status := JobStatus.CLAIMED, j_leaseOwner := Some owner,
      j_attemptCount := j_attemptCount j + 1, j_updatedAt := now div 1000\<rparr>) = claimed_job now owner"
    by (simp add: claimed_job_def fun_eq_iff)
  show ?thesis
    using find_both_keys[OF dist fnd, of j_status JobStatus.PENDING]
      update_where_both_keys[OF dist fnd, of j_status JobStatus.PENDING] assms(3)
    by (simp add: job_claimJob_def Let_def f)
qed

lemma claimFirst_find:
  assumes "wf_db d" and "\<forall>j \<in> set cs. j \<in> set (jobs d) \<and> j_status j = JobStatus.PENDING"
  shows "claimFirst now owner cs d =
    (case find (\<lambda>j. dependenciesMet j d) cs of
       None \<Rightarrow> (Inr None, d)
     | Some j \<Rightarrow> (Inr (Some (claimed_job now owner j)),
         d\<lparr>jobs := update_where (\<lambda>x. j_jobId x = j_jobId j) (claimed_job now owner) (jobs d)\<rparr>))"
  using assms(2)
proof (induction cs)
  case (Cons c cs)
  then show ?case
    using job_claimJob_pending[OF assms(1), of c now owner] by (simp add: bindT_apply)
qed simp

lemma claimed_keeps_id [simp]: "j_jobId (claimed_job now owner j) = j_jobId j"
  by (simp add: claimed_job_def)

lemma claimJob_cases:
  assumes "wf_db d"
  obtains "\<nexists>j. claimable ty clock d j" "claimJob clock now ty owner d = (Inr None, d)"
  | j d' where "claimable ty clock d j" "\<forall>k. claimable ty clock d k \<longrightarrow> j_createdAt j \<le> j_createdAt k"
      "claimJob clock now ty owner d = (Inr (Some (claimed_job now owner j)), d')"
      "d' = d\<lparr>jobs := update_where (\<lambda>x. j_jobId x = j_jobId j) (claimed_job now owner) (jobs d)\<rparr>"
      "job_findById (j_jobId j) d' = Some (claimed_job now owner j)"
      "\<forall>i. i \<noteq> j_jobId j \<longrightarrow> job_findById i d' = job_findById i d" "wf_db d'"
proof -
  let ?cs = "claimCandidates ty clock d"
  have pend: "\<forall>j \<in> set ?cs. j \<in> set (jobs d) \<and> j_status j = JobStatus.PENDING"
    by (auto simp: claimCandidates_def job_findByStatus_def)
  note run = claimFirst_find[OF assms pend, of now owner]
  show ?thesis
  proof (cases "find (\<lambda>j. dependenciesMet j d) ?cs")
    case None
    then have "\<nexists>j. claimable ty clock d j" by (auto simp: find_None_iff claimCandidates_set[symmetric])
    then show ?thesis using that(1) None run by (simp add: claimJob_def claimNextByType_def writeTransaction_def)
  next
    case (Some j)
    let ?d' = "d\<lparr>jobs := update_where (\<lambda>x. j_jobId x = j_jobId j) (claimed_job now owner) (jobs d)\<rparr>"
    from Some have j: "claimable ty clock d j"
      by (auto simp: claimCandidates_set[symmetric] dest: find_Some_iff_mem)
    have first: "\<forall>k. claimable ty clock d k \<longrightarrow> j_createdAt j \<le> j_createdAt k"
      using find_sorted_min[OF _ Some, of j_createdAt] by (auto simp: claimCandidates_set[symmetric] claimCandidates_def)
    have "wf_db ?d'" by (rule wf_jobs[OF map_update_where_same assms]) simp
    moreover have "job_findById (j_jobId j) ?d' = Some (claimed_job now owner j)"
      using job_found[OF assms, of j] j find_update_where_key[of j_jobId "claimed_job now owner" "j_jobId j" "jobs d"]
      by (simp add: job_findById_def claimable_def)
    moreover have "\<forall>i. i \<noteq> j_jobId j \<longrightarrow> job_findById i ?d' = job_findById i d"
      by (simp add: job_findById_def find_update_where_other)
    ultimately show ?thesis using that(2)[OF j first] Some run
      by (simp add: claimJob_def claimNextByType_def writeTransaction_def)
  qed
qed

text \<open>
  Claiming takes the oldest eligible job.  A claim finds nothing exactly when no job of the type
  is pending, due and free of unfinished or missing dependencies, and then changes nothing; otherwise
  it returns such a job with the earliest creation time, now \<open>CLAIMED\<close> by the caller with its attempt
  count raised by one, and no other job changes.
\<close>

lemma claim_oldest_eligible:
  assumes "wf_db d"
  shows "case claimJob clock now ty owner d of
      (Inl _, _) \<Rightarrow> False
    | (Inr None, d') \<Rightarrow> (\<nexists>j. claimable ty clock d j) \<and> d' = d
    | (Inr (Some r), d') \<Rightarrow> \<exists>j. claimable ty clock d j
        \<and> (\<forall>k. claimable ty clock d k \<longrightarrow> j_createdAt j \<le> j_createdAt k)
        \<and> r = j\<lparr>j_status := JobStatus.CLAIMED, j_leaseOwner := Some owner,
               j_attemptCount := j_attemptCount j + 1, j_updatedAt := now div 1000\<rparr>
        \<and> job_findById (j_jobId j) d' = Some r
        \<and> (\<forall>i. i \<noteq> j_jobId j \<longrightarrow> job_findById i d' = job_findById i d)
        \<and> wf_db d'"
  by (rule claimJob_cases[OF assms, of ty clock now owner]) (auto simp: claimed_job_def)

definition queue_job :: "string \<Rightarrow> int \<Rightarrow> string list \<Rightarrow> Job" where
  "queue_job i t deps = \<lparr>j_jobId = i, j_jobType = JobType.WORKER_DISPATCH, j_entityType = None, j_entityId = None,
     j_payloadJson = None, j_status = JobStatus.PENDING, j_attemptCount = 0, j_runAfter = None,
     j_leaseOwner = None, j_parentJobId = None, j_jobGroupId = None,
     j_dependsOnJobIds = Some (JArr (map JStr deps)), j_createdAt = t, j_updatedAt = t\<rparr>"

definition queue_db :: db where
  "queue_db = \<lparr>tasks = [], taskLeases = [], reviewCycles = [], mergeQueueItems = [], taskDependencies = [],
     workerPools = [], jobs = [queue_job ''1'' 9 [], queue_job ''2'' 3 [''1''], queue_job ''3'' 5 []],
     auditEvents = [], reviewPackets = [], leadReviewDecisions = [], workers = []\<rparr>"

lemma queue_db_wf: "wf_db queue_db"
  by (simp add: queue_db_def wf_db_def queue_job_def)

subsection \<open>Dependencies\<close>

lemma map_filter_Some_mem: "x \<in> set (List.map_filter f xs) \<longleftrightarrow> (\<exists>y \<in> set xs. f y = Some x)"
  by (induction xs) (auto split: option.split)

lemma job_findById_id: "job_findById i d = Some j \<Longrightarrow> j_jobId j = i"
  by (auto simp: job_findById_def dest: find_Some_iff_mem)

lemma find_found_job:
  assumes "i \<in> set ids"
  shows "find (\<lambda>j. j_jobId j = i) (job_findByIds ids d) = job_findById i d"
  using assms
proof (induction ids)
  case (Cons k ids)
  show ?case
  proof (cases "i = k")
    case True
    have "find (\<lambda>j. j_jobId j = i) (job_findByIds ids d) = None" if "job_findById i d = None"
      using that job_findById_id by (fastforce simp: find_None_iff job_findByIds_def map_filter_Some_mem)
    then show ?thesis
      using True job_findById_id[of k d] by (auto simp: job_findByIds_def split: option.split)
  next
    case False
    then have "i \<in> set ids" using Cons.prems by simp
    from Cons.IH[OF this] show ?thesis
      using False job_findById_id[of k d] by (auto simp: job_findByIds_def split: option.split)
  qed
qed simp

lemma found_ids: "i \<in> set ids \<Longrightarrow> i \<in> set (map j_jobId (job_findByIds ids d)) \<longleftrightarrow> job_findById i d \<noteq> None"
  using job_findById_id by (fastforce simp: job_findByIds_def map_filter_Some_mem image_iff)

text \<open>
  The two dependency checks agree: the service's \<open>areJobDependenciesMet\<close> answers yes exactly for
  the jobs the claim would not skip, and otherwise lists exactly the dependencies that do not exist
  and those that exist and are neither completed nor failed.
\<close>

lemma dependency_checks_agree:
  assumes "job_findById i d = Some j"
  shows "\<exists>r. areJobDependenciesMet i d = Inr r
    \<and> met r = dependenciesMet j d
    \<and> set (missingDependencyIds r) = {k \<in> set (toStringArray (j_dependsOnJobIds j)). job_findById k d = None}
    \<and> set (pendingDependencyIds r) = {k \<in> set (toStringArray (j_dependsOnJobIds j)).
         \<exists>x. job_findById k d = Some x \<and> j_status x \<notin> {JobStatus.COMPLETED, JobStatus.FAILED}}"
proof -
  let ?ids = "toStringArray (j_dependsOnJobIds j)"
  have ids: "parseDependsOnJobIds (j_dependsOnJobIds j) = ?ids"
    by (simp add: parseDependsOnJobIds_def toStringArray_def)
  have miss: "filter (\<lambda>k. k \<notin> set (map j_jobId (job_findByIds ?ids d))) ?ids
      = filter (\<lambda>k. job_findById k d = None) ?ids"
    by (rule filter_cong) (simp_all add: found_ids del: set_map)
  have pend: "filter (\<lambda>k. k \<in> set (map j_jobId (job_findByIds ?ids d))
        \<and> (case find (\<lambda>j. j_jobId j = k) (job_findByIds ?ids d) of
             Some depJob \<Rightarrow> j_status depJob \<notin> set TERMINAL_STATUSES | None \<Rightarrow> False)) ?ids
      = filter (\<lambda>k. \<exists>x. job_findById k d = Some x \<and> j_status x \<notin> {JobStatus.COMPLETED, JobStatus.FAILED}) ?ids"
    by (rule filter_cong)
       (auto simp: found_ids find_found_job TERMINAL_STATUSES_def simp del: set_map split: option.split)
  show ?thesis
  proof (cases "?ids = []")
    case True
    then show ?thesis using assms ids by (simp add: areJobDependenciesMet_def dependenciesMet_iff)
  next
    case False
    then show ?thesis
      unfolding areJobDependenciesMet_def assms option.case ids Let_def miss pend
      by (auto simp: dependenciesMet_iff filter_empty_conv)
  qed
qed

subsection \<open>The life of a job\<close>

text \<open>\<open>startJob\<close>, \<open>completeJob\<close> and \<open>failJob\<close> share one shape: from statuses \<open>S\<close> to \<open>s\<close>.\<close>

definition moved_job :: "int \<Rightarrow> JobStatus \<Rightarrow> Job \<Rightarrow> Job" where
  "moved_job now s j = j\<lparr>j_status := s, j_updatedAt := now div 1000\<rparr>"

lemma moved_job_sel [simp]:
  "j_jobId (moved_job now s j) = j_jobId j" "j_status (moved_job now s j) = s"
  "j_attemptCount (moved_job now s j) = j_attemptCount j" "j_leaseOwner (moved_job now s j) = j_leaseOwner j"
  by (simp_all add: moved_job_def)

lemma job_move_cases:
  assumes wf: "wf_db d"
  obtains e where "writeTransaction (bindT (getT (job_findById i)) (\<lambda>found. case found of
        None \<Rightarrow> throwT (nf :: app_error)
      | Some existing \<Rightarrow> if j_status existing \<notin> S then throwT (bad existing)
          else bindT (job_updateStatus now i (j_status existing) s) (\<lambda>updated. case updated of
              None \<Rightarrow> throwT (race existing) | Some job \<Rightarrow> returnT job))) d = (Inl e, d)"
      "\<nexists>j. job_findById i d = Some j \<and> j_status j \<in> S"
  | j where "writeTransaction (bindT (getT (job_findById i)) (\<lambda>found. case found of
        None \<Rightarrow> throwT (nf :: app_error)
      | Some existing \<Rightarrow> if j_status existing \<notin> S then throwT (bad existing)
          else bindT (job_updateStatus now i (j_status existing) s) (\<lambda>updated. case updated of
              None \<Rightarrow> throwT (race existing) | Some job \<Rightarrow> returnT job))) d
        = (Inr (moved_job now s j), d\<lparr>jobs := update_where (\<lambda>x. j_jobId x = i) (moved_job now s) (jobs d)\<rparr>)"
      "job_findById i d = Some j" "j_status j \<in> S"
proof (cases "\<exists>j. job_findById i d = Some j \<and> j_status j \<in> S")
  case True
  then obtain j where j: "job_findById i d = Some j" "j_status j \<in> S" by blast
  have f: "(\<lambda>j. j\<lparr>j_status := s, j_updatedAt := now div 1000\<rparr>) = moved_job now s"
    by (simp add: moved_job_def fun_eq_iff)
  have "job_updateStatus now i (j_status j) s d
      = (Inr (Some (moved_job now s j)), d\<lparr>jobs := update_where (\<lambda>x. j_jobId x = i) (moved_job now s) (jobs d)\<rparr>)"
    using j(1) by (simp add: job_updateStatus_def job_update_def Let_def f job_findById_def)
  then show ?thesis using that(2) j by (simp add: writeTransaction_def bindT_apply)
next
  case False
  then show ?thesis using that(1)
    by (cases "job_findById i d") (auto simp: writeTransaction_def)
qed

inductive queue_step :: "db \<Rightarrow> db \<Rightarrow> bool" where
  create: "createJob now newId data d = (r, d') \<Longrightarrow> queue_step d d'"
| claim: "claimJob clock now ty owner d = (r', d') \<Longrightarrow> queue_step d d'"
| start: "startJob now i d = (r, d') \<Longrightarrow> queue_step d d'"
| complete: "completeJob now i d = (r, d') \<Longrightarrow> queue_step d d'"
| fail: "failJob now i d = (r, d') \<Longrightarrow> queue_step d d'"

text \<open>The moves a step can make with one job.\<close>

definition job_move :: "Job \<Rightarrow> Job \<Rightarrow> bool" where
  "job_move j j' \<longleftrightarrow> j' = j
     \<or> j_status j = JobStatus.PENDING \<and> (\<exists>now owner. j' = claimed_job now owner j)
     \<or> j_status j = JobStatus.CLAIMED \<and> (\<exists>now. j' = moved_job now JobStatus.RUNNING j)
     \<or> j_status j \<in> {JobStatus.CLAIMED, JobStatus.RUNNING}
       \<and> (\<exists>now s. s \<in> {JobStatus.COMPLETED, JobStatus.FAILED} \<and> j' = moved_job now s j)"

definition jobs_move :: "db \<Rightarrow> db \<Rightarrow> bool" where
  "jobs_move d d' \<longleftrightarrow> (\<forall>i j. job_findById i d = Some j \<longrightarrow> (\<exists>j'. job_findById i d' = Some j' \<and> job_move j j'))
     \<and> (\<forall>i j'. job_findById i d = None \<longrightarrow> job_findById i d' = Some j' \<longrightarrow>
          j_status j' = JobStatus.PENDING \<and> j_attemptCount j' = 0)"

lemma jobs_move_refl: "jobs_move d d"
  by (simp add: jobs_move_def job_move_def)

lemma jobs_move_one:
  assumes "wf_db d" and "job_findById i d = Some j" and "job_move j (f j)" and "\<And>x. j_jobId (f x) = j_jobId x"
  shows "jobs_move d (d\<lparr>jobs := update_where (\<lambda>x. j_jobId x = i) f (jobs d)\<rparr>)
    \<and> wf_db (d\<lparr>jobs := update_where (\<lambda>x. j_jobId x = i) f (jobs d)\<rparr>)"
proof -
  let ?d' = "d\<lparr>jobs := update_where (\<lambda>x. j_jobId x = i) f (jobs d)\<rparr>"
  have "wf_db ?d'" by (rule wf_jobs[OF map_update_where_same assms(1)]) (rule assms(4))
  moreover have "job_findById i ?d' = Some (f j)"
    using find_update_where_key[of j_jobId f i "jobs d"] assms(2,4) by (simp add: job_findById_def)
  moreover have "k \<noteq> i \<Longrightarrow> job_findById k ?d' = job_findById k d" for k
    using find_update_where_other[of j_jobId f i k "jobs d"] assms(4) by (simp add: job_findById_def)
  ultimately show ?thesis using assms(2,3) unfolding jobs_move_def
    by (metis job_move_def option.distinct(1) option.inject)
qed

lemma createJob_moves:
  assumes "wf_db d" and "createJob now newId data d = (r, d')"
  shows "jobs_move d d' \<and> wf_db d'"
proof (cases "newId \<in> set (map j_jobId (jobs d))")
  case True
  then have "d' = d" using assms(2) by (simp add: createJob_def job_create_def writeTransaction_def)
  then show ?thesis using assms(1) jobs_move_refl by simp
next
  case False
  then obtain row where d': "d' = d\<lparr>jobs := jobs d @ [row]\<rparr>" "j_jobId row = newId"
    "j_status row = JobStatus.PENDING" "j_attemptCount row = 0"
    using assms(2) by (auto simp: createJob_def job_create_def writeTransaction_def)
  have "find p (xs @ [row]) = (case find p xs of Some x \<Rightarrow> Some x | None \<Rightarrow> if p row then Some row else None)"
    for p and xs :: "Job list" by (induction xs) auto
  then have "job_findById i d' = (case job_findById i d of Some j \<Rightarrow> Some j
      | None \<Rightarrow> if newId = i then Some row else None)" for i
    by (simp add: job_findById_def d')
  then show ?thesis using assms(1) False d'
    by (auto simp: jobs_move_def job_move_def wf_db_def split: if_splits option.splits)
qed

lemma job_move_moves:
  assumes wf: "wf_db d"
    and run: "writeTransaction (bindT (getT (job_findById i)) (\<lambda>found. case found of
        None \<Rightarrow> throwT (nf :: app_error)
      | Some existing \<Rightarrow> if j_status existing \<notin> S then throwT (bad existing)
          else bindT (job_updateStatus now i (j_status existing) s) (\<lambda>updated. case updated of
              None \<Rightarrow> throwT (race existing) | Some job \<Rightarrow> returnT job))) d = (r, d')"
    and ok: "\<And>j. j_status j \<in> S \<Longrightarrow> job_move j (moved_job now s j)"
  shows "jobs_move d d' \<and> wf_db d'"
proof (rule job_move_cases[OF wf, of i nf S bad now s race])
  fix e
  assume "writeTransaction (bindT (getT (job_findById i)) (\<lambda>found. case found of
        None \<Rightarrow> throwT nf
      | Some existing \<Rightarrow> if j_status existing \<notin> S then throwT (bad existing)
          else bindT (job_updateStatus now i (j_status existing) s) (\<lambda>updated. case updated of
              None \<Rightarrow> throwT (race existing) | Some job \<Rightarrow> returnT job))) d = (Inl e, d)"
  then show ?thesis using run wf jobs_move_refl by auto
next
  fix j
  assume e: "writeTransaction (bindT (getT (job_findById i)) (\<lambda>found. case found of
        None \<Rightarrow> throwT nf
      | Some existing \<Rightarrow> if j_status existing \<notin> S then throwT (bad existing)
          else bindT (job_updateStatus now i (j_status existing) s) (\<lambda>updated. case updated of
              None \<Rightarrow> throwT (race existing) | Some job \<Rightarrow> returnT job))) d
        = (Inr (moved_job now s j), d\<lparr>jobs := update_where (\<lambda>x. j_jobId x = i) (moved_job now s) (jobs d)\<rparr>)"
    and j: "job_findById i d = Some j" "j_status j \<in> S"
  show ?thesis using jobs_move_one[OF wf j(1), of "moved_job now s", OF ok[OF j(2)]] e run by simp
qed

lemma queue_step_moves: "queue_step d d' \<Longrightarrow> wf_db d \<Longrightarrow> jobs_move d d' \<and> wf_db d'"
proof (induction rule: queue_step.induct)
  case (create now newId data d r d')
  then show ?case using createJob_moves by blast
next
  case (claim clock now ty owner d r d')
  show ?case
  proof (rule claimJob_cases[OF claim(2), of ty clock now owner])
    assume "claimJob clock now ty owner d = (Inr None, d)"
    then show ?case using claim jobs_move_refl by simp
  next
    fix j e
    assume j: "claimable ty clock d j" and e: "claimJob clock now ty owner d = (Inr (Some (claimed_job now owner j)), e)"
      "e = d\<lparr>jobs := update_where (\<lambda>x. j_jobId x = j_jobId j) (claimed_job now owner) (jobs d)\<rparr>"
    have "job_findById (j_jobId j) d = Some j" "job_move j (claimed_job now owner j)"
      using j job_found[OF claim(2)] by (auto simp: claimable_def job_move_def)
    from jobs_move_one[OF claim(2) this(1), of "claimed_job now owner", OF this(2)]
    show ?case using claim(1) e by simp
  qed
next
  case (start now i d r d')
  from job_move_moves[OF start(2) start(1)[unfolded startJob_def]] show ?case
    by (auto simp: RUNNABLE_STATUSES_def job_move_def)
next
  case (complete now i d r d')
  from job_move_moves[OF complete(2) complete(1)[unfolded completeJob_def]] show ?case
    by (auto simp: COMPLETABLE_STATUSES_def job_move_def)
next
  case (fail now i d r d')
  from job_move_moves[OF fail(2) fail(1)[unfolded failJob_def]] show ?case
    by (auto simp: FAILABLE_STATUSES_def job_move_def)
qed

text \<open>The life of one job, and what a run of the queue keeps of it.\<close>

definition job_rank :: "JobStatus \<Rightarrow> nat" where
  "job_rank s = (case s of JobStatus.PENDING \<Rightarrow> 0 | JobStatus.CLAIMED \<Rightarrow> 1 | JobStatus.RUNNING \<Rightarrow> 2 | _ \<Rightarrow> 3)"

definition job_once :: "Job \<Rightarrow> bool" where
  "job_once j \<longleftrightarrow> j_attemptCount j = (if j_status j = JobStatus.PENDING then 0 else 1)"

definition job_later :: "Job \<Rightarrow> Job \<Rightarrow> bool" where
  "job_later j j' \<longleftrightarrow> job_once j' \<and> job_rank (j_status j) \<le> job_rank (j_status j')
     \<and> (j_status j \<noteq> JobStatus.PENDING \<longrightarrow> j_leaseOwner j' = j_leaseOwner j)
     \<and> (j_status j \<in> {JobStatus.COMPLETED, JobStatus.FAILED} \<longrightarrow> j' = j)"

lemma job_move_later: "job_move j j' \<Longrightarrow> job_once j \<Longrightarrow> job_later j j'"
  by (auto simp: job_move_def job_later_def job_once_def job_rank_def claimed_job_def)

lemma job_later_trans: "job_later j k \<Longrightarrow> job_later k l \<Longrightarrow> job_later j l"
  by (cases "j_status j"; cases "j_status k") (auto simp: job_later_def job_rank_def)

lemma queue_run:
  assumes "queue_step\<^sup>*\<^sup>* d d'" and "wf_db d" and "\<forall>j \<in> set (jobs d). job_once j"
  shows "wf_db d' \<and> (\<forall>j \<in> set (jobs d'). job_once j)
    \<and> (\<forall>i j. job_findById i d = Some j \<longrightarrow> (\<exists>j'. job_findById i d' = Some j' \<and> job_later j j'))"
  using assms(1)
proof (induction rule: rtranclp_induct)
  case base
  then show ?case using assms by (auto simp: job_later_def job_found_iff)
next
  case (step e e')
  then have wf: "wf_db e" and once: "\<forall>j \<in> set (jobs e). job_once j" by blast+
  from queue_step_moves[OF step(2) wf] have mv: "jobs_move e e'" and wf': "wf_db e'" by blast+
  have old: "\<exists>j'. job_findById i e' = Some j' \<and> job_later j j'" if "job_findById i e = Some j" for i j
    using mv that once job_move_later[of j] unfolding jobs_move_def job_found_iff[OF wf] by blast
  have "job_once j" if "j \<in> set (jobs e')" for j
  proof (cases "job_findById (j_jobId j) e")
    case None
    then show ?thesis using mv job_found[OF wf' that] unfolding jobs_move_def job_once_def by fastforce
  next
    case (Some k)
    then show ?thesis using old[OF Some] job_found[OF wf' that] by (auto simp: job_later_def)
  qed
  moreover have "\<exists>j'. job_findById i e' = Some j' \<and> job_later j j'" if "job_findById i d = Some j" for i j
    using step(3) that old job_later_trans by blast
  ultimately show ?case using wf' by blast
qed

text \<open>
  (C31) A job is claimed at most once and never lost.  However the calls of the job queue are
  interleaved, every job stays in the table, its status only moves forward along \<open>PENDING\<close>,
  \<open>CLAIMED\<close>, \<open>RUNNING\<close> and \<open>COMPLETED\<close> or \<open>FAILED\<close>, a claimed job keeps the worker that claimed it and has
  exactly one attempt, and a finished job never changes again.
\<close>

theorem job_claimed_at_most_once:
  assumes "queue_step\<^sup>*\<^sup>* d d'" and "wf_db d"
    and "\<forall>j \<in> set (jobs d). j_attemptCount j = (if j_status j = JobStatus.PENDING then 0 else 1)"
    and "job_findById i d = Some j"
  shows "\<exists>j'. job_findById i d' = Some j'
    \<and> j_attemptCount j' = (if j_status j' = JobStatus.PENDING then 0 else 1)
    \<and> job_rank (j_status j) \<le> job_rank (j_status j')
    \<and> (j_status j \<noteq> JobStatus.PENDING \<longrightarrow> j_leaseOwner j' = j_leaseOwner j)
    \<and> (j_status j \<in> {JobStatus.COMPLETED, JobStatus.FAILED} \<longrightarrow> j' = j)"
  using queue_run[OF assms(1,2)] assms(3,4) by (fastforce simp: job_once_def job_later_def)

theorem job_claimed_at_most_once_witness:
  "\<exists>d'. queue_step\<^sup>*\<^sup>* queue_db d' \<and> (\<exists>j'. job_findById ''3'' d' = Some j' \<and> j_status j' = JobStatus.COMPLETED
     \<and> j_attemptCount j' = 1)"
proof -
  let ?d1 = "snd (claimJob 0 0 JobType.WORKER_DISPATCH ''W'' queue_db)"
  let ?d2 = "snd (completeJob 0 ''3'' ?d1)"
  have "queue_step queue_db ?d1" "queue_step ?d1 ?d2"
    by (rule queue_step.claim, rule prod.collapse[symmetric]) (rule queue_step.complete, rule prod.collapse[symmetric])
  then have run: "queue_step\<^sup>*\<^sup>* queue_db ?d2" by (meson converse_rtranclp_into_rtranclp rtranclp.rtrancl_refl)
  have once: "\<forall>j \<in> set (jobs queue_db). j_attemptCount j = (if j_status j = JobStatus.PENDING then 0 else 1)"
    by (simp add: queue_db_def queue_job_def)
  have j: "job_findById ''3'' queue_db = Some (queue_job ''3'' 5 [])"
    by (simp add: queue_db_def job_findById_def queue_job_def)
  have "map_option j_status (job_findById ''3'' ?d2) = Some JobStatus.COMPLETED" by code_simp
  then show ?thesis using run job_claimed_at_most_once[OF run queue_db_wf once j] by auto
qed

end
