(* ===== verification/Scheduler.thy ===== *)
theory Scheduler
  imports Lease JobQueue "HOL-Library.Product_Lexorder"
begin

text \<open>
  \<open>packages/application/src/services/scheduler.service.ts\<close> over \<open>createSchedulerUnitOfWork\<close> of
  \<open>apps/control-plane/src/automation/application-adapters.ts\<close>: the next \<open>READY\<close> task in priority
  order is matched to a developer pool with the capabilities it needs and a free slot, leased and
  dispatched.  Tracing is left out.
\<close>

subsection \<open>Tasks and pools as the scheduler reads them\<close>

record SchedulableTask =
  st_taskId :: string
  st_repositoryId :: string
  st_priority :: TaskPriority
  st_status :: TaskStatus
  st_requiredCapabilities :: "string list"
  st_createdAt :: int

record SchedulablePool =
  sp_poolId :: string
  sp_poolType :: WorkerPoolType
  sp_capabilities :: "string list"
  sp_maxConcurrency :: int
  sp_activeLeaseCount :: int
  sp_defaultTimeoutSec :: int
  sp_enabled :: bool

definition PRIORITY_ORDER :: "TaskPriority list" where
  "PRIORITY_ORDER = [TaskPriority.CRITICAL, TaskPriority.HIGH, TaskPriority.MEDIUM, TaskPriority.LOW]"

definition DEFAULT_CANDIDATE_LIMIT :: int where
  "DEFAULT_CANDIDATE_LIMIT = 50"

definition DEFAULT_LEASE_TTL_SECONDS :: int where
  "DEFAULT_LEASE_TTL_SECONDS = 3600"

definition ASSIGNMENT_POOL_TYPE :: WorkerPoolType where
  "ASSIGNMENT_POOL_TYPE = WorkerPoolType.DEVELOPER"

definition ACTIVE_LEASE_STATUSES :: "WorkerLeaseStatus list" where
  "ACTIVE_LEASE_STATUSES = [WorkerLeaseStatus.LEASED, WorkerLeaseStatus.STARTING, WorkerLeaseStatus.RUNNING,
     WorkerLeaseStatus.HEARTBEATING, WorkerLeaseStatus.COMPLETING]"

fun PRIORITY_RANK :: "TaskPriority \<Rightarrow> int" where
  "PRIORITY_RANK TaskPriority.CRITICAL = 0"
| "PRIORITY_RANK TaskPriority.HIGH = 1"
| "PRIORITY_RANK TaskPriority.MEDIUM = 2"
| "PRIORITY_RANK TaskPriority.LOW = 3"

text \<open>\<open>slice(0, limit)\<close>: a negative end counts from the back.\<close>

definition js_slice :: "int \<Rightarrow> 'a list \<Rightarrow> 'a list" where
  "js_slice limit xs = take (if limit < 0 then length xs - nat (- limit) else nat limit) xs"

definition schedulableTask :: "Task \<Rightarrow> SchedulableTask" where
  "schedulableTask task = \<lparr>st_taskId = t_taskId task, st_repositoryId = t_repositoryId task,
     st_priority = t_priority task, st_status = t_status task,
     st_requiredCapabilities = toStringArray (t_requiredCapabilities task), st_createdAt = t_createdAt task\<rparr>"

text \<open>The comparator looks at the priority and then at the creation time; the sort is stable.\<close>

definition findReadyByPriority :: "int \<Rightarrow> db \<Rightarrow> SchedulableTask list" where
  "findReadyByPriority limit d =
    map schedulableTask (js_slice limit
      (sort_key (\<lambda>task. (PRIORITY_RANK (t_priority task), t_createdAt task))
        (task_findByStatus TaskStatus.READY d)))"

definition pool_findEnabled :: "db \<Rightarrow> WorkerPool list" where
  "pool_findEnabled d = filter (\<lambda>p. p_enabled p = 1) (workerPools d)"

fun activeLeaseCounts :: "TaskLease list \<Rightarrow> (string \<rightharpoonup> int) \<Rightarrow> (string \<rightharpoonup> int)" where
  "activeLeaseCounts [] counts = counts"
| "activeLeaseCounts (lease # rest) counts =
    activeLeaseCounts rest
      (if l_status lease \<notin> set ACTIVE_LEASE_STATUSES then counts
       else counts(l_poolId lease \<mapsto> (case counts (l_poolId lease) of None \<Rightarrow> 0 | Some n \<Rightarrow> n) + 1))"

definition schedulablePool :: "(string \<rightharpoonup> int) \<Rightarrow> WorkerPool \<Rightarrow> SchedulablePool" where
  "schedulablePool counts pool = \<lparr>sp_poolId = p_workerPoolId pool, sp_poolType = p_poolType pool,
     sp_capabilities = toStringArray (p_capabilities pool), sp_maxConcurrency = p_maxConcurrency pool,
     sp_activeLeaseCount = (case counts (p_workerPoolId pool) of None \<Rightarrow> 0 | Some n \<Rightarrow> n),
     sp_defaultTimeoutSec = (case p_defaultTimeoutSec pool of None \<Rightarrow> 0 | Some n \<Rightarrow> n),
     sp_enabled = (p_enabled pool = 1)\<rparr>"

definition findEnabledByType :: "WorkerPoolType \<Rightarrow> db \<Rightarrow> SchedulablePool list" where
  "findEnabledByType poolType d =
    map (schedulablePool (activeLeaseCounts (taskLeases d) Map.empty))
      (filter (\<lambda>pool. p_poolType pool = poolType) (pool_findEnabled d))"

subsection \<open>Matching\<close>

definition isPoolCompatible :: "SchedulableTask \<Rightarrow> SchedulablePool \<Rightarrow> bool" where
  "isPoolCompatible task pool =
    (if st_requiredCapabilities task = [] then True
     else list_all (\<lambda>cap. cap \<in> set (sp_capabilities pool)) (st_requiredCapabilities task))"

definition hasPoolCapacity :: "SchedulablePool \<Rightarrow> bool" where
  "hasPoolCapacity pool = (sp_activeLeaseCount pool < sp_maxConcurrency pool)"

text \<open>The loop of \<open>selectBestPool\<close> with its two variables.\<close>

fun selectBestPool_loop :: "SchedulablePool list \<Rightarrow> SchedulablePool option \<Rightarrow> int \<Rightarrow> SchedulablePool option" where
  "selectBestPool_loop [] best bestAvailable = best"
| "selectBestPool_loop (pool # rest) best bestAvailable =
    (if \<not> hasPoolCapacity pool then selectBestPool_loop rest best bestAvailable
     else let available = sp_maxConcurrency pool - sp_activeLeaseCount pool in
       if available > bestAvailable then selectBestPool_loop rest (Some pool) available
       else selectBestPool_loop rest best bestAvailable)"

definition selectBestPool :: "SchedulablePool list \<Rightarrow> SchedulablePool option" where
  "selectBestPool pools = selectBestPool_loop pools None (- 1)"

definition js_indexOf :: "'a list \<Rightarrow> 'a \<Rightarrow> int" where
  "js_indexOf xs x = (if x \<in> set xs then int (length (takeWhile (\<lambda>y. y \<noteq> x) xs)) else - 1)"

definition comparePriority :: "TaskPriority \<Rightarrow> TaskPriority \<Rightarrow> int" where
  "comparePriority a b = js_indexOf PRIORITY_ORDER a - js_indexOf PRIORITY_ORDER b"

subsection \<open>Assignment\<close>

datatype ScheduleSkipReason = no_ready_tasks | no_compatible_pools | all_pools_at_capacity | all_candidates_contended

record ScheduleAssignmentResult =
  sa_task :: SchedulableTask
  sa_pool :: SchedulablePool
  sa_leaseResult :: LeaseAcquisitionResult
  sa_dispatchJob :: Job

datatype ScheduleResult =
    ScheduleSuccessResult ScheduleAssignmentResult
  | ScheduleNoAssignmentResult ScheduleSkipReason int

text \<open>What the evaluation of one candidate draws: a worker id, the lease's, a job id and the clock.\<close>

record scheduleEnv =
  se_workerId :: string
  se_lease :: leaseEnv
  se_jobId :: string
  se_jobNow :: int

definition SCHEDULER_ACTOR :: ActorInfo where
  "SCHEDULER_ACTOR = \<lparr>actor_type = ''system'', actor_id = ''scheduler''\<rparr>"

definition schedulerLeaseParams :: "string \<Rightarrow> SchedulableTask \<Rightarrow> SchedulablePool \<Rightarrow> AcquireLeaseParams" where
  "schedulerLeaseParams workerId task selectedPool =
    \<lparr>al_taskId = st_taskId task, al_workerId = workerId, al_poolId = sp_poolId selectedPool,
     al_ttlSeconds = (if sp_defaultTimeoutSec selectedPool \<noteq> 0 then sp_defaultTimeoutSec selectedPool
                      else DEFAULT_LEASE_TTL_SECONDS),
     al_actor = SCHEDULER_ACTOR,
     al_metadata = Some (JObj [(''scheduledPriority'', JStr (TaskPriority_value (st_priority task))),
       (''poolType'', JStr (WorkerPoolType_value (sp_poolType selectedPool)))])\<rparr>"

definition dispatchJobData :: "string \<Rightarrow> SchedulableTask \<Rightarrow> SchedulablePool \<Rightarrow> TaskLease \<Rightarrow> CreateJobData" where
  "dispatchJobData workerId task selectedPool lease =
    \<lparr>cj_jobType = JobType.WORKER_DISPATCH, cj_entityType = Some ''task'', cj_entityId = Some (st_taskId task),
     cj_payloadJson = Some (JObj [(''taskId'', JStr (st_taskId task)), (''leaseId'', JStr (l_leaseId lease)),
       (''poolId'', JStr (sp_poolId selectedPool)), (''workerId'', JStr workerId),
       (''priority'', JStr (TaskPriority_value (st_priority task))),
       (''requiredCapabilities'', JArr (map JStr (st_requiredCapabilities task)))]),
     cj_runAfter = None, cj_parentJobId = None, cj_jobGroupId = None, cj_dependsOnJobIds = None\<rparr>"

text \<open>\<open>error instanceof ExclusivityViolationError || error instanceof TaskNotReadyForLeaseError\<close>.\<close>

fun isContention :: "app_error \<Rightarrow> bool" where
  "isContention (ExclusivityViolationError _ _) = True"
| "isContention (TaskNotReadyForLeaseError _ _) = True"
| "isContention _ = False"

text \<open>A call of the job queue, which emits no event, on the world.\<close>

definition onDatabase :: "'a tx \<Rightarrow> world \<Rightarrow> (app_error + 'a) \<times> world" where
  "onDatabase m w = (case m (database w) of (r, d) \<Rightarrow> (r, w\<lparr>database := d\<rparr>))"

text \<open>The loop over the candidates; \<open>envs n\<close> is what the \<open>n\<close>-th candidate of the call draws.\<close>

fun scheduleCandidates :: "(nat \<Rightarrow> scheduleEnv) \<Rightarrow> SchedulablePool list \<Rightarrow> SchedulableTask list \<Rightarrow> nat \<Rightarrow> bool
    \<Rightarrow> world \<Rightarrow> (app_error + ScheduleResult) \<times> world" where
  "scheduleCandidates envs developerPools [] candidatesEvaluated anyPoolHadCapacity w =
    (Inr (ScheduleNoAssignmentResult
       (if \<not> anyPoolHadCapacity then all_pools_at_capacity else all_candidates_contended)
       (int candidatesEvaluated)), w)"
| "scheduleCandidates envs developerPools (task # rest) candidatesEvaluated anyPoolHadCapacity w =
    (let compatiblePools = filter (isPoolCompatible task) developerPools in
     if compatiblePools = [] then
       scheduleCandidates envs developerPools rest (candidatesEvaluated + 1) anyPoolHadCapacity w
     else case selectBestPool compatiblePools of
       None \<Rightarrow> scheduleCandidates envs developerPools rest (candidatesEvaluated + 1) anyPoolHadCapacity w
     | Some selectedPool \<Rightarrow>
         let env = envs candidatesEvaluated in
         (case acquireLease (se_lease env) (schedulerLeaseParams (se_workerId env) task selectedPool) w of
            (Inl error, w1) \<Rightarrow>
              if isContention error then
                scheduleCandidates envs developerPools rest (candidatesEvaluated + 1) True w1
              else (Inl error, w1)
          | (Inr leaseResult, w1) \<Rightarrow>
              (case onDatabase (createJob (se_jobNow env) (se_jobId env)
                  (dispatchJobData (se_workerId env) task selectedPool (la_lease leaseResult))) w1 of
                 (Inl error, w2) \<Rightarrow> (Inl error, w2)
               | (Inr dispatchJob, w2) \<Rightarrow>
                   (Inr (ScheduleSuccessResult \<lparr>sa_task = task, sa_pool = selectedPool,
                      sa_leaseResult = leaseResult, sa_dispatchJob = dispatchJob\<rparr>), w2))))"

definition scheduleNext ::
  "(nat \<Rightarrow> scheduleEnv) \<Rightarrow> int \<Rightarrow> world \<Rightarrow> (app_error + ScheduleResult) \<times> world" where
  "scheduleNext envs candidateLimit w =
    (let candidates = findReadyByPriority candidateLimit (database w) in
     if candidates = [] then (Inr (ScheduleNoAssignmentResult no_ready_tasks 0), w)
     else let developerPools = findEnabledByType ASSIGNMENT_POOL_TYPE (database w) in
       if developerPools = [] then (Inr (ScheduleNoAssignmentResult no_compatible_pools 0), w)
       else scheduleCandidates envs developerPools candidates 0 False w)"

subsection \<open>Matching, without the loops\<close>

text \<open>How many leases count against a pool, and when a pool can take a task.\<close>

definition pool_load :: "string \<Rightarrow> db \<Rightarrow> nat" where
  "pool_load i d = length (filter (\<lambda>l. l_poolId l = i \<and> l_status l \<in> set ACTIVE_LEASE_STATUSES) (taskLeases d))"

definition free_slots :: "db \<Rightarrow> WorkerPool \<Rightarrow> int" where
  "free_slots d p = p_maxConcurrency p - int (pool_load (p_workerPoolId p) d)"

definition suits :: "db \<Rightarrow> Task \<Rightarrow> WorkerPool \<Rightarrow> bool" where
  "suits d t p \<longleftrightarrow> p \<in> set (workerPools d) \<and> p_enabled p = 1 \<and> p_poolType p = WorkerPoolType.DEVELOPER
     \<and> set (toStringArray (t_requiredCapabilities t)) \<subseteq> set (toStringArray (p_capabilities p))
     \<and> 0 < free_slots d p"

lemma activeLeaseCounts_load:
  "(case activeLeaseCounts ls counts i of None \<Rightarrow> 0 | Some n \<Rightarrow> n)
    = (case counts i of None \<Rightarrow> 0 | Some n \<Rightarrow> n)
      + int (length (filter (\<lambda>l. l_poolId l = i \<and> l_status l \<in> set ACTIVE_LEASE_STATUSES) ls))"
  by (induction ls arbitrary: counts) (auto split: option.splits)

lemma schedulablePool_slots:
  "sp_maxConcurrency (schedulablePool (activeLeaseCounts (taskLeases d) Map.empty) p)
    - sp_activeLeaseCount (schedulablePool (activeLeaseCounts (taskLeases d) Map.empty) p) = free_slots d p"
  by (simp add: schedulablePool_def activeLeaseCounts_load free_slots_def pool_load_def)

lemma selectBestPool_loop_spec:
  assumes "selectBestPool_loop ps best n = r"
    and "\<And>b. best = Some b \<Longrightarrow> hasPoolCapacity b \<and> sp_maxConcurrency b - sp_activeLeaseCount b = n"
    and "best = None \<Longrightarrow> n = - 1"
  shows "case r of None \<Rightarrow> best = None \<and> (\<forall>p \<in> set ps. \<not> hasPoolCapacity p)
    | Some b \<Rightarrow> (b \<in> set ps \<or> best = Some b) \<and> hasPoolCapacity b \<and> n \<le> sp_maxConcurrency b - sp_activeLeaseCount b
        \<and> (\<forall>p \<in> set ps. sp_maxConcurrency p - sp_activeLeaseCount p \<le> sp_maxConcurrency b - sp_activeLeaseCount b)"
  using assms
proof (induction ps arbitrary: best n)
  case Nil
  then show ?case by (cases best) auto
next
  case (Cons p ps)
  let ?a = "sp_maxConcurrency p - sp_activeLeaseCount p"
  show ?case
  proof (cases "hasPoolCapacity p \<and> n < ?a")
    case True
    then have "selectBestPool_loop ps (Some p) ?a = r" using Cons.prems(1) by (simp add: Let_def)
    from Cons.IH[OF this] True show ?thesis by (auto split: option.splits)
  next
    case False
    then have "selectBestPool_loop ps best n = r" using Cons.prems(1) by (auto simp: Let_def split: if_splits)
    from Cons.IH[OF this Cons.prems(2,3)] False Cons.prems(2,3) show ?thesis
      by (cases best) (auto simp: hasPoolCapacity_def split: option.splits)
  qed
qed

lemma selectBestPool_spec:
  "case selectBestPool ps of None \<Rightarrow> \<forall>p \<in> set ps. \<not> hasPoolCapacity p
    | Some b \<Rightarrow> b \<in> set ps \<and> hasPoolCapacity b
        \<and> (\<forall>p \<in> set ps. sp_maxConcurrency p - sp_activeLeaseCount p \<le> sp_maxConcurrency b - sp_activeLeaseCount b)"
  using selectBestPool_loop_spec[of ps None "- 1" "selectBestPool ps"]
  by (auto simp: selectBestPool_def split: option.splits)

lemma isPoolCompatible_iff:
  "isPoolCompatible t p \<longleftrightarrow> set (st_requiredCapabilities t) \<subseteq> set (sp_capabilities p)"
  by (auto simp: isPoolCompatible_def list_all_iff)

lemma selected_pool:
  fixes d :: db and t :: Task
  defines "sel \<equiv> selectBestPool (filter (isPoolCompatible (schedulableTask t)) (findEnabledByType ASSIGNMENT_POOL_TYPE d))"
  shows "case sel of None \<Rightarrow> \<nexists>p. suits d t p
    | Some b \<Rightarrow> \<exists>p. suits d t p \<and> b = schedulablePool (activeLeaseCounts (taskLeases d) Map.empty) p
        \<and> (\<forall>q. suits d t q \<longrightarrow> free_slots d q \<le> free_slots d p)"
proof -
  let ?s = "schedulablePool (activeLeaseCounts (taskLeases d) Map.empty)"
  let ?ps = "filter (isPoolCompatible (schedulableTask t)) (findEnabledByType ASSIGNMENT_POOL_TYPE d)"
  have one: "suits d t p \<longleftrightarrow> p \<in> set (pool_findEnabled d) \<and> p_poolType p = ASSIGNMENT_POOL_TYPE
      \<and> isPoolCompatible (schedulableTask t) (?s p) \<and> hasPoolCapacity (?s p)" for p
    unfolding hasPoolCapacity_def less_iff_diff_less_0[of "sp_activeLeaseCount (?s p)"] suits_def
    using schedulablePool_slots[of d p]
    by (auto simp: pool_findEnabled_def ASSIGNMENT_POOL_TYPE_def isPoolCompatible_iff schedulableTask_def
        schedulablePool_def)
  have mem: "b \<in> set ?ps \<and> hasPoolCapacity b \<longleftrightarrow> (\<exists>p. suits d t p \<and> b = ?s p)" for b
    by (auto simp: one findEnabledByType_def)
  show ?thesis
    using selectBestPool_spec[of ?ps] mem schedulablePool_slots[of d] unfolding sel_def
    by (auto split: option.splits) (metis+)?
qed

subsection \<open>One call of the scheduler\<close>

lemma acquire_ready_error:
  assumes "task_findById (al_taskId p) (database w) = Some t" and "t_status t = TaskStatus.READY"
    and "acquireLease env p w = (Inl e, w')"
  shows "isContention e \<longleftrightarrow> active_leases (al_taskId p) (database w) \<noteq> []"
proof -
  obtain d' where run: "acquireLease_tx env p (database w) = (Inl e, d')"
    using assms(3) by (auto simp: acquireLease_def commit_def writeTransaction_def split: prod.splits sum.splits)
  have st: "t_status t \<in> set LEASE_ELIGIBLE_STATUSES" using assms(2) by (simp add: LEASE_ELIGIBLE_STATUSES_def)
  show ?thesis
  proof (cases "lease_findActiveByTaskId (al_taskId p) (database w)")
    case None
    then show ?thesis
      using run assms(1,2) st acquire_context_valid[OF st] findActive_None[of "al_taskId p" "database w"]
      by (auto simp: acquireLease_tx_def Let_def bindT_apply lease_create_def updateStatusAndLeaseId_def
          task_update_def auditEvent_create_def split: if_splits option.splits)
  next
    case (Some l)
    then show ?thesis
      using run assms(1) st findActive_None[of "al_taskId p" "database w"] by (auto simp: acquireLease_tx_def Let_def)
  qed
qed

lemma scheduleCandidates_Cons:
  "scheduleCandidates envs pools (task # rest) n b w =
    (case selectBestPool (filter (isPoolCompatible task) pools) of
       None \<Rightarrow> scheduleCandidates envs pools rest (n + 1) b w
     | Some pool \<Rightarrow>
         (case acquireLease (se_lease (envs n)) (schedulerLeaseParams (se_workerId (envs n)) task pool) w of
            (Inl e, w1) \<Rightarrow> if isContention e then scheduleCandidates envs pools rest (n + 1) True w1 else (Inl e, w1)
          | (Inr r, w1) \<Rightarrow>
              (case onDatabase (createJob (se_jobNow (envs n)) (se_jobId (envs n))
                  (dispatchJobData (se_workerId (envs n)) task pool (la_lease r))) w1 of
                 (Inl e, w2) \<Rightarrow> (Inl e, w2)
               | (Inr j, w2) \<Rightarrow> (Inr (ScheduleSuccessResult \<lparr>sa_task = task, sa_pool = pool,
                      sa_leaseResult = r, sa_dispatchJob = j\<rparr>), w2))))"
  by (cases "filter (isPoolCompatible task) pools = []")
     (simp_all add: Let_def selectBestPool_def split: option.split)

declare scheduleCandidates.simps(2) [simp del]

definition pool_view :: "db \<Rightarrow> WorkerPool \<Rightarrow> SchedulablePool" where
  "pool_view d = schedulablePool (activeLeaseCounts (taskLeases d) Map.empty)"

definition assignable :: "db \<Rightarrow> Task \<Rightarrow> bool" where
  "assignable d t \<longleftrightarrow> t \<in> set (tasks d) \<and> t_status t = TaskStatus.READY \<and> active_leases (t_taskId t) d = []
     \<and> (\<exists>p. suits d t p)"

definition fresh_env :: "scheduleEnv \<Rightarrow> db \<Rightarrow> bool" where
  "fresh_env env d \<longleftrightarrow> le_leaseId (se_lease env) \<notin> set (map l_leaseId (taskLeases d))
     \<and> le_uuid (se_lease env) \<notin> set (map ae_id (auditEvents d)) \<and> se_jobId env \<notin> set (map j_jobId (jobs d))"

text \<open>The lease step of an assignment: \<open>t\<close> is leased to the pool with the most free slots.\<close>

definition leased_to :: "scheduleEnv \<Rightarrow> world \<Rightarrow> Task \<Rightarrow> WorkerPool \<Rightarrow> LeaseAcquisitionResult \<Rightarrow> world \<Rightarrow> bool" where
  "leased_to env w t p r w' \<longleftrightarrow> assignable (database w) t \<and> suits (database w) t p
     \<and> (\<forall>q. suits (database w) t q \<longrightarrow> free_slots (database w) q \<le> free_slots (database w) p)
     \<and> acquireLease (se_lease env)
         (schedulerLeaseParams (se_workerId env) (schedulableTask t) (pool_view (database w) p)) w = (Inr r, w')"

lemma task_row_found:
  assumes "wf_db d" and "t \<in> set (tasks d)"
  shows "task_findById (t_taskId t) d = Some t"
  using assms find_key_Some[of t_taskId "tasks d" t] by (simp add: wf_db_def task_findById_def)

lemma params_sel [simp]:
  "al_taskId (schedulerLeaseParams wid (schedulableTask t) (pool_view d p)) = t_taskId t"
  "al_poolId (schedulerLeaseParams wid (schedulableTask t) (pool_view d p)) = p_workerPoolId p"
  "al_actor (schedulerLeaseParams wid (schedulableTask t) (pool_view d p)) = SCHEDULER_ACTOR"
  "al_workerId (schedulerLeaseParams wid (schedulableTask t) (pool_view d p)) = wid"
  by (simp_all add: schedulerLeaseParams_def schedulableTask_def pool_view_def schedulablePool_def)

lemma acquireLease_tx_frame:
  "preserves (\<lambda>d. workerPools d = ps \<and> jobs d = js) (acquireLease_tx env p)"
proof -
  have "preserves (\<lambda>d. workerPools d = ps \<and> jobs d = js) (lease_create l)"
    "preserves (\<lambda>d. workerPools d = ps \<and> jobs d = js) (updateStatusAndLeaseId now i v s k)"
    "preserves (\<lambda>d. workerPools d = ps \<and> jobs d = js) (auditEvent_create u now ev)" for l now i v s k u ev
    by (auto simp: preserves_def lease_create_def updateStatusAndLeaseId_def task_update_def
        auditEvent_create_def Let_def split: option.split)
  then show ?thesis unfolding acquireLease_tx_def by (intro preserves_intro)
qed

lemma acquireLease_frame:
  "workerPools (database (snd (acquireLease env p w))) = workerPools (database w)
    \<and> jobs (database (snd (acquireLease env p w))) = jobs (database w)"
  using commit_preserves[OF acquireLease_tx_frame[of "workerPools (database w)" "jobs (database w)" env p], of w]
  by (simp add: acquireLease_def)

lemma leased_facts:
  assumes "wf_db (database w)" and "leased_to env w t p r w'"
  shows "la_lease r = new_lease (se_lease env)
        (schedulerLeaseParams (se_workerId env) (schedulableTask t) (pool_view (database w) p))"
    "taskLeases (database w') = taskLeases (database w) @ [la_lease r]"
    "active_leases (t_taskId t) (database w') = [la_lease r]"
    "task_findById (t_taskId t) (database w') = Some (assigned_task (se_lease env) t)"
    "\<forall>j. j \<noteq> t_taskId t \<longrightarrow> task_findById j (database w') = task_findById j (database w)"
    "workerPools (database w') = workerPools (database w)" "jobs (database w') = jobs (database w)"
    "wf_db (database w')" "la_task r = assigned_task (se_lease env) t"
proof -
  let ?p = "schedulerLeaseParams (se_workerId env) (schedulableTask t) (pool_view (database w) p)"
  have run: "acquireLease (se_lease env) ?p w = (Inr r, w')" and t: "t \<in> set (tasks (database w))"
    using assms(2) by (auto simp: leased_to_def assignable_def)
  from acquire_lease_spec[OF assms(1), of ?p "se_lease env"] run task_row_found[OF assms(1) t]
  show "la_lease r = new_lease (se_lease env) ?p"
    "taskLeases (database w') = taskLeases (database w) @ [la_lease r]"
    "active_leases (t_taskId t) (database w') = [la_lease r]"
    "task_findById (t_taskId t) (database w') = Some (assigned_task (se_lease env) t)"
    "\<forall>j. j \<noteq> t_taskId t \<longrightarrow> task_findById j (database w') = task_findById j (database w)"
    "wf_db (database w')" "la_task r = assigned_task (se_lease env) t"
    by (auto simp: leasable_def)
  show "workerPools (database w') = workerPools (database w)" "jobs (database w') = jobs (database w)"
    using acquireLease_frame[of "se_lease env" ?p w] run by simp_all
qed

lemma createJob_cases:
  obtains "i \<in> set (map j_jobId (jobs (database w)))"
      "onDatabase (createJob now i data) w = (Inl (ConstraintError ''job''), w)"
  | j where "i \<notin> set (map j_jobId (jobs (database w)))"
      "onDatabase (createJob now i data) w
        = (Inr j, w\<lparr>database := (database w)\<lparr>jobs := jobs (database w) @ [j]\<rparr>\<rparr>)"
      "j_jobId j = i" "j_jobType j = cj_jobType data" "j_status j = JobStatus.PENDING" "j_attemptCount j = 0"
      "j_entityId j = cj_entityId data" "j_payloadJson j = cj_payloadJson data"
      "j_runAfter j = map_option (\<lambda>t. t div 1000) (cj_runAfter data)"
  by (cases "i \<in> set (map j_jobId (jobs (database w)))")
     (auto simp: onDatabase_def createJob_def job_create_def writeTransaction_def)

text \<open>The dispatch step: one job is added, for the leased task.\<close>

definition dispatched :: "scheduleEnv \<Rightarrow> world \<Rightarrow> Task \<Rightarrow> WorkerPool \<Rightarrow> ScheduleAssignmentResult \<Rightarrow> world \<Rightarrow> bool" where
  "dispatched env w t p a w' \<longleftrightarrow> (\<exists>w1. leased_to env w t p (sa_leaseResult a) w1
     \<and> sa_task a = schedulableTask t \<and> sa_pool a = pool_view (database w) p
     \<and> w' = w1\<lparr>database := (database w1)\<lparr>jobs := jobs (database w1) @ [sa_dispatchJob a]\<rparr>\<rparr>
     \<and> j_jobId (sa_dispatchJob a) \<notin> set (map j_jobId (jobs (database w1)))
     \<and> j_jobType (sa_dispatchJob a) = JobType.WORKER_DISPATCH \<and> j_status (sa_dispatchJob a) = JobStatus.PENDING
     \<and> j_entityId (sa_dispatchJob a) = Some (t_taskId t)
     \<and> j_payloadJson (sa_dispatchJob a) = cj_payloadJson (dispatchJobData (se_workerId env) (sa_task a) (sa_pool a)
          (la_lease (sa_leaseResult a))))"

lemma lease_step:
  assumes "wf_db (database w)" and "t \<in> set (tasks (database w))" and "t_status t = TaskStatus.READY"
    and "suits (database w) t p" and "\<forall>q. suits (database w) t q \<longrightarrow> free_slots (database w) q \<le> free_slots (database w) p"
  obtains (contended) e where "acquireLease (se_lease env)
        (schedulerLeaseParams (se_workerId env) (schedulableTask t) (pool_view (database w) p)) w = (Inl e, w)"
      "isContention e" "\<not> assignable (database w) t"
  | (failed) e where "acquireLease (se_lease env)
        (schedulerLeaseParams (se_workerId env) (schedulableTask t) (pool_view (database w) p)) w = (Inl e, w)"
      "\<not> isContention e" "\<not> fresh_env env (database w)" "assignable (database w) t"
  | (leased) r w1 where "acquireLease (se_lease env)
        (schedulerLeaseParams (se_workerId env) (schedulableTask t) (pool_view (database w) p)) w = (Inr r, w1)"
      "leased_to env w t p r w1"
proof (cases "acquireLease (se_lease env)
    (schedulerLeaseParams (se_workerId env) (schedulableTask t) (pool_view (database w) p)) w")
  case (Pair r w1)
  let ?p = "schedulerLeaseParams (se_workerId env) (schedulableTask t) (pool_view (database w) p)"
  note look = task_row_found[OF assms(1,2)] and spec = acquire_lease_spec[OF assms(1), of ?p "se_lease env"]
  have pool: "p_workerPoolId p \<in> set (map p_workerPoolId (workerPools (database w)))"
    using assms(4) by (simp add: suits_def)
  show ?thesis
  proof (cases r)
    case (Inl e)
    have w1: "w1 = w" using spec Pair Inl by simp
    note cont = acquire_ready_error[of ?p w t "se_lease env" e w1]
    show ?thesis
    proof (cases "active_leases (t_taskId t) (database w) = []")
      case True
      then have "leasable ?p t (database w)" using look assms(3) by (simp add: leasable_def)
      then have "\<not> fresh_env env (database w)" using spec Pair Inl pool by (auto simp: fresh_env_def)
      moreover have "assignable (database w) t" using True assms(2-4) by (auto simp: assignable_def)
      ultimately show ?thesis using failed[of e] cont look assms(3) Pair Inl w1 True by simp
    next
      case False
      then show ?thesis using contended[of e] cont look assms(3) Pair Inl w1 by (simp add: assignable_def)
    qed
  next
    case (Inr x)
    then have "active_leases (t_taskId t) (database w) = []" using spec Pair by (auto simp: leasable_def)
    then show ?thesis using leased[of x w1] Inr Pair assms by (auto simp: leased_to_def assignable_def)
  qed
qed

lemma scheduleCandidates_cases:
  fixes w :: world
  defines "pools \<equiv> findEnabledByType ASSIGNMENT_POOL_TYPE (database w)"
  assumes wf: "wf_db (database w)"
    and "\<forall>t \<in> set ts. t \<in> set (tasks (database w)) \<and> t_status t = TaskStatus.READY"
  obtains (none) reason m where
      "scheduleCandidates envs pools (map schedulableTask ts) n b w = (Inr (ScheduleNoAssignmentResult reason m), w)"
      "\<forall>t \<in> set ts. \<not> assignable (database w) t"
  | (error) e w' k where "scheduleCandidates envs pools (map schedulableTask ts) n b w = (Inl e, w')"
      "\<not> fresh_env (envs k) (database w)" "w' = w \<or> (\<exists>t p r. leased_to (envs k) w t p r w')"
      "\<exists>t \<in> set ts. assignable (database w) t"
  | (ok) pre t post p k a w' where
      "scheduleCandidates envs pools (map schedulableTask ts) n b w = (Inr (ScheduleSuccessResult a), w')"
      "ts = pre @ t # post" "\<forall>u \<in> set pre. \<not> assignable (database w) u" "dispatched (envs k) w t p a w'"
  using assms(3)
proof (induction ts arbitrary: n b thesis)
  case Nil
  then show ?case by simp
next
  case (Cons t ts)
  let ?d = "database w" and ?sel = "selectBestPool (filter (isPoolCompatible (schedulableTask t)) pools)"
  have later: thesis if
    step: "scheduleCandidates envs pools (map schedulableTask (t # ts)) n b w
      = scheduleCandidates envs pools (map schedulableTask ts) (n + 1) b' w" "\<not> assignable ?d t" for b'
  proof (rule Cons.IH[of "n + 1" b'], goal_cases)
    case (1 reason m)
    then show ?thesis using Cons.prems(1)[of reason m] step by simp
  next
    case (2 e w' k)
    then show ?thesis using Cons.prems(2)[of e w' k] step by simp
  next
    case (3 a w' pre u post k p)
    then show ?thesis using Cons.prems(3)[of a w' "t # pre" u post k p] step by simp
  next
    case 4
    then show ?case using Cons.prems(4) by simp
  qed
  note sel = selected_pool[of ?d t, folded pools_def pool_view_def]
  show ?case
  proof (cases ?sel)
    case None
    then show ?thesis using later[of b] sel by (simp add: scheduleCandidates_Cons assignable_def)
  next
    case (Some bp)
    then obtain p where p: "suits ?d t p" "bp = pool_view ?d p" "\<forall>q. suits ?d t q \<longrightarrow> free_slots ?d q \<le> free_slots ?d p"
      using sel by auto
    have t: "t \<in> set (tasks ?d)" "t_status t = TaskStatus.READY" using Cons.prems(4) by auto
    show ?thesis
    proof (rule lease_step[OF wf t p(1,3), of "envs n"], goal_cases)
      case (1 e)
      then show ?case using later[of True] Some p by (simp add: scheduleCandidates_Cons)
    next
      case (2 e)
      then show ?case using Cons.prems(2)[of e w n] Some p by (simp add: scheduleCandidates_Cons)
    next
      case (3 r w1)
      note facts = leased_facts[OF wf 3(2)]
      show ?case
      proof (rule createJob_cases[of "se_jobId (envs n)" w1 "se_jobNow (envs n)"
            "dispatchJobData (se_workerId (envs n)) (schedulableTask t) bp (la_lease r)"], goal_cases)
        case 1
        then show ?case
          using Cons.prems(2)[of "ConstraintError ''job''" w1 n] Some p 3 facts(7)
          by (auto simp: scheduleCandidates_Cons fresh_env_def leased_to_def)
      next
        case (2 j)
        let ?a = "\<lparr>sa_task = schedulableTask t, sa_pool = bp, sa_leaseResult = r, sa_dispatchJob = j\<rparr>"
        let ?w = "w1\<lparr>database := (database w1)\<lparr>jobs := jobs (database w1) @ [j]\<rparr>\<rparr>"
        have "dispatched (envs n) w t p ?a ?w"
          using 2 3(2) p(2) unfolding dispatched_def
          by (intro exI[of _ w1]) (auto simp: dispatchJobData_def schedulableTask_def)
        then show ?case
          using Cons.prems(3)[of ?a ?w "[]" t ts n p] Some p(2) 3 2(2) by (simp add: scheduleCandidates_Cons)
      qed
    qed
  qed
qed

definition sched_key :: "Task \<Rightarrow> int \<times> int" where
  "sched_key t = (PRIORITY_RANK (t_priority t), t_createdAt t)"

definition candidate_rows :: "int \<Rightarrow> db \<Rightarrow> Task list" where
  "candidate_rows limit d = js_slice limit (sort_key sched_key (task_findByStatus TaskStatus.READY d))"

lemma candidate_rows_ready:
  "t \<in> set (candidate_rows limit d) \<Longrightarrow> t \<in> set (tasks d) \<and> t_status t = TaskStatus.READY"
  by (auto simp: candidate_rows_def js_slice_def task_findByStatus_def dest: in_set_takeD)

lemma findReady_rows: "findReadyByPriority limit d = map schedulableTask (candidate_rows limit d)"
  by (simp add: findReadyByPriority_def candidate_rows_def sched_key_def[abs_def])

lemma candidate_rows_all:
  assumes "int (length (task_findByStatus TaskStatus.READY d)) \<le> limit"
  shows "t \<in> set (candidate_rows limit d) \<longleftrightarrow> t \<in> set (tasks d) \<and> t_status t = TaskStatus.READY"
  using assms by (auto simp: candidate_rows_def js_slice_def task_findByStatus_def)

lemma sorted_prefix:
  assumes "sort_key f xs = pre @ t # post" and "u \<in> set xs" and "f u < f t"
  shows "u \<in> set pre"
proof (rule ccontr)
  assume "u \<notin> set pre"
  moreover have "u \<in> set (pre @ t # post)" using assms(1,2) by (metis set_sort)
  ultimately have "u \<in> set (t # post)" by auto
  moreover have "sorted (map f (pre @ t # post))" using assms(1) by (metis sorted_sort_key)
  ultimately show False using assms(3) by (auto simp: sorted_append)
qed

lemma earlier_candidates:
  assumes "candidate_rows limit d = pre @ t # post" and "u \<in> set (tasks d)" and "t_status u = TaskStatus.READY"
    and "sched_key u < sched_key t"
  shows "u \<in> set pre"
proof -
  let ?xs = "sort_key sched_key (task_findByStatus TaskStatus.READY d)"
  obtain n where "take n ?xs = pre @ t # post" using assms(1) by (auto simp: candidate_rows_def js_slice_def)
  then have "?xs = pre @ t # (post @ drop n ?xs)" by (metis append.assoc append_Cons append_take_drop_id)
  from sorted_prefix[OF this, of u] assms show ?thesis by (simp add: task_findByStatus_def)
qed

lemma scheduleNext_cases:
  assumes "wf_db (database w)"
  obtains (none) reason m where "scheduleNext envs limit w = (Inr (ScheduleNoAssignmentResult reason m), w)"
      "\<forall>t \<in> set (candidate_rows limit (database w)). \<not> assignable (database w) t"
  | (error) e w' k where "scheduleNext envs limit w = (Inl e, w')" "\<not> fresh_env (envs k) (database w)"
      "w' = w \<or> (\<exists>t p r. leased_to (envs k) w t p r w')"
      "\<exists>t \<in> set (candidate_rows limit (database w)). assignable (database w) t"
  | (ok) t p k a w' where "scheduleNext envs limit w = (Inr (ScheduleSuccessResult a), w')"
      "dispatched (envs k) w t p a w'"
      "\<forall>u. sched_key u < sched_key t \<longrightarrow> \<not> assignable (database w) u"
      "t \<in> set (candidate_rows limit (database w))"
proof -
  let ?d = "database w" and ?ts = "candidate_rows limit (database w)"
  let ?ps = "findEnabledByType ASSIGNMENT_POOL_TYPE ?d"
  have ready: "\<forall>t \<in> set ?ts. t \<in> set (tasks ?d) \<and> t_status t = TaskStatus.READY" using candidate_rows_ready by blast
  show ?thesis
  proof (cases "?ts = [] \<or> ?ps = []")
    case True
    have "\<nexists>p. suits ?d t p" if "?ps = []" for t using selected_pool[of ?d t] that by (simp add: selectBestPool_def)
    then have "\<forall>t \<in> set ?ts. \<not> assignable ?d t" using True by (auto simp: assignable_def)
    moreover have "scheduleNext envs limit w = (Inr (ScheduleNoAssignmentResult
        (if ?ts = [] then no_ready_tasks else no_compatible_pools) 0), w)"
      using True by (auto simp: scheduleNext_def Let_def findReady_rows)
    ultimately show ?thesis using none by blast
  next
    case False
    then have run: "scheduleNext envs limit w = scheduleCandidates envs ?ps (map schedulableTask ?ts) 0 False w"
      by (simp add: scheduleNext_def Let_def findReady_rows)
    show ?thesis
    proof (rule scheduleCandidates_cases[OF assms ready, of envs 0 False], goal_cases)
      case (1 reason m)
      then show ?case using none run by simp
    next
      case (2 e w' k)
      then show ?case using error[of e w' k] run by simp
    next
      case (3 pre t post p k a w')
      have "\<not> assignable ?d u" if "sched_key u < sched_key t" for u
        using earlier_candidates[OF 3(2), of u] 3(3) that by (auto simp: assignable_def)
      then show ?case using ok[of a w' k t p] run 3(1,2,4) by simp
    qed
  qed
qed

text \<open>
  (C8) What the scheduler does.  It looks at the first \<open>limit\<close> of the \<open>READY\<close> tasks in the order of
  priority and age.  A task can be assigned if it is \<open>READY\<close> without an active lease and an enabled
  developer pool has the capabilities it needs and a free slot.  A call answers that it assigns nothing,
  and changes nothing, exactly when none of those candidates can be assigned; if the limit covers the
  \<open>READY\<close> tasks this is so only when no task at all can be.  When a candidate can be assigned, the call
  assigns such a candidate, with no assignable task before it in the order of priority and age, to the
  suitable pool with the most free slots: the task becomes \<open>ASSIGNED\<close> under a new lease on that pool
  and exactly one pending dispatch job for it is added.  It fails instead only when a generated key is
  taken.
\<close>

theorem schedule_next_behaviour:
  assumes "wf_db (database w)"
  shows "case scheduleNext envs limit w of
      (Inl e, w') \<Rightarrow> (\<exists>t \<in> set (candidate_rows limit (database w)). assignable (database w) t)
        \<and> (\<exists>k. \<not> fresh_env (envs k) (database w))
    | (Inr (ScheduleNoAssignmentResult _ _), w') \<Rightarrow> w' = w
        \<and> (\<forall>t \<in> set (candidate_rows limit (database w)). \<not> assignable (database w) t)
        \<and> (int (length (task_findByStatus TaskStatus.READY (database w))) \<le> limit \<longrightarrow> (\<nexists>t. assignable (database w) t))
    | (Inr (ScheduleSuccessResult a), w') \<Rightarrow> \<exists>t p k.
        t \<in> set (candidate_rows limit (database w)) \<and> assignable (database w) t
        \<and> (\<forall>u. sched_key u < sched_key t \<longrightarrow> \<not> assignable (database w) u)
        \<and> suits (database w) t p \<and> (\<forall>q. suits (database w) t q \<longrightarrow> free_slots (database w) q \<le> free_slots (database w) p)
        \<and> task_findById (t_taskId t) (database w') = Some (assigned_task (se_lease (envs k)) t)
        \<and> (\<forall>i. i \<noteq> t_taskId t \<longrightarrow> task_findById i (database w') = task_findById i (database w))
        \<and> active_leases (t_taskId t) (database w') = [la_lease (sa_leaseResult a)]
        \<and> l_poolId (la_lease (sa_leaseResult a)) = p_workerPoolId p
        \<and> jobs (database w') = jobs (database w) @ [sa_dispatchJob a]
        \<and> j_jobType (sa_dispatchJob a) = JobType.WORKER_DISPATCH \<and> j_status (sa_dispatchJob a) = JobStatus.PENDING
        \<and> j_entityId (sa_dispatchJob a) = Some (t_taskId t)"
proof (rule scheduleNext_cases[OF assms, of envs limit], goal_cases)
  case (1 reason m)
  then show ?case using candidate_rows_all[of "database w" limit] by (auto simp: assignable_def)
next
  case (2 e w' k)
  then show ?case by auto
next
  case (3 t p k a w')
  from 3(2) obtain w1 where l: "leased_to (envs k) w t p (sa_leaseResult a) w1"
    and w': "w' = w1\<lparr>database := (database w1)\<lparr>jobs := jobs (database w1) @ [sa_dispatchJob a]\<rparr>\<rparr>"
    and j: "j_jobType (sa_dispatchJob a) = JobType.WORKER_DISPATCH" "j_status (sa_dispatchJob a) = JobStatus.PENDING"
      "j_entityId (sa_dispatchJob a) = Some (t_taskId t)" by (auto simp: dispatched_def)
  note f = leased_facts[OF assms l]
  have "assignable (database w) t" "suits (database w) t p"
    "\<forall>q. suits (database w) t q \<longrightarrow> free_slots (database w) q \<le> free_slots (database w) p"
    using l by (auto simp: leased_to_def)
  moreover have "task_findById i (database w') = task_findById i (database w1)"
    "active_leases i (database w') = active_leases i (database w1)" for i
    by (simp_all add: w' task_findById_def active_leases_def)
  moreover have "l_poolId (la_lease (sa_leaseResult a)) = p_workerPoolId p" by (simp add: f(1) new_lease_def)
  ultimately show ?case using 3(1,3,4) j f(3,4,5,7) by (auto simp: w' intro!: exI[of _ t] exI[of _ p] exI[of _ k])
qed

definition sched_db :: db where
  "sched_db = lease_db\<lparr>tasks := [example_task, example_task\<lparr>t_taskId := ''T0'', t_priority := TaskPriority.CRITICAL,
      t_status := TaskStatus.READY\<rparr>]\<rparr>"

definition sched_world :: world where
  "sched_world = \<lparr>database = sched_db, emitted = []\<rparr>"

definition sched_env :: scheduleEnv where
  "sched_env = \<lparr>se_workerId = ''W'', se_lease = lease_env, se_jobId = ''J'', se_jobNow = 6000\<rparr>"

lemma sched_world_wf: "wf_db (database sched_world)"
  by (simp add: sched_world_def sched_db_def lease_db_def example_db_def example_task_def wf_db_def)

theorem schedule_next_behaviour_witness:
  "\<exists>a w'. scheduleNext (\<lambda>_. sched_env) 50 sched_world = (Inr (ScheduleSuccessResult a), w')
     \<and> st_taskId (sa_task a) = ''T0'' \<and> jobs (database w') = [sa_dispatchJob a]"
proof -
  have "case scheduleNext (\<lambda>_. sched_env) 50 sched_world of
      (Inr (ScheduleSuccessResult a), _) \<Rightarrow> st_taskId (sa_task a) = ''T0'' | _ \<Rightarrow> False" by code_simp
  then obtain a w' where "scheduleNext (\<lambda>_. sched_env) 50 sched_world = (Inr (ScheduleSuccessResult a), w')"
    "st_taskId (sa_task a) = ''T0''" by (auto split: sum.splits prod.splits ScheduleResult.splits)
  then show ?thesis
    using schedule_next_behaviour[OF sched_world_wf, where envs = "\<lambda>_. sched_env" and limit = 50]
    by (auto simp: sched_world_def sched_db_def lease_db_def example_db_def)
qed

subsection \<open>What every call keeps\<close>

text \<open>No pool has more active leases than it may run.\<close>

definition within_capacity :: "db \<Rightarrow> bool" where
  "within_capacity d \<longleftrightarrow> (\<forall>p \<in> set (workerPools d). int (pool_load (p_workerPoolId p) d) \<le> p_maxConcurrency p)"

definition ready_ids :: "db \<Rightarrow> string set" where
  "ready_ids d = t_taskId ` {t \<in> set (tasks d). t_status t = TaskStatus.READY}"

lemma ready_ids_iff:
  assumes "wf_db d"
  shows "i \<in> ready_ids d \<longleftrightarrow> (\<exists>t. task_findById i d = Some t \<and> t_status t = TaskStatus.READY)"
  using task_row_found[OF assms] by (auto simp: ready_ids_def task_findById_def image_iff dest!: find_Some_iff_mem)

lemma leased_keeps:
  assumes wf: "wf_db (database w)" and l: "leased_to env w t p r w'"
  shows "ready_ids (database w') = ready_ids (database w) - {t_taskId t}" "t_taskId t \<in> ready_ids (database w)"
    "exclusive (database w) \<Longrightarrow> exclusive (database w')"
    "within_capacity (database w) \<Longrightarrow> within_capacity (database w')"
proof -
  note f = leased_facts[OF wf l]
  have t: "t \<in> set (tasks (database w))" "t_status t = TaskStatus.READY" and p: "suits (database w) t p"
    using l by (auto simp: leased_to_def assignable_def)
  show "t_taskId t \<in> ready_ids (database w)" using t by (auto simp: ready_ids_def)
  show "ready_ids (database w') = ready_ids (database w) - {t_taskId t}"
  proof (rule set_eqI)
    fix i
    show "i \<in> ready_ids (database w') \<longleftrightarrow> i \<in> ready_ids (database w) - {t_taskId t}"
      using f(4,5) by (cases "i = t_taskId t") (auto simp: ready_ids_iff[OF wf] ready_ids_iff[OF f(8)] assigned_task_def)
  qed
  show "exclusive (database w) \<Longrightarrow> exclusive (database w')"
    using acquireLease_exclusive[OF wf] l by (auto simp: leased_to_def) (metis snd_conv)
  have "pool_load i (database w') = pool_load i (database w) + (if i = p_workerPoolId p then 1 else 0)" for i
    by (simp add: pool_load_def f(2) f(1) new_lease_def ACTIVE_LEASE_STATUSES_def)
  moreover have "q = p" if "q \<in> set (workerPools (database w))" "p_workerPoolId q = p_workerPoolId p" for q
    using wf p that find_key_Some[of p_workerPoolId "workerPools (database w)"]
    by (metis option.inject suits_def wf_db_def)
  ultimately show "within_capacity (database w) \<Longrightarrow> within_capacity (database w')"
    using p by (fastforce simp: within_capacity_def f(6) suits_def free_slots_def)
qed

lemma dispatched_keeps:
  assumes wf: "wf_db (database w)" and "dispatched env w t p a w'"
  shows "ready_ids (database w') = ready_ids (database w) - {t_taskId t}" "t_taskId t \<in> ready_ids (database w)"
    "exclusive (database w) \<Longrightarrow> exclusive (database w')"
    "within_capacity (database w) \<Longrightarrow> within_capacity (database w')" "wf_db (database w')"
proof -
  from assms(2) obtain w1 where l: "leased_to env w t p (sa_leaseResult a) w1"
    and w': "w' = w1\<lparr>database := (database w1)\<lparr>jobs := jobs (database w1) @ [sa_dispatchJob a]\<rparr>\<rparr>"
    and j: "j_jobId (sa_dispatchJob a) \<notin> set (map j_jobId (jobs (database w1)))" by (auto simp: dispatched_def)
  note k = leased_keeps[OF wf l] and f = leased_facts[OF wf l]
  show "ready_ids (database w') = ready_ids (database w) - {t_taskId t}" "t_taskId t \<in> ready_ids (database w)"
    "exclusive (database w) \<Longrightarrow> exclusive (database w')"
    "within_capacity (database w) \<Longrightarrow> within_capacity (database w')" "wf_db (database w')"
    using k f(8) j by (simp_all add: w' ready_ids_def exclusive_def active_leases_def within_capacity_def pool_load_def wf_db_def)
qed

lemma scheduleNext_keeps:
  assumes wf: "wf_db (database w)" and run: "scheduleNext envs limit w = (r, w')"
  shows "wf_db (database w')" "exclusive (database w) \<Longrightarrow> exclusive (database w')"
    "within_capacity (database w) \<Longrightarrow> within_capacity (database w')"
    "ready_ids (database w') \<subseteq> ready_ids (database w)"
proof -
  have "wf_db (database w') \<and> (exclusive (database w) \<longrightarrow> exclusive (database w'))
    \<and> (within_capacity (database w) \<longrightarrow> within_capacity (database w')) \<and> ready_ids (database w') \<subseteq> ready_ids (database w)"
  proof (rule scheduleNext_cases[OF wf, of envs limit], goal_cases)
    case (1 reason m)
    then show ?case using run wf by simp
  next
    case (2 e w1 k)
    then show ?case using run wf leased_keeps[OF wf] leased_facts(8)[OF wf] by auto
  next
    case (3 t p k a w1)
    then show ?case using run dispatched_keeps[OF wf 3(2)] by auto
  qed
  then show "wf_db (database w')" "exclusive (database w) \<Longrightarrow> exclusive (database w')"
    "within_capacity (database w) \<Longrightarrow> within_capacity (database w')"
    "ready_ids (database w') \<subseteq> ready_ids (database w)" by blast+
qed

text \<open>The service's own comparison orders priorities as the query does.\<close>

lemma comparePriority_rank: "comparePriority a b = PRIORITY_RANK a - PRIORITY_RANK b"
  by (cases a; cases b) (simp_all add: comparePriority_def js_indexOf_def PRIORITY_ORDER_def)

end
