(* ===== verification/SchedulerTick.thy ===== *)
theory SchedulerTick
  imports Scheduler
begin

text \<open>
  \<open>packages/application/src/services/scheduler-tick.service.ts\<close> over \<open>createSchedulerTickUnitOfWork\<close>
  of \<open>apps/control-plane/src/automation/application-adapters.ts\<close>: the recurring tick job, and the
  loop that calls the scheduler until nothing more can be assigned.  The loop has no bound in the
  code, so it is a \<^theory_text>\<open>partial_function\<close> whose value \<^const>\<open>None\<close> means that it runs forever;
  it is proved to return.
\<close>

subsection \<open>Operations\<close>

definition JOB_NON_TERMINAL_STATUSES :: "JobStatus list" where
  "JOB_NON_TERMINAL_STATUSES = [JobStatus.PENDING, JobStatus.CLAIMED, JobStatus.RUNNING]"

definition countNonTerminalByType :: "JobType \<Rightarrow> db \<Rightarrow> nat" where
  "countNonTerminalByType jobType d =
    length (filter (\<lambda>job. j_jobType job = jobType \<and> j_status job \<in> set JOB_NON_TERMINAL_STATUSES) (jobs d))"

definition DEFAULT_TICK_INTERVAL_MS :: int where
  "DEFAULT_TICK_INTERVAL_MS = 5000"

definition DEFAULT_LEASE_OWNER :: string where
  "DEFAULT_LEASE_OWNER = ''scheduler-tick''"

record SchedulerTickConfig =
  tc_tickIntervalMs :: "int option"
  tc_candidateLimit :: "int option"
  tc_leaseOwner :: "string option"

record InitializeTickResult =
  created :: bool
  it_jobId :: "string option"

record TickAssignmentSummary =
  assignmentCount :: nat
  stopReason :: ScheduleSkipReason

datatype ProcessTickResult =
    TickProcessedResult string TickAssignmentSummary string
  | TickSkippedResult

definition tickJobData :: "int option \<Rightarrow> CreateJobData" where
  "tickJobData runAfter = \<lparr>cj_jobType = JobType.SCHEDULER_TICK, cj_entityType = None, cj_entityId = None,
     cj_payloadJson = None, cj_runAfter = runAfter, cj_parentJobId = None, cj_jobGroupId = None,
     cj_dependsOnJobIds = None\<rparr>"

text \<open>\<open>envs n\<close> is what the \<open>n\<close>-th call of the scheduler draws.\<close>

partial_function (option) runSchedulingLoop ::
  "(nat \<Rightarrow> nat \<Rightarrow> scheduleEnv) \<Rightarrow> int \<Rightarrow> nat \<Rightarrow> world \<Rightarrow> ((app_error + TickAssignmentSummary) \<times> world) option" where
  "runSchedulingLoop envs candidateLimit count w =
    (case scheduleNext (envs count) candidateLimit w of
       (Inl error, w') \<Rightarrow> Some (Inl error, w')
     | (Inr lastResult, w') \<Rightarrow>
         (case lastResult of
            ScheduleNoAssignmentResult skip _ \<Rightarrow> Some (Inr \<lparr>assignmentCount = count, stopReason = skip\<rparr>, w')
          | ScheduleSuccessResult _ \<Rightarrow> runSchedulingLoop envs candidateLimit (count + 1) w'))"

declare runSchedulingLoop.simps [code]

definition initialize :: "int \<Rightarrow> string \<Rightarrow> world \<Rightarrow> (app_error + InitializeTickResult) \<times> world" where
  "initialize now newId w =
    (if countNonTerminalByType JobType.SCHEDULER_TICK (database w) > 0 then (Inr \<lparr>created = False, it_jobId = None\<rparr>, w)
     else case onDatabase (createJob now newId (tickJobData None)) w of
       (Inl error, w') \<Rightarrow> (Inl error, w')
     | (Inr job, w') \<Rightarrow> (Inr \<lparr>created = True, it_jobId = Some (j_jobId job)\<rparr>, w'))"

text \<open>The clock at the claim (as read and as stored), at the completion, for the next tick, and its new row.\<close>

record tickEnv =
  te_claimClock :: int
  te_claimNow :: int
  te_schedule :: "nat \<Rightarrow> nat \<Rightarrow> scheduleEnv"
  te_completeNow :: int
  te_clock :: int
  te_nextId :: string
  te_nextNow :: int

definition processTick ::
  "tickEnv \<Rightarrow> SchedulerTickConfig \<Rightarrow> world \<Rightarrow> ((app_error + ProcessTickResult) \<times> world) option" where
  "processTick env config w =
    (let tickIntervalMs = (case tc_tickIntervalMs config of None \<Rightarrow> DEFAULT_TICK_INTERVAL_MS | Some n \<Rightarrow> n);
         candidateLimit = (case tc_candidateLimit config of None \<Rightarrow> DEFAULT_CANDIDATE_LIMIT | Some n \<Rightarrow> n);
         leaseOwner = (case tc_leaseOwner config of None \<Rightarrow> DEFAULT_LEASE_OWNER | Some s \<Rightarrow> s) in
     case onDatabase (claimJob (te_claimClock env) (te_claimNow env) JobType.SCHEDULER_TICK leaseOwner) w of
       (Inl error, w1) \<Rightarrow> Some (Inl error, w1)
     | (Inr None, w1) \<Rightarrow> Some (Inr TickSkippedResult, w1)
     | (Inr (Some claimed), w1) \<Rightarrow>
         (let tickJobId = j_jobId claimed in
          case runSchedulingLoop (te_schedule env) candidateLimit 0 w1 of
            None \<Rightarrow> None
          | Some (Inl error, w2) \<Rightarrow> Some (Inl error, w2)
          | Some (Inr summary, w2) \<Rightarrow>
              (case onDatabase (completeJob (te_completeNow env) tickJobId) w2 of
                 (Inl error, w3) \<Rightarrow> Some (Inl error, w3)
               | (Inr _, w3) \<Rightarrow>
                   (case onDatabase (createJob (te_nextNow env) (te_nextId env)
                       (tickJobData (Some (te_clock env + tickIntervalMs)))) w3 of
                      (Inl error, w4) \<Rightarrow> Some (Inl error, w4)
                    | (Inr nextJob, w4) \<Rightarrow>
                        Some (Inr (TickProcessedResult tickJobId summary (j_jobId nextJob)), w4)))))"

subsection \<open>The scheduling loop returns\<close>

lemma ready_ids_finite: "finite (ready_ids d)"
  by (simp add: ready_ids_def)

lemma scheduleNext_jobs:
  assumes wf: "wf_db (database w)" and run: "scheduleNext envs limit w = (r, w')"
  shows "\<exists>js. jobs (database w') = jobs (database w) @ js \<and> (\<forall>j \<in> set js. j_jobType j = JobType.WORKER_DISPATCH)"
proof (rule scheduleNext_cases[OF wf, of envs limit], goal_cases)
  case (1 reason m)
  then show ?case using run by simp
next
  case (2 e w1 k)
  then show ?case using run leased_facts(7)[OF wf] by auto
next
  case (3 t p k a w1)
  then show ?case using run leased_facts(7)[OF wf] by (auto simp: dispatched_def)
qed

lemma loop_returns:
  assumes "wf_db (database w)"
  shows "\<exists>r w'. runSchedulingLoop envs limit n w = Some (r, w') \<and> wf_db (database w')
    \<and> (exclusive (database w) \<longrightarrow> exclusive (database w'))
    \<and> (within_capacity (database w) \<longrightarrow> within_capacity (database w'))
    \<and> (\<exists>js. jobs (database w') = jobs (database w) @ js \<and> (\<forall>j \<in> set js. j_jobType j = JobType.WORKER_DISPATCH))
    \<and> (\<forall>s. r = Inr s \<longrightarrow> assignmentCount s + card (ready_ids (database w')) = n + card (ready_ids (database w))
         \<and> (\<forall>t \<in> set (candidate_rows limit (database w')). \<not> assignable (database w') t))"
  using assms
proof (induction "card (ready_ids (database w))" arbitrary: w n rule: less_induct)
  case less
  note wf = less.prems
  show ?case
  proof (cases "scheduleNext (envs n) limit w")
    case (Pair r w1)
    note keeps = scheduleNext_keeps[OF wf Pair] and js = scheduleNext_jobs[OF wf Pair]
    show ?thesis
    proof (rule scheduleNext_cases[OF wf, of "envs n" limit], goal_cases)
      case (1 reason m)
      then have "runSchedulingLoop envs limit n w = Some (Inr \<lparr>assignmentCount = n, stopReason = reason\<rparr>, w)"
        by (subst runSchedulingLoop.simps) simp
      then show ?case using 1 wf by auto
    next
      case (2 e w' k)
      then have "runSchedulingLoop envs limit n w = Some (Inl e, w')" by (subst runSchedulingLoop.simps) simp
      then show ?case using keeps js Pair 2(1) by auto
    next
      case (3 t p k a w')
      note d = dispatched_keeps[OF wf 3(2)]
      have loop: "runSchedulingLoop envs limit n w = runSchedulingLoop envs limit (n + 1) w'"
        using 3(1) by (subst runSchedulingLoop.simps) simp
      have card: "card (ready_ids (database w)) = Suc (card (ready_ids (database w')))"
        using d(1,2) ready_ids_finite card_Suc_Diff1 by metis
      obtain r' w'' js' where IH: "runSchedulingLoop envs limit (n + 1) w' = Some (r', w'')" "wf_db (database w'')"
        "exclusive (database w') \<longrightarrow> exclusive (database w'')"
        "within_capacity (database w') \<longrightarrow> within_capacity (database w'')"
        "jobs (database w'') = jobs (database w') @ js'" "\<forall>j \<in> set js'. j_jobType j = JobType.WORKER_DISPATCH"
        "\<forall>s. r' = Inr s \<longrightarrow> assignmentCount s + card (ready_ids (database w'')) = n + 1 + card (ready_ids (database w'))
         \<and> (\<forall>t \<in> set (candidate_rows limit (database w'')). \<not> assignable (database w'') t)"
        using less.hyps[of w' "n + 1"] card d(5) by auto
      from js 3(1) Pair obtain js1 where "jobs (database w') = jobs (database w) @ js1"
        "\<forall>j \<in> set js1. j_jobType j = JobType.WORKER_DISPATCH" by auto
      then have "\<exists>js. jobs (database w'') = jobs (database w) @ js \<and> (\<forall>j \<in> set js. j_jobType j = JobType.WORKER_DISPATCH)"
        using IH(5,6) by (intro exI[of _ "js1 @ js'"]) auto
      moreover have "exclusive (database w) \<longrightarrow> exclusive (database w'')"
        "within_capacity (database w) \<longrightarrow> within_capacity (database w'')" using IH(3,4) d(3,4) by blast+
      ultimately show ?case using loop IH(1,2,7) card by (intro exI[of _ r'] exI[of _ w'']) simp
    qed
  qed
qed

text \<open>
  (C7) The scheduling loop of a tick returns, whatever ids and clock readings it draws.  It makes
  exactly as many assignments as tasks leave \<open>READY\<close>, it gives no task a second active lease and loads
  no pool beyond its limit, and if it stops without an error none of the first \<open>limit\<close> remaining \<open>READY\<close>
  tasks, in the order of priority and age, can be assigned any more; a task behind them may still be.
  If the limit covers the remaining \<open>READY\<close> tasks, no task at all can be assigned.
\<close>

theorem scheduling_loop_terminates:
  assumes "wf_db (database w)"
  shows "\<exists>r w'. runSchedulingLoop envs limit 0 w = Some (r, w')
    \<and> (exclusive (database w) \<longrightarrow> exclusive (database w'))
    \<and> (within_capacity (database w) \<longrightarrow> within_capacity (database w'))
    \<and> (\<forall>s. r = Inr s \<longrightarrow> assignmentCount s + card (ready_ids (database w')) = card (ready_ids (database w))
         \<and> (\<forall>t \<in> set (candidate_rows limit (database w')). \<not> assignable (database w') t)
         \<and> (int (length (task_findByStatus TaskStatus.READY (database w'))) \<le> limit \<longrightarrow> (\<nexists>t. assignable (database w') t)))"
proof -
  obtain r w' where w': "runSchedulingLoop envs limit 0 w = Some (r, w')"
    "exclusive (database w) \<longrightarrow> exclusive (database w')"
    "within_capacity (database w) \<longrightarrow> within_capacity (database w')"
    "\<forall>s. r = Inr s \<longrightarrow> assignmentCount s + card (ready_ids (database w')) = card (ready_ids (database w))
         \<and> (\<forall>t \<in> set (candidate_rows limit (database w')). \<not> assignable (database w') t)"
    using loop_returns[OF assms, of envs limit 0] by auto
  then show ?thesis using candidate_rows_all[of "database w'" limit]
    by (intro exI[of _ r] exI[of _ w']) (auto simp: assignable_def)
qed

theorem scheduling_loop_terminates_witness:
  "\<exists>s w'. runSchedulingLoop (\<lambda>_ _. sched_env) 50 0 (sched_world\<lparr>database := lease_db\<rparr>) = Some (Inr s, w')
     \<and> assignmentCount s = 1 \<and> (\<nexists>t. assignable (database w') t)"
proof -
  let ?w = "sched_world\<lparr>database := lease_db\<rparr>"
  have "case runSchedulingLoop (\<lambda>_ _. sched_env) 50 0 ?w of
      Some (Inr s, w') \<Rightarrow> assignmentCount s = 1 \<and> length (task_findByStatus TaskStatus.READY (database w')) \<le> 50
    | _ \<Rightarrow> False" by code_simp
  then obtain s w' where "runSchedulingLoop (\<lambda>_ _. sched_env) 50 0 ?w = Some (Inr s, w')" "assignmentCount s = 1"
    "length (task_findByStatus TaskStatus.READY (database w')) \<le> 50"
    by (simp split: option.split_asm prod.split_asm sum.split_asm)
  moreover have "wf_db (database ?w)" by (simp add: lease_db_def example_db_def wf_db_def)
  ultimately show ?thesis using scheduling_loop_terminates[of ?w "\<lambda>_ _. sched_env" 50] by auto
qed

subsection \<open>The chain of ticks\<close>

abbreviation live_ticks :: "db \<Rightarrow> nat" where
  "live_ticks \<equiv> countNonTerminalByType JobType.SCHEDULER_TICK"

lemma length_filter_update:
  assumes "distinct (map k xs)" and "find (\<lambda>x. k x = i) xs = Some e" and "k (f e) = k e"
  shows "length (filter P (update_where (\<lambda>x. k x = i) f xs)) + (if P e then 1 else 0)
    = length (filter P xs) + (if P (f e) then 1 else 0)"
  using assms
proof (induction xs)
  case (Cons x xs)
  show ?case
  proof (cases "k x = i")
    case True
    with Cons.prems(1) have "\<forall>y \<in> set xs. k y \<noteq> i" by (rule keys_of_rest)
    then have "update_where (\<lambda>x. k x = i) f xs = xs" by (auto intro: update_where_none)
    then show ?thesis using True Cons.prems(2) by auto
  next
    case False
    then show ?thesis using Cons by auto
  qed
qed simp

lemma live_ticks_update:
  assumes "wf_db d" and "job_findById i d = Some j" and "\<And>x. j_jobId (f x) = j_jobId x"
    and "j_jobType j = JobType.SCHEDULER_TICK" "j_jobType (f j) = JobType.SCHEDULER_TICK"
    and "j_status j \<in> set JOB_NON_TERMINAL_STATUSES"
  shows "live_ticks (d\<lparr>jobs := update_where (\<lambda>x. j_jobId x = i) f (jobs d)\<rparr>) + 1
    = live_ticks d + (if j_status (f j) \<in> set JOB_NON_TERMINAL_STATUSES then 1 else 0)"
  using length_filter_update[of j_jobId "jobs d" i j f
      "\<lambda>job. j_jobType job = JobType.SCHEDULER_TICK \<and> j_status job \<in> set JOB_NON_TERMINAL_STATUSES"] assms
  by (simp add: countNonTerminalByType_def wf_db_def job_findById_def)

lemma live_ticks_append:
  "live_ticks (d\<lparr>jobs := jobs d @ js\<rparr>) = live_ticks d + length (filter (\<lambda>j. j_jobType j = JobType.SCHEDULER_TICK
      \<and> j_status j \<in> set JOB_NON_TERMINAL_STATUSES) js)"
  by (simp add: countNonTerminalByType_def)

lemma live_ticks_jobs: "jobs d' = jobs d \<Longrightarrow> live_ticks d' = live_ticks d"
  by (simp add: countNonTerminalByType_def)

text \<open>Completing a claimed job succeeds.\<close>

lemma completeJob_claimed:
  assumes "wf_db d" and "job_findById i d = Some j" and "j_status j = JobStatus.CLAIMED"
  shows "completeJob now i d = (Inr (moved_job now JobStatus.COMPLETED j),
    d\<lparr>jobs := update_where (\<lambda>x. j_jobId x = i) (moved_job now JobStatus.COMPLETED) (jobs d)\<rparr>)"
  unfolding completeJob_def
  by (rule job_move_cases[OF assms(1), where i = i and S = "set COMPLETABLE_STATUSES" and s = JobStatus.COMPLETED and now = now,
        of "EntityNotFoundError ''Job'' i"
        "\<lambda>j. InvalidTransitionError ''Job'' i (JobStatus_value (j_status j)) (JobStatus_value JobStatus.COMPLETED)
            (Some (''Job must be in CLAIMED or RUNNING status to complete, but is '' @ JobStatus_value (j_status j)))"
        "\<lambda>j. InvalidTransitionError ''Job'' i (JobStatus_value (j_status j)) (JobStatus_value JobStatus.COMPLETED)
            (Some ''Concurrent status change detected during complete transition'')"])
     (use assms in \<open>auto simp: COMPLETABLE_STATUSES_def\<close>)

lemma claimed_tick:
  assumes wf: "wf_db (database w)"
    and run: "onDatabase (claimJob clock now JobType.SCHEDULER_TICK owner) w = (Inr (Some c), w1)"
  shows "\<exists>j. claimable JobType.SCHEDULER_TICK clock (database w) j \<and> c = claimed_job now owner j
    \<and> job_findById (j_jobId c) (database w1) = Some c \<and> j_status c = JobStatus.CLAIMED
    \<and> j_jobType c = JobType.SCHEDULER_TICK \<and> live_ticks (database w1) = live_ticks (database w) \<and> wf_db (database w1)"
proof (rule claimJob_cases[OF wf, of JobType.SCHEDULER_TICK clock now owner], goal_cases)
  case 1
  then show ?case using run by (simp add: onDatabase_def)
next
  case (2 j d')
  have c: "c = claimed_job now owner j" "database w1 = d'" using run 2(3) by (auto simp: onDatabase_def)
  have j: "j \<in> set (jobs (database w))" "j_status j = JobStatus.PENDING" "j_jobType j = JobType.SCHEDULER_TICK"
    using 2(1) by (auto simp: claimable_def)
  have "live_ticks d' = live_ticks (database w)"
    using live_ticks_update[OF wf job_found[OF wf j(1)], of "claimed_job now owner"] j
    by (simp add: 2(4) claimed_job_def JOB_NON_TERMINAL_STATUSES_def)
  then show ?case using 2 c j by (auto simp: claimed_job_def)
qed

lemma tick_completed_and_renewed:
  assumes wf: "wf_db (database w)" and j: "job_findById i (database w) = Some j" "j_status j = JobStatus.CLAIMED"
    "j_jobType j = JobType.SCHEDULER_TICK"
  obtains w3 where "onDatabase (completeJob now i) w = (Inr (moved_job now JobStatus.COMPLETED j), w3)"
    "live_ticks (database w3) + 1 = live_ticks (database w)"
    "job_findById i (database w3) = Some (moved_job now JobStatus.COMPLETED j)"
    "map j_jobId (jobs (database w3)) = map j_jobId (jobs (database w))"
proof -
  let ?d = "(database w)\<lparr>jobs := update_where (\<lambda>x. j_jobId x = i) (moved_job now JobStatus.COMPLETED) (jobs (database w))\<rparr>"
  have "onDatabase (completeJob now i) w = (Inr (moved_job now JobStatus.COMPLETED j), w\<lparr>database := ?d\<rparr>)"
    by (simp add: onDatabase_def completeJob_claimed[OF wf j(1,2)])
  moreover have "live_ticks ?d + 1 = live_ticks (database w)"
    using live_ticks_update[OF wf j(1), of "moved_job now JobStatus.COMPLETED"] j
    by (simp add: moved_job_def JOB_NON_TERMINAL_STATUSES_def)
  moreover have "job_findById i ?d = Some (moved_job now JobStatus.COMPLETED j)"
    using find_update_where_key[of j_jobId "moved_job now JobStatus.COMPLETED" i "jobs (database w)"] j(1)
    by (simp add: job_findById_def)
  moreover have "map j_jobId (jobs ?d) = map j_jobId (jobs (database w))"
    by (simp add: map_update_where_same)
  ultimately show ?thesis using that[of "w\<lparr>database := ?d\<rparr>"] by simp
qed

lemma processTick_cases:
  fixes config :: SchedulerTickConfig and env :: tickEnv
  assumes wf: "wf_db (database w)"
  obtains (skipped) "processTick env config w = Some (Inr TickSkippedResult, w)"
      "\<nexists>j. claimable JobType.SCHEDULER_TICK (te_claimClock env) (database w) j"
  | (failed) e w' c where "processTick env config w = Some (Inl e, w')" "wf_db (database w')"
      "live_ticks (database w') = live_ticks (database w)" "job_findById (j_jobId c) (database w') = Some c"
      "j_status c = JobStatus.CLAIMED" "j_jobType c = JobType.SCHEDULER_TICK"
  | (unrenewed) e w' where "processTick env config w = Some (Inl e, w')"
      "te_nextId env \<in> set (map j_jobId (jobs (database w')))"
  | (processed) c s j w' where "processTick env config w = Some (Inr (TickProcessedResult (j_jobId c) s (j_jobId j)), w')"
      "live_ticks (database w') = live_ticks (database w)" "job_findById (j_jobId c) (database w') = Some c"
      "j_status c = JobStatus.COMPLETED" "job_findById (j_jobId j) (database w') = Some j"
      "j_status j = JobStatus.PENDING" "j_jobType j = JobType.SCHEDULER_TICK"
      "j_runAfter j = Some ((te_clock env
         + (case tc_tickIntervalMs config of None \<Rightarrow> DEFAULT_TICK_INTERVAL_MS | Some n \<Rightarrow> n)) div 1000)"
proof -
  let ?owner = "case tc_leaseOwner config of None \<Rightarrow> DEFAULT_LEASE_OWNER | Some s \<Rightarrow> s"
  let ?limit = "case tc_candidateLimit config of None \<Rightarrow> DEFAULT_CANDIDATE_LIMIT | Some n \<Rightarrow> n"
  let ?next = "te_clock env + (case tc_tickIntervalMs config of None \<Rightarrow> DEFAULT_TICK_INTERVAL_MS | Some n \<Rightarrow> n)"
  let ?claim = "onDatabase (claimJob (te_claimClock env) (te_claimNow env) JobType.SCHEDULER_TICK ?owner) w"
  show ?thesis
  proof (cases "fst ?claim = Inr None")
    case True
    then have "?claim = (Inr None, w) \<and> (\<nexists>j. claimable JobType.SCHEDULER_TICK (te_claimClock env) (database w) j)"
      by (rule_tac claimJob_cases[OF wf, of JobType.SCHEDULER_TICK "te_claimClock env" "te_claimNow env" ?owner])
         (auto simp: onDatabase_def)
    then show ?thesis using skipped by (simp add: processTick_def Let_def)
  next
    case False
    then obtain c w1 where claim: "?claim = (Inr (Some c), w1)"
      by (rule_tac claimJob_cases[OF wf, of JobType.SCHEDULER_TICK "te_claimClock env" "te_claimNow env" ?owner])
         (auto simp: onDatabase_def)
    from claimed_tick[OF wf claim] have c: "job_findById (j_jobId c) (database w1) = Some c"
      "j_status c = JobStatus.CLAIMED" "j_jobType c = JobType.SCHEDULER_TICK"
      "live_ticks (database w1) = live_ticks (database w)" and wf1: "wf_db (database w1)" by auto
    obtain r w2 js where loop: "runSchedulingLoop (te_schedule env) ?limit 0 w1 = Some (r, w2)" and wf2: "wf_db (database w2)"
      and js: "jobs (database w2) = jobs (database w1) @ js" "\<forall>j \<in> set js. j_jobType j = JobType.WORKER_DISPATCH"
      using loop_returns[OF wf1, of "te_schedule env" ?limit 0] by auto
    have c2: "job_findById (j_jobId c) (database w2) = Some c"
      using c(1) by (simp add: job_findById_def js(1) find_append_Some)
    have live2: "live_ticks (database w2) = live_ticks (database w)"
      using js c(4) by (auto simp: countNonTerminalByType_def filter_empty_conv)
    show ?thesis
    proof (cases r)
      case (Inl e)
      then have "processTick env config w = Some (Inl e, w2)" using claim loop by (simp add: processTick_def Let_def)
      then show ?thesis using failed wf2 live2 c2 c(2,3) by blast
    next
      case (Inr s)
      obtain w3 where fin: "onDatabase (completeJob (te_completeNow env) (j_jobId c)) w2
          = (Inr (moved_job (te_completeNow env) JobStatus.COMPLETED c), w3)"
        "live_ticks (database w3) + 1 = live_ticks (database w2)"
        "job_findById (j_jobId c) (database w3) = Some (moved_job (te_completeNow env) JobStatus.COMPLETED c)"
        by (rule tick_completed_and_renewed[OF wf2 c2 c(2,3)])
      show ?thesis
      proof (rule createJob_cases[of "te_nextId env" w3 "te_nextNow env" "tickJobData (Some ?next)"], goal_cases)
        case 1
        then have "processTick env config w = Some (Inl (ConstraintError ''job''), w3)"
          using claim loop Inr fin(1) by (simp add: processTick_def Let_def)
        then show ?case using unrenewed 1(1) by blast
      next
        case (2 j)
        let ?w4 = "w3\<lparr>database := (database w3)\<lparr>jobs := jobs (database w3) @ [j]\<rparr>\<rparr>"
        have out: "processTick env config w = Some (Inr (TickProcessedResult (j_jobId c) s (j_jobId j)), ?w4)"
          using claim loop Inr fin(1) 2(2) by (auto simp: processTick_def Let_def)
        have "live_ticks (database ?w4) = live_ticks (database w)"
          using live_ticks_append[of "database w3" "[j]"] fin(2) live2 2(4,5)
          by (simp add: tickJobData_def JOB_NON_TERMINAL_STATUSES_def)
        moreover have "job_findById (j_jobId c) (database ?w4) = Some (moved_job (te_completeNow env) JobStatus.COMPLETED c)"
          using fin(3) by (simp add: job_findById_def find_append_Some)
        moreover have "\<forall>x \<in> set (jobs (database w3)). j_jobId x \<noteq> te_nextId env" using 2(1) by force
        then have "job_findById (j_jobId j) (database ?w4) = Some j"
          using 2(3) by (simp add: job_findById_def find_append_None)
        moreover have "j_jobType j = JobType.SCHEDULER_TICK" "j_runAfter j = Some (?next div 1000)"
          using 2(4,9) by (simp_all add: tickJobData_def)
        ultimately show ?case
          using processed[of "moved_job (te_completeNow env) JobStatus.COMPLETED c" s j ?w4] out 2(5) by simp
      qed
    qed
  qed
qed

text \<open>
  The chain of ticks.  Processing a tick always returns.  It skips, changing nothing, exactly when no
  tick job is due.  If it processes a tick, that job ends \<open>COMPLETED\<close> and one \<open>PENDING\<close> tick, due
  an interval after the clock reading, has replaced it, so the number of live ticks is the same.
\<close>

lemma tick_chain:
  assumes "wf_db (database w)"
  shows "case processTick env config w of None \<Rightarrow> False
    | Some (Inl e, w') \<Rightarrow> True
    | Some (Inr TickSkippedResult, w') \<Rightarrow> w' = w \<and> (\<nexists>j. claimable JobType.SCHEDULER_TICK (te_claimClock env) (database w) j)
    | Some (Inr (TickProcessedResult i s i'), w') \<Rightarrow> live_ticks (database w') = live_ticks (database w)
        \<and> (\<exists>j. job_findById i (database w') = Some j \<and> j_status j = JobStatus.COMPLETED)
        \<and> (\<exists>j. job_findById i' (database w') = Some j \<and> j_status j = JobStatus.PENDING
             \<and> j_jobType j = JobType.SCHEDULER_TICK
             \<and> j_runAfter j = Some ((te_clock env
                 + (case tc_tickIntervalMs config of None \<Rightarrow> DEFAULT_TICK_INTERVAL_MS | Some n \<Rightarrow> n)) div 1000))"
  by (rule processTick_cases[OF assms, of env config]) auto

definition tick_job :: Job where
  "tick_job = (queue_job ''tick'' 1 [])\<lparr>j_jobType := JobType.SCHEDULER_TICK\<rparr>"

definition tick_world :: "Job list \<Rightarrow> world" where
  "tick_world js = sched_world\<lparr>database := lease_db\<lparr>jobs := tick_job # js\<rparr>\<rparr>"

definition tick_env :: tickEnv where
  "tick_env = \<lparr>te_claimClock = 7000, te_claimNow = 7000, te_schedule = (\<lambda>_ _. sched_env), te_completeNow = 8000,
     te_clock = 8000, te_nextId = ''tock'', te_nextNow = 8000\<rparr>"

definition tick_config :: SchedulerTickConfig where
  "tick_config = \<lparr>tc_tickIntervalMs = None, tc_candidateLimit = None, tc_leaseOwner = None\<rparr>"

lemma tick_world_wf: "wf_db (database (tick_world []))" "wf_db (database (tick_world [queue_job ''J'' 2 []]))"
  by (simp_all add: tick_world_def tick_job_def queue_job_def sched_world_def lease_db_def example_db_def wf_db_def)

text \<open>
  (C35) A tick whose scheduling loop fails stops the chain.  If the one live tick job is
  claimed and the scheduler raises an error before the job is completed, the job stays \<open>CLAIMED\<close>.
  In that state every call of \<open>processTick\<close> finds no tick job and changes nothing, and \<open>initialize\<close>,
  which a restart calls, still counts the dead tick as live and creates none.
\<close>

theorem failed_tick_stalls:
  assumes "wf_db (database w)" and "live_ticks (database w) = 1"
    and "processTick env config w = Some (Inl e, w')"
    and "te_nextId env \<notin> set (map j_jobId (jobs (database w')))"
  shows "(\<forall>env' config'. processTick env' config' w' = Some (Inr TickSkippedResult, w'))
    \<and> (\<forall>now i. initialize now i w' = (Inr \<lparr>created = False, it_jobId = None\<rparr>, w'))"
proof -
  obtain c where wf': "wf_db (database w')" and live: "live_ticks (database w') = 1"
    and c: "job_findById (j_jobId c) (database w') = Some c" "j_status c = JobStatus.CLAIMED"
      "j_jobType c = JobType.SCHEDULER_TICK"
    by (rule processTick_cases[OF assms(1), of env config]) (use assms(2-4) in auto)
  have none: "\<nexists>j. claimable JobType.SCHEDULER_TICK clock (database w') j" for clock
  proof
    assume "\<exists>j. claimable JobType.SCHEDULER_TICK clock (database w') j"
    then obtain j where j: "j \<in> set (jobs (database w'))" "j_status j = JobStatus.PENDING"
      "j_jobType j = JobType.SCHEDULER_TICK" by (auto simp: claimable_def)
    let ?live = "filter (\<lambda>x. j_jobType x = JobType.SCHEDULER_TICK \<and> j_status x \<in> set JOB_NON_TERMINAL_STATUSES)
      (jobs (database w'))"
    have "c \<in> set ?live" "j \<in> set ?live" "c \<noteq> j"
      using c j job_found_iff[OF wf', of "j_jobId c" c] by (auto simp: JOB_NON_TERMINAL_STATUSES_def)
    moreover obtain y where "?live = [y]" using live by (auto simp: countNonTerminalByType_def length_Suc_conv)
    ultimately show False by simp
  qed
  have "onDatabase (claimJob clock now JobType.SCHEDULER_TICK owner) w' = (Inr None, w')" for clock now owner
    by (rule claimJob_cases[OF wf', of JobType.SCHEDULER_TICK clock now owner])
       (use none[of clock] in \<open>auto simp: onDatabase_def\<close>)
  then show ?thesis using live by (auto simp: processTick_def initialize_def)
qed

theorem failed_tick_stalls_witness:
  "\<exists>e w'. processTick tick_env tick_config (tick_world [queue_job ''J'' 2 []]) = Some (Inl e, w')
     \<and> processTick tick_env tick_config w' = Some (Inr TickSkippedResult, w')"
proof -
  let ?w = "tick_world [queue_job ''J'' 2 []]"
  have "case processTick tick_env tick_config ?w of
      Some (Inl e, w') \<Rightarrow> ''tock'' \<notin> set (map j_jobId (jobs (database w'))) | _ \<Rightarrow> False" by code_simp
  then obtain e w' where run: "processTick tick_env tick_config ?w = Some (Inl e, w')"
    and new: "te_nextId tick_env \<notin> set (map j_jobId (jobs (database w')))"
    by (simp add: tick_env_def split: option.split_asm prod.split_asm sum.split_asm)
  have "live_ticks (database ?w) = 1" by code_simp
  from failed_tick_stalls[OF tick_world_wf(2) this run new] run show ?thesis by blast
qed

end
