(* ===== verification/Sweep.thy ===== *)
theory Sweep
  imports LeaseProtocol Readiness SchedulerTick
begin

text \<open>
  \<open>packages/application/src/services/reconciliation-sweep.service.ts\<close>: the recurring sweep that
  repairs what crashed workers leave behind, composed of the heartbeat, reclaim, job queue, readiness
  and transition services.

  Its own queries (\<open>ReconciliationSweepUnitOfWork\<close>) have no adapter in the repository, so they are
  arguments.  The \<open>error\<close> of an action is the text of the error; the model keeps the error itself.
\<close>

subsection \<open>Operations\<close>

definition DEFAULT_SWEEP_INTERVAL_MS :: int where
  "DEFAULT_SWEEP_INTERVAL_MS = 60000"

definition DEFAULT_ORPHANED_JOB_TIMEOUT_MS :: int where
  "DEFAULT_ORPHANED_JOB_TIMEOUT_MS = 600000"

definition DEFAULT_STUCK_TASK_TIMEOUT_MS :: int where
  "DEFAULT_STUCK_TASK_TIMEOUT_MS = 300000"

definition DEFAULT_SWEEP_LEASE_OWNER :: string where
  "DEFAULT_SWEEP_LEASE_OWNER = ''reconciliation-sweep''"

definition DEFAULT_STALENESS_POLICY :: StalenessPolicy where
  "DEFAULT_STALENESS_POLICY = \<lparr>heartbeatIntervalSeconds = 30, missedHeartbeatThreshold = 2, gracePeriodSeconds = 15\<rparr>"

definition ORPHANED_JOB_STATUSES :: "JobStatus list" where
  "ORPHANED_JOB_STATUSES = [JobStatus.CLAIMED, JobStatus.RUNNING]"

record ReconciliationSweepConfig =
  rc_sweepIntervalMs :: "int option"
  rc_orphanedJobTimeoutMs :: "int option"
  rc_stuckTaskTimeoutMs :: "int option"
  rc_leaseOwner :: "string option"
  rc_stalenessPolicy :: "StalenessPolicy option"

datatype sweep_outcome = swept | sweep_error app_error

record StaleLeaseSweepAction =
  sla_leaseId :: string
  sla_taskId :: string
  sla_reason :: ReclaimReason
  sla_outcome :: sweep_outcome

record OrphanedJobSweepAction =
  oja_jobId :: string
  oja_jobType :: JobType
  oja_outcome :: sweep_outcome

record StuckTaskSweepAction =
  sta_taskId :: string
  sta_outcome :: sweep_outcome

datatype recalc_outcome = transitioned_to_ready | still_blocked | recalc_error app_error

record ReadinessRecalcAction =
  rra_taskId :: string
  rra_outcome :: recalc_outcome

record SweepSummary =
  staleLeaseActions :: "StaleLeaseSweepAction list"
  orphanedJobActions :: "OrphanedJobSweepAction list"
  stuckTaskActions :: "StuckTaskSweepAction list"
  readinessRecalcActions :: "ReadinessRecalcAction list"

datatype ProcessSweepResult =
    SweepProcessedResult string SweepSummary string
  | SweepSkippedResult

text \<open>The queries of the unit of work; of the records they return, the fields the service reads.\<close>

record sweepQueries =
  findOrphanedJobs :: "JobStatus list \<Rightarrow> int \<Rightarrow> db \<Rightarrow> (string \<times> JobType) list"
  findStuckAssignedTasks :: "int \<Rightarrow> db \<Rightarrow> string list"
  findAllBlockedTasks :: "db \<Rightarrow> string list"

definition SWEEP_ACTOR :: ActorInfo where
  "SWEEP_ACTOR = \<lparr>actor_type = ''system'', actor_id = ''reconciliation-sweep''\<rparr>"

definition toReclaimReason :: "StaleLeaseInfo \<Rightarrow> ReclaimReason" where
  "toReclaimReason staleInfo =
    (if sl_reason staleInfo = StalenessReason.ttl_expired then ReclaimReason.ttl_expired
     else ReclaimReason.missed_heartbeats)"

definition StalenessReason_value :: "StalenessReason \<Rightarrow> string" where
  "StalenessReason_value r = (case r of StalenessReason.missed_heartbeats \<Rightarrow> ''missed_heartbeats''
     | StalenessReason.ttl_expired \<Rightarrow> ''ttl_expired'')"

definition sweepReclaimParams :: "StaleLeaseInfo \<Rightarrow> ReclaimLeaseParams" where
  "sweepReclaimParams staleInfo =
    \<lparr>rp_leaseId = l_leaseId (sl_lease staleInfo), rp_reason = toReclaimReason staleInfo,
     rp_retryPolicy = DEFAULT_RETRY_POLICY, rp_escalationPolicy = DEFAULT_ESCALATION_POLICY,
     rp_hasFailureSummary = None, rp_actor = SWEEP_ACTOR,
     rp_metadata = Some (JObj [(''triggeredBy'', JStr ''reconciliation-sweep''),
       (''stalenessReason'', JStr (StalenessReason_value (sl_reason staleInfo)))])\<rparr>"

text \<open>\<open>env i\<close> is what the call for lease, job or task \<open>i\<close> draws.\<close>

fun reclaimStale :: "(string \<Rightarrow> reclaimEnv) \<Rightarrow> StaleLeaseInfo list \<Rightarrow> world \<Rightarrow> StaleLeaseSweepAction list \<times> world" where
  "reclaimStale env [] w = ([], w)"
| "reclaimStale env (staleInfo # rest) w =
    (case reclaimLease (env (l_leaseId (sl_lease staleInfo))) (sweepReclaimParams staleInfo) w of
       (r, w1) \<Rightarrow>
         (let done_action = \<lparr>sla_leaseId = l_leaseId (sl_lease staleInfo), sla_taskId = l_taskId (sl_lease staleInfo),
              sla_reason = toReclaimReason staleInfo,
              sla_outcome = (case r of Inr _ \<Rightarrow> swept | Inl error \<Rightarrow> sweep_error error)\<rparr>
          in apfst ((#) done_action) (reclaimStale env rest w1)))"

definition sweepStaleLeases :: "(string \<Rightarrow> reclaimEnv) \<Rightarrow> int \<Rightarrow> StalenessPolicy \<Rightarrow> world
    \<Rightarrow> StaleLeaseSweepAction list \<times> world" where
  "sweepStaleLeases env now stalenessPolicy w =
    reclaimStale env (detectStaleLeases now stalenessPolicy (database w)) w"

fun failOrphans :: "(string \<Rightarrow> int) \<Rightarrow> (string \<times> JobType) list \<Rightarrow> world \<Rightarrow> OrphanedJobSweepAction list \<times> world" where
  "failOrphans now [] w = ([], w)"
| "failOrphans now ((jobId, jobType) # rest) w =
    (case onDatabase (failJob (now jobId) jobId) w of
       (r, w1) \<Rightarrow> apfst ((#) \<lparr>oja_jobId = jobId, oja_jobType = jobType,
           oja_outcome = (case r of Inr _ \<Rightarrow> swept | Inl error \<Rightarrow> sweep_error error)\<rparr>)
         (failOrphans now rest w1))"

definition sweepOrphanedJobs :: "sweepQueries \<Rightarrow> (string \<Rightarrow> int) \<Rightarrow> int \<Rightarrow> int \<Rightarrow> world
    \<Rightarrow> OrphanedJobSweepAction list \<times> world" where
  "sweepOrphanedJobs queries now clock orphanedJobTimeoutMs w =
    failOrphans now (findOrphanedJobs queries ORPHANED_JOB_STATUSES (clock - orphanedJobTimeoutMs) (database w)) w"

fun unstickTasks :: "(string \<Rightarrow> txEnv) \<Rightarrow> string list \<Rightarrow> world \<Rightarrow> StuckTaskSweepAction list \<times> world" where
  "unstickTasks env [] w = ([], w)"
| "unstickTasks env (taskId # rest) w =
    (case transitionTask (env taskId) taskId TaskStatus.READY
         (emptyContext\<lparr>leaseReclaimedRetryEligible := Some True\<rparr>) SWEEP_ACTOR
         (Some (JObj [(''triggeredBy'', JStr ''reconciliation-sweep''),
           (''reason'', JStr ''Task stuck in ASSIGNED without active lease'')])) w of
       (r, w1) \<Rightarrow> apfst ((#) \<lparr>sta_taskId = taskId,
           sta_outcome = (case r of Inr _ \<Rightarrow> swept | Inl error \<Rightarrow> sweep_error error)\<rparr>)
         (unstickTasks env rest w1))"

definition sweepStuckTasks :: "sweepQueries \<Rightarrow> (string \<Rightarrow> txEnv) \<Rightarrow> int \<Rightarrow> int \<Rightarrow> world
    \<Rightarrow> StuckTaskSweepAction list \<times> world" where
  "sweepStuckTasks queries env clock stuckTaskTimeoutMs w =
    unstickTasks env (findStuckAssignedTasks queries (clock - stuckTaskTimeoutMs) (database w)) w"

definition unblockTask :: "txEnv \<Rightarrow> string \<Rightarrow> world \<Rightarrow> recalc_outcome \<times> world" where
  "unblockTask env taskId w =
    (case computeReadiness taskId (database w) of
       Inl error \<Rightarrow> (recalc_error error, w)
     | Inr (ReadinessResultBlocked _ _) \<Rightarrow> (still_blocked, w)
     | Inr (ReadinessResultReady _) \<Rightarrow>
         (case transitionTask env taskId TaskStatus.READY
             (emptyContext\<lparr>allDependenciesResolved := Some True, hasPolicyBlockers := Some False\<rparr>) SWEEP_ACTOR
             (Some (JObj [(''triggeredBy'', JStr ''reconciliation-sweep''),
               (''reason'', JStr ''BLOCKED task dependencies resolved (caught by sweep)'')])) w of
            (Inr _, w1) \<Rightarrow> (transitioned_to_ready, w1)
          | (Inl error, w1) \<Rightarrow> (recalc_error error, w1)))"

fun unblockTasks :: "(string \<Rightarrow> txEnv) \<Rightarrow> string list \<Rightarrow> world \<Rightarrow> ReadinessRecalcAction list \<times> world" where
  "unblockTasks env [] w = ([], w)"
| "unblockTasks env (taskId # rest) w =
    (case unblockTask (env taskId) taskId w of
       (r, w1) \<Rightarrow> apfst ((#) \<lparr>rra_taskId = taskId, rra_outcome = r\<rparr>) (unblockTasks env rest w1))"

definition sweepBlockedTasks :: "sweepQueries \<Rightarrow> (string \<Rightarrow> txEnv) \<Rightarrow> world \<Rightarrow> ReadinessRecalcAction list \<times> world" where
  "sweepBlockedTasks queries env w = unblockTasks env (findAllBlockedTasks queries (database w)) w"

definition sweepJobData :: "int option \<Rightarrow> CreateJobData" where
  "sweepJobData runAfter = \<lparr>cj_jobType = JobType.RECONCILIATION_SWEEP, cj_entityType = None, cj_entityId = None,
     cj_payloadJson = None, cj_runAfter = runAfter, cj_parentJobId = None, cj_jobGroupId = None,
     cj_dependsOnJobIds = None\<rparr>"

definition initializeSweep :: "int \<Rightarrow> string \<Rightarrow> world \<Rightarrow> (app_error + InitializeTickResult) \<times> world" where
  "initializeSweep now newId w =
    (if countNonTerminalByType JobType.RECONCILIATION_SWEEP (database w) > 0
     then (Inr \<lparr>created = False, it_jobId = None\<rparr>, w)
     else case onDatabase (createJob now newId (sweepJobData None)) w of
       (Inl error, w') \<Rightarrow> (Inl error, w')
     | (Inr job, w') \<Rightarrow> (Inr \<lparr>created = True, it_jobId = Some (j_jobId job)\<rparr>, w'))"

record sweepEnv =
  sw_claimClock :: int
  sw_claimNow :: int
  sw_staleNow :: int
  sw_reclaim :: "string \<Rightarrow> reclaimEnv"
  sw_orphanClock :: int
  sw_failNow :: "string \<Rightarrow> int"
  sw_stuckClock :: int
  sw_unstick :: "string \<Rightarrow> txEnv"
  sw_unblock :: "string \<Rightarrow> txEnv"
  sw_completeNow :: int
  sw_clock :: int
  sw_nextId :: string
  sw_nextNow :: int

definition runSweeps :: "sweepQueries \<Rightarrow> sweepEnv \<Rightarrow> ReconciliationSweepConfig \<Rightarrow> world \<Rightarrow> SweepSummary \<times> world" where
  "runSweeps queries env config w1 =
    (let orphanedJobTimeoutMs = (case rc_orphanedJobTimeoutMs config of None \<Rightarrow> DEFAULT_ORPHANED_JOB_TIMEOUT_MS | Some n \<Rightarrow> n);
         stuckTaskTimeoutMs = (case rc_stuckTaskTimeoutMs config of None \<Rightarrow> DEFAULT_STUCK_TASK_TIMEOUT_MS | Some n \<Rightarrow> n);
         stalenessPolicy = (case rc_stalenessPolicy config of None \<Rightarrow> DEFAULT_STALENESS_POLICY | Some p \<Rightarrow> p);
         (stale, w2) = sweepStaleLeases (sw_reclaim env) (sw_staleNow env) stalenessPolicy w1;
         (orphaned, w3) = sweepOrphanedJobs queries (sw_failNow env) (sw_orphanClock env) orphanedJobTimeoutMs w2;
         (stuck, w4) = sweepStuckTasks queries (sw_unstick env) (sw_stuckClock env) stuckTaskTimeoutMs w3;
         (recalc, w5) = sweepBlockedTasks queries (sw_unblock env) w4
     in (\<lparr>staleLeaseActions = stale, orphanedJobActions = orphaned, stuckTaskActions = stuck,
          readinessRecalcActions = recalc\<rparr>, w5))"

definition processSweep ::
  "sweepQueries \<Rightarrow> sweepEnv \<Rightarrow> ReconciliationSweepConfig \<Rightarrow> world \<Rightarrow> (app_error + ProcessSweepResult) \<times> world" where
  "processSweep queries env config w =
    (let sweepIntervalMs = (case rc_sweepIntervalMs config of None \<Rightarrow> DEFAULT_SWEEP_INTERVAL_MS | Some n \<Rightarrow> n);
         leaseOwner = (case rc_leaseOwner config of None \<Rightarrow> DEFAULT_SWEEP_LEASE_OWNER | Some s \<Rightarrow> s) in
     case onDatabase (claimJob (sw_claimClock env) (sw_claimNow env) JobType.RECONCILIATION_SWEEP leaseOwner) w of
       (Inl error, w1) \<Rightarrow> (Inl error, w1)
     | (Inr None, w1) \<Rightarrow> (Inr SweepSkippedResult, w1)
     | (Inr (Some claimed), w1) \<Rightarrow>
         (case runSweeps queries env config w1 of
            (summary, w2) \<Rightarrow>
              (case onDatabase (completeJob (sw_completeNow env) (j_jobId claimed)) w2 of
                 (Inl error, w3) \<Rightarrow> (Inl error, w3)
               | (Inr _, w3) \<Rightarrow>
                   (case onDatabase (createJob (sw_nextNow env) (sw_nextId env)
                       (sweepJobData (Some (sw_clock env + sweepIntervalMs)))) w3 of
                      (Inl error, w4) \<Rightarrow> (Inl error, w4)
                    | (Inr nextJob, w4) \<Rightarrow>
                        (Inr (SweepProcessedResult (j_jobId claimed) summary (j_jobId nextJob)), w4)))))"

subsection \<open>Stale leases\<close>

text \<open>A stale lease that can be reclaimed: it is being worked on and its task exists.\<close>

definition repairable :: "db \<Rightarrow> TaskLease \<Rightarrow> bool" where
  "repairable d l \<longleftrightarrow> l_status l \<in> {WorkerLeaseStatus.STARTING, WorkerLeaseStatus.RUNNING, WorkerLeaseStatus.HEARTBEATING}
     \<and> task_findById (l_taskId l) d \<noteq> None"

definition timed_out :: "StaleLeaseInfo \<Rightarrow> TaskLease" where
  "timed_out i = (sl_lease i)\<lparr>l_status := WorkerLeaseStatus.TIMED_OUT,
     l_reclaimReason := Some (StalenessReason_value (sl_reason i))\<rparr>"

text \<open>The effect on a task when the leases of the tasks in \<open>K\<close> are reclaimed.\<close>

definition released :: "bool \<Rightarrow> Task \<Rightarrow> Task \<Rightarrow> bool" where
  "released hit t t' \<longleftrightarrow>
    (if hit \<and> t_status t \<in> {TaskStatus.ASSIGNED, TaskStatus.IN_DEVELOPMENT}
     then \<exists>at. t' = t\<lparr>t_status := TaskStatus.ESCALATED, t_currentLeaseId := None, t_version := t_version t + 1,
       t_updatedAt := at\<rparr>
     else t' = t)"

text \<open>What a repair of leases may write: tasks, leases, and audit rows added at the end.\<close>

definition same_rest :: "db \<Rightarrow> db \<Rightarrow> bool" where
  "same_rest d d' \<longleftrightarrow> reviewCycles d' = reviewCycles d \<and> mergeQueueItems d' = mergeQueueItems d
     \<and> taskDependencies d' = taskDependencies d \<and> workerPools d' = workerPools d \<and> jobs d' = jobs d
     \<and> reviewPackets d' = reviewPackets d \<and> leadReviewDecisions d' = leadReviewDecisions d
     \<and> workers d' = workers d"

definition reclaims_logged :: "nat \<Rightarrow> db \<Rightarrow> db \<Rightarrow> bool" where
  "reclaims_logged n d d' \<longleftrightarrow> (\<exists>new. auditEvents d' = auditEvents d @ new \<and> length new = n
     \<and> (\<forall>a \<in> set new. ae_eventType a = ''lease.reclaimed''))"

definition repaired :: "StaleLeaseInfo list \<Rightarrow> db \<Rightarrow> db \<Rightarrow> bool" where
  "repaired infos d d' \<longleftrightarrow> wf_db d'
     \<and> (\<forall>i \<in> set infos. repairable d (sl_lease i) \<longrightarrow> lease_findById (l_leaseId (sl_lease i)) d' = Some (timed_out i))
     \<and> (\<forall>j. (\<forall>i \<in> set infos. repairable d (sl_lease i) \<longrightarrow> l_leaseId (sl_lease i) \<noteq> j) \<longrightarrow> lease_findById j d' = lease_findById j d)
     \<and> (\<forall>k. rel_option (released (\<exists>i \<in> set infos. repairable d (sl_lease i) \<and> l_taskId (sl_lease i) = k))
          (task_findById k d) (task_findById k d'))
     \<and> same_rest d d' \<and> reclaims_logged (length (filter (\<lambda>i. repairable d (sl_lease i)) infos)) d d'"

lemma same_rest_refl [simp]: "same_rest d d"
  by (simp add: same_rest_def)

lemma same_rest_trans: "same_rest d d1 \<Longrightarrow> same_rest d1 d' \<Longrightarrow> same_rest d d'"
  by (simp add: same_rest_def)

lemma same_rest_frame:
  "same_rest d d' \<Longrightarrow> d' = d\<lparr>tasks := tasks d', taskLeases := taskLeases d', auditEvents := auditEvents d'\<rparr>"
  by (cases d; cases d') (simp add: same_rest_def)

lemma reclaims_logged_0 [simp]: "reclaims_logged 0 d d"
  by (simp add: reclaims_logged_def)

lemma reclaims_logged_trans: "reclaims_logged m d d1 \<Longrightarrow> reclaims_logged n d1 d' \<Longrightarrow> reclaims_logged (m + n) d d'"
  by (fastforce simp: reclaims_logged_def)

lemma sweep_reclaimed:
  "reclaimed_lease (sweepReclaimParams i) (sl_lease i) = timed_out i"
  "released True t (reclaimed_task env (sweepReclaimParams i) t)"
proof -
  show "reclaimed_lease (sweepReclaimParams i) (sl_lease i) = timed_out i"
    by (cases "sl_reason i") (simp_all add: reclaimed_lease_def timed_out_def sweepReclaimParams_def toReclaimReason_def
        determineLeaseTargetState_def StalenessReason_value_def)
  show "released True t (reclaimed_task env (sweepReclaimParams i) t)"
    using evaluateTaskOutcome_cases[of t DEFAULT_RETRY_POLICY False DEFAULT_ESCALATION_POLICY]
    by (auto simp: released_def reclaimed_task_def reclaim_outcome_def sweepReclaimParams_def
        RECLAIM_ELIGIBLE_TASK_STATES_def DEFAULT_RETRY_POLICY_def DEFAULT_ESCALATION_POLICY_def getTriggerAction_def)
qed

lemma reclaim_audit_ids:
  "set (map ae_id (auditEvents (database (snd (reclaimLease env p w)))))
    \<subseteq> insert (re_uuid env) (set (map ae_id (auditEvents (database w))))"
proof -
  define X where "X = insert (re_uuid env) (set (map ae_id (auditEvents (database w))))"
  let ?P = "\<lambda>d. set (map ae_id (auditEvents d)) \<subseteq> X"
  have ops: "preserves ?P (auditEvent_create (re_uuid env) now ev)"
    "preserves ?P (updateStatusWithReason i s s' why)" "preserves ?P (updateStatusAndRetryCount now i v q n)" for now ev i s s' why v q n
    by (auto simp: preserves_def auditEvent_create_def updateStatusWithReason_def updateStatusAndRetryCount_def
        lease_checkedUpdate_def lease_update_def task_update_def bindT_apply Let_def X_def split: option.split)
  have "?P (database (snd (reclaimLease env p w)))"
    unfolding reclaimLease_def snd_apfst reclaimLease_tx_def
    by (rule commit_preserves) (intro preserves_intro ops, auto simp: X_def)
  then show ?thesis by (simp add: X_def)
qed

lemma reclaim_same_rest: "same_rest (database w) (database (snd (reclaimLease env p w)))"
proof -
  have "preserves (same_rest d) (auditEvent_create (re_uuid env) now ev)"
    "preserves (same_rest d) (updateStatusWithReason i s s' why)"
    "preserves (same_rest d) (updateStatusAndRetryCount now i v q n)" for d now ev i s s' why v q n
    by (auto simp: preserves_def auditEvent_create_def updateStatusWithReason_def updateStatusAndRetryCount_def
        lease_checkedUpdate_def lease_update_def task_update_def bindT_apply Let_def same_rest_def split: option.split)
  then show ?thesis
    unfolding reclaimLease_def snd_apfst reclaimLease_tx_def
    by (intro commit_preserves[where P = "same_rest (database w)"] preserves_intro same_rest_refl)
qed

lemma sweep_one:
  assumes wf: "wf_db (database w)" and look: "lease_findById (l_leaseId (sl_lease i)) (database w) = Some (sl_lease i)"
    and new: "re_uuid env \<notin> set (map ae_id (auditEvents (database w)))"
    and run: "reclaimLease env (sweepReclaimParams i) w = (r, w')"
  shows "repaired [i] (database w) (database w')"
    "set (map ae_id (auditEvents (database w'))) \<subseteq> insert (re_uuid env) (set (map ae_id (auditEvents (database w))))"
proof -
  let ?p = "sweepReclaimParams i" and ?d = "database w"
  have id: "rp_leaseId ?p = l_leaseId (sl_lease i)" by (simp add: sweepReclaimParams_def)
  have able: "(\<exists>l t. reclaimable ?p l t ?d) \<longleftrightarrow> repairable ?d (sl_lease i)"
    using look by (auto simp: reclaimable_def repairable_def id)
  note spec = reclaim_lease_spec[OF wf, of ?p env, unfolded run]
  have rest: "same_rest ?d (database w')" using reclaim_same_rest[of w env ?p] run by simp
  show "repaired [i] ?d (database w')"
  proof (cases r)
    case (Inl e)
    then have "w' = w" "\<not> repairable ?d (sl_lease i)" using spec new able by auto
    then show ?thesis using wf by (auto simp: repaired_def released_def option.rel_refl)
  next
    case (Inr x)
    from spec Inr obtain l t where s: "reclaimable ?p l t ?d" "rr_lease x = reclaimed_lease ?p l"
      "rr_task x = reclaimed_task env ?p t" "lease_findById (rp_leaseId ?p) (database w') = Some (rr_lease x)"
      "\<forall>j. j \<noteq> rp_leaseId ?p \<longrightarrow> lease_findById j (database w') = lease_findById j ?d"
      "task_findById (l_taskId l) (database w') = Some (rr_task x)"
      "\<forall>j. j \<noteq> l_taskId l \<longrightarrow> task_findById j (database w') = task_findById j ?d" "wf_db (database w')"
      "auditEvents (database w') = auditEvents ?d @ [rr_auditEvent x]"
      "ae_eventType (rr_auditEvent x) = ''lease.reclaimed''" by auto
    have li: "l = sl_lease i" "task_findById (l_taskId l) ?d = Some t" using s(1) look
      by (simp_all add: reclaimable_def id)
    have "repairable ?d (sl_lease i)" using able s(1) by blast
    moreover have "rel_option (released (l_taskId (sl_lease i) = k)) (task_findById k ?d) (task_findById k (database w'))" for k
      using s(3,6,7) li sweep_reclaimed(2)[of t env i]
      by (cases "k = l_taskId l") (auto simp: released_def intro: option.rel_refl)
    moreover have "reclaims_logged 1 ?d (database w')" using s(9,10) by (simp add: reclaims_logged_def)
    ultimately show ?thesis using s li sweep_reclaimed(1)[of i] rest by (auto simp: repaired_def id)
  qed
  show "set (map ae_id (auditEvents (database w'))) \<subseteq> insert (re_uuid env) (set (map ae_id (auditEvents ?d)))"
    using reclaim_audit_ids[of env ?p w] by (simp add: run)
qed

lemma releasedD:
  "released hit t t' \<Longrightarrow> if hit \<and> t_status t \<in> {TaskStatus.ASSIGNED, TaskStatus.IN_DEVELOPMENT}
     then \<exists>at. t' = t\<lparr>t_status := TaskStatus.ESCALATED, t_currentLeaseId := None, t_version := t_version t + 1,
       t_updatedAt := at\<rparr>
     else t' = t"
  by (simp add: released_def split: if_splits)

lemma released_trans: "released a t t' \<Longrightarrow> released b t' t'' \<Longrightarrow> released (a \<or> b) t t''"
  by (auto simp: released_def split: if_splits)

lemma repairedD:
  assumes "repaired infos d d'"
  shows "wf_db d'"
    "i \<in> set infos \<Longrightarrow> repairable d (sl_lease i) \<Longrightarrow> lease_findById (l_leaseId (sl_lease i)) d' = Some (timed_out i)"
    "(\<And>i. i \<in> set infos \<Longrightarrow> repairable d (sl_lease i) \<Longrightarrow> l_leaseId (sl_lease i) \<noteq> j) \<Longrightarrow> lease_findById j d' = lease_findById j d"
    "rel_option (released (\<exists>i \<in> set infos. repairable d (sl_lease i) \<and> l_taskId (sl_lease i) = k))
      (task_findById k d) (task_findById k d')"
    "same_rest d d'" "reclaims_logged (length (filter (\<lambda>i. repairable d (sl_lease i)) infos)) d d'"
  using assms by (simp_all add: repaired_def)

lemma repaired_trans:
  assumes one: "repaired [i] d d1" and rest: "repaired infos d1 d'"
    and ids: "l_leaseId (sl_lease i) \<notin> (\<lambda>j. l_leaseId (sl_lease j)) ` set infos"
  shows "repaired (i # infos) d d'"
proof -
  note tasks1 = repairedD(4)[OF one, simplified] and tasks2 = repairedD(4)[OF rest]
  have dom: "task_findById k d1 = None \<longleftrightarrow> task_findById k d = None" for k
    using tasks1[of k] by (cases "task_findById k d"; cases "task_findById k d1") auto
  have same: "repairable d1 l \<longleftrightarrow> repairable d l" for l by (simp add: repairable_def dom)
  have other: "l_leaseId (sl_lease j) \<noteq> l_leaseId (sl_lease i)" if "j \<in> set infos" for j using ids that by (metis image_eqI)
  have "lease_findById (l_leaseId (sl_lease i)) d' = lease_findById (l_leaseId (sl_lease i)) d1"
    using repairedD(3)[OF rest] other by metis
  then have "\<forall>j \<in> set (i # infos). repairable d (sl_lease j) \<longrightarrow> lease_findById (l_leaseId (sl_lease j)) d' = Some (timed_out j)"
    using repairedD(2)[OF one] repairedD(2)[OF rest] by (simp add: same)
  moreover have "lease_findById j d' = lease_findById j d"
    if "\<forall>x \<in> set (i # infos). repairable d (sl_lease x) \<longrightarrow> l_leaseId (sl_lease x) \<noteq> j" for j
    using repairedD(3)[OF one, of j] repairedD(3)[OF rest, of j] that by (simp add: same)
  moreover have "rel_option (released (\<exists>j \<in> set (i # infos). repairable d (sl_lease j) \<and> l_taskId (sl_lease j) = k))
      (task_findById k d) (task_findById k d')" for k
    using tasks1[of k] tasks2[of k] unfolding same
    by (cases "task_findById k d"; cases "task_findById k d1"; cases "task_findById k d'") (auto dest: released_trans)
  moreover have "reclaims_logged (length (filter (\<lambda>j. repairable d (sl_lease j)) (i # infos))) d d'"
    using reclaims_logged_trans[OF repairedD(6)[OF one] repairedD(6)[OF rest]] by (simp add: same split: if_splits)
  ultimately show ?thesis
    using repairedD(1)[OF rest] same_rest_trans[OF repairedD(5)[OF one] repairedD(5)[OF rest]]
    unfolding repaired_def by blast
qed

lemma reclaimStale_repairs:
  assumes "wf_db (database w)"
    and "\<forall>i \<in> set infos. lease_findById (l_leaseId (sl_lease i)) (database w) = Some (sl_lease i)"
    and "distinct (map (\<lambda>i. l_leaseId (sl_lease i)) infos)" and "inj (\<lambda>i. re_uuid (env i))"
    and "\<forall>i \<in> set infos. re_uuid (env (l_leaseId (sl_lease i))) \<notin> set (map ae_id (auditEvents (database w)))"
  shows "repaired infos (database w) (database (snd (reclaimStale env infos w)))"
  using assms(1-3,5)
proof (induction infos arbitrary: w)
  case Nil
  then show ?case by (auto simp: repaired_def released_def intro: option.rel_refl)
next
  case (Cons i infos)
  obtain r w1 where run: "reclaimLease (env (l_leaseId (sl_lease i))) (sweepReclaimParams i) w = (r, w1)" by fastforce
  have look: "lease_findById (l_leaseId (sl_lease i)) (database w) = Some (sl_lease i)"
    and new: "re_uuid (env (l_leaseId (sl_lease i))) \<notin> set (map ae_id (auditEvents (database w)))"
    using Cons.prems(2,4) by simp_all
  note one = sweep_one[OF Cons.prems(1) look new run]
  have ids: "l_leaseId (sl_lease i) \<notin> (\<lambda>j. l_leaseId (sl_lease j)) ` set infos" using Cons.prems(3) by simp
  have found: "\<forall>j \<in> set infos. lease_findById (l_leaseId (sl_lease j)) (database w1) = Some (sl_lease j)"
  proof
    fix j
    assume j: "j \<in> set infos"
    then have "l_leaseId (sl_lease i) \<noteq> l_leaseId (sl_lease j)" using ids by (metis image_eqI)
    then show "lease_findById (l_leaseId (sl_lease j)) (database w1) = Some (sl_lease j)"
      using repairedD(3)[OF one(1), of "l_leaseId (sl_lease j)"] Cons.prems(2) j by simp
  qed
  have fresh: "\<forall>j \<in> set infos. re_uuid (env (l_leaseId (sl_lease j))) \<notin> set (map ae_id (auditEvents (database w1)))"
  proof
    fix j
    assume j: "j \<in> set infos"
    then have "l_leaseId (sl_lease j) \<noteq> l_leaseId (sl_lease i)" using ids by (metis image_eqI)
    then have "re_uuid (env (l_leaseId (sl_lease j))) \<noteq> re_uuid (env (l_leaseId (sl_lease i)))"
      using injD[OF assms(4)] by blast
    moreover have "re_uuid (env (l_leaseId (sl_lease j))) \<notin> set (map ae_id (auditEvents (database w)))"
      using Cons.prems(4) j by simp
    ultimately show "re_uuid (env (l_leaseId (sl_lease j))) \<notin> set (map ae_id (auditEvents (database w1)))"
      using one(2) by blast
  qed
  have "repaired infos (database w1) (database (snd (reclaimStale env infos w1)))"
    using Cons.IH[OF repairedD(1)[OF one(1)] found _ fresh] Cons.prems(3) by simp
  from repaired_trans[OF one(1) this ids] show ?case using run by simp
qed

lemma lease_row_found:
  assumes "wf_db d" and "l \<in> set (taskLeases d)"
  shows "lease_findById (l_leaseId l) d = Some l"
  using assms find_key_Some[of l_leaseId "taskLeases d" l] by (simp add: wf_db_def lease_findById_def)

lemma stale_ids_distinct:
  assumes "wf_db d"
  shows "distinct (map (\<lambda>i. l_leaseId (sl_lease i)) (detectStaleLeases now pol d))"
proof -
  have "distinct (map l_leaseId (filter Q (taskLeases d)))" for Q
    using assms by (simp add: wf_db_def distinct_map_filter)
  then show ?thesis by (simp add: detectStaleLeases_def findStaleLeases_def classifyStaleRecord_def Let_def comp_def)
qed

text \<open>
  (C11) The first of the sweep's four repairs, \<open>sweepStaleLeases\<close>, repairs exactly the stale leases that
  can be reclaimed, provided every reclaim draws a fresh audit id.  Every lease the staleness check
  reports that is being worked on and whose task exists ends \<open>TIMED_OUT\<close> with the reason recorded, and
  its assigned or developed task is \<open>ESCALATED\<close>, without lease, one version on, and otherwise as it was,
  its retry count included; every other lease and task, a reported lease that never started included, is
  left as it was.  Besides that the repair only adds one \<open>lease.reclaimed\<close> audit row for each repaired
  lease: jobs, review cycles, pools and all other tables are unchanged.
\<close>

theorem sweep_repairs_stale_leases:
  assumes "wf_db (database w)" and "inj (\<lambda>i. re_uuid (env i))"
    and "\<forall>i. re_uuid (env i) \<notin> set (map ae_id (auditEvents (database w)))"
  shows "let d = database w; d' = database (snd (sweepStaleLeases env now pol w)); S = set (detectStaleLeases now pol d) in
    (\<forall>i \<in> S. repairable d (sl_lease i) \<longrightarrow> lease_findById (l_leaseId (sl_lease i)) d' = Some (timed_out i))
    \<and> (\<forall>j. (\<forall>i \<in> S. repairable d (sl_lease i) \<longrightarrow> l_leaseId (sl_lease i) \<noteq> j) \<longrightarrow> lease_findById j d' = lease_findById j d)
    \<and> (\<forall>k t. task_findById k d = Some t \<longrightarrow> (\<exists>t'. task_findById k d' = Some t'
        \<and> (if (\<exists>i \<in> S. repairable d (sl_lease i) \<and> l_taskId (sl_lease i) = k)
              \<and> t_status t \<in> {TaskStatus.ASSIGNED, TaskStatus.IN_DEVELOPMENT}
           then \<exists>at. t' = t\<lparr>t_status := TaskStatus.ESCALATED, t_currentLeaseId := None,
                        t_version := t_version t + 1, t_updatedAt := at\<rparr>
           else t' = t)))
    \<and> (\<forall>k. task_findById k d = None \<longrightarrow> task_findById k d' = None)
    \<and> (\<exists>new. d' = d\<lparr>tasks := tasks d', taskLeases := taskLeases d', auditEvents := auditEvents d @ new\<rparr>
        \<and> length new = length (filter (\<lambda>i. repairable d (sl_lease i)) (detectStaleLeases now pol d))
        \<and> (\<forall>a \<in> set new. ae_eventType a = ''lease.reclaimed''))"
proof -
  let ?infos = "detectStaleLeases now pol (database w)"
  have found: "\<forall>i \<in> set ?infos. lease_findById (l_leaseId (sl_lease i)) (database w) = Some (sl_lease i)"
    using lease_row_found[OF assms(1)] by (simp add: stale_iff)
  have rep: "repaired ?infos (database w) (database (snd (sweepStaleLeases env now pol w)))"
    unfolding sweepStaleLeases_def
    by (rule reclaimStale_repairs[OF assms(1) found stale_ids_distinct[OF assms(1)] assms(2)]) (use assms(3) in simp)
  let ?d' = "database (snd (sweepStaleLeases env now pol w))"
  have tasks: "\<exists>t'. task_findById k ?d' = Some t'
        \<and> (if (\<exists>i \<in> set ?infos. repairable (database w) (sl_lease i) \<and> l_taskId (sl_lease i) = k)
              \<and> t_status t \<in> {TaskStatus.ASSIGNED, TaskStatus.IN_DEVELOPMENT}
           then \<exists>at. t' = t\<lparr>t_status := TaskStatus.ESCALATED, t_currentLeaseId := None,
                        t_version := t_version t + 1, t_updatedAt := at\<rparr>
           else t' = t)" if has: "task_findById k (database w) = Some t" for k t
  proof -
    obtain t' where "task_findById k ?d' = Some t'"
      "released (\<exists>i \<in> set ?infos. repairable (database w) (sl_lease i) \<and> l_taskId (sl_lease i) = k) t t'"
      using repairedD(4)[OF rep, of k] has by (cases "task_findById k ?d'") auto
    then show ?thesis using releasedD by blast
  qed
  show ?thesis unfolding Let_def
  proof (intro conjI)
    show "\<forall>i \<in> set ?infos. repairable (database w) (sl_lease i) \<longrightarrow> lease_findById (l_leaseId (sl_lease i)) ?d' = Some (timed_out i)"
      using repairedD(2)[OF rep] by blast
    show "\<forall>j. (\<forall>i \<in> set ?infos. repairable (database w) (sl_lease i) \<longrightarrow> l_leaseId (sl_lease i) \<noteq> j)
        \<longrightarrow> lease_findById j ?d' = lease_findById j (database w)"
      using repairedD(3)[OF rep] by blast
    show "\<forall>k. task_findById k (database w) = None \<longrightarrow> task_findById k ?d' = None"
    proof (intro allI impI)
      fix k
      assume "task_findById k (database w) = None"
      with repairedD(4)[OF rep, of k] show "task_findById k ?d' = None" by simp
    qed
    show "\<exists>new. ?d' = (database w)\<lparr>tasks := tasks ?d', taskLeases := taskLeases ?d', auditEvents := auditEvents (database w) @ new\<rparr>
        \<and> length new = length (filter (\<lambda>i. repairable (database w) (sl_lease i)) ?infos)
        \<and> (\<forall>a \<in> set new. ae_eventType a = ''lease.reclaimed'')"
    proof -
      obtain new where "auditEvents ?d' = auditEvents (database w) @ new"
        "length new = length (filter (\<lambda>i. repairable (database w) (sl_lease i)) ?infos)"
        "\<forall>a \<in> set new. ae_eventType a = ''lease.reclaimed''"
        using repairedD(6)[OF rep] by (auto simp: reclaims_logged_def)
      with same_rest_frame[OF repairedD(5)[OF rep]] show ?thesis by (intro exI[of _ new]) simp
    qed
  qed (use tasks in blast)
qed

theorem sweep_repairs_stale_leases_witness:
  "lease_findById ''L1'' (database (snd (sweepStaleLeases (\<lambda>i. reclaim_env\<lparr>re_uuid := ''u'' @ i\<rparr>) 300000
      DEFAULT_STALENESS_POLICY running_world)))
    = Some (running_lease\<lparr>l_status := WorkerLeaseStatus.TIMED_OUT, l_reclaimReason := Some ''ttl_expired''\<rparr>)"
proof -
  let ?i = "\<lparr>sl_lease = running_lease, sl_reason = StalenessReason.ttl_expired\<rparr>"
  have "detectStaleLeases 300000 DEFAULT_STALENESS_POLICY (database running_world) = [?i]" by code_simp
  moreover have "inj (\<lambda>i. re_uuid (reclaim_env\<lparr>re_uuid := ''u'' @ i\<rparr>))" by (rule injI) simp
  moreover have "\<forall>i. re_uuid (reclaim_env\<lparr>re_uuid := ''u'' @ i\<rparr>) \<notin> set (map ae_id (auditEvents (database running_world)))"
    by (simp add: running_world_def lease_db_def example_db_def)
  moreover have "task_findById (l_taskId running_lease) (database running_world) \<noteq> None
      \<and> l_status running_lease = WorkerLeaseStatus.RUNNING \<and> l_leaseId running_lease = ''L1''" by code_simp
  ultimately show ?thesis
    using sweep_repairs_stale_leases[OF running_world_wf, of "\<lambda>i. reclaim_env\<lparr>re_uuid := ''u'' @ i\<rparr>" 300000 DEFAULT_STALENESS_POLICY]
    by (simp add: Let_def repairable_def timed_out_def StalenessReason_value_def)
qed

subsection \<open>The sweep renews itself\<close>

text \<open>What the repairs keep: the keys, and a job that is not among the orphans.\<close>

lemma jobs_preserved [preserves_intro]:
  "preserves (\<lambda>d. jobs d = J) (auditEvent_create uuid now ev)"
  "preserves (\<lambda>d. jobs d = J) (task_updateStatus now i k s)"
  "preserves (\<lambda>d. jobs d = J) (updateStatusWithReason l a b why)"
  "preserves (\<lambda>d. jobs d = J) (updateStatusAndRetryCount now i v q n)"
  by (auto simp: preserves_def auditEvent_create_def task_updateStatus_def task_update_def updateStatusWithReason_def
      updateStatusAndRetryCount_def lease_checkedUpdate_def lease_update_def bindT_apply Let_def split: option.split)

lemma transitionTask_frame:
  "wf_db (database w) \<Longrightarrow> wf_db (database (snd (transitionTask env i s ctx actor meta w)))
    \<and> jobs (database (snd (transitionTask env i s ctx actor meta w))) = jobs (database w)"
proof
  assume "wf_db (database w)"
  then show "wf_db (database (snd (transitionTask env i s ctx actor meta w)))"
    using serve_wf[of w "CallTask env i s ctx actor meta"] by simp
  show "jobs (database (snd (transitionTask env i s ctx actor meta w))) = jobs (database w)"
    unfolding transitionTask_def snd_apfst
    by (intro commit_preserves[where P = "\<lambda>d. jobs d = jobs (database w)"] preserves_intro refl)
qed

lemma reclaimLease_frame:
  assumes "wf_db (database w)"
  shows "wf_db (database (snd (reclaimLease env p w))) \<and> jobs (database (snd (reclaimLease env p w))) = jobs (database w)"
proof
  show "wf_db (database (snd (reclaimLease env p w)))"
    using reclaim_lease_spec[OF assms, of p env] assms by (auto split: prod.splits sum.splits)
  show "jobs (database (snd (reclaimLease env p w))) = jobs (database w)"
    unfolding reclaimLease_def snd_apfst reclaimLease_tx_def
    by (intro commit_preserves[where P = "\<lambda>d. jobs d = jobs (database w)"] preserves_intro refl)
qed

lemma reclaimStale_frame:
  "wf_db (database w) \<Longrightarrow> wf_db (database (snd (reclaimStale env infos w)))
    \<and> jobs (database (snd (reclaimStale env infos w))) = jobs (database w)"
proof (induction infos arbitrary: w)
  case (Cons i infos)
  from reclaimLease_frame[OF Cons.prems, of "env (l_leaseId (sl_lease i))" "sweepReclaimParams i"] Cons.IH
  show ?case by (auto simp: Let_def split: prod.split)
qed simp

lemma unstickTasks_frame:
  "wf_db (database w) \<Longrightarrow> wf_db (database (snd (unstickTasks env ts w)))
    \<and> jobs (database (snd (unstickTasks env ts w))) = jobs (database w)"
proof (induction ts arbitrary: w)
  case (Cons t ts)
  obtain r w1 where run: "transitionTask (env t) t TaskStatus.READY (emptyContext\<lparr>leaseReclaimedRetryEligible := Some True\<rparr>)
      SWEEP_ACTOR (Some (JObj [(''triggeredBy'', JStr ''reconciliation-sweep''),
        (''reason'', JStr ''Task stuck in ASSIGNED without active lease'')])) w = (r, w1)" by fastforce
  from transitionTask_frame[OF Cons.prems, of "env t" t] run have "wf_db (database w1)" "jobs (database w1) = jobs (database w)"
    by (metis snd_conv)+
  then show ?case using Cons.IH[of w1] run by simp
qed simp

lemma unblockTask_frame:
  "wf_db (database w) \<Longrightarrow> wf_db (database (snd (unblockTask env t w)))
    \<and> jobs (database (snd (unblockTask env t w))) = jobs (database w)"
  using transitionTask_frame[of w env t] unfolding unblockTask_def
  by (auto split: sum.split prod.split ReadinessResult.split) (metis snd_conv)+

lemma unblockTasks_frame:
  "wf_db (database w) \<Longrightarrow> wf_db (database (snd (unblockTasks env ts w)))
    \<and> jobs (database (snd (unblockTasks env ts w))) = jobs (database w)"
proof (induction ts arbitrary: w)
  case (Cons t ts)
  from unblockTask_frame[OF Cons.prems, of "env t" t] Cons.IH show ?case by (auto split: prod.split)
qed simp

lemma failJob_other:
  assumes "wf_db d" and "i \<noteq> k"
  shows "job_findById k (snd (failJob now i d)) = job_findById k d \<and> wf_db (snd (failJob now i d))"
proof
  show "wf_db (snd (failJob now i d))"
    using queue_step_moves[OF queue_step.fail assms(1), of now i "fst (failJob now i d)" "snd (failJob now i d)"] by simp
  show "job_findById k (snd (failJob now i d)) = job_findById k d"
    unfolding failJob_def
    by (rule job_move_cases[OF assms(1), where i = i and S = "set FAILABLE_STATUSES" and s = JobStatus.FAILED and now = now,
          of "EntityNotFoundError ''Job'' i"
          "\<lambda>j. InvalidTransitionError ''Job'' i (JobStatus_value (j_status j)) (JobStatus_value JobStatus.FAILED)
              (Some (''Job must be in CLAIMED or RUNNING status to fail, but is '' @ JobStatus_value (j_status j)))"
          "\<lambda>j. InvalidTransitionError ''Job'' i (JobStatus_value (j_status j)) (JobStatus_value JobStatus.FAILED)
              (Some ''Concurrent status change detected during fail transition'')"])
       (use assms(2) in \<open>simp_all add: job_findById_def find_update_where_other\<close>)
qed

lemma failOrphans_frame:
  "wf_db (database w) \<Longrightarrow> k \<notin> fst ` set os \<Longrightarrow> wf_db (database (snd (failOrphans now os w)))
    \<and> job_findById k (database (snd (failOrphans now os w))) = job_findById k (database w)"
proof (induction os arbitrary: w)
  case (Cons orphan os)
  obtain i ty where orphan: "orphan = (i, ty)" by fastforce
  from failJob_other[OF Cons.prems(1), of i k "now i"] Cons.prems(2) orphan Cons.IH show ?case
    by (auto simp: onDatabase_def split: prod.split)
qed simp

lemma runSweeps_keeps_job:
  fixes config :: ReconciliationSweepConfig and env :: sweepEnv
  defines "deadline \<equiv> sw_orphanClock env
      - (case rc_orphanedJobTimeoutMs config of None \<Rightarrow> DEFAULT_ORPHANED_JOB_TIMEOUT_MS | Some n \<Rightarrow> n)"
  assumes wf: "wf_db (database w)"
    and query: "\<And>d o'. o' \<in> set (findOrphanedJobs q ORPHANED_JOB_STATUSES deadline d) \<Longrightarrow>
      \<exists>j. job_findById (fst o') d = Some j \<and> j_updatedAt j * 1000 < deadline"
    and job: "job_findById i (database w) = Some c" "deadline \<le> j_updatedAt c * 1000"
    and run: "runSweeps q env config w = (s, w')"
  shows "wf_db (database w')" "job_findById i (database w') = Some c"
proof -
  let ?pol = "case rc_stalenessPolicy config of None \<Rightarrow> DEFAULT_STALENESS_POLICY | Some p \<Rightarrow> p"
  let ?stuck = "sw_stuckClock env - (case rc_stuckTaskTimeoutMs config of None \<Rightarrow> DEFAULT_STUCK_TASK_TIMEOUT_MS | Some n \<Rightarrow> n)"
  define w2 where "w2 = snd (reclaimStale (sw_reclaim env) (detectStaleLeases (sw_staleNow env) ?pol (database w)) w)"
  define w3 where "w3 = snd (failOrphans (sw_failNow env) (findOrphanedJobs q ORPHANED_JOB_STATUSES deadline (database w2)) w2)"
  define w4 where "w4 = snd (unstickTasks (sw_unstick env) (findStuckAssignedTasks q ?stuck (database w3)) w3)"
  have w': "w' = snd (unblockTasks (sw_unblock env) (findAllBlockedTasks q (database w4)) w4)"
    using run by (auto simp: runSweeps_def sweepStaleLeases_def sweepOrphanedJobs_def sweepStuckTasks_def
        sweepBlockedTasks_def w2_def w3_def w4_def deadline_def split: prod.splits)
  have f2: "wf_db (database w2)" "job_findById i (database w2) = Some c"
    using reclaimStale_frame[OF wf] job(1) by (simp_all add: w2_def job_findById_def)
  have "i \<notin> fst ` set (findOrphanedJobs q ORPHANED_JOB_STATUSES deadline (database w2))"
    using query[of _ "database w2"] f2(2) job(2) by fastforce
  then have f3: "wf_db (database w3)" "job_findById i (database w3) = Some c"
    using failOrphans_frame[OF f2(1)] f2(2) by (simp_all add: w3_def)
  have f4: "wf_db (database w4)" "job_findById i (database w4) = Some c"
    using unstickTasks_frame[OF f3(1)] f3(2) by (simp_all add: w4_def job_findById_def)
  then show "wf_db (database w')" "job_findById i (database w') = Some c"
    using unblockTasks_frame[OF f4(1)] by (simp_all add: w' job_findById_def)
qed

text \<open>
  A sweep survives the failures it meets.  Whatever the single repairs return, a claimed sweep job ends
  \<open>COMPLETED\<close> and a \<open>PENDING\<close> one, due an interval later, takes its place; no sweep is skipped while
  one is due.  The only error is a clash of the new job's key.  The orphan query may only report jobs
  last updated before its deadline, and the deadline must lie before the moment of the claim.
\<close>

lemma sweep_renews_itself:
  fixes config :: ReconciliationSweepConfig
  assumes "wf_db (database w)"
    and "\<And>now d x. x \<in> set (findOrphanedJobs q ORPHANED_JOB_STATUSES now d) \<Longrightarrow>
      \<exists>j. job_findById (fst x) d = Some j \<and> j_updatedAt j * 1000 < now"
    and "sw_orphanClock env - (case rc_orphanedJobTimeoutMs config of None \<Rightarrow> DEFAULT_ORPHANED_JOB_TIMEOUT_MS | Some n \<Rightarrow> n)
      \<le> sw_claimNow env div 1000 * 1000"
  shows "case processSweep q env config w of
      (Inl e, w') \<Rightarrow> sw_nextId env \<in> set (map j_jobId (jobs (database w')))
    | (Inr SweepSkippedResult, w') \<Rightarrow> w' = w
        \<and> (\<nexists>j. claimable JobType.RECONCILIATION_SWEEP (sw_claimClock env) (database w) j)
    | (Inr (SweepProcessedResult i s i'), w') \<Rightarrow>
        (\<exists>j. job_findById i (database w') = Some j \<and> j_status j = JobStatus.COMPLETED)
        \<and> (\<exists>j. job_findById i' (database w') = Some j \<and> j_status j = JobStatus.PENDING
             \<and> j_jobType j = JobType.RECONCILIATION_SWEEP
             \<and> j_runAfter j = Some ((sw_clock env
                 + (case rc_sweepIntervalMs config of None \<Rightarrow> DEFAULT_SWEEP_INTERVAL_MS | Some n \<Rightarrow> n)) div 1000))"
proof -
  let ?owner = "case rc_leaseOwner config of None \<Rightarrow> DEFAULT_SWEEP_LEASE_OWNER | Some s \<Rightarrow> s"
  let ?next = "sw_clock env + (case rc_sweepIntervalMs config of None \<Rightarrow> DEFAULT_SWEEP_INTERVAL_MS | Some n \<Rightarrow> n)"
  show ?thesis
  proof (rule claimJob_cases[OF assms(1), of JobType.RECONCILIATION_SWEEP "sw_claimClock env" "sw_claimNow env" ?owner],
      goal_cases)
    case 1
    then show ?case by (simp add: processSweep_def onDatabase_def)
  next
    case (2 j d1)
    let ?c = "claimed_job (sw_claimNow env) ?owner j" and ?w1 = "w\<lparr>database := d1\<rparr>"
    obtain s w2 where run: "runSweeps q env config ?w1 = (s, w2)" by fastforce
    have "job_findById (j_jobId j) (database w2) = Some ?c" and wf2: "wf_db (database w2)"
      using runSweeps_keeps_job[of ?w1 q env config "j_jobId j" ?c s w2] 2(5,7) assms(2,3) run
      by (simp_all add: claimed_job_def)
    note fin = completeJob_claimed[OF wf2 this(1), of "sw_completeNow env"]
    let ?m = "moved_job (sw_completeNow env) JobStatus.COMPLETED"
    let ?w3 = "w2\<lparr>database := (database w2)\<lparr>jobs := update_where (\<lambda>x. j_jobId x = j_jobId j) ?m (jobs (database w2))\<rparr>\<rparr>"
    have comp: "onDatabase (completeJob (sw_completeNow env) (j_jobId j)) w2 = (Inr (?m ?c), ?w3)"
      using fin by (simp add: onDatabase_def claimed_job_def)
    have look3: "job_findById (j_jobId j) (database ?w3) = Some (?m ?c)"
      using find_update_where_key[of j_jobId ?m "j_jobId j" "jobs (database w2)"] \<open>job_findById (j_jobId j) (database w2) = _\<close>
      by (simp add: job_findById_def)
    have step: "processSweep q env config w = (case onDatabase (createJob (sw_nextNow env) (sw_nextId env)
        (sweepJobData (Some ?next))) ?w3 of (Inl error, w4) \<Rightarrow> (Inl error, w4)
      | (Inr nextJob, w4) \<Rightarrow> (Inr (SweepProcessedResult (j_jobId j) s (j_jobId nextJob)), w4))"
      using 2(3) run comp by (simp add: processSweep_def onDatabase_def[of "claimJob _ _ _ _"] Let_def split: prod.split sum.split)
    show ?case
    proof (rule createJob_cases[of "sw_nextId env" ?w3 "sw_nextNow env" "sweepJobData (Some ?next)"], goal_cases)
      case 1
      then show ?case unfolding step by simp
    next
      case (2 k)
      let ?w4 = "?w3\<lparr>database := (database ?w3)\<lparr>jobs := jobs (database ?w3) @ [k]\<rparr>\<rparr>"
      have "\<forall>x \<in> set (jobs (database ?w3)). j_jobId x \<noteq> sw_nextId env" using 2(1) by force
      then have "job_findById (j_jobId k) (database ?w4) = Some k"
        using 2(3) by (simp add: job_findById_def find_append_None)
      moreover have "job_findById (j_jobId j) (database ?w4) = Some (?m ?c)"
        using look3 by (simp add: job_findById_def find_append_Some)
      ultimately show ?case using 2 unfolding step by (simp add: sweepJobData_def)
    qed
  qed
qed

text \<open>An instance of the queries as their documentation describes them, reading jobs by key.\<close>

definition sweep_queries :: sweepQueries where
  "sweep_queries = \<lparr>findOrphanedJobs = (\<lambda>statuses updatedBefore d. List.map_filter (\<lambda>i. case job_findById i d of
       Some j \<Rightarrow> if j_status j \<in> set statuses \<and> j_updatedAt j * 1000 < updatedBefore then Some (i, j_jobType j) else None
     | None \<Rightarrow> None) (map j_jobId (jobs d))),
     findStuckAssignedTasks = (\<lambda>updatedBefore d. map t_taskId (filter (\<lambda>t. t_updatedAt t * 1000 < updatedBefore)
       (task_findByStatus TaskStatus.ASSIGNED d))),
     findAllBlockedTasks = (\<lambda>d. map t_taskId (task_findByStatus TaskStatus.BLOCKED d))\<rparr>"

definition sweep_env :: sweepEnv where
  "sweep_env = \<lparr>sw_claimClock = 300000, sw_claimNow = 300000, sw_staleNow = 300000,
     sw_reclaim = (\<lambda>i. reclaim_env\<lparr>re_uuid := ''u'' @ i\<rparr>), sw_orphanClock = 300000, sw_failNow = (\<lambda>_. 300000),
     sw_stuckClock = 300000, sw_unstick = (\<lambda>i. example_env\<lparr>env_uuid := ''v'' @ i\<rparr>),
     sw_unblock = (\<lambda>i. example_env\<lparr>env_uuid := ''w'' @ i\<rparr>), sw_completeNow = 300000, sw_clock = 300000,
     sw_nextId = ''next'', sw_nextNow = 300000\<rparr>"

definition sweep_config :: ReconciliationSweepConfig where
  "sweep_config = \<lparr>rc_sweepIntervalMs = None, rc_orphanedJobTimeoutMs = None, rc_stuckTaskTimeoutMs = None,
     rc_leaseOwner = None, rc_stalenessPolicy = None\<rparr>"

definition sweep_world :: world where
  "sweep_world = running_world\<lparr>database := (database running_world)\<lparr>jobs :=
     [(queue_job ''sweep'' 1 [])\<lparr>j_jobType := JobType.RECONCILIATION_SWEEP\<rparr>]\<rparr>\<rparr>"

end
