(* ===== verification/Config.thy ===== *)
theory Config
  imports Store CommandPolicy FileScopePolicy "HOL-Library.AList"
begin

text \<open>
  \<open>packages/config/src\<close>: the hierarchical configuration.  \<open>resolver.ts\<close> merges partial overrides from
  ordered layers into the system defaults and records for every field which layer supplied it.

  The resolver handles the policies as plain objects.  \<open>js_object\<close> is such an object, its properties in
  insertion order; \<open>None\<close> is a property that is present and \<open>undefined\<close>, \<open>JNull\<close> is \<open>null\<close>.
\<close>

subsection \<open>Objects\<close>

type_synonym js_object = "(string \<times> json option) list"

text \<open>\<open>o[k]\<close>, \<open>undefined\<close> when there is no such property.\<close>

definition obj_get :: "js_object \<Rightarrow> string \<Rightarrow> json option" where
  "obj_get obj k = (case map_of obj k of None \<Rightarrow> None | Some v \<Rightarrow> v)"

text \<open>\<open>a ?? b\<close>.\<close>

definition js_coalesce :: "json option \<Rightarrow> json option \<Rightarrow> json option" where
  "js_coalesce a b = (if a = None \<or> a = Some JNull then b else a)"

text \<open>One line \<open>k: override.k ?? base.k\<close> of a merge function.\<close>

definition pick :: "js_object \<Rightarrow> js_object \<Rightarrow> string \<Rightarrow> string \<times> json option" where
  "pick base ov k = (k, js_coalesce (obj_get ov k) (obj_get base k))"

subsection \<open>Layers\<close>

definition CONFIG_LAYER_PRECEDENCE :: "string list" where
  "CONFIG_LAYER_PRECEDENCE = [''system'', ''environment'', ''organization'', ''repository_workflow'',
     ''pool'', ''task_type'', ''task'', ''operator_override'']"

datatype PolicyName =
    command_policy | file_scope_policy | validation_policy | retry_policy
  | escalation_policy | lease_policy | retention_policy | review_policy

definition POLICY_NAMES :: "PolicyName list" where
  "POLICY_NAMES = [command_policy, file_scope_policy, validation_policy, retry_policy,
     escalation_policy, lease_policy, retention_policy, review_policy]"

type_synonym FactoryConfig = "PolicyName \<Rightarrow> js_object"
type_synonym PartialFactoryConfig = "PolicyName \<Rightarrow> js_object option"

record ConfigLayerEntry =
  ce_layer :: string
  ce_source :: string
  ce_config :: PartialFactoryConfig

record ResolvedFieldSource =
  fs_layer :: string
  fs_source :: string

type_synonym FieldSourceMap = "(string \<times> ResolvedFieldSource) list"

record ResolvedPolicy =
  resolved_value :: js_object
  fieldSources :: FieldSourceMap

type_synonym ResolvedConfig = "PolicyName \<Rightarrow> ResolvedPolicy"

datatype config_error =
    UnknownConfigurationLayer string
  | LayersOutOfOrder string int int

subsection \<open>Merging\<close>

definition mergeCommandPolicy :: "js_object \<Rightarrow> js_object \<Rightarrow> js_object" where
  "mergeCommandPolicy base ov = map (pick base ov)
     [''mode'', ''allowed_commands'', ''denied_patterns'', ''forbidden_arg_patterns'',
      ''allow_shell_operators'', ''on_violation'']"

definition mergeFileScopePolicy :: "js_object \<Rightarrow> js_object \<Rightarrow> js_object" where
  "mergeFileScopePolicy base ov = map (pick base ov)
     [''read_roots'', ''write_roots'', ''deny_roots'', ''allow_read_outside_scope'',
      ''allow_write_outside_scope'', ''on_violation'']"

definition mergeValidationPolicies :: "js_object \<Rightarrow> js_object \<Rightarrow> js_object" where
  "mergeValidationPolicies base ov = map (pick base ov) [''profiles'']"

definition mergeRetryPolicies :: "js_object \<Rightarrow> js_object \<Rightarrow> js_object" where
  "mergeRetryPolicies base ov = map (pick base ov)
     [''max_attempts'', ''backoff_strategy'', ''initial_backoff_seconds'', ''max_backoff_seconds'',
      ''reuse_same_pool'', ''allow_pool_change_after_failure'', ''require_failure_summary_packet'']"

definition mergeEscalationPolicies :: "js_object \<Rightarrow> js_object \<Rightarrow> js_object" where
  "mergeEscalationPolicies base ov = map (pick base ov) [''triggers'', ''route_to'', ''require_summary'']"

definition mergeLeasePolicies :: "js_object \<Rightarrow> js_object \<Rightarrow> js_object" where
  "mergeLeasePolicies base ov = map (pick base ov)
     [''lease_ttl_seconds'', ''heartbeat_interval_seconds'', ''missed_heartbeat_threshold'',
      ''grace_period_seconds'', ''reclaim_action'']"

definition mergeRetentionPolicies :: "js_object \<Rightarrow> js_object \<Rightarrow> js_object" where
  "mergeRetentionPolicies base ov = map (pick base ov)
     [''workspace_retention_hours'', ''artifact_retention_days'', ''retain_failed_workspaces'',
      ''retain_escalated_workspaces'']"

definition mergeReviewPolicies :: "js_object \<Rightarrow> js_object \<Rightarrow> js_object" where
  "mergeReviewPolicies base ov = map (pick base ov)
     [''max_review_rounds'', ''required_reviewer_types'', ''optional_reviewer_types'',
      ''lead_reviewer_required'']"

fun MERGE_FUNCTIONS :: "PolicyName \<Rightarrow> js_object \<Rightarrow> js_object \<Rightarrow> js_object" where
  "MERGE_FUNCTIONS command_policy = mergeCommandPolicy"
| "MERGE_FUNCTIONS file_scope_policy = mergeFileScopePolicy"
| "MERGE_FUNCTIONS validation_policy = mergeValidationPolicies"
| "MERGE_FUNCTIONS retry_policy = mergeRetryPolicies"
| "MERGE_FUNCTIONS escalation_policy = mergeEscalationPolicies"
| "MERGE_FUNCTIONS lease_policy = mergeLeasePolicies"
| "MERGE_FUNCTIONS retention_policy = mergeRetentionPolicies"
| "MERGE_FUNCTIONS review_policy = mergeReviewPolicies"

subsection \<open>Resolution\<close>

definition initFieldSources :: "js_object \<Rightarrow> ResolvedFieldSource \<Rightarrow> FieldSourceMap" where
  "initFieldSources policy src = map (\<lambda>(key, _). (key, src)) policy"

definition updateFieldSources :: "FieldSourceMap \<Rightarrow> js_object \<Rightarrow> ResolvedFieldSource \<Rightarrow> FieldSourceMap" where
  "updateFieldSources currentSources ov newSource =
    fold (\<lambda>(key, _) updated. if obj_get ov key \<noteq> None then AList.update key newSource updated else updated)
      ov currentSources"

definition getLayerPrecedence :: "string \<Rightarrow> config_error + int" where
  "getLayerPrecedence layer =
    (if layer \<notin> set CONFIG_LAYER_PRECEDENCE then Inl (UnknownConfigurationLayer layer)
     else Inr (int (length (takeWhile (\<lambda>l. l \<noteq> layer) CONFIG_LAYER_PRECEDENCE))))"

fun validateLayerOrder_loop :: "int \<Rightarrow> ConfigLayerEntry list \<Rightarrow> config_error option" where
  "validateLayerOrder_loop lastPrecedence [] = None"
| "validateLayerOrder_loop lastPrecedence (entry # rest) =
    (case getLayerPrecedence (ce_layer entry) of
       Inl e \<Rightarrow> Some e
     | Inr precedence \<Rightarrow>
         if precedence < lastPrecedence then Some (LayersOutOfOrder (ce_layer entry) precedence lastPrecedence)
         else validateLayerOrder_loop precedence rest)"

definition validateLayerOrder :: "ConfigLayerEntry list \<Rightarrow> config_error option" where
  "validateLayerOrder layers = validateLayerOrder_loop (- 1) layers"

definition systemSource :: ResolvedFieldSource where
  "systemSource = \<lparr>fs_layer = ''system'', fs_source = ''system-defaults''\<rparr>"

definition initState :: "FactoryConfig \<Rightarrow> ResolvedConfig" where
  "initState systemDefaults = (\<lambda>p. \<lparr>resolved_value = systemDefaults p,
     fieldSources = initFieldSources (systemDefaults p) systemSource\<rparr>)"

definition applyPolicy :: "ConfigLayerEntry \<Rightarrow> PolicyName \<Rightarrow> ResolvedConfig \<Rightarrow> ResolvedConfig" where
  "applyPolicy entry policyName state =
    (case ce_config entry policyName of
       None \<Rightarrow> state
     | Some ov \<Rightarrow>
         let current = state policyName;
             layerSource = \<lparr>fs_layer = ce_layer entry, fs_source = ce_source entry\<rparr>
         in state(policyName :=
              \<lparr>resolved_value = MERGE_FUNCTIONS policyName (resolved_value current) ov,
               fieldSources = updateFieldSources (fieldSources current) ov layerSource\<rparr>))"

definition applyLayer :: "ConfigLayerEntry \<Rightarrow> ResolvedConfig \<Rightarrow> ResolvedConfig" where
  "applyLayer entry state = fold (applyPolicy entry) POLICY_NAMES state"

definition resolveConfig :: "ConfigLayerEntry list \<Rightarrow> FactoryConfig \<Rightarrow> config_error + ResolvedConfig" where
  "resolveConfig layers systemDefaults =
    (case validateLayerOrder layers of
       Some e \<Rightarrow> Inl e
     | None \<Rightarrow> Inr (fold applyLayer layers (initState systemDefaults)))"

definition extractValues :: "ResolvedConfig \<Rightarrow> FactoryConfig" where
  "extractValues resolved = (\<lambda>p. resolved_value (resolved p))"

definition extractSources :: "ResolvedConfig \<Rightarrow> PolicyName \<Rightarrow> FieldSourceMap" where
  "extractSources resolved = (\<lambda>p. fieldSources (resolved p))"

subsection \<open>System defaults\<close>

definition json_strings :: "string list \<Rightarrow> json" where
  "json_strings xs = JArr (map JStr xs)"

fun json_of_mode :: "CommandPolicyMode \<Rightarrow> json" where
  "json_of_mode ALLOWLIST = JStr ''allowlist''"
| "json_of_mode DENYLIST = JStr ''denylist''"

fun json_of_command_action :: "CommandViolationAction \<Rightarrow> json" where
  "json_of_command_action CommandViolationAction.FAIL_RUN = JStr ''fail_run''"
| "json_of_command_action DENY_COMMAND = JStr ''deny_command''"
| "json_of_command_action CommandViolationAction.AUDIT_ONLY = JStr ''audit_only''"

fun json_of_scope_action :: "FileScopeViolationAction \<Rightarrow> json" where
  "json_of_scope_action FileScopeViolationAction.FAIL_RUN = JStr ''fail_run''"
| "json_of_scope_action DENY_ACCESS = JStr ''deny_access''"
| "json_of_scope_action FileScopeViolationAction.AUDIT_ONLY = JStr ''audit_only''"

text \<open>The two policies modelled as records, as the objects they are.\<close>

definition command_policy_object :: "CommandPolicy \<Rightarrow> js_object" where
  "command_policy_object c =
    [(''mode'', Some (json_of_mode (mode c))),
     (''allowed_commands'', Some (JArr (map (\<lambda>a. JObj [(''command'', JStr (allowed_command a)),
        (''arg_prefixes'', json_strings (arg_prefixes a))]) (allowed_commands c)))),
     (''denied_patterns'', Some (JArr (map (\<lambda>d. JObj [(''pattern'', JStr (denied_pattern d)),
        (''reason'', JStr (denied_reason d))]) (denied_patterns c)))),
     (''forbidden_arg_patterns'', Some (JArr (map (\<lambda>f. JObj [(''pattern'', JStr (forbidden_pattern f)),
        (''reason'', JStr (forbidden_reason f))]) (forbidden_arg_patterns c)))),
     (''allow_shell_operators'', Some (JBool (allow_shell_operators c))),
     (''on_violation'', Some (json_of_command_action (on_violation c)))]"

definition file_scope_policy_object :: "FileScopePolicy \<Rightarrow> js_object" where
  "file_scope_policy_object f =
    [(''read_roots'', Some (json_strings (read_roots f))), (''write_roots'', Some (json_strings (write_roots f))),
     (''deny_roots'', Some (json_strings (deny_roots f))),
     (''allow_read_outside_scope'', Some (JBool (allow_read_outside_scope f))),
     (''allow_write_outside_scope'', Some (JBool (allow_write_outside_scope f))),
     (''on_violation'', Some (json_of_scope_action (scope_on_violation f)))]"

definition DEFAULT_VALIDATION_POLICY :: js_object where
  "DEFAULT_VALIDATION_POLICY =
    [(''profiles'', Some (JObj
       [(''default-dev'', JObj
          [(''required_checks'', json_strings [''test'', ''lint'']), (''optional_checks'', json_strings [''build'']),
           (''commands'', JObj [(''test'', JStr ''pnpm test''), (''lint'', JStr ''pnpm lint''),
              (''build'', JStr ''pnpm build'')]),
           (''fail_on_skipped_required_check'', JBool True)]),
        (''merge-gate'', JObj
          [(''required_checks'', json_strings [''test'', ''build'']), (''optional_checks'', json_strings [''lint'']),
           (''commands'', JObj [(''test'', JStr ''pnpm test''), (''build'', JStr ''pnpm build''),
              (''lint'', JStr ''pnpm lint'')]),
           (''fail_on_skipped_required_check'', JBool True)])]))]"

definition DEFAULT_RETRY_POLICY :: js_object where
  "DEFAULT_RETRY_POLICY =
    [(''max_attempts'', Some (JNum 2)), (''backoff_strategy'', Some (JStr ''exponential'')),
     (''initial_backoff_seconds'', Some (JNum 60)), (''max_backoff_seconds'', Some (JNum 900)),
     (''reuse_same_pool'', Some (JBool True)), (''allow_pool_change_after_failure'', Some (JBool True)),
     (''require_failure_summary_packet'', Some (JBool True))]"

definition DEFAULT_ESCALATION_POLICY :: js_object where
  "DEFAULT_ESCALATION_POLICY =
    [(''triggers'', Some (JObj
       [(''max_retry_exceeded'', JStr ''escalate''), (''max_review_rounds_exceeded'', JStr ''escalate''),
        (''policy_violation'', JStr ''escalate''), (''merge_failure_after_retries'', JStr ''escalate''),
        (''heartbeat_timeout'', JStr ''retry_or_escalate''),
        (''schema_validation_failure'', JStr ''fail_and_escalate''),
        (''repeated_schema_failures'', JStr ''disable_profile_and_escalate'')])),
     (''route_to'', Some (JStr ''operator-queue'')), (''require_summary'', Some (JBool True))]"

definition DEFAULT_LEASE_POLICY :: js_object where
  "DEFAULT_LEASE_POLICY =
    [(''lease_ttl_seconds'', Some (JNum 1800)), (''heartbeat_interval_seconds'', Some (JNum 30)),
     (''missed_heartbeat_threshold'', Some (JNum 2)), (''grace_period_seconds'', Some (JNum 15)),
     (''reclaim_action'', Some (JStr ''mark_timed_out_and_requeue''))]"

definition DEFAULT_RETENTION_POLICY :: js_object where
  "DEFAULT_RETENTION_POLICY =
    [(''workspace_retention_hours'', Some (JNum 24)), (''artifact_retention_days'', Some (JNum 30)),
     (''retain_failed_workspaces'', Some (JBool True)), (''retain_escalated_workspaces'', Some (JBool True))]"

definition DEFAULT_REVIEW_POLICY :: js_object where
  "DEFAULT_REVIEW_POLICY =
    [(''max_review_rounds'', Some (JNum 3)), (''required_reviewer_types'', Some (json_strings [''general''])),
     (''optional_reviewer_types'', Some (json_strings [''security'', ''performance''])),
     (''lead_reviewer_required'', Some (JBool True))]"

fun SYSTEM_DEFAULTS :: FactoryConfig where
  "SYSTEM_DEFAULTS command_policy = command_policy_object DEFAULT_COMMAND_POLICY"
| "SYSTEM_DEFAULTS file_scope_policy = file_scope_policy_object DEFAULT_FILE_SCOPE_POLICY"
| "SYSTEM_DEFAULTS validation_policy = DEFAULT_VALIDATION_POLICY"
| "SYSTEM_DEFAULTS retry_policy = DEFAULT_RETRY_POLICY"
| "SYSTEM_DEFAULTS escalation_policy = DEFAULT_ESCALATION_POLICY"
| "SYSTEM_DEFAULTS lease_policy = DEFAULT_LEASE_POLICY"
| "SYSTEM_DEFAULTS retention_policy = DEFAULT_RETENTION_POLICY"
| "SYSTEM_DEFAULTS review_policy = DEFAULT_REVIEW_POLICY"

subsection \<open>Which layer wins\<close>

text \<open>The fields of each policy, and the layers that set one of them, with the values they give.\<close>

fun fields_of :: "PolicyName \<Rightarrow> string list" where
  "fields_of command_policy = [''mode'', ''allowed_commands'', ''denied_patterns'', ''forbidden_arg_patterns'',
     ''allow_shell_operators'', ''on_violation'']"
| "fields_of file_scope_policy = [''read_roots'', ''write_roots'', ''deny_roots'', ''allow_read_outside_scope'',
     ''allow_write_outside_scope'', ''on_violation'']"
| "fields_of validation_policy = [''profiles'']"
| "fields_of retry_policy = [''max_attempts'', ''backoff_strategy'', ''initial_backoff_seconds'',
     ''max_backoff_seconds'', ''reuse_same_pool'', ''allow_pool_change_after_failure'',
     ''require_failure_summary_packet'']"
| "fields_of escalation_policy = [''triggers'', ''route_to'', ''require_summary'']"
| "fields_of lease_policy = [''lease_ttl_seconds'', ''heartbeat_interval_seconds'', ''missed_heartbeat_threshold'',
     ''grace_period_seconds'', ''reclaim_action'']"
| "fields_of retention_policy = [''workspace_retention_hours'', ''artifact_retention_days'',
     ''retain_failed_workspaces'', ''retain_escalated_workspaces'']"
| "fields_of review_policy = [''max_review_rounds'', ''required_reviewer_types'', ''optional_reviewer_types'',
     ''lead_reviewer_required'']"

definition entry_source :: "ConfigLayerEntry \<Rightarrow> ResolvedFieldSource" where
  "entry_source e = \<lparr>fs_layer = ce_layer e, fs_source = ce_source e\<rparr>"

definition set_by :: "PolicyName \<Rightarrow> string \<Rightarrow> ConfigLayerEntry \<Rightarrow> json option" where
  "set_by p k e = (case ce_config e p of None \<Rightarrow> None | Some ov \<Rightarrow> obj_get ov k)"

definition setters :: "PolicyName \<Rightarrow> string \<Rightarrow> ConfigLayerEntry list \<Rightarrow> (ResolvedFieldSource \<times> json) list" where
  "setters p k layers = List.map_filter (\<lambda>e. map_option (Pair (entry_source e)) (set_by p k e)) layers"

definition layer_rank :: "string \<Rightarrow> nat" where
  "layer_rank l = length (takeWhile (\<lambda>x. x \<noteq> l) CONFIG_LAYER_PRECEDENCE)"

definition in_order :: "ConfigLayerEntry list \<Rightarrow> bool" where
  "in_order layers \<longleftrightarrow> set (map ce_layer layers) \<subseteq> set CONFIG_LAYER_PRECEDENCE
     \<and> sorted (map (layer_rank \<circ> ce_layer) layers)"

lemma merge_fields: "MERGE_FUNCTIONS p base ov = map (pick base ov) (fields_of p)"
  by (cases p) (simp_all add: mergeCommandPolicy_def mergeFileScopePolicy_def mergeValidationPolicies_def
      mergeRetryPolicies_def mergeEscalationPolicies_def mergeLeasePolicies_def mergeRetentionPolicies_def
      mergeReviewPolicies_def)

lemma obj_get_merge:
  "obj_get (MERGE_FUNCTIONS p base ov) k
    = (if k \<in> set (fields_of p) then js_coalesce (obj_get ov k) (obj_get base k) else None)"
proof -
  have "map_of (map (pick base ov) ks) k
      = (if k \<in> set ks then Some (js_coalesce (obj_get ov k) (obj_get base k)) else None)" for ks
    by (induction ks) (auto simp: pick_def)
  then show ?thesis by (simp add: obj_get_def merge_fields)
qed

lemma obj_get_key: "obj_get obj k \<noteq> None \<Longrightarrow> k \<in> fst ` set obj"
  by (auto simp: obj_get_def split: option.splits dest: map_of_SomeD intro: rev_image_eqI)

lemma map_of_updateFieldSources:
  "map_of (updateFieldSources cur ov new) k = (if obj_get ov k \<noteq> None then Some new else map_of cur k)"
proof -
  have "map_of (fold (\<lambda>(key, _) u. if Q key then AList.update key new u else u) xs cur) k
      = (if Q k \<and> k \<in> fst ` set xs then Some new else map_of cur k)" for Q and xs :: js_object
    by (induction xs arbitrary: cur) (auto simp: update_conv')
  then show ?thesis using obj_get_key[of ov k] by (auto simp: updateFieldSources_def)
qed

text \<open>What a layer does to one policy.\<close>

definition apply_one :: "ConfigLayerEntry \<Rightarrow> PolicyName \<Rightarrow> ResolvedPolicy \<Rightarrow> ResolvedPolicy" where
  "apply_one e p r = (case ce_config e p of
     None \<Rightarrow> r
   | Some ov \<Rightarrow> \<lparr>resolved_value = MERGE_FUNCTIONS p (resolved_value r) ov,
       fieldSources = updateFieldSources (fieldSources r) ov (entry_source e)\<rparr>)"

lemma applyPolicy_upd: "applyPolicy e p st = st(p := apply_one e p (st p))"
  by (auto simp: applyPolicy_def apply_one_def entry_source_def Let_def split: option.split)

lemma applyLayer_pointwise: "applyLayer e st p = apply_one e p (st p)"
proof -
  have "distinct ps \<Longrightarrow> fold (applyPolicy e) ps st p = (if p \<in> set ps then apply_one e p (st p) else st p)" for ps
    by (induction ps arbitrary: st) (auto simp: applyPolicy_upd)
  moreover have "distinct POLICY_NAMES" "p \<in> set POLICY_NAMES" by (simp_all add: POLICY_NAMES_def) (cases p; simp)
  ultimately show ?thesis by (simp add: applyLayer_def)
qed

lemma setters_snoc: "setters p k (layers @ [e]) = setters p k layers
    @ (case set_by p k e of None \<Rightarrow> [] | Some v \<Rightarrow> [(entry_source e, v)])"
  by (simp add: setters_def map_filter_def split: option.split)

text \<open>The layer that wins a field, with the value it gives: the last setter, or the system defaults.\<close>

definition winner :: "FactoryConfig \<Rightarrow> PolicyName \<Rightarrow> string \<Rightarrow> ConfigLayerEntry list \<Rightarrow> ResolvedFieldSource \<times> json option" where
  "winner defaults p k layers = (let xs = setters p k layers in
     if xs = [] then (systemSource, obj_get (defaults p) k) else (fst (last xs), Some (snd (last xs))))"

lemma winner_snoc: "winner defaults p k (layers @ [e])
    = (case set_by p k e of None \<Rightarrow> winner defaults p k layers | Some v \<Rightarrow> (entry_source e, Some v))"
  by (simp add: winner_def setters_snoc Let_def split: option.split)

text \<open>The value of a field: the last one given to it that is not \<open>null\<close>, or the default.\<close>

definition given_value :: "FactoryConfig \<Rightarrow> PolicyName \<Rightarrow> string \<Rightarrow> ConfigLayerEntry list \<Rightarrow> json option" where
  "given_value defaults p k layers = (let xs = filter (\<lambda>x. snd x \<noteq> JNull) (setters p k layers) in
     if xs = [] then obj_get (defaults p) k else Some (snd (last xs)))"

lemma given_value_snoc: "given_value defaults p k (layers @ [e])
    = (case set_by p k e of Some v \<Rightarrow> if v = JNull then given_value defaults p k layers else Some v
       | None \<Rightarrow> given_value defaults p k layers)"
  by (simp add: given_value_def setters_snoc Let_def split: option.split)

lemma resolved_field:
  assumes "k \<in> set (fields_of p)" and "k \<in> fst ` set (defaults p)"
  shows "obj_get (resolved_value (fold applyLayer layers (initState defaults) p)) k = given_value defaults p k layers
    \<and> map_of (fieldSources (fold applyLayer layers (initState defaults) p)) k = Some (fst (winner defaults p k layers))"
proof (induction layers rule: rev_induct)
  case Nil
  have "map_of (map (\<lambda>(key, _). (key, src)) obj) k = Some src" if "k \<in> fst ` set obj" for obj :: js_object and src :: ResolvedFieldSource
    using that by (induction obj) auto
  then show ?case using assms(2)
    by (simp add: winner_def given_value_def setters_def map_filter_def initState_def initFieldSources_def)
next
  case (snoc e layers)
  then show ?case using assms(1)
    by (auto simp: applyLayer_pointwise winner_snoc given_value_snoc apply_one_def set_by_def obj_get_merge js_coalesce_def
        map_of_updateFieldSources split: option.splits)
qed

lemma validateLayerOrder_loop_None:
  "validateLayerOrder_loop m layers = None \<longleftrightarrow>
    in_order layers \<and> (\<forall>e \<in> set layers. m \<le> int (layer_rank (ce_layer e)))"
  by (induction layers arbitrary: m)
     (force simp: getLayerPrecedence_def in_order_def layer_rank_def)+

lemma setters_mem: "x \<in> set (setters p k layers) \<Longrightarrow> \<exists>e \<in> set layers. fst x = entry_source e"
  by (auto simp: setters_def map_filter_def)

lemma last_setter_highest:
  assumes "in_order layers" and "x \<in> set (setters p k layers)"
  shows "layer_rank (fs_layer (fst x)) \<le> layer_rank (fs_layer (fst (winner defaults p k layers)))"
  using assms
proof (induction layers rule: rev_induct)
  case (snoc e layers)
  have o: "in_order layers" "\<And>e'. e' \<in> set layers \<Longrightarrow> layer_rank (ce_layer e') \<le> layer_rank (ce_layer e)"
    using snoc.prems(1) by (auto simp: in_order_def sorted_append)
  show ?case
  proof (cases "set_by p k e")
    case None
    then show ?thesis using snoc o(1) by (simp add: winner_snoc setters_snoc)
  next
    case (Some v)
    show ?thesis
    proof (cases "x \<in> set (setters p k layers)")
      case True
      then obtain e' where "e' \<in> set layers" "fst x = entry_source e'" using setters_mem by blast
      then show ?thesis using Some o(2) by (simp add: winner_snoc entry_source_def)
    next
      case False
      then show ?thesis using Some snoc.prems(2) by (simp add: winner_snoc setters_snoc entry_source_def)
    qed
  qed
qed (simp add: setters_def map_filter_def)

text \<open>
  (C39) The configuration is resolved by precedence, for defaults that have every field.  Resolution fails exactly
  when a layer is unknown or the layers are out of order.  Otherwise each field of each policy has the last
  value that a layer gives it, a \<open>null\<close> not counting, or the default if there is none; its recorded source
  is the last layer that sets it, a \<open>null\<close> counting, or the system defaults, and no layer that sets the
  field ranks above that one.  So a \<open>null\<close> leaves the value and changes its source
  (\<open>null_override_misattributed\<close>).
\<close>

theorem resolve_config_exact:
  assumes "\<And>p. set (fields_of p) \<subseteq> fst ` set (defaults p)"
  shows "case resolveConfig layers defaults of
      Inl e \<Rightarrow> \<not> in_order layers
    | Inr r \<Rightarrow> in_order layers \<and> (\<forall>p. \<forall>k \<in> set (fields_of p).
        obj_get (extractValues r p) k = given_value defaults p k layers
        \<and> map_of (extractSources r p) k = Some (fst (winner defaults p k layers))
        \<and> (\<forall>x \<in> set (setters p k layers).
             layer_rank (fs_layer (fst x)) \<le> layer_rank (fs_layer (fst (winner defaults p k layers)))))"
proof (cases "validateLayerOrder layers")
  case None
  then have "in_order layers" by (simp add: validateLayerOrder_def validateLayerOrder_loop_None)
  moreover have "k \<in> fst ` set (defaults p)" if "k \<in> set (fields_of p)" for p k using assms that by blast
  ultimately show ?thesis using None resolved_field last_setter_highest
    by (simp add: resolveConfig_def extractValues_def extractSources_def)
next
  case (Some e)
  have "\<forall>e \<in> set layers. (- 1) \<le> int (layer_rank (ce_layer e))" by simp
  then have "\<not> in_order layers"
    using Some validateLayerOrder_loop_None[of "- 1" layers] by (auto simp: validateLayerOrder_def)
  then show ?thesis using Some by (simp add: resolveConfig_def)
qed

definition example_layers :: "ConfigLayerEntry list" where
  "example_layers =
    [\<lparr>ce_layer = ''organization'', ce_source = ''project:p'', ce_config = (\<lambda>q. if q = lease_policy
        then Some [(''lease_ttl_seconds'', Some (JNum 3600)), (''grace_period_seconds'', Some (JNum 30))] else None)\<rparr>,
     \<lparr>ce_layer = ''task'', ce_source = ''task:t'', ce_config = (\<lambda>q. if q = lease_policy
        then Some [(''lease_ttl_seconds'', Some (JNum 60)), (''grace_period_seconds'', Some JNull)] else None)\<rparr>]"

lemma system_defaults_complete: "set (fields_of p) \<subseteq> fst ` set (SYSTEM_DEFAULTS p)"
  by (cases p) (simp_all add: command_policy_object_def file_scope_policy_object_def DEFAULT_VALIDATION_POLICY_def
      DEFAULT_RETRY_POLICY_def DEFAULT_ESCALATION_POLICY_def DEFAULT_LEASE_POLICY_def DEFAULT_RETENTION_POLICY_def
      DEFAULT_REVIEW_POLICY_def)

theorem resolve_config_exact_witness:
  "\<exists>r. resolveConfig example_layers SYSTEM_DEFAULTS = Inr r
     \<and> obj_get (extractValues r lease_policy) ''lease_ttl_seconds'' = Some (JNum 60)
     \<and> obj_get (extractValues r lease_policy) ''grace_period_seconds'' = Some (JNum 30)
     \<and> map_of (extractSources r lease_policy) ''grace_period_seconds'' = Some \<lparr>fs_layer = ''task'', fs_source = ''task:t''\<rparr>
     \<and> map_of (extractSources r retry_policy) ''max_attempts'' = Some systemSource"
proof -
  have "validateLayerOrder example_layers = None" by code_simp
  then obtain r where r: "resolveConfig example_layers SYSTEM_DEFAULTS = Inr r" by (simp add: resolveConfig_def)
  have w: "given_value SYSTEM_DEFAULTS lease_policy ''lease_ttl_seconds'' example_layers = Some (JNum 60)"
      "given_value SYSTEM_DEFAULTS lease_policy ''grace_period_seconds'' example_layers = Some (JNum 30)"
      "fst (winner SYSTEM_DEFAULTS lease_policy ''grace_period_seconds'' example_layers)
        = \<lparr>fs_layer = ''task'', fs_source = ''task:t''\<rparr>"
      "fst (winner SYSTEM_DEFAULTS retry_policy ''max_attempts'' example_layers) = systemSource"
    by (simp_all add: given_value_def winner_def setters_def map_filter_def example_layers_def set_by_def obj_get_def entry_source_def)
  from resolve_config_exact[OF system_defaults_complete, of example_layers] r
  have "\<forall>p. \<forall>k \<in> set (fields_of p). obj_get (extractValues r p) k = given_value SYSTEM_DEFAULTS p k example_layers
      \<and> map_of (extractSources r p) k = Some (fst (winner SYSTEM_DEFAULTS p k example_layers))" by simp
  then have "\<And>p k. k \<in> set (fields_of p) \<Longrightarrow> obj_get (extractValues r p) k = given_value SYSTEM_DEFAULTS p k example_layers"
    "\<And>p k. k \<in> set (fields_of p) \<Longrightarrow> map_of (extractSources r p) k = Some (fst (winner SYSTEM_DEFAULTS p k example_layers))"
    by blast+
  then show ?thesis using r w by simp
qed

text \<open>
  A \<open>null\<close> in an override is passed over by the merge but counted by the source tracking: the value stays
  and its source changes.
\<close>

lemma null_override_misattributed:
  assumes "k \<in> set (fields_of p)" and "set_by p k e = Some JNull"
  shows "obj_get (resolved_value (applyLayer e st p)) k = obj_get (resolved_value (st p)) k"
    "map_of (fieldSources (applyLayer e st p)) k = Some (entry_source e)"
  using assms by (auto simp: applyLayer_pointwise apply_one_def set_by_def obj_get_merge js_coalesce_def
      map_of_updateFieldSources split: option.splits)

subsection \<open>Types\<close>

text \<open>
  The types the policies declare for their fields.  Command and file scope policies are the interfaces of
  \<open>@factory/domain\<close>, with their enumerations and the elements of their lists; the other six are inferred from
  the schemas of \<open>@factory/schemas\<close>, whose bounds on numbers and texts are kept (\<open>Whole m\<close> is a whole number
  of at least \<open>m\<close>).  \<open>RecordOf\<close> is an object with arbitrary keys, \<open>Fields\<close> one with the named properties.
\<close>

datatype shape = Whole int | Boolean | Text | NonEmptyText | OneOf "string list" | ListOf shape | RecordOf shape
  | Fields "(string \<times> shape) list"

fun has_shape :: "shape \<Rightarrow> json \<Rightarrow> bool" where
  "has_shape (Whole m) j = (case j of JNum n \<Rightarrow> m \<le> n | _ \<Rightarrow> False)"
| "has_shape Boolean j = (case j of JBool _ \<Rightarrow> True | _ \<Rightarrow> False)"
| "has_shape Text j = (case j of JStr _ \<Rightarrow> True | _ \<Rightarrow> False)"
| "has_shape NonEmptyText j = (case j of JStr t \<Rightarrow> t \<noteq> [] | _ \<Rightarrow> False)"
| "has_shape (OneOf ts) j = (case j of JStr t \<Rightarrow> t \<in> set ts | _ \<Rightarrow> False)"
| "has_shape (ListOf s) j = (case j of JArr xs \<Rightarrow> (\<forall>x \<in> set xs. has_shape s x) | _ \<Rightarrow> False)"
| "has_shape (RecordOf s) j = (case j of JObj kvs \<Rightarrow> (\<forall>kv \<in> set kvs. has_shape s (snd kv)) | _ \<Rightarrow> False)"
| "has_shape (Fields fs) j = (case j of
     JObj kvs \<Rightarrow> (\<forall>(k, s) \<in> set fs. case map_of kvs k of None \<Rightarrow> False | Some v \<Rightarrow> has_shape s v)
   | _ \<Rightarrow> False)"

definition pattern_shape :: shape where
  "pattern_shape = Fields [(''pattern'', Text), (''reason'', Text)]"

definition profile_shape :: shape where
  "profile_shape = Fields [(''required_checks'', ListOf Text), (''optional_checks'', ListOf Text),
     (''commands'', RecordOf Text), (''fail_on_skipped_required_check'', Boolean)]"

fun shape_of :: "PolicyName \<Rightarrow> (string \<times> shape) list" where
  "shape_of command_policy = [(''mode'', OneOf [''allowlist'', ''denylist'']),
     (''allowed_commands'', ListOf (Fields [(''command'', Text), (''arg_prefixes'', ListOf Text)])),
     (''denied_patterns'', ListOf pattern_shape), (''forbidden_arg_patterns'', ListOf pattern_shape),
     (''allow_shell_operators'', Boolean), (''on_violation'', OneOf [''fail_run'', ''deny_command'', ''audit_only''])]"
| "shape_of file_scope_policy = [(''read_roots'', ListOf Text), (''write_roots'', ListOf Text),
     (''deny_roots'', ListOf Text), (''allow_read_outside_scope'', Boolean), (''allow_write_outside_scope'', Boolean),
     (''on_violation'', OneOf [''fail_run'', ''deny_access'', ''audit_only''])]"
| "shape_of validation_policy = [(''profiles'', RecordOf profile_shape)]"
| "shape_of retry_policy = [(''max_attempts'', Whole 0), (''backoff_strategy'', NonEmptyText),
     (''initial_backoff_seconds'', Whole 1), (''max_backoff_seconds'', Whole 1), (''reuse_same_pool'', Boolean),
     (''allow_pool_change_after_failure'', Boolean), (''require_failure_summary_packet'', Boolean)]"
| "shape_of escalation_policy = [(''triggers'', RecordOf Text), (''route_to'', NonEmptyText), (''require_summary'', Boolean)]"
| "shape_of lease_policy = [(''lease_ttl_seconds'', Whole 1), (''heartbeat_interval_seconds'', Whole 1),
     (''missed_heartbeat_threshold'', Whole 1), (''grace_period_seconds'', Whole 0), (''reclaim_action'', NonEmptyText)]"
| "shape_of retention_policy = [(''workspace_retention_hours'', Whole 0), (''artifact_retention_days'', Whole 0),
     (''retain_failed_workspaces'', Boolean), (''retain_escalated_workspaces'', Boolean)]"
| "shape_of review_policy = [(''max_review_rounds'', Whole 1), (''required_reviewer_types'', ListOf NonEmptyText),
     (''optional_reviewer_types'', ListOf Text), (''lead_reviewer_required'', Boolean)]"

text \<open>
  A policy object with exactly its fields, in their order, and values of their types, and an override, which
  gives some fields values of their types (or leaves them \<open>undefined\<close> or \<open>null\<close>).
\<close>

definition field_typed :: "string \<times> json option \<Rightarrow> string \<times> shape \<Rightarrow> bool" where
  "field_typed f t \<longleftrightarrow> fst f = fst t \<and> (case snd f of None \<Rightarrow> False | Some j \<Rightarrow> has_shape (snd t) j)"

definition well_typed :: "PolicyName \<Rightarrow> js_object \<Rightarrow> bool" where
  "well_typed p obj \<longleftrightarrow> list_all2 field_typed obj (shape_of p)"

definition partly_typed :: "PolicyName \<Rightarrow> js_object \<Rightarrow> bool" where
  "partly_typed p ov \<longleftrightarrow> (\<forall>(k, s) \<in> set (shape_of p).
     case obj_get ov k of None \<Rightarrow> True | Some j \<Rightarrow> j = JNull \<or> has_shape s j)"

lemma shape_fields: "map fst (shape_of p) = fields_of p" "distinct (map fst (shape_of p))"
  by (cases p; simp)+

lemma typed_get:
  assumes "list_all2 field_typed obj ss"
    and "(k, s) \<in> set ss" and "distinct (map fst ss)"
  obtains j where "obj_get obj k = Some j" "has_shape s j"
proof -
  have "\<exists>j. obj_get obj k = Some j \<and> has_shape s j"
    using assms by induction (force simp: obj_get_def field_typed_def split: option.splits)+
  then show ?thesis using that by blast
qed

lemma merge_typed:
  assumes "well_typed p base" and "partly_typed p ov"
  shows "well_typed p (MERGE_FUNCTIONS p base ov)"
proof -
  have "case js_coalesce (obj_get ov k) (obj_get base k) of None \<Rightarrow> False | Some j \<Rightarrow> has_shape s j"
    if in_shape: "(k, s) \<in> set (shape_of p)" for k s
  proof -
    obtain j where "obj_get base k = Some j" "has_shape s j"
      by (rule typed_get[OF assms(1)[unfolded well_typed_def] in_shape shape_fields(2)])
    moreover have "case obj_get ov k of None \<Rightarrow> True | Some j \<Rightarrow> j = JNull \<or> has_shape s j"
      using assms(2) in_shape by (auto simp: partly_typed_def)
    ultimately show ?thesis by (auto simp: js_coalesce_def split: option.splits)
  qed
  then have "list_all2 field_typed (map (pick base ov) (map fst ss)) ss" if "set ss \<subseteq> set (shape_of p)" for ss
    using that by (induction ss) (auto simp: pick_def field_typed_def)
  from this[OF subset_refl] show ?thesis unfolding well_typed_def merge_fields shape_fields(1) .
qed

lemma system_defaults_typed: "well_typed p (SYSTEM_DEFAULTS p)"
  by (cases p)
     (simp_all add: well_typed_def field_typed_def command_policy_object_def file_scope_policy_object_def DEFAULT_COMMAND_POLICY_def
      DEFAULT_FILE_SCOPE_POLICY_def DEFAULT_VALIDATION_POLICY_def DEFAULT_RETRY_POLICY_def DEFAULT_ESCALATION_POLICY_def
      DEFAULT_LEASE_POLICY_def DEFAULT_RETENTION_POLICY_def DEFAULT_REVIEW_POLICY_def json_strings_def
      pattern_shape_def profile_shape_def)

lemma object_of_fields:
  assumes "list_all2 field_typed obj ss" and "distinct (map fst ss)"
  shows "obj = map (\<lambda>k. (k, obj_get obj k)) (map fst ss)" "map fst obj = map fst ss"
proof -
  show keys: "map fst obj = map fst ss" using assms(1) by induction (auto simp: field_typed_def)
  have "map (\<lambda>f. (fst f, obj_get obj (fst f))) obj = obj"
  proof (rule map_idI)
    fix f
    assume "f \<in> set obj"
    then have "map_of obj (fst f) = Some (snd f)" using assms(2) keys by (simp add: map_of_is_SomeI)
    then show "(fst f, obj_get obj (fst f)) = f" by (simp add: obj_get_def)
  qed
  then have "map (\<lambda>k. (k, obj_get obj k)) (map fst obj) = obj" by (simp add: comp_def)
  then show "obj = map (\<lambda>k. (k, obj_get obj k)) (map fst ss)" unfolding keys by (rule sym)
qed

text \<open>
  (C40) Resolution keeps the types.  If the defaults give each policy exactly its declared fields, in their order,
  with values of the declared types, as the system defaults do, and every override gives declared fields
  values of these types (or leaves them undefined or null, with any further properties), then every
  resolved policy is the object of exactly its declared fields, in their order, each with the value that
  precedence gives it, and this value has the declared type.
\<close>

theorem resolve_config_typed:
  assumes "\<And>p. well_typed p (defaults p)"
    and "\<And>e p ov. e \<in> set layers \<Longrightarrow> ce_config e p = Some ov \<Longrightarrow> partly_typed p ov"
    and "resolveConfig layers defaults = Inr r"
  shows "extractValues r p = map (\<lambda>k. (k, given_value defaults p k layers)) (map fst (shape_of p))
    \<and> well_typed p (extractValues r p) \<and> well_typed p (SYSTEM_DEFAULTS p)"
proof -
  have overrides: "\<And>e ov. e \<in> set layers \<Longrightarrow> ce_config e p = Some ov \<Longrightarrow> partly_typed p ov" by (rule assms(2))
  have kept: "well_typed p (resolved_value (fold applyLayer layers st p))" if "well_typed p (resolved_value (st p))" for st
    using overrides that
  proof (induction layers arbitrary: st)
    case (Cons e layers)
    have "well_typed p (resolved_value (applyLayer e st p))"
      using Cons.prems merge_typed[of p "resolved_value (st p)"]
      by (auto simp: applyLayer_pointwise apply_one_def split: option.split)
    moreover have "\<And>e' ov. e' \<in> set layers \<Longrightarrow> ce_config e' p = Some ov \<Longrightarrow> partly_typed p ov"
      by (rule Cons.prems(1)) simp_all
    ultimately show ?case using Cons.IH[of "applyLayer e st"] by simp
  qed simp
  have r: "r = fold applyLayer layers (initState defaults)"
    using assms(3) by (auto simp: resolveConfig_def split: option.splits)
  have "well_typed p (resolved_value (initState defaults p))" using assms(1) by (simp add: initState_def)
  then have typed: "well_typed p (extractValues r p)" using kept by (simp add: r extractValues_def)
  have "fst ` set (defaults p) = set (fields_of p)"
    using object_of_fields(2)[OF assms(1)[of p, unfolded well_typed_def] shape_fields(2)] shape_fields(1)
    by (metis set_map)
  then have "obj_get (extractValues r p) k = given_value defaults p k layers" if "k \<in> set (map fst (shape_of p))" for k
    using resolved_field[of k p defaults layers] that by (simp add: r extractValues_def shape_fields(1) del: set_map)
  then have "map (\<lambda>k. (k, obj_get (extractValues r p) k)) (map fst (shape_of p))
      = map (\<lambda>k. (k, given_value defaults p k layers)) (map fst (shape_of p))" by (intro map_cong) simp_all
  from trans[OF object_of_fields(1)[OF typed[unfolded well_typed_def] shape_fields(2)] this]
  show ?thesis using typed system_defaults_typed by blast
qed

theorem resolve_config_typed_witness:
  "\<exists>r. resolveConfig example_layers SYSTEM_DEFAULTS = Inr r
     \<and> extractValues r lease_policy = [(''lease_ttl_seconds'', Some (JNum 60)), (''heartbeat_interval_seconds'', Some (JNum 30)),
         (''missed_heartbeat_threshold'', Some (JNum 2)), (''grace_period_seconds'', Some (JNum 30)),
         (''reclaim_action'', Some (JStr ''mark_timed_out_and_requeue''))]"
proof -
  have "validateLayerOrder example_layers = None" by code_simp
  then obtain r where r: "resolveConfig example_layers SYSTEM_DEFAULTS = Inr r" by (simp add: resolveConfig_def)
  have typed: "partly_typed q ov" if "e \<in> set example_layers" "ce_config e q = Some ov" for e q ov
    using that by (auto simp: example_layers_def partly_typed_def obj_get_def split: if_splits)
  have "extractValues r lease_policy
      = map (\<lambda>k. (k, given_value SYSTEM_DEFAULTS lease_policy k example_layers)) (map fst (shape_of lease_policy))"
    by (rule resolve_config_typed[of SYSTEM_DEFAULTS example_layers r lease_policy, THEN conjunct1])
       (use system_defaults_typed typed r in blast)+
  then show ?thesis using r
    by (simp add: given_value_def setters_def map_filter_def example_layers_def set_by_def obj_get_def DEFAULT_LEASE_POLICY_def)
qed

end
