(* ===== verification/MergeQueue.thy ===== *)
theory MergeQueue
  imports OperatorActions "HOL-Library.AList" "HOL-Library.Char_ord" "HOL-Library.List_Lexorder"
    "HOL-Library.Product_Lexorder"
begin

text \<open>
  \<open>packages/application/src/services/merge-queue.service.ts\<close>: approved tasks enter the merge queue of
  their repository and are taken from it one at a time.

  The unit of work of this service has no adapter in the repository.  The tasks, the audit events and
  the insert and lookup of queue items go through the repositories of the store; the four other
  operations of \<open>MergeQueueItemDataPort\<close> are arguments, and what \<open>merge-queue.ports.ts\<close> documents of them
  is the locale \<open>merge_queue_port\<close>.
\<close>

subsection \<open>Ports\<close>

record mergeQueuePort =
  findNextEnqueued :: "string \<Rightarrow> db \<Rightarrow> MergeQueueItem option"
  findEnqueuedByRepositoryId :: "string \<Rightarrow> db \<Rightarrow> MergeQueueItem list"
  updateItemStatus :: "string \<Rightarrow> MergeQueueItemStatus \<Rightarrow> MergeQueueItemStatus \<Rightarrow> int option \<Rightarrow> MergeQueueItem tx"
  updatePositions :: "(string \<times> int) list \<Rightarrow> unit tx"

definition item_findByTaskId :: "string \<Rightarrow> db \<Rightarrow> MergeQueueItem option" where
  "item_findByTaskId taskId d = find (\<lambda>r. mq_taskId r = taskId) (mergeQueueItems d)"

text \<open>
  An insert checks the primary key and the reference to the task; the repository of the item is that of
  its task, whose row refers to it already.
\<close>

definition item_create :: "MergeQueueItem \<Rightarrow> MergeQueueItem tx" where
  "item_create row = (\<lambda>d.
    if mq_mergeQueueItemId row \<in> set (map mq_mergeQueueItemId (mergeQueueItems d))
       \<or> mq_taskId row \<notin> set (map t_taskId (tasks d))
    then (Inl (ConstraintError ''merge_queue_item''), d)
    else (Inr row, d\<lparr>mergeQueueItems := mergeQueueItems d @ [row]\<rparr>))"

subsection \<open>Operations\<close>

definition PRIORITY_ORDER :: "(string \<times> nat) list" where
  "PRIORITY_ORDER = [(''critical'', 4), (''high'', 3), (''medium'', 2), (''low'', 1)]"

definition getPriorityWeight :: "string \<Rightarrow> nat" where
  "getPriorityWeight priority = (case map_of PRIORITY_ORDER priority of None \<Rightarrow> 0 | Some n \<Rightarrow> n)"

record EnqueueForMergeParams =
  em_taskId :: string
  em_approvedCommitSha :: string
  em_actor :: ActorInfo
  em_metadata :: "(string \<times> json) list option"

record EnqueueForMergeResult =
  er_item :: MergeQueueItem
  er_task :: Task
  er_taskAuditEvent :: AuditEventRecord
  er_itemAuditEvent :: AuditEventRecord

record DequeueNextParams =
  dn_repositoryId :: string
  dn_actor :: ActorInfo
  dn_metadata :: "(string \<times> json) list option"

record DequeueNextResult =
  dr_item :: MergeQueueItem
  dr_auditEvent :: AuditEventRecord

text \<open>
  The service writes the states of its audit events as plain text, here \<open>JStr\<close>; the cast object
  \<open>{ approved: true }\<close> has no field of the transition context, so the context is empty.

  What a call draws from its environment: clocks, the generated item key and the audit keys.\<close>

record mergeEnv =
  me_now :: int
  me_itemId :: string
  me_taskUuid :: string
  me_itemUuid :: string
  me_taskEventAt :: int
  me_itemEventAt :: int

definition renumbering :: "MergeQueueItem list \<Rightarrow> (string \<times> int) list" where
  "renumbering items = map (\<lambda>(index, item). (mq_mergeQueueItemId item, int index + 1)) (enumerate 0 items)"

definition recalculatePositionsInTransaction :: "mergeQueuePort \<Rightarrow> string \<Rightarrow> unit tx" where
  "recalculatePositionsInTransaction port repositoryId =
    bindT (getT (findEnqueuedByRepositoryId port repositoryId)) (\<lambda>items.
      if items = [] then returnT ()
      else updatePositions port (renumbering items))"

definition enqueueForMerge_tx :: "mergeQueuePort \<Rightarrow> mergeEnv \<Rightarrow> EnqueueForMergeParams \<Rightarrow> EnqueueForMergeResult tx" where
  "enqueueForMerge_tx port env params =
    (let taskId = em_taskId params; actor = em_actor params in
     bindT (getT (task_findById taskId)) (\<lambda>found. case found of
       None \<Rightarrow> throwT (EntityNotFoundError ''Task'' taskId)
     | Some task \<Rightarrow>
         if t_status task \<noteq> TaskStatus.APPROVED then
           throwT (TaskNotApprovedError taskId (TaskStatus_value (t_status task)))
         else bindT (getT (item_findByTaskId taskId)) (\<lambda>existingItem. case existingItem of
           Some existing \<Rightarrow> throwT (DuplicateEnqueueError taskId (mq_mergeQueueItemId existing))
         | None \<Rightarrow>
             let validation = validateTransition (t_status task) TaskStatus.QUEUED_FOR_MERGE emptyContext in
             if \<not> valid validation then
               throwT (InvalidTransitionError ''Task'' taskId (TaskStatus_value (t_status task))
                 (TaskStatus_value TaskStatus.QUEUED_FOR_MERGE) (reason validation))
             else
               bindT (getT (findEnqueuedByRepositoryId port (t_repositoryId task))) (\<lambda>enqueuedItems.
               bindT (item_create \<lparr>mq_mergeQueueItemId = me_itemId env, mq_taskId = taskId,
                   mq_repositoryId = t_repositoryId task, mq_status = MergeQueueItemStatus.ENQUEUED,
                   mq_position = int (length enqueuedItems) + 1,
                   mq_approvedCommitSha = Some (em_approvedCommitSha params),
                   mq_enqueuedAt = me_now env div 1000, mq_startedAt = None, mq_completedAt = None\<rparr>) (\<lambda>createdItem.
               bindT (task_updateStatus (me_now env) taskId (t_version task) TaskStatus.QUEUED_FOR_MERGE)
                 (\<lambda>updatedTask.
               bindT (auditEvent_create (me_taskUuid env) (me_now env)
                 \<lparr>na_entityType = ''task'', na_entityId = taskId, na_eventType = ''state_transition'',
                  na_actorType = actor_type actor, na_actorId = actor_id actor,
                  na_oldState = Some (JStr (TaskStatus_value TaskStatus.APPROVED)),
                  na_newState = Some (JStr (TaskStatus_value TaskStatus.QUEUED_FOR_MERGE)),
                  na_metadata = map_option JObj (em_metadata params)\<rparr>) (\<lambda>taskAuditEvent.
               bindT (auditEvent_create (me_itemUuid env) (me_now env)
                 \<lparr>na_entityType = ''merge-queue-item'', na_entityId = me_itemId env, na_eventType = ''created'',
                  na_actorType = actor_type actor, na_actorId = actor_id actor,
                  na_oldState = None,
                  na_newState = Some (JStr (MergeQueueItemStatus_value MergeQueueItemStatus.ENQUEUED)),
                  na_metadata = Some (JObj (AList.update ''taskId'' (JStr taskId)
                    (AList.update ''approvedCommitSha'' (JStr (em_approvedCommitSha params))
                      (case em_metadata params of None \<Rightarrow> [] | Some m \<Rightarrow> m))))\<rparr>) (\<lambda>itemAuditEvent.
               bindT (recalculatePositionsInTransaction port (t_repositoryId task)) (\<lambda>_.
               returnT \<lparr>er_item = createdItem, er_task = updatedTask, er_taskAuditEvent = taskAuditEvent,
                 er_itemAuditEvent = itemAuditEvent\<rparr>)))))))))"

definition enqueueForMerge ::
  "mergeQueuePort \<Rightarrow> mergeEnv \<Rightarrow> EnqueueForMergeParams \<Rightarrow> world \<Rightarrow> (app_error + EnqueueForMergeResult) \<times> world" where
  "enqueueForMerge port env params =
    commit (enqueueForMerge_tx port env params)
      (\<lambda>r. [TaskTransitionedEvent (em_taskId params) TaskStatus.APPROVED TaskStatus.QUEUED_FOR_MERGE
             (t_version (er_task r)) (em_actor params) (me_taskEventAt env),
            MergeQueueItemTransitionedEvent (mq_mergeQueueItemId (er_item r)) MergeQueueItemStatus.ENQUEUED
              MergeQueueItemStatus.ENQUEUED (em_actor params) (me_itemEventAt env)])"

definition dequeueNext_tx :: "mergeQueuePort \<Rightarrow> mergeEnv \<Rightarrow> DequeueNextParams \<Rightarrow> DequeueNextResult option tx" where
  "dequeueNext_tx port env params =
    (let repositoryId = dn_repositoryId params; actor = dn_actor params in
     bindT (getT (findNextEnqueued port repositoryId)) (\<lambda>found. case found of
       None \<Rightarrow> returnT None
     | Some nextItem \<Rightarrow>
         let validation = validateMergeQueueItemTransition MergeQueueItemStatus.ENQUEUED
               MergeQueueItemStatus.PREPARING
               (emptyMergeQueueItemTransitionContext\<lparr>preparationStarted := Some True\<rparr>) in
         if \<not> valid validation then
           throwT (InvalidTransitionError ''MergeQueueItem'' (mq_mergeQueueItemId nextItem)
             (MergeQueueItemStatus_value MergeQueueItemStatus.ENQUEUED)
             (MergeQueueItemStatus_value MergeQueueItemStatus.PREPARING) (reason validation))
         else
           bindT (updateItemStatus port (mq_mergeQueueItemId nextItem) MergeQueueItemStatus.ENQUEUED
             MergeQueueItemStatus.PREPARING (Some (me_now env))) (\<lambda>claimedItem.
           bindT (auditEvent_create (me_itemUuid env) (me_now env)
             \<lparr>na_entityType = ''merge-queue-item'', na_entityId = mq_mergeQueueItemId nextItem,
              na_eventType = ''state_transition'', na_actorType = actor_type actor, na_actorId = actor_id actor,
              na_oldState = Some (JStr (MergeQueueItemStatus_value MergeQueueItemStatus.ENQUEUED)),
              na_newState = Some (JStr (MergeQueueItemStatus_value MergeQueueItemStatus.PREPARING)),
              na_metadata = Some (JObj (AList.update ''taskId'' (JStr (mq_taskId nextItem))
                (case dn_metadata params of None \<Rightarrow> [] | Some m \<Rightarrow> m)))\<rparr>) (\<lambda>auditEvent.
           bindT (recalculatePositionsInTransaction port repositoryId) (\<lambda>_.
           returnT (Some \<lparr>dr_item = claimedItem, dr_auditEvent = auditEvent\<rparr>))))))"

definition dequeueNext ::
  "mergeQueuePort \<Rightarrow> mergeEnv \<Rightarrow> DequeueNextParams \<Rightarrow> world \<Rightarrow> (app_error + DequeueNextResult option) \<times> world" where
  "dequeueNext port env params =
    commit (dequeueNext_tx port env params)
      (\<lambda>result. case result of
         None \<Rightarrow> []
       | Some r \<Rightarrow> [MergeQueueItemTransitionedEvent (mq_mergeQueueItemId (dr_item r)) MergeQueueItemStatus.ENQUEUED
            MergeQueueItemStatus.PREPARING (dn_actor params) (me_itemEventAt env)])"

definition recalculatePositions :: "mergeQueuePort \<Rightarrow> string \<Rightarrow> world \<Rightarrow> (app_error + unit) \<times> world" where
  "recalculatePositions port repositoryId = commit (recalculatePositionsInTransaction port repositoryId) (\<lambda>_. [])"

subsection \<open>The ordering contract\<close>

text \<open>
  The order the port documents: priority of the task descending, then enqueue time, then key of the item.
\<close>

definition priority_weight :: "db \<Rightarrow> MergeQueueItem \<Rightarrow> nat" where
  "priority_weight d q = (case task_findById (mq_taskId q) d of
     None \<Rightarrow> 0
   | Some t \<Rightarrow> getPriorityWeight (TaskPriority_value (t_priority t)))"

definition merge_key :: "db \<Rightarrow> MergeQueueItem \<Rightarrow> int \<times> int \<times> string" where
  "merge_key d q = (- int (priority_weight d q), mq_enqueuedAt q, mq_mergeQueueItemId q)"

definition waiting :: "string \<Rightarrow> MergeQueueItem \<Rightarrow> bool" where
  "waiting repositoryId q \<longleftrightarrow> mq_repositoryId q = repositoryId \<and> mq_status q = MergeQueueItemStatus.ENQUEUED"

definition enqueued_in_order :: "string \<Rightarrow> db \<Rightarrow> MergeQueueItem list" where
  "enqueued_in_order repositoryId d = sort_key (merge_key d) (filter (waiting repositoryId) (mergeQueueItems d))"

definition started :: "MergeQueueItemStatus \<Rightarrow> int option \<Rightarrow> MergeQueueItem \<Rightarrow> MergeQueueItem" where
  "started s at q = q\<lparr>mq_status := s,
     mq_startedAt := (case at of None \<Rightarrow> mq_startedAt q | Some t \<Rightarrow> Some (t div 1000))\<rparr>"

definition positioned :: "(string \<times> int) list \<Rightarrow> MergeQueueItem \<Rightarrow> MergeQueueItem" where
  "positioned updates q = (case map_of updates (mq_mergeQueueItemId q) of
     None \<Rightarrow> q
   | Some p \<Rightarrow> q\<lparr>mq_position := p\<rparr>)"

locale merge_queue_port =
  fixes port :: mergeQueuePort
  assumes enqueued: "findEnqueuedByRepositoryId port rid d = enqueued_in_order rid d"
    and next_enqueued: "findNextEnqueued port rid d = (case enqueued_in_order rid d of [] \<Rightarrow> None | q # qs \<Rightarrow> Some q)"
    and claim: "wf_db d \<Longrightarrow> item_findById i d = Some q \<Longrightarrow> mq_status q = e \<Longrightarrow>
      updateItemStatus port i e s at d = (Inr (started s at q),
        d\<lparr>mergeQueueItems := update_where (\<lambda>r. mq_mergeQueueItemId r = i) (started s at) (mergeQueueItems d)\<rparr>)"
    and claim_conflict: "(\<And>q. item_findById i d = Some q \<Longrightarrow> mq_status q \<noteq> e) \<Longrightarrow>
      updateItemStatus port i e s at d
        = (Inl (VersionConflictError ''MergeQueueItem'' i (MergeQueueItemStatus_value e)), d)"
    and positions: "wf_db d \<Longrightarrow> distinct (map fst us) \<Longrightarrow>
      updatePositions port us d = (Inr (), d\<lparr>mergeQueueItems := map (positioned us) (mergeQueueItems d)\<rparr>)"

lemma sort_key_map: "sort_key f (map g xs) = map g (sort_key (\<lambda>x. f (g x)) xs)"
proof (induction xs)
  case (Cons x xs)
  have "insort_key f (g x) (map g ys) = map g (insort_key (\<lambda>x. f (g x)) x ys)" for ys by (induction ys) auto
  then show ?case using Cons by simp
qed simp

lemma merge_key_same: "tasks d' = tasks d \<Longrightarrow> merge_key d' = merge_key d"
  by (rule ext) (simp add: merge_key_def priority_weight_def task_findById_def)

lemma set_enqueued_in_order: "set (enqueued_in_order rid d) = {q \<in> set (mergeQueueItems d). waiting rid q}"
  by (auto simp: enqueued_in_order_def)

lemma distinct_enqueued: "wf_db d \<Longrightarrow> distinct (map mq_mergeQueueItemId (enqueued_in_order rid d))"
  by (simp add: wf_db_def enqueued_in_order_def distinct_map inj_on_def)

lemma positioned_sel [simp]:
  "mq_mergeQueueItemId (positioned us q) = mq_mergeQueueItemId q" "mq_taskId (positioned us q) = mq_taskId q"
  "mq_enqueuedAt (positioned us q) = mq_enqueuedAt q" "mq_status (positioned us q) = mq_status q"
  "mq_repositoryId (positioned us q) = mq_repositoryId q" "waiting rid (positioned us q) = waiting rid q"
  "mq_startedAt (positioned us q) = mq_startedAt q"
  by (simp_all add: positioned_def waiting_def split: option.split)

lemma positioned_Nil [simp]: "positioned [] = id"
  by (rule ext) (simp add: positioned_def)

lemma enqueued_positioned:
  "enqueued_in_order rid (d\<lparr>mergeQueueItems := map (positioned us) (mergeQueueItems d)\<rparr>)
    = map (positioned us) (enqueued_in_order rid d)"
proof -
  have "(\<lambda>q. merge_key (d\<lparr>mergeQueueItems := map (positioned us) (mergeQueueItems d)\<rparr>) (positioned us q)) = merge_key d"
    by (rule ext) (simp add: merge_key_def priority_weight_def task_findById_def)
  then show ?thesis by (simp add: enqueued_in_order_def filter_map comp_def sort_key_map)
qed

lemma renumbering_fst: "map fst (renumbering items) = map mq_mergeQueueItemId items"
  by (simp add: renumbering_def list_eq_iff_nth_eq nth_enumerate_eq)

lemma renumbered_positions:
  assumes "distinct (map mq_mergeQueueItemId items)"
  shows "map (mq_position \<circ> positioned (renumbering items)) items = map int [1..<Suc (length items)]"
proof (rule nth_equalityI)
  fix n
  assume "n < length (map (mq_position \<circ> positioned (renumbering items)) items)"
  then have n: "n < length items" by simp
  have "renumbering items ! n = (mq_mergeQueueItemId (items ! n), int n + 1)"
    using n by (simp add: renumbering_def nth_enumerate_eq)
  moreover have "n < length (renumbering items)" using n by (simp add: renumbering_def)
  ultimately have "(mq_mergeQueueItemId (items ! n), int n + 1) \<in> set (renumbering items)" by (metis nth_mem)
  then have "map_of (renumbering items) (mq_mergeQueueItemId (items ! n)) = Some (int n + 1)"
    using assms by (intro map_of_is_SomeI) (simp_all add: renumbering_fst)
  then show "map (mq_position \<circ> positioned (renumbering items)) items ! n = map int [1..<Suc (length items)] ! n"
    using n by (simp add: positioned_def del: upt_Suc)
qed (simp del: upt_Suc)

definition renumbered :: "string \<Rightarrow> db \<Rightarrow> db" where
  "renumbered rid d = d\<lparr>mergeQueueItems := map (positioned (renumbering (enqueued_in_order rid d))) (mergeQueueItems d)\<rparr>"

lemma renumbered_order:
  assumes "wf_db d"
  shows "map mq_mergeQueueItemId (enqueued_in_order rid (renumbered rid d))
      = map mq_mergeQueueItemId (enqueued_in_order rid d)"
    "map mq_position (enqueued_in_order rid (renumbered rid d))
      = map int [1..<Suc (length (enqueued_in_order rid d))]"
    "wf_db (renumbered rid d)"
    "map mq_mergeQueueItemId (mergeQueueItems (renumbered rid d)) = map mq_mergeQueueItemId (mergeQueueItems d)"
    "tasks (renumbered rid d) = tasks d" "auditEvents (renumbered rid d) = auditEvents d"
    "taskLeases (renumbered rid d) = taskLeases d"
proof -
  show "map mq_mergeQueueItemId (enqueued_in_order rid (renumbered rid d)) = map mq_mergeQueueItemId (enqueued_in_order rid d)"
    by (simp add: renumbered_def enqueued_positioned comp_def)
  show "map mq_position (enqueued_in_order rid (renumbered rid d)) = map int [1..<Suc (length (enqueued_in_order rid d))]"
    using renumbered_positions[OF distinct_enqueued[OF assms, of rid]] by (simp add: renumbered_def enqueued_positioned)
  show "map mq_mergeQueueItemId (mergeQueueItems (renumbered rid d)) = map mq_mergeQueueItemId (mergeQueueItems d)"
    by (simp add: renumbered_def comp_def)
  show "wf_db (renumbered rid d)" unfolding renumbered_def by (rule wf_db_keys(2)[OF _ assms]) (simp add: comp_def)
qed (simp_all add: renumbered_def)

lemma renumbered_item:
  "item_findById i (renumbered rid d)
    = map_option (positioned (renumbering (enqueued_in_order rid d))) (item_findById i d)"
proof -
  have "find (\<lambda>r. mq_mergeQueueItemId r = i) (map (positioned us) xs)
      = map_option (positioned us) (find (\<lambda>r. mq_mergeQueueItemId r = i) xs)" for us xs
    by (induction xs) auto
  then show ?thesis by (simp add: item_findById_def renumbered_def)
qed

lemma positioned_unlisted:
  assumes "mq_mergeQueueItemId q \<notin> set (map mq_mergeQueueItemId items)"
  shows "positioned (renumbering items) q = q"
proof -
  have "fst ` set (renumbering items) = set (map mq_mergeQueueItemId items)"
    unfolding renumbering_fst[symmetric] by (rule set_map[symmetric])
  then have "map_of (renumbering items) (mq_mergeQueueItemId q) = None"
    using assms by (intro iffD2[OF map_of_eq_None_iff]) blast
  then show ?thesis by (simp add: positioned_def)
qed

lemma enqueued_same: "tasks d' = tasks d \<Longrightarrow> mergeQueueItems d' = mergeQueueItems d
    \<Longrightarrow> enqueued_in_order rid d' = enqueued_in_order rid d"
  using merge_key_same[of d' d] by (simp add: enqueued_in_order_def)

lemma item_found:
  assumes "wf_db d" and "q \<in> set (mergeQueueItems d)"
  shows "item_findById (mq_mergeQueueItemId q) d = Some q"
  using assms find_key_Some[of mq_mergeQueueItemId "mergeQueueItems d" q] by (simp add: item_findById_def wf_db_def)

text \<open>Claiming the first item of a queue leaves the rest in order.\<close>

lemma enqueued_claimed:
  fixes at :: "int option"
  assumes "wf_db d" and "enqueued_in_order rid d = q # qs" and "s \<noteq> MergeQueueItemStatus.ENQUEUED"
  defines "d' \<equiv> d\<lparr>mergeQueueItems := update_where (\<lambda>r. mq_mergeQueueItemId r = mq_mergeQueueItemId q)
      (started s at) (mergeQueueItems d)\<rparr>"
  shows "enqueued_in_order rid d' = qs"
proof -
  let ?i = "mq_mergeQueueItemId q"
  have "filter (waiting rid) (update_where (\<lambda>r. mq_mergeQueueItemId r = ?i) (started s at) xs)
      = filter (\<lambda>r. mq_mergeQueueItemId r \<noteq> ?i) (filter (waiting rid) xs)" for xs
    using assms(3) by (induction xs) (auto simp: waiting_def started_def)
  then have "filter (waiting rid) (mergeQueueItems d')
      = filter (\<lambda>r. mq_mergeQueueItemId r \<noteq> ?i) (filter (waiting rid) (mergeQueueItems d))" by (simp add: d'_def)
  moreover have "merge_key d' = merge_key d" by (rule merge_key_same) (simp add: d'_def)
  ultimately have "enqueued_in_order rid d' = filter (\<lambda>r. mq_mergeQueueItemId r \<noteq> ?i) (enqueued_in_order rid d)"
    unfolding enqueued_in_order_def filter_sort by (simp only:)
  also have "\<dots> = qs"
  proof -
    have "?i \<notin> mq_mergeQueueItemId ` set qs" using distinct_enqueued[OF assms(1), of rid] assms(2) by simp
    then show ?thesis by (simp add: assms(2)) (metis (mono_tags, lifting) filter_True image_eqI)
  qed
  finally show ?thesis .
qed

context merge_queue_port
begin

lemma recalculate:
  assumes "wf_db d"
  shows "recalculatePositionsInTransaction port rid d = (Inr (), renumbered rid d)"
proof (cases "enqueued_in_order rid d")
  case Nil
  then show ?thesis
    by (simp add: recalculatePositionsInTransaction_def renumbered_def enqueued renumbering_def)
next
  case (Cons q qs)
  have "updatePositions port (renumbering (enqueued_in_order rid d)) d = (Inr (), renumbered rid d)"
    unfolding renumbered_def using distinct_enqueued[OF assms, of rid] by (intro positions assms) (simp add: renumbering_fst)
  then show ?thesis using Cons by (simp add: recalculatePositionsInTransaction_def enqueued)
qed

lemma dequeue_claims:
  assumes wf: "wf_db d" and q: "enqueued_in_order (dn_repositoryId p) d = q # qs"
    and fresh: "me_itemUuid env \<notin> set (map ae_id (auditEvents d))"
  obtains a d' where
    "dequeueNext_tx port env p d
      = (Inr (Some \<lparr>dr_item = started MergeQueueItemStatus.PREPARING (Some (me_now env)) q, dr_auditEvent = a\<rparr>), d')"
    "map mq_mergeQueueItemId (enqueued_in_order (dn_repositoryId p) d') = map mq_mergeQueueItemId qs"
    "map mq_position (enqueued_in_order (dn_repositoryId p) d') = map int [1..<Suc (length qs)]"
    "item_findById (mq_mergeQueueItemId q) d' = Some (started MergeQueueItemStatus.PREPARING (Some (me_now env)) q)"
    "tasks d' = tasks d" "auditEvents d' = auditEvents d @ [a]" "ae_entityId a = mq_mergeQueueItemId q" "wf_db d'"
proof -
  let ?i = "mq_mergeQueueItemId q" and ?q = "started MergeQueueItemStatus.PREPARING (Some (me_now env)) q"
  let ?d1 = "d\<lparr>mergeQueueItems := update_where (\<lambda>r. mq_mergeQueueItemId r = ?i)
      (started MergeQueueItemStatus.PREPARING (Some (me_now env))) (mergeQueueItems d)\<rparr>"
  let ?ev = "\<lparr>na_entityType = ''merge-queue-item'', na_entityId = ?i, na_eventType = ''state_transition'',
      na_actorType = actor_type (dn_actor p), na_actorId = actor_id (dn_actor p),
      na_oldState = Some (JStr (MergeQueueItemStatus_value MergeQueueItemStatus.ENQUEUED)),
      na_newState = Some (JStr (MergeQueueItemStatus_value MergeQueueItemStatus.PREPARING)),
      na_metadata = Some (JObj (AList.update ''taskId'' (JStr (mq_taskId q))
        (case dn_metadata p of None \<Rightarrow> [] | Some m \<Rightarrow> m)))\<rparr>"
  have "q \<in> set (mergeQueueItems d)" and st: "mq_status q = MergeQueueItemStatus.ENQUEUED"
    using set_enqueued_in_order[of "dn_repositoryId p" d] q by (auto simp: waiting_def)
  then have found: "item_findById ?i d = Some q" using item_found[OF wf] by blast
  have keep: "mq_mergeQueueItemId (started s at r) = mq_mergeQueueItemId r" for s at r by (simp add: started_def)
  have found1: "item_findById ?i ?d1 = Some ?q"
    using found keep by (simp add: item_findById_def find_update_where_key)
  have wf1: "wf_db ?d1" by (rule wf_db_keys(2)[OF map_update_where_same wf]) (simp add: keep)
  have rest: "enqueued_in_order (dn_repositoryId p) ?d1 = qs" by (rule enqueued_claimed[OF wf q]) simp
  show ?thesis
  proof (rule auditEvent_create_cases[of "me_itemUuid env" ?d1 "me_now env" ?ev])
    fix a
    let ?d2 = "?d1\<lparr>auditEvents := auditEvents ?d1 @ [a]\<rparr>"
    assume a: "auditEvent_create (me_itemUuid env) (me_now env) ?ev ?d1 = (Inr a, ?d2)"
      "ae_id a = me_itemUuid env" "ae_entityId a = na_entityId ?ev"
    have wf2: "wf_db ?d2" using wf_db_audit[OF wf1, of a] a(2) fresh by simp
    have rest2: "enqueued_in_order (dn_repositoryId p) ?d2 = qs" using rest enqueued_same[of ?d2 ?d1] by simp
    note order = renumbered_order[OF wf2, of "dn_repositoryId p", unfolded rest2]
    have "?i \<notin> set (map mq_mergeQueueItemId qs)" using distinct_enqueued[OF wf, of "dn_repositoryId p"] q by simp
    moreover have "item_findById ?i ?d2 = Some ?q" using found1 by (simp add: item_findById_def)
    ultimately have "item_findById ?i (renumbered (dn_repositoryId p) ?d2) = Some ?q"
      unfolding renumbered_item rest2 by (simp add: positioned_unlisted keep del: set_map)
    moreover have "dequeueNext_tx port env p d
        = (Inr (Some \<lparr>dr_item = ?q, dr_auditEvent = a\<rparr>), renumbered (dn_repositoryId p) ?d2)"
      using claim[OF wf found st, of MergeQueueItemStatus.PREPARING "Some (me_now env)"] a(1) recalculate[OF wf2] q
      by (simp add: dequeueNext_tx_def Let_def bindT_apply next_enqueued merge_accepted_iff)
    ultimately show ?thesis using that[of a "renumbered (dn_repositoryId p) ?d2"] order a(3) by simp
  qed (use fresh in simp)
qed

lemma dequeue_empty:
  "enqueued_in_order (dn_repositoryId p) d = [] \<Longrightarrow> dequeueNext_tx port env p d = (Inr None, d)"
  by (simp add: dequeueNext_tx_def Let_def next_enqueued)

end

subsection \<open>Entering the queue\<close>

definition enqueueable :: "mergeEnv \<Rightarrow> EnqueueForMergeParams \<Rightarrow> Task \<Rightarrow> db \<Rightarrow> bool" where
  "enqueueable env p t d \<longleftrightarrow> task_findById (em_taskId p) d = Some t \<and> t_status t = TaskStatus.APPROVED
     \<and> (\<forall>q \<in> set (mergeQueueItems d). mq_taskId q \<noteq> em_taskId p)
     \<and> me_itemId env \<notin> set (map mq_mergeQueueItemId (mergeQueueItems d))
     \<and> me_taskUuid env \<notin> set (map ae_id (auditEvents d))
     \<and> me_itemUuid env \<notin> insert (me_taskUuid env) (set (map ae_id (auditEvents d)))"

definition queued_task :: "mergeEnv \<Rightarrow> Task \<Rightarrow> Task" where
  "queued_task env t = t\<lparr>t_status := TaskStatus.QUEUED_FOR_MERGE, t_version := t_version t + 1,
     t_updatedAt := me_now env div 1000\<rparr>"

definition new_item :: "mergeEnv \<Rightarrow> EnqueueForMergeParams \<Rightarrow> Task \<Rightarrow> db \<Rightarrow> MergeQueueItem" where
  "new_item env p t d = \<lparr>mq_mergeQueueItemId = me_itemId env, mq_taskId = em_taskId p,
     mq_repositoryId = t_repositoryId t, mq_status = MergeQueueItemStatus.ENQUEUED,
     mq_position = int (length (enqueued_in_order (t_repositoryId t) d)) + 1,
     mq_approvedCommitSha = Some (em_approvedCommitSha p), mq_enqueuedAt = me_now env div 1000,
     mq_startedAt = None, mq_completedAt = None\<rparr>"

definition enqueue_error :: "mergeEnv \<Rightarrow> EnqueueForMergeParams \<Rightarrow> db \<Rightarrow> app_error" where
  "enqueue_error env p d =
    (case task_findById (em_taskId p) d of
       None \<Rightarrow> EntityNotFoundError ''Task'' (em_taskId p)
     | Some t \<Rightarrow>
         if t_status t \<noteq> TaskStatus.APPROVED
         then TaskNotApprovedError (em_taskId p) (TaskStatus_value (t_status t))
         else (case item_findByTaskId (em_taskId p) d of
           Some q \<Rightarrow> DuplicateEnqueueError (em_taskId p) (mq_mergeQueueItemId q)
         | None \<Rightarrow> if me_itemId env \<in> set (map mq_mergeQueueItemId (mergeQueueItems d))
             then ConstraintError ''merge_queue_item'' else ConstraintError ''audit_event''))"

definition task_queued_event :: "EnqueueForMergeParams \<Rightarrow> NewAuditEvent" where
  "task_queued_event p = \<lparr>na_entityType = ''task'', na_entityId = em_taskId p, na_eventType = ''state_transition'',
     na_actorType = actor_type (em_actor p), na_actorId = actor_id (em_actor p),
     na_oldState = Some (JStr (TaskStatus_value TaskStatus.APPROVED)),
     na_newState = Some (JStr (TaskStatus_value TaskStatus.QUEUED_FOR_MERGE)),
     na_metadata = map_option JObj (em_metadata p)\<rparr>"

definition item_created_event :: "mergeEnv \<Rightarrow> EnqueueForMergeParams \<Rightarrow> NewAuditEvent" where
  "item_created_event env p = \<lparr>na_entityType = ''merge-queue-item'', na_entityId = me_itemId env,
     na_eventType = ''created'', na_actorType = actor_type (em_actor p), na_actorId = actor_id (em_actor p),
     na_oldState = None, na_newState = Some (JStr (MergeQueueItemStatus_value MergeQueueItemStatus.ENQUEUED)),
     na_metadata = Some (JObj (AList.update ''taskId'' (JStr (em_taskId p))
       (AList.update ''approvedCommitSha'' (JStr (em_approvedCommitSha p))
         (case em_metadata p of None \<Rightarrow> [] | Some m \<Rightarrow> m))))\<rparr>"

definition unnumbered :: "MergeQueueItem \<Rightarrow> MergeQueueItem" where
  "unnumbered q = q\<lparr>mq_position := 0\<rparr>"

lemma unnumbered_positioned [simp]: "unnumbered (positioned us q) = unnumbered q"
  by (simp add: unnumbered_def positioned_def split: option.split)

lemma renumbered_frame:
  "map unnumbered (mergeQueueItems (renumbered rid d)) = map unnumbered (mergeQueueItems d)"
  "renumbered rid d = d\<lparr>mergeQueueItems := mergeQueueItems (renumbered rid d)\<rparr>"
  by (simp_all add: renumbered_def)

lemma task_known: "task_findById i d = Some t \<Longrightarrow> i \<in> set (map t_taskId (tasks d))"
  by (auto simp: task_findById_def find_Some_iff)

text \<open>The new item takes its place; the others keep their order.\<close>

lemma enqueued_added:
  assumes "mergeQueueItems d' = mergeQueueItems d @ [q]" and "waiting rid q"
    and "mq_mergeQueueItemId q \<notin> set (map mq_mergeQueueItemId (mergeQueueItems d))"
    and "\<And>j. map_option t_priority (task_findById j d') = map_option t_priority (task_findById j d)"
  shows "filter (\<lambda>r. mq_mergeQueueItemId r \<noteq> mq_mergeQueueItemId q) (enqueued_in_order rid d') = enqueued_in_order rid d"
    "length (enqueued_in_order rid d') = Suc (length (enqueued_in_order rid d))"
proof -
  have "priority_weight d' r = priority_weight d r" for r
    using assms(4)[of "mq_taskId r"] by (auto simp: priority_weight_def split: option.splits)
  then have key: "merge_key d' = merge_key d" by (intro ext) (simp add: merge_key_def)
  have "filter (\<lambda>r. mq_mergeQueueItemId r \<noteq> mq_mergeQueueItemId q) (filter (waiting rid) (mergeQueueItems d @ [q]))
      = filter (waiting rid) (mergeQueueItems d)"
    using assms(3) by simp (rule filter_cong; metis image_eqI)
  then show "filter (\<lambda>r. mq_mergeQueueItemId r \<noteq> mq_mergeQueueItemId q) (enqueued_in_order rid d') = enqueued_in_order rid d"
    unfolding enqueued_in_order_def key assms(1) filter_sort by (rule arg_cong)
  show "length (enqueued_in_order rid d') = Suc (length (enqueued_in_order rid d))"
    using assms(1,2) by (simp add: enqueued_in_order_def)
qed

lemma enqueued_ids_added:
  assumes "wf_db d'" and "mergeQueueItems d' = mergeQueueItems d @ [q]" and "waiting rid q"
    and "mq_mergeQueueItemId q \<notin> set (map mq_mergeQueueItemId (mergeQueueItems d))"
    and "\<And>j. map_option t_priority (task_findById j d') = map_option t_priority (task_findById j d)"
  defines "ids \<equiv> map mq_mergeQueueItemId (enqueued_in_order rid (renumbered rid d'))"
  shows "mq_mergeQueueItemId q \<in> set ids"
    "filter (\<lambda>i. i \<noteq> mq_mergeQueueItemId q) ids = map mq_mergeQueueItemId (enqueued_in_order rid d)"
    "map mq_position (enqueued_in_order rid (renumbered rid d'))
      = map int [1..<Suc (Suc (length (enqueued_in_order rid d)))]"
proof -
  have ids: "ids = map mq_mergeQueueItemId (enqueued_in_order rid d')"
    unfolding ids_def by (rule renumbered_order(1)[OF assms(1)])
  show "mq_mergeQueueItemId q \<in> set ids"
    using set_enqueued_in_order[of rid d'] assms(2,3) by (simp add: ids)
  show "filter (\<lambda>i. i \<noteq> mq_mergeQueueItemId q) ids = map mq_mergeQueueItemId (enqueued_in_order rid d)"
    by (simp add: ids filter_map comp_def enqueued_added(1)[OF assms(2-5)])
  show "map mq_position (enqueued_in_order rid (renumbered rid d'))
      = map int [1..<Suc (Suc (length (enqueued_in_order rid d)))]"
    by (simp only: renumbered_order(2)[OF assms(1)] enqueued_added(2)[OF assms(2-5)])
qed

context merge_queue_port
begin

lemma enqueue_refused:
  assumes "wf_db d" and "\<nexists>t. enqueueable env p t d"
  shows "\<exists>d'. enqueueForMerge_tx port env p d = (Inl (enqueue_error env p d), d')"
proof (cases "\<exists>t. task_findById (em_taskId p) d = Some t \<and> t_status t = TaskStatus.APPROVED
      \<and> item_findByTaskId (em_taskId p) d = None")
  case False
  then show ?thesis
    by (cases "task_findById (em_taskId p) d"; cases "item_findByTaskId (em_taskId p) d")
       (auto simp: enqueueForMerge_tx_def enqueue_error_def Let_def)
next
  case True
  then obtain t where t: "task_findById (em_taskId p) d = Some t" "t_status t = TaskStatus.APPROVED"
    "item_findByTaskId (em_taskId p) d = None" by blast
  have "\<forall>q \<in> set (mergeQueueItems d). mq_taskId q \<noteq> em_taskId p"
    using t(3) by (auto simp: item_findByTaskId_def find_None_iff)
  with assms(2) t have bad: "me_itemId env \<in> set (map mq_mergeQueueItemId (mergeQueueItems d))
      \<or> me_taskUuid env \<in> set (map ae_id (auditEvents d))
      \<or> me_itemUuid env \<in> insert (me_taskUuid env) (set (map ae_id (auditEvents d)))"
    by (auto simp: enqueueable_def)
  show ?thesis
  proof (cases "me_itemId env \<in> set (map mq_mergeQueueItemId (mergeQueueItems d))")
    case True
    then show ?thesis using t
      by (auto simp: enqueueForMerge_tx_def enqueue_error_def Let_def accepted_iff bindT_apply item_create_def)
  next
    case False
    let ?q = "new_item env p t d" and ?d1 = "d\<lparr>mergeQueueItems := mergeQueueItems d @ [new_item env p t d]\<rparr>"
    have wf1: "wf_db ?d1" using assms(1) False by (auto simp: wf_db_def new_item_def)
    have t1: "task_findById (em_taskId p) ?d1 = Some t" using t(1) by (simp add: task_findById_def)
    have c: "item_create ?q d = (Inr ?q, ?d1)" using False task_known[OF t(1)] by (simp add: item_create_def new_item_def)
    obtain d2 where u: "task_updateStatus (me_now env) (em_taskId p) (t_version t) TaskStatus.QUEUED_FOR_MERGE ?d1
        = (Inr (queued_task env t), d2)" and d2: "d2 = ?d1\<lparr>tasks := tasks d2\<rparr>"
      by (rule task_updateStatus_current[OF wf1 t1]) (auto simp: queued_task_def)
    have "auditEvents d2 = auditEvents d" by (subst d2) simp
    then show ?thesis using t bad False c u
      by (auto simp: enqueueForMerge_tx_def enqueue_error_def Let_def accepted_iff bindT_apply enqueued
          new_item_def[symmetric] auditEvent_create_def)
  qed
qed

lemma enqueue_accepted:
  assumes wf: "wf_db d" and ok: "enqueueable env p t d"
  obtains r d' where "enqueueForMerge_tx port env p d = (Inr r, d')"
    "er_task r = queued_task env t" "er_item r = new_item env p t d"
    "task_findById (em_taskId p) d' = Some (queued_task env t)"
    "\<forall>j. j \<noteq> em_taskId p \<longrightarrow> task_findById j d' = task_findById j d"
    "me_itemId env \<in> set (map mq_mergeQueueItemId (enqueued_in_order (t_repositoryId t) d'))"
    "filter (\<lambda>i. i \<noteq> me_itemId env) (map mq_mergeQueueItemId (enqueued_in_order (t_repositoryId t) d'))
      = map mq_mergeQueueItemId (enqueued_in_order (t_repositoryId t) d)"
    "map mq_position (enqueued_in_order (t_repositoryId t) d')
      = map int [1..<Suc (Suc (length (enqueued_in_order (t_repositoryId t) d)))]"
    "er_taskAuditEvent r = audit_row (me_taskUuid env) (me_now env) (task_queued_event p)"
    "er_itemAuditEvent r = audit_row (me_itemUuid env) (me_now env) (item_created_event env p)"
    "map unnumbered (mergeQueueItems d') = map unnumbered (mergeQueueItems d @ [new_item env p t d])"
    "d' = d\<lparr>tasks := tasks d', mergeQueueItems := mergeQueueItems d',
       auditEvents := auditEvents d @ [er_taskAuditEvent r, er_itemAuditEvent r]\<rparr>" "wf_db d'"
proof -
  let ?i = "em_taskId p" and ?rid = "t_repositoryId t" and ?q = "new_item env p t d"
  let ?d1 = "d\<lparr>mergeQueueItems := mergeQueueItems d @ [?q]\<rparr>"
  have t: "task_findById ?i d = Some t" "t_status t = TaskStatus.APPROVED"
    and none: "item_findByTaskId ?i d = None"
    and fresh: "me_itemId env \<notin> set (map mq_mergeQueueItemId (mergeQueueItems d))"
      "me_taskUuid env \<notin> set (map ae_id (auditEvents d))"
      "me_itemUuid env \<notin> insert (me_taskUuid env) (set (map ae_id (auditEvents d)))"
    using ok by (auto simp: enqueueable_def item_findByTaskId_def find_None_iff)
  have c: "item_create ?q d = (Inr ?q, ?d1)"
    using fresh(1) task_known[OF t(1)] by (simp add: item_create_def new_item_def)
  have wf1: "wf_db ?d1" using wf fresh(1) by (auto simp: wf_db_def new_item_def)
  have t1: "task_findById ?i ?d1 = Some t" using t(1) by (simp add: task_findById_def)
  obtain d2 where u: "task_updateStatus (me_now env) ?i (t_version t) TaskStatus.QUEUED_FOR_MERGE ?d1
      = (Inr (queued_task env t), d2)" and d2: "d2 = ?d1\<lparr>tasks := tasks d2\<rparr>"
    by (rule task_updateStatus_current[OF wf1 t1]) (auto simp: queued_task_def)
  from task_port.upd_current[OF wf1 t1, of "me_now env" TaskStatus.QUEUED_FOR_MERGE] u
  have l2: "task_findById ?i d2 = Some (queued_task env t)" "\<forall>j. j \<noteq> ?i \<longrightarrow> task_findById j d2 = task_findById j d"
    and wf2: "wf_db d2" and a2: "auditEvents d2 = auditEvents d"
    by (auto simp: task_findById_def)
  have q2: "mergeQueueItems d2 = mergeQueueItems d @ [?q]" by (subst d2) simp
  let ?ev1 = "task_queued_event p" and ?ev2 = "item_created_event env p"
  let ?a1 = "audit_row (me_taskUuid env) (me_now env) ?ev1" and ?a2 = "audit_row (me_itemUuid env) (me_now env) ?ev2"
  let ?d4 = "d2\<lparr>auditEvents := auditEvents d @ [?a1, ?a2]\<rparr>"
  have aud1: "auditEvent_create (me_taskUuid env) (me_now env) ?ev1 d2
      = (Inr ?a1, d2\<lparr>auditEvents := auditEvents d @ [?a1]\<rparr>)" using fresh(2) a2 by (simp add: audit_fresh)
  have aud2: "auditEvent_create (me_itemUuid env) (me_now env) ?ev2 (d2\<lparr>auditEvents := auditEvents d @ [?a1]\<rparr>)
      = (Inr ?a2, ?d4)" using fresh(3) by (simp add: audit_fresh)
  have wf4: "wf_db ?d4" using wf2 fresh(2,3) a2 by (auto simp: wf_db_def)
  have q4: "mergeQueueItems ?d4 = mergeQueueItems d @ [?q]" using q2 by simp
  have pr: "map_option t_priority (task_findById j ?d4) = map_option t_priority (task_findById j d)" for j
    using l2 t(1) by (cases "j = ?i") (simp_all add: task_findById_def queued_task_def)
  have wq: "waiting ?rid ?q" "mq_mergeQueueItemId ?q = me_itemId env" by (simp_all add: waiting_def new_item_def)
  note added = enqueued_ids_added[OF wf4 q4 wq(1) _ pr, unfolded wq(2), OF fresh(1)]
  let ?d' = "renumbered ?rid ?d4"
  have t2: "tasks ?d' = tasks d2" by (simp add: renumbered_def)
  have frame: "?d' = d\<lparr>tasks := tasks d2, mergeQueueItems := mergeQueueItems ?d',
      auditEvents := auditEvents d @ [?a1, ?a2]\<rparr>"
    by (subst renumbered_frame(2), subst d2) simp
  have run: "enqueueForMerge_tx port env p d = (Inr \<lparr>er_item = ?q, er_task = queued_task env t,
      er_taskAuditEvent = ?a1, er_itemAuditEvent = ?a2\<rparr>, ?d')"
    using t none c u aud1 aud2 recalculate[OF wf4, of ?rid] unfolding task_queued_event_def item_created_event_def
    by (simp add: enqueueForMerge_tx_def Let_def accepted_iff bindT_apply enqueued new_item_def)
  show ?thesis
  proof (rule that[OF run], goal_cases)
    case 3
    show ?case using l2(1) by (simp add: task_findById_def t2)
  next
    case 4
    show ?case using l2(2) by (simp add: task_findById_def t2)
  next
    case 10
    show ?case by (simp add: renumbered_frame(1) q4)
  next
    case 11
    show ?case unfolding t2 using frame by (simp only: MergeQueue.EnqueueForMergeResult.select_convs)
  next
    case 12
    show ?case by (rule renumbered_order(3)[OF wf4])
  qed (simp_all add: added del: set_map)
qed

end

subsection \<open>The repository's in-memory implementation\<close>

text \<open>
  The only implementation of the port in the repository is the array of items that the tests of the
  service run on (\<open>createMockMergeQueueItemRepo\<close>): it sorts with a comparator, finds rows by index and
  writes positions one at a time.  It keeps the contract.
\<close>

definition sortByOrdering :: "db \<Rightarrow> MergeQueueItem \<Rightarrow> MergeQueueItem \<Rightarrow> int" where
  "sortByOrdering d a b =
    (let priorityA = priority_weight d a; priorityB = priority_weight d b;
         timeA = mq_enqueuedAt a; timeB = mq_enqueuedAt b in
     if priorityA \<noteq> priorityB then int priorityB - int priorityA
     else if timeA \<noteq> timeB then timeA - timeB
     else if mq_mergeQueueItemId a < mq_mergeQueueItemId b then - 1
     else if mq_mergeQueueItemId a = mq_mergeQueueItemId b then 0
     else 1)"

fun insertBy :: "('a \<Rightarrow> 'a \<Rightarrow> int) \<Rightarrow> 'a \<Rightarrow> 'a list \<Rightarrow> 'a list" where
  "insertBy cmp x [] = [x]"
| "insertBy cmp x (y # ys) = (if cmp x y \<le> 0 then x # y # ys else y # insertBy cmp x ys)"

definition sortBy :: "('a \<Rightarrow> 'a \<Rightarrow> int) \<Rightarrow> 'a list \<Rightarrow> 'a list" where
  "sortBy cmp xs = foldr (insertBy cmp) xs []"

fun findIndex :: "('a \<Rightarrow> bool) \<Rightarrow> 'a list \<Rightarrow> nat option" where
  "findIndex p [] = None"
| "findIndex p (x # xs) = (if p x then Some 0 else map_option Suc (findIndex p xs))"

definition memory_enqueued :: "string \<Rightarrow> db \<Rightarrow> MergeQueueItem list" where
  "memory_enqueued repositoryId d = sortBy (sortByOrdering d)
     (filter (\<lambda>i. mq_repositoryId i = repositoryId \<and> mq_status i = MergeQueueItemStatus.ENQUEUED) (mergeQueueItems d))"

definition memory_next :: "string \<Rightarrow> db \<Rightarrow> MergeQueueItem option" where
  "memory_next repositoryId d = (case memory_enqueued repositoryId d of [] \<Rightarrow> None | q # qs \<Rightarrow> Some q)"

definition memory_updateStatus ::
  "string \<Rightarrow> MergeQueueItemStatus \<Rightarrow> MergeQueueItemStatus \<Rightarrow> int option \<Rightarrow> MergeQueueItem tx" where
  "memory_updateStatus i expectedStatus newStatus startedAt = (\<lambda>d.
    case findIndex (\<lambda>q. mq_mergeQueueItemId q = i) (mergeQueueItems d) of
      None \<Rightarrow> (Inl (VersionConflictError ''MergeQueueItem'' i (MergeQueueItemStatus_value expectedStatus)), d)
    | Some idx \<Rightarrow>
        let current = mergeQueueItems d ! idx in
        if mq_status current \<noteq> expectedStatus then
          (Inl (VersionConflictError ''MergeQueueItem'' i (MergeQueueItemStatus_value expectedStatus)), d)
        else
          let updated = current\<lparr>mq_status := newStatus,
                mq_startedAt := (case startedAt of None \<Rightarrow> mq_startedAt current | Some t \<Rightarrow> Some (t div 1000))\<rparr> in
          (Inr updated, d\<lparr>mergeQueueItems := (mergeQueueItems d)[idx := updated]\<rparr>))"

definition set_position :: "string \<times> int \<Rightarrow> MergeQueueItem list \<Rightarrow> MergeQueueItem list" where
  "set_position u items = (case findIndex (\<lambda>q. mq_mergeQueueItemId q = fst u) items of
     None \<Rightarrow> items
   | Some idx \<Rightarrow> items[idx := (items ! idx)\<lparr>mq_position := snd u\<rparr>])"

definition memory_updatePositions :: "(string \<times> int) list \<Rightarrow> unit tx" where
  "memory_updatePositions updates = (\<lambda>d. (Inr (), d\<lparr>mergeQueueItems := fold set_position updates (mergeQueueItems d)\<rparr>))"

definition memory_port :: mergeQueuePort where
  "memory_port = \<lparr>findNextEnqueued = memory_next, findEnqueuedByRepositoryId = memory_enqueued,
     updateItemStatus = memory_updateStatus, updatePositions = memory_updatePositions\<rparr>"

lemma sortBy_sort_key:
  assumes "\<And>x y. cmp x y \<le> 0 \<longleftrightarrow> key x \<le> key y"
  shows "sortBy cmp xs = sort_key key xs"
proof -
  have "insertBy cmp x ys = insort_key key x ys" for x ys using assms by (induction ys) auto
  then show ?thesis by (induction xs) (simp_all add: sortBy_def)
qed

lemma memory_enqueued: "memory_enqueued rid d = enqueued_in_order rid d"
proof -
  have "sortByOrdering d x y \<le> 0 \<longleftrightarrow> merge_key d x \<le> merge_key d y" for x y
    by (auto simp: sortByOrdering_def merge_key_def Let_def less_eq_prod_def less_prod_def)
  then show ?thesis
    by (simp add: memory_enqueued_def enqueued_in_order_def sortBy_sort_key[where key = "merge_key d"] waiting_def[abs_def])
qed

lemma findIndex_key:
  assumes "findIndex p xs = None" shows "find p xs = None"
  using assms by (induction xs) (auto split: if_splits)

text \<open>With distinct keys, writing at the index found is the update of the row with that key.\<close>

lemma findIndex_Some:
  assumes "findIndex (\<lambda>x. k x = i) xs = Some n" and "distinct (map k xs)"
  shows "find (\<lambda>x. k x = i) xs = Some (xs ! n)" "xs[n := f (xs ! n)] = update_where (\<lambda>x. k x = i) f xs"
proof -
  have "find (\<lambda>x. k x = i) xs = Some (xs ! n) \<and> xs[n := f (xs ! n)] = update_where (\<lambda>x. k x = i) f xs"
    using assms
  proof (induction xs arbitrary: n)
    case (Cons x xs)
    show ?case
    proof (cases "k x = i")
      case True
      then have "update_where (\<lambda>x. k x = i) f xs = xs" using Cons.prems(2)
        by (intro update_where_none) (force simp: image_iff)
      then show ?thesis using True Cons.prems(1) by simp
    next
      case False
      then show ?thesis using Cons by auto
    qed
  qed simp
  then show "find (\<lambda>x. k x = i) xs = Some (xs ! n)" "xs[n := f (xs ! n)] = update_where (\<lambda>x. k x = i) f xs" by auto
qed

lemma set_position_where:
  assumes "distinct (map mq_mergeQueueItemId items)"
  shows "set_position u items = map (positioned [u]) items"
proof (cases "findIndex (\<lambda>q. mq_mergeQueueItemId q = fst u) items")
  case None
  then have "mq_mergeQueueItemId q \<noteq> fst u" if "q \<in> set items" for q
    using that findIndex_key[OF None] by (auto simp: find_None_iff)
  then show ?thesis using None
    by (cases u) (auto simp: set_position_def positioned_def intro!: map_idI[symmetric])
next
  case (Some n)
  then show ?thesis using findIndex_Some(2)[OF Some assms, of "\<lambda>q. q\<lparr>mq_position := snd u\<rparr>"]
    by (cases u) (auto simp: set_position_def positioned_def update_where_def)
qed

lemma set_positions_where:
  assumes "distinct (map mq_mergeQueueItemId items)" and "distinct (map fst us)"
  shows "fold set_position us items = map (positioned us) items"
  using assms
proof (induction us arbitrary: items)
  case Nil
  show ?case by simp
next
  case (Cons u us)
  obtain i p where u: "u = (i, p)" by fastforce
  have none: "map_of us i = None" using Cons.prems(2) by (simp add: u map_of_eq_None_iff)
  have step: "positioned us (positioned [u] q) = positioned (u # us) q" for q
    using none by (auto simp: positioned_def u split: option.split)
  have "distinct (map mq_mergeQueueItemId (map (positioned [u]) items))" using Cons.prems(1) by (simp add: comp_def)
  then show ?case using Cons by (simp add: set_position_where step comp_def)
qed

interpretation memory: merge_queue_port memory_port
proof
  show "findEnqueuedByRepositoryId memory_port rid d = enqueued_in_order rid d" for rid d
    by (simp add: memory_port_def memory_enqueued)
  show "findNextEnqueued memory_port rid d = (case enqueued_in_order rid d of [] \<Rightarrow> None | q # qs \<Rightarrow> Some q)" for rid d
    by (simp add: memory_port_def memory_next_def memory_enqueued)
next
  fix d i q e s at
  assume "wf_db d" and q: "item_findById i d = Some q" "mq_status q = e"
  then have wf: "distinct (map mq_mergeQueueItemId (mergeQueueItems d))" by (simp add: wf_db_def)
  obtain n where n: "findIndex (\<lambda>r. mq_mergeQueueItemId r = i) (mergeQueueItems d) = Some n"
    using q(1) findIndex_key[of "\<lambda>r. mq_mergeQueueItemId r = i" "mergeQueueItems d"]
    by (cases "findIndex (\<lambda>r. mq_mergeQueueItemId r = i) (mergeQueueItems d)") (auto simp: item_findById_def)
  have at_n: "mergeQueueItems d ! n = q" using findIndex_Some(1)[OF n wf] q(1) by (simp add: item_findById_def)
  then show "updateItemStatus memory_port i e s at d = (Inr (started s at q),
      d\<lparr>mergeQueueItems := update_where (\<lambda>r. mq_mergeQueueItemId r = i) (started s at) (mergeQueueItems d)\<rparr>)"
    using findIndex_Some(2)[OF n wf, of "started s at"] n q(2)
    by (simp add: memory_port_def memory_updateStatus_def started_def Let_def)
next
  fix i d e s at
  assume no: "\<And>q. item_findById i d = Some q \<Longrightarrow> mq_status q \<noteq> e"
  have "find p xs = Some (xs ! n)" if "findIndex p xs = Some n" for p and xs :: "MergeQueueItem list" and n
    using that by (induction xs arbitrary: n) (auto split: if_splits)
  then show "updateItemStatus memory_port i e s at d
      = (Inl (VersionConflictError ''MergeQueueItem'' i (MergeQueueItemStatus_value e)), d)"
    using no by (auto simp: memory_port_def memory_updateStatus_def Let_def item_findById_def split: option.split)
next
  fix d and us :: "(string \<times> int) list"
  assume "wf_db d" and "distinct (map fst us)"
  then show "updatePositions memory_port us d
      = (Inr (), d\<lparr>mergeQueueItems := map (positioned us) (mergeQueueItems d)\<rparr>)"
    by (simp add: memory_port_def memory_updatePositions_def set_positions_where wf_db_def)
qed

subsection \<open>What the queue promises\<close>

definition queued_ids :: "string \<Rightarrow> db \<Rightarrow> string list" where
  "queued_ids rid d = map mq_mergeQueueItemId (enqueued_in_order rid d)"

definition positions_of :: "string \<Rightarrow> db \<Rightarrow> int list" where
  "positions_of rid d = map mq_position (enqueued_in_order rid d)"

text \<open>
  (C38) For every port that keeps the documented contract, \<open>dequeueNext\<close> takes the waiting item with the
  highest priority, the earliest enqueue time among those and the smallest key among those: it is marked
  PREPARING with its start time, the others keep their order and are numbered 1 to n, no task changes,
  one audit event and one domain event are written.  On an empty queue it answers null and changes
  nothing.
\<close>

theorem dequeue_next_behaviour:
  assumes port: "merge_queue_port port" and wf: "wf_db (database w)"
    and fresh: "me_itemUuid env \<notin> set (map ae_id (auditEvents (database w)))"
  shows "case enqueued_in_order (dn_repositoryId p) (database w) of
      [] \<Rightarrow> dequeueNext port env p w = (Inr None, w)
    | q # qs \<Rightarrow> \<exists>r w'. dequeueNext port env p w = (Inr (Some r), w')
        \<and> dr_item r = q\<lparr>mq_status := MergeQueueItemStatus.PREPARING, mq_startedAt := Some (me_now env div 1000)\<rparr>
        \<and> item_findById (mq_mergeQueueItemId q) (database w') = Some (dr_item r)
        \<and> (\<forall>x \<in> set qs. merge_key (database w) q < merge_key (database w) x)
        \<and> queued_ids (dn_repositoryId p) (database w') = map mq_mergeQueueItemId qs
        \<and> positions_of (dn_repositoryId p) (database w') = map int [1..<Suc (length qs)]
        \<and> tasks (database w') = tasks (database w)
        \<and> auditEvents (database w') = auditEvents (database w) @ [dr_auditEvent r]
        \<and> ae_entityId (dr_auditEvent r) = mq_mergeQueueItemId q
        \<and> length (emitted w') = Suc (length (emitted w)) \<and> wf_db (database w')"
proof (cases "enqueued_in_order (dn_repositoryId p) (database w)")
  case Nil
  then show ?thesis using merge_queue_port.dequeue_empty[OF port Nil, of env]
    by (simp add: dequeueNext_def commit_def writeTransaction_def)
next
  case (Cons q qs)
  have less: "merge_key (database w) q < merge_key (database w) x" if "x \<in> set qs" for x
  proof -
    have "sorted (map (merge_key (database w)) (q # qs))" using Cons by (metis enqueued_in_order_def sorted_sort_key)
    moreover have "mq_mergeQueueItemId x \<noteq> mq_mergeQueueItemId q"
      using distinct_enqueued[OF wf, of "dn_repositoryId p"] Cons that by (auto simp: image_iff)
    ultimately show ?thesis using that by (auto simp: less_le merge_key_def)
  qed
  obtain a d' where "dequeueNext_tx port env p (database w)
      = (Inr (Some \<lparr>dr_item = started MergeQueueItemStatus.PREPARING (Some (me_now env)) q, dr_auditEvent = a\<rparr>), d')"
    "map mq_mergeQueueItemId (enqueued_in_order (dn_repositoryId p) d') = map mq_mergeQueueItemId qs"
    "map mq_position (enqueued_in_order (dn_repositoryId p) d') = map int [1..<Suc (length qs)]"
    "item_findById (mq_mergeQueueItemId q) d' = Some (started MergeQueueItemStatus.PREPARING (Some (me_now env)) q)"
    "tasks d' = tasks (database w)" "auditEvents d' = auditEvents (database w) @ [a]"
    "ae_entityId a = mq_mergeQueueItemId q" "wf_db d'"
    using merge_queue_port.dequeue_claims[OF port wf Cons fresh] by metis
  then show ?thesis using less Cons
    by (simp add: dequeueNext_def commit_def writeTransaction_def queued_ids_def positions_of_def started_def)
qed

definition queue_item :: "string \<Rightarrow> string \<Rightarrow> int \<Rightarrow> int \<Rightarrow> MergeQueueItem" where
  "queue_item i t pos at = \<lparr>mq_mergeQueueItemId = i, mq_taskId = t, mq_repositoryId = ''R'',
     mq_status = MergeQueueItemStatus.ENQUEUED, mq_position = pos, mq_approvedCommitSha = Some ''sha'',
     mq_enqueuedAt = at, mq_startedAt = None, mq_completedAt = None\<rparr>"

definition queue_world :: world where
  "queue_world = \<lparr>database = example_db\<lparr>
       tasks := [example_task\<lparr>t_status := TaskStatus.QUEUED_FOR_MERGE, t_mergeQueueItemId := Some ''Q1''\<rparr>,
         example_task\<lparr>t_taskId := ''T2'', t_priority := TaskPriority.LOW, t_status := TaskStatus.QUEUED_FOR_MERGE,
           t_mergeQueueItemId := Some ''Q2''\<rparr>,
         example_task\<lparr>t_taskId := ''T3'', t_priority := TaskPriority.MEDIUM, t_status := TaskStatus.APPROVED\<rparr>],
       mergeQueueItems := [queue_item ''Q2'' ''T2'' 1 1, queue_item ''Q1'' ''T1'' 2 2]\<rparr>, emitted = []\<rparr>"

definition merge_env :: mergeEnv where
  "merge_env = \<lparr>me_now = 9000, me_itemId = ''Q3'', me_taskUuid = ''a1'', me_itemUuid = ''a2'',
     me_taskEventAt = 9001, me_itemEventAt = 9002\<rparr>"

lemma queue_world_wf: "wf_db (database queue_world)"
  by (simp add: queue_world_def queue_item_def example_db_def example_task_def wf_db_def)

lemma queue_world_order:
  "enqueued_in_order ''R'' (database queue_world) = [queue_item ''Q1'' ''T1'' 2 2, queue_item ''Q2'' ''T2'' 1 1]"
  by code_simp

lemma queue_world_audit: "auditEvents (database queue_world) = []"
  by (simp add: queue_world_def example_db_def)

theorem dequeue_next_behaviour_witness:
  "\<exists>r w'. dequeueNext memory_port merge_env \<lparr>dn_repositoryId = ''R'', dn_actor = example_actor, dn_metadata = None\<rparr> queue_world
      = (Inr (Some r), w')
     \<and> mq_mergeQueueItemId (dr_item r) = ''Q1'' \<and> queued_ids ''R'' (database w') = [''Q2'']
     \<and> positions_of ''R'' (database w') = [1]"
  using dequeue_next_behaviour[OF memory.merge_queue_port_axioms queue_world_wf, of merge_env
      "\<lparr>dn_repositoryId = ''R'', dn_actor = example_actor, dn_metadata = None\<rparr>"]
  by (auto simp: queue_world_order queue_world_audit queue_item_def)

text \<open>
  (C37) For every port that keeps the contract, \<open>enqueueForMerge\<close> succeeds exactly when the task exists, is
  APPROVED and has no queue item, whatever the state of that item (the generated keys being new).  Then
  the task is QUEUED_FOR_MERGE with its version advanced and every other task is unchanged; the new item,
  ENQUEUED with the approved commit, joins the table, in which positions are all that changes otherwise;
  it waits in the queue of the task's repository, where the others keep their order and all are numbered 1
  to n+1; the two audit rows and the two domain events of the move are written, and no other table is
  touched.  Otherwise the call fails with the error of the first check that fails and changes nothing.
\<close>

theorem enqueue_for_merge_behaviour:
  assumes port: "merge_queue_port port" and wf: "wf_db (database w)"
  shows "(\<nexists>t. enqueueable env p t (database w))
      \<and> enqueueForMerge port env p w = (Inl (enqueue_error env p (database w)), w)
    \<or> (\<exists>t r w'. enqueueable env p t (database w) \<and> enqueueForMerge port env p w = (Inr r, w')
        \<and> er_task r = queued_task env t \<and> task_findById (em_taskId p) (database w') = Some (er_task r)
        \<and> (\<forall>j. j \<noteq> em_taskId p \<longrightarrow> task_findById j (database w') = task_findById j (database w))
        \<and> er_item r = new_item env p t (database w)
        \<and> map unnumbered (mergeQueueItems (database w')) = map unnumbered (mergeQueueItems (database w) @ [er_item r])
        \<and> me_itemId env \<in> set (queued_ids (t_repositoryId t) (database w'))
        \<and> filter (\<lambda>i. i \<noteq> me_itemId env) (queued_ids (t_repositoryId t) (database w'))
            = queued_ids (t_repositoryId t) (database w)
        \<and> positions_of (t_repositoryId t) (database w')
            = map int [1..<Suc (Suc (length (queued_ids (t_repositoryId t) (database w))))]
        \<and> er_taskAuditEvent r = audit_row (me_taskUuid env) (me_now env) (task_queued_event p)
        \<and> er_itemAuditEvent r = audit_row (me_itemUuid env) (me_now env) (item_created_event env p)
        \<and> database w' = (database w)\<lparr>tasks := tasks (database w'), mergeQueueItems := mergeQueueItems (database w'),
            auditEvents := auditEvents (database w) @ [er_taskAuditEvent r, er_itemAuditEvent r]\<rparr>
        \<and> emitted w' = emitted w @
            [TaskTransitionedEvent (em_taskId p) TaskStatus.APPROVED TaskStatus.QUEUED_FOR_MERGE (t_version t + 1)
               (em_actor p) (me_taskEventAt env),
             MergeQueueItemTransitionedEvent (me_itemId env) MergeQueueItemStatus.ENQUEUED
               MergeQueueItemStatus.ENQUEUED (em_actor p) (me_itemEventAt env)]
        \<and> wf_db (database w'))"
proof (cases "\<exists>t. enqueueable env p t (database w)")
  case False
  then obtain d' where "enqueueForMerge_tx port env p (database w) = (Inl (enqueue_error env p (database w)), d')"
    using merge_queue_port.enqueue_refused[OF port wf] by blast
  then show ?thesis using False by (simp add: enqueueForMerge_def commit_def writeTransaction_def)
next
  case True
  then obtain t where t: "enqueueable env p t (database w)" by blast
  show ?thesis
  proof (rule merge_queue_port.enqueue_accepted[OF port wf t], goal_cases)
    case (1 r d')
    have keys: "mq_mergeQueueItemId (er_item r) = me_itemId env" "t_version (er_task r) = t_version t + 1"
      using 1 by (simp_all add: new_item_def queued_task_def)
    let ?w' = "w\<lparr>database := d', emitted := emitted w @
            [TaskTransitionedEvent (em_taskId p) TaskStatus.APPROVED TaskStatus.QUEUED_FOR_MERGE (t_version t + 1)
               (em_actor p) (me_taskEventAt env),
             MergeQueueItemTransitionedEvent (me_itemId env) MergeQueueItemStatus.ENQUEUED
               MergeQueueItemStatus.ENQUEUED (em_actor p) (me_itemEventAt env)]\<rparr>"
    have run: "enqueueForMerge port env p w = (Inr r, ?w')"
      using 1(1) keys by (simp add: enqueueForMerge_def commit_def writeTransaction_def)
    show ?thesis
      by (rule disjI2, rule exI[of _ t], rule exI[of _ r], rule exI[of _ ?w'])
         (use t run 1 in \<open>simp add: queued_ids_def positions_of_def\<close>)
  qed
qed

theorem enqueue_for_merge_behaviour_witness:
  "\<exists>r w'. enqueueForMerge memory_port merge_env
        \<lparr>em_taskId = ''T3'', em_approvedCommitSha = ''c3'', em_actor = example_actor, em_metadata = None\<rparr> queue_world = (Inr r, w')
     \<and> t_status (er_task r) = TaskStatus.QUEUED_FOR_MERGE \<and> ''Q3'' \<in> set (queued_ids ''R'' (database w'))
     \<and> positions_of ''R'' (database w') = [1, 2, 3]"
proof -
  let ?p = "\<lparr>em_taskId = ''T3'', em_approvedCommitSha = ''c3'', em_actor = example_actor, em_metadata = None\<rparr>"
  have ok: "enqueueable merge_env ?p t (database queue_world) \<longleftrightarrow>
      t = example_task\<lparr>t_taskId := ''T3'', t_priority := TaskPriority.MEDIUM, t_status := TaskStatus.APPROVED\<rparr>" for t
    by (auto simp: enqueueable_def queue_world_def merge_env_def task_findById_def example_db_def example_task_def queue_item_def)
  have ids: "queued_ids ''R'' (database queue_world) = [''Q1'', ''Q2'']"
    by (simp add: queued_ids_def queue_world_order queue_item_def)
  show ?thesis
    using enqueue_for_merge_behaviour[OF memory.merge_queue_port_axioms queue_world_wf, of merge_env ?p] ok
    by (auto simp: queued_task_def merge_env_def example_task_def ids)
qed

lemma override_positions:
  assumes wf: "wf_db (database w)" and act: "overrideMergeOrder tenv i dto w = (Inr r, w')"
  obtains us where "\<And>j. task_findById j (database w') = task_findById j (database w)"
    "mergeQueueItems (database w') = map (positioned us) (mergeQueueItems (database w))" "wf_db (database w')"
proof (cases "env_uuid tenv \<in> set (map ae_id (auditEvents (database w)))")
  case True
  have "w' = w" using handle_stale[OF wf True, of tenv i "OverrideMergeOrderAction dto"] act by simp
  then show ?thesis using that[of "[]"] wf by simp
next
  case False
  let ?req = "OverrideMergeOrderAction dto"
  obtain t where t: "task_findById i (database w) = Some t"
    using act missing_task[OF wf, of i tenv tenv ?req] by (cases "task_findById i (database w)") auto
  have "answered tenv tenv i ?req t w" by (rule answered_merge_order[OF wf t False])
  then have c: "carried_out tenv i ?req t w r w'" using act by (auto simp: answered_def split: if_splits)
  have "reordered ?req t qs = map (positioned (case t_mergeQueueItemId t of None \<Rightarrow> [] | Some j \<Rightarrow> [(j, om_position dto)])) qs" for qs
    by (cases "t_mergeQueueItemId t") (auto simp: positioned_def)
  moreover from c have "mergeQueueItems (database w') = reordered ?req t (mergeQueueItems (database w))"
    unfolding carried_out_def Let_def by (metis db.select_convs(4) db.surjective db.update_convs(4,8))
  moreover have "task_findById j (database w') = task_findById j (database w)" for j
    using c t by (cases "j = i") (auto simp: carried_out_def Let_def)
  moreover have "wf_db (database w')" using c by (auto simp: carried_out_def Let_def)
  ultimately show ?thesis using that by metis
qed

text \<open>
  Overriding the merge order changes no merge order: after the operator's action the items wait in
  the same order as before, the same item is taken next, and taking it numbers the others 1 to n again,
  so the position the operator set is gone.
\<close>

lemma override_order_ignored:
  assumes port: "merge_queue_port port" and wf: "wf_db (database w)"
    and fresh: "me_itemUuid env \<notin> set (map ae_id (auditEvents (database w')))"
    and act: "overrideMergeOrder tenv i dto w = (Inr r, w')"
  shows "queued_ids rid (database w') = queued_ids rid (database w)
    \<and> (\<forall>q qs. enqueued_in_order rid (database w) = q # qs \<longrightarrow>
        (\<exists>r w''. dequeueNext port env \<lparr>dn_repositoryId = rid, dn_actor = actor, dn_metadata = m\<rparr> w' = (Inr (Some r), w'')
          \<and> mq_mergeQueueItemId (dr_item r) = mq_mergeQueueItemId q
          \<and> positions_of rid (database w'') = map int [1..<Suc (length qs)]))"
proof -
  obtain us where d': "\<And>j. task_findById j (database w') = task_findById j (database w)"
      "mergeQueueItems (database w') = map (positioned us) (mergeQueueItems (database w))" and wf': "wf_db (database w')"
    using override_positions[OF wf act] by metis
  let ?d = "(database w)\<lparr>mergeQueueItems := map (positioned us) (mergeQueueItems (database w))\<rparr>"
  have key: "merge_key (database w') = merge_key ?d"
  proof
    show "merge_key (database w') q = merge_key ?d q" for q
      using d'(1)[of "mq_taskId q"] by (simp add: merge_key_def priority_weight_def task_findById_def)
  qed
  have "enqueued_in_order rid (database w') = enqueued_in_order rid ?d"
    unfolding enqueued_in_order_def key by (simp add: d'(2))
  then have order: "enqueued_in_order rid (database w') = map (positioned us) (enqueued_in_order rid (database w))"
    by (simp only: enqueued_positioned)
  show ?thesis
  proof (intro conjI allI impI)
    show "queued_ids rid (database w') = queued_ids rid (database w)"
      by (simp add: queued_ids_def order)
    fix q qs
    assume "enqueued_in_order rid (database w) = q # qs"
    then have next': "enqueued_in_order (dn_repositoryId \<lparr>dn_repositoryId = rid, dn_actor = actor, dn_metadata = m\<rparr>) (database w')
        = positioned us q # map (positioned us) qs" by (simp add: order)
    obtain a d'' where "dequeueNext_tx port env \<lparr>dn_repositoryId = rid, dn_actor = actor, dn_metadata = m\<rparr> (database w')
        = (Inr (Some \<lparr>dr_item = started MergeQueueItemStatus.PREPARING (Some (me_now env)) (positioned us q),
            dr_auditEvent = a\<rparr>), d'')"
      "map mq_position (enqueued_in_order rid d'') = map int [1..<Suc (length qs)]"
      using merge_queue_port.dequeue_claims[OF port wf' next' fresh] by (metis DequeueNextParams.select_convs(1) length_map)
    then show "\<exists>r w''. dequeueNext port env \<lparr>dn_repositoryId = rid, dn_actor = actor, dn_metadata = m\<rparr> w' = (Inr (Some r), w'')
          \<and> mq_mergeQueueItemId (dr_item r) = mq_mergeQueueItemId q
          \<and> positions_of rid (database w'') = map int [1..<Suc (length qs)]"
      by (simp add: dequeueNext_def commit_def writeTransaction_def positions_of_def started_def)
  qed
qed

end
