(* ===== verification/Zod.thy ===== *)
theory Zod
  imports Store
begin

text \<open>
  The schema library the packages validate data with.  Zod is not part of the repository: \<open>zod\<close> is the
  description of a schema, one constructor for each combinator the sources use, and the locale
  \<open>zod_library\<close> states what Zod documents of \<open>safeParse\<close> for each of them.  A concrete parser shows
  that the laws can be met.

  A value is a JSON value or \<open>undefined\<close> (\<open>None\<close>); numbers are integers, so \<open>int()\<close> adds nothing.
  \<open>JDate\<close>, the text of a date the code has written itself, occurs only where a date is expected.  The custom
  messages of the combinators are left out.
\<close>

subsection \<open>Schemas and issues\<close>

datatype path_key = Key string | Index nat

record zod_issue =
  zi_code :: string
  zi_path :: "path_key list"
  zi_message :: string
  zi_expected :: string
  zi_received :: string

datatype zod =
    ZString
  | ZNonEmpty
  | ZDatetime
  | ZInt int
  | ZBoolean
  | ZLiteral string
  | ZEnum "string list"
  | ZUnknown
  | ZArray nat zod
  | ZRecord zod
  | ZObject "(string \<times> zod) list"
  | ZOptional zod
  | ZNullable zod
  | ZRefine zod "json \<Rightarrow> zod_issue list"

type_synonym safe_parse = "zod \<Rightarrow> json option \<Rightarrow> zod_issue list + json option"

text \<open>The properties of a parsed object: those fields whose value is not \<open>undefined\<close>.\<close>

definition present :: "string list \<Rightarrow> json option list \<Rightarrow> (string \<times> json) list" where
  "present ks ws = List.map_filter (\<lambda>(k, w). map_option (Pair k) w) (zip ks ws)"

text \<open>\<open>o.k\<close> for a JSON value, and \<open>a.length\<close> for an array.\<close>

definition json_get :: "json \<Rightarrow> string \<Rightarrow> json option" where
  "json_get j k = (case j of JObj kvs \<Rightarrow> map_of kvs k | _ \<Rightarrow> None)"

definition json_length :: "json option \<Rightarrow> nat" where
  "json_length v = (case v of Some (JArr xs) \<Rightarrow> length xs | _ \<Rightarrow> 0)"

subsection \<open>What Zod documents\<close>

locale zod_library =
  fixes safeParse :: safe_parse and isDatetime :: "string \<Rightarrow> bool"
  assumes text_ok: "safeParse ZString v = Inr v' \<longleftrightarrow> v' = v \<and> (\<exists>s. v = Some (JStr s))"
    and nonempty_ok: "safeParse ZNonEmpty v = Inr v'
      \<longleftrightarrow> v' = v \<and> (\<exists>s. v = Some (JStr s) \<and> s \<noteq> [])"
    and datetime_ok: "safeParse ZDatetime v = Inr v'
      \<longleftrightarrow> v' = v \<and> ((\<exists>s. v = Some (JStr s) \<and> isDatetime s) \<or> (\<exists>t. v = Some (JDate t)))"
    and int_ok: "safeParse (ZInt m) v = Inr v' \<longleftrightarrow> v' = v \<and> (\<exists>n. v = Some (JNum n) \<and> m \<le> n)"
    and boolean_ok: "safeParse ZBoolean v = Inr v' \<longleftrightarrow> v' = v \<and> (\<exists>b. v = Some (JBool b))"
    and literal_ok: "safeParse (ZLiteral lit) v = Inr v' \<longleftrightarrow> v' = v \<and> v = Some (JStr lit)"
    and enum_ok: "safeParse (ZEnum ss) v = Inr v' \<longleftrightarrow> v' = v \<and> (\<exists>s \<in> set ss. v = Some (JStr s))"
    and unknown_ok: "safeParse ZUnknown v = Inr v' \<longleftrightarrow> v' = v"
    and array_ok: "safeParse (ZArray n z) v = Inr v' \<longleftrightarrow> (\<exists>xs ys. v = Some (JArr xs) \<and> v' = Some (JArr ys) \<and> n \<le> length xs
      \<and> list_all2 (\<lambda>x y. safeParse z (Some x) = Inr (Some y)) xs ys)"
    and record_ok: "safeParse (ZRecord z) v = Inr v' \<longleftrightarrow> (\<exists>kvs kvs'. v = Some (JObj kvs) \<and> v' = Some (JObj kvs')
      \<and> list_all2 (\<lambda>(k, x) (k', y). k = k' \<and> safeParse z (Some x) = Inr (Some y)) kvs kvs')"
    and object_ok: "safeParse (ZObject fs) v = Inr v' \<longleftrightarrow> (\<exists>kvs ws. v = Some (JObj kvs)
      \<and> list_all2 (\<lambda>(k, s) w. safeParse s (map_of kvs k) = Inr w) fs ws \<and> v' = Some (JObj (present (map fst fs) ws)))"
    and optional_ok: "safeParse (ZOptional z) v = Inr v' \<longleftrightarrow> (if v = None then v' = None else safeParse z v = Inr v')"
    and nullable_ok: "safeParse (ZNullable z) v = Inr v' \<longleftrightarrow> (if v = Some JNull then v' = v else safeParse z v = Inr v')"
    and refine_ok: "safeParse (ZRefine z r) v = Inr v' \<longleftrightarrow> safeParse z v = Inr v' \<and> (\<forall>j. v' = Some j \<longrightarrow> r j = [])"

text \<open>A schema is well formed when the fields of its objects are distinct.\<close>

primrec wf_zod :: "zod \<Rightarrow> bool" where
  "wf_zod ZString \<longleftrightarrow> True"
| "wf_zod ZNonEmpty \<longleftrightarrow> True"
| "wf_zod ZDatetime \<longleftrightarrow> True"
| "wf_zod (ZInt m) \<longleftrightarrow> True"
| "wf_zod ZBoolean \<longleftrightarrow> True"
| "wf_zod (ZLiteral s) \<longleftrightarrow> True"
| "wf_zod (ZEnum ss) \<longleftrightarrow> True"
| "wf_zod ZUnknown \<longleftrightarrow> True"
| "wf_zod (ZArray m s) \<longleftrightarrow> wf_zod s"
| "wf_zod (ZRecord s) \<longleftrightarrow> wf_zod s"
| "wf_zod (ZObject fs) \<longleftrightarrow> distinct (map fst fs) \<and> list_all (\<lambda>(k, ok). ok) (map (map_prod id wf_zod) fs)"
| "wf_zod (ZOptional s) \<longleftrightarrow> wf_zod s"
| "wf_zod (ZNullable s) \<longleftrightarrow> wf_zod s"
| "wf_zod (ZRefine s r) \<longleftrightarrow> wf_zod s"

lemma present_Nil [simp]: "present [] ws = []"
  by (simp add: present_def map_filter_def)

lemma present_Cons [simp]: "present (k # ks) (w # ws) = (case w of None \<Rightarrow> [] | Some j \<Rightarrow> [(k, j)]) @ present ks ws"
  by (simp add: present_def map_filter_def split: option.split)

lemma present_keys: "fst ` set (present ks ws) \<subseteq> set ks"
  by (auto simp: present_def map_filter_def dest: set_zip_leftD)

lemma present_get:
  assumes "length ks = length ws" and "distinct ks"
  shows "map (map_of (present ks ws)) ks = ws"
  using assms
proof (induction ks ws rule: list_induct2)
  case (Cons k ks w ws)
  have "map_of (present ks ws) k = None"
    using present_keys[of ks ws] Cons.prems by (auto simp: map_of_eq_None_iff)
  moreover have "map (map_of ((case w of None \<Rightarrow> [] | Some j \<Rightarrow> [(k, j)]) @ present ks ws)) ks = map (map_of (present ks ws)) ks"
    using Cons.prems by (auto split: option.split)
  ultimately show ?case using Cons by (auto split: option.split)
qed simp

lemma parsed_some: "(case r of Inr (Some _) \<Rightarrow> True | _ \<Rightarrow> False) \<Longrightarrow> \<exists>p. r = Inr (Some p)"
  by (auto split: sum.splits option.splits)

context zod_library
begin

lemmas zod_laws = text_ok nonempty_ok datetime_ok int_ok boolean_ok literal_ok enum_ok unknown_ok array_ok record_ok
  object_ok optional_ok nullable_ok refine_ok

text \<open>A field of a parsed object has passed the schema of the field.\<close>

lemma object_field:
  assumes "safeParse (ZObject fs) (Some j) = Inr (Some p)" and "(k, s) \<in> set fs" and "distinct (map fst fs)"
  shows "safeParse s (json_get j k) = Inr (json_get p k)"
proof -
  obtain kvs ws where o: "j = JObj kvs" "p = JObj (present (map fst fs) ws)"
    "list_all2 (\<lambda>(k, s) w. safeParse s (map_of kvs k) = Inr w) fs ws"
    using assms(1) by (auto simp: object_ok)
  obtain n where n: "n < length fs" "fs ! n = (k, s)" using assms(2) by (meson in_set_conv_nth)
  have len: "length (map fst fs) = length ws" using o(3) by (simp add: list_all2_lengthD)
  have "map (map_of (present (map fst fs) ws)) (map fst fs) ! n = ws ! n" using present_get[OF len assms(3)] by simp
  then have "map_of (present (map fst fs) ws) k = ws ! n" using n by simp
  moreover have "safeParse s (map_of kvs k) = Inr (ws ! n)" using list_all2_nthD[OF o(3) n(1)] n(2) by simp
  ultimately show ?thesis by (simp add: json_get_def o)
qed

lemma refined_object:
  assumes "safeParse (ZRefine (ZObject fs) r) (Some j) = Inr w" and "(k, s) \<in> set fs" and "distinct (map fst fs)"
  obtains p where "w = Some p" "safeParse s (json_get j k) = Inr (json_get p k)" "r p = []"
proof -
  have o: "safeParse (ZObject fs) (Some j) = Inr w" using assms(1) by (simp add: refine_ok)
  then obtain p where "w = Some p" by (auto simp: object_ok)
  then show ?thesis using that[of p] o assms object_field by (simp add: refine_ok)
qed

text \<open>Parsing is idempotent: what a schema lets through it lets through again, unchanged.\<close>

lemma parse_twice:
  assumes "wf_zod s" and "safeParse s v = Inr v'"
  shows "safeParse s v' = Inr v'"
  using assms
proof (induction s arbitrary: v v')
  case (ZArray m s)
  then show ?case by (fastforce simp: array_ok list_all2_conv_all_nth)
next
  case (ZRecord s)
  have again: "safeParse s (Some y) = Inr (Some y)" if "safeParse s (Some x) = Inr (Some y)" for x y
    using ZRecord that by simp
  obtain kvs kvs' where o: "v' = Some (JObj kvs')"
    and p: "list_all2 (\<lambda>(k, x) (k', y). k = k' \<and> safeParse s (Some x) = Inr (Some y)) kvs kvs'"
    using ZRecord.prems(2) by (auto simp: record_ok)
  from p have "list_all2 (\<lambda>(k, x) (k', y). k = k' \<and> safeParse s (Some x) = Inr (Some y)) kvs' kvs'"
    by (induction rule: list_all2_induct) (auto dest: again)
  then show ?case using o by (auto simp: record_ok)
next
  case (ZObject fs)
  obtain kvs ws where o: "v = Some (JObj kvs)" "v' = Some (JObj (present (map fst fs) ws))"
    and p: "list_all2 (\<lambda>(k, s) w. safeParse s (map_of kvs k) = Inr w) fs ws"
    using ZObject.prems(2) by (auto simp: object_ok)
  have len: "length (map fst fs) = length ws" using p by (simp add: list_all2_lengthD)
  have get: "map (map_of (present (map fst fs) ws)) (map fst fs) = ws"
    using present_get[OF len] ZObject.prems(1) by simp
  have "list_all2 (\<lambda>(k, s) w. safeParse s (map_of (present (map fst fs) ws) k) = Inr w) fs ws"
  proof (rule list_all2_all_nthI)
    fix n
    assume n: "n < length fs"
    obtain k s where ks: "fs ! n = (k, s)" by fastforce
    then have mem: "(k, s) \<in> set fs" using n by (metis nth_mem)
    have "wf_zod s" using ZObject.prems(1) mem by (auto simp: list_all_iff)
    moreover have "safeParse s (map_of kvs k) = Inr (ws ! n)" using list_all2_nthD[OF p n] ks by simp
    ultimately have "safeParse s (ws ! n) = Inr (ws ! n)" using ZObject.IH[OF mem, of s] by simp
    moreover have "map_of (present (map fst fs) ws) k = ws ! n"
      using arg_cong[OF get, of "\<lambda>xs. xs ! n"] n ks by simp
    ultimately show "(\<lambda>(k, s) w. safeParse s (map_of (present (map fst fs) ws) k) = Inr w) (fs ! n) (ws ! n)"
      using ks by simp
  qed (use len in simp)
  then show ?case using o by (auto simp: object_ok)
qed (auto simp: zod_laws split: if_splits)

end

subsection \<open>A parser that meets the laws\<close>

definition invalid_type :: "string \<Rightarrow> json option \<Rightarrow> zod_issue list + json option" where
  "invalid_type expected v = Inl [\<lparr>zi_code = ''invalid_type'', zi_path = [], zi_message = ''Invalid input'', zi_expected = expected,
     zi_received = (case v of None \<Rightarrow> ''undefined'' | Some JNull \<Rightarrow> ''null'' | Some (JBool _) \<Rightarrow> ''boolean''
       | Some (JNum _) \<Rightarrow> ''number'' | Some (JStr _) \<Rightarrow> ''string'' | Some (JDate _) \<Rightarrow> ''string''
       | Some (JArr _) \<Rightarrow> ''array'' | Some (JObj _) \<Rightarrow> ''object'')\<rparr>]"

definition under :: "path_key \<Rightarrow> zod_issue list + 'a \<Rightarrow> zod_issue list + 'a" where
  "under k r = (case r of Inl is \<Rightarrow> Inl (map (zi_path_update ((#) k)) is) | Inr x \<Rightarrow> Inr x)"

text \<open>All results, or all issues.\<close>

fun gather :: "(zod_issue list + 'a) list \<Rightarrow> zod_issue list + 'a list" where
  "gather [] = Inr []"
| "gather (Inl is # rs) = (case gather rs of Inl js \<Rightarrow> Inl (is @ js) | Inr _ \<Rightarrow> Inl is)"
| "gather (Inr x # rs) = (case gather rs of Inl js \<Rightarrow> Inl js | Inr xs \<Rightarrow> Inr (x # xs))"

definition accept_if :: "bool \<Rightarrow> string \<Rightarrow> json option \<Rightarrow> zod_issue list + json option" where
  "accept_if b expected v = (if b then Inr v else invalid_type expected v)"

definition digit :: "char \<Rightarrow> bool" where
  "digit c \<longleftrightarrow> c \<in> set ''0123456789''"

text \<open>\<open>YYYY-MM-DDThh:mm:ss\<close>, a fraction, and \<open>Z\<close>.\<close>

definition iso_datetime :: "string \<Rightarrow> bool" where
  "iso_datetime s \<longleftrightarrow> length s \<ge> 20
     \<and> map (\<lambda>c. if digit c then CHR ''0'' else c) (take 19 s) = ''0000-00-00T00:00:00'' \<and> last s = CHR ''Z''
     \<and> (let rest = butlast (drop 19 s) in rest = [] \<or> hd rest = CHR ''.'' \<and> tl rest \<noteq> [] \<and> list_all digit (tl rest))"

definition fill :: "json option \<Rightarrow> json" where
  "fill w = (case w of None \<Rightarrow> JNull | Some j \<Rightarrow> j)"

primrec zod_check :: safe_parse where
  "zod_check ZString v = accept_if (case v of Some (JStr s) \<Rightarrow> True | _ \<Rightarrow> False) ''string'' v"
| "zod_check ZNonEmpty v = accept_if (case v of Some (JStr s) \<Rightarrow> s \<noteq> [] | _ \<Rightarrow> False) ''string'' v"
| "zod_check ZDatetime v = accept_if (case v of Some (JStr s) \<Rightarrow> iso_datetime s | Some (JDate t) \<Rightarrow> True | _ \<Rightarrow> False) ''string'' v"
| "zod_check (ZInt m) v = accept_if (case v of Some (JNum n) \<Rightarrow> m \<le> n | _ \<Rightarrow> False) ''number'' v"
| "zod_check ZBoolean v = accept_if (case v of Some (JBool b) \<Rightarrow> True | _ \<Rightarrow> False) ''boolean'' v"
| "zod_check (ZLiteral s) v = accept_if (v = Some (JStr s)) ''string'' v"
| "zod_check (ZEnum ss) v = accept_if (v \<in> set (map (\<lambda>s. Some (JStr s)) ss)) ''string'' v"
| "zod_check ZUnknown v = Inr v"
| "zod_check (ZArray m z) v = (case v of
     Some (JArr xs) \<Rightarrow>
       (case gather (map (\<lambda>(i, x). under (Index i) (zod_check z (Some x))) (enumerate 0 xs)) of
          Inl is \<Rightarrow> Inl is
        | Inr ys \<Rightarrow> if length xs < m then invalid_type ''array'' v else Inr (Some (JArr (map fill ys))))
   | _ \<Rightarrow> invalid_type ''array'' v)"
| "zod_check (ZRecord z) v = (case v of
     Some (JObj kvs) \<Rightarrow>
       (case gather (map (\<lambda>(k, x). under (Key k) (zod_check z (Some x))) kvs) of
          Inl is \<Rightarrow> Inl is
        | Inr ys \<Rightarrow> Inr (Some (JObj (map2 (\<lambda>(k, x) w. (k, fill w)) kvs ys))))
   | _ \<Rightarrow> invalid_type ''object'' v)"
| "zod_check (ZObject fs) v = (case v of
     Some (JObj kvs) \<Rightarrow>
       (case gather (map (\<lambda>(k, check). under (Key k) (check (map_of kvs k))) (map (map_prod id zod_check) fs)) of
          Inl is \<Rightarrow> Inl is
        | Inr ws \<Rightarrow> Inr (Some (JObj (present (map fst (map (map_prod id zod_check) fs)) ws))))
   | _ \<Rightarrow> invalid_type ''object'' v)"
| "zod_check (ZOptional z) v = (if v = None then Inr None else zod_check z v)"
| "zod_check (ZNullable z) v = (if v = Some JNull then Inr v else zod_check z v)"
| "zod_check (ZRefine z r) v = (case zod_check z v of
     Inl is \<Rightarrow> Inl is
   | Inr w \<Rightarrow> (case w of None \<Rightarrow> Inr w | Some j \<Rightarrow> if r j = [] then Inr w else Inl (r j)))"

lemma under_Inr [simp]: "under k r = Inr x \<longleftrightarrow> r = Inr x"
  by (simp add: under_def split: sum.split)

lemma gather_Inr: "gather rs = Inr xs \<longleftrightarrow> rs = map Inr xs"
proof (induction rs arbitrary: xs)
  case (Cons r rs)
  show ?case
  proof (cases "gather rs")
    case (Inl js)
    then have "rs \<noteq> map Inr ys" for ys using Cons.IH[of ys] by simp
    then show ?thesis using Inl by (cases r; cases xs) auto
  next
    case (Inr ys)
    then have "rs = map Inr ys" using Cons.IH[of ys] by simp
    then show ?thesis using Inr by (cases r; cases xs) (auto simp: inj_map_eq_map)
  qed
qed auto

lemma gather_elements: "gather (map (\<lambda>(i, x). under (Index i) (f x)) (enumerate n xs)) = Inr ws
    \<longleftrightarrow> list_all2 (\<lambda>x w. f x = Inr w) xs ws"
  unfolding gather_Inr
proof (induction xs arbitrary: n ws)
  case (Cons x xs)
  then show ?case by (cases ws) auto
qed simp

lemma gather_fields: "gather (map (\<lambda>(k, x). under (Key k) (g k x)) kvs) = Inr ws
    \<longleftrightarrow> list_all2 (\<lambda>(k, x) w. g k x = Inr w) kvs ws"
  unfolding gather_Inr
proof (induction kvs arbitrary: ws)
  case (Cons f kvs)
  then show ?case by (cases ws; cases f) auto
qed simp

lemma fill_all:
  assumes "\<And>x. f x \<noteq> Inr None"
  shows "(\<exists>ws. list_all2 (\<lambda>x w. f x = Inr w) xs ws \<and> ys = map fill ws) \<longleftrightarrow> list_all2 (\<lambda>x y. f x = Inr (Some y)) xs ys"
proof
  assume "list_all2 (\<lambda>x y. f x = Inr (Some y)) xs ys"
  then have "list_all2 (\<lambda>x w. f x = Inr w) xs (map Some ys)" by (simp add: list_all2_map2)
  moreover have "ys = map fill (map Some ys)" by (simp add: fill_def comp_def)
  ultimately show "\<exists>ws. list_all2 (\<lambda>x w. f x = Inr w) xs ws \<and> ys = map fill ws" by blast
next
  assume "\<exists>ws. list_all2 (\<lambda>x w. f x = Inr w) xs ws \<and> ys = map fill ws"
  then obtain ws where ws: "list_all2 (\<lambda>x w. f x = Inr w) xs ws" "ys = map fill ws" by blast
  have "f x = Inr w \<Longrightarrow> f x = Inr (Some (fill w))" for x w using assms[of x] by (cases w) (auto simp: fill_def)
  then show "list_all2 (\<lambda>x y. f x = Inr (Some y)) xs ys"
    using list_all2_mono[OF ws(1)] by (simp add: ws(2) list_all2_map2)
qed

lemma fill_records:
  assumes "\<And>x. f x \<noteq> Inr None"
  shows "(\<exists>ws. list_all2 (\<lambda>(k, x) w. f x = Inr w) kvs ws \<and> kvs' = map2 (\<lambda>(k, x) w. (k, fill w)) kvs ws)
    \<longleftrightarrow> list_all2 (\<lambda>(k, x) (k', y). k = k' \<and> f x = Inr (Some y)) kvs kvs'"
proof
  assume "list_all2 (\<lambda>(k, x) (k', y). k = k' \<and> f x = Inr (Some y)) kvs kvs'"
  then have "list_all2 (\<lambda>(k, x) w. f x = Inr w) kvs (map (Some \<circ> snd) kvs')
      \<and> kvs' = map2 (\<lambda>(k, x) w. (k, fill w)) kvs (map (Some \<circ> snd) kvs')"
    by (induction rule: list_all2_induct) (auto simp: fill_def)
  then show "\<exists>ws. list_all2 (\<lambda>(k, x) w. f x = Inr w) kvs ws \<and> kvs' = map2 (\<lambda>(k, x) w. (k, fill w)) kvs ws" by blast
next
  have some: "f x = Inr w \<Longrightarrow> f x = Inr (Some (fill w))" for x w using assms[of x] by (cases w) (auto simp: fill_def)
  assume "\<exists>ws. list_all2 (\<lambda>(k, x) w. f x = Inr w) kvs ws \<and> kvs' = map2 (\<lambda>(k, x) w. (k, fill w)) kvs ws"
  then obtain ws where "list_all2 (\<lambda>(k, x) w. f x = Inr w) kvs ws" "kvs' = map2 (\<lambda>(k, x) w. (k, fill w)) kvs ws" by blast
  then show "list_all2 (\<lambda>(k, x) (k', y). k = k' \<and> f x = Inr (Some y)) kvs kvs'"
    by (induction arbitrary: kvs' rule: list_all2_induct) (auto dest: some)
qed

lemma accept_if_Inr [simp]: "accept_if b e v = Inr v' \<longleftrightarrow> b \<and> v' = v"
  by (auto simp: accept_if_def invalid_type_def)

lemma invalid_type_Inr [simp]: "invalid_type e v \<noteq> Inr v'"
  by (simp add: invalid_type_def)

text \<open>A value that is not \<open>undefined\<close> is never parsed to \<open>undefined\<close>.\<close>

lemma zod_check_defined: "zod_check z (Some x) \<noteq> Inr None"
  by (induction z) (auto split: json.splits sum.splits option.splits if_splits)

interpretation checked: zod_library zod_check iso_datetime
proof
  show "zod_check (ZArray n z) v = Inr v' \<longleftrightarrow> (\<exists>xs ys. v = Some (JArr xs) \<and> v' = Some (JArr ys) \<and> n \<le> length xs
      \<and> list_all2 (\<lambda>x y. zod_check z (Some x) = Inr (Some y)) xs ys)" for n z v v'
    unfolding fill_all[OF zod_check_defined, symmetric] gather_elements[of _ 0, symmetric]
    by (auto split: option.splits json.splits sum.splits if_splits)
  show "zod_check (ZRecord z) v = Inr v' \<longleftrightarrow> (\<exists>kvs kvs'. v = Some (JObj kvs) \<and> v' = Some (JObj kvs')
      \<and> list_all2 (\<lambda>(k, x) (k', y). k = k' \<and> zod_check z (Some x) = Inr (Some y)) kvs kvs')" for z v v'
    unfolding fill_records[OF zod_check_defined, symmetric]
      gather_fields[of "\<lambda>_ x. zod_check z (Some x)", symmetric]
    by (auto split: option.splits json.splits sum.splits if_splits)
  show "zod_check (ZObject fs) v = Inr v' \<longleftrightarrow> (\<exists>kvs ws. v = Some (JObj kvs)
      \<and> list_all2 (\<lambda>(k, s) w. zod_check s (map_of kvs k) = Inr w) fs ws \<and> v' = Some (JObj (present (map fst fs) ws)))" for fs v v'
    unfolding gather_fields[of "\<lambda>k s. zod_check s (map_of kvs k)" for kvs, symmetric]
    by (auto simp: case_prod_beta' comp_def split: option.splits json.splits sum.splits if_splits)
qed (auto split: json.splits sum.splits option.splits if_splits)

end
