(* ===== verification/Schemas.thy ===== *)
theory Schemas
  imports Zod
begin

text \<open>
  \<open>packages/schemas/src\<close>: the schemas of the packets that agents and control plane exchange, and the
  version check.  A \<open>z.object\<close> is \<open>ZObject\<close> with its fields in order, \<open>superRefine\<close> is \<open>ZRefine\<close>;
  \<open>z.string().min(1)\<close> is \<open>ZNonEmpty\<close>, \<open>z.number().int().positive()\<close> is \<open>ZInt 1\<close>.  The dash in the
  source's messages is written \<open>--\<close>.
\<close>

subsection \<open>Vocabularies\<close>

definition zodEnumFromConst :: "string list \<Rightarrow> zod" where
  "zodEnumFromConst vals = ZEnum vals"

definition FileChangeTypeSchema :: zod where
  "FileChangeTypeSchema = zodEnumFromConst [''added'', ''modified'', ''deleted'', ''renamed'']"

definition IssueSeveritySchema :: zod where
  "IssueSeveritySchema = zodEnumFromConst [''critical'', ''high'', ''medium'', ''low'']"

definition ValidationCheckTypeSchema :: zod where
  "ValidationCheckTypeSchema = zodEnumFromConst
     [''test'', ''lint'', ''build'', ''typecheck'', ''policy'', ''schema'', ''security'']"

definition ValidationCheckStatusSchema :: zod where
  "ValidationCheckStatusSchema = zodEnumFromConst [''passed'', ''failed'', ''skipped'']"

definition PacketTypeSchema :: zod where
  "PacketTypeSchema = zodEnumFromConst
     [''task_packet'', ''dev_result_packet'', ''review_packet'', ''lead_review_decision_packet'',
      ''merge_packet'', ''merge_assist_packet'', ''validation_result_packet'', ''post_merge_analysis_packet'']"

definition PacketStatusSchema :: zod where
  "PacketStatusSchema = zodEnumFromConst [''success'', ''failed'', ''partial'', ''blocked'']"

definition ReviewVerdictSchema :: zod where
  "ReviewVerdictSchema = zodEnumFromConst [''approved'', ''changes_requested'', ''escalated'']"

definition LeadReviewDecisionSchema :: zod where
  "LeadReviewDecisionSchema = zodEnumFromConst
     [''approved'', ''approved_with_follow_up'', ''changes_requested'', ''escalated'']"

definition ConfidenceSchema :: zod where
  "ConfidenceSchema = zodEnumFromConst [''high'', ''medium'', ''low'']"

definition AgentRoleSchema :: zod where
  "AgentRoleSchema = zodEnumFromConst
     [''planner'', ''developer'', ''reviewer'', ''lead-reviewer'', ''merge-assist'', ''post-merge-analysis'']"

definition MergeAssistRecommendationSchema :: zod where
  "MergeAssistRecommendationSchema = zodEnumFromConst [''auto_resolve'', ''reject_to_dev'', ''escalate'']"

definition PostMergeAnalysisRecommendationSchema :: zod where
  "PostMergeAnalysisRecommendationSchema = zodEnumFromConst
     [''revert'', ''hotfix_task'', ''escalate'', ''pre_existing'']"

definition MergeStrategySchema :: zod where
  "MergeStrategySchema = zodEnumFromConst [''rebase-and-merge'', ''squash'', ''merge-commit'']"

definition ValidationRunScopeSchema :: zod where
  "ValidationRunScopeSchema = zodEnumFromConst
     [''pre-dev'', ''during-dev'', ''pre-review'', ''pre-merge'', ''post-merge'']"

definition TaskTypeSchema :: zod where
  "TaskTypeSchema = zodEnumFromConst
     [''feature'', ''bug_fix'', ''refactor'', ''chore'', ''documentation'', ''test'', ''spike'']"

definition TaskPrioritySchema :: zod where
  "TaskPrioritySchema = zodEnumFromConst [''critical'', ''high'', ''medium'', ''low'']"

definition RiskLevelSchema :: zod where
  "RiskLevelSchema = zodEnumFromConst [''high'', ''medium'', ''low'']"

definition EstimatedSizeSchema :: zod where
  "EstimatedSizeSchema = zodEnumFromConst [''xs'', ''s'', ''m'', ''l'', ''xl'']"

subsection \<open>Shared objects\<close>

definition FileChangeSummarySchema :: zod where
  "FileChangeSummarySchema = ZObject
     [(''path'', ZNonEmpty), (''change_type'', FileChangeTypeSchema), (''summary'', ZNonEmpty)]"

definition IssueSchema :: zod where
  "IssueSchema = ZObject
     [(''severity'', IssueSeveritySchema), (''code'', ZNonEmpty), (''title'', ZNonEmpty),
      (''description'', ZNonEmpty), (''file_path'', ZOptional ZString), (''line'', ZOptional (ZInt 1)),
      (''blocking'', ZBoolean)]"

definition ValidationCheckResultSchema :: zod where
  "ValidationCheckResultSchema = ZObject
     [(''check_type'', ValidationCheckTypeSchema), (''tool_name'', ZNonEmpty), (''command'', ZNonEmpty),
      (''status'', ValidationCheckStatusSchema), (''duration_ms'', ZInt 0), (''summary'', ZNonEmpty),
      (''artifact_refs'', ZOptional (ZArray 0 ZNonEmpty))]"


subsection \<open>Rejection context\<close>

definition RejectionContextSchema :: zod where
  "RejectionContextSchema = ZObject
     [(''prior_review_cycle_id'', ZNonEmpty), (''blocking_issues'', ZArray 1 IssueSchema),
      (''lead_decision_summary'', ZNonEmpty)]"


subsection \<open>Task packet\<close>

definition TaskPacketTaskSchema :: zod where
  "TaskPacketTaskSchema = ZObject
     [(''title'', ZNonEmpty), (''description'', ZNonEmpty), (''task_type'', ZNonEmpty),
      (''priority'', ZNonEmpty), (''severity'', ZNonEmpty), (''acceptance_criteria'', ZArray 0 ZNonEmpty),
      (''definition_of_done'', ZArray 0 ZNonEmpty), (''risk_level'', RiskLevelSchema),
      (''suggested_file_scope'', ZArray 0 ZNonEmpty), (''branch_name'', ZNonEmpty)]"

definition TaskPacketRepositorySchema :: zod where
  "TaskPacketRepositorySchema = ZObject
     [(''name'', ZNonEmpty), (''default_branch'', ZNonEmpty)]"

definition TaskPacketWorkspaceSchema :: zod where
  "TaskPacketWorkspaceSchema = ZObject
     [(''worktree_path'', ZNonEmpty), (''artifact_root'', ZNonEmpty)]"

definition TaskPacketContextSchema :: zod where
  "TaskPacketContextSchema = ZObject
     [(''related_tasks'', ZArray 0 ZString), (''dependencies'', ZArray 0 ZString),
      (''rejection_context'', ZNullable RejectionContextSchema), (''code_map_refs'', ZArray 0 ZString),
      (''prior_partial_work'', ZNullable ZUnknown)]"

definition TaskPacketRepoPolicySchema :: zod where
  "TaskPacketRepoPolicySchema = ZObject
     [(''policy_set_id'', ZNonEmpty)]"

definition TaskPacketToolPolicySchema :: zod where
  "TaskPacketToolPolicySchema = ZObject
     [(''command_policy_id'', ZNonEmpty), (''file_scope_policy_id'', ZNonEmpty)]"

definition TaskPacketValidationRequirementsSchema :: zod where
  "TaskPacketValidationRequirementsSchema = ZObject
     [(''profile'', ZNonEmpty)]"

definition TaskPacketExpectedOutputSchema :: zod where
  "TaskPacketExpectedOutputSchema = ZObject
     [(''packet_type'', ZNonEmpty), (''schema_version'', ZNonEmpty)]"

definition TaskPacketSchema :: zod where
  "TaskPacketSchema = ZObject
     [(''packet_type'', ZLiteral ''task_packet''), (''schema_version'', ZLiteral ''1.0''),
      (''created_at'', ZDatetime), (''task_id'', ZNonEmpty), (''repository_id'', ZNonEmpty),
      (''role'', AgentRoleSchema), (''time_budget_seconds'', ZInt 1), (''expires_at'', ZDatetime),
      (''task'', TaskPacketTaskSchema), (''repository'', TaskPacketRepositorySchema),
      (''workspace'', TaskPacketWorkspaceSchema), (''context'', TaskPacketContextSchema),
      (''repo_policy'', TaskPacketRepoPolicySchema), (''tool_policy'', TaskPacketToolPolicySchema),
      (''validation_requirements'', TaskPacketValidationRequirementsSchema),
      (''stop_conditions'', ZArray 1 ZNonEmpty), (''expected_output'', TaskPacketExpectedOutputSchema)]"


subsection \<open>Developer result packet\<close>

definition DevResultPacketResultSchema :: zod where
  "DevResultPacketResultSchema = ZObject
     [(''branch_name'', ZNonEmpty), (''commit_sha'', ZNonEmpty),
      (''files_changed'', ZArray 0 FileChangeSummarySchema), (''tests_added_or_updated'', ZArray 0 ZNonEmpty),
      (''validations_run'', ZArray 0 ValidationCheckResultSchema), (''assumptions'', ZArray 0 ZString),
      (''risks'', ZArray 0 ZString), (''unresolved_issues'', ZArray 0 ZString)]"

definition DevResultPacketSchema :: zod where
  "DevResultPacketSchema = ZObject
     [(''packet_type'', ZLiteral ''dev_result_packet''), (''schema_version'', ZLiteral ''1.0''),
      (''created_at'', ZDatetime), (''task_id'', ZNonEmpty), (''repository_id'', ZNonEmpty),
      (''run_id'', ZNonEmpty), (''status'', PacketStatusSchema), (''summary'', ZNonEmpty),
      (''result'', DevResultPacketResultSchema), (''artifact_refs'', ZArray 0 ZNonEmpty)]"


subsection \<open>Review packet\<close>

definition custom_issue :: "string \<Rightarrow> string \<Rightarrow> zod_issue" where
  "custom_issue field msg = \<lparr>zi_code = ''custom'', zi_path = [Key field], zi_message = msg, zi_expected = [],
     zi_received = []\<rparr>"

definition reviewPacketRefine :: "json \<Rightarrow> zod_issue list" where
  "reviewPacketRefine data =
    (if json_get data ''verdict'' = Some (JStr ''approved'') \<and> json_length (json_get data ''blocking_issues'') > 0
     then [custom_issue ''blocking_issues'' (''blocking_issues must be empty when verdict is \"approved\" -- ''
       @ ''an approved review cannot have unresolved blocking issues'')]
     else [])"

definition ReviewPacketSchema :: zod where
  "ReviewPacketSchema = ZRefine (ZObject
     [(''packet_type'', ZLiteral ''review_packet''), (''schema_version'', ZLiteral ''1.0''),
      (''created_at'', ZDatetime), (''task_id'', ZNonEmpty), (''repository_id'', ZNonEmpty),
      (''review_cycle_id'', ZNonEmpty), (''reviewer_pool_id'', ZNonEmpty), (''reviewer_type'', ZNonEmpty),
      (''verdict'', ReviewVerdictSchema), (''summary'', ZNonEmpty), (''blocking_issues'', ZArray 0 IssueSchema),
      (''non_blocking_issues'', ZArray 0 IssueSchema), (''confidence'', ConfidenceSchema),
      (''follow_up_task_refs'', ZArray 0 ZNonEmpty), (''risks'', ZArray 0 ZString),
      (''open_questions'', ZArray 0 ZString)]) reviewPacketRefine"


subsection \<open>Lead review decision packet\<close>

definition leadReviewDecisionPacketRefine :: "json \<Rightarrow> zod_issue list" where
  "leadReviewDecisionPacketRefine data =
    (if json_get data ''decision'' = Some (JStr ''changes_requested'')
        \<and> json_length (json_get data ''blocking_issues'') = 0
     then [custom_issue ''blocking_issues'' (''blocking_issues must not be empty when decision is ''
       @ ''\"changes_requested\" -- the developer needs actionable feedback for rework'')]
     else [])
    @ (if json_get data ''decision'' = Some (JStr ''approved_with_follow_up'')
        \<and> json_length (json_get data ''follow_up_task_refs'') = 0
     then [custom_issue ''follow_up_task_refs'' (''follow_up_task_refs must not be empty when decision is ''
       @ ''\"approved_with_follow_up\" -- follow-up tasks are required for this decision type'')]
     else [])"

definition LeadReviewDecisionPacketSchema :: zod where
  "LeadReviewDecisionPacketSchema = ZRefine (ZObject
     [(''packet_type'', ZLiteral ''lead_review_decision_packet''), (''schema_version'', ZLiteral ''1.0''),
      (''created_at'', ZDatetime), (''task_id'', ZNonEmpty), (''repository_id'', ZNonEmpty),
      (''review_cycle_id'', ZNonEmpty), (''decision'', LeadReviewDecisionSchema), (''summary'', ZNonEmpty),
      (''blocking_issues'', ZArray 0 IssueSchema), (''non_blocking_suggestions'', ZArray 0 ZString),
      (''deduplication_notes'', ZArray 0 ZString), (''follow_up_task_refs'', ZArray 0 ZNonEmpty),
      (''risks'', ZArray 0 ZString), (''open_questions'', ZArray 0 ZString)]) leadReviewDecisionPacketRefine"


subsection \<open>Merge packet\<close>

definition MergePacketDetailsSchema :: zod where
  "MergePacketDetailsSchema = ZObject
     [(''source_branch'', ZNonEmpty), (''target_branch'', ZNonEmpty), (''approved_commit_sha'', ZNonEmpty),
      (''merged_commit_sha'', ZNonEmpty), (''merge_strategy'', MergeStrategySchema),
      (''rebase_performed'', ZBoolean), (''validation_results'', ZArray 0 ValidationCheckResultSchema)]"

definition MergePacketSchema :: zod where
  "MergePacketSchema = ZObject
     [(''packet_type'', ZLiteral ''merge_packet''), (''schema_version'', ZLiteral ''1.0''),
      (''created_at'', ZDatetime), (''task_id'', ZNonEmpty), (''repository_id'', ZNonEmpty),
      (''merge_queue_item_id'', ZNonEmpty), (''status'', PacketStatusSchema), (''summary'', ZNonEmpty),
      (''details'', MergePacketDetailsSchema), (''artifact_refs'', ZArray 0 ZNonEmpty)]"


subsection \<open>Merge assist packet\<close>

definition MergeAssistFileAffectedSchema :: zod where
  "MergeAssistFileAffectedSchema = ZObject
     [(''path'', ZNonEmpty), (''conflict_type'', ZNonEmpty), (''resolution_summary'', ZNonEmpty)]"

definition mergeAssistPacketRefine :: "json \<Rightarrow> zod_issue list" where
  "mergeAssistPacketRefine data =
    (if json_get data ''confidence'' = Some (JStr ''low'')
        \<and> json_get data ''recommendation'' \<noteq> Some (JStr ''reject_to_dev'')
        \<and> json_get data ''recommendation'' \<noteq> Some (JStr ''escalate'')
     then [custom_issue ''recommendation'' (''recommendation must be \"reject_to_dev\" or \"escalate\" when ''
       @ ''confidence is \"low\" -- low-confidence auto-resolve is not permitted'')]
     else [])"

definition MergeAssistPacketSchema :: zod where
  "MergeAssistPacketSchema = ZRefine (ZObject
     [(''packet_type'', ZLiteral ''merge_assist_packet''), (''schema_version'', ZLiteral ''1.0''),
      (''created_at'', ZDatetime), (''task_id'', ZNonEmpty), (''repository_id'', ZNonEmpty),
      (''merge_queue_item_id'', ZNonEmpty), (''recommendation'', MergeAssistRecommendationSchema),
      (''confidence'', ConfidenceSchema), (''summary'', ZNonEmpty), (''resolution_strategy'', ZNonEmpty),
      (''files_affected'', ZArray 0 MergeAssistFileAffectedSchema), (''rationale'', ZNonEmpty),
      (''risks'', ZArray 0 ZString), (''open_questions'', ZArray 0 ZString)]) mergeAssistPacketRefine"


subsection \<open>Validation result packet\<close>

definition ValidationResultPacketDetailsSchema :: zod where
  "ValidationResultPacketDetailsSchema = ZObject
     [(''run_scope'', ValidationRunScopeSchema), (''checks'', ZArray 0 ValidationCheckResultSchema)]"

definition ValidationResultPacketSchema :: zod where
  "ValidationResultPacketSchema = ZObject
     [(''packet_type'', ZLiteral ''validation_result_packet''), (''schema_version'', ZLiteral ''1.0''),
      (''created_at'', ZDatetime), (''task_id'', ZNonEmpty), (''repository_id'', ZNonEmpty),
      (''validation_run_id'', ZNonEmpty), (''status'', PacketStatusSchema), (''summary'', ZNonEmpty),
      (''details'', ValidationResultPacketDetailsSchema)]"


subsection \<open>Post-merge analysis packet\<close>

definition SuggestedRevertScopeSchema :: zod where
  "SuggestedRevertScopeSchema = ZObject
     [(''commits'', ZArray 0 ZNonEmpty), (''files'', ZArray 0 ZNonEmpty)]"

definition postMergeAnalysisPacketRefine :: "json \<Rightarrow> zod_issue list" where
  "postMergeAnalysisPacketRefine data =
    (if json_get data ''confidence'' = Some (JStr ''low'')
        \<and> json_get data ''recommendation'' \<noteq> Some (JStr ''escalate'')
     then [custom_issue ''recommendation'' (''recommendation must be \"escalate\" when confidence is \"low\" -- ''
       @ ''low-confidence automated remediation is not permitted'')]
     else [])"

definition PostMergeAnalysisPacketSchema :: zod where
  "PostMergeAnalysisPacketSchema = ZRefine (ZObject
     [(''packet_type'', ZLiteral ''post_merge_analysis_packet''), (''schema_version'', ZLiteral ''1.0''),
      (''created_at'', ZDatetime), (''task_id'', ZNonEmpty), (''repository_id'', ZNonEmpty),
      (''merge_queue_item_id'', ZNonEmpty), (''validation_run_id'', ZNonEmpty),
      (''recommendation'', PostMergeAnalysisRecommendationSchema), (''confidence'', ConfidenceSchema),
      (''summary'', ZNonEmpty), (''failure_attribution'', ZNonEmpty), (''rationale'', ZNonEmpty),
      (''suggested_revert_scope'', ZNullable SuggestedRevertScopeSchema),
      (''follow_up_task_description'', ZNullable ZNonEmpty), (''risks'', ZArray 0 ZString),
      (''open_questions'', ZArray 0 ZString)]) postMergeAnalysisPacketRefine"


subsection \<open>Policy snapshot\<close>

definition AllowedCommandSchema :: zod where
  "AllowedCommandSchema = ZObject
     [(''command'', ZNonEmpty), (''allowed_args_prefixes'', ZArray 0 ZString)]"

definition CommandPolicySchema :: zod where
  "CommandPolicySchema = ZObject
     [(''mode'', ZNonEmpty), (''allowed_commands'', ZArray 0 AllowedCommandSchema),
      (''denied_patterns'', ZArray 0 ZString), (''allow_shell_compound_commands'', ZBoolean),
      (''allow_subshells'', ZBoolean), (''allow_env_expansion'', ZBoolean),
      (''forbidden_arg_patterns'', ZArray 0 ZString)]"

definition FileScopePolicySchema :: zod where
  "FileScopePolicySchema = ZObject
     [(''read_roots'', ZArray 0 ZString), (''write_roots'', ZArray 0 ZString),
      (''deny_roots'', ZArray 0 ZString), (''allow_read_outside_scope'', ZBoolean),
      (''allow_write_outside_scope'', ZBoolean), (''on_violation'', ZNonEmpty)]"

definition ValidationProfileSchema :: zod where
  "ValidationProfileSchema = ZObject
     [(''required_checks'', ZArray 0 ZString), (''optional_checks'', ZArray 0 ZString),
      (''commands'', ZRecord ZString), (''fail_on_skipped_required_check'', ZBoolean)]"

definition ValidationPolicySchema :: zod where
  "ValidationPolicySchema = ZObject
     [(''profiles'', ZRecord ValidationProfileSchema)]"

definition RetryPolicySchema :: zod where
  "RetryPolicySchema = ZObject
     [(''max_attempts'', ZInt 0), (''backoff_strategy'', ZNonEmpty), (''initial_backoff_seconds'', ZInt 1),
      (''max_backoff_seconds'', ZInt 1), (''reuse_same_pool'', ZBoolean),
      (''allow_pool_change_after_failure'', ZBoolean), (''require_failure_summary_packet'', ZBoolean)]"

definition EscalationPolicySchema :: zod where
  "EscalationPolicySchema = ZObject
     [(''triggers'', ZRecord ZString), (''route_to'', ZNonEmpty), (''require_summary'', ZBoolean)]"

definition LeasePolicySchema :: zod where
  "LeasePolicySchema = ZObject
     [(''lease_ttl_seconds'', ZInt 1), (''heartbeat_interval_seconds'', ZInt 1),
      (''missed_heartbeat_threshold'', ZInt 1), (''grace_period_seconds'', ZInt 0),
      (''reclaim_action'', ZNonEmpty)]"

definition RetentionPolicySchema :: zod where
  "RetentionPolicySchema = ZObject
     [(''workspace_retention_hours'', ZInt 0), (''artifact_retention_days'', ZInt 0),
      (''retain_failed_workspaces'', ZBoolean), (''retain_escalated_workspaces'', ZBoolean)]"

definition ReviewPolicySchema :: zod where
  "ReviewPolicySchema = ZObject
     [(''max_review_rounds'', ZInt 1), (''required_reviewer_types'', ZArray 0 ZNonEmpty),
      (''optional_reviewer_types'', ZArray 0 ZString), (''lead_reviewer_required'', ZBoolean)]"

definition PolicySnapshotSchema :: zod where
  "PolicySnapshotSchema = ZObject
     [(''policy_snapshot_version'', ZLiteral ''1.0''), (''policy_set_id'', ZNonEmpty),
      (''command_policy'', ZOptional CommandPolicySchema),
      (''file_scope_policy'', ZOptional FileScopePolicySchema),
      (''validation_policy'', ZOptional ValidationPolicySchema),
      (''retry_policy'', ZOptional RetryPolicySchema),
      (''escalation_policy'', ZOptional EscalationPolicySchema),
      (''lease_policy'', ZOptional LeasePolicySchema), (''retention_policy'', ZOptional RetentionPolicySchema),
      (''review_policy'', ZOptional ReviewPolicySchema)]"

subsection \<open>Versions\<close>

text \<open>
  The whole numbers of JavaScript are doubles: 53 significant bits, rounded to the nearest with ties to the
  even one, and \<open>Infinity\<close> from \<open>2 ^ 1024\<close>.  (The language lets an engine drop the digits after the
  twentieth before it rounds; the model rounds the exact value, as the engines do.)
\<close>

datatype js_number = Finite int | Infinity

fun bit_length :: "nat \<Rightarrow> nat" where
  "bit_length n = (if n = 0 then 0 else Suc (bit_length (n div 2)))"

declare bit_length.simps [simp del]

definition round_double :: "nat \<Rightarrow> nat" where
  "round_double n =
    (let k = bit_length n - 53; q = n div 2 ^ k; r = n mod 2 ^ k in
     if k = 0 then n
     else if 2 ^ k < 2 * r \<or> 2 ^ k = 2 * r \<and> odd q then (q + 1) * 2 ^ k
     else q * 2 ^ k)"

definition to_double :: "nat \<Rightarrow> js_number" where
  "to_double n = (if bit_length (round_double n) \<le> 1024 then Finite (int (round_double n)) else Infinity)"

text \<open>
  \<open>String(x)\<close>: the shortest decimal digits that are read as \<open>x\<close> (of two such the nearer one, then the even
  one), in exponential form from \<open>10 ^ 21\<close>.
\<close>

definition decimal_candidate :: "nat \<Rightarrow> nat \<Rightarrow> nat option" where
  "decimal_candidate x e =
    (let s = x div 10 ^ e; lo = s * 10 ^ e; hi = (s + 1) * 10 ^ e;
         low = (0 < s \<and> round_double lo = x); high = (round_double hi = x) in
     if low \<and> high then Some (if x - lo < hi - x \<or> x - lo = hi - x \<and> even s then lo else hi)
     else if low then Some lo
     else if high then Some hi
     else None)"

fun shortest_decimal :: "nat \<Rightarrow> nat \<Rightarrow> nat" where
  "shortest_decimal x 0 = x"
| "shortest_decimal x (Suc e) =
    (case decimal_candidate x (Suc e) of Some c \<Rightarrow> c | None \<Rightarrow> shortest_decimal x e)"

definition nat_number_text :: "nat \<Rightarrow> string" where
  "nat_number_text x =
    (let c = shortest_decimal x (length (string_of_nat x)); ds = string_of_nat c;
         sig = rev (dropWhile (\<lambda>d. d = CHR ''0'') (rev ds)) in
     if length ds \<le> 21 then ds
     else take 1 sig @ (if length sig = 1 then [] else CHR ''.'' # tl sig) @ ''e+'' @ string_of_nat (length ds - 1))"

definition number_text :: "js_number \<Rightarrow> string" where
  "number_text v = (case v of Infinity \<Rightarrow> ''Infinity''
     | Finite i \<Rightarrow> if i < 0 then ''-'' @ nat_number_text (nat (- i)) else nat_number_text (nat i))"

record ParsedSchemaVersion =
  major :: js_number
  minor :: js_number

record VersionValidationResult =
  compatible :: bool
  parsed :: ParsedSchemaVersion
  version_reason :: "string option"

text \<open>\<open>VERSION_PATTERN\<close>: two numerals without leading zeros, separated by a dot.\<close>

definition numeral_text :: "string \<Rightarrow> bool" where
  "numeral_text s \<longleftrightarrow> s = ''0'' \<or> s \<noteq> [] \<and> hd s \<noteq> CHR ''0'' \<and> list_all digit s"

definition VERSION_PATTERN :: "string \<Rightarrow> (string \<times> string) option" where
  "VERSION_PATTERN version =
    (let a = takeWhile (\<lambda>c. c \<noteq> CHR ''.'') version; rest = dropWhile (\<lambda>c. c \<noteq> CHR ''.'') version in
     if rest \<noteq> [] \<and> numeral_text a \<and> numeral_text (tl rest) then Some (a, tl rest) else None)"

text \<open>\<open>Number(s)\<close> of a numeral: the double nearest to its value.\<close>

definition digit_value :: "char \<Rightarrow> nat" where
  "digit_value c = of_char c - of_char (CHR ''0'')"

definition numeral_value :: "string \<Rightarrow> nat" where
  "numeral_value s = foldl (\<lambda>n c. 10 * n + digit_value c) 0 s"

definition number_of :: "string \<Rightarrow> js_number" where
  "number_of s = to_double (numeral_value s)"

definition parseSchemaVersion :: "string \<Rightarrow> string + ParsedSchemaVersion" where
  "parseSchemaVersion version =
    (case VERSION_PATTERN version of
       None \<Rightarrow> Inl (''Invalid schema version \"'' @ version
         @ ''\": must be in \"major.minor\" format (e.g., \"1.0\")'')
     | Some (a, b) \<Rightarrow> Inr \<lparr>major = number_of a, minor = number_of b\<rparr>)"

definition isVersionCompatible :: "string \<Rightarrow> int \<Rightarrow> string + bool" where
  "isVersionCompatible version expectedMajor =
    (case parseSchemaVersion version of Inl e \<Rightarrow> Inl e | Inr v \<Rightarrow> Inr (major v = Finite expectedMajor))"

definition validatePacketVersion :: "string \<Rightarrow> int \<Rightarrow> VersionValidationResult" where
  "validatePacketVersion version expectedMajor =
    (case parseSchemaVersion version of
       Inl _ \<Rightarrow> \<lparr>compatible = False, parsed = \<lparr>major = Finite (- 1), minor = Finite (- 1)\<rparr>,
         version_reason = Some (''Invalid schema_version format \"'' @ version @ ''\": must be \"major.minor\"'')\<rparr>
     | Inr v \<Rightarrow>
         if major v \<noteq> Finite expectedMajor then
           \<lparr>compatible = False, parsed = v,
            version_reason = Some (''Expected major version '' @ number_text (Finite expectedMajor) @ '' but got ''
              @ number_text (major v))\<rparr>
         else \<lparr>compatible = True, parsed = v, version_reason = None\<rparr>)"

subsection \<open>Versions round trip\<close>

lemma digit_char:
  assumes "k < (10::nat)"
  shows "digit (char_of (of_char (CHR ''0'') + k))"
proof -
  have "list_all (\<lambda>k. digit (char_of (of_char (CHR ''0'') + k))) [0..<10::nat]" by code_simp
  moreover have "k \<in> set [0..<10]" using assms by simp
  ultimately show ?thesis unfolding list_all_iff by blast
qed

lemma digit_read:
  assumes "digit c"
  shows "digit_value c < 10" "char_of (of_char (CHR ''0'') + digit_value c) = c"
    "c \<noteq> CHR ''0'' \<Longrightarrow> 0 < digit_value c"
proof -
  have "list_all (\<lambda>c. digit_value c < 10 \<and> char_of (of_char (CHR ''0'') + digit_value c) = c
      \<and> (c \<noteq> CHR ''0'' \<longrightarrow> 0 < digit_value c)) ''0123456789''" by code_simp
  moreover have "c \<in> set ''0123456789''" using assms by (simp add: digit_def)
  ultimately have "digit_value c < 10 \<and> char_of (of_char (CHR ''0'') + digit_value c) = c
      \<and> (c \<noteq> CHR ''0'' \<longrightarrow> 0 < digit_value c)" unfolding list_all_iff by blast
  then show "digit_value c < 10" "char_of (of_char (CHR ''0'') + digit_value c) = c"
    "c \<noteq> CHR ''0'' \<Longrightarrow> 0 < digit_value c" by blast+
qed

lemma digit_written: "k < 10 \<Longrightarrow> digit_value (char_of (of_char (CHR ''0'') + k)) = k"
  by (simp add: digit_value_def)

lemma numeral_value_snoc: "numeral_value (s @ [c]) = 10 * numeral_value s + digit_value c"
  by (simp add: numeral_value_def)

lemma numeral_value_nat: "numeral_value (string_of_nat n) = n"
proof (induction n rule: string_of_nat.induct)
  case (1 n)
  show ?case
  proof (cases "n < 10")
    case True
    then show ?thesis using digit_written[OF True] by (simp add: string_of_nat.simps numeral_value_def)
  next
    case False
    then have "numeral_value (string_of_nat n) = 10 * (n div 10) + n mod 10"
      using 1 digit_written[of "n mod 10"] by (subst string_of_nat.simps) (simp add: numeral_value_snoc)
    then show ?thesis by simp
  qed
qed

lemma numeral_text_nat: "numeral_text (string_of_nat n) \<and> (0 < n \<longrightarrow> hd (string_of_nat n) \<noteq> CHR ''0'')"
proof (induction n rule: string_of_nat.induct)
  case (1 n)
  show ?case
  proof (cases "n < 10")
    case True
    have "n = 0" if "char_of (of_char (CHR ''0'') + n) = CHR ''0''"
      using digit_written[OF True] unfolding that by (simp add: digit_value_def)
    then show ?thesis using True digit_char[OF True]
      by (auto simp: string_of_nat.simps numeral_text_def)
  next
    case False
    then have ih: "numeral_text (string_of_nat (n div 10))" "hd (string_of_nat (n div 10)) \<noteq> CHR ''0''" using 1 by auto
    then have "list_all digit (string_of_nat (n div 10))" "string_of_nat (n div 10) \<noteq> []"
      by (auto simp: numeral_text_def)
    moreover have "string_of_nat n = string_of_nat (n div 10) @ [char_of (of_char (CHR ''0'') + n mod 10)]"
      using False by (subst string_of_nat.simps) simp
    ultimately show ?thesis using ih(2) digit_char[of "n mod 10"] by (simp add: numeral_text_def)
  qed
qed

lemma numeral_text_read:
  assumes "numeral_text s"
  shows "string_of_nat (numeral_value s) = s"
proof -
  have "s \<noteq> [] \<Longrightarrow> hd s \<noteq> CHR ''0'' \<Longrightarrow> list_all digit s \<Longrightarrow> string_of_nat (numeral_value s) = s \<and> 0 < numeral_value s" for s
  proof (induction s rule: rev_induct)
    case (snoc c s)
    then have c: "digit c" by simp
    show ?case
    proof (cases "s = []")
      case True
      then show ?thesis using digit_read[OF c] snoc.prems by (simp add: numeral_value_def string_of_nat.simps)
    next
      case False
      then have ih: "string_of_nat (numeral_value s) = s" "0 < numeral_value s" using snoc by auto
      let ?n = "10 * numeral_value s + digit_value c"
      have "?n div 10 = numeral_value s" "?n mod 10 = digit_value c" "\<not> ?n < 10"
        using digit_read(1)[OF c] ih(2) by auto
      then have "string_of_nat ?n = s @ [c]"
        using ih(1) digit_read(2)[OF c] by (subst string_of_nat.simps) simp
      then show ?thesis using ih(2) by (simp add: numeral_value_snoc)
    qed
  qed simp
  moreover have "string_of_nat (numeral_value ''0'') = ''0''" by code_simp
  ultimately show ?thesis using assms by (auto simp: numeral_text_def)
qed

lemma numeral_text_no_dot:
  assumes "numeral_text s"
  shows "CHR ''.'' \<notin> set s"
proof -
  have "\<not> digit (CHR ''.'')" by code_simp
  then show ?thesis using assms by (auto simp: numeral_text_def list_all_iff)
qed

text \<open>Rounding is exact below \<open>2 ^ 53\<close> and does not cross this bound.\<close>

lemma bit_length_bounds: "0 < n \<Longrightarrow> 2 ^ (bit_length n - 1) \<le> n \<and> n < 2 ^ bit_length n \<and> 0 < bit_length n"
proof (induction n rule: bit_length.induct)
  case (1 n)
  show ?case
  proof (cases "n div 2 = 0")
    case True
    then have "n = 1" using 1(2) by simp
    moreover have "bit_length 1 = 1" by code_simp
    ultimately show ?thesis by simp
  next
    case False
    then have ih: "2 ^ (bit_length (n div 2) - 1) \<le> n div 2" "n div 2 < 2 ^ bit_length (n div 2)" "0 < bit_length (n div 2)"
      using 1 by auto
    have b: "bit_length n = Suc (bit_length (n div 2))" using 1(2) by (simp add: bit_length.simps[of n])
    have "(2::nat) ^ bit_length (n div 2) = 2 * 2 ^ (bit_length (n div 2) - 1)" using ih(3) by (cases "bit_length (n div 2)") auto
    then have "2 ^ bit_length (n div 2) \<le> n" "n < 2 * 2 ^ bit_length (n div 2)" using ih(1,2) by linarith+
    then show ?thesis by (simp add: b)
  qed
qed

lemma bit_length_le: "n < 2 ^ k \<longleftrightarrow> bit_length n \<le> k"
proof (cases "n = 0")
  case True
  then show ?thesis by (simp add: bit_length.simps[of 0])
next
  case False
  note b = bit_length_bounds[of n]
  show ?thesis
  proof
    assume "n < 2 ^ k"
    with b False have "(2::nat) ^ (bit_length n - 1) < 2 ^ k" by linarith
    then have "bit_length n - 1 < k" by (simp only: power_strict_increasing_iff)
    then show "bit_length n \<le> k" by simp
  next
    assume "bit_length n \<le> k"
    then have "(2::nat) ^ bit_length n \<le> 2 ^ k" by (rule power_increasing) simp
    then show "n < 2 ^ k" using b False by linarith
  qed
qed

lemma to_double_finite: "to_double n = (if round_double n < 2 ^ 1024 then Finite (int (round_double n)) else Infinity)"
  unfolding to_double_def bit_length_le by (rule refl)

lemma round_double_exact: "n < 2 ^ 53 \<Longrightarrow> round_double n = n"
  unfolding bit_length_le by (simp add: round_double_def)

lemma round_double_large:
  assumes "2 ^ 53 \<le> n"
  shows "2 ^ 53 \<le> round_double n"
proof -
  define k where "k = bit_length n - 53"
  have k: "0 < k" using assms bit_length_le[of n 53] not_less k_def by force
  have "2 ^ (52 + k) \<le> n" using bit_length_bounds[of n] assms k by (simp add: k_def)
  then have "2 ^ 52 \<le> n div 2 ^ k" by (simp add: less_eq_div_iff_mult_less_eq power_add)
  then have "2 ^ 52 * 2 ^ k \<le> n div 2 ^ k * 2 ^ k" by (rule mult_right_mono) simp
  moreover have "(2::nat) ^ 53 \<le> 2 ^ 52 * 2 ^ k" using k power_increasing[of 53 "52 + k" "2::nat"] by (simp add: power_add)
  ultimately have "2 ^ 53 \<le> n div 2 ^ k * 2 ^ k" by (rule order_trans[rotated])
  moreover have "n div 2 ^ k * 2 ^ k \<le> round_double n"
  proof -
    define q up where "q = n div 2 ^ k" and "up \<longleftrightarrow> 2 ^ k < 2 * (n mod 2 ^ k) \<or> 2 ^ k = 2 * (n mod 2 ^ k) \<and> odd q"
    have "round_double n = (if k = 0 then n else if up then (q + 1) * 2 ^ k else q * 2 ^ k)"
      unfolding round_double_def Let_def k_def q_def up_def by (rule refl)
    then show ?thesis using k unfolding q_def[symmetric] by (cases up) simp_all
  qed
  ultimately show ?thesis by (rule order_trans)
qed

lemma round_double_error: "2 * \<bar>int (round_double n) - int n\<bar> \<le> 2 ^ (bit_length n - 53)"
proof -
  define k where "k = bit_length n - 53"
  have n: "int n = int (n div 2 ^ k) * 2 ^ k + int (n mod 2 ^ k)"
  proof -
    have "int n = int (n div 2 ^ k * 2 ^ k + n mod 2 ^ k)" by (simp only: div_mult_mod_eq)
    then show ?thesis by (simp only: of_nat_add of_nat_mult of_nat_power of_nat_numeral)
  qed
  have "n mod 2 ^ k < 2 ^ k" by simp
  then have m: "int (n mod 2 ^ k) < 2 ^ k" by (metis of_nat_less_iff of_nat_numeral of_nat_power)
  consider "k = 0" | "2 ^ k < 2 * (n mod 2 ^ k) \<or> 2 ^ k = 2 * (n mod 2 ^ k) \<and> odd (n div 2 ^ k)" "k \<noteq> 0"
    | "k \<noteq> 0" "\<not> (2 ^ k < 2 * (n mod 2 ^ k) \<or> 2 ^ k = 2 * (n mod 2 ^ k) \<and> odd (n div 2 ^ k))" by blast
  then show ?thesis
  proof cases
    case 1
    then show ?thesis by (simp add: round_double_def k_def)
  next
    case 2
    have "(2::nat) ^ k \<le> 2 * (n mod 2 ^ k)" using 2(1) by auto
    then have "(2::int) ^ k \<le> 2 * int (n mod 2 ^ k)"
      by (metis of_nat_le_iff of_nat_mult of_nat_numeral of_nat_power)
    moreover have "int (round_double n) = int (n div 2 ^ k) * 2 ^ k + 2 ^ k"
      using 2 by (simp add: round_double_def Let_def k_def[symmetric] algebra_simps)
    ultimately show ?thesis using n m by (simp add: k_def[symmetric])
  next
    case 3
    have "2 * (n mod 2 ^ k) \<le> (2::nat) ^ k" using 3(2) by auto
    then have "2 * int (n mod 2 ^ k) \<le> (2::int) ^ k"
      by (metis of_nat_le_iff of_nat_mult of_nat_numeral of_nat_power)
    moreover have "int (round_double n) = int (n div 2 ^ k) * 2 ^ k"
      using 3 by (simp add: round_double_def Let_def k_def[symmetric])
    ultimately show ?thesis using n by (simp add: k_def[symmetric])
  qed
qed

lemma to_double_exact: "n < 2 ^ 53 \<Longrightarrow> to_double n = Finite (int n)"
proof -
  assume n: "n < 2 ^ 53"
  have "(2::nat) ^ 53 < 2 ^ 1024" by (rule power_strict_increasing) simp_all
  then have "n < 2 ^ 1024" by (rule less_trans[OF n])
  then show ?thesis unfolding to_double_finite round_double_exact[OF n] by (rule if_P)
qed

lemma to_double_safe: "to_double n = Finite i \<Longrightarrow> i < 2 ^ 53 \<Longrightarrow> n < 2 ^ 53 \<and> i = int n"
proof -
  assume d: "to_double n = Finite i" and i: "i < 2 ^ 53"
  have "int (round_double n) = i" using d unfolding to_double_finite by (metis js_number.distinct(1) js_number.inject)
  then have "\<not> 2 ^ 53 \<le> round_double n" using i by simp
  then have n: "n < 2 ^ 53" using round_double_large not_le by blast
  then show ?thesis using d to_double_exact[OF n] by simp
qed

lemma decimal_candidate_exact: "x < 2 ^ 53 \<Longrightarrow> decimal_candidate x e = Some c \<Longrightarrow> c = x"
proof -
  assume x: "x < 2 ^ 53"
  have same: "y = x" if "round_double y = x" for y
  proof (cases "y < 2 ^ 53")
    case True
    then show ?thesis using that round_double_exact by simp
  next
    case False
    then have "2 ^ 53 \<le> round_double y" using round_double_large not_le by blast
    then show ?thesis using x that by simp
  qed
  define lo hi low high nearer where "lo = x div 10 ^ e * 10 ^ e" and "hi = (x div 10 ^ e + 1) * 10 ^ e"
    and "low \<longleftrightarrow> 0 < x div 10 ^ e \<and> round_double lo = x" and "high \<longleftrightarrow> round_double hi = x"
    and "nearer \<longleftrightarrow> x - lo < hi - x \<or> x - lo = hi - x \<and> even (x div 10 ^ e)"
  have "decimal_candidate x e = (if low \<and> high then Some (if nearer then lo else hi)
      else if low then Some lo else if high then Some hi else None)"
    unfolding decimal_candidate_def Let_def lo_def hi_def low_def high_def nearer_def by (rule refl)
  then show "c = x" if "decimal_candidate x e = Some c"
    using same[of lo] same[of hi] that by (auto simp: low_def high_def split: if_splits)
qed

lemma shortest_decimal_exact: "x < 2 ^ 53 \<Longrightarrow> shortest_decimal x e = x"
proof (induction e)
  case (Suc e)
  then show ?case using decimal_candidate_exact[OF Suc.prems, of "Suc e"] by (cases "decimal_candidate x (Suc e)") auto
qed simp

lemma length_string_of_nat: "n < 10 ^ Suc k \<Longrightarrow> length (string_of_nat n) \<le> Suc k"
proof (induction k arbitrary: n)
  case 0
  then show ?case by (simp add: string_of_nat.simps[of n])
next
  case (Suc k)
  from Suc.prems have "n div 10 < 10 ^ Suc k" by (simp add: div_less_iff_less_mult)
  from Suc.IH[OF this] show ?case by (simp add: string_of_nat.simps[of n])
qed

lemma number_text_exact: "n < 2 ^ 53 \<Longrightarrow> number_text (Finite (int n)) = string_of_nat n"
proof -
  assume n: "n < 2 ^ 53"
  then have "n < 10 ^ Suc 20" by simp
  then have "length (string_of_nat n) \<le> Suc 20" by (rule length_string_of_nat)
  then show ?thesis
    using shortest_decimal_exact[OF n] by (simp add: number_text_def nat_number_text_def Let_def)
qed

definition version_text :: "nat \<Rightarrow> nat \<Rightarrow> string" where
  "version_text m n = string_of_nat m @ ''.'' @ string_of_nat n"

lemma parse_version_text:
  "parseSchemaVersion (version_text m n) = Inr \<lparr>major = to_double m, minor = to_double n\<rparr>"
proof -
  let ?a = "string_of_nat m" and ?b = "string_of_nat n"
  have digits: "\<And>c. c \<in> set ?a \<Longrightarrow> c \<noteq> CHR ''.''"
    using numeral_text_no_dot[of ?a] numeral_text_nat[of m] by blast
  have "takeWhile (\<lambda>c. c \<noteq> CHR ''.'') (version_text m n) = ?a"
    unfolding version_text_def using takeWhile_append2[of ?a "\<lambda>c. c \<noteq> CHR ''.''" "CHR ''.'' # ?b", OF digits] by simp
  moreover have "dropWhile (\<lambda>c. c \<noteq> CHR ''.'') (version_text m n) = CHR ''.'' # ?b"
    unfolding version_text_def using dropWhile_append2[of ?a "\<lambda>c. c \<noteq> CHR ''.''" "CHR ''.'' # ?b", OF digits] by simp
  ultimately show ?thesis
    using numeral_text_nat by (simp add: parseSchemaVersion_def VERSION_PATTERN_def number_of_def numeral_value_nat)
qed

lemma parsed_version_text:
  assumes "parseSchemaVersion version = Inr v"
  obtains m n where "version = version_text m n"
proof -
  obtain a b where ab: "VERSION_PATTERN version = Some (a, b)"
    using assms by (auto simp: parseSchemaVersion_def split: option.splits)
  then have n: "numeral_text a" "numeral_text b" by (auto simp: VERSION_PATTERN_def Let_def split: if_splits)
  let ?rest = "dropWhile (\<lambda>c. c \<noteq> CHR ''.'') version"
  have r: "?rest \<noteq> []" "b = tl ?rest" "a = takeWhile (\<lambda>c. c \<noteq> CHR ''.'') version"
    using ab(1) by (auto simp: VERSION_PATTERN_def Let_def split: if_splits)
  then have "?rest = CHR ''.'' # b" using hd_dropWhile[OF r(1)] by (cases ?rest) auto
  then have "version = a @ CHR ''.'' # b" using takeWhile_dropWhile_id[of "\<lambda>c. c \<noteq> CHR ''.''" version] r(3) by simp
  then have "version = version_text (numeral_value a) (numeral_value b)"
    using n by (simp add: version_text_def numeral_text_read)
  then show thesis by (rule that)
qed

text \<open>The numbers that doubles hold exactly.\<close>

fun safe_number :: "js_number \<Rightarrow> bool" where
  "safe_number (Finite i) \<longleftrightarrow> 0 \<le> i \<and> i < 2 ^ 53"
| "safe_number Infinity \<longleftrightarrow> False"

text \<open>
  (C21) Versions round trip as far as the numbers of the language go.  A text is accepted as a schema version
  exactly when it is the decimal writing of two natural numbers with a dot between them, and parsing
  gives the doubles nearest to these numbers.  A version whose components are below \<open>2 ^ 53\<close> comes from its
  own printing and from no other text.  Beyond that bound distinct texts can give the same version:
  \<open>9007199254740993.0\<close> is read as \<open>9007199254740992.0\<close>, as the witness shows.
\<close>

theorem schema_version_roundtrip:
  "((\<exists>v. parseSchemaVersion version = Inr v) \<longleftrightarrow> (\<exists>m n. version = version_text m n))
   \<and> parseSchemaVersion (version_text m n) = Inr \<lparr>major = to_double m, minor = to_double n\<rparr>
   \<and> (safe_number (major v) \<and> safe_number (minor v) \<longrightarrow>
        (parseSchemaVersion version = Inr v \<longleftrightarrow> version = number_text (major v) @ ''.'' @ number_text (minor v)))"
proof (intro conjI impI iffI; (elim exE conjE)?)
  show "\<exists>m n. version = version_text m n" if "parseSchemaVersion version = Inr u" for u
    using parsed_version_text[OF that] by blast
  show "\<exists>u. parseSchemaVersion version = Inr u" if "version = version_text a b" for a b
    using that parse_version_text by blast
  show "parseSchemaVersion (version_text m n) = Inr \<lparr>major = to_double m, minor = to_double n\<rparr>"
    by (rule parse_version_text)
next
  assume safe: "safe_number (major v)" "safe_number (minor v)"
  from safe(1) obtain i where i: "major v = Finite i" "0 \<le> i" "i < 2 ^ 53" by (cases "major v") auto
  from safe(2) obtain j where j: "minor v = Finite j" "0 \<le> j" "j < 2 ^ 53" by (cases "minor v") auto
  have printed: "number_text (major v) @ ''.'' @ number_text (minor v) = version_text (nat i) (nat j)"
    using number_text_exact[of "nat i"] number_text_exact[of "nat j"] i j by (simp add: version_text_def)
  {
    assume p: "parseSchemaVersion version = Inr v"
    obtain a b where ab: "version = version_text a b" by (rule parsed_version_text[OF p])
    then have "to_double a = Finite i" "to_double b = Finite j" using p parse_version_text[of a b] i(1) j(1) by auto
    then show "version = number_text (major v) @ ''.'' @ number_text (minor v)"
      using to_double_safe[of a i] to_double_safe[of b j] i(3) j(3) ab printed by simp
  next
    assume "version = number_text (major v) @ ''.'' @ number_text (minor v)"
    then show "parseSchemaVersion version = Inr v"
      using parse_version_text[of "nat i" "nat j"] printed to_double_exact[of "nat i"] to_double_exact[of "nat j"] i j
      by (simp add: nat_less_iff)
  }
qed

theorem schema_version_roundtrip_witness:
  "parseSchemaVersion ''2.13'' = Inr \<lparr>major = Finite 2, minor = Finite 13\<rparr>
   \<and> parseSchemaVersion ''9007199254740993.0'' = parseSchemaVersion ''9007199254740992.0''"
proof
  have "number_text (Finite 2) @ ''.'' @ number_text (Finite 13) = ''2.13''" by code_simp
  then show "parseSchemaVersion ''2.13'' = Inr \<lparr>major = Finite 2, minor = Finite 13\<rparr>"
    using schema_version_roundtrip[of "''2.13''" 2 13 "\<lparr>major = Finite 2, minor = Finite 13\<rparr>"] by simp
  have "version_text 9007199254740993 0 = ''9007199254740993.0''" "version_text 9007199254740992 0 = ''9007199254740992.0''"
    by (simp_all add: version_text_def string_of_nat.simps char_of_def bit_0)
  moreover have "to_double 9007199254740993 = to_double 9007199254740992"
    by (simp add: to_double_def round_double_def bit_length.simps Let_def)
  ultimately show "parseSchemaVersion ''9007199254740993.0'' = parseSchemaVersion ''9007199254740992.0''"
    by (metis parse_version_text)
qed

end
