(* ===== verification/OutputValidator.thy ===== *)
theory OutputValidator
  imports Schemas "HOL-Library.AList"
begin

text \<open>
  \<open>packages/application/src/services/output-validator.service.ts\<close>: what a worker has printed is turned into
  a result packet or rejected.  The steps are extraction, version, schema with a conservative repair,
  identifiers, artifacts; rejections are counted per agent profile and audited.

  Arguments of the model: Zod's \<open>safeParse\<close>, \<open>JSON.parse\<close> (an error message or a value), the existence of
  artifacts, and the failure tracker, whose documented contract is the locale \<open>failure_tracker\<close>.
  \<open>await\<close> is sequential composition.  Template literals print the characters of the source.
\<close>

subsection \<open>Data\<close>

record WorkerOutputSource =
  outputFileContent :: "string option"
  stdoutContent :: string

record OutputValidationContext =
  oc_taskId :: string
  oc_repositoryId :: string
  oc_runId :: "string option"
  oc_reviewCycleId :: "string option"
  oc_mergeQueueItemId :: "string option"
  oc_validationRunId :: "string option"
  oc_expectedPacketType :: string
  oc_expectedMajorVersion :: int
  oc_agentProfileId :: string

datatype OutputRejectionReason =
    no_packet_found | json_parse_error | schema_validation_failed | version_incompatible | id_mismatch
  | artifacts_missing

fun OutputRejectionReason_value :: "OutputRejectionReason \<Rightarrow> string" where
  "OutputRejectionReason_value no_packet_found = ''no_packet_found''"
| "OutputRejectionReason_value json_parse_error = ''json_parse_error''"
| "OutputRejectionReason_value schema_validation_failed = ''schema_validation_failed''"
| "OutputRejectionReason_value version_incompatible = ''version_incompatible''"
| "OutputRejectionReason_value id_mismatch = ''id_mismatch''"
| "OutputRejectionReason_value artifacts_missing = ''artifacts_missing''"

record OutputValidationSuccess =
  os_packet :: json
  os_repaired :: bool
  os_repairActions :: "string list"

record OutputValidationFailure =
  of_packet :: "json option"
  of_reason :: OutputRejectionReason
  of_errors :: "string list"
  of_profileDisabled :: bool
  of_consecutiveFailures :: nat

datatype OutputValidationResult = accepted OutputValidationSuccess | rejected OutputValidationFailure

datatype ExtractionResult =
    found json string
  | unparsable string string string
  | not_found

text \<open>What a call may throw: reading a property of \<open>null\<close>, calling what is no schema, and a malformed version.\<close>

datatype js_thrown = TypeError string | InvalidVersion string

record 's outputPorts =
  JSON_parse :: "string \<Rightarrow> string + json"
  artifact_exists :: "string \<Rightarrow> bool"
  recordFailure :: "string \<Rightarrow> 's \<Rightarrow> nat \<times> 's"
  resetFailures :: "string \<Rightarrow> 's \<Rightarrow> 's"

record 's validatorState =
  tracker :: 's
  recorded :: "NewAuditEvent list"

definition RESULT_PACKET_START_DELIMITER :: string where
  "RESULT_PACKET_START_DELIMITER = ''---BEGIN_RESULT_PACKET---''"

definition RESULT_PACKET_END_DELIMITER :: string where
  "RESULT_PACKET_END_DELIMITER = ''---END_RESULT_PACKET---''"

definition DEFAULT_CONSECUTIVE_FAILURE_THRESHOLD :: nat where
  "DEFAULT_CONSECUTIVE_FAILURE_THRESHOLD = 3"

definition PACKET_SCHEMA_REGISTRY :: "(string \<times> zod) list" where
  "PACKET_SCHEMA_REGISTRY =
    [(''dev_result_packet'', DevResultPacketSchema), (''review_packet'', ReviewPacketSchema),
     (''lead_review_decision_packet'', LeadReviewDecisionPacketSchema), (''merge_packet'', MergePacketSchema),
     (''merge_assist_packet'', MergeAssistPacketSchema),
     (''validation_result_packet'', ValidationResultPacketSchema),
     (''post_merge_analysis_packet'', PostMergeAnalysisPacketSchema)]"

definition PACKET_STAGE_ID_FIELDS :: "(string \<times> string list) list" where
  "PACKET_STAGE_ID_FIELDS =
    [(''dev_result_packet'', [''run_id'']), (''review_packet'', [''review_cycle_id'']),
     (''lead_review_decision_packet'', [''review_cycle_id'']), (''merge_packet'', [''merge_queue_item_id'']),
     (''merge_assist_packet'', [''merge_queue_item_id'']), (''validation_result_packet'', [''validation_run_id'']),
     (''post_merge_analysis_packet'', [''merge_queue_item_id'', ''validation_run_id''])]"

subsection \<open>Extraction\<close>

text \<open>\<open>s.indexOf(pat)\<close> as the text before and after the first occurrence.\<close>

fun split_at :: "string \<Rightarrow> string \<Rightarrow> (string \<times> string) option" where
  "split_at pat s =
    (if take (length pat) s = pat then Some ([], drop (length pat) s)
     else case s of
       [] \<Rightarrow> None
     | c # cs \<Rightarrow> (case split_at pat cs of None \<Rightarrow> None | Some (a, b) \<Rightarrow> Some (c # a, b)))"

declare split_at.simps [simp del]

definition parsePacket :: "'s outputPorts \<Rightarrow> string \<Rightarrow> string \<Rightarrow> ExtractionResult" where
  "parsePacket ports content source = (case JSON_parse ports content of
     Inr j \<Rightarrow> found j source
   | Inl e \<Rightarrow> unparsable content source e)"

definition extractPacket :: "'s outputPorts \<Rightarrow> WorkerOutputSource \<Rightarrow> ExtractionResult" where
  "extractPacket ports source =
    (let fileContent = (case outputFileContent source of None \<Rightarrow> [] | Some s \<Rightarrow> trim s) in
     if fileContent \<noteq> [] then parsePacket ports fileContent ''file''
     else case split_at RESULT_PACKET_START_DELIMITER (stdoutContent source) of
       None \<Rightarrow> not_found
     | Some (_, afterStart) \<Rightarrow> (case split_at RESULT_PACKET_END_DELIMITER afterStart of
         None \<Rightarrow> not_found
       | Some (inner, _) \<Rightarrow>
           let jsonStr = trim inner in
           if jsonStr = [] then not_found else parsePacket ports jsonStr ''stdout''))"

subsection \<open>Schema validation and repair\<close>

record SchemaValidationResult =
  sv_valid :: bool
  sv_errors :: "string list"
  sv_issues :: "zod_issue list"

fun path_key_text :: "path_key \<Rightarrow> string" where
  "path_key_text (Key k) = k"
| "path_key_text (Index i) = string_of_nat i"

definition validateSchema :: "safe_parse \<Rightarrow> json \<Rightarrow> string \<Rightarrow> js_thrown + SchemaValidationResult" where
  "validateSchema safeParse data expectedPacketType =
    (case js_get PACKET_SCHEMA_REGISTRY expectedPacketType of
       None \<Rightarrow> Inr \<lparr>sv_valid = False,
         sv_errors = [''No schema registered for packet type: '' @ expectedPacketType], sv_issues = []\<rparr>
     | Some (Inherited _) \<Rightarrow> Inl (TypeError ''schema.safeParse is not a function'')
     | Some (Own schema) \<Rightarrow> (case safeParse schema (Some data) of
         Inr _ \<Rightarrow> Inr \<lparr>sv_valid = True, sv_errors = [], sv_issues = []\<rparr>
       | Inl issues \<Rightarrow> Inr \<lparr>sv_valid = False,
           sv_errors = map (\<lambda>i. join_strings ''.'' (map path_key_text (zi_path i)) @ '': '' @ zi_message i) issues,
           sv_issues = issues\<rparr>))"

text \<open>
  Assignment to a property, and \<open>setNestedValue\<close>, which follows objects and arrays only.  Writing beyond the
  end of an array leaves holes, which JSON writes as \<open>null\<close>; a text key of an array is no JSON.
\<close>

fun put_value :: "path_key \<Rightarrow> json \<Rightarrow> json \<Rightarrow> json" where
  "put_value k v (JObj kvs) = JObj (AList.update (path_key_text k) v kvs)"
| "put_value (Index i) v (JArr xs) = JArr (if i < length xs then xs[i := v] else xs @ replicate (i - length xs) JNull @ [v])"
| "put_value k v j = j"

fun get_value :: "path_key \<Rightarrow> json \<Rightarrow> json option" where
  "get_value k (JObj kvs) = map_of kvs (path_key_text k)"
| "get_value (Index i) (JArr xs) = (if i < length xs then Some (xs ! i) else None)"
| "get_value k j = None"

fun is_object :: "json option \<Rightarrow> bool" where
  "is_object (Some (JObj _)) \<longleftrightarrow> True"
| "is_object (Some (JArr _)) \<longleftrightarrow> True"
| "is_object _ \<longleftrightarrow> False"

fun setNestedValue :: "json \<Rightarrow> path_key list \<Rightarrow> json \<Rightarrow> json" where
  "setNestedValue obj [] v = obj"
| "setNestedValue obj [k] v = put_value k v obj"
| "setNestedValue obj (k # l # ks) v =
    (case get_value k obj of
       None \<Rightarrow> obj
     | Some n \<Rightarrow> if is_object (Some n) then put_value k (setNestedValue n (l # ks) v) obj else obj)"

definition repairIssue :: "zod_issue \<Rightarrow> json \<times> string list \<Rightarrow> json \<times> string list" where
  "repairIssue issue st = (let (repaired, actions) = st;
       fieldPath = join_strings ''.'' (map path_key_text (zi_path issue)) in
     if zi_code issue = ''invalid_type'' \<and> zi_received issue = ''undefined'' then
       if zi_expected issue = ''array'' then
         (setNestedValue repaired (zi_path issue) (JArr []),
          actions @ [''Set missing array field '' @ quoted fieldPath @ '' to []''])
       else if zi_expected issue = ''null'' then
         (setNestedValue repaired (zi_path issue) JNull,
          actions @ [''Set missing nullable field '' @ quoted fieldPath @ '' to null''])
       else st
     else st)"

record RepairResult =
  rr_success :: bool
  rr_repairedData :: json
  rr_actions :: "string list"

definition attemptSchemaRepair ::
  "safe_parse \<Rightarrow> json \<Rightarrow> zod_issue list \<Rightarrow> string \<Rightarrow> js_thrown + RepairResult" where
  "attemptSchemaRepair safeParse data issues expectedPacketType =
    (if \<not> is_object (Some data) then Inr \<lparr>rr_success = False, rr_repairedData = data, rr_actions = []\<rparr>
     else
       let (repaired, actions) = fold repairIssue issues (data, []) in
       if actions = [] then Inr \<lparr>rr_success = False, rr_repairedData = data, rr_actions = []\<rparr>
       else case validateSchema safeParse repaired expectedPacketType of
         Inl e \<Rightarrow> Inl e
       | Inr revalidation \<Rightarrow> Inr \<lparr>rr_success = sv_valid revalidation,
           rr_repairedData = (if sv_valid revalidation then repaired else data), rr_actions = actions\<rparr>)"

subsection \<open>Identifiers and artifacts\<close>

text \<open>\<open>String(v)\<close>.\<close>

fun js_String :: "json \<Rightarrow> string" where
  "js_String JNull = ''null''"
| "js_String (JBool b) = (if b then ''true'' else ''false'')"
| "js_String (JNum n) = string_of_int n"
| "js_String (JStr s) = s"
| "js_String (JArr xs) = join_strings '','' (map (\<lambda>x. if x = JNull then [] else js_String x) xs)"
| "js_String (JObj kvs) = ''[object Object]''"
| "js_String (JDate t) = string_of_int t"

definition mismatch :: "string \<Rightarrow> string \<Rightarrow> json option \<Rightarrow> string list" where
  "mismatch field expected actual =
    (if actual \<noteq> Some (JStr expected) then
       [field @ '': expected '' @ quoted expected @ '', got ''
          @ quoted (case actual of None \<Rightarrow> ''undefined'' | Some v \<Rightarrow> js_String v)]
     else [])"

definition contextIdMap :: "OutputValidationContext \<Rightarrow> string \<Rightarrow> string option" where
  "contextIdMap context = (\<lambda>field. if field = ''run_id'' then oc_runId context
     else if field = ''review_cycle_id'' then oc_reviewCycleId context
     else if field = ''merge_queue_item_id'' then oc_mergeQueueItemId context
     else if field = ''validation_run_id'' then oc_validationRunId context else None)"

definition verifyIds :: "json \<Rightarrow> OutputValidationContext \<Rightarrow> js_thrown + string list" where
  "verifyIds packet context =
    (case js_get PACKET_STAGE_ID_FIELDS (oc_expectedPacketType context) of
       Some (Inherited _) \<Rightarrow> Inl (TypeError ''stageFields is not iterable'')
     | stage \<Rightarrow>
         let stageFields = (case stage of Some (Own fs) \<Rightarrow> fs | _ \<Rightarrow> []) in
         Inr (mismatch ''task_id'' (oc_taskId context) (json_get packet ''task_id'')
           @ mismatch ''repository_id'' (oc_repositoryId context) (json_get packet ''repository_id'')
           @ concat (map (\<lambda>field. case contextIdMap context field of
               None \<Rightarrow> []
             | Some expected \<Rightarrow> mismatch field expected (json_get packet field)) stageFields)))"

definition verifyArtifacts :: "json \<Rightarrow> (string \<Rightarrow> bool) \<Rightarrow> string list" where
  "verifyArtifacts packet existing = (case json_get packet ''artifact_refs'' of
     Some (JArr refs) \<Rightarrow>
       List.map_filter (\<lambda>ref. case ref of JStr r \<Rightarrow> if existing r then None else Some r | _ \<Rightarrow> None) refs
   | _ \<Rightarrow> [])"

subsection \<open>The pipeline\<close>

definition buildSchemaViolationAuditEvent ::
  "OutputValidationContext \<Rightarrow> OutputRejectionReason \<Rightarrow> string list \<Rightarrow> nat \<Rightarrow> bool \<Rightarrow> NewAuditEvent" where
  "buildSchemaViolationAuditEvent context why errors consecutiveFailures profileDisabled =
    \<lparr>na_entityType = ''task'', na_entityId = oc_taskId context, na_eventType = ''schema_violation'',
     na_actorType = ''system'', na_actorId = ''output-validator'', na_oldState = None, na_newState = None,
     na_metadata = Some (JObj
       [(''reason'', JStr (OutputRejectionReason_value why)),
        (''expectedPacketType'', JStr (oc_expectedPacketType context)),
        (''agentProfileId'', JStr (oc_agentProfileId context)), (''errors'', JArr (map JStr (take 20 errors))),
        (''consecutiveFailures'', JNum (int consecutiveFailures)), (''profileDisabled'', JBool profileDisabled)])\<rparr>"

definition recordFailureAndReject ::
  "'s outputPorts \<Rightarrow> nat \<Rightarrow> OutputValidationContext \<Rightarrow> OutputRejectionReason \<Rightarrow> string list \<Rightarrow> json option
    \<Rightarrow> 's validatorState \<Rightarrow> (js_thrown + OutputValidationResult) \<times> 's validatorState" where
  "recordFailureAndReject ports threshold context why errors packet st =
    (let (consecutiveFailures, t) = recordFailure ports (oc_agentProfileId context) (tracker st);
         profileDisabled = (consecutiveFailures \<ge> threshold);
         auditEvent = buildSchemaViolationAuditEvent context why errors consecutiveFailures profileDisabled in
     (Inr (rejected \<lparr>of_packet = packet, of_reason = why, of_errors = errors, of_profileDisabled = profileDisabled,
        of_consecutiveFailures = consecutiveFailures\<rparr>),
      st\<lparr>tracker := t, recorded := recorded st @ [auditEvent]\<rparr>))"

text \<open>Steps 4 to 6, on the packet that passed the schema.\<close>

definition finishValidation ::
  "'s outputPorts \<Rightarrow> nat \<Rightarrow> OutputValidationContext \<Rightarrow> json \<Rightarrow> bool \<Rightarrow> string list
    \<Rightarrow> 's validatorState \<Rightarrow> (js_thrown + OutputValidationResult) \<times> 's validatorState" where
  "finishValidation ports threshold context finalPacket repaired repairActions st =
    (case verifyIds finalPacket context of
       Inl e \<Rightarrow> (Inl e, st)
     | Inr idMismatches \<Rightarrow>
         if idMismatches \<noteq> [] then
           recordFailureAndReject ports threshold context id_mismatch idMismatches (Some finalPacket) st
         else let missingArtifacts = verifyArtifacts finalPacket (artifact_exists ports) in
           if missingArtifacts \<noteq> [] then
             recordFailureAndReject ports threshold context artifacts_missing
               (map (\<lambda>p. ''Missing artifact: '' @ p) missingArtifacts) (Some finalPacket) st
           else (Inr (accepted \<lparr>os_packet = finalPacket, os_repaired = repaired, os_repairActions = repairActions\<rparr>),
             st\<lparr>tracker := resetFailures ports (oc_agentProfileId context) (tracker st)\<rparr>))"

text \<open>Step 3, with the repair.\<close>

definition validateFound ::
  "safe_parse \<Rightarrow> 's outputPorts \<Rightarrow> nat \<Rightarrow> OutputValidationContext \<Rightarrow> json
    \<Rightarrow> 's validatorState \<Rightarrow> (js_thrown + OutputValidationResult) \<times> 's validatorState" where
  "validateFound safeParse ports threshold context packetData st =
    (case validateSchema safeParse packetData (oc_expectedPacketType context) of
       Inl e \<Rightarrow> (Inl e, st)
     | Inr validation \<Rightarrow>
         if sv_valid validation then finishValidation ports threshold context packetData False [] st
         else case attemptSchemaRepair safeParse packetData (sv_issues validation) (oc_expectedPacketType context) of
           Inl e \<Rightarrow> (Inl e, st)
         | Inr repair \<Rightarrow>
             if rr_success repair then
               finishValidation ports threshold context (rr_repairedData repair) True (rr_actions repair) st
             else recordFailureAndReject ports threshold context schema_validation_failed
               (sv_errors validation) (Some packetData) st)"

definition validateOutput ::
  "safe_parse \<Rightarrow> 's outputPorts \<Rightarrow> nat option \<Rightarrow> WorkerOutputSource \<Rightarrow> OutputValidationContext
    \<Rightarrow> 's validatorState \<Rightarrow> (js_thrown + OutputValidationResult) \<times> 's validatorState" where
  "validateOutput safeParse ports consecutiveFailureThreshold source context st =
    (let threshold = (case consecutiveFailureThreshold of
           None \<Rightarrow> DEFAULT_CONSECUTIVE_FAILURE_THRESHOLD | Some n \<Rightarrow> n) in
     case extractPacket ports source of
       not_found \<Rightarrow> recordFailureAndReject ports threshold context no_packet_found
         [''No structured output packet found (neither output file nor stdout delimiters)''] None st
     | unparsable _ src e \<Rightarrow> recordFailureAndReject ports threshold context json_parse_error
         [''JSON parse error from '' @ src @ '': '' @ e] None st
     | found packetData _ \<Rightarrow>
         if packetData = JNull then (Inl (TypeError ''Cannot read properties of null''), st)
         else (case json_get packetData ''schema_version'' of
           Some (JStr schemaVersion) \<Rightarrow>
             (case isVersionCompatible schemaVersion (oc_expectedMajorVersion context) of
                Inl e \<Rightarrow> (Inl (InvalidVersion e), st)
              | Inr False \<Rightarrow> recordFailureAndReject ports threshold context version_incompatible
                  [''Schema version '' @ quoted schemaVersion @ '' is incompatible with expected major version ''
                    @ number_text (Finite (oc_expectedMajorVersion context))] (Some packetData) st
              | Inr True \<Rightarrow> validateFound safeParse ports threshold context packetData st)
         | _ \<Rightarrow> recordFailureAndReject ports threshold context version_incompatible
             [''Packet missing schema_version field''] (Some packetData) st))"

subsection \<open>The failure tracker\<close>

text \<open>What \<open>SchemaFailureTrackerPort\<close> documents, and the tracker of the service's tests, which keeps it.\<close>

locale failure_tracker =
  fixes failures :: "string \<Rightarrow> 's \<Rightarrow> nat" and ports :: "'s outputPorts"
  assumes record_count: "fst (recordFailure ports p s) = Suc (failures p s)"
    and record_failures: "failures q (snd (recordFailure ports p s)) = (if q = p then Suc (failures p s) else failures q s)"
    and reset_failures: "failures q (resetFailures ports p s) = (if q = p then 0 else failures q s)"

definition memory_tracker :: "(string \<Rightarrow> string + json) \<Rightarrow> (string \<Rightarrow> bool) \<Rightarrow> (string \<times> nat) list outputPorts" where
  "memory_tracker parse existing = \<lparr>JSON_parse = parse, artifact_exists = existing,
     recordFailure = (\<lambda>p s. let n = (case map_of s p of None \<Rightarrow> 0 | Some n \<Rightarrow> n) + 1 in (n, AList.update p n s)),
     resetFailures = (\<lambda>p s. AList.update p 0 s)\<rparr>"

definition memory_failures :: "string \<Rightarrow> (string \<times> nat) list \<Rightarrow> nat" where
  "memory_failures p s = (case map_of s p of None \<Rightarrow> 0 | Some n \<Rightarrow> n)"

interpretation counter: failure_tracker memory_failures "memory_tracker parse existing" for parse existing
  by unfold_locales (auto simp: memory_tracker_def memory_failures_def Let_def update_conv' split: option.split)

definition counted :: "(string \<Rightarrow> 's \<Rightarrow> nat) \<Rightarrow> nat \<Rightarrow> OutputValidationContext \<Rightarrow> 's validatorState \<Rightarrow> OutputValidationFailure \<Rightarrow> 's validatorState \<Rightarrow> bool" where
  "counted failures threshold context st f st' \<longleftrightarrow>
    of_consecutiveFailures f = Suc (failures (oc_agentProfileId context) (tracker st))
    \<and> (of_profileDisabled f \<longleftrightarrow> threshold \<le> of_consecutiveFailures f)
    \<and> (\<forall>q. failures q (tracker st') = (if q = oc_agentProfileId context then of_consecutiveFailures f else failures q (tracker st)))
    \<and> recorded st' = recorded st @ [buildSchemaViolationAuditEvent context (of_reason f) (of_errors f)
        (of_consecutiveFailures f) (of_profileDisabled f)]"

context failure_tracker
begin

lemma reject_counted:
  "\<exists>f st'. recordFailureAndReject ports threshold context why errors packet st = (Inr (rejected f), st')
    \<and> counted failures threshold context st f st' \<and> of_reason f = why \<and> of_packet f = packet"
  using record_count[of "oc_agentProfileId context" "tracker st"] record_failures[of _ "oc_agentProfileId context" "tracker st"]
  by (auto simp: recordFailureAndReject_def counted_def Let_def case_prod_beta)

end

subsection \<open>What is accepted\<close>

lemmas schema_defs = zodEnumFromConst_def FileChangeTypeSchema_def IssueSeveritySchema_def ValidationCheckTypeSchema_def
  ValidationCheckStatusSchema_def PacketStatusSchema_def ReviewVerdictSchema_def LeadReviewDecisionSchema_def
  ConfidenceSchema_def MergeAssistRecommendationSchema_def PostMergeAnalysisRecommendationSchema_def
  MergeStrategySchema_def ValidationRunScopeSchema_def FileChangeSummarySchema_def IssueSchema_def
  ValidationCheckResultSchema_def DevResultPacketResultSchema_def DevResultPacketSchema_def ReviewPacketSchema_def
  LeadReviewDecisionPacketSchema_def MergePacketDetailsSchema_def MergePacketSchema_def
  MergeAssistFileAffectedSchema_def MergeAssistPacketSchema_def ValidationResultPacketDetailsSchema_def
  ValidationResultPacketSchema_def SuggestedRevertScopeSchema_def PostMergeAnalysisPacketSchema_def

definition ids_match :: "json \<Rightarrow> OutputValidationContext \<Rightarrow> bool" where
  "ids_match packet context \<longleftrightarrow> json_get packet ''task_id'' = Some (JStr (oc_taskId context))
     \<and> json_get packet ''repository_id'' = Some (JStr (oc_repositoryId context))
     \<and> (\<forall>fs. map_of PACKET_STAGE_ID_FIELDS (oc_expectedPacketType context) = Some fs \<longrightarrow>
          (\<forall>field \<in> set fs. \<forall>expected. contextIdMap context field = Some expected \<longrightarrow>
             json_get packet field = Some (JStr expected)))"

definition artifacts_exist :: "json \<Rightarrow> (string \<Rightarrow> bool) \<Rightarrow> bool" where
  "artifacts_exist packet existing \<longleftrightarrow> (\<forall>refs. json_get packet ''artifact_refs'' = Some (JArr refs) \<longrightarrow>
     (\<forall>r. JStr r \<in> set refs \<longrightarrow> existing r))"

definition registered :: "string \<Rightarrow> bool" where
  "registered t \<longleftrightarrow> t \<in> fst ` set PACKET_SCHEMA_REGISTRY"

lemma verifyIds_registered:
  assumes "registered (oc_expectedPacketType context)"
  shows "\<exists>ms. verifyIds packet context = Inr ms \<and> (ms = [] \<longleftrightarrow> ids_match packet context)"
proof -
  obtain fs where fs: "map_of PACKET_STAGE_ID_FIELDS (oc_expectedPacketType context) = Some fs"
    using assms by (auto simp: registered_def PACKET_SCHEMA_REGISTRY_def PACKET_STAGE_ID_FIELDS_def)
  have "mismatch f e a = [] \<longleftrightarrow> a = Some (JStr e)" for f e a by (simp add: mismatch_def)
  then show ?thesis using fs by (auto simp: verifyIds_def js_get_def ids_match_def Let_def split: option.splits)
qed

lemma verifyArtifacts_empty: "verifyArtifacts packet existing = [] \<longleftrightarrow> artifacts_exist packet existing"
proof -
  have "List.map_filter (\<lambda>ref. case ref of JStr r \<Rightarrow> if existing r then None else Some r | _ \<Rightarrow> None) refs = []
      \<longleftrightarrow> (\<forall>r. JStr r \<in> set refs \<longrightarrow> existing r)" for refs
    by (induction refs) (auto simp: map_filter_def split: json.splits if_splits)
  then show ?thesis by (auto simp: verifyArtifacts_def artifacts_exist_def split: option.split json.split)
qed

context zod_library
begin

text \<open>Every packet schema fixes the type and the version of its packets.\<close>

lemma packet_header:
  assumes "(t, schema) \<in> set PACKET_SCHEMA_REGISTRY" and "safeParse schema (Some j) = Inr w"
  shows "json_get j ''packet_type'' = Some (JStr t) \<and> json_get j ''schema_version'' = Some (JStr ''1.0'')"
proof -
  have obj: "json_get j ''packet_type'' = Some (JStr t) \<and> json_get j ''schema_version'' = Some (JStr ''1.0'')"
    if o: "safeParse (ZObject fs) (Some j) = Inr w" "(''packet_type'', ZLiteral t) \<in> set fs"
      "(''schema_version'', ZLiteral ''1.0'') \<in> set fs" "distinct (map fst fs)" for fs
  proof -
    obtain p where "w = Some p" using o(1) by (auto simp: object_ok)
    then show ?thesis using object_field[of fs j p, OF _ o(2,4)] object_field[of fs j p, OF _ o(3,4)] o(1)
      by (auto simp: literal_ok)
  qed
  obtain fs r where "schema = ZObject fs \<or> schema = ZRefine (ZObject fs) r"
    and fs: "(''packet_type'', ZLiteral t) \<in> set fs" "(''schema_version'', ZLiteral ''1.0'') \<in> set fs" "distinct (map fst fs)"
    using assms(1) by (fastforce simp: PACKET_SCHEMA_REGISTRY_def DevResultPacketSchema_def ReviewPacketSchema_def
        LeadReviewDecisionPacketSchema_def MergePacketSchema_def MergeAssistPacketSchema_def
        ValidationResultPacketSchema_def PostMergeAnalysisPacketSchema_def)
  then show ?thesis using obj[OF _ fs] assms(2) by (auto simp: refine_ok)
qed

end

definition judged ::
  "safe_parse \<Rightarrow> (string \<Rightarrow> 's \<Rightarrow> nat) \<Rightarrow> 's outputPorts \<Rightarrow> nat \<Rightarrow> OutputValidationContext \<Rightarrow> 's validatorState
    \<Rightarrow> OutputValidationResult \<Rightarrow> 's validatorState \<Rightarrow> bool" where
  "judged safeParse failures ports threshold ctx st result st' \<longleftrightarrow> (case result of
     accepted r \<Rightarrow>
       (\<exists>schema w. (oc_expectedPacketType ctx, schema) \<in> set PACKET_SCHEMA_REGISTRY
          \<and> safeParse schema (Some (os_packet r)) = Inr w)
       \<and> json_get (os_packet r) ''packet_type'' = Some (JStr (oc_expectedPacketType ctx))
       \<and> json_get (os_packet r) ''schema_version'' = Some (JStr ''1.0'')
       \<and> ids_match (os_packet r) ctx \<and> artifacts_exist (os_packet r) (artifact_exists ports)
       \<and> (\<forall>q. failures q (tracker st') = (if q = oc_agentProfileId ctx then 0 else failures q (tracker st)))
       \<and> recorded st' = recorded st
   | rejected f \<Rightarrow> counted failures threshold ctx st f st')"

text \<open>
  The specification of the outcome.  The repair fills the missing fields whose absence the schema reports,
  arrays with \<open>[]\<close> and nullable ones with \<open>null\<close>; a packet is admitted as it is, or repaired when the
  schema refuses it but accepts it filled.
\<close>

definition fillable :: "zod_issue \<Rightarrow> bool" where
  "fillable issue \<longleftrightarrow> zi_code issue = ''invalid_type'' \<and> zi_received issue = ''undefined''
     \<and> zi_expected issue \<in> {''array'', ''null''}"

definition fill :: "zod_issue \<Rightarrow> json \<Rightarrow> json" where
  "fill issue j = setNestedValue j (zi_path issue) (if zi_expected issue = ''array'' then JArr [] else JNull)"

definition fill_text :: "zod_issue \<Rightarrow> string" where
  "fill_text issue = (let field = quoted (join_strings ''.'' (map path_key_text (zi_path issue))) in
     if zi_expected issue = ''array'' then ''Set missing array field '' @ field @ '' to []''
     else ''Set missing nullable field '' @ field @ '' to null'')"

definition admitted :: "safe_parse \<Rightarrow> OutputValidationContext \<Rightarrow> json \<Rightarrow> json \<Rightarrow> bool \<Rightarrow> string list \<Rightarrow> bool" where
  "admitted safeParse ctx j q rep acts \<longleftrightarrow> (\<exists>schema. (oc_expectedPacketType ctx, schema) \<in> set PACKET_SCHEMA_REGISTRY
     \<and> (case safeParse schema (Some j) of
          Inr _ \<Rightarrow> q = j \<and> \<not> rep \<and> acts = []
        | Inl issues \<Rightarrow> is_object (Some j) \<and> filter fillable issues \<noteq> []
            \<and> q = fold fill (filter fillable issues) j \<and> (\<exists>w. safeParse schema (Some q) = Inr w)
            \<and> rep \<and> acts = map fill_text (filter fillable issues)))"

definition version_fits :: "json \<Rightarrow> OutputValidationContext \<Rightarrow> bool" where
  "version_fits j ctx \<longleftrightarrow> (\<exists>v pv. json_get j ''schema_version'' = Some (JStr v)
     \<and> parseSchemaVersion v = Inr pv \<and> major pv = Finite (oc_expectedMajorVersion ctx))"

definition acceptable ::
  "safe_parse \<Rightarrow> 's outputPorts \<Rightarrow> WorkerOutputSource \<Rightarrow> OutputValidationContext \<Rightarrow> OutputValidationSuccess \<Rightarrow> bool" where
  "acceptable safeParse ports source ctx r \<longleftrightarrow> (\<exists>j src. extractPacket ports source = found j src
     \<and> version_fits j ctx \<and> admitted safeParse ctx j (os_packet r) (os_repaired r) (os_repairActions r)
     \<and> ids_match (os_packet r) ctx \<and> artifacts_exist (os_packet r) (artifact_exists ports))"

text \<open>The reason of a rejection: the first check that fails.\<close>

definition refused_for ::
  "safe_parse \<Rightarrow> 's outputPorts \<Rightarrow> WorkerOutputSource \<Rightarrow> OutputValidationContext \<Rightarrow> OutputRejectionReason \<Rightarrow> bool" where
  "refused_for safeParse ports source ctx why \<longleftrightarrow> (case extractPacket ports source of
     not_found \<Rightarrow> why = no_packet_found
   | unparsable _ _ _ \<Rightarrow> why = json_parse_error
   | found j _ \<Rightarrow>
       if \<not> version_fits j ctx then why = version_incompatible
       else if \<nexists>q rep acts. admitted safeParse ctx j q rep acts then why = schema_validation_failed
       else \<exists>q rep acts. admitted safeParse ctx j q rep acts
         \<and> (if \<not> ids_match q ctx then why = id_mismatch
            else \<not> artifacts_exist q (artifact_exists ports) \<and> why = artifacts_missing))"

lemma registry_unique:
  "(t, sc) \<in> set PACKET_SCHEMA_REGISTRY \<Longrightarrow> (t, sc') \<in> set PACKET_SCHEMA_REGISTRY \<Longrightarrow> sc' = sc"
  by (rule eq_key_imp_eq_value[of PACKET_SCHEMA_REGISTRY]) (simp_all add: PACKET_SCHEMA_REGISTRY_def)

lemma admitted_schema:
  assumes "(oc_expectedPacketType ctx, schema) \<in> set PACKET_SCHEMA_REGISTRY"
  shows "admitted safeParse ctx j q rep acts \<longleftrightarrow> (case safeParse schema (Some j) of
          Inr _ \<Rightarrow> q = j \<and> \<not> rep \<and> acts = []
        | Inl issues \<Rightarrow> is_object (Some j) \<and> filter fillable issues \<noteq> []
            \<and> q = fold fill (filter fillable issues) j \<and> (\<exists>w. safeParse schema (Some q) = Inr w)
            \<and> rep \<and> acts = map fill_text (filter fillable issues))"
proof
  assume "admitted safeParse ctx j q rep acts"
  then obtain sc where "(oc_expectedPacketType ctx, sc) \<in> set PACKET_SCHEMA_REGISTRY"
    "case safeParse sc (Some j) of
          Inr _ \<Rightarrow> q = j \<and> \<not> rep \<and> acts = []
        | Inl issues \<Rightarrow> is_object (Some j) \<and> filter fillable issues \<noteq> []
            \<and> q = fold fill (filter fillable issues) j \<and> (\<exists>w. safeParse sc (Some q) = Inr w)
            \<and> rep \<and> acts = map fill_text (filter fillable issues)" unfolding admitted_def by blast
  from this(2)[unfolded registry_unique[OF assms this(1)]]
  show "case safeParse schema (Some j) of
          Inr _ \<Rightarrow> q = j \<and> \<not> rep \<and> acts = []
        | Inl issues \<Rightarrow> is_object (Some j) \<and> filter fillable issues \<noteq> []
            \<and> q = fold fill (filter fillable issues) j \<and> (\<exists>w. safeParse schema (Some q) = Inr w)
            \<and> rep \<and> acts = map fill_text (filter fillable issues)" .
qed (unfold admitted_def, rule exI[of _ schema], rule conjI[OF assms])

lemma admitted_unique:
  assumes "admitted safeParse ctx j q rep acts" and "admitted safeParse ctx j q' rep' acts'"
  shows "q' = q \<and> rep' = rep \<and> acts' = acts"
proof -
  obtain sc where "(oc_expectedPacketType ctx, sc) \<in> set PACKET_SCHEMA_REGISTRY" using assms(1) by (auto simp: admitted_def)
  note adm = admitted_schema[OF this]
  from assms show ?thesis unfolding adm by (simp split: sum.split_asm)
qed

lemma repairs_fill:
  "fold repairIssue issues (j, acts)
    = (fold fill (filter fillable issues) j, acts @ map fill_text (filter fillable issues))"
proof (induction issues arbitrary: j acts)
  case (Cons i issues)
  have "repairIssue i (j, acts) = (if fillable i then (fill i j, acts @ [fill_text i]) else (j, acts))"
    by (auto simp: repairIssue_def fillable_def fill_def fill_text_def Let_def)
  then show ?case using Cons by simp
qed simp

lemma finish_judged:
  assumes zod: "zod_library safeParse isDatetime" and tr: "failure_tracker failures ports"
    and schema: "(oc_expectedPacketType ctx, schema) \<in> set PACKET_SCHEMA_REGISTRY"
    and ok: "safeParse schema (Some packet) = Inr w"
  shows "\<exists>result st'. finishValidation ports threshold ctx packet rep acts st = (Inr result, st')
    \<and> judged safeParse failures ports threshold ctx st result st'
    \<and> (case result of
         accepted r \<Rightarrow> r = \<lparr>os_packet = packet, os_repaired = rep, os_repairActions = acts\<rparr>
           \<and> ids_match packet ctx \<and> artifacts_exist packet (artifact_exists ports)
       | rejected f \<Rightarrow> if \<not> ids_match packet ctx then of_reason f = id_mismatch
           else \<not> artifacts_exist packet (artifact_exists ports) \<and> of_reason f = artifacts_missing)"
proof -
  have reg: "registered (oc_expectedPacketType ctx)" using schema by (force simp: registered_def)
  obtain ms where ms: "verifyIds packet ctx = Inr ms" "ms = [] \<longleftrightarrow> ids_match packet ctx"
    using verifyIds_registered[OF reg] by blast
  have rej: "\<exists>f st'. recordFailureAndReject ports threshold ctx why errors (Some packet) st = (Inr (rejected f), st')
      \<and> judged safeParse failures ports threshold ctx st (rejected f) st' \<and> of_reason f = why" for why errors
    using failure_tracker.reject_counted[OF tr, of threshold ctx why errors "Some packet" st]
    by (force simp: judged_def)
  show ?thesis
  proof (cases "ms = [] \<and> verifyArtifacts packet (artifact_exists ports) = []")
    case True
    then show ?thesis
      using ms schema ok zod_library.packet_header[OF zod schema ok] failure_tracker.reset_failures[OF tr]
      by (auto simp: finishValidation_def Let_def judged_def verifyArtifacts_empty)
  next
    case False
    let ?why = "if ms \<noteq> [] then id_mismatch else artifacts_missing"
    obtain errors where "finishValidation ports threshold ctx packet rep acts st
        = recordFailureAndReject ports threshold ctx ?why errors (Some packet) st"
      using False ms(1) by (cases "ms = []") (auto simp: finishValidation_def Let_def)
    with rej[of ?why errors] obtain f st' where "finishValidation ports threshold ctx packet rep acts st = (Inr (rejected f), st')"
      "judged safeParse failures ports threshold ctx st (rejected f) st'" "of_reason f = ?why" by auto
    then show ?thesis using False ms(2) verifyArtifacts_empty[of packet "artifact_exists ports"] by auto
  qed
qed

lemma registered_schema:
  assumes "registered t"
  obtains schema where "(t, schema) \<in> set PACKET_SCHEMA_REGISTRY" "js_get PACKET_SCHEMA_REGISTRY t = Some (Own schema)"
proof -
  obtain schema where "map_of PACKET_SCHEMA_REGISTRY t = Some schema"
    using assms unfolding registered_def by (cases "map_of PACKET_SCHEMA_REGISTRY t") (auto simp: map_of_eq_None_iff)
  then show ?thesis using that[of schema] by (simp add: js_get_def map_of_SomeD)
qed

text \<open>The schema step is the admission of the specification.\<close>

lemma schema_step:
  assumes "registered (oc_expectedPacketType ctx)"
  obtains (admit) q rep acts schema w where "admitted safeParse ctx j q rep acts"
      "(oc_expectedPacketType ctx, schema) \<in> set PACKET_SCHEMA_REGISTRY" "safeParse schema (Some q) = Inr w"
      "validateFound safeParse ports threshold ctx j st
        = finishValidation ports threshold ctx q rep acts st"
  | (refuse) errors where "\<nexists>q rep acts. admitted safeParse ctx j q rep acts"
      "validateFound safeParse ports threshold ctx j st
        = recordFailureAndReject ports threshold ctx schema_validation_failed errors (Some j) st"
proof -
  let ?t = "oc_expectedPacketType ctx"
  obtain schema where s: "(?t, schema) \<in> set PACKET_SCHEMA_REGISTRY" "js_get PACKET_SCHEMA_REGISTRY ?t = Some (Own schema)"
    by (rule registered_schema[OF assms])
  note adm = admitted_schema[OF s(1), of safeParse j]
  show thesis
  proof (cases "safeParse schema (Some j)")
    case (Inr w)
    show thesis
      by (rule admit[of j False "[]" schema w]) (use Inr s adm in \<open>simp_all add: validateFound_def validateSchema_def\<close>)
  next
    case (Inl issues)
    let ?fs = "filter fillable issues"
    let ?q = "fold fill ?fs j"
    obtain errors where v: "validateSchema safeParse j ?t = Inr \<lparr>sv_valid = False, sv_errors = errors, sv_issues = issues\<rparr>"
      using Inl s(2) by (simp add: validateSchema_def)
    show thesis
    proof (cases "is_object (Some j) \<and> ?fs \<noteq> []")
      case False
      then have "\<nexists>q rep acts. admitted safeParse ctx j q rep acts" using Inl adm by auto
      moreover have "attemptSchemaRepair safeParse j issues ?t = Inr \<lparr>rr_success = False, rr_repairedData = j, rr_actions = []\<rparr>"
        using False by (auto simp: attemptSchemaRepair_def repairs_fill)
      ultimately show thesis using refuse[of errors] v by (simp add: validateFound_def)
    next
      case True
      have rp: "attemptSchemaRepair safeParse j issues ?t = (case validateSchema safeParse ?q ?t of Inl e \<Rightarrow> Inl e
          | Inr u \<Rightarrow> Inr \<lparr>rr_success = sv_valid u, rr_repairedData = (if sv_valid u then ?q else j),
              rr_actions = map fill_text ?fs\<rparr>)"
        using True by (simp add: attemptSchemaRepair_def repairs_fill)
      show thesis
      proof (cases "safeParse schema (Some ?q)")
        case (Inr w)
        then have "admitted safeParse ctx j ?q True (map fill_text ?fs)" using Inl True adm by simp
        then show thesis
          by (rule admit[OF _ s(1) Inr]) (use v rp Inr s(2) in \<open>simp add: validateFound_def validateSchema_def\<close>)
      next
        case (Inl issues')
        then have "\<nexists>q rep acts. admitted safeParse ctx j q rep acts"
          using \<open>safeParse schema (Some j) = Inl issues\<close> adm by auto
        then show thesis
          using refuse[of errors] v rp Inl s(2) by (simp add: validateFound_def validateSchema_def)
      qed
    qed
  qed
qed

lemma refused_when_admitted:
  assumes "extractPacket ports source = found j src" and "version_fits j ctx" and adm: "admitted safeParse ctx j q rep acts"
    and "if \<not> ids_match q ctx then why = id_mismatch
      else \<not> artifacts_exist q (artifact_exists ports) \<and> why = artifacts_missing"
  shows "refused_for safeParse ports source ctx why"
proof -
  from adm have "\<exists>q rep acts. admitted safeParse ctx j q rep acts" by blast
  moreover have "\<exists>q rep acts. admitted safeParse ctx j q rep acts \<and> (if \<not> ids_match q ctx then why = id_mismatch
      else \<not> artifacts_exist q (artifact_exists ports) \<and> why = artifacts_missing)"
    using adm assms(4) by blast
  ultimately show ?thesis using assms(1,2) by (simp add: refused_for_def)
qed

lemma found_judged:
  assumes zod: "zod_library safeParse isDatetime" and tr: "failure_tracker failures ports"
    and reg: "registered (oc_expectedPacketType ctx)" and j: "extractPacket ports source = found j src" "version_fits j ctx"
  shows "\<exists>result st'. validateFound safeParse ports threshold ctx j st = (Inr result, st')
    \<and> judged safeParse failures ports threshold ctx st result st'
    \<and> (case result of accepted r \<Rightarrow> acceptable safeParse ports source ctx r
       | rejected f \<Rightarrow> refused_for safeParse ports source ctx (of_reason f))"
proof (rule schema_step[OF reg, where safeParse = safeParse and j = j and ports = ports and threshold = threshold and st = st], goal_cases)
  case admit: (1 q rep acts schema w)
  obtain result st' where "validateFound safeParse ports threshold ctx j st = (Inr result, st')"
    "judged safeParse failures ports threshold ctx st result st'"
    "case result of
         accepted r \<Rightarrow> r = \<lparr>os_packet = q, os_repaired = rep, os_repairActions = acts\<rparr>
           \<and> ids_match q ctx \<and> artifacts_exist q (artifact_exists ports)
       | rejected f \<Rightarrow> if \<not> ids_match q ctx then of_reason f = id_mismatch
           else \<not> artifacts_exist q (artifact_exists ports) \<and> of_reason f = artifacts_missing"
    using finish_judged[OF zod tr admit(2,3), of threshold rep acts st] admit(4) by auto
  then show ?thesis using j admit(1) refused_when_admitted[OF j admit(1)]
    by (cases result) (auto simp: acceptable_def)
next
  case refuse: (2 errors)
  obtain f st' where "validateFound safeParse ports threshold ctx j st = (Inr (rejected f), st')"
    "counted failures threshold ctx st f st'" "of_reason f = schema_validation_failed"
    using failure_tracker.reject_counted[OF tr, of threshold ctx schema_validation_failed errors "Some j" st]
      refuse(2) by auto
  then show ?thesis using j refuse(1) by (auto simp: judged_def refused_for_def)
qed

lemma refused_not_acceptable:
  assumes "refused_for safeParse ports source ctx why"
  shows "\<not> acceptable safeParse ports source ctx r"
proof
  assume "acceptable safeParse ports source ctx r"
  then obtain j src where j: "extractPacket ports source = found j src" "version_fits j ctx"
    "admitted safeParse ctx j (os_packet r) (os_repaired r) (os_repairActions r)"
    "ids_match (os_packet r) ctx" "artifacts_exist (os_packet r) (artifact_exists ports)"
    by (auto simp: acceptable_def)
  then have "\<not> (\<nexists>q rep acts. admitted safeParse ctx j q rep acts)" by blast
  then obtain q rep acts where "admitted safeParse ctx j q rep acts"
    "if \<not> ids_match q ctx then why = id_mismatch
     else \<not> artifacts_exist q (artifact_exists ports) \<and> why = artifacts_missing"
    using assms j(1,2) unfolding refused_for_def by auto
  then show False using admitted_unique[OF j(3)] j(4,5) by (metis (full_types))
qed

lemma acceptable_unique:
  "acceptable safeParse ports source ctx r \<Longrightarrow> acceptable safeParse ports source ctx r' \<Longrightarrow> r' = r"
  by (cases r; cases r') (auto simp: acceptable_def dest: admitted_unique)

text \<open>When the call throws.\<close>

definition throws_on :: "'s outputPorts \<Rightarrow> WorkerOutputSource \<Rightarrow> bool" where
  "throws_on ports source \<longleftrightarrow> (\<exists>j src. extractPacket ports source = found j src
     \<and> (j = JNull \<or> (\<exists>v err. json_get j ''schema_version'' = Some (JStr v) \<and> parseSchemaVersion v = Inl err)))"

lemma output_judged:
  fixes limit :: "nat option"
  assumes "zod_library safeParse isDatetime" and tr: "failure_tracker failures ports"
    and "registered (oc_expectedPacketType ctx)"
  defines "n \<equiv> case limit of None \<Rightarrow> 3 | Some n \<Rightarrow> n"
  shows "if throws_on ports source then \<exists>e. validateOutput safeParse ports limit source ctx st = (Inl e, st)
    else \<exists>result st'. validateOutput safeParse ports limit source ctx st = (Inr result, st')
      \<and> judged safeParse failures ports n ctx st result st'
      \<and> (case result of accepted r \<Rightarrow> acceptable safeParse ports source ctx r
         | rejected f \<Rightarrow> refused_for safeParse ports source ctx (of_reason f))"
proof -
  have n: "(case limit of None \<Rightarrow> DEFAULT_CONSECUTIVE_FAILURE_THRESHOLD | Some n \<Rightarrow> n) = n"
    by (cases limit) (simp_all add: DEFAULT_CONSECUTIVE_FAILURE_THRESHOLD_def n_def)
  let ?v = "validateOutput safeParse ports limit source ctx st"
  have rej: ?thesis if eq: "?v = recordFailureAndReject ports n ctx why errors p st"
    and why: "refused_for safeParse ports source ctx why" "\<not> throws_on ports source" for why errors p
  proof -
    obtain f st' where "?v = (Inr (rejected f), st')" "counted failures n ctx st f st'" "of_reason f = why"
      using failure_tracker.reject_counted[OF tr, of n ctx why errors p st] eq by auto
    then show ?thesis using why by (simp add: judged_def)
  qed
  show ?thesis
  proof (cases "extractPacket ports source")
    case (found j src)
    show ?thesis
    proof (cases "\<exists>v. j \<noteq> JNull \<and> json_get j ''schema_version'' = Some (JStr v)")
      case True
      then obtain v where v: "j \<noteq> JNull" "json_get j ''schema_version'' = Some (JStr v)" by blast
      show ?thesis
      proof (cases "parseSchemaVersion v")
        case (Inl err)
        then show ?thesis using found v by (auto simp: validateOutput_def n isVersionCompatible_def throws_on_def)
      next
        case (Inr pv)
        then have nt: "\<not> throws_on ports source" using found v by (auto simp: throws_on_def)
        show ?thesis
        proof (cases "major pv = Finite (oc_expectedMajorVersion ctx)")
          case True
          then have "version_fits j ctx" using v Inr by (auto simp: version_fits_def)
          moreover have "?v = validateFound safeParse ports n ctx j st"
            using found v Inr True by (simp add: validateOutput_def n isVersionCompatible_def)
          ultimately show ?thesis
            using found_judged[OF assms(1-3) found, of n st] nt by (simp add: n_def)
        next
          case False
          then have "\<not> version_fits j ctx" using v Inr by (auto simp: version_fits_def)
          then show ?thesis using found v Inr False nt
            by (intro rej[where why = version_incompatible])
               (auto simp: validateOutput_def n isVersionCompatible_def refused_for_def)
        qed
      qed
    next
      case False
      show ?thesis
      proof (cases "j = JNull")
        case True
        then show ?thesis using found by (simp add: validateOutput_def throws_on_def)
      next
        case nn: False
        then have "?v = recordFailureAndReject ports n ctx version_incompatible [''Packet missing schema_version field''] (Some j) st"
          using found False by (auto simp: validateOutput_def n split: option.split json.split)
        moreover have "\<not> version_fits j ctx" "\<not> throws_on ports source"
          using found False nn by (auto simp: version_fits_def throws_on_def)
        ultimately show ?thesis using found by (intro rej) (auto simp: refused_for_def)
      qed
    qed
  next
    case (unparsable c src e)
    then show ?thesis by (intro rej) (auto simp: validateOutput_def n refused_for_def throws_on_def)
  next
    case not_found
    then show ?thesis by (intro rej) (auto simp: validateOutput_def n refused_for_def throws_on_def)
  qed
qed

text \<open>
  (C18) The validator accepts exactly the acceptable outputs, for any library that keeps Zod's documented laws
  and any tracker that keeps its contract.  The call throws, with nothing counted or audited, exactly on
  a packet that is null or whose version is malformed.  Otherwise it accepts exactly when a packet can be
  extracted, its version has the expected major number, the schema of its type accepts it as it is or
  refuses it and accepts it once the missing arrays and nullable fields that the schema reports are filled,
  and the packet so obtained carries the identifiers of the run and names existing artifacts; what it
  returns is that packet, with the actions of the repair.  Such a packet carries the type and version
  1.0, the failure count is reset and nothing is audited.  Every rejection states the first check that
  failed, adds one to the count of the profile alone, disables it exactly from the threshold on, and is
  audited once.  The witness repairs a packet without its list of changed files.
\<close>

theorem validate_output_exact:
  assumes "zod_library safeParse isDatetime" and "failure_tracker failures ports"
    and "registered (oc_expectedPacketType ctx)"
  shows "case validateOutput safeParse ports limit source ctx st of
      (Inl e, st') \<Rightarrow> st' = st \<and> throws_on ports source
    | (Inr result, st') \<Rightarrow> \<not> throws_on ports source
        \<and> judged safeParse failures ports (case limit of None \<Rightarrow> 3 | Some n \<Rightarrow> n) ctx st result st'
        \<and> (\<forall>r. result = accepted r \<longleftrightarrow> acceptable safeParse ports source ctx r)
        \<and> (\<forall>f. result = rejected f \<longrightarrow> refused_for safeParse ports source ctx (of_reason f))"
proof (cases "throws_on ports source")
  case True
  then show ?thesis using output_judged[OF assms, of source limit st] by auto
next
  case False
  then obtain result st' where v: "validateOutput safeParse ports limit source ctx st = (Inr result, st')"
    "judged safeParse failures ports (case limit of None \<Rightarrow> 3 | Some n \<Rightarrow> n) ctx st result st'"
    "case result of accepted r \<Rightarrow> acceptable safeParse ports source ctx r
       | rejected f \<Rightarrow> refused_for safeParse ports source ctx (of_reason f)"
    using output_judged[OF assms, of source limit st] by auto
  have "result = accepted r \<longleftrightarrow> acceptable safeParse ports source ctx r" for r
    using v(3) acceptable_unique refused_not_acceptable by (cases result) fastforce+
  then show ?thesis using v False by auto
qed

definition example_result :: "(string \<times> json) list \<Rightarrow> json" where
  "example_result files = JObj
    ([(''branch_name'', JStr ''b''), (''commit_sha'', JStr ''c'')] @ files
     @ [(''tests_added_or_updated'', JArr []), (''validations_run'', JArr []), (''assumptions'', JArr []),
        (''risks'', JArr []), (''unresolved_issues'', JArr [])])"

definition example_packet :: "json \<Rightarrow> json" where
  "example_packet result = JObj
    [(''packet_type'', JStr ''dev_result_packet''), (''schema_version'', JStr ''1.0''),
     (''created_at'', JStr ''2026-03-10T00:00:00Z''), (''task_id'', JStr ''T1''), (''repository_id'', JStr ''R''),
     (''run_id'', JStr ''run-1''), (''status'', JStr ''success''), (''summary'', JStr ''built''),
     (''result'', result), (''artifact_refs'', JArr [JStr ''log.txt''])]"

definition repaired_packet :: json where
  "repaired_packet = setNestedValue (example_packet (example_result [])) [Key ''result'', Key ''files_changed''] (JArr [])"

definition example_context :: OutputValidationContext where
  "example_context = \<lparr>oc_taskId = ''T1'', oc_repositoryId = ''R'', oc_runId = Some ''run-1'', oc_reviewCycleId = None,
     oc_mergeQueueItemId = None, oc_validationRunId = None, oc_expectedPacketType = ''dev_result_packet'',
     oc_expectedMajorVersion = 1, oc_agentProfileId = ''P''\<rparr>"

lemma example_admitted:
  "admitted zod_check example_context (example_packet (example_result [])) repaired_packet True
     [''Set missing array field '' @ quoted ''result.files_changed'' @ '' to []'']"
proof -
  let ?j = "example_packet (example_result [])"
  have s: "(oc_expectedPacketType example_context, DevResultPacketSchema) \<in> set PACKET_SCHEMA_REGISTRY"
    by (simp add: example_context_def PACKET_SCHEMA_REGISTRY_def)
  have "case zod_check DevResultPacketSchema (Some ?j) of Inl issues \<Rightarrow> length issues = 1 \<and> fillable (hd issues)
        \<and> zi_path (hd issues) = [Key ''result'', Key ''files_changed''] \<and> zi_expected (hd issues) = ''array''
      | Inr _ \<Rightarrow> False" by code_simp
  then obtain i where i: "zod_check DevResultPacketSchema (Some ?j) = Inl [i]" "fillable i"
    "zi_path i = [Key ''result'', Key ''files_changed'']" "zi_expected i = ''array''"
    by (auto split: sum.splits simp: length_Suc_conv)
  have "case zod_check DevResultPacketSchema (Some repaired_packet) of Inl _ \<Rightarrow> False | Inr _ \<Rightarrow> True" by code_simp
  then obtain w where "zod_check DevResultPacketSchema (Some repaired_packet) = Inr w" by (auto split: sum.splits)
  then show ?thesis unfolding admitted_def
    using s i by (intro exI[of _ DevResultPacketSchema])
      (simp add: fill_def fill_text_def Let_def repaired_packet_def example_packet_def)
qed

theorem validate_output_exact_witness:
  "fst (validateOutput zod_check (memory_tracker (\<lambda>_. Inr (example_packet (example_result []))) (\<lambda>_. True)) None
      \<lparr>outputFileContent = Some ''{}'', stdoutContent = []\<rparr> example_context \<lparr>tracker = [(''P'', 2)], recorded = []\<rparr>)
    = Inr (accepted \<lparr>os_packet = repaired_packet, os_repaired = True,
        os_repairActions = [''Set missing array field '' @ quoted ''result.files_changed'' @ '' to []'']\<rparr>)"
proof -
  let ?j = "example_packet (example_result [])"
  let ?ports = "memory_tracker (\<lambda>_. Inr ?j) (\<lambda>_. True)"
  let ?src = "\<lparr>outputFileContent = Some ''{}'', stdoutContent = []\<rparr>"
  let ?r = "\<lparr>os_packet = repaired_packet, os_repaired = True,
    os_repairActions = [''Set missing array field '' @ quoted ''result.files_changed'' @ '' to []'']\<rparr>"
  have reg: "registered (oc_expectedPacketType example_context)"
    by (simp add: registered_def example_context_def PACKET_SCHEMA_REGISTRY_def)
  have "trim ''{}'' = ''{}''" by code_simp
  then have e: "extractPacket ?ports ?src = found ?j ''file''"
    by (simp add: extractPacket_def parsePacket_def memory_tracker_def)
  have v: "parseSchemaVersion ''1.0'' = Inr \<lparr>major = Finite 1, minor = Finite 0\<rparr>" by code_simp
  have m: "?j \<noteq> JNull" "json_get ?j ''schema_version'' = Some (JStr ''1.0'')"
    by (simp_all add: example_packet_def json_get_def)
  have "version_fits ?j example_context" using v m(2) by (auto simp: version_fits_def example_context_def)
  moreover have "ids_match repaired_packet example_context" "artifacts_exist repaired_packet (artifact_exists ?ports)"
    by (simp_all add: ids_match_def artifacts_exist_def repaired_packet_def example_packet_def example_context_def
        json_get_def PACKET_STAGE_ID_FIELDS_def contextIdMap_def memory_tracker_def)
  ultimately have "acceptable zod_check ?ports ?src example_context ?r"
    using e example_admitted by (auto simp: acceptable_def)
  moreover have "\<not> throws_on ?ports ?src" using e m v by (auto simp: throws_on_def)
  ultimately show ?thesis
    using validate_output_exact[OF checked.zod_library_axioms counter.failure_tracker_axioms[of "\<lambda>_. Inr ?j"
      "\<lambda>_. True"] reg, where limit = None and source = ?src and st = "\<lparr>tracker = [(''P'', 2)], recorded = []\<rparr>"]
    by (auto split: prod.splits sum.splits)
qed

subsection \<open>Cross-field rules and stability\<close>

lemma registry_well_formed: "(t, schema) \<in> set PACKET_SCHEMA_REGISTRY \<Longrightarrow> wf_zod schema"
  by (auto simp: PACKET_SCHEMA_REGISTRY_def schema_defs)

text \<open>
  (C20) Validation is stable and enforces the rules between fields.  For every packet type, what the schema
  returns it accepts again unchanged.  A review packet that approves has no blocking issues; a lead decision
  that requests changes names some, and one that approves with follow-up names the follow-up tasks; a
  merge assistant that is not confident rejects or escalates, and a post-merge analysis that is not
  confident escalates.
\<close>

theorem packet_rules_enforced:
  assumes "zod_library safeParse isDatetime" and "(t, schema) \<in> set PACKET_SCHEMA_REGISTRY"
    and "safeParse schema (Some j) = Inr (Some p)"
  shows "safeParse schema (Some p) = Inr (Some p)
    \<and> (t = ''review_packet'' \<and> json_get p ''verdict'' = Some (JStr ''approved'')
        \<longrightarrow> json_get p ''blocking_issues'' = Some (JArr []))
    \<and> (t = ''lead_review_decision_packet'' \<and> json_get p ''decision'' = Some (JStr ''changes_requested'')
        \<longrightarrow> (\<exists>x xs. json_get p ''blocking_issues'' = Some (JArr (x # xs))))
    \<and> (t = ''lead_review_decision_packet'' \<and> json_get p ''decision'' = Some (JStr ''approved_with_follow_up'')
        \<longrightarrow> (\<exists>x xs. json_get p ''follow_up_task_refs'' = Some (JArr (x # xs))))
    \<and> (t = ''merge_assist_packet'' \<and> json_get p ''confidence'' = Some (JStr ''low'')
        \<longrightarrow> json_get p ''recommendation'' \<in> {Some (JStr ''reject_to_dev''), Some (JStr ''escalate'')})
    \<and> (t = ''post_merge_analysis_packet'' \<and> json_get p ''confidence'' = Some (JStr ''low'')
        \<longrightarrow> json_get p ''recommendation'' = Some (JStr ''escalate''))"
proof -
  have stable: "safeParse schema (Some p) = Inr (Some p)"
    by (rule zod_library.parse_twice[OF assms(1) registry_well_formed[OF assms(2)] assms(3)])
  have arr: "\<exists>xs. json_get p k = Some (JArr xs)"
    if "safeParse (ZRefine (ZObject fs) r) (Some j) = Inr (Some p)" "(k, ZArray 0 z) \<in> set fs" "distinct (map fst fs)" for fs r k z
    using zod_library.refined_object[OF assms(1) that] by (auto simp: zod_library.array_ok[OF assms(1)])
  have nonempty: "0 < json_length v \<Longrightarrow> \<exists>x xs. v = Some (JArr (x # xs))" for v
    by (auto simp: json_length_def neq_Nil_conv split: option.splits json.splits)
  have rule: "r p = []" if "schema = ZRefine z r" for z r
    using assms(3) that by (simp add: zod_library.refine_ok[OF assms(1)])
  have blocking: "\<exists>xs. json_get p ''blocking_issues'' = Some (JArr xs)" if "schema = ReviewPacketSchema"
    using assms(3) that by (auto simp: ReviewPacketSchema_def intro: arr)
  have r1: "json_get p ''blocking_issues'' = Some (JArr [])"
    if "t = ''review_packet''" "json_get p ''verdict'' = Some (JStr ''approved'')"
  proof -
    have sch: "schema = ReviewPacketSchema" using assms(2) that(1) by (auto simp: PACKET_SCHEMA_REGISTRY_def)
    from rule[OF sch[unfolded ReviewPacketSchema_def]] blocking[OF sch] show ?thesis
      using that(2) by (auto simp: reviewPacketRefine_def json_length_def split: if_splits)
  qed
  have r2: "\<exists>x xs. json_get p ''blocking_issues'' = Some (JArr (x # xs))"
    if "t = ''lead_review_decision_packet''" "json_get p ''decision'' = Some (JStr ''changes_requested'')"
  proof -
    have "schema = LeadReviewDecisionPacketSchema" using assms(2) that(1) by (auto simp: PACKET_SCHEMA_REGISTRY_def)
    from rule[OF this[unfolded LeadReviewDecisionPacketSchema_def]] show ?thesis
      using that(2) by (intro nonempty) (simp add: leadReviewDecisionPacketRefine_def split: if_splits)
  qed
  have r3: "\<exists>x xs. json_get p ''follow_up_task_refs'' = Some (JArr (x # xs))"
    if "t = ''lead_review_decision_packet''" "json_get p ''decision'' = Some (JStr ''approved_with_follow_up'')"
  proof -
    have "schema = LeadReviewDecisionPacketSchema" using assms(2) that(1) by (auto simp: PACKET_SCHEMA_REGISTRY_def)
    from rule[OF this[unfolded LeadReviewDecisionPacketSchema_def]] show ?thesis
      using that(2) by (intro nonempty) (simp add: leadReviewDecisionPacketRefine_def split: if_splits)
  qed
  have r4: "json_get p ''recommendation'' \<in> {Some (JStr ''reject_to_dev''), Some (JStr ''escalate'')}"
    if "t = ''merge_assist_packet''" "json_get p ''confidence'' = Some (JStr ''low'')"
  proof -
    have "schema = MergeAssistPacketSchema" using assms(2) that(1) by (auto simp: PACKET_SCHEMA_REGISTRY_def)
    from rule[OF this[unfolded MergeAssistPacketSchema_def]] show ?thesis
      using that(2) by (simp add: mergeAssistPacketRefine_def split: if_splits)
  qed
  have r5: "json_get p ''recommendation'' = Some (JStr ''escalate'')"
    if "t = ''post_merge_analysis_packet''" "json_get p ''confidence'' = Some (JStr ''low'')"
  proof -
    have "schema = PostMergeAnalysisPacketSchema" using assms(2) that(1) by (auto simp: PACKET_SCHEMA_REGISTRY_def)
    from rule[OF this[unfolded PostMergeAnalysisPacketSchema_def]] show ?thesis
      using that(2) by (simp add: postMergeAnalysisPacketRefine_def split: if_splits)
  qed
  show ?thesis
    by (intro conjI impI; (elim conjE)?; (rule stable | erule (1) r1 | erule (1) r2 | erule (1) r3 | erule (1) r4 | erule (1) r5))
qed

definition example_decision :: json where
  "example_decision = JObj
     [(''packet_type'', JStr ''lead_review_decision_packet''), (''schema_version'', JStr ''1.0''),
      (''created_at'', JStr ''2026-03-10T00:00:00Z''), (''task_id'', JStr ''T1''), (''repository_id'', JStr ''R''),
      (''review_cycle_id'', JStr ''C''), (''decision'', JStr ''approved_with_follow_up''), (''summary'', JStr ''ok''),
      (''blocking_issues'', JArr []), (''non_blocking_suggestions'', JArr []), (''deduplication_notes'', JArr []),
      (''follow_up_task_refs'', JArr [JStr ''docs'']), (''risks'', JArr []), (''open_questions'', JArr []),
      (''extra'', JNull)]"

theorem packet_rules_enforced_witness:
  "\<exists>p. zod_check LeadReviewDecisionPacketSchema (Some example_decision) = Inr (Some p)
     \<and> zod_check LeadReviewDecisionPacketSchema (Some p) = Inr (Some p)"
proof -
  have "case zod_check LeadReviewDecisionPacketSchema (Some example_decision) of Inr (Some _) \<Rightarrow> True | _ \<Rightarrow> False"
    by code_simp
  then obtain p where p: "zod_check LeadReviewDecisionPacketSchema (Some example_decision) = Inr (Some p)"
    using parsed_some by blast
  have "(''lead_review_decision_packet'', LeadReviewDecisionPacketSchema) \<in> set PACKET_SCHEMA_REGISTRY"
    by (simp add: PACKET_SCHEMA_REGISTRY_def)
  from p conjunct1[OF packet_rules_enforced[OF checked.zod_library_axioms this p]] show ?thesis
    by (intro exI conjI)
qed

end
