(* ===== verification/ReviewDispatch.thy ===== *)
theory ReviewDispatch
  imports ReviewRouter JobQueue Transition
begin

text \<open>
  The opening of a review, in two services of \<open>packages/application/src/services\<close>:
  \<open>reviewer-dispatch.service.ts\<close> opens a review cycle with one job per reviewer and one for the lead, and
  \<open>lead-review-consolidation.service.ts\<close> starts the consolidation once the reviewers are done.

  The units of work of these services have no adapter in the repository.  Their operations are modelled by the
  repositories of the control plane; where a port documents that a guarded update returns \<open>undefined\<close>,
  \<open>absent\<close> turns the conflict of the adapter into it.  The dash of the messages is written \<open>--\<close>.
\<close>

subsection \<open>Repositories\<close>

definition absent :: "'a tx \<Rightarrow> 'a option tx" where
  "absent upd = (\<lambda>d. case upd d of (Inl _, _) \<Rightarrow> (Inr None, d) | (Inr x, d') \<Rightarrow> (Inr (Some x), d'))"

definition cycle_create :: "ReviewCycle \<Rightarrow> ReviewCycle tx" where
  "cycle_create row = (\<lambda>d.
    if rc_reviewCycleId row \<in> set (map rc_reviewCycleId (reviewCycles d))
       \<or> rc_taskId row \<notin> set (map t_taskId (tasks d))
    then (Inl (ConstraintError ''review_cycle''), d)
    else (Inr row, d\<lparr>reviewCycles := reviewCycles d @ [row]\<rparr>))"

definition cycle_findByTaskId :: "string \<Rightarrow> db \<Rightarrow> ReviewCycle list" where
  "cycle_findByTaskId taskId d = filter (\<lambda>r. rc_taskId r = taskId) (reviewCycles d)"

definition packet_findByReviewCycleId :: "string \<Rightarrow> db \<Rightarrow> ReviewPacket list" where
  "packet_findByReviewCycleId reviewCycleId d = filter (\<lambda>r. rp_reviewCycleId r = reviewCycleId) (reviewPackets d)"

definition updateForReviewDispatch :: "int \<Rightarrow> string \<Rightarrow> int \<Rightarrow> TaskStatus \<Rightarrow> string \<Rightarrow> Task tx" where
  "updateForReviewDispatch now taskId expectedVersion newStatus cycleId =
    task_update now taskId expectedVersion (\<lambda>r. r\<lparr>t_status := newStatus, t_currentReviewCycleId := Some cycleId\<rparr>)"

text \<open>What a call draws from its environment; \<open>rv_id n\<close> is the n-th value of the id generator.\<close>

record reviewEnv =
  rv_now :: int
  rv_id :: "nat \<Rightarrow> string"
  rv_cycleUuid :: string
  rv_taskUuid :: string
  rv_cycleEventAt :: int
  rv_taskEventAt :: int

subsection \<open>Dispatching reviewers\<close>

record DispatchReviewersParams =
  ds_taskId :: string
  ds_routing :: ReviewRoutingInput
  ds_actor :: ActorInfo

record DispatchReviewersResult =
  dp_reviewCycle :: ReviewCycle
  dp_routingDecision :: RoutingDecision
  dp_specialistJobIds :: "string list"
  dp_leadReviewJobId :: string
  dp_task :: Task
  dp_auditEvents :: "AuditEventRecord list"

definition json_texts :: "string list \<Rightarrow> json" where
  "json_texts xs = JArr (map JStr xs)"

definition reviewJob ::
  "reviewEnv \<Rightarrow> string \<Rightarrow> JobType \<Rightarrow> string \<Rightarrow> json \<Rightarrow> string list option \<Rightarrow> Job" where
  "reviewJob env jobId jobType reviewCycleId payload dependsOn =
    \<lparr>j_jobId = jobId, j_jobType = jobType, j_entityType = Some ''review-cycle'', j_entityId = Some reviewCycleId,
     j_payloadJson = Some payload, j_status = JobStatus.PENDING, j_attemptCount = 0, j_runAfter = None,
     j_leaseOwner = None, j_parentJobId = None, j_jobGroupId = Some reviewCycleId,
     j_dependsOnJobIds = map_option json_texts dependsOn, j_createdAt = rv_now env div 1000,
     j_updatedAt = rv_now env div 1000\<rparr>"

definition specialistJob :: "reviewEnv \<Rightarrow> string \<Rightarrow> string \<Rightarrow> RoutingDecision \<Rightarrow> string \<times> string \<Rightarrow> Job" where
  "specialistJob env taskId reviewCycleId routing = (\<lambda>(jobId, reviewerType).
    reviewJob env jobId JobType.REVIEWER_DISPATCH reviewCycleId
      (JObj [(''reviewCycleId'', JStr reviewCycleId), (''taskId'', JStr taskId), (''reviewerType'', JStr reviewerType),
        (''isRequired'', JBool (reviewerType \<in> set (requiredReviewers routing))), (''role'', JStr ''reviewer'')]) None)"

fun createSpecialistJobs ::
  "reviewEnv \<Rightarrow> string \<Rightarrow> string \<Rightarrow> RoutingDecision \<Rightarrow> (string \<times> string) list \<Rightarrow> Job list tx" where
  "createSpecialistJobs env taskId reviewCycleId routing [] = returnT []"
| "createSpecialistJobs env taskId reviewCycleId routing (reviewer # rest) =
    bindT (job_create (specialistJob env taskId reviewCycleId routing reviewer))
      (\<lambda>job. bindT (createSpecialistJobs env taskId reviewCycleId routing rest) (\<lambda>created. returnT (job # created)))"

definition leadReviewJob :: "reviewEnv \<Rightarrow> string \<Rightarrow> string \<Rightarrow> string \<Rightarrow> string list \<Rightarrow> Job" where
  "leadReviewJob env leadReviewJobId taskId reviewCycleId specialistJobIds =
    reviewJob env leadReviewJobId JobType.LEAD_REVIEW_CONSOLIDATION reviewCycleId
      (JObj [(''reviewCycleId'', JStr reviewCycleId), (''taskId'', JStr taskId), (''role'', JStr ''lead-reviewer'')])
      (if length specialistJobIds > 0 then Some specialistJobIds else None)"

fun ReviewRequirement_value :: "ReviewRequirement \<Rightarrow> string" where
  "ReviewRequirement_value required = ''required''"
| "ReviewRequirement_value optional = ''optional''"

definition json_of_rationale :: "RoutingRationaleEntry \<Rightarrow> json" where
  "json_of_rationale e = JObj [(''reviewerType'', JStr (re_reviewerType e)),
     (''requirement'', JStr (ReviewRequirement_value (re_requirement e))), (''reason'', JStr (re_reason e))]"

definition recordDispatchAudits ::
  "reviewEnv \<Rightarrow> DispatchReviewersParams \<Rightarrow> RoutingDecision \<Rightarrow> string list \<Rightarrow> Task \<Rightarrow> AuditEventRecord list tx" where
  "recordDispatchAudits env params routing specialistJobIds updatedTask =
    (let taskId = ds_taskId params; actor = ds_actor params; reviewCycleId = rv_id env 0; leadReviewJobId = rv_id env 1 in
     bindT (auditEvent_create (rv_cycleUuid env) (rv_now env)
       \<lparr>na_entityType = ''review-cycle'', na_entityId = reviewCycleId,
        na_eventType = ''review-cycle.created-and-routed'', na_actorType = actor_type actor,
        na_actorId = actor_id actor, na_oldState = None,
        na_newState = Some (JStr (ReviewCycleStatus_value ReviewCycleStatus.ROUTED)),
        na_metadata = Some (JObj [(''taskId'', JStr taskId),
          (''requiredReviewers'', json_texts (requiredReviewers routing)),
          (''optionalReviewers'', json_texts (optionalReviewers routing)),
          (''specialistJobCount'', JNum (int (length specialistJobIds))),
          (''routingRationale'', JArr (map json_of_rationale (routingRationale routing)))])\<rparr>)
       (\<lambda>reviewCycleAudit.
     bindT (auditEvent_create (rv_taskUuid env) (rv_now env)
       \<lparr>na_entityType = ''task'', na_entityId = taskId, na_eventType = ''task.transitioned'',
        na_actorType = actor_type actor, na_actorId = actor_id actor,
        na_oldState = Some (JStr (TaskStatus_value TaskStatus.DEV_COMPLETE)),
        na_newState = Some (JStr (TaskStatus_value TaskStatus.IN_REVIEW)),
        na_metadata = Some (JObj [(''reviewCycleId'', JStr reviewCycleId),
          (''specialistJobIds'', json_texts specialistJobIds),
          (''leadReviewJobId'', JStr leadReviewJobId), (''newVersion'', JNum (t_version updatedTask))])\<rparr>)
       (\<lambda>taskAudit.
     returnT [reviewCycleAudit, taskAudit])))"

definition dispatchReviewers_tx ::
  "picomatch \<Rightarrow> reviewEnv \<Rightarrow> DispatchReviewersParams \<Rightarrow> DispatchReviewersResult tx" where
  "dispatchReviewers_tx picomatch env params =
    (let taskId = ds_taskId params;
         routing = routeReview picomatch (ds_routing params);
         allSpecialists = requiredReviewers routing @ optionalReviewers routing;
         reviewCycleId = rv_id env 0; leadReviewJobId = rv_id env 1;
         specialistJobIds = map (\<lambda>i. rv_id env (i + 2)) [0..<length allSpecialists] in
     bindT (getT (task_findById taskId)) (\<lambda>found. case found of
       None \<Rightarrow> throwT (EntityNotFoundError ''Task'' taskId)
     | Some task \<Rightarrow>
         if t_status task \<noteq> TaskStatus.DEV_COMPLETE then
           throwT (InvalidTransitionError ''Task'' taskId (TaskStatus_value (t_status task))
             (TaskStatus_value TaskStatus.IN_REVIEW)
             (Some (''Task must be in DEV_COMPLETE state, but is '' @ TaskStatus_value (t_status task))))
         else
           let taskValidation = validateTransition (t_status task) TaskStatus.IN_REVIEW
                 (emptyContext\<lparr>hasReviewRoutingDecision := Some True\<rparr>) in
           if \<not> valid taskValidation then
             throwT (InvalidTransitionError ''Task'' taskId (TaskStatus_value (t_status task))
               (TaskStatus_value TaskStatus.IN_REVIEW) (reason taskValidation))
           else
             bindT (cycle_create \<lparr>rc_reviewCycleId = reviewCycleId, rc_taskId = taskId,
                 rc_status = ReviewCycleStatus.NOT_STARTED,
                 rc_requiredReviewers = Some (json_texts (requiredReviewers routing)),
                 rc_optionalReviewers = Some (json_texts (optionalReviewers routing)),
                 rc_startedAt = rv_now env div 1000, rc_completedAt = None\<rparr>) (\<lambda>_.
             let cycleValidation = validateReviewCycleTransition ReviewCycleStatus.NOT_STARTED ReviewCycleStatus.ROUTED
                   (emptyReviewCycleTransitionContext\<lparr>routingDecisionEmitted := Some True\<rparr>) in
             if \<not> valid cycleValidation then
               throwT (InvalidTransitionError ''ReviewCycle'' reviewCycleId
                 (ReviewCycleStatus_value ReviewCycleStatus.NOT_STARTED)
                 (ReviewCycleStatus_value ReviewCycleStatus.ROUTED) (reason cycleValidation))
             else
               bindT (absent (cycle_updateStatus reviewCycleId ReviewCycleStatus.NOT_STARTED ReviewCycleStatus.ROUTED))
                 (\<lambda>routed. case routed of
                   None \<Rightarrow> throwT (InvalidTransitionError ''ReviewCycle'' reviewCycleId
                     (ReviewCycleStatus_value ReviewCycleStatus.NOT_STARTED)
                     (ReviewCycleStatus_value ReviewCycleStatus.ROUTED)
                     (Some ''Status update failed -- concurrent modification detected''))
                 | Some routedCycle \<Rightarrow>
                     bindT (createSpecialistJobs env taskId reviewCycleId routing (zip specialistJobIds allSpecialists))
                       (\<lambda>createdSpecialistJobs.
                     bindT (job_create (leadReviewJob env leadReviewJobId taskId reviewCycleId specialistJobIds)) (\<lambda>leadJob.
                     bindT (updateForReviewDispatch (rv_now env) taskId (t_version task) TaskStatus.IN_REVIEW reviewCycleId)
                       (\<lambda>updatedTask.
                     bindT (recordDispatchAudits env params routing specialistJobIds updatedTask) (\<lambda>auditEvents.
                     returnT \<lparr>dp_reviewCycle = routedCycle, dp_routingDecision = routing,
                       dp_specialistJobIds = specialistJobIds, dp_leadReviewJobId = leadReviewJobId,
                       dp_task = updatedTask, dp_auditEvents = auditEvents\<rparr>))))))))"

definition dispatchReviewers ::
  "picomatch \<Rightarrow> reviewEnv \<Rightarrow> DispatchReviewersParams \<Rightarrow> world \<Rightarrow> (app_error + DispatchReviewersResult) \<times> world" where
  "dispatchReviewers picomatch env params =
    commit (dispatchReviewers_tx picomatch env params)
      (\<lambda>r. [TaskTransitionedEvent (ds_taskId params) TaskStatus.DEV_COMPLETE TaskStatus.IN_REVIEW
             (t_version (dp_task r)) (ds_actor params) (rv_taskEventAt env),
            ReviewCycleTransitionedEvent (rv_id env 0) ReviewCycleStatus.NOT_STARTED ReviewCycleStatus.ROUTED
              (ds_actor params) (rv_cycleEventAt env)])"

subsection \<open>Consolidation\<close>

definition TERMINAL_JOB_STATUSES :: "JobStatus list" where
  "TERMINAL_JOB_STATUSES = [JobStatus.COMPLETED, JobStatus.FAILED, JobStatus.CANCELLED]"

record AssembleLeadReviewContextParams =
  al_reviewCycleId :: string
  al_reviewTaskId :: string
  al_reviewActor :: ActorInfo

record ReviewCycleHistoryEntry =
  he_cycle :: ReviewCycle
  he_specialistPackets :: "ReviewPacket list"

record AssembleLeadReviewContextResult =
  ar_reviewCycle :: ReviewCycle
  ar_specialistPackets :: "ReviewPacket list"
  ar_reviewHistory :: "ReviewCycleHistoryEntry list"
  ar_specialistJobs :: "Job list"
  ar_auditEvents :: "AuditEventRecord list"
  ar_previousStatus :: ReviewCycleStatus

definition getConsolidationSourceStatus :: "ReviewCycle \<Rightarrow> ReviewCycleStatus option" where
  "getConsolidationSourceStatus cycle =
    (if rc_status cycle = ReviewCycleStatus.IN_PROGRESS \<or> rc_status cycle = ReviewCycleStatus.AWAITING_REQUIRED_REVIEWS
     then Some (rc_status cycle) else None)"

record SpecialistCompletion =
  sc_allTerminal :: bool
  sc_specialistJobs :: "Job list"
  sc_pendingJobIds :: "string list"

definition checkSpecialistJobsCompletion :: "Job list \<Rightarrow> SpecialistCompletion" where
  "checkSpecialistJobsCompletion js =
    (let specialistJobs = filter (\<lambda>j. j_jobType j = JobType.REVIEWER_DISPATCH) js;
         pendingJobIds = map j_jobId (filter (\<lambda>j. j_status j \<notin> set TERMINAL_JOB_STATUSES) specialistJobs)
     in \<lparr>sc_allTerminal = (pendingJobIds = []), sc_specialistJobs = specialistJobs, sc_pendingJobIds = pendingJobIds\<rparr>)"

definition buildReviewHistory ::
  "ReviewCycle list \<Rightarrow> string \<Rightarrow> (string \<Rightarrow> ReviewPacket list) \<Rightarrow> ReviewCycleHistoryEntry list" where
  "buildReviewHistory allCycles currentCycleId getPackets =
    map (\<lambda>cycle. \<lparr>he_cycle = cycle, he_specialistPackets = getPackets (rc_reviewCycleId cycle)\<rparr>)
      (sort_key rc_startedAt (filter (\<lambda>c. rc_reviewCycleId c \<noteq> currentCycleId) allCycles))"

definition assembleLeadReviewContext_tx ::
  "reviewEnv \<Rightarrow> AssembleLeadReviewContextParams \<Rightarrow> AssembleLeadReviewContextResult tx" where
  "assembleLeadReviewContext_tx env params =
    (let cycleId = al_reviewCycleId params; taskId = al_reviewTaskId params; actor = al_reviewActor params;
         refuse = (\<lambda>from why. throwT (InvalidTransitionError ''ReviewCycle'' cycleId (ReviewCycleStatus_value from)
           (ReviewCycleStatus_value ReviewCycleStatus.CONSOLIDATING) why)) in
     bindT (getT (task_findById taskId)) (\<lambda>foundTask. case foundTask of
       None \<Rightarrow> throwT (EntityNotFoundError ''Task'' taskId)
     | Some task \<Rightarrow> bindT (getT (cycle_findById cycleId)) (\<lambda>foundCycle. case foundCycle of
         None \<Rightarrow> throwT (EntityNotFoundError ''ReviewCycle'' cycleId)
       | Some cycle \<Rightarrow>
           if rc_taskId cycle \<noteq> taskId then
             throwT (EntityNotFoundError ''ReviewCycle'' (cycleId @ '' (not associated with task '' @ taskId @ '')''))
           else (case getConsolidationSourceStatus cycle of
             None \<Rightarrow> refuse (rc_status cycle)
               (Some (''ReviewCycle must be in IN_PROGRESS or AWAITING_REQUIRED_REVIEWS state, but is ''
                 @ ReviewCycleStatus_value (rc_status cycle)))
           | Some sourceStatus \<Rightarrow> bindT (getT (job_findByJobGroupId cycleId)) (\<lambda>groupJobs.
               let completion = checkSpecialistJobsCompletion groupJobs in
               if \<not> sc_allTerminal completion then
                 refuse (rc_status cycle) (Some (''Cannot consolidate: specialist jobs not yet complete. Pending: [''
                   @ join_strings '', '' (sc_pendingJobIds completion) @ '']''))
               else
                 let validation = validateReviewCycleTransition sourceStatus ReviewCycleStatus.CONSOLIDATING
                       (emptyReviewCycleTransitionContext\<lparr>allRequiredReviewsComplete := Some True\<rparr>) in
                 if \<not> valid validation then refuse sourceStatus (reason validation)
                 else
                   bindT (getT (packet_findByReviewCycleId cycleId)) (\<lambda>specialistPackets.
                   bindT (getT (cycle_findByTaskId taskId)) (\<lambda>allCycles.
                   bindT (getT (\<lambda>d. buildReviewHistory allCycles cycleId (\<lambda>c. packet_findByReviewCycleId c d)))
                     (\<lambda>reviewHistory.
                   bindT (absent (cycle_updateStatus cycleId sourceStatus ReviewCycleStatus.CONSOLIDATING))
                     (\<lambda>updated. case updated of
                       None \<Rightarrow> refuse sourceStatus (Some ''Status update failed -- concurrent modification detected'')
                     | Some updatedCycle \<Rightarrow>
                         bindT (auditEvent_create (rv_cycleUuid env) (rv_now env)
                           \<lparr>na_entityType = ''review-cycle'', na_entityId = cycleId,
                            na_eventType = ''review-cycle.consolidation-started'', na_actorType = actor_type actor,
                            na_actorId = actor_id actor, na_oldState = Some (JStr (ReviewCycleStatus_value sourceStatus)),
                            na_newState = Some (JStr (ReviewCycleStatus_value ReviewCycleStatus.CONSOLIDATING)),
                            na_metadata = Some (JObj [(''taskId'', JStr taskId),
                              (''specialistPacketCount'', JNum (int (length specialistPackets))),
                              (''priorCycleCount'', JNum (int (length reviewHistory))),
                              (''specialistJobIds'', json_texts (map j_jobId (sc_specialistJobs completion)))])\<rparr>)
                         (\<lambda>auditEvent.
                         returnT \<lparr>ar_reviewCycle = updatedCycle, ar_specialistPackets = specialistPackets,
                           ar_reviewHistory = reviewHistory, ar_specialistJobs = sc_specialistJobs completion,
                           ar_auditEvents = [auditEvent], ar_previousStatus = sourceStatus\<rparr>))))))))))"

definition assembleLeadReviewContext ::
  "reviewEnv \<Rightarrow> AssembleLeadReviewContextParams \<Rightarrow> world \<Rightarrow> (app_error + AssembleLeadReviewContextResult) \<times> world" where
  "assembleLeadReviewContext env params =
    commit (assembleLeadReviewContext_tx env params)
      (\<lambda>r. [ReviewCycleTransitionedEvent (al_reviewCycleId params) (ar_previousStatus r) ReviewCycleStatus.CONSOLIDATING
             (al_reviewActor params) (rv_cycleEventAt env)])"

subsection \<open>Steps of the transactions\<close>

definition fresh_ids :: "reviewEnv \<Rightarrow> db \<Rightarrow> bool" where
  "fresh_ids env d \<longleftrightarrow> inj (rv_id env) \<and> rv_cycleUuid env \<noteq> rv_taskUuid env
     \<and> rv_cycleUuid env \<notin> set (map ae_id (auditEvents d)) \<and> rv_taskUuid env \<notin> set (map ae_id (auditEvents d))
     \<and> (\<forall>n. rv_id env n \<notin> set (map t_taskId (tasks d)) \<and> rv_id env n \<notin> set (map rc_reviewCycleId (reviewCycles d))
         \<and> rv_id env n \<notin> set (map j_jobId (jobs d)) \<and> rv_id env n \<notin> set (map lr_leadReviewDecisionId (leadReviewDecisions d)))"

lemma absent_ok: "upd d = (Inr x, d') \<Longrightarrow> bindT (absent upd) f d = f (Some x) d'"
  by (simp add: absent_def bindT_apply)

lemma cycle_moved:
  assumes "wf_db d" and "cycle_findById i d = Some c" and "rc_status c = from"
  obtains rs where "cycle_updateStatus i from s d = (Inr (c\<lparr>rc_status := s\<rparr>), d\<lparr>reviewCycles := rs\<rparr>)"
    "cycle_findById i (d\<lparr>reviewCycles := rs\<rparr>) = Some (c\<lparr>rc_status := s\<rparr>)" "wf_db (d\<lparr>reviewCycles := rs\<rparr>)"
    "\<forall>j. j \<noteq> i \<longrightarrow> cycle_findById j (d\<lparr>reviewCycles := rs\<rparr>) = cycle_findById j d"
    "map rc_reviewCycleId rs = map rc_reviewCycleId (reviewCycles d)"
proof -
  let ?rs = "update_where (\<lambda>r. rc_reviewCycleId r = i) (\<lambda>r. r\<lparr>rc_status := s\<rparr>) (reviewCycles d)"
  have keys: "map rc_reviewCycleId ?rs = map rc_reviewCycleId (reviewCycles d)" by (rule map_update_where_same) simp
  have "cycle_updateStatus i from s d = (Inr (c\<lparr>rc_status := s\<rparr>), d\<lparr>reviewCycles := ?rs\<rparr>)"
    using assms by (simp add: cycle_updateStatus_def cycle_update_def bindT_apply Let_def cycle_findById_def find_update_where_key)
  moreover have "cycle_findById i (d\<lparr>reviewCycles := ?rs\<rparr>) = Some (c\<lparr>rc_status := s\<rparr>)"
    using assms(2) by (simp add: cycle_findById_def find_update_where_key)
  moreover have "\<forall>j. j \<noteq> i \<longrightarrow> cycle_findById j (d\<lparr>reviewCycles := ?rs\<rparr>) = cycle_findById j d"
    by (simp add: cycle_findById_def find_update_where_other)
  ultimately show ?thesis using that[of ?rs] wf_db_keys(1)[OF keys assms(1)] keys by blast
qed

lemma key_known: "find (\<lambda>x. k x = i) xs = Some x \<Longrightarrow> i \<in> set (map k xs)"
  by (induction xs) (auto split: if_splits)

lemma find_appended: "find p (xs @ ys) = (case find p xs of Some x \<Rightarrow> Some x | None \<Rightarrow> find p ys)"
  by (induction xs) auto

subsection \<open>Dispatch\<close>

lemma job_inserted: "j_jobId j \<notin> set (map j_jobId (jobs d)) \<Longrightarrow> job_create j d = (Inr j, d\<lparr>jobs := jobs d @ [j]\<rparr>)"
  by (simp add: job_create_def)

lemma specialistJob_sel [simp]:
  "j_jobId (specialistJob env i k routing x) = fst x" "j_dependsOnJobIds (specialistJob env i k routing x) = None"
  "j_jobType (specialistJob env i k routing x) = JobType.REVIEWER_DISPATCH"
  "j_status (specialistJob env i k routing x) = JobStatus.PENDING"
  "j_jobGroupId (specialistJob env i k routing x) = Some k"
  by (simp_all add: specialistJob_def reviewJob_def split: prod.split)

lemma specialist_jobs_created:
  assumes "distinct (map fst xs)" and "set (map fst xs) \<inter> set (map j_jobId (jobs d)) = {}"
  shows "createSpecialistJobs env i k routing xs d
    = (Inr (map (specialistJob env i k routing) xs), d\<lparr>jobs := jobs d @ map (specialistJob env i k routing) xs\<rparr>)"
  using assms
proof (induction xs arbitrary: d)
  case (Cons x xs)
  have "fst x \<notin> set (map j_jobId (jobs d))" using Cons.prems by auto
  then have "job_create (specialistJob env i k routing x) d
      = (Inr (specialistJob env i k routing x), d\<lparr>jobs := jobs d @ [specialistJob env i k routing x]\<rparr>)"
    by (intro job_inserted) simp
  then show ?case using Cons by (simp add: bindT_apply)
qed simp

text \<open>The jobs a dispatch creates: one per reviewer, in order, and the lead's, which waits for them.\<close>

definition dispatched_jobs :: "picomatch \<Rightarrow> reviewEnv \<Rightarrow> DispatchReviewersParams \<Rightarrow> Job list" where
  "dispatched_jobs picomatch env params =
    (let routing = routeReview picomatch (ds_routing params); reviewers = requiredReviewers routing @ optionalReviewers routing;
         ids = map (\<lambda>i. rv_id env (i + 2)) [0..<length reviewers] in
     map (specialistJob env (ds_taskId params) (rv_id env 0) routing) (zip ids reviewers)
     @ [leadReviewJob env (rv_id env 1) (ds_taskId params) (rv_id env 0) ids])"

definition dispatched_cycle :: "picomatch \<Rightarrow> reviewEnv \<Rightarrow> DispatchReviewersParams \<Rightarrow> ReviewCycle" where
  "dispatched_cycle picomatch env params =
    (let routing = routeReview picomatch (ds_routing params) in
     \<lparr>rc_reviewCycleId = rv_id env 0, rc_taskId = ds_taskId params, rc_status = ReviewCycleStatus.ROUTED,
      rc_requiredReviewers = Some (json_texts (requiredReviewers routing)),
      rc_optionalReviewers = Some (json_texts (optionalReviewers routing)),
      rc_startedAt = rv_now env div 1000, rc_completedAt = None\<rparr>)"

definition dispatched ::
  "picomatch \<Rightarrow> reviewEnv \<Rightarrow> DispatchReviewersParams \<Rightarrow> Task \<Rightarrow> db \<Rightarrow> DispatchReviewersResult \<Rightarrow> db \<Rightarrow> bool" where
  "dispatched picomatch env params t d r d' \<longleftrightarrow>
    (let t' = t\<lparr>t_status := TaskStatus.IN_REVIEW, t_currentReviewCycleId := Some (rv_id env 0),
                t_version := t_version t + 1, t_updatedAt := rv_now env div 1000\<rparr> in
     task_findById (ds_taskId params) d' = Some t' \<and> dp_task r = t'
     \<and> (\<forall>i. i \<noteq> ds_taskId params \<longrightarrow> task_findById i d' = task_findById i d)
     \<and> reviewCycles d' = reviewCycles d @ [dispatched_cycle picomatch env params]
     \<and> dp_reviewCycle r = dispatched_cycle picomatch env params
     \<and> jobs d' = jobs d @ dispatched_jobs picomatch env params
     \<and> dp_specialistJobIds r @ [dp_leadReviewJobId r] = map j_jobId (dispatched_jobs picomatch env params)
     \<and> length (dp_auditEvents r) = 2 \<and> auditEvents d' = auditEvents d @ dp_auditEvents r
     \<and> d' = d\<lparr>tasks := tasks d', reviewCycles := reviewCycles d', jobs := jobs d', auditEvents := auditEvents d'\<rparr>
     \<and> wf_db d')"

lemma dispatch_audits:
  assumes "rv_cycleUuid env \<notin> set (map ae_id (auditEvents d))" and "rv_taskUuid env \<notin> set (map ae_id (auditEvents d))"
    and "rv_cycleUuid env \<noteq> rv_taskUuid env"
  obtains a b where "recordDispatchAudits env params routing ids t d
      = (Inr [a, b], d\<lparr>auditEvents := auditEvents d @ [a, b]\<rparr>)" "ae_id a = rv_cycleUuid env" "ae_id b = rv_taskUuid env"
proof -
  have "\<exists>a b. recordDispatchAudits env params routing ids t d = (Inr [a, b], d\<lparr>auditEvents := auditEvents d @ [a, b]\<rparr>)
      \<and> ae_id a = rv_cycleUuid env \<and> ae_id b = rv_taskUuid env"
    using assms by (simp add: recordDispatchAudits_def Let_def bindT_apply audit_fresh)
  then show ?thesis using that by blast
qed

lemma dispatch_transitions_valid:
  "valid (validateTransition TaskStatus.DEV_COMPLETE TaskStatus.IN_REVIEW (emptyContext\<lparr>hasReviewRoutingDecision := Some True\<rparr>))"
  "valid (validateReviewCycleTransition ReviewCycleStatus.NOT_STARTED ReviewCycleStatus.ROUTED
     (emptyReviewCycleTransitionContext\<lparr>routingDecisionEmitted := Some True\<rparr>))"
  by code_simp+

lemma cycle_opened:
  assumes wf: "wf_db d" and new: "rc_reviewCycleId row \<notin> set (map rc_reviewCycleId (reviewCycles d))"
  shows "cycle_updateStatus (rc_reviewCycleId row) (rc_status row) s (d\<lparr>reviewCycles := reviewCycles d @ [row]\<rparr>)
    = (Inr (row\<lparr>rc_status := s\<rparr>), d\<lparr>reviewCycles := reviewCycles d @ [row\<lparr>rc_status := s\<rparr>]\<rparr>)"
proof -
  let ?hit = "\<lambda>r. rc_reviewCycleId r = rc_reviewCycleId row"
  have no: "\<forall>r \<in> set (reviewCycles d). \<not> ?hit r" using new by (metis image_eqI list.set_map)
  then have "find ?hit (reviewCycles d) = None" by (simp add: find_None_iff)
  moreover have "update_where ?hit f (reviewCycles d @ [row]) = reviewCycles d @ [f row]" for f
    using no by (simp add: update_where_def map_idI)
  ultimately show ?thesis
    by (simp add: cycle_updateStatus_def cycle_update_def cycle_findById_def find_appended bindT_apply Let_def)
qed

lemma dispatch_transaction:
  assumes wf: "wf_db d" and fresh: "fresh_ids env d" and t: "task_findById (ds_taskId params) d = Some t"
    and st: "t_status t = TaskStatus.DEV_COMPLETE"
  obtains r d' where "dispatchReviewers_tx picomatch env params d = (Inr r, d')" "dispatched picomatch env params t d r d'"
proof -
  let ?routing = "routeReview picomatch (ds_routing params)" and ?i = "ds_taskId params"
  let ?all = "requiredReviewers ?routing @ optionalReviewers ?routing"
  let ?ids = "map (\<lambda>i. rv_id env (i + 2)) [0..<length ?all]"
  let ?cycle = "dispatched_cycle picomatch env params"
  let ?new = "?cycle\<lparr>rc_status := ReviewCycleStatus.NOT_STARTED\<rparr>"
  let ?sp = "map (specialistJob env ?i (rv_id env 0) ?routing) (zip ?ids ?all)"
  let ?lead = "leadReviewJob env (rv_id env 1) ?i (rv_id env 0) ?ids"
  have known: "?i \<in> set (map t_taskId (tasks d))" using t by (simp add: task_findById_def key_known del: set_map)
  have new: "rc_reviewCycleId ?new \<notin> set (map rc_reviewCycleId (reviewCycles d))"
    using fresh by (simp add: fresh_ids_def dispatched_cycle_def Let_def)
  define d1 where "d1 = d\<lparr>reviewCycles := reviewCycles d @ [?new]\<rparr>"
  have s1: "cycle_create ?new d = (Inr ?new, d1)"
    using known new by (simp add: cycle_create_def d1_def dispatched_cycle_def Let_def)
  define d2 where "d2 = d\<lparr>reviewCycles := reviewCycles d @ [?cycle]\<rparr>"
  have "rc_reviewCycleId ?new = rv_id env 0" "?new\<lparr>rc_status := ReviewCycleStatus.ROUTED\<rparr> = ?cycle"
    by (simp_all add: dispatched_cycle_def Let_def)
  then have s2: "cycle_updateStatus (rv_id env 0) ReviewCycleStatus.NOT_STARTED ReviewCycleStatus.ROUTED d1 = (Inr ?cycle, d2)"
    using cycle_opened[OF wf new, of ReviewCycleStatus.ROUTED] by (simp add: d1_def d2_def)
  have ids: "map fst (zip ?ids ?all) = ?ids" by simp
  have dist: "distinct ?ids" using fresh by (auto simp: distinct_map fresh_ids_def inj_on_def)
  have free: "set ?ids \<inter> set (map j_jobId (jobs d)) = {}" using fresh by (auto simp: fresh_ids_def)
  define d3 where "d3 = d2\<lparr>jobs := jobs d2 @ ?sp\<rparr>"
  have s3: "createSpecialistJobs env ?i (rv_id env 0) ?routing (zip ?ids ?all) d2 = (Inr ?sp, d3)"
    unfolding d3_def by (rule specialist_jobs_created) (unfold ids, use dist free in \<open>simp_all add: d2_def\<close>)
  have lead: "rv_id env 1 \<notin> set ?ids" using fresh by (auto simp: fresh_ids_def inj_def)
  have jids: "map j_jobId ?sp = ?ids" using ids by (simp add: comp_def)
  define d4 where "d4 = d3\<lparr>jobs := jobs d3 @ [?lead]\<rparr>"
  have jd: "map j_jobId (jobs d3) = map j_jobId (jobs d) @ ?ids" using jids by (simp add: d3_def d2_def)
  have s4: "job_create ?lead d3 = (Inr ?lead, d4)"
    unfolding d4_def by (rule job_inserted) (unfold jd, use lead fresh in \<open>auto simp: fresh_ids_def leadReviewJob_def reviewJob_def\<close>)
  have wf4: "wf_db d4"
    using wf new dist free lead jids fresh
    by (auto simp: wf_db_def d4_def d3_def d2_def dispatched_cycle_def Let_def leadReviewJob_def reviewJob_def fresh_ids_def)
  have t4: "task_findById ?i d4 = Some t" using t by (simp add: d4_def d3_def d2_def task_findById_def)
  let ?t' = "t\<lparr>t_status := TaskStatus.IN_REVIEW, t_currentReviewCycleId := Some (rv_id env 0),
    t_version := t_version t + 1, t_updatedAt := rv_now env div 1000\<rparr>"
  obtain d5 where s5: "updateForReviewDispatch (rv_now env) ?i (t_version t) TaskStatus.IN_REVIEW (rv_id env 0) d4 = (Inr ?t', d5)"
      "d5 = d4\<lparr>tasks := tasks d5\<rparr>" "task_findById ?i d5 = Some ?t'" "\<forall>j. j \<noteq> ?i \<longrightarrow> task_findById j d5 = task_findById j d4" "wf_db d5"
    unfolding updateForReviewDispatch_def
    by (rule task_update_current[OF wf4 t4, of "\<lambda>r. r\<lparr>t_status := TaskStatus.IN_REVIEW, t_currentReviewCycleId := Some (rv_id env 0)\<rparr>" "rv_now env"]) auto
  have audit5: "auditEvents d5 = auditEvents d" by (subst s5(2)) (simp add: d4_def d3_def d2_def)
  have uuids: "rv_cycleUuid env \<notin> set (map ae_id (auditEvents d5))" "rv_taskUuid env \<notin> set (map ae_id (auditEvents d5))"
    "rv_cycleUuid env \<noteq> rv_taskUuid env" using fresh unfolding audit5 by (auto simp: fresh_ids_def)
  obtain a b where s6: "recordDispatchAudits env params ?routing ?ids ?t' d5
      = (Inr [a, b], d5\<lparr>auditEvents := auditEvents d5 @ [a, b]\<rparr>)" "ae_id a = rv_cycleUuid env" "ae_id b = rv_taskUuid env"
    by (rule dispatch_audits[OF uuids])
  define r where "r = \<lparr>dp_reviewCycle = ?cycle, dp_routingDecision = ?routing, dp_specialistJobIds = ?ids,
    dp_leadReviewJobId = rv_id env 1, dp_task = ?t', dp_auditEvents = [a, b]\<rparr>"
  let ?d' = "d5\<lparr>auditEvents := auditEvents d5 @ [a, b]\<rparr>"
  have "dispatchReviewers_tx picomatch env params d = (Inr r, ?d')"
    unfolding dispatchReviewers_tx_def Let_def bindT_getT t
    using s1 s2 s3 s4 s5(1) s6(1)
    by (simp add: st dispatch_transitions_valid bindT_apply absent_def dispatched_cycle_def Let_def r_def del: length_append map_append upt.simps)
  moreover have "dispatched picomatch env params t d r ?d'"
    unfolding dispatched_def Let_def
  proof (intro conjI)
    show "wf_db ?d'" using s5(5) uuids s6(2,3) by (auto simp: wf_db_def)
    show "reviewCycles ?d' = reviewCycles d @ [?cycle]" by (simp, subst s5(2)) (simp add: d4_def d3_def d2_def)
    show "jobs ?d' = jobs d @ dispatched_jobs picomatch env params"
      by (simp, subst s5(2)) (simp add: d4_def d3_def d2_def dispatched_jobs_def Let_def)
    show "dp_specialistJobIds r @ [dp_leadReviewJobId r] = map j_jobId (dispatched_jobs picomatch env params)"
      using jids by (simp add: r_def dispatched_jobs_def Let_def leadReviewJob_def reviewJob_def)
    show "?d' = d\<lparr>tasks := tasks ?d', reviewCycles := reviewCycles ?d', jobs := jobs ?d', auditEvents := auditEvents ?d'\<rparr>"
      by (subst (1 3 4) s5(2)) (simp add: d4_def d3_def d2_def)
  qed (use s5(3,4) audit5 in \<open>simp_all add: r_def task_findById_def d4_def d3_def d2_def\<close>)
  ultimately show ?thesis by (rule that)
qed

text \<open>
  (C16) Dispatching the reviewers.  For a task whose development is complete the call opens a routed
  cycle, creates one pending job per required and optional reviewer in routing order and the lead's job,
  points the task to the cycle and moves it into review, with two audit events and two domain events; no
  other row changes.  For any other task it fails and changes nothing.
\<close>

theorem dispatch_reviewers_exact:
  assumes "wf_db (database w)" and "fresh_ids env (database w)"
  shows "case task_findById (ds_taskId params) (database w) of
      None \<Rightarrow> dispatchReviewers picomatch env params w = (Inl (EntityNotFoundError ''Task'' (ds_taskId params)), w)
    | Some t \<Rightarrow>
        if t_status t \<noteq> TaskStatus.DEV_COMPLETE then \<exists>e. dispatchReviewers picomatch env params w = (Inl e, w)
        else \<exists>r w'. dispatchReviewers picomatch env params w = (Inr r, w')
          \<and> dispatched picomatch env params t (database w) r (database w')
          \<and> emitted w' = emitted w
              @ [TaskTransitionedEvent (ds_taskId params) TaskStatus.DEV_COMPLETE TaskStatus.IN_REVIEW (t_version t + 1)
                   (ds_actor params) (rv_taskEventAt env),
                 ReviewCycleTransitionedEvent (rv_id env 0) ReviewCycleStatus.NOT_STARTED ReviewCycleStatus.ROUTED
                   (ds_actor params) (rv_cycleEventAt env)]"
proof (cases "task_findById (ds_taskId params) (database w)")
  case None
  then show ?thesis by (simp add: dispatchReviewers_def dispatchReviewers_tx_def commit_def writeTransaction_def Let_def)
next
  case (Some t)
  show ?thesis
  proof (cases "t_status t = TaskStatus.DEV_COMPLETE")
    case False
    then show ?thesis using Some
      by (simp add: dispatchReviewers_def dispatchReviewers_tx_def commit_def writeTransaction_def Let_def)
  next
    case True
    obtain r d' where run: "dispatchReviewers_tx picomatch env params (database w) = (Inr r, d')"
      and d': "dispatched picomatch env params t (database w) r d'"
      by (rule dispatch_transaction[OF assms Some True])
    have "t_version (dp_task r) = t_version t + 1" using d' by (auto simp: dispatched_def Let_def)
    then have "\<exists>w'. dispatchReviewers picomatch env params w = (Inr r, w') \<and> database w' = d' \<and> emitted w' = emitted w
              @ [TaskTransitionedEvent (ds_taskId params) TaskStatus.DEV_COMPLETE TaskStatus.IN_REVIEW (t_version t + 1)
                   (ds_actor params) (rv_taskEventAt env),
                 ReviewCycleTransitionedEvent (rv_id env 0) ReviewCycleStatus.NOT_STARTED ReviewCycleStatus.ROUTED
                   (ds_actor params) (rv_cycleEventAt env)]"
      using run by (simp add: dispatchReviewers_def commit_def writeTransaction_def)
    then show ?thesis using Some True d' by auto
  qed
qed

definition review_env :: reviewEnv where
  "review_env = \<lparr>rv_now = 9000, rv_id = (\<lambda>n. replicate (Suc n) (CHR ''x'')), rv_cycleUuid = ''u1'', rv_taskUuid = ''u2'',
    rv_cycleEventAt = 9001, rv_taskEventAt = 9002\<rparr>"

definition review_params :: DispatchReviewersParams where
  "review_params = \<lparr>ds_taskId = ''T1'', ds_routing = \<lparr>changedFilePaths = [], taskTags = [], taskDomain = None,
     riskLevel = RiskLevel.LOW, repositoryRequiredReviewers = [''security''], routingConfig_rules = []\<rparr>,
    ds_actor = example_actor\<rparr>"

definition complete_world :: world where
  "complete_world = \<lparr>database = example_db\<lparr>tasks := [example_task\<lparr>t_status := TaskStatus.DEV_COMPLETE\<rparr>]\<rparr>, emitted = []\<rparr>"

lemma complete_world_ok: "wf_db (database complete_world)" "fresh_ids review_env (database complete_world)"
  by (simp_all add: complete_world_def example_db_def example_task_def wf_db_def fresh_ids_def review_env_def inj_def)

theorem dispatch_reviewers_exact_witness:
  "\<exists>r w'. dispatchReviewers (\<lambda>_ _. False) review_env review_params complete_world = (Inr r, w')
     \<and> dispatched (\<lambda>_ _. False) review_env review_params (example_task\<lparr>t_status := TaskStatus.DEV_COMPLETE\<rparr>)
         (database complete_world) r (database w')"
proof -
  have "task_findById (ds_taskId review_params) (database complete_world) = Some (example_task\<lparr>t_status := TaskStatus.DEV_COMPLETE\<rparr>)"
    by (simp add: review_params_def complete_world_def example_db_def example_task_def task_findById_def)
  then show ?thesis
    using dispatch_reviewers_exact[OF complete_world_ok, of "\<lambda>_ _. False" review_params] by (auto simp: example_task_def)
qed

lemma queue_keeps_dependencies:
  assumes "queue_step\<^sup>*\<^sup>* d d'" and "wf_db d" and "job_findById i d = Some j"
  shows "wf_db d' \<and> (\<exists>j'. job_findById i d' = Some j' \<and> j_dependsOnJobIds j' = j_dependsOnJobIds j)"
  using assms(1)
proof (induction rule: rtranclp_induct)
  case base
  then show ?case using assms by simp
next
  case (step e e')
  then obtain k where k: "job_findById i e = Some k" "j_dependsOnJobIds k = j_dependsOnJobIds j" and wf: "wf_db e" by blast
  from queue_step_moves[OF step(2) wf] obtain k' where k': "job_findById i e' = Some k'" "job_move k k'" "wf_db e'"
    using k(1) unfolding jobs_move_def by blast
  have "j_dependsOnJobIds k' = j_dependsOnJobIds k" using k'(2) by (auto simp: job_move_def claimed_job_def moved_job_def)
  then show ?case using k' k(2) by auto
qed

lemma toStringArray_texts [simp]: "toStringArray (Some (json_texts ids)) = ids"
  by (simp add: toStringArray_def json_texts_def map_filter_def comp_def)

lemma lead_job_sel [simp]:
  "j_jobId (leadReviewJob env l i k ids) = l" "toStringArray (j_dependsOnJobIds (leadReviewJob env l i k ids)) = ids"
  by (simp_all add: leadReviewJob_def reviewJob_def) (simp add: toStringArray_def)

lemma dispatched_lead:
  assumes "dispatched picomatch env params t d r d'"
  obtains j where "j \<in> set (jobs d')" "j_jobId j = dp_leadReviewJobId r"
    "toStringArray (j_dependsOnJobIds j) = dp_specialistJobIds r"
proof -
  let ?routing = "routeReview picomatch (ds_routing params)"
  let ?all = "requiredReviewers ?routing @ optionalReviewers ?routing"
  let ?ids = "map (\<lambda>i. rv_id env (i + 2)) [0..<length ?all]"
  let ?sp = "map (specialistJob env (ds_taskId params) (rv_id env 0) ?routing) (zip ?ids ?all)"
  let ?lead = "leadReviewJob env (rv_id env 1) (ds_taskId params) (rv_id env 0) ?ids"
  have "map j_jobId ?sp = map fst (zip ?ids ?all)" unfolding map_map by (rule map_cong) simp_all
  then have "map j_jobId ?sp = ?ids" by simp
  moreover have "dp_specialistJobIds r @ [dp_leadReviewJobId r] = map j_jobId ?sp @ [j_jobId ?lead]" "jobs d' = jobs d @ ?sp @ [?lead]"
    using assms by (simp_all only: dispatched_def dispatched_jobs_def Let_def map_append list.map)
  ultimately show ?thesis using that[of ?lead] by simp
qed

text \<open>
  (C15) The lead waits for the reviewers.  However the job queue is used after a dispatch, the lead's job is
  handed to a worker only once every specialist job of the dispatch has completed or failed.
\<close>

theorem lead_review_waits_for_reviewers:
  assumes "wf_db (database w)" and "fresh_ids env (database w)"
    and "dispatchReviewers picomatch env params w = (Inr r, w')"
    and "queue_step\<^sup>*\<^sup>* (database w') d"
    and "claimJob clock now jobType owner d = (Inr (Some j), d')" and "j_jobId j = dp_leadReviewJobId r"
  shows "\<forall>i \<in> set (dp_specialistJobIds r). \<exists>k. job_findById i d = Some k \<and> j_status k \<in> {JobStatus.COMPLETED, JobStatus.FAILED}"
proof -
  obtain t where t: "task_findById (ds_taskId params) (database w) = Some t" "t_status t = TaskStatus.DEV_COMPLETE"
    using assms(3) by (auto simp: dispatchReviewers_def dispatchReviewers_tx_def commit_def writeTransaction_def Let_def
        split: option.splits if_splits)
  obtain r' d1 where r': "dispatchReviewers_tx picomatch env params (database w) = (Inr r', d1)"
    and d1: "dispatched picomatch env params t (database w) r' d1"
    by (rule dispatch_transaction[OF assms(1,2) t])
  have same: "r' = r" "d1 = database w'" using assms(3) r' by (auto simp: dispatchReviewers_def commit_def writeTransaction_def)
  obtain lead where lead: "lead \<in> set (jobs d1)" "j_jobId lead = dp_leadReviewJobId r"
    and dep: "toStringArray (j_dependsOnJobIds lead) = dp_specialistJobIds r"
    by (rule dispatched_lead[OF d1[unfolded same(1)]])
  have wf1: "wf_db d1" using d1 by (simp add: dispatched_def Let_def)
  have "job_findById (dp_leadReviewJobId r) d1 = Some lead" using job_found[OF wf1 lead(1)] lead(2) by simp
  then obtain k where k: "job_findById (dp_leadReviewJobId r) d = Some k" "j_dependsOnJobIds k = j_dependsOnJobIds lead" and wf: "wf_db d"
    using queue_keeps_dependencies[OF assms(4)[folded same(2)] wf1] by blast
  show ?thesis
  proof (rule claimJob_cases[OF wf, of jobType clock now owner])
    assume "claimJob clock now jobType owner d = (Inr None, d)"
    then show ?thesis using assms(5) by simp
  next
    fix c e
    assume c: "claimable jobType clock d c" "claimJob clock now jobType owner d = (Inr (Some (claimed_job now owner c)), e)"
    then have "j_jobId c = dp_leadReviewJobId r" using assms(5,6) by auto
    then have "c = k" using k(1) c(1) job_found[OF wf, of c] by (simp add: claimable_def)
    then show ?thesis using c(1) k(2) dep by (simp add: claimable_def)
  qed
qed

theorem lead_review_waits_for_reviewers_witness:
  "\<exists>r w' d j d'. dispatchReviewers (\<lambda>_ _. False) review_env review_params complete_world = (Inr r, w')
     \<and> queue_step\<^sup>*\<^sup>* (database w') d \<and> claimJob 9000 9000 JobType.LEAD_REVIEW_CONSOLIDATION ''L'' d = (Inr (Some j), d')
     \<and> dp_specialistJobIds r \<noteq> []
     \<and> (\<forall>i \<in> set (dp_specialistJobIds r). \<exists>k. job_findById i d = Some k \<and> j_status k \<in> {JobStatus.COMPLETED, JobStatus.FAILED})"
proof -
  let ?run = "dispatchReviewers (\<lambda>_ _. False) review_env review_params complete_world"
  let ?d0 = "database (snd ?run)"
  let ?d1 = "snd (claimJob 9000 9000 JobType.REVIEWER_DISPATCH ''W'' ?d0)"
  let ?d1' = "snd (claimJob 9000 9000 JobType.REVIEWER_DISPATCH ''V'' ?d1)"
  let ?d1'' = "snd (completeJob 9000 ''xxxx'' ?d1')"
  let ?d2 = "snd (failJob 9000 ''xxx'' ?d1'')"
  have "queue_step ?d0 ?d1" "queue_step ?d1 ?d1'" by (rule queue_step.claim, rule prod.collapse[symmetric])+
  moreover have "queue_step ?d1' ?d1''" by (rule queue_step.complete, rule prod.collapse[symmetric])
  moreover have "queue_step ?d1'' ?d2" by (rule queue_step.fail, rule prod.collapse[symmetric])
  ultimately have steps: "queue_step\<^sup>*\<^sup>* ?d0 ?d2" by (meson converse_rtranclp_into_rtranclp rtranclp.rtrancl_refl)
  have "case ?run of (Inr r, _) \<Rightarrow> dp_leadReviewJobId r = ''xx'' \<and> dp_specialistJobIds r \<noteq> [] | _ \<Rightarrow> False" by code_simp
  then obtain r where r: "?run = (Inr r, snd ?run)" "dp_leadReviewJobId r = ''xx''" "dp_specialistJobIds r \<noteq> []"
    by (auto split: sum.splits prod.splits)
  have "case claimJob 9000 9000 JobType.LEAD_REVIEW_CONSOLIDATION ''L'' ?d2 of (Inr (Some j), _) \<Rightarrow> j_jobId j = ''xx'' | _ \<Rightarrow> False"
    by code_simp
  then obtain j d' where j: "claimJob 9000 9000 JobType.LEAD_REVIEW_CONSOLIDATION ''L'' ?d2 = (Inr (Some j), d')" "j_jobId j = ''xx''"
    by (auto split: sum.splits prod.splits option.splits)
  show ?thesis
    using lead_review_waits_for_reviewers[OF complete_world_ok r(1) steps j(1)] r j steps by (intro exI conjI) auto
qed

subsection \<open>Start of the consolidation\<close>

definition consolidates :: "AssembleLeadReviewContextParams \<Rightarrow> ReviewCycle \<Rightarrow> db \<Rightarrow> bool" where
  "consolidates params c d \<longleftrightarrow> task_findById (al_reviewTaskId params) d \<noteq> None
     \<and> cycle_findById (al_reviewCycleId params) d = Some c \<and> rc_taskId c = al_reviewTaskId params
     \<and> rc_status c \<in> {ReviewCycleStatus.IN_PROGRESS, ReviewCycleStatus.AWAITING_REQUIRED_REVIEWS}
     \<and> (\<forall>j \<in> set (jobs d). j_jobGroupId j = Some (al_reviewCycleId params) \<and> j_jobType j = JobType.REVIEWER_DISPATCH
          \<longrightarrow> j_status j \<in> {JobStatus.COMPLETED, JobStatus.FAILED, JobStatus.CANCELLED})"

lemma completion_all_terminal:
  "sc_allTerminal (checkSpecialistJobsCompletion (job_findByJobGroupId k d)) \<longleftrightarrow>
    (\<forall>j \<in> set (jobs d). j_jobGroupId j = Some k \<and> j_jobType j = JobType.REVIEWER_DISPATCH
      \<longrightarrow> j_status j \<in> {JobStatus.COMPLETED, JobStatus.FAILED, JobStatus.CANCELLED})"
  by (auto simp: checkSpecialistJobsCompletion_def job_findByJobGroupId_def TERMINAL_JOB_STATUSES_def Let_def filter_empty_conv)

lemma consolidation_transition_valid:
  "getConsolidationSourceStatus c = Some s \<Longrightarrow>
    valid (validateReviewCycleTransition s ReviewCycleStatus.CONSOLIDATING
      (emptyReviewCycleTransitionContext\<lparr>allRequiredReviewsComplete := Some True\<rparr>))"
proof -
  have "valid (validateReviewCycleTransition ReviewCycleStatus.IN_PROGRESS ReviewCycleStatus.CONSOLIDATING
      (emptyReviewCycleTransitionContext\<lparr>allRequiredReviewsComplete := Some True\<rparr>))"
    "valid (validateReviewCycleTransition ReviewCycleStatus.AWAITING_REQUIRED_REVIEWS ReviewCycleStatus.CONSOLIDATING
      (emptyReviewCycleTransitionContext\<lparr>allRequiredReviewsComplete := Some True\<rparr>))"
    by code_simp+
  then show "getConsolidationSourceStatus c = Some s \<Longrightarrow> ?thesis"
    by (auto simp: getConsolidationSourceStatus_def split: if_splits)
qed

lemma source_status: "getConsolidationSourceStatus c = Some s \<longleftrightarrow>
    s = rc_status c \<and> s \<in> {ReviewCycleStatus.IN_PROGRESS, ReviewCycleStatus.AWAITING_REQUIRED_REVIEWS}"
  by (auto simp: getConsolidationSourceStatus_def)

lemma consolidation_refused:
  assumes no: "\<nexists>c. consolidates params c (database w)"
  shows "\<exists>e. assembleLeadReviewContext env params w = (Inl e, w)"
proof -
  have "\<exists>e. assembleLeadReviewContext_tx env params (database w) = (Inl e, database w)"
  proof (cases "task_findById (al_reviewTaskId params) (database w)")
    case None
    then show ?thesis by (simp add: assembleLeadReviewContext_tx_def Let_def)
  next
    case (Some t)
    then show ?thesis using no
      by (cases "cycle_findById (al_reviewCycleId params) (database w)")
        (auto simp: assembleLeadReviewContext_tx_def Let_def consolidates_def completion_all_terminal source_status split: option.split)
  qed
  then show ?thesis by (auto simp: assembleLeadReviewContext_def commit_def writeTransaction_def)
qed

text \<open>
  (C17) The consolidation starts exactly when the cycle belongs to the task, is under review, and every
  specialist job of its group is completed, failed or cancelled; otherwise the call fails and changes
  nothing.  It moves the cycle, and only it, to \<open>CONSOLIDATING\<close>, adds one audit event and one domain
  event, and hands the lead all specialist packets of the cycle and, oldest first, every earlier cycle of
  the task with its packets.
\<close>

theorem consolidation_exact:
  assumes wf: "wf_db (database w)" and fresh: "rv_cycleUuid env \<notin> set (map ae_id (auditEvents (database w)))"
  shows "(\<forall>c. consolidates params c (database w) \<longrightarrow>
      (\<exists>r w' a. assembleLeadReviewContext env params w = (Inr r, w')
        \<and> cycle_findById (al_reviewCycleId params) (database w') = Some (c\<lparr>rc_status := ReviewCycleStatus.CONSOLIDATING\<rparr>)
        \<and> (\<forall>i. i \<noteq> al_reviewCycleId params \<longrightarrow> cycle_findById i (database w') = cycle_findById i (database w))
        \<and> database w' = (database w)\<lparr>reviewCycles := reviewCycles (database w'), auditEvents := auditEvents (database w) @ [a]\<rparr>
        \<and> emitted w' = emitted w @ [ReviewCycleTransitionedEvent (al_reviewCycleId params) (rc_status c)
            ReviewCycleStatus.CONSOLIDATING (al_reviewActor params) (rv_cycleEventAt env)]
        \<and> (\<forall>p. p \<in> set (ar_specialistPackets r) \<longleftrightarrow>
             p \<in> set (reviewPackets (database w)) \<and> rp_reviewCycleId p = al_reviewCycleId params)
        \<and> sorted (map (\<lambda>h. rc_startedAt (he_cycle h)) (ar_reviewHistory r))
        \<and> (\<forall>c'. c' \<in> he_cycle ` set (ar_reviewHistory r) \<longleftrightarrow> c' \<in> set (reviewCycles (database w))
             \<and> rc_taskId c' = al_reviewTaskId params \<and> rc_reviewCycleId c' \<noteq> al_reviewCycleId params)
        \<and> (\<forall>h \<in> set (ar_reviewHistory r). he_specialistPackets h
             = filter (\<lambda>p. rp_reviewCycleId p = rc_reviewCycleId (he_cycle h)) (reviewPackets (database w)))
        \<and> wf_db (database w')))
    \<and> ((\<nexists>c. consolidates params c (database w)) \<longrightarrow> (\<exists>e. assembleLeadReviewContext env params w = (Inl e, w)))"
    (is "(\<forall>c. _ c \<longrightarrow> ?started c) \<and> _")
proof (intro conjI allI impI)
  let ?k = "al_reviewCycleId params" and ?d = "database w"
  fix c
  assume c: "consolidates params c ?d"
  then obtain t where t: "task_findById (al_reviewTaskId params) ?d = Some t" by (auto simp: consolidates_def)
  have cyc: "cycle_findById ?k ?d = Some c" "rc_taskId c = al_reviewTaskId params"
    "getConsolidationSourceStatus c = Some (rc_status c)"
    and terminal: "sc_allTerminal (checkSpecialistJobsCompletion (job_findByJobGroupId ?k ?d))"
    using c unfolding consolidates_def completion_all_terminal by (auto simp: source_status)
  obtain rs where rs: "cycle_updateStatus ?k (rc_status c) ReviewCycleStatus.CONSOLIDATING ?d
        = (Inr (c\<lparr>rc_status := ReviewCycleStatus.CONSOLIDATING\<rparr>), ?d\<lparr>reviewCycles := rs\<rparr>)"
      "cycle_findById ?k (?d\<lparr>reviewCycles := rs\<rparr>) = Some (c\<lparr>rc_status := ReviewCycleStatus.CONSOLIDATING\<rparr>)"
      "wf_db (?d\<lparr>reviewCycles := rs\<rparr>)" "\<forall>j. j \<noteq> ?k \<longrightarrow> cycle_findById j (?d\<lparr>reviewCycles := rs\<rparr>) = cycle_findById j ?d"
    by (rule cycle_moved[OF wf cyc(1) refl])
  let ?hist = "buildReviewHistory (cycle_findByTaskId (al_reviewTaskId params) ?d) ?k (\<lambda>c. packet_findByReviewCycleId c ?d)"
  obtain a where run: "assembleLeadReviewContext_tx env params ?d
      = (Inr \<lparr>ar_reviewCycle = c\<lparr>rc_status := ReviewCycleStatus.CONSOLIDATING\<rparr>,
          ar_specialistPackets = packet_findByReviewCycleId ?k ?d, ar_reviewHistory = ?hist,
          ar_specialistJobs = sc_specialistJobs (checkSpecialistJobsCompletion (job_findByJobGroupId ?k ?d)),
          ar_auditEvents = [a], ar_previousStatus = rc_status c\<rparr>,
        ?d\<lparr>reviewCycles := rs, auditEvents := auditEvents ?d @ [a]\<rparr>)" "ae_id a = rv_cycleUuid env"
    using that fresh
    by (simp add: assembleLeadReviewContext_tx_def Let_def t cyc terminal consolidation_transition_valid[OF cyc(3)]
        bindT_apply absent_def rs(1) audit_fresh)
  have "wf_db (?d\<lparr>reviewCycles := rs, auditEvents := auditEvents ?d @ [a]\<rparr>)"
    using rs(3) run(2) fresh by (simp add: wf_db_def)
  then show "?started c"
    using rs(2,4) run
    by (intro exI[of _ a] exI)
      (auto simp: assembleLeadReviewContext_def commit_def writeTransaction_def cycle_findById_def
        packet_findByReviewCycleId_def buildReviewHistory_def cycle_findByTaskId_def comp_def image_image)
next
  assume "\<nexists>c. consolidates params c (database w)"
  then show "\<exists>e. assembleLeadReviewContext env params w = (Inl e, w)" by (rule consolidation_refused)
qed

definition cycle_under_review :: "string \<Rightarrow> int \<Rightarrow> ReviewCycleStatus \<Rightarrow> ReviewCycle" where
  "cycle_under_review k at s = \<lparr>rc_reviewCycleId = k, rc_taskId = ''T1'', rc_status = s, rc_requiredReviewers = None,
    rc_optionalReviewers = None, rc_startedAt = at, rc_completedAt = None\<rparr>"

definition reviewed_world :: "ReviewCycleStatus \<Rightarrow> world" where
  "reviewed_world s = \<lparr>database = example_db\<lparr>
     tasks := [example_task\<lparr>t_status := TaskStatus.IN_REVIEW, t_currentReviewCycleId := Some ''C2''\<rparr>],
     reviewCycles := [cycle_under_review ''C2'' 7 s, cycle_under_review ''C1'' 3 ReviewCycleStatus.REJECTED]\<rparr>, emitted = []\<rparr>"

lemma reviewed_world_ok: "wf_db (database (reviewed_world s))" "fresh_ids review_env (database (reviewed_world s))"
  by (simp_all add: reviewed_world_def example_db_def example_task_def cycle_under_review_def wf_db_def fresh_ids_def
      review_env_def inj_def)

theorem consolidation_exact_witness:
  "\<exists>r w'. assembleLeadReviewContext review_env \<lparr>al_reviewCycleId = ''C2'', al_reviewTaskId = ''T1'', al_reviewActor = example_actor\<rparr>
       (reviewed_world ReviewCycleStatus.IN_PROGRESS) = (Inr r, w')
     \<and> cycle_findById ''C2'' (database w') = Some (cycle_under_review ''C2'' 7 ReviewCycleStatus.CONSOLIDATING)
     \<and> he_cycle ` set (ar_reviewHistory r) = {cycle_under_review ''C1'' 3 ReviewCycleStatus.REJECTED}"
proof -
  let ?p = "\<lparr>al_reviewCycleId = ''C2'', al_reviewTaskId = ''T1'', al_reviewActor = example_actor\<rparr>"
  let ?w = "reviewed_world ReviewCycleStatus.IN_PROGRESS"
  have "consolidates ?p (cycle_under_review ''C2'' 7 ReviewCycleStatus.IN_PROGRESS) (database ?w)"
    by (simp add: consolidates_def reviewed_world_def cycle_under_review_def example_db_def example_task_def
        task_findById_def cycle_findById_def)
  moreover have "rv_cycleUuid review_env \<notin> set (map ae_id (auditEvents (database ?w)))"
    by (simp add: reviewed_world_def example_db_def)
  ultimately obtain r w' where run: "assembleLeadReviewContext review_env ?p ?w = (Inr r, w')"
    and c: "cycle_findById ''C2'' (database w')
      = Some ((cycle_under_review ''C2'' 7 ReviewCycleStatus.IN_PROGRESS)\<lparr>rc_status := ReviewCycleStatus.CONSOLIDATING\<rparr>)"
    and h: "\<forall>c'. c' \<in> he_cycle ` set (ar_reviewHistory r) \<longleftrightarrow> c' \<in> set (reviewCycles (database ?w))
       \<and> rc_taskId c' = ''T1'' \<and> rc_reviewCycleId c' \<noteq> ''C2''"
    using consolidation_exact[OF reviewed_world_ok(1)[of ReviewCycleStatus.IN_PROGRESS], of review_env ?p] by auto
  have "he_cycle ` set (ar_reviewHistory r) = {cycle_under_review ''C1'' 3 ReviewCycleStatus.REJECTED}"
    by (rule set_eqI, unfold h[rule_format]) (auto simp: reviewed_world_def cycle_under_review_def)
  with run c show ?thesis by (auto simp: cycle_under_review_def)
qed

end
