(* ===== verification/ReviewDecision.thy ===== *)
theory ReviewDecision
  imports Schemas ReviewDispatch EscalationPolicy
begin

text \<open>
  \<open>packages/application/src/services/review-decision.service.ts\<close>: the lead's decision, validated
  against its schema and applied to cycle and task in one transaction.  Zod is an argument, with the laws of
  the locale \<open>zod_library\<close>, and so is the creation of follow-up tasks, with the locale
  \<open>follow_up_port\<close> as its contract; the project of a follow-up task, which the rows of the model do
  not carry, is left out.
\<close>

subsection \<open>Repositories\<close>

definition decision_create :: "LeadReviewDecisionRecord \<Rightarrow> LeadReviewDecisionRecord tx" where
  "decision_create row = (\<lambda>d.
    if lr_leadReviewDecisionId row \<in> set (map lr_leadReviewDecisionId (leadReviewDecisions d))
       \<or> lr_taskId row \<notin> set (map t_taskId (tasks d))
       \<or> lr_reviewCycleId row \<notin> set (map rc_reviewCycleId (reviewCycles d))
    then (Inl (ConstraintError ''lead_review_decision''), d)
    else (Inr row, d\<lparr>leadReviewDecisions := leadReviewDecisions d @ [row]\<rparr>))"

definition incrementReviewRoundCount :: "int \<Rightarrow> string \<Rightarrow> int \<Rightarrow> Task option tx" where
  "incrementReviewRoundCount now taskId expectedVersion =
    absent (task_update now taskId expectedVersion (\<lambda>r. r\<lparr>t_reviewRoundCount := t_reviewRoundCount r + 1\<rparr>))"

subsection \<open>The lead's decision\<close>

record LeadReviewDecisionPacket =
  lp_task_id :: string
  lp_review_cycle_id :: string
  lp_decision :: LeadReviewDecision
  lp_summary :: string
  lp_blocking_issues :: "json list"
  lp_non_blocking_suggestions :: "json list"
  lp_follow_up_task_refs :: "string list"
  lp_json :: json

record ApplyReviewDecisionParams =
  ad_packet :: json
  ad_taskId :: string
  ad_reviewCycleId :: string
  ad_escalationPolicy :: EscalationPolicy
  ad_maxReviewRounds :: int
  ad_actor :: ActorInfo

datatype ReviewDecisionOutcome =
  approved | approved_with_follow_up | changes_requested | escalated | escalated_from_review_limit

fun ReviewDecisionOutcome_value :: "ReviewDecisionOutcome \<Rightarrow> string" where
  "ReviewDecisionOutcome_value approved = ''approved''"
| "ReviewDecisionOutcome_value approved_with_follow_up = ''approved_with_follow_up''"
| "ReviewDecisionOutcome_value changes_requested = ''changes_requested''"
| "ReviewDecisionOutcome_value escalated = ''escalated''"
| "ReviewDecisionOutcome_value escalated_from_review_limit = ''escalated_from_review_limit''"

record NewFollowUpTaskData =
  nf_id :: string
  nf_title :: string
  nf_parentTaskId :: string
  nf_source :: string

record FollowUpTaskRecord =
  fu_id :: string
  fu_title :: string
  fu_parentTaskId :: string
  fu_status :: TaskStatus

type_synonym follow_up_creator = "NewFollowUpTaskData \<Rightarrow> FollowUpTaskRecord tx"

record ApplyReviewDecisionResult =
  av_outcome :: ReviewDecisionOutcome
  av_task :: Task
  av_reviewCycle :: ReviewCycle
  av_decisionRecord :: LeadReviewDecisionRecord
  av_followUpTasks :: "FollowUpTaskRecord list"
  av_auditEvents :: "AuditEventRecord list"
  av_taskTargetStatus :: TaskStatus
  av_cycleTargetStatus :: ReviewCycleStatus

datatype review_error = SchemaValidationError "zod_issue list" | ReviewAppError app_error

text \<open>
  The parsed packet as the type Zod infers from its schema: the fields the service reads, and the whole packet
  as \<open>lp_json\<close>.  A packet that passes the schema has them all (\<open>inferred_packet\<close> below).
\<close>

fun json_string :: "json option \<Rightarrow> string option" where
  "json_string (Some (JStr s)) = Some s"
| "json_string _ = None"

fun json_array :: "json option \<Rightarrow> json list option" where
  "json_array (Some (JArr xs)) = Some xs"
| "json_array _ = None"

definition LeadReviewDecisions :: "(string \<times> LeadReviewDecision) list" where
  "LeadReviewDecisions = map (\<lambda>x. (LeadReviewDecision_value x, x))
     [LeadReviewDecision.APPROVED, LeadReviewDecision.APPROVED_WITH_FOLLOW_UP,
      LeadReviewDecision.CHANGES_REQUESTED, LeadReviewDecision.ESCALATED]"

definition inferredPacket :: "json \<Rightarrow> LeadReviewDecisionPacket option" where
  "inferredPacket p =
    (case json_string (json_get p ''task_id'') of None \<Rightarrow> None | Some taskId \<Rightarrow>
     case json_string (json_get p ''review_cycle_id'') of None \<Rightarrow> None | Some cycleId \<Rightarrow>
     case json_string (json_get p ''decision'') of None \<Rightarrow> None | Some decisionText \<Rightarrow>
     case map_of LeadReviewDecisions decisionText of None \<Rightarrow> None | Some dec \<Rightarrow>
     case json_string (json_get p ''summary'') of None \<Rightarrow> None | Some summary \<Rightarrow>
     case json_array (json_get p ''blocking_issues'') of None \<Rightarrow> None | Some blocking \<Rightarrow>
     case json_array (json_get p ''non_blocking_suggestions'') of None \<Rightarrow> None | Some suggestions \<Rightarrow>
     case json_array (json_get p ''follow_up_task_refs'') of None \<Rightarrow> None | Some refs \<Rightarrow>
     Some \<lparr>lp_task_id = taskId, lp_review_cycle_id = cycleId, lp_decision = dec, lp_summary = summary,
       lp_blocking_issues = blocking, lp_non_blocking_suggestions = suggestions,
       lp_follow_up_task_refs = List.map_filter (\<lambda>r. json_string (Some r)) refs, lp_json = p\<rparr>)"

definition validatePacket :: "safe_parse \<Rightarrow> json \<Rightarrow> zod_issue list + LeadReviewDecisionPacket" where
  "validatePacket safeParse raw =
    (case safeParse LeadReviewDecisionPacketSchema (Some raw) of
       Inl issues \<Rightarrow> Inl issues
     | Inr result \<Rightarrow> (case Option.bind result inferredPacket of None \<Rightarrow> Inl [] | Some packet \<Rightarrow> Inr packet))"

fun getReviewCycleTargetStatus :: "LeadReviewDecision \<Rightarrow> bool \<Rightarrow> ReviewCycleStatus" where
  "getReviewCycleTargetStatus LeadReviewDecision.APPROVED esc = ReviewCycleStatus.APPROVED"
| "getReviewCycleTargetStatus LeadReviewDecision.APPROVED_WITH_FOLLOW_UP esc = ReviewCycleStatus.APPROVED"
| "getReviewCycleTargetStatus LeadReviewDecision.CHANGES_REQUESTED esc =
    (if esc then ReviewCycleStatus.ESCALATED else ReviewCycleStatus.REJECTED)"
| "getReviewCycleTargetStatus LeadReviewDecision.ESCALATED esc = ReviewCycleStatus.ESCALATED"

fun getTaskTargetStatus :: "LeadReviewDecision \<Rightarrow> bool \<Rightarrow> TaskStatus" where
  "getTaskTargetStatus LeadReviewDecision.APPROVED esc = TaskStatus.APPROVED"
| "getTaskTargetStatus LeadReviewDecision.APPROVED_WITH_FOLLOW_UP esc = TaskStatus.APPROVED"
| "getTaskTargetStatus LeadReviewDecision.CHANGES_REQUESTED esc =
    (if esc then TaskStatus.ESCALATED else TaskStatus.CHANGES_REQUESTED)"
| "getTaskTargetStatus LeadReviewDecision.ESCALATED esc = TaskStatus.ESCALATED"

fun getTaskTransitionContext :: "LeadReviewDecision \<Rightarrow> bool \<Rightarrow> TransitionContext" where
  "getTaskTransitionContext LeadReviewDecision.CHANGES_REQUESTED esc =
    (if esc then emptyContext\<lparr>TransitionContext.hasEscalationTrigger := Some True\<rparr>
     else emptyContext\<lparr>TransitionContext.leadReviewDecision := Some LeadReviewDecision.CHANGES_REQUESTED\<rparr>)"
| "getTaskTransitionContext LeadReviewDecision.ESCALATED esc =
    emptyContext\<lparr>TransitionContext.hasEscalationTrigger := Some True\<rparr>"
| "getTaskTransitionContext dec esc = emptyContext\<lparr>TransitionContext.leadReviewDecision := Some dec\<rparr>"

fun getReviewCycleTransitionContext :: "LeadReviewDecision \<Rightarrow> bool \<Rightarrow> ReviewCycleTransitionContext" where
  "getReviewCycleTransitionContext LeadReviewDecision.APPROVED esc =
    emptyReviewCycleTransitionContext\<lparr>ReviewCycleTransitionContext.leadReviewDecision := Some CycleLeadDecision.APPROVED\<rparr>"
| "getReviewCycleTransitionContext LeadReviewDecision.APPROVED_WITH_FOLLOW_UP esc =
    emptyReviewCycleTransitionContext\<lparr>ReviewCycleTransitionContext.leadReviewDecision :=
      Some CycleLeadDecision.APPROVED_WITH_FOLLOW_UP\<rparr>"
| "getReviewCycleTransitionContext LeadReviewDecision.CHANGES_REQUESTED esc =
    emptyReviewCycleTransitionContext\<lparr>ReviewCycleTransitionContext.leadReviewDecision :=
      Some (if esc then CycleLeadDecision.ESCALATED else CycleLeadDecision.REJECTED)\<rparr>"
| "getReviewCycleTransitionContext LeadReviewDecision.ESCALATED esc =
    emptyReviewCycleTransitionContext\<lparr>ReviewCycleTransitionContext.leadReviewDecision := Some CycleLeadDecision.ESCALATED\<rparr>"

fun getOutcome :: "LeadReviewDecision \<Rightarrow> bool \<Rightarrow> ReviewDecisionOutcome" where
  "getOutcome LeadReviewDecision.APPROVED esc = approved"
| "getOutcome LeadReviewDecision.APPROVED_WITH_FOLLOW_UP esc = approved_with_follow_up"
| "getOutcome LeadReviewDecision.CHANGES_REQUESTED esc = (if esc then escalated_from_review_limit else changes_requested)"
| "getOutcome LeadReviewDecision.ESCALATED esc = escalated"

fun createFollowUps :: "follow_up_creator \<Rightarrow> string \<Rightarrow> (string \<times> string) list \<Rightarrow> FollowUpTaskRecord list tx" where
  "createFollowUps create taskId [] = returnT []"
| "createFollowUps create taskId ((newId, taskRef) # rest) =
    bindT (create \<lparr>nf_id = newId, nf_title = taskRef, nf_parentTaskId = taskId, nf_source = ''review_follow_up''\<rparr>)
      (\<lambda>followUpTask. bindT (createFollowUps create taskId rest) (\<lambda>followUpTasks. returnT (followUpTask # followUpTasks)))"

definition TASK_TARGETS :: string where
  "TASK_TARGETS = ''APPROVED|CHANGES_REQUESTED|ESCALATED''"

definition CYCLE_TARGETS :: string where
  "CYCLE_TARGETS = ''APPROVED|REJECTED|ESCALATED''"

definition verifyPacketIds ::
  "(string \<Rightarrow> app_error + (Task \<times> ReviewCycle)) \<Rightarrow> (string \<Rightarrow> app_error + (Task \<times> ReviewCycle))
   \<Rightarrow> LeadReviewDecisionPacket \<Rightarrow> ApplyReviewDecisionParams \<Rightarrow> Task \<Rightarrow> ReviewCycle \<Rightarrow> app_error + (Task \<times> ReviewCycle)" where
  "verifyPacketIds badTask badCycle packet params task cycle =
    (if lp_task_id packet \<noteq> ad_taskId params then
       badTask (''Packet task_id '' @ quoted (lp_task_id packet) @ '' does not match expected task '' @ quoted (ad_taskId params))
     else if lp_review_cycle_id packet \<noteq> ad_reviewCycleId params then
       badCycle (''Packet review_cycle_id '' @ quoted (lp_review_cycle_id packet) @ '' does not match expected cycle ''
         @ quoted (ad_reviewCycleId params))
     else Inr (task, cycle))"

text \<open>Steps 1 and 2 of the transaction: the task and the cycle the decision is about, or the error.\<close>

definition verifyDecisionTarget ::
  "LeadReviewDecisionPacket \<Rightarrow> ApplyReviewDecisionParams \<Rightarrow> db \<Rightarrow> app_error + (Task \<times> ReviewCycle)" where
  "verifyDecisionTarget packet params d =
    (let taskId = ad_taskId params; cycleId = ad_reviewCycleId params in
     case task_findById taskId d of
       None \<Rightarrow> Inl (EntityNotFoundError ''Task'' taskId)
     | Some task \<Rightarrow>
         let badTask = (\<lambda>why. Inl (InvalidTransitionError ''Task'' taskId (TaskStatus_value (t_status task)) TASK_TARGETS (Some why))) in
         if t_status task \<noteq> TaskStatus.IN_REVIEW then
           badTask (''Task must be in IN_REVIEW state to apply a review decision, but is '' @ TaskStatus_value (t_status task))
         else (case cycle_findById cycleId d of
           None \<Rightarrow> Inl (EntityNotFoundError ''ReviewCycle'' cycleId)
         | Some cycle \<Rightarrow>
             let badCycle = (\<lambda>why. Inl (InvalidTransitionError ''ReviewCycle'' cycleId
                   (ReviewCycleStatus_value (rc_status cycle)) CYCLE_TARGETS (Some why))) in
             if rc_taskId cycle \<noteq> taskId then
               Inl (EntityNotFoundError ''ReviewCycle'' (cycleId @ '' (not associated with task '' @ taskId @ '')''))
             else if rc_status cycle \<noteq> ReviewCycleStatus.CONSOLIDATING then
               badCycle (''ReviewCycle must be in CONSOLIDATING state, but is '' @ ReviewCycleStatus_value (rc_status cycle))
             else (case t_currentReviewCycleId task of
               Some current \<Rightarrow>
                 if current \<noteq> cycleId then
                   badCycle (''Review cycle '' @ cycleId @ '' is not the current active cycle ('' @ current @ '') for task '' @ taskId)
                 else verifyPacketIds badTask badCycle packet params task cycle
             | None \<Rightarrow> verifyPacketIds badTask badCycle packet params task cycle)))"

definition policyEscalates :: "LeadReviewDecisionPacket \<Rightarrow> ApplyReviewDecisionParams \<Rightarrow> Task \<Rightarrow> bool" where
  "policyEscalates packet params task =
    (lp_decision packet = LeadReviewDecision.CHANGES_REQUESTED
     \<and> should_escalate (shouldEscalate
         \<lparr>trigger = MAX_REVIEW_ROUNDS_EXCEEDED, esc_retry_count = None, esc_max_attempts = None,
          review_round = Some (t_reviewRoundCount task + 1), max_review_rounds = Some (ad_maxReviewRounds params),
          schema_failure_count = None, schema_failure_threshold = None\<rparr> (ad_escalationPolicy params)))"

definition decisionRecord :: "reviewEnv \<Rightarrow> LeadReviewDecisionPacket \<Rightarrow> ApplyReviewDecisionParams \<Rightarrow> LeadReviewDecisionRecord" where
  "decisionRecord env packet params =
    \<lparr>lr_leadReviewDecisionId = rv_id env 0, lr_reviewCycleId = ad_reviewCycleId params, lr_taskId = ad_taskId params,
     lr_decision = LeadReviewDecision_value (lp_decision packet), lr_summary = lp_summary packet,
     lr_blockingIssueCount = int (length (lp_blocking_issues packet)),
     lr_nonBlockingIssueCount = int (length (lp_non_blocking_suggestions packet)),
     lr_followUpTaskRefs = json_texts (lp_follow_up_task_refs packet), lr_packetJson = lp_json packet,
     lr_createdAt = rv_now env div 1000\<rparr>"

definition moveTask :: "reviewEnv \<Rightarrow> Task \<Rightarrow> string \<Rightarrow> int \<Rightarrow> TaskStatus \<Rightarrow> Task tx" where
  "moveTask env task taskId expectedVersion target =
    bindT (absent (task_updateStatus (rv_now env) taskId expectedVersion target)) (\<lambda>moved. case moved of
      None \<Rightarrow> throwT (InvalidTransitionError ''Task'' taskId (TaskStatus_value (t_status task)) (TaskStatus_value target)
                (Some ''Task status update failed -- concurrent modification detected''))
    | Some taskAfterTransition \<Rightarrow> returnT taskAfterTransition)"

definition transitionReviewedTask ::
  "reviewEnv \<Rightarrow> LeadReviewDecisionPacket \<Rightarrow> bool \<Rightarrow> Task \<Rightarrow> string \<Rightarrow> TaskStatus \<Rightarrow> Task tx" where
  "transitionReviewedTask env packet policyEscalation task taskId target =
    (if lp_decision packet = LeadReviewDecision.CHANGES_REQUESTED \<and> \<not> policyEscalation then
       bindT (incrementReviewRoundCount (rv_now env) taskId (t_version task)) (\<lambda>incremented. case incremented of
         None \<Rightarrow> throwT (InvalidTransitionError ''Task'' taskId (TaskStatus_value (t_status task)) (TaskStatus_value target)
                   (Some ''Failed to increment reviewRoundCount -- concurrent modification detected''))
       | Some taskAfterIncrement \<Rightarrow> moveTask env task taskId (t_version taskAfterIncrement) target)
     else moveTask env task taskId (t_version task) target)"

definition createDecisionFollowUps ::
  "follow_up_creator \<Rightarrow> reviewEnv \<Rightarrow> LeadReviewDecisionPacket \<Rightarrow> string \<Rightarrow> FollowUpTaskRecord list tx" where
  "createDecisionFollowUps create env packet taskId =
    (if lp_decision packet = LeadReviewDecision.APPROVED_WITH_FOLLOW_UP
     then createFollowUps create taskId
       (zip (map (\<lambda>i. rv_id env (i + 1)) [0..<length (lp_follow_up_task_refs packet)]) (lp_follow_up_task_refs packet))
     else returnT [])"

definition recordDecisionAudits ::
  "reviewEnv \<Rightarrow> LeadReviewDecisionPacket \<Rightarrow> ApplyReviewDecisionParams \<Rightarrow> bool \<Rightarrow> Task \<Rightarrow> ReviewCycle \<Rightarrow> Task
   \<Rightarrow> FollowUpTaskRecord list \<Rightarrow> AuditEventRecord list tx" where
  "recordDecisionAudits env packet params policyEscalation task cycle updatedTask followUpTasks =
    (let taskId = ad_taskId params; cycleId = ad_reviewCycleId params; actor = ad_actor params; dec = lp_decision packet;
         cycleTargetStatus = getReviewCycleTargetStatus dec policyEscalation;
         taskTargetStatus = getTaskTargetStatus dec policyEscalation in
     bindT (auditEvent_create (rv_cycleUuid env) (rv_now env)
       \<lparr>na_entityType = ''review-cycle'', na_entityId = cycleId,
        na_eventType = ''review-cycle.decision-applied.'' @ LeadReviewDecision_value dec,
        na_actorType = actor_type actor, na_actorId = actor_id actor,
        na_oldState = Some (JStr (ReviewCycleStatus_value (rc_status cycle))),
        na_newState = Some (JStr (ReviewCycleStatus_value cycleTargetStatus)),
        na_metadata = Some (JObj [(''taskId'', JStr taskId), (''decision'', JStr (LeadReviewDecision_value dec)),
          (''blockingIssueCount'', JNum (int (length (lp_blocking_issues packet)))),
          (''nonBlockingIssueCount'', JNum (int (length (lp_non_blocking_suggestions packet)))),
          (''followUpTaskCount'', JNum (int (length followUpTasks))),
          (''policyEscalation'', JBool policyEscalation)])\<rparr>) (\<lambda>cycleAudit.
     bindT (auditEvent_create (rv_taskUuid env) (rv_now env)
       \<lparr>na_entityType = ''task'', na_entityId = taskId,
        na_eventType = ''task.review-decision.'' @ LeadReviewDecision_value dec,
        na_actorType = actor_type actor, na_actorId = actor_id actor,
        na_oldState = Some (JStr (TaskStatus_value (t_status task))),
        na_newState = Some (JStr (TaskStatus_value taskTargetStatus)),
        na_metadata = Some (JObj [(''reviewCycleId'', JStr cycleId),
          (''decision'', JStr (LeadReviewDecision_value dec)),
          (''outcome'', JStr (ReviewDecisionOutcome_value (getOutcome dec policyEscalation))),
          (''reviewRoundCount'', JNum (t_reviewRoundCount updatedTask))])\<rparr>) (\<lambda>taskAudit.
     returnT [cycleAudit, taskAudit])))"

definition applyDecisionInTransaction ::
  "follow_up_creator \<Rightarrow> reviewEnv \<Rightarrow> LeadReviewDecisionPacket \<Rightarrow> ApplyReviewDecisionParams \<Rightarrow> ApplyReviewDecisionResult tx" where
  "applyDecisionInTransaction create env packet params =
    (let taskId = ad_taskId params; cycleId = ad_reviewCycleId params; actor = ad_actor params; dec = lp_decision packet in
     bindT (getT (verifyDecisionTarget packet params)) (\<lambda>target. case target of
       Inl err \<Rightarrow> throwT err
     | Inr (task, cycle) \<Rightarrow>
         let policyEscalation = policyEscalates packet params task;
             cycleTargetStatus = getReviewCycleTargetStatus dec policyEscalation;
             taskTargetStatus = getTaskTargetStatus dec policyEscalation;
             cycleValidation = validateReviewCycleTransition ReviewCycleStatus.CONSOLIDATING cycleTargetStatus
               (getReviewCycleTransitionContext dec policyEscalation);
             taskValidation = validateTransition TaskStatus.IN_REVIEW taskTargetStatus
               (getTaskTransitionContext dec policyEscalation);
             badCycle = (\<lambda>why. throwT (InvalidTransitionError ''ReviewCycle'' cycleId
               (ReviewCycleStatus_value ReviewCycleStatus.CONSOLIDATING) (ReviewCycleStatus_value cycleTargetStatus) why)) in
         if \<not> valid cycleValidation then badCycle (reason cycleValidation)
         else if \<not> valid taskValidation then
           throwT (InvalidTransitionError ''Task'' taskId (TaskStatus_value TaskStatus.IN_REVIEW)
             (TaskStatus_value taskTargetStatus) (reason taskValidation))
         else
           bindT (decision_create (decisionRecord env packet params)) (\<lambda>recorded.
           bindT (absent (cycle_updateStatus cycleId ReviewCycleStatus.CONSOLIDATING cycleTargetStatus)) (\<lambda>moved. case moved of
             None \<Rightarrow> badCycle (Some ''Status update failed -- concurrent modification detected'')
           | Some updatedCycle \<Rightarrow>
               bindT (transitionReviewedTask env packet policyEscalation task taskId taskTargetStatus) (\<lambda>updatedTask.
               bindT (createDecisionFollowUps create env packet taskId) (\<lambda>followUpTasks.
               bindT (recordDecisionAudits env packet params policyEscalation task cycle updatedTask followUpTasks) (\<lambda>auditEvents.
               returnT \<lparr>av_outcome = getOutcome dec policyEscalation, av_task = updatedTask, av_reviewCycle = updatedCycle,
                 av_decisionRecord = recorded, av_followUpTasks = followUpTasks, av_auditEvents = auditEvents,
                 av_taskTargetStatus = taskTargetStatus, av_cycleTargetStatus = cycleTargetStatus\<rparr>)))))))"

text \<open>The verification makes \<open>IN_REVIEW\<close> and \<open>CONSOLIDATING\<close> the statuses the events move from.\<close>

definition applyDecision ::
  "safe_parse \<Rightarrow> follow_up_creator \<Rightarrow> reviewEnv \<Rightarrow> ApplyReviewDecisionParams \<Rightarrow> world
   \<Rightarrow> (review_error + ApplyReviewDecisionResult) \<times> world" where
  "applyDecision safeParse create env params w =
    (case validatePacket safeParse (ad_packet params) of
       Inl issues \<Rightarrow> (Inl (SchemaValidationError issues), w)
     | Inr packet \<Rightarrow>
         (case commit (applyDecisionInTransaction create env packet params)
             (\<lambda>r. [ReviewCycleTransitionedEvent (ad_reviewCycleId params) ReviewCycleStatus.CONSOLIDATING
                     (av_cycleTargetStatus r) (ad_actor params) (rv_cycleEventAt env),
                   TaskTransitionedEvent (ad_taskId params) TaskStatus.IN_REVIEW (av_taskTargetStatus r)
                     (t_version (av_task r)) (ad_actor params) (rv_taskEventAt env)]) w of
            (Inl err, w') \<Rightarrow> (Inl (ReviewAppError err), w')
          | (Inr r, w') \<Rightarrow> (Inr r, w')))"

subsection \<open>The creation of follow-up tasks\<close>

text \<open>What the port documents: a skeleton task under the given id, mirrored in the answer, and nothing else.\<close>

locale follow_up_port =
  fixes create :: follow_up_creator
  assumes creates: "nf_id data \<notin> set (map t_taskId (tasks d)) \<Longrightarrow> nf_parentTaskId data \<in> set (map t_taskId (tasks d)) \<Longrightarrow>
    \<exists>r row. create data d = (Inr r, d\<lparr>tasks := tasks d @ [row]\<rparr>) \<and> t_taskId row = nf_id data
      \<and> fu_id r = nf_id data \<and> fu_title r = nf_title data \<and> fu_parentTaskId r = nf_parentTaskId data"
begin

lemma follow_ups_created:
  assumes "distinct (map fst news)" and "set (map fst news) \<inter> set (map t_taskId (tasks d)) = {}"
    and "i \<in> set (map t_taskId (tasks d))"
  shows "\<exists>rs rows. createFollowUps create i news d = (Inr rs, d\<lparr>tasks := tasks d @ rows\<rparr>)
    \<and> map t_taskId rows = map fst news \<and> map fu_id rs = map fst news \<and> map fu_title rs = map snd news
    \<and> (\<forall>r \<in> set rs. fu_parentTaskId r = i)"
  using assms
proof (induction news arbitrary: d)
  case Nil
  then show ?case by (intro exI[of _ "[]"]) simp
next
  case (Cons n news)
  obtain k ref where n: "n = (k, ref)" by (cases n)
  have fresh: "k \<notin> set (map t_taskId (tasks d))" using Cons.prems(2) n by auto
  from creates[of "\<lparr>nf_id = k, nf_title = ref, nf_parentTaskId = i, nf_source = ''review_follow_up''\<rparr>" d] obtain r row
    where one: "create \<lparr>nf_id = k, nf_title = ref, nf_parentTaskId = i, nf_source = ''review_follow_up''\<rparr> d
        = (Inr r, d\<lparr>tasks := tasks d @ [row]\<rparr>)" "t_taskId row = k" "fu_id r = k" "fu_title r = ref" "fu_parentTaskId r = i"
    using fresh Cons.prems(3) by auto
  obtain rs rows where rest: "createFollowUps create i news (d\<lparr>tasks := tasks d @ [row]\<rparr>)
      = (Inr rs, d\<lparr>tasks := (tasks d @ [row]) @ rows\<rparr>)" "map t_taskId rows = map fst news" "map fu_id rs = map fst news"
      "map fu_title rs = map snd news" "\<forall>r \<in> set rs. fu_parentTaskId r = i"
    using Cons.IH[of "d\<lparr>tasks := tasks d @ [row]\<rparr>"] Cons.prems n one(2) by auto
  show ?case using one rest n by (intro exI[of _ "r # rs"] exI[of _ "row # rows"]) (simp add: bindT_apply)
qed

end

text \<open>A repository that inserts the skeleton as a backlog task.\<close>

definition skeletonTask :: "NewFollowUpTaskData \<Rightarrow> Task \<Rightarrow> Task" where
  "skeletonTask data parent =
    \<lparr>t_taskId = nf_id data, t_repositoryId = t_repositoryId parent, t_priority = TaskPriority.MEDIUM,
     t_status = TaskStatus.BACKLOG, t_version = 1, t_currentLeaseId = None, t_currentReviewCycleId = None,
     t_mergeQueueItemId = None, t_retryCount = 0, t_reviewRoundCount = 0, t_requiredCapabilities = None,
     t_createdAt = t_updatedAt parent, t_updatedAt = t_updatedAt parent, t_completedAt = None\<rparr>"

definition insertFollowUp :: follow_up_creator where
  "insertFollowUp data = (\<lambda>d.
    case task_findById (nf_parentTaskId data) d of
      None \<Rightarrow> (Inl (ConstraintError ''task''), d)
    | Some parent \<Rightarrow>
        if nf_id data \<in> set (map t_taskId (tasks d)) then (Inl (ConstraintError ''task''), d)
        else (Inr \<lparr>fu_id = nf_id data, fu_title = nf_title data, fu_parentTaskId = nf_parentTaskId data,
                fu_status = TaskStatus.BACKLOG\<rparr>, d\<lparr>tasks := tasks d @ [skeletonTask data parent]\<rparr>))"

interpretation backlog: follow_up_port insertFollowUp
proof
  fix data :: NewFollowUpTaskData and d :: db
  assume "nf_id data \<notin> set (map t_taskId (tasks d))" "nf_parentTaskId data \<in> set (map t_taskId (tasks d))"
  moreover from this(2) obtain parent where "task_findById (nf_parentTaskId data) d = Some parent"
    by (cases "task_findById (nf_parentTaskId data) d") (auto simp: task_findById_def find_None_iff)
  ultimately show "\<exists>r row. insertFollowUp data d = (Inr r, d\<lparr>tasks := tasks d @ [row]\<rparr>) \<and> t_taskId row = nf_id data
      \<and> fu_id r = nf_id data \<and> fu_title r = nf_title data \<and> fu_parentTaskId r = nf_parentTaskId data"
    by (simp add: insertFollowUp_def) (rule exI[of _ "skeletonTask data parent"], simp add: skeletonTask_def)
qed

subsection \<open>Steps of the transactions\<close>

lemma decision_transitions_valid:
  "valid (validateReviewCycleTransition ReviewCycleStatus.CONSOLIDATING (getReviewCycleTargetStatus dec esc)
     (getReviewCycleTransitionContext dec esc))"
  "valid (validateTransition TaskStatus.IN_REVIEW (getTaskTargetStatus dec esc) (getTaskTransitionContext dec esc))"
proof -
  show "valid (validateReviewCycleTransition ReviewCycleStatus.CONSOLIDATING (getReviewCycleTargetStatus dec esc)
     (getReviewCycleTransitionContext dec esc))"
    by (cases dec; cases esc) (simp_all, code_simp+)
  show "valid (validateTransition TaskStatus.IN_REVIEW (getTaskTargetStatus dec esc) (getTaskTransitionContext dec esc))"
    by (cases dec; cases esc) (simp_all, code_simp+)
qed

text \<open>The task after the decision.\<close>

definition decided_task :: "reviewEnv \<Rightarrow> LeadReviewDecisionPacket \<Rightarrow> bool \<Rightarrow> Task \<Rightarrow> Task" where
  "decided_task env packet esc t =
    (let again = lp_decision packet = LeadReviewDecision.CHANGES_REQUESTED \<and> \<not> esc in
     t\<lparr>t_status := getTaskTargetStatus (lp_decision packet) esc, t_version := t_version t + (if again then 2 else 1),
       t_reviewRoundCount := t_reviewRoundCount t + (if again then 1 else 0), t_updatedAt := rv_now env div 1000\<rparr>)"

lemma task_moved:
  assumes "wf_db d" and "task_findById i d = Some t"
  obtains ts where "task_updateStatus now i (t_version t) s d
      = (Inr (t\<lparr>t_status := s, t_version := t_version t + 1, t_updatedAt := now div 1000\<rparr>), d\<lparr>tasks := ts\<rparr>)"
    "map t_taskId ts = map t_taskId (tasks d)" "wf_db (d\<lparr>tasks := ts\<rparr>)"
    "task_findById i (d\<lparr>tasks := ts\<rparr>) = Some (t\<lparr>t_status := s, t_version := t_version t + 1, t_updatedAt := now div 1000\<rparr>)"
    "\<forall>j. j \<noteq> i \<longrightarrow> task_findById j (d\<lparr>tasks := ts\<rparr>) = task_findById j d"
proof -
  let ?t = "t\<lparr>t_status := s, t_version := t_version t + 1, t_updatedAt := now div 1000\<rparr>"
  obtain d' where d': "task_update now i (t_version t) (\<lambda>r. r\<lparr>t_status := s\<rparr>) d = (Inr ?t, d')"
    "d' = d\<lparr>tasks := tasks d'\<rparr>" "map t_taskId (tasks d') = map t_taskId (tasks d)" "task_findById i d' = Some ?t"
    "\<forall>j. j \<noteq> i \<longrightarrow> task_findById j d' = task_findById j d" "wf_db d'"
    by (rule task_update_current[OF assms, of "\<lambda>r. r\<lparr>t_status := s\<rparr>" now]) auto
  have "task_updateStatus now i (t_version t) s d = (Inr ?t, d')" by (simp add: task_updateStatus_def d'(1))
  then show ?thesis using that[of "tasks d'"] d'(3-6) unfolding d'(2)[symmetric] by blast
qed

lemma reviewed_task:
  assumes "wf_db d" and "task_findById i d = Some t" and "s = getTaskTargetStatus (lp_decision packet) esc"
  obtains ts where "transitionReviewedTask env packet esc t i s d = (Inr (decided_task env packet esc t), d\<lparr>tasks := ts\<rparr>)"
    "map t_taskId ts = map t_taskId (tasks d)" "wf_db (d\<lparr>tasks := ts\<rparr>)"
    "task_findById i (d\<lparr>tasks := ts\<rparr>) = Some (decided_task env packet esc t)"
    "\<forall>j. j \<noteq> i \<longrightarrow> task_findById j (d\<lparr>tasks := ts\<rparr>) = task_findById j d"
proof (cases "lp_decision packet = LeadReviewDecision.CHANGES_REQUESTED \<and> \<not> esc")
  case True
  obtain d1 where d1: "task_update (rv_now env) i (t_version t) (\<lambda>r. r\<lparr>t_reviewRoundCount := t_reviewRoundCount r + 1\<rparr>) d
      = (Inr (t\<lparr>t_reviewRoundCount := t_reviewRoundCount t + 1, t_version := t_version t + 1, t_updatedAt := rv_now env div 1000\<rparr>), d1)"
    "d1 = d\<lparr>tasks := tasks d1\<rparr>" "map t_taskId (tasks d1) = map t_taskId (tasks d)"
    "task_findById i d1 = Some (t\<lparr>t_reviewRoundCount := t_reviewRoundCount t + 1, t_version := t_version t + 1, t_updatedAt := rv_now env div 1000\<rparr>)"
    "\<forall>j. j \<noteq> i \<longrightarrow> task_findById j d1 = task_findById j d" "wf_db d1"
    by (rule task_update_current[OF assms(1,2), of "\<lambda>r. r\<lparr>t_reviewRoundCount := t_reviewRoundCount r + 1\<rparr>" "rv_now env"]) auto
  let ?t1 = "t\<lparr>t_reviewRoundCount := t_reviewRoundCount t + 1, t_version := t_version t + 1, t_updatedAt := rv_now env div 1000\<rparr>"
  have same: "?t1\<lparr>t_status := s, t_version := t_version ?t1 + 1, t_updatedAt := rv_now env div 1000\<rparr> = decided_task env packet esc t"
    using True assms(3) by (simp add: decided_task_def)
  obtain ts where ts: "task_updateStatus (rv_now env) i (t_version ?t1) s d1
      = (Inr (decided_task env packet esc t), d1\<lparr>tasks := ts\<rparr>)"
    "map t_taskId ts = map t_taskId (tasks d1)" "wf_db (d1\<lparr>tasks := ts\<rparr>)"
    "task_findById i (d1\<lparr>tasks := ts\<rparr>) = Some (decided_task env packet esc t)"
    "\<forall>j. j \<noteq> i \<longrightarrow> task_findById j (d1\<lparr>tasks := ts\<rparr>) = task_findById j d1"
    by (rule task_moved[OF d1(6,4), of "rv_now env" s]) (unfold same, blast)
  have d: "d1\<lparr>tasks := ts\<rparr> = d\<lparr>tasks := ts\<rparr>" by (subst d1(2)) simp
  have "transitionReviewedTask env packet esc t i s d = (Inr (decided_task env packet esc t), d1\<lparr>tasks := ts\<rparr>)"
    using True ts(1) d1(1) by (simp add: transitionReviewedTask_def incrementReviewRoundCount_def moveTask_def absent_def bindT_apply)
  then show ?thesis using that[of ts] ts(2-5) d1(3,5) unfolding d by simp
next
  case False
  obtain ts where ts: "task_updateStatus (rv_now env) i (t_version t) s d
      = (Inr (t\<lparr>t_status := s, t_version := t_version t + 1, t_updatedAt := rv_now env div 1000\<rparr>), d\<lparr>tasks := ts\<rparr>)"
    "map t_taskId ts = map t_taskId (tasks d)" "wf_db (d\<lparr>tasks := ts\<rparr>)"
    "task_findById i (d\<lparr>tasks := ts\<rparr>) = Some (t\<lparr>t_status := s, t_version := t_version t + 1, t_updatedAt := rv_now env div 1000\<rparr>)"
    "\<forall>j. j \<noteq> i \<longrightarrow> task_findById j (d\<lparr>tasks := ts\<rparr>) = task_findById j d"
    by (rule task_moved[OF assms(1,2), of "rv_now env" s])
  have same: "t\<lparr>t_status := s, t_version := t_version t + 1, t_updatedAt := rv_now env div 1000\<rparr> = decided_task env packet esc t"
    using False assms(3) by (simp add: decided_task_def Let_def del: de_Morgan_conj)
  have "transitionReviewedTask env packet esc t i s d = (Inr (decided_task env packet esc t), d\<lparr>tasks := ts\<rparr>)"
    using ts(1) False unfolding same by (auto simp: transitionReviewedTask_def moveTask_def absent_ok)
  then show ?thesis using that[of ts] ts(2-5) unfolding same by blast
qed

subsection \<open>Decisions\<close>

text \<open>When a decision applies: to a task in review, whose current cycle, if it names one, is the packet's.\<close>

definition decision_applies :: "LeadReviewDecisionPacket \<Rightarrow> ApplyReviewDecisionParams \<Rightarrow> Task \<Rightarrow> ReviewCycle \<Rightarrow> db \<Rightarrow> bool" where
  "decision_applies packet params t c d \<longleftrightarrow>
     task_findById (ad_taskId params) d = Some t \<and> t_status t = TaskStatus.IN_REVIEW
     \<and> cycle_findById (ad_reviewCycleId params) d = Some c \<and> rc_status c = ReviewCycleStatus.CONSOLIDATING
     \<and> rc_taskId c = ad_taskId params \<and> t_currentReviewCycleId t \<in> {None, Some (ad_reviewCycleId params)}
     \<and> lp_task_id packet = ad_taskId params \<and> lp_review_cycle_id packet = ad_reviewCycleId params"

lemma target_verified: "verifyDecisionTarget packet params d = Inr (t, c) \<longleftrightarrow> decision_applies packet params t c d"
  by (auto simp: verifyDecisionTarget_def verifyPacketIds_def decision_applies_def Let_def split: option.splits if_splits)

lemma escalates_at_limit:
  "policyEscalates packet params t \<longleftrightarrow> lp_decision packet = LeadReviewDecision.CHANGES_REQUESTED
     \<and> ad_maxReviewRounds params \<le> t_reviewRoundCount t + 1"
  by (auto simp: policyEscalates_def shouldEscalate_def isMaxReviewRoundsExceeded_def Let_def)

text \<open>What an applied decision leaves behind.\<close>

definition decided ::
  "reviewEnv \<Rightarrow> LeadReviewDecisionPacket \<Rightarrow> ApplyReviewDecisionParams \<Rightarrow> Task \<Rightarrow> ReviewCycle \<Rightarrow> db
   \<Rightarrow> ApplyReviewDecisionResult \<Rightarrow> db \<Rightarrow> bool" where
  "decided env packet params t c d r d' \<longleftrightarrow>
    (let esc = policyEscalates packet params t; dec = lp_decision packet;
         c' = c\<lparr>rc_status := getReviewCycleTargetStatus dec esc\<rparr>;
         refs = (if dec = LeadReviewDecision.APPROVED_WITH_FOLLOW_UP then lp_follow_up_task_refs packet else []) in
     task_findById (ad_taskId params) d' = Some (decided_task env packet esc t) \<and> av_task r = decided_task env packet esc t
     \<and> cycle_findById (ad_reviewCycleId params) d' = Some c' \<and> av_reviewCycle r = c'
     \<and> (\<forall>i. i \<noteq> ad_reviewCycleId params \<longrightarrow> cycle_findById i d' = cycle_findById i d)
     \<and> (\<forall>i. i \<noteq> ad_taskId params \<and> i \<notin> fu_id ` set (av_followUpTasks r) \<longrightarrow> task_findById i d' = task_findById i d)
     \<and> map t_taskId (tasks d') = map t_taskId (tasks d) @ map fu_id (av_followUpTasks r)
     \<and> map fu_title (av_followUpTasks r) = refs \<and> (\<forall>f \<in> set (av_followUpTasks r). fu_parentTaskId f = ad_taskId params)
     \<and> av_decisionRecord r = decisionRecord env packet params
     \<and> leadReviewDecisions d' = leadReviewDecisions d @ [decisionRecord env packet params]
     \<and> length (av_auditEvents r) = 2 \<and> auditEvents d' = auditEvents d @ av_auditEvents r
     \<and> av_outcome r = getOutcome dec esc
     \<and> av_taskTargetStatus r = getTaskTargetStatus dec esc \<and> av_cycleTargetStatus r = getReviewCycleTargetStatus dec esc
     \<and> wf_db d')"

lemma follow_ups_step:
  assumes port: "follow_up_port create" and fresh: "fresh_ids env d" and ids: "map t_taskId (tasks e) = map t_taskId (tasks d)"
    and i: "i \<in> set (map t_taskId (tasks e))"
  obtains rs rows where "createDecisionFollowUps create env packet i e = (Inr rs, e\<lparr>tasks := tasks e @ rows\<rparr>)"
    "map t_taskId rows = map fu_id rs" "\<forall>f \<in> set rs. fu_parentTaskId f = i"
    "map fu_title rs = (if lp_decision packet = LeadReviewDecision.APPROVED_WITH_FOLLOW_UP then lp_follow_up_task_refs packet else [])"
    "distinct (map fu_id rs)" "set (map fu_id rs) \<inter> set (map t_taskId (tasks d)) = {}"
proof (cases "lp_decision packet = LeadReviewDecision.APPROVED_WITH_FOLLOW_UP")
  case True
  let ?refs = "lp_follow_up_task_refs packet"
  let ?ids = "map (\<lambda>i. rv_id env (i + 1)) [0..<length ?refs]"
  have "distinct ?ids" using fresh by (auto simp: distinct_map fresh_ids_def inj_on_def)
  moreover have disj: "set ?ids \<inter> set (map t_taskId (tasks d)) = {}" using fresh by (auto simp: fresh_ids_def)
  moreover have "map fst (zip ?ids ?refs) = ?ids" "map snd (zip ?ids ?refs) = ?refs" by simp_all
  ultimately obtain rs rows where "createFollowUps create i (zip ?ids ?refs) e = (Inr rs, e\<lparr>tasks := tasks e @ rows\<rparr>)"
      "map t_taskId rows = ?ids" "map fu_id rs = ?ids" "map fu_title rs = ?refs" "\<forall>r \<in> set rs. fu_parentTaskId r = i"
    using follow_up_port.follow_ups_created[OF port, of "zip ?ids ?refs" e i] i unfolding ids by metis
  then show ?thesis using that[of rs rows] True disj \<open>distinct ?ids\<close> by (simp only: createDecisionFollowUps_def if_True simp_thms)
next
  case False
  then show ?thesis using that[of "[]" "[]"] by (simp add: createDecisionFollowUps_def)
qed

lemma decision_audits:
  assumes "rv_cycleUuid env \<notin> set (map ae_id (auditEvents d))" and "rv_taskUuid env \<notin> set (map ae_id (auditEvents d))"
    and "rv_cycleUuid env \<noteq> rv_taskUuid env"
  obtains a b where "recordDecisionAudits env packet params esc t c t' fs d
      = (Inr [a, b], d\<lparr>auditEvents := auditEvents d @ [a, b]\<rparr>)" "ae_id a = rv_cycleUuid env" "ae_id b = rv_taskUuid env"
proof -
  have "\<exists>a b. recordDecisionAudits env packet params esc t c t' fs d = (Inr [a, b], d\<lparr>auditEvents := auditEvents d @ [a, b]\<rparr>)
      \<and> ae_id a = rv_cycleUuid env \<and> ae_id b = rv_taskUuid env"
    using assms by (simp add: recordDecisionAudits_def Let_def bindT_apply audit_fresh)
  then show ?thesis using that by blast
qed

lemma decision_transaction:
  assumes port: "follow_up_port create" and wf: "wf_db d" and fresh: "fresh_ids env d"
    and ok: "decision_applies packet params t c d"
  obtains r d' where "applyDecisionInTransaction create env packet params d = (Inr r, d')"
    "decided env packet params t c d r d'"
proof -
  let ?i = "ad_taskId params" and ?k = "ad_reviewCycleId params" and ?rec = "decisionRecord env packet params"
  let ?esc = "policyEscalates packet params t"
  let ?ct = "getReviewCycleTargetStatus (lp_decision packet) ?esc" and ?tt = "getTaskTargetStatus (lp_decision packet) ?esc"
  define d1 where "d1 = d\<lparr>leadReviewDecisions := leadReviewDecisions d @ [?rec]\<rparr>"
  have t: "task_findById ?i d = Some t" and c: "cycle_findById ?k d = Some c" "rc_status c = ReviewCycleStatus.CONSOLIDATING"
    and st: "t_status t = TaskStatus.IN_REVIEW"
    using ok by (auto simp: decision_applies_def)
  have known: "?i \<in> set (map t_taskId (tasks d))" "?k \<in> set (map rc_reviewCycleId (reviewCycles d))"
    using t c(1) by (simp_all add: task_findById_def cycle_findById_def key_known del: set_map)
  have new: "rv_id env 0 \<notin> set (map lr_leadReviewDecisionId (leadReviewDecisions d))" using fresh by (auto simp: fresh_ids_def)
  have s1: "decision_create ?rec d = (Inr ?rec, d1)"
    using known new by (simp add: decision_create_def d1_def decisionRecord_def)
  have wf1: "wf_db d1" using wf by (simp add: wf_db_def d1_def)
  obtain rs where s2: "cycle_updateStatus ?k ReviewCycleStatus.CONSOLIDATING ?ct d1 = (Inr (c\<lparr>rc_status := ?ct\<rparr>), d1\<lparr>reviewCycles := rs\<rparr>)"
      "cycle_findById ?k (d1\<lparr>reviewCycles := rs\<rparr>) = Some (c\<lparr>rc_status := ?ct\<rparr>)" "wf_db (d1\<lparr>reviewCycles := rs\<rparr>)"
      "\<forall>j. j \<noteq> ?k \<longrightarrow> cycle_findById j (d1\<lparr>reviewCycles := rs\<rparr>) = cycle_findById j d1"
    by (rule cycle_moved[OF wf1 _ c(2), of ?k ?ct]) (use c(1) in \<open>auto simp: d1_def cycle_findById_def\<close>)
  define d2 where "d2 = d1\<lparr>reviewCycles := rs\<rparr>"
  have t2: "task_findById ?i d2 = Some t" using t by (simp add: d2_def d1_def task_findById_def)
  obtain ts where s3: "transitionReviewedTask env packet ?esc t ?i ?tt d2 = (Inr (decided_task env packet ?esc t), d2\<lparr>tasks := ts\<rparr>)"
      "map t_taskId ts = map t_taskId (tasks d2)" "wf_db (d2\<lparr>tasks := ts\<rparr>)"
      "task_findById ?i (d2\<lparr>tasks := ts\<rparr>) = Some (decided_task env packet ?esc t)"
      "\<forall>j. j \<noteq> ?i \<longrightarrow> task_findById j (d2\<lparr>tasks := ts\<rparr>) = task_findById j d2"
    by (rule reviewed_task[OF s2(3)[folded d2_def] t2 refl])
  define d3 where "d3 = d2\<lparr>tasks := ts\<rparr>"
  have ids3: "map t_taskId (tasks d3) = map t_taskId (tasks d)" using s3(2) by (simp add: d3_def d2_def d1_def)
  obtain fs rows where s4: "createDecisionFollowUps create env packet ?i d3 = (Inr fs, d3\<lparr>tasks := tasks d3 @ rows\<rparr>)"
      "map t_taskId rows = map fu_id fs" "\<forall>f \<in> set fs. fu_parentTaskId f = ?i"
      "map fu_title fs = (if lp_decision packet = LeadReviewDecision.APPROVED_WITH_FOLLOW_UP then lp_follow_up_task_refs packet else [])"
      "distinct (map fu_id fs)" "set (map fu_id fs) \<inter> set (map t_taskId (tasks d)) = {}"
    by (rule follow_ups_step[OF port fresh ids3, of ?i packet]) (use known ids3 in auto)
  define d4 where "d4 = d3\<lparr>tasks := tasks d3 @ rows\<rparr>"
  have audit4: "auditEvents d4 = auditEvents d" by (simp add: d4_def d3_def d2_def d1_def)
  have uuids: "rv_cycleUuid env \<notin> set (map ae_id (auditEvents d4))" "rv_taskUuid env \<notin> set (map ae_id (auditEvents d4))"
    "rv_cycleUuid env \<noteq> rv_taskUuid env" using fresh unfolding audit4 by (auto simp: fresh_ids_def)
  have v: "verifyDecisionTarget packet params d = Inr (t, c)" using ok target_verified by blast
  obtain a1 a2 where s5: "recordDecisionAudits env packet params ?esc t c (decided_task env packet ?esc t) fs d4
      = (Inr [a1, a2], d4\<lparr>auditEvents := auditEvents d4 @ [a1, a2]\<rparr>)" "ae_id a1 = rv_cycleUuid env" "ae_id a2 = rv_taskUuid env"
    by (rule decision_audits[OF uuids])
  define r where "r = \<lparr>av_outcome = getOutcome (lp_decision packet) ?esc, av_task = decided_task env packet ?esc t,
    av_reviewCycle = c\<lparr>rc_status := ?ct\<rparr>, av_decisionRecord = ?rec, av_followUpTasks = fs, av_auditEvents = [a1, a2],
    av_taskTargetStatus = ?tt, av_cycleTargetStatus = ?ct\<rparr>"
  have run: "applyDecisionInTransaction create env packet params d = (Inr r, d4\<lparr>auditEvents := auditEvents d4 @ [a1, a2]\<rparr>)"
    unfolding applyDecisionInTransaction_def Let_def bindT_getT v
    by (simp add: decision_transitions_valid bindT_apply absent_def s1 s2(1)[folded d2_def] s3(1)[folded d3_def]
        s4(1)[folded d4_def] s5(1) r_def)
  have none: "task_findById i d4 = task_findById i d3" if "i \<notin> fu_id ` set fs" for i
  proof -
    have "i \<notin> t_taskId ` set rows" using that s4(2) by (metis list.set_map)
    then have "find (\<lambda>r. t_taskId r = i) rows = None" by (auto simp: find_None_iff)
    then show ?thesis by (simp add: d4_def task_findById_def find_appended split: option.split)
  qed
  have "?i \<notin> fu_id ` set fs" using s4(6) known(1) by auto
  then have task: "task_findById ?i d4 = Some (decided_task env packet ?esc t)" using none s3(4) by (simp add: d3_def)
  have others: "task_findById i d4 = task_findById i d" if "i \<noteq> ?i" "i \<notin> fu_id ` set fs" for i
    using none[OF that(2)] s3(5) that(1) by (simp add: d3_def d2_def d1_def task_findById_def)
  have wf4: "wf_db d4" using s3(3) s4(2,5,6) ids3 by (auto simp: wf_db_def d4_def d3_def d2_def d1_def)
  let ?d' = "d4\<lparr>auditEvents := auditEvents d4 @ [a1, a2]\<rparr>"
  have wf': "wf_db ?d'" using wf4 uuids s5(2,3) by (auto simp: wf_db_def)
  have "decided env packet params t c d r ?d'"
    unfolding decided_def Let_def
  proof (intro conjI)
    show "wf_db ?d'" by (rule wf')
    show "map t_taskId (tasks ?d') = map t_taskId (tasks d) @ map fu_id (av_followUpTasks r)"
      using ids3 s4(2) by (simp add: d4_def r_def)
  qed (use task others s2(2,4) s4(3,4) in \<open>simp_all add: r_def d4_def d3_def d2_def d1_def task_findById_def cycle_findById_def\<close>)
  then show ?thesis using that run by blast
qed

lemma decided_status:
  assumes "decided env packet params t c d r d'"
  shows "(t_status (av_task r), rc_status (av_reviewCycle r), av_outcome r)
      = (case lp_decision packet of
           LeadReviewDecision.APPROVED \<Rightarrow> (TaskStatus.APPROVED, ReviewCycleStatus.APPROVED, approved)
         | LeadReviewDecision.APPROVED_WITH_FOLLOW_UP \<Rightarrow> (TaskStatus.APPROVED, ReviewCycleStatus.APPROVED, approved_with_follow_up)
         | LeadReviewDecision.CHANGES_REQUESTED \<Rightarrow>
             if t_reviewRoundCount t + 1 < ad_maxReviewRounds params
             then (TaskStatus.CHANGES_REQUESTED, ReviewCycleStatus.REJECTED, changes_requested)
             else (TaskStatus.ESCALATED, ReviewCycleStatus.ESCALATED, escalated_from_review_limit)
         | LeadReviewDecision.ESCALATED \<Rightarrow> (TaskStatus.ESCALATED, ReviewCycleStatus.ESCALATED, escalated))
    \<and> t_reviewRoundCount (av_task r) = t_reviewRoundCount t + (if av_outcome r = changes_requested then 1 else 0)"
  using assms by (cases "lp_decision packet") (auto simp: decided_def decided_task_def escalates_at_limit Let_def)

lemma decision_accepted:
  assumes "follow_up_port create" and "wf_db (database w)" and "fresh_ids env (database w)"
    and p: "validatePacket safeParse (ad_packet params) = Inr packet" and ok: "decision_applies packet params t c (database w)"
  obtains r w' where "applyDecision safeParse create env params w = (Inr r, w')"
    "decided env packet params t c (database w) r (database w')"
    "emitted w' = emitted w
       @ [ReviewCycleTransitionedEvent (ad_reviewCycleId params) ReviewCycleStatus.CONSOLIDATING
            (rc_status (av_reviewCycle r)) (ad_actor params) (rv_cycleEventAt env),
          TaskTransitionedEvent (ad_taskId params) TaskStatus.IN_REVIEW (t_status (av_task r))
            (t_version (av_task r)) (ad_actor params) (rv_taskEventAt env)]"
proof -
  obtain r d' where r: "applyDecisionInTransaction create env packet params (database w) = (Inr r, d')"
    and dec: "decided env packet params t c (database w) r d'"
    by (rule decision_transaction[OF assms(1-3) ok])
  have st: "av_cycleTargetStatus r = rc_status (av_reviewCycle r)" "av_taskTargetStatus r = t_status (av_task r)"
    using dec by (auto simp: decided_def decided_task_def Let_def)
  show ?thesis by (rule that[of r]) (use p r dec st in \<open>auto simp: applyDecision_def commit_def writeTransaction_def\<close>)
qed

lemma decision_refused:
  assumes no: "\<nexists>packet t c. validatePacket safeParse (ad_packet params) = Inr packet \<and> decision_applies packet params t c (database w)"
  shows "\<exists>e. applyDecision safeParse create env params w = (Inl e, w)"
proof (cases "validatePacket safeParse (ad_packet params)")
  case (Inl issues)
  then show ?thesis by (simp add: applyDecision_def)
next
  case (Inr packet)
  then obtain e where "verifyDecisionTarget packet params (database w) = Inl e"
    using no target_verified[of packet params "database w"] by (metis prod.exhaust sumE)
  then have "applyDecisionInTransaction create env packet params (database w) = (Inl e, database w)"
    by (simp add: applyDecisionInTransaction_def Let_def)
  then show ?thesis using Inr by (simp add: applyDecision_def commit_def writeTransaction_def)
qed

lemma applied_decision:
  assumes "follow_up_port create" and "wf_db (database w)" and "fresh_ids env (database w)"
    and run: "applyDecision safeParse create env params w = (Inr r, w')"
  obtains packet t c where "validatePacket safeParse (ad_packet params) = Inr packet"
    "decision_applies packet params t c (database w)" "decided env packet params t c (database w) r (database w')"
proof -
  obtain packet t c where p: "validatePacket safeParse (ad_packet params) = Inr packet" "decision_applies packet params t c (database w)"
    using decision_refused[of safeParse params w create env] run by fastforce
  show ?thesis by (rule decision_accepted[OF assms(1-3) p]) (use that[OF p] run in auto)
qed

text \<open>
  (C14) Applying the lead's decision.  The call succeeds exactly when the packet is valid and names the task
  and the cycle of the request, the task is in review and the cycle, which is its current one if it has
  one, is consolidating; otherwise it fails and changes nothing.  On success task and cycle move as the
  decision says: approval approves both, a request for changes sends the task back and counts a review round
  while the new count stays below the limit and escalates at the limit without counting, and an escalation
  escalates.  Only the named task and cycle change; one decision record, two audit events, one
  follow-up task per reference of an approval with follow-up, and two events are added.
\<close>

theorem review_decision_exact:
  assumes "follow_up_port create" and "wf_db (database w)" and "fresh_ids env (database w)"
  shows "(\<forall>packet t c. validatePacket safeParse (ad_packet params) = Inr packet
        \<and> decision_applies packet params t c (database w) \<longrightarrow>
      (\<exists>r w'. applyDecision safeParse create env params w = (Inr r, w')
        \<and> decided env packet params t c (database w) r (database w')
        \<and> (t_status (av_task r), rc_status (av_reviewCycle r), av_outcome r)
          = (case lp_decision packet of
               LeadReviewDecision.APPROVED \<Rightarrow> (TaskStatus.APPROVED, ReviewCycleStatus.APPROVED, approved)
             | LeadReviewDecision.APPROVED_WITH_FOLLOW_UP \<Rightarrow> (TaskStatus.APPROVED, ReviewCycleStatus.APPROVED, approved_with_follow_up)
             | LeadReviewDecision.CHANGES_REQUESTED \<Rightarrow>
                 if t_reviewRoundCount t + 1 < ad_maxReviewRounds params
                 then (TaskStatus.CHANGES_REQUESTED, ReviewCycleStatus.REJECTED, changes_requested)
                 else (TaskStatus.ESCALATED, ReviewCycleStatus.ESCALATED, escalated_from_review_limit)
             | LeadReviewDecision.ESCALATED \<Rightarrow> (TaskStatus.ESCALATED, ReviewCycleStatus.ESCALATED, escalated))
        \<and> t_reviewRoundCount (av_task r) = t_reviewRoundCount t + (if av_outcome r = changes_requested then 1 else 0)
        \<and> emitted w' = emitted w
            @ [ReviewCycleTransitionedEvent (ad_reviewCycleId params) ReviewCycleStatus.CONSOLIDATING
                 (rc_status (av_reviewCycle r)) (ad_actor params) (rv_cycleEventAt env),
               TaskTransitionedEvent (ad_taskId params) TaskStatus.IN_REVIEW (t_status (av_task r))
                 (t_version (av_task r)) (ad_actor params) (rv_taskEventAt env)]))
    \<and> ((\<nexists>packet t c. validatePacket safeParse (ad_packet params) = Inr packet
          \<and> decision_applies packet params t c (database w))
        \<longrightarrow> (\<exists>e. applyDecision safeParse create env params w = (Inl e, w)))"
    (is "(\<forall>packet t c. _ packet t c \<longrightarrow> ?applied packet t c) \<and> _")
proof (intro conjI allI impI; (elim conjE)?)
  fix packet t c
  assume ok: "validatePacket safeParse (ad_packet params) = Inr packet" "decision_applies packet params t c (database w)"
  obtain r w' where run: "applyDecision safeParse create env params w = (Inr r, w')"
    "decided env packet params t c (database w) r (database w')"
    "emitted w' = emitted w
       @ [ReviewCycleTransitionedEvent (ad_reviewCycleId params) ReviewCycleStatus.CONSOLIDATING
            (rc_status (av_reviewCycle r)) (ad_actor params) (rv_cycleEventAt env),
          TaskTransitionedEvent (ad_taskId params) TaskStatus.IN_REVIEW (t_status (av_task r))
            (t_version (av_task r)) (ad_actor params) (rv_taskEventAt env)]"
    by (rule decision_accepted[OF assms ok])
  show "?applied packet t c"
    by (rule exI[of _ r], rule exI[of _ w'], intro conjI)
      (rule run decided_status[OF run(2), THEN conjunct1] decided_status[OF run(2), THEN conjunct2])+
next
  assume "\<nexists>packet t c. validatePacket safeParse (ad_packet params) = Inr packet \<and> decision_applies packet params t c (database w)"
  then show "\<exists>e. applyDecision safeParse create env params w = (Inl e, w)" by (rule decision_refused)
qed

subsection \<open>The packet behind a decision\<close>

lemma all_texts:
  assumes "zod_library safeParse isDatetime" and "z \<in> {ZNonEmpty, ZString}"
    and "safeParse (ZArray 0 z) v = Inr (Some (JArr ys))"
  shows "v = Some (JArr ys)" "ys = map JStr (List.map_filter (\<lambda>r. json_string (Some r)) ys)"
proof -
  obtain xs where xs: "v = Some (JArr xs)" "list_all2 (\<lambda>x y. safeParse z (Some x) = Inr (Some y)) xs ys"
    using assms(3) by (auto simp: zod_library.array_ok[OF assms(1)])
  have one: "y = x \<and> (\<exists>s. y = JStr s)" if "safeParse z (Some x) = Inr (Some y)" for x y
    using assms(2) that by (auto simp: zod_library.text_ok[OF assms(1)] zod_library.nonempty_ok[OF assms(1)])
  have "list_all2 (=) xs ys" by (rule list_all2_mono[OF xs(2)]) (use one in blast)
  then show "v = Some (JArr ys)" using xs(1) by (simp add: list.rel_eq)
  from xs(2) have "\<forall>y \<in> set ys. \<exists>s. y = JStr s"
  proof (induction rule: list_all2_induct)
    case (Cons x xs y ys)
    then show ?case using one[of x y] by auto
  qed simp
  then show "ys = map JStr (List.map_filter (\<lambda>r. json_string (Some r)) ys)"
    by (induction ys) (auto simp: map_filter_def)
qed

text \<open>Every field the service reads stands in the packet as it was received.\<close>

definition stands_in :: "safe_parse \<Rightarrow> json \<Rightarrow> LeadReviewDecisionPacket \<Rightarrow> bool" where
  "stands_in safeParse raw packet \<longleftrightarrow>
     json_get raw ''task_id'' = Some (JStr (lp_task_id packet))
     \<and> json_get raw ''review_cycle_id'' = Some (JStr (lp_review_cycle_id packet))
     \<and> json_get raw ''decision'' = Some (JStr (LeadReviewDecision_value (lp_decision packet)))
     \<and> json_get raw ''summary'' = Some (JStr (lp_summary packet))
     \<and> (\<exists>issues. json_get raw ''blocking_issues'' = Some (JArr issues)
         \<and> list_all2 (\<lambda>x y. safeParse IssueSchema (Some x) = Inr (Some y)) issues (lp_blocking_issues packet))
     \<and> json_get raw ''non_blocking_suggestions'' = Some (JArr (lp_non_blocking_suggestions packet))
     \<and> json_get raw ''follow_up_task_refs'' = Some (JArr (map JStr (lp_follow_up_task_refs packet)))"

lemma lead_decision_schema: "LeadReviewDecisionSchema = ZEnum (map LeadReviewDecision_value
    [LeadReviewDecision.APPROVED, LeadReviewDecision.APPROVED_WITH_FOLLOW_UP, LeadReviewDecision.CHANGES_REQUESTED, LeadReviewDecision.ESCALATED])"
  by (simp add: LeadReviewDecisionSchema_def zodEnumFromConst_def)

lemma inferred_packet:
  assumes zod: "zod_library safeParse isDatetime" and ok: "safeParse LeadReviewDecisionPacketSchema (Some j) = Inr w"
  obtains packet where "w = Some (lp_json packet)" "inferredPacket (lp_json packet) = Some packet"
    "stands_in safeParse j packet" "leadReviewDecisionPacketRefine (lp_json packet) = []"
    "json_get (lp_json packet) ''decision'' = Some (JStr (LeadReviewDecision_value (lp_decision packet)))"
    "json_get (lp_json packet) ''blocking_issues'' = Some (JArr (lp_blocking_issues packet))"
    "json_get (lp_json packet) ''follow_up_task_refs'' = Some (JArr (map JStr (lp_follow_up_task_refs packet)))"
proof -
  note laws = zod_library.nonempty_ok[OF zod] zod_library.enum_ok[OF zod] zod_library.array_ok[OF zod]
  obtain p where w: "w = Some p" using ok by (auto simp: LeadReviewDecisionPacketSchema_def zod_library.refine_ok[OF zod] zod_library.object_ok[OF zod])
  have field: "safeParse s (json_get j k) = Inr (json_get p k) \<and> leadReviewDecisionPacketRefine p = []"
    if "(k, s) \<in> set [(''task_id'', ZNonEmpty), (''review_cycle_id'', ZNonEmpty), (''decision'', LeadReviewDecisionSchema),
      (''summary'', ZNonEmpty), (''blocking_issues'', ZArray 0 IssueSchema), (''non_blocking_suggestions'', ZArray 0 ZString),
      (''follow_up_task_refs'', ZArray 0 ZNonEmpty)]" for k s
    by (rule zod_library.refined_object[OF zod ok[unfolded LeadReviewDecisionPacketSchema_def], of k s]) (use that w in auto)
  have string: "\<exists>s. json_get j k = Some (JStr s) \<and> json_get p k = Some (JStr s)"
    if "k \<in> {''task_id'', ''review_cycle_id'', ''summary''}" for k
    using field[of k ZNonEmpty] that by (auto simp: laws)
  obtain i where i: "json_get j ''task_id'' = Some (JStr i)" "json_get p ''task_id'' = Some (JStr i)"
    using string[of "''task_id''"] by auto
  obtain c where c: "json_get j ''review_cycle_id'' = Some (JStr c)" "json_get p ''review_cycle_id'' = Some (JStr c)"
    using string[of "''review_cycle_id''"] by auto
  obtain m where m: "json_get j ''summary'' = Some (JStr m)" "json_get p ''summary'' = Some (JStr m)"
    using string[of "''summary''"] by auto
  obtain issues b where b: "json_get j ''blocking_issues'' = Some (JArr issues)" "json_get p ''blocking_issues'' = Some (JArr b)"
      "list_all2 (\<lambda>x y. safeParse IssueSchema (Some x) = Inr (Some y)) issues b"
    using field[of "''blocking_issues''" "ZArray 0 IssueSchema"] by (auto simp: laws)
  obtain n where n: "json_get p ''non_blocking_suggestions'' = Some (JArr n)"
    using field[of "''non_blocking_suggestions''" "ZArray 0 ZString"] by (auto simp: laws)
  have n': "json_get j ''non_blocking_suggestions'' = Some (JArr n)"
    by (rule all_texts(1)[OF zod, of ZString]) (use field[of "''non_blocking_suggestions''" "ZArray 0 ZString"] n in auto)
  obtain f where f: "json_get p ''follow_up_task_refs'' = Some (JArr f)"
    using field[of "''follow_up_task_refs''" "ZArray 0 ZNonEmpty"] by (auto simp: laws)
  define refs where "refs = List.map_filter (\<lambda>r. json_string (Some r)) f"
  have refs: "json_get j ''follow_up_task_refs'' = Some (JArr f)" "f = map JStr refs"
    using all_texts[OF zod, of ZNonEmpty _ f] field[of "''follow_up_task_refs''" "ZArray 0 ZNonEmpty"] f
    by (auto simp: refs_def)
  obtain dec where d: "json_get j ''decision'' = Some (JStr (LeadReviewDecision_value dec))"
      "json_get p ''decision'' = Some (JStr (LeadReviewDecision_value dec))"
      "map_of LeadReviewDecisions (LeadReviewDecision_value dec) = Some dec"
  proof -
    have "safeParse LeadReviewDecisionSchema (json_get j ''decision'') = Inr (json_get p ''decision'')"
      using field[of "''decision''" LeadReviewDecisionSchema] by simp
    then obtain x where "json_get j ''decision'' = Some (JStr (LeadReviewDecision_value x))"
        "json_get p ''decision'' = Some (JStr (LeadReviewDecision_value x))"
      unfolding lead_decision_schema laws set_map by (elim conjE bexE imageE) simp
    moreover
    have "map_of LeadReviewDecisions (LeadReviewDecision_value x) = Some x"
      by (cases x) (simp_all add: LeadReviewDecisions_def)
    ultimately show ?thesis by (rule that)
  qed
  let ?packet = "\<lparr>lp_task_id = i, lp_review_cycle_id = c, lp_decision = dec, lp_summary = m, lp_blocking_issues = b,
    lp_non_blocking_suggestions = n, lp_follow_up_task_refs = refs, lp_json = p\<rparr>"
  have "inferredPacket p = Some ?packet" using i c m b n f d by (simp add: inferredPacket_def refs_def)
  moreover have "stands_in safeParse j ?packet" using i c m b n' refs d by (simp add: stands_in_def)
  ultimately show ?thesis
    by (intro that[of ?packet]) (use w d b f refs field[of "''summary''" ZNonEmpty] in simp_all)
qed

lemma validated_packet:
  assumes "zod_library safeParse isDatetime" and "validatePacket safeParse raw = Inr packet"
  shows "stands_in safeParse raw packet" "leadReviewDecisionPacketRefine (lp_json packet) = []"
    "json_get (lp_json packet) ''decision'' = Some (JStr (LeadReviewDecision_value (lp_decision packet)))"
    "json_get (lp_json packet) ''blocking_issues'' = Some (JArr (lp_blocking_issues packet))"
    "json_get (lp_json packet) ''follow_up_task_refs'' = Some (JArr (map JStr (lp_follow_up_task_refs packet)))"
proof -
  obtain v where v: "safeParse LeadReviewDecisionPacketSchema (Some raw) = Inr v" "Option.bind v inferredPacket = Some packet"
    using assms(2) by (auto simp: validatePacket_def split: sum.splits option.splits)
  obtain q where q: "v = Some (lp_json q)" "inferredPacket (lp_json q) = Some q"
    "stands_in safeParse raw q" "leadReviewDecisionPacketRefine (lp_json q) = []"
    "json_get (lp_json q) ''decision'' = Some (JStr (LeadReviewDecision_value (lp_decision q)))"
    "json_get (lp_json q) ''blocking_issues'' = Some (JArr (lp_blocking_issues q))"
    "json_get (lp_json q) ''follow_up_task_refs'' = Some (JArr (map JStr (lp_follow_up_task_refs q)))"
    by (rule inferred_packet[OF assms(1) v(1)])
  then have "q = packet" using v(2) by simp
  with q(3-7) show "stands_in safeParse raw packet" "leadReviewDecisionPacketRefine (lp_json packet) = []"
    "json_get (lp_json packet) ''decision'' = Some (JStr (LeadReviewDecision_value (lp_decision packet)))"
    "json_get (lp_json packet) ''blocking_issues'' = Some (JArr (lp_blocking_issues packet))"
    "json_get (lp_json packet) ''follow_up_task_refs'' = Some (JArr (map JStr (lp_follow_up_task_refs packet)))" by simp_all
qed

text \<open>
  (C19) The packet behind a decision.  Reading loses nothing: a packet the schema refuses is refused with the
  issues of the schema, and one it accepts is read as a record whose whole packet is what the schema
  returned and whose every field stands in the packet received, in the same order (the issues as their
  schema returns them).  So an applied decision counts the blocking issues that its packet lists, it
  sends a task back, or escalates it at the review limit, only with at least one of them, and the
  follow-up tasks of an approval with follow-up are exactly those whose references the packet lists, in that
  order, at least one, each with the decided task as its parent; no other decision creates any.
\<close>

theorem decision_backed_by_packet:
  assumes zod: "zod_library safeParse isDatetime"
  shows "(case safeParse LeadReviewDecisionPacketSchema (Some raw) of
        Inl issues \<Rightarrow> validatePacket safeParse raw = Inl issues
      | Inr p \<Rightarrow> \<exists>packet. validatePacket safeParse raw = Inr packet \<and> p = Some (lp_json packet)
          \<and> stands_in safeParse raw packet)
    \<and> (follow_up_port create \<and> wf_db (database w) \<and> fresh_ids env (database w)
        \<and> applyDecision safeParse create env params w = (Inr r, w') \<longrightarrow>
      (\<exists>issues. json_get (ad_packet params) ''blocking_issues'' = Some (JArr issues)
         \<and> lr_blockingIssueCount (av_decisionRecord r) = int (length issues)
         \<and> (av_outcome r \<in> {changes_requested, escalated_from_review_limit} \<longrightarrow> issues \<noteq> []))
      \<and> (\<exists>refs. json_get (ad_packet params) ''follow_up_task_refs'' = Some (JArr (map JStr refs))
         \<and> (if av_outcome r = approved_with_follow_up
            then refs \<noteq> [] \<and> map fu_title (av_followUpTasks r) = refs
              \<and> (\<forall>f \<in> set (av_followUpTasks r). fu_parentTaskId f = ad_taskId params)
            else av_followUpTasks r = [])))"
proof (intro conjI impI; (elim conjE)?)
  show "case safeParse LeadReviewDecisionPacketSchema (Some raw) of
        Inl issues \<Rightarrow> validatePacket safeParse raw = Inl issues
      | Inr p \<Rightarrow> \<exists>packet. validatePacket safeParse raw = Inr packet \<and> p = Some (lp_json packet)
          \<and> stands_in safeParse raw packet"
  proof (cases "safeParse LeadReviewDecisionPacketSchema (Some raw)")
    case (Inl issues)
    then show ?thesis by (simp add: validatePacket_def)
  next
    case (Inr p)
    then show ?thesis by (auto simp: validatePacket_def intro: inferred_packet[OF zod Inr])
  qed
next
  assume env: "follow_up_port create" "wf_db (database w)" "fresh_ids env (database w)"
    and run: "applyDecision safeParse create env params w = (Inr r, w')"
  obtain packet t c where p: "validatePacket safeParse (ad_packet params) = Inr packet"
      "decision_applies packet params t c (database w)" "decided env packet params t c (database w) r (database w')"
    by (rule applied_decision[OF env run])
  note q = validated_packet[OF zod p(1)]
  have rules: "lp_decision packet = LeadReviewDecision.CHANGES_REQUESTED \<Longrightarrow> lp_blocking_issues packet \<noteq> []"
    "lp_decision packet = LeadReviewDecision.APPROVED_WITH_FOLLOW_UP \<Longrightarrow> lp_follow_up_task_refs packet \<noteq> []"
    using q by (auto simp: leadReviewDecisionPacketRefine_def json_length_def split: if_splits)
  obtain issues where issues: "json_get (ad_packet params) ''blocking_issues'' = Some (JArr issues)"
    "list_all2 (\<lambda>x y. safeParse IssueSchema (Some x) = Inr (Some y)) issues (lp_blocking_issues packet)"
    using q(1) by (auto simp: stands_in_def)
  note len = list_all2_lengthD[OF issues(2)]
  have "av_outcome r \<in> {changes_requested, escalated_from_review_limit} \<Longrightarrow> issues \<noteq> []"
    using rules len p(3) by (cases "lp_decision packet") (auto simp: decided_def Let_def)
  moreover have "lr_blockingIssueCount (av_decisionRecord r) = int (length issues)"
    using len p(3) by (simp add: decided_def decisionRecord_def Let_def)
  ultimately show "\<exists>issues. json_get (ad_packet params) ''blocking_issues'' = Some (JArr issues)
       \<and> lr_blockingIssueCount (av_decisionRecord r) = int (length issues)
       \<and> (av_outcome r \<in> {changes_requested, escalated_from_review_limit} \<longrightarrow> issues \<noteq> [])"
    using issues(1) by blast
  have "if av_outcome r = approved_with_follow_up
      then lp_follow_up_task_refs packet \<noteq> [] \<and> map fu_title (av_followUpTasks r) = lp_follow_up_task_refs packet
        \<and> (\<forall>f \<in> set (av_followUpTasks r). fu_parentTaskId f = ad_taskId params)
      else av_followUpTasks r = []"
    using rules p(3) by (cases "lp_decision packet") (auto simp: decided_def Let_def split: if_splits)
  then show "\<exists>refs. json_get (ad_packet params) ''follow_up_task_refs'' = Some (JArr (map JStr refs))
       \<and> (if av_outcome r = approved_with_follow_up
          then refs \<noteq> [] \<and> map fu_title (av_followUpTasks r) = refs
            \<and> (\<forall>f \<in> set (av_followUpTasks r). fu_parentTaskId f = ad_taskId params)
          else av_followUpTasks r = [])"
    using q(1) by (auto simp: stands_in_def)
qed

definition lead_packet :: json where
  "lead_packet = JObj
     [(''packet_type'', JStr ''lead_review_decision_packet''), (''schema_version'', JStr ''1.0''),
      (''created_at'', JStr ''2026-03-10T00:00:00Z''), (''task_id'', JStr ''T1''), (''repository_id'', JStr ''R''),
      (''review_cycle_id'', JStr ''C2''), (''decision'', JStr ''approved_with_follow_up''), (''summary'', JStr ''ok''),
      (''blocking_issues'', JArr []), (''non_blocking_suggestions'', JArr []), (''deduplication_notes'', JArr []),
      (''follow_up_task_refs'', JArr [JStr ''docs'']), (''risks'', JArr []), (''open_questions'', JArr [])]"

definition decision_params :: ApplyReviewDecisionParams where
  "decision_params = \<lparr>ad_packet = lead_packet, ad_taskId = ''T1'', ad_reviewCycleId = ''C2'',
     ad_escalationPolicy = DEFAULT_ESCALATION_POLICY, ad_maxReviewRounds = 3, ad_actor = example_actor\<rparr>"

lemma lead_packet_valid:
  obtains packet where "validatePacket zod_check lead_packet = Inr packet" "lp_task_id packet = ''T1''"
    "lp_review_cycle_id packet = ''C2''" "lp_decision packet = LeadReviewDecision.APPROVED_WITH_FOLLOW_UP"
proof -
  have "case validatePacket zod_check lead_packet of Inr packet \<Rightarrow> lp_task_id packet = ''T1''
      \<and> lp_review_cycle_id packet = ''C2'' \<and> lp_decision packet = LeadReviewDecision.APPROVED_WITH_FOLLOW_UP | Inl _ \<Rightarrow> False"
    by code_simp
  then show ?thesis using that by (cases "validatePacket zod_check lead_packet") auto
qed

lemma decision_example:
  obtains packet where "validatePacket zod_check (ad_packet decision_params) = Inr packet"
    "lp_decision packet = LeadReviewDecision.APPROVED_WITH_FOLLOW_UP"
    "decision_applies packet decision_params (example_task\<lparr>t_status := TaskStatus.IN_REVIEW, t_currentReviewCycleId := Some ''C2''\<rparr>)
       (cycle_under_review ''C2'' 7 ReviewCycleStatus.CONSOLIDATING) (database (reviewed_world ReviewCycleStatus.CONSOLIDATING))"
proof (rule lead_packet_valid)
  fix packet
  assume p: "validatePacket zod_check lead_packet = Inr packet" "lp_task_id packet = ''T1''"
    "lp_review_cycle_id packet = ''C2''" "lp_decision packet = LeadReviewDecision.APPROVED_WITH_FOLLOW_UP"
  show thesis by (rule that[of packet]) (use p in \<open>simp_all add: decision_params_def decision_applies_def reviewed_world_def
      cycle_under_review_def example_db_def example_task_def task_findById_def cycle_findById_def\<close>)
qed

theorem review_decision_exact_witness:
  "\<exists>r w'. applyDecision zod_check insertFollowUp review_env decision_params (reviewed_world ReviewCycleStatus.CONSOLIDATING) = (Inr r, w')
     \<and> (t_status (av_task r), rc_status (av_reviewCycle r), av_outcome r)
       = (TaskStatus.APPROVED, ReviewCycleStatus.APPROVED, approved_with_follow_up)"
proof (rule decision_example)
  fix packet
  assume p: "validatePacket zod_check (ad_packet decision_params) = Inr packet"
    "lp_decision packet = LeadReviewDecision.APPROVED_WITH_FOLLOW_UP"
    "decision_applies packet decision_params (example_task\<lparr>t_status := TaskStatus.IN_REVIEW, t_currentReviewCycleId := Some ''C2''\<rparr>)
       (cycle_under_review ''C2'' 7 ReviewCycleStatus.CONSOLIDATING) (database (reviewed_world ReviewCycleStatus.CONSOLIDATING))"
  from review_decision_exact[OF backlog.follow_up_port_axioms reviewed_world_ok, of zod_check decision_params ReviewCycleStatus.CONSOLIDATING,
      THEN conjunct1, rule_format, OF conjI[OF p(1,3)]]
  show ?thesis unfolding p(2) by auto
qed

theorem decision_backed_by_packet_witness:
  "\<exists>r w'. applyDecision zod_check insertFollowUp review_env decision_params (reviewed_world ReviewCycleStatus.CONSOLIDATING) = (Inr r, w')
     \<and> av_outcome r = approved_with_follow_up \<and> map fu_title (av_followUpTasks r) = [''docs'']"
proof (rule decision_example)
  fix packet
  assume p: "validatePacket zod_check (ad_packet decision_params) = Inr packet"
    "lp_decision packet = LeadReviewDecision.APPROVED_WITH_FOLLOW_UP"
    "decision_applies packet decision_params (example_task\<lparr>t_status := TaskStatus.IN_REVIEW, t_currentReviewCycleId := Some ''C2''\<rparr>)
       (cycle_under_review ''C2'' 7 ReviewCycleStatus.CONSOLIDATING) (database (reviewed_world ReviewCycleStatus.CONSOLIDATING))"
  show ?thesis
  proof (rule decision_accepted[OF backlog.follow_up_port_axioms reviewed_world_ok p(1,3)])
    fix r w'
    assume run: "applyDecision zod_check insertFollowUp review_env decision_params (reviewed_world ReviewCycleStatus.CONSOLIDATING) = (Inr r, w')"
      and d: "decided review_env packet decision_params (example_task\<lparr>t_status := TaskStatus.IN_REVIEW, t_currentReviewCycleId := Some ''C2''\<rparr>)
        (cycle_under_review ''C2'' 7 ReviewCycleStatus.CONSOLIDATING) (database (reviewed_world ReviewCycleStatus.CONSOLIDATING)) r (database w')"
    have "av_outcome r = approved_with_follow_up" using d p(2) by (simp add: decided_def Let_def)
    moreover have "json_get (ad_packet decision_params) ''follow_up_task_refs'' = Some (JArr [JStr ''docs''])"
      by (simp add: decision_params_def lead_packet_def json_get_def)
    ultimately show ?thesis
      using run decision_backed_by_packet[OF checked.zod_library_axioms, THEN conjunct2, rule_format,
          OF conjI[OF backlog.follow_up_port_axioms conjI[OF reviewed_world_ok(1) conjI[OF reviewed_world_ok(2) run]]]]
      by (auto simp: map_eq_Cons_conv)
  qed
qed

end
