(* ===== verification/CommandWrapper.thy ===== *)
theory CommandWrapper
  imports CommandPolicy ValidationPolicy
begin

text \<open>
  Commands that the factory runs itself: \<open>packages/infrastructure/src/policy/command-wrapper.ts\<close>, which runs a
  command only if the policy allows it, and \<open>packages/infrastructure/src/validation/check-executor.ts\<close>, which
  turns the result into the outcome of a validation check.

  \<open>'e\<close> is the environment of the processes.  Node's \<open>execFile\<close> and the stop watch are arguments of the model,
  as is the \<open>RegExp\<close> constructor of \<open>CommandPolicy\<close>.
\<close>

subsection \<open>Running a command\<close>

record PolicyViolationArtifact =
  pv_timestamp :: string
  pv_raw_command :: string
  pv_parsed_command :: string
  pv_parsed_args :: "string list"
  pv_violation_reason :: CommandViolationReason
  pv_explanation :: string
  pv_action :: CommandViolationAction

record CommandExecutionOptions =
  eo_cwd :: "string option"
  eo_env :: "(string \<times> string) list option"
  eo_timeoutMs :: "int option"
  eo_maxOutputBytes :: "int option"

record CommandExecutionResult =
  er_command :: string
  er_args :: "string list"
  er_exitCode :: int
  er_stdout :: string
  er_stderr :: string
  er_durationMs :: int

record ProcessOptions =
  po_cwd :: "string option"
  po_env :: "(string \<times> string) list option"
  po_timeout :: int
  po_maxBuffer :: int

record ProcessResult =
  pr_exitCode :: "int option"
  pr_stdout :: string
  pr_stderr :: string

text \<open>\<open>UnexpectedError\<close> is any other exception, here the one of a pattern that is no regular expression.\<close>

datatype command_error =
    PolicyViolationError CommandPolicyEvaluation PolicyViolationArtifact
  | CommandExecutionError string "string list" "int option" string string
  | UnexpectedError string

definition DEFAULT_TIMEOUT_MS :: int where
  "DEFAULT_TIMEOUT_MS = 300000"

definition DEFAULT_MAX_OUTPUT_BYTES :: int where
  "DEFAULT_MAX_OUTPUT_BYTES = 10485760"

definition createPolicyViolationArtifact :: "string \<Rightarrow> CommandPolicyEvaluation \<Rightarrow> PolicyViolationArtifact" where
  "createPolicyViolationArtifact timestamp evaluation =
    \<lparr>pv_timestamp = timestamp, pv_raw_command = raw (parsed evaluation),
     pv_parsed_command = command (parsed evaluation), pv_parsed_args = args (parsed evaluation),
     pv_violation_reason = the (violation evaluation), pv_explanation = explanation evaluation,
     pv_action = the (violation_action evaluation)\<rparr>"

definition validateCommand ::
  "(string \<Rightarrow> (string \<Rightarrow> bool) option) \<Rightarrow> string \<Rightarrow> CommandPolicy \<Rightarrow> string + CommandPolicyEvaluation" where
  "validateCommand compile rawCommand policy = evaluateCommandPolicy compile rawCommand policy"

text \<open>The callback of \<open>execFile\<close>: no error, or one with a numeric code or the mark of a kill.\<close>

datatype execFile_error = ExitCode int | OtherError bool

record execFile_callback =
  cb_error :: "execFile_error option"
  cb_stdout :: string
  cb_stderr :: string

type_synonym 'e process_runner = "string \<Rightarrow> string list \<Rightarrow> ProcessOptions \<Rightarrow> 'e \<Rightarrow> ProcessResult \<times> 'e"

definition defaultProcessRunner ::
  "(string \<Rightarrow> string list \<Rightarrow> ProcessOptions \<Rightarrow> 'e \<Rightarrow> execFile_callback \<times> 'e) \<Rightarrow> 'e process_runner" where
  "defaultProcessRunner execFile = (\<lambda>cmd as options e.
    let (cb, e') = execFile cmd as options e in
    (\<lparr>pr_exitCode = (case cb_error cb of
         None \<Rightarrow> Some 0
       | Some (ExitCode n) \<Rightarrow> Some n
       | Some (OtherError killed) \<Rightarrow> if killed then None else Some 1),
      pr_stdout = cb_stdout cb, pr_stderr = cb_stderr cb\<rparr>, e'))"

text \<open>What a run draws from outside: the process runner, the stop watch and the time of a violation.\<close>

record 'e processPort =
  runProcess :: "'e process_runner"
  elapsedMs :: "'e \<Rightarrow> 'e \<Rightarrow> int"
  isoNow :: "'e \<Rightarrow> string"
  compileRegExp :: "string \<Rightarrow> (string \<Rightarrow> bool) option"

definition executeCommand ::
  "'e processPort \<Rightarrow> string \<Rightarrow> CommandPolicy \<Rightarrow> CommandExecutionOptions \<Rightarrow> 'e
    \<Rightarrow> (command_error + CommandExecutionResult) \<times> 'e" where
  "executeCommand port rawCommand policy options e =
    (case evaluateCommandPolicy (compileRegExp port) rawCommand policy of
       Inl pattern \<Rightarrow> (Inl (UnexpectedError (''Invalid regular expression: /'' @ pattern @ ''/'')), e)
     | Inr evaluation \<Rightarrow>
         if \<not> allowed evaluation then
           (Inl (PolicyViolationError evaluation (createPolicyViolationArtifact (isoNow port e) evaluation)), e)
         else
           let cmd = command (parsed evaluation); as = args (parsed evaluation);
               (result, e') = runProcess port cmd as
                 \<lparr>po_cwd = eo_cwd options, po_env = eo_env options,
                  po_timeout = (case eo_timeoutMs options of None \<Rightarrow> DEFAULT_TIMEOUT_MS | Some t \<Rightarrow> t),
                  po_maxBuffer = (case eo_maxOutputBytes options of None \<Rightarrow> DEFAULT_MAX_OUTPUT_BYTES | Some n \<Rightarrow> n)\<rparr> e in
           if pr_exitCode result \<noteq> Some 0 then
             (Inl (CommandExecutionError cmd as (pr_exitCode result) (pr_stdout result) (pr_stderr result)), e')
           else
             (Inr \<lparr>er_command = cmd, er_args = as, er_exitCode = 0, er_stdout = pr_stdout result,
                er_stderr = pr_stderr result, er_durationMs = elapsedMs port e e'\<rparr>, e'))"

subsection \<open>Running a check\<close>

datatype CheckStatus = passed | failed | skipped | error

text \<open>
  A command looked up in the table of a profile may be a property that every object inherits, which is no
  string; \<open>executeCommand\<close> then fails on its first use.
\<close>

record ExecuteCheckParams =
  xc_checkName :: string
  xc_command :: "string js_member"
  xc_workspacePath :: string

record CheckExecutionResult =
  xr_checkName :: string
  xr_command :: "string js_member"
  xr_status :: CheckStatus
  xr_durationMs :: int
  xr_output :: "string option"
  xr_errorMessage :: "string option"

record CheckExecutorConfig =
  xf_timeoutMs :: "int option"
  xf_maxOutputBytes :: "int option"
  xf_maxOutputChars :: "nat option"

definition DEFAULT_MAX_OUTPUT_CHARS :: nat where
  "DEFAULT_MAX_OUTPUT_CHARS = 50000"

definition combineOutput :: "string \<Rightarrow> string \<Rightarrow> nat \<Rightarrow> string" where
  "combineOutput stdout stderr maxChars =
    (let separator = CHR 0x0A # ''--- stderr ---'' @ [CHR 0x0A];
         combined = stdout @ (if stderr = [] then [] else (if stdout = [] then [] else separator) @ stderr) in
     if length combined \<le> maxChars then combined
     else take maxChars combined @ CHR 0x0A # ''... [truncated at '' @ string_of_nat maxChars @ '' chars]'')"

definition non_empty :: "string \<Rightarrow> string option" where
  "non_empty s = (if s = [] then None else Some s)"

definition handleCommandFailure ::
  "string \<Rightarrow> string js_member \<Rightarrow> int option \<Rightarrow> string \<Rightarrow> string \<Rightarrow> int \<Rightarrow> nat \<Rightarrow> CheckExecutionResult" where
  "handleCommandFailure checkName cmd exitCode stdout stderr durationMs maxOutputChars =
    (let exitInfo = (case exitCode of Some n \<Rightarrow> ''exit code '' @ string_of_int n
                     | None \<Rightarrow> ''killed by signal (possible timeout)'') in
     \<lparr>xr_checkName = checkName, xr_command = cmd, xr_status = failed, xr_durationMs = durationMs,
      xr_output = non_empty (combineOutput stdout stderr maxOutputChars),
      xr_errorMessage = Some (''Check '' @ quoted checkName @ '' failed with '' @ exitInfo)\<rparr>)"

definition handlePolicyViolation ::
  "string \<Rightarrow> string js_member \<Rightarrow> CommandPolicyEvaluation \<Rightarrow> int \<Rightarrow> CheckExecutionResult" where
  "handlePolicyViolation checkName cmd evaluation durationMs =
    \<lparr>xr_checkName = checkName, xr_command = cmd, xr_status = error, xr_durationMs = durationMs, xr_output = None,
     xr_errorMessage = Some (''Policy violation: '' @ explanation evaluation)\<rparr>"

definition handleUnexpectedError :: "string \<Rightarrow> string js_member \<Rightarrow> string \<Rightarrow> int \<Rightarrow> CheckExecutionResult" where
  "handleUnexpectedError checkName cmd message durationMs =
    \<lparr>xr_checkName = checkName, xr_command = cmd, xr_status = error, xr_durationMs = durationMs, xr_output = None,
     xr_errorMessage = Some (''Unexpected error executing check '' @ quoted checkName @ '': '' @ message)\<rparr>"

definition executeCheck ::
  "'e processPort \<Rightarrow> CommandPolicy \<Rightarrow> CheckExecutorConfig \<Rightarrow> ExecuteCheckParams \<Rightarrow> 'e \<Rightarrow> CheckExecutionResult \<times> 'e" where
  "executeCheck port commandPolicy config params e =
    (let checkName = xc_checkName params; cmd = xc_command params;
         maxOutputChars = (case xf_maxOutputChars config of None \<Rightarrow> DEFAULT_MAX_OUTPUT_CHARS | Some n \<Rightarrow> n);
         options = \<lparr>eo_cwd = Some (xc_workspacePath params), eo_env = None, eo_timeoutMs = xf_timeoutMs config,
           eo_maxOutputBytes = xf_maxOutputBytes config\<rparr> in
     case cmd of
       Inherited k \<Rightarrow> (handleUnexpectedError checkName cmd ''command.trim is not a function'' (elapsedMs port e e), e)
     | Own rawCommand \<Rightarrow>
         let (r, e') = executeCommand port rawCommand commandPolicy options e; durationMs = elapsedMs port e e' in
         (case r of
            Inr result \<Rightarrow>
              \<lparr>xr_checkName = checkName, xr_command = cmd, xr_status = passed, xr_durationMs = durationMs,
               xr_output = non_empty (combineOutput (er_stdout result) (er_stderr result) maxOutputChars),
               xr_errorMessage = None\<rparr>
          | Inl (CommandExecutionError _ _ exitCode stdout stderr) \<Rightarrow>
              handleCommandFailure checkName cmd exitCode stdout stderr durationMs maxOutputChars
          | Inl (PolicyViolationError evaluation _) \<Rightarrow> handlePolicyViolation checkName cmd evaluation durationMs
          | Inl (UnexpectedError message) \<Rightarrow> handleUnexpectedError checkName cmd message durationMs, e'))"

subsection \<open>Which processes are started\<close>

text \<open>A runner that writes down the processes it starts.\<close>

definition recording :: "'e processPort \<Rightarrow> ('e \<times> (string \<times> string list) list) processPort" where
  "recording port =
    \<lparr>runProcess = (\<lambda>cmd as options (e, log). let (r, e') = runProcess port cmd as options e in (r, e', log @ [(cmd, as)])),
     elapsedMs = (\<lambda>(e, _) (e', _). elapsedMs port e e'), isoNow = (\<lambda>(e, _). isoNow port e),
     compileRegExp = compileRegExp port\<rparr>"

text \<open>The process of a command: the command and its arguments, if the policy allows it.\<close>

definition spawned :: "'e processPort \<Rightarrow> CommandPolicy \<Rightarrow> string js_member \<Rightarrow> (string \<times> string list) list" where
  "spawned port policy cmd = (case cmd of Inherited _ \<Rightarrow> [] | Own cmdText \<Rightarrow>
     (case evaluateCommandPolicy (compileRegExp port) cmdText policy of
        Inl _ \<Rightarrow> []
      | Inr evaluation \<Rightarrow> if allowed evaluation then [(command (parsed evaluation), args (parsed evaluation))] else []))"

lemma recorded_compile [simp]: "compileRegExp (recording port) = compileRegExp port"
  by (simp add: recording_def)

lemma executeCheck_spawns:
  "snd (snd (executeCheck (recording port) policy config params (e, log))) = log @ spawned port policy (xc_command params)"
proof (cases "xc_command params")
  case (Own cmd)
  then show ?thesis
    by (cases "evaluateCommandPolicy (compileRegExp port) cmd policy")
      (simp_all add: executeCheck_def executeCommand_def spawned_def recording_def Let_def case_prod_beta)
next
  case (Inherited k)
  then show ?thesis by (simp add: executeCheck_def spawned_def Let_def)
qed

text \<open>A check passes exactly when its command is allowed and its process ends with code 0.\<close>

lemma executeCheck_status:
  "xr_status (fst (executeCheck port policy config params e)) = passed \<longleftrightarrow>
    (\<exists>cmd ev. xc_command params = Own cmd \<and> evaluateCommandPolicy (compileRegExp port) cmd policy = Inr ev \<and> allowed ev
      \<and> pr_exitCode (fst (runProcess port (command (parsed ev)) (args (parsed ev))
          \<lparr>po_cwd = Some (xc_workspacePath params), po_env = None,
           po_timeout = (case xf_timeoutMs config of None \<Rightarrow> DEFAULT_TIMEOUT_MS | Some t \<Rightarrow> t),
           po_maxBuffer = (case xf_maxOutputBytes config of None \<Rightarrow> DEFAULT_MAX_OUTPUT_BYTES | Some n \<Rightarrow> n)\<rparr> e)) = Some 0)"
proof (cases "xc_command params")
  case (Own cmd)
  then show ?thesis
    by (cases "evaluateCommandPolicy (compileRegExp port) cmd policy")
      (simp_all add: executeCheck_def executeCommand_def Let_def case_prod_beta handleCommandFailure_def
        handlePolicyViolation_def handleUnexpectedError_def)
next
  case (Inherited k)
  then show ?thesis by (simp add: executeCheck_def handleUnexpectedError_def Let_def)
qed

lemma executeCheck_mirrors:
  "xr_checkName (fst (executeCheck port policy config params e)) = xc_checkName params
   \<and> xr_command (fst (executeCheck port policy config params e)) = xc_command params
   \<and> xr_status (fst (executeCheck port policy config params e)) \<noteq> skipped"
proof (cases "xc_command params")
  case (Own cmd)
  then show ?thesis
    by (cases "evaluateCommandPolicy (compileRegExp port) cmd policy")
      (simp_all add: executeCheck_def executeCommand_def Let_def case_prod_beta handleCommandFailure_def
        handlePolicyViolation_def handleUnexpectedError_def)
next
  case (Inherited k)
  then show ?thesis by (simp add: executeCheck_def handleUnexpectedError_def Let_def)
qed

end
