(* ===== verification/ValidationRunner.thy ===== *)
theory ValidationRunner
  imports CommandWrapper Store Schemas
begin

text \<open>
  The validation of a workspace, in three services of \<open>packages/application/src/services\<close>:
  \<open>validation-runner.service.ts\<close> runs the checks of a profile, \<open>validation-packet-emitter.service.ts\<close> writes the
  result down as a packet, and \<open>validation-gate.service.ts\<close> asks for a passing run before two transitions.

  The executor of the checks, which may also reject its promise, and the stores of packets and results are
  arguments; \<open>checkExecutor\<close> below is the executor of \<open>CommandWrapper\<close>.
\<close>

subsection \<open>Runner\<close>

datatype CheckCategory = required | optional

datatype OverallStatus = passed | failed

record ValidationCheckOutcome =
  vo_checkName :: string
  vo_command :: "string js_member"
  vo_category :: CheckCategory
  vo_status :: CheckStatus
  vo_durationMs :: int
  vo_output :: "string option"
  vo_errorMessage :: "string option"

record ValidationRunResult =
  vr_profileName :: string
  vr_overallStatus :: OverallStatus
  vr_checkOutcomes :: "ValidationCheckOutcome list"
  vr_summary :: string
  vr_totalDurationMs :: int
  vr_requiredPassedCount :: nat
  vr_requiredFailedCount :: nat
  vr_optionalPassedCount :: nat
  vr_optionalFailedCount :: nat
  vr_skippedCount :: nat

record RunValidationParams =
  rn_taskId :: string
  rn_profileName :: string
  rn_validationPolicy :: ValidationPolicy
  rn_workspacePath :: string

datatype run_error =
    MissingProfile MissingValidationProfileError
  | RunTypeError string
  | ExecutorRejected string

record PlannedCheck =
  pc_checkName :: string
  pc_command :: "string js_member option"
  pc_category :: CheckCategory

definition FAILING_STATUSES :: "CheckStatus list" where
  "FAILING_STATUSES = [CheckStatus.failed, CheckStatus.error]"

definition resolveChecks :: "string list \<Rightarrow> (string \<times> string) list \<Rightarrow> CheckCategory \<Rightarrow> PlannedCheck list" where
  "resolveChecks checkNames cmds category =
    map (\<lambda>checkName. \<lparr>pc_checkName = checkName, pc_command = js_get cmds checkName, pc_category = category\<rparr>) checkNames"

definition computeOverallStatus :: "nat \<Rightarrow> nat \<Rightarrow> bool \<Rightarrow> OverallStatus" where
  "computeOverallStatus requiredFailedCount skippedRequiredCount failOnSkippedRequired =
    (if requiredFailedCount > 0 then OverallStatus.failed
     else if failOnSkippedRequired \<and> skippedRequiredCount > 0 then OverallStatus.failed
     else OverallStatus.passed)"

record SummaryParams =
  sm_profileName :: string
  sm_taskId :: string
  sm_overallStatus :: OverallStatus
  sm_requiredPassedCount :: nat
  sm_requiredFailedCount :: nat
  sm_skippedRequiredCount :: nat
  sm_optionalPassedCount :: nat
  sm_optionalFailedCount :: nat
  sm_skippedCount :: nat

definition buildSummary :: "SummaryParams \<Rightarrow> string" where
  "buildSummary p =
    (let statusLabel = (if sm_overallStatus p = OverallStatus.passed then ''PASSED'' else ''FAILED'');
         requiredTotal = sm_requiredPassedCount p + sm_requiredFailedCount p + sm_skippedRequiredCount p;
         optionalTotal = sm_optionalPassedCount p + sm_optionalFailedCount p in
     join_strings '' ''
       ([''Validation '' @ statusLabel @ '' for task '' @ sm_taskId p @ '' using profile '' @ quoted (sm_profileName p) @ ''.'',
         ''Required: '' @ string_of_nat (sm_requiredPassedCount p) @ ''/'' @ string_of_nat requiredTotal @ '' passed.'']
        @ (if optionalTotal > 0
           then [''Optional: '' @ string_of_nat (sm_optionalPassedCount p) @ ''/'' @ string_of_nat optionalTotal @ '' passed.'']
           else [])
        @ (if sm_skippedCount p > 0 then [string_of_nat (sm_skippedCount p) @ '' check(s) skipped.''] else [])))"

type_synonym 'e check_executor = "ExecuteCheckParams \<Rightarrow> 'e \<Rightarrow> (string + CheckExecutionResult) \<times> 'e"

definition skippedOutcome :: "string \<Rightarrow> PlannedCheck \<Rightarrow> ValidationCheckOutcome" where
  "skippedOutcome profName check =
    \<lparr>vo_checkName = pc_checkName check, vo_command = Own [], vo_category = pc_category check,
     vo_status = CheckStatus.skipped, vo_durationMs = 0, vo_output = None,
     vo_errorMessage = Some (''No command mapping found for check '' @ quoted (pc_checkName check) @ '' in profile ''
       @ quoted profName)\<rparr>"

definition executedOutcome :: "PlannedCheck \<Rightarrow> CheckExecutionResult \<Rightarrow> ValidationCheckOutcome" where
  "executedOutcome check executionResult =
    \<lparr>vo_checkName = xr_checkName executionResult, vo_command = xr_command executionResult,
     vo_category = pc_category check, vo_status = xr_status executionResult,
     vo_durationMs = xr_durationMs executionResult, vo_output = xr_output executionResult,
     vo_errorMessage = xr_errorMessage executionResult\<rparr>"

fun runChecks ::
  "'e check_executor \<Rightarrow> string \<Rightarrow> string \<Rightarrow> PlannedCheck list \<Rightarrow> 'e \<Rightarrow> (string + ValidationCheckOutcome list) \<times> 'e" where
  "runChecks execute profName workspacePath [] e = (Inr [], e)"
| "runChecks execute profName workspacePath (check # rest) e =
    (let (first, e') = (case pc_command check of
           None \<Rightarrow> (Inr (skippedOutcome profName check), e)
         | Some cmd \<Rightarrow> apfst (map_sum id (executedOutcome check)) (execute
             \<lparr>xc_checkName = pc_checkName check, xc_command = cmd, xc_workspacePath = workspacePath\<rparr> e)) in
     case first of
       Inl err \<Rightarrow> (Inl err, e')
     | Inr outcome \<Rightarrow> apfst (map_sum id ((#) outcome)) (runChecks execute profName workspacePath rest e'))"

definition aggregate ::
  "RunValidationParams \<Rightarrow> ValidationProfile \<Rightarrow> ValidationCheckOutcome list \<Rightarrow> int \<Rightarrow> ValidationRunResult" where
  "aggregate params prof checkOutcomes totalDurationMs =
    (let requiredOutcomes = filter (\<lambda>c. vo_category c = required) checkOutcomes;
         optionalOutcomes = filter (\<lambda>c. vo_category c = optional) checkOutcomes;
         requiredPassedCount = length (filter (\<lambda>c. vo_status c = CheckStatus.passed) requiredOutcomes);
         requiredFailedCount = length (filter (\<lambda>c. vo_status c \<in> set FAILING_STATUSES) requiredOutcomes);
         optionalPassedCount = length (filter (\<lambda>c. vo_status c = CheckStatus.passed) optionalOutcomes);
         optionalFailedCount = length (filter (\<lambda>c. vo_status c \<in> set FAILING_STATUSES) optionalOutcomes);
         skippedCount = length (filter (\<lambda>c. vo_status c = CheckStatus.skipped) checkOutcomes);
         skippedRequiredCount = length (filter (\<lambda>c. vo_status c = CheckStatus.skipped) requiredOutcomes);
         overallStatus = computeOverallStatus requiredFailedCount skippedRequiredCount (fail_on_skipped_required_check prof);
         summary = buildSummary
           \<lparr>sm_profileName = rn_profileName params, sm_taskId = rn_taskId params, sm_overallStatus = overallStatus,
            sm_requiredPassedCount = requiredPassedCount, sm_requiredFailedCount = requiredFailedCount,
            sm_skippedRequiredCount = skippedRequiredCount, sm_optionalPassedCount = optionalPassedCount,
            sm_optionalFailedCount = optionalFailedCount, sm_skippedCount = skippedCount\<rparr> in
     \<lparr>vr_profileName = rn_profileName params, vr_overallStatus = overallStatus, vr_checkOutcomes = checkOutcomes,
      vr_summary = summary, vr_totalDurationMs = totalDurationMs, vr_requiredPassedCount = requiredPassedCount,
      vr_requiredFailedCount = requiredFailedCount, vr_optionalPassedCount = optionalPassedCount,
      vr_optionalFailedCount = optionalFailedCount, vr_skippedCount = skippedCount\<rparr>)"

definition plan :: "ValidationProfile \<Rightarrow> PlannedCheck list" where
  "plan prof = resolveChecks (required_checks prof) (commands prof) required
     @ resolveChecks (optional_checks prof) (commands prof) optional"

definition runValidation ::
  "'e check_executor \<Rightarrow> ('e \<Rightarrow> 'e \<Rightarrow> int) \<Rightarrow> RunValidationParams \<Rightarrow> 'e \<Rightarrow> (run_error + ValidationRunResult) \<times> 'e" where
  "runValidation execute elapsed params e =
    (let profName = rn_profileName params; available = profiles (rn_validationPolicy params) in
     case js_get available profName of
       None \<Rightarrow> (Inl (MissingProfile \<lparr>missing_profileName = profName, missing_source = TASK_OVERRIDE,
                  availableProfiles = map fst available\<rparr>), e)
     | Some (Inherited _) \<Rightarrow> (Inl (RunTypeError ''Cannot read properties of undefined (reading 'map')''), e)
     | Some (Own prof) \<Rightarrow>
         (case runChecks execute profName (rn_workspacePath params) (plan prof) e of
            (Inl err, e') \<Rightarrow> (Inl (ExecutorRejected err), e')
          | (Inr checkOutcomes, e') \<Rightarrow> (Inr (aggregate params prof checkOutcomes (elapsed e e')), e')))"

text \<open>The executor of the infrastructure package never rejects.\<close>

definition checkExecutor :: "'e processPort \<Rightarrow> CommandPolicy \<Rightarrow> CheckExecutorConfig \<Rightarrow> 'e check_executor" where
  "checkExecutor port commandPolicy config params e = apfst Inr (executeCheck port commandPolicy config params e)"

subsection \<open>Gate\<close>

record GateConfig =
  gc_fromStatus :: TaskStatus
  gc_toStatus :: TaskStatus
  gc_requiredProfile :: string

definition GATED_TRANSITIONS :: "GateConfig list" where
  "GATED_TRANSITIONS =
    [\<lparr>gc_fromStatus = TaskStatus.IN_DEVELOPMENT, gc_toStatus = TaskStatus.DEV_COMPLETE,
      gc_requiredProfile = DEFAULT_DEV_PROFILE_NAME\<rparr>,
     \<lparr>gc_fromStatus = TaskStatus.POST_MERGE_VALIDATION, gc_toStatus = TaskStatus.DONE,
      gc_requiredProfile = MERGE_GATE_PROFILE_NAME\<rparr>]"

record CheckGateParams =
  cg_taskId :: string
  cg_fromStatus :: TaskStatus
  cg_toStatus :: TaskStatus

record LatestValidationResult =
  lv_validationRunId :: string
  lv_profileName :: string
  lv_overallStatus :: OverallStatus
  lv_completedAt :: string

datatype ValidationGateResult =
    GateNotApplicableResult
  | GatePassedResult string string string
  | GateFailedResult string string "LatestValidationResult option"

fun OverallStatus_value :: "OverallStatus \<Rightarrow> string" where
  "OverallStatus_value OverallStatus.passed = ''passed''"
| "OverallStatus_value OverallStatus.failed = ''failed''"

definition findGateConfig :: "TaskStatus \<Rightarrow> TaskStatus \<Rightarrow> GateConfig option" where
  "findGateConfig fromStatus toStatus =
    find (\<lambda>g. gc_fromStatus g = fromStatus \<and> gc_toStatus g = toStatus) GATED_TRANSITIONS"

definition checkGate ::
  "(string \<Rightarrow> string \<Rightarrow> LatestValidationResult option) \<Rightarrow> CheckGateParams \<Rightarrow> ValidationGateResult" where
  "checkGate findLatestByTaskAndProfile params =
    (let move = TaskStatus_value (cg_fromStatus params) @ '' -> '' @ TaskStatus_value (cg_toStatus params) in
     case findGateConfig (cg_fromStatus params) (cg_toStatus params) of
       None \<Rightarrow> GateNotApplicableResult
     | Some gate \<Rightarrow>
         (case findLatestByTaskAndProfile (cg_taskId params) (gc_requiredProfile gate) of
            None \<Rightarrow> GateFailedResult (gc_requiredProfile gate)
              (''No validation run found for task '' @ quoted (cg_taskId params) @ '' with profile ''
               @ quoted (gc_requiredProfile gate) @ ''. A passing validation run is required before '' @ move @ ''.'') None
          | Some latestResult \<Rightarrow>
              if lv_overallStatus latestResult \<noteq> OverallStatus.passed then
                GateFailedResult (gc_requiredProfile gate)
                  (''Latest validation run '' @ quoted (lv_validationRunId latestResult) @ '' for profile ''
                   @ quoted (gc_requiredProfile gate) @ '' has status '' @ quoted (OverallStatus_value (lv_overallStatus latestResult))
                   @ ''. A passing result is required before '' @ move @ ''.'') (Some latestResult)
              else GatePassedResult (gc_requiredProfile gate) (lv_validationRunId latestResult) (lv_completedAt latestResult)))"

definition enforceValidationGate ::
  "(string \<Rightarrow> string \<Rightarrow> LatestValidationResult option) \<Rightarrow> CheckGateParams \<Rightarrow> app_error + ValidationGateResult" where
  "enforceValidationGate findLatestByTaskAndProfile params =
    (case checkGate findLatestByTaskAndProfile params of
       GateFailedResult profName why latest \<Rightarrow> Inl (ValidationGateError (cg_taskId params)
         (TaskStatus_value (cg_fromStatus params)) (TaskStatus_value (cg_toStatus params)) profName why)
     | result \<Rightarrow> Inr result)"

subsection \<open>Packets\<close>

definition KNOWN_CHECK_TYPES :: "string list" where
  "KNOWN_CHECK_TYPES = [''test'', ''lint'', ''build'', ''typecheck'', ''policy'', ''schema'', ''security'']"

definition DEFAULT_CHECK_TYPE :: string where
  "DEFAULT_CHECK_TYPE = ''policy''"

definition resolveCheckType :: "string \<Rightarrow> string" where
  "resolveCheckType checkName = (if checkName \<in> set KNOWN_CHECK_TYPES then checkName else DEFAULT_CHECK_TYPE)"

definition extractToolName :: "string \<Rightarrow> string" where
  "extractToolName cmd =
    (let trimmed = trim cmd in
     if trimmed = [] then ''unknown'' else takeWhile (\<lambda>c. c \<noteq> CHR '' '') trimmed)"

fun mapCheckStatus :: "CheckStatus \<Rightarrow> string" where
  "mapCheckStatus CheckStatus.passed = ''passed''"
| "mapCheckStatus CheckStatus.failed = ''failed''"
| "mapCheckStatus CheckStatus.skipped = ''skipped''"
| "mapCheckStatus CheckStatus.error = ''failed''"

fun mapOverallStatusToPacketStatus :: "OverallStatus \<Rightarrow> string" where
  "mapOverallStatusToPacketStatus OverallStatus.passed = ''success''"
| "mapOverallStatusToPacketStatus OverallStatus.failed = ''failed''"

text \<open>An empty error message counts as none.\<close>

definition buildCheckSummary :: "ValidationCheckOutcome \<Rightarrow> string" where
  "buildCheckSummary outcome =
    (let label = vo_checkName outcome;
         described = (\<lambda>status fallback. case vo_errorMessage outcome of
             Some (c # cs) \<Rightarrow> label @ '': '' @ status @ '' -- '' @ c # cs
           | _ \<Rightarrow> label @ '': '' @ fallback) in
     case vo_status outcome of
       CheckStatus.passed \<Rightarrow> label @ '': passed''
     | CheckStatus.failed \<Rightarrow> described ''failed'' ''failed''
     | CheckStatus.skipped \<Rightarrow> described ''skipped'' ''skipped''
     | CheckStatus.error \<Rightarrow> described ''error'' ''error (infrastructure failure)'')"

text \<open>A command that is no string has no method \<open>trim\<close>, which throws.\<close>

definition mapCheckOutcomeToResult :: "ValidationCheckOutcome \<Rightarrow> string + json" where
  "mapCheckOutcomeToResult outcome =
    (case vo_command outcome of
       Inherited _ \<Rightarrow> Inl ''command.trim is not a function''
     | Own cmd \<Rightarrow> Inr (JObj
         [(''check_type'', JStr (resolveCheckType (vo_checkName outcome))), (''tool_name'', JStr (extractToolName cmd)),
          (''command'', JStr (if cmd = [] then ''(no command for '' @ vo_checkName outcome @ '')'' else cmd)),
          (''status'', JStr (mapCheckStatus (vo_status outcome))), (''duration_ms'', JNum (vo_durationMs outcome)),
          (''summary'', JStr (buildCheckSummary outcome))]))"

record EmitValidationPacketParams =
  ep_taskId :: string
  ep_repositoryId :: string
  ep_validationRunId :: string
  ep_runScope :: string
  ep_validationRunResult :: ValidationRunResult

record EmitValidationPacketResult =
  ev_packet :: json
  ev_artifactPath :: string

datatype emit_error = ValidationPacketSchemaError "zod_issue list" | EmitTypeError string | PersistRejected string

fun traverse :: "('a \<Rightarrow> 'b + 'c) \<Rightarrow> 'a list \<Rightarrow> 'b + 'c list" where
  "traverse f [] = Inr []"
| "traverse f (x # xs) = (case f x of Inl e \<Rightarrow> Inl e | Inr y \<Rightarrow> map_sum id ((#) y) (traverse f xs))"

definition assemblePacket :: "string \<Rightarrow> EmitValidationPacketParams \<Rightarrow> json list \<Rightarrow> json" where
  "assemblePacket now params checks = JObj
     [(''packet_type'', JStr ''validation_result_packet''), (''schema_version'', JStr ''1.0''), (''created_at'', JStr now),
      (''task_id'', JStr (ep_taskId params)), (''repository_id'', JStr (ep_repositoryId params)),
      (''validation_run_id'', JStr (ep_validationRunId params)),
      (''status'', JStr (mapOverallStatusToPacketStatus (vr_overallStatus (ep_validationRunResult params)))),
      (''summary'', JStr (vr_summary (ep_validationRunResult params))),
      (''details'', JObj [(''run_scope'', JStr (ep_runScope params)), (''checks'', JArr checks)])]"

definition emitPacket ::
  "safe_parse \<Rightarrow> (string \<Rightarrow> json \<Rightarrow> 's \<Rightarrow> (string + string) \<times> 's) \<Rightarrow> string \<Rightarrow> EmitValidationPacketParams \<Rightarrow> 's
    \<Rightarrow> (emit_error + EmitValidationPacketResult) \<times> 's" where
  "emitPacket safeParse persist now params st =
    (case traverse mapCheckOutcomeToResult (vr_checkOutcomes (ep_validationRunResult params)) of
       Inl e \<Rightarrow> (Inl (EmitTypeError e), st)
     | Inr checks \<Rightarrow>
         (case safeParse ValidationResultPacketSchema (Some (assemblePacket now params checks)) of
            Inl issues \<Rightarrow> (Inl (ValidationPacketSchemaError issues), st)
          | Inr v \<Rightarrow>
              let packet = (case v of Some p \<Rightarrow> p | None \<Rightarrow> JNull) in
              (case persist (ep_validationRunId params) packet st of
                 (Inl e, st') \<Rightarrow> (Inl (PersistRejected e), st')
               | (Inr path, st') \<Rightarrow> (Inr \<lparr>ev_packet = packet, ev_artifactPath = path\<rparr>, st'))))"

subsection \<open>What a run shows\<close>

lemma runChecks_executor:
  assumes "\<And>p e. \<exists>r. fst (execute p e) = Inr r \<and> xr_checkName r = xc_checkName p \<and> xr_command r = xc_command p
      \<and> xr_status r \<noteq> CheckStatus.skipped"
  shows "\<exists>os. fst (runChecks execute n ws checks e) = Inr os \<and> map vo_checkName os = map pc_checkName checks
    \<and> map vo_category os = map pc_category checks
    \<and> map (\<lambda>o'. vo_status o' = CheckStatus.skipped) os = map (\<lambda>c. pc_command c = None) checks
    \<and> map vo_command os = map (\<lambda>m. case m of None \<Rightarrow> Own [] | Some cmd \<Rightarrow> cmd) (map pc_command checks)"
proof (induction checks arbitrary: e)
  case (Cons c checks)
  show ?case
  proof (cases "pc_command c")
    case None
    then show ?thesis using Cons.IH[of e]
      by (auto simp: skippedOutcome_def Let_def apfst_def map_prod_def case_prod_beta)
  next
    case (Some cmd)
    obtain r where r: "fst (execute \<lparr>xc_checkName = pc_checkName c, xc_command = cmd, xc_workspacePath = ws\<rparr> e) = Inr r"
      "xr_checkName r = pc_checkName c" "xr_command r = cmd" "xr_status r \<noteq> CheckStatus.skipped"
      using assms[of "\<lparr>xc_checkName = pc_checkName c, xc_command = cmd, xc_workspacePath = ws\<rparr>" e] by auto
    show ?thesis
      using Cons.IH[of "snd (execute \<lparr>xc_checkName = pc_checkName c, xc_command = cmd, xc_workspacePath = ws\<rparr> e)"] r Some
      by (auto simp: executedOutcome_def case_prod_beta)
  qed
qed simp

lemma runChecks_spawns:
  "snd (snd (runChecks (checkExecutor (recording port) pol cfg) n ws checks (e, log)))
    = log @ concat (map (\<lambda>c. case pc_command c of None \<Rightarrow> [] | Some cmd \<Rightarrow> spawned port pol cmd) checks)"
proof (induction checks arbitrary: e log)
  case (Cons c checks)
  show ?case
  proof (cases "pc_command c")
    case None
    then show ?thesis using Cons.IH by simp
  next
    case (Some cmd)
    let ?p = "\<lparr>xc_checkName = pc_checkName c, xc_command = cmd, xc_workspacePath = ws\<rparr>"
    obtain r e' log' where r: "executeCheck (recording port) pol cfg ?p (e, log) = (r, e', log')" by (metis prod.exhaust)
    have "log' = log @ spawned port pol cmd" using executeCheck_spawns[of port pol cfg ?p e log] r by simp
    then show ?thesis using Cons.IH[of e' log'] r Some by (simp add: checkExecutor_def)
  qed
qed simp

lemma checkExecutor_mirrors:
  "\<exists>r. fst (checkExecutor port pol cfg p e) = Inr r \<and> xr_checkName r = xc_checkName p \<and> xr_command r = xc_command p
    \<and> xr_status r \<noteq> CheckStatus.skipped"
  using executeCheck_mirrors[of port pol cfg p e] by (simp add: checkExecutor_def)

lemma aggregate_status:
  "vr_overallStatus (aggregate params prof os t) = OverallStatus.passed \<longleftrightarrow>
    (\<forall>c \<in> set os. vo_category c = required \<longrightarrow> vo_status c = CheckStatus.passed
      \<or> vo_status c = CheckStatus.skipped \<and> \<not> fail_on_skipped_required_check prof)"
proof -
  have "(s = CheckStatus.passed \<or> s = CheckStatus.skipped \<and> \<not> b)
      \<longleftrightarrow> s \<notin> set FAILING_STATUSES \<and> \<not> (b \<and> s = CheckStatus.skipped)" for s b
    by (cases s) (auto simp: FAILING_STATUSES_def)
  then show ?thesis by (auto simp: aggregate_def Let_def computeOverallStatus_def filter_empty_conv)
qed

lemma aggregate_counts:
  "vr_requiredPassedCount (aggregate params prof os t) + vr_requiredFailedCount (aggregate params prof os t)
     + vr_optionalPassedCount (aggregate params prof os t) + vr_optionalFailedCount (aggregate params prof os t)
     + vr_skippedCount (aggregate params prof os t) = length os"
proof -
  have s: "vo_status c \<in> set FAILING_STATUSES \<longleftrightarrow> vo_status c \<noteq> CheckStatus.passed \<and> vo_status c \<noteq> CheckStatus.skipped"
    and k: "vo_category c = optional \<longleftrightarrow> vo_category c \<noteq> required" for c
    by (cases "vo_status c"; cases "vo_category c"; simp add: FAILING_STATUSES_def)+
  show ?thesis unfolding aggregate_def Let_def s k by (induction os) auto
qed

lemma plan_names: "map pc_checkName (plan prof) = getAllChecks prof"
  "map pc_category (plan prof) = map (\<lambda>_. required) (required_checks prof) @ map (\<lambda>_. optional) (optional_checks prof)"
  "map pc_command (plan prof) = map (js_get (commands prof)) (getAllChecks prof)"
  "map (\<lambda>c. pc_command c = None) (plan prof) = map (\<lambda>check. js_get (commands prof) check = None) (getAllChecks prof)"
  by (simp_all add: plan_def resolveChecks_def getAllChecks_def comp_def)

text \<open>
  (C29) A validation run.  With the executor of the infrastructure package a run of an existing profile always
  returns.  It has one outcome per required and optional check, in this order, and the counts add up to
  them; a check is skipped exactly when the profile has no command for it.  The run passes exactly when
  every required check passed, or was skipped where the profile tolerates it.  The processes it starts are
  exactly those of the commands of the checks that the command policy allows, in order, each once.
\<close>

theorem validation_run_exact:
  shows "case js_get (profiles (rn_validationPolicy params)) (rn_profileName params) of
      None \<Rightarrow> \<exists>err. fst (runValidation (checkExecutor (recording port) pol cfg) elapsed params (e, log)) = Inl (MissingProfile err)
    | Some (Inherited _) \<Rightarrow> \<exists>msg. fst (runValidation (checkExecutor (recording port) pol cfg) elapsed params (e, log)) = Inl (RunTypeError msg)
    | Some (Own prof) \<Rightarrow> \<exists>r e'. runValidation (checkExecutor (recording port) pol cfg) elapsed params (e, log)
          = (Inr r, e', log @ concat (map (\<lambda>check. case js_get (commands prof) check of
               None \<Rightarrow> [] | Some cmd \<Rightarrow> spawned port pol cmd) (required_checks prof @ optional_checks prof)))
        \<and> map vo_checkName (vr_checkOutcomes r) = required_checks prof @ optional_checks prof
        \<and> map (\<lambda>c. vo_status c = CheckStatus.skipped) (vr_checkOutcomes r)
            = map (\<lambda>check. js_get (commands prof) check = None) (required_checks prof @ optional_checks prof)
        \<and> (vr_overallStatus r = OverallStatus.passed \<longleftrightarrow>
            (\<forall>c \<in> set (take (length (required_checks prof)) (vr_checkOutcomes r)).
               vo_status c = CheckStatus.passed
               \<or> vo_status c = CheckStatus.skipped \<and> \<not> fail_on_skipped_required_check prof))
        \<and> vr_requiredPassedCount r + vr_requiredFailedCount r + vr_optionalPassedCount r + vr_optionalFailedCount r
            + vr_skippedCount r = length (required_checks prof @ optional_checks prof)"
proof (cases "js_get (profiles (rn_validationPolicy params)) (rn_profileName params)")
  case None
  then show ?thesis by (simp add: runValidation_def Let_def)
next
  case (Some m)
  show ?thesis
  proof (cases m)
    case (Inherited k)
    then show ?thesis using Some by (simp add: runValidation_def Let_def)
  next
    case (Own prof)
    let ?x = "checkExecutor (recording port) pol cfg" and ?n = "rn_profileName params" and ?ws = "rn_workspacePath params"
    obtain os where os: "fst (runChecks ?x ?n ?ws (plan prof) (e, log)) = Inr os" "map vo_checkName os = getAllChecks prof"
      "map vo_category os = map (\<lambda>_. required) (required_checks prof) @ map (\<lambda>_. optional) (optional_checks prof)"
      "map (\<lambda>c. vo_status c = CheckStatus.skipped) os = map (\<lambda>check. js_get (commands prof) check = None) (getAllChecks prof)"
      using runChecks_executor[of ?x ?n ?ws "plan prof" "(e, log)", OF checkExecutor_mirrors] unfolding plan_names by blast
    obtain e' log' where run: "runChecks ?x ?n ?ws (plan prof) (e, log) = (Inr os, e', log')"
      using os(1) by (metis prod.exhaust fst_conv)
    have log: "log' = log @ concat (map (\<lambda>check. case js_get (commands prof) check of None \<Rightarrow> [] | Some cmd \<Rightarrow> spawned port pol cmd) (getAllChecks prof))"
    proof -
      have "map (\<lambda>c. case pc_command c of None \<Rightarrow> [] | Some cmd \<Rightarrow> spawned port pol cmd) (plan prof)
          = map (\<lambda>m. case m of None \<Rightarrow> [] | Some cmd \<Rightarrow> spawned port pol cmd) (map pc_command (plan prof))" by simp
      then show ?thesis using runChecks_spawns[of port pol cfg ?n ?ws "plan prof" e log] run by (simp add: plan_names comp_def)
    qed
    let ?k = "length (required_checks prof)"
    have cats: "map vo_category (take ?k os) = map (\<lambda>_. required) (required_checks prof)"
      "map vo_category (drop ?k os) = map (\<lambda>_. optional) (optional_checks prof)"
      using os(3) by (simp_all flip: take_map drop_map)
    have "vo_category ` set (take ?k os) \<subseteq> {required}" "vo_category ` set (drop ?k os) \<subseteq> {optional}"
      using arg_cong[OF cats(1), of set] arg_cong[OF cats(2), of set] by auto
    then have cat: "\<forall>c \<in> set (take ?k os). vo_category c = required" "\<forall>c \<in> set (drop ?k os). vo_category c \<noteq> required"
      by (auto simp: image_subset_iff)
    have split: "(\<forall>c \<in> set os. vo_category c = required \<longrightarrow> Q c) \<longleftrightarrow> (\<forall>c \<in> set (take ?k os). Q c)" for Q
      using cat set_append[of "take ?k os" "drop ?k os"] unfolding append_take_drop_id by blast
    have "length os = length (getAllChecks prof)" using os(2) by (metis length_map)
    then show ?thesis
      using os(2,4) run log aggregate_counts[of params prof os] Some Own
      by (simp add: runValidation_def Let_def aggregate_status split getAllChecks_def comp_def plan_names)
        (simp add: aggregate_def Let_def)
  qed
qed

definition quiet_port :: "unit processPort" where
  "quiet_port = \<lparr>runProcess = (\<lambda>_ _ _ e. (\<lparr>pr_exitCode = Some 0, pr_stdout = [], pr_stderr = []\<rparr>, e)),
     elapsedMs = (\<lambda>_ _. 5), isoNow = (\<lambda>_. ''2026-03-10T00:00:00Z''), compileRegExp = anchored_literal\<rparr>"

definition dev_run :: RunValidationParams where
  "dev_run = \<lparr>rn_taskId = ''T1'', rn_profileName = DEFAULT_DEV_PROFILE_NAME,
     rn_validationPolicy = createDefaultValidationPolicy, rn_workspacePath = ''/w''\<rparr>"

definition no_config :: CheckExecutorConfig where
  "no_config = \<lparr>xf_timeoutMs = None, xf_maxOutputBytes = None, xf_maxOutputChars = None\<rparr>"

theorem validation_run_exact_witness:
  "\<exists>r. runValidation (checkExecutor (recording quiet_port) DEFAULT_COMMAND_POLICY no_config) (\<lambda>_ _. 5) dev_run ((), [])
      = (Inr r, (), [(''pnpm'', [''test'']), (''pnpm'', [''lint'']), (''pnpm'', [''build''])])
    \<and> map vo_checkName (vr_checkOutcomes r) = [''test'', ''lint'', ''build'']"
proof -
  have prof: "js_get (profiles (rn_validationPolicy dev_run)) (rn_profileName dev_run) = Some (Own DEFAULT_DEV_PROFILE)"
    by (simp add: dev_run_def createDefaultValidationPolicy_def js_get_def)
  have "concat (map (\<lambda>check. case js_get (commands DEFAULT_DEV_PROFILE) check of None \<Rightarrow> []
      | Some cmd \<Rightarrow> spawned quiet_port DEFAULT_COMMAND_POLICY cmd)
      (required_checks DEFAULT_DEV_PROFILE @ optional_checks DEFAULT_DEV_PROFILE))
      = [(''pnpm'', [''test'']), (''pnpm'', [''lint'']), (''pnpm'', [''build''])]"
    by code_simp
  moreover have "required_checks DEFAULT_DEV_PROFILE @ optional_checks DEFAULT_DEV_PROFILE = [''test'', ''lint'', ''build'']"
    by (simp add: DEFAULT_DEV_PROFILE_def)
  ultimately show ?thesis
    using validation_run_exact[where params = dev_run and port = quiet_port and pol = DEFAULT_COMMAND_POLICY and cfg = no_config
        and elapsed = "\<lambda>_ _. 5" and e = "()" and log = "[]", unfolded prof] by auto
qed

text \<open>
  The gate lets a task complete development, or become done after its merge, exactly when the latest
  run of the default profile, or of the merge gate, passed.  Every other transition is not its business; a
  refusal names the transition and the profile.
\<close>

lemma validation_gate_exact:
  shows "enforceValidationGate latest \<lparr>cg_taskId = i, cg_fromStatus = s, cg_toStatus = s'\<rparr>
    = (let need = (if s = TaskStatus.IN_DEVELOPMENT \<and> s' = TaskStatus.DEV_COMPLETE then Some ''default-dev''
                   else if s = TaskStatus.POST_MERGE_VALIDATION \<and> s' = TaskStatus.DONE then Some ''merge-gate''
                   else None);
           result = checkGate latest \<lparr>cg_taskId = i, cg_fromStatus = s, cg_toStatus = s'\<rparr> in
       case need of
         None \<Rightarrow> Inr GateNotApplicableResult
       | Some p \<Rightarrow>
           (case latest i p of
              Some run \<Rightarrow> if lv_overallStatus run = OverallStatus.passed
                then Inr (GatePassedResult p (lv_validationRunId run) (lv_completedAt run))
                else Inl (ValidationGateError i (TaskStatus_value s) (TaskStatus_value s') p
                  (case result of GateFailedResult _ why _ \<Rightarrow> why | _ \<Rightarrow> []))
            | None \<Rightarrow> Inl (ValidationGateError i (TaskStatus_value s) (TaskStatus_value s') p
                (case result of GateFailedResult _ why _ \<Rightarrow> why | _ \<Rightarrow> []))))"
  by (auto simp: enforceValidationGate_def checkGate_def findGateConfig_def GATED_TRANSITIONS_def Let_def
      DEFAULT_DEV_PROFILE_NAME_def MERGE_GATE_PROFILE_NAME_def split: option.split)

lemma trim_head: "trim s \<noteq> [] \<Longrightarrow> \<not> js_space (hd (trim s))"
proof -
  let ?u = "dropWhile js_space s"
  assume n: "trim s \<noteq> []"
  obtain zs where "?u = trim s @ zs"
    unfolding trim_def by (metis append_take_drop_id rev_append rev_rev_ident takeWhile_dropWhile_id)
  then have "hd (trim s) = hd ?u" and "?u \<noteq> []" using n by (simp_all add: hd_append)
  then show "\<not> js_space (hd (trim s))" by (simp add: hd_dropWhile)
qed

lemma tool_name_nonempty: "extractToolName cmd \<noteq> []"
proof (cases "trim cmd")
  case (Cons c cs)
  then have "\<not> js_space c" using trim_head[of cmd] by simp
  then have "c \<noteq> CHR '' ''" by (auto simp: js_space_def)
  then show ?thesis using Cons by (simp add: extractToolName_def)
qed (simp add: extractToolName_def)

lemma traverse_Inr: "traverse f xs = Inr ys \<longleftrightarrow> list_all2 (\<lambda>x y. f x = Inr y) xs ys"
proof (induction xs arbitrary: ys)
  case (Cons x xs)
  have "traverse f (x # xs) = Inr ys \<longleftrightarrow> (\<exists>z zs. f x = Inr z \<and> traverse f xs = Inr zs \<and> ys = z # zs)"
    by (cases "f x"; cases "traverse f xs"; auto)
  then show ?case unfolding Cons.IH list_all2_Cons1 by blast
qed auto

context zod_library
begin

text \<open>An object whose fields are accepted as they are, with its properties in the order of the schema.\<close>

lemma object_accepts:
  assumes "\<forall>(k, z) \<in> set fs. safeParse z (map_of kvs k) = Inr (map_of kvs k)"
    and "present (map fst fs) (map (map_of kvs) (map fst fs)) = kvs"
  shows "safeParse (ZObject fs) (Some (JObj kvs)) = Inr (Some (JObj kvs))"
proof -
  have "list_all2 (\<lambda>(k, z) w. safeParse z (map_of kvs k) = Inr w) fs (map (map_of kvs) (map fst fs))"
    using assms(1) by (auto simp: list_all2_conv_all_nth case_prod_beta)
  then show ?thesis unfolding object_ok by (intro exI conjI) (rule refl, assumption, simp only: assms(2))
qed

lemma check_object_valid:
  assumes "a \<in> set [''test'', ''lint'', ''build'', ''typecheck'', ''policy'', ''schema'', ''security'']"
    and "b \<noteq> []" and "c \<noteq> []" and "d \<in> set [''passed'', ''failed'', ''skipped'']" and "0 \<le> n" and "e \<noteq> []"
  shows "safeParse ValidationCheckResultSchema (Some (JObj [(''check_type'', JStr a), (''tool_name'', JStr b),
      (''command'', JStr c), (''status'', JStr d), (''duration_ms'', JNum n), (''summary'', JStr e)]))
    = Inr (Some (JObj [(''check_type'', JStr a), (''tool_name'', JStr b),
      (''command'', JStr c), (''status'', JStr d), (''duration_ms'', JNum n), (''summary'', JStr e)]))"
proof -
  have enums: "safeParse ValidationCheckTypeSchema (Some (JStr a)) = Inr (Some (JStr a))"
    "safeParse ValidationCheckStatusSchema (Some (JStr d)) = Inr (Some (JStr d))"
    using assms(1,4) unfolding ValidationCheckTypeSchema_def ValidationCheckStatusSchema_def zodEnumFromConst_def enum_ok by blast+
  show ?thesis
    unfolding ValidationCheckResultSchema_def
    by (rule object_accepts) (simp_all add: enums assms(2,3,5,6) nonempty_ok int_ok optional_ok)
qed

lemma check_result_valid:
  assumes "vo_command c = Own cmd" and "0 \<le> vo_durationMs c"
  obtains j where "mapCheckOutcomeToResult c = Inr j" "safeParse ValidationCheckResultSchema (Some j) = Inr (Some j)"
proof -
  have ty: "resolveCheckType (vo_checkName c) \<in> set [''test'', ''lint'', ''build'', ''typecheck'', ''policy'', ''schema'', ''security'']"
    by (auto simp: resolveCheckType_def KNOWN_CHECK_TYPES_def DEFAULT_CHECK_TYPE_def)
  have st: "mapCheckStatus (vo_status c) \<in> set [''passed'', ''failed'', ''skipped'']" by (cases "vo_status c") simp_all
  have sm: "buildCheckSummary c \<noteq> []" by (auto simp: buildCheckSummary_def Let_def split: CheckStatus.split option.split list.split)
  have cmd: "(if cmd = [] then ''(no command for '' @ vo_checkName c @ '')'' else cmd) \<noteq> []" by simp
  show ?thesis by (rule that[OF _ check_object_valid[OF ty tool_name_nonempty cmd st assms(2) sm]])
      (simp only: mapCheckOutcomeToResult_def assms(1) js_member.case)
qed

lemma assembled_valid:
  assumes ids: "ep_taskId params \<noteq> []" "ep_repositoryId params \<noteq> []" "ep_validationRunId params \<noteq> []"
    "vr_summary (ep_validationRunResult params) \<noteq> []"
    and scope: "ep_runScope params \<in> set [''pre-dev'', ''during-dev'', ''pre-review'', ''pre-merge'', ''post-merge'']"
    and now: "isDatetime now" and checks: "\<forall>j \<in> set js. safeParse ValidationCheckResultSchema (Some j) = Inr (Some j)"
  shows "safeParse ValidationResultPacketSchema (Some (assemblePacket now params js)) = Inr (Some (assemblePacket now params js))"
proof -
  let ?details = "JObj [(''run_scope'', JStr (ep_runScope params)), (''checks'', JArr js)]"
  have arr: "safeParse (ZArray 0 ValidationCheckResultSchema) (Some (JArr js)) = Inr (Some (JArr js))"
    using checks by (auto simp: array_ok list_all2_same)
  have st: "safeParse PacketStatusSchema (Some (JStr (mapOverallStatusToPacketStatus o')))
      = Inr (Some (JStr (mapOverallStatusToPacketStatus o')))" for o'
    unfolding PacketStatusSchema_def zodEnumFromConst_def by (cases o') (simp_all add: enum_ok)
  have sc: "safeParse ValidationRunScopeSchema (Some (JStr (ep_runScope params))) = Inr (Some (JStr (ep_runScope params)))"
    using scope unfolding ValidationRunScopeSchema_def zodEnumFromConst_def enum_ok by blast
  have det: "safeParse ValidationResultPacketDetailsSchema (Some ?details) = Inr (Some ?details)"
    unfolding ValidationResultPacketDetailsSchema_def by (rule object_accepts) (simp_all add: sc arr)
  show ?thesis
    unfolding ValidationResultPacketSchema_def assemblePacket_def
    by (rule object_accepts) (simp_all add: ids now st det literal_ok datetime_ok nonempty_ok)
qed

end

lemma runChecks_durations:
  assumes "\<And>p e r. fst (execute p e) = Inr r \<Longrightarrow> 0 \<le> xr_durationMs r"
  shows "fst (runChecks execute n ws checks e) = Inr os \<Longrightarrow> \<forall>c \<in> set os. 0 \<le> vo_durationMs c"
proof (induction checks arbitrary: e os)
  case (Cons c checks)
  show ?case
  proof (cases "pc_command c")
    case None
    then show ?thesis using Cons.IH[of e] Cons.prems
      by (cases "fst (runChecks execute n ws checks e)") (auto simp: skippedOutcome_def)
  next
    case (Some cmd)
    let ?p = "\<lparr>xc_checkName = pc_checkName c, xc_command = cmd, xc_workspacePath = ws\<rparr>"
    obtain x e' where x: "execute ?p e = (x, e')" by fastforce
    show ?thesis
    proof (cases x)
      case (Inr r)
      have "0 \<le> xr_durationMs r" using assms[of ?p e r] x Inr by simp
      then show ?thesis using Cons.IH[of e'] Cons.prems Some x Inr
        by (cases "fst (runChecks execute n ws checks e')") (auto simp: executedOutcome_def)
    qed (use Cons.prems Some x in simp)
  qed
qed simp

lemma executeCheck_duration:
  assumes "\<And>e e'. 0 \<le> elapsedMs port e e'"
  shows "0 \<le> xr_durationMs (fst (executeCheck port pol cfg p e))"
  using assms
  by (auto simp: executeCheck_def Let_def case_prod_beta handleCommandFailure_def handlePolicyViolation_def
      handleUnexpectedError_def split: js_member.split sum.split command_error.split)

lemma run_outcomes:
  assumes "runValidation (checkExecutor port pol cfg) elapsed params e = (Inr r, e')" and "\<And>e e'. 0 \<le> elapsedMs port e e'"
  shows "vr_summary r \<noteq> []" and "\<forall>c \<in> set (vr_checkOutcomes r). 0 \<le> vo_durationMs c"
proof -
  obtain prof os e2 where o: "runChecks (checkExecutor port pol cfg) (rn_profileName params) (rn_workspacePath params) (plan prof) e = (Inr os, e2)"
    "r = aggregate params prof os (elapsed e e2)"
    using assms(1) by (auto simp: runValidation_def Let_def split: option.splits js_member.splits prod.splits sum.splits)
  have "0 \<le> xr_durationMs x" if "fst (checkExecutor port pol cfg p e) = Inr x" for p e x
    using that executeCheck_duration[OF assms(2), of pol cfg p e] by (simp add: checkExecutor_def)
  then show "\<forall>c \<in> set (vr_checkOutcomes r). 0 \<le> vo_durationMs c"
    using runChecks_durations[of "checkExecutor port pol cfg" "rn_profileName params" "rn_workspacePath params" "plan prof" e os] o(1)
    by (simp add: o(2) aggregate_def Let_def)
  show "vr_summary r \<noteq> []" by (simp add: o(2) aggregate_def Let_def buildSummary_def)
qed

text \<open>
  (C30) The packet of a run.  With the executor of the infrastructure package and a clock that does not run backwards,
  the packet assembled from a run whose commands are texts satisfies its own schema: the emitter never
  fails for the schema, and stores exactly one packet, which reports success exactly when the run passed.
\<close>

theorem emitted_packet_valid:
  assumes zod: "zod_library safeParse isDatetime" and now: "isDatetime now"
    and run: "runValidation (checkExecutor port pol cfg) elapsed params e = (Inr r, e')"
    and clock: "\<And>e e'. 0 \<le> elapsedMs port e e'"
    and texts: "\<forall>c \<in> set (vr_checkOutcomes r). \<exists>cmd. vo_command c = Own cmd"
    and p: "p = \<lparr>ep_taskId = i, ep_repositoryId = ri, ep_validationRunId = vi, ep_runScope = scope, ep_validationRunResult = r\<rparr>"
    and ids: "i \<noteq> []" "ri \<noteq> []" "vi \<noteq> []"
    and scope: "scope \<in> set [''pre-dev'', ''during-dev'', ''pre-review'', ''pre-merge'', ''post-merge'']"
  shows "\<exists>js. list_all2 (\<lambda>c j. mapCheckOutcomeToResult c = Inr j) (vr_checkOutcomes r) js
    \<and> emitPacket safeParse persist now p st = (case persist vi (assemblePacket now p js) st of
        (Inl x, st') \<Rightarrow> (Inl (PersistRejected x), st')
      | (Inr path, st') \<Rightarrow> (Inr \<lparr>ev_packet = assemblePacket now p js, ev_artifactPath = path\<rparr>, st'))
    \<and> json_get (assemblePacket now p js) ''status''
        = Some (JStr (if vr_overallStatus r = OverallStatus.passed then ''success'' else ''failed''))"
proof -
  note o = run_outcomes[OF run clock]
  have "\<exists>j. mapCheckOutcomeToResult c = Inr j \<and> safeParse ValidationCheckResultSchema (Some j) = Inr (Some j)"
    if "c \<in> set (vr_checkOutcomes r)" for c
    using that texts o(2) zod_library.check_result_valid[OF zod, of c] by metis
  then obtain f where f: "\<forall>c \<in> set (vr_checkOutcomes r). mapCheckOutcomeToResult c = Inr (f c)
      \<and> safeParse ValidationCheckResultSchema (Some (f c)) = Inr (Some (f c))" by metis
  let ?js = "map f (vr_checkOutcomes r)"
  have js: "list_all2 (\<lambda>c j. mapCheckOutcomeToResult c = Inr j) (vr_checkOutcomes r) ?js"
    using f by (simp add: list_all2_map2 list_all2_same)
  have "safeParse ValidationResultPacketSchema (Some (assemblePacket now p ?js)) = Inr (Some (assemblePacket now p ?js))"
    by (rule zod_library.assembled_valid[OF zod]) (use ids scope now f o(1) p in auto)
  then have "emitPacket safeParse persist now p st = (case persist vi (assemblePacket now p ?js) st of
        (Inl x, st') \<Rightarrow> (Inl (PersistRejected x), st')
      | (Inr path, st') \<Rightarrow> (Inr \<lparr>ev_packet = assemblePacket now p ?js, ev_artifactPath = path\<rparr>, st'))"
    using js[folded traverse_Inr] unfolding p by (simp add: emitPacket_def Let_def)
  moreover have "json_get (assemblePacket now p ?js) ''status''
      = Some (JStr (if vr_overallStatus r = OverallStatus.passed then ''success'' else ''failed''))"
    by (cases "vr_overallStatus r") (simp_all add: assemblePacket_def json_get_def p)
  ultimately show ?thesis using js by blast
qed

theorem emitted_packet_valid_witness:
  "\<exists>r p js. runValidation (checkExecutor quiet_port DEFAULT_COMMAND_POLICY no_config) (\<lambda>_ _. 5) dev_run () = (Inr r, ())
    \<and> ep_validationRunResult p = r
    \<and> emitPacket zod_check (\<lambda>i packet st. (Inr i, packet # st)) ''2026-03-10T00:00:00Z'' p []
        = (Inr \<lparr>ev_packet = assemblePacket ''2026-03-10T00:00:00Z'' p js, ev_artifactPath = ''V1''\<rparr>,
           [assemblePacket ''2026-03-10T00:00:00Z'' p js])"
proof -
  let ?run = "runValidation (checkExecutor quiet_port DEFAULT_COMMAND_POLICY no_config) (\<lambda>_ _. 5) dev_run ()"
  have prof: "js_get (profiles (rn_validationPolicy dev_run)) (rn_profileName dev_run) = Some (Own DEFAULT_DEV_PROFILE)"
    by (simp add: dev_run_def createDefaultValidationPolicy_def js_get_def)
  obtain os where os: "fst (runChecks (checkExecutor quiet_port DEFAULT_COMMAND_POLICY no_config) (rn_profileName dev_run)
      (rn_workspacePath dev_run) (plan DEFAULT_DEV_PROFILE) ()) = Inr os"
    "map vo_command os = map (\<lambda>m. case m of None \<Rightarrow> Own [] | Some cmd \<Rightarrow> cmd) (map pc_command (plan DEFAULT_DEV_PROFILE))"
    using runChecks_executor[of "checkExecutor quiet_port DEFAULT_COMMAND_POLICY no_config" "rn_profileName dev_run" "rn_workspacePath dev_run"
        "plan DEFAULT_DEV_PROFILE" "()", OF checkExecutor_mirrors] by blast
  have "map pc_command (plan DEFAULT_DEV_PROFILE) = [Some (Own ''pnpm test''), Some (Own ''pnpm lint''), Some (Own ''pnpm build'')]"
    by code_simp
  then have "vo_command ` set os \<subseteq> range Own" using arg_cong[OF os(2), of set] by auto
  moreover obtain r where r: "?run = (Inr r, ())" "vr_checkOutcomes r = os"
    using os(1) by (auto simp: runValidation_def Let_def prof aggregate_def prod_eq_iff split: prod.split sum.split)
  ultimately have texts: "\<forall>c \<in> set (vr_checkOutcomes r). \<exists>cmd. vo_command c = Own cmd" by auto
  have clock: "0 \<le> elapsedMs quiet_port e e'" for e e' by (simp add: quiet_port_def)
  have now: "iso_datetime ''2026-03-10T00:00:00Z''" by code_simp
  let ?p = "\<lparr>ep_taskId = ''T1'', ep_repositoryId = ''R1'', ep_validationRunId = ''V1'', ep_runScope = ''pre-review'', ep_validationRunResult = r\<rparr>"
  show ?thesis
    using emitted_packet_valid[OF checked.zod_library_axioms now r(1) clock texts refl, of "''T1''" "''R1''" "''V1''" "''pre-review''"
        "\<lambda>i packet st. (Inr i, packet # st)" "[]"] r(1)
    by (intro exI[of _ r] exI[of _ ?p]) auto
qed

end
