(* ===== verification/Async.thy ===== *)
theory Async
  imports Store
begin

text \<open>
  Asynchronous code.  The promises of the services run interleaved with everything else: while one waits for a
  port, anything may happen outside and in the database.  Such code is a function on the state \<open>'g\<close> of the
  outside and the world; it returns or throws, and a port may change both parts of the state.
\<close>

type_synonym ('e, 'g, 'a) async = "'g \<times> world \<Rightarrow> ('e + 'a) \<times> 'g \<times> world"

definition andThen :: "('e, 'g, 'a) async \<Rightarrow> ('a \<Rightarrow> ('e, 'g, 'b) async) \<Rightarrow> ('e, 'g, 'b) async" where
  "andThen m f s = (case m s of (Inl e, s') \<Rightarrow> (Inl e, s') | (Inr a, s') \<Rightarrow> f a s')"

definition resolved :: "'a \<Rightarrow> ('e, 'g, 'a) async" where
  "resolved a s = (Inr a, s)"

text \<open>\<open>try\<close> and \<open>catch\<close>, where what follows the \<open>try\<close> is outside it; and \<open>try { await m } catch { }\<close>.\<close>

definition catching ::
  "('e, 'g, 'a) async \<Rightarrow> ('e \<Rightarrow> ('e, 'g, 'b) async) \<Rightarrow> ('a \<Rightarrow> ('e, 'g, 'b) async) \<Rightarrow> ('e, 'g, 'b) async" where
  "catching m handler f s = (case m s of (Inl e, s') \<Rightarrow> handler e s' | (Inr a, s') \<Rightarrow> f a s')"

definition bestEffort :: "('e, 'g, 'a) async \<Rightarrow> ('e, 'g, unit) async" where
  "bestEffort m s = (Inr (), snd (m s))"

lemma andThen_result: "andThen m f s = (r, s') \<longleftrightarrow>
    (\<exists>e. m s = (Inl e, s') \<and> r = Inl e) \<or> (\<exists>a s1. m s = (Inr a, s1) \<and> f a s1 = (r, s'))"
  by (auto simp: andThen_def split: prod.split sum.split)

lemma andThen_Inr: "m s = (Inr a, s1) \<Longrightarrow> andThen m f s = f a s1"
  by (simp add: andThen_def)

lemma andThen_Inl: "m s = (Inl e, s1) \<Longrightarrow> andThen m f s = (Inl e, s1)"
  by (simp add: andThen_def)

lemma resolved_result [simp]: "resolved a s = (r, s') \<longleftrightarrow> r = Inr a \<and> s' = s"
  by (auto simp: resolved_def)

lemma bestEffort_result: "bestEffort m s = (r, s') \<longleftrightarrow> r = Inr () \<and> s' = snd (m s)"
  by (auto simp: bestEffort_def)

text \<open>A port that writes down what it answered, in a log beside the outside.\<close>

definition traced :: "(('e + 'a) \<Rightarrow> 'c list) \<Rightarrow> ('e, 'g, 'a) async \<Rightarrow> ('e, 'g \<times> 'c list, 'a) async" where
  "traced note_of call = (\<lambda>((g, log), w). let (r, g', w') = call (g, w) in (r, (g', log @ note_of r), w'))"

definition log_of :: "('g \<times> 'c list) \<times> world \<Rightarrow> 'c list" where
  "log_of s = snd (fst s)"

lemma traced_log: "traced f call s = (r, s') \<Longrightarrow> log_of s' = log_of s @ f r"
  by (cases s) (auto simp: traced_def log_of_def case_prod_beta)

text \<open>What code writes into the log, for each of its results.\<close>

definition logs :: "('e, 'g \<times> 'c list, 'a) async \<Rightarrow> ('e + 'a \<Rightarrow> 'c list \<Rightarrow> bool) \<Rightarrow> bool" where
  "logs m P \<longleftrightarrow> (\<forall>s r s'. m s = (r, s') \<longrightarrow> (\<exists>l. log_of s' = log_of s @ l \<and> P r l))"

lemma logsD: "logs m P \<Longrightarrow> m s = (r, s') \<Longrightarrow> \<exists>l. log_of s' = log_of s @ l \<and> P r l"
  unfolding logs_def by blast

lemma logs_weaken: "logs m P \<Longrightarrow> (\<And>r l. P r l \<Longrightarrow> Q r l) \<Longrightarrow> logs m Q"
  unfolding logs_def by blast

lemma logs_also: "logs m P \<Longrightarrow> (\<And>s r s'. m s = (r, s') \<Longrightarrow> Q r) \<Longrightarrow> logs m (\<lambda>r l. P r l \<and> Q r)"
  unfolding logs_def by blast

lemma logs_traced: "logs (traced f call) (\<lambda>r l. l = f r)"
  by (auto simp: logs_def dest: traced_log)

lemma logs_resolved: "logs (resolved a) (\<lambda>r l. r = Inr a \<and> l = [])"
  by (simp add: logs_def)

lemma logs_nothing: "logs (resolved a) (\<lambda>r l. l = [])"
  by (rule logs_weaken[OF logs_resolved]) simp

lemma logs_bestEffort: "logs m P \<Longrightarrow> logs (bestEffort m) (\<lambda>r l. r = Inr () \<and> (\<exists>r'. P r' l))"
  unfolding logs_def bestEffort_result by (metis prod.collapse)

lemma logs_andThen:
  assumes "logs m P" and "\<And>a. logs (f a) (Q a)"
  shows "logs (andThen m f) (\<lambda>r l. (\<exists>e. r = Inl e \<and> P (Inl e) l) \<or> (\<exists>a l1 l2. l = l1 @ l2 \<and> P (Inr a) l1 \<and> Q a r l2))"
  unfolding logs_def
proof (intro allI impI)
  fix s r s'
  assume "andThen m f s = (r, s')"
  then consider e where "m s = (Inl e, s')" "r = Inl e" | a s1 where "m s = (Inr a, s1)" "f a s1 = (r, s')"
    by (auto simp: andThen_result)
  then show "\<exists>l. log_of s' = log_of s @ l
      \<and> ((\<exists>e. r = Inl e \<and> P (Inl e) l) \<or> (\<exists>a l1 l2. l = l1 @ l2 \<and> P (Inr a) l1 \<and> Q a r l2))"
  proof cases
    case 1
    then show ?thesis using logsD[OF assms(1)] by blast
  next
    case 2
    obtain l1 where "log_of s1 = log_of s @ l1" "P (Inr a) l1" using logsD[OF assms(1) 2(1)] by blast
    moreover obtain l2 where "log_of s' = log_of s1 @ l2" "Q a r l2" using logsD[OF assms(2) 2(2)] by blast
    ultimately show ?thesis by (intro exI[of _ "l1 @ l2"]) auto
  qed
qed

lemma logs_catching:
  assumes "logs m P" and "\<And>e. logs (handler e) (H e)" and "\<And>a. logs (f a) (Q a)"
  shows "logs (catching m handler f) (\<lambda>r l. \<exists>l1 l2. l = l1 @ l2 \<and> ((\<exists>e. P (Inl e) l1 \<and> H e r l2) \<or> (\<exists>a. P (Inr a) l1 \<and> Q a r l2)))"
  unfolding logs_def
proof (intro allI impI)
  fix s r s'
  assume c: "catching m handler f s = (r, s')"
  obtain r1 s1 where m: "m s = (r1, s1)" by (cases "m s")
  obtain l1 where l1: "log_of s1 = log_of s @ l1" "P r1 l1" using logsD[OF assms(1) m] by blast
  show "\<exists>l. log_of s' = log_of s @ l
      \<and> (\<exists>l1 l2. l = l1 @ l2 \<and> ((\<exists>e. P (Inl e) l1 \<and> H e r l2) \<or> (\<exists>a. P (Inr a) l1 \<and> Q a r l2)))"
  proof (cases r1)
    case (Inl e)
    then have "handler e s1 = (r, s')" using c m by (simp add: catching_def)
    then obtain l2 where "log_of s' = log_of s1 @ l2" "H e r l2" using logsD[OF assms(2)] by blast
    then show ?thesis using l1 Inl by (intro exI[of _ "l1 @ l2"]) auto
  next
    case (Inr a)
    then have "f a s1 = (r, s')" using c m by (simp add: catching_def)
    then obtain l2 where "log_of s' = log_of s1 @ l2" "Q a r l2" using logsD[OF assms(3)] by blast
    then show ?thesis using l1 Inr by (intro exI[of _ "l1 @ l2"]) auto
  qed
qed

end
