(* ===== verification/MergeExecutor.thy ===== *)
theory MergeExecutor
  imports Async MergeQueue ReviewRouter ValidationRunner
begin

text \<open>
  \<open>packages/application/src/services/merge-executor.service.ts\<close>: a queue item taken from the merge queue is
  rebased, validated, pushed and marked as merged.

  The service is asynchronous.  Between its transactions it waits for git, the validation of the merge gate,
  the classifier of conflicts and the artifact store; all of these are ports without an adapter in the
  repository, and while it waits anything may happen to the database.  A job is therefore a function on the
  state \<open>'g\<close> of the outside and the world, and a port call may change both.  The update of a queue item is an
  argument too; what \<open>merge-executor.ports.ts\<close> documents of it is the locale \<open>merge_item_port\<close>.

  Tracing and metrics are left out.
\<close>

subsection \<open>Errors, parameters and results\<close>

datatype merge_error =
    MergeItemNotPreparingError string string
  | TaskNotQueuedForMergeError string string
  | MergeAppError app_error
  | PortRejected string

datatype MergeStrategy = REBASE_AND_MERGE | SQUASH | MERGE_COMMIT

fun MergeStrategy_value :: "MergeStrategy \<Rightarrow> string" where
  "MergeStrategy_value REBASE_AND_MERGE = ''rebase-and-merge''"
| "MergeStrategy_value SQUASH = ''squash''"
| "MergeStrategy_value MERGE_COMMIT = ''merge-commit''"

record ExecuteMergeParams =
  xm_mergeQueueItemId :: string
  xm_workspacePath :: string
  xm_targetBranch :: string
  xm_mergeStrategy :: "MergeStrategy option"
  xm_actor :: ActorInfo
  xm_metadata :: "(string \<times> json) list option"

record MergeSuccessResult =
  ms_item :: MergeQueueItem
  ms_task :: Task
  ms_auditEvents :: "AuditEventRecord list"
  ms_mergePacket :: json
  ms_artifactPath :: string
  ms_mergedCommitSha :: string

record RebaseConflictResult =
  rb_item :: MergeQueueItem
  rb_task :: Task
  rb_auditEvents :: "AuditEventRecord list"
  rb_conflictFiles :: "string list"
  rb_classification :: ConflictClassification

record ValidationFailedResult =
  vf_item :: MergeQueueItem
  vf_task :: Task
  vf_auditEvents :: "AuditEventRecord list"
  vf_validationResult :: ValidationRunResult

record PushFailedResult =
  pf_item :: MergeQueueItem
  pf_task :: Task
  pf_auditEvents :: "AuditEventRecord list"
  pf_pushError :: string

datatype ExecuteMergeResult =
    is_merged: Merged MergeSuccessResult
  | RebaseConflict RebaseConflictResult
  | ValidationFailed ValidationFailedResult
  | PushFailed PushFailedResult

subsection \<open>Ports and jobs\<close>

record MergeOperationResult =
  mo_success :: bool
  mo_conflictFiles :: "string list"

type_synonym ('g, 'a) port_call = "(string, 'g, 'a) async"

record 'g mergePorts =
  git_fetch :: "string \<Rightarrow> string \<Rightarrow> ('g, unit) port_call"
  git_getCurrentBranch :: "string \<Rightarrow> ('g, string) port_call"
  git_rebase :: "string \<Rightarrow> string \<Rightarrow> ('g, MergeOperationResult) port_call"
  git_squashMerge :: "string \<Rightarrow> string \<Rightarrow> string \<Rightarrow> string \<Rightarrow> ('g, MergeOperationResult) port_call"
  git_mergeCommit :: "string \<Rightarrow> string \<Rightarrow> string \<Rightarrow> ('g, MergeOperationResult) port_call"
  git_push :: "string \<Rightarrow> string \<Rightarrow> string \<Rightarrow> ('g, unit) port_call"
  git_getHeadSha :: "string \<Rightarrow> ('g, string) port_call"
  runMergeGateValidation :: "string \<Rightarrow> string \<Rightarrow> ('g, ValidationRunResult) port_call"
  classifier_classify :: "string list \<Rightarrow> ('g, ConflictClassification) port_call"
  persistMergePacket :: "string \<Rightarrow> json \<Rightarrow> ('g, string) port_call"
  updateItem :: "string \<Rightarrow> MergeQueueItemStatus \<Rightarrow> MergeQueueItemStatus \<Rightarrow> int option \<Rightarrow> MergeQueueItem tx"

type_synonym ('g, 'a) job = "(merge_error, 'g, 'a) async"

definition await :: "('g, 'a) port_call \<Rightarrow> ('g, 'a) job" where
  "await call s = apfst (map_sum PortRejected id) (call s)"

definition atomically :: "'a tx \<Rightarrow> ('a \<Rightarrow> DomainEvent list) \<Rightarrow> ('g, 'a) job" where
  "atomically body events = (\<lambda>(g, w).
    let (r, w') = commit body events w in (map_sum MergeAppError id r, g, w'))"

text \<open>The clock readings and the keys of audit events that the phases draw, numbered in the order of the code.\<close>

record mergeRun =
  mr_clock :: "nat \<Rightarrow> int"
  mr_uuid :: "nat \<Rightarrow> string"

subsection \<open>One status change\<close>

text \<open>A change of the item, and one of the task, each checked against its machine first.\<close>

definition moveItem ::
  "'g mergePorts \<Rightarrow> string \<Rightarrow> MergeQueueItemStatus \<Rightarrow> MergeQueueItemStatus \<Rightarrow> MergeQueueItemTransitionContext
    \<Rightarrow> int option \<Rightarrow> MergeQueueItem tx" where
  "moveItem ports itemId from to ctx completedAt =
    (let itemValidation = validateMergeQueueItemTransition from to ctx in
     if \<not> valid itemValidation then
       throwT (InvalidTransitionError ''MergeQueueItem'' itemId (MergeQueueItemStatus_value from)
         (MergeQueueItemStatus_value to) (reason itemValidation))
     else updateItem ports itemId from to completedAt)"

definition moveMergingTask ::
  "int \<Rightarrow> string \<Rightarrow> int \<Rightarrow> TaskStatus \<Rightarrow> TaskStatus \<Rightarrow> TransitionContext \<Rightarrow> Task tx" where
  "moveMergingTask now taskId expectedVersion from to ctx =
    (let taskValidation = validateTransition from to ctx in
     if \<not> valid taskValidation then
       throwT (InvalidTransitionError ''Task'' taskId (TaskStatus_value from) (TaskStatus_value to) (reason taskValidation))
     else task_updateStatus now taskId expectedVersion to)"

definition itemAudit ::
  "mergeRun \<Rightarrow> nat \<Rightarrow> ExecuteMergeParams \<Rightarrow> MergeQueueItemStatus \<Rightarrow> MergeQueueItemStatus \<Rightarrow> json option \<Rightarrow> AuditEventRecord tx" where
  "itemAudit env k params from to metadata =
    auditEvent_create (mr_uuid env k) (mr_clock env k)
      \<lparr>na_entityType = ''merge-queue-item'', na_entityId = xm_mergeQueueItemId params, na_eventType = ''state_transition'',
       na_actorType = actor_type (xm_actor params), na_actorId = actor_id (xm_actor params),
       na_oldState = Some (JStr (MergeQueueItemStatus_value from)),
       na_newState = Some (JStr (MergeQueueItemStatus_value to)), na_metadata = metadata\<rparr>"

definition taskAudit ::
  "mergeRun \<Rightarrow> nat \<Rightarrow> ExecuteMergeParams \<Rightarrow> string \<Rightarrow> TaskStatus \<Rightarrow> TaskStatus \<Rightarrow> json option \<Rightarrow> AuditEventRecord tx" where
  "taskAudit env k params taskId from to metadata =
    auditEvent_create (mr_uuid env k) (mr_clock env k)
      \<lparr>na_entityType = ''task'', na_entityId = taskId, na_eventType = ''state_transition'',
       na_actorType = actor_type (xm_actor params), na_actorId = actor_id (xm_actor params),
       na_oldState = Some (JStr (TaskStatus_value from)), na_newState = Some (JStr (TaskStatus_value to)),
       na_metadata = metadata\<rparr>"

text \<open>\<open>{ ...metadata, k: v, ... }\<close>; the metadata of an audit event are the JSON value that is printed.\<close>

definition extended :: "ExecuteMergeParams \<Rightarrow> (string \<times> json) list \<Rightarrow> json option" where
  "extended params extra = Some (JObj (fold (\<lambda>(k, v). AList.update k v) extra
     (case xm_metadata params of None \<Rightarrow> [] | Some m \<Rightarrow> m)))"

definition plain :: "ExecuteMergeParams \<Rightarrow> json option" where
  "plain params = map_option JObj (xm_metadata params)"

definition itemEvent ::
  "mergeRun \<Rightarrow> nat \<Rightarrow> ExecuteMergeParams \<Rightarrow> MergeQueueItemStatus \<Rightarrow> MergeQueueItemStatus \<Rightarrow> DomainEvent" where
  "itemEvent env k params from to =
    MergeQueueItemTransitionedEvent (xm_mergeQueueItemId params) from to (xm_actor params) (mr_clock env k)"

definition taskEvent :: "mergeRun \<Rightarrow> nat \<Rightarrow> ExecuteMergeParams \<Rightarrow> TaskStatus \<Rightarrow> Task \<Rightarrow> TaskStatus \<Rightarrow> DomainEvent" where
  "taskEvent env k params from updated to =
    TaskTransitionedEvent (t_taskId updated) from to (t_version updated) (xm_actor params) (mr_clock env k)"

subsection \<open>The phases\<close>

definition loadMerge :: "string \<Rightarrow> db \<Rightarrow> merge_error + MergeQueueItem \<times> Task" where
  "loadMerge itemId d =
    (case item_findById itemId d of
       None \<Rightarrow> Inl (MergeAppError (EntityNotFoundError ''MergeQueueItem'' itemId))
     | Some item \<Rightarrow>
         if mq_status item \<noteq> MergeQueueItemStatus.PREPARING then
           Inl (MergeItemNotPreparingError itemId (MergeQueueItemStatus_value (mq_status item)))
         else (case task_findById (mq_taskId item) d of
             None \<Rightarrow> Inl (MergeAppError (EntityNotFoundError ''Task'' (mq_taskId item)))
           | Some task \<Rightarrow>
               if t_status task \<noteq> TaskStatus.QUEUED_FOR_MERGE then
                 Inl (TaskNotQueuedForMergeError (mq_taskId item) (TaskStatus_value (t_status task)))
               else Inr (item, task)))"

definition loadPhase :: "ExecuteMergeParams \<Rightarrow> ('g, MergeQueueItem \<times> Task) job" where
  "loadPhase params = (\<lambda>(g, w). (loadMerge (xm_mergeQueueItemId params) (database w), g, w))"

record Moved =
  mv_item :: MergeQueueItem
  mv_task :: Task
  mv_audits :: "AuditEventRecord list"

definition rebasing_tx :: "'g mergePorts \<Rightarrow> mergeRun \<Rightarrow> ExecuteMergeParams \<Rightarrow> Task \<Rightarrow> Moved tx" where
  "rebasing_tx ports env params task =
    bindT (moveItem ports (xm_mergeQueueItemId params) MergeQueueItemStatus.PREPARING MergeQueueItemStatus.REBASING
      (emptyMergeQueueItemTransitionContext\<lparr>workspaceReady := Some True\<rparr>) None) (\<lambda>updatedItem.
    bindT (moveMergingTask (mr_clock env 0) (t_taskId task) (t_version task) TaskStatus.QUEUED_FOR_MERGE
      TaskStatus.MERGING emptyContext) (\<lambda>updatedTask.
    bindT (itemAudit env 0 params MergeQueueItemStatus.PREPARING MergeQueueItemStatus.REBASING (plain params)) (\<lambda>a.
    bindT (taskAudit env 1 params (t_taskId task) TaskStatus.QUEUED_FOR_MERGE TaskStatus.MERGING (plain params)) (\<lambda>b.
    returnT \<lparr>mv_item = updatedItem, mv_task = updatedTask, mv_audits = [a, b]\<rparr>))))"

definition rebasingPhase :: "'g mergePorts \<Rightarrow> mergeRun \<Rightarrow> ExecuteMergeParams \<Rightarrow> Task \<Rightarrow> ('g, Moved) job" where
  "rebasingPhase ports env params task =
    atomically (rebasing_tx ports env params task)
      (\<lambda>r. [itemEvent env 2 params MergeQueueItemStatus.PREPARING MergeQueueItemStatus.REBASING,
            taskEvent env 3 params TaskStatus.QUEUED_FOR_MERGE (mv_task r) TaskStatus.MERGING])"

definition mergeOperation :: "'g mergePorts \<Rightarrow> ExecuteMergeParams \<Rightarrow> MergeStrategy \<Rightarrow> string \<Rightarrow> ('g, MergeOperationResult) port_call" where
  "mergeOperation ports params mergeStrategy sourceBranch =
    (let workspacePath = xm_workspacePath params; onto = ''origin/'' @ xm_targetBranch params in
     case mergeStrategy of
       REBASE_AND_MERGE \<Rightarrow> git_rebase ports workspacePath onto
     | SQUASH \<Rightarrow> git_squashMerge ports workspacePath sourceBranch onto
         (''squash: merge '' @ sourceBranch @ '' into '' @ xm_targetBranch params)
     | MERGE_COMMIT \<Rightarrow> git_mergeCommit ports workspacePath sourceBranch onto)"

fun ConflictClassification_value :: "ConflictClassification \<Rightarrow> string" where
  "ConflictClassification_value ConflictClassification.reworkable = ''reworkable''"
| "ConflictClassification_value ConflictClassification.non_reworkable = ''non_reworkable''"

definition conflictItemTarget :: "ConflictClassification \<Rightarrow> MergeQueueItemStatus" where
  "conflictItemTarget cls = (if cls = ConflictClassification.reworkable then MergeQueueItemStatus.REQUEUED
     else MergeQueueItemStatus.FAILED)"

definition conflictTaskTarget :: "ConflictClassification \<Rightarrow> TaskStatus" where
  "conflictTaskTarget cls = (if cls = ConflictClassification.reworkable then TaskStatus.CHANGES_REQUESTED else TaskStatus.FAILED)"

definition conflict_tx ::
  "'g mergePorts \<Rightarrow> mergeRun \<Rightarrow> ExecuteMergeParams \<Rightarrow> MergeStrategy \<Rightarrow> Task \<Rightarrow> string list \<Rightarrow> ConflictClassification \<Rightarrow> Moved tx" where
  "conflict_tx ports env params mergeStrategy task files cls =
    (let facts = [(''conflictFiles'', JArr (map JStr files)), (''classification'', JStr (ConflictClassification_value cls))] in
     bindT (moveItem ports (xm_mergeQueueItemId params) MergeQueueItemStatus.REBASING (conflictItemTarget cls)
       (emptyMergeQueueItemTransitionContext\<lparr>rebaseFailed := Some True,
          conflictReworkable := (if cls = ConflictClassification.reworkable then Some True else None)\<rparr>)
       (Some (mr_clock env 4))) (\<lambda>failedItem.
     bindT (moveMergingTask (mr_clock env 5) (t_taskId task) (t_version task) TaskStatus.MERGING (conflictTaskTarget cls)
       (emptyContext\<lparr>mergeConflictClassification := Some (if cls = ConflictClassification.reworkable
          then MergeConflictClass.reworkable else MergeConflictClass.non_reworkable)\<rparr>)) (\<lambda>failedTask.
     bindT (itemAudit env 6 params MergeQueueItemStatus.REBASING (conflictItemTarget cls) (extended params facts)) (\<lambda>a.
     bindT (taskAudit env 7 params (t_taskId task) TaskStatus.MERGING (conflictTaskTarget cls)
       (extended params ([(''reason'', JStr ''merge_conflict''), (''mergeStrategy'', JStr (MergeStrategy_value mergeStrategy))] @ facts)))
       (\<lambda>b.
     returnT \<lparr>mv_item = failedItem, mv_task = failedTask, mv_audits = [a, b]\<rparr>)))))"

definition conflictPhase ::
  "'g mergePorts \<Rightarrow> mergeRun \<Rightarrow> ExecuteMergeParams \<Rightarrow> MergeStrategy \<Rightarrow> Task \<Rightarrow> AuditEventRecord list \<Rightarrow> string list
    \<Rightarrow> ConflictClassification \<Rightarrow> ('g, ExecuteMergeResult) job" where
  "conflictPhase ports env params mergeStrategy task audits files cls =
    andThen (atomically (conflict_tx ports env params mergeStrategy task files cls)
      (\<lambda>r. [itemEvent env 8 params MergeQueueItemStatus.REBASING (conflictItemTarget cls),
            taskEvent env 9 params TaskStatus.MERGING (mv_task r) (conflictTaskTarget cls)])) (\<lambda>r s.
    (Inr (RebaseConflict \<lparr>rb_item = mv_item r, rb_task = mv_task r, rb_auditEvents = audits @ mv_audits r,
       rb_conflictFiles = files, rb_classification = cls\<rparr>), s))"

text \<open>The four phases that move only the item: its new row and the audit event.\<close>

definition itemPhase ::
  "'g mergePorts \<Rightarrow> mergeRun \<Rightarrow> nat \<Rightarrow> ExecuteMergeParams \<Rightarrow> MergeQueueItemStatus \<Rightarrow> MergeQueueItemStatus
    \<Rightarrow> MergeQueueItemTransitionContext \<Rightarrow> bool \<Rightarrow> json option \<Rightarrow> ('g, MergeQueueItem \<times> AuditEventRecord) job" where
  "itemPhase ports env k params from to ctx completes metadata =
    atomically
      (bindT (moveItem ports (xm_mergeQueueItemId params) from to ctx (if completes then Some (mr_clock env k) else None))
         (\<lambda>updatedItem.
       bindT (itemAudit env (k + 1) params from to metadata) (\<lambda>a.
       returnT (updatedItem, a))))
      (\<lambda>_. [itemEvent env (k + 2) params from to])"

definition validatingPhase :: "'g mergePorts \<Rightarrow> mergeRun \<Rightarrow> ExecuteMergeParams \<Rightarrow> ('g, MergeQueueItem \<times> AuditEventRecord) job" where
  "validatingPhase ports env params =
    itemPhase ports env 10 params MergeQueueItemStatus.REBASING MergeQueueItemStatus.VALIDATING
      (emptyMergeQueueItemTransitionContext\<lparr>rebaseSuccessful := Some True\<rparr>) False (plain params)"

definition validationFailedPhase ::
  "'g mergePorts \<Rightarrow> mergeRun \<Rightarrow> ExecuteMergeParams \<Rightarrow> Task \<Rightarrow> AuditEventRecord list \<Rightarrow> ValidationRunResult
    \<Rightarrow> ('g, ExecuteMergeResult) job" where
  "validationFailedPhase ports env params task audits result =
    andThen (itemPhase ports env 13 params MergeQueueItemStatus.VALIDATING MergeQueueItemStatus.FAILED
      (emptyMergeQueueItemTransitionContext\<lparr>validationFailed := Some True\<rparr>) True
      (extended params [(''reason'', JStr ''validation_failed''), (''summary'', JStr (vr_summary result))])) (\<lambda>(item, a) s.
    (Inr (ValidationFailed \<lparr>vf_item = item, vf_task = task, vf_auditEvents = audits @ [a], vf_validationResult = result\<rparr>), s))"

definition mergingPhase :: "'g mergePorts \<Rightarrow> mergeRun \<Rightarrow> ExecuteMergeParams \<Rightarrow> ('g, MergeQueueItem \<times> AuditEventRecord) job" where
  "mergingPhase ports env params =
    itemPhase ports env 13 params MergeQueueItemStatus.VALIDATING MergeQueueItemStatus.MERGING
      (emptyMergeQueueItemTransitionContext\<lparr>validationPassed := Some True\<rparr>) False (plain params)"

definition pushFailedPhase ::
  "'g mergePorts \<Rightarrow> mergeRun \<Rightarrow> ExecuteMergeParams \<Rightarrow> Task \<Rightarrow> AuditEventRecord list \<Rightarrow> string \<Rightarrow> ('g, ExecuteMergeResult) job" where
  "pushFailedPhase ports env params task audits pushError =
    andThen (itemPhase ports env 16 params MergeQueueItemStatus.MERGING MergeQueueItemStatus.FAILED
      (emptyMergeQueueItemTransitionContext\<lparr>mergeFailed := Some True\<rparr>) True
      (extended params [(''reason'', JStr ''push_failed''), (''error'', JStr pushError)])) (\<lambda>(item, a) s.
    (Inr (PushFailed \<lparr>pf_item = item, pf_task = task, pf_auditEvents = audits @ [a], pf_pushError = pushError\<rparr>), s))"

definition finalize_tx :: "'g mergePorts \<Rightarrow> mergeRun \<Rightarrow> ExecuteMergeParams \<Rightarrow> string \<Rightarrow> string \<Rightarrow> Moved tx" where
  "finalize_tx ports env params taskId sha =
    bindT (moveItem ports (xm_mergeQueueItemId params) MergeQueueItemStatus.MERGING MergeQueueItemStatus.MERGED
      (emptyMergeQueueItemTransitionContext\<lparr>MergeQueueItemTransitionContext.mergeSuccessful := Some True\<rparr>)
      (Some (mr_clock env 16))) (\<lambda>mergedItem.
    bindT (getT (task_findById taskId)) (\<lambda>found. case found of
      None \<Rightarrow> throwT (EntityNotFoundError ''Task'' taskId)
    | Some freshTask \<Rightarrow>
        bindT (moveMergingTask (mr_clock env 17) taskId (t_version freshTask) TaskStatus.MERGING TaskStatus.POST_MERGE_VALIDATION
          (emptyContext\<lparr>TransitionContext.mergeSuccessful := Some True\<rparr>)) (\<lambda>mergedTask.
        bindT (itemAudit env 18 params MergeQueueItemStatus.MERGING MergeQueueItemStatus.MERGED
          (extended params [(''mergedCommitSha'', JStr sha)])) (\<lambda>a.
        bindT (taskAudit env 19 params taskId TaskStatus.MERGING TaskStatus.POST_MERGE_VALIDATION
          (extended params [(''mergedCommitSha'', JStr sha)])) (\<lambda>b.
        returnT \<lparr>mv_item = mergedItem, mv_task = mergedTask, mv_audits = [a, b]\<rparr>)))))"

definition finalizePhase :: "'g mergePorts \<Rightarrow> mergeRun \<Rightarrow> ExecuteMergeParams \<Rightarrow> string \<Rightarrow> string \<Rightarrow> ('g, Moved) job" where
  "finalizePhase ports env params taskId sha =
    atomically (finalize_tx ports env params taskId sha)
      (\<lambda>r. [itemEvent env 20 params MergeQueueItemStatus.MERGING MergeQueueItemStatus.MERGED,
            taskEvent env 21 params TaskStatus.MERGING (mv_task r) TaskStatus.POST_MERGE_VALIDATION])"

subsection \<open>The merge packet\<close>

definition CHECK_NAME_TO_TYPE :: "(string \<times> string) list" where
  "CHECK_NAME_TO_TYPE = [(''test'', ''test''), (''lint'', ''lint''), (''build'', ''build''), (''typecheck'', ''typecheck''),
     (''policy'', ''policy''), (''schema'', ''schema''), (''security'', ''security'')]"

text \<open>A property that every object inherits is a function, here the empty object, which no text field accepts.\<close>

fun member_json :: "string js_member \<Rightarrow> json" where
  "member_json (Own s) = JStr s"
| "member_json (Inherited _) = JObj []"

fun mapStatusToSchemaStatus :: "CheckStatus \<Rightarrow> string" where
  "mapStatusToSchemaStatus CheckStatus.error = ''failed''"
| "mapStatusToSchemaStatus CheckStatus.passed = ''passed''"
| "mapStatusToSchemaStatus CheckStatus.skipped = ''skipped''"
| "mapStatusToSchemaStatus CheckStatus.failed = ''failed''"

fun CheckStatus_value :: "CheckStatus \<Rightarrow> string" where
  "CheckStatus_value CheckStatus.passed = ''passed''"
| "CheckStatus_value CheckStatus.failed = ''failed''"
| "CheckStatus_value CheckStatus.skipped = ''skipped''"
| "CheckStatus_value CheckStatus.error = ''error''"

definition mapCheckOutcomeToSchemaResult :: "ValidationCheckOutcome \<Rightarrow> json" where
  "mapCheckOutcomeToSchemaResult outcome = JObj
     [(''check_type'', case js_get CHECK_NAME_TO_TYPE (vo_checkName outcome) of None \<Rightarrow> JStr ''test'' | Some m \<Rightarrow> member_json m),
      (''tool_name'', JStr (vo_checkName outcome)), (''command'', member_json (vo_command outcome)),
      (''status'', JStr (mapStatusToSchemaStatus (vo_status outcome))), (''duration_ms'', JNum (vo_durationMs outcome)),
      (''summary'', JStr (case vo_output outcome of Some out \<Rightarrow> out
         | None \<Rightarrow> vo_checkName outcome @ '': '' @ CheckStatus_value (vo_status outcome)))]"

fun STRATEGY_LABELS :: "MergeStrategy \<Rightarrow> string" where
  "STRATEGY_LABELS REBASE_AND_MERGE = ''Rebase-and-merge''"
| "STRATEGY_LABELS SQUASH = ''Squash merge''"
| "STRATEGY_LABELS MERGE_COMMIT = ''Merge commit''"

definition mergePacketData ::
  "mergeRun \<Rightarrow> ExecuteMergeParams \<Rightarrow> MergeStrategy \<Rightarrow> string \<Rightarrow> MergeQueueItem \<Rightarrow> Task \<Rightarrow> string \<Rightarrow> ValidationRunResult \<Rightarrow> json" where
  "mergePacketData env params mergeStrategy sourceBranch initialItem task sha result = JObj
     [(''packet_type'', JStr ''merge_packet''), (''schema_version'', JStr ''1.0''), (''created_at'', JDate (mr_clock env 22)),
      (''task_id'', JStr (t_taskId task)), (''repository_id'', JStr (t_repositoryId task)),
      (''merge_queue_item_id'', JStr (xm_mergeQueueItemId params)), (''status'', JStr ''success''),
      (''summary'', JStr (STRATEGY_LABELS mergeStrategy @ '' completed successfully. Merged commit: '' @ sha)),
      (''details'', JObj
         [(''source_branch'', JStr sourceBranch), (''target_branch'', JStr (xm_targetBranch params)),
          (''approved_commit_sha'', JStr (case mq_approvedCommitSha initialItem of None \<Rightarrow> [] | Some c \<Rightarrow> c)),
          (''merged_commit_sha'', JStr sha), (''merge_strategy'', JStr (MergeStrategy_value mergeStrategy)),
          (''rebase_performed'', JBool (mergeStrategy = REBASE_AND_MERGE)),
          (''validation_results'', JArr (map mapCheckOutcomeToSchemaResult (vr_checkOutcomes result)))]),
      (''artifact_refs'', JArr [])]"

definition with_artifact :: "json \<Rightarrow> string \<Rightarrow> json" where
  "with_artifact packet path = (case packet of
     JObj kvs \<Rightarrow> JObj (AList.update ''artifact_refs'' (JArr [JStr path]) kvs)
   | _ \<Rightarrow> packet)"

definition packetPhase ::
  "safe_parse \<Rightarrow> 'g mergePorts \<Rightarrow> ExecuteMergeParams \<Rightarrow> AuditEventRecord list \<Rightarrow> Moved \<Rightarrow> string \<Rightarrow> json
    \<Rightarrow> ('g, ExecuteMergeResult) job" where
  "packetPhase safeParse ports params audits moved sha packetData =
    (let merged = (\<lambda>packet path. Merged \<lparr>ms_item = mv_item moved, ms_task = mv_task moved, ms_auditEvents = audits,
           ms_mergePacket = packet, ms_artifactPath = path, ms_mergedCommitSha = sha\<rparr>) in
     case safeParse MergePacketSchema (Some packetData) of
       Inl _ \<Rightarrow> (\<lambda>s. (Inr (merged packetData []), s))
     | Inr v \<Rightarrow>
         let validatedPacket = (case v of Some p \<Rightarrow> p | None \<Rightarrow> JNull) in
         andThen (await (persistMergePacket ports (xm_mergeQueueItemId params) validatedPacket)) (\<lambda>path s.
         (Inr (merged (with_artifact validatedPacket path) path), s)))"

subsection \<open>The whole merge\<close>

definition pushBranch :: "ExecuteMergeParams \<Rightarrow> MergeStrategy \<Rightarrow> string \<Rightarrow> string" where
  "pushBranch params mergeStrategy sourceBranch =
    (if mergeStrategy = REBASE_AND_MERGE then sourceBranch else xm_targetBranch params)"

definition pushAndFinalize ::
  "safe_parse \<Rightarrow> 'g mergePorts \<Rightarrow> mergeRun \<Rightarrow> ExecuteMergeParams \<Rightarrow> MergeStrategy \<Rightarrow> string \<Rightarrow> MergeQueueItem \<Rightarrow> Task
    \<Rightarrow> AuditEventRecord list \<Rightarrow> ValidationRunResult \<Rightarrow> ('g, ExecuteMergeResult) job" where
  "pushAndFinalize safeParse ports env params mergeStrategy sourceBranch initialItem task audits result = (\<lambda>s.
    case git_push ports (xm_workspacePath params) ''origin'' (pushBranch params mergeStrategy sourceBranch) s of
      (Inl pushError, s') \<Rightarrow> pushFailedPhase ports env params task audits pushError s'
    | (Inr _, s') \<Rightarrow>
        andThen (await (git_getHeadSha ports (xm_workspacePath params))) (\<lambda>sha.
        andThen (finalizePhase ports env params (t_taskId task) sha) (\<lambda>moved.
        packetPhase safeParse ports params (audits @ mv_audits moved) moved sha
          (mergePacketData env params mergeStrategy sourceBranch initialItem (mv_task moved) sha result))) s')"

definition validateAndPush ::
  "safe_parse \<Rightarrow> 'g mergePorts \<Rightarrow> mergeRun \<Rightarrow> ExecuteMergeParams \<Rightarrow> MergeStrategy \<Rightarrow> string \<Rightarrow> MergeQueueItem \<Rightarrow> Task
    \<Rightarrow> AuditEventRecord list \<Rightarrow> ('g, ExecuteMergeResult) job" where
  "validateAndPush safeParse ports env params mergeStrategy sourceBranch initialItem task audits =
    andThen (validatingPhase ports env params) (\<lambda>(_, a).
    andThen (await (runMergeGateValidation ports (t_taskId task) (xm_workspacePath params))) (\<lambda>result.
    if vr_overallStatus result = OverallStatus.failed then
      validationFailedPhase ports env params task (audits @ [a]) result
    else
      andThen (mergingPhase ports env params) (\<lambda>(_, b).
      pushAndFinalize safeParse ports env params mergeStrategy sourceBranch initialItem task (audits @ [a, b]) result)))"

definition integrate ::
  "safe_parse \<Rightarrow> 'g mergePorts \<Rightarrow> mergeRun \<Rightarrow> ExecuteMergeParams \<Rightarrow> MergeStrategy \<Rightarrow> string \<Rightarrow> MergeQueueItem \<Rightarrow> Moved
    \<Rightarrow> ('g, ExecuteMergeResult) job" where
  "integrate safeParse ports env params mergeStrategy sourceBranch initialItem moved =
    andThen (await (mergeOperation ports params mergeStrategy sourceBranch)) (\<lambda>mergeOpResult.
    if \<not> mo_success mergeOpResult then
      andThen (await (classifier_classify ports (mo_conflictFiles mergeOpResult))) (\<lambda>cls.
      conflictPhase ports env params mergeStrategy (mv_task moved) (mv_audits moved) (mo_conflictFiles mergeOpResult) cls)
    else
      validateAndPush safeParse ports env params mergeStrategy sourceBranch initialItem (mv_task moved) (mv_audits moved))"

definition chosenStrategy :: "ExecuteMergeParams \<Rightarrow> MergeStrategy" where
  "chosenStrategy params = (case xm_mergeStrategy params of None \<Rightarrow> REBASE_AND_MERGE | Some s \<Rightarrow> s)"

definition executeMerge ::
  "safe_parse \<Rightarrow> 'g mergePorts \<Rightarrow> mergeRun \<Rightarrow> ExecuteMergeParams \<Rightarrow> ('g, ExecuteMergeResult) job" where
  "executeMerge safeParse ports env params =
    andThen (loadPhase params) (\<lambda>(initialItem, initialTask).
    andThen (rebasingPhase ports env params initialTask) (\<lambda>moved.
    andThen (await (git_fetch ports (xm_workspacePath params) ''origin'')) (\<lambda>_.
    andThen (await (git_getCurrentBranch ports (xm_workspacePath params))) (\<lambda>sourceBranch.
    integrate safeParse ports env params (chosenStrategy params) sourceBranch initialItem moved))))"

subsection \<open>What is pushed\<close>

lemma atomically_outside [simp]: "fst (snd (atomically body events s)) = fst s"
  by (simp add: atomically_def case_prod_beta Let_def)

text \<open>Ports that write down the calls that decide about a merge, with what they answered.\<close>

datatype merge_call = OnBranch string | Integrated bool | GateRun OverallStatus | PushTried string bool

definition tracing :: "'g mergePorts \<Rightarrow> ('g \<times> merge_call list) mergePorts" where
  "tracing p = (let op = (\<lambda>r. case r of Inl _ \<Rightarrow> [] | Inr m \<Rightarrow> [Integrated (mo_success m)]) in
    \<lparr>git_fetch = (\<lambda>a b. traced (\<lambda>_. []) (git_fetch p a b)), 
     git_getCurrentBranch = (\<lambda>a. traced (\<lambda>r. case r of Inl _ \<Rightarrow> [] | Inr b \<Rightarrow> [OnBranch b]) (git_getCurrentBranch p a)),
     git_rebase = (\<lambda>a b. traced op (git_rebase p a b)), git_squashMerge = (\<lambda>a b c d. traced op (git_squashMerge p a b c d)),
     git_mergeCommit = (\<lambda>a b c. traced op (git_mergeCommit p a b c)),
     git_push = (\<lambda>a b c. traced (\<lambda>r. [PushTried c (case r of Inl _ \<Rightarrow> False | Inr _ \<Rightarrow> True)]) (git_push p a b c)),
     git_getHeadSha = (\<lambda>a. traced (\<lambda>_. []) (git_getHeadSha p a)),
     runMergeGateValidation = (\<lambda>a b. traced (\<lambda>r. case r of Inl _ \<Rightarrow> [] | Inr v \<Rightarrow> [GateRun (vr_overallStatus v)])
       (runMergeGateValidation p a b)),
     classifier_classify = (\<lambda>a. traced (\<lambda>_. []) (classifier_classify p a)),
     persistMergePacket = (\<lambda>a b. traced (\<lambda>_. []) (persistMergePacket p a b)), updateItem = updateItem p\<rparr>)"

lemma tracing_sel [simp]:
  "git_fetch (tracing p) a b = traced (\<lambda>_. []) (git_fetch p a b)"
  "git_getCurrentBranch (tracing p) a = traced (\<lambda>r. case r of Inl _ \<Rightarrow> [] | Inr b \<Rightarrow> [OnBranch b]) (git_getCurrentBranch p a)"
  "mergeOperation (tracing p) params strat src
    = traced (\<lambda>r. case r of Inl _ \<Rightarrow> [] | Inr m \<Rightarrow> [Integrated (mo_success m)]) (mergeOperation p params strat src)"
  "git_push (tracing p) a b c = traced (\<lambda>r. [PushTried c (case r of Inl _ \<Rightarrow> False | Inr _ \<Rightarrow> True)]) (git_push p a b c)"
  "git_getHeadSha (tracing p) a = traced (\<lambda>_. []) (git_getHeadSha p a)"
  "runMergeGateValidation (tracing p) a b
    = traced (\<lambda>r. case r of Inl _ \<Rightarrow> [] | Inr v \<Rightarrow> [GateRun (vr_overallStatus v)]) (runMergeGateValidation p a b)"
  "classifier_classify (tracing p) fs = traced (\<lambda>_. []) (classifier_classify p fs)"
  "persistMergePacket (tracing p) a j = traced (\<lambda>_. []) (persistMergePacket p a j)"
  by (simp_all add: tracing_def mergeOperation_def Let_def split: MergeStrategy.split)

lemma atomically_log: "atomically body events s = (r, s') \<Longrightarrow> log_of s' = log_of s"
  using atomically_outside[of body events s] by (simp add: log_of_def)

lemma await_log: "await (traced f call) s = (r, s') \<Longrightarrow> \<exists>x. r = map_sum PortRejected id x \<and> log_of s' = log_of s @ f x"
  by (cases s) (auto simp: await_def traced_def log_of_def case_prod_beta)

lemma itemPhase_log: "itemPhase p env k params from to ctx b m s = (r, s') \<Longrightarrow> log_of s' = log_of s"
  unfolding itemPhase_def by (rule atomically_log)

text \<open>What the log may be after each kind of result.\<close>

fun fits :: "merge_error + ExecuteMergeResult \<Rightarrow> string \<Rightarrow> merge_call list \<Rightarrow> bool" where
  "fits (Inr (Merged r)) branch log \<longleftrightarrow> log = [Integrated True, GateRun OverallStatus.passed, PushTried branch True]"
| "fits (Inr (PushFailed r)) branch log \<longleftrightarrow> log = [Integrated True, GateRun OverallStatus.passed, PushTried branch False]"
| "fits (Inr (ValidationFailed r)) branch log \<longleftrightarrow> log = [Integrated True, GateRun OverallStatus.failed]"
| "fits (Inr (RebaseConflict r)) branch log \<longleftrightarrow> log = [Integrated False]"
| "fits (Inl e) branch log \<longleftrightarrow> log \<in> {[], [Integrated False], [Integrated True], [Integrated True, GateRun OverallStatus.passed],
     [Integrated True, GateRun OverallStatus.failed],
     [Integrated True, GateRun OverallStatus.passed, PushTried branch True],
     [Integrated True, GateRun OverallStatus.passed, PushTried branch False]}"

lemma finish_log:
  assumes "andThen (finalizePhase (tracing p) env params i sha) (\<lambda>moved.
        packetPhase safeParse (tracing p) params (audits moved) moved sha (packet moved)) s = (r, s')"
  shows "log_of s' = log_of s \<and> (case r of Inl _ \<Rightarrow> True | Inr m \<Rightarrow> is_merged m)"
proof -
  have pk: "log_of s' = log_of s1 \<and> (case r of Inl _ \<Rightarrow> True | Inr m \<Rightarrow> is_merged m)"
    if "packetPhase safeParse (tracing p) params a m sha q s1 = (r, s')" for a m q s1
    using that unfolding packetPhase_def Let_def
    by (auto simp: andThen_result split: sum.splits dest!: await_log)
  show ?thesis
    using assms unfolding andThen_result
    by (auto simp: finalizePhase_def dest!: atomically_log pk)
qed

lemma pushAndFinalize_log:
  assumes "pushAndFinalize safeParse (tracing p) env params strat src q t audits res s = (r, s')"
    and "log_of s = L @ [Integrated True, GateRun OverallStatus.passed]"
  shows "\<exists>rest. log_of s' = L @ rest \<and> fits r (pushBranch params strat src) rest"
proof -
  let ?b = "pushBranch params strat src"
  obtain x s1 where x: "git_push (tracing p) (xm_workspacePath params) ''origin'' ?b s = (x, s1)" by (metis surj_pair)
  then have l1: "log_of s1 = L @ [Integrated True, GateRun OverallStatus.passed,
      PushTried ?b (case x of Inl _ \<Rightarrow> False | Inr _ \<Rightarrow> True)]"
    using assms(2) by (cases s) (auto simp: traced_def log_of_def case_prod_beta)
  show ?thesis
  proof (cases x)
    case (Inl e)
    then have "pushFailedPhase (tracing p) env params t audits e s1 = (r, s')"
      using assms(1) x by (simp add: pushAndFinalize_def Let_def)
    then show ?thesis using l1 Inl
      by (auto simp: pushFailedPhase_def andThen_result dest!: itemPhase_log)
  next
    case (Inr u)
    then have "andThen (await (git_getHeadSha (tracing p) (xm_workspacePath params))) (\<lambda>sha.
        andThen (finalizePhase (tracing p) env params (t_taskId t) sha) (\<lambda>moved.
        packetPhase safeParse (tracing p) params (audits @ mv_audits moved) moved sha
          (mergePacketData env params strat src q (mv_task moved) sha res))) s1 = (r, s')"
      using assms(1) x by (simp add: pushAndFinalize_def Let_def)
    then have "log_of s' = log_of s1 \<and> (case r of Inl _ \<Rightarrow> True | Inr m \<Rightarrow> is_merged m)"
      unfolding andThen_result[of "await _"]
      by (auto dest!: await_log dest: finish_log)
    then show ?thesis using l1 Inr by (cases r) (auto simp: is_merged_def split: sum.splits)
  qed
qed

lemma validateAndPush_log:
  assumes "validateAndPush safeParse (tracing p) env params strat src q t audits s = (r, s')"
    and "log_of s = L @ [Integrated True]"
  shows "\<exists>rest. log_of s' = L @ rest \<and> fits r (pushBranch params strat src) rest"
proof -
  note steps = assms(1)[unfolded validateAndPush_def andThen_result[of "validatingPhase _ _ _"]]
  from steps consider e where "validatingPhase (tracing p) env params s = (Inl e, s')" "r = Inl e"
    | a s1 where "validatingPhase (tracing p) env params s = (Inr a, s1)"
      "(case a of (_, a) \<Rightarrow> andThen (await (runMergeGateValidation (tracing p) (t_taskId t) (xm_workspacePath params))) (\<lambda>result.
        if vr_overallStatus result = OverallStatus.failed then validationFailedPhase (tracing p) env params t (audits @ [a]) result
        else andThen (mergingPhase (tracing p) env params) (\<lambda>(_, b).
          pushAndFinalize safeParse (tracing p) env params strat src q t (audits @ [a, b]) result))) s1 = (r, s')"
    by blast
  then show ?thesis
  proof cases
    case 1
    then show ?thesis using assms(2) by (auto simp: validatingPhase_def dest!: itemPhase_log)
  next
    case (2 a s1)
    have l1: "log_of s1 = L @ [Integrated True]" using 2(1) assms(2) by (simp add: validatingPhase_def itemPhase_log)
    obtain x s2 where x: "await (runMergeGateValidation (tracing p) (t_taskId t) (xm_workspacePath params)) s1 = (x, s2)"
      by (metis surj_pair)
    show ?thesis
    proof (cases x)
      case (Inl e)
      then show ?thesis using 2(2) x l1 by (auto simp: andThen_result case_prod_beta dest!: await_log split: sum.splits)
    next
      case (Inr res)
      then have l2: "log_of s2 = L @ [Integrated True, GateRun (vr_overallStatus res)]"
        using x l1 by (auto dest!: await_log split: sum.splits)
      show ?thesis
      proof (cases "vr_overallStatus res")
        case failed
        then show ?thesis using 2(2) x Inr l2
          by (auto simp: andThen_result case_prod_beta validationFailedPhase_def dest!: itemPhase_log)
      next
        case passed
        then have "andThen (mergingPhase (tracing p) env params) (\<lambda>(_, b).
            pushAndFinalize safeParse (tracing p) env params strat src q t (audits @ [snd a, b]) res) s2 = (r, s')"
          using 2(2) by (simp add: andThen_def[of "await _"] case_prod_beta x[unfolded Inr] del: tracing_sel)
        then show ?thesis using l2 passed unfolding andThen_result
          by (auto simp: mergingPhase_def dest!: itemPhase_log intro: pushAndFinalize_log)
      qed
    qed
  qed
qed

lemma integrate_log:
  assumes "integrate safeParse (tracing p) env params strat src q m0 s1 = (r, s')" and l: "log_of s1 = [OnBranch src]"
  shows "\<exists>rest. log_of s' = OnBranch src # rest \<and> fits r (pushBranch params strat src) rest"
proof -
  note run = assms(1)[unfolded integrate_def]
  have conflict: "log_of s2 = log_of s1 \<and> (case r of Inl _ \<Rightarrow> True | Inr m \<Rightarrow> \<exists>c. m = RebaseConflict c)"
    if "conflictPhase (tracing p) env params st t a fs cls s1 = (r, s2)" for st t a fs cls s1 s2 r
    using that by (auto simp: conflictPhase_def andThen_result dest!: atomically_log)
  obtain x s2 where x: "await (mergeOperation (tracing p) params strat src) s1 = (x, s2)" by (metis surj_pair)
  show ?thesis
  proof (cases x)
    case (Inl e)
    then show ?thesis using run x l by (auto simp: andThen_result dest!: await_log split: sum.splits)
  next
    case (Inr m)
    then have l2: "log_of s2 = [OnBranch src] @ [Integrated (mo_success m)]" using x l by (auto dest!: await_log split: sum.splits)
    show ?thesis
    proof (cases "mo_success m")
      case True
      then have "validateAndPush safeParse (tracing p) env params strat src q (mv_task m0) (mv_audits m0) s2 = (r, s')"
        using run by (simp add: andThen_def[of "await (mergeOperation _ _ _ _)"] x[unfolded Inr] del: tracing_sel)
      then show ?thesis using validateAndPush_log[of safeParse p env params strat src q _ _ s2 r s' "[OnBranch src]"] l2 True by simp
    next
      case False
      then have "andThen (await (classifier_classify (tracing p) (mo_conflictFiles m))) (\<lambda>cls.
          conflictPhase (tracing p) env params strat (mv_task m0) (mv_audits m0) (mo_conflictFiles m) cls) s2 = (r, s')"
        using run by (simp add: andThen_def[of "await (mergeOperation _ _ _ _)"] x[unfolded Inr] del: tracing_sel)
      then show ?thesis using l2 False unfolding andThen_result
        by (auto dest!: await_log conflict split: sum.splits)
    qed
  qed
qed

text \<open>
  (C25) What is pushed.  Whatever happens to the database and outside while a merge waits, it pushes only
  after the merge operation has succeeded and the merge gate has passed: the calls it has made when it
  ends, well or with an error, are an initial piece of branch, merge operation, gate, push, and the
  result tells exactly which.  It pushes at most once, for a rebase the branch it read, otherwise the target.
\<close>

theorem merge_push_guarded:
  shows "case executeMerge safeParse (tracing p) env params ((g, []), w) of (r, s') \<Rightarrow>
    (log_of s' = [] \<and> isl r) \<or>
    (\<exists>src rest. log_of s' = OnBranch src # rest \<and>
       fits r (case xm_mergeStrategy params of None \<Rightarrow> src | Some REBASE_AND_MERGE \<Rightarrow> src | Some _ \<Rightarrow> xm_targetBranch params) rest)"
proof -
  have load: "log_of s = []" if "loadPhase params ((g, []), w) = (x, s)" for x s
    using that by (auto simp: loadPhase_def log_of_def)
  have branch: "(case xm_mergeStrategy params of None \<Rightarrow> src | Some REBASE_AND_MERGE \<Rightarrow> src | Some _ \<Rightarrow> xm_targetBranch params)
      = pushBranch params (chosenStrategy params) src" for src
    by (auto simp: pushBranch_def chosenStrategy_def split: option.split MergeStrategy.split)
  obtain r s' where run: "executeMerge safeParse (tracing p) env params ((g, []), w) = (r, s')" by (metis surj_pair)
  show ?thesis unfolding run prod.case
    using run unfolding executeMerge_def branch andThen_result
    by (auto simp: rebasingPhase_def case_prod_beta andThen_result dest!: load atomically_log await_log dest: integrate_log
        split: sum.splits)
qed

subsection \<open>The contract of the item update\<close>

definition completed_item :: "MergeQueueItemStatus \<Rightarrow> int option \<Rightarrow> MergeQueueItem \<Rightarrow> MergeQueueItem" where
  "completed_item s at q = q\<lparr>mq_status := s,
     mq_completedAt := (case at of None \<Rightarrow> mq_completedAt q | Some t \<Rightarrow> Some (t div 1000))\<rparr>"

locale merge_item_port =
  fixes upd :: "string \<Rightarrow> MergeQueueItemStatus \<Rightarrow> MergeQueueItemStatus \<Rightarrow> int option \<Rightarrow> MergeQueueItem tx"
  assumes move: "wf_db d \<Longrightarrow> item_findById i d = Some q \<Longrightarrow> mq_status q = e \<Longrightarrow>
      upd i e s at d = (Inr (completed_item s at q),
        d\<lparr>mergeQueueItems := update_where (\<lambda>r. mq_mergeQueueItemId r = i) (completed_item s at) (mergeQueueItems d)\<rparr>)"
    and conflict: "(\<And>q. item_findById i d = Some q \<Longrightarrow> mq_status q \<noteq> e) \<Longrightarrow>
      upd i e s at d = (Inl (VersionConflictError ''MergeQueueItem'' i (MergeQueueItemStatus_value e)), d)"

text \<open>The update over the repository of queue items, in the manner of the adapters, keeps the contract.\<close>

definition item_complete :: "string \<Rightarrow> MergeQueueItemStatus \<Rightarrow> MergeQueueItemStatus \<Rightarrow> int option \<Rightarrow> MergeQueueItem tx" where
  "item_complete itemId expectedStatus newStatus completedAt = (\<lambda>d.
    let conflict = VersionConflictError ''MergeQueueItem'' itemId (MergeQueueItemStatus_value expectedStatus)
    in case item_findById itemId d of
      None \<Rightarrow> (Inl conflict, d)
    | Some current \<Rightarrow>
        if mq_status current \<noteq> expectedStatus then (Inl conflict, d)
        else bindT (item_update itemId (completed_item newStatus completedAt))
          (\<lambda>updated. case updated of None \<Rightarrow> throwT conflict | Some r \<Rightarrow> returnT r) d)"

interpretation completing: merge_item_port item_complete
proof
  fix d :: db and i q e s at
  assume "item_findById i d = Some q" "mq_status q = e"
  then show "item_complete i e s at d = (Inr (completed_item s at q),
      d\<lparr>mergeQueueItems := update_where (\<lambda>r. mq_mergeQueueItemId r = i) (completed_item s at) (mergeQueueItems d)\<rparr>)"
    by (simp add: item_complete_def item_update_def bindT_apply Let_def item_findById_def)
next
  fix d :: db and i e s at
  assume "\<And>q. item_findById i d = Some q \<Longrightarrow> mq_status q \<noteq> e"
  then show "item_complete i e s at d = (Inl (VersionConflictError ''MergeQueueItem'' i (MergeQueueItemStatus_value e)), d)"
    by (auto simp: item_complete_def Let_def split: option.split)
qed

text \<open>
  A merge in the middle: the item \<open>q\<close> and the task \<open>t\<close> it is working on, all other items and tasks as they
  were at the start, and no audit keys beyond those drawn.
\<close>

definition at_stage :: "mergeRun \<Rightarrow> db \<Rightarrow> nat set \<Rightarrow> string \<Rightarrow> string \<Rightarrow> MergeQueueItem \<Rightarrow> Task \<Rightarrow> db \<Rightarrow> bool" where
  "at_stage env d0 drawn ii ti q t d \<longleftrightarrow> wf_db d \<and> item_findById ii d = Some q \<and> task_findById ti d = Some t
    \<and> (\<forall>j. j \<noteq> ii \<longrightarrow> item_findById j d = item_findById j d0) \<and> (\<forall>j. j \<noteq> ti \<longrightarrow> task_findById j d = task_findById j d0)
    \<and> set (map ae_id (auditEvents d)) \<subseteq> set (map ae_id (auditEvents d0)) \<union> mr_uuid env ` drawn"

definition fresh_run :: "mergeRun \<Rightarrow> db \<Rightarrow> bool" where
  "fresh_run env d0 \<longleftrightarrow> inj (mr_uuid env) \<and> (\<forall>k. mr_uuid env k \<notin> set (map ae_id (auditEvents d0)))"

lemma stage_audit:
  assumes "at_stage env d0 drawn ii ti q t d" and "fresh_run env d0" and "k \<notin> drawn"
  shows "\<exists>a. auditEvent_create (mr_uuid env k) now ev d = (Inr a, d\<lparr>auditEvents := auditEvents d @ [a]\<rparr>)
    \<and> at_stage env d0 (insert k drawn) ii ti q t (d\<lparr>auditEvents := auditEvents d @ [a]\<rparr>)"
proof -
  have new: "mr_uuid env k \<notin> set (map ae_id (auditEvents d))"
  proof -
    have "mr_uuid env k \<notin> mr_uuid env ` drawn" using assms(2,3) by (simp add: fresh_run_def inj_image_mem_iff)
    then show ?thesis using assms(1,2) unfolding at_stage_def fresh_run_def by blast
  qed
  have "at_stage env d0 (insert k drawn) ii ti q t (d\<lparr>auditEvents := auditEvents d @ [audit_row (mr_uuid env k) now ev]\<rparr>)"
    using assms(1) wf_db_audit[of d "audit_row (mr_uuid env k) now ev"] new
    by (auto simp: at_stage_def item_findById_def task_findById_def)
  then show ?thesis using audit_fresh[OF new, of now ev] by blast
qed

lemma completed_item_sel [simp]:
  "mq_mergeQueueItemId (completed_item s at q) = mq_mergeQueueItemId q" "mq_status (completed_item s at q) = s"
  "mq_taskId (completed_item s at q) = mq_taskId q" "mq_approvedCommitSha (completed_item s at q) = mq_approvedCommitSha q"
  by (simp_all add: completed_item_def)

lemma stage_task:
  assumes "at_stage env d0 drawn ii ti q t d"
  shows "\<exists>d'. task_updateStatus now ti (t_version t) s d
      = (Inr (t\<lparr>t_status := s, t_version := t_version t + 1, t_updatedAt := now div 1000\<rparr>), d')
    \<and> at_stage env d0 drawn ii ti q (t\<lparr>t_status := s, t_version := t_version t + 1, t_updatedAt := now div 1000\<rparr>) d'"
proof -
  have wf: "wf_db d" and t: "task_findById ti d = Some t" using assms by (simp_all add: at_stage_def)
  obtain d' where d': "task_update now ti (t_version t) (\<lambda>r. r\<lparr>t_status := s\<rparr>) d
      = (Inr (t\<lparr>t_status := s, t_version := t_version t + 1, t_updatedAt := now div 1000\<rparr>), d')"
    "d' = d\<lparr>tasks := tasks d'\<rparr>"
    "task_findById ti d' = Some (t\<lparr>t_status := s, t_version := t_version t + 1, t_updatedAt := now div 1000\<rparr>)"
    "\<forall>j. j \<noteq> ti \<longrightarrow> task_findById j d' = task_findById j d" "wf_db d'"
    by (rule task_update_current[OF wf t, of "\<lambda>r. r\<lparr>t_status := s\<rparr>" now]) auto
  have "auditEvents d' = auditEvents d" "mergeQueueItems d' = mergeQueueItems d" by (subst d'(2), simp)+
  then show ?thesis using d' assms by (auto simp: task_updateStatus_def at_stage_def item_findById_def)
qed

context merge_item_port
begin

lemma stage_item:
  assumes "at_stage env d0 drawn ii ti q t d" and "mq_status q = from" and "updateItem ports = upd"
    and "valid (validateMergeQueueItemTransition from to ctx)"
  shows "\<exists>d'. moveItem ports ii from to ctx at d = (Inr (completed_item to at q), d')
    \<and> at_stage env d0 drawn ii ti (completed_item to at q) t d'"
proof -
  let ?f = "completed_item to at" and ?hit = "\<lambda>r. mq_mergeQueueItemId r = ii"
  let ?d = "d\<lparr>mergeQueueItems := update_where ?hit ?f (mergeQueueItems d)\<rparr>"
  have wf: "wf_db d" and q: "item_findById ii d = Some q" using assms(1) by (simp_all add: at_stage_def)
  have "wf_db ?d" by (rule wf_db_keys(2)[OF map_update_where_same wf]) simp
  moreover have "item_findById ii ?d = Some (?f q)" using q by (simp add: item_findById_def find_update_where_key)
  moreover have "\<forall>j. j \<noteq> ii \<longrightarrow> item_findById j ?d = item_findById j d"
    by (simp add: item_findById_def find_update_where_other)
  ultimately have "at_stage env d0 drawn ii ti (?f q) t ?d" using assms(1) by (simp add: at_stage_def task_findById_def)
  then show ?thesis using move[OF wf q assms(2), of to at] assms(3,4) by (simp add: moveItem_def Let_def)
qed

text \<open>A phase that moves the item alone.\<close>

lemma stage_itemPhase:
  assumes "at_stage env d0 drawn (xm_mergeQueueItemId params) ti q t (database w)" and "fresh_run env d0"
    and "k' = k + 1" and "k' \<notin> drawn" and "mq_status q = from" and "updateItem ports = upd"
    and "valid (validateMergeQueueItemTransition from to ctx)"
  shows "\<exists>q' a w'. itemPhase ports env k params from to ctx b m (g, w) = (Inr (q', a), g, w') \<and> mq_status q' = to
    \<and> mq_approvedCommitSha q' = mq_approvedCommitSha q
    \<and> at_stage env d0 (insert k' drawn) (xm_mergeQueueItemId params) ti q' t (database w')"
proof -
  let ?at = "if b then Some (mr_clock env k) else None"
  obtain d1 where m: "moveItem ports (xm_mergeQueueItemId params) from to ctx ?at (database w) = (Inr (completed_item to ?at q), d1)"
    and s1: "at_stage env d0 drawn (xm_mergeQueueItemId params) ti (completed_item to ?at q) t d1"
    using stage_item[OF assms(1,5,6,7)] by metis
  obtain a where a: "itemAudit env k' params from to m d1 = (Inr a, d1\<lparr>auditEvents := auditEvents d1 @ [a]\<rparr>)"
    and s2: "at_stage env d0 (insert k' drawn) (xm_mergeQueueItemId params) ti (completed_item to ?at q) t
      (d1\<lparr>auditEvents := auditEvents d1 @ [a]\<rparr>)"
    using stage_audit[OF s1 assms(2,4)] unfolding itemAudit_def by metis
  show ?thesis using m a s2 assms(3)
    by (simp add: itemPhase_def atomically_def commit_def writeTransaction_def bindT_apply)
qed

text \<open>A transaction that moves the item and the task.\<close>

lemma stage_both:
  assumes "at_stage env d0 drawn (xm_mergeQueueItemId params) ti q t d" and "fresh_run env d0"
    and "k \<notin> drawn" and "l \<notin> drawn" and "k \<noteq> l" and "mq_status q = from" and "updateItem ports = upd"
    and "valid (validateMergeQueueItemTransition from to ctx)" and "valid (validateTransition tfrom tto tctx)"
  shows "\<exists>q' t' a b d'. bindT (moveItem ports (xm_mergeQueueItemId params) from to ctx at) (\<lambda>x.
      bindT (moveMergingTask now ti (t_version t) tfrom tto tctx) (\<lambda>y.
      bindT (itemAudit env k params from to m) (\<lambda>a. bindT (taskAudit env l params ti tfrom tto m') (\<lambda>b.
      returnT \<lparr>mv_item = x, mv_task = y, mv_audits = [a, b]\<rparr>)))) d = (Inr \<lparr>mv_item = q', mv_task = t', mv_audits = [a, b]\<rparr>, d')
    \<and> mq_status q' = to \<and> t_status t' = tto \<and> t_taskId t' = t_taskId t \<and> t_repositoryId t' = t_repositoryId t
    \<and> mq_approvedCommitSha q' = mq_approvedCommitSha q
    \<and> at_stage env d0 (insert l (insert k drawn)) (xm_mergeQueueItemId params) ti q' t' d'"
proof -
  obtain d1 where m: "moveItem ports (xm_mergeQueueItemId params) from to ctx at d = (Inr (completed_item to at q), d1)"
    and s1: "at_stage env d0 drawn (xm_mergeQueueItemId params) ti (completed_item to at q) t d1"
    using stage_item[OF assms(1,6,7,8)] by metis
  let ?t = "t\<lparr>t_status := tto, t_version := t_version t + 1, t_updatedAt := now div 1000\<rparr>"
  obtain d2 where u: "moveMergingTask now ti (t_version t) tfrom tto tctx d1 = (Inr ?t, d2)"
    and s2: "at_stage env d0 drawn (xm_mergeQueueItemId params) ti (completed_item to at q) ?t d2"
    using stage_task[OF s1, of now tto] assms(9) by (auto simp: moveMergingTask_def)
  obtain a where a: "itemAudit env k params from to m d2 = (Inr a, d2\<lparr>auditEvents := auditEvents d2 @ [a]\<rparr>)"
    and s3: "at_stage env d0 (insert k drawn) (xm_mergeQueueItemId params) ti (completed_item to at q) ?t
      (d2\<lparr>auditEvents := auditEvents d2 @ [a]\<rparr>)"
    using stage_audit[OF s2 assms(2,3)] unfolding itemAudit_def by metis
  define d3 where "d3 = d2\<lparr>auditEvents := auditEvents d2 @ [a]\<rparr>"
  have l: "l \<notin> insert k drawn" using assms(4,5) by auto
  obtain b where b: "taskAudit env l params ti tfrom tto m' d3 = (Inr b, d3\<lparr>auditEvents := auditEvents d3 @ [b]\<rparr>)"
    and s4: "at_stage env d0 (insert l (insert k drawn)) (xm_mergeQueueItemId params) ti (completed_item to at q) ?t
      (d3\<lparr>auditEvents := auditEvents d3 @ [b]\<rparr>)"
    using stage_audit[OF s3[folded d3_def] assms(2) l] unfolding taskAudit_def by metis
  show ?thesis
    by (intro exI[of _ "completed_item to at q"] exI[of _ ?t] exI[of _ a] exI[of _ b] exI[of _ "d3\<lparr>auditEvents := auditEvents d3 @ [b]\<rparr>"])
      (use m u a b s4 in \<open>simp add: bindT_apply d3_def\<close>)
qed

end

subsection \<open>An undisturbed merge\<close>

text \<open>
  Each port is called at most once, so a run in which nobody else touches the database is determined by
  one answer of each port.
\<close>

record mergeAnswers =
  an_fetch :: "string + unit"
  an_branch :: "string + string"
  an_operation :: "string + MergeOperationResult"
  an_classify :: "string + ConflictClassification"
  an_gate :: "string + ValidationRunResult"
  an_push :: "string + unit"
  an_sha :: "string + string"
  an_store :: "string + string"

definition answering ::
  "mergeAnswers \<Rightarrow> (string \<Rightarrow> MergeQueueItemStatus \<Rightarrow> MergeQueueItemStatus \<Rightarrow> int option \<Rightarrow> MergeQueueItem tx) \<Rightarrow> 'g mergePorts" where
  "answering a upd = \<lparr>git_fetch = \<lambda>_ _. Pair (an_fetch a), git_getCurrentBranch = \<lambda>_. Pair (an_branch a),
     git_rebase = \<lambda>_ _. Pair (an_operation a), git_squashMerge = \<lambda>_ _ _ _. Pair (an_operation a),
     git_mergeCommit = \<lambda>_ _ _. Pair (an_operation a), git_push = \<lambda>_ _ _. Pair (an_push a),
     git_getHeadSha = \<lambda>_. Pair (an_sha a), runMergeGateValidation = \<lambda>_ _. Pair (an_gate a),
     classifier_classify = \<lambda>_. Pair (an_classify a), persistMergePacket = \<lambda>_ _. Pair (an_store a), updateItem = upd\<rparr>"

text \<open>What comes out: the status of the item, that of the task, and the report.\<close>

datatype merge_report =
    Failing merge_error
  | Conflicting "string list" ConflictClassification
  | GateRefuses ValidationRunResult
  | PushRefused string
  | Done string string

fun report_of :: "merge_error + ExecuteMergeResult \<Rightarrow> merge_report" where
  "report_of (Inl e) = Failing e"
| "report_of (Inr (Merged r)) = Done (ms_mergedCommitSha r) (ms_artifactPath r)"
| "report_of (Inr (RebaseConflict r)) = Conflicting (rb_conflictFiles r) (rb_classification r)"
| "report_of (Inr (ValidationFailed r)) = GateRefuses (vf_validationResult r)"
| "report_of (Inr (PushFailed r)) = PushRefused (pf_pushError r)"

fun conflict_end :: "string list \<Rightarrow> string + ConflictClassification \<Rightarrow> MergeQueueItemStatus \<times> TaskStatus \<times> merge_report" where
  "conflict_end files (Inl e) = (MergeQueueItemStatus.REBASING, TaskStatus.MERGING, Failing (PortRejected e))"
| "conflict_end files (Inr ConflictClassification.reworkable)
    = (MergeQueueItemStatus.REQUEUED, TaskStatus.CHANGES_REQUESTED, Conflicting files ConflictClassification.reworkable)"
| "conflict_end files (Inr ConflictClassification.non_reworkable)
    = (MergeQueueItemStatus.FAILED, TaskStatus.FAILED, Conflicting files ConflictClassification.non_reworkable)"

definition push_end :: "mergeAnswers \<Rightarrow> (string \<Rightarrow> bool) \<Rightarrow> MergeQueueItemStatus \<times> TaskStatus \<times> merge_report" where
  "push_end a packet_ok =
    (case an_push a of Inl e \<Rightarrow> (MergeQueueItemStatus.FAILED, TaskStatus.MERGING, PushRefused e)
     | Inr _ \<Rightarrow> (case an_sha a of Inl e \<Rightarrow> (MergeQueueItemStatus.MERGING, TaskStatus.MERGING, Failing (PortRejected e))
       | Inr sha \<Rightarrow> (MergeQueueItemStatus.MERGED, TaskStatus.POST_MERGE_VALIDATION,
           if packet_ok sha then (case an_store a of Inl e \<Rightarrow> Failing (PortRejected e) | Inr path \<Rightarrow> Done sha path)
           else Done sha [])))"

definition merge_end :: "mergeAnswers \<Rightarrow> (ValidationRunResult \<Rightarrow> string \<Rightarrow> bool) \<Rightarrow> MergeQueueItemStatus \<times> TaskStatus \<times> merge_report" where
  "merge_end a packet_ok =
    (let stopped = (\<lambda>e. (MergeQueueItemStatus.REBASING, TaskStatus.MERGING, Failing (PortRejected e))) in
     case an_fetch a of Inl e \<Rightarrow> stopped e
     | Inr _ \<Rightarrow> (case an_branch a of Inl e \<Rightarrow> stopped e
       | Inr _ \<Rightarrow> (case an_operation a of Inl e \<Rightarrow> stopped e
         | Inr m \<Rightarrow>
             if \<not> mo_success m then conflict_end (mo_conflictFiles m) (an_classify a)
             else (case an_gate a of
                 Inl e \<Rightarrow> (MergeQueueItemStatus.VALIDATING, TaskStatus.MERGING, Failing (PortRejected e))
               | Inr run \<Rightarrow>
                   if vr_overallStatus run = OverallStatus.failed
                   then (MergeQueueItemStatus.FAILED, TaskStatus.MERGING, GateRefuses run)
                   else push_end a (packet_ok run)))))"

lemma await_Pair [simp]: "await (Pair x) s = (map_sum PortRejected id x, s)"
  by (simp add: await_def)

lemma answering_sel [simp]:
  "git_fetch (answering a upd) x y = Pair (an_fetch a)" "git_getCurrentBranch (answering a upd) x = Pair (an_branch a)"
  "mergeOperation (answering a upd) params strat src = Pair (an_operation a)"
  "git_push (answering a upd) x y z = Pair (an_push a)" "git_getHeadSha (answering a upd) x = Pair (an_sha a)"
  "runMergeGateValidation (answering a upd) x y = Pair (an_gate a)" "classifier_classify (answering a upd) fs = Pair (an_classify a)"
  "persistMergePacket (answering a upd) x j = Pair (an_store a)" "updateItem (answering a upd) = upd"
  by (simp_all add: answering_def mergeOperation_def Let_def split: MergeStrategy.split)

text \<open>Every move the service checks is one its machine allows.\<close>

lemma merge_steps_valid:
  "valid (validateMergeQueueItemTransition MergeQueueItemStatus.PREPARING MergeQueueItemStatus.REBASING
    (emptyMergeQueueItemTransitionContext\<lparr>workspaceReady := Some True\<rparr>))"
  "valid (validateMergeQueueItemTransition MergeQueueItemStatus.REBASING MergeQueueItemStatus.VALIDATING
    (emptyMergeQueueItemTransitionContext\<lparr>rebaseSuccessful := Some True\<rparr>))"
  "valid (validateMergeQueueItemTransition MergeQueueItemStatus.VALIDATING MergeQueueItemStatus.FAILED
    (emptyMergeQueueItemTransitionContext\<lparr>validationFailed := Some True\<rparr>))"
  "valid (validateMergeQueueItemTransition MergeQueueItemStatus.VALIDATING MergeQueueItemStatus.MERGING
    (emptyMergeQueueItemTransitionContext\<lparr>validationPassed := Some True\<rparr>))"
  "valid (validateMergeQueueItemTransition MergeQueueItemStatus.MERGING MergeQueueItemStatus.FAILED
    (emptyMergeQueueItemTransitionContext\<lparr>mergeFailed := Some True\<rparr>))"
  "valid (validateMergeQueueItemTransition MergeQueueItemStatus.MERGING MergeQueueItemStatus.MERGED
    (emptyMergeQueueItemTransitionContext\<lparr>MergeQueueItemTransitionContext.mergeSuccessful := Some True\<rparr>))"
  "valid (validateTransition TaskStatus.QUEUED_FOR_MERGE TaskStatus.MERGING emptyContext)"
  "valid (validateTransition TaskStatus.MERGING TaskStatus.POST_MERGE_VALIDATION
    (emptyContext\<lparr>TransitionContext.mergeSuccessful := Some True\<rparr>))"
  by code_simp+

lemma conflict_steps_valid:
  "valid (validateMergeQueueItemTransition MergeQueueItemStatus.REBASING (conflictItemTarget cls)
    (emptyMergeQueueItemTransitionContext\<lparr>rebaseFailed := Some True,
       conflictReworkable := (if cls = ConflictClassification.reworkable then Some True else None)\<rparr>))"
  "valid (validateTransition TaskStatus.MERGING (conflictTaskTarget cls)
    (emptyContext\<lparr>mergeConflictClassification := Some (if cls = ConflictClassification.reworkable
       then MergeConflictClass.reworkable else MergeConflictClass.non_reworkable)\<rparr>))"
  by (cases cls; simp add: conflictItemTarget_def conflictTaskTarget_def; code_simp)+

definition ends_as :: "mergeRun \<Rightarrow> db \<Rightarrow> string \<Rightarrow> string \<Rightarrow> MergeQueueItemStatus \<times> TaskStatus \<times> merge_report
    \<Rightarrow> (merge_error + ExecuteMergeResult) \<times> 'g \<times> world \<Rightarrow> bool" where
  "ends_as env d0 ii ti expected outcome \<longleftrightarrow> (case (expected, outcome) of ((si, st, report), (r, g, w)) \<Rightarrow>
     report_of r = report \<and> (\<exists>q t drawn. at_stage env d0 drawn ii ti q t (database w) \<and> mq_status q = si \<and> t_status t = st))"

lemma ends_asI:
  "report_of r = report \<Longrightarrow> at_stage env d0 drawn ii ti q t (database w) \<Longrightarrow> mq_status q = si \<Longrightarrow> t_status t = st
    \<Longrightarrow> ends_as env d0 ii ti (si, st, report) (r, g, w)"
  by (auto simp: ends_as_def)

lemma packet_same:
  "t_taskId t' = t_taskId t \<Longrightarrow> t_repositoryId t' = t_repositoryId t
    \<Longrightarrow> mergePacketData env params st src q t' sha run = mergePacketData env params st src q t sha run"
  by (simp add: mergePacketData_def)

context merge_item_port
begin

lemma stage_finalize:
  assumes "at_stage env d0 drawn (xm_mergeQueueItemId params) ti q t d" and "fresh_run env d0"
    and "18 \<notin> drawn" and "19 \<notin> drawn" and "mq_status q = MergeQueueItemStatus.MERGING" and "updateItem ports = upd"
  shows "\<exists>q' t' a b d'. finalize_tx ports env params ti sha d = (Inr \<lparr>mv_item = q', mv_task = t', mv_audits = [a, b]\<rparr>, d')
    \<and> mq_status q' = MergeQueueItemStatus.MERGED \<and> t_status t' = TaskStatus.POST_MERGE_VALIDATION
    \<and> t_taskId t' = t_taskId t \<and> t_repositoryId t' = t_repositoryId t
    \<and> at_stage env d0 (insert 19 (insert 18 drawn)) (xm_mergeQueueItemId params) ti q' t' d'"
proof -
  let ?ctx = "emptyMergeQueueItemTransitionContext\<lparr>MergeQueueItemTransitionContext.mergeSuccessful := Some True\<rparr>"
  let ?m = "extended params [(''mergedCommitSha'', JStr sha)]"
  obtain d1 where m: "moveItem ports (xm_mergeQueueItemId params) MergeQueueItemStatus.MERGING MergeQueueItemStatus.MERGED ?ctx
      (Some (mr_clock env 16)) d = (Inr (completed_item MergeQueueItemStatus.MERGED (Some (mr_clock env 16)) q), d1)"
    "at_stage env d0 drawn (xm_mergeQueueItemId params) ti (completed_item MergeQueueItemStatus.MERGED (Some (mr_clock env 16)) q) t d1"
    using stage_item[OF assms(1,5,6) merge_steps_valid(6)] by metis
  have t: "task_findById ti d1 = Some t" using m(2) by (simp add: at_stage_def)
  have "finalize_tx ports env params ti sha d
    = bindT (moveItem ports (xm_mergeQueueItemId params) MergeQueueItemStatus.MERGING MergeQueueItemStatus.MERGED ?ctx
        (Some (mr_clock env 16))) (\<lambda>x.
      bindT (moveMergingTask (mr_clock env 17) ti (t_version t) TaskStatus.MERGING TaskStatus.POST_MERGE_VALIDATION
        (emptyContext\<lparr>TransitionContext.mergeSuccessful := Some True\<rparr>)) (\<lambda>y.
      bindT (itemAudit env 18 params MergeQueueItemStatus.MERGING MergeQueueItemStatus.MERGED ?m) (\<lambda>a.
      bindT (taskAudit env 19 params ti TaskStatus.MERGING TaskStatus.POST_MERGE_VALIDATION ?m) (\<lambda>b.
      returnT \<lparr>mv_item = x, mv_task = y, mv_audits = [a, b]\<rparr>)))) d"
    using m(1) t by (simp add: finalize_tx_def bindT_apply[of "moveItem _ _ _ _ _ _"])
  then show ?thesis
    using stage_both[OF assms(1,2,3,4) _ assms(5,6) merge_steps_valid(6,8), of "Some (mr_clock env 16)" "mr_clock env 17" ?m ?m] by auto
qed

lemma push_stage:
  fixes g :: 'g
  assumes s: "at_stage env d0 {0, 1, 11, 14} (xm_mergeQueueItemId params) (t_taskId t) q t (database w)" and f: "fresh_run env d0"
    and st: "mq_status q = MergeQueueItemStatus.MERGING" "t_status t = TaskStatus.MERGING"
  shows "ends_as env d0 (xm_mergeQueueItemId params) (t_taskId t)
      (push_end a (\<lambda>sha. \<not> isl (safeParse MergePacketSchema (Some (mergePacketData env params strat src q0 t sha run)))))
      (pushAndFinalize safeParse (answering a upd) env params strat src q0 t audits run (g, w))"
proof -
  let ?P = "answering a upd :: 'g mergePorts"
  show ?thesis
  proof (cases "an_push a")
    case (Inl e)
    have up: "updateItem ?P = upd" by simp
    obtain q' a' w' where "itemPhase ?P env 16 params MergeQueueItemStatus.MERGING MergeQueueItemStatus.FAILED
        (emptyMergeQueueItemTransitionContext\<lparr>mergeFailed := Some True\<rparr>) True
        (extended params [(''reason'', JStr ''push_failed''), (''error'', JStr e)]) (g, w) = (Inr (q', a'), g, w')"
      "mq_status q' = MergeQueueItemStatus.FAILED"
      "at_stage env d0 (insert 17 {0, 1, 11, 14}) (xm_mergeQueueItemId params) (t_taskId t) q' t (database w')"
      using stage_itemPhase[OF s f _ _ st(1) up merge_steps_valid(5), where k = 16 and k' = 17 and b = True and g = g
          and m = "extended params [(''reason'', JStr ''push_failed''), (''error'', JStr e)]"] by auto
    then show ?thesis using Inl st(2)
      by (simp add: pushAndFinalize_def pushFailedPhase_def andThen_def push_end_def ends_as_def) blast
  next
    case (Inr u)
    show ?thesis
    proof (cases "an_sha a")
      case (Inl e)
      then show ?thesis using Inr s st by (simp add: pushAndFinalize_def andThen_def push_end_def ends_as_def) blast
    next
      case sha: (Inr sha)
      obtain q' t' a' b' d' where fin: "finalize_tx ?P env params (t_taskId t) sha (database w)
          = (Inr \<lparr>mv_item = q', mv_task = t', mv_audits = [a', b']\<rparr>, d')" "mq_status q' = MergeQueueItemStatus.MERGED"
        "t_status t' = TaskStatus.POST_MERGE_VALIDATION" "t_taskId t' = t_taskId t" "t_repositoryId t' = t_repositoryId t"
        "at_stage env d0 (insert 19 (insert 18 {0, 1, 11, 14})) (xm_mergeQueueItemId params) (t_taskId t) q' t' d'"
        using stage_finalize[OF s f, of ?P sha] st by auto
      let ?p = "mergePacketData env params strat src q0 t sha run"
      have p: "mergePacketData env params strat src q0 t' sha run = ?p" by (rule packet_same[OF fin(4,5)])
      let ?w = "w\<lparr>database := d', emitted := emitted w @ [itemEvent env 20 params MergeQueueItemStatus.MERGING MergeQueueItemStatus.MERGED,
          taskEvent env 21 params TaskStatus.MERGING t' TaskStatus.POST_MERGE_VALIDATION]\<rparr>"
      have run: "pushAndFinalize safeParse ?P env params strat src q0 t audits run (g, w)
        = packetPhase safeParse ?P params (audits @ [a', b']) \<lparr>mv_item = q', mv_task = t', mv_audits = [a', b']\<rparr> sha ?p (g, ?w)"
        using Inr sha fin(1) p
        by (simp add: pushAndFinalize_def andThen_def finalizePhase_def atomically_def commit_def writeTransaction_def)
      have "\<exists>r. packetPhase safeParse ?P params (audits @ [a', b']) \<lparr>mv_item = q', mv_task = t', mv_audits = [a', b']\<rparr> sha ?p (g, ?w)
          = (r, g, ?w) \<and> report_of r = (if isl (safeParse MergePacketSchema (Some ?p)) then MergeExecutor.Done sha []
              else (case an_store a of Inl e \<Rightarrow> Failing (PortRejected e) | Inr path \<Rightarrow> MergeExecutor.Done sha path))"
        by (cases "safeParse MergePacketSchema (Some ?p)"; cases "an_store a") (simp_all add: packetPhase_def andThen_def)
      then show ?thesis using fin(2,3,6) run Inr sha by (auto simp: push_end_def intro!: ends_asI)
    qed
  qed
qed

lemma validate_stage:
  fixes g :: 'g
  assumes s: "at_stage env d0 {0, 1} (xm_mergeQueueItemId params) (t_taskId t) q t (database w)" and f: "fresh_run env d0"
    and st: "mq_status q = MergeQueueItemStatus.REBASING" "t_status t = TaskStatus.MERGING"
  shows "ends_as env d0 (xm_mergeQueueItemId params) (t_taskId t)
      (case an_gate a of
         Inl e \<Rightarrow> (MergeQueueItemStatus.VALIDATING, TaskStatus.MERGING, Failing (PortRejected e))
       | Inr run \<Rightarrow> if vr_overallStatus run = OverallStatus.failed
           then (MergeQueueItemStatus.FAILED, TaskStatus.MERGING, GateRefuses run)
           else push_end a (\<lambda>sha. \<not> isl (safeParse MergePacketSchema (Some (mergePacketData env params strat src q0 t sha run)))))
      (validateAndPush safeParse (answering a upd) env params strat src q0 t audits (g, w))"
proof -
  let ?P = "answering a upd :: 'g mergePorts"
  have up: "updateItem ?P = upd" by simp
  obtain q1 a1 w1 where v: "validatingPhase ?P env params (g, w) = (Inr (q1, a1), g, w1)" "mq_status q1 = MergeQueueItemStatus.VALIDATING"
    and s1: "at_stage env d0 (insert 11 {0, 1}) (xm_mergeQueueItemId params) (t_taskId t) q1 t (database w1)"
    using stage_itemPhase[OF s f _ _ st(1) up merge_steps_valid(2), where k = 10 and k' = 11 and b = False and g = g and m = "plain params"]
    unfolding validatingPhase_def by auto
  show ?thesis
  proof (cases "an_gate a")
    case (Inl e)
    then show ?thesis using v s1 st by (auto simp: validateAndPush_def andThen_def intro!: ends_asI)
  next
    case (Inr run)
    show ?thesis
    proof (cases "vr_overallStatus run")
      case failed
      obtain q2 a2 w2 where "itemPhase ?P env 13 params MergeQueueItemStatus.VALIDATING MergeQueueItemStatus.FAILED
          (emptyMergeQueueItemTransitionContext\<lparr>validationFailed := Some True\<rparr>) True
          (extended params [(''reason'', JStr ''validation_failed''), (''summary'', JStr (vr_summary run))]) (g, w1) = (Inr (q2, a2), g, w2)"
        "mq_status q2 = MergeQueueItemStatus.FAILED"
        "at_stage env d0 (insert 14 (insert 11 {0, 1})) (xm_mergeQueueItemId params) (t_taskId t) q2 t (database w2)"
        using stage_itemPhase[OF s1 f _ _ v(2) up merge_steps_valid(3), where k = 13 and k' = 14 and b = True and g = g
            and m = "extended params [(''reason'', JStr ''validation_failed''), (''summary'', JStr (vr_summary run))]"] by auto
      then show ?thesis using v(1) Inr failed st
        by (auto simp: validateAndPush_def validationFailedPhase_def andThen_def intro!: ends_asI)
    next
      case passed
      obtain q2 a2 w2 where m: "mergingPhase ?P env params (g, w1) = (Inr (q2, a2), g, w2)" "mq_status q2 = MergeQueueItemStatus.MERGING"
        and s2: "at_stage env d0 (insert 14 (insert 11 {0, 1})) (xm_mergeQueueItemId params) (t_taskId t) q2 t (database w2)"
        using stage_itemPhase[OF s1 f _ _ v(2) up merge_steps_valid(4), where k = 13 and k' = 14 and b = False and g = g and m = "plain params"]
        unfolding mergingPhase_def by auto
      have "{0, 1, 11, 14} = insert 14 (insert 11 {0, 1 :: nat})" by auto
      then show ?thesis
        using push_stage[where w = w2 and q = q2 and g = g and a = a and run = run and q0 = q0 and src = src and strat = strat
            and safeParse = safeParse and audits = "audits @ [a1, a2]", OF _ f m(2) st(2)] s2 v(1) m(1) Inr passed
        by (simp add: validateAndPush_def andThen_def)
    qed
  qed
qed

lemma integrate_stage:
  fixes g :: 'g
  assumes s: "at_stage env d0 {0, 1} (xm_mergeQueueItemId params) (t_taskId t) q t (database w)" and f: "fresh_run env d0"
    and st: "mq_status q = MergeQueueItemStatus.REBASING" "t_status t = TaskStatus.MERGING"
    and mv: "mv_task moved = t" and an: "an_fetch a = Inr ()" "an_branch a = Inr src"
  shows "ends_as env d0 (xm_mergeQueueItemId params) (t_taskId t)
      (merge_end a (\<lambda>run sha. \<not> isl (safeParse MergePacketSchema (Some (mergePacketData env params strat src q0 t sha run)))))
      (integrate safeParse (answering a upd) env params strat src q0 moved (g, w))"
proof -
  let ?P = "answering a upd :: 'g mergePorts"
  have up: "updateItem ?P = upd" by simp
  show ?thesis
  proof (cases "an_operation a")
    case (Inl e)
    then show ?thesis using s st an by (auto simp: integrate_def merge_end_def andThen_def intro!: ends_asI)
  next
    case (Inr m)
    show ?thesis
    proof (cases "mo_success m")
      case True
      then show ?thesis using validate_stage[OF s f st, of a safeParse strat src q0 "mv_audits moved" g] Inr an mv
        by (simp add: integrate_def merge_end_def andThen_def)
    next
      case False
      show ?thesis
      proof (cases "an_classify a")
        case (Inl e)
        then show ?thesis using Inr False s st an by (auto simp: integrate_def merge_end_def andThen_def intro!: ends_asI)
      next
        case cls: (Inr cls)
        obtain q' t' a' b' d' where c: "conflict_tx ?P env params strat t (mo_conflictFiles m) cls (database w)
            = (Inr \<lparr>mv_item = q', mv_task = t', mv_audits = [a', b']\<rparr>, d')"
          "mq_status q' = conflictItemTarget cls" "t_status t' = conflictTaskTarget cls"
          "at_stage env d0 (insert 7 (insert 6 {0, 1})) (xm_mergeQueueItemId params) (t_taskId t) q' t' d'"
          using stage_both[OF s f _ _ _ st(1) up conflict_steps_valid, where k = 6 and l = 7 and at = "Some (mr_clock env 4)"
              and now = "mr_clock env 5"]
          unfolding conflict_tx_def Let_def by (fastforce simp del: append.simps)
        then show ?thesis using Inr False an cls mv
          by (cases cls) (auto simp: integrate_def merge_end_def andThen_def conflictPhase_def atomically_def commit_def
              writeTransaction_def conflictItemTarget_def conflictTaskTarget_def intro!: ends_asI)
      qed
    qed
  qed
qed

end

text \<open>
  (C26) An undisturbed merge.  A merge of an item that is not being prepared, or whose task is not queued, is
  refused and changes nothing.  Otherwise, when nobody else touches the database, status of item and task
  and result are exactly those of the table \<open>merge_end\<close>, whatever git, the gate, the classifier and the
  store answer, and all other items and tasks stay as they were.  A failed gate, a failed push and every
  rejected port leave the task MERGING.
\<close>

theorem merge_outcome_exact:
  assumes wf: "wf_db (database w)" and port: "merge_item_port upd" and fresh: "fresh_run env (database w)"
  shows "case loadMerge (xm_mergeQueueItemId params) (database w) of
      Inl e \<Rightarrow> executeMerge safeParse (answering a upd) env params (g, w) = (Inl e, g, w)
    | Inr (q0, t0) \<Rightarrow>
        ends_as env (database w) (xm_mergeQueueItemId params) (mq_taskId q0)
          (merge_end a (\<lambda>run sha. \<not> isl (safeParse MergePacketSchema (Some (mergePacketData env params (chosenStrategy params)
             (case an_branch a of Inr b \<Rightarrow> b | Inl _ \<Rightarrow> []) q0 t0 sha run)))))
          (executeMerge safeParse (answering a upd) env params (g, w))"
proof (cases "loadMerge (xm_mergeQueueItemId params) (database w)")
  case (Inl e)
  then show ?thesis by (simp add: executeMerge_def loadPhase_def andThen_def)
next
  case (Inr found)
  obtain q0 t0 where qt: "found = (q0, t0)" by fastforce
  have q0: "item_findById (xm_mergeQueueItemId params) (database w) = Some q0" "mq_status q0 = MergeQueueItemStatus.PREPARING"
    and t0: "task_findById (mq_taskId q0) (database w) = Some t0" "t_status t0 = TaskStatus.QUEUED_FOR_MERGE"
    using Inr qt by (auto simp: loadMerge_def split: option.splits if_splits)
  have id: "t_taskId t0 = mq_taskId q0" using t0(1) by (auto simp: task_findById_def dest: find_Some_iff_mem)
  have s0: "at_stage env (database w) {} (xm_mergeQueueItemId params) (mq_taskId q0) q0 t0 (database w)"
    using wf q0 t0 by (simp add: at_stage_def)
  let ?P = "answering a upd :: 'a mergePorts"
  have up: "updateItem ?P = upd" by simp
  obtain q t x y d where r: "rebasing_tx ?P env params t0 (database w) = (Inr \<lparr>mv_item = q, mv_task = t, mv_audits = [x, y]\<rparr>, d)"
    "mq_status q = MergeQueueItemStatus.REBASING" "t_status t = TaskStatus.MERGING" "t_taskId t = t_taskId t0" "t_repositoryId t = t_repositoryId t0"
    "at_stage env (database w) {1, 0} (xm_mergeQueueItemId params) (mq_taskId q0) q t d"
    using merge_item_port.stage_both[OF port s0 fresh _ _ _ q0(2) up merge_steps_valid(1,7), where k = 0 and l = 1 and at = None
        and now = "mr_clock env 0"]
    unfolding rebasing_tx_def id by fastforce
  have flip: "{1, 0} = {0, 1 :: nat}" by auto
  obtain w1 where w1: "rebasingPhase ?P env params t0 (g, w) = (Inr \<lparr>mv_item = q, mv_task = t, mv_audits = [x, y]\<rparr>, g, w1)" "database w1 = d"
    using r(1) by (simp add: rebasingPhase_def atomically_def commit_def writeTransaction_def)
  have s1: "at_stage env (database w) {0, 1} (xm_mergeQueueItemId params) (t_taskId t) q t (database w1)"
    using r(6) w1(2) r(4) id unfolding flip by simp
  have packet: "mergePacketData env params st src q0 t sha run = mergePacketData env params st src q0 t0 sha run" for st src sha run
    by (rule packet_same[OF r(4,5)])
  have run: "executeMerge safeParse ?P env params (g, w)
    = andThen (await (git_fetch ?P (xm_workspacePath params) ''origin'')) (\<lambda>_.
      andThen (await (git_getCurrentBranch ?P (xm_workspacePath params))) (\<lambda>src.
      integrate safeParse ?P env params (chosenStrategy params) src q0 \<lparr>mv_item = q, mv_task = t, mv_audits = [x, y]\<rparr>)) (g, w1)"
    using w1(1) Inr qt by (simp add: executeMerge_def loadPhase_def andThen_def)
  show ?thesis
  proof (cases "an_fetch a")
    case (Inl e)
    then show ?thesis using run Inr qt s1 r(2,3,4) id by (auto simp: andThen_def merge_end_def intro!: ends_asI)
  next
    case fetched: (Inr u)
    show ?thesis
    proof (cases "an_branch a")
      case (Inl e)
      then show ?thesis using run Inr qt s1 r(2,3,4) id fetched by (auto simp: andThen_def merge_end_def intro!: ends_asI)
    next
      case branch: (Inr src)
      show ?thesis
        using merge_item_port.integrate_stage[OF port s1 fresh r(2,3) _ _ branch, where g = g and ?q0.0 = q0
            and moved = "\<lparr>mv_item = q, mv_task = t, mv_audits = [x, y]\<rparr>" and strat = "chosenStrategy params"
            and safeParse = safeParse] run Inr qt fetched branch r(4) id
        by (simp add: andThen_def packet)
    qed
  qed
qed

definition merging_world :: "TaskStatus \<Rightarrow> MergeQueueItemStatus \<Rightarrow> world" where
  "merging_world s q = \<lparr>database = example_db\<lparr>
       tasks := [example_task\<lparr>t_status := s, t_mergeQueueItemId := Some ''Q1''\<rparr>],
       mergeQueueItems := [(queue_item ''Q1'' ''T1'' 1 1)\<lparr>mq_status := q\<rparr>]\<rparr>, emitted = []\<rparr>"

definition merge_run :: mergeRun where
  "merge_run = \<lparr>mr_clock = (\<lambda>k. 9000), mr_uuid = (\<lambda>k. replicate k CHR ''m'')\<rparr>"

definition merge_params :: ExecuteMergeParams where
  "merge_params = \<lparr>xm_mergeQueueItemId = ''Q1'', xm_workspacePath = ''/w'', xm_targetBranch = ''main'', xm_mergeStrategy = Some SQUASH,
     xm_actor = example_actor, xm_metadata = None\<rparr>"

definition gate_run :: ValidationRunResult where
  "gate_run = \<lparr>vr_profileName = ''merge-gate'', vr_overallStatus = OverallStatus.passed, vr_checkOutcomes = [], vr_summary = ''ok'',
     vr_totalDurationMs = 5, vr_requiredPassedCount = 0, vr_requiredFailedCount = 0, vr_optionalPassedCount = 0,
     vr_optionalFailedCount = 0, vr_skippedCount = 0\<rparr>"

definition good_answers :: mergeAnswers where
  "good_answers = \<lparr>an_fetch = Inr (), an_branch = Inr ''feature'', an_operation = Inr \<lparr>mo_success = True, mo_conflictFiles = []\<rparr>,
     an_classify = Inr ConflictClassification.reworkable, an_gate = Inr gate_run, an_push = Inr (), an_sha = Inr ''abc'',
     an_store = Inr ''/artifacts/Q1''\<rparr>"

lemma merging_world_ok:
  "wf_db (database (merging_world s q))" "auditEvents (database (merging_world s q)) = []"
  by (simp_all add: merging_world_def queue_item_def example_db_def wf_db_def)

lemma merge_run_fresh: "auditEvents d = [] \<Longrightarrow> fresh_run merge_run d"
proof -
  have "inj (\<lambda>k. replicate k CHR ''m'')" by (rule inj_on_inverseI[of _ length]) simp
  then show "auditEvents d = [] \<Longrightarrow> fresh_run merge_run d" by (simp add: fresh_run_def merge_run_def)
qed

theorem merge_outcome_exact_witness:
  "\<exists>report. ends_as merge_run (database (merging_world TaskStatus.QUEUED_FOR_MERGE MergeQueueItemStatus.PREPARING)) ''Q1'' ''T1''
     (MergeQueueItemStatus.MERGED, TaskStatus.POST_MERGE_VALIDATION, report)
     (executeMerge zod_check (answering good_answers item_complete) merge_run merge_params
        ((), merging_world TaskStatus.QUEUED_FOR_MERGE MergeQueueItemStatus.PREPARING))"
proof -
  have load: "\<exists>q t. loadMerge (xm_mergeQueueItemId merge_params) (database (merging_world TaskStatus.QUEUED_FOR_MERGE MergeQueueItemStatus.PREPARING))
      = Inr (q, t) \<and> mq_taskId q = ''T1''"
    by (simp add: loadMerge_def merging_world_def merge_params_def item_findById_def task_findById_def queue_item_def
        example_db_def example_task_def)
  then obtain q t where l: "loadMerge (xm_mergeQueueItemId merge_params)
      (database (merging_world TaskStatus.QUEUED_FOR_MERGE MergeQueueItemStatus.PREPARING)) = Inr (q, t)" "mq_taskId q = ''T1''" by blast
  have "fst (merge_end good_answers ok) = MergeQueueItemStatus.MERGED"
    "fst (snd (merge_end good_answers ok)) = TaskStatus.POST_MERGE_VALIDATION" for ok
    by (simp_all add: merge_end_def push_end_def good_answers_def gate_run_def)
  moreover define f where "f = (\<lambda>ok. snd (snd (merge_end good_answers ok)))"
  ultimately have table: "merge_end good_answers ok = (MergeQueueItemStatus.MERGED, TaskStatus.POST_MERGE_VALIDATION, f ok)" for ok
    by (simp add: prod_eq_iff)
  have id: "xm_mergeQueueItemId merge_params = ''Q1''" by (simp add: merge_params_def)
  note exact = merge_outcome_exact[OF merging_world_ok(1) completing.merge_item_port_axioms merge_run_fresh[OF merging_world_ok(2)],
        where params = merge_params and safeParse = zod_check and a = good_answers and g = "()"]
  show ?thesis
    by (rule exI, rule exact[of TaskStatus.QUEUED_FOR_MERGE MergeQueueItemStatus.PREPARING, unfolded l(1) sum.case prod.case,
        unfolded l(2) id table])
qed

text \<open>
  (C28) The end of a merge overrules whoever moved the task in the meantime.  The final transaction
  checks the move from MERGING, but writes with the version it has just read: for every status
  the task has by then, also a final one, the task ends in POST_MERGE_VALIDATION.
\<close>

theorem merge_finalization_overwrites:
  assumes "wf_db (database w)" and "merge_item_port (updateItem ports)" and "fresh_run env (database w)"
    and "item_findById (xm_mergeQueueItemId params) (database w) = Some q" and "mq_status q = MergeQueueItemStatus.MERGING"
    and "task_findById i (database w) = Some t"
  shows "\<exists>m w'. finalizePhase ports env params i sha (g, w) = (Inr m, g, w')
    \<and> taskStatus_of i w' = Some TaskStatus.POST_MERGE_VALIDATION"
proof -
  have s: "at_stage env (database w) {} (xm_mergeQueueItemId params) i q t (database w)"
    using assms(1,4,6) by (simp add: at_stage_def)
  obtain q' t' a b d' where f: "finalize_tx ports env params i sha (database w) = (Inr \<lparr>mv_item = q', mv_task = t', mv_audits = [a, b]\<rparr>, d')"
    "t_status t' = TaskStatus.POST_MERGE_VALIDATION" "task_findById i d' = Some t'"
    using merge_item_port.stage_finalize[OF assms(2) s assms(3) _ _ assms(5) refl, of sha] by (auto simp: at_stage_def)
  then show ?thesis
    by (simp add: finalizePhase_def atomically_def commit_def writeTransaction_def taskStatus_of_def)
qed

theorem merge_finalization_overwrites_witness:
  "let w = fold control_step
        [OperatorCall example_env example_env ''T1'' (PauseAction operator_dto),
         OperatorCall (example_env\<lparr>env_uuid := ''u2''\<rparr>) example_env ''T1'' (ResolveEscalationAction
           \<lparr>rs_actorId = ''op'', rs_reason = ''stop'', rs_resolutionType = cancel_task, rs_poolId = None, rs_evidence = None\<rparr>)]
        (merging_world TaskStatus.MERGING MergeQueueItemStatus.MERGING) in
   taskStatus_of ''T1'' w = Some TaskStatus.CANCELLED
   \<and> (\<exists>m w'. finalizePhase (answering good_answers item_complete) merge_run merge_params ''T1'' ''abc'' ((), w) = (Inr m, (), w')
        \<and> taskStatus_of ''T1'' w' = Some TaskStatus.POST_MERGE_VALIDATION)"
proof -
  let ?w = "fold control_step
        [OperatorCall example_env example_env ''T1'' (PauseAction operator_dto),
         OperatorCall (example_env\<lparr>env_uuid := ''u2''\<rparr>) example_env ''T1'' (ResolveEscalationAction
           \<lparr>rs_actorId = ''op'', rs_reason = ''stop'', rs_resolutionType = cancel_task, rs_poolId = None, rs_evidence = None\<rparr>)]
        (merging_world TaskStatus.MERGING MergeQueueItemStatus.MERGING)"
  have cancelled: "taskStatus_of ''T1'' ?w = Some TaskStatus.CANCELLED" by code_simp
  have keys: "map ae_id (auditEvents (database ?w)) = [''u1'', ''u2'']" by code_simp
  have item: "map_option mq_status (item_findById ''Q1'' (database ?w)) = Some MergeQueueItemStatus.MERGING" by code_simp
  have step: "wf_db (database w) \<Longrightarrow> wf_db (database (control_step c w))" for c w
    by (cases c) (simp_all add: serve_wf handle_wf del: handle.simps)
  have wf: "wf_db (database ?w)"
    unfolding fold.simps comp_apply id_apply by (intro step merging_world_ok(1))
  have fresh: "fresh_run merge_run (database ?w)"
  proof -
    have "inj (mr_uuid merge_run)" by (rule inj_on_inverseI[of _ length]) (simp add: merge_run_def)
    moreover have "mr_uuid merge_run k \<notin> {''u1'', ''u2''}" for k by (cases k) (auto simp: merge_run_def)
    ultimately show ?thesis unfolding fresh_run_def keys by simp
  qed
  obtain q where q: "item_findById (xm_mergeQueueItemId merge_params) (database ?w) = Some q" "mq_status q = MergeQueueItemStatus.MERGING"
    using item by (auto simp: merge_params_def)
  obtain t where t: "task_findById ''T1'' (database ?w) = Some t"
    using cancelled by (auto simp: taskStatus_of_def)
  have port: "merge_item_port (updateItem (answering good_answers item_complete :: unit mergePorts))"
    using completing.merge_item_port_axioms by simp
  show ?thesis unfolding Let_def
    using cancelled merge_finalization_overwrites[OF wf port fresh q t, of "''abc''" "()"] by (intro conjI)
qed

subsection \<open>Packets that are not stored\<close>

text \<open>A skipped check has the empty command; its packet fails the schema, so the merge is reported without an artifact.\<close>

lemma merge_packet_lost:
  assumes zod: "zod_library safeParse isDatetime" and c: "c \<in> set (vr_checkOutcomes run)" "vo_command c = Own []"
  shows "isl (safeParse MergePacketSchema (Some (mergePacketData env params strat src q t sha run)))"
proof (rule ccontr)
  assume "\<not> isl (safeParse MergePacketSchema (Some (mergePacketData env params strat src q t sha run)))"
  then obtain v where v: "safeParse MergePacketSchema (Some (mergePacketData env params strat src q t sha run)) = Inr v"
    by (cases "safeParse MergePacketSchema (Some (mergePacketData env params strat src q t sha run))") auto
  then obtain p where p: "safeParse MergePacketSchema (Some (mergePacketData env params strat src q t sha run)) = Inr (Some p)"
    unfolding MergePacketSchema_def zod_library.object_ok[OF zod] by auto
  let ?d = "json_get (mergePacketData env params strat src q t sha run) ''details''"
  have "safeParse MergePacketDetailsSchema ?d = Inr (json_get p ''details'')"
    by (rule zod_library.object_field[OF zod p[unfolded MergePacketSchema_def]]) simp_all
  moreover obtain j where j: "?d = Some j" "json_get j ''validation_results'' = Some (JArr (map mapCheckOutcomeToSchemaResult (vr_checkOutcomes run)))"
    by (simp add: mergePacketData_def json_get_def)
  ultimately obtain pd where pd: "safeParse MergePacketDetailsSchema (Some j) = Inr (Some pd)"
    unfolding MergePacketDetailsSchema_def zod_library.object_ok[OF zod] by auto
  have "safeParse (ZArray 0 ValidationCheckResultSchema) (json_get j ''validation_results'') = Inr (json_get pd ''validation_results'')"
    by (rule zod_library.object_field[OF zod pd[unfolded MergePacketDetailsSchema_def]]) simp_all
  then obtain ys where "list_all2 (\<lambda>x y. safeParse ValidationCheckResultSchema (Some x) = Inr (Some y))
      (map mapCheckOutcomeToSchemaResult (vr_checkOutcomes run)) ys"
    unfolding j(2) zod_library.array_ok[OF zod] by auto
  then obtain y where y: "safeParse ValidationCheckResultSchema (Some (mapCheckOutcomeToSchemaResult c)) = Inr (Some y)"
    using c(1) by (fastforce simp: list_all2_conv_all_nth in_set_conv_nth)
  have "safeParse ZNonEmpty (json_get (mapCheckOutcomeToSchemaResult c) ''command'') = Inr (json_get y ''command'')"
    by (rule zod_library.object_field[OF zod y[unfolded ValidationCheckResultSchema_def]]) simp_all
  then show False using c(2) by (simp add: zod_library.nonempty_ok[OF zod] mapCheckOutcomeToSchemaResult_def json_get_def)
qed

end
