(* ===== verification/PostMerge.thy ===== *)
theory PostMerge
  imports MergeExecutor ReviewDecision
begin

text \<open>
  \<open>packages/application/src/services/post-merge-validation.service.ts\<close>: after the merge the merge gate runs once more,
  and the task is done or has failed, with follow-up work, a pause of the queue and a notification
  according to the severity of the failure.

  The gate is a port that may change the database.  The creation of follow-up tasks, the pause of the queue
  and the notification are ports without an adapter, and the project of a task is not a column of the tables:
  all are arguments.  The dash of the messages is written \<open>--\<close>.
\<close>

subsection \<open>Policy and severity\<close>

datatype HighAction = revert_merge | escalate_merge

record PostMergeFailurePolicy =
  criticalCheckThreshold :: int
  autoRevertOnCritical :: bool
  pauseQueueOnCritical :: bool
  useAnalysisAgentOnHigh :: bool
  defaultHighAction :: HighAction
  requireOperatorResumeAfterPause :: bool

definition DEFAULT_POST_MERGE_FAILURE_POLICY :: PostMergeFailurePolicy where
  "DEFAULT_POST_MERGE_FAILURE_POLICY = \<lparr>criticalCheckThreshold = 3, autoRevertOnCritical = True, pauseQueueOnCritical = True,
     useAnalysisAgentOnHigh = True, defaultHighAction = revert_merge, requireOperatorResumeAfterPause = True\<rparr>"

datatype FailureSeverity = critical | high | low

fun FailureSeverity_value :: "FailureSeverity \<Rightarrow> string" where
  "FailureSeverity_value critical = ''critical''"
| "FailureSeverity_value high = ''high''"
| "FailureSeverity_value low = ''low''"

text \<open>\<open>toLowerCase\<close>, as far as a comparison with ASCII letters can tell.\<close>

definition to_lower :: "string \<Rightarrow> string" where
  "to_lower = map (\<lambda>c. if CHR ''A'' \<le> c \<and> c \<le> CHR ''Z'' then char_of (of_char c + 32 :: nat) else c)"

definition isSecurityCheck :: "ValidationCheckOutcome \<Rightarrow> bool" where
  "isSecurityCheck check \<longleftrightarrow> to_lower (vo_checkName check) = ''security''"

definition isCheckFailing :: "ValidationCheckOutcome \<Rightarrow> bool" where
  "isCheckFailing check \<longleftrightarrow> vo_status check = CheckStatus.failed \<or> vo_status check = CheckStatus.error"

definition classifyFailureSeverity :: "ValidationRunResult \<Rightarrow> PostMergeFailurePolicy \<Rightarrow> FailureSeverity" where
  "classifyFailureSeverity result policy =
    (if list_ex (\<lambda>c. isSecurityCheck c \<and> isCheckFailing c) (vr_checkOutcomes result) then critical
     else if int (vr_requiredFailedCount result) > criticalCheckThreshold policy then critical
     else if vr_requiredFailedCount result > 0 then high
     else low)"

subsection \<open>Texts\<close>

fun CheckCategory_value :: "CheckCategory \<Rightarrow> string" where
  "CheckCategory_value required = ''required''"
| "CheckCategory_value optional = ''optional''"

definition failedChecks :: "ValidationRunResult \<Rightarrow> string" where
  "failedChecks result = join_strings '', '' (map (\<lambda>c. vo_checkName c @ '' ('' @ CheckCategory_value (vo_category c) @ '')'')
     (filter isCheckFailing (vr_checkOutcomes result)))"

definition buildRevertDescription :: "Task \<Rightarrow> ValidationRunResult \<Rightarrow> FailureSeverity \<Rightarrow> string" where
  "buildRevertDescription task result severity =
    ''Post-merge validation failed with '' @ FailureSeverity_value severity @ '' severity for task '' @ t_taskId task @ ''. ''
    @ ''Failed checks: '' @ failedChecks result @ ''. ''
    @ ''A revert of the merged changes is recommended to restore the target branch ''
    @ ''to a known-good state. Profile: '' @ vr_profileName result @ ''. Summary: '' @ vr_summary result"

definition buildDiagnosticDescription :: "Task \<Rightarrow> ValidationRunResult \<Rightarrow> string" where
  "buildDiagnosticDescription task result =
    ''Post-merge validation had optional check failures for task '' @ t_taskId task @ ''. ''
    @ ''Failed optional checks: '' @ failedChecks result @ ''. ''
    @ ''No required checks failed -- the merge is considered successful. ''
    @ ''This diagnostic task tracks investigation of the optional failures. ''
    @ ''Profile: '' @ vr_profileName result @ ''. Summary: '' @ vr_summary result"

definition buildNotificationMessage :: "Task \<Rightarrow> ValidationRunResult \<Rightarrow> FailureSeverity \<Rightarrow> string" where
  "buildNotificationMessage task result severity =
    (case severity of
       critical \<Rightarrow> ''CRITICAL: Post-merge validation failed for task '' @ t_taskId task @ '' in repository '' @ t_repositoryId task @ ''. ''
         @ string_of_nat (vr_requiredFailedCount result) @ '' required checks failed. ''
         @ ''Merge queue has been paused. Operator action required to resume.''
     | high \<Rightarrow> ''HIGH: Post-merge validation failed for task '' @ t_taskId task @ '' in repository '' @ t_repositoryId task @ ''. ''
         @ string_of_nat (vr_requiredFailedCount result) @ '' required check(s) failed. Review recommended.''
     | low \<Rightarrow> ''INFO: Post-merge optional check failures for task '' @ t_taskId task @ '' in repository '' @ t_repositoryId task @ ''. ''
         @ string_of_nat (vr_optionalFailedCount result) @ '' optional check(s) failed. ''
         @ ''No action required -- diagnostic task created.'')"

subsection \<open>Ports, parameters and results\<close>

datatype FollowUpType = revert_task | diagnostic_task

record CreateFollowUpTaskData =
  cf_title :: string
  cf_description :: string
  cf_repositoryId :: string
  cf_projectId :: string
  cf_taskType :: FollowUpType
  cf_originTaskId :: string
  cf_priority :: int

record PostMergeFollowUpTaskRecord =
  pu_id :: string
  pu_title :: string
  pu_taskType :: FollowUpType

record OperatorNotification =
  no_taskId :: string
  no_repositoryId :: string
  no_severity :: FailureSeverity
  no_message :: string
  no_requiresAction :: bool

record 'g postMergePorts =
  pm_gate :: "string \<Rightarrow> string \<Rightarrow> ('g, ValidationRunResult) port_call"
  pm_createFollowUpTask :: "CreateFollowUpTaskData \<Rightarrow> PostMergeFollowUpTaskRecord tx"
  pm_pauseQueue :: "string \<Rightarrow> string \<Rightarrow> ('g, unit) port_call"
  pm_notify :: "OperatorNotification \<Rightarrow> ('g, unit) port_call"
  pm_projectId :: "Task \<Rightarrow> string"

record ExecutePostMergeValidationParams =
  xp_taskId :: string
  xp_workspacePath :: string
  xp_mergeQueueItemId :: string
  xp_actor :: ActorInfo
  xp_metadata :: "(string \<times> json) list option"
  xp_failurePolicy :: "PostMergeFailurePolicy option"

record PostMergeFailureResult =
  pm_severity :: FailureSeverity
  pm_task :: Task
  pm_validationResult :: ValidationRunResult
  pm_auditEvents :: "AuditEventRecord list"
  pm_queuePaused :: bool
  pm_followUpTasks :: "PostMergeFollowUpTaskRecord list"

datatype PostMergeValidationResult =
    PostMergePassed Task ValidationRunResult "AuditEventRecord list"
  | PostMergeFailed PostMergeFailureResult

subsection \<open>The service\<close>

definition postMergeAudit :: "txEnv \<Rightarrow> ExecutePostMergeValidationParams \<Rightarrow> Task \<Rightarrow> TaskStatus \<Rightarrow> (string \<times> json) list \<Rightarrow> AuditEventRecord tx" where
  "postMergeAudit env params task to facts =
    auditEvent_create (env_uuid env) (env_now env)
      \<lparr>na_entityType = ''task'', na_entityId = t_taskId task, na_eventType = ''state_transition'',
       na_actorType = actor_type (xp_actor params), na_actorId = actor_id (xp_actor params),
       na_oldState = Some (JStr (TaskStatus_value TaskStatus.POST_MERGE_VALIDATION)), na_newState = Some (JStr (TaskStatus_value to)),
       na_metadata = Some (JObj (fold (\<lambda>(k, v). AList.update k v) facts
         (case xp_metadata params of None \<Rightarrow> [] | Some m \<Rightarrow> m)))\<rparr>"

definition success_tx :: "txEnv \<Rightarrow> ExecutePostMergeValidationParams \<Rightarrow> Task \<Rightarrow> ValidationRunResult \<Rightarrow> (Task \<times> AuditEventRecord) tx" where
  "success_tx env params task result =
    bindT (moveMergingTask (env_now env) (t_taskId task) (t_version task) TaskStatus.POST_MERGE_VALIDATION TaskStatus.DONE
      (emptyContext\<lparr>postMergeValidationPassed := Some True\<rparr>)) (\<lambda>updatedTask.
    bindT (postMergeAudit env params task TaskStatus.DONE
      [(''mergeQueueItemId'', JStr (xp_mergeQueueItemId params)), (''validationProfile'', JStr (vr_profileName result)),
       (''validationStatus'', JStr ''passed'')]) (\<lambda>a.
    returnT (updatedTask, a)))"

definition applySuccess ::
  "txEnv \<Rightarrow> ExecutePostMergeValidationParams \<Rightarrow> Task \<Rightarrow> ValidationRunResult \<Rightarrow> ('g, PostMergeValidationResult) job" where
  "applySuccess env params task result =
    andThen (atomically (success_tx env params task result)
      (\<lambda>(updated, _). [TaskTransitionedEvent (t_taskId task) TaskStatus.POST_MERGE_VALIDATION TaskStatus.DONE (t_version updated)
         (xp_actor params) (env_emittedAt env)])) (\<lambda>(updated, a) s.
    (Inr (PostMergePassed updated result [a]), s))"

text \<open>The follow-up work of a failure, if any.\<close>

definition followUpData ::
  "(Task \<Rightarrow> string) \<Rightarrow> PostMergeFailurePolicy \<Rightarrow> Task \<Rightarrow> ValidationRunResult \<Rightarrow> FailureSeverity \<Rightarrow> CreateFollowUpTaskData option" where
  "followUpData projectId policy task result severity =
    (if severity = critical \<and> autoRevertOnCritical policy then
       Some \<lparr>cf_title = ''Revert: post-merge validation critical failure for '' @ t_taskId task,
         cf_description = buildRevertDescription task result severity, cf_repositoryId = t_repositoryId task,
         cf_projectId = projectId task, cf_taskType = revert_task, cf_originTaskId = t_taskId task, cf_priority = 0\<rparr>
     else if severity = high \<and> \<not> useAnalysisAgentOnHigh policy then
       Some \<lparr>cf_title = ''Revert: post-merge validation high-severity failure for '' @ t_taskId task,
         cf_description = buildRevertDescription task result severity, cf_repositoryId = t_repositoryId task,
         cf_projectId = projectId task, cf_taskType = revert_task, cf_originTaskId = t_taskId task, cf_priority = 1\<rparr>
     else if severity = low then
       Some \<lparr>cf_title = ''Diagnostic: post-merge optional check failures for '' @ t_taskId task,
         cf_description = buildDiagnosticDescription task result, cf_repositoryId = t_repositoryId task,
         cf_projectId = projectId task, cf_taskType = diagnostic_task, cf_originTaskId = t_taskId task, cf_priority = 5\<rparr>
     else None)"

definition failure_tx ::
  "'g postMergePorts \<Rightarrow> txEnv \<Rightarrow> ExecutePostMergeValidationParams \<Rightarrow> PostMergeFailurePolicy \<Rightarrow> Task \<Rightarrow> ValidationRunResult
    \<Rightarrow> (Task \<times> AuditEventRecord \<times> PostMergeFollowUpTaskRecord list) tx" where
  "failure_tx ports env params policy task result =
    (let severity = classifyFailureSeverity result policy in
     bindT (moveMergingTask (env_now env) (t_taskId task) (t_version task) TaskStatus.POST_MERGE_VALIDATION TaskStatus.FAILED
       (emptyContext\<lparr>postMergeValidationPassed := Some False\<rparr>)) (\<lambda>updatedTask.
     bindT (postMergeAudit env params task TaskStatus.FAILED
       [(''mergeQueueItemId'', JStr (xp_mergeQueueItemId params)), (''validationProfile'', JStr (vr_profileName result)),
        (''validationStatus'', JStr ''failed''), (''failureSeverity'', JStr (FailureSeverity_value severity)),
        (''requiredFailedCount'', JNum (int (vr_requiredFailedCount result))),
        (''optionalFailedCount'', JNum (int (vr_optionalFailedCount result)))]) (\<lambda>a.
     (case followUpData (pm_projectId ports) policy task result severity of
        None \<Rightarrow> returnT (updatedTask, a, [])
      | Some data \<Rightarrow> bindT (pm_createFollowUpTask ports data) (\<lambda>followUp. returnT (updatedTask, a, [followUp]))))))"

definition applyFailure ::
  "'g postMergePorts \<Rightarrow> txEnv \<Rightarrow> ExecutePostMergeValidationParams \<Rightarrow> PostMergeFailurePolicy \<Rightarrow> Task \<Rightarrow> ValidationRunResult
    \<Rightarrow> ('g, PostMergeValidationResult) job" where
  "applyFailure ports env params policy task result =
    (let severity = classifyFailureSeverity result policy; pauses = (severity = critical \<and> pauseQueueOnCritical policy) in
     andThen (atomically (failure_tx ports env params policy task result)
       (\<lambda>(updated, _, _). [TaskTransitionedEvent (t_taskId task) TaskStatus.POST_MERGE_VALIDATION TaskStatus.FAILED (t_version updated)
          (xp_actor params) (env_emittedAt env)])) (\<lambda>(updated, a, followUpTasks).
     andThen (if pauses then await (pm_pauseQueue ports (t_repositoryId task)
         (''Critical post-merge validation failure for task '' @ t_taskId task @ ''. ''
          @ string_of_nat (vr_requiredFailedCount result) @ '' required checks failed.''))
       else (\<lambda>s. (Inr (), s))) (\<lambda>_.
     andThen (await (pm_notify ports \<lparr>no_taskId = t_taskId task, no_repositoryId = t_repositoryId task, no_severity = severity,
         no_message = buildNotificationMessage task result severity,
         no_requiresAction = (severity = critical \<or> severity = high)\<rparr>)) (\<lambda>_ s.
     (Inr (PostMergeFailed \<lparr>pm_severity = severity, pm_task = updated, pm_validationResult = result, pm_auditEvents = [a],
        pm_queuePaused = pauses, pm_followUpTasks = followUpTasks\<rparr>), s)))))"

definition loadPostMerge :: "ExecutePostMergeValidationParams \<Rightarrow> ('g, Task) job" where
  "loadPostMerge params = (\<lambda>(g, w).
    (case task_findById (xp_taskId params) (database w) of
       None \<Rightarrow> Inl (MergeAppError (EntityNotFoundError ''Task'' (xp_taskId params)))
     | Some task \<Rightarrow>
         if t_status task \<noteq> TaskStatus.POST_MERGE_VALIDATION then
           Inl (MergeAppError (InvalidTransitionError ''Task'' (xp_taskId params) (TaskStatus_value (t_status task))
             (TaskStatus_value TaskStatus.DONE)
             (Some (''Task must be in POST_MERGE_VALIDATION state, but is in '' @ TaskStatus_value (t_status task)))))
         else Inr task, g, w))"

definition executePostMergeValidation ::
  "'g postMergePorts \<Rightarrow> txEnv \<Rightarrow> ExecutePostMergeValidationParams \<Rightarrow> ('g, PostMergeValidationResult) job" where
  "executePostMergeValidation ports env params =
    andThen (loadPostMerge params) (\<lambda>initialTask.
    andThen (await (pm_gate ports (xp_taskId params) (xp_workspacePath params))) (\<lambda>result.
    if vr_overallStatus result = OverallStatus.passed then applySuccess env params initialTask result
    else applyFailure ports env params
      (case xp_failurePolicy params of None \<Rightarrow> DEFAULT_POST_MERGE_FAILURE_POLICY | Some p \<Rightarrow> p) initialTask result))"

subsection \<open>Creation of follow-up tasks\<close>

text \<open>What the service needs of it: one new task, and nothing else.\<close>

locale follow_up_creation =
  fixes create :: "CreateFollowUpTaskData \<Rightarrow> PostMergeFollowUpTaskRecord tx"
  assumes creates: "cf_originTaskId data \<in> set (map t_taskId (tasks d)) \<Longrightarrow>
    \<exists>r row. create data d = (Inr r, d\<lparr>tasks := tasks d @ [row]\<rparr>) \<and> t_taskId row \<notin> set (map t_taskId (tasks d))
      \<and> pu_title r = cf_title data \<and> pu_taskType r = cf_taskType data"
begin

lemma creation_keeps:
  assumes "cf_originTaskId data \<in> set (map t_taskId (tasks d))" and "wf_db d"
  shows "\<exists>r d'. create data d = (Inr r, d') \<and> pu_taskType r = cf_taskType data \<and> wf_db d'
    \<and> (\<forall>j t. task_findById j d = Some t \<longrightarrow> task_findById j d' = Some t)"
proof -
  obtain r row where c: "create data d = (Inr r, d\<lparr>tasks := tasks d @ [row]\<rparr>)" "t_taskId row \<notin> set (map t_taskId (tasks d))"
    "pu_taskType r = cf_taskType data" using creates[OF assms(1)] by blast
  have "find p xs = Some t \<Longrightarrow> find p (xs @ ys) = Some t" for p and xs ys :: "Task list" and t by (induction xs) auto
  then have "\<forall>j t. task_findById j d = Some t \<longrightarrow> task_findById j (d\<lparr>tasks := tasks d @ [row]\<rparr>) = Some t"
    by (simp add: task_findById_def)
  moreover have "wf_db (d\<lparr>tasks := tasks d @ [row]\<rparr>)" using assms(2) c(2) by (simp add: wf_db_def)
  ultimately show ?thesis using c by blast
qed

end

text \<open>A creation over the task table: the key is longer than all others.\<close>

definition unused_key :: "db \<Rightarrow> string" where
  "unused_key d = replicate (Suc (sum_list (map (length \<circ> t_taskId) (tasks d)))) CHR ''f''"

lemma unused_key: "unused_key d \<notin> set (map t_taskId (tasks d))"
proof
  assume "unused_key d \<in> set (map t_taskId (tasks d))"
  then obtain t where t: "t \<in> set (tasks d)" "t_taskId t = unused_key d" by auto
  have "length (t_taskId t) \<in> set (map (length \<circ> t_taskId) (tasks d))" using t(1) by simp
  then have "length (t_taskId t) \<le> sum_list (map (length \<circ> t_taskId) (tasks d))" by (rule member_le_sum_list) simp
  then show False using t(2) by (simp add: unused_key_def)
qed

definition createInBacklog :: "CreateFollowUpTaskData \<Rightarrow> PostMergeFollowUpTaskRecord tx" where
  "createInBacklog data = (\<lambda>d.
    bindT (insertFollowUp \<lparr>nf_id = unused_key d, nf_title = cf_title data, nf_parentTaskId = cf_originTaskId data, nf_source = ''post_merge''\<rparr>) (\<lambda>r.
    returnT \<lparr>pu_id = fu_id r, pu_title = cf_title data, pu_taskType = cf_taskType data\<rparr>) d)"

interpretation followUps: follow_up_creation createInBacklog
proof
  fix data :: CreateFollowUpTaskData and d :: db
  assume "cf_originTaskId data \<in> set (map t_taskId (tasks d))"
  then obtain r row where "insertFollowUp \<lparr>nf_id = unused_key d, nf_title = cf_title data, nf_parentTaskId = cf_originTaskId data,
      nf_source = ''post_merge''\<rparr> d = (Inr r, d\<lparr>tasks := tasks d @ [row]\<rparr>)" "t_taskId row = unused_key d"
    using backlog.creates[of "\<lparr>nf_id = unused_key d, nf_title = cf_title data, nf_parentTaskId = cf_originTaskId data,
      nf_source = ''post_merge''\<rparr>" d] unused_key[of d] by auto
  then show "\<exists>r row. createInBacklog data d = (Inr r, d\<lparr>tasks := tasks d @ [row]\<rparr>) \<and> t_taskId row \<notin> set (map t_taskId (tasks d))
      \<and> pu_title r = cf_title data \<and> pu_taskType r = cf_taskType data"
    using unused_key[of d] by (intro exI[of _ "\<lparr>pu_id = fu_id r, pu_title = cf_title data, pu_taskType = cf_taskType data\<rparr>"] exI[of _ row])
      (simp add: createInBacklog_def bindT_apply)
qed

subsection \<open>What comes out\<close>

datatype side_effect = QueuePaused string | Notified FailureSeverity bool

text \<open>Ports that leave the database alone: the gate reports \<open>run\<close>, pauses and notifications are written down.\<close>

definition noting :: "ValidationRunResult \<Rightarrow> (CreateFollowUpTaskData \<Rightarrow> PostMergeFollowUpTaskRecord tx) \<Rightarrow> (Task \<Rightarrow> string)
    \<Rightarrow> side_effect list postMergePorts" where
  "noting run create projectId = \<lparr>pm_gate = \<lambda>_ _. Pair (Inr run), pm_createFollowUpTask = create,
     pm_pauseQueue = \<lambda>repo _ (log, w). (Inr (), log @ [QueuePaused repo], w),
     pm_notify = \<lambda>n (log, w). (Inr (), log @ [Notified (no_severity n) (no_requiresAction n)], w), pm_projectId = projectId\<rparr>"

lemma post_merge_steps_valid:
  "valid (validateTransition TaskStatus.POST_MERGE_VALIDATION TaskStatus.DONE (emptyContext\<lparr>postMergeValidationPassed := Some True\<rparr>))"
  "valid (validateTransition TaskStatus.POST_MERGE_VALIDATION TaskStatus.FAILED (emptyContext\<lparr>postMergeValidationPassed := Some False\<rparr>))"
  by code_simp+

text \<open>The move of the task with its audit event.\<close>

lemma post_merge_move:
  assumes wf: "wf_db d" and t: "task_findById i d = Some t" and fresh: "env_uuid env \<notin> set (map ae_id (auditEvents d))"
    and ok: "valid (validateTransition TaskStatus.POST_MERGE_VALIDATION s ctx)"
  shows "\<exists>t' d'. moveMergingTask (env_now env) i (t_version t) TaskStatus.POST_MERGE_VALIDATION s ctx d = (Inr t', d')
    \<and> t_status t' = s
    \<and> (\<forall>facts. \<exists>a. postMergeAudit env params t s facts d' = (Inr a, d'\<lparr>auditEvents := auditEvents d' @ [a]\<rparr>)
      \<and> wf_db (d'\<lparr>auditEvents := auditEvents d' @ [a]\<rparr>))
    \<and> task_findById i d' = Some t' \<and> (\<forall>j. j \<noteq> i \<longrightarrow> task_findById j d' = task_findById j d)"
proof -
  obtain d' where d': "task_update (env_now env) i (t_version t) (\<lambda>r. r\<lparr>t_status := s\<rparr>) d
      = (Inr (t\<lparr>t_status := s, t_version := t_version t + 1, t_updatedAt := env_now env div 1000\<rparr>), d')"
    "d' = d\<lparr>tasks := tasks d'\<rparr>" "task_findById i d' = Some (t\<lparr>t_status := s, t_version := t_version t + 1, t_updatedAt := env_now env div 1000\<rparr>)"
    "\<forall>j. j \<noteq> i \<longrightarrow> task_findById j d' = task_findById j d" "wf_db d'"
    by (rule task_update_current[OF wf t, of "\<lambda>r. r\<lparr>t_status := s\<rparr>" "env_now env"]) auto
  have "auditEvents d' = auditEvents d" by (subst d'(2)) simp
  then have new: "env_uuid env \<notin> set (map ae_id (auditEvents d'))" using fresh by simp
  show ?thesis
    by (intro exI[of _ "t\<lparr>t_status := s, t_version := t_version t + 1, t_updatedAt := env_now env div 1000\<rparr>"] exI[of _ d'])
      (use ok d'(1,3,4,5) audit_fresh[OF new] wf_db_audit[OF d'(5), of "audit_row (env_uuid env) _ _"] new
        in \<open>auto simp: moveMergingTask_def task_updateStatus_def postMergeAudit_def\<close>)
qed

text \<open>
  (C27) The verdict after the merge.  In an undisturbed environment a task under post-merge validation becomes
  DONE exactly when the gate passed, and FAILED otherwise.  A failure is critical when a security check failed
  or more required checks than the threshold, high when another required check failed, else low.  A
  critical failure pauses the queue and asks for a revert as far as the policy says so, a high one asks
  for a revert when there is no analysis agent, a low one for a diagnosis; the operator is told once, and has
  to act unless it is low.  No other task is touched.
\<close>

theorem post_merge_exact:
  assumes wf: "wf_db (database w)" and create: "follow_up_creation create"
    and t: "task_findById (xp_taskId params) (database w) = Some t" "t_status t = TaskStatus.POST_MERGE_VALIDATION"
    and fresh: "env_uuid env \<notin> set (map ae_id (auditEvents (database w)))"
    and policy: "policy = (case xp_failurePolicy params of None \<Rightarrow> DEFAULT_POST_MERGE_FAILURE_POLICY | Some p \<Rightarrow> p)"
    and sev: "sev = (if (\<exists>c \<in> set (vr_checkOutcomes run). to_lower (vo_checkName c) = ''security''
           \<and> vo_status c \<in> {CheckStatus.failed, CheckStatus.error}) \<or> int (vr_requiredFailedCount run) > criticalCheckThreshold policy
         then critical else if vr_requiredFailedCount run > 0 then high else low)"
  shows "\<exists>r log w'. executePostMergeValidation (noting run create projectId) env params ([], w) = (Inr r, log, w')
    \<and> (\<forall>j x. j \<noteq> xp_taskId params \<longrightarrow> task_findById j (database w) = Some x \<longrightarrow> task_findById j (database w') = Some x)
    \<and> (if vr_overallStatus run = OverallStatus.passed
       then taskStatus_of (xp_taskId params) w' = Some TaskStatus.DONE \<and> log = []
         \<and> (\<forall>j. j \<noteq> xp_taskId params \<longrightarrow> task_findById j (database w') = task_findById j (database w))
       else taskStatus_of (xp_taskId params) w' = Some TaskStatus.FAILED
         \<and> log = (if sev = critical \<and> pauseQueueOnCritical policy then [QueuePaused (t_repositoryId t)] else [])
             @ [Notified sev (sev \<noteq> low)]
         \<and> (\<exists>f. r = PostMergeFailed f \<and> pm_severity f = sev \<and> map pu_taskType (pm_followUpTasks f)
             = (if sev = low then [diagnostic_task]
                else if sev = critical \<and> autoRevertOnCritical policy \<or> sev = high \<and> \<not> useAnalysisAgentOnHigh policy
                then [revert_task] else [])))"
proof -
  let ?i = "xp_taskId params" and ?P = "noting run create projectId"
  have id: "t_taskId t = ?i" using t(1) by (auto simp: task_findById_def dest: find_Some_iff_mem)
  have severity: "classifyFailureSeverity run policy = sev"
    by (auto simp: sev classifyFailureSeverity_def list_ex_iff isSecurityCheck_def isCheckFailing_def)
  have load: "loadPostMerge params ([] :: side_effect list, w) = (Inr t, [], w)" using t by (simp add: loadPostMerge_def)
  show ?thesis
  proof (cases "vr_overallStatus run")
    case passed
    obtain t' d' where m: "moveMergingTask (env_now env) ?i (t_version t) TaskStatus.POST_MERGE_VALIDATION TaskStatus.DONE
        (emptyContext\<lparr>postMergeValidationPassed := Some True\<rparr>) (database w) = (Inr t', d')" "t_status t' = TaskStatus.DONE"
      "\<forall>facts. \<exists>a. postMergeAudit env params t TaskStatus.DONE facts d' = (Inr a, d'\<lparr>auditEvents := auditEvents d' @ [a]\<rparr>)
        \<and> wf_db (d'\<lparr>auditEvents := auditEvents d' @ [a]\<rparr>)"
      "task_findById ?i d' = Some t'" "\<forall>j. j \<noteq> ?i \<longrightarrow> task_findById j d' = task_findById j (database w)"
      using post_merge_move[OF wf t(1) fresh post_merge_steps_valid(1), of params] by blast
    obtain a where a: "success_tx env params t run (database w) = (Inr (t', a), d'\<lparr>auditEvents := auditEvents d' @ [a]\<rparr>)"
      using m(1) m(3)[rule_format, of "[(''mergeQueueItemId'', JStr (xp_mergeQueueItemId params)), (''validationProfile'', JStr (vr_profileName run)),
        (''validationStatus'', JStr ''passed'')]"]
      by (auto simp: success_tx_def id bindT_apply)
    show ?thesis
      using a load passed m(2,4,5)
      by (simp add: executePostMergeValidation_def andThen_def noting_def applySuccess_def atomically_def commit_def
          writeTransaction_def taskStatus_of_def task_findById_def)
  next
    case failed
    obtain t' d' where m: "moveMergingTask (env_now env) ?i (t_version t) TaskStatus.POST_MERGE_VALIDATION TaskStatus.FAILED
        (emptyContext\<lparr>postMergeValidationPassed := Some False\<rparr>) (database w) = (Inr t', d')" "t_status t' = TaskStatus.FAILED"
      "\<forall>facts. \<exists>a. postMergeAudit env params t TaskStatus.FAILED facts d' = (Inr a, d'\<lparr>auditEvents := auditEvents d' @ [a]\<rparr>)
        \<and> wf_db (d'\<lparr>auditEvents := auditEvents d' @ [a]\<rparr>)"
      "task_findById ?i d' = Some t'" "\<forall>j. j \<noteq> ?i \<longrightarrow> task_findById j d' = task_findById j (database w)"
      using post_merge_move[OF wf t(1) fresh post_merge_steps_valid(2), of params] by blast
    let ?facts = "[(''mergeQueueItemId'', JStr (xp_mergeQueueItemId params)), (''validationProfile'', JStr (vr_profileName run)),
        (''validationStatus'', JStr ''failed''), (''failureSeverity'', JStr (FailureSeverity_value sev)),
        (''requiredFailedCount'', JNum (int (vr_requiredFailedCount run))),
        (''optionalFailedCount'', JNum (int (vr_optionalFailedCount run)))]"
    obtain a d2 where a: "postMergeAudit env params t TaskStatus.FAILED ?facts d' = (Inr a, d2)" "wf_db d2" "tasks d2 = tasks d'"
      using m(3)[rule_format, of ?facts] by auto
    have look: "task_findById j d2 = task_findById j d'" for j using a(3) by (simp add: task_findById_def)
    have origin: "?i \<in> set (map t_taskId (tasks d2))"
      using m(4) look[of ?i] by (force simp: task_findById_def dest: find_Some_iff_mem)
    let ?kinds = "if sev = low then [diagnostic_task]
        else if sev = critical \<and> autoRevertOnCritical policy \<or> sev = high \<and> \<not> useAnalysisAgentOnHigh policy then [revert_task] else []"
    have "\<exists>fs d3. failure_tx ?P env params policy t run (database w) = (Inr (t', a, fs), d3) \<and> map pu_taskType fs = ?kinds
        \<and> (\<forall>j x. task_findById j d2 = Some x \<longrightarrow> task_findById j d3 = Some x)"
    proof (cases "followUpData projectId policy t run sev")
      case None
      then have "?kinds = []" by (cases sev) (auto simp: followUpData_def split: if_splits)
      then show ?thesis using m(1) a(1) None severity id
        by (simp add: failure_tx_def Let_def bindT_apply noting_def)
    next
      case (Some data)
      have data: "cf_originTaskId data = ?i" "?kinds = [cf_taskType data]"
        using Some by (cases sev; auto simp: followUpData_def id split: if_splits)+
      obtain r d3 where "create data d2 = (Inr r, d3)" "pu_taskType r = cf_taskType data"
        "\<forall>j x. task_findById j d2 = Some x \<longrightarrow> task_findById j d3 = Some x"
        using follow_up_creation.creation_keeps[OF create, of data d2] origin a(2) data(1) by auto
      then show ?thesis using m(1) a(1) Some severity id data(2)
        by (simp add: failure_tx_def Let_def bindT_apply noting_def)
    qed
    then obtain fs d3 where f: "failure_tx ?P env params policy t run (database w) = (Inr (t', a, fs), d3)" "map pu_taskType fs = ?kinds"
      "\<forall>j x. task_findById j d2 = Some x \<longrightarrow> task_findById j d3 = Some x" by blast
    have others: "\<forall>j x. j \<noteq> ?i \<longrightarrow> task_findById j (database w) = Some x \<longrightarrow> task_findById j d3 = Some x"
      and this_one: "task_findById ?i d3 = Some t'"
      using f(3) m(4,5) look by auto
    have run: "executePostMergeValidation ?P env params ([], w) = applyFailure ?P env params policy t run ([], w)"
      using load failed by (simp add: executePostMergeValidation_def andThen_def noting_def policy)
    show ?thesis unfolding run
      using f(1,2) others this_one m(2) failed severity
      by (cases sev) (simp_all add: applyFailure_def Let_def andThen_def atomically_def commit_def writeTransaction_def noting_def
          await_def taskStatus_of_def)
  qed
qed

definition broken_main :: ValidationRunResult where
  "broken_main = \<lparr>vr_profileName = ''merge-gate'', vr_overallStatus = OverallStatus.failed,
     vr_checkOutcomes = [\<lparr>vo_checkName = ''Security'', vo_command = Own ''npm audit'', vo_category = required,
       vo_status = CheckStatus.failed, vo_durationMs = 3, vo_output = None, vo_errorMessage = None\<rparr>],
     vr_summary = '''', vr_totalDurationMs = 3, vr_requiredPassedCount = 0, vr_requiredFailedCount = 1,
     vr_optionalPassedCount = 0, vr_optionalFailedCount = 0, vr_skippedCount = 0\<rparr>"

definition after_merge_params :: ExecutePostMergeValidationParams where
  "after_merge_params = \<lparr>xp_taskId = ''T1'', xp_workspacePath = ''/w'', xp_mergeQueueItemId = ''Q1'',
     xp_actor = example_actor, xp_metadata = None, xp_failurePolicy = None\<rparr>"

abbreviation after_merge :: world where
  "after_merge \<equiv> merging_world TaskStatus.POST_MERGE_VALIDATION MergeQueueItemStatus.MERGED"

theorem post_merge_exact_witness:
  "\<exists>log w'. snd (executePostMergeValidation (noting broken_main createInBacklog (\<lambda>_. ''P1'')) example_env after_merge_params ([], after_merge))
      = (log, w')
    \<and> taskStatus_of ''T1'' w' = Some TaskStatus.FAILED \<and> log = [QueuePaused ''R'', Notified critical True]"
proof -
  have t: "\<exists>t. task_findById ''T1'' (database after_merge) = Some t \<and> t_status t = TaskStatus.POST_MERGE_VALIDATION \<and> t_repositoryId t = ''R''"
    by (simp add: merging_world_def task_findById_def queue_item_def example_db_def example_task_def)
  then obtain t where t: "task_findById ''T1'' (database after_merge) = Some t" "t_status t = TaskStatus.POST_MERGE_VALIDATION"
    "t_repositoryId t = ''R''" by blast
  have id: "xp_taskId after_merge_params = ''T1''" by (simp add: after_merge_params_def)
  have fresh: "env_uuid example_env \<notin> set (map ae_id (auditEvents (database after_merge)))" by (simp add: merging_world_ok(2))
  have sev: "critical = (if (\<exists>c \<in> set (vr_checkOutcomes broken_main). to_lower (vo_checkName c) = ''security''
      \<and> vo_status c \<in> {CheckStatus.failed, CheckStatus.error})
        \<or> int (vr_requiredFailedCount broken_main) > criticalCheckThreshold DEFAULT_POST_MERGE_FAILURE_POLICY
      then critical else if vr_requiredFailedCount broken_main > 0 then high else low)"
    by code_simp
  have "DEFAULT_POST_MERGE_FAILURE_POLICY = (case xp_failurePolicy after_merge_params of None \<Rightarrow> DEFAULT_POST_MERGE_FAILURE_POLICY | Some p \<Rightarrow> p)"
    by (simp add: after_merge_params_def)
  from post_merge_exact[OF merging_world_ok(1) followUps.follow_up_creation_axioms t(1)[folded id] t(2) fresh this sev,
      where projectId = "\<lambda>_. ''P1''"]
  show ?thesis
    using t(3) id by (auto simp: broken_main_def DEFAULT_POST_MERGE_FAILURE_POLICY_def)
qed

end
