(* ===== verification/Supervisor.thy ===== *)
theory Supervisor
  imports Async LeaseSM
begin

text \<open>
  \<open>packages/application/src/services/worker-supervisor.service.ts\<close>: the run of one worker from the creation of its
  row to the end of its process, over the worker table (\<open>infrastructure/repositories/worker.repository.ts\<close> and
  the adapter of \<open>application-adapters.ts\<close>).

  Workspaces, the mounting of packets, the agent's runtime, heartbeats, leases, logs and the output channel are
  ports.  The stream of a run is the list of what it yields; each element is a port call of its own, so that
  anything may happen before it, and the stream may also throw.  A stream without end is a run that has not
  returned.  Tracing and metrics are left out.
\<close>

subsection \<open>The worker table\<close>

text \<open>A key that is taken, or a pool or task that does not exist, is refused by SQLite.\<close>

definition worker_findById :: "string \<Rightarrow> db \<Rightarrow> Worker option" where
  "worker_findById workerId d = find (\<lambda>r. w_workerId r = workerId) (workers d)"

definition worker_create :: "Worker \<Rightarrow> Worker tx" where
  "worker_create row = (\<lambda>d.
    if w_workerId row \<in> set (map w_workerId (workers d)) \<or> w_poolId row \<notin> set (map p_workerPoolId (workerPools d))
      \<or> (case w_currentTaskId row of None \<Rightarrow> False | Some i \<Rightarrow> i \<notin> set (map t_taskId (tasks d)))
    then (Inl (ConstraintError ''worker''), d) else (Inr row, d\<lparr>workers := workers d @ [row]\<rparr>))"

definition worker_update :: "string \<Rightarrow> (Worker \<Rightarrow> Worker) \<Rightarrow> Worker tx" where
  "worker_update workerId f = (\<lambda>d.
    let d' = d\<lparr>workers := update_where (\<lambda>r. w_workerId r = workerId) f (workers d)\<rparr> in
    case worker_findById workerId d of
      None \<Rightarrow> (Inl (VersionConflictError ''Worker'' workerId ''exists''), d')
    | Some r \<Rightarrow> (Inr (f r), d'))"

subsection \<open>What the runtime and the ports exchange\<close>

datatype RunOutputType = stdout | stderr | system | heartbeat

record SupervisorRunOutputStream =
  ro_type :: RunOutputType
  ro_content :: string
  ro_timestamp :: string

record SupervisorRunLogEntry =
  lo_timestamp :: string
  lo_stream :: string
  lo_content :: string

datatype SupervisorRunStatus = success | failed | partial | cancelled

record SupervisorFinalizeResult =
  fz_runId :: string
  fz_status :: SupervisorRunStatus
  fz_packetOutput :: json
  fz_artifactPaths :: "string list"
  fz_logs :: "SupervisorRunLogEntry list"
  fz_exitCode :: "int option"
  fz_durationMs :: int
  fz_finalizedAt :: string

record SupervisorWorkspaceResult =
  ws_rootPath :: string
  ws_worktreePath :: string
  ws_logsPath :: string
  ws_outputsPath :: string
  ws_branchName :: string
  ws_reused :: bool

record SupervisorMountInput =
  mi_taskPacket :: json
  mi_runConfig :: json
  mi_policySnapshot :: json

text \<open>The run context; the supervisor passes it on and reads two of its fields.\<close>

record SupervisorRunContext =
  rx_taskPacket :: json
  rx_effectivePolicySnapshot :: json
  rx_workspacePaths :: json
  rx_outputSchemaExpectation :: json
  rx_timeoutSettings :: json
  rx_customPrompt :: "string option"

text \<open>What a service or a port throws: an error of the application, or any other with its text.\<close>

datatype thrown = AppThrown app_error | Thrown string

type_synonym ('g, 'a) step = "(thrown, 'g, 'a) async"

record 'g supervisorPorts =
  su_clock :: "'g \<Rightarrow> int"
  su_errorText :: "thrown \<Rightarrow> string"
  su_createWorkspace :: "string \<Rightarrow> string \<Rightarrow> int option \<Rightarrow> ('g, SupervisorWorkspaceResult) step"
  su_mountPackets :: "string \<Rightarrow> SupervisorMountInput \<Rightarrow> ('g, unit) step"
  su_runtimeName :: string
  su_prepareRun :: "SupervisorRunContext \<Rightarrow> ('g, string) step"
  su_startRun :: "string \<Rightarrow> ('g, unit) step"
  su_streamRun :: "string \<Rightarrow> ('g, SupervisorRunOutputStream) step list"
  su_cancelRun :: "string \<Rightarrow> ('g, bool) step"
  su_collectArtifacts :: "string \<Rightarrow> ('g, unit) step"
  su_finalizeRun :: "string \<Rightarrow> ('g, SupervisorFinalizeResult) step"
  su_forwardHeartbeat :: "string \<Rightarrow> string \<Rightarrow> bool \<Rightarrow> ('g, unit) step"
  su_transitionLease :: "(string \<Rightarrow> WorkerLeaseStatus \<Rightarrow> WorkerLeaseTransitionContext \<Rightarrow> ('g, unit) step) option"
  su_reclaimLease :: "(string \<Rightarrow> json \<Rightarrow> ('g, unit) step) option"
  su_persistRunLogs :: "(string \<Rightarrow> SupervisorRunLogEntry list \<Rightarrow> ('g, unit) step) option"
  su_forwardOutput :: "(string \<Rightarrow> SupervisorRunOutputStream \<Rightarrow> ('g, unit) step) option"

record SpawnWorkerParams =
  sw_workerId :: string
  sw_poolId :: string
  sw_workerName :: string
  sw_taskId :: string
  sw_leaseId :: string
  sw_repoPath :: string
  sw_attempt :: "int option"
  sw_runContext :: SupervisorRunContext
  sw_actor :: ActorInfo

record SpawnWorkerResult =
  sr_worker :: Worker
  sr_finalizeResult :: SupervisorFinalizeResult
  sr_outputEvents :: "SupervisorRunOutputStream list"

fun SupervisorRunStatus_value :: "SupervisorRunStatus \<Rightarrow> string" where
  "SupervisorRunStatus_value success = ''success''"
| "SupervisorRunStatus_value failed = ''failed''"
| "SupervisorRunStatus_value partial = ''partial''"
| "SupervisorRunStatus_value cancelled = ''cancelled''"

fun mapRunStatusToWorkerStatus :: "SupervisorRunStatus \<Rightarrow> WorkerEntityStatus" where
  "mapRunStatusToWorkerStatus success = worker_completed"
| "mapRunStatusToWorkerStatus partial = worker_completed"
| "mapRunStatusToWorkerStatus failed = worker_failed"
| "mapRunStatusToWorkerStatus cancelled = worker_cancelled"

subsection \<open>Steps of a run\<close>

text \<open>A transaction of the supervisor, and an event of a status change.\<close>

definition inTransaction :: "'a tx \<Rightarrow> ('g, 'a) step" where
  "inTransaction body = (\<lambda>(g, w). let (r, w') = commit body (\<lambda>_. []) w in (map_sum AppThrown id r, g, w'))"

definition announce :: "'g supervisorPorts \<Rightarrow> SpawnWorkerParams \<Rightarrow> WorkerEntityStatus \<Rightarrow> WorkerEntityStatus \<Rightarrow> ('g, unit) step" where
  "announce ports params from to = (\<lambda>(g, w).
    (Inr (), g, w\<lparr>emitted := emitted w @ [WorkerStatusChangedEvent (sw_workerId params) from to (sw_actor params) (su_clock ports g)]\<rparr>))"

definition createWorker :: "SpawnWorkerParams \<Rightarrow> Worker tx" where
  "createWorker params = worker_create
    \<lparr>w_workerId = sw_workerId params, w_poolId = sw_poolId params, w_name = sw_workerName params,
     w_status = worker_starting, w_lastHeartbeatAt = None, w_currentTaskId = Some (sw_taskId params), w_currentRunId = None\<rparr>"

text \<open>The last status of a worker; it lets go of its run and its task.\<close>

definition retireWorker :: "string \<Rightarrow> WorkerEntityStatus \<Rightarrow> ('g, Worker) step" where
  "retireWorker workerId status =
    inTransaction (worker_update workerId (\<lambda>r. r\<lparr>w_status := status, w_currentRunId := None, w_currentTaskId := None\<rparr>))"

definition runConfig :: "'g supervisorPorts \<Rightarrow> 'g \<Rightarrow> SpawnWorkerParams \<Rightarrow> SupervisorWorkspaceResult \<Rightarrow> json" where
  "runConfig ports g params workspace = JObj
    [(''workerId'', JStr (sw_workerId params)), (''poolId'', JStr (sw_poolId params)), (''taskId'', JStr (sw_taskId params)),
     (''leaseId'', JStr (sw_leaseId params)), (''attempt'', JNum (case sw_attempt params of None \<Rightarrow> 0 | Some n \<Rightarrow> n)),
     (''runtimeName'', JStr (su_runtimeName ports)), (''branchName'', JStr (ws_branchName workspace)),
     (''startedAt'', JDate (su_clock ports g))]"

definition prepareStage :: "'g supervisorPorts \<Rightarrow> SpawnWorkerParams \<Rightarrow> ('g, SupervisorWorkspaceResult \<times> string) step" where
  "prepareStage ports params =
    andThen (su_createWorkspace ports (sw_taskId params) (sw_repoPath params) (sw_attempt params)) (\<lambda>workspace.
    andThen (\<lambda>s. su_mountPackets ports (ws_rootPath workspace)
      \<lparr>mi_taskPacket = rx_taskPacket (sw_runContext params), mi_runConfig = runConfig ports (fst s) params workspace,
       mi_policySnapshot = rx_effectivePolicySnapshot (sw_runContext params)\<rparr> s) (\<lambda>_.
    andThen (su_prepareRun ports (sw_runContext params)) (\<lambda>runId.
    resolved (workspace, runId))))"

definition handleOutput :: "'g supervisorPorts \<Rightarrow> SpawnWorkerParams \<Rightarrow> SupervisorRunOutputStream \<Rightarrow> ('g, unit) step" where
  "handleOutput ports params event =
    andThen (if ro_type event = heartbeat then
        andThen (su_forwardHeartbeat ports (sw_leaseId params) (sw_workerId params) False) (\<lambda>_ s.
        andThen (inTransaction (worker_update (sw_workerId params)
          (\<lambda>r. r\<lparr>w_lastHeartbeatAt := Some (su_clock ports (fst s) div 1000)\<rparr>))) (\<lambda>_. resolved ()) s)
      else resolved ()) (\<lambda>_.
    case su_forwardOutput ports of
      Some forward \<Rightarrow> if ro_type event \<in> {stdout, stderr} then forward (sw_workerId params) event else resolved ()
    | None \<Rightarrow> resolved ())"

fun streamLoop :: "'g supervisorPorts \<Rightarrow> SpawnWorkerParams \<Rightarrow> ('g, SupervisorRunOutputStream) step list
    \<Rightarrow> SupervisorRunOutputStream list \<Rightarrow> ('g, SupervisorRunOutputStream list) step" where
  "streamLoop ports params [] outputEvents = resolved outputEvents"
| "streamLoop ports params (yield # rest) outputEvents =
    andThen yield (\<lambda>event.
    andThen (handleOutput ports params event) (\<lambda>_.
    streamLoop ports params rest (outputEvents @ [event])))"

definition startStage :: "'g supervisorPorts \<Rightarrow> SpawnWorkerParams \<Rightarrow> string \<Rightarrow> ('g, unit) step" where
  "startStage ports params runId =
    andThen (su_startRun ports runId) (\<lambda>_.
    andThen (case su_transitionLease ports of
        None \<Rightarrow> resolved ()
      | Some transition \<Rightarrow> transition (sw_leaseId params) WorkerLeaseStatus.STARTING
          (emptyWorkerLeaseTransitionContext\<lparr>workerProcessSpawned := Some True\<rparr>)) (\<lambda>_.
    andThen (inTransaction (worker_update (sw_workerId params)
      (\<lambda>r. r\<lparr>w_status := worker_running, w_currentRunId := Some runId\<rparr>))) (\<lambda>_.
    announce ports params worker_starting worker_running)))"

definition persistLogs :: "'g supervisorPorts \<Rightarrow> SupervisorWorkspaceResult \<Rightarrow> SupervisorFinalizeResult \<Rightarrow> ('g, unit) step" where
  "persistLogs ports workspace finalizeResult =
    (case su_persistRunLogs ports of
       Some persist \<Rightarrow> if length (fz_logs finalizeResult) > 0 then bestEffort (persist (ws_logsPath workspace) (fz_logs finalizeResult))
         else resolved ()
     | None \<Rightarrow> resolved ())"

definition successPath ::
  "'g supervisorPorts \<Rightarrow> SpawnWorkerParams \<Rightarrow> SupervisorFinalizeResult \<Rightarrow> SupervisorRunOutputStream list \<Rightarrow> ('g, SpawnWorkerResult) step" where
  "successPath ports params finalizeResult outputEvents =
    (let terminalStatus = mapRunStatusToWorkerStatus (fz_status finalizeResult) in
     andThen (inTransaction (worker_update (sw_workerId params) (\<lambda>r. r\<lparr>w_status := worker_completing\<rparr>))) (\<lambda>_.
     andThen (announce ports params worker_running worker_completing) (\<lambda>_.
     andThen (su_forwardHeartbeat ports (sw_leaseId params) (sw_workerId params) True) (\<lambda>_.
     andThen (retireWorker (sw_workerId params) terminalStatus) (\<lambda>terminalWorker.
     andThen (announce ports params worker_completing terminalStatus) (\<lambda>_.
     resolved \<lparr>sr_worker = terminalWorker, sr_finalizeResult = finalizeResult, sr_outputEvents = outputEvents\<rparr>))))))"

definition reclaim :: "'g supervisorPorts \<Rightarrow> SpawnWorkerParams \<Rightarrow> json \<Rightarrow> ('g, unit) step" where
  "reclaim ports params metadata =
    (case su_reclaimLease ports of None \<Rightarrow> resolved () | Some reclaimLease \<Rightarrow> bestEffort (reclaimLease (sw_leaseId params) metadata))"

definition failurePath ::
  "'g supervisorPorts \<Rightarrow> SpawnWorkerParams \<Rightarrow> SupervisorFinalizeResult \<Rightarrow> SupervisorRunOutputStream list \<Rightarrow> ('g, SpawnWorkerResult) step" where
  "failurePath ports params finalizeResult outputEvents =
    (let terminalStatus = mapRunStatusToWorkerStatus (fz_status finalizeResult) in
     andThen (retireWorker (sw_workerId params) terminalStatus) (\<lambda>terminalWorker.
     andThen (announce ports params worker_running terminalStatus) (\<lambda>_.
     andThen (reclaim ports params (JObj [(''triggeredBy'', JStr ''worker-supervisor''), (''reason'', JStr ''worker_execution_failed''),
         (''exitCode'', case fz_exitCode finalizeResult of None \<Rightarrow> JNull | Some c \<Rightarrow> JNum c),
         (''runStatus'', JStr (SupervisorRunStatus_value (fz_status finalizeResult))),
         (''durationMs'', JNum (fz_durationMs finalizeResult))])) (\<lambda>_.
     resolved \<lparr>sr_worker = terminalWorker, sr_finalizeResult = finalizeResult, sr_outputEvents = outputEvents\<rparr>))))"

definition runStage :: "'g supervisorPorts \<Rightarrow> SpawnWorkerParams \<Rightarrow> SupervisorWorkspaceResult \<Rightarrow> string \<Rightarrow> ('g, SpawnWorkerResult) step" where
  "runStage ports params workspace runId =
    andThen (startStage ports params runId) (\<lambda>_.
    andThen (streamLoop ports params (su_streamRun ports runId) []) (\<lambda>outputEvents.
    andThen (su_collectArtifacts ports runId) (\<lambda>_.
    andThen (su_finalizeRun ports runId) (\<lambda>finalizeResult.
    andThen (persistLogs ports workspace finalizeResult) (\<lambda>_.
    if fz_status finalizeResult = success \<or> fz_status finalizeResult = partial
    then successPath ports params finalizeResult outputEvents
    else failurePath ports params finalizeResult outputEvents)))))"

text \<open>The handler of \<open>spawnWorker\<close>; an empty run id counts as none.\<close>

definition spawnFailed :: "'g supervisorPorts \<Rightarrow> SpawnWorkerParams \<Rightarrow> Worker \<Rightarrow> string \<Rightarrow> thrown \<Rightarrow> ('g, SpawnWorkerResult) step" where
  "spawnFailed ports params worker preparedRunId e =
    andThen (if preparedRunId \<noteq> '''' then
        bestEffort (andThen (su_cancelRun ports preparedRunId) (\<lambda>_.
          andThen (su_collectArtifacts ports preparedRunId) (\<lambda>_. su_finalizeRun ports preparedRunId)))
      else resolved ()) (\<lambda>_.
    andThen (retireWorker (sw_workerId params) worker_failed) (\<lambda>_.
    andThen (announce ports params (w_status worker) worker_failed) (\<lambda>_.
    andThen (reclaim ports params (JObj [(''triggeredBy'', JStr ''worker-supervisor''), (''reason'', JStr ''worker_spawn_exception''),
       (''error'', JStr (su_errorText ports e))])) (\<lambda>_ s. (Inl e, s)))))"

definition spawnWorker :: "'g supervisorPorts \<Rightarrow> SpawnWorkerParams \<Rightarrow> ('g, SpawnWorkerResult) step" where
  "spawnWorker ports params =
    andThen (inTransaction (createWorker params)) (\<lambda>worker.
    andThen (announce ports params worker_idle worker_starting) (\<lambda>_.
    catching (prepareStage ports params) (spawnFailed ports params worker '''') (\<lambda>(workspace, runId).
    catching (runStage ports params workspace runId) (spawnFailed ports params worker runId) resolved)))"

subsection \<open>Cancellation\<close>

record CancelWorkerParams =
  cw_workerId :: string
  cw_runId :: string
  cw_actor :: ActorInfo

record CancelWorkerResult =
  cr_cancelled :: bool
  cr_finalizeResult :: "SupervisorFinalizeResult option"
  cr_worker :: Worker

definition cancelWorker :: "'g supervisorPorts \<Rightarrow> CancelWorkerParams \<Rightarrow> ('g, CancelWorkerResult) step" where
  "cancelWorker ports params =
    andThen (inTransaction (getT (worker_findById (cw_workerId params)))) (\<lambda>found. case found of
      None \<Rightarrow> resolved \<lparr>cr_cancelled = False, cr_finalizeResult = None,
        cr_worker = \<lparr>w_workerId = cw_workerId params, w_poolId = '''', w_name = '''', w_status = worker_failed,
          w_lastHeartbeatAt = None, w_currentTaskId = None, w_currentRunId = None\<rparr>\<rparr>
    | Some worker \<Rightarrow>
        andThen (su_cancelRun ports (cw_runId params)) (\<lambda>cancelledRun.
        if \<not> cancelledRun then resolved \<lparr>cr_cancelled = False, cr_finalizeResult = None, cr_worker = worker\<rparr>
        else
          andThen (su_collectArtifacts ports (cw_runId params)) (\<lambda>_.
          andThen (su_finalizeRun ports (cw_runId params)) (\<lambda>finalizeResult.
          andThen (retireWorker (cw_workerId params) worker_cancelled) (\<lambda>cancelledWorker (g, w).
          (Inr \<lparr>cr_cancelled = True, cr_finalizeResult = Some finalizeResult, cr_worker = cancelledWorker\<rparr>, g,
           w\<lparr>emitted := emitted w @ [WorkerStatusChangedEvent (cw_workerId params) (w_status worker) worker_cancelled
              (cw_actor params) (su_clock ports g)]\<rparr>))))))"

subsection \<open>The order of the calls\<close>

text \<open>Ports that write down the calls that decide about a run.\<close>

datatype supervisor_call = StartTried bool | Beat bool | CancelTried | Finalized SupervisorRunStatus | FinalizeThrown | ReclaimTried

definition silent :: "'r \<Rightarrow> supervisor_call list" where
  "silent r = []"

definition tracing_run :: "'g supervisorPorts \<Rightarrow> ('g \<times> supervisor_call list) supervisorPorts" where
  "tracing_run p = \<lparr>su_clock = (\<lambda>(g, _). su_clock p g), su_errorText = su_errorText p,
    su_createWorkspace = (\<lambda>a b c. traced silent (su_createWorkspace p a b c)),
    su_mountPackets = (\<lambda>a b. traced silent (su_mountPackets p a b)), su_runtimeName = su_runtimeName p,
    su_prepareRun = (\<lambda>a. traced silent (su_prepareRun p a)),
    su_startRun = (\<lambda>a. traced (\<lambda>r. [StartTried (case r of Inl _ \<Rightarrow> False | Inr _ \<Rightarrow> True)]) (su_startRun p a)),
    su_streamRun = (\<lambda>a. map (traced silent) (su_streamRun p a)),
    su_cancelRun = (\<lambda>a. traced (\<lambda>_. [CancelTried]) (su_cancelRun p a)),
    su_collectArtifacts = (\<lambda>a. traced silent (su_collectArtifacts p a)),
    su_finalizeRun = (\<lambda>a. traced (\<lambda>r. [case r of Inl _ \<Rightarrow> FinalizeThrown | Inr z \<Rightarrow> Finalized (fz_status z)]) (su_finalizeRun p a)),
    su_forwardHeartbeat = (\<lambda>a b terminal. traced (\<lambda>_. [Beat terminal]) (su_forwardHeartbeat p a b terminal)),
    su_transitionLease = map_option (\<lambda>f a b c. traced silent (f a b c)) (su_transitionLease p),
    su_reclaimLease = map_option (\<lambda>f a b. traced (\<lambda>_. [ReclaimTried]) (f a b)) (su_reclaimLease p),
    su_persistRunLogs = map_option (\<lambda>f a b. traced silent (f a b)) (su_persistRunLogs p),
    su_forwardOutput = map_option (\<lambda>f a b. traced silent (f a b)) (su_forwardOutput p)\<rparr>"

definition still :: "'r \<Rightarrow> supervisor_call list \<Rightarrow> bool" where
  "still r l \<longleftrightarrow> l = []"

lemma logs_still:
  "logs (traced silent call) still" "logs (inTransaction body) still" "logs (announce ports params x y) still" "logs (resolved a) still"
  using logs_traced[of silent call] by (auto simp: logs_def still_def silent_def inTransaction_def announce_def log_of_def Let_def case_prod_beta)

lemma logs_announce: "logs (announce ports params x y) (\<lambda>r l. r = Inr () \<and> l = ([] :: supervisor_call list))"
  by (auto simp: logs_def announce_def log_of_def)

lemma logs_still_andThen: "logs m still \<Longrightarrow> (\<And>a. logs (f a) Q) \<Longrightarrow> (\<And>e. Q (Inl e) []) \<Longrightarrow> logs (andThen m f) Q"
  by (rule logs_weaken[OF logs_andThen[of m still f "\<lambda>_. Q"]]) (auto simp: still_def)

lemma logs_ports:
  "logs (su_createWorkspace (tracing_run p) a b c) still" "logs (su_mountPackets (tracing_run p) a m) still"
  "logs (su_prepareRun (tracing_run p) x) still" "logs (su_collectArtifacts (tracing_run p) a) still"
  "logs (su_startRun (tracing_run p) a) (\<lambda>r l. l = [StartTried (case r of Inl _ \<Rightarrow> False | Inr _ \<Rightarrow> True)])"
  "logs (su_cancelRun (tracing_run p) a) (\<lambda>r l. l = [CancelTried])"
  "logs (su_finalizeRun (tracing_run p) a) (\<lambda>r l. l = [case r of Inl _ \<Rightarrow> FinalizeThrown | Inr z \<Rightarrow> Finalized (fz_status z)])"
  "logs (su_forwardHeartbeat (tracing_run p) a b t) (\<lambda>r l. l = [Beat t])"
  "su_transitionLease (tracing_run p) = Some f1 \<Longrightarrow> logs (f1 a i j) still"
  "su_reclaimLease (tracing_run p) = Some f2 \<Longrightarrow> logs (f2 a k) (\<lambda>r l. l = [ReclaimTried])"
  "su_persistRunLogs (tracing_run p) = Some f3 \<Longrightarrow> logs (f3 a n) still"
  "su_forwardOutput (tracing_run p) = Some f4 \<Longrightarrow> logs (f4 a v) still"
  "su_reclaimLease (tracing_run p) = None \<longleftrightarrow> su_reclaimLease p = None"
  using logs_still(1) by (auto simp: tracing_run_def intro: logs_traced)

lemma logs_start: "logs (startStage (tracing_run p) params runId) (\<lambda>r l. \<exists>ok. l = [StartTried ok] \<and> (r = Inr () \<longrightarrow> ok))"
proof -
  have rest: "logs (andThen (case su_transitionLease (tracing_run p) of None \<Rightarrow> resolved () | Some transition \<Rightarrow> transition i j k) (\<lambda>_.
      andThen (inTransaction body) (\<lambda>_. announce ports params x y))) still" for i j k body ports x y
    by (intro logs_still_andThen)
       (auto simp: still_def[of "Inl _"] logs_still logs_ports split: option.split)
  show ?thesis unfolding startStage_def
    by (rule logs_weaken[OF logs_andThen[OF logs_ports(5) rest]]) (auto simp: still_def)
qed

text \<open>The stream: one heartbeat is forwarded for each that is heard.\<close>

definition beats :: "SupervisorRunOutputStream list \<Rightarrow> nat" where
  "beats events = length (filter (\<lambda>e. ro_type e = heartbeat) events)"

lemma logs_output: "logs (handleOutput (tracing_run p) params event)
    (\<lambda>r l. l = replicate (beats [event]) (Beat False))"
proof -
  have fwd: "logs (case su_forwardOutput (tracing_run p) of Some f \<Rightarrow> if ro_type event \<in> {stdout, stderr} then f i event else resolved ()
      | None \<Rightarrow> resolved ()) still" for i
    using logs_ports(12)[of p _ i event] by (auto simp: logs_still split: option.split)
  have upd: "logs (\<lambda>s. andThen (inTransaction (body s)) (\<lambda>_. resolved ()) s) still"
    for body :: "('a \<times> supervisor_call list) \<times> world \<Rightarrow> Worker tx"
  proof -
    have "logs (andThen (inTransaction b) (\<lambda>_. resolved ())) still" for b :: "Worker tx"
      by (intro logs_still_andThen logs_still) (simp add: still_def)
    then show ?thesis unfolding logs_def by blast
  qed
  have beat: "logs (if ro_type event = heartbeat then andThen (su_forwardHeartbeat (tracing_run p) i j False) (\<lambda>_ s.
      andThen (inTransaction (body s)) (\<lambda>_. resolved ()) s) else resolved ())
      (\<lambda>r l. l = replicate (beats [event]) (Beat False))" for i j
    and body :: "('a \<times> supervisor_call list) \<times> world \<Rightarrow> Worker tx"
  proof (cases "ro_type event = heartbeat")
    case True
    have "logs (andThen (su_forwardHeartbeat (tracing_run p) i j False) (\<lambda>_ s. andThen (inTransaction (body s)) (\<lambda>_. resolved ()) s))
        (\<lambda>r l. l = [Beat False])"
      by (rule logs_weaken[OF logs_andThen[OF logs_ports(8) upd]]) (auto simp: still_def)
    then show ?thesis using True by (simp add: beats_def)
  next
    case False
    have "logs (resolved ()) (\<lambda>r l. l = ([] :: supervisor_call list))" by (rule logs_weaken[OF logs_resolved]) simp
    then show ?thesis using False by (simp add: beats_def)
  qed
  show ?thesis unfolding handleOutput_def
    by (rule logs_weaken[OF logs_andThen[OF beat fwd]]) (auto simp: still_def)
qed

lemma logs_stream: "logs (streamLoop (tracing_run p) params (map (traced silent) yields) events)
    (\<lambda>r l. \<exists>n. l = replicate n (Beat False) \<and> (\<forall>vs. r = Inr vs \<longrightarrow> beats vs = beats events + n))"
proof (induction yields arbitrary: events)
  case Nil
  show ?case by (simp add: logs_def)
next
  case (Cons y ys)
  have add: "beats (events @ [event]) = beats events + beats [event]" for event by (simp add: beats_def)
  have rest: "logs (andThen (handleOutput (tracing_run p) params event) (\<lambda>_.
      streamLoop (tracing_run p) params (map (traced silent) ys) (events @ [event])))
      (\<lambda>r l. \<exists>n. l = replicate n (Beat False) \<and> (\<forall>vs. r = Inr vs \<longrightarrow> beats vs = beats events + n))" for event
  proof (rule logs_weaken[OF logs_andThen[OF logs_output Cons.IH]], goal_cases)
    case (1 r l)
    then show ?case
    proof (elim disjE exE conjE)
      fix n l1 l2
      assume "l = l1 @ l2" "l1 = replicate (beats [event]) (Beat False)" "l2 = replicate n (Beat False)"
        "\<forall>vs. r = Inr vs \<longrightarrow> beats vs = beats (events @ [event]) + n"
      then show ?thesis by (intro exI[of _ "beats [event] + n"]) (simp add: add replicate_add)
    qed auto
  qed
  show ?case unfolding list.map streamLoop.simps
    by (rule logs_still_andThen[OF logs_still(1) rest]) simp
qed

text \<open>A run up to its end, and what remains of it when something throws.\<close>

abbreviation succeeded :: "SupervisorFinalizeResult \<Rightarrow> bool" where
  "succeeded z \<equiv> fz_status z = success \<or> fz_status z = partial"

definition run_calls :: "SpawnWorkerResult \<Rightarrow> supervisor_call list" where
  "run_calls res = StartTried True # replicate (beats (sr_outputEvents res)) (Beat False) @ [Finalized (fz_status (sr_finalizeResult res))]
     @ (if succeeded (sr_finalizeResult res) then [Beat True] else [ReclaimTried])"

definition broken_run :: "supervisor_call list \<Rightarrow> bool" where
  "broken_run l \<longleftrightarrow> (\<exists>ok n rest. l = StartTried ok # replicate n (Beat False) @ rest
     \<and> (rest \<in> {[], [FinalizeThrown]} \<or> (\<exists>st. rest = [Finalized st] \<or> st \<in> {success, partial} \<and> rest = [Finalized st, Beat True])))"

lemma logs_success: "logs (successPath (tracing_run p) params z events)
    (\<lambda>r l. case r of Inl e \<Rightarrow> l = [] \<or> l = [Beat True]
      | Inr res \<Rightarrow> l = [Beat True] \<and> sr_finalizeResult res = z \<and> sr_outputEvents res = events)"
proof -
  have tail: "logs (andThen (retireWorker i st) (\<lambda>t. andThen (announce ports params x y) (\<lambda>_.
      resolved \<lparr>sr_worker = t, sr_finalizeResult = z, sr_outputEvents = events\<rparr>)))
      (\<lambda>r l. l = ([] :: supervisor_call list) \<and> (\<forall>res. r = Inr res \<longrightarrow> sr_finalizeResult res = z \<and> sr_outputEvents res = events))" for i st ports x y
    unfolding retireWorker_def
    by (intro logs_still_andThen logs_still logs_weaken[OF logs_resolved]) auto
  show ?thesis unfolding successPath_def Let_def
    by (intro logs_still_andThen logs_still logs_weaken[OF logs_andThen[OF logs_ports(8) tail]])
      (auto split: sum.split)
qed

lemma logs_reclaim:
  assumes "su_reclaimLease p \<noteq> None"
  shows "logs (reclaim (tracing_run p) params m) (\<lambda>r l. r = Inr () \<and> l = [ReclaimTried])"
proof -
  obtain f where f: "su_reclaimLease (tracing_run p) = Some f" using assms logs_ports(13)[of p] by auto
  show ?thesis unfolding reclaim_def f option.case
    by (rule logs_weaken[OF logs_bestEffort[OF logs_ports(10)[OF f]]]) simp
qed

lemma logs_failure:
  assumes "su_reclaimLease p \<noteq> None"
  shows "logs (failurePath (tracing_run p) params z events)
    (\<lambda>r l. case r of Inl e \<Rightarrow> l = []
      | Inr res \<Rightarrow> l = [ReclaimTried] \<and> sr_finalizeResult res = z \<and> sr_outputEvents res = events)"
  unfolding failurePath_def Let_def retireWorker_def
  by (intro logs_still_andThen logs_still logs_weaken[OF logs_andThen[OF logs_reclaim[OF assms] logs_resolved]])
     (auto split: sum.split)

lemma logs_run:
  assumes "su_reclaimLease p \<noteq> None"
  shows "logs (runStage (tracing_run p) params workspace runId)
    (\<lambda>r l. case r of Inl e \<Rightarrow> broken_run l | Inr res \<Rightarrow> l = run_calls res)"
proof -
  let ?ending = "\<lambda>z events. if succeeded z then successPath (tracing_run p) params z events else failurePath (tracing_run p) params z events"
  let ?closing = "\<lambda>z events r l. case r of Inl e \<Rightarrow> l = [] \<or> succeeded z \<and> l = [Beat True]
    | Inr res \<Rightarrow> l = (if succeeded z then [Beat True] else [ReclaimTried]) \<and> sr_finalizeResult res = z \<and> sr_outputEvents res = events"
  have closing: "logs (?ending z events) (?closing z events)" for z events
    using logs_weaken[OF logs_success[of p params z events], of "?closing z events"]
      logs_weaken[OF logs_failure[OF assms, of params z events], of "?closing z events"]
    by (auto split: sum.splits)
  have persisted: "logs (persistLogs (tracing_run p) workspace z) (\<lambda>r l. l = [])" for z
    using logs_weaken[OF logs_bestEffort[OF logs_ports(11)], of p _ "\<lambda>r l. l = []"] logs_nothing
    by (auto simp: persistLogs_def still_def split: option.split)
  have finished: "logs (andThen (su_finalizeRun (tracing_run p) runId) (\<lambda>z. andThen (persistLogs (tracing_run p) workspace z) (\<lambda>_. ?ending z events)))
    (\<lambda>r l. case r of Inl e \<Rightarrow> l = [FinalizeThrown] \<or> (\<exists>z. l = [Finalized (fz_status z)] \<or> succeeded z \<and> l = [Finalized (fz_status z), Beat True])
      | Inr res \<Rightarrow> l = Finalized (fz_status (sr_finalizeResult res)) # (if succeeded (sr_finalizeResult res) then [Beat True] else [ReclaimTried])
          \<and> sr_outputEvents res = events)" for events
    by (rule logs_weaken[OF logs_andThen[OF logs_ports(7) logs_andThen[OF persisted closing]]])
      (auto split: sum.splits if_splits)
  have stream: "logs (streamLoop (tracing_run p) params (su_streamRun (tracing_run p) runId) [])
    (\<lambda>r l. \<exists>n. l = replicate n (Beat False) \<and> (\<forall>vs. r = Inr vs \<longrightarrow> beats vs = beats [] + n))"
    using logs_stream[of p params "su_streamRun p runId"] by (simp add: tracing_run_def)
  have streamed: "logs (andThen (streamLoop (tracing_run p) params (su_streamRun (tracing_run p) runId) []) (\<lambda>events.
      andThen (su_collectArtifacts (tracing_run p) runId) (\<lambda>_. andThen (su_finalizeRun (tracing_run p) runId) (\<lambda>z.
      andThen (persistLogs (tracing_run p) workspace z) (\<lambda>_. ?ending z events)))))
    (\<lambda>r l. case r of Inl e \<Rightarrow> broken_run (StartTried True # l) | Inr res \<Rightarrow> StartTried True # l = run_calls res)"
  proof (rule logs_weaken[OF logs_andThen[OF stream logs_andThen[OF logs_ports(4) finished]]], goal_cases)
    case (1 r l)
    then show ?case
    proof (elim disjE exE conjE)
      fix e n assume "r = Inl e" "l = replicate n (Beat False)"
      then show ?thesis by (auto simp: broken_run_def)
    next
      fix events n l1 l2 e
      assume "l = l1 @ l2" "l1 = replicate n (Beat False)" "r = Inl e" "still (Inl e) l2"
      then show ?thesis by (auto simp: broken_run_def still_def)
    next
      fix events l1 l2 n a m1 m2
      assume "l = l1 @ l2" "l1 = replicate n (Beat False)" "\<forall>vs. Inr events = Inr vs \<longrightarrow> beats vs = beats [] + n" "l2 = m1 @ m2"
        "still (Inr a) m1" "case r of Inl e \<Rightarrow> m2 = [FinalizeThrown]
          \<or> (\<exists>z. m2 = [Finalized (fz_status z)] \<or> succeeded z \<and> m2 = [Finalized (fz_status z), Beat True])
        | Inr res \<Rightarrow> m2 = Finalized (fz_status (sr_finalizeResult res)) # (if succeeded (sr_finalizeResult res) then [Beat True] else [ReclaimTried])
          \<and> sr_outputEvents res = events"
      then show ?thesis
        by (cases r) (auto simp: broken_run_def run_calls_def still_def beats_def)
    qed
  qed
  show ?thesis unfolding runStage_def
  proof (rule logs_weaken[OF logs_andThen[OF logs_start streamed]], goal_cases)
    case (1 r l)
    have "broken_run [StartTried ok]" for ok by (simp add: broken_run_def)
    with 1 show ?case by (cases r) auto
  qed
qed

text \<open>What the handler does after a throw.\<close>

definition cleanup :: "supervisor_call list \<Rightarrow> bool" where
  "cleanup l \<longleftrightarrow> l \<in> {[CancelTried], [CancelTried, FinalizeThrown]} \<or> (\<exists>st. l = [CancelTried, Finalized st])"

lemma cleaned_up:
  "cleanup [CancelTried]" "cleanup [CancelTried, case r of Inl _ \<Rightarrow> FinalizeThrown | Inr z \<Rightarrow> Finalized (fz_status z)]"
  by (auto simp: cleanup_def split: sum.split)

definition let_go :: "thrown + SpawnWorkerResult \<Rightarrow> thrown \<Rightarrow> string \<Rightarrow> supervisor_call list \<Rightarrow> bool" where
  "let_go r e i l \<longleftrightarrow> l = [ReclaimTried] \<and> r = Inl e
    \<or> l = [] \<and> r = Inl (AppThrown (VersionConflictError ''Worker'' i ''exists''))"

lemma retire_thrown: "retireWorker i st s = (r, s') \<Longrightarrow> \<forall>e. r = Inl e \<longrightarrow> e = AppThrown (VersionConflictError ''Worker'' i ''exists'')"
  by (cases s) (auto simp: retireWorker_def inTransaction_def commit_def writeTransaction_def worker_update_def Let_def
      split: option.splits sum.splits prod.splits)

lemma logs_retire: "logs (retireWorker i st) (\<lambda>r l. l = ([] :: supervisor_call list)
    \<and> (\<forall>e. r = Inl e \<longrightarrow> e = AppThrown (VersionConflictError ''Worker'' i ''exists'')))"
proof -
  have "logs (retireWorker i st) (still :: _ \<Rightarrow> supervisor_call list \<Rightarrow> bool)" unfolding retireWorker_def by (rule logs_still)
  from logs_also[OF this retire_thrown] show ?thesis by (simp add: still_def)
qed

lemma logs_failed:
  assumes "su_reclaimLease p \<noteq> None"
  shows "logs (spawnFailed (tracing_run p) params worker runId e)
    (\<lambda>r l. \<exists>l1 l2. l = l1 @ l2 \<and> (if runId = '''' then l1 = [] else cleanup l1) \<and> let_go r e (sw_workerId params) l2)"
proof -
  have cleaned: "logs (if runId \<noteq> '''' then bestEffort (andThen (su_cancelRun (tracing_run p) runId) (\<lambda>_.
      andThen (su_collectArtifacts (tracing_run p) runId) (\<lambda>_. su_finalizeRun (tracing_run p) runId))) else resolved ())
    (\<lambda>r l. r = Inr () \<and> (if runId = '''' then l = [] else cleanup l))"
  proof (cases "runId = ''''")
    case True
    then show ?thesis using logs_weaken[OF logs_resolved] by simp
  next
    case False
    have "logs (bestEffort (andThen (su_cancelRun (tracing_run p) runId) (\<lambda>_.
      andThen (su_collectArtifacts (tracing_run p) runId) (\<lambda>_. su_finalizeRun (tracing_run p) runId))))
      (\<lambda>r l. r = Inr () \<and> cleanup l)"
      by (rule logs_weaken[OF logs_bestEffort[OF logs_andThen[OF logs_ports(6) logs_andThen[OF logs_ports(4) logs_ports(7)]]]])
        (auto simp: cleaned_up still_def)
    then show ?thesis using False by simp
  qed
  have thrown: "logs (\<lambda>s. (Inl e, s)) (\<lambda>r l. r = Inl e \<and> l = [])" by (simp add: logs_def)
  have released: "logs (andThen (retireWorker (sw_workerId params) st) (\<lambda>_. andThen (announce ports params x y) (\<lambda>_.
      andThen (reclaim (tracing_run p) params m) (\<lambda>_ s. (Inl e, s))))) (\<lambda>r l. let_go r e (sw_workerId params) l)" for st ports x y m
    by (rule logs_weaken[OF logs_andThen[OF logs_retire logs_andThen[OF logs_announce logs_andThen[OF logs_reclaim[OF assms] thrown]]]])
      (auto simp: still_def let_go_def)
  show ?thesis unfolding spawnFailed_def
    by (rule logs_weaken[OF logs_andThen[OF cleaned released]]) blast
qed

lemma logs_prepare:
  assumes "\<forall>c s i s'. su_prepareRun p c s = (Inr i, s') \<longrightarrow> i \<noteq> ''''"
  shows "logs (prepareStage (tracing_run p) params) (\<lambda>r l. l = [] \<and> (\<forall>ws i. r = Inr (ws, i) \<longrightarrow> i \<noteq> ''''))"
proof -
  have prep: "logs (su_prepareRun (tracing_run p) c) (\<lambda>r l. l = [] \<and> (\<forall>i. r = Inr i \<longrightarrow> i \<noteq> ''''))" for c
    using assms by (auto simp: logs_def tracing_run_def traced_def silent_def log_of_def case_prod_beta prod_eq_iff)
  show ?thesis unfolding prepareStage_def
  proof (rule logs_still_andThen[OF logs_ports(1)])
    fix ws :: SupervisorWorkspaceResult
    have mount: "logs (\<lambda>s. su_mountPackets (tracing_run p) a (m s) s) still" for a m
      using logs_ports(2) unfolding logs_def by blast
    have made: "logs (andThen (su_prepareRun (tracing_run p) c) (\<lambda>i. resolved (ws, i)))
        (\<lambda>r l. l = [] \<and> (\<forall>ws i. r = Inr (ws, i) \<longrightarrow> i \<noteq> ''''))" for c
      by (rule logs_weaken[OF logs_andThen[OF prep logs_resolved]]) auto
    show "logs (andThen (\<lambda>s. su_mountPackets (tracing_run p) (ws_rootPath ws)
        \<lparr>mi_taskPacket = rx_taskPacket (sw_runContext params), mi_runConfig = runConfig (tracing_run p) (fst s) params ws,
         mi_policySnapshot = rx_effectivePolicySnapshot (sw_runContext params)\<rparr> s)
        (\<lambda>_. andThen (su_prepareRun (tracing_run p) (sw_runContext params)) (\<lambda>i. resolved (ws, i))))
        (\<lambda>r l. l = [] \<and> (\<forall>ws i. r = Inr (ws, i) \<longrightarrow> i \<noteq> ''''))"
      by (rule logs_still_andThen[OF mount made]) simp
  qed simp
qed

definition aborted :: "SpawnWorkerParams \<Rightarrow> thrown + SpawnWorkerResult \<Rightarrow> supervisor_call list \<Rightarrow> bool" where
  "aborted params r l \<longleftrightarrow> (\<exists>e l1 l2 l3. l = l1 @ l2 @ l3 \<and> (l1 = [] \<and> l2 = [] \<or> broken_run l1 \<and> cleanup l2)
     \<and> let_go r e (sw_workerId params) l3)"

lemma abortedI: "let_go r e (sw_workerId params) l3 \<Longrightarrow> l1 = [] \<and> l2 = [] \<or> broken_run l1 \<and> cleanup l2
    \<Longrightarrow> aborted params r (l1 @ l2 @ l3) \<and> (\<exists>e'. r = Inl e')"
  by (auto simp: aborted_def let_go_def)

text \<open>
  (C23) The calls of one run, in order, for a supervisor that has been given a reclaimer and an adapter whose run
  ids are not empty.  A run that returns was started, forwarded one heartbeat for each that it heard, and
  was finalized once; it sent the closing heartbeat exactly when it ended as success or partial, and tried to
  reclaim the lease exactly when it did not.  When the worker row cannot be created its error is thrown,
  nothing is called and nothing changes.  On any other throw the calls are those of the run so far, with
  a closing heartbeat only after it was finalized as success or partial, then, for a run that had been
  prepared, its cancellation and at most one further attempt to finalize it, and then one attempt to
  reclaim the lease; only when the row of the worker cannot be updated any more is there no such attempt,
  and the error thrown is that of the update.  So a run that throws after its
  end is finalized a second time, and a lease can be reclaimed after its closing heartbeat.
\<close>

theorem supervisor_protocol:
  assumes reclaimer: "su_reclaimLease p \<noteq> None"
    and ids: "\<forall>c s i s'. su_prepareRun p c s = (Inr i, s') \<longrightarrow> i \<noteq> ''''"
    and run: "spawnWorker (tracing_run p) params ((g, []), w) = (r, (g', log), w')"
  shows "case fst (commit (createWorker params) (\<lambda>_. []) w) of
      Inl e \<Rightarrow> r = Inl (AppThrown e) \<and> log = [] \<and> g' = g \<and> w' = w
    | Inr _ \<Rightarrow> (case r of Inr res \<Rightarrow> log = run_calls res | Inl _ \<Rightarrow> aborted params r log)"
proof -
  let ?P = "\<lambda>r l. case r of Inr res \<Rightarrow> l = run_calls res | Inl e \<Rightarrow> aborted params r l"
  have running: "logs (catching (runStage (tracing_run p) params ws i) (spawnFailed (tracing_run p) params worker i) resolved)
    (\<lambda>r l. i \<noteq> '''' \<longrightarrow> ?P r l)" for ws i worker
  proof (rule logs_weaken[OF logs_catching[OF logs_run[OF reclaimer] logs_failed[OF reclaimer] logs_resolved]], goal_cases)
    case (1 r l)
    then show ?case
    proof (elim exE conjE disjE)
      fix l1 l2 e m1 m2
      assume "l = l1 @ l2" "case Inl e of Inl e \<Rightarrow> broken_run l1 | Inr res \<Rightarrow> l1 = run_calls res" "l2 = m1 @ m2"
        "if i = '''' then m1 = [] else cleanup m1" "let_go r e (sw_workerId params) m2"
      then show ?thesis using abortedI[of r e params m2 l1 m1] by auto
    qed simp
  qed
  have preparing: "logs (catching (prepareStage (tracing_run p) params) (spawnFailed (tracing_run p) params worker '''') (\<lambda>(ws, i).
      catching (runStage (tracing_run p) params ws i) (spawnFailed (tracing_run p) params worker i) resolved)) ?P" for worker
  proof -
    let ?Q = "\<lambda>x r l. snd x \<noteq> '''' \<longrightarrow> ?P r l"
    have "logs (case x of (ws, i) \<Rightarrow> catching (runStage (tracing_run p) params ws i) (spawnFailed (tracing_run p) params worker i) resolved) (?Q x)" for x
      using running[of "fst x" "snd x" worker] by (simp add: case_prod_beta)
    then show ?thesis
    proof (rule logs_weaken[OF logs_catching[OF logs_prepare[OF ids] logs_failed[OF reclaimer]]], goal_cases)
      case (1 r l)
      then show ?case
      proof (elim exE conjE disjE)
        fix l1 l2 e m1 m2
        assume "l = l1 @ l2" "l1 = []" "l2 = m1 @ m2" "if '''' = '''' then m1 = [] else cleanup m1" "let_go r e (sw_workerId params) m2"
        then show ?thesis using abortedI[of r e params m2 "[]" "[]"] by auto
      qed auto
    qed
  qed
  let ?rest = "\<lambda>worker. andThen (announce (tracing_run p) params worker_idle worker_starting) (\<lambda>_.
      catching (prepareStage (tracing_run p) params) (spawnFailed (tracing_run p) params worker '''') (\<lambda>(ws, i).
      catching (runStage (tracing_run p) params ws i) (spawnFailed (tracing_run p) params worker i) resolved))"
  have rest: "logs (?rest worker) ?P" for worker
    by (rule logs_weaken[OF logs_andThen[OF logs_announce preparing]]) auto
  show ?thesis
  proof (cases "commit (createWorker params) (\<lambda>_. []) w")
    case (Pair c w1)
    show ?thesis
    proof (cases c)
      case (Inl e)
      have "w1 = w" using Pair Inl by (auto simp: commit_def writeTransaction_def split: prod.splits sum.splits)
      then show ?thesis using run Pair Inl by (simp add: spawnWorker_def andThen_def inTransaction_def)
    next
      case (Inr worker)
      then have "?rest worker ((g, []), w1) = (r, (g', log), w')"
        using run Pair by (simp add: spawnWorker_def andThen_def inTransaction_def)
      from logsD[OF rest this] show ?thesis using Pair Inr by (simp add: log_of_def)
    qed
  qed
qed

text \<open>What the outside answers during a run that nobody disturbs.\<close>

record runAnswers =
  ra_workspace :: "thrown + SupervisorWorkspaceResult"
  ra_mount :: "thrown + unit"
  ra_prepare :: "thrown + string"
  ra_start :: "thrown + unit"
  ra_events :: "SupervisorRunOutputStream list"
  ra_streamError :: "thrown option"
  ra_collect :: "thrown + unit"
  ra_finalize :: "thrown + SupervisorFinalizeResult"
  ra_cancel :: "thrown + bool"
  ra_persist :: "thrown + unit"

definition outside :: "('g \<Rightarrow> int) \<Rightarrow> (thrown \<Rightarrow> string) \<Rightarrow> runAnswers \<Rightarrow> 'g supervisorPorts" where
  "outside clock text a = \<lparr>su_clock = clock, su_errorText = text, su_createWorkspace = (\<lambda>_ _ _. Pair (ra_workspace a)),
     su_mountPackets = (\<lambda>_ _. Pair (ra_mount a)), su_runtimeName = ''copilot-cli'', su_prepareRun = (\<lambda>_. Pair (ra_prepare a)),
     su_startRun = (\<lambda>_. Pair (ra_start a)),
     su_streamRun = (\<lambda>_. map (\<lambda>e. Pair (Inr e)) (ra_events a) @ (case ra_streamError a of None \<Rightarrow> [] | Some e \<Rightarrow> [Pair (Inl e)])),
     su_cancelRun = (\<lambda>_. Pair (ra_cancel a)), su_collectArtifacts = (\<lambda>_. Pair (ra_collect a)), su_finalizeRun = (\<lambda>_. Pair (ra_finalize a)),
     su_forwardHeartbeat = (\<lambda>_ _ _. resolved ()), su_transitionLease = None, su_reclaimLease = None,
     su_persistRunLogs = Some (\<lambda>_ _. Pair (ra_persist a)), su_forwardOutput = Some (\<lambda>_ _. resolved ())\<rparr>"

definition quiet_answers :: runAnswers where
  "quiet_answers = \<lparr>ra_workspace = Inr \<lparr>ws_rootPath = ''/w'', ws_worktreePath = ''/w/tree'', ws_logsPath = ''/w/logs'',
       ws_outputsPath = ''/w/out'', ws_branchName = ''worker/T1'', ws_reused = False\<rparr>,
     ra_mount = Inr (), ra_prepare = Inr ''run-1'', ra_start = Inr (),
     ra_events = [\<lparr>ro_type = heartbeat, ro_content = '''', ro_timestamp = ''t''\<rparr>, \<lparr>ro_type = stdout, ro_content = ''x'', ro_timestamp = ''t''\<rparr>],
     ra_streamError = None, ra_collect = Inr (),
     ra_finalize = Inr \<lparr>fz_runId = ''run-1'', fz_status = success, fz_packetOutput = JNull, fz_artifactPaths = [], fz_logs = [],
       fz_exitCode = Some 0, fz_durationMs = 10, fz_finalizedAt = ''t''\<rparr>,
     ra_cancel = Inr True, ra_persist = Inr ()\<rparr>"

definition spawn_params :: SpawnWorkerParams where
  "spawn_params = \<lparr>sw_workerId = ''W1'', sw_poolId = ''P'', sw_workerName = ''copilot'', sw_taskId = ''T1'', sw_leaseId = ''L1'',
     sw_repoPath = ''/repo'', sw_attempt = Some 1, sw_runContext = \<lparr>rx_taskPacket = JNull, rx_effectivePolicySnapshot = JNull,
       rx_workspacePaths = JNull, rx_outputSchemaExpectation = JNull, rx_timeoutSettings = JNull, rx_customPrompt = None\<rparr>,
     sw_actor = \<lparr>actor_type = ''system'', actor_id = ''worker-dispatch''\<rparr>\<rparr>"

definition spawn_world :: world where
  "spawn_world = \<lparr>database = \<lparr>tasks = [\<lparr>t_taskId = ''T1'', t_repositoryId = ''R'', t_priority = TaskPriority.HIGH,
      t_status = TaskStatus.ASSIGNED, t_version = 4, t_currentLeaseId = Some ''L1'', t_currentReviewCycleId = None,
      t_mergeQueueItemId = None, t_retryCount = 0, t_reviewRoundCount = 0, t_requiredCapabilities = None, t_createdAt = 0,
      t_updatedAt = 0, t_completedAt = None\<rparr>],
    taskLeases = [\<lparr>l_leaseId = ''L1'', l_taskId = ''T1'', l_workerId = ''W1'', l_poolId = ''P'', l_leasedAt = 0, l_expiresAt = 900,
      l_heartbeatAt = None, l_status = WorkerLeaseStatus.LEASED, l_reclaimReason = None, l_partialResultArtifactRefs = None\<rparr>],
    reviewCycles = [], mergeQueueItems = [], taskDependencies = [],
    workerPools = [\<lparr>p_workerPoolId = ''P'', p_poolType = WorkerPoolType.DEVELOPER, p_maxConcurrency = 3,
      p_defaultTimeoutSec = None, p_capabilities = None, p_enabled = 1\<rparr>],
    jobs = [], auditEvents = [], reviewPackets = [], leadReviewDecisions = [], workers = []\<rparr>, emitted = []\<rparr>"

definition quiet_ports :: "unit supervisorPorts" where
  "quiet_ports = (outside (\<lambda>_. 5000) (\<lambda>_. ''error'') quiet_answers)\<lparr>su_reclaimLease := Some (\<lambda>_ _. resolved ())\<rparr>"

theorem supervisor_protocol_witness:
  "\<exists>res g w. spawnWorker (tracing_run quiet_ports) spawn_params (((), []), spawn_world)
     = (Inr res, (g, [StartTried True, Beat False, Finalized success, Beat True]), w)
     \<and> [StartTried True, Beat False, Finalized success, Beat True] = run_calls res"
proof -
  have "case spawnWorker (tracing_run quiet_ports) spawn_params (((), []), spawn_world) of
      (Inr res, (g, log), w) \<Rightarrow> log = [StartTried True, Beat False, Finalized success, Beat True] | _ \<Rightarrow> False" by code_simp
  then obtain res g w where run: "spawnWorker (tracing_run quiet_ports) spawn_params (((), []), spawn_world)
      = (Inr res, (g, [StartTried True, Beat False, Finalized success, Beat True]), w)"
    by (auto split: prod.splits sum.splits)
  have "su_reclaimLease quiet_ports \<noteq> None" "\<forall>c s i s'. su_prepareRun quiet_ports c s = (Inr i, s') \<longrightarrow> i \<noteq> ''''"
    by (simp_all add: quiet_ports_def outside_def quiet_answers_def)
  from supervisor_protocol[OF this run] run show ?thesis by (auto split: sum.splits)
qed

end
