(* ===== verification/Automation.thy ===== *)
theory Automation
  imports Supervisor Reclaim Readiness SchedulerTick
begin

text \<open>
  The automation of the control plane (\<open>apps/control-plane/src/automation/automation.service.ts\<close>): the services put
  together.  \<open>worker-dispatch.service.ts\<close> takes the dispatch jobs the scheduler creates from the job queue and
  has the supervisor run a worker for each, wired to the real heartbeat, transition and reclaim services; what
  follows from the result, the reconciliation of readiness and the polling cycle are here too.

  The outside of the supervisor, git, files and the agent's process, stays a port.  The state of the outside
  counts the draws of clock readings and UUIDs, \<open>envs\<close> numbers them.
\<close>

subsection \<open>The wiring\<close>

definition AUTOMATION_ACTOR :: ActorInfo where
  "AUTOMATION_ACTOR = \<lparr>actor_type = ''system'', actor_id = ''automation-runtime''\<rparr>"

definition SUPERVISOR_ACTOR :: ActorInfo where
  "SUPERVISOR_ACTOR = \<lparr>actor_type = ''system'', actor_id = ''worker-supervisor''\<rparr>"

definition DISPATCH_ACTOR :: ActorInfo where
  "DISPATCH_ACTOR = \<lparr>actor_type = ''system'', actor_id = ''worker-dispatch''\<rparr>"

definition DEFAULT_DISPATCH_LEASE_OWNER :: string where
  "DEFAULT_DISPATCH_LEASE_OWNER = ''worker-dispatch''"

definition tx_env :: "reclaimEnv \<Rightarrow> txEnv" where
  "tx_env e = \<lparr>env_now = re_now e, env_uuid = re_uuid e, env_emittedAt = re_leaseEventAt e\<rparr>"

text \<open>A call of a service with the next draw.\<close>

definition calling :: "(nat \<Rightarrow> reclaimEnv) \<Rightarrow> (reclaimEnv \<Rightarrow> world \<Rightarrow> (app_error + 'a) \<times> world) \<Rightarrow> (nat \<times> 'o, 'a) step" where
  "calling envs call = (\<lambda>((k, g), w). let (r, w') = call (envs k) w in (map_sum AppThrown id r, (Suc k, g), w'))"

text \<open>\<open>heartbeat-forwarder-adapter.ts\<close>: a heartbeat that is refused is only logged.\<close>

definition heartbeatForwarder :: "(nat \<Rightarrow> reclaimEnv) \<Rightarrow> string \<Rightarrow> string \<Rightarrow> bool \<Rightarrow> (nat \<times> 'o, unit) step" where
  "heartbeatForwarder envs leaseId workerId isTerminal =
    bestEffort (calling envs (\<lambda>e. receiveHeartbeat (tx_env e)
      \<lparr>hb_leaseId = leaseId, hb_completing = isTerminal, hb_gracePeriodSeconds = None, hb_workerMetadata = None,
       hb_actor = SUPERVISOR_ACTOR\<rparr>))"

definition leaseTransitioner ::
  "(nat \<Rightarrow> reclaimEnv) \<Rightarrow> string \<Rightarrow> WorkerLeaseStatus \<Rightarrow> WorkerLeaseTransitionContext \<Rightarrow> (nat \<times> 'o, unit) step" where
  "leaseTransitioner envs leaseId targetStatus context =
    andThen (calling envs (\<lambda>e. transitionLease (tx_env e) leaseId targetStatus context AUTOMATION_ACTOR None)) (\<lambda>_. resolved ())"

definition reclaimParams :: "string \<Rightarrow> json \<Rightarrow> ReclaimLeaseParams" where
  "reclaimParams leaseId metadata = \<lparr>rp_leaseId = leaseId, rp_reason = worker_crashed, rp_retryPolicy = DEFAULT_RETRY_POLICY,
     rp_escalationPolicy = DEFAULT_ESCALATION_POLICY, rp_hasFailureSummary = None, rp_actor = AUTOMATION_ACTOR,
     rp_metadata = Some metadata\<rparr>"

definition leaseReclaimer :: "(nat \<Rightarrow> reclaimEnv) \<Rightarrow> string \<Rightarrow> json \<Rightarrow> (nat \<times> 'o, unit) step" where
  "leaseReclaimer envs leaseId metadata =
    andThen (calling envs (\<lambda>e. reclaimLease e (reclaimParams leaseId metadata))) (\<lambda>_. resolved ())"

definition wired :: "(nat \<Rightarrow> reclaimEnv) \<Rightarrow> (nat \<times> 'o) supervisorPorts \<Rightarrow> (nat \<times> 'o) supervisorPorts" where
  "wired envs infrastructure = infrastructure\<lparr>su_forwardHeartbeat := heartbeatForwarder envs,
     su_transitionLease := Some (leaseTransitioner envs), su_reclaimLease := Some (leaseReclaimer envs)\<rparr>"

subsection \<open>Dispatch\<close>

record DispatchPayload =
  dp_taskId :: string
  dp_leaseId :: string
  dp_poolId :: string
  dp_workerId :: string

text \<open>
  The payload as the scheduler writes it; the other two fields are not read.  The code casts; reading a field of
  \<open>null\<close> throws, and any other payload without the four texts is treated like that here.
\<close>

definition payloadText :: "json option \<Rightarrow> string \<Rightarrow> string option" where
  "payloadText payload field = (case payload of
     Some (JObj entries) \<Rightarrow> (case map_of entries field of Some (JStr s) \<Rightarrow> Some s | _ \<Rightarrow> None)
   | _ \<Rightarrow> None)"

definition readPayload :: "json option \<Rightarrow> DispatchPayload option" where
  "readPayload payload =
    (case (payloadText payload ''taskId'', payloadText payload ''leaseId'', payloadText payload ''poolId'', payloadText payload ''workerId'') of
       (Some t, Some l, Some p, Some w) \<Rightarrow> Some \<lparr>dp_taskId = t, dp_leaseId = l, dp_poolId = p, dp_workerId = w\<rparr>
     | _ \<Rightarrow> None)"

record WorkerSpawnContext =
  sx_repoPath :: string
  sx_workerName :: string
  sx_runContext :: SupervisorRunContext

datatype DispatchFailure = context_resolution_failed | spawn_failed

datatype ProcessDispatchResult =
    DispatchSuccess string string string string SpawnWorkerResult
  | DispatchFailed string string DispatchFailure string
  | DispatchSkipped

definition queueCall :: "(nat \<Rightarrow> reclaimEnv) \<Rightarrow> (reclaimEnv \<Rightarrow> 'a tx) \<Rightarrow> (nat \<times> 'o, 'a) step" where
  "queueCall envs f = calling envs (\<lambda>e. onDatabase (f e))"

definition spawnParams :: "DispatchPayload \<Rightarrow> Job \<Rightarrow> WorkerSpawnContext \<Rightarrow> SpawnWorkerParams" where
  "spawnParams payload job spawnContext = \<lparr>sw_workerId = dp_workerId payload, sw_poolId = dp_poolId payload,
     sw_workerName = sx_workerName spawnContext, sw_taskId = dp_taskId payload, sw_leaseId = dp_leaseId payload,
     sw_repoPath = sx_repoPath spawnContext, sw_attempt = Some (j_attemptCount job), sw_runContext = sx_runContext spawnContext,
     sw_actor = DISPATCH_ACTOR\<rparr>"

definition contextMessage :: "string \<Rightarrow> string" where
  "contextMessage taskId = ''Task '' @ taskId @ '' not found or missing required context for dispatch''"

definition processDispatch ::
  "(nat \<Rightarrow> reclaimEnv) \<Rightarrow> (nat \<times> 'o) supervisorPorts \<Rightarrow> (string \<Rightarrow> string \<Rightarrow> WorkerSpawnContext option tx) \<Rightarrow> string option
    \<Rightarrow> (nat \<times> 'o, ProcessDispatchResult) step" where
  "processDispatch envs ports resolveSpawnContext leaseOwner =
    andThen (queueCall envs (\<lambda>e. claimJob (re_now e) (re_leaseEventAt e) JobType.WORKER_DISPATCH
      (case leaseOwner of None \<Rightarrow> DEFAULT_DISPATCH_LEASE_OWNER | Some s \<Rightarrow> s))) (\<lambda>claimed. case claimed of
      None \<Rightarrow> resolved DispatchSkipped
    | Some job \<Rightarrow>
        let jobId = j_jobId job; fail = queueCall envs (\<lambda>e. failJob (re_now e) jobId) in
        case readPayload (j_payloadJson job) of
          None \<Rightarrow> andThen fail (\<lambda>_ s. (Inl (Thrown ''payload''), s))
        | Some payload \<Rightarrow>
            catching (andThen (inTransaction (resolveSpawnContext (dp_taskId payload) (dp_poolId payload))) (\<lambda>found. case found of
                None \<Rightarrow> andThen fail (\<lambda>_. resolved (DispatchFailed jobId (dp_taskId payload) context_resolution_failed
                  (contextMessage (dp_taskId payload))))
              | Some spawnContext \<Rightarrow>
                  andThen (spawnWorker ports (spawnParams payload job spawnContext)) (\<lambda>spawnResult.
                  andThen (queueCall envs (\<lambda>e. completeJob (re_now e) jobId)) (\<lambda>_.
                  resolved (DispatchSuccess jobId (dp_taskId payload) (dp_workerId payload) (dp_leaseId payload) spawnResult)))))
              (\<lambda>error. andThen fail (\<lambda>_. resolved (DispatchFailed jobId (dp_taskId payload) spawn_failed (su_errorText ports error))))
              resolved)"

subsection \<open>After a dispatch\<close>

text \<open>The errors that a race with another service explains.\<close>

definition isRace :: "app_error \<Rightarrow> bool" where
  "isRace e \<longleftrightarrow> (case e of InvalidTransitionError _ _ _ _ _ \<Rightarrow> True | VersionConflictError _ _ _ \<Rightarrow> True
     | EntityNotFoundError _ _ \<Rightarrow> True | _ \<Rightarrow> False)"

definition triggered :: "(string \<times> json) list \<Rightarrow> json option" where
  "triggered entries = Some (JObj entries)"

definition processSuccessfulWorkerResult :: "txEnv \<Rightarrow> txEnv \<Rightarrow> string \<Rightarrow> world \<Rightarrow> world" where
  "processSuccessfulWorkerResult env1 env2 taskId w =
    (let metadata = triggered [(''triggeredBy'', JStr ''worker-result-processing'')];
         finish = (\<lambda>w1. snd (transitionTask env2 taskId TaskStatus.DEV_COMPLETE
           (emptyContext\<lparr>hasDevResultPacket := Some True, requiredValidationsPassed := Some True\<rparr>) AUTOMATION_ACTOR metadata w1)) in
     case transitionTask env1 taskId TaskStatus.IN_DEVELOPMENT (emptyContext\<lparr>hasHeartbeat := Some True\<rparr>) AUTOMATION_ACTOR metadata w of
       (Inr _, w1) \<Rightarrow> finish w1
     | (Inl error, w1) \<Rightarrow> if isRace error then finish w1 else w1)"

text \<open>One dispatch of the production line, with what follows from its result.\<close>

definition processWorkerDispatches ::
  "(nat \<Rightarrow> reclaimEnv) \<Rightarrow> (nat \<times> 'o) supervisorPorts \<Rightarrow> (string \<Rightarrow> string \<Rightarrow> WorkerSpawnContext option tx)
    \<Rightarrow> (nat \<times> 'o) \<times> world \<Rightarrow> (nat \<times> 'o) \<times> world" where
  "processWorkerDispatches envs ports resolveSpawnContext s =
    (case processDispatch envs ports resolveSpawnContext None s of
       (Inr (DispatchSuccess _ taskId _ _ spawnResult), (k, g), w) \<Rightarrow>
         if succeeded (sr_finalizeResult spawnResult)
         then ((k + 2, g), processSuccessfulWorkerResult (tx_env (envs k)) (tx_env (envs (k + 1))) taskId w)
         else ((k, g), w)
     | (_, s') \<Rightarrow> s')"

subsection \<open>Reconciliation of readiness and the cycle\<close>

record ReadinessReconciliationResult =
  rk_evaluatedCount :: nat
  rk_transitionedToReady :: nat
  rk_transitionedToBlocked :: nat

definition tryTransitionTask ::
  "txEnv \<Rightarrow> string \<Rightarrow> TaskStatus \<Rightarrow> TransitionContext \<Rightarrow> string \<Rightarrow> world \<Rightarrow> (app_error + bool) \<times> world" where
  "tryTransitionTask env taskId targetStatus context readinessStatus w =
    (case transitionTask env taskId targetStatus context AUTOMATION_ACTOR
        (triggered [(''triggeredBy'', JStr ''automation-runtime''), (''readinessStatus'', JStr readinessStatus)]) w of
       (Inr _, w') \<Rightarrow> (Inr True, w')
     | (Inl error, w') \<Rightarrow> if isRace error then (Inr False, w') else (Inl error, w'))"

fun reconcileLoop :: "(string \<Rightarrow> txEnv) \<Rightarrow> Task list \<Rightarrow> nat \<Rightarrow> nat \<Rightarrow> world \<Rightarrow> (app_error + nat \<times> nat) \<times> world" where
  "reconcileLoop env [] transitionedToReady transitionedToBlocked w = (Inr (transitionedToReady, transitionedToBlocked), w)"
| "reconcileLoop env (task # candidates) transitionedToReady transitionedToBlocked w =
    (case computeReadiness (t_taskId task) (database w) of
       Inl error \<Rightarrow> (Inl error, w)
     | Inr (ReadinessResultReady _) \<Rightarrow>
         if t_status task = TaskStatus.BACKLOG \<or> t_status task = TaskStatus.BLOCKED then
           case tryTransitionTask (env (t_taskId task)) (t_taskId task) TaskStatus.READY ready_context ''READY'' w of
             (Inl error, w') \<Rightarrow> (Inl error, w')
           | (Inr moved, w') \<Rightarrow>
               reconcileLoop env candidates (if moved then transitionedToReady + 1 else transitionedToReady) transitionedToBlocked w'
         else reconcileLoop env candidates transitionedToReady transitionedToBlocked w
     | Inr (ReadinessResultBlocked _ _) \<Rightarrow>
         if t_status task = TaskStatus.BACKLOG then
           case tryTransitionTask (env (t_taskId task)) (t_taskId task) TaskStatus.BLOCKED
               (emptyContext\<lparr>hasBlockers := Some True\<rparr>) ''BLOCKED'' w of
             (Inl error, w') \<Rightarrow> (Inl error, w')
           | (Inr moved, w') \<Rightarrow>
               reconcileLoop env candidates transitionedToReady (if moved then transitionedToBlocked + 1 else transitionedToBlocked) w'
         else reconcileLoop env candidates transitionedToReady transitionedToBlocked w)"

definition reconcileTaskReadiness :: "(string \<Rightarrow> txEnv) \<Rightarrow> world \<Rightarrow> (app_error + ReadinessReconciliationResult) \<times> world" where
  "reconcileTaskReadiness env w =
    (let candidates = task_findByStatus TaskStatus.BACKLOG (database w) @ task_findByStatus TaskStatus.BLOCKED (database w) in
     case reconcileLoop env candidates 0 0 w of
       (Inl error, w') \<Rightarrow> (Inl error, w')
     | (Inr (toReady, toBlocked), w') \<Rightarrow>
         (Inr \<lparr>rk_evaluatedCount = length candidates, rk_transitionedToReady = toReady, rk_transitionedToBlocked = toBlocked\<rparr>, w'))"

text \<open>
  The synchronous part of a cycle; the dispatch it starts runs on its own.  Errors are logged.  The missing value
  means that the loop of the scheduler tick does not return.
\<close>

definition runCycle :: "(string \<Rightarrow> txEnv) \<Rightarrow> tickEnv \<Rightarrow> bool \<Rightarrow> world \<Rightarrow> (bool \<times> world) option" where
  "runCycle env tick paused w =
    (if paused then Some (False, w)
     else case reconcileTaskReadiness env w of
       (Inl _, w1) \<Rightarrow> Some (False, w1)
     | (Inr _, w1) \<Rightarrow>
         (case processTick tick \<lparr>tc_tickIntervalMs = Some 1000, tc_candidateLimit = None, tc_leaseOwner = None\<rparr> w1 of
            None \<Rightarrow> None
          | Some (Inl _, w2) \<Rightarrow> Some (False, w2)
          | Some (Inr _, w2) \<Rightarrow> Some (True, w2)))"

subsection \<open>A supervised run over the real services\<close>

text \<open>The services of leases leave workers and jobs alone and add at most their own audit key.\<close>

definition quiet :: "string \<Rightarrow> db \<Rightarrow> db \<Rightarrow> bool" where
  "quiet key d0 d \<longleftrightarrow> workers d = workers d0 \<and> jobs d = jobs d0
     \<and> set (map ae_id (auditEvents d)) \<subseteq> insert key (set (map ae_id (auditEvents d0)))"

lemma quiet_audit [preserves_intro]: "preserves (quiet key d0) (auditEvent_create key now ev)"
  by (auto simp: preserves_def quiet_def auditEvent_create_def Let_def)

lemma quiet_other:
  assumes "\<And>d. workers (snd (m d)) = workers d \<and> jobs (snd (m d)) = jobs d \<and> auditEvents (snd (m d)) = auditEvents d"
  shows "preserves (quiet key d0) m"
  using assms by (simp add: preserves_def quiet_def)

lemma quiet_preserved [preserves_intro]:
  "preserves (quiet key d0) (updateHeartbeat li st s now x)"
  "preserves (quiet key d0) (lease_updateStatus li st s)"
  "preserves (quiet key d0) (updateStatusWithReason li st s why)"
  "preserves (quiet key d0) (updateStatusAndRetryCount now i v q n)"
  by (rule quiet_other; simp add: task_update_def updateStatusWithReason_def updateHeartbeat_def
      lease_updateStatus_def updateStatusAndRetryCount_def lease_checkedUpdate_def lease_update_def bindT_apply Let_def
      split: option.split)+

lemma quiet_refl: "quiet key d d"
  by (auto simp: quiet_def)

lemma quiet_services:
  "quiet (env_uuid env) (database w) (database (snd (receiveHeartbeat env hb w)))"
  "quiet (env_uuid env) (database w) (database (snd (transitionLease env i s ctx actor m w)))"
  "quiet (re_uuid renv) (database w) (database (snd (reclaimLease renv p w)))"
  unfolding receiveHeartbeat_def transitionLease_def reclaimLease_def snd_apfst receiveHeartbeat_tx_def reclaimLease_tx_def
  by (intro commit_preserves[where P = "quiet (env_uuid env) (database w)"] commit_preserves[where P = "quiet (re_uuid renv) (database w)"]
      preserves_intro quiet_refl)+

text \<open>
  A run in the middle: its lease \<open>l\<close>, its task \<open>t\<close> and its worker are there, everything else is as it was,
  and the draws to come are new.
\<close>

definition stage :: "(nat \<Rightarrow> reclaimEnv) \<Rightarrow> db \<Rightarrow> SpawnWorkerParams \<Rightarrow> nat \<Rightarrow> TaskLease \<Rightarrow> Task \<Rightarrow> db \<Rightarrow> bool" where
  "stage envs d0 params k l t d \<longleftrightarrow> wf_db d \<and> lease_findById (sw_leaseId params) d = Some l \<and> l_taskId l = sw_taskId params
     \<and> task_findById (sw_taskId params) d = Some t \<and> sw_workerId params \<in> set (map w_workerId (workers d))
     \<and> (\<forall>n \<ge> k. re_uuid (envs n) \<notin> set (map ae_id (auditEvents d))) \<and> jobs d = jobs d0
     \<and> (\<forall>j. j \<noteq> sw_leaseId params \<longrightarrow> lease_findById j d = lease_findById j d0)
     \<and> (\<forall>j. j \<noteq> sw_taskId params \<longrightarrow> task_findById j d = task_findById j d0)"

lemma stage_later:
  assumes "stage envs d0 params k l t d" and "inj (re_uuid \<circ> envs)" and "quiet (re_uuid (envs k)) d (database w')"
    and "wf_db (database w')" and "lease_findById (sw_leaseId params) (database w') = Some l'" and "l_taskId l' = l_taskId l"
    and "task_findById (sw_taskId params) (database w') = Some t'"
    and "\<forall>j. j \<noteq> sw_leaseId params \<longrightarrow> lease_findById j (database w') = lease_findById j d"
    and "\<forall>j. j \<noteq> sw_taskId params \<longrightarrow> task_findById j (database w') = task_findById j d"
  shows "stage envs d0 params (Suc k) l' t' (database w')"
proof -
  have "re_uuid (envs n) \<noteq> re_uuid (envs k)" if "n \<ge> Suc k" for n
    using that injD[OF assms(2), of n k] by auto
  then have "\<forall>n \<ge> Suc k. re_uuid (envs n) \<notin> set (map ae_id (auditEvents (database w')))"
    using assms(1,3) unfolding stage_def quiet_def by (metis Suc_leD insertE subsetD)
  with assms show ?thesis by (simp add: stage_def quiet_def)
qed

lemma stage_skip: "stage envs d0 params k l t d \<Longrightarrow> stage envs d0 params (Suc k) l t d"
  by (auto simp: stage_def)

lemma stage_worker:
  assumes "stage envs d0 params k l t (database w)" and "\<And>r. w_workerId (f r) = w_workerId r"
  shows "\<exists>r w'. inTransaction (worker_update (sw_workerId params) f) ((k, g), w) = (Inr (f r), (k, g), w')
    \<and> stage envs d0 params k l t (database w') \<and> worker_findById (sw_workerId params) (database w') = Some (f r)"
proof -
  let ?d = "database w" and ?i = "sw_workerId params"
  let ?d' = "?d\<lparr>workers := update_where (\<lambda>r. w_workerId r = ?i) f (workers ?d)\<rparr>"
  have "?i \<in> set (map w_workerId (workers ?d))" using assms(1) by (simp add: stage_def)
  then have "worker_findById ?i ?d \<noteq> None" by (auto simp: worker_findById_def find_None_iff)
  then obtain r where r: "worker_findById ?i ?d = Some r" by auto
  have ids: "map w_workerId (workers ?d') = map w_workerId (workers ?d)"
    using map_update_where_same[where g = w_workerId and f = f] assms(2) by simp
  have wf: "wf_db ?d" using assms(1) by (simp add: stage_def)
  then have "wf_db ?d'" using ids by (simp add: wf_db_def)
  then have "stage envs d0 params k l t ?d'"
    using assms(1) ids unfolding stage_def by (simp add: lease_findById_def task_findById_def)
  moreover have "worker_findById ?i ?d' = Some (f r)"
    using r assms(2) by (simp add: worker_findById_def find_update_where_key)
  ultimately show ?thesis using r
    by (intro exI[of _ r] exI[of _ "w\<lparr>database := ?d'\<rparr>"])
      (simp add: inTransaction_def commit_def writeTransaction_def worker_update_def Let_def)
qed

lemma announce_apply: "\<exists>e. announce ports params x y (s, w) = (Inr (), s, w\<lparr>emitted := emitted w @ [e]\<rparr>)"
  by (auto simp: announce_def)

abbreviation worked_on :: "WorkerLeaseStatus set" where
  "worked_on \<equiv> {WorkerLeaseStatus.STARTING, WorkerLeaseStatus.RUNNING, WorkerLeaseStatus.HEARTBEATING}"

lemma stage_heartbeat:
  assumes s: "stage envs d0 params k l t (database w)" and inj: "inj (re_uuid \<circ> envs)" and active: "l_status l \<in> worked_on"
  shows "\<exists>l' w'. heartbeatForwarder envs (sw_leaseId params) i terminal ((k, g), w) = (Inr (), (Suc k, g), w')
    \<and> stage envs d0 params (Suc k) l' t (database w') \<and> l_status l' = computeTargetStatus (l_status l) terminal"
proof -
  let ?p = "\<lparr>hb_leaseId = sw_leaseId params, hb_completing = terminal, hb_gracePeriodSeconds = None, hb_workerMetadata = None,
       hb_actor = SUPERVISOR_ACTOR\<rparr>" and ?e = "tx_env (envs k)"
  obtain r w' where run: "receiveHeartbeat ?e ?p w = (r, w')" by (cases "receiveHeartbeat ?e ?p w")
  have wf: "wf_db (database w)" and l: "lease_findById (sw_leaseId params) (database w) = Some l"
    and t: "task_findById (sw_taskId params) (database w) = Some t"
    and fresh: "env_uuid ?e \<notin> set (map ae_id (auditEvents (database w)))"
    using s by (simp_all add: stage_def tx_env_def)
  have q: "quiet (re_uuid (envs k)) (database w) (database w')"
    using quiet_services(1)[of ?e w ?p] run by (simp add: tx_env_def)
  have "\<exists>lease. lease_findById (sw_leaseId params) (database w') = Some lease
    \<and> (\<forall>j. j \<noteq> sw_leaseId params \<longrightarrow> lease_findById j (database w') = lease_findById j (database w))
    \<and> l_status lease = computeTargetStatus (l_status l) terminal \<and> l_taskId lease = l_taskId l
    \<and> tasks (database w') = tasks (database w) \<and> wf_db (database w')"
    by (rule receiveHeartbeat_tx_cases[OF wf, of ?e ?p])
      (use l fresh active run in \<open>auto simp: HEARTBEAT_RECEIVABLE_STATES_def receiveHeartbeat_def commit_def writeTransaction_def\<close>)
  then obtain lease where lease: "lease_findById (sw_leaseId params) (database w') = Some lease"
    "\<forall>j. j \<noteq> sw_leaseId params \<longrightarrow> lease_findById j (database w') = lease_findById j (database w)"
    "l_status lease = computeTargetStatus (l_status l) terminal" "l_taskId lease = l_taskId l"
    "tasks (database w') = tasks (database w)" "wf_db (database w')" by blast
  have "stage envs d0 params (Suc k) lease t (database w')"
    by (rule stage_later[OF s inj q lease(6,1,4)]) (use t lease(2,5) in \<open>simp_all add: task_findById_def\<close>)
  then show ?thesis using run lease(3) by (auto simp: heartbeatForwarder_def calling_def bestEffort_def)
qed

lemma stage_start:
  assumes s: "stage envs d0 params k l t (database w)" and inj: "inj (re_uuid \<circ> envs)" and leased: "l_status l = WorkerLeaseStatus.LEASED"
  shows "\<exists>l' w'. leaseTransitioner envs (sw_leaseId params) WorkerLeaseStatus.STARTING
      (emptyWorkerLeaseTransitionContext\<lparr>workerProcessSpawned := Some True\<rparr>) ((k, g), w) = (Inr (), (Suc k, g), w')
    \<and> stage envs d0 params (Suc k) l' t (database w') \<and> l_status l' = WorkerLeaseStatus.STARTING"
proof -
  let ?i = "sw_leaseId params" and ?e = "tx_env (envs k)" and ?d = "database w"
    and ?ctx = "emptyWorkerLeaseTransitionContext\<lparr>workerProcessSpawned := Some True\<rparr>"
  have wf: "wf_db ?d" and l: "lease_findById ?i ?d = Some l" and t: "task_findById (sw_taskId params) ?d = Some t"
    and fresh: "env_uuid ?e \<notin> set (map ae_id (auditEvents ?d))"
    using s by (simp_all add: stage_def tx_env_def)
  have ok: "valid (validateWorkerLeaseTransition (l_status l) WorkerLeaseStatus.STARTING ?ctx)" by (simp add: lease_accepted_iff leased)
  obtain r w' where run: "transitionLease ?e ?i WorkerLeaseStatus.STARTING ?ctx AUTOMATION_ACTOR None w = (r, w')"
    by (cases "transitionLease ?e ?i WorkerLeaseStatus.STARTING ?ctx AUTOMATION_ACTOR None w")
  have q: "quiet (re_uuid (envs k)) ?d (database w')"
    using quiet_services(2)[of ?e w ?i WorkerLeaseStatus.STARTING ?ctx AUTOMATION_ACTOR None] run by (simp add: tx_env_def)
  obtain d1 where d1: "lease_checkedUpdate ?i (l_status l) (\<lambda>r. r\<lparr>l_status := WorkerLeaseStatus.STARTING\<rparr>) ?d
      = (Inr (l\<lparr>l_status := WorkerLeaseStatus.STARTING\<rparr>), d1)"
    "d1 = ?d\<lparr>taskLeases := update_where (\<lambda>r. l_leaseId r = ?i) (\<lambda>r. r\<lparr>l_status := WorkerLeaseStatus.STARTING\<rparr>) (taskLeases ?d)\<rparr>"
    "lease_findById ?i d1 = Some (l\<lparr>l_status := WorkerLeaseStatus.STARTING\<rparr>)"
    "\<forall>j. j \<noteq> ?i \<longrightarrow> lease_findById j d1 = lease_findById j ?d" "wf_db d1"
    by (rule lease_checkedUpdate_current[OF wf l, of "\<lambda>r. r\<lparr>l_status := WorkerLeaseStatus.STARTING\<rparr>"]) auto
  have new: "env_uuid ?e \<notin> set (map ae_id (auditEvents d1))" using fresh d1(2) by simp
  have "\<exists>v a. r = Inr v \<and> database w' = d1\<lparr>auditEvents := auditEvents d1 @ [a]\<rparr> \<and> wf_db (database w')"
    using run l ok d1(1) audit_fresh[OF new] wf_db_audit[OF d1(5), of "audit_row (env_uuid ?e) _ _"] new
    by (auto simp: transitionLease_def commit_def writeTransaction_def bindT_apply lease_updateStatus_def Let_def)
  then obtain v a where w': "r = Inr v" "database w' = d1\<lparr>auditEvents := auditEvents d1 @ [a]\<rparr>" "wf_db (database w')" by blast
  have "stage envs d0 params (Suc k) (l\<lparr>l_status := WorkerLeaseStatus.STARTING\<rparr>) t (database w')"
    by (rule stage_later[OF s inj q w'(3)]) (use t d1 w'(2) in \<open>simp_all add: task_findById_def lease_findById_def\<close>)
  then show ?thesis using run w'(1) by (auto simp: leaseTransitioner_def andThen_def calling_def)
qed

text \<open>With the policies of the automation a reclaim escalates the task; a lease that never started is not reclaimed.\<close>

lemma crash_outcome:
  "reclaimed_lease (reclaimParams li m) l = l\<lparr>l_status := WorkerLeaseStatus.CRASHED, l_reclaimReason := Some ''worker_crashed''\<rparr>"
  "t_status t = TaskStatus.ASSIGNED \<Longrightarrow> t_status (reclaimed_task e (reclaimParams li m) t) = TaskStatus.ESCALATED"
  using default_reclaim_escalates[of t] evaluateTaskOutcome_cases[of t DEFAULT_RETRY_POLICY False DEFAULT_ESCALATION_POLICY]
  by (auto simp: reclaimed_lease_def reclaimParams_def determineLeaseTargetState_def reclaimed_task_def reclaim_outcome_def
      RECLAIM_ELIGIBLE_TASK_STATES_def createDefaultRetryPolicy_def createDefaultEscalationPolicy_def split: if_splits)

lemma stage_reclaim:
  assumes s: "stage envs d0 params k l t (database w)" and inj: "inj (re_uuid \<circ> envs)" and task: "t_status t = TaskStatus.ASSIGNED"
  shows "\<exists>l' t' w'. bestEffort (leaseReclaimer envs (sw_leaseId params) m) ((k, g), w) = (Inr (), (Suc k, g), w')
    \<and> stage envs d0 params (Suc k) l' t' (database w') \<and> worker_findById i (database w') = worker_findById i (database w)
    \<and> (if l_status l \<in> worked_on then l_status l' = WorkerLeaseStatus.CRASHED \<and> t_status t' = TaskStatus.ESCALATED
       else l' = l \<and> t' = t)"
proof -
  let ?p = "reclaimParams (sw_leaseId params) m" and ?e = "envs k" and ?d = "database w"
  have wf: "wf_db ?d" and l: "lease_findById (sw_leaseId params) ?d = Some l" and t: "task_findById (sw_taskId params) ?d = Some t"
    and tl: "l_taskId l = sw_taskId params" and fresh: "re_uuid ?e \<notin> set (map ae_id (auditEvents ?d))"
    using s by (simp_all add: stage_def)
  have id: "rp_leaseId ?p = sw_leaseId params" by (simp add: reclaimParams_def)
  obtain r w' where run: "reclaimLease ?e ?p w = (r, w')" by (cases "reclaimLease ?e ?p w")
  have q: "quiet (re_uuid ?e) ?d (database w')" using quiet_services(3)[of ?e w ?p] run by simp
  note spec = reclaim_lease_spec[OF wf, of ?p ?e, unfolded run prod.case]
  have rows: "worker_findById i (database w') = worker_findById i ?d" using q by (simp add: quiet_def worker_findById_def)
  have call: "bestEffort (leaseReclaimer envs (sw_leaseId params) m) ((k, g), w) = (Inr (), (Suc k, g), w')"
    using run by (cases r) (simp_all add: bestEffort_def leaseReclaimer_def andThen_def calling_def resolved_def)
  show ?thesis
  proof (cases "l_status l \<in> worked_on")
    case True
    have ok: "reclaimable ?p l t ?d" using l t tl True id by (simp add: reclaimable_def)
    then obtain v where v: "r = Inr v" using spec fresh by (cases r) auto
    have lt: "l0 = l \<and> t0 = t" if "reclaimable ?p l0 t0 ?d" for l0 t0 using that l t tl id by (auto simp: reclaimable_def)
    from spec[unfolded v sum.case] obtain l0 t0 where r0: "reclaimable ?p l0 t0 ?d" "rr_lease v = reclaimed_lease ?p l0"
      "rr_task v = reclaimed_task ?e ?p t0" "lease_findById (rp_leaseId ?p) (database w') = Some (rr_lease v)"
      "\<forall>j. j \<noteq> rp_leaseId ?p \<longrightarrow> lease_findById j (database w') = lease_findById j ?d"
      "task_findById (l_taskId l0) (database w') = Some (rr_task v)"
      "\<forall>j. j \<noteq> l_taskId l0 \<longrightarrow> task_findById j (database w') = task_findById j ?d" "wf_db (database w')" by blast
    note r = r0[unfolded id] and [simp] = lt[OF r0(1), THEN conjunct1] lt[OF r0(1), THEN conjunct2]
    have "stage envs d0 params (Suc k) (rr_lease v) (rr_task v) (database w')"
      by (rule stage_later[OF s inj q r(8,4)]) (use r(2,5,6,7) tl in \<open>simp_all add: crash_outcome\<close>)
    then show ?thesis using call True r(2,3) rows crash_outcome(2)[OF task, of ?e]
      by (intro exI[of _ "rr_lease v"] exI[of _ "rr_task v"] exI[of _ w']) (simp add: crash_outcome(1))
  next
    case False
    then have "\<nexists>l0 t0. reclaimable ?p l0 t0 ?d" using l id by (auto simp: reclaimable_def)
    then have "w' = w" using spec by (cases r) auto
    then show ?thesis using call False stage_skip[OF s] by auto
  qed
qed

subsection \<open>Undisturbed runs\<close>

text \<open>How such a run ends: it never starts, it breaks off, or the runtime reports a result.\<close>

datatype verdict = NeverStarted thrown | BrokeOff thrown | Ended SupervisorFinalizeResult

definition run_verdict :: "runAnswers \<Rightarrow> verdict" where
  "run_verdict a =
    (case ra_workspace a of Inl e \<Rightarrow> NeverStarted e | Inr _ \<Rightarrow>
     case ra_mount a of Inl e \<Rightarrow> NeverStarted e | Inr _ \<Rightarrow>
     case ra_prepare a of Inl e \<Rightarrow> NeverStarted e | Inr _ \<Rightarrow>
     case ra_start a of Inl e \<Rightarrow> NeverStarted e | Inr _ \<Rightarrow>
     case ra_streamError a of Some e \<Rightarrow> BrokeOff e | None \<Rightarrow>
     case ra_collect a of Inl e \<Rightarrow> BrokeOff e | Inr _ \<Rightarrow>
     case ra_finalize a of Inl e \<Rightarrow> BrokeOff e | Inr z \<Rightarrow> Ended z)"

lemma outside_wired:
  "su_createWorkspace (wired envs (outside c x a)) = (\<lambda>_ _ _. Pair (ra_workspace a))"
  "su_mountPackets (wired envs (outside c x a)) = (\<lambda>_ _. Pair (ra_mount a))"
  "su_prepareRun (wired envs (outside c x a)) = (\<lambda>_. Pair (ra_prepare a))"
  "su_startRun (wired envs (outside c x a)) = (\<lambda>_. Pair (ra_start a))"
  "su_streamRun (wired envs (outside c x a)) = (\<lambda>_. map (\<lambda>e. Pair (Inr e)) (ra_events a)
     @ (case ra_streamError a of None \<Rightarrow> [] | Some e \<Rightarrow> [Pair (Inl e)]))"
  "su_cancelRun (wired envs (outside c x a)) = (\<lambda>_. Pair (ra_cancel a))"
  "su_collectArtifacts (wired envs (outside c x a)) = (\<lambda>_. Pair (ra_collect a))"
  "su_finalizeRun (wired envs (outside c x a)) = (\<lambda>_. Pair (ra_finalize a))"
  "su_persistRunLogs (wired envs (outside c x a)) = Some (\<lambda>_ _. Pair (ra_persist a))"
  "su_forwardOutput (wired envs (outside c x a)) = Some (\<lambda>_ _. resolved ())"
  "su_forwardHeartbeat (wired envs (outside c x a)) = heartbeatForwarder envs"
  "su_transitionLease (wired envs (outside c x a)) = Some (leaseTransitioner envs)"
  "su_reclaimLease (wired envs (outside c x a)) = Some (leaseReclaimer envs)"
  by (simp_all add: wired_def outside_def)

text \<open>The stream of an undisturbed run: the lease stays worked on.\<close>

lemma stage_stream:
  assumes "stage envs d0 params k l t (database w)" and inj: "inj (re_uuid \<circ> envs)" and "l_status l \<in> worked_on"
  shows "\<exists>k' l' w'. stage envs d0 params k' l' t (database w') \<and> l_status l' \<in> worked_on
    \<and> streamLoop (wired envs (outside c x a)) params (map (\<lambda>e. Pair (Inr e)) vs @ (case err of None \<Rightarrow> [] | Some e \<Rightarrow> [Pair (Inl e)]))
        heard ((k, g), w)
      = ((case err of None \<Rightarrow> Inr (heard @ vs) | Some e \<Rightarrow> Inl e), (k', g), w')"
  using assms(1,3)
proof (induction vs arbitrary: k l w heard)
  case Nil
  then show ?case
    by (intro exI[of _ k] exI[of _ l] exI[of _ w]) (simp add: andThen_def resolved_def split: option.split)
next
  case (Cons v vs)
  let ?P = "wired envs (outside c x a)"
  obtain k1 l1 w1 where out: "handleOutput ?P params v ((k, g), w) = (Inr (), (k1, g), w1)"
    and s1: "stage envs d0 params k1 l1 t (database w1)" "l_status l1 \<in> worked_on"
  proof (cases "ro_type v = heartbeat")
    case True
    obtain l1 w1 where h: "heartbeatForwarder envs (sw_leaseId params) (sw_workerId params) False ((k, g), w) = (Inr (), (Suc k, g), w1)"
      "stage envs d0 params (Suc k) l1 t (database w1)" "l_status l1 = computeTargetStatus (l_status l) False"
      using stage_heartbeat[OF Cons.prems(1) inj Cons.prems(2), where g = g and i = "sw_workerId params" and terminal = False] by blast
    obtain r w2 where u: "inTransaction (worker_update (sw_workerId params) (\<lambda>r. r\<lparr>w_lastHeartbeatAt := Some (su_clock ?P (Suc k, g) div 1000)\<rparr>))
        ((Suc k, g), w1) = (Inr r, (Suc k, g), w2)" "stage envs d0 params (Suc k) l1 t (database w2)"
      using stage_worker[OF h(2), where f = "\<lambda>r. r\<lparr>w_lastHeartbeatAt := Some (su_clock ?P (Suc k, g) div 1000)\<rparr>" and g = g] by auto
    have "handleOutput ?P params v ((k, g), w) = (Inr (), (Suc k, g), w2)"
      using True h(1) u(1) by (simp add: handleOutput_def andThen_def outside_wired resolved_def)
    moreover have "l_status l1 \<in> worked_on" using h(3) Cons.prems(2) by (auto simp: computeTargetStatus_def)
    ultimately show ?thesis using that u(2) by blast
  next
    case False
    then have "handleOutput ?P params v ((k, g), w) = (Inr (), (k, g), w)"
      by (simp add: handleOutput_def andThen_def outside_wired resolved_def)
    then show ?thesis using that Cons.prems by blast
  qed
  from Cons.IH[OF s1, of "heard @ [v]", unfolded append_assoc append.simps] show ?case using out by (simp add: andThen_def)
qed

text \<open>Worker, lease and task after each verdict.\<close>

fun run_outcome :: "verdict \<Rightarrow> WorkerEntityStatus \<times> WorkerLeaseStatus \<times> TaskStatus" where
  "run_outcome (NeverStarted _) = (worker_failed, WorkerLeaseStatus.LEASED, TaskStatus.ASSIGNED)"
| "run_outcome (BrokeOff _) = (worker_failed, WorkerLeaseStatus.CRASHED, TaskStatus.ESCALATED)"
| "run_outcome (Ended z) = (if succeeded z then (worker_completed, WorkerLeaseStatus.COMPLETING, TaskStatus.ASSIGNED)
     else (mapRunStatusToWorkerStatus (fz_status z), WorkerLeaseStatus.CRASHED, TaskStatus.ESCALATED))"

definition retired :: "SpawnWorkerParams \<Rightarrow> WorkerEntityStatus \<Rightarrow> world \<Rightarrow> bool" where
  "retired params s w \<longleftrightarrow> (\<exists>r. worker_findById (sw_workerId params) (database w) = Some r \<and> w_status r = s
     \<and> w_currentTaskId r = None \<and> w_currentRunId r = None)"

lemma stage_retire:
  assumes "stage envs d0 params k l t (database w)"
  shows "\<exists>r w'. retireWorker (sw_workerId params) s ((k, g), w) = (Inr r, (k, g), w')
    \<and> stage envs d0 params k l t (database w') \<and> retired params s w'"
  using stage_worker[OF assms, where f = "\<lambda>r. r\<lparr>w_status := s, w_currentRunId := None, w_currentTaskId := None\<rparr>" and g = g]
  by (auto simp: retireWorker_def retired_def)

lemma stage_settle:
  assumes s: "stage envs d0 params k l t (database w)" and inj: "inj (re_uuid \<circ> envs)" and task: "t_status t = TaskStatus.ASSIGNED"
  shows "\<exists>r l' t' w'. andThen (retireWorker (sw_workerId params) st) (\<lambda>u. andThen (announce ports params x y) (\<lambda>_.
      andThen (bestEffort (leaseReclaimer envs (sw_leaseId params) m)) (\<lambda>_. f u))) ((k, g), w) = f r ((Suc k, g), w')
    \<and> stage envs d0 params (Suc k) l' t' (database w') \<and> retired params st w'
    \<and> (if l_status l \<in> worked_on then l_status l' = WorkerLeaseStatus.CRASHED \<and> t_status t' = TaskStatus.ESCALATED
       else l' = l \<and> t' = t)"
proof -
  obtain r w1 where r: "retireWorker (sw_workerId params) st ((k, g), w) = (Inr r, (k, g), w1)"
    "stage envs d0 params k l t (database w1)" "retired params st w1" using stage_retire[OF s] by metis
  obtain e where e: "announce ports params x y ((k, g), w1) = (Inr (), (k, g), w1\<lparr>emitted := emitted w1 @ [e]\<rparr>)"
    using announce_apply[of ports params x y "(k, g)" w1] by blast
  have "stage envs d0 params k l t (database (w1\<lparr>emitted := emitted w1 @ [e]\<rparr>))" using r(2) by simp
  from stage_reclaim[OF this inj task, of m g "sw_workerId params"] obtain l' t' w' where c:
    "bestEffort (leaseReclaimer envs (sw_leaseId params) m) ((k, g), w1\<lparr>emitted := emitted w1 @ [e]\<rparr>) = (Inr (), (Suc k, g), w')"
    "stage envs d0 params (Suc k) l' t' (database w')"
    "worker_findById (sw_workerId params) (database w') = worker_findById (sw_workerId params) (database w1)"
    "if l_status l \<in> worked_on then l_status l' = WorkerLeaseStatus.CRASHED \<and> t_status t' = TaskStatus.ESCALATED else l' = l \<and> t' = t"
    by auto
  show ?thesis
    by (intro exI[of _ r] exI[of _ l'] exI[of _ t'] exI[of _ w'])
      (use r(1,3) e c in \<open>simp add: andThen_def retired_def\<close>)
qed

lemma stage_failed:
  assumes "stage envs d0 params k l t (database w)" and "inj (re_uuid \<circ> envs)" and "t_status t = TaskStatus.ASSIGNED"
  shows "\<exists>l' t' w'. spawnFailed (wired envs (outside c x a)) params worker i e ((k, g), w) = (Inl e, (Suc k, g), w')
    \<and> stage envs d0 params (Suc k) l' t' (database w') \<and> retired params worker_failed w'
    \<and> (if l_status l \<in> worked_on then l_status l' = WorkerLeaseStatus.CRASHED \<and> t_status t' = TaskStatus.ESCALATED
       else l' = l \<and> t' = t)"
proof -
  let ?P = "wired envs (outside c x a)"
  let ?m = "JObj [(''triggeredBy'', JStr ''worker-supervisor''), (''reason'', JStr ''worker_spawn_exception''),
    (''error'', JStr (su_errorText ?P e))]"
  have "spawnFailed ?P params worker i e ((k, g), w) = andThen (retireWorker (sw_workerId params) worker_failed) (\<lambda>_.
      andThen (announce ?P params (w_status worker) worker_failed) (\<lambda>_. andThen (bestEffort (leaseReclaimer envs (sw_leaseId params) ?m))
      (\<lambda>_ s. (Inl e, s)))) ((k, g), w)"
    by (cases "ra_cancel a"; cases "ra_collect a")
      (auto simp: spawnFailed_def outside_wired reclaim_def andThen_def bestEffort_def resolved_def)
  with stage_settle[OF assms, where st = worker_failed and f = "\<lambda>_ s. (Inl e, s)" and ports = ?P and m = ?m and g = g
      and x = "w_status worker" and y = worker_failed] show ?thesis by simp
qed

text \<open>Before a run: a lease nobody has used on an assigned task, and a worker key that is new.\<close>

definition ready_to_run :: "(nat \<Rightarrow> reclaimEnv) \<Rightarrow> SpawnWorkerParams \<Rightarrow> nat \<Rightarrow> db \<Rightarrow> bool" where
  "ready_to_run envs params k d \<longleftrightarrow> wf_db d \<and> inj (re_uuid \<circ> envs) \<and> (\<forall>n \<ge> k. re_uuid (envs n) \<notin> set (map ae_id (auditEvents d)))
     \<and> (\<exists>l. lease_findById (sw_leaseId params) d = Some l \<and> l_taskId l = sw_taskId params \<and> l_status l = WorkerLeaseStatus.LEASED)
     \<and> (\<exists>t. task_findById (sw_taskId params) d = Some t \<and> t_status t = TaskStatus.ASSIGNED)
     \<and> sw_workerId params \<notin> set (map w_workerId (workers d)) \<and> sw_poolId params \<in> set (map p_workerPoolId (workerPools d))"

lemma stage_created:
  assumes "ready_to_run envs params k (database w)"
  shows "\<exists>worker l t w'. inTransaction (createWorker params) ((k, g), w) = (Inr worker, (k, g), w')
    \<and> stage envs (database w) params k l t (database w') \<and> l_status l = WorkerLeaseStatus.LEASED \<and> t_status t = TaskStatus.ASSIGNED"
proof -
  let ?d = "database w"
  let ?row = "\<lparr>w_workerId = sw_workerId params, w_poolId = sw_poolId params, w_name = sw_workerName params, w_status = worker_starting,
     w_lastHeartbeatAt = None, w_currentTaskId = Some (sw_taskId params), w_currentRunId = None\<rparr>"
  obtain l t where lt: "lease_findById (sw_leaseId params) ?d = Some l" "l_taskId l = sw_taskId params" "l_status l = WorkerLeaseStatus.LEASED"
    "task_findById (sw_taskId params) ?d = Some t" "t_status t = TaskStatus.ASSIGNED"
    using assms by (auto simp: ready_to_run_def)
  let ?d' = "?d\<lparr>workers := workers ?d @ [?row]\<rparr>"
  have "sw_taskId params \<in> set (map t_taskId (tasks ?d))"
    using lt(4) by (force simp: task_findById_def dest: find_Some_iff_mem)
  then have c: "worker_create ?row ?d = (Inr ?row, ?d')" using assms by (simp add: worker_create_def ready_to_run_def)
  have wf: "wf_db ?d" using assms by (simp add: ready_to_run_def)
  have "wf_db ?d'" using wf assms by (simp add: wf_db_def ready_to_run_def)
  then have "stage envs ?d params k l t ?d'"
    using assms lt unfolding stage_def by (simp add: ready_to_run_def lease_findById_def task_findById_def)
  then show ?thesis using lt c
    by (intro exI[of _ ?row] exI[of _ l] exI[of _ t] exI[of _ "w\<lparr>database := ?d'\<rparr>"])
      (simp add: inTransaction_def commit_def writeTransaction_def createWorker_def)
qed

lemma announced:
  "announce ports params x y ((k, g), w) = (Inr (), (k, g), w\<lparr>emitted := emitted w @
    [WorkerStatusChangedEvent (sw_workerId params) x y (sw_actor params) (su_clock ports (k, g))]\<rparr>)"
  by (simp add: announce_def)

text \<open>The two ends of a run.\<close>

lemma stage_success:
  assumes s: "stage envs d0 params k l t (database w)" and inj: "inj (re_uuid \<circ> envs)" and active: "l_status l \<in> worked_on"
    and ok: "succeeded z"
  shows "\<exists>r l' w'. successPath (wired envs (outside c x a)) params z events ((k, g), w)
      = (Inr \<lparr>sr_worker = r, sr_finalizeResult = z, sr_outputEvents = events\<rparr>, (Suc k, g), w')
    \<and> stage envs d0 params (Suc k) l' t (database w') \<and> l_status l' = WorkerLeaseStatus.COMPLETING \<and> retired params worker_completed w'"
proof -
  let ?P = "wired envs (outside c x a)"
  have st: "mapRunStatusToWorkerStatus (fz_status z) = worker_completed" using ok by auto
  obtain r1 w1 where 1: "inTransaction (worker_update (sw_workerId params) (\<lambda>r. r\<lparr>w_status := worker_completing\<rparr>)) ((k, g), w)
      = (Inr r1, (k, g), w1)" "stage envs d0 params k l t (database w1)"
    using stage_worker[OF s, where f = "\<lambda>r. r\<lparr>w_status := worker_completing\<rparr>" and g = g] by auto
  define w2 where "w2 = w1\<lparr>emitted := emitted w1 @ [WorkerStatusChangedEvent (sw_workerId params) worker_running worker_completing
    (sw_actor params) (su_clock ?P (k, g))]\<rparr>"
  have s2: "stage envs d0 params k l t (database w2)" using 1(2) by (simp add: w2_def)
  obtain l3 w3 where 3: "heartbeatForwarder envs (sw_leaseId params) (sw_workerId params) True ((k, g), w2) = (Inr (), (Suc k, g), w3)"
    "stage envs d0 params (Suc k) l3 t (database w3)" "l_status l3 = computeTargetStatus (l_status l) True"
    using stage_heartbeat[OF s2 inj active, of "sw_workerId params" True g] by blast
  obtain r4 w4 where 4: "retireWorker (sw_workerId params) worker_completed ((Suc k, g), w3) = (Inr r4, (Suc k, g), w4)"
    "stage envs d0 params (Suc k) l3 t (database w4)" "retired params worker_completed w4" using stage_retire[OF 3(2)] by metis
  define w5 where "w5 = w4\<lparr>emitted := emitted w4 @ [WorkerStatusChangedEvent (sw_workerId params) worker_completing worker_completed
    (sw_actor params) (su_clock ?P (Suc k, g))]\<rparr>"
  have "successPath ?P params z events ((k, g), w)
      = (Inr \<lparr>sr_worker = r4, sr_finalizeResult = z, sr_outputEvents = events\<rparr>, (Suc k, g), w5)"
    using 1(1) 3(1) 4(1) by (simp add: successPath_def andThen_def outside_wired announced w2_def w5_def st resolved_def)
  moreover have "stage envs d0 params (Suc k) l3 t (database w5)" "retired params worker_completed w5"
    using 4(2,3) by (simp_all add: w5_def retired_def)
  ultimately show ?thesis using 3(3) by (auto simp: computeTargetStatus_def)
qed

lemma stage_failure:
  assumes s: "stage envs d0 params k l t (database w)" and inj: "inj (re_uuid \<circ> envs)" and active: "l_status l \<in> worked_on"
    and task: "t_status t = TaskStatus.ASSIGNED"
  shows "\<exists>r l' t' w'. failurePath (wired envs (outside c x a)) params z events ((k, g), w)
      = (Inr \<lparr>sr_worker = r, sr_finalizeResult = z, sr_outputEvents = events\<rparr>, (Suc k, g), w')
    \<and> stage envs d0 params (Suc k) l' t' (database w') \<and> l_status l' = WorkerLeaseStatus.CRASHED
    \<and> t_status t' = TaskStatus.ESCALATED \<and> retired params (mapRunStatusToWorkerStatus (fz_status z)) w'"
proof -
  let ?P = "wired envs (outside c x a)" and ?st = "mapRunStatusToWorkerStatus (fz_status z)"
  let ?m = "JObj [(''triggeredBy'', JStr ''worker-supervisor''), (''reason'', JStr ''worker_execution_failed''),
         (''exitCode'', case fz_exitCode z of None \<Rightarrow> JNull | Some c \<Rightarrow> JNum c),
         (''runStatus'', JStr (SupervisorRunStatus_value (fz_status z))), (''durationMs'', JNum (fz_durationMs z))]"
  let ?f = "\<lambda>u. resolved \<lparr>sr_worker = u, sr_finalizeResult = z, sr_outputEvents = events\<rparr>"
  obtain r l' t' w' where "andThen (retireWorker (sw_workerId params) ?st) (\<lambda>u. andThen (announce ?P params worker_running ?st) (\<lambda>_.
      andThen (bestEffort (leaseReclaimer envs (sw_leaseId params) ?m)) (\<lambda>_. ?f u))) ((k, g), w) = ?f r ((Suc k, g), w')"
    "stage envs d0 params (Suc k) l' t' (database w')" "retired params ?st w'"
    "if l_status l \<in> worked_on then l_status l' = WorkerLeaseStatus.CRASHED \<and> t_status t' = TaskStatus.ESCALATED else l' = l \<and> t' = t"
    using stage_settle[OF s inj task, where st = ?st and f = ?f and ports = ?P and m = ?m and g = g and x = worker_running and y = ?st]
    by blast
  then show ?thesis using active
    by (intro exI[of _ r] exI[of _ l'] exI[of _ t'] exI[of _ w'])
      (simp add: failurePath_def Let_def reclaim_def outside_wired resolved_def)
qed

text \<open>The run after a start that succeeded.\<close>

lemma stage_running:
  assumes s: "stage envs d0 params k l t (database w)" and inj: "inj (re_uuid \<circ> envs)" and task: "t_status t = TaskStatus.ASSIGNED"
    and leased: "l_status l = WorkerLeaseStatus.LEASED" and started: "ra_start a = Inr ()"
  obtains e k' l' w' where "runStage (wired envs (outside c x a)) params ws i ((k, g), w) = (Inl e, (k', g), w')"
      "stage envs d0 params k' l' t (database w')" "l_status l' \<in> worked_on"
      "case ra_streamError a of Some e' \<Rightarrow> e = e' | None \<Rightarrow> ra_collect a = Inl e \<or> (\<exists>u. ra_collect a = Inr u) \<and> ra_finalize a = Inl e"
  | z u r k' l' t' w' where "runStage (wired envs (outside c x a)) params ws i ((k, g), w)
        = (Inr \<lparr>sr_worker = r, sr_finalizeResult = z, sr_outputEvents = ra_events a\<rparr>, (k', g), w')"
      "ra_streamError a = None" "ra_collect a = Inr u" "ra_finalize a = Inr z"
      "stage envs d0 params k' l' t' (database w')"
      "\<exists>st. retired params st w' \<and> (st, l_status l', t_status t') = run_outcome (Ended z)"
proof -
  let ?P = "wired envs (outside c x a)"
  obtain l1 w1 where 1: "leaseTransitioner envs (sw_leaseId params) WorkerLeaseStatus.STARTING
      (emptyWorkerLeaseTransitionContext\<lparr>workerProcessSpawned := Some True\<rparr>) ((k, g), w) = (Inr (), (Suc k, g), w1)"
    "stage envs d0 params (Suc k) l1 t (database w1)" "l_status l1 = WorkerLeaseStatus.STARTING"
    using stage_start[OF s inj leased, of g] by blast
  obtain r2 w2 where 2: "inTransaction (worker_update (sw_workerId params) (\<lambda>r. r\<lparr>w_status := worker_running, w_currentRunId := Some i\<rparr>))
      ((Suc k, g), w1) = (Inr r2, (Suc k, g), w2)" "stage envs d0 params (Suc k) l1 t (database w2)"
    using stage_worker[OF 1(2), where f = "\<lambda>r. r\<lparr>w_status := worker_running, w_currentRunId := Some i\<rparr>" and g = g] by auto
  define w3 where "w3 = w2\<lparr>emitted := emitted w2 @ [WorkerStatusChangedEvent (sw_workerId params) worker_starting worker_running
    (sw_actor params) (su_clock ?P (Suc k, g))]\<rparr>"
  have start: "startStage ?P params i ((k, g), w) = (Inr (), (Suc k, g), w3)"
    using 1(1) 2(1) started by (simp add: startStage_def andThen_def outside_wired announced w3_def)
  have s3: "stage envs d0 params (Suc k) l1 t (database w3)" using 2(2) by (simp add: w3_def)
  have "l_status l1 \<in> worked_on" by (simp add: 1(3))
  from stage_stream[OF s3 inj this, of c x a "ra_events a" "ra_streamError a" "[]" g, unfolded append.simps(1)] obtain k4 l4 w4 where
    4: "stage envs d0 params k4 l4 t (database w4)" "l_status l4 \<in> worked_on"
    "streamLoop ?P params (su_streamRun ?P i) [] ((Suc k, g), w3)
      = ((case ra_streamError a of None \<Rightarrow> Inr (ra_events a) | Some e \<Rightarrow> Inl e), (k4, g), w4)"
    unfolding outside_wired by blast
  note run = runStage_def[of ?P params ws i] andThen_def
  show ?thesis
  proof (cases "ra_streamError a")
    case (Some e)
    then show ?thesis using that(1)[OF _ 4(1,2), of e] start 4(3) by (simp add: run)
  next
    case None
    show ?thesis
    proof (cases "\<exists>e. ra_collect a = Inl e \<or> (\<exists>u. ra_collect a = Inr u) \<and> ra_finalize a = Inl e")
      case True
      then show ?thesis using that(1)[OF _ 4(1,2)] None start 4(3) by (auto simp: run outside_wired)
    next
      case False
      then obtain u z where z: "ra_collect a = Inr u" "ra_finalize a = Inr z" by (metis sumE)
      have logs: "persistLogs ?P ws z ((k4, g), w4) = (Inr (), (k4, g), w4)"
        by (simp add: persistLogs_def outside_wired bestEffort_def resolved_def)
      have before: "runStage ?P params ws i ((k, g), w) = (if succeeded z then successPath ?P params z (ra_events a)
          else failurePath ?P params z (ra_events a)) ((k4, g), w4)"
        using None z start 4(3) logs by (simp add: run outside_wired)
      show ?thesis
      proof (cases "succeeded z")
        case True
        obtain l' w' r where "successPath ?P params z (ra_events a) ((k4, g), w4)
            = (Inr \<lparr>sr_worker = r, sr_finalizeResult = z, sr_outputEvents = ra_events a\<rparr>, (Suc k4, g), w')"
          "stage envs d0 params (Suc k4) l' t (database w')" "l_status l' = WorkerLeaseStatus.COMPLETING"
          "retired params worker_completed w'"
          using stage_success[OF 4(1) inj 4(2) True] by metis
        then show ?thesis using that(2)[OF _ None z] before True task by simp
      next
        case False
        obtain r l' t' w' where "failurePath ?P params z (ra_events a) ((k4, g), w4)
            = (Inr \<lparr>sr_worker = r, sr_finalizeResult = z, sr_outputEvents = ra_events a\<rparr>, (Suc k4, g), w')"
          "stage envs d0 params (Suc k4) l' t' (database w')" "l_status l' = WorkerLeaseStatus.CRASHED" "t_status t' = TaskStatus.ESCALATED"
          "retired params (mapRunStatusToWorkerStatus (fz_status z)) w'"
          using stage_failure[OF 4(1) inj 4(2) task] by metis
        then show ?thesis using that(2)[OF _ None z] before False by simp
      qed
    qed
  qed
qed

fun verdict_result :: "verdict \<Rightarrow> SupervisorRunOutputStream list \<Rightarrow> thrown + SpawnWorkerResult \<Rightarrow> bool" where
  "verdict_result (NeverStarted e) events r \<longleftrightarrow> r = Inl e"
| "verdict_result (BrokeOff e) events r \<longleftrightarrow> r = Inl e"
| "verdict_result (Ended z) events r \<longleftrightarrow> (\<exists>u. r = Inr \<lparr>sr_worker = u, sr_finalizeResult = z, sr_outputEvents = events\<rparr>)"

lemma supervised_run:
  assumes ready: "ready_to_run envs params k (database w)"
  shows "\<exists>r k' l' t' w' st. spawnWorker (wired envs (outside c x a)) params ((k, g), w) = (r, (k', g), w')
    \<and> verdict_result (run_verdict a) (ra_events a) r \<and> stage envs (database w) params k' l' t' (database w') \<and> retired params st w'
    \<and> (st, l_status l', t_status t') = run_outcome (run_verdict a)"
proof -
  let ?P = "wired envs (outside c x a)" and ?d0 = "database w"
  have inj: "inj (re_uuid \<circ> envs)" using ready by (simp add: ready_to_run_def)
  obtain worker l t w1 where 1: "inTransaction (createWorker params) ((k, g), w) = (Inr worker, (k, g), w1)"
    "stage envs ?d0 params k l t (database w1)" "l_status l = WorkerLeaseStatus.LEASED" "t_status t = TaskStatus.ASSIGNED"
    using stage_created[OF ready, where g = g] by blast
  define w2 where "w2 = w1\<lparr>emitted := emitted w1 @ [WorkerStatusChangedEvent (sw_workerId params) worker_idle worker_starting
    (sw_actor params) (su_clock ?P (k, g))]\<rparr>"
  have s2: "stage envs ?d0 params k l t (database w2)" using 1(2) by (simp add: w2_def)
  have spawn: "spawnWorker ?P params ((k, g), w) = catching (prepareStage ?P params) (spawnFailed ?P params worker '''') (\<lambda>(workspace, runId).
      catching (runStage ?P params workspace runId) (spawnFailed ?P params worker runId) resolved) ((k, g), w2)"
    using 1(1) by (simp add: spawnWorker_def andThen_def announced w2_def)
  have prep: "prepareStage ?P params ((k, g), w2) = ((case ra_workspace a of Inl e \<Rightarrow> Inl e | Inr ws \<Rightarrow>
      (case ra_mount a of Inl e \<Rightarrow> Inl e | Inr _ \<Rightarrow> (case ra_prepare a of Inl e \<Rightarrow> Inl e | Inr i \<Rightarrow> Inr (ws, i)))), (k, g), w2)"
    by (simp add: prepareStage_def andThen_def outside_wired resolved_def split: sum.split)
  have never: ?thesis if "spawnWorker ?P params ((k, g), w) = spawnFailed ?P params worker i e ((k, g), w2)" "run_verdict a = NeverStarted e" for i e
    using stage_failed[OF s2 inj 1(4), of c x a worker i e g] that 1(3,4) by auto
  show ?thesis
  proof (cases "\<exists>e. ra_workspace a = Inl e \<or> ra_mount a = Inl e \<or> ra_prepare a = Inl e")
    case True
    then obtain e where "run_verdict a = NeverStarted e" "spawnWorker ?P params ((k, g), w) = spawnFailed ?P params worker '''' e ((k, g), w2)"
      using spawn prep by (auto simp: catching_def run_verdict_def split: sum.splits)
    then show ?thesis using never by blast
  next
    case False
    then obtain ws v i where "ra_workspace a = Inr ws" "ra_mount a = Inr v" "ra_prepare a = Inr i" by (metis sumE)
    then have run: "spawnWorker ?P params ((k, g), w)
        = catching (runStage ?P params ws i) (spawnFailed ?P params worker i) resolved ((k, g), w2)"
      and verdict: "run_verdict a = (case ra_start a of Inl e \<Rightarrow> NeverStarted e | Inr _ \<Rightarrow>
         case ra_streamError a of Some e \<Rightarrow> BrokeOff e | None \<Rightarrow>
         case ra_collect a of Inl e \<Rightarrow> BrokeOff e | Inr _ \<Rightarrow>
         case ra_finalize a of Inl e \<Rightarrow> BrokeOff e | Inr z \<Rightarrow> Ended z)"
      using spawn prep by (simp_all add: catching_def run_verdict_def)
    show ?thesis
    proof (cases "ra_start a")
      case (Inl e)
      then have "runStage ?P params ws i ((k, g), w2) = (Inl e, (k, g), w2)"
        by (simp add: runStage_def startStage_def andThen_def outside_wired)
      then show ?thesis using never[of i e] run verdict Inl by (simp add: catching_def)
    next
      case (Inr u)
      then have started: "ra_start a = Inr ()" by simp
      show ?thesis
      proof (rule stage_running[OF s2 inj 1(4,3) started, of c x ws i g], goal_cases)
        case (1 e k' l' w')
        obtain l'' t'' w'' where "spawnFailed ?P params worker i e ((k', g), w') = (Inl e, (Suc k', g), w'')"
          "stage envs ?d0 params (Suc k') l'' t'' (database w'')" "retired params worker_failed w''"
          "if l_status l' \<in> worked_on then l_status l'' = WorkerLeaseStatus.CRASHED \<and> t_status t'' = TaskStatus.ESCALATED
           else l'' = l' \<and> t'' = t"
          using stage_failed[OF 1(2) inj \<open>t_status t = TaskStatus.ASSIGNED\<close>, of c x a worker i e g] by blast
        moreover have "run_verdict a = BrokeOff e" using 1(4) verdict started by (auto split: option.splits sum.splits)
        ultimately show ?case using run 1(1,3) by (intro exI[of _ "Inl e"] exI[of _ "Suc k'"] exI[of _ l''] exI[of _ t'']
            exI[of _ w''] exI[of _ worker_failed]) (simp add: catching_def)
      next
        case (2 z u r k' l' t' w')
        then have "run_verdict a = Ended z" using verdict started by simp
        moreover obtain st where "retired params st w'" "(st, l_status l', t_status t') = run_outcome (Ended z)" using 2(6) by blast
        ultimately show ?case using run 2(1,5)
          by (intro exI[of _ "Inr \<lparr>sr_worker = r, sr_finalizeResult = z, sr_outputEvents = ra_events a\<rparr>"] exI[of _ k'] exI[of _ l']
              exI[of _ t'] exI[of _ w'] exI[of _ st]) (simp add: catching_def resolved_def)
      qed
    qed
  qed
qed

subsection \<open>A dispatch\<close>

lemma stage_jobs:
  "stage envs d0 params k l t d \<Longrightarrow> wf_db (d\<lparr>jobs := J\<rparr>) \<Longrightarrow> stage envs (d0\<lparr>jobs := J\<rparr>) params k l t (d\<lparr>jobs := J\<rparr>)"
  by (simp add: stage_def lease_findById_def task_findById_def)

lemma stage_transition:
  assumes s: "stage envs d0 params k l t (database w)" and inj: "inj (re_uuid \<circ> envs)" and ok: "valid (validateTransition (t_status t) st ctx)"
  shows "\<exists>r t' w'. transitionTask (tx_env (envs k)) (sw_taskId params) st ctx actor m w = (Inr r, w')
    \<and> stage envs d0 params (Suc k) l t' (database w') \<and> t_status t' = st \<and> workers (database w') = workers (database w)"
proof -
  have wf: "wf_db (database w)" and t: "task_findById (sw_taskId params) (database w) = Some t"
    and l: "lease_findById (sw_leaseId params) (database w) = Some l"
    and fresh: "env_uuid (tx_env (envs k)) \<notin> set (map ae_id (auditEvents (database w)))"
    using s by (simp_all add: stage_def tx_env_def)
  show ?thesis
  proof (rule transitionTask_cases[OF wf, of "tx_env (envs k)" "sw_taskId params" st ctx actor m], goal_cases)
    case (1 err)
    then show ?case using t ok fresh by auto
  next
    case (2 t0 a w')
    have t0: "t0 = t" using 2(1) t by simp
    let ?t' = "t\<lparr>t_status := st, t_version := t_version t + 1, t_updatedAt := env_now (tx_env (envs k)) div 1000\<rparr>"
    have c: "task_findById (sw_taskId params) (database w') = Some ?t'" "wf_db (database w')" "ae_id a = re_uuid (envs k)"
      "\<forall>j. j \<noteq> sw_taskId params \<longrightarrow> task_findById j (database w') = task_findById j (database w)"
      "database w' = (database w)\<lparr>tasks := tasks (database w'), auditEvents := auditEvents (database w) @ [a]\<rparr>"
      using 2(2,5) by (auto simp: task_committed_def Let_def t0 tx_env_def)
    have same: "taskLeases (database w') = taskLeases (database w)" "workers (database w') = workers (database w)"
      "jobs (database w') = jobs (database w)" "auditEvents (database w') = auditEvents (database w) @ [a]"
      by (subst c(5), simp)+
    have q: "quiet (re_uuid (envs k)) (database w) (database w')" using same c(3) by (auto simp: quiet_def)
    have "lease_findById j (database w') = lease_findById j (database w)" for j using same(1) by (simp add: lease_findById_def)
    then have "stage envs d0 params (Suc k) l ?t' (database w')"
      by (intro stage_later[OF s inj q c(2)]) (use l c(1,4) in simp_all)
    then show ?case using 2(4) same(2) by auto
  qed
qed

lemma stage_dev_complete:
  assumes s: "stage envs d0 params k l t (database w)" and inj: "inj (re_uuid \<circ> envs)" and task: "t_status t = TaskStatus.ASSIGNED"
  shows "\<exists>t'. stage envs d0 params (k + 2) l t' (database (processSuccessfulWorkerResult (tx_env (envs k)) (tx_env (envs (k + 1)))
      (sw_taskId params) w)) \<and> t_status t' = TaskStatus.DEV_COMPLETE
    \<and> workers (database (processSuccessfulWorkerResult (tx_env (envs k)) (tx_env (envs (k + 1))) (sw_taskId params) w)) = workers (database w)"
proof -
  let ?m = "triggered [(''triggeredBy'', JStr ''worker-result-processing'')]"
  have "valid (validateTransition (t_status t) TaskStatus.IN_DEVELOPMENT (emptyContext\<lparr>hasHeartbeat := Some True\<rparr>))"
    unfolding task by code_simp
  from stage_transition[OF s inj this, of AUTOMATION_ACTOR ?m] obtain r1 t1 w1 where 1:
    "transitionTask (tx_env (envs k)) (sw_taskId params) TaskStatus.IN_DEVELOPMENT (emptyContext\<lparr>hasHeartbeat := Some True\<rparr>) AUTOMATION_ACTOR ?m w
      = (Inr r1, w1)" "stage envs d0 params (Suc k) l t1 (database w1)" "t_status t1 = TaskStatus.IN_DEVELOPMENT"
    "workers (database w1) = workers (database w)" by blast
  have "valid (validateTransition (t_status t1) TaskStatus.DEV_COMPLETE
      (emptyContext\<lparr>hasDevResultPacket := Some True, requiredValidationsPassed := Some True\<rparr>))" unfolding 1(3) by code_simp
  from stage_transition[OF 1(2) inj this, of AUTOMATION_ACTOR ?m] 1 show ?thesis
    by (auto simp: processSuccessfulWorkerResult_def Let_def)
qed

lemma failJob_claimed:
  assumes "wf_db d" and "job_findById i d = Some j" and "j_status j = JobStatus.CLAIMED"
  shows "failJob now i d = (Inr (moved_job now JobStatus.FAILED j),
    d\<lparr>jobs := update_where (\<lambda>x. j_jobId x = i) (moved_job now JobStatus.FAILED) (jobs d)\<rparr>)"
  unfolding failJob_def
  by (rule job_move_cases[OF assms(1), where i = i and S = "set FAILABLE_STATUSES" and s = JobStatus.FAILED and now = now,
        of "EntityNotFoundError ''Job'' i"
        "\<lambda>j. InvalidTransitionError ''Job'' i (JobStatus_value (j_status j)) (JobStatus_value JobStatus.FAILED)
            (Some (''Job must be in CLAIMED or RUNNING status to fail, but is '' @ JobStatus_value (j_status j)))"
        "\<lambda>j. InvalidTransitionError ''Job'' i (JobStatus_value (j_status j)) (JobStatus_value JobStatus.FAILED)
            (Some ''Concurrent status change detected during fail transition'')"])
     (use assms in \<open>auto simp: FAILABLE_STATUSES_def\<close>)

text \<open>Job, worker, lease and task after a dispatch, by the verdict on its run.\<close>

fun dispatch_outcome :: "verdict \<Rightarrow> JobStatus \<times> WorkerEntityStatus \<times> WorkerLeaseStatus \<times> TaskStatus" where
  "dispatch_outcome (NeverStarted _) = (JobStatus.FAILED, worker_failed, WorkerLeaseStatus.LEASED, TaskStatus.ASSIGNED)"
| "dispatch_outcome (BrokeOff _) = (JobStatus.FAILED, worker_failed, WorkerLeaseStatus.CRASHED, TaskStatus.ESCALATED)"
| "dispatch_outcome (Ended z) =
    (if succeeded z then (JobStatus.COMPLETED, worker_completed, WorkerLeaseStatus.COMPLETING, TaskStatus.DEV_COMPLETE)
     else (JobStatus.COMPLETED, mapRunStatusToWorkerStatus (fz_status z), WorkerLeaseStatus.CRASHED, TaskStatus.ESCALATED))"

definition dispatch_ends :: "db \<Rightarrow> SpawnWorkerParams \<Rightarrow> string \<Rightarrow> JobStatus \<times> WorkerEntityStatus \<times> WorkerLeaseStatus \<times> TaskStatus \<Rightarrow> db \<Rightarrow> bool" where
  "dispatch_ends d0 params jobId table d \<longleftrightarrow>
    (\<exists>j r l t. job_findById jobId d = Some j \<and> worker_findById (sw_workerId params) d = Some r
       \<and> lease_findById (sw_leaseId params) d = Some l \<and> task_findById (sw_taskId params) d = Some t
       \<and> table = (j_status j, w_status r, l_status l, t_status t) \<and> w_currentTaskId r = None)
    \<and> (\<forall>i. i \<noteq> sw_leaseId params \<longrightarrow> lease_findById i d = lease_findById i d0)
    \<and> (\<forall>i. i \<noteq> sw_taskId params \<longrightarrow> task_findById i d = task_findById i d0)"

lemma stage_job_moved:
  assumes s: "stage envs d0 params k l t (database w)" and j: "job_findById i d0 = Some j" "j_status j = JobStatus.CLAIMED"
    and f: "f = completeJob \<and> st = JobStatus.COMPLETED \<or> f = failJob \<and> st = JobStatus.FAILED"
  shows "\<exists>v w' d0'. queueCall envs (\<lambda>e. f (re_now e) i) ((k, g), w) = (Inr v, (Suc k, g), w')
    \<and> stage envs d0' params (Suc k) l t (database w') \<and> workers (database w') = workers (database w)
    \<and> (\<exists>j'. job_findById i d0' = Some j' \<and> j_status j' = st)
    \<and> (\<forall>n. lease_findById n d0' = lease_findById n d0) \<and> (\<forall>n. task_findById n d0' = task_findById n d0)"
proof -
  let ?now = "re_now (envs k)" and ?d = "database w"
  let ?J = "update_where (\<lambda>x. j_jobId x = i) (moved_job ?now st) (jobs ?d)"
  have wf: "wf_db ?d" and J: "jobs ?d = jobs d0" using s by (simp_all add: stage_def)
  have jd: "job_findById i ?d = Some j" using j(1) J by (simp add: job_findById_def)
  have "f ?now i ?d = (Inr (moved_job ?now st j), ?d\<lparr>jobs := ?J\<rparr>)"
    using f completeJob_claimed[OF wf jd j(2), of ?now] failJob_claimed[OF wf jd j(2), of ?now] by auto
  then have call: "queueCall envs (\<lambda>e. f (re_now e) i) ((k, g), w)
      = (Inr (moved_job ?now st j), (Suc k, g), w\<lparr>database := ?d\<lparr>jobs := ?J\<rparr>\<rparr>)"
    by (simp add: queueCall_def calling_def onDatabase_def)
  have "wf_db (?d\<lparr>jobs := ?J\<rparr>)" by (rule wf_jobs[OF map_update_where_same wf]) simp
  from stage_skip[OF stage_jobs[OF s this]] have s': "stage envs (d0\<lparr>jobs := ?J\<rparr>) params (Suc k) l t (?d\<lparr>jobs := ?J\<rparr>)" .
  have "job_findById i (d0\<lparr>jobs := ?J\<rparr>) = Some (moved_job ?now st j)"
    using jd find_update_where_key[of j_jobId "moved_job ?now st" i "jobs ?d"] by (simp add: job_findById_def)
  then show ?thesis using call s'
    by (intro exI[of _ "moved_job ?now st j"] exI[of _ "w\<lparr>database := ?d\<lparr>jobs := ?J\<rparr>\<rparr>"] exI[of _ "d0\<lparr>jobs := ?J\<rparr>"])
      (simp add: lease_findById_def task_findById_def)
qed

lemma stage_ends:
  assumes "stage envs d0 params k l t d" and "job_findById i d0 = Some j" and "worker_findById (sw_workerId params) d = Some r"
    and "w_currentTaskId r = None"
  shows "dispatch_ends d0 params i (j_status j, w_status r, l_status l, t_status t) d"
proof -
  have "job_findById i d = Some j" using assms(1,2) by (simp add: stage_def job_findById_def)
  then show ?thesis using assms by (auto simp: dispatch_ends_def stage_def)
qed

text \<open>
  (C22) What one dispatch does.  The oldest dispatch job is claimed, its task is ready to run, and nobody
  interferes: then the whole chain of dispatch, supervisor, heartbeat, transition, reclaim and job queue
  services leaves exactly the states of a table.  A run that never started fails the job but leaves the lease LEASED
  and the task ASSIGNED; one that broke off or failed leaves the lease CRASHED and the task ESCALATED, whatever
  its retry count; one that succeeded leaves the lease COMPLETING and the task DEV_COMPLETE.  The worker has let
  go of its task, and no other lease or task is touched.
\<close>

theorem dispatch_exact:
  assumes claimed: "claimJob (re_now (envs k)) (re_leaseEventAt (envs k)) JobType.WORKER_DISPATCH DEFAULT_DISPATCH_LEASE_OWNER
      (database w) = (Inr (Some job), d1)"
    and payload: "readPayload (j_payloadJson job) = Some p"
    and resolves: "resolve (dp_taskId p) (dp_poolId p) = returnT (Some sc)"
    and ready: "ready_to_run envs (spawnParams p job sc) k (database w)"
  shows "dispatch_ends (database w) (spawnParams p job sc) (j_jobId job) (dispatch_outcome (run_verdict a))
    (database (snd (processWorkerDispatches envs (wired envs (outside c x a)) resolve ((k, g), w))))"
proof -
  let ?P = "wired envs (outside c x a)" and ?params = "spawnParams p job sc" and ?i = "j_jobId job"
  let ?w1 = "w\<lparr>database := d1\<rparr>"
  have wf: "wf_db (database w)" and inj: "inj (re_uuid \<circ> envs)" using ready by (simp_all add: ready_to_run_def)
  have "\<exists>J. d1 = (database w)\<lparr>jobs := J\<rparr> \<and> wf_db d1 \<and> job_findById ?i d1 = Some job \<and> j_status job = JobStatus.CLAIMED"
    by (rule claimJob_cases[OF wf, of JobType.WORKER_DISPATCH "re_now (envs k)" "re_leaseEventAt (envs k)" DEFAULT_DISPATCH_LEASE_OWNER])
      (use claimed in \<open>auto simp: claimed_job_def\<close>)
  then obtain J where d1: "d1 = (database w)\<lparr>jobs := J\<rparr>" "wf_db d1" "job_findById ?i d1 = Some job" "j_status job = JobStatus.CLAIMED"
    by blast
  have same: "lease_findById n d1 = lease_findById n (database w)" "task_findById n d1 = task_findById n (database w)" for n
    using d1(1) by (simp_all add: lease_findById_def task_findById_def)
  have "ready_to_run envs ?params (Suc k) (database ?w1)"
    using ready d1(1,2) same by (simp add: ready_to_run_def)
  from supervised_run[OF this, of c x a g] obtain r k2 l2 t2 w2 st where run:
    "spawnWorker ?P ?params ((Suc k, g), ?w1) = (r, (k2, g), w2)" "verdict_result (run_verdict a) (ra_events a) r"
    "stage envs d1 ?params k2 l2 t2 (database w2)" "retired ?params st w2" "(st, l_status l2, t_status t2) = run_outcome (run_verdict a)"
    by auto
  obtain wk where wk: "worker_findById (sw_workerId ?params) (database w2) = Some wk" "w_status wk = st" "w_currentTaskId wk = None"
    using run(4) by (auto simp: retired_def)
  have ids: "sw_taskId ?params = dp_taskId p" by (simp add: spawnParams_def)
  have claim: "queueCall envs (\<lambda>e. claimJob (re_now e) (re_leaseEventAt e) JobType.WORKER_DISPATCH DEFAULT_DISPATCH_LEASE_OWNER) ((k, g), w)
      = (Inr (Some job), (Suc k, g), ?w1)"
    using claimed by (simp add: queueCall_def calling_def onDatabase_def)
  have resolve: "inTransaction (resolve (dp_taskId p) (dp_poolId p)) ((Suc k, g), ?w1) = (Inr (Some sc), (Suc k, g), ?w1)"
    by (simp add: resolves inTransaction_def commit_def writeTransaction_def returnT_def)
  let ?done = "\<lambda>u. DispatchSuccess ?i (dp_taskId p) (dp_workerId p) (dp_leaseId p) u"
  have ends: "dispatch_ends (database w) ?params ?i (st', w_status wk, l_status l3, t_status t3) d'"
    if "stage envs d0' ?params k3 l3 t3 d'" "job_findById ?i d0' = Some j'" "j_status j' = st'" "workers d' = workers (database w2)"
       "\<forall>n. lease_findById n d0' = lease_findById n d1" "\<forall>n. task_findById n d0' = task_findById n d1"
    for st' l3 t3 d' d0' k3 j'
  proof -
    have "worker_findById (sw_workerId ?params) d' = Some wk" using wk(1) that(4) by (simp add: worker_findById_def)
    from stage_ends[OF that(1,2) this wk(3)] that(3,5,6) same show ?thesis by (simp add: dispatch_ends_def)
  qed
  have broken: ?thesis if r: "r = Inl e" and table: "dispatch_outcome (run_verdict a) = (JobStatus.FAILED, st, l_status l2, t_status t2)" for e
  proof -
    from stage_job_moved[OF run(3) d1(3,4), of failJob JobStatus.FAILED g] obtain v w3 d0' j' where
      moved: "queueCall envs (\<lambda>e. failJob (re_now e) ?i) ((k2, g), w2) = (Inr v, (Suc k2, g), w3)"
      "stage envs d0' ?params (Suc k2) l2 t2 (database w3)" "workers (database w3) = workers (database w2)"
      "job_findById ?i d0' = Some j'" "j_status j' = JobStatus.FAILED"
      "\<forall>n. lease_findById n d0' = lease_findById n d1" "\<forall>n. task_findById n d0' = task_findById n d1" by blast
    have d: "processDispatch envs ?P resolve None ((k, g), w)
        = (Inr (DispatchFailed ?i (dp_taskId p) spawn_failed (su_errorText ?P e)), (Suc k2, g), w3)"
      using claim resolve payload run(1) r moved(1) by (simp add: processDispatch_def Let_def andThen_def catching_def resolved_def)
    show ?thesis using ends[OF moved(2,4,5,3,6,7)] d table wk(2) by (simp add: processWorkerDispatches_def)
  qed
  show ?thesis
  proof (cases "run_verdict a")
    case (Ended z)
    then obtain u where u: "r = Inr u" "sr_finalizeResult u = z" using run(2) by (cases r) auto
    from stage_job_moved[OF run(3) d1(3,4), of completeJob JobStatus.COMPLETED g] obtain v w3 d0' j' where
      moved: "queueCall envs (\<lambda>e. completeJob (re_now e) ?i) ((k2, g), w2) = (Inr v, (Suc k2, g), w3)"
      "stage envs d0' ?params (Suc k2) l2 t2 (database w3)" "workers (database w3) = workers (database w2)"
      "job_findById ?i d0' = Some j'" "j_status j' = JobStatus.COMPLETED"
      "\<forall>n. lease_findById n d0' = lease_findById n d1" "\<forall>n. task_findById n d0' = task_findById n d1" by blast
    have d: "processDispatch envs ?P resolve None ((k, g), w) = (Inr (?done u), (Suc k2, g), w3)"
      using claim resolve payload run(1) u(1) moved(1) by (simp add: processDispatch_def Let_def andThen_def catching_def resolved_def)
    show ?thesis
    proof (cases "succeeded z")
      case True
      then have "t_status t2 = TaskStatus.ASSIGNED" using run(5) Ended by simp
      from stage_dev_complete[OF moved(2) inj this] obtain t4 where t4:
        "stage envs d0' ?params (Suc k2 + 2) l2 t4 (database (processSuccessfulWorkerResult (tx_env (envs (Suc k2))) (tx_env (envs (Suc k2 + 1)))
           (sw_taskId ?params) w3))" "t_status t4 = TaskStatus.DEV_COMPLETE"
        "workers (database (processSuccessfulWorkerResult (tx_env (envs (Suc k2))) (tx_env (envs (Suc k2 + 1))) (sw_taskId ?params) w3))
          = workers (database w3)" by blast
      show ?thesis using ends[OF t4(1) moved(4,5) _ moved(6,7)] t4(2,3) moved(3) d u(2) True Ended run(5) wk(2) ids
        by (simp add: processWorkerDispatches_def)
    next
      case False
      show ?thesis using ends[OF moved(2,4,5,3,6,7)] d u(2) False Ended run(5) wk(2) by (simp add: processWorkerDispatches_def)
    qed
  next
    case (NeverStarted e)
    then show ?thesis using broken[of e] run(2,5) by simp
  next
    case (BrokeOff e)
    then show ?thesis using broken[of e] run(2,5) by simp
  qed
qed

definition dispatch_envs :: "nat \<Rightarrow> reclaimEnv" where
  "dispatch_envs n = \<lparr>re_now = 300000, re_uuid = replicate n CHR ''u'', re_leaseEventAt = 300001, re_taskEventAt = 300002\<rparr>"

definition dispatch_job :: Job where
  "dispatch_job = \<lparr>j_jobId = ''J1'', j_jobType = JobType.WORKER_DISPATCH, j_entityType = Some ''task'', j_entityId = Some ''T1'',
     j_payloadJson = Some (JObj [(''taskId'', JStr ''T1''), (''leaseId'', JStr ''L1''), (''poolId'', JStr ''P''), (''workerId'', JStr ''W1'')]),
     j_status = JobStatus.PENDING, j_attemptCount = 0, j_runAfter = None, j_leaseOwner = None, j_parentJobId = None,
     j_jobGroupId = None, j_dependsOnJobIds = None, j_createdAt = 1, j_updatedAt = 1\<rparr>"

definition dispatch_world :: world where
  "dispatch_world = spawn_world\<lparr>database := (database spawn_world)\<lparr>jobs := [dispatch_job]\<rparr>\<rparr>"

definition dispatch_context :: WorkerSpawnContext where
  "dispatch_context = \<lparr>sx_repoPath = ''/repo'', sx_workerName = ''copilot'', sx_runContext = sw_runContext spawn_params\<rparr>"

lemma dispatch_envs_inj: "inj (re_uuid \<circ> dispatch_envs)"
proof (rule injI)
  fix m n :: nat
  assume "(re_uuid \<circ> dispatch_envs) m = (re_uuid \<circ> dispatch_envs) n"
  then have "length (replicate m CHR ''u'') = length (replicate n CHR ''u'')" by (simp add: dispatch_envs_def)
  then show "m = n" by simp
qed

theorem dispatch_exact_witness:
  "\<exists>job. job = claimed_job 300000 DEFAULT_DISPATCH_LEASE_OWNER dispatch_job
    \<and> dispatch_ends (database dispatch_world)
        (spawnParams \<lparr>dp_taskId = ''T1'', dp_leaseId = ''L1'', dp_poolId = ''P'', dp_workerId = ''W1''\<rparr> job dispatch_context) ''J1''
        (JobStatus.COMPLETED, worker_completed, WorkerLeaseStatus.COMPLETING, TaskStatus.DEV_COMPLETE)
        (database (snd (processWorkerDispatches dispatch_envs
          (wired dispatch_envs (outside (\<lambda>_. 5000) (\<lambda>_. ''error'') quiet_answers)) (\<lambda>_ _. returnT (Some dispatch_context))
          ((0, ()), dispatch_world))))"
proof -
  let ?w = dispatch_world and ?p = "\<lparr>dp_taskId = ''T1'', dp_leaseId = ''L1'', dp_poolId = ''P'', dp_workerId = ''W1''\<rparr>"
  let ?job = "claimed_job 300000 DEFAULT_DISPATCH_LEASE_OWNER dispatch_job"
  have "fst (claimJob 300000 300001 JobType.WORKER_DISPATCH DEFAULT_DISPATCH_LEASE_OWNER (database ?w)) = Inr (Some ?job)" by code_simp
  then have claimed: "claimJob (re_now (dispatch_envs 0)) (re_leaseEventAt (dispatch_envs 0)) JobType.WORKER_DISPATCH
      DEFAULT_DISPATCH_LEASE_OWNER (database ?w)
      = (Inr (Some ?job), snd (claimJob 300000 300001 JobType.WORKER_DISPATCH DEFAULT_DISPATCH_LEASE_OWNER (database ?w)))"
    by (simp add: dispatch_envs_def prod_eq_iff)
  have payload: "readPayload (j_payloadJson ?job) = Some ?p" by code_simp
  have "ready_to_run dispatch_envs (spawnParams ?p ?job dispatch_context) 0 (database ?w)"
    using dispatch_envs_inj
    by (simp add: ready_to_run_def wf_db_def dispatch_world_def spawn_world_def spawnParams_def lease_findById_def task_findById_def)
  moreover have "dispatch_outcome (run_verdict quiet_answers)
      = (JobStatus.COMPLETED, worker_completed, WorkerLeaseStatus.COMPLETING, TaskStatus.DEV_COMPLETE)" by code_simp
  moreover have "j_jobId ?job = ''J1''" by code_simp
  ultimately show ?thesis
    using dispatch_exact[where envs = dispatch_envs and k = 0 and w = ?w and job = ?job and p = ?p and sc = dispatch_context
        and a = quiet_answers and c = "\<lambda>_. 5000" and x = "\<lambda>_. ''error''" and g = "()"
        and resolve = "\<lambda>_ _. returnT (Some dispatch_context)", OF claimed payload] by simp
qed

subsection \<open>The reconciliation\<close>

text \<open>Where a waiting task belongs.\<close>

definition settled :: "string \<Rightarrow> db \<Rightarrow> TaskStatus" where
  "settled i d = (if deps_done i d then TaskStatus.READY else TaskStatus.BLOCKED)"

lemma settled_same: "same_done w w' \<Longrightarrow> settled i (database w') = settled i (database w)"
  by (simp add: settled_def deps_done_same)

lemma reconcile_one:
  assumes wf: "wf_db (database w)" and b: "taskStatus_of i w = Some s" and ok: "valid (validateTransition s s' ctx)"
    and open_: "s \<noteq> TaskStatus.DONE" "s' \<noteq> TaskStatus.DONE"
    and fresh: "env_uuid env \<notin> set (map ae_id (auditEvents (database w)))"
  shows "\<exists>w'. tryTransitionTask env i s' ctx x w = (Inr True, w') \<and> wf_db (database w') \<and> same_done w w'
    \<and> (\<forall>j. taskStatus_of j w' = (if j = i then Some s' else taskStatus_of j w))
    \<and> map ae_id (auditEvents (database w')) = map ae_id (auditEvents (database w)) @ [env_uuid env]"
proof (rule transitionTask_cases[OF wf, of env i s' ctx AUTOMATION_ACTOR
    "triggered [(''triggeredBy'', JStr ''automation-runtime''), (''readinessStatus'', JStr x)]"], goal_cases)
  case (1 err)
  then show ?case using b ok fresh by (auto simp: taskStatus_of_def)
next
  case (2 t a w')
  from 2(5) have c: "wf_db (database w')" "ae_id a = env_uuid env"
    "database w' = (database w)\<lparr>tasks := tasks (database w'), auditEvents := auditEvents (database w) @ [a]\<rparr>"
    by (simp_all add: task_committed_def Let_def)
  have st: "taskStatus_of j w' = (if j = i then Some s' else taskStatus_of j w)" for j
    using 2(2,5) b by (simp add: task_committed_def Let_def taskStatus_of_def)
  have "taskDependencies (database w') = taskDependencies (database w)"
    "auditEvents (database w') = auditEvents (database w) @ [a]" by (subst c(3), simp)+
  then show ?case using 2(4) c(1,2) st b open_ by (auto simp: same_done_def tryTransitionTask_def)
qed

lemma reconcileLoop_exact:
  assumes "wf_db (database w)" and "distinct (map t_taskId ts)"
    and "\<forall>t \<in> set ts. taskStatus_of (t_taskId t) w = Some (t_status t) \<and> (t_status t = TaskStatus.BACKLOG \<or> t_status t = TaskStatus.BLOCKED)"
    and "inj (env_uuid \<circ> env)" and "\<forall>t \<in> set ts. env_uuid (env (t_taskId t)) \<notin> set (map ae_id (auditEvents (database w)))"
  shows "\<exists>w'. reconcileLoop env ts r b w = (Inr (r + length (filter (\<lambda>t. deps_done (t_taskId t) (database w)) ts),
        b + length (filter (\<lambda>t. \<not> deps_done (t_taskId t) (database w) \<and> t_status t = TaskStatus.BACKLOG) ts)), w')
    \<and> wf_db (database w')
    \<and> (\<forall>j. taskStatus_of j w' = (if j \<in> t_taskId ` set ts then Some (settled j (database w)) else taskStatus_of j w))"
  using assms(1-3,5)
proof (induction ts arbitrary: w r b)
  case Nil
  then show ?case by simp
next
  case (Cons t ts)
  let ?i = "t_taskId t"
  obtain row where row: "task_findById ?i (database w) = Some row" using Cons.prems(3) by (auto simp: taskStatus_of_def)
  have status: "taskStatus_of ?i w = Some (t_status t)" "t_status t = TaskStatus.BACKLOG \<or> t_status t = TaskStatus.BLOCKED"
    using Cons.prems(3) by auto
  have step: "\<exists>w1. tryTransitionTask (env ?i) ?i s' ctx x w = (Inr True, w1) \<and> (\<forall>r b. \<exists>w'.
      reconcileLoop env ts r b w1 = (Inr (r + length (filter (\<lambda>t. deps_done (t_taskId t) (database w)) ts),
        b + length (filter (\<lambda>t. \<not> deps_done (t_taskId t) (database w) \<and> t_status t = TaskStatus.BACKLOG) ts)), w')
      \<and> wf_db (database w') \<and> (\<forall>j. taskStatus_of j w' = (if j = ?i then Some s'
          else if j \<in> t_taskId ` set ts then Some (settled j (database w)) else taskStatus_of j w)))"
    if ok: "valid (validateTransition (t_status t) s' ctx)" and open_: "s' \<noteq> TaskStatus.DONE" for s' ctx x
  proof -
    obtain w1 where w1: "tryTransitionTask (env ?i) ?i s' ctx x w = (Inr True, w1)" "wf_db (database w1)" "same_done w w1"
      "\<forall>j. taskStatus_of j w1 = (if j = ?i then Some s' else taskStatus_of j w)"
      "map ae_id (auditEvents (database w1)) = map ae_id (auditEvents (database w)) @ [env_uuid (env ?i)]"
      using reconcile_one[OF Cons.prems(1) status(1) ok _ open_, of "env ?i" x] status(2) Cons.prems(4) by auto
    have new: "?i \<notin> t_taskId ` set ts" and d: "distinct (map t_taskId ts)" using Cons.prems(2) by auto
    have "env_uuid (env (t_taskId u)) \<noteq> env_uuid (env ?i)" if "u \<in> set ts" for u
      using injD[OF assms(4), of "t_taskId u" ?i] new that by (auto simp: image_iff)
    then have fresh: "\<forall>u \<in> set ts. env_uuid (env (t_taskId u)) \<notin> set (map ae_id (auditEvents (database w1)))"
      using Cons.prems(4) unfolding w1(5) by auto
    have st: "\<forall>u \<in> set ts. taskStatus_of (t_taskId u) w1 = Some (t_status u) \<and> (t_status u = TaskStatus.BACKLOG \<or> t_status u = TaskStatus.BLOCKED)"
      using Cons.prems(3) w1(4) new by (auto simp: image_iff)
    from Cons.IH[OF w1(2) d st fresh] w1(4) new have "\<exists>w'. reconcileLoop env ts r b w1
        = (Inr (r + length (filter (\<lambda>t. deps_done (t_taskId t) (database w)) ts),
        b + length (filter (\<lambda>t. \<not> deps_done (t_taskId t) (database w) \<and> t_status t = TaskStatus.BACKLOG) ts)), w')
      \<and> wf_db (database w') \<and> (\<forall>j. taskStatus_of j w' = (if j = ?i then Some s'
          else if j \<in> t_taskId ` set ts then Some (settled j (database w)) else taskStatus_of j w))" for r b
      unfolding deps_done_same[OF w1(3)] settled_same[OF w1(3)] by (metis (no_types, lifting))
    with w1(1) show ?thesis by blast
  qed
  have ready: "valid (validateTransition (t_status t) TaskStatus.READY ready_context)"
    and blocked: "t_status t = TaskStatus.BACKLOG \<Longrightarrow>
      valid (validateTransition (t_status t) TaskStatus.BLOCKED (emptyContext\<lparr>hasBlockers := Some True\<rparr>))"
    using status(2) by (auto simp: accepted_iff)
  show ?case
  proof (rule computeReadiness_cases[OF row], goal_cases)
    case 1
    obtain w1 where w1: "tryTransitionTask (env ?i) ?i TaskStatus.READY ready_context ''READY'' w = (Inr True, w1)"
      "\<forall>r b. \<exists>w'. reconcileLoop env ts r b w1 = (Inr (r + length (filter (\<lambda>t. deps_done (t_taskId t) (database w)) ts),
        b + length (filter (\<lambda>t. \<not> deps_done (t_taskId t) (database w) \<and> t_status t = TaskStatus.BACKLOG) ts)), w')
      \<and> wf_db (database w') \<and> (\<forall>j. taskStatus_of j w' = (if j = ?i then Some TaskStatus.READY
          else if j \<in> t_taskId ` set ts then Some (settled j (database w)) else taskStatus_of j w))"
      using step[OF ready, of "''READY''"] by auto
    from w1(2)[rule_format, of "r + 1" b] 1 w1(1) status(2) show ?thesis by (auto simp: settled_def)
  next
    case (2 rs)
    show ?thesis
    proof (cases "t_status t = TaskStatus.BACKLOG")
      case True
      obtain w1 where w1: "tryTransitionTask (env ?i) ?i TaskStatus.BLOCKED (emptyContext\<lparr>hasBlockers := Some True\<rparr>) ''BLOCKED'' w = (Inr True, w1)"
        "\<forall>r b. \<exists>w'. reconcileLoop env ts r b w1 = (Inr (r + length (filter (\<lambda>t. deps_done (t_taskId t) (database w)) ts),
          b + length (filter (\<lambda>t. \<not> deps_done (t_taskId t) (database w) \<and> t_status t = TaskStatus.BACKLOG) ts)), w')
        \<and> wf_db (database w') \<and> (\<forall>j. taskStatus_of j w' = (if j = ?i then Some TaskStatus.BLOCKED
            else if j \<in> t_taskId ` set ts then Some (settled j (database w)) else taskStatus_of j w))"
        using step[OF blocked[OF True], of "''BLOCKED''"] by auto
      from w1(2)[rule_format, of r "b + 1"] 2 w1(1) True show ?thesis by (auto simp: settled_def)
    next
      case False
      from Cons.IH[of w r b] Cons.prems 2 False status show ?thesis by (auto simp: settled_def)
    qed
  qed
qed

lemma distinct_map_parts:
  "distinct (map k xs) \<Longrightarrow> (\<And>x. P x \<Longrightarrow> \<not> Q x) \<Longrightarrow> distinct (map k (filter P xs @ filter Q xs))"
  by (induction xs) (auto simp: image_iff)

text \<open>
  (C24) One reconciliation settles every waiting task: each task in BACKLOG or BLOCKED is READY afterwards when all its hard
  prerequisites are done, and BLOCKED when not; no other task changes its status, and the counts are those of the
  tasks evaluated and moved.  (The keys drawn for the audit rows are new and distinct.)
\<close>

theorem reconcile_readiness_exact:
  assumes "wf_db (database w)" and "inj (env_uuid \<circ> env)"
    and "range (env_uuid \<circ> env) \<inter> set (map ae_id (auditEvents (database w))) = {}"
  shows "\<exists>r w'. reconcileTaskReadiness env w = (Inr r, w') \<and> wf_db (database w')
    \<and> (\<forall>i. taskStatus_of i w' =
        (if taskStatus_of i w = Some TaskStatus.BACKLOG \<or> taskStatus_of i w = Some TaskStatus.BLOCKED
         then Some (settled i (database w)) else taskStatus_of i w))
    \<and> rk_evaluatedCount r = length (task_findByStatus TaskStatus.BACKLOG (database w)) + length (task_findByStatus TaskStatus.BLOCKED (database w))
    \<and> rk_transitionedToReady r = length (filter (\<lambda>t. deps_done (t_taskId t) (database w))
        (task_findByStatus TaskStatus.BACKLOG (database w) @ task_findByStatus TaskStatus.BLOCKED (database w)))
    \<and> rk_transitionedToBlocked r = length (filter (\<lambda>t. \<not> deps_done (t_taskId t) (database w)) (task_findByStatus TaskStatus.BACKLOG (database w)))"
proof -
  let ?d = "database w"
  let ?ts = "task_findByStatus TaskStatus.BACKLOG ?d @ task_findByStatus TaskStatus.BLOCKED ?d"
  have ids: "distinct (map t_taskId (tasks ?d))" using assms(1) by (simp add: wf_db_def)
  have d: "distinct (map t_taskId ?ts)"
    unfolding task_findByStatus_def by (rule distinct_map_parts[OF ids]) simp
  have find: "taskStatus_of (t_taskId t) w = Some (t_status t)" if "t \<in> set (tasks ?d)" for t
    using find_key_Some[OF ids that] by (simp add: taskStatus_of_def task_findById_def)
  have st: "\<forall>t \<in> set ?ts. taskStatus_of (t_taskId t) w = Some (t_status t) \<and> (t_status t = TaskStatus.BACKLOG \<or> t_status t = TaskStatus.BLOCKED)"
    using find by (auto simp: task_findByStatus_def)
  have mem: "i \<in> t_taskId ` set ?ts \<longleftrightarrow> taskStatus_of i w = Some TaskStatus.BACKLOG \<or> taskStatus_of i w = Some TaskStatus.BLOCKED" for i
  proof
    assume "i \<in> t_taskId ` set ?ts"
    then show "taskStatus_of i w = Some TaskStatus.BACKLOG \<or> taskStatus_of i w = Some TaskStatus.BLOCKED" using st by auto
  next
    assume waits: "taskStatus_of i w = Some TaskStatus.BACKLOG \<or> taskStatus_of i w = Some TaskStatus.BLOCKED"
    then obtain t where "task_findById i ?d = Some t" "t_status t = TaskStatus.BACKLOG \<or> t_status t = TaskStatus.BLOCKED"
      by (auto simp: taskStatus_of_def)
    then show "i \<in> t_taskId ` set ?ts" by (auto simp: task_findByStatus_def task_findById_def dest!: find_Some_iff_mem)
  qed
  have fresh: "\<forall>t \<in> set ?ts. env_uuid (env (t_taskId t)) \<notin> set (map ae_id (auditEvents ?d))" using assms(3) by auto
  have blocked: "filter (\<lambda>t. \<not> deps_done (t_taskId t) ?d \<and> t_status t = TaskStatus.BACKLOG) ?ts
      = filter (\<lambda>t. \<not> deps_done (t_taskId t) ?d) (task_findByStatus TaskStatus.BACKLOG ?d)"
    by (auto simp: task_findByStatus_def filter_empty_conv intro!: filter_cong)
  obtain w' where "reconcileLoop env ?ts 0 0 w = (Inr (length (filter (\<lambda>t. deps_done (t_taskId t) ?d) ?ts),
      length (filter (\<lambda>t. \<not> deps_done (t_taskId t) ?d) (task_findByStatus TaskStatus.BACKLOG ?d))), w')"
    "wf_db (database w')" "\<forall>j. taskStatus_of j w' = (if j \<in> t_taskId ` set ?ts then Some (settled j ?d) else taskStatus_of j w)"
    using reconcileLoop_exact[OF assms(1) d st assms(2) fresh, of 0 0] unfolding blocked by auto
  then show ?thesis unfolding mem by (simp add: reconcileTaskReadiness_def Let_def)
qed

theorem reconcile_readiness_exact_witness:
  "\<exists>r w'. reconcileTaskReadiness unblock_env unblock_world = (Inr r, w')
     \<and> taskStatus_of ''B'' w' = Some TaskStatus.READY \<and> taskStatus_of ''A'' w' = Some TaskStatus.BLOCKED"
proof -
  have w: "wf_db (database unblock_world)" "map ae_id (auditEvents (database unblock_world)) = []"
    by (simp_all add: unblock_world_def diamond_def Let_def wf_db_def)
  have "inj (env_uuid \<circ> unblock_env)" by (auto simp: inj_def unblock_env_def)
  moreover have "taskStatus_of ''B'' unblock_world = Some TaskStatus.BLOCKED" "taskStatus_of ''A'' unblock_world = Some TaskStatus.BLOCKED"
    "settled ''B'' (database unblock_world) = TaskStatus.READY" "settled ''A'' (database unblock_world) = TaskStatus.BLOCKED"
    by (simp_all add: unblock_world_def diamond_def Let_def hard_edges_def taskStatus_of_def task_findById_def settled_def
        deps_done_def prerequisite_done_def)
  ultimately show ?thesis using reconcile_readiness_exact[OF w(1), of unblock_env] w(2) by auto
qed

end
