(* ===== verification/Spec2Isabelle.thy ===== *)
theory Spec2Isabelle
  imports ValidationPolicy CommandPolicy FileScopePolicy ReviewRouter OptimisticRetry Sweep Config MergeQueue
    OutputValidator ReviewDecision ValidationRunner PostMerge
    Automation
begin

text \<open>
  \<^bold>\<open>Copilot Factory: the control plane's decisions and its shared state.\<close>

  The program (\<open>src/\<close>) is a control plane that plans software tasks, leases them to workers, reviews
  and merges what the workers produce.  Its own logic has three layers.  The domain package
  (\<open>packages/domain\<close>) holds pure decisions: four state machines and the policies.  The application
  package (\<open>packages/application\<close>) holds services that read and write the database inside
  transactions and emit events; they see the database through ports.  The control plane
  (\<open>apps/control-plane\<close>) implements the ports over SQLite.  The development follows these layers;
  every definition keeps the name of what it models, with a prefix where field names would clash.

  \<^bold>\<open>Foundations.\<close>
  \<^item> \<open>Prelude\<close>: collections of rules, rows selected by key, JavaScript objects as dictionaries, strings.
  \<^item> \<open>Enums\<close>: the enumerations of \<open>enums.ts\<close> with their wire values.
  \<^item> \<open>Store\<close>: the tables as lists of rows, the errors and events, and transactions as functions
    \<open>db \<Rightarrow> (error + result) \<times> db\<close>; \<open>writeTransaction\<close> rolls back on an error and \<open>commit\<close> emits events
    after a success.  \<open>wf_db\<close> states the keys of the schema.
  \<^item> \<open>Ports\<close>: the contract of an update under optimistic concurrency as the locale \<open>entity_port\<close>,
    interpreted for the adapters of tasks, leases, review cycles and merge queue items
    (\<open>repository-adapters.ts\<close>).

  \<^bold>\<open>State machines.\<close>  \<open>GuardedMachine\<close> is the common shape of a map from pairs of states to guards, as a
  locale; \<open>TaskSM\<close>, \<open>LeaseSM\<close>, \<open>ReviewSM\<close> and \<open>MergeSM\<close> (\<open>state-machines/*.ts\<close>) interpret it on
  the machines of the source.  The lemmas say which runs exist: what evidence a finished task, a merged
  item, an approved cycle and a reclaimed lease have behind them, that terminal states are final, and that
  the public functions of a machine describe the same relation.

  \<^bold>\<open>Policies.\<close>  \<open>RetryPolicy\<close>, \<open>EscalationPolicy\<close>, \<open>ValidationPolicy\<close>, \<open>CommandPolicy\<close>,
  \<open>FileScopePolicy\<close> (\<open>policies/*.ts\<close>, with the defaults of \<open>packages/config\<close>), \<open>ConflictPolicy\<close>
  (\<open>conflict-priority.ts\<close>, \<open>workspace-cleanup-policy.ts\<close>): each decision is characterised exactly, errors
  and defaults included.  \<open>CommandPolicy\<close> follows \<open>globMatch\<close> literally: the pattern is escaped, its stars are
  replaced, and the text so obtained is parsed and run as a regular expression, which decides the language
  of the glob.  \<open>Config\<close> (\<open>packages/config/src/resolver.ts\<close>) resolves the eight policies from layers of
  overrides: each field has the last value given to it that is not null, and as recorded source the last
  layer that sets it, null included; resolved policies have exactly their declared fields, of the types and
  bounds that \<open>packages/schemas/src/policy-snapshot.ts\<close> declares.

  \<^bold>\<open>Services.\<close>  One theory per service of \<open>packages/application/src/services\<close>, together with the unit of
  work of \<open>application-adapters.ts\<close> and the repositories it uses.
  \<^item> \<open>Transition\<close>: the four transitions; they commit status, version, audit row and event together or
    change nothing, and the history of a task is a run of its machine.
  \<^item> \<open>Lease\<close>, \<open>Heartbeat\<close>, \<open>Reclaim\<close>, \<open>Completion\<close>: the life of a lease.  \<open>LeaseProtocol\<close> interleaves
    them with the transitions and the operator actions as a step relation: no task ever has two active leases, every history is
    a run of the lease machine, and a completed lease blocks its task.
  \<^item> \<open>Dependency\<close>, \<open>Readiness\<close>: the dependency graph stays acyclic, readiness is exact, and completing
    a task frees exactly the dependents that have become ready.
  \<^item> \<open>JobQueue\<close>: claiming takes the oldest eligible job; in any interleaving a job is claimed at most once,
    is never lost and never leaves a final status.
  \<^item> \<open>Scheduler\<close>, \<open>SchedulerTick\<close>: an assignment follows priority, age and free slots among the
    candidates, the first READY tasks up to the limit of the call; the scheduling loop returns and keeps exclusivity and the capacity of the pools; ticks replace one another,
    and a failing tick stops the chain.
  \<^item> \<open>Sweep\<close>: the reconciliation sweep, composed of six other services, repairs exactly the stale
    leases that can be reclaimed, changing no other row, and renews itself in spite of errors.
  \<^item> \<open>OperatorActions\<close> (\<open>apps/control-plane/src/operator-actions\<close>): the eleven actions of an operator and
    their guards, each exact on every branch; a finished task stays so until it is reopened.
  \<^item> \<open>MergeQueue\<close>: entering and leaving the merge queue under the documented ordering contract of its
    port, the locale \<open>merge_queue_port\<close>; its only implementation in the repository, in memory, keeps the
    contract.  An operator's override of the merge order has no effect on it.
  \<^item> \<open>MergeExecutor\<close>: the merge of a queue item through its phases, between which git, the merge gate and
    anybody else may change the database.  It pushes only what was merged and validated; undisturbed, its
    end is a table of outcomes; its last transaction overrules whoever moved the task meanwhile.  The
    locale \<open>merge_item_port\<close> is the contract of the update of an item.
  \<^item> \<open>PostMerge\<close>: the gate after the merge and what follows from its verdict, exact for every severity of a
    failure; \<open>follow_up_creation\<close> is the contract of the creation of a follow-up task.
  \<^item> \<open>Supervisor\<close>: the run of one worker, from its row to the end of its process.  Whatever happens meanwhile,
    heartbeats, finalization, the closing of the lease and its reclaim keep their protocol, for runs that
    return and for those that throw.  \<open>Async\<close> is the
    sequencing of calls between which anything may happen, with a calculus for the calls a computation makes.
  \<^item> \<open>Automation\<close> (\<open>apps/control-plane/src/automation\<close>, \<open>worker-dispatch.service.ts\<close>): the services wired
    together.  An undisturbed dispatch, through six services, leaves exactly the states of a table of outcomes of the run,
    and one reconciliation of readiness settles every waiting task.
  \<^item> \<open>OptimisticRetry\<close>: retries after a conflict are bounded.
  \<^item> \<open>ReviewRouter\<close>: who reviews a change, and which merge conflicts are sent back.
  \<^item> \<open>ReviewDispatch\<close>: opening a review cycle with its jobs and starting the consolidation, each exact; the
    lead's job is claimable only after the jobs of the reviewers.
  \<^item> \<open>ReviewDecision\<close>: the lead's decision applied to cycle and task, exact on every branch, with the limit
    on review rounds; the locale \<open>follow_up_port\<close> is the contract of the creation of follow-up tasks.
  \<^item> \<open>CommandWrapper\<close> (\<open>packages/infrastructure/src/policy/command-wrapper.ts\<close>, \<open>validation/check-executor.ts\<close>) and
    \<open>ValidationRunner\<close>: commands run under the command policy, the checks of a profile with their verdict, the
    gate before two transitions, and the packet of a run, which always satisfies its own schema.

  \<^bold>\<open>Packets.\<close>  \<open>Zod\<close> has schemas as values, the laws of Zod the code relies on as the locale
  \<open>zod_library\<close>, and a checker that keeps them.  \<open>Schemas\<close> (\<open>packages/schemas/src\<close>) has the schemas of
  all packets, the rules between their fields, and the versions, whose components are the doubles that
  \<open>Number\<close> makes of their digits.  \<open>OutputValidator\<close> decides whether the
  output of a worker is accepted, with extraction, repair, identity checks and the count of failures, over
  a failure tracker with the contract \<open>failure_tracker\<close>; acceptance is an equivalence, and each rejection
  has the reason of the first check that fails.

  \<^bold>\<open>Conventions.\<close>  Dates are integers, milliseconds in the code and whole seconds in the tables, as
  SQLite's timestamp columns store them.  Numbers of the source are counters and times far below the
  range where IEEE doubles lose integers, so they are unbounded; the components of a schema version, which
  come from outside with any number of digits, are doubles.  Whatever the code draws from outside,
  clock readings, generated ids and random UUIDs, is an argument; theorems hold for every value, and a
  clash of a generated key is an error branch.  Libraries that are not part of the repository
  (\<open>picomatch\<close>, Zod, the \<open>RegExp\<close> constructor, \<open>JSON.parse\<close>) and ports without an adapter (the queries
  of the sweep, the merge queue, follow-up tasks, the failure tracker) are arguments too.

  \<^bold>\<open>Loops.\<close>  Loops over lists are structural recursion.  The depth-first search of the dependency graph
  is proved to end by the number of unvisited tasks, the retry loop by its counter.  The loop of a tick,
  which the code does not bound, is a partial function whose missing value means divergence; it is proved
  to return, since each round takes a task out of \<open>READY\<close>.  No definition uses fuel.

  \<^bold>\<open>Not modelled.\<close>  The markdown importer, the packets assembled for agents, and the recovery of files after a
  crash are candidates to come.  Of the automation the timer, the set of running dispatches and the resolution of the
  spawn context are left out.  Left out for good: the web UI, the CLI, REST controllers, dependency
  injection, git, file system and child processes, logging, tracing and metrics, which
  hold I/O and presentation rather than decisions.
\<close>

end
